(* ===== verification/Prelude.thy ===== *)
theory Prelude
  imports Main "HOL-Library.Word"
begin

text \<open>
  Shared vocabulary of the development: the machine integers of the C++ sources under the
  names of \<open>cstdint\<close>, the little-endian byte order of CAN payloads, bounds-checked array
  access (\<open>None\<close> is the undefined behaviour of an out-of-range access), and the lemma
  collections the component theories add to:
  \<^item> \<open>board_simps\<close>: unfolding rules of the output-board layer,
  \<^item> \<open>frame_rules\<close>: which operation leaves which part of a state unchanged.
\<close>

unbundle bit_operations_syntax

type_synonym u8 = "8 word"
type_synonym u16 = "16 word"
type_synonym u32 = "32 word"
type_synonym u64 = "64 word"

named_theorems board_simps
named_theorems frame_rules

section \<open>Words\<close>

text \<open>A widening cast keeps the value; a narrowing cast drops the high bits.\<close>

lemma unat_ucast_le: "unat (ucast (x :: 'a::len word) :: 'b::len word) \<le> unat x"
  by (simp add: unsigned_ucast_eq)

lemma unat_u8_bound [simp]: "unat (x :: u8) < 256"
  by (rule order_less_le_trans [OF unsigned_less]) simp

lemma unat_u16_bound [simp]: "unat (x :: u16) < 65536"
  by (rule order_less_le_trans [OF unsigned_less]) simp

lemma unat_ucast_u8_u32 [simp]: "unat (ucast (x :: u8) :: u32) = unat x"
  by (simp add: unsigned_ucast_eq take_bit_nat_eq_self order_less_trans [OF unat_u8_bound])

lemma unat_ucast_u8_u16 [simp]: "unat (ucast (x :: u8) :: u16) = unat x"
  by (simp add: unsigned_ucast_eq take_bit_nat_eq_self order_less_trans [OF unat_u8_bound])

lemma unat_ucast_u16_u32 [simp]: "unat (ucast (x :: u16) :: u32) = unat x"
  by (simp add: unsigned_ucast_eq take_bit_nat_eq_self order_less_trans [OF unat_u16_bound])

lemma unat_of_nat_u8: "n < 256 \<Longrightarrow> unat (of_nat n :: u8) = n"
  by (simp add: unat_of_nat)

lemma unat_of_nat_u16: "n < 65536 \<Longrightarrow> unat (of_nat n :: u16) = n"
  by (simp add: unat_of_nat)

lemma unat_of_nat_u32: "n < 4294967296 \<Longrightarrow> unat (of_nat n :: u32) = n"
  by (simp add: unat_of_nat)

lemma unat_narrow_u8: "unat (ucast (x :: 'a::len word) :: u8) = unat x mod 256"
  by (simp add: unsigned_ucast_eq take_bit_nat_def)

lemma ucast_u8_u32_u8 [simp]: "(ucast (ucast (x :: u8) :: u32) :: u8) = x"
  by (simp add: word_unat_eq_iff unat_narrow_u8)

lemma ucast_u8_u16_u8 [simp]: "(ucast (ucast (x :: u8) :: u16) :: u8) = x"
  by (simp add: word_unat_eq_iff unat_narrow_u8)

lemma take_bit_word_eq_iff: "take_bit m (x :: 'a::len word) = x \<longleftrightarrow> unat x < 2 ^ m"
  by (simp add: word_unat_eq_iff unsigned_take_bit_eq take_bit_nat_eq_self_iff)

text \<open>Elapsed time on the wrapping 32-bit millisecond clock.\<close>

lemma elapsed_wraps: "unat ((a + d) - (a :: u32)) = unat d"
  by simp

section \<open>Bytes of a little-endian integer\<close>

definition byte_of :: "nat \<Rightarrow> 'a::len word \<Rightarrow> u8" where
  "byte_of i x = ucast (drop_bit (8 * i) x)"

definition le_bytes :: "nat \<Rightarrow> 'a::len word \<Rightarrow> u8 list" where
  "le_bytes n x = map (\<lambda>i. byte_of i x) [0..<n]"

lemma length_le_bytes [simp]: "length (le_bytes n x) = n"
  by (simp add: le_bytes_def)

lemma nth_le_bytes [simp]: "i < n \<Longrightarrow> le_bytes n x ! i = byte_of i x"
  by (simp add: le_bytes_def)

lemma bit_byte_of: "bit (byte_of i x) k \<longleftrightarrow> k < 8 \<and> bit x (8 * i + k)"
  by (auto simp: byte_of_def bit_ucast_iff bit_drop_bit_eq dest: bit_imp_le_length)

section \<open>Bounds-checked array access\<close>

definition checked_nth :: "'a list \<Rightarrow> nat \<Rightarrow> 'a option" where
  "checked_nth xs i = (if i < length xs then Some (xs ! i) else None)"

definition checked_write :: "nat \<Rightarrow> 'a list \<Rightarrow> 'a list \<Rightarrow> 'a list option" where
  \<comment> \<open>\<open>memcpy(&xs[off], ys, size)\<close>\<close>
  "checked_write off ys xs =
     (if off + length ys \<le> length xs
      then Some (take off xs @ ys @ drop (off + length ys) xs) else None)"

lemma checked_write_SomeD:
  "checked_write off ys xs = Some zs \<Longrightarrow> length zs = length xs"
  by (auto simp: checked_write_def split: if_splits)

lemma checked_write_take:
  "checked_write off ys xs = Some zs \<Longrightarrow> take (off + length ys) zs = take off xs @ ys"
  by (auto simp: checked_write_def split: if_splits)

lemma checked_write_total [simp]:
  "off + length ys \<le> length xs \<Longrightarrow> \<exists>zs. checked_write off ys xs = Some zs"
  by (simp add: checked_write_def)

end
