(* ===== verification/Output_Board.thy ===== *)
theory Output_Board
  imports Prelude
begin

text \<open>
  The relay board of the planter controller: \<open>examples/1200PT/src/mcp23017_output.cpp\<close> and
  the headers \<open>mcp23017_output.h\<close> and \<open>mcp23017_output_safety.h\<close>. Two MCP23017 port
  expanders on one I2C bus drive the eighteen solenoids; a mutex guards the bus and a
  latched health flag records every missing chip and every failed write.

  The ESP-IDF calls (I2C driver, FreeRTOS semaphores) are not code of the repository: their
  results are an input, the stream \<open>replies\<close>, of which each call consumes one element.
  \<open>bus_log\<close> is the sequence of register writes the chips have latched; an acknowledged
  transaction latches its byte, a failed one may or may not have.
\<close>

section \<open>Error codes and replies of the ESP-IDF\<close>

datatype esp_err = ESP_OK | ESP_FAIL | ESP_ERR_NO_MEM | ESP_ERR_INVALID_STATE | ESP_ERR_OTHER int

record idf_reply =
  rp_code :: esp_err      \<comment> \<open>result of an \<open>esp_err_t\<close> call\<close>
  rp_ok :: bool           \<comment> \<open>a handle was returned, a semaphore was taken\<close>
  rp_latched :: bool      \<comment> \<open>the chip latched the byte although the transaction failed\<close>

datatype bus_mutex = NoMutex | MutexFree | MutexHeld

type_synonym reg_write = "u8 \<times> u8 \<times> u8"

record board =
  replies :: "nat \<Rightarrow> idf_reply"
  reply_pos :: nat
  outputBusMutex :: bus_mutex
  self_deadlock :: bool        \<comment> \<open>a task waited for the mutex it already holds\<close>
  boardFound0 :: bool
  boardFound1 :: bool
  faulted :: bool
  activeLow :: bool            \<comment> \<open>the build option \<open>RELAY_ACTIVE_LOW\<close>\<close>
  bus_log :: "reg_write list"

section \<open>Health of the output board\<close>

definition relay_output_byte :: "u8 \<Rightarrow> bool \<Rightarrow> u8" where
  "relay_output_byte logicalOutputs low = (if low then NOT logicalOutputs else logicalOutputs)"

definition record_write_failure :: "board \<Rightarrow> board" where
  "record_write_failure b = b\<lparr>faulted := True\<rparr>"

definition record_write :: "bool \<Rightarrow> board \<Rightarrow> board" where
  "record_write succeeded b = (if \<not> succeeded then record_write_failure b else b)"

definition record_probe :: "nat \<Rightarrow> bool \<Rightarrow> board \<Rightarrow> board" where
  "record_probe boardIndex found b =
     (if 2 \<le> boardIndex then b
      else
        let b1 = (if boardIndex = 0 then b\<lparr>boardFound0 := found\<rparr> else b\<lparr>boardFound1 := found\<rparr>)
        in if \<not> found then b1\<lparr>faulted := True\<rparr> else b1)"

definition board_found :: "nat \<Rightarrow> board \<Rightarrow> bool" where
  "board_found boardIndex b \<longleftrightarrow>
     boardIndex < 2 \<and> (if boardIndex = 0 then boardFound0 b else boardFound1 b)"

definition has_fault :: "board \<Rightarrow> bool" where
  "has_fault b = faulted b"

section \<open>The bus lock and the register transactions\<close>

definition idf_next :: "board \<Rightarrow> idf_reply \<times> board" where
  "idf_next b = (replies b (reply_pos b), b\<lparr>reply_pos := Suc (reply_pos b)\<rparr>)"

definition idf_call :: "esp_err \<times> board \<Rightarrow> esp_err \<times> board" where
  \<comment> \<open>\<open>if (ESP_OK == result) result = call(...);\<close>\<close>
  "idf_call rb = (if fst rb = ESP_OK
     then (let (r, b) = idf_next (snd rb) in (rp_code r, b)) else rb)"

definition check_command_result :: "esp_err \<Rightarrow> board \<Rightarrow> esp_err \<times> board" where
  "check_command_result result b =
     (if result \<noteq> ESP_OK then (result, record_write_failure b) else (result, b))"

definition mcp23017_output_init :: "board \<Rightarrow> board" where
  "mcp23017_output_init b =
     (if outputBusMutex b = NoMutex
      then (let (r, b1) = idf_next b
            in if rp_ok r then b1\<lparr>outputBusMutex := MutexFree\<rparr> else record_write_failure b1)
      else b)"

definition output_lock :: "board \<Rightarrow> bool \<times> board" where
  \<comment> \<open>constructor of \<open>MCP23017OutputLock\<close>: waits without timeout, so a task that already
    holds the mutex never returns\<close>
  "output_lock b =
     (case outputBusMutex b of
        NoMutex \<Rightarrow> (False, record_write_failure b)
      | MutexHeld \<Rightarrow> (False, b\<lparr>self_deadlock := True\<rparr>)
      | MutexFree \<Rightarrow>
          (let (r, b1) = idf_next b
           in if rp_ok r then (True, b1\<lparr>outputBusMutex := MutexHeld\<rparr>)
              else (False, record_write_failure b1)))"

definition output_unlock :: "bool \<Rightarrow> board \<Rightarrow> board" where
  "output_unlock locked b = (if locked then b\<lparr>outputBusMutex := MutexFree\<rparr> else b)"

definition mcp23017_read_register :: "u8 \<Rightarrow> u8 \<Rightarrow> board \<Rightarrow> esp_err \<times> board" where
  \<comment> \<open>the byte read is used by no caller; the result code is\<close>
  "mcp23017_read_register address reg b =
     (if outputBusMutex b = NoMutex then (ESP_ERR_INVALID_STATE, b)
      else
        let (locked, b1) = output_lock b
        in if \<not> locked then (ESP_ERR_INVALID_STATE, b1)
           else
             let (h, b2) = idf_next b1
             in if \<not> rp_ok h then (ESP_ERR_NO_MEM, output_unlock locked b2)
                else
                  let (result, b3) = (idf_call ^^ 8) (ESP_OK, b2)
                  in (result, output_unlock locked b3))"

definition i2c_begin_write :: "u8 \<Rightarrow> u8 \<Rightarrow> u8 \<Rightarrow> esp_err \<times> board \<Rightarrow> esp_err \<times> board" where
  \<comment> \<open>\<open>i2c_master_cmd_begin\<close> on a queued write of one register\<close>
  "i2c_begin_write address reg value rb =
     (if fst rb = ESP_OK
      then (let (r, b) = idf_next (snd rb)
            in (rp_code r,
                if rp_code r = ESP_OK \<or> rp_latched r
                then b\<lparr>bus_log := bus_log b @ [(address, reg, value)]\<rparr> else b))
      else rb)"

definition mcp23017_write_register_locked ::
    "u8 \<Rightarrow> u8 \<Rightarrow> u8 \<Rightarrow> board \<Rightarrow> esp_err \<times> board" where
  "mcp23017_write_register_locked address reg value b =
     (if outputBusMutex b = NoMutex then check_command_result ESP_ERR_INVALID_STATE b
      else
        let (h, b1) = idf_next b
        in if \<not> rp_ok h then check_command_result ESP_ERR_NO_MEM b1
           else
             let (result, b2) = i2c_begin_write address reg value ((idf_call ^^ 5) (ESP_OK, b1))
             in check_command_result result b2)"

section \<open>What the calls leave unchanged\<close>

text \<open>
  Everything the driver calls may touch is the reply position, the fault flag and the log;
  \<open>same_wiring\<close> collects the rest.
\<close>

definition same_wiring :: "board \<Rightarrow> board \<Rightarrow> bool" where
  "same_wiring b b' \<longleftrightarrow> replies b' = replies b \<and> outputBusMutex b' = outputBusMutex b
     \<and> self_deadlock b' = self_deadlock b \<and> boardFound0 b' = boardFound0 b
     \<and> boardFound1 b' = boardFound1 b \<and> activeLow b' = activeLow b"

lemma same_wiring_refl [simp, intro]: "same_wiring b b"
  by (simp add: same_wiring_def)

lemma same_wiring_trans [trans]: "same_wiring a b \<Longrightarrow> same_wiring b c \<Longrightarrow> same_wiring a c"
  by (simp add: same_wiring_def)

definition quiet :: "board \<Rightarrow> board \<Rightarrow> bool" where
  \<comment> \<open>only replies were consumed\<close>
  "quiet b b' \<longleftrightarrow> same_wiring b b' \<and> faulted b' = faulted b \<and> bus_log b' = bus_log b"

lemma quiet_refl [simp, intro]: "quiet b b"
  by (simp add: quiet_def)

lemma quiet_trans: "quiet a b \<Longrightarrow> quiet b c \<Longrightarrow> quiet a c"
  by (auto simp: quiet_def same_wiring_def)

lemma quiet_idf_next: "idf_next b = (r, b') \<Longrightarrow> quiet b b'"
  by (auto simp: idf_next_def quiet_def same_wiring_def)

lemma quiet_idf_call: "quiet (snd rb) (snd (idf_call rb))"
  by (auto simp: idf_call_def idf_next_def quiet_def same_wiring_def)

lemma quiet_idf_calls: "quiet (snd rb) (snd ((idf_call ^^ n) rb))"
proof (induction n)
  case 0
  then show ?case by simp
next
  case (Suc n)
  then show ?case using quiet_trans [OF _ quiet_idf_call] by simp
qed

lemma same_wiring_record_write_failure [simp]: "same_wiring b (record_write_failure b)"
  by (simp add: same_wiring_def record_write_failure_def)

lemma same_wiring_check [simp]: "same_wiring b (snd (check_command_result e b))"
  by (simp add: check_command_result_def)

section \<open>The contract of a register write\<close>

text \<open>
  The clients of the board (fold sequence, plant control) only rely on what
  \<open>register_bus\<close> promises: a write that returns \<open>ESP_OK\<close> has latched exactly its byte
  and reports no new fault; any other result raises the fault flag, latches at most that
  byte, and leaves the lock alone.
\<close>

locale register_bus =
  fixes wr :: "u8 \<Rightarrow> u8 \<Rightarrow> u8 \<Rightarrow> 'b \<Rightarrow> esp_err \<times> 'b"
    and latched :: "'b \<Rightarrow> reg_write list"
    and fault :: "'b \<Rightarrow> bool"
    and wiring :: "'b \<Rightarrow> 'b \<Rightarrow> bool"
  assumes write_ok: "wr a r v b = (ESP_OK, b') \<Longrightarrow>
        latched b' = latched b @ [(a, r, v)] \<and> fault b' = fault b"
    and write_err: "wr a r v b = (e, b') \<Longrightarrow> e \<noteq> ESP_OK \<Longrightarrow>
        fault b' \<and> (latched b' = latched b \<or> latched b' = latched b @ [(a, r, v)])"
    and write_wiring: "wr a r v b = (e, b') \<Longrightarrow> wiring b b'"
    and wiring_refl: "wiring b b"
    and wiring_trans: "wiring b b' \<Longrightarrow> wiring b' b'' \<Longrightarrow> wiring b b''"

text \<open>The two ways the sources write a group of registers: stop at the first failure, or
  write all of them and keep the first error.\<close>

fun write_until_fail ::
    "(u8 \<Rightarrow> u8 \<Rightarrow> u8 \<Rightarrow> 'b \<Rightarrow> esp_err \<times> 'b) \<Rightarrow> reg_write list \<Rightarrow> 'b \<Rightarrow> esp_err \<times> 'b" where
  "write_until_fail wr [] b = (ESP_OK, b)"
| "write_until_fail wr ((a, r, v) # ws) b =
     (let (e, b1) = wr a r v b in if e \<noteq> ESP_OK then (e, b1) else write_until_fail wr ws b1)"

fun write_each ::
    "(u8 \<Rightarrow> u8 \<Rightarrow> u8 \<Rightarrow> 'b \<Rightarrow> esp_err \<times> 'b) \<Rightarrow> reg_write list \<Rightarrow> esp_err \<Rightarrow> 'b \<Rightarrow> esp_err \<times> 'b" where
  "write_each wr [] result b = (result, b)"
| "write_each wr ((a, r, v) # ws) result b =
     (let (e, b1) = wr a r v b
      in write_each wr ws (if e \<noteq> ESP_OK \<and> result = ESP_OK then e else result) b1)"

context register_bus begin

lemma until_fail_ok:
  "write_until_fail wr ws b = (ESP_OK, b') \<Longrightarrow> latched b' = latched b @ ws \<and> fault b' = fault b"
proof (induction ws arbitrary: b)
  case Nil
  then show ?case by simp
next
  case (Cons w ws)
  then show ?case
    by (cases w) (auto split: prod.splits if_splits dest: write_ok)
qed

lemma until_fail_err:
  "write_until_fail wr ws b = (e, b') \<Longrightarrow> e \<noteq> ESP_OK \<Longrightarrow> fault b'"
proof (induction ws arbitrary: b)
  case Nil
  then show ?case by simp
next
  case (Cons w ws)
  then show ?case
    by (cases w) (auto split: prod.splits if_splits dest: write_err)
qed

lemma until_fail_wiring: "write_until_fail wr ws b = (e, b') \<Longrightarrow> wiring b b'"
proof (induction ws arbitrary: b)
  case Nil
  then show ?case by (simp add: wiring_refl)
next
  case (Cons w ws)
  then show ?case
    by (cases w) (auto split: prod.splits if_splits dest: write_wiring intro: wiring_trans)
qed

text \<open>Whatever happens, what is latched beyond the old log is part of the requested group.\<close>

lemma until_fail_latched:
  "write_until_fail wr ws b = (e, b') \<Longrightarrow> \<exists>k. k \<le> length ws \<and> latched b' = latched b @ take k ws"
proof (induction ws arbitrary: b)
  case Nil
  then show ?case by simp
next
  case (Cons w ws)
  obtain a r v where w: "w = (a, r, v)" by (cases w)
  obtain e1 b1 where e1: "wr a r v b = (e1, b1)" by fastforce
  show ?case
  proof (cases "e1 = ESP_OK")
    case True
    with Cons.prems w e1 have "write_until_fail wr ws b1 = (e, b')" by simp
    from Cons.IH [OF this] obtain k where "k \<le> length ws" "latched b' = latched b1 @ take k ws"
      by blast
    with True e1 w show ?thesis
      by (intro exI [of _ "Suc k"]) (auto dest: write_ok)
  next
    case False
    with Cons.prems w e1 have b': "b1 = b'" by simp
    from write_err [OF e1 False] consider "latched b1 = latched b"
      | "latched b1 = latched b @ [(a, r, v)]" by blast
    then show ?thesis
    proof cases
      case 1
      with b' show ?thesis by (intro exI [of _ 0]) simp
    next
      case 2
      with b' w show ?thesis by (intro exI [of _ 1]) simp
    qed
  qed
qed

lemma each_fault_mono: "fault b \<Longrightarrow> write_each wr ws res b = (e, b') \<Longrightarrow> fault b'"
proof (induction ws arbitrary: b res)
  case Nil
  then show ?case by simp
next
  case (Cons w ws)
  obtain a r v where w: "w = (a, r, v)" by (cases w)
  obtain e1 b1 where e1: "wr a r v b = (e1, b1)" by fastforce
  have "fault b1"
    using write_ok [of a r v b b1] write_err [OF e1] e1 Cons.prems(1) by (cases "e1 = ESP_OK") auto
  with Cons w e1 show ?case by simp
qed

lemma each_keeps_first_error: "res \<noteq> ESP_OK \<Longrightarrow> write_each wr ws res b = (e, b') \<Longrightarrow> e = res"
  by (induction ws arbitrary: b) (auto split: prod.splits)

lemma each_ok:
  "write_each wr ws res b = (ESP_OK, b') \<Longrightarrow> latched b' = latched b @ ws \<and> fault b' = fault b"
proof (induction ws arbitrary: b res)
  case Nil
  then show ?case by simp
next
  case (Cons w ws)
  obtain a r v where w: "w = (a, r, v)" by (cases w)
  obtain e1 b1 where e1: "wr a r v b = (e1, b1)" by fastforce
  let ?res = "if e1 \<noteq> ESP_OK \<and> res = ESP_OK then e1 else res"
  have "write_each wr ws ?res b1 = (ESP_OK, b')"
    using Cons.prems w e1 by simp
  then have "?res = ESP_OK"
    using each_keeps_first_error [of ?res ws b1 ESP_OK b'] by metis
  then have "res = ESP_OK" and "e1 = ESP_OK"
    by (auto split: if_splits)
  then have "write_each wr ws ESP_OK b1 = (ESP_OK, b')"
    using Cons.prems w e1 by simp
  from Cons.IH [OF this] write_ok [of a r v b b1] e1 \<open>e1 = ESP_OK\<close> w show ?case by simp
qed

lemma each_err:
  "write_each wr ws ESP_OK b = (e, b') \<Longrightarrow> e \<noteq> ESP_OK \<Longrightarrow> fault b'"
proof (induction ws arbitrary: b)
  case Nil
  then show ?case by simp
next
  case (Cons w ws)
  obtain a r v where w: "w = (a, r, v)" by (cases w)
  obtain e1 b1 where e1: "wr a r v b = (e1, b1)" by fastforce
  show ?case
  proof (cases "e1 = ESP_OK")
    case True
    with Cons w e1 show ?thesis by simp
  next
    case False
    with write_err [OF e1] have "fault b1" by blast
    with Cons.prems w e1 False show ?thesis by (auto dest: each_fault_mono)
  qed
qed

lemma write_grows: "wr a r v b = (e, b') \<Longrightarrow> \<exists>l. latched b' = latched b @ l"
  using write_ok [of a r v b b'] write_err [of a r v b e b'] by (cases "e = ESP_OK") auto

lemma each_grows: "write_each wr ws res b = (e, b') \<Longrightarrow> \<exists>l. latched b' = latched b @ l"
proof (induction ws arbitrary: b res)
  case Nil
  then show ?case by simp
next
  case (Cons w ws)
  then show ?case
    by (cases w) (fastforce split: prod.splits dest: write_grows)
qed

lemma each_wiring: "write_each wr ws res b = (e, b') \<Longrightarrow> wiring b b'"
proof (induction ws arbitrary: b res)
  case Nil
  then show ?case by (simp add: wiring_refl)
next
  case (Cons w ws)
  then show ?case
    by (cases w) (auto split: prod.splits dest: write_wiring intro: wiring_trans)
qed

end

text \<open>The register write of the sources provides the contract.\<close>

lemma write_register_cases:
  "\<exists>r b1. quiet b b1 \<and>
     (mcp23017_write_register_locked a rg v b = check_command_result r b1 \<and> r \<noteq> ESP_OK
      \<or> mcp23017_write_register_locked a rg v b
          = check_command_result r (b1\<lparr>bus_log := bus_log b1 @ [(a, rg, v)]\<rparr>))"
proof (cases "outputBusMutex b = NoMutex")
  case True
  then show ?thesis
    by (intro exI [of _ ESP_ERR_INVALID_STATE] exI [of _ b])
      (simp add: mcp23017_write_register_locked_def)
next
  case False
  obtain h b1 where h: "idf_next b = (h, b1)" by fastforce
  then have q1: "quiet b b1" by (rule quiet_idf_next)
  show ?thesis
  proof (cases "rp_ok h")
    case False
    with h q1 \<open>outputBusMutex b \<noteq> NoMutex\<close> show ?thesis
      by (intro exI [of _ ESP_ERR_NO_MEM] exI [of _ b1])
        (simp add: mcp23017_write_register_locked_def)
  next
    case True
    obtain e b2 where e: "(idf_call ^^ 5) (ESP_OK, b1) = (e, b2)" by fastforce
    with q1 quiet_idf_calls [of "(ESP_OK, b1)" 5] have q2: "quiet b b2"
      by (auto intro: quiet_trans)
    obtain r b3 where r: "idf_next b2 = (r, b3)" by fastforce
    with q2 have q3: "quiet b b3" by (auto intro: quiet_trans quiet_idf_next)
    have eq: "mcp23017_write_register_locked a rg v b =
        (if e \<noteq> ESP_OK then check_command_result e b2
         else check_command_result (rp_code r)
           (if rp_code r = ESP_OK \<or> rp_latched r
            then b3\<lparr>bus_log := bus_log b3 @ [(a, rg, v)]\<rparr> else b3))"
      using True False h e r
      by (simp add: mcp23017_write_register_locked_def i2c_begin_write_def)
    show ?thesis
    proof (cases "e = ESP_OK")
      case True
      with eq q3 show ?thesis
        by (intro exI [of _ "rp_code r"] exI [of _ b3]) auto
    next
      case False
      with eq q2 show ?thesis
        by (intro exI [of _ e] exI [of _ b2]) auto
    qed
  qed
qed

interpretation mcp: register_bus mcp23017_write_register_locked bus_log faulted same_wiring
proof unfold_locales
  fix a r v b b'
  assume "mcp23017_write_register_locked a r v b = (ESP_OK, b')"
  with write_register_cases [of b a r v] show
    "bus_log b' = bus_log b @ [(a, r, v)] \<and> faulted b' = faulted b"
    by (auto simp: quiet_def check_command_result_def split: if_splits)
next
  fix a r v b e b'
  assume "mcp23017_write_register_locked a r v b = (e, b')" "e \<noteq> ESP_OK"
  with write_register_cases [of b a r v] show
    "faulted b' \<and> (bus_log b' = bus_log b \<or> bus_log b' = bus_log b @ [(a, r, v)])"
    by (auto simp: quiet_def check_command_result_def record_write_failure_def split: if_splits)
next
  fix a r v b e b'
  assume "mcp23017_write_register_locked a r v b = (e, b')"
  with write_register_cases [of b a r v] show "same_wiring b b'"
    by (auto simp: quiet_def same_wiring_def check_command_result_def record_write_failure_def
        split: if_splits)
qed (auto intro: same_wiring_trans)

section \<open>The scope of the bus lock\<close>

definition with_output_lock :: "(board \<Rightarrow> esp_err \<times> board) \<Rightarrow> board \<Rightarrow> esp_err \<times> board" where
  \<comment> \<open>\<open>MCP23017OutputLock lock; if (!lock.is_locked()) return ESP_ERR_INVALID_STATE; ...\<close>\<close>
  "with_output_lock body b =
     (let (locked, b1) = output_lock b
      in if \<not> locked then (ESP_ERR_INVALID_STATE, b1)
         else (let (r, b2) = body b1 in (r, output_unlock locked b2)))"

lemma output_lock_True:
  assumes "output_lock b = (True, b1)"
  shows "outputBusMutex b = MutexFree \<and> quiet (b\<lparr>outputBusMutex := MutexHeld\<rparr>) b1"
  using assms
  by (auto simp: output_lock_def idf_next_def quiet_def same_wiring_def
      split: bus_mutex.splits if_splits)

lemma output_lock_False:
  assumes "output_lock b = (False, b1)"
  shows "bus_log b1 = bus_log b \<and> activeLow b1 = activeLow b
    \<and> outputBusMutex b1 = outputBusMutex b \<and> boardFound0 b1 = boardFound0 b
    \<and> boardFound1 b1 = boardFound1 b
    \<and> (outputBusMutex b \<noteq> MutexHeld \<longrightarrow> faulted b1 \<and> self_deadlock b1 = self_deadlock b)"
  using assms
  by (auto simp: output_lock_def idf_next_def record_write_failure_def
      split: bus_mutex.splits if_splits)

text \<open>A body that keeps the wiring runs with the lock held and gives it back.\<close>

definition keeps_wiring :: "(board \<Rightarrow> esp_err \<times> board) \<Rightarrow> bool" where
  "keeps_wiring body \<longleftrightarrow> (\<forall>c. same_wiring c (snd (body c)))"

lemma keeps_wiringI: "(\<And>c e c'. body c = (e, c') \<Longrightarrow> same_wiring c c') \<Longrightarrow> keeps_wiring body"
  by (simp add: keeps_wiring_def prod_eq_iff)

lemma keeps_wiringD: "keeps_wiring body \<Longrightarrow> body c = (e, c') \<Longrightarrow> same_wiring c c'"
  by (metis keeps_wiring_def snd_conv)

lemma with_output_lock_cases:
  assumes "with_output_lock body b = (e, b')" and "outputBusMutex b \<noteq> MutexHeld"
    and "keeps_wiring body"
  shows "same_wiring b b' \<and>
    ((\<exists>c c'. outputBusMutex b = MutexFree \<and> quiet (b\<lparr>outputBusMutex := MutexHeld\<rparr>) c
        \<and> body c = (e, c') \<and> b' = c'\<lparr>outputBusMutex := MutexFree\<rparr>)
     \<or> e = ESP_ERR_INVALID_STATE \<and> faulted b' \<and> bus_log b' = bus_log b)"
proof -
  obtain locked b1 where l: "output_lock b = (locked, b1)" by fastforce
  show ?thesis
  proof (cases locked)
    case True
    obtain e' c' where c: "body b1 = (e', c')" by fastforce
    from keeps_wiringD [OF assms(3) c] have w: "same_wiring b1 c'" .
    from l True output_lock_True [of b b1] have
      q: "outputBusMutex b = MutexFree" "quiet (b\<lparr>outputBusMutex := MutexHeld\<rparr>) b1" by auto
    from assms(1) l True c have e: "e = e'" "b' = c'\<lparr>outputBusMutex := MutexFree\<rparr>"
      by (auto simp: with_output_lock_def output_unlock_def)
    from w q e have "same_wiring b b'"
      by (simp add: quiet_def same_wiring_def)
    with q e c show ?thesis by blast
  next
    case False
    from l False have l': "output_lock b = (False, b1)" by simp
    have "replies b1 = replies b"
      using l by (auto simp: output_lock_def idf_next_def record_write_failure_def
          split: bus_mutex.splits if_splits)
    with assms(1,2) l False output_lock_False [OF l'] show ?thesis
      by (auto simp: with_output_lock_def same_wiring_def)
  qed
qed

section \<open>What the chips drive\<close>

text \<open>
  A write to \<open>GPIO\<close> or \<open>OLAT\<close> of a port sets the output latch of that port; the last such
  write decides. \<open>port_outputs\<close> undoes the relay polarity, so bit \<open>i\<close> of it says that the
  \<open>i\<close>-th solenoid of the port is energised.
\<close>

definition port_of_reg :: "u8 \<Rightarrow> nat option" where
  "port_of_reg r = (if r = 0x12 \<or> r = 0x14 then Some 0 else if r = 0x13 \<or> r = 0x15 then Some 1 else None)"

definition latch_write :: "u8 \<Rightarrow> nat \<Rightarrow> reg_write \<Rightarrow> u8 \<Rightarrow> u8" where
  "latch_write address port w old =
     (case w of (a, r, v) \<Rightarrow> if a = address \<and> port_of_reg r = Some port then v else old)"

definition port_latch :: "reg_write list \<Rightarrow> u8 \<Rightarrow> nat \<Rightarrow> u8" where
  "port_latch ws address port = fold (latch_write address port) ws 0"

definition port_outputs :: "board \<Rightarrow> u8 \<Rightarrow> nat \<Rightarrow> u8" where
  "port_outputs b address port = relay_output_byte (port_latch (bus_log b) address port) (activeLow b)"

lemma port_latch_append:
  "port_latch (ws @ vs) address port = fold (latch_write address port) vs (port_latch ws address port)"
  by (simp add: port_latch_def)

lemma relay_output_byte_twice [simp]: "relay_output_byte (relay_output_byte x low) low = x"
  by (simp add: relay_output_byte_def)

end
