(* ===== verification/Fold_Sequence.thy ===== *)
theory Fold_Sequence
  imports Output_Board
begin

text \<open>
  The fold/unfold sequence of the planter, \<open>examples/1200PT/src/fold_sequence.cpp\<close>: two
  tables of solenoid states, the module variables \<open>currentState\<close> and \<open>currentStep\<close>, and
  every function of the file. A function takes the module variables and the board and returns
  its result with both; log output is left out.
\<close>

section \<open>Tables and state\<close>

type_synonym solenoids = "bool list"

abbreviation (input) MCP23017_1_ADDR :: u8 where "MCP23017_1_ADDR \<equiv> 0x20"
abbreviation (input) MCP23017_2_ADDR :: u8 where "MCP23017_2_ADDR \<equiv> 0x21"
abbreviation (input) MCP_IODIRA :: u8 where "MCP_IODIRA \<equiv> 0x00"
abbreviation (input) MCP_IODIRB :: u8 where "MCP_IODIRB \<equiv> 0x01"
abbreviation (input) MCP_GPIOA :: u8 where "MCP_GPIOA \<equiv> 0x12"
abbreviation (input) MCP_GPIOB :: u8 where "MCP_GPIOB \<equiv> 0x13"
abbreviation (input) MCP_OLATA :: u8 where "MCP_OLATA \<equiv> 0x14"
abbreviation (input) MCP_OLATB :: u8 where "MCP_OLATB \<equiv> 0x15"
abbreviation (input) FOLD_STEPS :: u8 where "FOLD_STEPS \<equiv> 6"
abbreviation (input) UNFOLD_STEPS :: u8 where "UNFOLD_STEPS \<equiv> 6"

definition FOLD_STATES :: "solenoids list" where
  "FOLD_STATES = [
    [True, False, True, False, False, False, True, False, False, True, True, True, False, True, False, True, True, True],
    [True, False, True, False, True, False, True, False, True, True, False, True, False, True, False, True, True, True],
    [True, False, True, False, False, False, True, False, False, False, False, True, False, False, False, True, True, True],
    [True, False, True, False, True, False, True, False, False, True, False, True, False, True, False, True, True, True],
    [True, False, True, False, True, False, True, False, False, True, False, True, False, True, False, True, True, True],
    [True, False, True, False, False, False, True, False, False, True, False, True, False, True, False, True, True, True]]"

definition UNFOLD_STATES :: "solenoids list" where
  "UNFOLD_STATES = [
    [True, False, True, False, True, True, True, True, True, False, False, True, False, False, False, True, True, True],
    [True, False, True, False, True, False, True, False, True, True, False, True, False, True, False, True, True, True],
    [True, False, True, False, False, False, True, False, False, True, True, True, False, True, False, True, True, True],
    [True, False, True, False, False, False, True, False, False, True, False, True, False, True, False, True, True, True],
    [True, False, True, False, True, False, True, False, False, False, False, True, False, False, False, True, True, True],
    [True, False, True, False, True, False, True, False, True, True, False, True, False, True, False, True, True, True]]"

definition FOLD_INSTRUCTIONS :: "string list" where
  "FOLD_INSTRUCTIONS = [''1. Retract Tongue'', ''2. Rotate Bar'', ''3. Latch Transport Hooks'',
     ''4. Fold Wings'', ''5. Raise Planter'', ''6. Latch Wings & Center Bar'']"

definition UNFOLD_INSTRUCTIONS :: "string list" where
  "UNFOLD_INSTRUCTIONS = [''1. Unlatch Wings & Wing Tilt'', ''2. Lower Planter'',
     ''3. Unfold Wings'', ''4. Unlatch Transport Hooks'', ''5. Rotate Bar'', ''6. Extend Tongue'']"

datatype SequenceState = SEQ_IDLE | FOLD_ACTIVE | UNFOLD_ACTIVE | SEQ_COMPLETE

record fold_vars =
  currentState :: SequenceState
  currentStep :: u8

definition fold_vars_init :: fold_vars where
  "fold_vars_init = \<lparr>currentState = SEQ_IDLE, currentStep = 0\<rparr>"

definition fold_reset :: "fold_vars \<Rightarrow> fold_vars" where
  \<comment> \<open>\<open>currentState = SequenceState::IDLE; currentStep = 0;\<close>\<close>
  "fold_reset f = f\<lparr>currentState := SEQ_IDLE, currentStep := 0\<rparr>"

section \<open>Register helpers\<close>

definition mcp23017_write :: "u8 \<Rightarrow> u8 \<Rightarrow> u8 \<Rightarrow> board \<Rightarrow> esp_err \<times> board" where
  "mcp23017_write address reg value b =
     mcp23017_write_register_locked address reg
       (if reg = MCP_GPIOA \<or> reg = MCP_GPIOB \<or> reg = MCP_OLATA \<or> reg = MCP_OLATB
        then relay_output_byte value (activeLow b) else value) b"

definition all_off_writes :: "bool \<Rightarrow> reg_write list" where
  "all_off_writes low =
     [(MCP23017_1_ADDR, MCP_GPIOA, relay_output_byte 0 low),
      (MCP23017_1_ADDR, MCP_GPIOB, relay_output_byte 0 low),
      (MCP23017_2_ADDR, MCP_GPIOA, relay_output_byte 0 low),
      (MCP23017_2_ADDR, MCP_GPIOB, relay_output_byte 0 low)]"

definition write_all_off_locked :: "board \<Rightarrow> esp_err \<times> board" where
  "write_all_off_locked b =
     write_each mcp23017_write_register_locked (all_off_writes (activeLow b)) ESP_OK b"

definition port_byte :: "solenoids \<Rightarrow> nat \<Rightarrow> nat \<Rightarrow> u8" where
  \<comment> \<open>\<open>for (i = 0; i < n; i++) if (states[i + off]) byte |= (1 << i);\<close>\<close>
  "port_byte states off n =
     fold (\<lambda>i byte. if states ! (i + off) then byte OR push_bit i 1 else byte) [0..<n] 0"

definition solenoid_writes :: "solenoids \<Rightarrow> bool \<Rightarrow> reg_write list" where
  "solenoid_writes states low =
     [(MCP23017_1_ADDR, MCP_GPIOA, relay_output_byte (port_byte states 0 8) low),
      (MCP23017_1_ADDR, MCP_GPIOB, relay_output_byte (port_byte states 8 8) low),
      (MCP23017_2_ADDR, MCP_GPIOA, relay_output_byte (port_byte states 16 2) low)]"

definition write_states_locked :: "reg_write list \<Rightarrow> board \<Rightarrow> esp_err \<times> board" where
  \<comment> \<open>the loop over \<open>writes\<close> with its emergency stop\<close>
  "write_states_locked ws b =
     (let (result, b2) = write_until_fail mcp23017_write_register_locked ws b
      in if result \<noteq> ESP_OK then (result, snd (write_all_off_locked b2)) else (result, b2))"

definition apply_solenoid_states :: "solenoids \<Rightarrow> board \<Rightarrow> esp_err \<times> board" where
  "apply_solenoid_states states b =
     with_output_lock (write_states_locked (solenoid_writes states (activeLow b))) b"

definition fold_sequence_all_off :: "board \<Rightarrow> esp_err \<times> board" where
  "fold_sequence_all_off b = with_output_lock write_all_off_locked b"

section \<open>Initialisation\<close>

definition preload_latches :: "esp_err \<Rightarrow> esp_err \<Rightarrow> esp_err \<Rightarrow> board \<Rightarrow> esp_err \<times> board" where
  \<comment> \<open>the first locked block of \<open>fold_sequence_init\<close>\<close>
  "preload_latches probeOne probeTwo result0 b =
     (let (result1, b1) =
        (if probeOne = ESP_OK
         then (let (r, c) = mcp23017_write MCP23017_1_ADDR MCP_OLATA 0 b
               in if r = ESP_OK then mcp23017_write MCP23017_1_ADDR MCP_OLATB 0 c else (r, c))
         else (result0, b))
      in if probeTwo = ESP_OK
         then (let (portAResult, b2) = mcp23017_write MCP23017_2_ADDR MCP_OLATA 0 b1;
                   (portBResult, b3) = mcp23017_write MCP23017_2_ADDR MCP_OLATB 0 b2;
                   result2 = (if result1 = ESP_OK then portAResult else result1);
                   result3 = (if result2 = ESP_OK \<and> portBResult \<noteq> ESP_OK then portBResult else result2)
               in (result3, b3))
         else (result1, b1))"

definition configure_outputs :: "board \<Rightarrow> esp_err \<times> board" where
  \<comment> \<open>the second locked block: all ports become outputs\<close>
  "configure_outputs b =
     (let (r1, b1) = mcp23017_write MCP23017_1_ADDR MCP_IODIRA 0 b;
          (r2, b2) = (if r1 = ESP_OK then mcp23017_write MCP23017_1_ADDR MCP_IODIRB 0 b1 else (r1, b1));
          (r3, b3) = (if r2 = ESP_OK then mcp23017_write MCP23017_2_ADDR MCP_IODIRA 0 b2 else (r2, b2))
      in if r3 = ESP_OK then mcp23017_write MCP23017_2_ADDR MCP_IODIRB 0 b3 else (r3, b3))"

definition i2c_setup :: "board \<Rightarrow> esp_err \<times> board" where
  "i2c_setup b =
     (let (c, b1) = idf_next b
      in if rp_code c = ESP_OK
         then (let (d, b2) = idf_next b1
               in (if rp_code d = ESP_ERR_INVALID_STATE then ESP_OK else rp_code d, b2))
         else (rp_code c, b1))"

definition bring_up_outputs :: "fold_vars \<Rightarrow> board \<Rightarrow> esp_err \<times> fold_vars \<times> board" where
  \<comment> \<open>the part of \<open>fold_sequence_init\<close> after the latches are safe\<close>
  "bring_up_outputs f b =
     (let (result, b1) = with_output_lock configure_outputs b
      in if result \<noteq> ESP_OK then (result, f, b1)
         else
           let (result, b2) = fold_sequence_all_off b1
           in if result \<noteq> ESP_OK then (result, f, b2) else (ESP_OK, fold_reset f, b2))"

definition make_outputs_safe ::
    "esp_err \<Rightarrow> esp_err \<Rightarrow> fold_vars \<Rightarrow> board \<Rightarrow> esp_err \<times> fold_vars \<times> board" where
  \<comment> \<open>the part of \<open>fold_sequence_init\<close> after both probes were recorded\<close>
  "make_outputs_safe probeOne probeTwo f b =
     (let (locked, b1) = output_lock b
      in if \<not> locked then (ESP_ERR_INVALID_STATE, f, b1)
         else
           let (result, b2) = preload_latches probeOne probeTwo ESP_OK b1;
               b3 = output_unlock locked b2
           in if result \<noteq> ESP_OK \<or> has_fault b3
              then (if result = ESP_OK then ESP_FAIL else result, fold_reset f, b3)
              else bring_up_outputs f b3)"

definition fold_sequence_init :: "fold_vars \<Rightarrow> board \<Rightarrow> esp_err \<times> fold_vars \<times> board" where
  "fold_sequence_init f b0 =
     (let (result, b1) = i2c_setup (mcp23017_output_init b0)
      in if result \<noteq> ESP_OK then (result, f, record_probe 1 False (record_probe 0 False b1))
         else
           let (probeOne, b2) = mcp23017_read_register MCP23017_1_ADDR MCP_IODIRA b1;
               (probeTwo, b3) = mcp23017_read_register MCP23017_2_ADDR MCP_IODIRA b2
           in make_outputs_safe probeOne probeTwo f
                (record_probe 1 (probeTwo = ESP_OK) (record_probe 0 (probeOne = ESP_OK) b3)))"

section \<open>Operations\<close>

definition fold_sequence_get_current_step :: "fold_vars \<Rightarrow> u8" where
  "fold_sequence_get_current_step f = currentStep f + 1"

definition fold_sequence_apply_current_step :: "fold_vars \<Rightarrow> board \<Rightarrow> esp_err \<times> board" where
  "fold_sequence_apply_current_step f b =
     (if currentState f = FOLD_ACTIVE then apply_solenoid_states (FOLD_STATES ! unat (currentStep f)) b
      else if currentState f = UNFOLD_ACTIVE
        then apply_solenoid_states (UNFOLD_STATES ! unat (currentStep f)) b
      else (ESP_OK, b))"

definition start_sequence :: "SequenceState \<Rightarrow> fold_vars \<Rightarrow> board \<Rightarrow> esp_err \<times> fold_vars \<times> board" where
  "start_sequence st f b =
     (let f1 = f\<lparr>currentState := st, currentStep := 0\<rparr>;
          (result, b1) = fold_sequence_apply_current_step f1 b
      in (result, if result \<noteq> ESP_OK then fold_reset f1 else f1, b1))"

definition fold_sequence_start_fold :: "fold_vars \<Rightarrow> board \<Rightarrow> esp_err \<times> fold_vars \<times> board" where
  "fold_sequence_start_fold = start_sequence FOLD_ACTIVE"

definition fold_sequence_start_unfold :: "fold_vars \<Rightarrow> board \<Rightarrow> esp_err \<times> fold_vars \<times> board" where
  "fold_sequence_start_unfold = start_sequence UNFOLD_ACTIVE"

definition fold_sequence_next_step :: "fold_vars \<Rightarrow> board \<Rightarrow> bool \<times> fold_vars \<times> board" where
  "fold_sequence_next_step f b =
     (if currentState f = SEQ_IDLE \<or> currentState f = SEQ_COMPLETE then (False, f, b)
      else
        let maxSteps = (if currentState f = FOLD_ACTIVE then FOLD_STEPS else UNFOLD_STEPS)
        in if currentStep f < maxSteps - 1
           then (let f1 = f\<lparr>currentStep := currentStep f + 1\<rparr>;
                     (_, b1) = fold_sequence_apply_current_step f1 b
                 in (False, f1, b1))
           else (let f1 = f\<lparr>currentState := SEQ_COMPLETE\<rparr>;
                     (result, b1) = fold_sequence_all_off b
                 in (result = ESP_OK, f1, b1)))"

definition fold_sequence_prev_step :: "fold_vars \<Rightarrow> board \<Rightarrow> bool \<times> fold_vars \<times> board" where
  "fold_sequence_prev_step f b =
     (if currentState f = SEQ_IDLE \<or> currentState f = SEQ_COMPLETE then (False, f, b)
      else if currentStep f > 0
      then (let f1 = f\<lparr>currentStep := currentStep f - 1\<rparr>;
                (result, b1) = fold_sequence_apply_current_step f1 b
            in (result = ESP_OK, f1, b1))
      else (False, f, b))"

definition fold_sequence_cancel :: "fold_vars \<Rightarrow> board \<Rightarrow> esp_err \<times> fold_vars \<times> board" where
  "fold_sequence_cancel f b =
     (let (result, b1) = fold_sequence_all_off b in (result, fold_reset f, b1))"

definition activate_action ::
    "SequenceState \<Rightarrow> solenoids list \<Rightarrow> u8 \<Rightarrow> fold_vars \<Rightarrow> board \<Rightarrow> esp_err \<times> fold_vars \<times> board" where
  \<comment> \<open>the common text of the two activation functions; both tables have six rows\<close>
  "activate_action st table actionIndex f b =
     (if actionIndex < 1 \<or> actionIndex > 6 then fold_sequence_cancel f b
      else
        let (result, b1) = fold_sequence_all_off b
        in if result \<noteq> ESP_OK then (result, f, b1)
           else
             let f1 = f\<lparr>currentState := st, currentStep := actionIndex - 1\<rparr>;
                 (result, b2) = apply_solenoid_states (table ! unat (currentStep f1)) b1
             in (result, if result \<noteq> ESP_OK then fold_reset f1 else f1, b2))"

definition fold_sequence_activate_fold_action ::
    "u8 \<Rightarrow> fold_vars \<Rightarrow> board \<Rightarrow> esp_err \<times> fold_vars \<times> board" where
  "fold_sequence_activate_fold_action = activate_action FOLD_ACTIVE FOLD_STATES"

definition fold_sequence_activate_unfold_action ::
    "u8 \<Rightarrow> fold_vars \<Rightarrow> board \<Rightarrow> esp_err \<times> fold_vars \<times> board" where
  "fold_sequence_activate_unfold_action = activate_action UNFOLD_ACTIVE UNFOLD_STATES"

definition fold_sequence_get_active_action :: "fold_vars \<Rightarrow> u8" where
  "fold_sequence_get_active_action f =
     (if currentState f = FOLD_ACTIVE \<or> currentState f = UNFOLD_ACTIVE then currentStep f + 1 else 0)"

definition fold_sequence_get_instruction :: "fold_vars \<Rightarrow> string" where
  "fold_sequence_get_instruction f =
     (if currentState f = FOLD_ACTIVE then FOLD_INSTRUCTIONS ! unat (currentStep f)
      else if currentState f = UNFOLD_ACTIVE then UNFOLD_INSTRUCTIONS ! unat (currentStep f)
      else if currentState f = SEQ_COMPLETE then ''SEQUENCE COMPLETE''
      else ''SELECT FOLD OR UNFOLD'')"

section \<open>Locked groups of writes\<close>

text \<open>A task that does not hold the bus lock and has never waited for itself.\<close>

definition lock_free :: "board \<Rightarrow> bool" where
  "lock_free b \<longleftrightarrow> outputBusMutex b \<noteq> MutexHeld \<and> \<not> self_deadlock b"

lemma lock_free_wiring: "same_wiring b b' \<Longrightarrow> lock_free b' = lock_free b"
  by (simp add: lock_free_def same_wiring_def)

lemma write_all_off_wiring: "keeps_wiring write_all_off_locked"
  by (rule keeps_wiringI) (auto simp: write_all_off_locked_def dest: mcp.each_wiring)

lemma write_all_off_fault: "faulted b \<Longrightarrow> faulted (snd (write_all_off_locked b))"
  using mcp.each_fault_mono [OF _ surjective_pairing] by (simp add: write_all_off_locked_def)

lemma write_states_wiring: "keeps_wiring (write_states_locked ws)"
  using write_all_off_wiring
  by (auto intro!: keeps_wiringI split: prod.splits if_splits dest!: mcp.until_fail_wiring
      simp: keeps_wiring_def write_states_locked_def intro: same_wiring_trans)

lemma write_states_ok:
  "write_states_locked ws b = (ESP_OK, b') \<Longrightarrow> bus_log b' = bus_log b @ ws \<and> faulted b' = faulted b"
  by (auto simp: write_states_locked_def split: prod.splits if_splits dest: mcp.until_fail_ok)

lemma write_states_err:
  "write_states_locked ws b = (e, b') \<Longrightarrow> e \<noteq> ESP_OK \<Longrightarrow> faulted b'"
  by (auto simp: write_states_locked_def split: prod.splits if_splits
      dest!: mcp.until_fail_err intro: write_all_off_fault)

lemma all_off_locked_ok:
  "write_all_off_locked b = (ESP_OK, b') \<Longrightarrow>
   bus_log b' = bus_log b @ all_off_writes (activeLow b) \<and> faulted b' = faulted b"
  by (auto simp: write_all_off_locked_def dest: mcp.each_ok)

lemma all_off_locked_err: "write_all_off_locked b = (e, b') \<Longrightarrow> e \<noteq> ESP_OK \<Longrightarrow> faulted b'"
  by (auto simp: write_all_off_locked_def dest: mcp.each_err)

lemma all_off_wiring:
  assumes "fold_sequence_all_off b = (e, b')" and "outputBusMutex b \<noteq> MutexHeld"
  shows "same_wiring b b'"
  using with_output_lock_cases [OF assms [unfolded fold_sequence_all_off_def] write_all_off_wiring]
  by blast

lemma all_off_ok:
  assumes "fold_sequence_all_off b = (ESP_OK, b')" and "outputBusMutex b \<noteq> MutexHeld"
  shows "bus_log b' = bus_log b @ all_off_writes (activeLow b) \<and> faulted b' = faulted b"
  using with_output_lock_cases [OF assms [unfolded fold_sequence_all_off_def] write_all_off_wiring]
  by (auto simp: quiet_def same_wiring_def dest!: all_off_locked_ok)

lemma all_off_grows:
  assumes "fold_sequence_all_off b = (e, b')" and "outputBusMutex b \<noteq> MutexHeld"
  shows "\<exists>l. bus_log b' = bus_log b @ l"
  using with_output_lock_cases [OF assms [unfolded fold_sequence_all_off_def] write_all_off_wiring]
  by (auto simp: quiet_def write_all_off_locked_def dest!: mcp.each_grows)

lemma all_off_err:
  assumes "fold_sequence_all_off b = (e, b')" and "outputBusMutex b \<noteq> MutexHeld" and "e \<noteq> ESP_OK"
  shows "faulted b'"
  using with_output_lock_cases [OF assms(1,2) [unfolded fold_sequence_all_off_def] write_all_off_wiring]
    assms(3)
  by (auto dest!: all_off_locked_err)

lemma apply_wiring:
  assumes "apply_solenoid_states st b = (e, b')" and "outputBusMutex b \<noteq> MutexHeld"
  shows "same_wiring b b'"
  using with_output_lock_cases [OF assms [unfolded apply_solenoid_states_def] write_states_wiring]
  by blast

lemma apply_ok:
  assumes "apply_solenoid_states st b = (ESP_OK, b')" and "outputBusMutex b \<noteq> MutexHeld"
  shows "bus_log b' = bus_log b @ solenoid_writes st (activeLow b) \<and> faulted b' = faulted b"
  using with_output_lock_cases [OF assms [unfolded apply_solenoid_states_def] write_states_wiring]
  by (auto simp: quiet_def same_wiring_def dest!: write_states_ok)

lemma apply_err:
  assumes "apply_solenoid_states st b = (e, b')" and "outputBusMutex b \<noteq> MutexHeld"
    and "e \<noteq> ESP_OK"
  shows "faulted b'"
  using with_output_lock_cases [OF assms(1,2) [unfolded apply_solenoid_states_def] write_states_wiring]
    assms(3)
  by (auto dest!: write_states_err)

lemmas locked_wiring = all_off_wiring apply_wiring
lemmas locked_ok = all_off_ok apply_ok
lemmas locked_err = all_off_err apply_err

section \<open>The solenoids the ports drive\<close>

definition solenoid_on :: "board \<Rightarrow> nat \<Rightarrow> bool" where
  \<comment> \<open>solenoid \<open>n + 1\<close>: \<open>n < 8\<close> on port A, \<open>n < 16\<close> on port B of the first chip, then the second\<close>
  "solenoid_on b n =
     bit (port_outputs b (if n < 16 then MCP23017_1_ADDR else MCP23017_2_ADDR)
        (if 8 \<le> n \<and> n < 16 then 1 else 0)) (n mod 8)"

lemma bit_port_byte:
  "n \<le> 8 \<Longrightarrow> bit (port_byte states off n) k \<longleftrightarrow> k < n \<and> states ! (k + off)"
proof (induction n)
  case 0
  then show ?case by (simp add: port_byte_def)
next
  case (Suc n)
  have step: "port_byte states off (Suc n) =
      (if states ! (n + off) then port_byte states off n OR push_bit n 1 else port_byte states off n)"
    by (simp add: port_byte_def)
  from Suc show ?case
    by (auto simp: step bit_or_iff bit_exp_iff less_Suc_eq le_less_Suc_eq)
qed

lemma port_outputs_all_off:
  assumes "bus_log b = ws @ all_off_writes (activeLow b)"
    and "(a, p) \<in> {0x20, 0x21} \<times> {0, 1}"
  shows "port_outputs b a p = 0"
proof -
  have "port_latch (bus_log b) a p = relay_output_byte 0 (activeLow b)"
    using assms by (auto simp: port_latch_append all_off_writes_def latch_write_def port_of_reg_def)
  then show ?thesis by (simp add: port_outputs_def)
qed

lemma port_outputs_states:
  assumes "bus_log b = ws @ solenoid_writes st (activeLow b)"
  shows "port_outputs b 0x20 0 = port_byte st 0 8" and "port_outputs b 0x20 (Suc 0) = port_byte st 8 8"
    and "port_outputs b 0x21 0 = port_byte st 16 2"
  by (simp_all add: port_outputs_def assms port_latch_append solenoid_writes_def latch_write_def
      port_of_reg_def)

lemma solenoid_on_all_off:
  "bus_log b = ws @ all_off_writes (activeLow b) \<Longrightarrow> \<not> solenoid_on b n"
  by (auto simp: solenoid_on_def port_outputs_all_off)

lemma solenoid_on_states:
  assumes "bus_log b = ws @ solenoid_writes st (activeLow b)" and "n < 18"
  shows "solenoid_on b n = st ! n"
proof -
  consider "n < 8" | "8 \<le> n" "n < 16" | "16 \<le> n" by linarith
  then show ?thesis
  proof cases
    case 1
    then show ?thesis by (simp add: solenoid_on_def port_outputs_states [OF assms(1)] bit_port_byte)
  next
    case 2
    then have "n mod 8 = n - 8" "n - 8 < 8" by (simp_all add: mod_if)
    with 2 show ?thesis
      by (simp add: solenoid_on_def port_outputs_states [OF assms(1)] bit_port_byte)
  next
    case 3
    with assms(2) have "n mod 8 = n - 16" "n - 16 < 2" by (simp_all add: mod_if)
    with 3 show ?thesis
      by (simp add: solenoid_on_def port_outputs_states [OF assms(1)] bit_port_byte)
  qed
qed

section \<open>Invariants of the operations\<close>

text \<open>
  The row read from a table is always inside it; and the fault flag, once raised, stays: an
  operation that fails leaves it raised, an operation that succeeds leaves it as it was.
\<close>

definition step_in_table :: "fold_vars \<Rightarrow> bool" where
  "step_in_table f \<longleftrightarrow> currentStep f < FOLD_STEPS"

lemma step_in_table_reset [simp]: "step_in_table (fold_reset f)"
  by (simp add: step_in_table_def fold_reset_def)

lemma step_row: "step_in_table f \<Longrightarrow> unat (currentStep f) < length FOLD_STATES
    \<and> unat (currentStep f) < length UNFOLD_STATES"
  by (simp add: step_in_table_def FOLD_STATES_def UNFOLD_STATES_def word_less_nat_alt)

text \<open>One step of the hydraulics keeps the wiring, and reports failure exactly through the fault.\<close>

definition latches_fault :: "board \<Rightarrow> esp_err \<Rightarrow> board \<Rightarrow> bool" where
  "latches_fault b e b' \<longleftrightarrow> same_wiring b b' \<and> (if e = ESP_OK then faulted b' = faulted b else faulted b')"

lemma latches_fault_trans:
  "latches_fault a ESP_OK b \<Longrightarrow> latches_fault b e c \<Longrightarrow> latches_fault a e c"
  by (auto simp: latches_fault_def intro: same_wiring_trans split: if_splits)

lemma latches_fault_wiring: "latches_fault b e b' \<Longrightarrow> same_wiring b b'"
  by (simp add: latches_fault_def)

lemma latches_fault_mutex:
  "latches_fault b e b' \<Longrightarrow> outputBusMutex b' = outputBusMutex b"
  by (simp add: latches_fault_def same_wiring_def)

lemma latches_fault_mono: "latches_fault b e b' \<Longrightarrow> faulted b \<Longrightarrow> faulted b'"
  by (simp add: latches_fault_def split: if_splits)

lemma all_off_latches:
  "fold_sequence_all_off b = (e, b') \<Longrightarrow> outputBusMutex b \<noteq> MutexHeld \<Longrightarrow> latches_fault b e b'"
  by (auto simp: latches_fault_def dest: all_off_wiring all_off_ok all_off_err)

lemma apply_latches:
  "apply_solenoid_states st b = (e, b') \<Longrightarrow> outputBusMutex b \<noteq> MutexHeld \<Longrightarrow> latches_fault b e b'"
  by (auto simp: latches_fault_def dest: apply_wiring apply_ok apply_err)

lemma apply_step_latches:
  "fold_sequence_apply_current_step f b = (e, b') \<Longrightarrow> outputBusMutex b \<noteq> MutexHeld
   \<Longrightarrow> latches_fault b e b'"
  by (auto simp: fold_sequence_apply_current_step_def latches_fault_def split: if_splits
      dest: apply_wiring apply_ok apply_err)

lemma cancel_latches:
  "fold_sequence_cancel f b = (e, f', b') \<Longrightarrow> outputBusMutex b \<noteq> MutexHeld
   \<Longrightarrow> latches_fault b e b' \<and> f' = fold_reset f"
  by (auto simp: fold_sequence_cancel_def split: prod.splits dest: all_off_latches)

lemma activate_cases:
  assumes "activate_action st table i f b = (e, f', b')"
    and "outputBusMutex b \<noteq> MutexHeld" and "1 \<le> i" and "i \<le> 6"
  obtains (off_failed) "e \<noteq> ESP_OK" "f' = f" "latches_fault b e b'"
    | (apply_failed) "e \<noteq> ESP_OK" "f' = fold_reset f" "latches_fault b e b'"
    | (active) "e = ESP_OK" "f' = f\<lparr>currentState := st, currentStep := i - 1\<rparr>"
        "latches_fault b e b'"
        "bus_log b' = bus_log b @ all_off_writes (activeLow b)
           @ solenoid_writes (table ! unat (i - 1)) (activeLow b)"
proof -
  obtain e1 b1 where off: "fold_sequence_all_off b = (e1, b1)" by fastforce
  note l1 = all_off_latches [OF off assms(2)]
  from assms(3,4) have range: "\<not> (i < 1 \<or> i > 6)" by auto
  show thesis
  proof (cases "e1 = ESP_OK")
    case False
    with assms(1) off range l1 show thesis
      by (intro off_failed) (auto simp: activate_action_def)
  next
    case True
    obtain e2 b2 where ap: "apply_solenoid_states (table ! unat (i - 1)) b1 = (e2, b2)"
      by fastforce
    have m1: "outputBusMutex b1 \<noteq> MutexHeld" using latches_fault_mutex [OF l1] assms(2) by simp
    have l2: "latches_fault b e2 b2"
      using latches_fault_trans apply_latches [OF ap m1] l1 True by blast
    from assms(1) off range True ap have
      eq: "e = e2" "b' = b2" "f' = (if e2 \<noteq> ESP_OK then fold_reset f
         else f\<lparr>currentState := st, currentStep := i - 1\<rparr>)"
      by (auto simp: activate_action_def fold_reset_def Let_def)
    show thesis
    proof (cases "e2 = ESP_OK")
      case True
      with \<open>e1 = ESP_OK\<close> all_off_ok [of b b1] off assms(2) apply_ok [of _ b1 b2] ap m1 l1 eq l2
      show thesis
        by (intro active) (auto simp: latches_fault_def same_wiring_def)
    next
      case False
      with eq l2 show thesis by (intro apply_failed) auto
    qed
  qed
qed

lemma activate_out_of_range:
  "i < 1 \<or> i > 6 \<Longrightarrow> activate_action st table i f b = fold_sequence_cancel f b"
  by (auto simp: activate_action_def)

lemma activate_latches:
  assumes "activate_action st table i f b = (e, f', b')" and "outputBusMutex b \<noteq> MutexHeld"
  shows "latches_fault b e b'"
proof (cases "1 \<le> i \<and> i \<le> 6")
  case True
  with assms show ?thesis by (auto elim: activate_cases)
next
  case False
  with assms activate_out_of_range [of i st table f b] cancel_latches [of f b e f' b'] show ?thesis
    by (auto simp: not_le)
qed

lemma u8_pred_less_6: "1 \<le> (i :: u8) \<Longrightarrow> i \<le> 6 \<Longrightarrow> i - 1 < 6"
  by unat_arith

lemma activate_step_in_table:
  assumes "activate_action st table i f b = (e, f', b')" and "outputBusMutex b \<noteq> MutexHeld"
    and "step_in_table f"
  shows "step_in_table f'"
proof (cases "1 \<le> i \<and> i \<le> 6")
  case True
  with assms u8_pred_less_6 [of i] show ?thesis
    by (auto elim!: activate_cases simp: step_in_table_def fold_reset_def)
next
  case False
  with assms activate_out_of_range [of i st table f b] cancel_latches [of f b e f' b'] show ?thesis
    by (auto simp: not_le)
qed

lemma start_latches:
  "start_sequence st f b = (e, f', b') \<Longrightarrow> outputBusMutex b \<noteq> MutexHeld
   \<Longrightarrow> latches_fault b e b' \<and> step_in_table f'"
  by (auto simp: start_sequence_def Let_def step_in_table_def fold_reset_def
      split: prod.splits if_splits dest: apply_step_latches)

lemma next_latches:
  assumes "fold_sequence_next_step f b = (fin, f', b')" and "outputBusMutex b \<noteq> MutexHeld"
    and "step_in_table f"
  shows "(\<exists>e. latches_fault b e b') \<and> step_in_table f'"
proof -
  have "currentStep f < 5 \<Longrightarrow> currentStep f + 1 < 6"
    by unat_arith
  moreover have "latches_fault b ESP_OK b" by (simp add: latches_fault_def)
  ultimately show ?thesis
    using assms
    by (auto simp: fold_sequence_next_step_def Let_def step_in_table_def
        split: prod.splits if_splits dest: apply_step_latches all_off_latches)
qed

lemma prev_latches:
  assumes "fold_sequence_prev_step f b = (ok, f', b')" and "outputBusMutex b \<noteq> MutexHeld"
    and "step_in_table f"
  shows "(\<exists>e. latches_fault b e b') \<and> step_in_table f'"
proof -
  have "0 < currentStep f \<Longrightarrow> currentStep f < 6 \<Longrightarrow> currentStep f - 1 < 6"
    by unat_arith
  moreover have "latches_fault b ESP_OK b" by (simp add: latches_fault_def)
  ultimately show ?thesis
    using assms
    by (auto simp: fold_sequence_prev_step_def Let_def step_in_table_def
        split: prod.splits if_splits dest: apply_step_latches)
qed

section \<open>Initialisation: latches before directions\<close>

definition preload_writes :: "bool \<Rightarrow> reg_write list" where
  "preload_writes low =
     [(MCP23017_1_ADDR, MCP_OLATA, relay_output_byte 0 low),
      (MCP23017_1_ADDR, MCP_OLATB, relay_output_byte 0 low),
      (MCP23017_2_ADDR, MCP_OLATA, relay_output_byte 0 low),
      (MCP23017_2_ADDR, MCP_OLATB, relay_output_byte 0 low)]"

definition direction_writes :: "reg_write list" where
  "direction_writes =
     [(MCP23017_1_ADDR, MCP_IODIRA, 0), (MCP23017_1_ADDR, MCP_IODIRB, 0),
      (MCP23017_2_ADDR, MCP_IODIRA, 0), (MCP23017_2_ADDR, MCP_IODIRB, 0)]"

definition makes_output :: "reg_write \<Rightarrow> bool" where
  "makes_output w \<longleftrightarrow> fst (snd w) = MCP_IODIRA \<or> fst (snd w) = MCP_IODIRB"

lemma configure_outputs_alt:
  "configure_outputs b = write_until_fail mcp23017_write_register_locked direction_writes b"
  by (simp add: configure_outputs_def mcp23017_write_def direction_writes_def Let_def split: prod.splits)

lemma read_register_quiet:
  assumes "mcp23017_read_register a r b = (e, b')" and "outputBusMutex b \<noteq> MutexHeld"
  shows "same_wiring b b' \<and> bus_log b' = bus_log b \<and> (faulted b \<longrightarrow> faulted b')"
proof (cases "outputBusMutex b = NoMutex")
  case True
  with assms show ?thesis by (simp add: mcp23017_read_register_def)
next
  case False
  define body where "body = (\<lambda>b1. let (h, b2) = idf_next b1
      in if \<not> rp_ok h then (ESP_ERR_NO_MEM, b2) else (idf_call ^^ 8) (ESP_OK, b2))"
  have q: "quiet c (snd (body c))" for c
    using quiet_idf_next [OF prod.collapse [symmetric], of c]
      quiet_idf_calls [of "(ESP_OK, snd (idf_next c))" 8]
    by (auto simp: body_def split_def Let_def intro: quiet_trans)
  then have "keeps_wiring body" by (simp add: keeps_wiring_def quiet_def)
  moreover have "with_output_lock body b = (e, b')"
    using False assms(1)
    by (auto simp: mcp23017_read_register_def with_output_lock_def body_def Let_def
        split: prod.splits if_splits)
  ultimately have w: "same_wiring b b'" and
    "(\<exists>c c'. quiet (b\<lparr>outputBusMutex := MutexHeld\<rparr>) c \<and> body c = (e, c')
        \<and> b' = c'\<lparr>outputBusMutex := MutexFree\<rparr>)
     \<or> faulted b' \<and> bus_log b' = bus_log b"
    using with_output_lock_cases [of body b e b'] assms(2) by blast+
  from this(2) have "bus_log b' = bus_log b \<and> (faulted b \<longrightarrow> faulted b')"
  proof
    assume "\<exists>c c'. quiet (b\<lparr>outputBusMutex := MutexHeld\<rparr>) c \<and> body c = (e, c')
        \<and> b' = c'\<lparr>outputBusMutex := MutexFree\<rparr>"
    then obtain c c' where "quiet (b\<lparr>outputBusMutex := MutexHeld\<rparr>) c" "body c = (e, c')"
      and b': "b' = c'\<lparr>outputBusMutex := MutexFree\<rparr>" by blast
    with q [of c] quiet_trans have "quiet (b\<lparr>outputBusMutex := MutexHeld\<rparr>) c'" by fastforce
    with b' show ?thesis by (simp add: quiet_def)
  qed simp
  with w show ?thesis by simp
qed

lemma mcp_write_off:
  "mcp23017_write a r 0 b = (e, b') \<Longrightarrow> r \<in> {MCP_OLATA, MCP_OLATB} \<Longrightarrow>
   same_wiring b b' \<and> (faulted b \<longrightarrow> faulted b') \<and> (e \<noteq> ESP_OK \<longrightarrow> faulted b')
   \<and> (\<exists>k \<le> 1. bus_log b' = bus_log b @ take k [(a, r, relay_output_byte 0 (activeLow b))])
   \<and> (e = ESP_OK \<longrightarrow> faulted b' = faulted b
        \<and> bus_log b' = bus_log b @ [(a, r, relay_output_byte 0 (activeLow b))])"
  using mcp.until_fail_latched [of "[(a, r, relay_output_byte 0 (activeLow b))]" b e b']
    mcp.write_ok [of a r "relay_output_byte 0 (activeLow b)" b b']
    mcp.write_err [of a r "relay_output_byte 0 (activeLow b)" b e b']
    mcp.write_wiring [of a r "relay_output_byte 0 (activeLow b)" b e b']
  by (cases "e = ESP_OK") (auto simp: mcp23017_write_def)

text \<open>A group of writes to the output latches, seen from outside.\<close>

definition latch_phase :: "board \<Rightarrow> esp_err \<Rightarrow> board \<Rightarrow> reg_write list \<Rightarrow> bool" where
  "latch_phase b e b' ws \<longleftrightarrow> same_wiring b b' \<and> (faulted b \<longrightarrow> faulted b')
     \<and> (e \<noteq> ESP_OK \<longrightarrow> faulted b')
     \<and> (\<exists>l. bus_log b' = bus_log b @ l \<and> (\<forall>w \<in> set l. \<not> makes_output w))
     \<and> (e = ESP_OK \<longrightarrow> bus_log b' = bus_log b @ ws \<and> faulted b' = faulted b)"

lemma latch_phase_write:
  assumes "mcp23017_write a r 0 b = (e, b')" and "r \<in> {MCP_OLATA, MCP_OLATB}"
  shows "latch_phase b e b' [(a, r, relay_output_byte 0 (activeLow b))]"
proof -
  have "\<not> makes_output w" if "w \<in> set (take k [(a, r, v)])" for w k v
    using that assms(2) set_take_subset [of k "[(a, r, v)]"] by (auto simp: makes_output_def)
  with mcp_write_off [OF assms] show ?thesis
    unfolding latch_phase_def by blast
qed

lemma latch_phase_seq:
  assumes "latch_phase b e1 b1 ws" and "latch_phase b1 e2 b2 vs"
  shows "latch_phase b (if e1 = ESP_OK then e2 else e1) b2 (ws @ vs)"
  using assms unfolding latch_phase_def
  by (auto intro: same_wiring_trans)

lemma preload_latches_phase:
  assumes "preload_latches ESP_OK ESP_OK ESP_OK b = (e, b')"
  shows "latch_phase b e b' (preload_writes (activeLow b))"
proof -
  let ?v = "relay_output_byte 0 (activeLow b)"
  obtain e1 b1 where 1: "mcp23017_write MCP23017_1_ADDR MCP_OLATA 0 b = (e1, b1)" by fastforce
  obtain e2 b2 where 2: "mcp23017_write MCP23017_1_ADDR MCP_OLATB 0 b1 = (e2, b2)" by fastforce
  let ?c = "if e1 = ESP_OK then b2 else b1"
  obtain e3 b3 where 3: "mcp23017_write MCP23017_2_ADDR MCP_OLATA 0 ?c = (e3, b3)" by fastforce
  obtain e4 b4 where 4: "mcp23017_write MCP23017_2_ADDR MCP_OLATB 0 b3 = (e4, b4)" by fastforce
  have p1: "latch_phase b e1 b1 [(MCP23017_1_ADDR, MCP_OLATA, ?v)]"
    using latch_phase_write [OF 1] by simp
  then have al1: "activeLow b1 = activeLow b" by (simp add: latch_phase_def same_wiring_def)
  have p2: "latch_phase b1 e2 b2 [(MCP23017_1_ADDR, MCP_OLATB, ?v)]"
    using latch_phase_write [OF 2] al1 by simp
  have p12: "latch_phase b (if e1 = ESP_OK then e2 else e1) ?c
      [(MCP23017_1_ADDR, MCP_OLATA, ?v), (MCP23017_1_ADDR, MCP_OLATB, ?v)]"
    using latch_phase_seq [OF p1 p2] p1 by (auto simp: latch_phase_def)
  then have al2: "activeLow ?c = activeLow b" by (simp add: latch_phase_def same_wiring_def)
  have p3: "latch_phase ?c e3 b3 [(MCP23017_2_ADDR, MCP_OLATA, ?v)]"
    using latch_phase_write [OF 3] al2 by simp
  then have al3: "activeLow b3 = activeLow b" using al2 by (simp add: latch_phase_def same_wiring_def)
  have p4: "latch_phase b3 e4 b4 [(MCP23017_2_ADDR, MCP_OLATB, ?v)]"
    using latch_phase_write [OF 4] al3 by simp
  from 1 2 3 4 assms have "b' = b4" and
    "e = (if (if e1 = ESP_OK then e2 else e1) = ESP_OK then if e3 = ESP_OK then e4 else e3
          else if e1 = ESP_OK then e2 else e1)"
    by (auto simp: preload_latches_def Let_def split: if_splits)
  with latch_phase_seq [OF p12 latch_phase_seq [OF p3 p4]] show ?thesis
    by (simp add: preload_writes_def)
qed

text \<open>When a chip is missing, the present one is still preloaded; no direction changes.\<close>

lemma preload_latches_no_output:
  assumes "preload_latches p1 p2 ESP_OK b = (e, b')"
  shows "\<exists>ws. latch_phase b e b' ws"
proof -
  have refl: "latch_phase c ESP_OK c []" for c by (simp add: latch_phase_def)
  have w: "\<exists>ws. latch_phase c (fst (mcp23017_write a r 0 c)) (snd (mcp23017_write a r 0 c)) ws"
    if "r \<in> {MCP_OLATA, MCP_OLATB}" for a r c
    using latch_phase_write [OF prod.collapse [symmetric] that] by blast
  have seq: "\<exists>ws. latch_phase c (if e1 = ESP_OK then e2 else e1) d2 ws"
    if "\<exists>ws. latch_phase c e1 d1 ws" "\<exists>ws. latch_phase d1 e2 d2 ws" for c e1 d1 e2 d2
    using that latch_phase_seq by blast
  define chip where "chip = (\<lambda>a c. let (r, d) = mcp23017_write a MCP_OLATA 0 c
      in if r = ESP_OK then mcp23017_write a MCP_OLATB 0 d else (r, d))"
  have one: "\<exists>ws. latch_phase c (fst (chip a c)) (snd (chip a c)) ws" for a c
    using w [of MCP_OLATA c a] w [of MCP_OLATB "snd (mcp23017_write a MCP_OLATA 0 c)" a]
      seq [of c "fst (mcp23017_write a MCP_OLATA 0 c)" "snd (mcp23017_write a MCP_OLATA 0 c)"]
    by (fastforce simp: chip_def split_def Let_def split: if_splits)
  define first where "first = (if p1 = ESP_OK then chip MCP23017_1_ADDR b else (ESP_OK, b))"
  have f: "\<exists>ws. latch_phase b (fst first) (snd first) ws"
    using one refl by (auto simp: first_def)
  define A where "A = mcp23017_write MCP23017_2_ADDR MCP_OLATA 0 (snd first)"
  define B where "B = mcp23017_write MCP23017_2_ADDR MCP_OLATB 0 (snd A)"
  have ab: "\<exists>ws. latch_phase (snd first) (if fst A = ESP_OK then fst B else fst A) (snd B) ws"
  proof (rule seq [where ?d1.0 = "snd A"])
    show "\<exists>ws. latch_phase (snd first) (fst A) (snd A) ws" unfolding A_def by (rule w) simp
    show "\<exists>ws. latch_phase (snd A) (fst B) (snd B) ws" unfolding B_def by (rule w) simp
  qed
  have "preload_latches p1 p2 ESP_OK b =
      (if p2 = ESP_OK
       then (if fst first = ESP_OK then if fst A = ESP_OK then fst B else fst A else fst first, snd B)
       else first)"
    by (auto simp: preload_latches_def first_def chip_def A_def B_def split_def Let_def)
  with assms f seq [OF f ab] show ?thesis
    by (cases "p2 = ESP_OK") auto
qed

lemma output_init_facts:
  assumes "outputBusMutex b \<noteq> MutexHeld"
  shows "bus_log (mcp23017_output_init b) = bus_log b"
    "activeLow (mcp23017_output_init b) = activeLow b"
    "self_deadlock (mcp23017_output_init b) = self_deadlock b"
    "outputBusMutex (mcp23017_output_init b) \<noteq> MutexHeld"
    "faulted b \<Longrightarrow> faulted (mcp23017_output_init b)"
  using assms
  by (auto simp: mcp23017_output_init_def idf_next_def record_write_failure_def)

lemma i2c_setup_quiet: "i2c_setup b = (e, b') \<Longrightarrow> quiet b b'"
  by (auto simp: i2c_setup_def split: prod.splits if_splits
      intro: quiet_idf_next quiet_trans)

lemma record_probe_facts [simp]:
  "outputBusMutex (record_probe i ok b) = outputBusMutex b"
  "self_deadlock (record_probe i ok b) = self_deadlock b"
  "bus_log (record_probe i ok b) = bus_log b" "activeLow (record_probe i ok b) = activeLow b"
  "replies (record_probe i ok b) = replies b"
  by (auto simp: record_probe_def Let_def)

lemma record_probe_fault:
  "faulted (record_probe i ok b) = (faulted b \<or> i < 2 \<and> \<not> ok)"
  by (auto simp: record_probe_def Let_def)

lemma record_probes_found:
  "boardFound0 (record_probe 1 q (record_probe 0 p b)) = p"
  "boardFound1 (record_probe 1 q (record_probe 0 p b)) = q"
  by (auto simp: record_probe_def Let_def)

text \<open>How far \<open>fold_sequence_init\<close> came, and what it wrote by then.\<close>

definition init_log :: "board \<Rightarrow> esp_err \<Rightarrow> fold_vars \<Rightarrow> board \<Rightarrow> bool" where
  "init_log b e f' b' \<longleftrightarrow>
     (\<exists>l. bus_log b' = bus_log b @ l
        \<and> ((\<exists>w \<in> set l. makes_output w) \<longrightarrow>
             take 4 l = preload_writes (activeLow b) \<and> boardFound0 b' \<and> boardFound1 b')
        \<and> (e = ESP_OK \<longrightarrow>
             l = preload_writes (activeLow b) @ direction_writes @ all_off_writes (activeLow b)
             \<and> boardFound0 b' \<and> boardFound1 b'))"

definition init_outcome :: "board \<Rightarrow> fold_vars \<Rightarrow> esp_err \<Rightarrow> fold_vars \<Rightarrow> board \<Rightarrow> bool" where
  "init_outcome b f e f' b' \<longleftrightarrow>
     outputBusMutex b' \<noteq> MutexHeld \<and> self_deadlock b' = self_deadlock b
     \<and> faulted b' = (e \<noteq> ESP_OK) \<and> (f' = f \<or> f' = fold_reset f)
     \<and> (e = ESP_OK \<longrightarrow> f' = fold_reset f \<and> \<not> faulted b)"

lemma bring_up_phase:
  assumes run: "bring_up_outputs f b = (e, f', b')" and m: "outputBusMutex b \<noteq> MutexHeld"
    and nf: "\<not> faulted b"
  shows "init_outcome b f e f' b' \<and> same_wiring b b'
    \<and> (\<exists>l. bus_log b' = bus_log b @ l
         \<and> (e = ESP_OK \<longrightarrow> l = direction_writes @ all_off_writes (activeLow b)))"
proof -
  obtain r1 b1 where s1: "with_output_lock configure_outputs b = (r1, b1)" by fastforce
  have kw: "keeps_wiring configure_outputs"
    by (rule keeps_wiringI) (simp add: configure_outputs_alt mcp.until_fail_wiring)
  note c1 = with_output_lock_cases [OF s1 m kw]
  then have w1: "same_wiring b b1" by blast
  then have m1: "outputBusMutex b1 \<noteq> MutexHeld" using m by (simp add: same_wiring_def)
  have grows: "\<exists>l. bus_log b1 = bus_log b @ l" and err: "r1 \<noteq> ESP_OK \<longrightarrow> faulted b1"
    and ok: "r1 = ESP_OK \<longrightarrow> bus_log b1 = bus_log b @ direction_writes \<and> faulted b1 = faulted b"
    using c1 by (auto simp: configure_outputs_alt quiet_def
        dest: mcp.until_fail_latched mcp.until_fail_err mcp.until_fail_ok)
  show ?thesis
  proof (cases "r1 = ESP_OK")
    case False
    with run s1 have "e = r1" "f' = f" "b' = b1" by (auto simp: bring_up_outputs_def)
    with False w1 m1 grows err show ?thesis by (auto simp: init_outcome_def same_wiring_def)
  next
    case True
    obtain r2 b2 where s2: "fold_sequence_all_off b1 = (r2, b2)" by fastforce
    note w2 = all_off_wiring [OF s2 m1] and g2 = all_off_grows [OF s2 m1]
    have ok2: "r2 = ESP_OK \<longrightarrow> bus_log b2 = bus_log b1 @ all_off_writes (activeLow b)"
      using all_off_ok [of b1 b2] s2 m1 w1 by (auto simp: same_wiring_def)
    have f2: "faulted b2 = (r2 \<noteq> ESP_OK)"
      using all_off_latches [OF s2 m1] ok True nf by (auto simp: latches_fault_def split: if_splits)
    have "e = r2" "f' = (if r2 = ESP_OK then fold_reset f else f)" "b' = b2"
      using run s1 s2 True by (auto simp: bring_up_outputs_def split: if_splits)
    with w1 w2 m1 f2 ok2 ok True g2 nf show ?thesis
      by (auto simp: init_outcome_def same_wiring_def)
  qed
qed

lemma make_safe_phase:
  assumes run: "make_outputs_safe p1 p2 f b = (e, f', b')" and m: "outputBusMutex b \<noteq> MutexHeld"
    and probes: "\<not> (p1 = ESP_OK \<and> p2 = ESP_OK) \<longrightarrow> faulted b"
    and found: "boardFound0 b = (p1 = ESP_OK)" "boardFound1 b = (p2 = ESP_OK)"
  shows "init_outcome b f e f' b' \<and> init_log b e f' b'"
proof -
  obtain k b1 where s1: "output_lock b = (k, b1)" by fastforce
  show ?thesis
  proof (cases k)
    case False
    with run s1 have "e = ESP_ERR_INVALID_STATE" "f' = f" "b' = b1"
      by (auto simp: make_outputs_safe_def)
    with output_lock_False [of b b1] s1 False m show ?thesis
      by (auto simp: init_log_def init_outcome_def)
  next
    case True
    with s1 have lk: "outputBusMutex b = MutexFree" "quiet (b\<lparr>outputBusMutex := MutexHeld\<rparr>) b1"
      using output_lock_True [of b b1] by auto
    obtain r2 b2 where s2: "preload_latches p1 p2 ESP_OK b1 = (r2, b2)" by fastforce
    obtain ws where ph: "latch_phase b1 r2 b2 ws" using preload_latches_no_output [OF s2] by blast
    define b3 where "b3 = output_unlock True b2"
    have w3: "same_wiring b b3" and f3: "faulted b3 = faulted b2" and g3: "bus_log b3 = bus_log b2"
      using lk ph by (auto simp: b3_def output_unlock_def quiet_def same_wiring_def latch_phase_def)
    obtain l where l: "bus_log b3 = bus_log b @ l" "\<forall>w \<in> set l. \<not> makes_output w"
      using ph lk g3 by (auto simp: latch_phase_def quiet_def)
    show ?thesis
    proof (cases "r2 = ESP_OK \<and> \<not> faulted b3")
      case False
      with run s1 True s2 have "e = (if r2 = ESP_OK then ESP_FAIL else r2)" "f' = fold_reset f" "b' = b3"
        by (auto simp: make_outputs_safe_def b3_def has_fault_def)
      with False ph l w3 f3 m show ?thesis
        by (auto simp: init_log_def init_outcome_def latch_phase_def same_wiring_def)
    next
      case ok: True
      then have "\<not> faulted b" using ph lk f3 by (auto simp: latch_phase_def quiet_def)
      with probes have pp: "p1 = ESP_OK" "p2 = ESP_OK" by auto
      have log3: "bus_log b3 = bus_log b @ preload_writes (activeLow b)"
        using preload_latches_phase [of b1 r2 b2] s2 pp ok lk g3
        by (auto simp: latch_phase_def quiet_def same_wiring_def)
      have "bring_up_outputs f b3 = (e, f', b')"
        using run s1 True s2 ok by (auto simp: make_outputs_safe_def b3_def has_fault_def)
      with bring_up_phase [of f b3 e f' b'] ok m w3 have
        bp: "init_outcome b3 f e f' b'" "same_wiring b3 b'"
          "\<exists>l. bus_log b' = bus_log b3 @ l
             \<and> (e = ESP_OK \<longrightarrow> l = direction_writes @ all_off_writes (activeLow b))"
        by (auto simp: same_wiring_def)
      from bp(3) log3 obtain l where lb: "bus_log b' = bus_log b @ preload_writes (activeLow b) @ l"
        and le: "e = ESP_OK \<longrightarrow> l = direction_writes @ all_off_writes (activeLow b)" by auto
      have fb: "boardFound0 b'" "boardFound1 b'"
        using bp(2) w3 pp found by (simp_all add: same_wiring_def)
      have "take 4 (preload_writes (activeLow b) @ l) = preload_writes (activeLow b)"
        by (simp add: preload_writes_def)
      with lb le fb have "init_log b e f' b'"
        unfolding init_log_def by (intro exI [of _ "preload_writes (activeLow b) @ l"]) simp
      moreover have "init_outcome b f e f' b'"
        using bp(1) w3 \<open>\<not> faulted b\<close> by (simp add: init_outcome_def same_wiring_def)
      ultimately show ?thesis by simp
    qed
  qed
qed

lemma init_phase:
  assumes init: "fold_sequence_init f b = (e, f', b')" and m: "outputBusMutex b \<noteq> MutexHeld"
  shows "init_outcome b f e f' b' \<and> init_log b e f' b'"
proof -
  obtain r1 b1 where s1: "i2c_setup (mcp23017_output_init b) = (r1, b1)" by fastforce
  note f0 = output_init_facts [OF m] and q1 = i2c_setup_quiet [OF s1]
  have m1: "outputBusMutex b1 \<noteq> MutexHeld" using q1 f0 by (simp add: quiet_def same_wiring_def)
  show ?thesis
  proof (cases "r1 = ESP_OK")
    case False
    with init s1 have "e = r1" "f' = f" "b' = record_probe 1 False (record_probe 0 False b1)"
      by (auto simp: fold_sequence_init_def)
    with False q1 f0 show ?thesis
      by (auto simp: quiet_def same_wiring_def record_probe_fault init_log_def init_outcome_def)
  next
    case True
    obtain p1 b2 where s2: "mcp23017_read_register MCP23017_1_ADDR MCP_IODIRA b1 = (p1, b2)"
      by fastforce
    obtain p2 b3 where s3: "mcp23017_read_register MCP23017_2_ADDR MCP_IODIRA b2 = (p2, b3)"
      by fastforce
    note w2 = read_register_quiet [OF s2 m1]
    have m2: "outputBusMutex b2 \<noteq> MutexHeld" using w2 m1 by (simp add: same_wiring_def)
    note w3 = read_register_quiet [OF s3 m2]
    define b4 where "b4 = record_probe 1 (p2 = ESP_OK) (record_probe 0 (p1 = ESP_OK) b3)"
    have "make_outputs_safe p1 p2 f b4 = (e, f', b')"
      using init s1 True s2 s3 by (simp add: fold_sequence_init_def b4_def)
    moreover have "outputBusMutex b4 \<noteq> MutexHeld"
      using w3 m2 by (simp add: b4_def same_wiring_def)
    moreover have "\<not> (p1 = ESP_OK \<and> p2 = ESP_OK) \<longrightarrow> faulted b4"
      by (simp add: b4_def record_probe_fault)
    moreover have "boardFound0 b4 = (p1 = ESP_OK)" "boardFound1 b4 = (p2 = ESP_OK)"
      by (simp_all add: b4_def record_probes_found del: One_nat_def)
    ultimately have "init_outcome b4 f e f' b' \<and> init_log b4 e f' b'"
      by (rule make_safe_phase)
    moreover have "bus_log b4 = bus_log b" "activeLow b4 = activeLow b"
      "self_deadlock b4 = self_deadlock b"
      using w2 w3 q1 f0 by (auto simp: b4_def quiet_def same_wiring_def)
    moreover have "faulted b4" if "faulted b"
      using f0(5) [OF that] q1 w2 w3 by (simp add: b4_def record_probe_fault quiet_def)
    ultimately show ?thesis by (auto simp: init_log_def init_outcome_def)
  qed
qed

section \<open>Runs of the module\<close>

text \<open>The public operations, in any order, on the module variables and the board.\<close>

datatype fold_op =
    OpInit | OpStartFold | OpStartUnfold | OpNext | OpPrev | OpCancel | OpApply | OpAllOff
  | OpFoldAction u8 | OpUnfoldAction u8

fun fold_op_step :: "fold_op \<Rightarrow> fold_vars \<times> board \<Rightarrow> fold_vars \<times> board" where
  "fold_op_step OpInit (f, b) = snd (fold_sequence_init f b)"
| "fold_op_step OpStartFold (f, b) = snd (fold_sequence_start_fold f b)"
| "fold_op_step OpStartUnfold (f, b) = snd (fold_sequence_start_unfold f b)"
| "fold_op_step OpNext (f, b) = snd (fold_sequence_next_step f b)"
| "fold_op_step OpPrev (f, b) = snd (fold_sequence_prev_step f b)"
| "fold_op_step OpCancel (f, b) = snd (fold_sequence_cancel f b)"
| "fold_op_step OpApply (f, b) = (f, snd (fold_sequence_apply_current_step f b))"
| "fold_op_step OpAllOff (f, b) = (f, snd (fold_sequence_all_off b))"
| "fold_op_step (OpFoldAction i) (f, b) = snd (fold_sequence_activate_fold_action i f b)"
| "fold_op_step (OpUnfoldAction i) (f, b) = snd (fold_sequence_activate_unfold_action i f b)"

definition fold_inv :: "fold_vars \<times> board \<Rightarrow> bool" where
  "fold_inv s \<longleftrightarrow> step_in_table (fst s) \<and> outputBusMutex (snd s) \<noteq> MutexHeld"

lemma fold_op_step_latches:
  assumes "fold_inv s" and "oper \<noteq> OpInit"
  shows "step_in_table (fst (fold_op_step oper s)) \<and> (\<exists>e. latches_fault (snd s) e (snd (fold_op_step oper s)))"
proof -
  obtain f b where s: "s = (f, b)" by (cases s)
  with assms have f: "step_in_table f" and m: "outputBusMutex b \<noteq> MutexHeld"
    by (auto simp: fold_inv_def)
  show ?thesis
  proof (cases oper)
    case OpInit
    with assms(2) show ?thesis by simp
  next
    case OpStartFold
    with s start_latches [OF _ m] show ?thesis
      by (cases "fold_sequence_start_fold f b") (fastforce simp: fold_sequence_start_fold_def)
  next
    case OpStartUnfold
    with s start_latches [OF _ m] show ?thesis
      by (cases "fold_sequence_start_unfold f b") (fastforce simp: fold_sequence_start_unfold_def)
  next
    case OpNext
    with s next_latches [OF _ m f] show ?thesis by (cases "fold_sequence_next_step f b") fastforce+
  next
    case OpPrev
    with s prev_latches [OF _ m f] show ?thesis by (cases "fold_sequence_prev_step f b") fastforce+
  next
    case OpCancel
    with s cancel_latches [OF _ m] show ?thesis by (cases "fold_sequence_cancel f b") fastforce+
  next
    case OpApply
    with s f apply_step_latches [OF _ m] show ?thesis
      by (cases "fold_sequence_apply_current_step f b") fastforce+
  next
    case OpAllOff
    with s f all_off_latches [OF _ m] show ?thesis by (cases "fold_sequence_all_off b") fastforce+
  next
    case (OpFoldAction i)
    with s activate_latches [OF _ m] activate_step_in_table [OF _ m f] show ?thesis
      by (cases "fold_sequence_activate_fold_action i f b")
        (fastforce simp: fold_sequence_activate_fold_action_def)+
  next
    case (OpUnfoldAction i)
    with s activate_latches [OF _ m] activate_step_in_table [OF _ m f] show ?thesis
      by (cases "fold_sequence_activate_unfold_action i f b")
        (fastforce simp: fold_sequence_activate_unfold_action_def)+
  qed
qed

text \<open>The bring-up may run again at any time: it keeps the same promises, except that it
  records which chips it found and may create the lock.\<close>

lemma init_keeps:
  assumes "fold_inv (f, b)"
  shows "fold_inv (fold_op_step OpInit (f, b))"
    and "self_deadlock (snd (fold_op_step OpInit (f, b))) = self_deadlock b"
    and "faulted b \<Longrightarrow> faulted (snd (fold_op_step OpInit (f, b)))"
proof -
  obtain e f' b' where i: "fold_sequence_init f b = (e, f', b')" by (metis prod_cases3)
  have "init_outcome b f e f' b'" using init_phase [OF i] assms by (simp add: fold_inv_def)
  then show "fold_inv (fold_op_step OpInit (f, b))"
    "self_deadlock (snd (fold_op_step OpInit (f, b))) = self_deadlock b"
    "faulted b \<Longrightarrow> faulted (snd (fold_op_step OpInit (f, b)))"
    using i assms by (auto simp: init_outcome_def fold_inv_def)
qed

lemma fold_op_step_facts:
  assumes "fold_inv s"
  shows "fold_inv (fold_op_step oper s)"
    and "oper \<noteq> OpInit \<Longrightarrow> same_wiring (snd s) (snd (fold_op_step oper s))"
    and "self_deadlock (snd (fold_op_step oper s)) = self_deadlock (snd s)"
    and "faulted (snd s) \<Longrightarrow> faulted (snd (fold_op_step oper s))"
proof -
  have other: "fold_inv (fold_op_step oper s) \<and> same_wiring (snd s) (snd (fold_op_step oper s))
      \<and> (faulted (snd s) \<longrightarrow> faulted (snd (fold_op_step oper s)))" if "oper \<noteq> OpInit"
    using fold_op_step_latches [OF assms that] assms
    by (auto simp: fold_inv_def dest: latches_fault_mutex latches_fault_wiring latches_fault_mono)
  note init = init_keeps [of "fst s" "snd s", unfolded prod.collapse, OF assms]
  show "fold_inv (fold_op_step oper s)"
    "oper \<noteq> OpInit \<Longrightarrow> same_wiring (snd s) (snd (fold_op_step oper s))"
    "self_deadlock (snd (fold_op_step oper s)) = self_deadlock (snd s)"
    "faulted (snd s) \<Longrightarrow> faulted (snd (fold_op_step oper s))"
    using other init by (cases "oper = OpInit"; simp add: same_wiring_def)+
qed

text \<open>C21: Every sequence of operations of the fold module (bring-up, starting and stepping
  either sequence, cancelling, applying the current step, all-off and the single fold and unfold
  actions, in any order and for any replies of the bus), started with the bus lock free and the
  step counter inside the tables (as both are at power on), keeps the row index read from the
  solenoid tables inside them; the lock is free again after every operation, no operation waits
  for a lock it holds itself, and a fault of the output board is never cleared.\<close>

theorem fold_run_safe:
  assumes "step_in_table f" and "lock_free b"
    and "run = fold fold_op_step ops (f, b)"
  shows "step_in_table (fst run) \<and> lock_free (snd run) \<and> (faulted b \<longrightarrow> faulted (snd run))"
  using assms
proof (induction ops arbitrary: f b run)
  case Nil
  then show ?case by simp
next
  case (Cons oper ops)
  obtain f1 b1 where st: "fold_op_step oper (f, b) = (f1, b1)" by fastforce
  have inv: "fold_inv (f, b)" using Cons.prems by (simp add: fold_inv_def lock_free_def)
  note facts = fold_op_step_facts [OF inv, of oper]
  have "step_in_table f1" "lock_free b1"
    using facts(1,3) st Cons.prems(2) by (auto simp: fold_inv_def lock_free_def)
  with Cons.IH [of f1 b1 run] Cons.prems(3) st facts(4) show ?case by auto
qed

text \<open>A board whose driver calls all succeed, for the closed instances.\<close>

definition good_reply :: idf_reply where
  "good_reply = \<lparr>rp_code = ESP_OK, rp_ok = True, rp_latched = False\<rparr>"

definition fresh_board :: "(nat \<Rightarrow> idf_reply) \<Rightarrow> board" where
  "fresh_board rs = \<lparr>replies = rs, reply_pos = 0, outputBusMutex = NoMutex, self_deadlock = False,
     boardFound0 = False, boardFound1 = False, faulted = False, activeLow = False, bus_log = []\<rparr>"

definition ready_board :: board where
  "ready_board = (fresh_board (\<lambda>_. good_reply))\<lparr>outputBusMutex := MutexFree,
     boardFound0 := True, boardFound1 := True\<rparr>"

lemmas ready_defs = ready_board_def fresh_board_def good_reply_def

theorem fold_run_safe_witness:
  "step_in_table fold_vars_init \<and> lock_free (fresh_board (\<lambda>_. good_reply)) \<and>
   lock_free (snd (fold fold_op_step [OpInit, OpFoldAction 2, OpNext, OpInit, OpCancel]
     (fold_vars_init, fresh_board (\<lambda>_. good_reply))))"
proof -
  have 1: "step_in_table fold_vars_init" by (simp add: step_in_table_def fold_vars_init_def)
  have 2: "lock_free (fresh_board (\<lambda>_. good_reply))" by (simp add: lock_free_def ready_defs)
  show ?thesis using 1 2 fold_run_safe [OF 1 2 refl] by blast
qed

text \<open>C9: A fold or unfold action that is activated without error has first switched every
  solenoid off (all four ports of both chips) and then written exactly the row of the table that
  belongs to the action; afterwards each of the eighteen solenoids is energised exactly when the
  table says so, for either relay polarity.\<close>

theorem activation_drives_row:
  assumes "lock_free b" and "1 \<le> i" and "i \<le> 6" and "n < 18"
    and "(activate, st, table) \<in> {(fold_sequence_activate_fold_action, FOLD_ACTIVE, FOLD_STATES),
           (fold_sequence_activate_unfold_action, UNFOLD_ACTIVE, UNFOLD_STATES)}"
    and "activate i f b = (ESP_OK, f', b')"
  shows "f' = f\<lparr>currentState := st, currentStep := i - 1\<rparr> \<and> faulted b' = faulted b
    \<and> bus_log b' = bus_log b @ all_off_writes (activeLow b)
         @ solenoid_writes (table ! unat (i - 1)) (activeLow b)
    \<and> solenoid_on b' n = table ! unat (i - 1) ! n"
proof -
  have act: "activate_action st table i f b = (ESP_OK, f', b')"
    using assms(5,6)
    by (auto simp: fold_sequence_activate_fold_action_def fold_sequence_activate_unfold_action_def)
  have m: "outputBusMutex b \<noteq> MutexHeld" using assms(1) by (simp add: lock_free_def)
  show ?thesis
  proof (rule activate_cases [OF act m assms(2,3)])
    assume l: "latches_fault b ESP_OK b'"
      and f': "f' = f\<lparr>currentState := st, currentStep := i - 1\<rparr>"
      and log: "bus_log b' = bus_log b @ all_off_writes (activeLow b)
           @ solenoid_writes (table ! unat (i - 1)) (activeLow b)"
    have al: "activeLow b' = activeLow b" using l by (simp add: latches_fault_def same_wiring_def)
    have "solenoid_on b' n = table ! unat (i - 1) ! n"
      using log al assms(4)
      by (intro solenoid_on_states [where ws = "bus_log b @ all_off_writes (activeLow b)"]) simp_all
    with l f' log show ?thesis by (simp add: latches_fault_def)
  qed simp_all
qed

theorem activation_drives_row_witness:
  "solenoid_on (snd (snd (fold_sequence_activate_fold_action 2 fold_vars_init ready_board))) 8"
proof -
  have 1: "lock_free ready_board" by (simp add: lock_free_def ready_defs)
  have "fst (fold_sequence_activate_fold_action 2 fold_vars_init ready_board) = ESP_OK"
    by code_simp
  then obtain f' b' where
    2: "fold_sequence_activate_fold_action 2 fold_vars_init ready_board = (ESP_OK, f', b')"
    by (cases "fold_sequence_activate_fold_action 2 fold_vars_init ready_board") auto
  show ?thesis
    using activation_drives_row [of ready_board 2 8 fold_sequence_activate_fold_action FOLD_ACTIVE
        FOLD_STATES, OF 1 _ _ _ _ 2] 2
    by (simp add: FOLD_STATES_def)
qed

text \<open>C37: Every failure of a hydraulic operation is latched: when activating an action,
  starting a sequence or cancelling returns an error, the board's fault flag is raised and the
  module is back in state idle, step 0. The one exception is the activation of an action whose
  preliminary all-off already failed, which leaves the module's state as it was. A cancel that
  succeeds leaves no solenoid energised, and activating an action that does not exist is a
  cancel.\<close>

theorem failures_latch_fault:
  assumes "lock_free b"
    and "oper \<in> {fold_sequence_activate_fold_action i, fold_sequence_activate_unfold_action i,
           fold_sequence_start_fold, fold_sequence_start_unfold, fold_sequence_cancel}"
    and "oper f b = (e, f', b')"
  shows "(e \<noteq> ESP_OK \<longrightarrow> faulted b'
      \<and> (oper \<in> {fold_sequence_activate_fold_action i, fold_sequence_activate_unfold_action i} \<longrightarrow>
           f' = (if 1 \<le> i \<and> i \<le> 6 \<and> fst (fold_sequence_all_off b) \<noteq> ESP_OK then f else fold_reset f))
      \<and> (oper \<in> {fold_sequence_start_fold, fold_sequence_start_unfold, fold_sequence_cancel} \<longrightarrow> f' = fold_reset f))
    \<and> (oper = fold_sequence_cancel \<longrightarrow>
         f' = fold_reset f \<and> (e = ESP_OK \<longrightarrow> (\<forall>n. \<not> solenoid_on b' n)))
    \<and> (\<not> (1 \<le> i \<and> i \<le> 6) \<longrightarrow> fold_sequence_activate_fold_action i = fold_sequence_cancel
         \<and> fold_sequence_activate_unfold_action i = fold_sequence_cancel)"
proof -
  have m: "outputBusMutex b \<noteq> MutexHeld" using assms(1) by (simp add: lock_free_def)
  have out: "activate_action st table i = fold_sequence_cancel" if "\<not> (1 \<le> i \<and> i \<le> 6)" for st table
    using that by (intro ext activate_out_of_range) (auto simp: not_le)
  have act: "e \<noteq> ESP_OK \<longrightarrow> faulted b'
      \<and> f' = (if 1 \<le> i \<and> i \<le> 6 \<and> fst (fold_sequence_all_off b) \<noteq> ESP_OK then f else fold_reset f)"
    if a: "activate_action st table i f b = (e, f', b')" for st table
  proof (cases "1 \<le> i \<and> i \<le> 6")
    case True
    then have "\<not> (i < 1 \<or> i > 6)" by auto
    then have "e \<noteq> ESP_OK \<longrightarrow> f' = (if fst (fold_sequence_all_off b) \<noteq> ESP_OK then f else fold_reset f)"
      using a by (auto simp: activate_action_def fold_reset_def Let_def split: prod.splits if_splits)
    then show ?thesis using activate_latches [OF a m] True by (simp add: latches_fault_def)
  next
    case False
    with a out cancel_latches [OF _ m] show ?thesis by (auto simp: latches_fault_def)
  qed
  have start: "e \<noteq> ESP_OK \<longrightarrow> faulted b' \<and> f' = fold_reset f"
    if "start_sequence st f b = (e, f', b')" for st
    using start_latches [OF that m] that
    by (auto simp: latches_fault_def start_sequence_def Let_def fold_reset_def split: prod.splits if_splits)
  have cancel: "latches_fault b e b' \<and> f' = fold_reset f \<and> (e = ESP_OK \<longrightarrow> (\<forall>n. \<not> solenoid_on b' n))"
    if "fold_sequence_cancel f b = (e, f', b')"
    using cancel_latches [OF that m] that all_off_ok [of b b', OF _ m]
    by (auto simp: fold_sequence_cancel_def latches_fault_def same_wiring_def
        split: prod.splits intro!: solenoid_on_all_off dest!: spec)
  have a: "e \<noteq> ESP_OK \<longrightarrow> faulted b'
      \<and> f' = (if 1 \<le> i \<and> i \<le> 6 \<and> fst (fold_sequence_all_off b) \<noteq> ESP_OK then f else fold_reset f)"
    if "oper \<in> {fold_sequence_activate_fold_action i, fold_sequence_activate_unfold_action i}"
    using that assms(3) act by (auto simp: fold_sequence_activate_fold_action_def fold_sequence_activate_unfold_action_def)
  have s: "e \<noteq> ESP_OK \<longrightarrow> faulted b' \<and> f' = fold_reset f"
    if "oper \<in> {fold_sequence_start_fold, fold_sequence_start_unfold, fold_sequence_cancel}"
    using that assms(3) start cancel
    by (auto simp: fold_sequence_start_fold_def fold_sequence_start_unfold_def latches_fault_def)
  have c: "f' = fold_reset f \<and> (e = ESP_OK \<longrightarrow> (\<forall>n. \<not> solenoid_on b' n))" if "oper = fold_sequence_cancel"
    using cancel assms(3) that by simp
  have o: "\<not> (1 \<le> i \<and> i \<le> 6) \<longrightarrow> fold_sequence_activate_fold_action i = fold_sequence_cancel
         \<and> fold_sequence_activate_unfold_action i = fold_sequence_cancel"
    using out by (simp add: fold_sequence_activate_fold_action_def [abs_def] fold_sequence_activate_unfold_action_def [abs_def])
  have "e \<noteq> ESP_OK \<longrightarrow> faulted b'" using assms(2) a s by blast
  then show ?thesis using a s c o by blast
qed

text \<open>A board whose semaphore works and whose every I2C transaction fails.\<close>

definition dead_bus :: board where
  "dead_bus = ready_board\<lparr>replies := \<lambda>_. good_reply\<lparr>rp_code := ESP_FAIL\<rparr>\<rparr>"

theorem failures_latch_fault_witness:
  "faulted (snd (snd (fold_sequence_activate_unfold_action 3 fold_vars_init dead_bus)))"
proof -
  have 1: "lock_free dead_bus" by (simp add: lock_free_def dead_bus_def ready_defs)
  have "fst (fold_sequence_activate_unfold_action 3 fold_vars_init dead_bus) = ESP_FAIL"
    by code_simp
  then obtain f' b' where
    2: "fold_sequence_activate_unfold_action 3 fold_vars_init dead_bus = (ESP_FAIL, f', b')"
    by (cases "fold_sequence_activate_unfold_action 3 fold_vars_init dead_bus") auto
  show ?thesis
    using failures_latch_fault [of dead_bus "fold_sequence_activate_unfold_action 3" 3
        fold_vars_init ESP_FAIL f' b'] 1 2
    by simp
qed

text \<open>C15: The initialisation of the outputs reports success exactly when no fault is latched.
  A port is only made an output after all four output latches were loaded with the logical
  off value and both chips were found; on success the module is idle, the bus lock is free, and
  the writes were the latches, the directions and a final all-off, in this order.\<close>

theorem init_latches_before_directions:
  assumes "fold_sequence_init f b = (e, f', b')" and "lock_free b"
  shows "lock_free b' \<and> faulted b' = (e \<noteq> ESP_OK) \<and> (e = ESP_OK \<longrightarrow> f' = fold_reset f)
    \<and> (\<exists>l. bus_log b' = bus_log b @ l
        \<and> ((\<exists>w \<in> set l. makes_output w) \<longrightarrow>
             take 4 l = preload_writes (activeLow b) \<and> boardFound0 b' \<and> boardFound1 b')
        \<and> (e = ESP_OK \<longrightarrow>
             l = preload_writes (activeLow b) @ direction_writes @ all_off_writes (activeLow b)
             \<and> boardFound0 b' \<and> boardFound1 b'))"
proof -
  have m: "outputBusMutex b \<noteq> MutexHeld" using assms(2) by (simp add: lock_free_def)
  show ?thesis
    using init_phase [OF assms(1) m] assms(2)
    by (simp add: init_outcome_def init_log_def lock_free_def)
qed

theorem init_latches_before_directions_witness:
  "length (bus_log (snd (snd (fold_sequence_init fold_vars_init (fresh_board (\<lambda>_. good_reply)))))) = 12"
proof -
  let ?b = "fresh_board (\<lambda>_. good_reply)"
  have 1: "lock_free ?b" by (simp add: lock_free_def ready_defs)
  have "fst (fold_sequence_init fold_vars_init ?b) = ESP_OK"
    by code_simp
  then obtain f' b' where 2: "fold_sequence_init fold_vars_init ?b = (ESP_OK, f', b')"
    by (cases "fold_sequence_init fold_vars_init ?b") auto
  show ?thesis
    using init_latches_before_directions [OF 2 1] 2
    by (auto simp: preload_writes_def direction_writes_def all_off_writes_def ready_defs)
qed

text \<open>Pressing \<open>NEXT\<close> repeatedly.\<close>

definition press_next :: "nat \<Rightarrow> fold_vars \<times> board \<Rightarrow> fold_vars \<times> board" where
  "press_next n = (\<lambda>(f, b). snd (fold_sequence_next_step f b)) ^^ n"

lemma press_next_Suc: "press_next (Suc n) s =
    snd (fold_sequence_next_step (fst (press_next n s)) (snd (press_next n s)))"
  by (simp add: press_next_def split_def)

lemma press_next_0 [simp]: "press_next 0 s = s"
  by (simp add: press_next_def)

lemma next_step_advance:
  assumes "currentState f \<in> {FOLD_ACTIVE, UNFOLD_ACTIVE}" and "currentStep f < 5"
  shows "fst (fold_sequence_next_step f b) = False"
    and "fst (snd (fold_sequence_next_step f b)) = f\<lparr>currentStep := currentStep f + 1\<rparr>"
  using assms by (auto simp: fold_sequence_next_step_def Let_def split: prod.splits)

lemma press_next_state:
  assumes "currentState f \<in> {FOLD_ACTIVE, UNFOLD_ACTIVE}" and "currentStep f = 0" and "k \<le> 5"
  shows "fst (press_next k (f, b)) = f\<lparr>currentStep := of_nat k\<rparr>"
  using assms(3)
proof (induction k)
  case 0
  then show ?case using assms(2) by simp
next
  case (Suc k)
  then have IH: "fst (press_next k (f, b)) = f\<lparr>currentStep := of_nat k\<rparr>" by simp
  have "(of_nat k :: u8) < 5"
    using Suc.prems by (simp add: word_less_nat_alt unat_of_nat_u8)
  with assms(1) show ?case
    by (simp add: press_next_Suc IH next_step_advance add.commute)
qed

lemma press_next_wiring:
  "fold_inv s \<Longrightarrow> fold_inv (press_next k s) \<and> same_wiring (snd s) (snd (press_next k s))"
proof (induction k)
  case 0
  then show ?case by simp
next
  case (Suc k)
  have "press_next (Suc k) s = fold_op_step OpNext (press_next k s)"
    by (cases "press_next k s") (simp add: press_next_Suc)
  with Suc fold_op_step_facts(1,2) [of "press_next k s" OpNext] show ?case
    by (auto intro: same_wiring_trans)
qed

theorem sixth_next_completes:
  assumes "currentState f \<in> {FOLD_ACTIVE, UNFOLD_ACTIVE}" and "currentStep f = 0" and "lock_free b"
  shows "(\<forall>k < 5. \<not> fst (fold_sequence_next_step (fst (press_next k (f, b))) (snd (press_next k (f, b))))
           \<and> fst (press_next (Suc k) (f, b)) = f\<lparr>currentStep := of_nat (Suc k)\<rparr>)
    \<and> (let (fin, f', b') = fold_sequence_next_step (fst (press_next 5 (f, b))) (snd (press_next 5 (f, b)))
       in currentState f' = SEQ_COMPLETE
          \<and> fin = (fst (fold_sequence_all_off (snd (press_next 5 (f, b)))) = ESP_OK)
          \<and> (fin \<longrightarrow> (\<forall>n. \<not> solenoid_on b' n)) \<and> (\<not> fin \<longrightarrow> faulted b'))"
proof -
  have lt: "(of_nat k :: u8) < 5" if "k < 5" for k
    using that by (simp add: word_less_nat_alt unat_of_nat_u8)
  have a: "\<not> fst (fold_sequence_next_step (fst (press_next k (f, b))) (snd (press_next k (f, b))))
      \<and> fst (press_next (Suc k) (f, b)) = f\<lparr>currentStep := of_nat (Suc k)\<rparr>" if "k < 5" for k
    using that assms(1) lt press_next_state [OF assms(1,2), of k b]
      press_next_state [OF assms(1,2), of "Suc k" b]
    by (simp add: next_step_advance)
  obtain f5 b5 where p5: "press_next 5 (f, b) = (f5, b5)" by fastforce
  then have f5: "f5 = f\<lparr>currentStep := 5\<rparr>" using press_next_state [OF assms(1,2), of 5 b] by simp
  have "fold_inv (f, b)"
    using assms(2,3) by (simp add: fold_inv_def step_in_table_def lock_free_def)
  then have m5: "outputBusMutex b5 \<noteq> MutexHeld"
    using press_next_wiring [of "(f, b)" 5] p5 by (simp add: fold_inv_def)
  obtain r b6 where off: "fold_sequence_all_off b5 = (r, b6)" by fastforce
  have nx: "fold_sequence_next_step f5 b5 = (r = ESP_OK, f5\<lparr>currentState := SEQ_COMPLETE\<rparr>, b6)"
    using assms(1) off by (auto simp: fold_sequence_next_step_def f5)
  have "r = ESP_OK \<Longrightarrow> \<not> solenoid_on b6 n" for n
    using all_off_ok [of b5 b6] all_off_wiring [OF off m5] off m5
    by (intro solenoid_on_all_off [of b6 "bus_log b5"]) (simp add: same_wiring_def)
  with a nx off p5 all_off_err [OF off m5] show ?thesis by simp
qed

theorem sixth_next_completes_witness:
  "currentState (fst (press_next 6 (\<lparr>currentState = FOLD_ACTIVE, currentStep = 0\<rparr>, ready_board)))
     = SEQ_COMPLETE"
proof -
  let ?f = "\<lparr>currentState = FOLD_ACTIVE, currentStep = 0\<rparr>"
  have 1: "currentState ?f \<in> {FOLD_ACTIVE, UNFOLD_ACTIVE}" "currentStep ?f = 0" by simp_all
  have 2: "lock_free ready_board" by (simp add: lock_free_def ready_defs)
  have "press_next 6 (?f, ready_board) = snd (fold_sequence_next_step
      (fst (press_next 5 (?f, ready_board))) (snd (press_next 5 (?f, ready_board))))"
    using press_next_Suc [of 5] by simp
  with sixth_next_completes [OF 1 2] show ?thesis by (auto simp: Let_def split: prod.splits)
qed

end
