(* ===== verification/Plant_Control.thy ===== *)
theory Plant_Control
  imports Fold_Sequence
begin

text \<open>
  Plant modes, \<open>examples/1200PT/src/plant_control.cpp\<close>: lifting and lowering the planter
  with the same solenoids as the fold sequence, the module variable \<open>currentStatus\<close>
  and every function of the file.
\<close>

section \<open>State and tables\<close>

datatype PlantMode = PLANT_IDLE | LIMITED_LIFT | FULL_LIFT | LOWERED

record plant_status =
  currentMode :: PlantMode
  sensorSBinEmpty :: bool
  isTransitioning :: bool

definition plant_status_init :: plant_status where
  "plant_status_init = \<lparr>currentMode = PLANT_IDLE, sensorSBinEmpty = False, isTransitioning = False\<rparr>"

definition PLANT_LIMITED_LIFT_STATES :: solenoids where
  "PLANT_LIMITED_LIFT_STATES =
    [True, True, True, True, False, False, True, False, False, False, False, True, False, False, False, True, True, True]"

definition PLANT_FULL_LIFT_STATES :: solenoids where
  "PLANT_FULL_LIFT_STATES =
    [True, True, True, True, False, False, True, False, False, False, False, True, False, False, False, True, True, True]"

definition PLANT_LOWERED_STATES :: solenoids where
  "PLANT_LOWERED_STATES =
    [False, False, False, False, False, False, False, False, False, False, False, False, False, False, False, False, False, False]"

section \<open>Writing the solenoids\<close>

definition mcp23017_write_plant :: "u8 \<Rightarrow> u8 \<Rightarrow> u8 \<Rightarrow> board \<Rightarrow> esp_err \<times> board" where
  "mcp23017_write_plant address reg value b =
     mcp23017_write_register_locked address reg
       (if reg = MCP_GPIOA \<or> reg = MCP_GPIOB then relay_output_byte value (activeLow b) else value) b"

definition write_plant_all_off_locked :: "board \<Rightarrow> esp_err \<times> board" where
  "write_plant_all_off_locked b =
     (let (portAResult, b1) = mcp23017_write_plant MCP23017_1_ADDR MCP_GPIOA 0 b;
          (portBResult, b2) = mcp23017_write_plant MCP23017_1_ADDR MCP_GPIOB 0 b1;
          (secondPortResult, b3) = mcp23017_write_plant MCP23017_2_ADDR MCP_GPIOA 0 b2;
          result0 = ESP_OK;
          result1 = (if portAResult \<noteq> ESP_OK then portAResult else result0);
          result2 = (if result1 = ESP_OK \<and> portBResult \<noteq> ESP_OK then portBResult else result1);
          result3 = (if result2 = ESP_OK \<and> secondPortResult \<noteq> ESP_OK then secondPortResult else result2)
      in (result3, b3))"

definition write_plant_states_locked :: "u8 \<Rightarrow> u8 \<Rightarrow> u8 \<Rightarrow> board \<Rightarrow> esp_err \<times> board" where
  \<comment> \<open>the locked part of \<open>apply_plant_solenoid_states\<close>\<close>
  "write_plant_states_locked mcp1_portA mcp1_portB mcp2_portA b =
     (let (r1, b1) = mcp23017_write_plant MCP23017_1_ADDR MCP_GPIOA mcp1_portA b;
          (r2, b2) = (if r1 = ESP_OK then mcp23017_write_plant MCP23017_1_ADDR MCP_GPIOB mcp1_portB b1
                      else (r1, b1));
          (r3, b3) = (if r2 = ESP_OK then mcp23017_write_plant MCP23017_2_ADDR MCP_GPIOA mcp2_portA b2
                      else (r2, b2))
      in (r3, if r3 \<noteq> ESP_OK then snd (write_plant_all_off_locked b3) else b3))"

definition apply_plant_solenoid_states :: "solenoids \<Rightarrow> board \<Rightarrow> esp_err \<times> board" where
  "apply_plant_solenoid_states states b =
     with_output_lock
       (write_plant_states_locked (port_byte states 0 8) (port_byte states 8 8) (port_byte states 16 2)) b"

section \<open>Operations\<close>

definition plant_control_all_off :: "board \<Rightarrow> esp_err \<times> board" where
  "plant_control_all_off b = with_output_lock write_plant_all_off_locked b"

definition plant_control_init :: "plant_status \<Rightarrow> board \<Rightarrow> esp_err \<times> plant_status \<times> board" where
  "plant_control_init p b =
     (let p1 = p\<lparr>currentMode := PLANT_IDLE, sensorSBinEmpty := False, isTransitioning := False\<rparr>
      in if has_fault b then (ESP_FAIL, p1, b)
         else (let (r, b1) = plant_control_all_off b in (r, p1, b1)))"

definition set_plant_mode ::
    "PlantMode \<Rightarrow> solenoids \<Rightarrow> plant_status \<Rightarrow> board \<Rightarrow> esp_err \<times> plant_status \<times> board" where
  \<comment> \<open>the common text of the three mode functions\<close>
  "set_plant_mode mode states p b =
     (let p1 = p\<lparr>isTransitioning := True, currentMode := mode\<rparr>;
          (result, b1) = apply_plant_solenoid_states states b
      in (result, p1\<lparr>isTransitioning := False\<rparr>, b1))"

definition plant_control_set_limited_lift :: "plant_status \<Rightarrow> board \<Rightarrow> esp_err \<times> plant_status \<times> board" where
  "plant_control_set_limited_lift = set_plant_mode LIMITED_LIFT PLANT_LIMITED_LIFT_STATES"

definition plant_control_set_full_lift :: "plant_status \<Rightarrow> board \<Rightarrow> esp_err \<times> plant_status \<times> board" where
  "plant_control_set_full_lift = set_plant_mode FULL_LIFT PLANT_FULL_LIFT_STATES"

definition plant_control_set_lowered :: "plant_status \<Rightarrow> board \<Rightarrow> esp_err \<times> plant_status \<times> board" where
  "plant_control_set_lowered = set_plant_mode LOWERED PLANT_LOWERED_STATES"

definition plant_control_update_sbin :: "bool \<Rightarrow> plant_status \<Rightarrow> plant_status" where
  "plant_control_update_sbin isEmpty p = p\<lparr>sensorSBinEmpty := isEmpty\<rparr>"

fun mode_states :: "PlantMode \<Rightarrow> solenoids" where
  "mode_states LIMITED_LIFT = PLANT_LIMITED_LIFT_STATES"
| "mode_states FULL_LIFT = PLANT_FULL_LIFT_STATES"
| "mode_states _ = PLANT_LOWERED_STATES"

definition plant_control_apply_current_mode :: "plant_status \<Rightarrow> board \<Rightarrow> esp_err \<times> board" where
  "plant_control_apply_current_mode p b = apply_plant_solenoid_states (mode_states (currentMode p)) b"

fun plant_control_get_mode_string :: "PlantMode \<Rightarrow> string" where
  "plant_control_get_mode_string LIMITED_LIFT = ''LIMITED LIFT''"
| "plant_control_get_mode_string FULL_LIFT = ''FULL LIFT''"
| "plant_control_get_mode_string LOWERED = ''LOWERED''"
| "plant_control_get_mode_string PLANT_IDLE = ''IDLE''"

definition plant_control_get_sbin_string :: "plant_status \<Rightarrow> string" where
  "plant_control_get_sbin_string p = (if sensorSBinEmpty p then ''EMPTY'' else ''FULL'')"

section \<open>The groups of writes\<close>

definition plant_off_writes :: "bool \<Rightarrow> reg_write list" where
  "plant_off_writes low =
     [(MCP23017_1_ADDR, MCP_GPIOA, relay_output_byte 0 low),
      (MCP23017_1_ADDR, MCP_GPIOB, relay_output_byte 0 low),
      (MCP23017_2_ADDR, MCP_GPIOA, relay_output_byte 0 low)]"

lemma write_register_polarity [simp]:
  "activeLow (snd (mcp23017_write_register_locked a r v b)) = activeLow b"
  using mcp.write_wiring [of a r v b, OF prod.collapse [symmetric]] by (simp add: same_wiring_def)

lemma plant_all_off_alt:
  "write_plant_all_off_locked b =
     write_each mcp23017_write_register_locked (plant_off_writes (activeLow b)) ESP_OK b"
  by (simp add: write_plant_all_off_locked_def plant_off_writes_def Let_def split_def
      mcp23017_write_plant_def)

lemma plant_states_alt:
  "write_plant_states_locked (port_byte st 0 8) (port_byte st 8 8) (port_byte st 16 2) b =
     (let (r, b1) = write_until_fail mcp23017_write_register_locked
          (solenoid_writes st (activeLow b)) b
      in (r, if r \<noteq> ESP_OK then snd (write_plant_all_off_locked b1) else b1))"
  by (simp add: write_plant_states_locked_def solenoid_writes_def Let_def split_def
      mcp23017_write_plant_def)

lemma plant_off_wiring: "keeps_wiring write_plant_all_off_locked"
  by (rule keeps_wiringI) (auto simp: plant_all_off_alt dest: mcp.each_wiring)

lemma plant_off_fault: "faulted b \<Longrightarrow> faulted (snd (write_plant_all_off_locked b))"
  using mcp.each_fault_mono [OF _ surjective_pairing] by (simp add: plant_all_off_alt)

abbreviation (input) plant_body :: "solenoids \<Rightarrow> board \<Rightarrow> esp_err \<times> board" where
  "plant_body st \<equiv> write_plant_states_locked (port_byte st 0 8) (port_byte st 8 8) (port_byte st 16 2)"

lemma plant_body_wiring: "keeps_wiring (plant_body st)"
  using plant_off_wiring
  by (auto intro!: keeps_wiringI split: prod.splits if_splits dest!: mcp.until_fail_wiring
      simp: keeps_wiring_def plant_states_alt intro: same_wiring_trans)

lemma plant_body_ok:
  "plant_body st b = (ESP_OK, b') \<Longrightarrow>
   bus_log b' = bus_log b @ solenoid_writes st (activeLow b) \<and> faulted b' = faulted b"
  by (auto simp: plant_states_alt split: prod.splits if_splits dest: mcp.until_fail_ok)

lemma plant_body_err: "plant_body st b = (e, b') \<Longrightarrow> e \<noteq> ESP_OK \<Longrightarrow> faulted b'"
  by (auto simp: plant_states_alt split: prod.splits if_splits
      dest!: mcp.until_fail_err intro: plant_off_fault)

lemma plant_apply_wiring:
  assumes "apply_plant_solenoid_states st b = (e, b')" and "outputBusMutex b \<noteq> MutexHeld"
  shows "same_wiring b b'"
  using with_output_lock_cases [OF assms [unfolded apply_plant_solenoid_states_def] plant_body_wiring]
  by blast

lemma plant_apply_ok:
  assumes "apply_plant_solenoid_states st b = (ESP_OK, b')" and "outputBusMutex b \<noteq> MutexHeld"
  shows "bus_log b' = bus_log b @ solenoid_writes st (activeLow b) \<and> faulted b' = faulted b"
  using with_output_lock_cases [OF assms [unfolded apply_plant_solenoid_states_def] plant_body_wiring]
  by (auto simp: quiet_def same_wiring_def dest!: plant_body_ok)

lemma plant_apply_err:
  assumes "apply_plant_solenoid_states st b = (e, b')" and "outputBusMutex b \<noteq> MutexHeld"
    and "e \<noteq> ESP_OK"
  shows "faulted b'"
  using with_output_lock_cases [OF assms(1,2) [unfolded apply_plant_solenoid_states_def] plant_body_wiring]
    assms(3)
  by (auto dest!: plant_body_err)

lemma plant_apply_latches:
  "apply_plant_solenoid_states st b = (e, b') \<Longrightarrow> outputBusMutex b \<noteq> MutexHeld
   \<Longrightarrow> latches_fault b e b'"
  by (auto simp: latches_fault_def dest: plant_apply_wiring plant_apply_ok plant_apply_err)

lemma plant_all_off_latches:
  assumes "plant_control_all_off b = (e, b')" and "outputBusMutex b \<noteq> MutexHeld"
  shows "latches_fault b e b' \<and>
    (e = ESP_OK \<longrightarrow> bus_log b' = bus_log b @ plant_off_writes (activeLow b))"
  using with_output_lock_cases [OF assms [unfolded plant_control_all_off_def] plant_off_wiring]
  by (cases "e = ESP_OK")
    (auto simp: latches_fault_def quiet_def same_wiring_def plant_all_off_alt
      dest!: mcp.each_ok mcp.each_err)

lemma set_mode_latches:
  "set_plant_mode mode st p b = (e, p', b') \<Longrightarrow> outputBusMutex b \<noteq> MutexHeld \<Longrightarrow>
   latches_fault b e b' \<and> p' = p\<lparr>currentMode := mode, isTransitioning := False\<rparr>"
  by (auto simp: set_plant_mode_def Let_def split: prod.splits dest: plant_apply_latches)

lemma plant_init_latches:
  "plant_control_init p b = (e, p', b') \<Longrightarrow> outputBusMutex b \<noteq> MutexHeld \<Longrightarrow>
   (e \<noteq> ESP_OK \<longrightarrow> faulted b') \<and> same_wiring b b' \<and> (faulted b \<longrightarrow> faulted b')
   \<and> p' = plant_status_init"
  by (auto simp: plant_control_init_def plant_status_init_def has_fault_def Let_def latches_fault_def
      split: prod.splits if_splits dest!: plant_all_off_latches)

section \<open>Properties\<close>

theorem plant_mode_drives_table:
  assumes "lock_free b"
    and "(setter, mode) \<in> {(plant_control_set_limited_lift, LIMITED_LIFT),
           (plant_control_set_full_lift, FULL_LIFT), (plant_control_set_lowered, LOWERED)}"
    and "setter p b = (e, p', b')"
  shows "p' = p\<lparr>currentMode := mode, isTransitioning := False\<rparr> \<and> lock_free b'
    \<and> (e = ESP_OK \<longrightarrow> faulted b' = faulted b \<and> (\<forall>n < 18. solenoid_on b' n = mode_states mode ! n))
    \<and> (e \<noteq> ESP_OK \<longrightarrow> faulted b')"
proof -
  have m: "outputBusMutex b \<noteq> MutexHeld" using assms(1) by (simp add: lock_free_def)
  have run: "set_plant_mode mode (mode_states mode) p b = (e, p', b')"
    using assms(2,3)
    by (auto simp: plant_control_set_limited_lift_def plant_control_set_full_lift_def
        plant_control_set_lowered_def)
  note l = set_mode_latches [OF run m]
  have ap: "apply_plant_solenoid_states (mode_states mode) b = (e, b')"
    using run by (auto simp: set_plant_mode_def split: prod.splits)
  have al: "activeLow b' = activeLow b" using l by (simp add: latches_fault_def same_wiring_def)
  have "\<forall>n < 18. solenoid_on b' n = mode_states mode ! n" if "e = ESP_OK"
    using plant_apply_ok [of "mode_states mode" b b'] ap m al that
    by (auto intro!: solenoid_on_states [where ws = "bus_log b"])
  with l assms(1) show ?thesis
    by (auto simp: latches_fault_def lock_free_wiring)
qed

theorem plant_mode_drives_table_witness:
  "solenoid_on (snd (snd (plant_control_set_full_lift plant_status_init ready_board))) 3"
proof -
  have 1: "lock_free ready_board" by (simp add: lock_free_def ready_defs)
  have "fst (plant_control_set_full_lift plant_status_init ready_board) = ESP_OK"
    by code_simp
  then obtain p' b' where
    2: "plant_control_set_full_lift plant_status_init ready_board = (ESP_OK, p', b')"
    by (cases "plant_control_set_full_lift plant_status_init ready_board") auto
  show ?thesis
    using plant_mode_drives_table [of ready_board plant_control_set_full_lift FULL_LIFT
        plant_status_init ESP_OK p' b'] 1 2
    by (simp add: PLANT_FULL_LIFT_STATES_def)
qed

end
