(* ===== verification/Ui_State.thy ===== *)
theory Ui_State
  imports Prelude
begin

text \<open>
  The hardware-independent screen state of the planter application: button styles, the marker
  model and the action selection of \<open>examples/1200PT/include/ui_state.h\<close>, and the lockout
  feedback of \<open>lockout_feedback.h\<close>. Member functions take the object and return its new value.
\<close>

section \<open>Buttons and colours\<close>

datatype ButtonStyle = Inactive | ActiveGreen | ActiveRed

record ButtonColours =
  background :: u8
  text_colour :: u8

abbreviation (input) COLOUR_BLACK :: u8 where "COLOUR_BLACK \<equiv> 0"
abbreviation (input) COLOUR_WHITE :: u8 where "COLOUR_WHITE \<equiv> 1"
abbreviation (input) COLOUR_GREEN :: u8 where "COLOUR_GREEN \<equiv> 2"
abbreviation (input) COLOUR_SILVER :: u8 where "COLOUR_SILVER \<equiv> 7"
abbreviation (input) COLOUR_RED :: u8 where "COLOUR_RED \<equiv> 12"

fun colours_for :: "ButtonStyle \<Rightarrow> ButtonColours" where
  "colours_for ActiveGreen = \<lparr>background = COLOUR_GREEN, text_colour = COLOUR_WHITE\<rparr>"
| "colours_for ActiveRed = \<lparr>background = COLOUR_RED, text_colour = COLOUR_WHITE\<rparr>"
| "colours_for Inactive = \<lparr>background = COLOUR_SILVER, text_colour = COLOUR_BLACK\<rparr>"

definition power_on_style :: "bool \<Rightarrow> ButtonStyle" where
  "power_on_style powerIsOn = (if powerIsOn then ActiveGreen else Inactive)"

definition power_off_style :: "bool \<Rightarrow> ButtonStyle" where
  "power_off_style powerIsOn = (if powerIsOn then Inactive else ActiveRed)"

definition set_power_state :: "bool \<Rightarrow> ('s \<Rightarrow> bool) \<Rightarrow> ('s \<Rightarrow> 's) \<Rightarrow> 's \<Rightarrow> bool \<times> 's" where
  "set_power_state requestedOn isOn toggle s =
     (let s1 = (if isOn s \<noteq> requestedOn then toggle s else s) in (isOn s1, s1))"

definition headland_style :: "bool \<Rightarrow> ButtonStyle" where
  "headland_style enabled = (if enabled then ActiveGreen else Inactive)"

definition headland_text :: "bool \<Rightarrow> string" where
  "headland_text enabled = (if enabled then ''ON'' else ''OFF'')"

text \<open>What an on/off request needs of a toggle-only switch.\<close>

locale toggle_switch =
  fixes isOn :: "'s \<Rightarrow> bool" and toggle :: "'s \<Rightarrow> 's"
  assumes toggle_flips: "isOn (toggle s) \<longleftrightarrow> \<not> isOn s"
begin

lemma set_power_reaches: "fst (set_power_state r isOn toggle s) = r
    \<and> isOn (snd (set_power_state r isOn toggle s)) = r"
  by (auto simp: set_power_state_def toggle_flips)

lemma set_power_idempotent:
  "set_power_state r isOn toggle (snd (set_power_state r isOn toggle s)) = set_power_state r isOn toggle s"
  by (auto simp: set_power_state_def toggle_flips)

lemma set_power_untouched: "isOn s = r \<Longrightarrow> snd (set_power_state r isOn toggle s) = s"
  by (simp add: set_power_state_def)

end

section \<open>Marker model\<close>

record MarkerModel =
  leftActive :: bool
  rightActive :: bool
  autoActive :: bool

definition marker_init :: MarkerModel where
  "marker_init = \<lparr>leftActive = False, rightActive = False, autoActive = False\<rparr>"

definition side_buttons_enabled :: "MarkerModel \<Rightarrow> bool" where
  "side_buttons_enabled m = (\<not> autoActive m)"

definition press_left :: "MarkerModel \<Rightarrow> bool \<times> MarkerModel" where
  "press_left m = (if autoActive m then (False, m) else (True, m\<lparr>leftActive := \<not> leftActive m\<rparr>))"

definition press_right :: "MarkerModel \<Rightarrow> bool \<times> MarkerModel" where
  "press_right m = (if autoActive m then (False, m) else (True, m\<lparr>rightActive := \<not> rightActive m\<rparr>))"

definition press_auto :: "MarkerModel \<Rightarrow> MarkerModel" where
  "press_auto m =
     (let m1 = m\<lparr>autoActive := \<not> autoActive m\<rparr>
      in if autoActive m1 then m1\<lparr>leftActive := False, rightActive := False\<rparr> else m1)"

definition left_style :: "MarkerModel \<Rightarrow> ButtonStyle" where
  "left_style m = (if leftActive m then ActiveRed else Inactive)"

definition right_style :: "MarkerModel \<Rightarrow> ButtonStyle" where
  "right_style m = (if rightActive m then ActiveRed else Inactive)"

definition auto_style :: "MarkerModel \<Rightarrow> ButtonStyle" where
  "auto_style m = (if autoActive m then ActiveRed else Inactive)"

definition detail_text :: "MarkerModel \<Rightarrow> string" where
  "detail_text m =
     (if autoActive m then ''AUTO''
      else if leftActive m \<and> rightActive m then ''LEFT + RIGHT''
      else if leftActive m then ''LEFT''
      else if rightActive m then ''RIGHT''
      else ''OFF'')"

section \<open>Action selection\<close>

abbreviation (input) ACTION_COUNT :: u8 where "ACTION_COUNT \<equiv> 6"

datatype ActionGroup = Unfold | Fold

datatype PressResult = Selected | Cleared | Ignored

record ActionSelection =
  activeGroup :: ActionGroup
  activeIndex :: u8

definition selection_init :: ActionSelection where
  "selection_init = \<lparr>activeGroup = Unfold, activeIndex = 0\<rparr>"

definition is_lit :: "ActionSelection \<Rightarrow> ActionGroup \<Rightarrow> u8 \<Rightarrow> bool" where
  "is_lit a grp index \<longleftrightarrow> activeIndex a \<noteq> 0 \<and> activeGroup a = grp \<and> activeIndex a = index"

definition selection_clear :: "ActionSelection \<Rightarrow> ActionSelection" where
  "selection_clear a = a\<lparr>activeIndex := 0\<rparr>"

definition selection_press :: "ActionGroup \<Rightarrow> u8 \<Rightarrow> ActionSelection \<Rightarrow> PressResult \<times> ActionSelection" where
  "selection_press grp index a =
     (if index < 1 \<or> index > ACTION_COUNT then (Ignored, a)
      else if is_lit a grp index then (Cleared, selection_clear a)
      else (Selected, a\<lparr>activeGroup := grp, activeIndex := index\<rparr>))"

definition selection_style :: "ActionSelection \<Rightarrow> ActionGroup \<Rightarrow> u8 \<Rightarrow> ButtonStyle" where
  "selection_style a grp index = (if is_lit a grp index then ActiveGreen else Inactive)"

definition selection_styles :: "ActionSelection \<Rightarrow> ActionGroup \<Rightarrow> ButtonStyle list" where
  "selection_styles a grp = map (\<lambda>i. selection_style a grp (of_nat i)) [1..<7]"

text \<open>The abstract selection: nothing, or one button of one screen.\<close>

definition selected :: "ActionSelection \<Rightarrow> (ActionGroup \<times> u8) option" where
  "selected a = (if activeIndex a = 0 then None else Some (activeGroup a, activeIndex a))"

lemma is_lit_selected: "is_lit a g i \<longleftrightarrow> selected a = Some (g, i)"
  by (auto simp: is_lit_def selected_def)

lemma selected_clear [simp]: "selected (selection_clear a) = None"
  by (simp add: selected_def selection_clear_def)

lemma selected_press:
  "1 \<le> i \<Longrightarrow> i \<le> ACTION_COUNT \<Longrightarrow>
   selected (snd (selection_press g i a)) = (if selected a = Some (g, i) then None else Some (g, i))"
  by (auto simp: selection_press_def is_lit_selected selected_def selection_clear_def not_less [symmetric])

definition selection_ok :: "ActionSelection \<Rightarrow> bool" where
  "selection_ok a \<longleftrightarrow> activeIndex a \<le> ACTION_COUNT"

lemma selection_ok_clear [simp]: "selection_ok (selection_clear a)"
  by (simp add: selection_ok_def selection_clear_def)

lemma selection_ok_press: "selection_ok a \<Longrightarrow> selection_ok (snd (selection_press g i a))"
  by (auto simp: selection_press_def selection_ok_def not_less selection_clear_def)

section \<open>Lockout feedback\<close>

datatype InhibitReason = ReasonNone | OutputBoardMissing

definition classify_inhibit :: "bool \<Rightarrow> InhibitReason" where
  "classify_inhibit outputBoardFault = (if outputBoardFault then OutputBoardMissing else ReasonNone)"

fun lockout_message :: "InhibitReason \<Rightarrow> string option" where
  "lockout_message OutputBoardMissing = Some ''LOCKED: OUTPUT BOARD MISSING''"
| "lockout_message ReasonNone = None"

fun lockout_reason_text :: "InhibitReason \<Rightarrow> string" where
  "lockout_reason_text OutputBoardMissing = ''REASON: OUTPUT BOARD''"
| "lockout_reason_text ReasonNone = '' ''"

record LockoutUpdate =
  reasonChanged :: bool
  refreshUnfold :: bool
  refreshFold :: bool
  restoreUnfold :: bool
  restoreFold :: bool

record LockoutFeedback =
  currentReason :: InhibitReason
  shownUnfold :: bool
  shownFold :: bool

definition lockout_init :: LockoutFeedback where
  "lockout_init = \<lparr>currentReason = ReasonNone, shownUnfold = False, shownFold = False\<rparr>"

definition lockout_shown :: "LockoutFeedback \<Rightarrow> ActionGroup \<Rightarrow> bool" where
  "lockout_shown l g = (case g of Unfold \<Rightarrow> shownUnfold l | Fold \<Rightarrow> shownFold l)"

definition on_blocked_press :: "ActionGroup \<Rightarrow> InhibitReason \<Rightarrow> LockoutFeedback \<Rightarrow> bool \<times> LockoutFeedback" where
  "on_blocked_press g reason l =
     (if reason = ReasonNone then (False, l)
      else (True, case g of Unfold \<Rightarrow> l\<lparr>shownUnfold := True\<rparr> | Fold \<Rightarrow> l\<lparr>shownFold := True\<rparr>))"

definition lockout_update :: "InhibitReason \<Rightarrow> LockoutFeedback \<Rightarrow> LockoutUpdate \<times> LockoutFeedback" where
  "lockout_update reason l =
     (let changed = (reason \<noteq> currentReason l);
          result = \<lparr>reasonChanged = changed, refreshUnfold = False, refreshFold = False,
                    restoreUnfold = False, restoreFold = False\<rparr>;
          l1 = l\<lparr>currentReason := reason\<rparr>;
          uShown = shownUnfold l; fShown = shownFold l
      in if reason = ReasonNone
         then (result\<lparr>restoreUnfold := uShown, restoreFold := fShown\<rparr>,
               l1\<lparr>shownUnfold := False, shownFold := False\<rparr>)
         else if reason = OutputBoardMissing
         then (result\<lparr>refreshUnfold := \<not> uShown \<or> changed, refreshFold := \<not> fShown \<or> changed\<rparr>,
               l1\<lparr>shownUnfold := True, shownFold := True\<rparr>)
         else if changed
         then (result\<lparr>refreshUnfold := uShown, refreshFold := fShown\<rparr>, l1)
         else (result, l1))"

section \<open>Properties\<close>

text \<open>Events of the marker and action buttons.\<close>

datatype ui_event = PressLeft | PressRight | PressAuto | PressAction ActionGroup u8 | ClearActions

fun ui_step :: "ui_event \<Rightarrow> MarkerModel \<times> ActionSelection \<Rightarrow> MarkerModel \<times> ActionSelection" where
  "ui_step PressLeft (m, a) = (snd (press_left m), a)"
| "ui_step PressRight (m, a) = (snd (press_right m), a)"
| "ui_step PressAuto (m, a) = (press_auto m, a)"
| "ui_step (PressAction g i) (m, a) = (m, snd (selection_press g i a))"
| "ui_step ClearActions (m, a) = (m, selection_clear a)"

definition ui_inv :: "MarkerModel \<times> ActionSelection \<Rightarrow> bool" where
  "ui_inv s \<longleftrightarrow> (autoActive (fst s) \<longrightarrow> \<not> leftActive (fst s) \<and> \<not> rightActive (fst s))
     \<and> selection_ok (snd s)"

lemma ui_step_inv: "ui_inv s \<Longrightarrow> ui_inv (ui_step e s)"
  by (cases s; cases e)
    (auto simp: ui_inv_def press_left_def press_right_def press_auto_def Let_def selection_ok_press)

lemma ui_run_inv: "ui_inv s \<Longrightarrow> ui_inv (fold ui_step es s)"
  by (induction es arbitrary: s) (simp_all add: ui_step_inv)

theorem ui_run_exclusive:
  assumes "(m, a) = fold ui_step es (marker_init, selection_init)"
  shows "(auto_style m = ActiveRed \<longrightarrow> left_style m = Inactive \<and> right_style m = Inactive
            \<and> detail_text m = ''AUTO'')
    \<and> (selection_style a g i = ActiveGreen \<longrightarrow> 1 \<le> i \<and> i \<le> ACTION_COUNT \<and>
         (\<forall>g' i'. selection_style a g' i' = ActiveGreen \<longrightarrow> g' = g \<and> i' = i))"
proof -
  have "ui_inv (marker_init, selection_init)"
    by (simp add: ui_inv_def marker_init_def selection_ok_def selection_init_def)
  then have "ui_inv (m, a)" unfolding assms by (rule ui_run_inv)
  moreover have "0 < (i :: u8) \<longleftrightarrow> 1 \<le> i" by unat_arith
  ultimately show ?thesis
    by (auto simp: ui_inv_def auto_style_def left_style_def right_style_def detail_text_def
        selection_style_def is_lit_def selection_ok_def word_gt_0 split: if_splits)
qed

theorem ui_run_exclusive_witness:
  "\<exists>m a. (m, a) = fold ui_step [PressLeft, PressAuto, PressAction Fold 3] (marker_init, selection_init)
     \<and> left_style m = Inactive \<and> selection_style a Fold 3 = ActiveGreen"
proof -
  obtain m a where
    1: "(m, a) = fold ui_step [PressLeft, PressAuto, PressAction Fold 3] (marker_init, selection_init)"
    by (metis surj_pair)
  then have "auto_style m = ActiveRed" "selection_style a Fold 3 = ActiveGreen"
    by (auto simp: press_left_def press_auto_def marker_init_def auto_style_def selection_press_def
        selection_init_def is_lit_def selection_style_def split: if_splits)
  with ui_run_exclusive [OF 1, of Fold 3] 1 show ?thesis by blast
qed

text \<open>The lockout feedback is edge-triggered: after an update with a reason, a further update
  with the same reason asks for nothing. With an output-board fault both screens show the lockout
  text, and when the fault reason ends every shown text is restored and nothing stays shown.\<close>

theorem lockout_update_settles:
  assumes "lockout_update reason l = (u, l')"
  shows "lockout_update reason l' =
      (\<lparr>reasonChanged = False, refreshUnfold = False, refreshFold = False,
        restoreUnfold = False, restoreFold = False\<rparr>, l')
    \<and> currentReason l' = reason \<and> reasonChanged u = (reason \<noteq> currentReason l)
    \<and> (\<forall>g. lockout_shown l' g = (reason = OutputBoardMissing))
    \<and> restoreUnfold u = (reason = ReasonNone \<and> lockout_shown l Unfold)
    \<and> restoreFold u = (reason = ReasonNone \<and> lockout_shown l Fold)
    \<and> refreshUnfold u = (reason = OutputBoardMissing \<and> (\<not> lockout_shown l Unfold \<or> reasonChanged u))
    \<and> refreshFold u = (reason = OutputBoardMissing \<and> (\<not> lockout_shown l Fold \<or> reasonChanged u))"
  using assms
  by (cases reason)
    (auto simp: lockout_update_def Let_def lockout_shown_def split: ActionGroup.splits if_splits)

theorem lockout_update_settles_witness:
  "\<exists>u l'. lockout_update OutputBoardMissing lockout_init = (u, l') \<and> lockout_shown l' Fold"
proof -
  obtain u l' where 1: "lockout_update OutputBoardMissing lockout_init = (u, l')" by fastforce
  with lockout_update_settles [OF 1] show ?thesis by blast
qed

end
