(* ===== verification/Floating_Point.thy ===== *)
theory Floating_Point
  imports Prelude Complex_Main "HOL-Library.Log_Nat"
begin

text \<open>
  Single-precision floating point: a value is a rational, \<open>float_round\<close> is the round-to-nearest-even of
  IEEE 754 binary32 (without overflow to infinity, which the values of the modelled code do not reach),
  and a conversion to an integer is undefined behaviour outside its range and is \<open>None\<close>. The lemmas bound the
  relative error of one rounding.
\<close>

section \<open>Floating point\<close>

definition round_even :: "rat \<Rightarrow> int" where
  "round_even x =
     (let f = \<lfloor>x\<rfloor>; d = x - of_int f
      in if d < 1 / 2 then f else if d > 1 / 2 then f + 1 else if even f then f else f + 1)"

definition two_pow :: "int \<Rightarrow> rat" where
  "two_pow e = (if 0 \<le> e then 2 ^ nat e else 1 / 2 ^ nat (- e))"

definition float_exponent :: "rat \<Rightarrow> int" where
  \<comment> \<open>the \<open>e\<close> with \<open>2^e \<le> x < 2^(e+1)\<close>, for positive \<open>x\<close>\<close>
  "float_exponent x =
     (let (p, q) = quotient_of x; e = bitlen p - bitlen q
      in if x \<ge> two_pow e then e else e - 1)"

definition float_round :: "rat \<Rightarrow> rat" where
  "float_round x =
     (if x = 0 then 0
      else let ulp = two_pow (max (float_exponent \<bar>x\<bar>) (-126) - 23)
           in of_int (round_even (x / ulp)) * ulp)"

definition to_u8 :: "rat \<Rightarrow> u8 option" where
  "to_u8 x = (if -1 < x \<and> x < 256 then Some (if x < 0 then 0 else of_int \<lfloor>x\<rfloor>) else None)"

definition to_u16 :: "rat \<Rightarrow> u16 option" where
  "to_u16 x = (if -1 < x \<and> x < 65536 then Some (if x < 0 then 0 else of_int \<lfloor>x\<rfloor>) else None)"

section \<open>Accuracy of the single-precision rounding\<close>

lemma round_even_bounds: "\<bar>of_int (round_even x) - x\<bar> \<le> 1 / 2"
proof -
  have "of_int \<lfloor>x\<rfloor> \<le> x" "x < of_int \<lfloor>x\<rfloor> + 1" by linarith+
  then show ?thesis by (auto simp: round_even_def Let_def abs_le_iff)
qed

lemma two_pow_pos [simp]: "0 < two_pow e"
  by (simp add: two_pow_def)

lemma two_pow_eq: "two_pow e = 2 powi e"
  by (simp add: two_pow_def power_int_def power_one_over field_simps)

lemma two_pow_add: "two_pow (a + b) = two_pow a * two_pow b"
  by (simp add: two_pow_eq power_int_add)

lemma float_exponent_le: "0 < x \<Longrightarrow> two_pow (float_exponent x) \<le> x"
proof -
  assume x: "0 < x"
  obtain p q where pq: "quotient_of x = (p, q)" by fastforce
  then have q: "0 < q" by (rule quotient_of_denom_pos)
  have xq: "x = of_int p / of_int q" using pq by (rule quotient_of_div)
  with x q have p: "0 < p" by (simp add: zero_less_divide_iff)
  have bp: "2 powi (bitlen p - 1) \<le> (of_int p :: rat)"
  proof -
    have "2 ^ nat (bitlen p - 1) \<le> p" using bitlen_bounds [OF p] by simp
    then have "(of_int (2 ^ nat (bitlen p - 1)) :: rat) \<le> of_int p" by (simp only: of_int_le_iff)
    moreover have "0 \<le> bitlen p - 1" using p bitlen_le_iff_power [of p 0] by (simp add: bitlen_def)
    ultimately show ?thesis by (simp add: power_int_def)
  qed
  have bq: "(of_int q :: rat) \<le> 2 powi (bitlen q)"
  proof -
    have "q \<le> 2 ^ nat (bitlen q)" using bitlen_bounds [OF q] by simp
    then have "(of_int q :: rat) \<le> of_int (2 ^ nat (bitlen q))" by (simp only: of_int_le_iff)
    moreover have "0 \<le> bitlen q" by (rule bitlen_nonneg)
    ultimately show ?thesis by (simp add: power_int_def)
  qed
  have "2 powi (bitlen p - bitlen q - 1) * of_int q \<le> (2 powi (bitlen p - bitlen q - 1) * 2 powi (bitlen q) :: rat)"
    using bq by (intro mult_left_mono) simp_all
  also have "\<dots> = 2 powi (bitlen p - 1)" by (simp add: power_int_add [symmetric])
  finally have "2 powi (bitlen p - bitlen q - 1) * of_int q \<le> (of_int p :: rat)" using bp by linarith
  then have "2 powi (bitlen p - bitlen q - 1) \<le> x" using q by (simp add: xq pos_le_divide_eq)
  then show ?thesis by (simp add: float_exponent_def pq Let_def two_pow_eq)
qed

lemma float_round_close:
  assumes x: "two_pow (-126) \<le> x"
  shows "\<bar>float_round x - x\<bar> \<le> x / 2 ^ 24"
proof -
  have x0: "0 < x" using x two_pow_pos [of "-126"] by linarith
  define u where "u = two_pow (max (float_exponent x) (-126) - 23)"
  have u: "0 < u" by (simp add: u_def)
  have "two_pow (max (float_exponent x) (-126)) \<le> x"
    using x float_exponent_le [OF x0] by (simp add: max_def)
  moreover have "two_pow (max (float_exponent x) (-126)) = u * 2 ^ 23"
    unfolding u_def using two_pow_add [of "max (float_exponent x) (-126) - 23" 23]
    by (simp add: two_pow_def)
  ultimately have ux: "u * 2 ^ 23 \<le> x" by simp
  have f: "float_round x = of_int (round_even (x / u)) * u"
    using x0 by (simp add: float_round_def Let_def u_def)
  have "\<bar>float_round x - x\<bar> = \<bar>(of_int (round_even (x / u)) - x / u) * u\<bar>"
    using u by (simp add: f left_diff_distrib)
  also have "\<dots> = \<bar>of_int (round_even (x / u)) - x / u\<bar> * u" using u by (simp add: abs_mult)
  also have "\<dots> \<le> 1 / 2 * u" using round_even_bounds [of "x / u"] u by (intro mult_right_mono) simp_all
  also have "\<dots> \<le> x / 2 ^ 24" using ux by simp
  finally show ?thesis .
qed

lemma float_round_0 [simp]: "float_round 0 = 0"
  by (simp add: float_round_def)

lemma tiny: "two_pow (-126) \<le> 1 / 2 ^ 20"
  by (simp add: two_pow_def power_one_over [symmetric] power_decreasing)

lemma float_round_between:
  assumes "1 / 2 ^ 20 \<le> x"
  shows "x * (1 - 1 / 2 ^ 20) \<le> float_round x" "float_round x \<le> x * (1 + 1 / 2 ^ 20)"
proof -
  have "\<bar>float_round x - x\<bar> \<le> x / 2 ^ 24" using assms tiny by (intro float_round_close) linarith
  moreover have "0 < x" by (rule less_le_trans [OF _ assms]) simp
  ultimately show "x * (1 - 1 / 2 ^ 20) \<le> float_round x" "float_round x \<le> x * (1 + 1 / 2 ^ 20)"
    by (auto simp: field_simps abs_if split: if_splits)
qed

lemma float_round_le: "1 / 2 ^ 20 \<le> x \<Longrightarrow> x \<le> y \<Longrightarrow> float_round x \<le> y * (1 + 1 / 2 ^ 20)"
  by (rule order_trans [OF float_round_between(2)]) (simp_all add: mult_right_mono)

lemma float_round_ge: "1 / 2 ^ 20 \<le> x \<Longrightarrow> y \<le> x \<Longrightarrow> y * (1 - 1 / 2 ^ 20) \<le> float_round x"
  by (rule order_trans [OF _ float_round_between(1)]) (simp_all add: mult_right_mono)

end
