(* ===== verification/Fan_Vac.thy ===== *)
theory Fan_Vac
  imports Ui_State Floating_Point
begin

text \<open>
  Fan and vacuum control, \<open>examples/1200PT/src/fan_vac_control.cpp\<close>: the two PID controllers,
  the operator's set points and power switches, the sensor conversions and the periodic update.

  Floating-point values are rationals; every arithmetic operation of the code is followed by the
  rounding function \<open>rnd\<close>, an argument, of which \<open>float_round\<close> (theory Floating_Point) is the
  round-to-nearest-even of IEEE single precision.
  The sensors of the ESP32 are arguments: the millisecond clock and the ADC voltage; the duty
  cycles given to the PWM peripheral are recorded in \<open>ledcFan\<close> and \<open>ledcVac\<close>.
\<close>

section \<open>State\<close>

abbreviation (input) PWM_MIN_DUTY :: nat where "PWM_MIN_DUTY \<equiv> 51"
abbreviation (input) PWM_MAX_DUTY :: nat where "PWM_MAX_DUTY \<equiv> 204"
abbreviation (input) FAN_RPM_MIN :: u16 where "FAN_RPM_MIN \<equiv> 1000"
abbreviation (input) FAN_RPM_MAX :: u16 where "FAN_RPM_MAX \<equiv> 4500"
abbreviation (input) FAN_RPM_STEP :: u16 where "FAN_RPM_STEP \<equiv> 50"
abbreviation (input) FAN_RPM_DEFAULT :: u16 where "FAN_RPM_DEFAULT \<equiv> 3200"
abbreviation (input) VAC_PRESSURE_MIN :: u16 where "VAC_PRESSURE_MIN \<equiv> 5"
abbreviation (input) VAC_PRESSURE_MAX :: u16 where "VAC_PRESSURE_MAX \<equiv> 40"
abbreviation (input) VAC_PRESSURE_STEP :: u16 where "VAC_PRESSURE_STEP \<equiv> 1"
abbreviation (input) VAC_PRESSURE_DEFAULT :: u16 where "VAC_PRESSURE_DEFAULT \<equiv> 22"
abbreviation (input) FAN_RPM_SAMPLE_MS :: u32 where "FAN_RPM_SAMPLE_MS \<equiv> 500"

datatype FanVacState = FAN_IDLE | RUNNING | FAULT_FAN | FAULT_VAC

record PIDController =
  kp :: rat
  ki :: rat
  kd :: rat
  integralTerm :: rat
  lastError :: rat
  outputMin :: rat
  outputMax :: rat

record fan_vac =
  fanRPMTarget :: u16
  fanRPMActual :: u16
  fanPWMDuty :: u8
  fanFault :: bool
  vacPressureTarget :: u16
  vacPressureActual :: u16
  vacPWMDuty :: u8
  vacFault :: bool
  fanState :: FanVacState
  fanPulseCount :: u32
  lastRPMCalculationTime :: u32
  calculatedFanRPM :: u16
  fanPowerEnabled :: bool
  vacPowerEnabled :: bool
  fanPID :: PIDController
  vacPID :: PIDController
  ledcFan :: u8
  ledcVac :: u8

definition fan_vac_boot :: "(rat \<Rightarrow> rat) \<Rightarrow> fan_vac" where
  \<comment> \<open>the static initialisers\<close>
  "fan_vac_boot rnd =
     \<lparr>fanRPMTarget = FAN_RPM_DEFAULT, fanRPMActual = 0, fanPWMDuty = 51, fanFault = False,
      vacPressureTarget = VAC_PRESSURE_DEFAULT, vacPressureActual = 0, vacPWMDuty = 51,
      vacFault = False, fanState = FAN_IDLE,
      fanPulseCount = 0, lastRPMCalculationTime = 0, calculatedFanRPM = 0,
      fanPowerEnabled = True, vacPowerEnabled = True,
      fanPID = \<lparr>kp = rnd (1/2), ki = rnd (1/10), kd = rnd (1/20), integralTerm = 0, lastError = 0,
                outputMin = 51, outputMax = 204\<rparr>,
      vacPID = \<lparr>kp = rnd (8/10), ki = rnd (2/10), kd = rnd (1/20), integralTerm = 0, lastError = 0,
                outputMin = 51, outputMax = 204\<rparr>,
      ledcFan = 0, ledcVac = 0\<rparr>"

section \<open>PID computation\<close>

definition pid_compute :: "(rat \<Rightarrow> rat) \<Rightarrow> PIDController \<Rightarrow> rat \<Rightarrow> rat \<Rightarrow> rat \<times> PIDController" where
  "pid_compute rnd pid setpoint measured =
     (let error = rnd (setpoint - measured);
          pTerm = rnd (kp pid * error);
          integral1 = rnd (integralTerm pid + error);
          integral2 = max (outputMin pid) (min (outputMax pid) integral1);
          iTerm = rnd (ki pid * integral2);
          dTerm = rnd (kd pid * rnd (error - lastError pid));
          pid1 = pid\<lparr>integralTerm := integral2, lastError := error\<rparr>;
          output1 = rnd (rnd (pTerm + iTerm) + dTerm);
          output2 = max (outputMin pid) (min (outputMax pid) output1)
      in (output2, pid1))"

definition pid_reset :: "PIDController \<Rightarrow> PIDController" where
  "pid_reset pid = pid\<lparr>integralTerm := 0, lastError := 0\<rparr>"

section \<open>Operations\<close>

definition fan_rpm_isr :: "fan_vac \<Rightarrow> fan_vac" where
  "fan_rpm_isr f = f\<lparr>fanPulseCount := fanPulseCount f + 1\<rparr>"

definition set_fan_pwm :: "u8 \<Rightarrow> fan_vac \<Rightarrow> fan_vac" where
  "set_fan_pwm duty f = f\<lparr>ledcFan := duty, fanPWMDuty := duty\<rparr>"

definition set_vac_pwm :: "u8 \<Rightarrow> fan_vac \<Rightarrow> fan_vac" where
  "set_vac_pwm duty f = f\<lparr>ledcVac := duty, vacPWMDuty := duty\<rparr>"

definition reset_pids :: "fan_vac \<Rightarrow> fan_vac" where
  "reset_pids f = f\<lparr>fanPID := pid_reset (fanPID f), vacPID := pid_reset (vacPID f)\<rparr>"

definition fan_vac_init :: "fan_vac \<Rightarrow> fan_vac" where
  "fan_vac_init f = (reset_pids (set_vac_pwm 0 (set_fan_pwm 0 f)))\<lparr>fanState := FAN_IDLE\<rparr>"

definition fan_vac_start :: "fan_vac \<Rightarrow> fan_vac" where
  "fan_vac_start f = (reset_pids f)\<lparr>fanState := RUNNING\<rparr>"

definition fan_vac_stop :: "fan_vac \<Rightarrow> fan_vac" where
  "fan_vac_stop f = (reset_pids (set_vac_pwm 0 (set_fan_pwm 0 f)))\<lparr>fanState := FAN_IDLE\<rparr>"

definition fan_vac_fan_speed_up :: "fan_vac \<Rightarrow> fan_vac" where
  "fan_vac_fan_speed_up f =
     (let newTarget = fanRPMTarget f + FAN_RPM_STEP
      in f\<lparr>fanRPMTarget := (if newTarget > FAN_RPM_MAX then FAN_RPM_MAX else newTarget)\<rparr>)"

definition fan_vac_fan_speed_down :: "fan_vac \<Rightarrow> fan_vac" where
  "fan_vac_fan_speed_down f =
     (let newTarget = fanRPMTarget f - FAN_RPM_STEP
      in f\<lparr>fanRPMTarget := (if newTarget < FAN_RPM_MIN then FAN_RPM_MIN else newTarget)\<rparr>)"

definition fan_vac_vac_pressure_up :: "fan_vac \<Rightarrow> fan_vac" where
  "fan_vac_vac_pressure_up f =
     (let newTarget = vacPressureTarget f + VAC_PRESSURE_STEP
      in f\<lparr>vacPressureTarget := (if newTarget > VAC_PRESSURE_MAX then VAC_PRESSURE_MAX else newTarget)\<rparr>)"

definition fan_vac_vac_pressure_down :: "fan_vac \<Rightarrow> fan_vac" where
  "fan_vac_vac_pressure_down f =
     (let newTarget = vacPressureTarget f - VAC_PRESSURE_STEP
      in f\<lparr>vacPressureTarget := (if newTarget < VAC_PRESSURE_MIN then VAC_PRESSURE_MIN else newTarget)\<rparr>)"

definition fan_vac_toggle_fan_power :: "fan_vac \<Rightarrow> fan_vac" where
  "fan_vac_toggle_fan_power f =
     (let f1 = f\<lparr>fanPowerEnabled := \<not> fanPowerEnabled f\<rparr>
      in if \<not> fanPowerEnabled f1
         then (set_fan_pwm 0 f1)\<lparr>fanPID := pid_reset (fanPID f1)\<rparr> else f1)"

definition fan_vac_toggle_vac_power :: "fan_vac \<Rightarrow> fan_vac" where
  "fan_vac_toggle_vac_power f =
     (let f1 = f\<lparr>vacPowerEnabled := \<not> vacPowerEnabled f\<rparr>
      in if \<not> vacPowerEnabled f1
         then (set_vac_pwm 0 f1)\<lparr>vacPID := pid_reset (vacPID f1)\<rparr> else f1)"

definition fan_vac_set_fan_target :: "u16 \<Rightarrow> fan_vac \<Rightarrow> fan_vac" where
  "fan_vac_set_fan_target targetRPM f =
     (let t1 = (if targetRPM < FAN_RPM_MIN then FAN_RPM_MIN else targetRPM);
          t2 = (if t1 > FAN_RPM_MAX then FAN_RPM_MAX else t1)
      in f\<lparr>fanRPMTarget := t2\<rparr>)"

definition fan_vac_set_vac_target :: "u16 \<Rightarrow> fan_vac \<Rightarrow> fan_vac" where
  "fan_vac_set_vac_target targetPressure f =
     (let t1 = (if targetPressure < VAC_PRESSURE_MIN then VAC_PRESSURE_MIN else targetPressure);
          t2 = (if t1 > VAC_PRESSURE_MAX then VAC_PRESSURE_MAX else t1)
      in f\<lparr>vacPressureTarget := t2\<rparr>)"

section \<open>Sensors and the periodic update\<close>

definition of_u16 :: "(rat \<Rightarrow> rat) \<Rightarrow> u16 \<Rightarrow> rat" where
  "of_u16 rnd x = rnd (of_nat (unat x))"

definition of_u32 :: "(rat \<Rightarrow> rat) \<Rightarrow> u32 \<Rightarrow> rat" where
  "of_u32 rnd x = rnd (of_nat (unat x))"

definition fan_vac_read_rpm :: "(rat \<Rightarrow> rat) \<Rightarrow> u32 \<Rightarrow> fan_vac \<Rightarrow> (u16 \<times> fan_vac) option" where
  "fan_vac_read_rpm rnd now f =
     (let elapsed = now - lastRPMCalculationTime f
      in if elapsed \<ge> FAN_RPM_SAMPLE_MS
         then
           let pulses = fanPulseCount f;
               f1 = f\<lparr>fanPulseCount := 0, lastRPMCalculationTime := now\<rparr>
           in (case to_u16 (rnd (rnd (of_u32 rnd pulses / 1) * rnd (60000 / of_u32 rnd elapsed))) of
                 None \<Rightarrow> None
               | Some rpm \<Rightarrow> Some (rpm, f1\<lparr>calculatedFanRPM := rpm, fanRPMActual := rpm\<rparr>))
         else Some (calculatedFanRPM f, f))"

definition fan_vac_read_pressure :: "(rat \<Rightarrow> rat) \<Rightarrow> u32 \<Rightarrow> fan_vac \<Rightarrow> (u16 \<times> fan_vac) option" where
  "fan_vac_read_pressure rnd millivolts f =
     (case to_u16 (rnd (rnd (rnd (of_u32 rnd millivolts / 3900) * 35) + 5)) of
        None \<Rightarrow> None
      | Some pressure \<Rightarrow> Some (pressure, f\<lparr>vacPressureActual := pressure\<rparr>))"

definition control_fan :: "(rat \<Rightarrow> rat) \<Rightarrow> u16 \<Rightarrow> fan_vac \<Rightarrow> fan_vac option" where
  \<comment> \<open>the fan half of \<open>fan_vac_update\<close>\<close>
  "control_fan rnd actualRPM f =
     (if fanPowerEnabled f
      then
        let (fanOutput, pid) = pid_compute rnd (fanPID f) (of_u16 rnd (fanRPMTarget f)) (of_u16 rnd actualRPM)
        in (case (to_u8 fanOutput, to_u16 (rnd (of_u16 rnd (fanRPMTarget f) * rnd (8/10)))) of
              (Some duty, Some fanFaultThreshold) \<Rightarrow>
                Some ((set_fan_pwm duty (f\<lparr>fanPID := pid\<rparr>))\<lparr>fanFault := actualRPM < fanFaultThreshold\<rparr>)
            | _ \<Rightarrow> None)
      else Some ((set_fan_pwm 0 f)\<lparr>fanFault := False\<rparr>))"

definition control_vac :: "(rat \<Rightarrow> rat) \<Rightarrow> u16 \<Rightarrow> fan_vac \<Rightarrow> fan_vac option" where
  \<comment> \<open>the vacuum half of \<open>fan_vac_update\<close>\<close>
  "control_vac rnd actualPressure f =
     (if vacPowerEnabled f
      then
        let (vacOutput, pid) = pid_compute rnd (vacPID f) (of_u16 rnd (vacPressureTarget f)) (of_u16 rnd actualPressure)
        in (case (to_u8 vacOutput, to_u16 (rnd (of_u16 rnd (vacPressureTarget f) * rnd (8/10)))) of
              (Some duty, Some vacFaultThreshold) \<Rightarrow>
                Some ((set_vac_pwm duty (f\<lparr>vacPID := pid\<rparr>))\<lparr>vacFault := actualPressure < vacFaultThreshold\<rparr>)
            | _ \<Rightarrow> None)
      else Some ((set_vac_pwm 0 f)\<lparr>vacFault := False\<rparr>))"

definition fan_vac_update :: "(rat \<Rightarrow> rat) \<Rightarrow> u32 \<Rightarrow> u32 \<Rightarrow> fan_vac \<Rightarrow> fan_vac option" where
  "fan_vac_update rnd now millivolts f =
     (if fanState f \<noteq> RUNNING then Some f
      else
        Option.bind (fan_vac_read_rpm rnd now f) (\<lambda>(actualRPM, f1).
        Option.bind (fan_vac_read_pressure rnd millivolts f1) (\<lambda>(actualPressure, f2).
        Option.bind (control_fan rnd actualRPM f2) (\<lambda>f3.
        Option.bind (control_vac rnd actualPressure f3) (\<lambda>f4.
          Some (f4\<lparr>fanState := (if fanFault f4 then FAULT_FAN
                            else if vacFault f4 then FAULT_VAC else RUNNING)\<rparr>))))))"

definition fan_vac_get_fan_status_string :: "fan_vac \<Rightarrow> string" where
  "fan_vac_get_fan_status_string f =
     (if fanFault f then ''FAN FAULT'' else if fanState f = FAN_IDLE then ''FAN IDLE'' else ''FAN OK'')"

definition fan_vac_get_vac_status_string :: "fan_vac \<Rightarrow> string" where
  "fan_vac_get_vac_status_string f =
     (if vacFault f then ''VAC FAULT'' else if fanState f = FAN_IDLE then ''VAC IDLE'' else ''VAC OK'')"

section \<open>The power switches\<close>

interpretation fan_switch: toggle_switch fanPowerEnabled fan_vac_toggle_fan_power
  by unfold_locales (simp add: fan_vac_toggle_fan_power_def set_fan_pwm_def Let_def)

interpretation vac_switch: toggle_switch vacPowerEnabled fan_vac_toggle_vac_power
  by unfold_locales (simp add: fan_vac_toggle_vac_power_def set_vac_pwm_def Let_def)

section \<open>Range of the sensor conversions\<close>

text \<open>The RPM conversion stays in range when the true speed is at most 65000 revolutions a minute.\<close>

lemma rpm_in_range:
  fixes pulses elapsed :: nat
  assumes p: "0 < pulses" and e: "500 \<le> elapsed" "elapsed < 2 ^ 32"
    and r: "pulses * 60000 \<le> 65000 * elapsed"
  defines "v \<equiv> float_round (float_round (float_round (of_nat pulses) / 1)
                * float_round (60000 / float_round (of_nat elapsed)))"
  shows "0 \<le> v \<and> v < 65536"
proof -
  define P E :: rat where "P = of_nat pulses" and "E = of_nat elapsed"
  have P: "1 \<le> P" and E: "500 \<le> E" "E < 2 ^ 32" and R: "P * 60000 \<le> 65000 * E"
  proof -
    have "of_nat 1 \<le> P" unfolding P_def of_nat_le_iff using p by simp
    then show "1 \<le> P" by simp
    have "of_nat 500 \<le> E" unfolding E_def of_nat_le_iff using e by simp
    then show "500 \<le> E" by simp
    have "E < of_nat (2 ^ 32)" unfolding E_def of_nat_less_iff using e by simp
    then show "E < 2 ^ 32" by simp
    have "of_nat (pulses * 60000) \<le> (of_nat (65000 * elapsed) :: rat)" unfolding of_nat_le_iff by (rule r)
    then show "P * 60000 \<le> 65000 * E" by (simp add: P_def E_def)
  qed
  define a b d where "a = float_round (float_round P / 1)" and "b = float_round E"
    and "d = float_round (60000 / b)"
  have a1: "P * (1 - 1 / 2 ^ 20) \<le> float_round P" "float_round P \<le> P * (1 + 1 / 2 ^ 20)"
    using P by (intro float_round_between; simp)+
  have a2: "P * (1 - 1 / 2 ^ 20) * (1 - 1 / 2 ^ 20) \<le> a" "a \<le> P * (1 + 1 / 2 ^ 20) * (1 + 1 / 2 ^ 20)"
    unfolding a_def using a1 P by (intro float_round_ge float_round_le; simp)+
  have b: "E * (1 - 1 / 2 ^ 20) \<le> b" "b \<le> E * (1 + 1 / 2 ^ 20)"
    unfolding b_def using E by (intro float_round_between; simp)+
  have b0: "0 < b" by (rule less_le_trans [OF _ b(1)]) (use E in simp)
  have bq: "1 / 2 ^ 18 \<le> 60000 / b" using b(2) E b0 by (simp add: field_simps)
  have bq': "60000 / b \<le> 60000 / (E * (1 - 1 / 2 ^ 20))"
    using b(1) b0 E by (intro divide_left_mono) simp_all
  have d: "1 / 2 ^ 18 * (1 - 1 / 2 ^ 20) \<le> d"
      "d \<le> 60000 / (E * (1 - 1 / 2 ^ 20)) * (1 + 1 / 2 ^ 20)"
    unfolding d_def using bq bq' by (intro float_round_ge float_round_le; simp)+
  have a3: "(1 - 1 / 2 ^ 20) * (1 - 1 / 2 ^ 20) \<le> a" using a2(1) P by (simp add: field_simps)
  have "(1 - 1 / 2 ^ 20) * (1 - 1 / 2 ^ 20) * (1 / 2 ^ 18 * (1 - 1 / 2 ^ 20)) \<le> a * d"
    using a3 d(1) by (intro mult_mono) simp_all
  then have ad: "1 / 2 ^ 20 \<le> a * d" by simp
  have "a * d \<le> (P * (1 + 1 / 2 ^ 20) * (1 + 1 / 2 ^ 20))
        * (60000 / (E * (1 - 1 / 2 ^ 20)) * (1 + 1 / 2 ^ 20))"
    using a2(2) d a3 P E by (intro mult_mono) (simp_all)
  also have "\<dots> = (P * 60000 / E) * ((1 + 1 / 2 ^ 20) ^ 3 / (1 - 1 / 2 ^ 20))"
    by (simp add: power3_eq_cube)
  also have "\<dots> \<le> 65000 * ((1 + 1 / 2 ^ 20) ^ 3 / (1 - 1 / 2 ^ 20))"
    using R E by (intro mult_right_mono) (simp_all add: divide_le_eq)
  finally have "a * d \<le> 65001" by (simp add: power3_eq_cube)
  with ad have "float_round (a * d) \<le> 65001 * (1 + 1 / 2 ^ 20)" by (intro float_round_le)
  moreover have "0 * (1 - 1 / 2 ^ 20) \<le> float_round (a * d)" using ad by (intro float_round_ge) simp_all
  ultimately show ?thesis by (simp add: v_def a_def d_def b_def P_def E_def)
qed

section \<open>Runs\<close>

datatype fan_op =
    OpStart | OpStop | OpSpeedUp | OpSpeedDown | OpPressureUp | OpPressureDown
  | OpToggleFan | OpToggleVac | OpSetFan u16 | OpSetVac u16 | OpPulse | OpUpdate u32 u32

fun fan_step :: "(rat \<Rightarrow> rat) \<Rightarrow> fan_op \<Rightarrow> fan_vac \<Rightarrow> fan_vac option" where
  "fan_step rnd OpStart f = Some (fan_vac_start f)"
| "fan_step rnd OpStop f = Some (fan_vac_stop f)"
| "fan_step rnd OpSpeedUp f = Some (fan_vac_fan_speed_up f)"
| "fan_step rnd OpSpeedDown f = Some (fan_vac_fan_speed_down f)"
| "fan_step rnd OpPressureUp f = Some (fan_vac_vac_pressure_up f)"
| "fan_step rnd OpPressureDown f = Some (fan_vac_vac_pressure_down f)"
| "fan_step rnd OpToggleFan f = Some (fan_vac_toggle_fan_power f)"
| "fan_step rnd OpToggleVac f = Some (fan_vac_toggle_vac_power f)"
| "fan_step rnd (OpSetFan t) f = Some (fan_vac_set_fan_target t f)"
| "fan_step rnd (OpSetVac t) f = Some (fan_vac_set_vac_target t f)"
| "fan_step rnd OpPulse f = Some (fan_rpm_isr f)"
| "fan_step rnd (OpUpdate now mv) f = fan_vac_update rnd now mv f"

fun fan_run :: "(rat \<Rightarrow> rat) \<Rightarrow> fan_op list \<Rightarrow> fan_vac \<Rightarrow> fan_vac option" where
  "fan_run rnd [] f = Some f"
| "fan_run rnd (x # xs) f = Option.bind (fan_step rnd x f) (fan_run rnd xs)"

definition duty_ok :: "u8 \<Rightarrow> bool" where
  "duty_ok d \<longleftrightarrow> d = 0 \<or> (51 \<le> d \<and> d \<le> 204)"

definition pid_ok :: "PIDController \<Rightarrow> bool" where
  "pid_ok p \<longleftrightarrow> outputMin p = 51 \<and> outputMax p = 204"

definition targets_ok :: "fan_vac \<Rightarrow> bool" where
  "targets_ok f \<longleftrightarrow> FAN_RPM_MIN \<le> fanRPMTarget f \<and> fanRPMTarget f \<le> FAN_RPM_MAX
     \<and> VAC_PRESSURE_MIN \<le> vacPressureTarget f \<and> vacPressureTarget f \<le> VAC_PRESSURE_MAX"

definition fan_channel_ok :: "fan_vac \<Rightarrow> bool" where
  "fan_channel_ok f \<longleftrightarrow> pid_ok (fanPID f) \<and> ledcFan f = fanPWMDuty f \<and> duty_ok (ledcFan f)
     \<and> (fanState f = FAN_IDLE \<or> \<not> fanPowerEnabled f \<longrightarrow> ledcFan f = 0)"

definition vac_channel_ok :: "fan_vac \<Rightarrow> bool" where
  "vac_channel_ok f \<longleftrightarrow> pid_ok (vacPID f) \<and> ledcVac f = vacPWMDuty f \<and> duty_ok (ledcVac f)
     \<and> (fanState f = FAN_IDLE \<or> \<not> vacPowerEnabled f \<longrightarrow> ledcVac f = 0)"

definition fan_inv :: "fan_vac \<Rightarrow> bool" where
  "fan_inv f \<longleftrightarrow> targets_ok f \<and> fan_channel_ok f \<and> vac_channel_ok f"

lemma pid_ok_reset [simp]: "pid_ok (pid_reset p) = pid_ok p"
  by (simp add: pid_ok_def pid_reset_def)

lemma pid_compute_clamped:
  "pid_compute rnd p s m = (r, p') \<Longrightarrow> pid_ok p \<Longrightarrow> 51 \<le> r \<and> r \<le> 204 \<and> pid_ok p'
     \<and> 51 \<le> integralTerm p' \<and> integralTerm p' \<le> 204"
  by (auto simp: pid_compute_def Let_def pid_ok_def)

lemma to_u8_duty:
  assumes "51 \<le> r" "r \<le> 204"
  shows "\<exists>d. to_u8 r = Some d \<and> duty_ok d \<and> d \<noteq> 0"
proof -
  have "51 \<le> \<lfloor>r\<rfloor>" "\<lfloor>r\<rfloor> \<le> 204" using assms by (simp_all add: le_floor_iff floor_le_iff)
  then obtain n where n: "\<lfloor>r\<rfloor> = int n" "51 \<le> n" "n \<le> 204" using nonneg_int_cases [of "\<lfloor>r\<rfloor>"] by auto
  then have "unat (of_nat n :: u8) = n" by (simp add: unat_of_nat_u8)
  with n assms show ?thesis
    by (auto simp: to_u8_def duty_ok_def word_le_nat_alt)
qed

lemma control_fan_ok:
  assumes "control_fan rnd rpm f = Some f'" "fan_channel_ok f" "fanState f = RUNNING"
  shows "fan_channel_ok f' \<and> (fanPowerEnabled f \<longrightarrow> ledcFan f' \<noteq> 0)
    \<and> targets_ok f' = targets_ok f \<and> vac_channel_ok f' = vac_channel_ok f \<and> fanState f' = RUNNING
    \<and> fanPowerEnabled f' = fanPowerEnabled f \<and> vacPowerEnabled f' = vacPowerEnabled f"
proof (cases "fanPowerEnabled f")
  case True
  obtain r p where rp: "pid_compute rnd (fanPID f) (of_u16 rnd (fanRPMTarget f)) (of_u16 rnd rpm) = (r, p)"
    by fastforce
  with assms(2) have r: "51 \<le> r" "r \<le> 204" "pid_ok p"
    using pid_compute_clamped by (auto simp: fan_channel_ok_def)
  from to_u8_duty [OF r(1,2)] obtain d where "to_u8 r = Some d" "duty_ok d" "d \<noteq> 0" by blast
  with assms True rp r show ?thesis
    by (auto simp: control_fan_def set_fan_pwm_def fan_channel_ok_def targets_ok_def vac_channel_ok_def
        split: option.splits)
next
  case False
  with assms have "f' = f\<lparr>fanPID := fanPID f, ledcFan := 0, fanPWMDuty := 0, fanFault := False\<rparr>"
    by (simp add: control_fan_def set_fan_pwm_def)
  with assms False show ?thesis
    by (auto simp: fan_channel_ok_def duty_ok_def targets_ok_def vac_channel_ok_def)
qed

lemma control_vac_ok:
  assumes "control_vac rnd q f = Some f'" "vac_channel_ok f" "fanState f = RUNNING"
  shows "vac_channel_ok f' \<and> (vacPowerEnabled f \<longrightarrow> ledcVac f' \<noteq> 0)
    \<and> targets_ok f' = targets_ok f \<and> fan_channel_ok f' = fan_channel_ok f \<and> fanState f' = RUNNING
    \<and> fanPowerEnabled f' = fanPowerEnabled f \<and> vacPowerEnabled f' = vacPowerEnabled f
    \<and> ledcFan f' = ledcFan f \<and> fanFault f' = fanFault f"
proof (cases "vacPowerEnabled f")
  case True
  obtain r p where rp: "pid_compute rnd (vacPID f) (of_u16 rnd (vacPressureTarget f)) (of_u16 rnd q) = (r, p)"
    by fastforce
  with assms(2) have r: "51 \<le> r" "r \<le> 204" "pid_ok p"
    using pid_compute_clamped by (auto simp: vac_channel_ok_def)
  from to_u8_duty [OF r(1,2)] obtain d where "to_u8 r = Some d" "duty_ok d" "d \<noteq> 0" by blast
  with assms True rp r show ?thesis
    by (auto simp: control_vac_def set_vac_pwm_def fan_channel_ok_def targets_ok_def vac_channel_ok_def
        split: option.splits)
next
  case False
  with assms have "f' = f\<lparr>vacPID := vacPID f, ledcVac := 0, vacPWMDuty := 0, vacFault := False\<rparr>"
    by (simp add: control_vac_def set_vac_pwm_def)
  with assms False show ?thesis
    by (auto simp: fan_channel_ok_def duty_ok_def targets_ok_def vac_channel_ok_def)
qed

definition same_actuators :: "fan_vac \<Rightarrow> fan_vac \<Rightarrow> bool" where
  "same_actuators f f' \<longleftrightarrow> targets_ok f' = targets_ok f \<and> fan_channel_ok f' = fan_channel_ok f
     \<and> vac_channel_ok f' = vac_channel_ok f \<and> fanState f' = fanState f
     \<and> fanPowerEnabled f' = fanPowerEnabled f \<and> vacPowerEnabled f' = vacPowerEnabled f"

lemma read_rpm_same: "fan_vac_read_rpm rnd now f = Some (r, f') \<Longrightarrow> same_actuators f f'"
  by (auto simp: fan_vac_read_rpm_def Let_def same_actuators_def targets_ok_def fan_channel_ok_def
      vac_channel_ok_def split: if_splits option.splits)

lemma read_pressure_same: "fan_vac_read_pressure rnd mv f = Some (r, f') \<Longrightarrow> same_actuators f f'"
  by (auto simp: fan_vac_read_pressure_def same_actuators_def targets_ok_def fan_channel_ok_def
      vac_channel_ok_def split: option.splits)

lemma update_running:
  assumes "fan_vac_update rnd now mv f = Some f'" "fan_inv f" "fanState f = RUNNING"
  shows "fan_inv f' \<and> fanState f' \<noteq> FAN_IDLE \<and> (fanPowerEnabled f' \<longrightarrow> ledcFan f' \<noteq> 0)
    \<and> (vacPowerEnabled f' \<longrightarrow> ledcVac f' \<noteq> 0)
    \<and> fanPowerEnabled f' = fanPowerEnabled f \<and> vacPowerEnabled f' = vacPowerEnabled f"
proof -
  from assms(1,3) obtain rpm f1 q f2 f3 f4 where
    1: "fan_vac_read_rpm rnd now f = Some (rpm, f1)" "fan_vac_read_pressure rnd mv f1 = Some (q, f2)"
      "control_fan rnd rpm f2 = Some f3" "control_vac rnd q f3 = Some f4"
    and f': "f' = f4\<lparr>fanState := (if fanFault f4 then FAULT_FAN else if vacFault f4 then FAULT_VAC else RUNNING)\<rparr>"
    by (auto simp: fan_vac_update_def bind_eq_Some_conv)
  have 2: "fan_inv f2" "fanState f2 = RUNNING"
      "fanPowerEnabled f2 = fanPowerEnabled f" "vacPowerEnabled f2 = vacPowerEnabled f"
    using read_rpm_same [OF 1(1)] read_pressure_same [OF 1(2)] assms(2,3)
    by (simp_all add: same_actuators_def fan_inv_def)
  have 3: "fan_inv f3" "fanState f3 = RUNNING" "fanPowerEnabled f3 \<longrightarrow> ledcFan f3 \<noteq> 0"
      "fanPowerEnabled f3 = fanPowerEnabled f" "vacPowerEnabled f3 = vacPowerEnabled f"
    using control_fan_ok [OF 1(3)] 2 by (simp_all add: fan_inv_def)
  have 4: "fan_inv f4 \<and> fanState f4 = RUNNING \<and> (fanPowerEnabled f4 \<longrightarrow> ledcFan f4 \<noteq> 0)
      \<and> (vacPowerEnabled f4 \<longrightarrow> ledcVac f4 \<noteq> 0)
      \<and> fanPowerEnabled f4 = fanPowerEnabled f \<and> vacPowerEnabled f4 = vacPowerEnabled f"
    using control_vac_ok [OF 1(4)] 3 by (simp add: fan_inv_def)
  then show ?thesis
    unfolding f' by (auto simp: fan_inv_def targets_ok_def fan_channel_ok_def vac_channel_ok_def)
qed

lemma fan_inv_set_rpm:
  "fan_inv f \<Longrightarrow> FAN_RPM_MIN \<le> t \<Longrightarrow> t \<le> FAN_RPM_MAX \<Longrightarrow> fan_inv (f\<lparr>fanRPMTarget := t\<rparr>)"
  by (auto simp: fan_inv_def targets_ok_def fan_channel_ok_def vac_channel_ok_def)

lemma fan_inv_set_pressure:
  "fan_inv f \<Longrightarrow> VAC_PRESSURE_MIN \<le> t \<Longrightarrow> t \<le> VAC_PRESSURE_MAX \<Longrightarrow> fan_inv (f\<lparr>vacPressureTarget := t\<rparr>)"
  by (auto simp: fan_inv_def targets_ok_def fan_channel_ok_def vac_channel_ok_def)

lemma unat_le_eq: "(x :: u16) \<le> y \<longleftrightarrow> unat x \<le> unat y"
  by (rule word_le_nat_alt)

lemma target_up:
  "(1000 :: u16) \<le> t \<Longrightarrow> t \<le> 4500 \<Longrightarrow> 1000 \<le> t + 50"
  "(5 :: u16) \<le> u \<Longrightarrow> u \<le> 40 \<Longrightarrow> 5 \<le> u + 1"
  by (simp_all add: unat_le_eq unat_plus_if')

lemma target_down:
  "(1000 :: u16) \<le> t \<Longrightarrow> t \<le> 4500 \<Longrightarrow> t - 50 \<le> 4500"
  "(5 :: u16) \<le> u \<Longrightarrow> u \<le> 40 \<Longrightarrow> u - 1 \<le> 40"
  by (simp_all add: unat_le_eq unat_sub_if_size)

lemma fan_inv_targets:
  "fan_inv f \<Longrightarrow> FAN_RPM_MIN \<le> fanRPMTarget f \<and> fanRPMTarget f \<le> FAN_RPM_MAX
     \<and> VAC_PRESSURE_MIN \<le> vacPressureTarget f \<and> vacPressureTarget f \<le> VAC_PRESSURE_MAX"
  by (simp add: fan_inv_def targets_ok_def)

lemma fan_inv_buttons:
  assumes "fan_inv f"
  shows "fan_inv (fan_vac_fan_speed_up f)" "fan_inv (fan_vac_fan_speed_down f)"
    "fan_inv (fan_vac_vac_pressure_up f)" "fan_inv (fan_vac_vac_pressure_down f)"
    "fan_inv (fan_vac_set_fan_target t f)" "fan_inv (fan_vac_set_vac_target t f)"
  using assms fan_inv_targets [OF assms] target_up target_down
  by (auto simp: fan_vac_fan_speed_up_def fan_vac_fan_speed_down_def fan_vac_vac_pressure_up_def
      fan_vac_vac_pressure_down_def fan_vac_set_fan_target_def fan_vac_set_vac_target_def Let_def not_less
      intro!: fan_inv_set_rpm fan_inv_set_pressure)

lemma fan_inv_start: "fan_inv f \<Longrightarrow> fan_inv (fan_vac_start f)"
  by (auto simp: fan_inv_def targets_ok_def fan_channel_ok_def vac_channel_ok_def fan_vac_start_def reset_pids_def)

lemma fan_inv_stop: "fan_inv f \<Longrightarrow> fan_inv (fan_vac_stop f)"
  by (simp add: fan_inv_def targets_ok_def fan_channel_ok_def vac_channel_ok_def duty_ok_def fan_vac_stop_def
      reset_pids_def set_fan_pwm_def set_vac_pwm_def)

lemma fan_inv_isr: "fan_inv f \<Longrightarrow> fan_inv (fan_rpm_isr f)"
  by (auto simp: fan_inv_def targets_ok_def fan_channel_ok_def vac_channel_ok_def fan_rpm_isr_def)

lemma fan_inv_toggle_fan: "fan_inv f \<Longrightarrow> fan_inv (fan_vac_toggle_fan_power f)"
  by (cases "fanPowerEnabled f")
    (auto simp: fan_inv_def targets_ok_def fan_channel_ok_def vac_channel_ok_def duty_ok_def
      fan_vac_toggle_fan_power_def set_fan_pwm_def Let_def)

lemma fan_inv_toggle_vac: "fan_inv f \<Longrightarrow> fan_inv (fan_vac_toggle_vac_power f)"
  by (cases "vacPowerEnabled f")
    (auto simp: fan_inv_def targets_ok_def fan_channel_ok_def vac_channel_ok_def duty_ok_def
      fan_vac_toggle_vac_power_def set_vac_pwm_def Let_def)

lemma fan_inv_update: "fan_vac_update rnd now mv f = Some f' \<Longrightarrow> fan_inv f \<Longrightarrow> fan_inv f'"
  by (cases "fanState f = RUNNING") (blast dest: update_running, simp add: fan_vac_update_def)

lemma fan_step_inv:
  "fan_step rnd x f = Some f' \<Longrightarrow> fan_inv f \<Longrightarrow> fan_inv f'"
  by (cases x) (auto simp: fan_inv_buttons fan_inv_start fan_inv_stop fan_inv_isr fan_inv_toggle_fan
      fan_inv_toggle_vac dest: fan_inv_update)

lemma fan_run_inv: "fan_run rnd xs f = Some f' \<Longrightarrow> fan_inv f \<Longrightarrow> fan_inv f'"
  by (induction xs arbitrary: f) (auto simp: bind_eq_Some_conv dest: fan_step_inv)

lemma fan_init_inv: "fan_inv (fan_vac_init (fan_vac_boot rnd))"
  by (simp add: fan_inv_def fan_vac_init_def fan_vac_boot_def reset_pids_def set_fan_pwm_def set_vac_pwm_def
      targets_ok_def fan_channel_ok_def vac_channel_ok_def duty_ok_def pid_ok_def pid_reset_def)


section \<open>Definedness of the conversions\<close>

lemma to_u16_some: "0 \<le> x \<Longrightarrow> x < 65536 \<Longrightarrow> \<exists>w. to_u16 x = Some w"
  by (simp add: to_u16_def)

lemma float_round_range:
  assumes "1 / 2 ^ 20 \<le> x" "x \<le> y"
  shows "0 \<le> float_round x" "float_round x \<le> y * (1 + 1 / 2 ^ 20)"
proof -
  have "0 * (1 - 1 / 2 ^ 20) \<le> float_round x" using assms(1) by (intro float_round_ge) simp_all
  then show "0 \<le> float_round x" by simp
  show "float_round x \<le> y * (1 + 1 / 2 ^ 20)" by (rule float_round_le [OF assms])
qed

lemma unat_rat_le: "unat (w :: 'a::len word) \<le> n \<Longrightarrow> (of_nat (unat w) :: rat) \<le> of_nat n"
  by (simp only: of_nat_le_iff)

lemma unat_rat_ge: "n \<le> unat (w :: 'a::len word) \<Longrightarrow> (of_nat n :: rat) \<le> of_nat (unat w)"
  by (simp only: of_nat_le_iff)

lemma threshold_defined:
  assumes "(1 :: u16) \<le> t" "t \<le> 4500"
  shows "\<exists>w. to_u16 (float_round (of_u16 float_round t * float_round (8 / 10))) = Some w"
proof -
  have t: "1 \<le> (of_nat (unat t) :: rat)" "(of_nat (unat t) :: rat) \<le> 4500"
    using assms unat_rat_ge [of 1 t] unat_rat_le [of t 4500] by (simp_all add: word_le_nat_alt)
  have a: "1 - 1 / 2 ^ 20 \<le> of_u16 float_round t" "of_u16 float_round t \<le> 4500 * (1 + 1 / 2 ^ 20)"
    unfolding of_u16_def using float_round_ge [of _ 1] float_round_le [of _ 4500] t by auto
  have b: "8 / 10 * (1 - 1 / 2 ^ 20) \<le> float_round (8 / 10)" "float_round (8 / 10) \<le> 8 / 10 * (1 + 1 / 2 ^ 20)"
    by (intro float_round_between; simp)+
  have "(1 - 1 / 2 ^ 20) * (8 / 10 * (1 - 1 / 2 ^ 20)) \<le> of_u16 float_round t * float_round (8 / 10)"
    using a b by (intro mult_mono) simp_all
  then have lo: "1 / 2 ^ 20 \<le> of_u16 float_round t * float_round (8 / 10)" by simp
  have "of_u16 float_round t * float_round (8 / 10) \<le> 4500 * (1 + 1 / 2 ^ 20) * (8 / 10 * (1 + 1 / 2 ^ 20))"
    using a b by (intro mult_mono) simp_all
  from float_round_range [OF lo this] show ?thesis by (intro to_u16_some) simp_all
qed

lemma pressure_defined:
  assumes "mv \<le> (5000 :: u32)"
  shows "\<exists>w. to_u16 (float_round (float_round (float_round (of_u32 float_round mv / 3900) * 35) + 5)) = Some w"
proof (cases "mv = 0")
  case True
  have "float_round (0 + 5) \<le> 5 * (1 + 1 / 2 ^ 20)" "0 \<le> float_round (0 + 5)"
    using float_round_range [of 5 5] by simp_all
  with True show ?thesis by (intro to_u16_some) (simp_all add: of_u32_def)
next
  case False
  then have m: "1 \<le> (of_nat (unat mv) :: rat)" "(of_nat (unat mv) :: rat) \<le> 5000"
    using assms False unat_rat_ge [of 1 mv] unat_rat_le [of mv 5000]
    by (simp_all add: word_le_nat_alt Suc_le_eq unat_gt_0)
  have a: "1 * (1 - 1 / 2 ^ 20) \<le> of_u32 float_round mv" "of_u32 float_round mv \<le> 5000 * (1 + 1 / 2 ^ 20)"
    unfolding of_u32_def using m by (intro float_round_ge float_round_le; simp)+
  define b where "b = float_round (of_u32 float_round mv / 3900)"
  have b: "1 / 4000 * (1 - 1 / 2 ^ 20) \<le> b" "b \<le> 2 * (1 + 1 / 2 ^ 20)"
    unfolding b_def using a by (intro float_round_ge float_round_le; simp)+
  define c where "c = float_round (b * 35)"
  have c: "1 / 4000 * (1 - 1 / 2 ^ 20) \<le> c" "c \<le> 71 * (1 + 1 / 2 ^ 20)"
    unfolding c_def using b by (intro float_round_ge float_round_le; simp)+
  have "0 \<le> float_round (c + 5)" "float_round (c + 5) \<le> 77 * (1 + 1 / 2 ^ 20)"
    using c by (intro float_round_range [of _ 77]; simp)+
  then show ?thesis unfolding b_def [symmetric] c_def [symmetric] by (intro to_u16_some) simp_all
qed

lemma read_rpm_defined:
  assumes "unat (fanPulseCount f) * 60000 \<le> 65000 * unat (now - lastRPMCalculationTime f)"
  shows "\<exists>r f'. fan_vac_read_rpm float_round now f = Some (r, f')"
proof (cases "now - lastRPMCalculationTime f \<ge> FAN_RPM_SAMPLE_MS \<and> fanPulseCount f \<noteq> 0")
  case True
  then have "500 \<le> unat (now - lastRPMCalculationTime f)" "0 < unat (fanPulseCount f)"
    by (simp_all add: word_le_nat_alt unat_gt_0)
  moreover have "unat (now - lastRPMCalculationTime f) < 2 ^ 32" by (rule order_less_le_trans [OF unsigned_less]) simp
  ultimately obtain w where "to_u16 (float_round (float_round (float_round (of_nat (unat (fanPulseCount f))) / 1)
      * float_round (60000 / float_round (of_nat (unat (now - lastRPMCalculationTime f)))))) = Some w"
    using rpm_in_range [OF _ _ _ assms] to_u16_some by blast
  with True show ?thesis by (auto simp: fan_vac_read_rpm_def Let_def of_u32_def)
next
  case False
  then show ?thesis
    by (auto simp: fan_vac_read_rpm_def Let_def of_u32_def to_u16_def)
qed


lemma read_rpm_targets:
  "fan_vac_read_rpm rnd now f = Some (r, f') \<Longrightarrow> fan_inv f \<Longrightarrow> fan_inv f'"
  by (drule read_rpm_same) (simp add: same_actuators_def fan_inv_def)

lemma read_pressure_targets:
  "fan_vac_read_pressure rnd mv f = Some (r, f') \<Longrightarrow> fan_inv f \<Longrightarrow> fan_inv f' \<and> fanState f' = fanState f"
  by (drule read_pressure_same) (simp add: same_actuators_def fan_inv_def)

lemma control_fan_defined:
  assumes "fan_inv f"
  shows "\<exists>f'. control_fan float_round rpm f = Some f'"
proof -
  obtain r p where rp: "pid_compute float_round (fanPID f) (of_u16 float_round (fanRPMTarget f)) (of_u16 float_round rpm) = (r, p)"
    by fastforce
  have "51 \<le> r" "r \<le> 204" using assms pid_compute_clamped [OF rp] by (simp_all add: fan_inv_def fan_channel_ok_def)
  from to_u8_duty [OF this] obtain d where "to_u8 r = Some d" by blast
  moreover have "1 \<le> fanRPMTarget f" using fan_inv_targets [OF assms] by (simp add: word_le_nat_alt)
  with fan_inv_targets [OF assms] threshold_defined [of "fanRPMTarget f"] obtain w where
    "to_u16 (float_round (of_u16 float_round (fanRPMTarget f) * float_round (8 / 10))) = Some w" by blast
  ultimately show ?thesis using rp by (simp add: control_fan_def)
qed

lemma control_vac_defined:
  assumes "fan_inv f"
  shows "\<exists>f'. control_vac float_round q f = Some f'"
proof -
  obtain r p where rp: "pid_compute float_round (vacPID f) (of_u16 float_round (vacPressureTarget f)) (of_u16 float_round q) = (r, p)"
    by fastforce
  have "51 \<le> r" "r \<le> 204" using assms pid_compute_clamped [OF rp] by (simp_all add: fan_inv_def vac_channel_ok_def)
  from to_u8_duty [OF this] obtain d where "to_u8 r = Some d" by blast
  moreover have "1 \<le> vacPressureTarget f" "vacPressureTarget f \<le> 4500"
    using fan_inv_targets [OF assms] by (simp_all add: word_le_nat_alt)
  with threshold_defined [of "vacPressureTarget f"] obtain w where
    "to_u16 (float_round (of_u16 float_round (vacPressureTarget f) * float_round (8 / 10))) = Some w" by blast
  ultimately show ?thesis using rp by (simp add: control_vac_def)
qed

lemma update_some:
  assumes "fan_inv f" "mv \<le> 5000"
    and "unat (fanPulseCount f) * 60000 \<le> 65000 * unat (now - lastRPMCalculationTime f)"
  shows "\<exists>f'. fan_vac_update float_round now mv f = Some f'"
proof (cases "fanState f = RUNNING")
  case True
  from read_rpm_defined [OF assms(3)] obtain r f1 where 1: "fan_vac_read_rpm float_round now f = Some (r, f1)" by blast
  then have i1: "fan_inv f1" using assms(1) by (rule read_rpm_targets)
  obtain q f2 where 2: "fan_vac_read_pressure float_round mv f1 = Some (q, f2)"
    using pressure_defined [OF assms(2)] by (fastforce simp: fan_vac_read_pressure_def)
  then have i2: "fan_inv f2" "fanState f2 = RUNNING"
    using i1 read_pressure_targets read_rpm_same [OF 1] True by (auto simp: same_actuators_def)
  obtain f3 where 3: "control_fan float_round r f2 = Some f3" using control_fan_defined [OF i2(1)] by blast
  then have "fan_inv f3" using i2 control_fan_ok by (simp add: fan_inv_def)
  then obtain f4 where "control_vac float_round q f3 = Some f4" using control_vac_defined by blast
  with 1 2 3 True show ?thesis by (simp add: fan_vac_update_def)
qed (simp add: fan_vac_update_def)

section \<open>Properties\<close>

definition fan_boot :: fan_vac where
  "fan_boot = fan_vac_init (fan_vac_boot float_round)"

lemmas fan_boot_inv = fan_init_inv [of float_round, folded fan_boot_def]

definition first_ops :: "fan_op list" where
  "first_ops = [OpStart, OpSpeedDown, OpPulse]"

lemma first_ops_state:
  "\<exists>f. fan_run float_round first_ops fan_boot = Some f \<and> fanPulseCount f = 1
     \<and> lastRPMCalculationTime f = 0 \<and> fanState f = RUNNING \<and> fanPowerEnabled f \<and> vacPowerEnabled f"
  by (simp add: first_ops_def fan_boot_def fan_vac_init_def fan_vac_boot_def fan_vac_start_def reset_pids_def
      fan_vac_fan_speed_down_def fan_rpm_isr_def set_fan_pwm_def set_vac_pwm_def Let_def)

text \<open>C39: Whatever the operator and the sensors do after initialisation, and however the
  floating-point operations round, the fan target stays within 1000 to 4500 RPM and the vacuum
  target within 5 to 40 (no 16-bit wrap-around at the ends), each PWM duty is zero or between 51
  and 204, equals the duty reported in the status, and is zero while the device is idle or
  switched off.\<close>

theorem fan_run_bounds:
  assumes "fan_run rnd ops (fan_vac_init (fan_vac_boot rnd)) = Some f"
  shows "FAN_RPM_MIN \<le> fanRPMTarget f \<and> fanRPMTarget f \<le> FAN_RPM_MAX
    \<and> VAC_PRESSURE_MIN \<le> vacPressureTarget f \<and> vacPressureTarget f \<le> VAC_PRESSURE_MAX
    \<and> duty_ok (ledcFan f) \<and> duty_ok (ledcVac f)
    \<and> fanPWMDuty f = ledcFan f \<and> vacPWMDuty f = ledcVac f
    \<and> (fanState f = FAN_IDLE \<or> \<not> fanPowerEnabled f \<longrightarrow> ledcFan f = 0)
    \<and> (fanState f = FAN_IDLE \<or> \<not> vacPowerEnabled f \<longrightarrow> ledcVac f = 0)"
  using fan_run_inv [OF assms fan_init_inv]
  by (auto simp: fan_inv_def targets_ok_def fan_channel_ok_def vac_channel_ok_def)

lemma fan_run_append: "fan_run rnd (xs @ ys) f = Option.bind (fan_run rnd xs f) (fan_run rnd ys)"
  by (induction xs arbitrary: f) (auto split: bind_splits)

theorem fan_run_bounds_witness:
  "\<exists>f. fan_run float_round (first_ops @ [OpUpdate 600 1000, OpToggleFan])
         (fan_vac_init (fan_vac_boot float_round)) = Some f \<and> ledcFan f = 0 \<and> duty_ok (ledcVac f)"
proof -
  obtain f where f: "fan_run float_round first_ops fan_boot = Some f" "fanPulseCount f = 1"
      "lastRPMCalculationTime f = 0" "fanState f = RUNNING" "fanPowerEnabled f"
    using first_ops_state by blast
  have "fan_inv f" using f(1) fan_boot_inv by (rule fan_run_inv)
  with f obtain f1 where u: "fan_vac_update float_round 600 1000 f = Some f1"
    using update_some [of f 1000 600] by (auto simp: word_le_nat_alt)
  define f2 where "f2 = fan_vac_toggle_fan_power f1"
  have 1: "fan_run float_round (first_ops @ [OpUpdate 600 1000, OpToggleFan])
         (fan_vac_init (fan_vac_boot float_round)) = Some f2"
    using f u by (simp add: fan_run_append fan_boot_def f2_def)
  have "fanPowerEnabled f1 = fanPowerEnabled f"
    using update_running [OF u _ f(4)] \<open>fan_inv f\<close> by blast
  with f have "\<not> fanPowerEnabled f2" by (simp add: f2_def fan_switch.toggle_flips)
  with fan_run_bounds [OF 1] 1 show ?thesis by blast
qed

text \<open>In single precision an update never converts an out-of-range float: it returns, from
  every state the operations reach, when the sensor voltage is at most 5 V and the pulses counted
  since the last sample stand for at most 65000 revolutions a minute. If the controllers were
  running, a powered device is driven afterwards, and the state stays running only if neither
  fault flag is set.\<close>

theorem fan_update_defined:
  assumes "fan_run float_round ops fan_boot = Some f" "mv \<le> 5000"
    and "unat (fanPulseCount f) * 60000 \<le> 65000 * unat (now - lastRPMCalculationTime f)"
  shows "\<exists>f'. fan_vac_update float_round now mv f = Some f'
    \<and> (fanState f = RUNNING \<longrightarrow>
         (fanPowerEnabled f' \<longrightarrow> ledcFan f' \<noteq> 0) \<and> (vacPowerEnabled f' \<longrightarrow> ledcVac f' \<noteq> 0)
         \<and> fanState f' = (if fanFault f' then FAULT_FAN else if vacFault f' then FAULT_VAC else RUNNING))"
proof -
  have inv: "fan_inv f" using assms(1) fan_boot_inv by (rule fan_run_inv)
  from update_some [OF inv assms(2,3)] obtain f' where f': "fan_vac_update float_round now mv f = Some f'" by blast
  moreover have "fanState f = RUNNING \<Longrightarrow>
      fanState f' = (if fanFault f' then FAULT_FAN else if vacFault f' then FAULT_VAC else RUNNING)"
    using f' by (auto simp: fan_vac_update_def bind_eq_Some_conv)
  ultimately show ?thesis using update_running [OF f' inv] by blast
qed

theorem fan_update_defined_witness:
  "\<exists>f f'. fan_run float_round first_ops fan_boot = Some f \<and> fan_vac_update float_round 600 1000 f = Some f'"
proof -
  obtain f where f: "fan_run float_round first_ops fan_boot = Some f" "fanPulseCount f = 1"
      "lastRPMCalculationTime f = 0" using first_ops_state by blast
  have "\<exists>f'. fan_vac_update float_round 600 1000 f = Some f'"
    using fan_update_defined [OF f(1), of 1000 600] f(2,3) by (auto simp: word_le_nat_alt)
  with f(1) show ?thesis by blast
qed

lemma fault_step:
  assumes "fan_step rnd x f = Some f'" "fanState f = FAULT_FAN \<or> fanState f = FAULT_VAC"
    "x \<noteq> OpStart" "x \<noteq> OpStop"
  shows "fanState f' = fanState f \<and> (ledcFan f' = ledcFan f \<or> ledcFan f' = 0)
    \<and> (ledcVac f' = ledcVac f \<or> ledcVac f' = 0)"
  using assms
  by (cases x) (auto simp: fan_vac_update_def fan_vac_fan_speed_up_def fan_vac_fan_speed_down_def
      fan_vac_vac_pressure_up_def fan_vac_vac_pressure_down_def fan_vac_set_fan_target_def
      fan_vac_set_vac_target_def fan_rpm_isr_def fan_vac_toggle_fan_power_def fan_vac_toggle_vac_power_def
      set_fan_pwm_def set_vac_pwm_def Let_def)

lemma fault_run:
  "fan_run rnd xs f = Some f' \<Longrightarrow> fanState f = FAULT_FAN \<or> fanState f = FAULT_VAC \<Longrightarrow>
   OpStart \<notin> set xs \<Longrightarrow> OpStop \<notin> set xs \<Longrightarrow>
   fanState f' = fanState f \<and> (ledcFan f' = ledcFan f \<or> ledcFan f' = 0)
    \<and> (ledcVac f' = ledcVac f \<or> ledcVac f' = 0)"
proof (induction xs arbitrary: f)
  case (Cons x xs)
  then obtain f1 where 1: "fan_step rnd x f = Some f1" "fan_run rnd xs f1 = Some f'"
    by (auto simp: bind_eq_Some_conv)
  have 2: "fanState f1 = fanState f \<and> (ledcFan f1 = ledcFan f \<or> ledcFan f1 = 0)
      \<and> (ledcVac f1 = ledcVac f \<or> ledcVac f1 = 0)"
    using fault_step [OF 1(1)] Cons.prems by auto
  moreover have "fanState f' = fanState f1 \<and> (ledcFan f' = ledcFan f1 \<or> ledcFan f' = 0)
      \<and> (ledcVac f' = ledcVac f1 \<or> ledcVac f' = 0)"
    using Cons.IH [OF 1(2)] Cons.prems 2 by simp
  ultimately show ?case by auto
qed simp

lemma threshold_pos:
  assumes "(2 :: u16) \<le> t" "to_u16 (float_round (of_u16 float_round t * float_round (8 / 10))) = Some w"
  shows "w \<noteq> 0"
proof -
  have t: "2 \<le> (of_nat (unat t) :: rat)" "(of_nat (unat t) :: rat) \<le> 65535"
    using assms(1) unat_rat_ge [of 2 t] unat_rat_le [of t 65535] unat_u16_bound [of t]
    by (simp_all add: word_le_nat_alt)
  have a: "2 * (1 - 1 / 2 ^ 20) \<le> of_u16 float_round t" "0 \<le> of_u16 float_round t"
    unfolding of_u16_def using float_round_ge [of _ 2] float_round_range(1) [of _ 65535] t by auto
  have b: "8 / 10 * (1 - 1 / 2 ^ 20) \<le> float_round (8 / 10)"
    by (intro float_round_between; simp)
  have "2 * (1 - 1 / 2 ^ 20) * (8 / 10 * (1 - 1 / 2 ^ 20)) \<le> of_u16 float_round t * float_round (8 / 10)"
    using a b by (intro mult_mono) simp_all
  then have "3 / 2 \<le> of_u16 float_round t * float_round (8 / 10)" by simp
  then have "3 / 2 * (1 - 1 / 2 ^ 20) \<le> float_round (of_u16 float_round t * float_round (8 / 10))"
    by (intro float_round_ge) simp_all
  then have r: "1 \<le> float_round (of_u16 float_round t * float_round (8 / 10))" by simp
  define v where "v = float_round (of_u16 float_round t * float_round (8 / 10))"
  have "1 \<le> \<lfloor>v\<rfloor>" "\<lfloor>v\<rfloor> < 65536" "w = of_int \<lfloor>v\<rfloor>"
    using r [folded v_def] assms(2) [folded v_def]
    by (auto simp: to_u16_def le_floor_iff floor_less_iff split: if_splits)
  then show ?thesis
    by (auto simp: word_of_int_eq_0_iff dest: zdvd_imp_le)
qed

lemma control_fan_stalled:
  assumes "control_fan float_round 0 f = Some f'" "fan_inv f" "fanPowerEnabled f"
  shows "fanFault f'"
proof -
  have "2 \<le> fanRPMTarget f" using fan_inv_targets [OF assms(2)] by (simp add: word_le_nat_alt)
  with assms show ?thesis
    by (auto simp: control_fan_def word_gt_0 dest: threshold_pos split: prod.splits option.splits)
qed

theorem first_update_latches_fault:
  assumes "fan_run float_round [OpStart, OpUpdate now mv] fan_boot = Some f1"
    and "fan_run float_round ops f1 = Some f2" "OpStart \<notin> set ops" "OpStop \<notin> set ops"
  shows "fanState f1 = FAULT_FAN \<and> ledcFan f1 \<noteq> 0 \<and> fanState f2 = FAULT_FAN
    \<and> (ledcFan f2 = ledcFan f1 \<or> ledcFan f2 = 0) \<and> (ledcVac f2 = ledcVac f1 \<or> ledcVac f2 = 0)"
proof -
  have 1: "fan_vac_update float_round now mv (fan_vac_start fan_boot) = Some f1"
    using assms(1) by (simp split: bind_splits)
  have start: "fan_inv (fan_vac_start fan_boot)" "fanState (fan_vac_start fan_boot) = RUNNING"
      "fanPowerEnabled (fan_vac_start fan_boot)" "fanPulseCount (fan_vac_start fan_boot) = 0"
      "calculatedFanRPM (fan_vac_start fan_boot) = 0"
    by (rule fan_inv_start [OF fan_boot_inv])
      (simp_all add: fan_boot_def fan_vac_boot_def fan_vac_init_def fan_vac_start_def reset_pids_def
        set_fan_pwm_def set_vac_pwm_def)
  from 1 start(2) obtain rpm g1 q g2 g3 g4 where
    2: "fan_vac_read_rpm float_round now (fan_vac_start fan_boot) = Some (rpm, g1)"
      "fan_vac_read_pressure float_round mv g1 = Some (q, g2)"
      "control_fan float_round rpm g2 = Some g3" "control_vac float_round q g3 = Some g4"
    and f1: "f1 = g4\<lparr>fanState := (if fanFault g4 then FAULT_FAN else if vacFault g4 then FAULT_VAC else RUNNING)\<rparr>"
    by (auto simp: fan_vac_update_def bind_eq_Some_conv)
  have rpm: "rpm = 0"
    using 2(1) start(4,5) by (auto simp: fan_vac_read_rpm_def Let_def of_u32_def to_u16_def split: if_splits)
  have g2: "fan_inv g2" "fanState g2 = RUNNING" "fanPowerEnabled g2"
    using read_rpm_same [OF 2(1)] read_pressure_same [OF 2(2)] start
    by (simp_all add: same_actuators_def fan_inv_def)
  have "fanFault g3" using control_fan_stalled 2(3) g2 by (simp add: rpm)
  moreover have g3: "fan_inv g3" "fanState g3 = RUNNING"
    using control_fan_ok [OF 2(3)] g2 by (simp_all add: fan_inv_def)
  ultimately have "fanFault g4" using control_vac_ok [OF 2(4)] by (simp add: fan_inv_def)
  then have f: "fanState f1 = FAULT_FAN" by (simp add: f1)
  moreover have "ledcFan f1 \<noteq> 0" using update_running [OF 1 start(1,2)] start(3) by blast
  ultimately show ?thesis using fault_run [OF assms(2) _ assms(3,4)] by simp
qed

theorem first_update_latches_fault_witness:
  "\<exists>f1 f2. fan_run float_round [OpStart, OpUpdate 600 1000] fan_boot = Some f1
     \<and> fan_run float_round [OpPulse, OpSpeedDown, OpToggleVac] f1 = Some f2 \<and> fanState f2 = FAULT_FAN"
proof -
  obtain f1 where 1: "fan_run float_round [OpStart, OpUpdate 600 1000] fan_boot = Some f1"
    using update_some [OF fan_inv_start [OF fan_boot_inv], of 1000 600]
    by (auto simp: word_le_nat_alt fan_boot_def fan_vac_boot_def fan_vac_init_def fan_vac_start_def
        reset_pids_def set_fan_pwm_def set_vac_pwm_def)
  obtain f2 where 2: "fan_run float_round [OpPulse, OpSpeedDown, OpToggleVac] f1 = Some f2" by simp
  from first_update_latches_fault [OF 1 2] 1 2 show ?thesis by auto
qed

end
