(* ===== verification/Calibration.thy ===== *)
theory Calibration
  imports Prelude
begin

text \<open>
  Calibration points of the planter: \<open>examples/1200PT/include/calibration_settings.h\<close> and the
  storage functions of \<open>examples/1200PT/src/main.cpp\<close>. The header's functions are templates
  over a reader and a writer; here these are arguments. The non-volatile storage of the ESP-IDF
  (\<open>nvs_get_u8\<close>, \<open>nvs_set_u8\<close>, \<open>nvs_commit\<close>) is not code of the repository: it is the
  arguments \<open>get\<close>, \<open>put\<close> and \<open>commit\<close>, and \<open>nvs_documented\<close> is what its documentation promises.
\<close>

section \<open>Points\<close>

datatype Point = FullRaise | LimitedRaise | StartPlant | StopPlant

datatype SaveResult = Saved | InvalidValue | InvalidOrder | StorageFailure

abbreviation (input) FULL_RAISE_DEFAULT :: u8 where "FULL_RAISE_DEFAULT \<equiv> 95"
abbreviation (input) LIMITED_RAISE_DEFAULT :: u8 where "LIMITED_RAISE_DEFAULT \<equiv> 75"
abbreviation (input) START_PLANT_DEFAULT :: u8 where "START_PLANT_DEFAULT \<equiv> 15"
abbreviation (input) STOP_PLANT_DEFAULT :: u8 where "STOP_PLANT_DEFAULT \<equiv> 0"
abbreviation (input) MAX_PERCENT :: u8 where "MAX_PERCENT \<equiv> 100"

record Points =
  fullRaise :: u8
  limitedRaise :: u8
  startPlant :: u8
  stopPlant :: u8

definition default_points :: Points where
  "default_points = \<lparr>fullRaise = FULL_RAISE_DEFAULT, limitedRaise = LIMITED_RAISE_DEFAULT,
     startPlant = START_PLANT_DEFAULT, stopPlant = STOP_PLANT_DEFAULT\<rparr>"

fun point_key :: "Point \<Rightarrow> string" where
  "point_key FullRaise = ''full_raise''"
| "point_key LimitedRaise = ''limited_raise''"
| "point_key StartPlant = ''start_plant''"
| "point_key StopPlant = ''stop_plant''"

fun point_value :: "Points \<Rightarrow> Point \<Rightarrow> u8" where
  "point_value p FullRaise = fullRaise p"
| "point_value p LimitedRaise = limitedRaise p"
| "point_value p StartPlant = startPlant p"
| "point_value p StopPlant = stopPlant p"

fun set_point_value :: "Point \<Rightarrow> u8 \<Rightarrow> Points \<Rightarrow> Points" where
  \<comment> \<open>assignment through the reference that \<open>value\<close> returns\<close>
  "set_point_value FullRaise v p = p\<lparr>fullRaise := v\<rparr>"
| "set_point_value LimitedRaise v p = p\<lparr>limitedRaise := v\<rparr>"
| "set_point_value StartPlant v p = p\<lparr>startPlant := v\<rparr>"
| "set_point_value StopPlant v p = p\<lparr>stopPlant := v\<rparr>"

section \<open>Loading and saving\<close>

type_synonym reader = "string \<Rightarrow> u8 option"
type_synonym 's writer = "string \<Rightarrow> u8 \<Rightarrow> 's \<Rightarrow> bool \<times> 's"

definition load_value :: "reader \<Rightarrow> string \<Rightarrow> u8 \<Rightarrow> u8" where
  "load_value read name defaultValue =
     (case read name of
        None \<Rightarrow> defaultValue
      | Some storedValue \<Rightarrow> if storedValue > MAX_PERCENT then defaultValue else storedValue)"

definition load_points :: "reader \<Rightarrow> Points" where
  "load_points read =
     (let points = \<lparr>fullRaise = load_value read (point_key FullRaise) FULL_RAISE_DEFAULT,
                    limitedRaise = load_value read (point_key LimitedRaise) LIMITED_RAISE_DEFAULT,
                    startPlant = load_value read (point_key StartPlant) START_PLANT_DEFAULT,
                    stopPlant = load_value read (point_key StopPlant) STOP_PLANT_DEFAULT\<rparr>
      in if stopPlant points > startPlant points
         then points\<lparr>startPlant := START_PLANT_DEFAULT, stopPlant := STOP_PLANT_DEFAULT\<rparr>
         else points)"

definition save_point ::
    "Point \<Rightarrow> u32 \<Rightarrow> Points \<Rightarrow> 's writer \<Rightarrow> 's \<Rightarrow> SaveResult \<times> Points \<times> 's" where
  "save_point point newValue points write s =
     (if newValue > ucast MAX_PERCENT then (InvalidValue, points, s)
      else if point = StartPlant \<and> newValue < ucast (stopPlant points) then (InvalidOrder, points, s)
      else if point = StopPlant \<and> newValue > ucast (startPlant points) then (InvalidOrder, points, s)
      else
        let (ok, s1) = write (point_key point) (ucast newValue) s
        in if \<not> ok then (StorageFailure, points, s1)
           else (Saved, set_point_value point (ucast newValue) points, s1))"

definition bulk_fill_headland_key :: string where
  "bulk_fill_headland_key = ''bulk_headland''"

definition load_bulk_fill_headland :: "reader \<Rightarrow> bool" where
  "load_bulk_fill_headland read =
     (case read bulk_fill_headland_key of
        None \<Rightarrow> False
      | Some storedValue \<Rightarrow> if storedValue > 1 then False else storedValue = 1)"

definition save_bulk_fill_headland ::
    "bool \<Rightarrow> bool \<Rightarrow> 's writer \<Rightarrow> 's \<Rightarrow> SaveResult \<times> bool \<times> 's" where
  "save_bulk_fill_headland enabled state write s =
     (let (ok, s1) = write bulk_fill_headland_key (if enabled then 1 else 0) s
      in if \<not> ok then (StorageFailure, state, s1) else (Saved, enabled, s1))"

section \<open>The storage functions of the application\<close>

definition persist_calibration_value ::
    "'s writer \<Rightarrow> ('s \<Rightarrow> bool \<times> 's) \<Rightarrow> bool \<Rightarrow> u32 \<Rightarrow> string \<Rightarrow> u32 \<Rightarrow> 's \<Rightarrow> bool \<times> 's" where
  "persist_calibration_value put commit nvsReady previousValue key value s =
     (if \<not> nvsReady then (False, s)
      else
        let (set_ok, s1) = put key (ucast value) s
        in if \<not> set_ok then (False, s1)
           else
             let (commit_ok, s2) = commit s1
             in if \<not> commit_ok
                then (let (undo_ok, s3) = put key (ucast previousValue) s2
                      in (False, if undo_ok then snd (commit s3) else s3))
                else (True, s2))"

definition store_calibration_point ::
    "'s writer \<Rightarrow> ('s \<Rightarrow> bool \<times> 's) \<Rightarrow> bool \<Rightarrow> Point \<Rightarrow> u32 \<Rightarrow> Points \<Rightarrow> 's \<Rightarrow> SaveResult \<times> Points \<times> 's" where
  \<comment> \<open>the locked part of \<open>save_calibration_point\<close>; the caller narrows the value to eight bits\<close>
  "store_calibration_point put commit nvsReady point newValue points s =
     (let previousValue = point_value points point
      in save_point point (ucast (ucast newValue :: u8)) points
           (\<lambda>key value. persist_calibration_value put commit nvsReady (ucast previousValue) key (ucast value))
           s)"

section \<open>Lemmas\<close>

definition points_ok :: "Points \<Rightarrow> bool" where
  "points_ok p \<longleftrightarrow> fullRaise p \<le> MAX_PERCENT \<and> limitedRaise p \<le> MAX_PERCENT
     \<and> startPlant p \<le> MAX_PERCENT \<and> stopPlant p \<le> startPlant p"

definition stored_as :: "reader \<Rightarrow> Points \<Rightarrow> bool" where
  \<comment> \<open>the non-volatile storage holds exactly these points\<close>
  "stored_as read p \<longleftrightarrow> (\<forall>pt. read (point_key pt) = Some (point_value p pt))"

definition nvs_documented :: "('s \<Rightarrow> reader) \<Rightarrow> 's writer \<Rightarrow> ('s \<Rightarrow> bool \<times> 's) \<Rightarrow> bool" where
  "nvs_documented get put commit \<longleftrightarrow>
     (\<forall>key v s s'. put key v s = (True, s') \<longrightarrow> get s' = (get s)(key \<mapsto> v))
     \<and> (\<forall>s ok s'. commit s = (ok, s') \<longrightarrow> get s' = get s)"

lemma point_key_inj: "point_key p = point_key q \<longleftrightarrow> p = q"
  by (cases p; cases q) simp_all

lemma load_value_le: "d \<le> MAX_PERCENT \<Longrightarrow> load_value read k d \<le> MAX_PERCENT"
  by (auto simp: load_value_def not_less split: option.splits)

lemma load_value_stored: "read k = Some v \<Longrightarrow> v \<le> MAX_PERCENT \<Longrightarrow> load_value read k d = v"
  by (auto simp: load_value_def)

lemma load_points_ok: "points_ok (load_points read)"
  by (auto simp: points_ok_def load_points_def Let_def load_value_le not_less)

lemma load_points_stored:
  assumes "stored_as read p" and "points_ok p"
  shows "load_points read = p"
proof -
  have le: "point_value p pt \<le> MAX_PERCENT" for pt
    using assms(2) order_trans by (cases pt) (auto simp: points_ok_def)
  have "load_value read (point_key pt) d = point_value p pt" for pt d
    using assms(1) le by (intro load_value_stored) (auto simp: stored_as_def)
  from this [of FullRaise] this [of LimitedRaise] this [of StartPlant] this [of StopPlant] assms(2)
  show ?thesis
    by (auto simp: load_points_def Let_def points_ok_def)
qed

lemma ucast_u8_u32_le: "(ucast (x :: u8) :: u32) \<le> ucast (y :: u8) \<longleftrightarrow> x \<le> y"
  by (simp add: word_le_nat_alt)

lemma save_point_ok:
  assumes "save_point pt (ucast (v :: u8)) p write s = (r, p', s')" and "points_ok p"
  shows "points_ok p'"
  using assms
  by (cases pt)
    (auto simp: save_point_def points_ok_def not_less ucast_u8_u32_le word_le_nat_alt
      word_less_nat_alt split: if_splits prod.splits)

lemma persist_ok_get:
  assumes "persist_calibration_value put commit ready prev k v s = (True, s')"
    and "nvs_documented get put commit"
  shows "get s' = (get s)(k \<mapsto> ucast v)"
  using assms
  by (auto simp: persist_calibration_value_def nvs_documented_def split: if_splits prod.splits)

text \<open>What each outcome of a save leaves behind.\<close>

lemma store_point_cases:
  assumes "store_calibration_point put commit ready pt v p s = (r, p', s')"
    and "nvs_documented get put commit"
  shows "r = Saved \<and> p' = set_point_value pt (ucast v) p
           \<and> get s' = (get s)(point_key pt \<mapsto> ucast v)
         \<or> r \<noteq> Saved \<and> p' = p"
proof -
  let ?v = "ucast v :: u8"
  let ?w = "\<lambda>key value. persist_calibration_value put commit ready (ucast (point_value p pt)) key (ucast (value :: u8))"
  have sp: "save_point pt (ucast ?v) p ?w s = (r, p', s')"
    using assms(1) by (simp add: store_calibration_point_def Let_def)
  show ?thesis
  proof (cases "r = Saved")
    case True
    with sp have w: "?w (point_key pt) ?v s = (True, s')" and p': "p' = set_point_value pt ?v p"
      by (auto simp: save_point_def split: if_splits prod.splits)
    from persist_ok_get [OF w assms(2)] p' True show ?thesis by simp
  next
    case False
    with sp show ?thesis by (auto simp: save_point_def split: if_splits prod.splits)
  qed
qed

lemma stored_as_update:
  assumes "stored_as read p"
  shows "stored_as (read(point_key pt \<mapsto> v)) (set_point_value pt v p)"
proof -
  have "point_value (set_point_value pt v p) q = (if q = pt then v else point_value p q)" for q
    by (cases pt; cases q) simp_all
  with assms show ?thesis by (auto simp: stored_as_def point_key_inj)
qed

lemma store_point_ok:
  "store_calibration_point put commit ready pt v p s = (r, p', s') \<Longrightarrow> points_ok p \<Longrightarrow> points_ok p'"
  using save_point_ok by (fastforce simp: store_calibration_point_def Let_def)

section \<open>Properties\<close>

text \<open>C17: Whatever the non-volatile storage holds, the calibration points loaded from it are
  valid: every value is at most 100 and stop-plant does not exceed start-plant; and saving a
  point, with any requested value and any outcome of the storage, keeps the points valid.\<close>

theorem calibration_always_valid:
  "points_ok (load_points read)
   \<and> (points_ok p \<longrightarrow> points_ok (fst (snd (store_calibration_point put commit ready pt v p s))))"
proof -
  obtain r p' s' where st: "store_calibration_point put commit ready pt v p s = (r, p', s')"
    using prod_cases3 by blast
  with load_points_ok store_point_ok [OF st] show ?thesis by simp
qed

theorem calibration_always_valid_witness:
  "points_ok (fst (snd (store_calibration_point (\<lambda>k v s. (True, s(k \<mapsto> v))) (\<lambda>s. (True, s)) True
     StopPlant 60 default_points Map.empty)))"
proof -
  have "points_ok default_points" by (simp add: points_ok_def default_points_def)
  then show ?thesis
    using calibration_always_valid [of Map.empty default_points "\<lambda>k v s. (True, s(k \<mapsto> v))" "Pair True"
        True StopPlant 60 Map.empty]
    by simp
qed

theorem saved_point_survives_restart:
  assumes "nvs_documented get put commit" and "points_ok p" and "stored_as (get s) p"
    and "store_calibration_point put commit ready pt v p s = (Saved, p', s')"
  shows "load_points (get s') = p' \<and> point_value p' pt = ucast v \<and> stored_as (get s') p'"
proof -
  from store_point_cases [OF assms(4,1)]
  have p': "p' = set_point_value pt (ucast v) p" and g: "get s' = (get s)(point_key pt \<mapsto> ucast v)"
    by simp_all
  have "stored_as (get s') p'" unfolding g p' by (rule stored_as_update [OF assms(3)])
  moreover have "points_ok p'"
    using store_point_ok [OF assms(4,2)] .
  moreover have "point_value p' pt = ucast v" unfolding p' by (cases pt) simp_all
  ultimately show ?thesis using load_points_stored by blast
qed

text \<open>A storage that is a plain map.\<close>

definition map_put :: "(string \<rightharpoonup> u8) writer" where
  "map_put k v m = (True, m(k \<mapsto> v))"

definition map_commit :: "(string \<rightharpoonup> u8) \<Rightarrow> bool \<times> (string \<rightharpoonup> u8)" where
  "map_commit m = (True, m)"

definition default_store :: "string \<rightharpoonup> u8" where
  "default_store = [''full_raise'' \<mapsto> 95, ''limited_raise'' \<mapsto> 75, ''start_plant'' \<mapsto> 15, ''stop_plant'' \<mapsto> 0]"

theorem saved_point_survives_restart_witness:
  "\<exists>p' m'. store_calibration_point map_put map_commit True LimitedRaise 60 default_points default_store
       = (Saved, p', m') \<and> load_points m' = p' \<and> limitedRaise p' = 60"
proof -
  have 1: "nvs_documented (\<lambda>m. m) map_put map_commit"
    by (simp add: nvs_documented_def map_put_def map_commit_def)
  have 2: "points_ok default_points" by (simp add: points_ok_def default_points_def)
  have key: "default_store (point_key q) = Some (point_value default_points q)" for q
    by (cases q) (simp_all add: default_store_def default_points_def)
  have 3: "stored_as default_store default_points" by (simp add: stored_as_def key)
  have "fst (store_calibration_point map_put map_commit True LimitedRaise 60 default_points default_store) = Saved"
    by (simp add: store_calibration_point_def save_point_def persist_calibration_value_def
        map_put_def map_commit_def)
  then obtain p' m' where
    4: "store_calibration_point map_put map_commit True LimitedRaise 60 default_points default_store
        = (Saved, p', m')"
    by (metis prod.exhaust_sel)
  show ?thesis using saved_point_survives_restart [OF 1 2 3 4] 4 by auto
qed

end
