(* ===== verification/App_Main.thy ===== *)
theory App_Main
  imports Plant_Control Fan_Vac Calibration
begin

text \<open>
  The planter application, \<open>examples/1200PT/src/main.cpp\<close>: the module variables of the file and
  of the modules it drives as one record, the button, soft-key and active-mask handlers, and one
  iteration of the main loop.

  The commands given to the virtual terminal client and its update helper (both are objects of
  the ISOBUS stack) are recorded in \<open>vt_log\<close>; the model starts when both exist, so the null tests
  of the code are true. The answer of \<open>send_change_attribute\<close> is read from \<open>vtReply\<close>. The
  non-volatile storage is the argument \<open>api\<close>, the rounding of the floating-point unit is \<open>rnd\<close>,
  and the clock, the ADC, the S-bin pin and the state of the connection are inputs of an
  iteration. A handler and an iteration are atomic here; in the firmware they run on two threads
  and synchronise on the mutexes of the modules.
\<close>

section \<open>Object identifiers\<close>

abbreviation (input) SoftKey_Run :: u16 where "SoftKey_Run \<equiv> 5000"
abbreviation (input) SoftKey_Unfold :: u16 where "SoftKey_Unfold \<equiv> 5002"
abbreviation (input) SoftKey_Fold :: u16 where "SoftKey_Fold \<equiv> 5001"
abbreviation (input) SoftKey_Cal :: u16 where "SoftKey_Cal \<equiv> 5003"
abbreviation (input) WorkingSet_1200PT :: u16 where "WorkingSet_1200PT \<equiv> 0"
abbreviation (input) DataMask_Run :: u16 where "DataMask_Run \<equiv> 1000"
abbreviation (input) DataMask_Unfold :: u16 where "DataMask_Unfold \<equiv> 1002"
abbreviation (input) DataMask_Fold :: u16 where "DataMask_Fold \<equiv> 1001"
abbreviation (input) DataMask_Cal :: u16 where "DataMask_Cal \<equiv> 1003"
abbreviation (input) Button_TabRun :: u16 where "Button_TabRun \<equiv> 6000"
abbreviation (input) Button_TabUnfold :: u16 where "Button_TabUnfold \<equiv> 6001"
abbreviation (input) Button_TabFold :: u16 where "Button_TabFold \<equiv> 6002"
abbreviation (input) Button_TabCal :: u16 where "Button_TabCal \<equiv> 6003"
abbreviation (input) Button_FoldAction1 :: u16 where "Button_FoldAction1 \<equiv> 6010"
abbreviation (input) Button_FoldAction2 :: u16 where "Button_FoldAction2 \<equiv> 6011"
abbreviation (input) Button_FoldAction3 :: u16 where "Button_FoldAction3 \<equiv> 6012"
abbreviation (input) Button_FoldAction4 :: u16 where "Button_FoldAction4 \<equiv> 6013"
abbreviation (input) Button_FoldAction5 :: u16 where "Button_FoldAction5 \<equiv> 6014"
abbreviation (input) Button_FoldAction6 :: u16 where "Button_FoldAction6 \<equiv> 6015"
abbreviation (input) Button_UnfoldAction1 :: u16 where "Button_UnfoldAction1 \<equiv> 6020"
abbreviation (input) Button_UnfoldAction2 :: u16 where "Button_UnfoldAction2 \<equiv> 6021"
abbreviation (input) Button_UnfoldAction3 :: u16 where "Button_UnfoldAction3 \<equiv> 6022"
abbreviation (input) Button_UnfoldAction4 :: u16 where "Button_UnfoldAction4 \<equiv> 6023"
abbreviation (input) Button_UnfoldAction5 :: u16 where "Button_UnfoldAction5 \<equiv> 6024"
abbreviation (input) Button_UnfoldAction6 :: u16 where "Button_UnfoldAction6 \<equiv> 6025"
abbreviation (input) Button_PlantLimitedLift :: u16 where "Button_PlantLimitedLift \<equiv> 6030"
abbreviation (input) Button_PlantFullLift :: u16 where "Button_PlantFullLift \<equiv> 6031"
abbreviation (input) Button_PlantLower :: u16 where "Button_PlantLower \<equiv> 6032"
abbreviation (input) Button_FanSpeedUp :: u16 where "Button_FanSpeedUp \<equiv> 6040"
abbreviation (input) Button_FanSpeedDown :: u16 where "Button_FanSpeedDown \<equiv> 6041"
abbreviation (input) Button_FanPower :: u16 where "Button_FanPower \<equiv> 6042"
abbreviation (input) Button_FanPowerOff :: u16 where "Button_FanPowerOff \<equiv> 6043"
abbreviation (input) Button_VacPressureUp :: u16 where "Button_VacPressureUp \<equiv> 6050"
abbreviation (input) Button_VacPressureDown :: u16 where "Button_VacPressureDown \<equiv> 6051"
abbreviation (input) Button_VacPower :: u16 where "Button_VacPower \<equiv> 6052"
abbreviation (input) Button_VacPowerOff :: u16 where "Button_VacPowerOff \<equiv> 6053"
abbreviation (input) Button_MarkerPrev :: u16 where "Button_MarkerPrev \<equiv> 6060"
abbreviation (input) Button_MarkerToggle :: u16 where "Button_MarkerToggle \<equiv> 6061"
abbreviation (input) Button_MarkerNext :: u16 where "Button_MarkerNext \<equiv> 6062"
abbreviation (input) Button_CalSetFullRaise :: u16 where "Button_CalSetFullRaise \<equiv> 6070"
abbreviation (input) Button_CalSetLimitedRaise :: u16 where "Button_CalSetLimitedRaise \<equiv> 6071"
abbreviation (input) Button_CalSetStartPlant :: u16 where "Button_CalSetStartPlant \<equiv> 6072"
abbreviation (input) Button_CalSetStopPlant :: u16 where "Button_CalSetStopPlant \<equiv> 6073"
abbreviation (input) Button_CalBulkHeadland :: u16 where "Button_CalBulkHeadland \<equiv> 6074"
abbreviation (input) OutStr_BtnVacPower :: u16 where "OutStr_BtnVacPower \<equiv> 11032"
abbreviation (input) OutStr_BtnVacPowerOff :: u16 where "OutStr_BtnVacPowerOff \<equiv> 11069"
abbreviation (input) OutStr_BtnFanPower :: u16 where "OutStr_BtnFanPower \<equiv> 11033"
abbreviation (input) OutStr_BtnFanPowerOff :: u16 where "OutStr_BtnFanPowerOff \<equiv> 11070"
abbreviation (input) OutStr_BtnPrev :: u16 where "OutStr_BtnPrev \<equiv> 11035"
abbreviation (input) OutStr_BtnNext :: u16 where "OutStr_BtnNext \<equiv> 11034"
abbreviation (input) VarStr_MarkerStatus :: u16 where "VarStr_MarkerStatus \<equiv> 22010"
abbreviation (input) VarStr_MarkerDetail :: u16 where "VarStr_MarkerDetail \<equiv> 22011"
abbreviation (input) VarStr_CalBulkHeadland :: u16 where "VarStr_CalBulkHeadland \<equiv> 22022"
abbreviation (input) VarStr_CalFaultMessage :: u16 where "VarStr_CalFaultMessage \<equiv> 22021"
abbreviation (input) VarStr_CalPositionState :: u16 where "VarStr_CalPositionState \<equiv> 22020"
abbreviation (input) VarStr_UnfoldInstruction :: u16 where "VarStr_UnfoldInstruction \<equiv> 22001"
abbreviation (input) VarStr_FoldInstruction :: u16 where "VarStr_FoldInstruction \<equiv> 22000"
abbreviation (input) VarStr_UnfoldLockReason :: u16 where "VarStr_UnfoldLockReason \<equiv> 22004"
abbreviation (input) VarStr_FoldLockReason :: u16 where "VarStr_FoldLockReason \<equiv> 22003"
abbreviation (input) VarStr_UnfoldAction1 :: u16 where "VarStr_UnfoldAction1 \<equiv> 22030"
abbreviation (input) VarStr_FoldAction1 :: u16 where "VarStr_FoldAction1 \<equiv> 22040"
abbreviation (input) FontAttr_BtnVacOn :: u16 where "FontAttr_BtnVacOn \<equiv> 23110"
abbreviation (input) FontAttr_BtnVacOff :: u16 where "FontAttr_BtnVacOff \<equiv> 23111"
abbreviation (input) FontAttr_BtnFanOn :: u16 where "FontAttr_BtnFanOn \<equiv> 23112"
abbreviation (input) FontAttr_BtnFanOff :: u16 where "FontAttr_BtnFanOff \<equiv> 23113"
abbreviation (input) FontAttr_BtnMarkerLeft :: u16 where "FontAttr_BtnMarkerLeft \<equiv> 23114"
abbreviation (input) FontAttr_BtnMarkerAuto :: u16 where "FontAttr_BtnMarkerAuto \<equiv> 23115"
abbreviation (input) FontAttr_BtnMarkerRight :: u16 where "FontAttr_BtnMarkerRight \<equiv> 23116"
abbreviation (input) FontAttr_BtnUnfoldAction1 :: u16 where "FontAttr_BtnUnfoldAction1 \<equiv> 23117"
abbreviation (input) FontAttr_BtnFoldAction1 :: u16 where "FontAttr_BtnFoldAction1 \<equiv> 23123"
abbreviation (input) FontAttr_BtnCalBulkHeadland :: u16 where "FontAttr_BtnCalBulkHeadland \<equiv> 23129"
abbreviation (input) VarNum_FoldStep :: u16 where "VarNum_FoldStep \<equiv> 21000"
abbreviation (input) VarNum_UnfoldStep :: u16 where "VarNum_UnfoldStep \<equiv> 21001"
abbreviation (input) VarNum_FanRPMTarget :: u16 where "VarNum_FanRPMTarget \<equiv> 21002"
abbreviation (input) VarNum_FanRPMActual :: u16 where "VarNum_FanRPMActual \<equiv> 21003"
abbreviation (input) VarNum_VacTarget :: u16 where "VarNum_VacTarget \<equiv> 21004"
abbreviation (input) VarNum_VacActual :: u16 where "VarNum_VacActual \<equiv> 21005"
abbreviation (input) VarNum_CalPosition :: u16 where "VarNum_CalPosition \<equiv> 21010"
abbreviation (input) VarNum_CalFullRaise :: u16 where "VarNum_CalFullRaise \<equiv> 21011"
abbreviation (input) VarNum_CalLimitedRaise :: u16 where "VarNum_CalLimitedRaise \<equiv> 21012"
abbreviation (input) VarNum_CalStartPlant :: u16 where "VarNum_CalStartPlant \<equiv> 21014"
abbreviation (input) VarNum_CalStopPlant :: u16 where "VarNum_CalStopPlant \<equiv> 21015"

section \<open>State\<close>

datatype ActiveScreen = SCREEN_RUN | SCREEN_UNFOLD | SCREEN_FOLD | SCREEN_CAL

datatype vt_cmd =
    ChangeBackgroundColour u16 u8
  | ChangeAttribute u16 u8 u32
  | ChangeFontAttributes u16 u8 u8 u8 u8
  | ChangeStringValue u16 string
  | EnableDisableObject u16 bool
  | SetNumericValue u16 u32
  | SetActiveMask u16 u16

record 'n nvs_api =
  nvs_get :: "'n \<Rightarrow> reader"
  nvs_put :: "'n writer"
  nvs_commit :: "'n \<Rightarrow> bool \<times> 'n"

record 'n app =
  currentScreen :: ActiveScreen
  hydraulicActuationInhibited :: bool
  markerModel :: MarkerModel
  actionSelection :: ActionSelection
  lockoutFeedback :: LockoutFeedback
  calPosition :: u32
  calibrationPoints :: Points
  calibrationNvsReady :: bool
  bulkFillHeadland :: bool
  calStatusClearAtUs :: int
  wasVtConnected :: bool
  foldSeq :: fold_vars
  plant :: plant_status
  outputs :: board
  fanVac :: fan_vac
  nvs :: 'n
  vtReply :: "nat \<Rightarrow> bool"
  vtReplies :: nat
  vt_log :: "vt_cmd list"

definition send :: "vt_cmd \<Rightarrow> 'n app \<Rightarrow> 'n app" where
  "send c a = a\<lparr>vt_log := vt_log a @ [c]\<rparr>"

definition hydraulic_actuation_inhibited :: "'n app \<Rightarrow> bool" where
  "hydraulic_actuation_inhibited a \<longleftrightarrow> hydraulicActuationInhibited a \<or> has_fault (outputs a)"

section \<open>Calibration\<close>

definition initialize_calibration_storage ::
    "'n nvs_api \<Rightarrow> bool \<Rightarrow> 'n app \<Rightarrow> 'n app" where
  \<comment> \<open>\<open>nvs_opened\<close>: the flash was initialised, after an erase if needed, and the namespace opened\<close>
  "initialize_calibration_storage api nvs_opened a =
     (if \<not> nvs_opened then a
      else a\<lparr>calibrationNvsReady := True,
             calibrationPoints := load_points (nvs_get api (nvs a)),
             bulkFillHeadland := load_bulk_fill_headland (nvs_get api (nvs a))\<rparr>)"

definition set_calibration_status :: "string \<Rightarrow> bool \<Rightarrow> int \<Rightarrow> 'n app \<Rightarrow> 'n app" where
  "set_calibration_status message transient now a =
     send (ChangeStringValue VarStr_CalFaultMessage message)
       (a\<lparr>calStatusClearAtUs := (if transient then now + 3000000 else 0)\<rparr>)"

definition save_calibration_point ::
    "'n nvs_api \<Rightarrow> int \<Rightarrow> Point \<Rightarrow> u16 \<Rightarrow> u32 \<Rightarrow> 'n app \<Rightarrow> 'n app" where
  "save_calibration_point api now point objectId newValue a =
     (let (result, points, nvs1) = store_calibration_point (nvs_put api) (nvs_commit api)
            (calibrationNvsReady a) point newValue (calibrationPoints a) (nvs a);
          a1 = a\<lparr>calibrationPoints := points, nvs := nvs1\<rparr>
      in if result = InvalidOrder
         then set_calibration_status
                (if point = StartPlant then ''START PLANT MUST BE >= STOP PLANT''
                 else ''STOP PLANT MUST BE <= START PLANT'') True now a1
         else if result \<noteq> Saved then set_calibration_status ''CALIBRATION SAVE FAILED'' True now a1
         else set_calibration_status ''STATUS: OK - NO ACTIVE FAULTS'' False now
                (send (SetNumericValue objectId newValue) a1))"

section \<open>Display values\<close>

definition expire_calibration_status :: "int \<Rightarrow> 'n app \<Rightarrow> 'n app" where
  "expire_calibration_status now a =
     (if calStatusClearAtUs a > 0 \<and> now \<ge> calStatusClearAtUs a
      then send (ChangeStringValue VarStr_CalFaultMessage ''STATUS: OK - NO ACTIVE FAULTS'')
             (a\<lparr>calStatusClearAtUs := 0\<rparr>)
      else a)"

definition fold_position :: "u8 \<Rightarrow> u32" where
  "fold_position step = 15 + (ucast step * 80) div 6"

definition unfold_position :: "u8 \<Rightarrow> u32" where
  "unfold_position step = 95 - (ucast step * 80) div 6"

definition update_fold_step :: "'n app \<Rightarrow> 'n app" where
  "update_fold_step a =
     (let step = fold_sequence_get_active_action (foldSeq a)
      in if currentState (foldSeq a) = FOLD_ACTIVE
         then send (SetNumericValue VarNum_CalPosition (fold_position step))
                ((send (SetNumericValue VarNum_FoldStep (ucast step)) a)\<lparr>calPosition := fold_position step\<rparr>)
         else if currentState (foldSeq a) = UNFOLD_ACTIVE
         then send (SetNumericValue VarNum_CalPosition (unfold_position step))
                ((send (SetNumericValue VarNum_UnfoldStep (ucast step)) a)\<lparr>calPosition := unfold_position step\<rparr>)
         else a)"

definition position_state :: "u32 \<Rightarrow> Points \<Rightarrow> string" where
  "position_state position points =
     (if position + 5 \<ge> ucast (fullRaise points) then ''TRANSPORT RANGE''
      else if position \<le> ucast (startPlant points) + 5 then ''PLANT RANGE'' else ''MID RANGE'')"

definition update_display_values :: "int \<Rightarrow> 'n app \<Rightarrow> 'n app" where
  "update_display_values now a0 =
     (let a1 = expire_calibration_status now a0;
          f = fanVac a1;
          a2 = send (SetNumericValue VarNum_FanRPMActual (ucast (fanRPMActual f))) a1;
          a3 = send (SetNumericValue VarNum_FanRPMTarget (ucast (fanRPMTarget f))) a2;
          a4 = send (SetNumericValue VarNum_VacActual (ucast (vacPressureActual f))) a3;
          a5 = send (SetNumericValue VarNum_VacTarget (ucast (vacPressureTarget f))) a4;
          a6 = update_fold_step a5
      in send (ChangeStringValue VarStr_CalPositionState
                (position_state (calPosition a6) (calibrationPoints a6))) a6)"

section \<open>Button visuals\<close>

abbreviation (input) FONT_COLOUR_ATTRIBUTE_ID :: u8 where "FONT_COLOUR_ATTRIBUTE_ID \<equiv> 1"
abbreviation (input) FONT_TYPE_LATIN1 :: u8 where "FONT_TYPE_LATIN1 \<equiv> 0"
abbreviation (input) FONT_12X16 :: u8 where "FONT_12X16 \<equiv> 3"
abbreviation (input) FONT_24X32 :: u8 where "FONT_24X32 \<equiv> 6"

record ButtonVisual =
  visual_button :: u16
  visual_label :: u16
  visual_font :: u16
  visual_fontSize :: u8

abbreviation (input) visual :: "u16 \<Rightarrow> u16 \<Rightarrow> u16 \<Rightarrow> u8 \<Rightarrow> ButtonVisual" where
  "visual b l f s \<equiv> \<lparr>visual_button = b, visual_label = l, visual_font = f, visual_fontSize = s\<rparr>"

definition VAC_ON_VISUAL :: ButtonVisual where
  "VAC_ON_VISUAL = visual Button_VacPower OutStr_BtnVacPower FontAttr_BtnVacOn FONT_12X16"
definition VAC_OFF_VISUAL :: ButtonVisual where
  "VAC_OFF_VISUAL = visual Button_VacPowerOff OutStr_BtnVacPowerOff FontAttr_BtnVacOff FONT_12X16"
definition FAN_ON_VISUAL :: ButtonVisual where
  "FAN_ON_VISUAL = visual Button_FanPower OutStr_BtnFanPower FontAttr_BtnFanOn FONT_12X16"
definition FAN_OFF_VISUAL :: ButtonVisual where
  "FAN_OFF_VISUAL = visual Button_FanPowerOff OutStr_BtnFanPowerOff FontAttr_BtnFanOff FONT_12X16"
definition MARKER_LEFT_VISUAL :: ButtonVisual where
  "MARKER_LEFT_VISUAL = visual Button_MarkerPrev OutStr_BtnPrev FontAttr_BtnMarkerLeft FONT_24X32"
definition MARKER_AUTO_VISUAL :: ButtonVisual where
  "MARKER_AUTO_VISUAL = visual Button_MarkerToggle VarStr_MarkerStatus FontAttr_BtnMarkerAuto FONT_12X16"
definition MARKER_RIGHT_VISUAL :: ButtonVisual where
  "MARKER_RIGHT_VISUAL = visual Button_MarkerNext OutStr_BtnNext FontAttr_BtnMarkerRight FONT_24X32"
definition HEADLAND_VISUAL :: ButtonVisual where
  "HEADLAND_VISUAL = visual Button_CalBulkHeadland VarStr_CalBulkHeadland FontAttr_BtnCalBulkHeadland FONT_12X16"

definition UNFOLD_BTN_IDS :: "u16 list" where
  "UNFOLD_BTN_IDS = [6020, 6021, 6022, 6023, 6024, 6025]"
definition UNFOLD_STR_IDS :: "u16 list" where
  "UNFOLD_STR_IDS = [22030, 22031, 22032, 22033, 22034, 22035]"
definition FOLD_BTN_IDS :: "u16 list" where
  "FOLD_BTN_IDS = [6010, 6011, 6012, 6013, 6014, 6015]"
definition FOLD_STR_IDS :: "u16 list" where
  "FOLD_STR_IDS = [22040, 22041, 22042, 22043, 22044, 22045]"

fun action_visual :: "ActionGroup \<Rightarrow> u8 \<Rightarrow> ButtonVisual" where
  "action_visual Unfold actionIndex =
     (let idx = actionIndex - 1
      in visual (UNFOLD_BTN_IDS ! unat idx) (UNFOLD_STR_IDS ! unat idx)
           (FontAttr_BtnUnfoldAction1 + ucast idx) FONT_12X16)"
| "action_visual Fold actionIndex =
     (let idx = actionIndex - 1
      in visual (FOLD_BTN_IDS ! unat idx) (FOLD_STR_IDS ! unat idx)
           (FontAttr_BtnFoldAction1 + ucast idx) FONT_12X16)"

definition send_change_attribute :: "u16 \<Rightarrow> u8 \<Rightarrow> u32 \<Rightarrow> 'n app \<Rightarrow> bool \<times> 'n app" where
  "send_change_attribute objectId aid value a =
     (vtReply a (vtReplies a),
      (send (ChangeAttribute objectId aid value) a)\<lparr>vtReplies := vtReplies a + 1\<rparr>)"

definition apply_button_style :: "ButtonVisual \<Rightarrow> ButtonStyle \<Rightarrow> 'n app \<Rightarrow> 'n app" where
  "apply_button_style v style a0 =
     (let colours = colours_for style;
          a1 = send (ChangeBackgroundColour (visual_button v) (background colours)) a0;
          a2 = send (ChangeBackgroundColour (visual_label v) (background colours)) a1;
          (ok, a3) = send_change_attribute (visual_font v) FONT_COLOUR_ATTRIBUTE_ID (ucast (text_colour colours)) a2
      in if \<not> ok
         then send (ChangeFontAttributes (visual_font v) (text_colour colours) (visual_fontSize v) FONT_TYPE_LATIN1 0) a3
         else a3)"

definition action_buttons :: "(u8 \<times> ActionGroup) list" where
  \<comment> \<open>the two nested loops of \<open>apply_action_changes\<close>\<close>
  "action_buttons = concat (map (\<lambda>i. [(of_nat i, Unfold), (of_nat i, Fold)]) [1..<7])"

definition apply_action_changes :: "ActionSelection \<Rightarrow> ActionSelection \<Rightarrow> 'n app \<Rightarrow> 'n app" where
  "apply_action_changes before after a =
     fold (\<lambda>(index, grp) s.
        if selection_style before grp index \<noteq> selection_style after grp index
        then apply_button_style (action_visual grp index) (selection_style after grp index) s else s)
       action_buttons a"

definition sync_action_buttons :: "ActionGroup \<Rightarrow> 'n app \<Rightarrow> 'n app" where
  "sync_action_buttons grp a =
     (let styles = selection_styles (actionSelection a) grp
      in fold (\<lambda>index s. apply_button_style (action_visual grp (of_nat index)) (styles ! (index - 1)) s) [1..<7] a)"

definition sync_power_buttons :: "'n app \<Rightarrow> 'n app" where
  "sync_power_buttons a =
     (let vacOn = vacPowerEnabled (fanVac a); fanOn = fanPowerEnabled (fanVac a)
      in apply_button_style FAN_OFF_VISUAL (power_off_style fanOn)
          (apply_button_style FAN_ON_VISUAL (power_on_style fanOn)
           (apply_button_style VAC_OFF_VISUAL (power_off_style vacOn)
            (apply_button_style VAC_ON_VISUAL (power_on_style vacOn) a))))"

definition sync_marker_buttons :: "'n app \<Rightarrow> 'n app" where
  "sync_marker_buttons a0 =
     (let snapshot = markerModel a0;
          a1 = apply_button_style MARKER_LEFT_VISUAL (left_style snapshot) a0;
          a2 = apply_button_style MARKER_AUTO_VISUAL (auto_style snapshot) a1;
          a3 = apply_button_style MARKER_RIGHT_VISUAL (right_style snapshot) a2;
          a4 = send (EnableDisableObject Button_MarkerPrev (side_buttons_enabled snapshot)) a3;
          a5 = send (EnableDisableObject Button_MarkerNext (side_buttons_enabled snapshot)) a4
      in send (ChangeStringValue VarStr_MarkerDetail (detail_text snapshot)) a5)"

definition sync_headland_button :: "'n app \<Rightarrow> 'n app" where
  "sync_headland_button a =
     (let enabled = bulkFillHeadland a
      in send (ChangeStringValue VarStr_CalBulkHeadland (headland_text enabled))
           (apply_button_style HEADLAND_VISUAL (headland_style enabled) a))"

fun sync_screen_buttons :: "ActiveScreen \<Rightarrow> 'n app \<Rightarrow> 'n app" where
  "sync_screen_buttons SCREEN_RUN a = sync_marker_buttons (sync_power_buttons a)"
| "sync_screen_buttons SCREEN_UNFOLD a = sync_action_buttons Unfold a"
| "sync_screen_buttons SCREEN_FOLD a = sync_action_buttons Fold a"
| "sync_screen_buttons SCREEN_CAL a = sync_headland_button a"

definition sync_all_buttons :: "'n app \<Rightarrow> 'n app" where
  "sync_all_buttons a =
     sync_headland_button (sync_action_buttons Fold (sync_action_buttons Unfold
       (sync_marker_buttons (sync_power_buttons a))))"

definition handle_active_mask_event :: "u16 \<Rightarrow> 'n app \<Rightarrow> 'n app" where
  "handle_active_mask_event maskObjectID a =
     (if maskObjectID = DataMask_Run then sync_screen_buttons SCREEN_RUN a
      else if maskObjectID = DataMask_Unfold then sync_screen_buttons SCREEN_UNFOLD a
      else if maskObjectID = DataMask_Fold then sync_screen_buttons SCREEN_FOLD a
      else if maskObjectID = DataMask_Cal then sync_screen_buttons SCREEN_CAL a
      else a)"

section \<open>Action selection\<close>

definition press_action_visual :: "ActionGroup \<Rightarrow> u8 \<Rightarrow> 'n app \<Rightarrow> 'n app" where
  "press_action_visual grp actionIndex a =
     sync_action_buttons grp
       (a\<lparr>actionSelection := snd (selection_press grp actionIndex (actionSelection a))\<rparr>)"

definition is_action_lit :: "ActionGroup \<Rightarrow> u8 \<Rightarrow> 'n app \<Rightarrow> bool" where
  "is_action_lit grp actionIndex a = is_lit (actionSelection a) grp actionIndex"

definition is_action_group_active :: "ActionGroup \<Rightarrow> 'n app \<Rightarrow> bool" where
  "is_action_group_active grp a \<longleftrightarrow>
     activeIndex (actionSelection a) \<noteq> 0 \<and> grp = activeGroup (actionSelection a)"

definition reset_action_buttons :: "'n app \<Rightarrow> 'n app" where
  "reset_action_buttons a =
     (let before = actionSelection a; after = selection_clear before
      in apply_action_changes before after (a\<lparr>actionSelection := after\<rparr>))"

section \<open>Lockout feedback\<close>

definition instruction_id :: "ActionGroup \<Rightarrow> u16" where
  "instruction_id grp = (if grp = Unfold then VarStr_UnfoldInstruction else VarStr_FoldInstruction)"

definition lock_reason_id :: "ActionGroup \<Rightarrow> u16" where
  "lock_reason_id grp = (if grp = Unfold then VarStr_UnfoldLockReason else VarStr_FoldLockReason)"

definition send_lockout_text :: "ActionGroup \<Rightarrow> InhibitReason \<Rightarrow> 'n app \<Rightarrow> 'n app" where
  \<comment> \<open>both callers pass a reason that has a message\<close>
  "send_lockout_text grp reason a =
     send (ChangeStringValue (lock_reason_id grp) (lockout_reason_text reason))
       (send (ChangeStringValue (instruction_id grp) (case lockout_message reason of Some m \<Rightarrow> m | None \<Rightarrow> '''')) a)"

definition restore_lockout_text :: "ActionGroup \<Rightarrow> 'n app \<Rightarrow> 'n app" where
  "restore_lockout_text grp a =
     send (ChangeStringValue (lock_reason_id grp) (lockout_reason_text ReasonNone))
       (send (ChangeStringValue (instruction_id grp) ''HYDRAULICS SAFE - IDLE'') a)"

definition show_blocked_press :: "ActionGroup \<Rightarrow> 'n app \<Rightarrow> 'n app" where
  "show_blocked_press grp a =
     (let reason = classify_inhibit (has_fault (outputs a));
          (shown, l) = on_blocked_press grp reason (lockoutFeedback a);
          a1 = a\<lparr>lockoutFeedback := l\<rparr>
      in if shown then send_lockout_text grp reason a1 else a1)"

definition update_lockout_feedback :: "'n app \<Rightarrow> 'n app" where
  "update_lockout_feedback a =
     (let reason = classify_inhibit (has_fault (outputs a));
          (u, l) = lockout_update reason (lockoutFeedback a);
          a1 = a\<lparr>lockoutFeedback := l\<rparr>;
          a2 = (if refreshUnfold u then send_lockout_text Unfold reason a1 else a1);
          a3 = (if refreshFold u then send_lockout_text Fold reason a2 else a2);
          a4 = (if restoreUnfold u then restore_lockout_text Unfold a3 else a3)
      in if restoreFold u then restore_lockout_text Fold a4 else a4)"

section \<open>Hydraulic action buttons\<close>

definition app_cancel :: "'n app \<Rightarrow> esp_err \<times> 'n app" where
  \<comment> \<open>\<open>fold_sequence_cancel\<close> on the application's state\<close>
  "app_cancel a =
     (let (e, f, b) = fold_sequence_cancel (foldSeq a) (outputs a) in (e, a\<lparr>foldSeq := f, outputs := b\<rparr>))"

fun activate_group :: "ActionGroup \<Rightarrow> u8 \<Rightarrow> fold_vars \<Rightarrow> board \<Rightarrow> esp_err \<times> fold_vars \<times> board" where
  "activate_group Unfold = fold_sequence_activate_unfold_action"
| "activate_group Fold = fold_sequence_activate_fold_action"

definition app_activate :: "ActionGroup \<Rightarrow> u8 \<Rightarrow> 'n app \<Rightarrow> esp_err \<times> 'n app" where
  "app_activate grp actionIndex a =
     (let (e, f, b) = activate_group grp actionIndex (foldSeq a) (outputs a)
      in (e, a\<lparr>foldSeq := f, outputs := b\<rparr>))"

fun other_group :: "ActionGroup \<Rightarrow> ActionGroup" where
  "other_group Unfold = Fold"
| "other_group Fold = Unfold"

definition step_id :: "ActionGroup \<Rightarrow> u16" where
  "step_id grp = (if grp = Unfold then VarNum_UnfoldStep else VarNum_FoldStep)"

definition stop_action :: "ActionGroup \<Rightarrow> u8 \<Rightarrow> 'n app \<Rightarrow> 'n app" where
  \<comment> \<open>the branch of a press on the lit button\<close>
  "stop_action grp actionIndex a =
     (let (e, a1) = app_cancel a
      in if e \<noteq> ESP_OK then show_blocked_press grp a1
         else send (SetNumericValue (step_id grp) 0)
                (send (ChangeStringValue (instruction_id grp) ''HYDRAULICS SAFE - IDLE'')
                  (press_action_visual grp actionIndex a1)))"

definition start_action :: "ActionGroup \<Rightarrow> u8 \<Rightarrow> 'n app \<Rightarrow> 'n app" where
  \<comment> \<open>the branch of a press on another button\<close>
  "start_action grp actionIndex a =
     (let (e, a1) = app_activate grp actionIndex a
      in if e \<noteq> ESP_OK then show_blocked_press grp a1
         else
           let a2 = press_action_visual grp actionIndex a1
           in send (SetNumericValue (step_id grp) (ucast actionIndex))
                (send (ChangeStringValue (instruction_id grp) (fold_sequence_get_instruction (foldSeq a2))) a2))"

definition press_free_action :: "ActionGroup \<Rightarrow> u8 \<Rightarrow> 'n app \<Rightarrow> 'n app" where
  "press_free_action grp actionIndex a =
     (if is_action_lit grp actionIndex a then stop_action grp actionIndex a
      else start_action grp actionIndex a)"

definition handle_action_button :: "ActionGroup \<Rightarrow> u8 \<Rightarrow> 'n app \<Rightarrow> 'n app" where
  \<comment> \<open>the two handlers differ only in the group\<close>
  "handle_action_button grp actionIndex a =
     (if actionIndex < 1 \<or> actionIndex > 6 then a
      else if hydraulic_actuation_inhibited a then show_blocked_press grp a
      else if is_action_group_active (other_group grp) a
      then
        let (e, a1) = app_cancel (reset_action_buttons a)
        in if e \<noteq> ESP_OK then show_blocked_press grp a1 else press_free_action grp actionIndex a1
      else press_free_action grp actionIndex a)"

definition handle_unfold_action_button :: "u8 \<Rightarrow> 'n app \<Rightarrow> 'n app" where
  "handle_unfold_action_button = handle_action_button Unfold"

definition handle_fold_action_button :: "u8 \<Rightarrow> 'n app \<Rightarrow> 'n app" where
  "handle_fold_action_button = handle_action_button Fold"

section \<open>Power, marker and headland\<close>

definition request_vac_power :: "bool \<Rightarrow> 'n app \<Rightarrow> 'n app" where
  "request_vac_power requestedOn a =
     sync_power_buttons
       (a\<lparr>fanVac := snd (set_power_state requestedOn vacPowerEnabled fan_vac_toggle_vac_power (fanVac a))\<rparr>)"

definition request_fan_power :: "bool \<Rightarrow> 'n app \<Rightarrow> 'n app" where
  "request_fan_power requestedOn a =
     sync_power_buttons
       (a\<lparr>fanVac := snd (set_power_state requestedOn fanPowerEnabled fan_vac_toggle_fan_power (fanVac a))\<rparr>)"

definition handle_marker_side_button :: "bool \<Rightarrow> 'n app \<Rightarrow> 'n app" where
  "handle_marker_side_button leftSide a =
     (let (changed, m) = (if leftSide then press_left (markerModel a) else press_right (markerModel a));
          a1 = a\<lparr>markerModel := m\<rparr>
      in if changed then sync_marker_buttons a1 else a1)"

definition handle_marker_auto_button :: "'n app \<Rightarrow> 'n app" where
  "handle_marker_auto_button a = sync_marker_buttons (a\<lparr>markerModel := press_auto (markerModel a)\<rparr>)"

definition toggle_bulk_fill_headland :: "'n nvs_api \<Rightarrow> int \<Rightarrow> 'n app \<Rightarrow> 'n app" where
  "toggle_bulk_fill_headland api now a =
     (let previousState = bulkFillHeadland a;
          (result, newState, nvs1) = save_bulk_fill_headland (\<not> previousState) previousState
            (\<lambda>key value. persist_calibration_value (nvs_put api) (nvs_commit api) (calibrationNvsReady a)
               (if previousState then 1 else 0) key (ucast value)) (nvs a);
          a1 = a\<lparr>nvs := nvs1\<rparr>
      in sync_headland_button
           (if result = Saved then a1\<lparr>bulkFillHeadland := newState\<rparr>
            else set_calibration_status ''CALIBRATION SAVE FAILED'' True now a1))"

section \<open>Event handlers\<close>

fun screen_mask :: "ActiveScreen \<Rightarrow> u16" where
  "screen_mask SCREEN_RUN = DataMask_Run"
| "screen_mask SCREEN_UNFOLD = DataMask_Unfold"
| "screen_mask SCREEN_FOLD = DataMask_Fold"
| "screen_mask SCREEN_CAL = DataMask_Cal"

definition show_screen :: "ActiveScreen \<Rightarrow> 'n app \<Rightarrow> 'n app" where
  \<comment> \<open>the body shared by the four soft keys and the four tab buttons\<close>
  "show_screen screen a =
     (let a1 = reset_action_buttons (snd (app_cancel a));
          a2 = send (SetActiveMask WorkingSet_1200PT (screen_mask screen)) a1
      in sync_screen_buttons screen (a2\<lparr>currentScreen := screen\<rparr>))"

datatype KeyActivationCode =
    ButtonUnlatchedOrReleased | ButtonPressedOrLatched | ButtonStillHeld | ButtonPressAborted

definition handle_softkey_event :: "KeyActivationCode \<Rightarrow> u16 \<Rightarrow> 'n app \<Rightarrow> 'n app" where
  "handle_softkey_event keyEvent objectID a =
     (if keyEvent \<noteq> ButtonUnlatchedOrReleased then a
      else if objectID = SoftKey_Run then show_screen SCREEN_RUN a
      else if objectID = SoftKey_Unfold then show_screen SCREEN_UNFOLD a
      else if objectID = SoftKey_Fold then show_screen SCREEN_FOLD a
      else if objectID = SoftKey_Cal then show_screen SCREEN_CAL a
      else a)"

definition plant_button ::
    "(plant_status \<Rightarrow> board \<Rightarrow> esp_err \<times> plant_status \<times> board) \<Rightarrow> 'n app \<Rightarrow> 'n app" where
  "plant_button setter a =
     (if has_fault (outputs a) then show_blocked_press Fold a
      else
        let (e, p, b) = setter (plant a) (outputs a); a1 = a\<lparr>plant := p, outputs := b\<rparr>
        in if e \<noteq> ESP_OK then show_blocked_press Fold a1 else a1)"

definition fan_target_button :: "(fan_vac \<Rightarrow> fan_vac) \<Rightarrow> 'n app \<Rightarrow> 'n app" where
  "fan_target_button f a =
     (let a1 = a\<lparr>fanVac := f (fanVac a)\<rparr>
      in send (SetNumericValue VarNum_FanRPMTarget (ucast (fanRPMTarget (fanVac a1)))) a1)"

definition vac_target_button :: "(fan_vac \<Rightarrow> fan_vac) \<Rightarrow> 'n app \<Rightarrow> 'n app" where
  "vac_target_button f a =
     (let a1 = a\<lparr>fanVac := f (fanVac a)\<rparr>
      in send (SetNumericValue VarNum_VacTarget (ucast (vacPressureTarget (fanVac a1)))) a1)"

definition handle_button_event :: "'n nvs_api \<Rightarrow> int \<Rightarrow> KeyActivationCode \<Rightarrow> u16 \<Rightarrow> 'n app \<Rightarrow> 'n app" where
  "handle_button_event api now keyEvent objectID a =
     (if keyEvent \<noteq> ButtonUnlatchedOrReleased then a
      else if objectID = Button_TabRun then show_screen SCREEN_RUN a
      else if objectID = Button_TabUnfold then show_screen SCREEN_UNFOLD a
      else if objectID = Button_TabFold then show_screen SCREEN_FOLD a
      else if objectID = Button_TabCal then show_screen SCREEN_CAL a
      else if objectID = Button_FoldAction1 then handle_fold_action_button 1 a
      else if objectID = Button_FoldAction2 then handle_fold_action_button 2 a
      else if objectID = Button_FoldAction3 then handle_fold_action_button 3 a
      else if objectID = Button_FoldAction4 then handle_fold_action_button 4 a
      else if objectID = Button_FoldAction5 then handle_fold_action_button 5 a
      else if objectID = Button_FoldAction6 then handle_fold_action_button 6 a
      else if objectID = Button_UnfoldAction1 then handle_unfold_action_button 1 a
      else if objectID = Button_UnfoldAction2 then handle_unfold_action_button 2 a
      else if objectID = Button_UnfoldAction3 then handle_unfold_action_button 3 a
      else if objectID = Button_UnfoldAction4 then handle_unfold_action_button 4 a
      else if objectID = Button_UnfoldAction5 then handle_unfold_action_button 5 a
      else if objectID = Button_UnfoldAction6 then handle_unfold_action_button 6 a
      else if objectID = Button_PlantLimitedLift then plant_button plant_control_set_limited_lift a
      else if objectID = Button_PlantFullLift then plant_button plant_control_set_full_lift a
      else if objectID = Button_PlantLower then plant_button plant_control_set_lowered a
      else if objectID = Button_FanSpeedUp then fan_target_button fan_vac_fan_speed_up a
      else if objectID = Button_FanSpeedDown then fan_target_button fan_vac_fan_speed_down a
      else if objectID = Button_FanPower then request_fan_power True a
      else if objectID = Button_FanPowerOff then request_fan_power False a
      else if objectID = Button_VacPressureUp then vac_target_button fan_vac_vac_pressure_up a
      else if objectID = Button_VacPressureDown then vac_target_button fan_vac_vac_pressure_down a
      else if objectID = Button_VacPower then request_vac_power True a
      else if objectID = Button_VacPowerOff then request_vac_power False a
      else if objectID = Button_MarkerPrev then handle_marker_side_button True a
      else if objectID = Button_MarkerNext then handle_marker_side_button False a
      else if objectID = Button_MarkerToggle then handle_marker_auto_button a
      else if objectID = Button_CalSetFullRaise
      then save_calibration_point api now FullRaise VarNum_CalFullRaise (calPosition a) a
      else if objectID = Button_CalSetLimitedRaise
      then save_calibration_point api now LimitedRaise VarNum_CalLimitedRaise (calPosition a) a
      else if objectID = Button_CalSetStartPlant
      then save_calibration_point api now StartPlant VarNum_CalStartPlant (calPosition a) a
      else if objectID = Button_CalSetStopPlant
      then save_calibration_point api now StopPlant VarNum_CalStopPlant (calPosition a) a
      else if objectID = Button_CalBulkHeadland then toggle_bulk_fill_headland api now a
      else a)"

section \<open>Start-up and the main loop\<close>

definition app_boot :: "(rat \<Rightarrow> rat) \<Rightarrow> board \<Rightarrow> (nat \<Rightarrow> bool) \<Rightarrow> 'n \<Rightarrow> 'n app" where
  \<comment> \<open>the static initialisers\<close>
  "app_boot rnd b vtr n =
     \<lparr>currentScreen = SCREEN_RUN, hydraulicActuationInhibited = True, markerModel = marker_init,
      actionSelection = selection_init, lockoutFeedback = lockout_init, calPosition = 50,
      calibrationPoints = default_points, calibrationNvsReady = False, bulkFillHeadland = False,
      calStatusClearAtUs = 0, wasVtConnected = False, foldSeq = fold_vars_init, plant = plant_status_init,
      outputs = b, fanVac = fan_vac_boot rnd, nvs = n, vtReply = vtr, vtReplies = 0, vt_log = []\<rparr>"

definition app_main :: "'n nvs_api \<Rightarrow> bool \<Rightarrow> 'n app \<Rightarrow> 'n app" where
  \<comment> \<open>up to the main loop, the CAN driver having started\<close>
  "app_main api nvs_opened a =
     (let a1 = initialize_calibration_storage api nvs_opened a;
          (outputInitResult, f, b1) = fold_sequence_init (foldSeq a1) (outputs a1);
          (plantResult, p, b2) = plant_control_init (plant a1) b1
      in a1\<lparr>foldSeq := f, plant := p, outputs := b2, fanVac := fan_vac_start (fan_vac_init (fanVac a1))\<rparr>)"

record loop_input =
  vtConnected :: bool
  tickMs :: u32
  timeUs :: int
  millivolts :: u32
  sBinLevel :: bool

definition update_interlock :: "'n app \<Rightarrow> 'n app" where
  "update_interlock a =
     (let hydraulicControlAvailable = \<not> has_fault (outputs a);
          wasActuationInhibited = hydraulicActuationInhibited a;
          a1 = a\<lparr>hydraulicActuationInhibited := \<not> hydraulicControlAvailable\<rparr>
      in if \<not> hydraulicControlAvailable \<and> \<not> wasActuationInhibited
         then reset_action_buttons (snd (app_cancel a1)) else a1)"

definition main_loop_iteration :: "(rat \<Rightarrow> rat) \<Rightarrow> loop_input \<Rightarrow> 'n app \<Rightarrow> 'n app option" where
  "main_loop_iteration rnd i a =
     (let a1 = (if vtConnected i \<and> \<not> wasVtConnected a then sync_all_buttons a else a);
          a2 = a1\<lparr>wasVtConnected := vtConnected i\<rparr>
      in case fan_vac_update rnd (tickMs i) (millivolts i) (fanVac a2) of
           None \<Rightarrow> None
         | Some f \<Rightarrow>
             let a3 = update_interlock (a2\<lparr>fanVac := f\<rparr>);
                 a4 = update_display_values (timeUs i) (update_lockout_feedback a3)
             in Some (a4\<lparr>plant := plant_control_update_sbin (\<not> sBinLevel i) (plant a4)\<rparr>))"

end
