(* ===== verification/App_Safety.thy ===== *)
theory App_Safety
  imports App_Main
begin

text \<open>
  Correctness of the application of \<open>App_Main\<close>: which part of the state each handler leaves
  unchanged, the invariants of the hydraulics, of the settings and of the screen, the step relation
  of the running application with its reachable states, and the properties that span components.
\<close>

section \<open>Frames\<close>

text \<open>Display code only appends to the log and consumes replies: it leaves the \<open>core\<close> alone.\<close>

definition core :: "'n app \<Rightarrow> 'n app" where
  "core a = a\<lparr>vt_log := [], vtReplies := 0\<rparr>"

lemma core_fields [simp]:
  "currentScreen (core a) = currentScreen a"
  "hydraulicActuationInhibited (core a) = hydraulicActuationInhibited a"
  "markerModel (core a) = markerModel a" "actionSelection (core a) = actionSelection a"
  "lockoutFeedback (core a) = lockoutFeedback a" "calPosition (core a) = calPosition a"
  "calibrationPoints (core a) = calibrationPoints a" "bulkFillHeadland (core a) = bulkFillHeadland a"
  "calibrationNvsReady (core a) = calibrationNvsReady a" "calStatusClearAtUs (core a) = calStatusClearAtUs a"
  "wasVtConnected (core a) = wasVtConnected a" "foldSeq (core a) = foldSeq a" "plant (core a) = plant a"
  "outputs (core a) = outputs a" "fanVac (core a) = fanVac a" "nvs (core a) = nvs a"
  by (simp_all add: core_def)

lemma core_eq_fields:
  assumes "core a' = core a"
  shows "currentScreen a' = currentScreen a"
  "hydraulicActuationInhibited a' = hydraulicActuationInhibited a"
  "markerModel a' = markerModel a" "actionSelection a' = actionSelection a"
  "lockoutFeedback a' = lockoutFeedback a" "calPosition a' = calPosition a"
  "calibrationPoints a' = calibrationPoints a" "bulkFillHeadland a' = bulkFillHeadland a"
  "calibrationNvsReady a' = calibrationNvsReady a" "calStatusClearAtUs a' = calStatusClearAtUs a"
  "wasVtConnected a' = wasVtConnected a" "foldSeq a' = foldSeq a" "plant a' = plant a"
  "outputs a' = outputs a" "fanVac a' = fanVac a" "nvs a' = nvs a"
  using arg_cong [OF assms, of currentScreen] arg_cong [OF assms, of hydraulicActuationInhibited]
    arg_cong [OF assms, of markerModel] arg_cong [OF assms, of actionSelection]
    arg_cong [OF assms, of lockoutFeedback] arg_cong [OF assms, of calPosition]
    arg_cong [OF assms, of calibrationPoints] arg_cong [OF assms, of bulkFillHeadland]
    arg_cong [OF assms, of calibrationNvsReady] arg_cong [OF assms, of calStatusClearAtUs]
    arg_cong [OF assms, of wasVtConnected] arg_cong [OF assms, of foldSeq]
    arg_cong [OF assms, of plant] arg_cong [OF assms, of outputs]
    arg_cong [OF assms, of fanVac] arg_cong [OF assms, of nvs]
  by simp_all

lemma core_send [simp]: "core (send c a) = core a"
  by (simp add: core_def send_def)

lemma core_apply_style [simp]: "core (apply_button_style v st a) = core a"
  by (simp add: apply_button_style_def send_change_attribute_def Let_def)
     (simp add: core_def send_def)

lemma core_fold [simp]: "(\<And>x s. core (f x s) = core s) \<Longrightarrow> core (fold f xs a) = core a"
  by (induction xs arbitrary: a) simp_all

lemma core_action_changes [simp]: "core (apply_action_changes p q a) = core a"
  unfolding apply_action_changes_def by (rule core_fold) (simp split: prod.splits)

lemma core_sync_action [simp]: "core (sync_action_buttons g a) = core a"
  by (simp add: sync_action_buttons_def Let_def)

lemma core_sync_power [simp]: "core (sync_power_buttons a) = core a"
  by (simp add: sync_power_buttons_def Let_def)

lemma core_sync_marker [simp]: "core (sync_marker_buttons a) = core a"
  by (simp add: sync_marker_buttons_def Let_def)

lemma core_sync_headland [simp]: "core (sync_headland_button a) = core a"
  by (simp add: sync_headland_button_def Let_def)

lemma core_sync_screen [simp]: "core (sync_screen_buttons s a) = core a"
  by (cases s) simp_all

lemma core_sync_all [simp]: "core (sync_all_buttons a) = core a"
  by (simp add: sync_all_buttons_def)

lemma core_active_mask [simp]: "core (handle_active_mask_event m a) = core a"
  by (simp add: handle_active_mask_event_def)

lemma core_lockout_text [simp]:
  "core (send_lockout_text g r a) = core a" "core (restore_lockout_text g a) = core a"
  by (simp_all add: send_lockout_text_def restore_lockout_text_def)

lemma reset_core: "core (reset_action_buttons a) = (core a)\<lparr>actionSelection := selection_clear (actionSelection a)\<rparr>"
  by (simp add: reset_action_buttons_def Let_def) (simp add: core_def)

lemma press_core: "core (press_action_visual g i a) =
    (core a)\<lparr>actionSelection := snd (selection_press g i (actionSelection a))\<rparr>"
  by (simp add: press_action_visual_def) (simp add: core_def)

lemma core_lockout: "core (a\<lparr>lockoutFeedback := l\<rparr>) = (core a)\<lparr>lockoutFeedback := l\<rparr>"
  by (simp add: core_def)

lemma blocked_core: "\<exists>l. core (show_blocked_press g a) = (core a)\<lparr>lockoutFeedback := l\<rparr>"
  by (cases "on_blocked_press g (classify_inhibit (has_fault (outputs a))) (lockoutFeedback a)")
    (auto simp: show_blocked_press_def Let_def core_lockout)

lemma lockout_core: "\<exists>l. core (update_lockout_feedback a) = (core a)\<lparr>lockoutFeedback := l\<rparr>"
proof -
  obtain u l where "lockout_update (classify_inhibit (has_fault (outputs a))) (lockoutFeedback a) = (u, l)" by fastforce
  then have "core (update_lockout_feedback a) = core (a\<lparr>lockoutFeedback := l\<rparr>)"
    by (simp add: update_lockout_feedback_def Let_def)
  then show ?thesis by (auto simp: core_lockout)
qed

section \<open>The hydraulics of the application\<close>

text \<open>The part of the state that decides what the solenoids do.\<close>

definition hyd :: "'n app \<Rightarrow> bool \<times> ActionSelection \<times> fold_vars \<times> board" where
  "hyd a = (hydraulicActuationInhibited a, actionSelection a, foldSeq a, outputs a)"

lemma hyd_of_core: "hyd a = hyd (core a)"
  by (simp add: hyd_def)

lemma hyd_coreI: "core a' = x \<Longrightarrow> hyd a' = hyd x"
  using hyd_of_core by metis

lemma hyd_core: "core a' = core a \<Longrightarrow> hyd a' = hyd a"
  using hyd_of_core by metis

lemma hyd_display [simp]:
  "hyd (send c a) = hyd a" "hyd (apply_button_style v st a) = hyd a"
  "hyd (sync_action_buttons g a) = hyd a" "hyd (sync_screen_buttons sc a) = hyd a"
  "hyd (sync_all_buttons a) = hyd a" "hyd (sync_power_buttons a) = hyd a"
  "hyd (sync_marker_buttons a) = hyd a" "hyd (sync_headland_button a) = hyd a"
  "hyd (handle_active_mask_event m a) = hyd a"
  by (rule hyd_core; simp)+

lemma hyd_reset: "hyd (reset_action_buttons a) =
    (hydraulicActuationInhibited a, selection_clear (actionSelection a), foldSeq a, outputs a)"
  by (subst hyd_of_core, subst reset_core) (simp add: hyd_def)

lemma hyd_press: "hyd (press_action_visual g i a) =
    (hydraulicActuationInhibited a, snd (selection_press g i (actionSelection a)), foldSeq a, outputs a)"
  by (subst hyd_of_core, subst press_core) (simp add: hyd_def)

lemma hyd_blocked [simp]: "hyd (show_blocked_press g a) = hyd a"
  using blocked_core [of g a] by (auto dest!: hyd_coreI simp: hyd_def)

lemma hyd_lockout [simp]: "hyd (update_lockout_feedback a) = hyd a"
  using lockout_core [of a] by (auto dest!: hyd_coreI simp: hyd_def)

lemma hyd_cancel:
  "app_cancel a = (e, a') \<Longrightarrow> \<exists>b. fold_sequence_cancel (foldSeq a) (outputs a) = (e, fold_reset (foldSeq a), b)
     \<and> a' = a\<lparr>foldSeq := fold_reset (foldSeq a), outputs := b\<rparr>"
  by (auto simp: app_cancel_def fold_sequence_cancel_def split: prod.splits)

text \<open>The action the sequencer drives, as the selection names it.\<close>

definition driven_action :: "fold_vars \<Rightarrow> (ActionGroup \<times> u8) option" where
  "driven_action f =
     (case currentState f of
        FOLD_ACTIVE \<Rightarrow> Some (Fold, currentStep f + 1)
      | UNFOLD_ACTIVE \<Rightarrow> Some (Unfold, currentStep f + 1)
      | _ \<Rightarrow> None)"

lemma driven_reset [simp]: "driven_action (fold_reset f) = None"
  by (simp add: driven_action_def fold_reset_def)

definition solenoid_rows :: "solenoids list" where
  "solenoid_rows = PLANT_LOWERED_STATES # PLANT_LIMITED_LIFT_STATES # PLANT_FULL_LIFT_STATES
     # FOLD_STATES @ UNFOLD_STATES"

definition drives_row :: "board \<Rightarrow> bool" where
  "drives_row b \<longleftrightarrow> (\<exists>row \<in> set solenoid_rows. \<forall>n < 18. solenoid_on b n = row ! n)"

fun hyd_inv :: "bool \<times> ActionSelection \<times> fold_vars \<times> board \<Rightarrow> bool" where
  "hyd_inv (inhibited, sel, f, b) \<longleftrightarrow>
     lock_free b \<and> step_in_table f \<and> selection_ok sel
     \<and> (inhibited \<longrightarrow> selected sel = None \<and> driven_action f = None)
     \<and> (\<not> faulted b \<longrightarrow> selected sel = driven_action f \<and> drives_row b)"

lemma all_off_row: "bus_log b = ws @ all_off_writes (activeLow b) \<Longrightarrow> drives_row b"
  unfolding drives_row_def solenoid_rows_def
  by (rule bexI [of _ PLANT_LOWERED_STATES])
    (auto simp: solenoid_on_all_off PLANT_LOWERED_STATES_def nth_Cons' simp del: One_nat_def)

lemma states_row:
  "bus_log b = ws @ solenoid_writes st (activeLow b) \<Longrightarrow> st \<in> set solenoid_rows \<Longrightarrow> drives_row b"
  unfolding drives_row_def by (rule bexI [of _ st]) (auto simp: solenoid_on_states)


lemma hyd_inv_cancel:
  assumes "app_cancel a = (e, a')" "lock_free (outputs a)"
  shows "lock_free (outputs a') \<and> step_in_table (foldSeq a') \<and> driven_action (foldSeq a') = None
    \<and> actionSelection a' = actionSelection a
    \<and> hydraulicActuationInhibited a' = hydraulicActuationInhibited a
    \<and> (faulted (outputs a) \<longrightarrow> faulted (outputs a')) \<and> (e \<noteq> ESP_OK \<longrightarrow> faulted (outputs a'))
    \<and> (e = ESP_OK \<longrightarrow> faulted (outputs a') = faulted (outputs a) \<and> drives_row (outputs a')
         \<and> (\<forall>n. \<not> solenoid_on (outputs a') n))"
proof -
  from hyd_cancel [OF assms(1)] obtain b where
    b: "fold_sequence_cancel (foldSeq a) (outputs a) = (e, fold_reset (foldSeq a), b)"
    and a': "a' = a\<lparr>foldSeq := fold_reset (foldSeq a), outputs := b\<rparr>" by blast
  have m: "outputBusMutex (outputs a) \<noteq> MutexHeld" using assms(2) by (simp add: lock_free_def)
  have l: "latches_fault (outputs a) e b" using cancel_latches [OF b m] by simp
  have off: "fold_sequence_all_off (outputs a) = (e, b)"
    using b by (simp add: fold_sequence_cancel_def split: prod.splits)
  have "bus_log b = bus_log (outputs a) @ all_off_writes (activeLow b)" if "e = ESP_OK"
    using all_off_ok off m l that by (simp add: latches_fault_def same_wiring_def)
  with l assms(2) show ?thesis
    by (cases "e = ESP_OK")
      (auto simp: a' latches_fault_def lock_free_wiring solenoid_on_all_off intro: all_off_row)
qed

lemma activate_group_alt:
  "activate_group g = activate_action (case g of Fold \<Rightarrow> FOLD_ACTIVE | Unfold \<Rightarrow> UNFOLD_ACTIVE)
     (case g of Fold \<Rightarrow> FOLD_STATES | Unfold \<Rightarrow> UNFOLD_STATES)"
  by (cases g) (simp_all add: fold_sequence_activate_fold_action_def fold_sequence_activate_unfold_action_def)

lemma group_rows: "i < 6 \<Longrightarrow> (case g of Fold \<Rightarrow> FOLD_STATES | Unfold \<Rightarrow> UNFOLD_STATES) ! i \<in> set solenoid_rows"
  using nth_mem [of i FOLD_STATES] nth_mem [of i UNFOLD_STATES]
  by (cases g) (auto simp: solenoid_rows_def FOLD_STATES_def [THEN arg_cong, of length]
      UNFOLD_STATES_def [THEN arg_cong, of length])

lemma hyd_inv_activate:
  assumes "app_activate g i a = (e, a')" "lock_free (outputs a)" "step_in_table (foldSeq a)" "1 \<le> i" "i \<le> 6"
  shows "lock_free (outputs a') \<and> step_in_table (foldSeq a')
    \<and> actionSelection a' = actionSelection a
    \<and> hydraulicActuationInhibited a' = hydraulicActuationInhibited a
    \<and> (faulted (outputs a) \<longrightarrow> faulted (outputs a')) \<and> (e \<noteq> ESP_OK \<longrightarrow> faulted (outputs a'))
    \<and> (e = ESP_OK \<longrightarrow> driven_action (foldSeq a') = Some (g, i) \<and> drives_row (outputs a')
        \<and> faulted (outputs a') = faulted (outputs a))"
proof -
  from assms(1) obtain f b where b: "activate_group g i (foldSeq a) (outputs a) = (e, f, b)"
    and a': "a' = a\<lparr>foldSeq := f, outputs := b\<rparr>" by (auto simp: app_activate_def split: prod.splits)
  have m: "outputBusMutex (outputs a) \<noteq> MutexHeld" using assms(2) by (simp add: lock_free_def)
  have i: "unat (i - 1) < 6" using assms(4,5) u8_pred_less_6 by (simp add: word_less_nat_alt)
  have st: "step_in_table f"
    using activate_step_in_table [OF b [unfolded activate_group_alt] m assms(3)] .
  show ?thesis
    using b [unfolded activate_group_alt] m assms(4,5)
  proof (cases rule: activate_cases)
    case active
    have "activeLow b = activeLow (outputs a)" using active(3) by (simp add: latches_fault_def same_wiring_def)
    then have "bus_log b = (bus_log (outputs a) @ all_off_writes (activeLow b))
        @ solenoid_writes ((case g of Fold \<Rightarrow> FOLD_STATES | Unfold \<Rightarrow> UNFOLD_STATES) ! unat (i - 1)) (activeLow b)"
      using active(4) by simp
    then have "drives_row b" using group_rows [OF i] by (rule states_row)
    with active st assms(2) show ?thesis
      by (cases g) (auto simp: a' latches_fault_def lock_free_wiring driven_action_def)
  qed (use st assms(2) in \<open>auto simp: a' latches_fault_def lock_free_wiring\<close>)
qed


lemma is_action_lit_selected: "is_action_lit g i a \<longleftrightarrow> selected (actionSelection a) = Some (g, i)"
  by (simp add: is_action_lit_def is_lit_selected)

lemma stop_action_inv:
  assumes "hyd_inv (hyd a)" "is_action_lit g i a" "1 \<le> i" "i \<le> 6" "\<not> hydraulicActuationInhibited a"
  shows "hyd_inv (hyd (stop_action g i a)) \<and> \<not> hydraulicActuationInhibited (stop_action g i a)"
proof -
  obtain e a1 where c: "app_cancel a = (e, a1)" by fastforce
  have inv: "lock_free (outputs a)" "selection_ok (actionSelection a)" using assms(1) by (simp_all add: hyd_def)
  note k = hyd_inv_cancel [OF c inv(1)]
  have "hyd (stop_action g i a) = (if e \<noteq> ESP_OK then hyd a1 else
      (False, snd (selection_press g i (actionSelection a)), foldSeq a1, outputs a1))"
    using k assms(5) by (simp add: stop_action_def c hyd_press)
  moreover have "selected (snd (selection_press g i (actionSelection a))) = None"
    using selected_press [OF assms(3,4)] assms(2) by (simp add: is_action_lit_selected)
  moreover have "\<not> hydraulicActuationInhibited (stop_action g i a)"
    using arg_cong [OF calculation(1), of fst] k assms(5) by (auto simp: hyd_def split: if_splits)
  ultimately show ?thesis using k inv selection_ok_press assms(5)
    by (auto simp: hyd_def)
qed

lemma start_action_inv:
  assumes "hyd_inv (hyd a)" "\<not> is_action_lit g i a" "1 \<le> i" "i \<le> 6" "\<not> hydraulicActuationInhibited a"
  shows "hyd_inv (hyd (start_action g i a)) \<and> \<not> hydraulicActuationInhibited (start_action g i a)"
proof -
  obtain e a1 where c: "app_activate g i a = (e, a1)" by fastforce
  have inv: "lock_free (outputs a)" "selection_ok (actionSelection a)" "step_in_table (foldSeq a)"
    using assms(1) by (simp_all add: hyd_def)
  note k = hyd_inv_activate [OF c inv(1,3) assms(3,4)]
  have "hyd (start_action g i a) = (if e \<noteq> ESP_OK then hyd a1 else
      (False, snd (selection_press g i (actionSelection a)), foldSeq a1, outputs a1))"
    using k assms(5) by (simp add: start_action_def c hyd_press Let_def)
  moreover have "selected (snd (selection_press g i (actionSelection a))) = Some (g, i)"
    using selected_press [OF assms(3,4)] assms(2) by (simp add: is_action_lit_selected)
  moreover have "\<not> hydraulicActuationInhibited (start_action g i a)"
    using arg_cong [OF calculation(1), of fst] k assms(5) by (auto simp: hyd_def split: if_splits)
  ultimately show ?thesis using k inv selection_ok_press assms(5)
    by (auto simp: hyd_def)
qed

lemma press_free_inv:
  assumes "hyd_inv (hyd a)" "1 \<le> i" "i \<le> 6" "\<not> hydraulicActuationInhibited a"
  shows "hyd_inv (hyd (press_free_action g i a)) \<and> \<not> hydraulicActuationInhibited (press_free_action g i a)"
  using stop_action_inv [OF assms(1) _ assms(2-4)] start_action_inv [OF assms(1) _ assms(2-4)]
  by (simp add: press_free_action_def)

lemma handle_action_inv:
  assumes "hyd_inv (hyd a)"
  shows "hyd_inv (hyd (handle_action_button g i a))"
proof -
  consider "i < 1 \<or> i > 6" | "hydraulic_actuation_inhibited a" | (free) "1 \<le> i" "i \<le> 6" "\<not> hydraulicActuationInhibited a"
    by (metis hydraulic_actuation_inhibited_def linorder_not_less)
  then show ?thesis
  proof cases
    case free
    obtain e a1 where c: "app_cancel (reset_action_buttons a) = (e, a1)" by fastforce
    have r: "outputs (reset_action_buttons a) = outputs a" "actionSelection (reset_action_buttons a) = selection_clear (actionSelection a)"
        "hydraulicActuationInhibited (reset_action_buttons a) = hydraulicActuationInhibited a"
      using hyd_reset [of a] by (simp_all add: hyd_def)
    then have k: "hyd_inv (hyd a1)" "\<not> hydraulicActuationInhibited a1"
      using hyd_inv_cancel [OF c] assms free by (auto simp: hyd_def)
    then show ?thesis
      using press_free_inv [OF k(1) free(1,2) k(2), of g] press_free_inv [OF assms free, of g] assms
      by (simp add: handle_action_button_def c)
  qed (use assms in \<open>auto simp: handle_action_button_def\<close>)
qed

lemma show_screen_inv:
  assumes "hyd_inv (hyd a)"
  shows "hyd_inv (hyd (show_screen sc a))"
proof -
  obtain e a1 where c: "app_cancel a = (e, a1)" by fastforce
  have "hyd (show_screen sc a) = hyd (reset_action_buttons a1)"
    by (simp add: show_screen_def c Let_def) (simp add: hyd_def send_def)
  then show ?thesis
    using hyd_inv_cancel [OF c] assms by (auto simp: hyd_reset) (auto simp: hyd_def)
qed

lemma plant_button_inv:
  assumes "hyd_inv (hyd a)" "setter = set_plant_mode mode rowst" "rowst \<in> set solenoid_rows"
  shows "hyd_inv (hyd (plant_button setter a))"
proof (cases "has_fault (outputs a)")
  case False
  obtain e p b where run: "setter (plant a) (outputs a) = (e, p, b)" by (metis prod_cases3)
  have lf: "lock_free (outputs a)" using assms(1) by (simp add: hyd_def)
  then have m: "outputBusMutex (outputs a) \<noteq> MutexHeld" by (simp add: lock_free_def)
  have l: "latches_fault (outputs a) e b" using set_mode_latches run m assms(2) by blast
  have ap: "apply_plant_solenoid_states rowst (outputs a) = (e, b)"
    using run assms(2) by (auto simp: set_plant_mode_def split: prod.splits)
  have "bus_log b = bus_log (outputs a) @ solenoid_writes rowst (activeLow b)" if "e = ESP_OK"
    using plant_apply_ok ap m l that by (simp add: latches_fault_def same_wiring_def)
  then have "e = ESP_OK \<Longrightarrow> drives_row b" using assms(3) by (rule states_row)
  moreover have "hyd (plant_button setter a) = (hydraulicActuationInhibited a, actionSelection a, foldSeq a, b)"
    using False by (simp add: plant_button_def run Let_def) (simp add: hyd_def)
  ultimately show ?thesis using l assms(1) lf False
    by (cases "e = ESP_OK") (auto simp: latches_fault_def lock_free_wiring has_fault_def hyd_def)
qed (use assms(1) in \<open>simp add: plant_button_def\<close>)

lemma hyd_fan [simp]:
  "hyd (fan_target_button fn a) = hyd a" "hyd (vac_target_button fn a) = hyd a"
  "hyd (request_fan_power r a) = hyd a" "hyd (request_vac_power r a) = hyd a"
  "hyd (handle_marker_auto_button a) = hyd a"
  by (simp_all add: fan_target_button_def vac_target_button_def request_fan_power_def request_vac_power_def
      handle_marker_auto_button_def Let_def) (simp_all add: hyd_def)

lemma hyd_marker_side [simp]: "hyd (handle_marker_side_button l a) = hyd a"
  by (simp add: handle_marker_side_button_def Let_def split: prod.splits) (simp add: hyd_def)

lemma hyd_status [simp]: "hyd (set_calibration_status m tr now a) = hyd a"
  by (simp add: set_calibration_status_def) (simp add: hyd_def)

lemma hyd_calibration [simp]: "hyd (save_calibration_point api now pt oid v a) = hyd a"
  by (simp add: save_calibration_point_def Let_def split: prod.splits) (simp add: hyd_def)

lemma hyd_headland [simp]: "hyd (toggle_bulk_fill_headland api now a) = hyd a"
  by (simp add: toggle_bulk_fill_headland_def Let_def split: prod.splits) (simp add: hyd_def)

lemma plant_rows:
  "PLANT_LIMITED_LIFT_STATES \<in> set solenoid_rows" "PLANT_FULL_LIFT_STATES \<in> set solenoid_rows"
  "PLANT_LOWERED_STATES \<in> set solenoid_rows"
  by (simp_all add: solenoid_rows_def)

lemma softkey_inv: "hyd_inv (hyd a) \<Longrightarrow> hyd_inv (hyd (handle_softkey_event k oid a))"
  by (simp add: handle_softkey_event_def show_screen_inv)

lemma button_inv: "hyd_inv (hyd a) \<Longrightarrow> hyd_inv (hyd (handle_button_event api now k oid a))"
  by (simp add: handle_button_event_def show_screen_inv handle_fold_action_button_def
      handle_unfold_action_button_def handle_action_inv plant_rows
      plant_button_inv [OF _ plant_control_set_limited_lift_def]
      plant_button_inv [OF _ plant_control_set_full_lift_def]
      plant_button_inv [OF _ plant_control_set_lowered_def])

lemma interlock_inv:
  assumes "hyd_inv (hyd a)"
  shows "hyd_inv (hyd (update_interlock a)) \<and>
    hydraulicActuationInhibited (update_interlock a) = faulted (outputs (update_interlock a))"
proof (cases "has_fault (outputs a) \<and> \<not> hydraulicActuationInhibited a")
  case True
  define a1 where "a1 = a\<lparr>hydraulicActuationInhibited := True\<rparr>"
  obtain e a2 where c: "app_cancel a1 = (e, a2)" by fastforce
  have "hyd (update_interlock a) = hyd (reset_action_buttons a2)"
    using True by (simp add: update_interlock_def c a1_def [symmetric] Let_def)
  moreover have "lock_free (outputs a1)" using assms by (simp add: a1_def hyd_def)
  note k = hyd_inv_cancel [OF c this]
  ultimately have "hyd (update_interlock a) = (True, selection_clear (actionSelection a), foldSeq a2, outputs a2)"
    by (simp add: hyd_reset a1_def)
  then show ?thesis using k True by (auto simp: hyd_def a1_def has_fault_def)
next
  case False
  then have "update_interlock a = a\<lparr>hydraulicActuationInhibited := has_fault (outputs a)\<rparr>"
    by (auto simp: update_interlock_def Let_def)
  then show ?thesis using assms False by (auto simp: hyd_def has_fault_def)
qed

lemma hyd_display_values [simp]: "hyd (update_display_values now a) = hyd a"
proof -
  have 1: "hyd (expire_calibration_status now x) = hyd x" for x :: "'n app"
    by (simp add: expire_calibration_status_def) (simp add: hyd_def)
  have 2: "hyd (update_fold_step x) = hyd x" for x :: "'n app"
    by (simp add: update_fold_step_def Let_def) (simp add: hyd_def send_def)
  show ?thesis by (simp add: update_display_values_def Let_def 1 2)
qed

lemma hyd_updates [simp]:
  "hyd (a\<lparr>fanVac := f\<rparr>) = hyd a" "hyd (a\<lparr>plant := p\<rparr>) = hyd a" "hyd (a\<lparr>wasVtConnected := w\<rparr>) = hyd a"
  by (simp_all add: hyd_def)

definition loop_sync :: "loop_input \<Rightarrow> 'n app \<Rightarrow> 'n app" where
  "loop_sync i a = (if vtConnected i \<and> \<not> wasVtConnected a then sync_all_buttons a else a)\<lparr>wasVtConnected := vtConnected i\<rparr>"

lemma fanVac_sync_all [simp]: "fanVac (sync_all_buttons a) = fanVac a"
  by (rule core_eq_fields [OF core_sync_all])

lemma loop_sync_simps [simp]: "fanVac (loop_sync i a) = fanVac a" "hyd (loop_sync i a) = hyd a"
  by (simp_all add: loop_sync_def)

lemma main_loop_alt:
  "main_loop_iteration rnd i a =
     (case fan_vac_update rnd (tickMs i) (millivolts i) (fanVac a) of
        None \<Rightarrow> None
      | Some f \<Rightarrow>
          let a4 = update_display_values (timeUs i) (update_lockout_feedback
                (update_interlock ((loop_sync i a)\<lparr>fanVac := f\<rparr>)))
          in Some (a4\<lparr>plant := plant_control_update_sbin (\<not> sBinLevel i) (plant a4)\<rparr>))"
  unfolding main_loop_iteration_def Let_def loop_sync_def [symmetric] by simp

lemma main_loop_cases:
  assumes "main_loop_iteration rnd i a = Some a'"
  obtains f p where "fan_vac_update rnd (tickMs i) (millivolts i) (fanVac a) = Some f"
    "a' = (update_display_values (timeUs i) (update_lockout_feedback
             (update_interlock ((loop_sync i a)\<lparr>fanVac := f\<rparr>))))\<lparr>plant := p\<rparr>"
  using assms by (auto simp: main_loop_alt Let_def split: option.splits)

lemma main_loop_hyd:
  assumes "main_loop_iteration rnd i a = Some a'" "hyd_inv (hyd a)"
  shows "hyd_inv (hyd a') \<and> hydraulicActuationInhibited a' = faulted (outputs a')"
proof -
  from assms(1) obtain f p where a': "a' = (update_display_values (timeUs i) (update_lockout_feedback
             (update_interlock ((loop_sync i a)\<lparr>fanVac := f\<rparr>))))\<lparr>plant := p\<rparr>"
    by (rule main_loop_cases)
  let ?b = "update_interlock ((loop_sync i a)\<lparr>fanVac := f\<rparr>)"
  have "hyd a' = hyd ?b" by (simp add: a')
  moreover have "hyd_inv (hyd ?b) \<and> hydraulicActuationInhibited ?b = faulted (outputs ?b)"
    by (rule interlock_inv) (simp add: assms(2))
  ultimately show ?thesis by (simp add: hyd_def)
qed

section \<open>Runs of the application\<close>

datatype app_event =
    SoftKey KeyActivationCode u16
  | Button int KeyActivationCode u16
  | ActiveMask u16
  | FanPulse
  | Loop loop_input

inductive app_step :: "'n nvs_api \<Rightarrow> (rat \<Rightarrow> rat) \<Rightarrow> app_event \<Rightarrow> 'n app \<Rightarrow> 'n app \<Rightarrow> bool"
  for api rnd where
  softkey: "app_step api rnd (SoftKey k oid) a (handle_softkey_event k oid a)"
| button: "app_step api rnd (Button now k oid) a (handle_button_event api now k oid a)"
| mask: "app_step api rnd (ActiveMask oid) a (handle_active_mask_event oid a)"
| pulse: "app_step api rnd FanPulse a (a\<lparr>fanVac := fan_rpm_isr (fanVac a)\<rparr>)"
| loop: "main_loop_iteration rnd i a = Some a' \<Longrightarrow> app_step api rnd (Loop i) a a'"

inductive_cases app_step_cases: "app_step api rnd ev a a'"

inductive app_reaches :: "'n nvs_api \<Rightarrow> (rat \<Rightarrow> rat) \<Rightarrow> 'n app \<Rightarrow> 'n app \<Rightarrow> bool"
  for api rnd a0 where
  start: "app_reaches api rnd a0 a0"
| step: "app_reaches api rnd a0 a \<Longrightarrow> app_step api rnd ev a a' \<Longrightarrow> app_reaches api rnd a0 a'"

lemma app_step_hyd: "app_step api rnd ev a a' \<Longrightarrow> hyd_inv (hyd a) \<Longrightarrow> hyd_inv (hyd a')"
  by (erule app_step_cases) (simp_all add: softkey_inv button_inv main_loop_hyd)

lemma app_reaches_hyd: "app_reaches api rnd a0 a \<Longrightarrow> hyd_inv (hyd a0) \<Longrightarrow> hyd_inv (hyd a)"
  by (induction rule: app_reaches.induct) (simp_all add: app_step_hyd)


lemma plant_off_row:
  assumes "bus_log b = ws @ plant_off_writes (activeLow b)"
  shows "drives_row b"
proof -
  have "port_byte PLANT_LOWERED_STATES 0 8 = 0" "port_byte PLANT_LOWERED_STATES 8 8 = 0"
    "port_byte PLANT_LOWERED_STATES 16 2 = 0" by code_simp+
  then have "plant_off_writes l = solenoid_writes PLANT_LOWERED_STATES l" for l
    by (simp add: plant_off_writes_def solenoid_writes_def)
  with assms plant_rows(3) show ?thesis by (auto intro: states_row)
qed

lemma app_main_hyd:
  assumes "outputBusMutex b \<noteq> MutexHeld" "\<not> self_deadlock b"
  shows "hyd_inv (hyd (app_main api op (app_boot rnd b vtr n)))"
proof -
  obtain e f b1 where fi: "fold_sequence_init fold_vars_init b = (e, f, b1)" by (metis prod_cases3)
  have out: "init_outcome b fold_vars_init e f b1" using init_phase [OF fi assms(1)] by simp
  then have lf: "lock_free b1" and f: "f = fold_vars_init \<or> f = fold_reset fold_vars_init"
    using assms(2) by (auto simp: init_outcome_def lock_free_def)
  then have m: "outputBusMutex b1 \<noteq> MutexHeld" by (simp add: lock_free_def)
  obtain e2 p b2 where pi: "plant_control_init plant_status_init b1 = (e2, p, b2)" by (metis prod_cases3)
  note l = plant_init_latches [OF pi m]
  have "drives_row b2" if "\<not> faulted b2"
  proof -
    have ok: "\<not> faulted b1" "e2 = ESP_OK" using that l by auto
    then have "plant_control_all_off b1 = (ESP_OK, b2)"
      using pi by (auto simp: plant_control_init_def has_fault_def split: prod.splits)
    from plant_all_off_latches [OF this m] show ?thesis
      by (auto simp: latches_fault_def same_wiring_def intro: plant_off_row)
  qed
  moreover have "driven_action f = None" "step_in_table f"
    using f by (auto simp: driven_action_def fold_vars_init_def fold_reset_def step_in_table_def)
  moreover have "hyd (app_main api op (app_boot rnd b vtr n)) = (True, selection_init, f, b2)"
    by (simp add: app_main_def initialize_calibration_storage_def app_boot_def Let_def fi pi hyd_def)
  ultimately show ?thesis using l lf
    by (auto simp: lock_free_wiring selection_ok_def selection_init_def selected_def)
qed

section \<open>The other components\<close>

fun aux_inv :: "MarkerModel \<times> u32 \<times> Points \<times> fan_vac \<Rightarrow> bool" where
  "aux_inv (m, pos, pts, f) \<longleftrightarrow>
     (autoActive m \<longrightarrow> \<not> leftActive m \<and> \<not> rightActive m)
     \<and> 15 \<le> pos \<and> pos \<le> 95 \<and> points_ok pts \<and> fan_inv f"

definition aux :: "'n app \<Rightarrow> MarkerModel \<times> u32 \<times> Points \<times> fan_vac" where
  "aux a = (markerModel a, calPosition a, calibrationPoints a, fanVac a)"

lemma aux_of_core: "aux a = aux (core a)"
  by (simp add: aux_def)

lemma aux_coreI: "core a' = x \<Longrightarrow> aux a' = aux x"
  using aux_of_core by metis

lemma aux_display [simp]:
  "aux (send c a) = aux a" "aux (sync_action_buttons g a) = aux a" "aux (sync_screen_buttons sc a) = aux a"
  "aux (sync_all_buttons a) = aux a" "aux (sync_power_buttons a) = aux a"
  "aux (sync_marker_buttons a) = aux a" "aux (sync_headland_button a) = aux a"
  "aux (handle_active_mask_event m a) = aux a"
  by (rule aux_of_core [THEN trans], simp, rule aux_of_core [symmetric])+

lemma aux_hydraulics [simp]:
  "aux (reset_action_buttons a) = aux a" "aux (press_action_visual g i a) = aux a"
  "aux (show_blocked_press g a) = aux a" "aux (update_lockout_feedback a) = aux a"
  "aux (snd (app_cancel a)) = aux a" "aux (snd (app_activate g i a)) = aux a"
  using aux_coreI [OF reset_core, of a] aux_coreI [OF press_core, of g i a] blocked_core [of g a] lockout_core [of a]
  by (auto dest!: aux_coreI simp: aux_def app_cancel_def app_activate_def split: prod.splits)

lemma aux_action_button [simp]: "aux (handle_action_button g i a) = aux a"
proof -
  have c: "app_cancel x = (e, x') \<Longrightarrow> aux x' = aux x" "app_activate h j x = (e, x') \<Longrightarrow> aux x' = aux x"
    for x x' :: "'n app" and e h j
    using aux_hydraulics(5) [of x] aux_hydraulics(6) [of h j x] by auto
  have p: "aux (press_free_action g i x) = aux x" for x :: "'n app"
    by (auto simp: press_free_action_def stop_action_def start_action_def Let_def c split: prod.splits)
  show ?thesis
    by (auto simp: handle_action_button_def p c split: prod.splits)
qed

lemma aux_updates [simp]:
  "aux (a\<lparr>currentScreen := sc\<rparr>) = aux a" "aux (a\<lparr>hydraulicActuationInhibited := h\<rparr>) = aux a"
  "aux (a\<lparr>plant := p\<rparr>) = aux a" "aux (a\<lparr>wasVtConnected := w\<rparr>) = aux a" "aux (a\<lparr>nvs := nv\<rparr>) = aux a"
  "aux (a\<lparr>bulkFillHeadland := bf\<rparr>) = aux a" "aux (a\<lparr>calStatusClearAtUs := t\<rparr>) = aux a"
  by (simp_all add: aux_def)

lemma aux_show_screen [simp]: "aux (show_screen sc a) = aux a"
  by (simp add: show_screen_def Let_def)

lemma aux_plant [simp]: "aux (plant_button setter a) = aux a"
  by (simp add: plant_button_def Let_def split: prod.splits) (simp add: aux_def)

lemma aux_interlock [simp]: "aux (update_interlock a) = aux a"
  by (simp add: update_interlock_def Let_def)

lemma aux_status [simp]: "aux (set_calibration_status m tr now a) = aux a"
  by (simp add: set_calibration_status_def)

lemma aux_headland [simp]: "aux (toggle_bulk_fill_headland api now a) = aux a"
  by (simp add: toggle_bulk_fill_headland_def Let_def split: prod.splits)

lemma aux_expire [simp]: "aux (expire_calibration_status now a) = aux a"
  by (simp add: expire_calibration_status_def)

lemma aux_fan_target:
  "aux (fan_target_button fn a) = (markerModel a, calPosition a, calibrationPoints a, fn (fanVac a))"
  "aux (vac_target_button fn a) = (markerModel a, calPosition a, calibrationPoints a, fn (fanVac a))"
  by (simp_all add: fan_target_button_def vac_target_button_def Let_def) (simp_all add: aux_def)

lemma aux_fan_power:
  "aux (request_fan_power r a) = (markerModel a, calPosition a, calibrationPoints a,
     snd (set_power_state r fanPowerEnabled fan_vac_toggle_fan_power (fanVac a)))"
  "aux (request_vac_power r a) = (markerModel a, calPosition a, calibrationPoints a,
     snd (set_power_state r vacPowerEnabled fan_vac_toggle_vac_power (fanVac a)))"
  by (simp_all add: request_fan_power_def request_vac_power_def) (simp_all add: aux_def)

lemma fan_inv_power:
  assumes "fan_inv f"
  shows "fan_inv (snd (set_power_state r fanPowerEnabled fan_vac_toggle_fan_power f))"
    "fan_inv (snd (set_power_state r vacPowerEnabled fan_vac_toggle_vac_power f))"
  using assms by (simp_all add: set_power_state_def Let_def fan_inv_toggle_fan fan_inv_toggle_vac)

lemma aux_inv_marker_side: "aux_inv (aux a) \<Longrightarrow> aux_inv (aux (handle_marker_side_button l a))"
  by (auto simp: handle_marker_side_button_def Let_def press_left_def press_right_def aux_def
      core_eq_fields [OF core_sync_marker] split: prod.splits if_splits)

lemma aux_inv_marker_auto: "aux_inv (aux a) \<Longrightarrow> aux_inv (aux (handle_marker_auto_button a))"
  by (simp add: handle_marker_auto_button_def) (auto simp: aux_def press_auto_def Let_def)

lemma app_store_point_ok:
  assumes "store_calibration_point put commit ready pt v p s = (r, p', s')" "points_ok p"
  shows "points_ok p'"
  using assms by (auto simp: store_calibration_point_def Let_def elim!: save_point_ok)

lemma aux_inv_save:
  assumes "aux_inv (aux a)"
  shows "aux_inv (aux (save_calibration_point api now pt oid v a))"
proof -
  obtain r p' s' where st: "store_calibration_point (nvs_put api) (nvs_commit api)
            (calibrationNvsReady a) pt v (calibrationPoints a) (nvs a) = (r, p', s')" by (metis prod_cases3)
  have "points_ok (calibrationPoints a)" using assms by (simp add: aux_def)
  with st have "points_ok p'" by (rule app_store_point_ok)
  moreover have "aux (save_calibration_point api now pt oid v a) = (markerModel a, calPosition a, p', fanVac a)"
    by (simp add: save_calibration_point_def st Let_def) (simp add: aux_def)
  ultimately show ?thesis using assms by (simp add: aux_def)
qed

lemma u8_less_6: "(x :: u8) < 6 \<longleftrightarrow> x \<in> {0, 1, 2, 3, 4, 5}"
proof -
  have "x \<in> {0, 1, 2, 3, 4, 5}" if "x < 6"
  proof -
    from that have "unat x < 6" by (simp add: word_less_nat_alt)
    then have "unat x \<in> {0, 1, 2, 3, 4, 5}" by auto
    then show ?thesis by (auto simp: word_unat_eq_iff)
  qed
  then show ?thesis by auto
qed

lemma positions_in_range:
  assumes "(x :: u8) < 6"
  shows "15 \<le> fold_position (x + 1)" "fold_position (x + 1) \<le> 95"
    "15 \<le> unfold_position (x + 1)" "unfold_position (x + 1) \<le> 95"
  using assms unfolding u8_less_6
  by (auto simp: fold_position_def unfold_position_def)

lemma aux_inv_display:
  assumes "aux_inv (aux a)" "step_in_table (foldSeq a)"
  shows "aux_inv (aux (update_display_values now a))"
proof -
  have s: "aux_inv (aux (update_fold_step x))" if "aux_inv (aux x)" "foldSeq x = foldSeq a" for x
    using that assms(2) positions_in_range [of "currentStep (foldSeq a)"]
    by (auto simp: update_fold_step_def Let_def fold_sequence_get_active_action_def step_in_table_def aux_def send_def)
  have f: "foldSeq (expire_calibration_status now a) = foldSeq a" "foldSeq (send c b) = foldSeq b" for c b
    by (simp_all add: expire_calibration_status_def send_def)
  show ?thesis
    by (simp add: update_display_values_def Let_def) (intro s; simp add: assms f)
qed


lemma softkey_aux [simp]: "aux (handle_softkey_event k oid a) = aux a"
  by (simp add: handle_softkey_event_def)

lemma aux_inv_fan:
  "aux_inv (aux a) \<Longrightarrow> fan_inv f \<Longrightarrow> aux_inv (markerModel a, calPosition a, calibrationPoints a, f)"
  by (simp add: aux_def)

lemma aux_inv_fan_buttons:
  assumes "aux_inv (aux a)"
  shows "aux_inv (aux (fan_target_button fan_vac_fan_speed_up a))"
    "aux_inv (aux (fan_target_button fan_vac_fan_speed_down a))"
    "aux_inv (aux (vac_target_button fan_vac_vac_pressure_up a))"
    "aux_inv (aux (vac_target_button fan_vac_vac_pressure_down a))"
    "aux_inv (aux (request_fan_power r a))" "aux_inv (aux (request_vac_power r a))"
proof -
  have "fan_inv (fanVac a)" using assms by (simp add: aux_def)
  then show "aux_inv (aux (fan_target_button fan_vac_fan_speed_up a))"
    "aux_inv (aux (fan_target_button fan_vac_fan_speed_down a))"
    "aux_inv (aux (vac_target_button fan_vac_vac_pressure_up a))"
    "aux_inv (aux (vac_target_button fan_vac_vac_pressure_down a))"
    "aux_inv (aux (request_fan_power r a))" "aux_inv (aux (request_vac_power r a))"
    by (simp_all add: aux_fan_target aux_fan_power aux_inv_fan [OF assms] fan_inv_buttons fan_inv_power
        del: aux_inv.simps)
qed

lemma button_aux: "aux_inv (aux a) \<Longrightarrow> aux_inv (aux (handle_button_event api now k oid a))"
  by (simp add: handle_button_event_def handle_fold_action_button_def handle_unfold_action_button_def
      aux_inv_fan_buttons aux_inv_marker_side aux_inv_marker_auto aux_inv_save)

lemma pulse_aux: "aux_inv (aux a) \<Longrightarrow> aux_inv (aux (a\<lparr>fanVac := fan_rpm_isr (fanVac a)\<rparr>))"
  by (auto simp: aux_def fan_inv_isr)

lemma main_loop_aux:
  assumes "main_loop_iteration rnd i a = Some a'" "aux_inv (aux a)" "hyd_inv (hyd a)"
  shows "aux_inv (aux a')"
proof -
  from assms(1) obtain f p where f: "fan_vac_update rnd (tickMs i) (millivolts i) (fanVac a) = Some f"
    and a': "a' = (update_display_values (timeUs i) (update_lockout_feedback
             (update_interlock ((loop_sync i a)\<lparr>fanVac := f\<rparr>))))\<lparr>plant := p\<rparr>"
    by (rule main_loop_cases)
  let ?s = "(loop_sync i a)\<lparr>fanVac := f\<rparr>"
  have "aux (loop_sync i a) = aux a" by (simp add: loop_sync_def)
  then have "aux_inv (aux ?s)"
    using assms(2) fan_inv_update [OF f] by (simp add: aux_def)
  then have 1: "aux_inv (aux (update_lockout_feedback (update_interlock ?s)))" by simp
  have "hyd_inv (hyd (update_interlock ?s))"
    using interlock_inv [of ?s] assms(3) by simp
  then have "step_in_table (foldSeq (update_lockout_feedback (update_interlock ?s)))"
    using hyd_lockout [of "update_interlock ?s"] by (simp add: hyd_def)
  with 1 show ?thesis by (simp add: a' aux_inv_display)
qed

definition app_inv :: "'n app \<Rightarrow> bool" where
  "app_inv a \<longleftrightarrow> hyd_inv (hyd a) \<and> aux_inv (aux a)"

lemma app_step_inv: "app_step api rnd ev a a' \<Longrightarrow> app_inv a \<Longrightarrow> app_inv a'"
  using app_step_hyd [of api rnd ev a a']
  by (auto simp: app_inv_def elim!: app_step_cases intro: button_aux main_loop_aux pulse_aux)

lemma app_reaches_inv: "app_reaches api rnd a0 a \<Longrightarrow> app_inv a0 \<Longrightarrow> app_inv a"
  by (induction rule: app_reaches.induct) (simp_all add: app_step_inv)

definition boot_board :: "board \<Rightarrow> bool" where
  "boot_board b \<longleftrightarrow> outputBusMutex b \<noteq> MutexHeld \<and> \<not> self_deadlock b"

lemma app_main_inv:
  assumes "boot_board b"
  shows "app_inv (app_main api op (app_boot rnd b vtr n))"
proof -
  have "fan_inv (fan_vac_start (fan_vac_init (fan_vac_boot rnd)))" by (intro fan_inv_start fan_init_inv)
  moreover have "points_ok default_points" by (simp add: points_ok_def default_points_def)
  ultimately have "aux_inv (aux (app_main api op (app_boot rnd b vtr n)))"
    using load_points_ok [of "nvs_get api n"]
    by (simp add: app_main_def initialize_calibration_storage_def app_boot_def aux_def marker_init_def
        Let_def split: prod.splits)
  then show ?thesis using assms by (simp add: app_inv_def boot_board_def app_main_hyd)
qed


section \<open>The colours on the screen\<close>

text \<open>The last background colour a list of commands gave to an object.\<close>

fun paint :: "u16 \<Rightarrow> vt_cmd \<Rightarrow> u8 option \<Rightarrow> u8 option" where
  "paint b (ChangeBackgroundColour x k) r = (if x = b then Some k else r)"
| "paint b _ r = r"

definition shown_bg :: "vt_cmd list \<Rightarrow> u16 \<Rightarrow> u8 option" where
  "shown_bg l b = fold (paint b) l None"

definition action_button :: "ActionGroup \<Rightarrow> u8 \<Rightarrow> u16" where
  "action_button g i = visual_button (action_visual g i)"

definition style_bg :: "ActionSelection \<Rightarrow> ActionGroup \<Rightarrow> u8 \<Rightarrow> u8" where
  "style_bg sel g i = background (colours_for (selection_style sel g i))"

definition screen_ok :: "vt_cmd list \<Rightarrow> ActionSelection \<Rightarrow> bool" where
  "screen_ok l sel \<longleftrightarrow> (\<forall>i g. (i, g) \<in> set action_buttons \<longrightarrow>
     shown_bg l (action_button g i) = None \<or> shown_bg l (action_button g i) = Some (style_bg sel g i))"

lemma shown_bg_append [simp]: "shown_bg (l @ l2) b = fold (paint b) l2 (shown_bg l b)"
  by (simp add: shown_bg_def)

lemma action_buttons_eval:
  "action_buttons = [(1, Unfold), (1, Fold), (2, Unfold), (2, Fold), (3, Unfold), (3, Fold),
     (4, Unfold), (4, Fold), (5, Unfold), (5, Fold), (6, Unfold), (6, Fold)]"
  by code_simp

lemma action_button_ids:
  assumes "(i, g) \<in> set action_buttons"
  shows "action_button g i \<in> {6010, 6011, 6012, 6013, 6014, 6015, 6020, 6021, 6022, 6023, 6024, 6025}"
    "visual_label (action_visual g i) \<notin> {6010, 6011, 6012, 6013, 6014, 6015, 6020, 6021, 6022, 6023, 6024, 6025}"
  using assms unfolding action_buttons_eval
  by (auto simp: action_button_def UNFOLD_BTN_IDS_def FOLD_BTN_IDS_def UNFOLD_STR_IDS_def FOLD_STR_IDS_def)

lemma action_button_inj:
  "(i, g) \<in> set action_buttons \<Longrightarrow> (j, h) \<in> set action_buttons \<Longrightarrow>
   action_button g i = action_button h j \<longleftrightarrow> i = j \<and> g = h"
  unfolding action_buttons_eval
  by (auto simp: action_button_def UNFOLD_BTN_IDS_def FOLD_BTN_IDS_def)

lemma shown_apply_style:
  "shown_bg (vt_log (apply_button_style v st a)) b =
     (if b = visual_button v \<or> b = visual_label v then Some (background (colours_for st)) else shown_bg (vt_log a) b)"
  by (auto simp: apply_button_style_def send_change_attribute_def send_def Let_def)

lemma shown_apply_action:
  assumes "(i, g) \<in> set action_buttons" "(j, h) \<in> set action_buttons"
  shows "shown_bg (vt_log (apply_button_style (action_visual g i) st a)) (action_button h j) =
     (if i = j \<and> g = h then Some (background (colours_for st)) else shown_bg (vt_log a) (action_button h j))"
proof -
  have "action_button h j \<noteq> visual_label (action_visual g i)"
    using action_button_ids(1) [OF assms(2)] action_button_ids(2) [OF assms(1)] by metis
  then show ?thesis
    using action_button_inj [OF assms] by (auto simp: shown_apply_style action_button_def)
qed

lemma shown_other [simp]:
  assumes "(j, h) \<in> set action_buttons"
  shows "shown_bg (vt_log (sync_power_buttons a)) (action_button h j) = shown_bg (vt_log a) (action_button h j)"
    "shown_bg (vt_log (sync_marker_buttons a)) (action_button h j) = shown_bg (vt_log a) (action_button h j)"
    "shown_bg (vt_log (sync_headland_button a)) (action_button h j) = shown_bg (vt_log a) (action_button h j)"
  using action_button_ids(1) [OF assms]
  by (auto simp: sync_power_buttons_def sync_marker_buttons_def sync_headland_button_def Let_def send_def
      shown_apply_style VAC_ON_VISUAL_def VAC_OFF_VISUAL_def FAN_ON_VISUAL_def FAN_OFF_VISUAL_def
      MARKER_LEFT_VISUAL_def MARKER_RIGHT_VISUAL_def MARKER_AUTO_VISUAL_def HEADLAND_VISUAL_def)

lemma shown_action_changes:
  assumes "(j, h) \<in> set action_buttons"
  shows "shown_bg (vt_log (apply_action_changes p q a)) (action_button h j) =
    (if selection_style p h j \<noteq> selection_style q h j then Some (style_bg q h j)
     else shown_bg (vt_log a) (action_button h j))"
proof -
  have "set xs \<subseteq> set action_buttons \<Longrightarrow>
    shown_bg (vt_log (fold (\<lambda>(index, grp) s.
        if selection_style p grp index \<noteq> selection_style q grp index
        then apply_button_style (action_visual grp index) (selection_style q grp index) s else s) xs x)) (action_button h j)
    = (if (j, h) \<in> set xs \<and> selection_style p h j \<noteq> selection_style q h j then Some (style_bg q h j)
       else shown_bg (vt_log x) (action_button h j))" for xs x
  proof (induction xs arbitrary: x)
    case (Cons y xs)
    obtain i g where y: "y = (i, g)" by fastforce
    with Cons.prems have "(i, g) \<in> set action_buttons" by simp
    then show ?case using Cons assms by (auto simp: y shown_apply_action style_bg_def)
  qed simp
  from this [of action_buttons a] assms show ?thesis by (simp add: apply_action_changes_def)
qed

lemma shown_sync_action:
  assumes "(j, h) \<in> set action_buttons"
  shows "shown_bg (vt_log (sync_action_buttons g a)) (action_button h j) =
    (if g = h then Some (style_bg (actionSelection a) h j) else shown_bg (vt_log a) (action_button h j))"
proof -
  have map_upt: "map (\<lambda>i. (of_nat i :: u8)) [1..<7] = [1, 2, 3, 4, 5, 6]" by code_simp
  have styles: "selection_styles sel g ! (k - 1) = selection_style sel g (of_nat k)"
    if "k \<in> set [1..<7]" for sel k
    using that by (auto simp: selection_styles_def nth_append simp del: upt_Suc upt_conv_Cons)
  have "set xs \<subseteq> set [1..<7] \<Longrightarrow>
    shown_bg (vt_log (fold (\<lambda>index s. apply_button_style (action_visual g (of_nat index))
        (selection_styles (actionSelection a) g ! (index - 1)) s) xs x)) (action_button h j)
    = (if g = h \<and> j \<in> of_nat ` set xs then Some (style_bg (actionSelection a) h j)
       else shown_bg (vt_log x) (action_button h j))" for xs x
  proof (induction xs arbitrary: x)
    case (Cons k xs)
    then have k: "k \<in> set [1..<7]" by simp
    then have "(of_nat k, g) \<in> set action_buttons"
      by (cases g) (auto simp: action_buttons_def)
    then show ?case using Cons assms
      by (auto simp: shown_apply_action styles [OF k] style_bg_def simp del: One_nat_def)
  qed simp
  note this [of "[1..<7]" a]
  moreover have "j \<in> of_nat ` set [1..<7]"
    using assms unfolding action_buttons_def by auto
  ultimately show ?thesis by (simp add: sync_action_buttons_def Let_def)
qed


definition scr_inv :: "'n app \<Rightarrow> bool" where
  "scr_inv a \<longleftrightarrow> screen_ok (vt_log a) (actionSelection a)"

fun is_paint :: "vt_cmd \<Rightarrow> bool" where
  "is_paint (ChangeBackgroundColour _ _) = True"
| "is_paint _ = False"

lemma paint_other [simp]: "\<not> is_paint c \<Longrightarrow> paint b c r = r"
  by (cases c) simp_all

lemma scr_send [simp]: "\<not> is_paint c \<Longrightarrow> scr_inv (send c a) = scr_inv a"
  by (simp add: scr_inv_def send_def screen_ok_def)

lemma scr_invD: "scr_inv a \<Longrightarrow> (i, g) \<in> set action_buttons \<Longrightarrow>
   shown_bg (vt_log a) (action_button g i) = None
   \<or> shown_bg (vt_log a) (action_button g i) = Some (background (colours_for (selection_style (actionSelection a) g i)))"
  unfolding scr_inv_def screen_ok_def style_bg_def by blast

lemma scr_updates [simp]:
  "scr_inv (a\<lparr>fanVac := f\<rparr>) = scr_inv a" "scr_inv (a\<lparr>plant := p\<rparr>) = scr_inv a"
  "scr_inv (a\<lparr>wasVtConnected := w\<rparr>) = scr_inv a" "scr_inv (a\<lparr>nvs := nv\<rparr>) = scr_inv a"
  "scr_inv (a\<lparr>bulkFillHeadland := bf\<rparr>) = scr_inv a" "scr_inv (a\<lparr>calStatusClearAtUs := t\<rparr>) = scr_inv a"
  "scr_inv (a\<lparr>currentScreen := sc\<rparr>) = scr_inv a" "scr_inv (a\<lparr>hydraulicActuationInhibited := h\<rparr>) = scr_inv a"
  "scr_inv (a\<lparr>foldSeq := fs\<rparr>) = scr_inv a" "scr_inv (a\<lparr>outputs := b\<rparr>) = scr_inv a"
  "scr_inv (a\<lparr>markerModel := m\<rparr>) = scr_inv a" "scr_inv (a\<lparr>calPosition := cp\<rparr>) = scr_inv a"
  "scr_inv (a\<lparr>calibrationPoints := pts\<rparr>) = scr_inv a" "scr_inv (a\<lparr>lockoutFeedback := l\<rparr>) = scr_inv a"
  by (simp_all add: scr_inv_def)

lemma sel_display [simp]:
  "actionSelection (sync_action_buttons g a) = actionSelection a"
  "actionSelection (sync_power_buttons a) = actionSelection a"
  "actionSelection (sync_marker_buttons a) = actionSelection a"
  "actionSelection (sync_headland_button a) = actionSelection a"
  "actionSelection (apply_action_changes p q a) = actionSelection a"
  by (rule core_eq_fields(4), simp)+

lemma scr_sync [simp]:
  "scr_inv (sync_power_buttons a) = scr_inv a" "scr_inv (sync_marker_buttons a) = scr_inv a"
  "scr_inv (sync_headland_button a) = scr_inv a"
  by (auto simp: scr_inv_def screen_ok_def)

lemma scr_sync_action: "scr_inv a \<Longrightarrow> scr_inv (sync_action_buttons g a)"
  by (auto simp: scr_inv_def screen_ok_def shown_sync_action)

lemma scr_sync_screen: "scr_inv a \<Longrightarrow> scr_inv (sync_screen_buttons sc a)"
  by (cases sc) (simp_all add: scr_sync_action)

lemma scr_sync_all: "scr_inv a \<Longrightarrow> scr_inv (sync_all_buttons a)"
  by (simp add: sync_all_buttons_def scr_sync_action)

lemma scr_mask: "scr_inv a \<Longrightarrow> scr_inv (handle_active_mask_event m a)"
  by (simp add: handle_active_mask_event_def scr_sync_action)

lemma shown_sync_all:
  assumes "(j, h) \<in> set action_buttons"
  shows "shown_bg (vt_log (sync_all_buttons a)) (action_button h j) = Some (style_bg (actionSelection a) h j)"
  using assms by (cases h) (simp_all add: sync_all_buttons_def shown_sync_action)

lemma scr_reset:
  assumes "scr_inv a" shows "scr_inv (reset_action_buttons a)"
proof -
  have "shown_bg (vt_log (reset_action_buttons a)) (action_button g i) = None \<or>
      shown_bg (vt_log (reset_action_buttons a)) (action_button g i)
        = Some (style_bg (selection_clear (actionSelection a)) g i)"
    if "(i, g) \<in> set action_buttons" for i g
    using scr_invD [OF assms that] that
    by (auto simp: reset_action_buttons_def Let_def shown_action_changes style_bg_def)
  then show ?thesis by (simp add: scr_inv_def screen_ok_def reset_action_buttons_def Let_def)
qed

lemma other_group_style:
  assumes "\<not> is_action_group_active (other_group g) a" "h \<noteq> g" "1 \<le> i" "i \<le> ACTION_COUNT"
  shows "selection_style (actionSelection a) h j = Inactive"
    "selection_style (snd (selection_press g i (actionSelection a))) h j = Inactive"
proof -
  have h: "h = other_group g" using assms(2) by (cases g; cases h) simp_all
  have "selected (actionSelection a) \<noteq> Some (h, j)"
    using assms(1) by (auto simp: is_action_group_active_def selected_def h split: if_splits)
  then show "selection_style (actionSelection a) h j = Inactive"
    by (simp add: selection_style_def is_lit_selected)
  show "selection_style (snd (selection_press g i (actionSelection a))) h j = Inactive"
    using assms(2) selected_press [OF assms(3,4)] by (auto simp: selection_style_def is_lit_selected)
qed

lemma scr_press:
  assumes "scr_inv a" "\<not> is_action_group_active (other_group g) a" "1 \<le> i" "i \<le> ACTION_COUNT"
  shows "scr_inv (press_action_visual g i a)"
proof -
  have "shown_bg (vt_log (press_action_visual g i a)) (action_button h j) = None \<or>
      shown_bg (vt_log (press_action_visual g i a)) (action_button h j)
        = Some (style_bg (snd (selection_press g i (actionSelection a))) h j)"
    if b: "(j, h) \<in> set action_buttons" for h j
  proof (cases "h = g")
    case False
    then show ?thesis
      using scr_invD [OF assms(1) b] b other_group_style [OF assms(2) False assms(3,4)]
      by (auto simp: press_action_visual_def shown_sync_action style_bg_def)
  qed (use b in \<open>simp add: press_action_visual_def shown_sync_action\<close>)
  moreover have "actionSelection (press_action_visual g i a) = snd (selection_press g i (actionSelection a))"
    by (simp add: press_action_visual_def)
  ultimately show ?thesis by (auto simp: scr_inv_def screen_ok_def)
qed

lemma scr_lockout [simp]:
  "scr_inv (send_lockout_text g r a) = scr_inv a" "scr_inv (restore_lockout_text g a) = scr_inv a"
  by (simp_all add: send_lockout_text_def restore_lockout_text_def)

lemma scr_blocked [simp]:
  "scr_inv (show_blocked_press g a) = scr_inv a" "scr_inv (update_lockout_feedback a) = scr_inv a"
  by (simp_all add: show_blocked_press_def update_lockout_feedback_def Let_def split: prod.splits)

lemma scr_cancel: "app_cancel a = (e, a') \<Longrightarrow> scr_inv a' = scr_inv a \<and> actionSelection a' = actionSelection a"
  by (auto simp: app_cancel_def split: prod.splits)

lemma scr_activate: "app_activate g i a = (e, a') \<Longrightarrow> scr_inv a' = scr_inv a \<and> actionSelection a' = actionSelection a"
  by (auto simp: app_activate_def split: prod.splits)

lemma scr_press_free:
  assumes "scr_inv a" "\<not> is_action_group_active (other_group g) a" "1 \<le> i" "i \<le> ACTION_COUNT"
  shows "scr_inv (press_free_action g i a)"
proof -
  have "scr_inv (press_action_visual g i a1)" if "scr_inv a1 = scr_inv a \<and> actionSelection a1 = actionSelection a" for a1
    using that assms by (intro scr_press) (simp_all add: is_action_group_active_def)
  then show ?thesis using assms(1)
    by (auto simp: press_free_action_def stop_action_def start_action_def Let_def
        dest: scr_cancel scr_activate split: prod.splits)
qed

lemma scr_action_button:
  assumes "scr_inv a" shows "scr_inv (handle_action_button g i a)"
proof -
  have "scr_inv (press_free_action g i a1)"
    if "app_cancel (reset_action_buttons a) = (e, a1)" "\<not> (i < 1 \<or> i > 6)" for e a1
  proof -
    have "actionSelection (reset_action_buttons a) = selection_clear (actionSelection a)"
      using hyd_reset [of a] by (simp add: hyd_def)
    then have "\<not> is_action_group_active (other_group g) a1"
      using scr_cancel [OF that(1)] by (simp add: is_action_group_active_def selection_clear_def)
    moreover have "1 \<le> i" "i \<le> 6" using that(2) by (metis linorder_not_less)+
    ultimately show ?thesis
      using scr_cancel [OF that(1)] scr_reset [OF assms] by (intro scr_press_free) simp_all
  qed
  moreover have "scr_inv (press_free_action g i a)" if "\<not> is_action_group_active (other_group g) a" "\<not> (i < 1 \<or> i > 6)"
  proof -
    have "1 \<le> i" "i \<le> 6" using that(2) by (metis linorder_not_less)+
    with assms that show ?thesis by (intro scr_press_free)
  qed
  ultimately show ?thesis using assms scr_reset [OF assms]
    by (auto simp: handle_action_button_def split: prod.splits dest: scr_cancel)
qed


lemma scr_show_screen: "scr_inv a \<Longrightarrow> scr_inv (show_screen sc a)"
  by (cases "app_cancel a") (auto simp: show_screen_def Let_def intro!: scr_sync_screen scr_reset dest: scr_cancel)

lemma scr_plant [simp]: "scr_inv (plant_button setter a) = scr_inv a"
  by (simp add: plant_button_def Let_def split: prod.splits)

lemma scr_fan [simp]:
  "scr_inv (fan_target_button fn a) = scr_inv a" "scr_inv (vac_target_button fn a) = scr_inv a"
  "scr_inv (request_fan_power r a) = scr_inv a" "scr_inv (request_vac_power r a) = scr_inv a"
  "scr_inv (handle_marker_auto_button a) = scr_inv a"
  by (simp_all add: fan_target_button_def vac_target_button_def request_fan_power_def request_vac_power_def
      handle_marker_auto_button_def Let_def)

lemma scr_marker_side [simp]: "scr_inv (handle_marker_side_button l a) = scr_inv a"
  by (simp add: handle_marker_side_button_def Let_def split: prod.splits)

lemma scr_calibration [simp]:
  "scr_inv (set_calibration_status m tr now a) = scr_inv a"
  "scr_inv (save_calibration_point api now pt oid v a) = scr_inv a"
  "scr_inv (toggle_bulk_fill_headland api now a) = scr_inv a"
  by (simp_all add: set_calibration_status_def save_calibration_point_def toggle_bulk_fill_headland_def Let_def
      split: prod.splits)

lemma scr_button: "scr_inv a \<Longrightarrow> scr_inv (handle_button_event api now k oid a)"
  by (simp add: handle_button_event_def handle_fold_action_button_def handle_unfold_action_button_def
      scr_show_screen scr_action_button)

lemma scr_softkey: "scr_inv a \<Longrightarrow> scr_inv (handle_softkey_event k oid a)"
  by (simp add: handle_softkey_event_def scr_show_screen)

lemma scr_interlock: "scr_inv a \<Longrightarrow> scr_inv (update_interlock a)"
  by (cases "app_cancel (a\<lparr>hydraulicActuationInhibited := True\<rparr>)")
    (auto simp: update_interlock_def Let_def dest!: scr_cancel intro!: scr_reset)

lemma scr_display [simp]: "scr_inv (update_display_values now a) = scr_inv a"
  by (simp add: update_display_values_def update_fold_step_def expire_calibration_status_def Let_def)

lemma scr_main_loop:
  assumes "main_loop_iteration rnd i a = Some a'" "scr_inv a"
  shows "scr_inv a'"
proof -
  from assms(1) obtain f p where a': "a' = (update_display_values (timeUs i) (update_lockout_feedback
             (update_interlock ((loop_sync i a)\<lparr>fanVac := f\<rparr>))))\<lparr>plant := p\<rparr>"
    by (rule main_loop_cases)
  have "scr_inv (loop_sync i a)" using assms(2) by (simp add: loop_sync_def scr_sync_all)
  then show ?thesis by (simp add: a' scr_interlock)
qed

lemma app_step_scr: "app_step api rnd ev a a' \<Longrightarrow> scr_inv a \<Longrightarrow> scr_inv a'"
  by (erule app_step_cases) (simp_all add: scr_softkey scr_button scr_mask scr_main_loop)

lemma app_reaches_scr: "app_reaches api rnd a0 a \<Longrightarrow> scr_inv a0 \<Longrightarrow> scr_inv a"
  by (induction rule: app_reaches.induct) (simp_all add: app_step_scr)

lemma app_main_scr: "scr_inv (app_main api op (app_boot rnd b vtr n))"
  by (simp add: app_main_def initialize_calibration_storage_def app_boot_def scr_inv_def screen_ok_def shown_bg_def
      Let_def split: prod.splits)


lemma currentScreen_sync [simp]: "currentScreen (sync_screen_buttons sc a) = currentScreen a"
  by (rule core_eq_fields(1)) simp

lemma blocked_fields [simp]:
  "outputs (show_blocked_press g a) = outputs a" "foldSeq (show_blocked_press g a) = foldSeq a"
  "actionSelection (show_blocked_press g a) = actionSelection a" "plant (show_blocked_press g a) = plant a"
  "fanVac (show_blocked_press g a) = fanVac a" "calibrationPoints (show_blocked_press g a) = calibrationPoints a"
  "hydraulicActuationInhibited (show_blocked_press g a) = hydraulicActuationInhibited a"
  by (simp_all add: show_blocked_press_def Let_def send_lockout_text_def send_def split: prod.splits)

lemma plant_keys:
  "handle_button_event api now ButtonUnlatchedOrReleased Button_PlantLimitedLift a
     = plant_button (set_plant_mode LIMITED_LIFT (mode_states LIMITED_LIFT)) a"
  "handle_button_event api now ButtonUnlatchedOrReleased Button_PlantFullLift a
     = plant_button (set_plant_mode FULL_LIFT (mode_states FULL_LIFT)) a"
  "handle_button_event api now ButtonUnlatchedOrReleased Button_PlantLower a
     = plant_button (set_plant_mode LOWERED (mode_states LOWERED)) a"
  by (simp_all add: handle_button_event_def plant_control_set_limited_lift_def
        plant_control_set_full_lift_def plant_control_set_lowered_def)

section \<open>Properties\<close>

text \<open>A concrete storage, and the application started on a working board.\<close>

definition demo_api :: "(string \<Rightarrow> u8 option) nvs_api" where
  "demo_api = \<lparr>nvs_get = (\<lambda>s. s), nvs_put = (\<lambda>k v s. (True, s(k \<mapsto> v))), nvs_commit = (\<lambda>s. (True, s))\<rparr>"

abbreviation (input) demo_start :: "(nat \<Rightarrow> idf_reply) \<Rightarrow> (string \<Rightarrow> u8 option) app" where
  "demo_start rs \<equiv> app_main demo_api True (app_boot float_round (fresh_board rs) (\<lambda>_. True) (\<lambda>_. None))"

lemma boot_fresh: "boot_board (fresh_board rs)"
  by (simp add: boot_board_def fresh_board_def)

lemma demo_reaches_press:
  "app_reaches demo_api float_round (demo_start rs) (handle_button_event demo_api 0 ButtonUnlatchedOrReleased oid (demo_start rs))"
  by (rule app_reaches.step [OF app_reaches.start app_step.button])

text \<open>C1: In every state the application reaches from start-up, by any interleaving of operator
  events and main-loop iterations and whatever the I2C bus answers: unless a fault of the output
  board is latched, the lit action button is exactly the action the sequencer drives and the
  eighteen solenoids are exactly one row of the plant, fold and unfold tables, never a mixture;
  while actuation is inhibited no button is lit and the sequencer is idle; the table row read is
  always inside the table, and the bus lock is always released.\<close>

theorem reachable_hydraulics:
  assumes "app_reaches api rnd (app_main api opened (app_boot rnd b vtr n)) a" "boot_board b"
  shows "(\<not> faulted (outputs a) \<longrightarrow> selected (actionSelection a) = driven_action (foldSeq a)
            \<and> (\<exists>row \<in> set solenoid_rows. \<forall>k < 18. solenoid_on (outputs a) k = row ! k))
    \<and> (hydraulicActuationInhibited a \<longrightarrow>
         selected (actionSelection a) = None \<and> driven_action (foldSeq a) = None)
    \<and> currentStep (foldSeq a) < FOLD_STEPS \<and> lock_free (outputs a)"
  using app_reaches_inv [OF assms(1) app_main_inv [OF assms(2)]]
  by (simp add: app_inv_def hyd_def drives_row_def step_in_table_def)

theorem reachable_hydraulics_witness:
  "lock_free (outputs (handle_button_event demo_api 0 ButtonUnlatchedOrReleased Button_PlantFullLift (demo_start (\<lambda>_. good_reply))))"
  using reachable_hydraulics [OF demo_reaches_press boot_fresh] by blast

text \<open>C38: A press on an action button while actuation is inhibited (before the first main-loop
  iteration, or after a fault) does not touch the outputs, the sequencer, the selection, the plant
  mode, the fan or the calibration; with a latched fault the lockout message appears on the
  button's screen.\<close>

theorem inhibited_press_inert:
  assumes "hydraulic_actuation_inhibited a"
    and "(handler, g) \<in> {(handle_unfold_action_button i, Unfold), (handle_fold_action_button i, Fold)}"
  shows "outputs (handler a) = outputs a \<and> foldSeq (handler a) = foldSeq a
    \<and> actionSelection (handler a) = actionSelection a \<and> plant (handler a) = plant a
    \<and> fanVac (handler a) = fanVac a \<and> calibrationPoints (handler a) = calibrationPoints a
    \<and> hydraulicActuationInhibited (handler a) = hydraulicActuationInhibited a
    \<and> (1 \<le> i \<and> i \<le> 6 \<and> faulted (outputs a) \<longrightarrow>
         ChangeStringValue (instruction_id g) ''LOCKED: OUTPUT BOARD MISSING'' \<in> set (vt_log (handler a))
         \<and> lockout_shown (lockoutFeedback (handler a)) g)"
proof -
  have h: "handler a = (if i < 1 \<or> i > 6 then a else show_blocked_press g a)"
    using assms by (auto simp: handle_unfold_action_button_def handle_fold_action_button_def handle_action_button_def)
  have m: "ChangeStringValue (instruction_id g) ''LOCKED: OUTPUT BOARD MISSING'' \<in> set (vt_log (show_blocked_press g a))
      \<and> lockout_shown (lockoutFeedback (show_blocked_press g a)) g" if "faulted (outputs a)"
    using that
    by (simp add: show_blocked_press_def on_blocked_press_def classify_inhibit_def has_fault_def
        send_lockout_text_def send_def lockout_shown_def split: ActionGroup.splits)
  have r: "1 \<le> i \<Longrightarrow> i \<le> 6 \<Longrightarrow> \<not> (i < 1 \<or> i > 6)" by (metis linorder_not_less)
  show ?thesis using m r by (simp add: h)
qed

theorem inhibited_press_inert_witness:
  "outputs (handle_fold_action_button 2 (demo_start (\<lambda>_. good_reply))) = outputs (demo_start (\<lambda>_. good_reply))"
proof -
  have "hydraulic_actuation_inhibited (demo_start (\<lambda>_. good_reply))"
    by (simp add: hydraulic_actuation_inhibited_def app_main_def initialize_calibration_storage_def app_boot_def
        Let_def split: prod.splits)
  from inhibited_press_inert [OF this, of "handle_fold_action_button 2" Fold 2] show ?thesis by simp
qed

theorem screen_change_stops:
  assumes "lock_free (outputs a)"
    and "a' = handle_softkey_event ButtonUnlatchedOrReleased key a
           \<and> (key, sc) \<in> {(SoftKey_Run, SCREEN_RUN), (SoftKey_Unfold, SCREEN_UNFOLD),
                (SoftKey_Fold, SCREEN_FOLD), (SoftKey_Cal, SCREEN_CAL)}
       \<or> a' = handle_button_event api now ButtonUnlatchedOrReleased key a
           \<and> (key, sc) \<in> {(Button_TabRun, SCREEN_RUN), (Button_TabUnfold, SCREEN_UNFOLD),
                (Button_TabFold, SCREEN_FOLD), (Button_TabCal, SCREEN_CAL)}"
  shows "currentScreen a' = sc \<and> selected (actionSelection a') = None \<and> driven_action (foldSeq a') = None
    \<and> (faulted (outputs a') \<or> (\<forall>n. \<not> solenoid_on (outputs a') n))"
proof -
  have a': "a' = show_screen sc a"
    using assms(2) by (auto simp: handle_softkey_event_def handle_button_event_def)
  obtain e a1 where c: "app_cancel a = (e, a1)" by fastforce
  note k = hyd_inv_cancel [OF c assms(1)]
  have "hyd (show_screen sc a) = hyd (reset_action_buttons a1)"
    by (simp add: show_screen_def c Let_def) (simp add: hyd_def send_def)
  moreover have "currentScreen (show_screen sc a) = sc"
    by (simp add: show_screen_def Let_def)
  ultimately show ?thesis using k by (auto simp: hyd_reset a') (auto simp: hyd_def)
qed

text \<open>The application on a working board with the second fold action lit.\<close>

definition lit_app :: "(string \<Rightarrow> u8 option) app" where
  "lit_app = handle_fold_action_button 2
     ((app_boot float_round ready_board (\<lambda>_. True) (\<lambda>_. None))\<lparr>hydraulicActuationInhibited := False\<rparr>)"

lemma lit_app_state:
  "lock_free (outputs lit_app)" "is_action_lit Fold 2 lit_app" "solenoid_on (outputs lit_app) 8"
  "\<not> faulted (outputs lit_app)" "plant lit_app = plant_status_init" "driven_action (foldSeq lit_app) = Some (Fold, 2)"
  "outputs lit_app = snd (snd (fold_sequence_activate_fold_action 2 fold_vars_init ready_board))"
proof -
  let ?a = "(app_boot float_round ready_board (\<lambda>_. True) (\<lambda>_. None))\<lparr>hydraulicActuationInhibited := False\<rparr> :: (string \<Rightarrow> u8 option) app"
  have ok: "fst (fold_sequence_activate_fold_action 2 fold_vars_init ready_board) = ESP_OK"
    "solenoid_on (snd (snd (fold_sequence_activate_fold_action 2 fold_vars_init ready_board))) 8"
    by code_simp+
  then obtain f b where fb: "fold_sequence_activate_fold_action 2 fold_vars_init ready_board = (ESP_OK, f, b)"
    by (metis prod.collapse)
  have act: "app_activate Fold 2 ?a = (ESP_OK, ?a\<lparr>foldSeq := f, outputs := b\<rparr>)"
    by (simp add: app_activate_def app_boot_def fb)
  have lf: "lock_free ready_board" by (simp add: lock_free_def ready_defs)
  have k: "lock_free b" "\<not> faulted b" "driven_action f = Some (Fold, 2)"
    using hyd_inv_activate [OF act] lf
    by (auto simp: app_boot_def step_in_table_def fold_vars_init_def ready_defs)
  have "core lit_app = (core ?a)\<lparr>foldSeq := f, outputs := b, actionSelection := \<lparr>activeGroup = Fold, activeIndex = 2\<rparr>\<rparr>"
    by (simp add: lit_app_def handle_fold_action_button_def handle_action_button_def hydraulic_actuation_inhibited_def
        is_action_group_active_def press_free_action_def is_action_lit_def is_lit_def start_action_def act Let_def press_core)
      (simp add: core_def app_boot_def selection_init_def has_fault_def ready_defs selection_press_def is_lit_def)
  from this [THEN arg_cong, of outputs] this [THEN arg_cong, of foldSeq] this [THEN arg_cong, of actionSelection]
    this [THEN arg_cong, of plant]
  have "outputs lit_app = b" "foldSeq lit_app = f" "actionSelection lit_app = \<lparr>activeGroup = Fold, activeIndex = 2\<rparr>"
    "plant lit_app = plant_status_init"
    by (simp_all add: app_boot_def)
  then show "lock_free (outputs lit_app)" "is_action_lit Fold 2 lit_app" "solenoid_on (outputs lit_app) 8"
    "\<not> faulted (outputs lit_app)" "plant lit_app = plant_status_init" "driven_action (foldSeq lit_app) = Some (Fold, 2)"
    "outputs lit_app = snd (snd (fold_sequence_activate_fold_action 2 fold_vars_init ready_board))"
    using k ok(2) fb by (simp_all add: is_action_lit_def is_lit_def)
qed

theorem screen_change_stops_witness:
  "solenoid_on (outputs lit_app) 8
   \<and> selected (actionSelection (handle_softkey_event ButtonUnlatchedOrReleased SoftKey_Cal lit_app)) = None"
  using screen_change_stops [OF lit_app_state(1), of _ SoftKey_Cal SCREEN_CAL] lit_app_state(3) by simp

text \<open>C20: A main-loop iteration makes the inhibit flag equal to the fault flag of the output
  board; a latched fault is never cleared by it, and after the first iteration that sees a fault no
  action is selected and the sequencer is idle.\<close>

theorem loop_enforces_interlock:
  assumes "app_reaches api rnd (app_main api opened (app_boot rnd b vtr n)) a" "boot_board b"
    and "main_loop_iteration rnd i a = Some a'"
  shows "hydraulicActuationInhibited a' = faulted (outputs a') \<and> (faulted (outputs a) \<longrightarrow> faulted (outputs a'))
    \<and> (faulted (outputs a') \<longrightarrow> selected (actionSelection a') = None \<and> driven_action (foldSeq a') = None)"
proof -
  have inv: "hyd_inv (hyd a)" using app_reaches_inv [OF assms(1) app_main_inv [OF assms(2)]] by (simp add: app_inv_def)
  from assms(3) obtain f p where a': "a' = (update_display_values (timeUs i) (update_lockout_feedback
             (update_interlock ((loop_sync i a)\<lparr>fanVac := f\<rparr>))))\<lparr>plant := p\<rparr>"
    by (rule main_loop_cases)
  let ?s = "(loop_sync i a)\<lparr>fanVac := f\<rparr>"
  have s: "hyd ?s = hyd a" by simp
  have "faulted (outputs ?s) \<longrightarrow> faulted (outputs (update_interlock ?s))"
  proof -
    let ?t = "?s\<lparr>hydraulicActuationInhibited := True\<rparr>"
    obtain e b where c: "app_cancel ?t = (e, b)" by fastforce
    have "lock_free (outputs ?t)" using inv s by (simp add: hyd_def)
    note hyd_inv_cancel [OF c this]
    moreover have "outputs (reset_action_buttons b) = outputs b" using hyd_reset [of b] by (simp add: hyd_def)
    ultimately show ?thesis by (simp add: update_interlock_def Let_def c)
  qed
  moreover have "outputs a' = outputs (update_interlock ?s)"
  proof -
    have "hyd a' = hyd (update_interlock ?s)" by (simp add: a')
    then show ?thesis by (simp add: hyd_def)
  qed
  ultimately have "faulted (outputs a) \<longrightarrow> faulted (outputs a')" using s by (simp add: hyd_def)
  with main_loop_hyd [OF assms(3) inv] show ?thesis by (simp add: hyd_def)
qed

lemma demo_loop: "\<exists>a'. main_loop_iteration float_round \<lparr>vtConnected = True, tickMs = 600, timeUs = 0, millivolts = 1000,
    sBinLevel = True\<rparr> (demo_start rs) = Some a'"
proof -
  have "fanVac (demo_start rs) = fan_vac_start fan_boot"
    by (simp add: app_main_def app_boot_def initialize_calibration_storage_def fan_boot_def Let_def split: prod.splits)
  moreover have "\<exists>f. fan_vac_update float_round 600 1000 (fan_vac_start fan_boot) = Some f"
    by (rule update_some [OF fan_inv_start [OF fan_boot_inv]])
      (simp_all add: word_le_nat_alt fan_boot_def fan_vac_boot_def fan_vac_init_def fan_vac_start_def
        reset_pids_def set_fan_pwm_def set_vac_pwm_def)
  ultimately show ?thesis by (auto simp: main_loop_alt Let_def)
qed

theorem loop_enforces_interlock_witness:
  "\<exists>a'. main_loop_iteration float_round \<lparr>vtConnected = True, tickMs = 600, timeUs = 0, millivolts = 1000,
    sBinLevel = True\<rparr> (demo_start (\<lambda>_. good_reply)) = Some a' \<and> hydraulicActuationInhibited a' = faulted (outputs a')"
proof -
  obtain a' where 1: "main_loop_iteration float_round \<lparr>vtConnected = True, tickMs = 600, timeUs = 0, millivolts = 1000,
    sBinLevel = True\<rparr> (demo_start (\<lambda>_. good_reply)) = Some a'" using demo_loop by blast
  from loop_enforces_interlock [OF app_reaches.start boot_fresh 1] 1 show ?thesis by blast
qed

theorem reachable_settings:
  assumes "app_reaches api rnd (app_main api opened (app_boot rnd b vtr n)) a" "boot_board b"
  shows "points_ok (calibrationPoints a) \<and> 15 \<le> calPosition a \<and> calPosition a \<le> 95
    \<and> fst (store_calibration_point put commit ready pt (calPosition a) (calibrationPoints a) st) \<noteq> InvalidValue
    \<and> \<not> (autoActive (markerModel a) \<and> (leftActive (markerModel a) \<or> rightActive (markerModel a)))
    \<and> FAN_RPM_MIN \<le> fanRPMTarget (fanVac a) \<and> fanRPMTarget (fanVac a) \<le> FAN_RPM_MAX
    \<and> VAC_PRESSURE_MIN \<le> vacPressureTarget (fanVac a) \<and> vacPressureTarget (fanVac a) \<le> VAC_PRESSURE_MAX"
proof -
  have inv: "aux_inv (aux a)" using app_reaches_inv [OF assms(1) app_main_inv [OF assms(2)]] by (simp add: app_inv_def)
  then have "unat (calPosition a) \<le> 95" by (simp add: aux_def word_le_nat_alt)
  then have "(ucast (ucast (calPosition a) :: u8) :: u32) \<le> 100"
    by (simp add: word_le_nat_alt unat_narrow_u8)
  then have "fst (store_calibration_point put commit ready pt (calPosition a) (calibrationPoints a) st) \<noteq> InvalidValue"
    by (auto simp: store_calibration_point_def save_point_def Let_def split: prod.splits)
  then show ?thesis using inv fan_inv_targets [of "fanVac a"] by (auto simp: aux_def)
qed

theorem reachable_settings_witness:
  "fanRPMTarget (fanVac (handle_button_event demo_api 0 ButtonUnlatchedOrReleased Button_FanSpeedUp (demo_start (\<lambda>_. good_reply)))) \<le> FAN_RPM_MAX"
  using reachable_settings [OF demo_reaches_press [of "\<lambda>_. good_reply" Button_FanSpeedUp] boot_fresh,
      of "nvs_put demo_api" "nvs_commit demo_api" True FullRaise "\<lambda>_. None"]
  by blast

theorem plant_button_overrides_action:
  assumes "lock_free (outputs a)" "\<not> faulted (outputs a)"
    and "(key, mode) \<in> {(Button_PlantLimitedLift, LIMITED_LIFT), (Button_PlantFullLift, FULL_LIFT),
           (Button_PlantLower, LOWERED)}"
    and "a' = handle_button_event api now ButtonUnlatchedOrReleased key a" "\<not> faulted (outputs a')"
  shows "actionSelection a' = actionSelection a \<and> foldSeq a' = foldSeq a \<and> currentMode (plant a') = mode
    \<and> (\<forall>k < 18. solenoid_on (outputs a') k = mode_states mode ! k)"
proof -
  have a': "a' = plant_button (set_plant_mode mode (mode_states mode)) a"
    using assms(3) unfolding assms(4)
    by (elim insertE) (simp_all only: plant_keys prod.inject empty_iff)
  obtain e p b where run: "set_plant_mode mode (mode_states mode) (plant a) (outputs a) = (e, p, b)" by (metis prod_cases3)
  have m: "outputBusMutex (outputs a) \<noteq> MutexHeld" using assms(1) by (simp add: lock_free_def)
  note l = set_mode_latches [OF run m]
  have a1: "a' = (if e \<noteq> ESP_OK then show_blocked_press Fold (a\<lparr>plant := p, outputs := b\<rparr>)
      else a\<lparr>plant := p, outputs := b\<rparr>)"
    using assms(2) by (simp add: a' plant_button_def has_fault_def run Let_def)
  then have b: "outputs a' = b" by simp
  then have e: "e = ESP_OK" using l assms(5) by (auto simp: latches_fault_def split: if_splits)
  have "apply_plant_solenoid_states (mode_states mode) (outputs a) = (ESP_OK, b)"
    using run e by (auto simp: set_plant_mode_def split: prod.splits)
  from plant_apply_ok [OF this m] have
    "\<forall>k < 18. solenoid_on b k = mode_states mode ! k"
    using l by (auto simp: latches_fault_def same_wiring_def intro!: solenoid_on_states)
  with e l show ?thesis by (simp add: a1)
qed

theorem plant_button_overrides_action_witness:
  "\<exists>a'. a' = handle_button_event demo_api 0 ButtonUnlatchedOrReleased Button_PlantLower lit_app
     \<and> is_action_lit Fold 2 a' \<and> FOLD_STATES ! 1 ! 8 \<and> \<not> solenoid_on (outputs a') 8"
proof -
  let ?a = "handle_button_event demo_api 0 ButtonUnlatchedOrReleased Button_PlantLower lit_app"
  have "fst (apply_plant_solenoid_states PLANT_LOWERED_STATES
      (snd (snd (fold_sequence_activate_fold_action 2 fold_vars_init ready_board)))) = ESP_OK" by code_simp
  then obtain b where ap: "apply_plant_solenoid_states PLANT_LOWERED_STATES (outputs lit_app) = (ESP_OK, b)"
    unfolding lit_app_state(7) by (metis prod.collapse)
  have "outputBusMutex (outputs lit_app) \<noteq> MutexHeld" using lit_app_state(1) by (simp add: lock_free_def)
  with plant_apply_ok [OF ap] lit_app_state(4) have "\<not> faulted b" by simp
  then have "\<not> faulted (outputs ?a)"
    using lit_app_state(4) ap
    by (simp add: handle_button_event_def plant_button_def has_fault_def plant_control_set_lowered_def
        set_plant_mode_def Let_def)
  with plant_button_overrides_action [OF lit_app_state(1,4), of Button_PlantLower LOWERED ?a demo_api 0]
  have "actionSelection ?a = actionSelection lit_app" "\<not> solenoid_on (outputs ?a) 8"
    by (simp_all add: PLANT_LOWERED_STATES_def)
  with lit_app_state(2) show ?thesis by (simp add: is_action_lit_def FOLD_STATES_def)
qed

theorem screen_shows_selection:
  assumes "app_reaches api rnd (app_main api opened (app_boot rnd b vtr n)) a" "(i, g) \<in> set action_buttons"
  shows "shown_bg (vt_log a) (action_button g i)
      \<in> {None, Some (if is_action_lit g i a then COLOUR_GREEN else COLOUR_SILVER)}
    \<and> shown_bg (vt_log (sync_all_buttons a)) (action_button g i)
      = Some (if is_action_lit g i a then COLOUR_GREEN else COLOUR_SILVER)"
  using scr_invD [OF app_reaches_scr [OF assms(1) app_main_scr] assms(2)] shown_sync_all [OF assms(2), of a]
  by (auto simp: selection_style_def is_action_lit_def style_bg_def)

theorem screen_shows_selection_witness:
  "shown_bg (vt_log (sync_all_buttons (demo_start (\<lambda>_. good_reply)))) (action_button Fold 3) = Some COLOUR_SILVER"
proof -
  have m: "(3, Fold) \<in> set action_buttons" by (simp add: action_buttons_eval)
  have "\<not> is_action_lit Fold 3 (demo_start (\<lambda>_. good_reply))"
    by (simp add: app_main_def app_boot_def initialize_calibration_storage_def is_action_lit_def is_lit_def
        selection_init_def Let_def split: prod.splits)
  with screen_shows_selection [OF app_reaches.start m, of demo_api True float_round "fresh_board (\<lambda>_. good_reply)"
      "\<lambda>_. True" "\<lambda>_. None"] show ?thesis by simp
qed

end
