(* ===== verification/Can_Identifier.thy ===== *)
theory Can_Identifier
  imports Prelude
begin

text \<open>
  The 29-bit CAN identifier, \<open>isobus/src/can_identifier.cpp\<close> and its header: the two
  constructors, every accessor, and the two directions of the encoding.
\<close>


section \<open>Model\<close>

datatype CANPriority =
    PriorityHighest0 | Priority1 | Priority2 | Priority3 | Priority4 | Priority5 | PriorityDefault6 | PriorityLowest7

datatype IdType = Standard | Extended

record CANIdentifier =
  m_RawIdentifier :: u32

abbreviation (input) IDENTIFIER_TYPE_BIT_MASK :: u32 where "IDENTIFIER_TYPE_BIT_MASK \<equiv> 0x80000000"
abbreviation (input) UNDEFINED_PARAMETER_GROUP_NUMBER :: u32 where "UNDEFINED_PARAMETER_GROUP_NUMBER \<equiv> 0xFFFFFFFF"
abbreviation (input) GLOBAL_ADDRESS :: u8 where "GLOBAL_ADDRESS \<equiv> 0xFF"
abbreviation (input) NULL_ADDRESS :: u8 where "NULL_ADDRESS \<equiv> 0xFE"
abbreviation (input) BROADCAST_PGN_MASK :: u32 where "BROADCAST_PGN_MASK \<equiv> 0x0003FFFF"
abbreviation (input) DESTINATION_SPECIFIC_PGN_MASK :: u32 where "DESTINATION_SPECIFIC_PGN_MASK \<equiv> 0x0003FF00"
abbreviation (input) PDU2_FORMAT_MASK :: u32 where "PDU2_FORMAT_MASK \<equiv> 0x00F00000"

fun priority_number :: "CANPriority \<Rightarrow> u32" where
  "priority_number PriorityHighest0 = 0"
| "priority_number Priority1 = 1"
| "priority_number Priority2 = 2"
| "priority_number Priority3 = 3"
| "priority_number Priority4 = 4"
| "priority_number Priority5 = 5"
| "priority_number PriorityDefault6 = 6"
| "priority_number PriorityLowest7 = 7"

definition priority_of_number :: "u32 \<Rightarrow> CANPriority" where
  \<comment> \<open>\<open>static_cast\<close> of a three-bit value\<close>
  "priority_of_number n =
     (if n = 0 then PriorityHighest0 else if n = 1 then Priority1 else if n = 2 then Priority2
      else if n = 3 then Priority3 else if n = 4 then Priority4 else if n = 5 then Priority5
      else if n = 6 then PriorityDefault6 else PriorityLowest7)"

definition identifier_of_raw :: "u32 \<Rightarrow> CANIdentifier" where
  "identifier_of_raw raw = \<lparr>m_RawIdentifier = raw\<rparr>"

definition make_identifier :: "IdType \<Rightarrow> u32 \<Rightarrow> CANPriority \<Rightarrow> u8 \<Rightarrow> u8 \<Rightarrow> CANIdentifier" where
  "make_identifier identifierType pgn priority destinationAddress sourceAddress =
     (let raw0 = 0;
          raw1 =
            (if identifierType = Extended
             then
               let raw = push_bit 26 (priority_number priority)
               in if (push_bit 8 pgn AND PDU2_FORMAT_MASK) < PDU2_FORMAT_MASK
                  then (raw OR push_bit 8 (pgn AND DESTINATION_SPECIFIC_PGN_MASK))
                         OR push_bit 8 (ucast destinationAddress)
                  else raw OR push_bit 8 (pgn AND BROADCAST_PGN_MASK)
             else raw0)
      in \<lparr>m_RawIdentifier = raw1 OR ucast sourceAddress\<rparr>)"

definition get_identifier :: "CANIdentifier \<Rightarrow> u32" where
  "get_identifier i = m_RawIdentifier i AND NOT IDENTIFIER_TYPE_BIT_MASK"

definition get_identifier_type :: "CANIdentifier \<Rightarrow> IdType" where
  "get_identifier_type i = (if m_RawIdentifier i \<le> 0x7FF then Standard else Extended)"

definition get_priority :: "CANIdentifier \<Rightarrow> CANPriority" where
  "get_priority i =
     (if get_identifier_type i = Extended
      then priority_of_number (drop_bit 26 (m_RawIdentifier i) AND 0x07) else PriorityHighest0)"

definition get_parameter_group_number :: "CANIdentifier \<Rightarrow> u32" where
  "get_parameter_group_number i =
     (if get_identifier_type i = Extended
      then if (PDU2_FORMAT_MASK AND m_RawIdentifier i) < PDU2_FORMAT_MASK
           then drop_bit 8 (m_RawIdentifier i) AND DESTINATION_SPECIFIC_PGN_MASK
           else drop_bit 8 (m_RawIdentifier i) AND BROADCAST_PGN_MASK
      else UNDEFINED_PARAMETER_GROUP_NUMBER)"

definition get_destination_address :: "CANIdentifier \<Rightarrow> u8" where
  "get_destination_address i =
     (if get_identifier_type i = Extended \<and> (PDU2_FORMAT_MASK AND m_RawIdentifier i) < PDU2_FORMAT_MASK
      then ucast (drop_bit 8 (m_RawIdentifier i) AND 0xFF) else GLOBAL_ADDRESS)"

definition get_source_address :: "CANIdentifier \<Rightarrow> u8" where
  "get_source_address i =
     (if get_identifier_type i = Extended then ucast (m_RawIdentifier i AND 0xFF) else GLOBAL_ADDRESS)"

definition get_is_valid :: "CANIdentifier \<Rightarrow> bool" where
  "get_is_valid i =
     (if get_identifier_type i = Extended then m_RawIdentifier i \<le> 0x1FFFFFFF else m_RawIdentifier i \<le> 0x7FF)"

section \<open>Bits of the masks\<close>


lemma masks_as_fields:
  "(0x0003FFFF :: u32) = mask 18" "(0x0003FF00 :: u32) = push_bit 8 (mask 10)"
  "(0x00F00000 :: u32) = push_bit 20 (mask 4)" "(0xFF :: u32) = mask 8" "(0x07 :: u32) = mask 3"
  by (simp_all add: mask_eq_exp_minus_1 push_bit_eq_mult)

lemma mask_bits:
  "bit (0x0003FFFF :: u32) n \<longleftrightarrow> n < 18"
  "bit (0x0003FF00 :: u32) n \<longleftrightarrow> 8 \<le> n \<and> n < 18"
  "bit (0x00F00000 :: u32) n \<longleftrightarrow> 20 \<le> n \<and> n < 24"
  "bit (0xFF :: u32) n \<longleftrightarrow> n < 8"
  "bit (0x07 :: u32) n \<longleftrightarrow> n < 3"
  by (simp_all only: masks_as_fields bit_mask_iff bit_push_bit_iff) auto

lemma priority_bits: "bit (priority_number p) n \<Longrightarrow> n < 3"
proof -
  assume b: "bit (priority_number p) n"
  have "take_bit 3 (priority_number p) = priority_number p" by (cases p) (simp_all add: take_bit_eq_mod)
  with b show ?thesis by (metis bit_take_bit_iff)
qed

lemma pdu1_bits: "(PDU2_FORMAT_MASK AND x) < PDU2_FORMAT_MASK \<longleftrightarrow> (\<exists>n. 20 \<le> n \<and> n < 24 \<and> \<not> bit x n)"
proof -
  have "PDU2_FORMAT_MASK AND x \<le> PDU2_FORMAT_MASK" by (rule word_and_le2)
  then have "(PDU2_FORMAT_MASK AND x) < PDU2_FORMAT_MASK \<longleftrightarrow> PDU2_FORMAT_MASK AND x \<noteq> PDU2_FORMAT_MASK"
    by (auto simp: order_less_le)
  also have "\<dots> \<longleftrightarrow> (\<exists>n. 20 \<le> n \<and> n < 24 \<and> \<not> bit x n)"
  proof
    assume "\<exists>n. 20 \<le> n \<and> n < 24 \<and> \<not> bit x n"
    then obtain n where "20 \<le> n" "n < 24" "\<not> bit x n" by blast
    then have "bit PDU2_FORMAT_MASK n \<noteq> bit (PDU2_FORMAT_MASK AND x) n" by (simp only: bit_and_iff mask_bits simp_thms)
    then show "PDU2_FORMAT_MASK AND x \<noteq> PDU2_FORMAT_MASK" by metis
  next
    assume "PDU2_FORMAT_MASK AND x \<noteq> PDU2_FORMAT_MASK"
    then show "\<exists>n. 20 \<le> n \<and> n < 24 \<and> \<not> bit x n"
      unfolding bit_eq_iff bit_and_iff mask_bits by blast
  qed
  finally show ?thesis .
qed


lemma ucast_byte_bits: "bit (ucast (x :: u8) :: u32) n \<longleftrightarrow> n < 8 \<and> bit x n"
  by (auto simp: bit_ucast_iff dest: bit_imp_le_length)

lemma narrow_byte_bits: "bit (ucast (x :: u32) :: u8) n \<longleftrightarrow> n < 8 \<and> bit x n"
  by (auto simp: bit_ucast_iff)

text \<open>The encoded identifier, bit by bit.\<close>

definition encodes_pdu1 :: "u32 \<Rightarrow> bool" where
  "encodes_pdu1 pgn \<longleftrightarrow> (\<exists>n. 12 \<le> n \<and> n < 16 \<and> \<not> bit pgn n)"

lemma encodes_pdu1_shift:
  "(push_bit 8 pgn AND PDU2_FORMAT_MASK) < PDU2_FORMAT_MASK \<longleftrightarrow> encodes_pdu1 pgn"
proof -
  have "(\<exists>n. 20 \<le> n \<and> n < 24 \<and> \<not> bit (push_bit 8 pgn) n) \<longleftrightarrow> encodes_pdu1 pgn"
    unfolding encodes_pdu1_def
  proof safe
    fix n assume "20 \<le> n" "n < 24" "\<not> bit (push_bit 8 pgn) n"
    then show "\<exists>n. 12 \<le> n \<and> n < 16 \<and> \<not> bit pgn n"
      by (intro exI [of _ "n - 8"]) (auto simp: bit_push_bit_iff)
  next
    fix n assume "12 \<le> n" "n < 16" "\<not> bit pgn n"
    then show "\<exists>n. 20 \<le> n \<and> n < 24 \<and> \<not> bit (push_bit 8 pgn) n"
      by (intro exI [of _ "n + 8"]) (auto simp: bit_push_bit_iff)
  qed
  then show ?thesis using pdu1_bits [of "push_bit 8 pgn"] by (simp add: and.commute)
qed

lemma raw_bits:
  "bit (m_RawIdentifier (make_identifier Extended pgn p d s)) n \<longleftrightarrow>
     n < 8 \<and> bit s n
     \<or> encodes_pdu1 pgn \<and> 8 \<le> n \<and> n < 16 \<and> bit d (n - 8)
     \<or> (if encodes_pdu1 pgn then 16 \<le> n else 8 \<le> n) \<and> n < 26 \<and> bit pgn (n - 8)
     \<or> 26 \<le> n \<and> n < 29 \<and> bit (priority_number p) (n - 26)"
proof -
  have p: "bit (priority_number p) (n - 26) \<Longrightarrow> n - 26 < 3" by (rule priority_bits)
  have s: "bit s n \<Longrightarrow> n < 8" and d: "bit d (n - 8) \<Longrightarrow> n - 8 < 8" for s :: u8
    by (auto dest: bit_imp_le_length)
  show ?thesis
  proof (cases "encodes_pdu1 pgn")
    case True
    then have raw: "m_RawIdentifier (make_identifier Extended pgn p d s) =
        ((push_bit 26 (priority_number p) OR push_bit 8 (pgn AND 0x0003FF00)) OR push_bit 8 (ucast d)) OR ucast s"
      by (simp add: make_identifier_def Let_def encodes_pdu1_shift)
    consider "n < 8" | "8 \<le> n" "n < 16" | "16 \<le> n" "n < 26" | "26 \<le> n" "n < 29" | "29 \<le> n" by linarith
    then show ?thesis
      unfolding raw bit_or_iff bit_push_bit_iff bit_and_iff mask_bits ucast_byte_bits
      by cases (use True p s d in auto)
  next
    case False
    then have raw: "m_RawIdentifier (make_identifier Extended pgn p d s) =
        (push_bit 26 (priority_number p) OR push_bit 8 (pgn AND 0x0003FFFF)) OR ucast s"
      by (simp add: make_identifier_def Let_def encodes_pdu1_shift)
    consider "n < 8" | "8 \<le> n" "n < 26" | "26 \<le> n" "n < 29" | "29 \<le> n" by linarith
    then show ?thesis
      unfolding raw bit_or_iff bit_push_bit_iff bit_and_iff mask_bits ucast_byte_bits
      by cases (use False p s in auto)
  qed
qed


lemma number_priority [simp]: "priority_of_number (priority_number p) = p"
  by (cases p) (simp_all add: priority_of_number_def)

lemma raw_format:
  "(PDU2_FORMAT_MASK AND m_RawIdentifier (make_identifier Extended pgn p d s)) < PDU2_FORMAT_MASK
     \<longleftrightarrow> encodes_pdu1 pgn"
proof -
  have "bit (m_RawIdentifier (make_identifier Extended pgn p d s)) n = bit pgn (n - 8)" if "20 \<le> n" "n < 24" for n
    using that by (auto simp: raw_bits)
  moreover have "(\<exists>n. 20 \<le> n \<and> n < 24 \<and> \<not> bit pgn (n - 8)) \<longleftrightarrow> encodes_pdu1 pgn"
    unfolding encodes_pdu1_def
  proof safe
    fix n assume "20 \<le> n" "n < 24" "\<not> bit pgn (n - 8)"
    then show "\<exists>n. 12 \<le> n \<and> n < 16 \<and> \<not> bit pgn n" by (intro exI [of _ "n - 8"]) auto
  next
    fix n assume "12 \<le> n" "n < 16" "\<not> bit pgn n"
    then show "\<exists>n. 20 \<le> n \<and> n < 24 \<and> \<not> bit pgn (n - 8)" by (intro exI [of _ "n + 8"]) auto
  qed
  ultimately show ?thesis unfolding pdu1_bits by blast
qed

lemma raw_priority: "drop_bit 26 (m_RawIdentifier (make_identifier Extended pgn p d s)) AND 0x07 = priority_number p"
proof (rule bit_word_eqI)
  fix n assume "n < LENGTH(32)"
  have "n < 3" if "bit (priority_number p) n" using that by (rule priority_bits)
  then show "bit (drop_bit 26 (m_RawIdentifier (make_identifier Extended pgn p d s)) AND 0x07) n = bit (priority_number p) n"
    unfolding bit_and_iff bit_drop_bit_eq mask_bits comp_def raw_bits by auto
qed

lemma raw_pgn:
  "drop_bit 8 (m_RawIdentifier (make_identifier Extended pgn p d s)) AND
     (if encodes_pdu1 pgn then DESTINATION_SPECIFIC_PGN_MASK else BROADCAST_PGN_MASK)
   = pgn AND (if encodes_pdu1 pgn then DESTINATION_SPECIFIC_PGN_MASK else BROADCAST_PGN_MASK)"
proof (rule bit_word_eqI)
  fix n assume "n < LENGTH(32)"
  show "bit (drop_bit 8 (m_RawIdentifier (make_identifier Extended pgn p d s)) AND
     (if encodes_pdu1 pgn then DESTINATION_SPECIFIC_PGN_MASK else BROADCAST_PGN_MASK)) n
   = bit (pgn AND (if encodes_pdu1 pgn then DESTINATION_SPECIFIC_PGN_MASK else BROADCAST_PGN_MASK)) n"
  proof (cases "encodes_pdu1 pgn")
    case True
    then show ?thesis unfolding if_P [OF True] bit_and_iff bit_drop_bit_eq mask_bits comp_def raw_bits by auto
  next
    case False
    then show ?thesis unfolding if_not_P [OF False] bit_and_iff bit_drop_bit_eq mask_bits comp_def raw_bits by auto
  qed
qed

lemma raw_destination:
  assumes "encodes_pdu1 pgn"
  shows "(ucast (drop_bit 8 (m_RawIdentifier (make_identifier Extended pgn p d s)) AND 0xFF) :: u8) = d"
proof (rule bit_word_eqI)
  fix n assume "n < LENGTH(8)"
  then show "bit (ucast (drop_bit 8 (m_RawIdentifier (make_identifier Extended pgn p d s)) AND 0xFF) :: u8) n = bit d n"
    using assms unfolding narrow_byte_bits bit_and_iff bit_drop_bit_eq mask_bits comp_def raw_bits by auto
qed

lemma raw_source: "(ucast (m_RawIdentifier (make_identifier Extended pgn p d s) AND 0xFF) :: u8) = s"
proof (rule bit_word_eqI)
  fix n assume "n < LENGTH(8)"
  then show "bit (ucast (m_RawIdentifier (make_identifier Extended pgn p d s) AND 0xFF) :: u8) n = bit s n"
    unfolding narrow_byte_bits bit_and_iff mask_bits raw_bits by auto
qed

lemma raw_valid: "m_RawIdentifier (make_identifier Extended pgn p d s) \<le> 0x1FFFFFFF"
proof -
  have "take_bit 29 (m_RawIdentifier (make_identifier Extended pgn p d s)) = m_RawIdentifier (make_identifier Extended pgn p d s)"
  proof (rule bit_word_eqI)
    fix n assume "n < LENGTH(32)"
    show "bit (take_bit 29 (m_RawIdentifier (make_identifier Extended pgn p d s))) n
        = bit (m_RawIdentifier (make_identifier Extended pgn p d s)) n"
      unfolding bit_take_bit_iff raw_bits by auto
  qed
  then show ?thesis by (simp add: take_bit_word_eq_iff word_le_nat_alt)
qed

text \<open>When the constructor's identifier is recognised as an extended one.\<close>

lemma small_bits: "x \<le> (0x7FF :: u32) \<Longrightarrow> bit x n \<Longrightarrow> n < 11"
proof -
  assume x: "x \<le> 0x7FF" and b: "bit x n"
  from x have "take_bit 11 x = x" by (simp add: take_bit_word_eq_iff word_le_nat_alt)
  with b show ?thesis by (metis bit_take_bit_iff)
qed

lemma recognised:
  assumes "p \<noteq> PriorityHighest0 \<or> pgn AND DESTINATION_SPECIFIC_PGN_MASK \<noteq> 0 \<or> \<not> encodes_pdu1 pgn \<or> 8 \<le> d"
  shows "get_identifier_type (make_identifier Extended pgn p d s) = Extended"
proof (rule ccontr)
  assume "get_identifier_type (make_identifier Extended pgn p d s) \<noteq> Extended"
  then have small: "m_RawIdentifier (make_identifier Extended pgn p d s) \<le> 0x7FF"
    by (simp add: get_identifier_type_def split: if_splits)
  have none: "\<not> bit (m_RawIdentifier (make_identifier Extended pgn p d s)) n" if "11 \<le> n" for n
    using small_bits [OF small] that by (metis not_le)
  have prio: "priority_number p = 0"
  proof (rule bit_word_eqI)
    fix n assume "n < LENGTH(32)"
    show "bit (priority_number p) n = bit 0 n"
      using none [of "26 + n"] priority_bits [of p n] unfolding raw_bits by auto
  qed
  have pgn: "pgn AND DESTINATION_SPECIFIC_PGN_MASK = 0"
  proof (rule bit_word_eqI)
    fix n assume "n < LENGTH(32)"
    show "bit (pgn AND DESTINATION_SPECIFIC_PGN_MASK) n = bit 0 n"
      using none [of "8 + n"] unfolding raw_bits bit_and_iff mask_bits by (auto split: if_splits)
  qed
  have "\<not> bit pgn 12"
    using arg_cong [OF pgn, of "\<lambda>x. bit x 12"] unfolding bit_and_iff mask_bits by simp
  then have fmt: "encodes_pdu1 pgn" unfolding encodes_pdu1_def by (intro exI [of _ 12]) simp
  have "take_bit 3 d = d"
  proof (rule bit_word_eqI)
    fix n assume "n < LENGTH(8)"
    then have "\<not> bit d n" if "3 \<le> n" using none [of "8 + n"] fmt that unfolding raw_bits by auto
    then show "bit (take_bit 3 d) n = bit d n" unfolding bit_take_bit_iff by (metis not_le)
  qed
  then have "\<not> 8 \<le> d" by (simp add: take_bit_word_eq_iff word_le_nat_alt)
  moreover have "p = PriorityHighest0" using prio by (cases p) simp_all
  ultimately show False using assms pgn fmt by blast
qed

lemma number_of_priority: "(n :: u32) \<le> 7 \<Longrightarrow> priority_number (priority_of_number n) = n"
proof -
  assume "n \<le> 7"
  then have "unat n \<in> {0, 1, 2, 3, 4, 5, 6, 7}" by (auto simp: word_le_nat_alt)
  then show ?thesis by (auto simp: priority_of_number_def word_unat_eq_iff)
qed

lemma make_pdu2:
  "\<not> encodes_pdu1 pgn \<Longrightarrow> make_identifier Extended pgn p d s = make_identifier Extended pgn p d' s"
  by (simp add: make_identifier_def encodes_pdu1_shift)

lemma three_bits: "(x :: u32) AND 0x07 \<le> 7"
  by (metis word_and_le1)

definition raw_pdu1 :: "u32 \<Rightarrow> bool" where
  "raw_pdu1 r \<longleftrightarrow> (PDU2_FORMAT_MASK AND r) < PDU2_FORMAT_MASK"

lemma decoded_pgn_format:
  "encodes_pdu1 (drop_bit 8 r AND (if raw_pdu1 r then DESTINATION_SPECIFIC_PGN_MASK else BROADCAST_PGN_MASK))
     \<longleftrightarrow> raw_pdu1 r"
proof -
  have b: "bit (drop_bit 8 r AND (if raw_pdu1 r then DESTINATION_SPECIFIC_PGN_MASK else BROADCAST_PGN_MASK)) n
      = bit r (8 + n)" if "12 \<le> n" "n < 16" for n
    using that by (simp only: bit_and_iff bit_drop_bit_eq comp_def if_distrib [of "\<lambda>m. bit m n"] mask_bits) auto
  have "(\<exists>n. 12 \<le> n \<and> n < 16 \<and> \<not> bit r (8 + n)) \<longleftrightarrow> (\<exists>n. 20 \<le> n \<and> n < 24 \<and> \<not> bit r n)"
  proof safe
    fix n assume "12 \<le> n" "n < 16" "\<not> bit r (8 + n)"
    then show "\<exists>n. 20 \<le> n \<and> n < 24 \<and> \<not> bit r n" by (intro exI [of _ "8 + n"]) simp
  next
    fix n assume "20 \<le> n" "n < 24" "\<not> bit r n"
    moreover from this obtain m where "n = 8 + m" using le_Suc_ex [of 8 n] by auto
    ultimately show "\<exists>n. 12 \<le> n \<and> n < 16 \<and> \<not> bit r (8 + n)" by (intro exI [of _ m]) simp
  qed
  then show ?thesis using b pdu1_bits [of r] unfolding encodes_pdu1_def raw_pdu1_def by blast
qed

lemma valid_bits:
  assumes "r \<le> (0x1FFFFFFF :: u32)" "bit r n"
  shows "n < 29"
proof -
  have "take_bit 29 r = r" using assms(1) by (simp add: take_bit_word_eq_iff word_le_nat_alt)
  with assms(2) show ?thesis by (metis bit_take_bit_iff)
qed

lemma reencode_bits:
  assumes "r \<le> (0x1FFFFFFF :: u32)"
  shows "m_RawIdentifier (make_identifier Extended
      (drop_bit 8 r AND (if raw_pdu1 r then DESTINATION_SPECIFIC_PGN_MASK else BROADCAST_PGN_MASK))
      (priority_of_number (drop_bit 26 r AND 0x07)) (ucast (drop_bit 8 r AND 0xFF)) (ucast (r AND 0xFF))) = r"
proof (rule bit_word_eqI)
  fix n assume "n < LENGTH(32)"
  have v: "bit r n \<Longrightarrow> n < 29" using assms by (rule valid_bits)
  consider "n < 8" | "8 \<le> n" "n < 16" | "16 \<le> n" "n < 26" | "26 \<le> n" "n < 29" | "29 \<le> n" by linarith
  then show "bit (m_RawIdentifier (make_identifier Extended
      (drop_bit 8 r AND (if raw_pdu1 r then DESTINATION_SPECIFIC_PGN_MASK else BROADCAST_PGN_MASK))
      (priority_of_number (drop_bit 26 r AND 0x07)) (ucast (drop_bit 8 r AND 0xFF)) (ucast (r AND 0xFF)))) n = bit r n"
    unfolding raw_bits decoded_pgn_format number_of_priority [OF three_bits] bit_and_iff narrow_byte_bits
      bit_drop_bit_eq if_distrib [of "\<lambda>m. bit m _"] mask_bits comp_def
    by cases (use v in \<open>auto split: if_splits\<close>)
qed

section \<open>Properties\<close>

text \<open>C40: Encoding an extended identifier and reading it back gives every component: priority and
  source always, and for a destination-specific PGN the destination address and the PGN without
  its low byte, for a broadcast PGN the 18-bit PGN and the global address. The identifier is valid
  and its type bit is clear. The hypothesis excludes exactly the encodings below 0x800 (priority
  0, PGN 0, destination below 8), which the class takes for 11-bit identifiers.\<close>

theorem identifier_roundtrip:
  fixes pgn :: u32 and p :: CANPriority and d s :: u8
  assumes "p \<noteq> PriorityHighest0 \<or> pgn AND DESTINATION_SPECIFIC_PGN_MASK \<noteq> 0
      \<or> \<not> encodes_pdu1 pgn \<or> 8 \<le> d"
  defines "i \<equiv> make_identifier Extended pgn p d s"
  shows "get_identifier_type i = Extended \<and> get_is_valid i \<and> get_identifier i = m_RawIdentifier i
    \<and> get_priority i = p \<and> get_source_address i = s
    \<and> get_destination_address i = (if encodes_pdu1 pgn then d else GLOBAL_ADDRESS)
    \<and> get_parameter_group_number i = pgn AND (if encodes_pdu1 pgn then DESTINATION_SPECIFIC_PGN_MASK
                                                else BROADCAST_PGN_MASK)"
proof -
  have t: "get_identifier_type i = Extended" unfolding i_def using assms(1) by (rule recognised)
  have "get_identifier i = m_RawIdentifier i"
  proof (rule bit_word_eqI)
    fix n assume "n < LENGTH(32)"
    have m: "(IDENTIFIER_TYPE_BIT_MASK :: u32) = push_bit 31 1" by (simp add: push_bit_eq_mult)
    show "bit (get_identifier i) n = bit (m_RawIdentifier i) n"
      unfolding get_identifier_def i_def bit_and_iff m bit_not_iff bit_push_bit_iff raw_bits by auto
  qed
  with t show ?thesis
    using raw_valid [of pgn p d s] raw_format [of pgn p d s] raw_priority [of pgn p d s] raw_pgn [of pgn p d s]
      raw_destination [of pgn p d s] raw_source [of pgn p d s]
    by (cases "encodes_pdu1 pgn") (simp_all add: get_is_valid_def get_priority_def get_source_address_def
        get_destination_address_def get_parameter_group_number_def i_def)
qed

theorem identifier_roundtrip_witness:
  "get_parameter_group_number (make_identifier Extended 0xEF00 PriorityDefault6 0x26 0x1C) = 0xEF00
   \<and> get_destination_address (make_identifier Extended 0xEF00 PriorityDefault6 0x26 0x1C) = 0x26"
proof -
  have "encodes_pdu1 0xEF00" unfolding encodes_pdu1_def by (rule exI [of _ 12]) code_simp
  with identifier_roundtrip [of PriorityDefault6 "0xEF00" "0x26" "0x1C"] show ?thesis by simp
qed


theorem identifier_reencode:
  assumes "get_identifier_type i = Extended" "get_is_valid i"
  shows "make_identifier Extended (get_parameter_group_number i) (get_priority i)
           (get_destination_address i) (get_source_address i) = i"
proof -
  have r: "m_RawIdentifier i \<le> 0x1FFFFFFF" using assms by (simp add: get_is_valid_def)
  have b: "\<not> raw_pdu1 (m_RawIdentifier i) \<Longrightarrow> make_identifier Extended
      (drop_bit 8 (m_RawIdentifier i) AND BROADCAST_PGN_MASK) p d s = make_identifier Extended
      (drop_bit 8 (m_RawIdentifier i) AND BROADCAST_PGN_MASK) p d' s" for p d d' s
    using decoded_pgn_format [of "m_RawIdentifier i"] by (intro make_pdu2) simp
  have "m_RawIdentifier (make_identifier Extended (get_parameter_group_number i) (get_priority i)
           (get_destination_address i) (get_source_address i)) = m_RawIdentifier i"
  proof (cases "raw_pdu1 (m_RawIdentifier i)")
    case True
    with reencode_bits [OF r] assms(1) show ?thesis
      by (simp add: get_parameter_group_number_def get_priority_def get_destination_address_def
          get_source_address_def raw_pdu1_def)
  next
    case False
    have "make_identifier Extended (get_parameter_group_number i) (get_priority i)
           (get_destination_address i) (get_source_address i) = make_identifier Extended
      (drop_bit 8 (m_RawIdentifier i) AND BROADCAST_PGN_MASK) (get_priority i) GLOBAL_ADDRESS (get_source_address i)"
      using False assms(1) by (simp add: get_parameter_group_number_def get_destination_address_def raw_pdu1_def)
    also have "\<dots> = make_identifier Extended
      (drop_bit 8 (m_RawIdentifier i) AND BROADCAST_PGN_MASK) (get_priority i)
      (ucast (drop_bit 8 (m_RawIdentifier i) AND 0xFF)) (get_source_address i)"
      by (rule b [OF False])
    also have "m_RawIdentifier \<dots> = m_RawIdentifier i"
      using reencode_bits [OF r] False assms(1) by (simp add: get_priority_def get_source_address_def)
    finally show ?thesis .
  qed
  then show ?thesis by (cases i; cases "make_identifier Extended (get_parameter_group_number i) (get_priority i)
           (get_destination_address i) (get_source_address i)") simp
qed

theorem identifier_reencode_witness:
  "make_identifier Extended (get_parameter_group_number (identifier_of_raw 0x18EAFF26))
     (get_priority (identifier_of_raw 0x18EAFF26)) (get_destination_address (identifier_of_raw 0x18EAFF26))
     (get_source_address (identifier_of_raw 0x18EAFF26)) = identifier_of_raw 0x18EAFF26"
  by (rule identifier_reencode) (simp_all add: get_is_valid_def get_identifier_type_def identifier_of_raw_def)

end
