(* ===== verification/Can_Name.thy ===== *)
theory Can_Name
  imports Prelude
begin

text \<open>
  The 64-bit NAME of a control function, \<open>isobus/src/can_NAME.cpp\<close>, and the filters on its
  components, \<open>isobus/src/can_NAME_filter.cpp\<close>. The log messages of the setters are left out: an
  out-of-range value is masked after the message.
\<close>


section \<open>Model\<close>

record NAME =
  rawName :: u64

datatype NAMEParameters =
    IdentityNumber | ManufacturerCode | EcuInstance | FunctionInstance | FunctionCode
  | DeviceClass | DeviceClassInstance | IndustryGroup | ArbitraryAddressCapable

definition name_of_raw :: "u64 \<Rightarrow> NAME" where
  "name_of_raw raw = \<lparr>rawName = raw\<rparr>"

definition name_eq :: "NAME \<Rightarrow> NAME \<Rightarrow> bool" where
  "name_eq a b \<longleftrightarrow> rawName a = rawName b"

definition get_arbitrary_address_capable :: "NAME \<Rightarrow> bool" where
  "get_arbitrary_address_capable n \<longleftrightarrow> 0 \<noteq> drop_bit 63 (rawName n)"

definition set_arbitrary_address_capable :: "bool \<Rightarrow> NAME \<Rightarrow> NAME" where
  "set_arbitrary_address_capable value n =
     n\<lparr>rawName := (rawName n AND NOT (push_bit 63 1)) OR push_bit 63 (of_bool value)\<rparr>"

definition get_industry_group :: "NAME \<Rightarrow> u8" where
  "get_industry_group n = ucast (drop_bit 60 (rawName n) AND 0x07)"

definition set_industry_group :: "u8 \<Rightarrow> NAME \<Rightarrow> NAME" where
  "set_industry_group value n =
     n\<lparr>rawName := (rawName n AND NOT 0x7000000000000000) OR push_bit 60 (ucast (value AND 0x07))\<rparr>"

definition get_device_class_instance :: "NAME \<Rightarrow> u8" where
  "get_device_class_instance n = ucast (drop_bit 56 (rawName n) AND 0x0F)"

definition set_device_class_instance :: "u8 \<Rightarrow> NAME \<Rightarrow> NAME" where
  "set_device_class_instance value n =
     n\<lparr>rawName := (rawName n AND NOT 0xF00000000000000) OR push_bit 56 (ucast (value AND 0x0F))\<rparr>"

definition get_device_class :: "NAME \<Rightarrow> u8" where
  "get_device_class n = ucast (drop_bit 49 (rawName n) AND 0x7F)"

definition set_device_class :: "u8 \<Rightarrow> NAME \<Rightarrow> NAME" where
  "set_device_class value n =
     n\<lparr>rawName := (rawName n AND NOT 0xFE000000000000) OR push_bit 49 (ucast (value AND 0x7F))\<rparr>"

definition get_function_code :: "NAME \<Rightarrow> u8" where
  "get_function_code n = ucast (drop_bit 40 (rawName n) AND 0xFF)"

definition set_function_code :: "u8 \<Rightarrow> NAME \<Rightarrow> NAME" where
  "set_function_code value n =
     n\<lparr>rawName := (rawName n AND NOT 0xFF0000000000) OR push_bit 40 (ucast (value AND 0xFF))\<rparr>"

definition get_function_instance :: "NAME \<Rightarrow> u8" where
  "get_function_instance n = ucast (drop_bit 35 (rawName n) AND 0x1F)"

definition set_function_instance :: "u8 \<Rightarrow> NAME \<Rightarrow> NAME" where
  "set_function_instance value n =
     n\<lparr>rawName := (rawName n AND NOT 0xF800000000) OR push_bit 35 (ucast (value AND 0x1F))\<rparr>"

definition get_ecu_instance :: "NAME \<Rightarrow> u8" where
  "get_ecu_instance n = ucast (drop_bit 32 (rawName n) AND 0x07)"

definition set_ecu_instance :: "u8 \<Rightarrow> NAME \<Rightarrow> NAME" where
  "set_ecu_instance value n =
     n\<lparr>rawName := (rawName n AND NOT 0x700000000) OR push_bit 32 (ucast (value AND 0x07))\<rparr>"

definition get_manufacturer_code :: "NAME \<Rightarrow> u16" where
  "get_manufacturer_code n = ucast (drop_bit 21 (rawName n) AND 0x07FF)"

definition set_manufacturer_code :: "u16 \<Rightarrow> NAME \<Rightarrow> NAME" where
  "set_manufacturer_code value n =
     n\<lparr>rawName := (rawName n AND NOT 0xFFE00000) OR push_bit 21 (ucast (value AND 0x07FF))\<rparr>"

definition get_identity_number :: "NAME \<Rightarrow> u32" where
  "get_identity_number n = ucast (rawName n AND 0x001FFFFF)"

definition set_identity_number :: "u32 \<Rightarrow> NAME \<Rightarrow> NAME" where
  "set_identity_number value n =
     n\<lparr>rawName := (rawName n AND NOT 0x1FFFFF) OR ucast (value AND 0x1FFFFF)\<rparr>"

record NAMEFilter =
  parameter :: NAMEParameters
  filter_value :: u32

fun check_name_matches_filter :: "NAMEFilter \<Rightarrow> NAME \<Rightarrow> bool" where
  "check_name_matches_filter f n =
     (case parameter f of
        IdentityNumber \<Rightarrow> get_identity_number n = filter_value f
      | ManufacturerCode \<Rightarrow> ucast (get_manufacturer_code n) = filter_value f
      | EcuInstance \<Rightarrow> ucast (get_ecu_instance n) = filter_value f
      | FunctionInstance \<Rightarrow> ucast (get_function_instance n) = filter_value f
      | FunctionCode \<Rightarrow> ucast (get_function_code n) = filter_value f
      | DeviceClass \<Rightarrow> ucast (get_device_class n) = filter_value f
      | DeviceClassInstance \<Rightarrow> ucast (get_device_class_instance n) = filter_value f
      | IndustryGroup \<Rightarrow> ucast (get_industry_group n) = filter_value f
      | ArbitraryAddressCapable \<Rightarrow> get_arbitrary_address_capable n = (0 \<noteq> filter_value f))"

section \<open>Bit fields\<close>

text \<open>The reference: a field of \<open>w\<close> bits at \<open>off\<close>, as natural numbers.\<close>

definition field_get :: "nat \<Rightarrow> nat \<Rightarrow> u64 \<Rightarrow> nat" where
  "field_get off w raw = unat (take_bit w (drop_bit off raw))"

definition field_set :: "nat \<Rightarrow> nat \<Rightarrow> nat \<Rightarrow> u64 \<Rightarrow> u64" where
  "field_set off w v raw = (raw AND NOT (push_bit off (mask w))) OR push_bit off (take_bit w (of_nat v))"

lemma bit_of_nat_word: "bit (of_nat v :: 'a::len word) n \<longleftrightarrow> n < LENGTH('a) \<and> bit v n"
  by transfer (simp add: bit_of_nat_iff_bit)

lemma bit_field_set:
  "off + w \<le> 64 \<Longrightarrow> bit (field_set off w v raw) n \<longleftrightarrow>
     n < 64 \<and> (if off \<le> n \<and> n < off + w then bit v (n - off) else bit raw n)"
  by (auto simp: field_set_def bit_or_iff bit_and_iff bit_not_iff bit_push_bit_iff bit_mask_iff bit_take_bit_iff
      bit_of_nat_word dest: bit_imp_le_length)

lemma bit_field_get:
  "bit (field_get off w raw) n \<longleftrightarrow> n < w \<and> bit raw (off + n)"
  by (auto simp: field_get_def bit_take_bit_iff bit_drop_bit_eq bit_unsigned_iff dest: bit_imp_le_length)

lemma field_get_set: "off + w \<le> 64 \<Longrightarrow> field_get off w (field_set off w v raw) = v mod 2 ^ w"
  by (rule bit_eqI) (auto simp: bit_field_get bit_field_set simp flip: take_bit_eq_mod simp: bit_take_bit_iff)

lemma field_get_other:
  "off + w \<le> 64 \<Longrightarrow> off2 + w2 \<le> off \<or> off + w \<le> off2 \<Longrightarrow> off2 + w2 \<le> 64 \<Longrightarrow>
   field_get off2 w2 (field_set off w v raw) = field_get off2 w2 raw"
  by (rule bit_eqI) (auto simp: bit_field_get bit_field_set)


text \<open>The code's masks are those of the reference.\<close>

lemma field_masks:
  "(0x7000000000000000 :: u64) = push_bit 60 (mask 3)" "(0xF00000000000000 :: u64) = push_bit 56 (mask 4)"
  "(0xFE000000000000 :: u64) = push_bit 49 (mask 7)" "(0xFF0000000000 :: u64) = push_bit 40 (mask 8)"
  "(0xF800000000 :: u64) = push_bit 35 (mask 5)" "(0x700000000 :: u64) = push_bit 32 (mask 3)"
  "(0xFFE00000 :: u64) = push_bit 21 (mask 11)" "(0x1FFFFF :: u64) = mask 21"
  "(0x07 :: u64) = mask 3" "(0x0F :: u64) = mask 4" "(0x7F :: u64) = mask 7" "(0xFF :: u64) = mask 8"
  "(0x1F :: u64) = mask 5" "(0x07FF :: u64) = mask 11"
  by (simp_all add: mask_eq_exp_minus_1 push_bit_eq_mult)

lemma value_masks:
  "(0x07 :: u8) = mask 3" "(0x0F :: u8) = mask 4" "(0x7F :: u8) = mask 7" "(0xFF :: u8) = mask 8"
  "(0x1F :: u8) = mask 5" "(0x07FF :: u16) = mask 11" "(0x1FFFFF :: u32) = mask 21"
  by (simp_all add: mask_eq_exp_minus_1)

lemma masked_value: "w \<le> LENGTH('a) \<Longrightarrow> LENGTH('a) \<le> 64 \<Longrightarrow>
   (ucast ((v :: 'a::len word) AND mask w) :: u64) = take_bit w (of_nat (unat v))"
  by (rule bit_word_eqI)
    (auto simp: bit_ucast_iff bit_and_iff bit_mask_iff bit_take_bit_iff bit_of_nat_word bit_unsigned_iff
      dest: bit_imp_le_length)

lemma masked_field: "w \<le> LENGTH('a) \<Longrightarrow>
   unat (ucast (drop_bit off (raw :: u64) AND mask w) :: 'a::len word) = field_get off w raw"
  by (rule bit_eqI)
    (auto simp: bit_field_get bit_unsigned_iff bit_ucast_iff bit_and_iff bit_mask_iff bit_drop_bit_eq
      dest: bit_imp_le_length)

lemmas setter_defs = set_industry_group_def set_device_class_instance_def set_device_class_def
  set_function_code_def set_function_instance_def set_ecu_instance_def set_manufacturer_code_def
  set_identity_number_def

lemmas getter_defs = get_industry_group_def get_device_class_instance_def get_device_class_def
  get_function_code_def get_function_instance_def get_ecu_instance_def get_manufacturer_code_def
  get_identity_number_def

lemma setters:
  "rawName (set_industry_group v n) = field_set 60 3 (unat v) (rawName n)"
  "rawName (set_device_class_instance v n) = field_set 56 4 (unat v) (rawName n)"
  "rawName (set_device_class v n) = field_set 49 7 (unat v) (rawName n)"
  "rawName (set_function_code v n) = field_set 40 8 (unat v) (rawName n)"
  "rawName (set_function_instance v n) = field_set 35 5 (unat v) (rawName n)"
  "rawName (set_ecu_instance v n) = field_set 32 3 (unat v) (rawName n)"
  "rawName (set_manufacturer_code m n) = field_set 21 11 (unat m) (rawName n)"
  "rawName (set_identity_number i n) = field_set 0 21 (unat i) (rawName n)"
  unfolding setter_defs field_masks value_masks field_set_def
  by (simp_all only: NAME.simps masked_value len_num1 len_num0 len_bit0 len_bit1) simp_all


lemma identity_field: "unat (get_identity_number n) = field_get 0 21 (rawName n)"
  using masked_field [where off = 0 and 'a = 32, of 21 "rawName n"]
  unfolding get_identity_number_def field_masks by simp

lemma getters:
  "unat (get_industry_group n) = field_get 60 3 (rawName n)"
  "unat (get_device_class_instance n) = field_get 56 4 (rawName n)"
  "unat (get_device_class n) = field_get 49 7 (rawName n)"
  "unat (get_function_code n) = field_get 40 8 (rawName n)"
  "unat (get_function_instance n) = field_get 35 5 (rawName n)"
  "unat (get_ecu_instance n) = field_get 32 3 (rawName n)"
  "unat (get_manufacturer_code n) = field_get 21 11 (rawName n)"
  unfolding getter_defs field_masks by (rule masked_field; simp)+

lemma capable_get: "get_arbitrary_address_capable n \<longleftrightarrow> field_get 63 1 (rawName n) \<noteq> 0"
proof -
  have "take_bit 1 (drop_bit 63 (rawName n)) = drop_bit 63 (rawName n)"
    by (rule bit_word_eqI) (auto simp: bit_take_bit_iff bit_drop_bit_eq simp del: take_bit_Suc_0 One_nat_def dest: bit_imp_le_length)
  then show ?thesis
    unfolding field_get_def get_arbitrary_address_capable_def by (simp only: unat_eq_0) auto
qed

lemma capable_set: "rawName (set_arbitrary_address_capable b n) = field_set 63 1 (of_bool b) (rawName n)"
  by (cases b) (simp_all add: set_arbitrary_address_capable_def field_set_def)

text \<open>The NAME as nine numbered fields.\<close>

fun name_field :: "NAMEParameters \<Rightarrow> nat \<times> nat" where
  "name_field IdentityNumber = (0, 21)"
| "name_field ManufacturerCode = (21, 11)"
| "name_field EcuInstance = (32, 3)"
| "name_field FunctionInstance = (35, 5)"
| "name_field FunctionCode = (40, 8)"
| "name_field DeviceClass = (49, 7)"
| "name_field DeviceClassInstance = (56, 4)"
| "name_field IndustryGroup = (60, 3)"
| "name_field ArbitraryAddressCapable = (63, 1)"

fun name_get :: "NAMEParameters \<Rightarrow> NAME \<Rightarrow> nat" where
  "name_get IdentityNumber n = unat (get_identity_number n)"
| "name_get ManufacturerCode n = unat (get_manufacturer_code n)"
| "name_get EcuInstance n = unat (get_ecu_instance n)"
| "name_get FunctionInstance n = unat (get_function_instance n)"
| "name_get FunctionCode n = unat (get_function_code n)"
| "name_get DeviceClass n = unat (get_device_class n)"
| "name_get DeviceClassInstance n = unat (get_device_class_instance n)"
| "name_get IndustryGroup n = unat (get_industry_group n)"
| "name_get ArbitraryAddressCapable n = of_bool (get_arbitrary_address_capable n)"

fun name_set :: "NAMEParameters \<Rightarrow> u32 \<Rightarrow> NAME \<Rightarrow> NAME" where
  "name_set IdentityNumber v n = set_identity_number v n"
| "name_set ManufacturerCode v n = set_manufacturer_code (ucast v) n"
| "name_set EcuInstance v n = set_ecu_instance (ucast v) n"
| "name_set FunctionInstance v n = set_function_instance (ucast v) n"
| "name_set FunctionCode v n = set_function_code (ucast v) n"
| "name_set DeviceClass v n = set_device_class (ucast v) n"
| "name_set DeviceClassInstance v n = set_device_class_instance (ucast v) n"
| "name_set IndustryGroup v n = set_industry_group (ucast v) n"
| "name_set ArbitraryAddressCapable v n = set_arbitrary_address_capable (bit v 0) n"

lemma field_get_bound: "field_get off w raw < 2 ^ w"
  unfolding field_get_def unsigned_take_bit_eq by (rule take_bit_nat_less_exp)

lemma field_get_1: "of_bool (0 < field_get off (Suc 0) raw) = field_get off (Suc 0) raw"
  using field_get_bound [of off "Suc 0" raw] by auto

lemma name_get_field: "name_get p n = (case name_field p of (off, w) \<Rightarrow> field_get off w (rawName n))"
  using field_get_1 [of 63 "rawName n"] by (cases p) (simp_all add: getters identity_field capable_get)

lemma field_set_narrow:
  "w \<le> LENGTH('b) \<Longrightarrow> field_set off w (unat (ucast (v :: u32) :: 'b::len word)) raw = field_set off w (unat v) raw"
proof -
  assume w: "w \<le> LENGTH('b)"
  have "take_bit w (of_nat (unat (ucast v :: 'b word)) :: u64) = take_bit w (of_nat (unat v))"
    using w by (intro bit_word_eqI) (auto simp: bit_take_bit_iff bit_of_nat_word bit_unsigned_iff bit_ucast_iff)
  then show ?thesis by (simp add: field_set_def)
qed

lemma field_set_capable: "field_set off (Suc 0) (of_bool (bit v 0)) raw = field_set off (Suc 0) (unat (v :: u32)) raw"
proof -
  have "bit (ucast v :: u64) 0 = bit v 0" unfolding bit_ucast_iff by simp
  then have "odd (ucast v :: u64) = odd v" by (simp only: bit_0)
  then have "take_bit (Suc 0) (of_nat (of_bool (bit v 0)) :: u64) = take_bit (Suc 0) (of_nat (unat v))"
    by (cases "odd v") (simp_all add: bit_0 take_bit_Suc_0 mod_2_eq_odd)
  then show ?thesis by (simp add: field_set_def)
qed

lemma name_set_field: "rawName (name_set p v n) = (case name_field p of (off, w) \<Rightarrow> field_set off w (unat v) (rawName n))"
  by (cases p) (simp_all only: name_set.simps name_field.simps prod.case setters capable_set One_nat_def
      field_set_capable, simp_all add: field_set_narrow)

lemma name_field_layout:
  "fst (name_field p) + snd (name_field p) \<le> 64"
  "p \<noteq> q \<Longrightarrow> fst (name_field q) + snd (name_field q) \<le> fst (name_field p)
     \<or> fst (name_field p) + snd (name_field p) \<le> fst (name_field q)"
  by (cases p; simp) (cases p; cases q; simp)

lemma name_fields_cover:
  assumes "n < 64" "n \<noteq> 48"
  shows "\<exists>p. fst (name_field p) \<le> n \<and> n < fst (name_field p) + snd (name_field p)"
proof -
  from assms consider "n < 21" | "21 \<le> n" "n < 32" | "32 \<le> n" "n < 35" | "35 \<le> n" "n < 40" | "40 \<le> n" "n < 48"
    | "49 \<le> n" "n < 56" | "56 \<le> n" "n < 60" | "60 \<le> n" "n < 63" | "n = 63" by linarith
  then show ?thesis
  proof cases
    case 1 then show ?thesis by (intro exI [of _ IdentityNumber]) simp
  next
    case 2 then show ?thesis by (intro exI [of _ ManufacturerCode]) simp
  next
    case 3 then show ?thesis by (intro exI [of _ EcuInstance]) simp
  next
    case 4 then show ?thesis by (intro exI [of _ FunctionInstance]) simp
  next
    case 5 then show ?thesis by (intro exI [of _ FunctionCode]) simp
  next
    case 6 then show ?thesis by (intro exI [of _ DeviceClass]) simp
  next
    case 7 then show ?thesis by (intro exI [of _ DeviceClassInstance]) simp
  next
    case 8 then show ?thesis by (intro exI [of _ IndustryGroup]) simp
  next
    case 9 then show ?thesis by (intro exI [of _ ArbitraryAddressCapable]) simp
  qed
qed

section \<open>Properties\<close>

theorem name_components:
  "name_get p (name_set q v n) = (if p = q then unat v mod 2 ^ snd (name_field p) else name_get p n)
   \<and> (name_eq n n' \<longleftrightarrow> (\<forall>p. name_get p n = name_get p n') \<and> bit (rawName n) 48 = bit (rawName n') 48)"
proof
  show "name_get p (name_set q v n) = (if p = q then unat v mod 2 ^ snd (name_field p) else name_get p n)"
    using field_get_set [OF name_field_layout(1) [of p]] name_field_layout(2) [of q p]
      field_get_other [OF name_field_layout(1) [of q] _ name_field_layout(1) [of p]]
    by (auto simp: name_get_field name_set_field split: prod.splits)
  show "name_eq n n' \<longleftrightarrow> (\<forall>p. name_get p n = name_get p n') \<and> bit (rawName n) 48 = bit (rawName n') 48"
  proof (rule iffI)
    assume "name_eq n n'"
    then show "(\<forall>p. name_get p n = name_get p n') \<and> bit (rawName n) 48 = bit (rawName n') 48"
      by (simp add: name_eq_def name_get_field)
  next
    assume eq: "(\<forall>p. name_get p n = name_get p n') \<and> bit (rawName n) 48 = bit (rawName n') 48"
    have "bit (rawName n) k = bit (rawName n') k" if "k < 64" for k
    proof (cases "k = 48")
      case False
      with that obtain p where p: "fst (name_field p) \<le> k" "k < fst (name_field p) + snd (name_field p)"
        using name_fields_cover by blast
      obtain off w where ow: "name_field p = (off, w)" by fastforce
      with eq have "field_get off w (rawName n) = field_get off w (rawName n')"
        using name_get_field [of p] by (metis prod.case)
      from arg_cong [OF this, of "\<lambda>x. bit x (k - off)"] p ow show ?thesis by (auto simp: bit_field_get)
    qed (use eq in simp)
    then show "name_eq n n'" unfolding name_eq_def by (intro bit_word_eqI) simp
  qed
qed

theorem filter_matches_component:
  "check_name_matches_filter f n \<longleftrightarrow>
     (if parameter f = ArbitraryAddressCapable
      then (name_get (parameter f) n \<noteq> 0) = (filter_value f \<noteq> 0)
      else name_get (parameter f) n = unat (filter_value f))"
  by (cases "parameter f") (auto simp: word_unat_eq_iff)

end
