(* ===== verification/Can_Message.thy ===== *)
theory Can_Message
  imports Can_Identifier Can_Name
begin

text \<open>
  The messages of the stack: \<open>src/isobus/src/can_control_function.cpp\<close> (control functions, which the
  stack shares by pointer: here a store from numbers to records), \<open>can_message.cpp\<close> (the
  message with its predicates and its integer accessors; \<open>at\<close> out of range throws, here
  \<open>None\<close>), \<open>can_message_data.cpp\<close> (data a callback provides in chunks) and
  \<open>can_message_frame.cpp\<close>.
\<close>

section \<open>Control functions\<close>

datatype CFType = CF_Internal | CF_External | CF_Partnered

record ControlFunction =
  controlFunctionType :: CFType
  controlFunctionNAME :: NAME
  claimedAddressSinceLastAddressClaimRequest :: bool
  address :: u8
  canPortIndex :: u8

definition cf_address_valid :: "ControlFunction \<Rightarrow> bool" where
  "cf_address_valid c \<longleftrightarrow> GLOBAL_ADDRESS \<noteq> address c \<and> NULL_ADDRESS \<noteq> address c"

fun get_type_string :: "CFType \<Rightarrow> string" where
  "get_type_string CF_Internal = ''Internal''"
| "get_type_string CF_External = ''External''"
| "get_type_string CF_Partnered = ''Partnered''"

text \<open>A control function object is a number, its identity; the store maps it to its contents.\<close>

type_synonym cf = nat
type_synonym cf_store = "cf \<Rightarrow> ControlFunction"

section \<open>Messages\<close>

datatype MessageType = Transmit | Receive

datatype ByteFormat = LittleEndian | BigEndian

record CANMessage =
  messageType :: MessageType
  msg_identifier :: CANIdentifier
  msg_data :: "u8 list"
  msg_source :: "cf option"
  msg_destination :: "cf option"
  msg_port :: u8
  timestamp_us :: u64

definition make_message ::
    "MessageType \<Rightarrow> CANIdentifier \<Rightarrow> u8 list \<Rightarrow> cf option \<Rightarrow> cf option \<Rightarrow> u8 \<Rightarrow> u64 \<Rightarrow> CANMessage" where
  "make_message t i d s dst port stamp =
     \<lparr>messageType = t, msg_identifier = i, msg_data = d, msg_source = s, msg_destination = dst,
      msg_port = port, timestamp_us = stamp\<rparr>"

definition get_data_length :: "CANMessage \<Rightarrow> u32" where
  "get_data_length m = of_nat (length (msg_data m))"

definition has_valid_source_control_function :: "cf_store \<Rightarrow> CANMessage \<Rightarrow> bool" where
  "has_valid_source_control_function cfs m =
     (case msg_source m of None \<Rightarrow> False | Some c \<Rightarrow> cf_address_valid (cfs c))"

definition has_valid_destination_control_function :: "cf_store \<Rightarrow> CANMessage \<Rightarrow> bool" where
  "has_valid_destination_control_function cfs m =
     (case msg_destination m of None \<Rightarrow> False | Some c \<Rightarrow> cf_address_valid (cfs c))"

definition is_broadcast :: "cf_store \<Rightarrow> CANMessage \<Rightarrow> bool" where
  "is_broadcast cfs m \<longleftrightarrow> \<not> has_valid_destination_control_function cfs m
     \<or> address (cfs (the (msg_destination m))) = GLOBAL_ADDRESS"

definition is_destination_our_device :: "cf_store \<Rightarrow> CANMessage \<Rightarrow> bool" where
  "is_destination_our_device cfs m \<longleftrightarrow> has_valid_destination_control_function cfs m
     \<and> controlFunctionType (cfs (the (msg_destination m))) = CF_Internal"

definition is_destination :: "cf_store \<Rightarrow> cf option \<Rightarrow> CANMessage \<Rightarrow> bool" where
  "is_destination cfs c m \<longleftrightarrow> has_valid_destination_control_function cfs m \<and> msg_destination m = c"

definition is_source :: "cf_store \<Rightarrow> cf option \<Rightarrow> CANMessage \<Rightarrow> bool" where
  "is_source cfs c m \<longleftrightarrow> has_valid_source_control_function cfs m \<and> msg_source m = c"

definition is_parameter_group_number :: "u32 \<Rightarrow> CANMessage \<Rightarrow> bool" where
  "is_parameter_group_number pgn m \<longleftrightarrow> get_parameter_group_number (msg_identifier m) = pgn"

definition set_data :: "u8 list \<Rightarrow> CANMessage \<Rightarrow> CANMessage" where
  "set_data bytes m = m\<lparr>msg_data := msg_data m @ bytes\<rparr>"

definition set_data_byte :: "u8 \<Rightarrow> u32 \<Rightarrow> CANMessage \<Rightarrow> CANMessage option" where
  \<comment> \<open>\<open>data[insertPosition] = dataByte\<close>; out of range is undefined behaviour\<close>
  "set_data_byte byte pos m =
     (if unat pos < length (msg_data m) then Some (m\<lparr>msg_data := (msg_data m)[unat pos := byte]\<rparr>) else None)"

definition set_data_size :: "u32 \<Rightarrow> CANMessage \<Rightarrow> CANMessage" where
  "set_data_size len m =
     m\<lparr>msg_data := take (unat len) (msg_data m) @ replicate (unat len - length (msg_data m)) 0\<rparr>"

section \<open>Reading integers\<close>

definition get_uint8_at :: "u32 \<Rightarrow> CANMessage \<Rightarrow> u8 option" where
  \<comment> \<open>\<open>at\<close> throws out of range\<close>
  "get_uint8_at index m = checked_nth (msg_data m) (unat index)"

definition get_int8_at :: "u32 \<Rightarrow> CANMessage \<Rightarrow> int option" where
  "get_int8_at index m = map_option sint (get_uint8_at index m)"

fun or_bytes :: "ByteFormat \<Rightarrow> u8 list \<Rightarrow> 'a::len word" where
  \<comment> \<open>the chain of shifted bytes, in the order of the buffer\<close>
  "or_bytes LittleEndian [] = 0"
| "or_bytes LittleEndian (b # bs) = ucast b OR push_bit 8 (or_bytes LittleEndian bs)"
| "or_bytes BigEndian [] = 0"
| "or_bytes BigEndian (b # bs) = push_bit (8 * length bs) (ucast b) OR or_bytes BigEndian bs"

definition get_bytes_at :: "nat \<Rightarrow> u32 \<Rightarrow> CANMessage \<Rightarrow> u8 list option" where
  \<comment> \<open>\<open>data.at(index)\<close> up to \<open>data.at(index + n - 1)\<close>, the index wrapping at 32 bits\<close>
  "get_bytes_at n index m = those (map (\<lambda>k. get_uint8_at (index + of_nat k) m) [0..<n])"

definition get_uint16_at :: "u32 \<Rightarrow> ByteFormat \<Rightarrow> CANMessage \<Rightarrow> u16 option" where
  "get_uint16_at index fmt m = map_option (or_bytes fmt) (get_bytes_at 2 index m)"

definition get_int16_at :: "u32 \<Rightarrow> ByteFormat \<Rightarrow> CANMessage \<Rightarrow> int option" where
  "get_int16_at index fmt m = map_option (\<lambda>bs. sint (or_bytes fmt bs :: u16)) (get_bytes_at 2 index m)"

definition get_uint24_at :: "u32 \<Rightarrow> ByteFormat \<Rightarrow> CANMessage \<Rightarrow> u32 option" where
  "get_uint24_at index fmt m = map_option (or_bytes fmt) (get_bytes_at 3 index m)"

definition get_int24_at :: "u32 \<Rightarrow> ByteFormat \<Rightarrow> CANMessage \<Rightarrow> int option" where
  "get_int24_at index fmt m = map_option (\<lambda>bs. sint (or_bytes fmt bs :: u32)) (get_bytes_at 3 index m)"

definition get_uint32_at :: "u32 \<Rightarrow> ByteFormat \<Rightarrow> CANMessage \<Rightarrow> u32 option" where
  "get_uint32_at index fmt m = map_option (or_bytes fmt) (get_bytes_at 4 index m)"

definition get_int32_at :: "u32 \<Rightarrow> ByteFormat \<Rightarrow> CANMessage \<Rightarrow> int option" where
  "get_int32_at index fmt m = map_option (\<lambda>bs. sint (or_bytes fmt bs :: u32)) (get_bytes_at 4 index m)"

definition get_uint64_at :: "u32 \<Rightarrow> ByteFormat \<Rightarrow> CANMessage \<Rightarrow> u64 option" where
  "get_uint64_at index fmt m = map_option (or_bytes fmt) (get_bytes_at 8 index m)"

definition get_int64_at :: "u32 \<Rightarrow> ByteFormat \<Rightarrow> CANMessage \<Rightarrow> int option" where
  "get_int64_at index fmt m = map_option (\<lambda>bs. sint (or_bytes fmt bs :: u64)) (get_bytes_at 8 index m)"

definition get_bool_at :: "u32 \<Rightarrow> u8 \<Rightarrow> u8 \<Rightarrow> CANMessage \<Rightarrow> bool option" where
  "get_bool_at byteIndex bitIndex len m =
     (let bits = (push_bit (unat bitIndex) (mask (unat len)) :: u8)
      in map_option (\<lambda>b. b AND bits = bits) (get_uint8_at byteIndex m))"

record custom_state =
  retVal :: u64
  currentByte :: u8
  bitCounter :: u32
  amountOfBytesLeft :: u32

definition custom_bit :: "u8 list \<Rightarrow> u32 \<Rightarrow> u32 \<Rightarrow> u32 \<Rightarrow> ByteFormat \<Rightarrow> nat \<Rightarrow> custom_state \<Rightarrow> custom_state" where
  \<comment> \<open>the body of the loop over the bits, for bit \<open>i\<close>\<close>
  "custom_bit bytes len endBitIndex startAmountOfBytes fmt i s =
     (let byteIndex = i div 8; bitIndexWithinByte = i mod 8;
          b = drop_bit (7 - bitIndexWithinByte) (bytes ! byteIndex) AND 1;
          shift = (if len - bitCounter s < 8 then unat (len - 1 - bitCounter s) else 7 - bitIndexWithinByte);
          cur = currentByte s OR push_bit shift b;
          s1 = s\<lparr>currentByte := cur\<rparr>;
          s2 = (if (bitCounter s + 1) mod 8 = 0 \<or> of_nat i = endBitIndex
                then s1\<lparr>retVal := retVal s OR
                          (if fmt = LittleEndian
                           then push_bit (unat ((startAmountOfBytes - amountOfBytesLeft s) * 8)) (ucast cur)
                           else push_bit (unat ((amountOfBytesLeft s * 8) - 8)) (ucast cur)),
                        currentByte := 0, amountOfBytesLeft := amountOfBytesLeft s - 1\<rparr>
                else s1)
      in s2\<lparr>bitCounter := bitCounter s + 1\<rparr>)"

definition get_data_custom_length :: "u32 \<Rightarrow> u32 \<Rightarrow> ByteFormat \<Rightarrow> CANMessage \<Rightarrow> u64" where
  \<comment> \<open>for a length above 64 the shifts of the code are undefined behaviour\<close>
  "get_data_custom_length startBitIndex len fmt m =
     (let endBitIndex = startBitIndex + len - 1;
          amount = (len + 8 - 1) div 8
      in if unat endBitIndex \<ge> 8 * length (msg_data m) \<or> len < 1
            \<or> unat startBitIndex \<ge> 8 * length (msg_data m)
         then 0
         else retVal (fold (custom_bit (msg_data m) len endBitIndex amount fmt)
                [unat startBitIndex..<Suc (unat endBitIndex)]
                \<lparr>retVal = 0, currentByte = 0, bitCounter = 0, amountOfBytesLeft = amount\<rparr>))"

section \<open>Message data\<close>

text \<open>The three kinds of data given to the transport layer; a callback provider is a function that
  fills a chunk from an offset.\<close>

record CANMessageDataCallback =
  totalSize :: nat
  chunk_provider :: "nat \<Rightarrow> nat \<Rightarrow> u8 list"
  cb_buffer :: "u8 list"
  bufferSize :: nat
  dataOffset :: nat
  initialized :: bool

definition callback_init :: "nat \<Rightarrow> (nat \<Rightarrow> nat \<Rightarrow> u8 list) \<Rightarrow> nat \<Rightarrow> CANMessageDataCallback" where
  "callback_init sz provider chunkSize =
     \<lparr>totalSize = sz, chunk_provider = provider, cb_buffer = replicate chunkSize 0,
      bufferSize = chunkSize, dataOffset = 0, initialized = False\<rparr>"

definition callback_get_byte :: "nat \<Rightarrow> CANMessageDataCallback \<Rightarrow> u8 \<times> CANMessageDataCallback" where
  "callback_get_byte index c =
     (if index \<ge> totalSize c then (0, c)
      else
        let c1 = (if index \<ge> dataOffset c + bufferSize c \<or> index < dataOffset c \<or> \<not> initialized c
                  then let n = min (totalSize c - index) (bufferSize c);
                           got = chunk_provider c index n
                       in c\<lparr>initialized := True, dataOffset := index,
                            cb_buffer := take n got @ drop n (cb_buffer c)\<rparr>
                  else c)
        in (cb_buffer c1 ! (index - dataOffset c1), c1))"

definition get_number_bits_in_message :: "bool \<Rightarrow> u8 \<Rightarrow> u32" where
  "get_number_bits_in_message isExtendedFrame dataLength =
     (let dataLengthBits = 8 * ucast dataLength :: u32
      in (if isExtendedFrame
          then (dataLengthBits + 67) + (dataLengthBits + dataLengthBits div 5 + 78)
          else (dataLengthBits + 47) + (dataLengthBits + dataLengthBits div 5 + 54)) div 2)"


section \<open>Lemmas\<close>

lemma those_map_Some: "(\<And>x. x \<in> set xs \<Longrightarrow> f x = Some (g x)) \<Longrightarrow> those (map f xs) = Some (map g xs)"
  by (induction xs) simp_all

lemma those_map_None: "x \<in> set xs \<Longrightarrow> f x = None \<Longrightarrow> those (map f xs) = None"
  by (induction xs) (auto split: option.splits)

lemma index_plus:
  "unat index + k < 4294967296 \<Longrightarrow> unat ((index :: u32) + of_nat k) = unat index + k"
  by (simp add: unat_plus_if' unat_of_nat)

lemma get_bytes_at_ok:
  assumes "unat index + n \<le> length (msg_data m)" "length (msg_data m) < 2 ^ 32"
  shows "get_bytes_at n index m = Some (take n (drop (unat index) (msg_data m)))"
proof -
  have "get_bytes_at n index m = Some (map (\<lambda>k. msg_data m ! (unat index + k)) [0..<n])"
    unfolding get_bytes_at_def
    using assms by (intro those_map_Some) (simp add: get_uint8_at_def checked_nth_def index_plus)
  also have "map (\<lambda>k. msg_data m ! (unat index + k)) [0..<n] = take n (drop (unat index) (msg_data m))"
    using assms by (intro nth_equalityI) simp_all
  finally show ?thesis .
qed

lemma get_bytes_at_fails:
  assumes "unat index + n > length (msg_data m)" "0 < n" "unat index + n \<le> 4294967296"
  shows "get_bytes_at n index m = None"
proof (cases "unat index < length (msg_data m)")
  case True
  define k where "k = length (msg_data m) - unat index"
  have "k < n" using assms True by (simp add: k_def)
  then have "unat (index + of_nat k) = unat index + k" using assms(3) by (intro index_plus) simp
  also have "\<dots> = length (msg_data m)" using True by (simp add: k_def)
  finally have "get_uint8_at (index + of_nat k) m = None" by (simp add: get_uint8_at_def checked_nth_def)
  with \<open>k < n\<close> show ?thesis unfolding get_bytes_at_def by (intro those_map_None [of k]) simp_all
next
  case False
  then have "get_uint8_at (index + of_nat 0) m = None" by (simp add: get_uint8_at_def checked_nth_def)
  with assms(2) show ?thesis unfolding get_bytes_at_def by (intro those_map_None [of 0]) simp_all
qed

lemma bit_or_little:
  "bit (or_bytes LittleEndian bs :: 'a::len word) n \<longleftrightarrow>
     n < LENGTH('a) \<and> n < 8 * length bs \<and> bit (bs ! (n div 8)) (n mod 8)"
proof (induction bs arbitrary: n)
  case (Cons b bs)
  show ?case
  proof (cases "n < 8")
    case True
    then show ?thesis by (auto simp: bit_or_iff bit_push_bit_iff bit_ucast_iff)
  next
    case False
    then obtain m where "n = 8 + m" using le_Suc_ex [of 8 n] by auto
    moreover have "(8 + m) div 8 = Suc (m div 8)" "(8 + m) mod 8 = m mod 8" by simp_all
    ultimately show ?thesis
      by (auto simp: bit_or_iff bit_push_bit_iff bit_ucast_iff Cons simp del: div_add_self1 dest: bit_imp_le_length)
  qed
qed simp

lemma or_big_rev: "(or_bytes BigEndian bs :: 'a::len word) = or_bytes LittleEndian (rev bs)"
proof (induction bs)
  case (Cons b bs)
  have "or_bytes LittleEndian (cs @ [b]) = (or_bytes LittleEndian cs OR push_bit (8 * length cs) (ucast b) :: 'a word)" for cs
    by (induction cs) (simp_all add: push_bit_or or.assoc push_bit_push_bit add.commute)
  from this [of "rev bs"] Cons show ?case by (simp add: or.commute)
qed simp

lemma or_little_le_bytes:
  "8 * n \<ge> LENGTH('a) \<Longrightarrow> (or_bytes LittleEndian (le_bytes n x) :: 'a::len word) = x"
  by (rule bit_word_eqI) (auto simp: bit_or_little bit_byte_of)



section \<open>Reading back what was written\<close>

lemma le_bytes_take: "n \<le> k \<Longrightarrow> take n (le_bytes k x) = le_bytes n x"
  by (rule nth_equalityI) simp_all

lemma le_bytes_ucast:
  assumes "8 * n \<le> LENGTH('b)" "8 * n \<le> LENGTH('a)"
  shows "le_bytes n (ucast (x :: 'a::len word) :: 'b::len word) = le_bytes n x"
proof (rule nth_equalityI)
  fix i assume i: "i < length (le_bytes n (ucast x :: 'b word))"
  have "byte_of i (ucast x :: 'b word) = byte_of i x"
  proof (rule bit_word_eqI)
    fix k assume "k < LENGTH(8)"
    then have "8 * i + k < 8 * n" using i by simp
    then show "bit (byte_of i (ucast x :: 'b word)) k = bit (byte_of i x) k"
      using assms by (simp add: bit_byte_of bit_ucast_iff)
  qed
  then show "le_bytes n (ucast x :: 'b word) ! i = le_bytes n x ! i" using i by simp
qed simp

lemma or_little_ucast:
  assumes "8 * n = LENGTH('b)" "8 * n \<le> LENGTH('a)"
  shows "or_bytes LittleEndian (le_bytes n (x :: 'a::len word)) = (ucast x :: 'b::len word)"
  using le_bytes_ucast [of n, where 'a = 'a and 'b = 'b and x = x] or_little_le_bytes [of n "ucast x :: 'b word"] assms by simp

lemma or_little_3:
  "(or_bytes LittleEndian (le_bytes 3 (x :: u64)) :: u32) = take_bit 24 (ucast x)"
proof (rule bit_word_eqI)
  fix n assume "n < LENGTH(32)"
  then show "bit (or_bytes LittleEndian (le_bytes 3 x) :: u32) n = bit (take_bit 24 (ucast x :: u32)) n"
    by (auto simp: bit_or_little bit_byte_of bit_take_bit_iff bit_ucast_iff)
qed

lemma integers_read_back:
  assumes "unat i + 8 \<le> length (msg_data m)" "length (msg_data m) < 2 ^ 32"
  shows "(take 8 (drop (unat i) (msg_data m)) = le_bytes 8 (x :: u64) \<longrightarrow>
      get_uint64_at i LittleEndian m = Some x
      \<and> get_int64_at i LittleEndian m = Some (sint x)
      \<and> get_uint32_at i LittleEndian m = Some (ucast x)
      \<and> get_int32_at i LittleEndian m = Some (sint (ucast x :: u32))
      \<and> get_uint24_at i LittleEndian m = Some (take_bit 24 (ucast x))
      \<and> get_uint16_at i LittleEndian m = Some (ucast x)
      \<and> get_int16_at i LittleEndian m = Some (sint (ucast x :: u16))
      \<and> get_uint8_at i m = Some (ucast x))
    \<and> (take 8 (drop (unat i) (msg_data m)) = rev (le_bytes 8 x) \<longrightarrow> get_uint64_at i BigEndian m = Some x)"
    (is "(_ \<longrightarrow> ?little) \<and> (_ \<longrightarrow> ?big)")
proof -
  have get: "get_bytes_at n i m = Some (take n (take 8 (drop (unat i) (msg_data m))))" if "n \<le> 8" for n
    using get_bytes_at_ok [of i n m] assms that by (simp add: min_def)
  have big: ?big if b: "take 8 (drop (unat i) (msg_data m)) = rev (le_bytes 8 x)"
  proof -
    have "or_bytes LittleEndian (le_bytes 8 x) = x" by (rule or_little_le_bytes) simp
    then show ?thesis using get [of 8] b by (simp add: get_uint64_at_def or_big_rev)
  qed
  have little: ?little if le: "take 8 (drop (unat i) (msg_data m)) = le_bytes 8 x"
  proof -
    have bytes: "get_bytes_at n i m = Some (le_bytes n x)" if "n \<le> 8" for n
      using get [OF that] that by (simp add: le le_bytes_take)
    have "msg_data m ! unat i = take 8 (drop (unat i) (msg_data m)) ! 0" using assms(1) by simp
    also have "\<dots> = ucast x" by (simp add: le byte_of_def)
    finally have one: "get_uint8_at i m = Some (ucast x)" using assms(1) by (simp add: get_uint8_at_def checked_nth_def)
    have w: "(or_bytes LittleEndian (le_bytes 8 x) :: u64) = ucast x"
      "(or_bytes LittleEndian (le_bytes 4 x) :: u32) = ucast x"
      "(or_bytes LittleEndian (le_bytes 2 x) :: u16) = ucast x"
      by (rule or_little_ucast; simp)+
    show ?thesis
      using bytes [of 8] bytes [of 4] bytes [of 3] bytes [of 2] w or_little_3 [of x] one
      by (simp add: get_uint64_at_def get_int64_at_def get_uint32_at_def get_int32_at_def get_uint24_at_def
          get_uint16_at_def get_int16_at_def)
  qed
  show ?thesis using little big by blast
qed

lemma integers_read_back_witness:
  "get_uint64_at 1 LittleEndian
     (make_message Receive (identifier_of_raw 0) (7 # le_bytes 8 (0x8877665544332211 :: u64)) None None 0 0)
     = Some 0x8877665544332211
   \<and> get_uint64_at 0 BigEndian
     (make_message Receive (identifier_of_raw 0) (rev (le_bytes 8 (0x8877665544332211 :: u64))) None None 0 0)
     = Some 0x8877665544332211"
  using integers_read_back [of 1
      "make_message Receive (identifier_of_raw 0) (7 # le_bytes 8 (0x8877665544332211 :: u64)) None None 0 0"
      "0x8877665544332211"]
    integers_read_back [of 0
      "make_message Receive (identifier_of_raw 0) (rev (le_bytes 8 (0x8877665544332211 :: u64))) None None 0 0"
      "0x8877665544332211"]
  by (simp add: make_message_def)

text \<open>
  Reading past the end of a message throws (here: \<open>None\<close>) at every width and in both byte
  orders, and the 24 bit signed accessor never returns a negative number: the sign bit of
  its three bytes is not extended.
\<close>

lemma reads_past_end_fail:
  assumes "n \<in> {1, 2, 3, 4, 8}" "unat i + n > length (msg_data m)" "unat i + n \<le> 2 ^ 32"
  shows "(n = 1 \<longrightarrow> get_uint8_at i m = None \<and> get_int8_at i m = None)
      \<and> (n = 2 \<longrightarrow> get_uint16_at i fmt m = None \<and> get_int16_at i fmt m = None)
      \<and> (n = 3 \<longrightarrow> get_uint24_at i fmt m = None \<and> get_int24_at i fmt m = None)
      \<and> (n = 4 \<longrightarrow> get_uint32_at i fmt m = None \<and> get_int32_at i fmt m = None)
      \<and> (n = 8 \<longrightarrow> get_uint64_at i fmt m = None \<and> get_int64_at i fmt m = None)"
proof -
  have "get_bytes_at n i m = None" using assms by (intro get_bytes_at_fails) auto
  moreover have "n = 1 \<Longrightarrow> get_uint8_at i m = None"
    using assms by (simp add: get_uint8_at_def checked_nth_def)
  ultimately show ?thesis
    by (auto simp: get_int8_at_def get_uint16_at_def get_int16_at_def get_uint24_at_def get_int24_at_def
        get_uint32_at_def get_int32_at_def get_uint64_at_def get_int64_at_def)
qed

text \<open>An instance: four bytes from the last byte of an eight byte message.\<close>

lemma reads_past_end_fail_witness:
  "get_uint32_at 5 BigEndian (make_message Receive (identifier_of_raw 0) [1, 2, 3, 4, 5, 6, 7, 8] None None 0 0)
     = None"
  using reads_past_end_fail [where n = 4 and i = 5 and m =
      "make_message Receive (identifier_of_raw 0) [1, 2, 3, 4, 5, 6, 7, 8] None None 0 0" and fmt = BigEndian]
  by (simp add: make_message_def)

lemma or_bytes_bound:
  "or_bytes fmt bs = (w :: 'a::len word) \<Longrightarrow> 8 * length bs < LENGTH('a) \<Longrightarrow> unat w < 2 ^ (8 * length bs)"
proof -
  assume w: "or_bytes fmt bs = w" and l: "8 * length bs < LENGTH('a)"
  obtain cs where "or_bytes LittleEndian cs = w" "length cs = length bs"
    using w by (cases fmt) (auto simp: or_big_rev)
  then have "take_bit (8 * length bs) w = w"
    by (intro bit_word_eqI) (auto simp: bit_take_bit_iff bit_or_little)
  then show ?thesis by (simp add: take_bit_word_eq_iff)
qed

lemma int24_not_negative:
  assumes "get_int24_at i fmt m = Some v"
  shows "0 \<le> v \<and> v < 2 ^ 24"
proof -
  obtain bs where bs: "get_bytes_at 3 i m = Some bs" and v: "v = sint (or_bytes fmt bs :: u32)"
    using assms by (auto simp: get_int24_at_def)
  define w where "w = (or_bytes fmt bs :: u32)"
  have "length bs = 3"
    using bs by (auto simp: get_bytes_at_def numeral_eq_Suc upt_rec split: option.splits)
  then have b: "unat w < 2 ^ 24"
    using or_bytes_bound [of fmt bs w] by (simp add: w_def)
  have "int (unat w) < 2 ^ 24" using b by (metis of_nat_less_iff of_nat_numeral of_nat_power)
  then have "uint w < 2 ^ 24" by (simp only: uint_nat)
  then have "signed_take_bit 31 (uint w) = uint w"
    by (intro signed_take_bit_int_eq_self) (simp_all add: order_trans [of _ 0])
  then have "sint w = uint w" by (simp add: sint_uint)
  then show ?thesis using \<open>uint w < 2 ^ 24\<close> v by (simp add: w_def)
qed

lemma int24_not_negative_witness:
  "(0 :: int) \<le> 16777215
   \<and> get_int24_at 0 LittleEndian (make_message Receive (identifier_of_raw 0) [255, 255, 255] None None 0 0) = Some 16777215"
proof -
  have e: "get_int24_at 0 LittleEndian (make_message Receive (identifier_of_raw 0) [255, 255, 255] None None 0 0)
      = Some 16777215"
    by code_simp
  show ?thesis using int24_not_negative [OF e] e by simp
qed

section \<open>Callback data\<close>

text \<open>What the transport layer relies on of a chunk provider: it fills the chunk with the bytes of
  the message from the offset.\<close>

definition provides :: "u8 list \<Rightarrow> (nat \<Rightarrow> nat \<Rightarrow> u8 list) \<Rightarrow> bool" where
  "provides bytes p \<longleftrightarrow> (\<forall>off n. off + n \<le> length bytes \<longrightarrow> p off n = take n (drop off bytes))"

definition callback_ok :: "u8 list \<Rightarrow> CANMessageDataCallback \<Rightarrow> bool" where
  "callback_ok bytes c \<longleftrightarrow> provides bytes (chunk_provider c) \<and> totalSize c = length bytes
     \<and> 0 < bufferSize c \<and> length (cb_buffer c) = bufferSize c
     \<and> (initialized c \<longrightarrow> (\<forall>k < bufferSize c. dataOffset c + k < length bytes \<longrightarrow>
           cb_buffer c ! k = bytes ! (dataOffset c + k)))"

fun callback_reads :: "nat list \<Rightarrow> CANMessageDataCallback \<Rightarrow> u8 list" where
  "callback_reads [] c = []"
| "callback_reads (i # is) c = (case callback_get_byte i c of (b, c') \<Rightarrow> b # callback_reads is c')"

lemma callback_init_ok:
  "provides bytes p \<Longrightarrow> 0 < k \<Longrightarrow> callback_ok bytes (callback_init (length bytes) p k)"
  by (simp add: callback_ok_def callback_init_def)

lemma callback_get_byte_ok:
  assumes "callback_ok bytes c"
  shows "fst (callback_get_byte i c) = (if i < length bytes then bytes ! i else 0)
      \<and> callback_ok bytes (snd (callback_get_byte i c))"
proof (cases "i < length bytes")
  case False
  then show ?thesis using assms by (simp add: callback_get_byte_def callback_ok_def)
next
  case True
  show ?thesis
  proof (cases "i \<ge> dataOffset c + bufferSize c \<or> i < dataOffset c \<or> \<not> initialized c")
    case False
    then have "i - dataOffset c < bufferSize c" "dataOffset c + (i - dataOffset c) = i" "initialized c" by auto
    then have "cb_buffer c ! (i - dataOffset c) = bytes ! i"
      using assms True unfolding callback_ok_def by metis
    then show ?thesis using assms True False by (simp add: callback_get_byte_def callback_ok_def)
  next
    case reload: True
    define n where "n = min (length bytes - i) (bufferSize c)"
    define buf where "buf = take n (take n (drop i bytes)) @ drop n (cb_buffer c)"
    have "chunk_provider c i n = take n (drop i bytes)"
      using assms True by (simp add: callback_ok_def provides_def n_def)
    then have get: "callback_get_byte i c =
        (buf ! 0, c\<lparr>initialized := True, dataOffset := i, cb_buffer := buf\<rparr>)"
      using assms True reload by (simp add: callback_get_byte_def callback_ok_def buf_def n_def Let_def)
    have n: "0 < n" "n \<le> bufferSize c" "n \<le> length bytes - i" using assms True by (auto simp: n_def callback_ok_def)
    have "buf ! k = bytes ! (i + k)" if "k < bufferSize c" "i + k < length bytes" for k
    proof -
      have "k < n" using that by (simp add: n_def)
      then show ?thesis using that n(3) by (simp add: buf_def nth_append)
    qed
    moreover have "length buf = bufferSize c"
      using assms n by (simp add: buf_def callback_ok_def)
    ultimately show ?thesis
      using assms True n by (auto simp: get callback_ok_def buf_def nth_append)
  qed
qed

lemma callback_reads_ok:
  "callback_ok bytes c \<Longrightarrow> callback_reads is c = map (\<lambda>i. if i < length bytes then bytes ! i else 0) is"
proof (induction "is" arbitrary: c)
  case (Cons i "is")
  then show ?case using callback_get_byte_ok [OF Cons.prems, of i] by (cases "callback_get_byte i c") simp
qed simp

lemma callback_refines_provider:
  assumes "provides bytes p" "0 < chunk"
  shows "callback_reads indices (callback_init (length bytes) p chunk)
     = map (\<lambda>i. if i < length bytes then bytes ! i else 0) indices"
  by (rule callback_reads_ok [OF callback_init_ok [OF assms]])

lemma callback_refines_provider_witness:
  "callback_reads [4, 0, 3, 1, 7] (callback_init 5 (\<lambda>off n. take n (drop off [10, 20, 30, 40, 50])) 2)
     = [50, 10, 40, 20, 0]"
  using callback_refines_provider [of "[10, 20, 30, 40, 50]" "\<lambda>off n. take n (drop off [10, 20, 30, 40, 50])" 2
      "[4, 0, 3, 1, 7]"]
  by (simp add: provides_def eval_nat_numeral del: callback_reads.simps)

end
