(* ===== verification/Can_Network.thy ===== *)
theory Can_Network
  imports Can_Message
begin

text \<open>
  What every protocol manager of the stack shares: the network configuration
  (\<open>src/isobus/src/can_network_configuration.cpp\<close>), the callback that hands frames to the
  network (accepted or refused by an environment that is part of the state), the messages
  delivered upwards, and the session base class of \<open>can_transport_protocol_base.cpp\<close>. Two
  interfaces are stated as locales: \<open>frame_service\<close>, what a burst of frames relies on, and
  \<open>total_manager\<close>, an event-driven manager whose runs are defined and keep its invariant.
\<close>

section \<open>Network configuration\<close>

record CANNetworkConfiguration =
  maxNumberTransportProtocolSessions :: u32
  minimumTimeBetweenTransportProtocolBAMFrames :: u32
  networkManagerMaxFramesToSendPerUpdate :: u8
  numberOfPacketsPerDPOMessage :: u8
  numberOfPacketsPerCTSMessage :: u8

definition default_configuration :: CANNetworkConfiguration where
  "default_configuration =
     \<lparr>maxNumberTransportProtocolSessions = 4, minimumTimeBetweenTransportProtocolBAMFrames = 50,
      networkManagerMaxFramesToSendPerUpdate = 0xFF, numberOfPacketsPerDPOMessage = 16,
      numberOfPacketsPerCTSMessage = 16\<rparr>"

definition set_max_number_transport_protocol_sessions ::
    "u32 \<Rightarrow> CANNetworkConfiguration \<Rightarrow> CANNetworkConfiguration" where
  "set_max_number_transport_protocol_sessions v c = c\<lparr>maxNumberTransportProtocolSessions := v\<rparr>"

definition set_minimum_time_between_transport_protocol_bam_frames ::
    "u32 \<Rightarrow> CANNetworkConfiguration \<Rightarrow> CANNetworkConfiguration" where
  "set_minimum_time_between_transport_protocol_bam_frames v c =
     (if v \<le> 200 \<and> v \<ge> 10 then c\<lparr>minimumTimeBetweenTransportProtocolBAMFrames := v\<rparr> else c)"

definition set_number_of_packets_per_dpo_message ::
    "u8 \<Rightarrow> CANNetworkConfiguration \<Rightarrow> CANNetworkConfiguration" where
  "set_number_of_packets_per_dpo_message v c = c\<lparr>numberOfPacketsPerDPOMessage := v\<rparr>"

definition set_max_number_of_network_manager_protocol_frames_per_update ::
    "u8 \<Rightarrow> CANNetworkConfiguration \<Rightarrow> CANNetworkConfiguration" where
  "set_max_number_of_network_manager_protocol_frames_per_update v c =
     c\<lparr>networkManagerMaxFramesToSendPerUpdate := v\<rparr>"

definition set_number_of_packets_per_cts_message ::
    "u8 \<Rightarrow> CANNetworkConfiguration \<Rightarrow> CANNetworkConfiguration" where
  "set_number_of_packets_per_cts_message v c = c\<lparr>numberOfPacketsPerCTSMessage := v\<rparr>"

section \<open>The network a protocol manager sees\<close>

text \<open>
  A frame handed to \<open>sendCANFrameCallback\<close>; the network accepts or refuses it. The answers are
  supplied by \<open>tx_replies\<close> (an exhausted list accepts); accepted frames are logged in order.
\<close>

record tx_frame =
  f_pgn :: u32
  f_data :: "u8 list"
  f_source :: cf
  f_destination :: "cf option"
  f_priority :: CANPriority

record completion =
  c_callback :: nat
  c_pgn :: u32
  c_length :: u32
  c_source :: cf
  c_destination :: "cf option"
  c_success :: bool

record can_net =
  cfs :: cf_store
  clock :: u32
  configuration :: CANNetworkConfiguration
  tx_replies :: "bool list"
  tx_log :: "tx_frame list"
  delivered :: "CANMessage list"
  completions :: "completion list"

definition send_frame :: "tx_frame \<Rightarrow> 'w can_net_scheme \<Rightarrow> bool \<times> 'w can_net_scheme" where
  "send_frame f w =
     (let ok = (case tx_replies w of [] \<Rightarrow> True | r # _ \<Rightarrow> r);
          w1 = w\<lparr>tx_replies := tl (tx_replies w)\<rparr>
      in (ok, if ok then w1\<lparr>tx_log := tx_log w1 @ [f]\<rparr> else w1))"

definition deliver :: "CANMessage \<Rightarrow> 'w can_net_scheme \<Rightarrow> 'w can_net_scheme" where
  \<comment> \<open>\<open>canMessageReceivedCallback\<close>: the message goes up the stack\<close>
  "deliver m w = w\<lparr>delivered := delivered w @ [m]\<rparr>"

section \<open>Sessions\<close>

datatype Direction = DirTransmit | DirReceive

text \<open>A session object is known by its pointer, here \<open>sid\<close>.\<close>

record session_base =
  sid :: nat
  direction :: Direction
  parameterGroupNumber :: u32
  session_data :: "u8 list"
  session_source :: cf
  session_destination :: "cf option"
  timestamp_ms :: u32
  totalMessageSize :: u32
  sessionCompleteCallback :: "nat option"

definition session_eq :: "'s session_base_scheme \<Rightarrow> 's session_base_scheme \<Rightarrow> bool" where
  "session_eq s t \<longleftrightarrow> session_source s = session_source t \<and> session_destination s = session_destination t
     \<and> parameterGroupNumber s = parameterGroupNumber t"

definition session_matches :: "cf \<Rightarrow> cf option \<Rightarrow> 's session_base_scheme \<Rightarrow> bool" where
  "session_matches src dst s \<longleftrightarrow> session_source s = src \<and> session_destination s = dst"

definition update_timestamp :: "u32 \<Rightarrow> 's session_base_scheme \<Rightarrow> 's session_base_scheme" where
  "update_timestamp now s = s\<lparr>timestamp_ms := now\<rparr>"

definition get_time_since_last_update :: "u32 \<Rightarrow> 's session_base_scheme \<Rightarrow> u32" where
  "get_time_since_last_update now s = now - timestamp_ms s"

definition complete :: "bool \<Rightarrow> 's session_base_scheme \<Rightarrow> 'w can_net_scheme \<Rightarrow> 'w can_net_scheme" where
  "complete success s w =
     (case sessionCompleteCallback s of
        None \<Rightarrow> w
      | Some cb \<Rightarrow>
          if direction s = DirTransmit
          then w\<lparr>completions := completions w @
                 [\<lparr>c_callback = cb, c_pgn = parameterGroupNumber s, c_length = totalMessageSize s,
                   c_source = session_source s, c_destination = session_destination s,
                   c_success = success\<rparr>]\<rparr>
          else w)"

definition find_session ::
    "cf \<Rightarrow> cf option \<Rightarrow> 's session_base_scheme list \<Rightarrow> 's session_base_scheme option" where
  "find_session src dst ss = find (session_matches src dst) ss"

definition has_session :: "cf \<Rightarrow> cf option \<Rightarrow> 's session_base_scheme list \<Rightarrow> bool" where
  "has_session src dst ss = list_ex (session_matches src dst) ss"

definition erase_session :: "nat \<Rightarrow> 's session_base_scheme list \<Rightarrow> 's session_base_scheme list" where
  "erase_session i ss = filter (\<lambda>s. sid s \<noteq> i) ss"

definition put_session :: "'s session_base_scheme \<Rightarrow> 's session_base_scheme list \<Rightarrow> 's session_base_scheme list" where
  \<comment> \<open>writing through the pointer: a session that was closed is no longer in the list\<close>
  "put_session s ss = map (\<lambda>t. if sid t = sid s then s else t) ss"

text \<open>The bytes of a parameter group number at the end of a connection management frame.\<close>

definition pgn_bytes :: "u32 \<Rightarrow> u8 list" where
  "pgn_bytes pgn = [ucast (pgn AND 0xFF), ucast (drop_bit 8 pgn AND 0xFF), ucast (drop_bit 16 pgn AND 0xFF)]"


section \<open>Session tables\<close>

text \<open>
  What a manager keeps of its session list: the pointers are distinct and older than the next
  one, no two sessions have the same source and destination, and every session satisfies the
  protocol's own condition \<open>P\<close>.
\<close>

definition session_key :: "'s session_base_scheme \<Rightarrow> cf \<times> cf option" where
  "session_key s = (session_source s, session_destination s)"

definition session_table :: "('s session_base_scheme \<Rightarrow> bool) \<Rightarrow> nat \<Rightarrow> 's session_base_scheme list \<Rightarrow> bool" where
  "session_table P n ss \<longleftrightarrow> distinct (map sid ss) \<and> distinct (map session_key ss)
     \<and> (\<forall>s \<in> set ss. sid s < n \<and> P s)"

lemma session_table_Nil: "session_table P n []"
  by (simp add: session_table_def)

lemma session_table_mono: "session_table P n ss \<Longrightarrow> n \<le> m \<Longrightarrow> session_table P m ss"
  by (auto simp: session_table_def)

lemma session_tableD: "session_table P n ss \<Longrightarrow> s \<in> set ss \<Longrightarrow> P s \<and> sid s < n"
  by (simp add: session_table_def)

lemma session_table_unique:
  "session_table P n ss \<Longrightarrow> s \<in> set ss \<Longrightarrow> t \<in> set ss \<Longrightarrow> sid s = sid t \<Longrightarrow> s = t"
  by (auto simp: session_table_def distinct_map inj_on_def)

lemma session_table_erase: "session_table P n ss \<Longrightarrow> session_table P n (erase_session i ss)"
  unfolding session_table_def erase_session_def by (auto simp: distinct_map_filter)

lemma map_put_session:
  "(\<And>t. t \<in> set ss \<Longrightarrow> sid t = sid s \<Longrightarrow> f t = f s) \<Longrightarrow> map f (put_session s ss) = map f ss"
  by (simp add: put_session_def)

lemma session_table_put:
  assumes "session_table P n ss" "t \<in> set ss" "sid s = sid t" "session_key s = session_key t" "P s"
  shows "session_table P n (put_session s ss)"
proof -
  have same: "u = t" if "u \<in> set ss" "sid u = sid s" for u
    using session_table_unique [OF assms(1) that(1) assms(2)] that(2) assms(3) by simp
  have "map sid (put_session s ss) = map sid ss" "map session_key (put_session s ss) = map session_key ss"
    by (intro map_put_session; metis same assms(3,4))+
  moreover have "P u \<and> sid u < n" if "u \<in> set (put_session s ss)" for u
    using that assms session_tableD [OF assms(1)] by (auto simp: put_session_def split: if_splits)
  ultimately show ?thesis using assms(1) by (simp add: session_table_def)
qed

lemma session_table_push:
  "session_table P n ss \<Longrightarrow> \<not> has_session (session_source s) (session_destination s) ss \<Longrightarrow> sid s = n \<Longrightarrow> P s
     \<Longrightarrow> session_table P (Suc n) (ss @ [s])"
  by (auto simp: session_table_def has_session_def session_matches_def session_key_def list_ex_iff less_Suc_eq)

lemma find_session_SomeD:
  "find_session src dst ss = Some s \<Longrightarrow> s \<in> set ss \<and> session_source s = src \<and> session_destination s = dst"
  by (auto simp: find_session_def session_matches_def find_Some_iff in_set_conv_nth)

lemma find_session_None_iff: "find_session src dst ss = None \<longleftrightarrow> \<not> has_session src dst ss"
  by (auto simp: find_session_def has_session_def find_None_iff list_ex_iff)

lemma erase_found_session:
  "session_table P n ss \<Longrightarrow> find_session src dst ss = Some s \<Longrightarrow> \<not> has_session src dst (erase_session (sid s) ss)"
  by (auto dest!: find_session_SomeD simp: session_table_def has_session_def erase_session_def list_ex_iff
      session_matches_def session_key_def distinct_map inj_on_def) 

lemma find_session_append:
  "\<not> has_session src dst ss \<Longrightarrow> session_matches src dst s \<Longrightarrow> find_session src dst (ss @ [s]) = Some s"
  by (induction ss) (auto simp: find_session_def has_session_def)

lemma filter_put_session:
  "filter (\<lambda>t. sid t \<noteq> sid s) (put_session s ss) = filter (\<lambda>t. sid t \<noteq> sid s) ss"
  by (induction ss) (simp_all add: put_session_def)

lemma put_session_mem: "t \<in> set ss \<Longrightarrow> sid t = sid s \<Longrightarrow> s \<in> set (put_session s ss)"
  by (force simp: put_session_def)

lemma find_sid: "session_table P n ss \<Longrightarrow> s \<in> set ss \<Longrightarrow> find (\<lambda>t. sid t = sid s) ss = Some s"
  by (cases "find (\<lambda>t. sid t = sid s) ss")
    (auto simp: find_None_iff find_Some_iff dest: session_table_unique nth_mem)

section \<open>Event-driven managers\<close>

text \<open>
  A manager reacts to one event at a time; \<open>None\<close> is undefined behaviour or an exception. The
  contract: from a good state an admissible event is handled and leaves a good state.
\<close>

fun run_events :: "('e \<Rightarrow> 'w \<Rightarrow> 'w option) \<Rightarrow> 'e list \<Rightarrow> 'w \<Rightarrow> 'w option" where
  "run_events step [] w = Some w"
| "run_events step (e # es) w = Option.bind (step e w) (run_events step es)"

lemma run_events_append:
  "run_events step (es @ fs) w = Option.bind (run_events step es w) (run_events step fs)"
proof (induction es arbitrary: w)
  case (Cons e es)
  then show ?case by (cases "step e w") simp_all
qed simp

locale total_manager =
  fixes step :: "'e \<Rightarrow> 'w \<Rightarrow> 'w option" and admissible :: "'e \<Rightarrow> bool" and good :: "'w \<Rightarrow> bool"
  assumes step_total: "good w \<Longrightarrow> admissible e \<Longrightarrow> \<exists>w'. step e w = Some w' \<and> good w'"
begin

lemma run_total: "good w \<Longrightarrow> list_all admissible es \<Longrightarrow> \<exists>w'. run_events step es w = Some w' \<and> good w'"
proof (induction es arbitrary: w)
  case (Cons e es)
  then obtain w1 where "step e w = Some w1" "good w1" using step_total by force
  with Cons show ?case by simp
qed simp

end

section \<open>The transmit service\<close>

fun send_until :: "('f \<Rightarrow> 'w \<Rightarrow> bool \<times> 'w) \<Rightarrow> 'f list \<Rightarrow> 'w \<Rightarrow> nat \<times> 'w" where
  \<comment> \<open>the shape of the burst loops: send until the network refuses, count what went out\<close>
  "send_until send [] w = (0, w)"
| "send_until send (f # fs) w =
     (case send f w of (ok, w1) \<Rightarrow>
        if ok then (case send_until send fs w1 of (k, w2) \<Rightarrow> (Suc k, w2)) else (0, w1))"

text \<open>What a protocol manager relies on when it hands a frame to the network.\<close>

locale frame_service =
  fixes send :: "'f \<Rightarrow> 'w \<Rightarrow> bool \<times> 'w"
    and sent :: "'w \<Rightarrow> 'f list"
    and rest :: "'w \<Rightarrow> 'r"
  assumes send_accepted: "fst (send f w) \<Longrightarrow> sent (snd (send f w)) = sent w @ [f]"
    and send_refused: "\<not> fst (send f w) \<Longrightarrow> sent (snd (send f w)) = sent w"
    and send_rest: "rest (snd (send f w)) = rest w"
begin

lemma send_until_sent:
  "send_until send fs w = (k, w') \<Longrightarrow>
     k \<le> length fs \<and> sent w' = sent w @ take k fs \<and> rest w' = rest w"
proof (induction fs arbitrary: w k w')
  case (Cons f fs)
  show ?case
  proof (cases "fst (send f w)")
    case True
    then obtain j where "send_until send fs (snd (send f w)) = (j, w')" "k = Suc j"
      using Cons.prems by (auto split: prod.splits)
    with Cons.IH [of "snd (send f w)" j w'] True show ?thesis by (simp add: send_accepted send_rest)
  next
    case False
    then have "k = 0" "w' = snd (send f w)" using Cons.prems by (auto split: prod.splits)
    with False show ?thesis by (simp add: send_refused send_rest)
  qed
qed simp

end

definition net_rest ::
    "'w can_net_scheme \<Rightarrow> (cf_store \<times> u32 \<times> CANNetworkConfiguration \<times> CANMessage list \<times> completion list) \<times> 'w" where
  "net_rest w = ((cfs w, clock w, configuration w, delivered w, completions w), can_net.more w)"

interpretation net: frame_service send_frame tx_log net_rest
  by unfold_locales (auto simp: send_frame_def net_rest_def Let_def)

lemma send_frame_fields [simp]:
  "cfs (snd (send_frame f w)) = cfs w" "clock (snd (send_frame f w)) = clock w"
  "configuration (snd (send_frame f w)) = configuration w" "delivered (snd (send_frame f w)) = delivered w"
  "completions (snd (send_frame f w)) = completions w" "can_net.more (snd (send_frame f w)) = can_net.more w"
  by (simp_all add: send_frame_def Let_def)

lemma send_frame_log:
  "tx_log (snd (send_frame f w)) = tx_log w @ (if fst (send_frame f w) then [f] else [])"
  by (simp add: send_frame_def Let_def)

lemma complete_fields [simp]:
  "cfs (complete b s w) = cfs w" "clock (complete b s w) = clock w" "tx_log (complete b s w) = tx_log w"
  "tx_replies (complete b s w) = tx_replies w"
  "configuration (complete b s w) = configuration w" "delivered (complete b s w) = delivered w"
  "can_net.more (complete b s w) = can_net.more w"
  by (simp_all add: complete_def split: option.split)


section \<open>Managers\<close>

text \<open>A protocol manager: the network and its list of sessions.\<close>

record 's manager = can_net +
  activeSessions :: "'s list"
  next_sid :: nat

definition put_active :: "'s session_base_scheme \<Rightarrow> 's session_base_scheme manager \<Rightarrow> 's session_base_scheme manager" where
  "put_active s w = w\<lparr>activeSessions := put_session s (activeSessions w)\<rparr>"

definition push_active :: "'s \<Rightarrow> 's manager \<Rightarrow> 's manager" where
  "push_active s w = w\<lparr>activeSessions := activeSessions w @ [s]\<rparr>"

definition new_sid :: "'s manager \<Rightarrow> nat \<times> 's manager" where
  "new_sid w = (next_sid w, w\<lparr>next_sid := Suc (next_sid w)\<rparr>)"

definition close_session ::
    "'s session_base_scheme \<Rightarrow> bool \<Rightarrow> 's session_base_scheme manager \<Rightarrow> 's session_base_scheme manager" where
  "close_session s successful w =
     (let w1 = complete successful s w in w1\<lparr>activeSessions := erase_session (sid s) (activeSessions w1)\<rparr>)"

definition sessions_full :: "'s manager \<Rightarrow> bool" where
  "sessions_full w \<longleftrightarrow>
     length (activeSessions w) \<ge> unat (maxNumberTransportProtocolSessions (configuration w))"

definition tick :: "u32 \<Rightarrow> 's manager \<Rightarrow> 's manager" where
  "tick d w = w\<lparr>clock := clock w + d\<rparr>"

definition table_ok :: "('s session_base_scheme \<Rightarrow> bool) \<Rightarrow> 's session_base_scheme manager \<Rightarrow> bool" where
  "table_ok P w \<longleftrightarrow> session_table P (next_sid w) (activeSessions w)"

lemma manager_send_frame [simp]:
  fixes w :: "'s manager"
  shows "activeSessions (snd (send_frame f w)) = activeSessions w" "next_sid (snd (send_frame f w)) = next_sid w"
  by (simp_all add: send_frame_def Let_def)

lemma manager_complete [simp]:
  fixes w :: "'s manager"
  shows "activeSessions (complete b s w) = activeSessions w" "next_sid (complete b s w) = next_sid w"
  by (simp_all add: complete_def split: option.split)

lemma manager_deliver [simp]:
  fixes w :: "'s manager"
  shows "activeSessions (deliver m w) = activeSessions w" "next_sid (deliver m w) = next_sid w"
  by (simp_all add: deliver_def)

lemma deliver_net [simp]: "cfs (deliver m w) = cfs w" "clock (deliver m w) = clock w" "tx_replies (deliver m w) = tx_replies w"
  by (simp_all add: deliver_def)

lemma close_net [simp]:
  "clock (close_session s b w) = clock w" "cfs (close_session s b w) = cfs w" "tx_log (close_session s b w) = tx_log w"
  "delivered (close_session s b w) = delivered w" "configuration (close_session s b w) = configuration w"
  by (simp_all add: close_session_def Let_def)

lemma put_net [simp]:
  "clock (put_active s w) = clock w" "cfs (put_active s w) = cfs w" "tx_log (put_active s w) = tx_log w"
  "delivered (put_active s w) = delivered w" "configuration (put_active s w) = configuration w"
  "tx_replies (put_active s w) = tx_replies w"
  by (simp_all add: put_active_def)

lemma net_rest_manager:
  fixes w w' :: "'s manager"
  shows "net_rest w' = net_rest w \<Longrightarrow> activeSessions w' = activeSessions w \<and> next_sid w' = next_sid w \<and> clock w' = clock w
     \<and> cfs w' = cfs w \<and> configuration w' = configuration w \<and> delivered w' = delivered w \<and> completions w' = completions w"
  by (cases w; cases w') (simp add: net_rest_def)

text \<open>
  The parts of a session that writing it back must not change: its pointer, its pair of control
  functions, and whether it satisfies the protocol's condition \<open>P\<close>.
\<close>

definition same_session :: "('s session_base_scheme \<Rightarrow> bool) \<Rightarrow> 's session_base_scheme \<Rightarrow> 's session_base_scheme \<Rightarrow> bool" where
  "same_session P s t \<longleftrightarrow> sid s = sid t \<and> session_key s = session_key t \<and> P s = P t"

lemma same_session_refl [simp]: "same_session P s s"
  by (simp add: same_session_def)

lemma table_ok_put:
  "table_ok P w \<Longrightarrow> t \<in> set (activeSessions w) \<Longrightarrow> same_session P s t \<Longrightarrow> table_ok P (put_active s w)"
  unfolding table_ok_def put_active_def same_session_def
  by (simp add: session_table_put [of _ _ _ t] session_tableD)

lemma table_ok_close: "table_ok P w \<Longrightarrow> table_ok P (close_session s b w)"
  by (simp add: table_ok_def close_session_def Let_def session_table_erase)

lemma table_ok_frame [simp]: "table_ok P (snd (send_frame f w)) = table_ok P w"
  by (simp add: table_ok_def)

lemma table_ok_deliver [simp]: "table_ok P (deliver m w) = table_ok P w"
  by (simp add: table_ok_def)

lemma table_ok_push:
  assumes "table_ok P w" "\<not> has_session (session_source s) (session_destination s) (activeSessions w)"
    "sid s = next_sid w" "P s"
  shows "table_ok P (push_active s (snd (new_sid w)))"
  using assms by (simp add: table_ok_def push_active_def new_sid_def session_table_push)

lemma table_ok_new_sid: "table_ok P w \<Longrightarrow> table_ok P (snd (new_sid w))"
  by (auto simp: table_ok_def new_sid_def intro: session_table_mono)

lemma table_ok_session: "table_ok P w \<Longrightarrow> s \<in> set (activeSessions w) \<Longrightarrow> P s"
  by (simp add: table_ok_def session_tableD)

lemma table_ok_net_rest: "net_rest w' = net_rest w \<Longrightarrow> table_ok P w' = table_ok P w"
  using net_rest_manager [of w' w] by (simp add: table_ok_def)

lemma active_put:
  "t \<in> set (activeSessions w) \<Longrightarrow> same_session P s t \<Longrightarrow> s \<in> set (activeSessions (put_active s w))"
  by (simp add: put_active_def same_session_def put_session_mem)

lemma table_ok_found:
  "table_ok P w \<Longrightarrow> find_session src dst (activeSessions w) = Some s \<Longrightarrow> same_session P t s \<Longrightarrow> table_ok P (put_active t w)"
  by (blast dest: find_session_SomeD intro: table_ok_put)

lemma find_put_same:
  "find_session src dst ss = Some s \<Longrightarrow> session_table P n ss \<Longrightarrow> sid t = sid s \<Longrightarrow> session_key t = session_key s
    \<Longrightarrow> find_session src dst (put_session t ss) = Some t"
proof (induction ss arbitrary: n)
  case (Cons u ss)
  show ?case
  proof (cases "session_matches src dst u")
    case True
    then have "u = s" using Cons.prems(1) by (simp add: find_session_def)
    then show ?thesis using True Cons.prems(3,4)
      by (simp add: put_session_def find_session_def session_matches_def session_key_def)
  next
    case False
    then have f: "find_session src dst ss = Some s" using Cons.prems(1) by (simp add: find_session_def)
    then have "s \<in> set ss" by (blast dest: find_session_SomeD)
    then have "sid u \<noteq> sid t" using Cons.prems(2,3) by (auto simp: session_table_def)
    moreover have "session_table P n ss" using Cons.prems(2) by (simp add: session_table_def)
    ultimately show ?thesis
      using Cons.IH [OF f _ Cons.prems(3,4)] False by (simp add: put_session_def find_session_def)
  qed
qed (simp add: find_session_def)

lemma found_put:
  "table_ok P w \<Longrightarrow> find_session src dst (activeSessions w) = Some s \<Longrightarrow> same_session P t s
    \<Longrightarrow> find_session src dst (activeSessions (put_active t w)) = Some t"
  unfolding table_ok_def same_session_def put_active_def by (auto intro: find_put_same)

lemma close_old_session:
  assumes "table_ok P w" "find_session src dst (activeSessions w) = Some s"
    "activeSessions w' = erase_session (sid s) (activeSessions w)" "next_sid w' = next_sid w"
  shows "table_ok P w' \<and> \<not> has_session src dst (activeSessions w')"
  using assms by (simp add: table_ok_def session_table_erase erase_found_session)

text \<open>A manager whose operation is defined and keeps its table.\<close>

definition fine :: "('s session_base_scheme \<Rightarrow> bool) \<Rightarrow> 's session_base_scheme manager option \<Rightarrow> bool" where
  "fine P r \<longleftrightarrow> (\<exists>w. r = Some w \<and> table_ok P w)"

lemma fine_Some [simp]: "fine P (Some w) = table_ok P w"
  by (simp add: fine_def)

lemma fine_bind: "fine P r \<Longrightarrow> (\<And>w. table_ok P w \<Longrightarrow> fine P (f w)) \<Longrightarrow> fine P (Option.bind r f)"
  by (auto simp: fine_def)

section \<open>Operations on one session\<close>

text \<open>What handling one session leaves unchanged: the other sessions, the clock, the store.\<close>

definition other_sessions :: "nat \<Rightarrow> 's session_base_scheme manager \<Rightarrow> 's session_base_scheme list" where
  "other_sessions i w = filter (\<lambda>s. sid s \<noteq> i) (activeSessions w)"

definition touches_only :: "nat \<Rightarrow> 's session_base_scheme manager \<Rightarrow> 's session_base_scheme manager \<Rightarrow> bool" where
  "touches_only i w w' \<longleftrightarrow> other_sessions i w' = other_sessions i w \<and> clock w' = clock w \<and> cfs w' = cfs w"

lemma others_frame [simp]: "other_sessions i (snd (send_frame f w)) = other_sessions i w"
  by (simp add: other_sessions_def)

lemma others_put [simp]: "sid s = i \<Longrightarrow> other_sessions i (put_active s w) = other_sessions i w"
  using filter_put_session [of s "activeSessions w"] by (simp add: other_sessions_def put_active_def)

lemma others_close [simp]: "other_sessions (sid s) (close_session s b w) = other_sessions (sid s) w"
  by (simp add: other_sessions_def close_session_def Let_def erase_session_def)

lemma touches_refl [simp]: "touches_only i w w"
  by (simp add: touches_only_def)

lemma touches_close: "touches_only (sid s) w (close_session s b w)"
  by (simp add: touches_only_def)

lemma sid_other:
  "i \<noteq> j \<Longrightarrow> (\<exists>t \<in> set (activeSessions w). sid t = i) \<longleftrightarrow> (\<exists>t \<in> set (other_sessions j w). sid t = i)"
  by (auto simp: other_sessions_def)

lemma touches_absent:
  "touches_only j w w' \<Longrightarrow> \<forall>t \<in> set (activeSessions w). sid t \<noteq> i \<Longrightarrow> i \<noteq> j \<Longrightarrow> \<forall>t \<in> set (activeSessions w'). sid t \<noteq> i"
  using sid_other [of i j w] sid_other [of i j w'] by (simp add: touches_only_def)

lemma touches_kept:
  "touches_only j w w' \<Longrightarrow> s \<in> set (activeSessions w) \<Longrightarrow> sid s \<noteq> j \<Longrightarrow> s \<in> set (activeSessions w')"
proof -
  assume t: "touches_only j w w'" and s: "s \<in> set (activeSessions w)" "sid s \<noteq> j"
  have "s \<in> set (other_sessions j w)" using s by (simp add: other_sessions_def)
  then have "s \<in> set (other_sessions j w')" using t by (simp add: touches_only_def)
  then show ?thesis by (simp add: other_sessions_def)
qed

lemma closed_absent: "\<forall>t \<in> set (activeSessions (close_session s b w)). sid t \<noteq> sid s"
  by (simp add: close_session_def Let_def erase_session_def)


section \<open>Packets and frames\<close>

text \<open>The number of packets a message takes, seven bytes each.\<close>

definition packet_count :: "nat \<Rightarrow> nat" where
  "packet_count len = (len + 6) div 7"

text \<open>The seven payload bytes of packet \<open>k\<close>: data, and 0xFF after its end.\<close>

definition payload :: "u8 list \<Rightarrow> nat \<Rightarrow> u8 list" where
  "payload data k = map (\<lambda>j. if 7 * k + j < length data then data ! (7 * k + j) else 0xFF) [0..<7]"

lemma length_payload [simp]: "length (payload data k) = 7"
  by (simp add: payload_def)

lemma take_payload: "7 * k < length data \<Longrightarrow> take (min 7 (length data - 7 * k)) (payload data k) = take 7 (drop (7 * k) data)"
  by (rule nth_equalityI) (auto simp: payload_def)

text \<open>One more packet written behind a correct prefix.\<close>

lemma prefix_extends:
  assumes prefix: "take (7 * k) old = take (7 * k) data" and ld: "length d = length data" and k7: "7 * k < length data"
    and dt: "take (7 * k + min 7 (length data - 7 * k)) d = take (7 * k) old @ take (min 7 (length data - 7 * k)) (payload data k)"
  shows "take (7 * Suc k) d = take (7 * Suc k) data"
proof -
  have "take (7 * k + min 7 (length data - 7 * k)) d = take (7 * k) data @ take 7 (drop (7 * k) data)"
    using dt prefix k7 by (simp add: take_payload)
  also have "\<dots> = take (7 * k + 7) data" by (simp add: take_add)
  finally show ?thesis using ld k7 by (cases "length data - 7 * k < 7") (simp_all add: min_def add.commute)
qed

lemma message_bytes:
  assumes "get_data_length m = 8" "length (msg_data m) < 2 ^ 32"
  shows "length (msg_data m) = 8"
  using assms by (simp add: get_data_length_def word_unat_eq_iff unat_of_nat)

text \<open>A message the network can hold: fewer than two to the 32 bytes.\<close>

definition bounded_message :: "CANMessage \<Rightarrow> bool" where
  "bounded_message m \<longleftrightarrow> length (msg_data m) < 2 ^ 32"

lemma uint8_at_ok:
  assumes "length (msg_data m) = 8" "unat i < 8"
  shows "get_uint8_at i m = Some (msg_data m ! unat i)"
  using assms by (simp add: get_uint8_at_def checked_nth_def)

text \<open>The message the network makes of a frame.\<close>

definition carried :: "tx_frame \<Rightarrow> CANMessage \<Rightarrow> bool" where
  "carried f m \<longleftrightarrow> msg_source m = Some (f_source f) \<and> msg_destination m = f_destination f
     \<and> get_parameter_group_number (msg_identifier m) = f_pgn f \<and> msg_data m = f_data f"

text \<open>A receiver that listens to a pair of control functions.\<close>

definition listens :: "cf_store \<Rightarrow> cf \<Rightarrow> cf option \<Rightarrow> bool" where
  "listens store src dst \<longleftrightarrow> cf_address_valid (store src)
     \<and> (\<forall>d. dst = Some d \<longrightarrow> cf_address_valid (store d) \<and> controlFunctionType (store d) = CF_Internal)"

lemma listens_message:
  assumes "listens store src dst" "msg_source m = Some src" "msg_destination m = dst"
  shows "has_valid_source_control_function store m" "is_broadcast store m \<longleftrightarrow> dst = None"
    "is_destination_our_device store m \<or> is_broadcast store m"
  using assms
  by (cases dst; simp add: listens_def has_valid_source_control_function_def is_broadcast_def
      has_valid_destination_control_function_def is_destination_our_device_def cf_address_valid_def)+

lemma byte_of_mask: "ucast (drop_bit (8 * i) x AND 0xFF) = byte_of i (x :: 'a::len word)"
proof -
  have m: "(0xFF :: 'a word) = mask 8" by (simp add: mask_eq_exp_minus_1)
  show ?thesis unfolding m
    by (rule bit_word_eqI)
      (auto simp: byte_of_def bit_ucast_iff bit_and_iff bit_drop_bit_eq bit_mask_iff dest: bit_imp_le_length)
qed

lemma le_bytes_short:
  "le_bytes 2 x = [byte_of 0 x, byte_of 1 x]" "le_bytes 3 x = [byte_of 0 x, byte_of 1 x, byte_of 2 x]"
  by (simp_all add: le_bytes_def upt_rec numeral_2_eq_2)

lemma pgn_bytes_le: "pgn_bytes pgn = le_bytes 3 pgn"
  using byte_of_mask [of 0 pgn] byte_of_mask [of 1 pgn] byte_of_mask [of 2 pgn]
  by (simp add: pgn_bytes_def le_bytes_short)

lemma read_le3:
  assumes "length (msg_data m) = 8" "drop 5 (msg_data m) = le_bytes 3 pgn" "unat (pgn :: u32) < 2 ^ 24"
  shows "get_uint24_at 5 LittleEndian m = Some pgn"
proof -
  have "get_bytes_at 3 5 m = Some (le_bytes 3 pgn)"
    using get_bytes_at_ok [of 5 3 m] assms(1,2) by simp
  moreover have "or_bytes LittleEndian (le_bytes 3 pgn) = take_bit 24 pgn"
    by (rule bit_word_eqI) (auto simp: bit_or_little bit_byte_of bit_take_bit_iff)
  moreover have "take_bit 24 pgn = pgn" using assms(3) by (simp add: take_bit_word_eq_iff)
  ultimately show ?thesis by (simp add: get_uint24_at_def)
qed

lemma read_le2:
  assumes "length (msg_data m) = 8" "take 2 (drop 1 (msg_data m)) = le_bytes 2 (sz :: u16)"
  shows "get_uint16_at 1 LittleEndian m = Some sz"
proof -
  have "get_bytes_at 2 1 m = Some (le_bytes 2 sz)" using get_bytes_at_ok [of 1 2 m] assms by simp
  then show ?thesis by (simp add: get_uint16_at_def or_little_le_bytes)
qed

lemma send_until_accepting:
  "tx_replies w = [] \<Longrightarrow> send_until send_frame fs w = (length fs, w\<lparr>tx_log := tx_log w @ fs\<rparr>)"
  by (induction fs arbitrary: w) (simp_all add: send_frame_def)

text \<open>Two devices and the messages between them, for concrete runs.\<close>

definition as_message :: "tx_frame \<Rightarrow> CANMessage" where
  "as_message f = make_message Receive (make_identifier Extended (f_pgn f) (f_priority f) 0x26 0x1C) (f_data f)
     (Some (f_source f)) (f_destination f) 0 0"

lemma carried_as_message:
  assumes "f_pgn f \<in> {0xEC00, 0xEB00, 0xC800, 0xC700}" "f_priority f = PriorityLowest7"
  shows "carried f (as_message f)"
proof -
  have "get_parameter_group_number (make_identifier Extended 0xEC00 PriorityLowest7 0x26 0x1C) = 0xEC00"
    "get_parameter_group_number (make_identifier Extended 0xEB00 PriorityLowest7 0x26 0x1C) = 0xEB00"
    "get_parameter_group_number (make_identifier Extended 0xC800 PriorityLowest7 0x26 0x1C) = 0xC800"
    "get_parameter_group_number (make_identifier Extended 0xC700 PriorityLowest7 0x26 0x1C) = 0xC700" by code_simp+
  then show ?thesis using assms by (auto simp: carried_def as_message_def make_message_def)
qed

definition demo_store :: cf_store where
  "demo_store c = \<lparr>controlFunctionType = CF_Internal, controlFunctionNAME = name_of_raw 0,
     claimedAddressSinceLastAddressClaimRequest = False, address = (if c = 7 then 0x1C else 0x26), canPortIndex = 0\<rparr>"

end
