(* ===== verification/Transport_Protocol.thy ===== *)
theory Transport_Protocol
  imports Can_Network "HOL-Library.Monad_Syntax"
begin

text \<open>
  The transport protocol manager, \<open>src/isobus/src/can_transport_protocol.cpp\<close>: sessions with
  their counters at machine width, every connection management and data transfer handler, the
  state machine, and the periodic update. A session lives in the list of its manager and is
  written back by its pointer. \<open>None\<close> is undefined behaviour (a write outside the buffer)
  or an exception (\<open>at\<close> out of range). The lemmas show that every operation is defined and
  keeps the session table. Callbacks of the application (delivery, completion) are recorded and
  are taken not to call the manager back.
\<close>

section \<open>Sessions\<close>

datatype StateMachineState =
    StateNone | SendBroadcastAnnounce | SendRequestToSend | WaitForClearToSend | SendClearToSend
  | WaitForDataTransferPacket | SendDataTransferPackets | WaitForEndOfMessageAcknowledge

datatype ConnectionAbortReason =
    Reserved | AlreadyInCMSession | SystemResourcesNeeded | Timeout
  | ClearToSendReceivedWhileTransferInProgress | MaximumRetransmitRequestLimitReached
  | UnexpectedDataTransferPacketReceived | BadSequenceNumber | DuplicateSequenceNumber
  | TotalMessageSizeTooBig | AnyOtherError

fun reason_number :: "ConnectionAbortReason \<Rightarrow> u8" where
  "reason_number Reserved = 0"
| "reason_number AlreadyInCMSession = 1"
| "reason_number SystemResourcesNeeded = 2"
| "reason_number Timeout = 3"
| "reason_number ClearToSendReceivedWhileTransferInProgress = 4"
| "reason_number MaximumRetransmitRequestLimitReached = 5"
| "reason_number UnexpectedDataTransferPacketReceived = 6"
| "reason_number BadSequenceNumber = 7"
| "reason_number DuplicateSequenceNumber = 8"
| "reason_number TotalMessageSizeTooBig = 9"
| "reason_number AnyOtherError = 250"

abbreviation (input) REQUEST_TO_SEND_MULTIPLEXOR :: u8 where "REQUEST_TO_SEND_MULTIPLEXOR \<equiv> 0x10"
abbreviation (input) CLEAR_TO_SEND_MULTIPLEXOR :: u8 where "CLEAR_TO_SEND_MULTIPLEXOR \<equiv> 0x11"
abbreviation (input) END_OF_MESSAGE_ACKNOWLEDGE_MULTIPLEXOR :: u8 where "END_OF_MESSAGE_ACKNOWLEDGE_MULTIPLEXOR \<equiv> 0x13"
abbreviation (input) BROADCAST_ANNOUNCE_MESSAGE_MULTIPLEXOR :: u8 where "BROADCAST_ANNOUNCE_MESSAGE_MULTIPLEXOR \<equiv> 0x20"
abbreviation (input) CONNECTION_ABORT_MULTIPLEXOR :: u8 where "CONNECTION_ABORT_MULTIPLEXOR \<equiv> 0xFF"
abbreviation (input) MAX_PROTOCOL_DATA_LENGTH :: nat where "MAX_PROTOCOL_DATA_LENGTH \<equiv> 1785"
abbreviation (input) T1_TIMEOUT_MS :: u32 where "T1_TIMEOUT_MS \<equiv> 750"
abbreviation (input) T2_T3_TIMEOUT_MS :: u32 where "T2_T3_TIMEOUT_MS \<equiv> 1250"
abbreviation (input) TransportProtocolConnectionManagement :: u32 where "TransportProtocolConnectionManagement \<equiv> 0xEC00"
abbreviation (input) TransportProtocolDataTransfer :: u32 where "TransportProtocolDataTransfer \<equiv> 0xEB00"

record tp_session = session_base +
  tp_state :: StateMachineState
  lastSequenceNumber :: u8
  lastAcknowledgedPacketNumber :: u8
  clearToSendPacketCount :: u8
  clearToSendPacketCountMax :: u8

type_synonym tp = "tp_session manager"

definition make_tp_session ::
    "nat \<Rightarrow> Direction \<Rightarrow> u8 list \<Rightarrow> u32 \<Rightarrow> u16 \<Rightarrow> u8 \<Rightarrow> cf \<Rightarrow> cf option \<Rightarrow> nat option \<Rightarrow> tp_session" where
  "make_tp_session i dir data pgn sz ctsMax src dst cb =
     \<lparr>sid = i, direction = dir, parameterGroupNumber = pgn, session_data = data, session_source = src,
      session_destination = dst, timestamp_ms = 0, totalMessageSize = ucast sz, sessionCompleteCallback = cb,
      tp_state = StateNone, lastSequenceNumber = 0, lastAcknowledgedPacketNumber = 0,
      clearToSendPacketCount = 0, clearToSendPacketCountMax = ctsMax\<rparr>"

definition get_message_length :: "tp_session \<Rightarrow> u16" where
  "get_message_length s = ucast (totalMessageSize s)"

definition session_is_broadcast :: "tp_session \<Rightarrow> bool" where
  "session_is_broadcast s \<longleftrightarrow> session_destination s = None"

definition get_last_packet_number :: "tp_session \<Rightarrow> u8" where
  "get_last_packet_number s = lastSequenceNumber s"

definition get_total_bytes_transferred :: "tp_session \<Rightarrow> u32" where
  "get_total_bytes_transferred s =
     (let transferred = ucast (get_last_packet_number s) * 7
      in if transferred > ucast (get_message_length s) then ucast (get_message_length s) else transferred)"

definition set_state :: "StateMachineState \<Rightarrow> u32 \<Rightarrow> tp_session \<Rightarrow> tp_session" where
  "set_state v now s = update_timestamp now (s\<lparr>tp_state := v\<rparr>)"

definition get_cts_number_of_packets_remaining :: "tp_session \<Rightarrow> u8" where
  "get_cts_number_of_packets_remaining s =
     (let packetsSinceCTS = get_last_packet_number s - lastAcknowledgedPacketNumber s
      in clearToSendPacketCount s - packetsSinceCTS)"

definition set_cts_number_of_packets :: "u8 \<Rightarrow> u32 \<Rightarrow> tp_session \<Rightarrow> tp_session" where
  "set_cts_number_of_packets v now s = update_timestamp now (s\<lparr>clearToSendPacketCount := v\<rparr>)"

definition set_last_sequency_number :: "u8 \<Rightarrow> u32 \<Rightarrow> tp_session \<Rightarrow> tp_session" where
  "set_last_sequency_number v now s = update_timestamp now (s\<lparr>lastSequenceNumber := v\<rparr>)"

definition set_acknowledged_packet_number :: "u8 \<Rightarrow> u32 \<Rightarrow> tp_session \<Rightarrow> tp_session" where
  "set_acknowledged_packet_number v now s = update_timestamp now (s\<lparr>lastAcknowledgedPacketNumber := v\<rparr>)"

definition get_total_number_of_packets :: "tp_session \<Rightarrow> u8" where
  "get_total_number_of_packets s =
     (let totalNumberOfPackets = ucast (get_message_length s div 7)
      in if get_message_length s mod 7 > 0 then totalNumberOfPackets + 1 else totalNumberOfPackets)"

definition get_number_of_remaining_packets :: "tp_session \<Rightarrow> u8" where
  "get_number_of_remaining_packets s = get_total_number_of_packets s - get_last_packet_number s"

section \<open>Sending\<close>

definition cm_frame :: "u8 list \<Rightarrow> cf \<Rightarrow> cf option \<Rightarrow> tx_frame" where
  \<comment> \<open>a connection management frame\<close>
  "cm_frame bytes sender receiver =
     \<lparr>f_pgn = TransportProtocolConnectionManagement, f_data = bytes, f_source = sender,
      f_destination = receiver, f_priority = PriorityLowest7\<rparr>"

definition send_abort :: "cf \<Rightarrow> cf \<Rightarrow> u32 \<Rightarrow> ConnectionAbortReason \<Rightarrow> tp \<Rightarrow> bool \<times> tp" where
  "send_abort sender receiver pgn reason w =
     send_frame (cm_frame ([CONNECTION_ABORT_MULTIPLEXOR, reason_number reason, 0xFF, 0xFF, 0xFF] @ pgn_bytes pgn)
       sender (Some receiver)) w"

definition abort_session :: "tp_session \<Rightarrow> ConnectionAbortReason \<Rightarrow> tp \<Rightarrow> bool \<times> tp" where
  "abort_session s reason w =
     (let (myControlFunction, partnerControlFunction) =
        (if direction s = DirTransmit then (Some (session_source s), session_destination s)
         else (session_destination s, Some (session_source s)));
          (retVal, w1) =
            (case (myControlFunction, partnerControlFunction) of
               (Some me, Some partner) \<Rightarrow> send_abort me partner (parameterGroupNumber s) reason w
             | _ \<Rightarrow> (False, w))
      in (retVal, close_session s False w1))"

definition length_bytes :: "tp_session \<Rightarrow> u8 list" where
  "length_bytes s = [ucast (get_message_length s AND 0xFF), ucast (drop_bit 8 (get_message_length s) AND 0xFF)]"

definition send_broadcast_announce_message :: "tp_session \<Rightarrow> tp \<Rightarrow> bool \<times> tp" where
  "send_broadcast_announce_message s w =
     send_frame (cm_frame ([BROADCAST_ANNOUNCE_MESSAGE_MULTIPLEXOR] @ length_bytes s
         @ [get_total_number_of_packets s, 0xFF] @ pgn_bytes (parameterGroupNumber s))
       (session_source s) None) w"

definition send_request_to_send :: "tp_session \<Rightarrow> tp \<Rightarrow> bool \<times> tp" where
  "send_request_to_send s w =
     send_frame (cm_frame ([REQUEST_TO_SEND_MULTIPLEXOR] @ length_bytes s
         @ [get_total_number_of_packets s, clearToSendPacketCountMax s] @ pgn_bytes (parameterGroupNumber s))
       (session_source s) (session_destination s)) w"

definition packets_this_segment :: "tp_session \<Rightarrow> u8" where
  "packets_this_segment s =
     (let packetsThisSegment = get_number_of_remaining_packets s
      in if packetsThisSegment > clearToSendPacketCountMax s then clearToSendPacketCountMax s
         else if packetsThisSegment > 16 then 16
         else packetsThisSegment)"

definition send_clear_to_send :: "tp_session \<Rightarrow> tp \<Rightarrow> bool \<times> tp_session \<times> tp" where
  \<comment> \<open>the session object is changed in place; callers write it back\<close>
  "send_clear_to_send s w =
     (let packetsThisSegment = packets_this_segment s;
          (retVal, w1) =
            send_frame (cm_frame ([CLEAR_TO_SEND_MULTIPLEXOR, packetsThisSegment, get_last_packet_number s + 1, 0xFF, 0xFF]
                @ pgn_bytes (parameterGroupNumber s))
              (the (session_destination s)) (Some (session_source s))) w;
          s1 = (if retVal
                then set_acknowledged_packet_number (get_last_packet_number s) (clock w1)
                       (set_cts_number_of_packets packetsThisSegment (clock w1) s)
                else s)
      in (retVal, s1, put_active s1 w1))"

definition send_end_of_session_acknowledgement :: "tp_session \<Rightarrow> tp \<Rightarrow> bool \<times> tp" where
  "send_end_of_session_acknowledgement s w =
     send_frame (cm_frame ([END_OF_MESSAGE_ACKNOWLEDGE_MULTIPLEXOR] @ length_bytes s
         @ [get_total_number_of_packets s, 0xFF] @ pgn_bytes (parameterGroupNumber s))
       (the (session_destination s)) (Some (session_source s))) w"

definition packet_byte :: "tp_session \<Rightarrow> u16 \<Rightarrow> nat \<Rightarrow> u8 option" where
  "packet_byte s base j =
     (let index = base + of_nat j
      in if index < get_message_length s then checked_nth (session_data s) (unat index) else Some 0xFF)"

definition packet_bytes :: "tp_session \<Rightarrow> u8 list option" where
  \<comment> \<open>the buffer of the next data transfer frame; \<open>get_byte\<close> throws past the end of the data\<close>
  "packet_bytes s =
     (let base = ucast (get_last_packet_number s) * 7
      in map_option (\<lambda>bs. (lastSequenceNumber s + 1) # bs) (those (map (packet_byte s base) [0..<7])))"

fun send_packets :: "nat \<Rightarrow> tp_session \<Rightarrow> tp \<Rightarrow> (tp_session \<times> tp) option" where
  \<comment> \<open>the loop over \<open>framesToSend\<close>; \<open>None\<close> is the exception of \<open>get_byte\<close>\<close>
  "send_packets 0 s w = Some (s, w)"
| "send_packets (Suc n) s w =
     do {
       buffer \<leftarrow> packet_bytes s;
       let (ok, w1) = send_frame \<lparr>f_pgn = TransportProtocolDataTransfer, f_data = buffer,
              f_source = session_source s, f_destination = session_destination s, f_priority = PriorityLowest7\<rparr> w;
       if ok then send_packets n (set_last_sequency_number (lastSequenceNumber s + 1) (clock w1) s) w1
       else Some (s, w1)
     }"

definition frames_to_send :: "tp_session \<Rightarrow> tp \<Rightarrow> u8" where
  "frames_to_send s w =
     (let framesToSend = get_cts_number_of_packets_remaining s
      in if session_is_broadcast s then 1
         else if framesToSend > networkManagerMaxFramesToSendPerUpdate (configuration w)
         then networkManagerMaxFramesToSendPerUpdate (configuration w)
         else framesToSend)"

definition after_packets :: "tp_session \<Rightarrow> tp \<Rightarrow> tp" where
  \<comment> \<open>the end of \<open>send_data_transfer_packets\<close>\<close>
  "after_packets s w =
     (if get_number_of_remaining_packets s = 0
      then (if session_is_broadcast s then close_session s True w
            else put_active (set_state WaitForEndOfMessageAcknowledge (clock w) s) w)
      else if get_cts_number_of_packets_remaining s = 0 \<and> \<not> session_is_broadcast s
      then put_active (set_state WaitForClearToSend (clock w) s) w
      else w)"

definition send_data_transfer_packets :: "tp_session \<Rightarrow> tp \<Rightarrow> tp option" where
  "send_data_transfer_packets s w =
     do {
       (s1, w1) \<leftarrow> send_packets (unat (frames_to_send s w)) s w;
       Some (after_packets s1 (put_active s1 w1))
     }"

section \<open>The state machine of a session\<close>

definition update_waiting_cts :: "tp_session \<Rightarrow> tp \<Rightarrow> tp" where
  \<comment> \<open>the case \<open>WaitForClearToSend\<close>\<close>
  "update_waiting_cts s w =
     (if get_time_since_last_update (clock w) s > T2_T3_TIMEOUT_MS
      then (if clearToSendPacketCount s > 0 then snd (abort_session s Timeout w)
            else close_session s False w)
      else w)"

definition update_waiting_data :: "tp_session \<Rightarrow> tp \<Rightarrow> tp" where
  \<comment> \<open>the case \<open>WaitForDataTransferPacket\<close>\<close>
  "update_waiting_data s w =
     (if session_is_broadcast s
      then (if get_time_since_last_update (clock w) s > T1_TIMEOUT_MS then close_session s False w else w)
      else if get_cts_number_of_packets_remaining s = clearToSendPacketCount s
      then (if get_time_since_last_update (clock w) s > T2_T3_TIMEOUT_MS then snd (abort_session s Timeout w) else w)
      else (if get_time_since_last_update (clock w) s > T1_TIMEOUT_MS then snd (abort_session s Timeout w) else w))"

fun update_state_machine_in :: "StateMachineState \<Rightarrow> tp_session \<Rightarrow> tp \<Rightarrow> tp option" where
  "update_state_machine_in StateNone s w = Some w"
| "update_state_machine_in SendBroadcastAnnounce s w =
     (let (ok, w1) = send_broadcast_announce_message s w
      in Some (if ok then put_active (set_state SendDataTransferPackets (clock w1) s) w1 else w1))"
| "update_state_machine_in SendRequestToSend s w =
     (let (ok, w1) = send_request_to_send s w
      in Some (if ok then put_active (set_state WaitForClearToSend (clock w1) s) w1 else w1))"
| "update_state_machine_in WaitForClearToSend s w = Some (update_waiting_cts s w)"
| "update_state_machine_in SendClearToSend s w =
     (let (ok, s1, w1) = send_clear_to_send s w
      in Some (if ok then put_active (set_state WaitForDataTransferPacket (clock w1) s1) w1 else w1))"
| "update_state_machine_in SendDataTransferPackets s w =
     (if session_is_broadcast s
         \<and> get_time_since_last_update (clock w) s < minimumTimeBetweenTransportProtocolBAMFrames (configuration w)
      then Some w else send_data_transfer_packets s w)"
| "update_state_machine_in WaitForDataTransferPacket s w = Some (update_waiting_data s w)"
| "update_state_machine_in WaitForEndOfMessageAcknowledge s w =
     Some (if get_time_since_last_update (clock w) s > T2_T3_TIMEOUT_MS
           then snd (abort_session s Timeout w) else w)"

definition update_state_machine :: "tp_session \<Rightarrow> tp \<Rightarrow> tp option" where
  "update_state_machine s w = update_state_machine_in (tp_state s) s w"

section \<open>Received messages\<close>

definition process_broadcast_announce_message :: "cf \<Rightarrow> u32 \<Rightarrow> u16 \<Rightarrow> u8 \<Rightarrow> tp \<Rightarrow> tp option" where
  "process_broadcast_announce_message src pgn sz packets w =
     (if sessions_full w then Some w
      else if unat sz > MAX_PROTOCOL_DATA_LENGTH then Some w
      else
        let w1 = (case find_session src None (activeSessions w) of
                    None \<Rightarrow> w | Some oldSession \<Rightarrow> close_session oldSession False w);
            (i, w2) = new_sid w1;
            newSession = make_tp_session i DirReceive (replicate (unat sz) 0) pgn sz 0xFF src None None
        in if get_total_number_of_packets newSession \<noteq> packets then Some w2
           else
             let s1 = set_state WaitForDataTransferPacket (clock w2) newSession
             in update_state_machine s1 (push_active s1 w2))"

definition process_request_to_send :: "cf \<Rightarrow> cf \<Rightarrow> u32 \<Rightarrow> u16 \<Rightarrow> u8 \<Rightarrow> u8 \<Rightarrow> tp \<Rightarrow> tp option" where
  "process_request_to_send src dst pgn sz packets ctsMax w =
     (if sessions_full w then Some (snd (send_abort dst src pgn AlreadyInCMSession w))
      else
        let w1 = (case find_session src (Some dst) (activeSessions w) of
                    None \<Rightarrow> w
                  | Some oldSession \<Rightarrow>
                      if parameterGroupNumber oldSession \<noteq> pgn
                      then snd (abort_session oldSession AlreadyInCMSession w)
                      else close_session oldSession False w);
            limit = numberOfPacketsPerCTSMessage (configuration w1);
            ctsMax1 = (if ctsMax > limit then limit else ctsMax);
            (i, w2) = new_sid w1;
            newSession = make_tp_session i DirReceive (replicate (unat sz) 0) pgn sz ctsMax1 src (Some dst) None
        in if get_total_number_of_packets newSession \<noteq> packets
           then Some (snd (abort_session newSession AnyOtherError w2))
           else
             let s1 = set_state SendClearToSend (clock w2) newSession
             in update_state_machine s1 (push_active s1 w2))"

definition process_clear_to_send :: "cf \<Rightarrow> cf \<Rightarrow> u32 \<Rightarrow> u8 \<Rightarrow> u8 \<Rightarrow> tp \<Rightarrow> tp" where
  "process_clear_to_send src dst pgn packetsToBeSent nextPacketNumber w =
     (case find_session dst (Some src) (activeSessions w) of
        None \<Rightarrow> w
      | Some s \<Rightarrow>
          if parameterGroupNumber s \<noteq> pgn
          then snd (send_abort dst src pgn ClearToSendReceivedWhileTransferInProgress
                 (snd (abort_session s ClearToSendReceivedWhileTransferInProgress w)))
          else if nextPacketNumber > get_total_number_of_packets s
          then snd (abort_session s BadSequenceNumber w)
          else if tp_state s \<noteq> WaitForClearToSend
          then snd (abort_session s ClearToSendReceivedWhileTransferInProgress w)
          else
            let s1 = set_cts_number_of_packets packetsToBeSent (clock w)
                       (set_acknowledged_packet_number (nextPacketNumber - 1) (clock w) s);
                s2 = (if packetsToBeSent \<noteq> 0 then set_state SendDataTransferPackets (clock w) s1 else s1)
            in put_active s2 w)"

definition process_end_of_session_acknowledgement :: "cf \<Rightarrow> cf \<Rightarrow> u32 \<Rightarrow> tp \<Rightarrow> tp" where
  "process_end_of_session_acknowledgement src dst pgn w =
     (case find_session dst (Some src) (activeSessions w) of
        None \<Rightarrow> w
      | Some s \<Rightarrow>
          if tp_state s = WaitForEndOfMessageAcknowledge
          then close_session (s\<lparr>tp_state := StateNone\<rparr>) True w
          else w)"

definition close_if_pgn :: "cf \<Rightarrow> cf \<Rightarrow> u32 \<Rightarrow> tp \<Rightarrow> tp" where
  \<comment> \<open>one half of \<open>process_abort\<close>\<close>
  "close_if_pgn src dst pgn w =
     (case find_session src (Some dst) (activeSessions w) of
        None \<Rightarrow> w
      | Some s \<Rightarrow> if parameterGroupNumber s = pgn then close_session s False w else w)"

definition process_abort :: "cf \<Rightarrow> cf \<Rightarrow> u32 \<Rightarrow> tp \<Rightarrow> tp" where
  "process_abort src dst pgn w = close_if_pgn dst src pgn (close_if_pgn src dst pgn w)"

definition process_connection_management_message :: "CANMessage \<Rightarrow> tp \<Rightarrow> tp option" where
  "process_connection_management_message m w =
     (if get_data_length m \<noteq> 8 then Some w
      else do {
        pgn \<leftarrow> get_uint24_at 5 LittleEndian m;
        mux \<leftarrow> get_uint8_at 0 m;
        let src = the (msg_source m);
        let dst = the (msg_destination m);
        if mux = BROADCAST_ANNOUNCE_MESSAGE_MULTIPLEXOR then
          (if is_broadcast (cfs w) m then do {
             sz \<leftarrow> get_uint16_at 1 LittleEndian m;
             packets \<leftarrow> get_uint8_at 3 m;
             process_broadcast_announce_message src pgn sz packets w
           } else Some w)
        else if mux = REQUEST_TO_SEND_MULTIPLEXOR then
          (if is_broadcast (cfs w) m then Some w
           else do {
             sz \<leftarrow> get_uint16_at 1 LittleEndian m;
             packets \<leftarrow> get_uint8_at 3 m;
             ctsMax \<leftarrow> get_uint8_at 4 m;
             process_request_to_send src dst pgn sz packets ctsMax w
           })
        else if mux = CLEAR_TO_SEND_MULTIPLEXOR then
          (if is_broadcast (cfs w) m then Some w
           else do {
             packetsToBeSent \<leftarrow> get_uint8_at 1 m;
             nextPacketNumber \<leftarrow> get_uint8_at 2 m;
             Some (process_clear_to_send src dst pgn packetsToBeSent nextPacketNumber w)
           })
        else if mux = END_OF_MESSAGE_ACKNOWLEDGE_MULTIPLEXOR then
          (if is_broadcast (cfs w) m then Some w
           else Some (process_end_of_session_acknowledgement src dst pgn w))
        else if mux = CONNECTION_ABORT_MULTIPLEXOR then
          (if is_broadcast (cfs w) m then Some w
           else do {
             reason \<leftarrow> get_uint8_at 1 m;
             Some (process_abort src dst pgn w)
           })
        else Some w
      })"

definition copy_packet :: "CANMessage \<Rightarrow> tp_session \<Rightarrow> tp_session option" where
  \<comment> \<open>the copy of up to seven bytes to the buffer; \<open>None\<close> is a write out of bounds\<close>
  "copy_packet m s =
     (let currentDataIndex = 7 * unat (get_last_packet_number s);
          bytes_to_copy = min 7 (unat (get_message_length s) - currentDataIndex)
      in map_option (\<lambda>d. s\<lparr>session_data := d\<rparr>)
           (checked_write currentDataIndex (take bytes_to_copy (drop 1 (msg_data m))) (session_data s)))"

definition completed_message :: "CANMessage \<Rightarrow> tp_session \<Rightarrow> cf_store \<Rightarrow> CANMessage" where
  "completed_message m s store =
     make_message Receive
       (make_identifier Extended (parameterGroupNumber s) PriorityDefault6
          (if session_is_broadcast s then GLOBAL_ADDRESS else address (store (the (session_destination s))))
          (address (store (session_source s))))
       (session_data s) (Some (session_source s)) (session_destination s) 0 (timestamp_us m)"

definition accept_packet :: "CANMessage \<Rightarrow> u8 \<Rightarrow> tp_session \<Rightarrow> tp \<Rightarrow> tp option" where
  \<comment> \<open>the branch of the next sequence number\<close>
  "accept_packet m sequenceNumber s w =
     (if 7 * unat (get_last_packet_number s) \<ge> unat (get_message_length s)
      then Some (snd (abort_session s AnyOtherError w))
      else do {
        s1 \<leftarrow> copy_packet m s;
        let s2 = set_last_sequency_number sequenceNumber (clock w) s1;
        let w1 = put_active s2 w;
        if get_number_of_remaining_packets s2 = 0
        then
          (let w2 = (if is_broadcast (cfs w1) m then w1 else snd (send_end_of_session_acknowledgement s2 w1));
               w3 = deliver (completed_message m s2 (cfs w2)) w2
           in Some (close_session s2 True w3))
        else if get_cts_number_of_packets_remaining s2 = 0
        then (let (_, _, w2) = send_clear_to_send s2 w1 in Some w2)
        else Some w1
      })"

definition process_data_transfer_message :: "CANMessage \<Rightarrow> tp \<Rightarrow> tp option" where
  "process_data_transfer_message m w =
     (if get_data_length m \<noteq> 8 then Some w
      else do {
        let src = the (msg_source m);
        let dst = (if is_broadcast (cfs w) m then None else msg_destination m);
        sequenceNumber \<leftarrow> get_uint8_at 0 m;
        (case find_session src dst (activeSessions w) of
           None \<Rightarrow> Some w
         | Some s \<Rightarrow>
             if tp_state s \<noteq> WaitForDataTransferPacket
             then Some (snd (abort_session s UnexpectedDataTransferPacketReceived w))
             else if sequenceNumber = lastSequenceNumber s
             then Some (snd (abort_session s DuplicateSequenceNumber w))
             else if unat sequenceNumber = unat (lastSequenceNumber s) + 1
             then accept_packet m sequenceNumber s w
             else Some (snd (abort_session s BadSequenceNumber w)))
      })"

definition process_message :: "CANMessage \<Rightarrow> tp \<Rightarrow> tp option" where
  "process_message m w =
     (if has_valid_source_control_function (cfs w) m
         \<and> (is_destination_our_device (cfs w) m \<or> is_broadcast (cfs w) m)
      then
        (if get_parameter_group_number (msg_identifier m) = TransportProtocolConnectionManagement
         then process_connection_management_message m w
         else if get_parameter_group_number (msg_identifier m) = TransportProtocolDataTransfer
         then process_data_transfer_message m w
         else Some w)
      else Some w)"

section \<open>Transmission and periodic update\<close>

definition protocol_transmit_message ::
    "u32 \<Rightarrow> u8 list option \<Rightarrow> cf option \<Rightarrow> cf option \<Rightarrow> nat option \<Rightarrow> tp \<Rightarrow> (bool \<times> tp) option" where
  "protocol_transmit_message pgn data source dst cb w =
     (case (data, source) of
        (Some bytes, Some src) \<Rightarrow>
          if length bytes \<le> 8 \<or> length bytes > MAX_PROTOCOL_DATA_LENGTH then Some (False, w)
          else if \<not> cf_address_valid (cfs w src) \<or> has_session src dst (activeSessions w) then Some (False, w)
          else
            let (i, w1) = new_sid w;
                s = make_tp_session i DirTransmit bytes pgn (of_nat (length bytes))
                      (numberOfPacketsPerCTSMessage (configuration w1)) src dst cb;
                s1 = set_state (if session_is_broadcast s then SendBroadcastAnnounce else SendRequestToSend) (clock w1) s
            in map_option (\<lambda>w2. (True, w2)) (update_state_machine s1 (push_active s1 w1))
      | _ \<Rightarrow> Some (False, w))"

definition update_session :: "tp_session \<Rightarrow> tp \<Rightarrow> tp option" where
  \<comment> \<open>the body of the loop of \<open>update\<close>\<close>
  "update_session s w =
     (if \<not> cf_address_valid (cfs w (session_source s)) then Some (close_session s False w)
      else if \<not> session_is_broadcast s \<and> \<not> cf_address_valid (cfs w (the (session_destination s)))
      then Some (close_session s False w)
      else if tp_state s \<noteq> StateNone then update_state_machine s w
      else Some w)"

fun update_sessions :: "nat list \<Rightarrow> tp \<Rightarrow> tp option" where
  \<comment> \<open>the loop over a copy of the list of pointers; a pointer is read when its turn comes\<close>
  "update_sessions [] w = Some w"
| "update_sessions (i # is) w =
     do {
       w1 \<leftarrow> (case find (\<lambda>s. sid s = i) (activeSessions w) of None \<Rightarrow> Some w | Some s \<Rightarrow> update_session s w);
       update_sessions is w1
     }"

definition update :: "tp \<Rightarrow> tp option" where
  "update w = update_sessions (map sid (activeSessions w)) w"

section \<open>Frames\<close>

lemmas setter_defs = set_state_def set_cts_number_of_packets_def set_last_sequency_number_def
  set_acknowledged_packet_number_def update_timestamp_def

lemmas cm_sender_defs = send_abort_def send_broadcast_announce_message_def send_request_to_send_def
  send_end_of_session_acknowledgement_def

lemma cm_senders [simp]:
  "activeSessions (snd (send_abort a b p r w)) = activeSessions w" "next_sid (snd (send_abort a b p r w)) = next_sid w"
  "activeSessions (snd (send_broadcast_announce_message s w)) = activeSessions w"
  "next_sid (snd (send_broadcast_announce_message s w)) = next_sid w"
  "activeSessions (snd (send_request_to_send s w)) = activeSessions w"
  "next_sid (snd (send_request_to_send s w)) = next_sid w"
  "activeSessions (snd (send_end_of_session_acknowledgement s w)) = activeSessions w"
  "next_sid (snd (send_end_of_session_acknowledgement s w)) = next_sid w"
  by (simp_all add: cm_sender_defs)

section \<open>The session table of a manager\<close>

definition session_ok :: "tp_session \<Rightarrow> bool" where
  "session_ok s \<longleftrightarrow> length (session_data s) = unat (totalMessageSize s) \<and> unat (totalMessageSize s) < 65536"

abbreviation tp_ok :: "tp \<Rightarrow> bool" where
  "tp_ok \<equiv> table_ok session_ok"

lemma same_session_set [simp]:
  "same_session session_ok (set_state v n s) t = same_session session_ok s t"
  "same_session session_ok (set_cts_number_of_packets c n s) t = same_session session_ok s t"
  "same_session session_ok (set_last_sequency_number c n s) t = same_session session_ok s t"
  "same_session session_ok (set_acknowledged_packet_number c n s) t = same_session session_ok s t"
  by (simp_all add: same_session_def setter_defs session_key_def session_ok_def)

lemma message_length_ok: "session_ok s \<Longrightarrow> unat (get_message_length s) = unat (totalMessageSize s)"
  by (simp add: session_ok_def get_message_length_def unsigned_ucast_eq take_bit_nat_eq_self)

lemma tp_ok_cm_senders [simp]:
  "tp_ok (snd (send_abort a b p r w)) = tp_ok w" "tp_ok (snd (send_broadcast_announce_message s w)) = tp_ok w"
  "tp_ok (snd (send_request_to_send s w)) = tp_ok w" "tp_ok (snd (send_end_of_session_acknowledgement s w)) = tp_ok w"
  by (simp_all add: table_ok_def)

lemma abort_session_alt:
  "snd (abort_session s r w) = close_session s False
     (case session_destination s of None \<Rightarrow> w
      | Some d \<Rightarrow>
          if direction s = DirTransmit then snd (send_abort (session_source s) d (parameterGroupNumber s) r w)
          else snd (send_abort d (session_source s) (parameterGroupNumber s) r w))"
  by (cases "session_destination s"; cases "direction s = DirTransmit") (simp_all add: abort_session_def split_beta)

lemma tp_ok_abort: "tp_ok w \<Longrightarrow> tp_ok (snd (abort_session s r w))"
  by (auto simp: abort_session_alt intro!: table_ok_close split: option.split)

section \<open>The packets of a session\<close>

lemma packet_bytes_ok:
  assumes "session_ok s"
  shows "packet_bytes s = Some ((lastSequenceNumber s + 1) # payload (session_data s) (unat (lastSequenceNumber s)))"
proof -
  let ?b = "ucast (get_last_packet_number s) * 7 :: u16"
  have b: "unat ?b = 7 * unat (lastSequenceNumber s)"
    using mod_less [of "unat (lastSequenceNumber s) * 7" 65536] unat_u8_bound [of "lastSequenceNumber s"]
    by (simp add: get_last_packet_number_def unat_word_ariths del: mod_less)
  have "packet_byte s ?b j = Some (payload (session_data s) (unat (lastSequenceNumber s)) ! j)" if j: "j < 7" for j
  proof -
    have "unat (?b + of_nat j) = 7 * unat (lastSequenceNumber s) + j"
    proof -
      have "7 * unat (lastSequenceNumber s) + j < 65536" using j unat_u8_bound [of "lastSequenceNumber s"] by linarith
      then show ?thesis using b j by (simp add: unat_plus_if' unat_of_nat)
    qed
    then show ?thesis
      using assms j message_length_ok [OF assms]
      by (simp add: packet_byte_def Let_def payload_def word_less_nat_alt checked_nth_def session_ok_def)
  qed
  then have "those (map (packet_byte s ?b) [0..<7]) = Some (map ((!) (payload (session_data s) (unat (lastSequenceNumber s)))) [0..<7])"
    by (intro those_map_Some) simp
  also have "map ((!) (payload (session_data s) (unat (lastSequenceNumber s)))) [0..<7] = payload (session_data s) (unat (lastSequenceNumber s))"
    by (metis length_payload map_nth)
  finally show ?thesis by (simp add: packet_bytes_def)
qed

definition data_frame :: "tp_session \<Rightarrow> u8 \<Rightarrow> tx_frame" where
  "data_frame s k =
     \<lparr>f_pgn = TransportProtocolDataTransfer, f_data = (k + 1) # payload (session_data s) (unat k),
      f_source = session_source s, f_destination = session_destination s, f_priority = PriorityLowest7\<rparr>"

fun advance :: "nat \<Rightarrow> u32 \<Rightarrow> tp_session \<Rightarrow> tp_session" where
  "advance 0 now s = s"
| "advance (Suc n) now s = advance n now (set_last_sequency_number (lastSequenceNumber s + 1) now s)"

lemma advance_fields:
  "session_data (advance n now s) = session_data s \<and> session_source (advance n now s) = session_source s
   \<and> session_destination (advance n now s) = session_destination s \<and> session_ok (advance n now s) = session_ok s
   \<and> same_session session_ok (advance n now s) t = same_session session_ok s t \<and> totalMessageSize (advance n now s) = totalMessageSize s
   \<and> lastSequenceNumber (advance n now s) = lastSequenceNumber s + of_nat n
   \<and> parameterGroupNumber (advance n now s) = parameterGroupNumber s
   \<and> direction (advance n now s) = direction s \<and> sid (advance n now s) = sid s
   \<and> sessionCompleteCallback (advance n now s) = sessionCompleteCallback s
   \<and> clearToSendPacketCount (advance n now s) = clearToSendPacketCount s
   \<and> lastAcknowledgedPacketNumber (advance n now s) = lastAcknowledgedPacketNumber s
   \<and> tp_state (advance n now s) = tp_state s"
  by (induction n arbitrary: s)
    (simp_all add: setter_defs session_ok_def same_session_def session_key_def algebra_simps)

text \<open>The burst loop sends the packets in order until the network refuses one.\<close>

lemma send_packets_burst:
  "session_ok s \<Longrightarrow>
   send_packets n s w =
     (case send_until send_frame (map (\<lambda>i. data_frame s (lastSequenceNumber s + of_nat i)) [0..<n]) w of
        (k, w') \<Rightarrow> Some (advance k (clock w) s, w'))"
proof (induction n arbitrary: s w)
  case (Suc n)
  obtain ok w1 where send: "send_frame (data_frame s (lastSequenceNumber s)) w = (ok, w1)" by fastforce
  then have clk: "clock w1 = clock w" using send_frame_fields(2) [of "data_frame s (lastSequenceNumber s)" w] by simp
  let ?s = "set_last_sequency_number (lastSequenceNumber s + 1) (clock w) s"
  have ok: "session_ok ?s" using Suc.prems by (simp add: setter_defs session_ok_def)
  have seq: "map (\<lambda>i. data_frame s (lastSequenceNumber s + of_nat i)) [0..<Suc n]
      = data_frame s (lastSequenceNumber s) # map (\<lambda>i. data_frame ?s (lastSequenceNumber ?s + of_nat i)) [0..<n]"
    unfolding upt_conv_Cons [OF zero_less_Suc] map_Suc_upt [symmetric]
    by (simp add: data_frame_def setter_defs o_def algebra_simps)
  have step: "send_packets (Suc n) s w = (if ok then send_packets n ?s w1 else Some (s, w1))"
    using send Suc.prems clk by (simp add: packet_bytes_ok data_frame_def)
  show ?case unfolding step seq using Suc.IH [OF ok, of w1] send clk by (simp split: prod.splits)
qed simp

lemma send_packets_ok:
  assumes "session_ok s"
  obtains k w' where "send_packets n s w = Some (advance k (clock w) s, w')" "k \<le> n" "net_rest w' = net_rest w"
    "tx_log w' = tx_log w @ map (\<lambda>i. data_frame s (lastSequenceNumber s + of_nat i)) [0..<k]"
proof -
  obtain k w' where burst:
      "send_until send_frame (map (\<lambda>i. data_frame s (lastSequenceNumber s + of_nat i)) [0..<n]) w = (k, w')"
    by fastforce
  from net.send_until_sent [OF burst] have "k \<le> n" "net_rest w' = net_rest w"
    "tx_log w' = tx_log w @ map (\<lambda>i. data_frame s (lastSequenceNumber s + of_nat i)) [0..<k]"
    by (simp_all add: take_map)
  then show thesis using that burst by (simp add: send_packets_burst [OF assms])
qed

section \<open>Every operation keeps the table\<close>

abbreviation tp_fine :: "tp option \<Rightarrow> bool" where
  "tp_fine \<equiv> fine session_ok"

lemma after_packets_ok:
  "tp_ok w \<Longrightarrow> s \<in> set (activeSessions w) \<Longrightarrow> tp_ok (after_packets s w)"
  by (auto simp: after_packets_def intro: table_ok_close table_ok_put)

lemma send_data_fine:
  assumes "tp_ok w" "s \<in> set (activeSessions w)"
  shows "tp_fine (send_data_transfer_packets s w)"
proof -
  have s: "session_ok s" using assms by (rule table_ok_session)
  obtain k w' where send: "send_packets (unat (frames_to_send s w)) s w = Some (advance k (clock w) s, w')"
    and rest: "net_rest w' = net_rest w"
    by (rule send_packets_ok [OF s])
  have mem: "s \<in> set (activeSessions w')" using net_rest_manager [OF rest] assms(2) by simp
  have same: "same_session session_ok (advance k (clock w) s) s" using advance_fields [of k "clock w" s s] by simp
  have "tp_ok (put_active (advance k (clock w) s) w')"
    using table_ok_net_rest [OF rest] assms(1) by (intro table_ok_put [OF _ mem same]) simp
  then show ?thesis
    using send after_packets_ok [OF _ active_put [OF mem same]] by (simp add: send_data_transfer_packets_def)
qed

definition cts_frame :: "tp_session \<Rightarrow> tx_frame" where
  "cts_frame s = cm_frame ([CLEAR_TO_SEND_MULTIPLEXOR, packets_this_segment s, get_last_packet_number s + 1, 0xFF, 0xFF]
     @ pgn_bytes (parameterGroupNumber s)) (the (session_destination s)) (Some (session_source s))"

definition granted :: "u32 \<Rightarrow> tp_session \<Rightarrow> tp_session" where
  "granted now s = set_acknowledged_packet_number (get_last_packet_number s) now
     (set_cts_number_of_packets (packets_this_segment s) now s)"

lemma send_clear_to_send_alt:
  "send_clear_to_send s w =
     (let r = send_frame (cts_frame s) w; s1 = (if fst r then granted (clock w) s else s)
      in (fst r, s1, put_active s1 (snd r)))"
  by (simp add: send_clear_to_send_def Let_def split_beta cts_frame_def granted_def)

lemma send_cts_ok:
  assumes "tp_ok w" "s \<in> set (activeSessions w)" "send_clear_to_send s w = (ok, s1, w1)"
  shows "tp_ok w1" "s1 \<in> set (activeSessions w1)"
proof -
  have w1: "w1 = put_active s1 (snd (send_frame (cts_frame s) w))" and same: "same_session session_ok s1 s"
    using assms(3) by (auto simp: send_clear_to_send_alt Let_def granted_def)
  have mem: "s \<in> set (activeSessions (snd (send_frame (cts_frame s) w)))" using assms(2) by simp
  show "tp_ok w1" unfolding w1 using assms(1) by (intro table_ok_put [OF _ mem same]) simp
  show "s1 \<in> set (activeSessions w1)" unfolding w1 by (rule active_put [OF mem same])
qed

lemma update_state_machine_fine:
  assumes "tp_ok w" "s \<in> set (activeSessions w)"
  shows "tp_fine (update_state_machine s w)"
proof (cases "tp_state s")
  case SendBroadcastAnnounce
  have "tp_ok (put_active (set_state v n s) (snd (send_broadcast_announce_message s w)))" for v n
    using assms by (intro table_ok_put [of _ _ s]) simp_all
  then show ?thesis
    using assms SendBroadcastAnnounce by (simp add: update_state_machine_def split_beta)
next
  case SendRequestToSend
  have "tp_ok (put_active (set_state v n s) (snd (send_request_to_send s w)))" for v n
    using assms by (intro table_ok_put [of _ _ s]) simp_all
  then show ?thesis
    using assms SendRequestToSend by (simp add: update_state_machine_def split_beta)
next
  case SendClearToSend
  obtain ok s1 w1 where cts: "send_clear_to_send s w = (ok, s1, w1)" by (metis prod_cases3)
  from send_cts_ok [OF assms cts] have "tp_ok w1" "tp_ok (put_active (set_state v n s1) w1)" for v n
    by (auto intro: table_ok_put)
  then show ?thesis using SendClearToSend cts by (simp add: update_state_machine_def)
next
  case SendDataTransferPackets
  then show ?thesis using assms send_data_fine by (simp add: update_state_machine_def)
qed (use assms in \<open>auto simp: update_state_machine_def update_waiting_cts_def update_waiting_data_def
    intro: tp_ok_abort table_ok_close\<close>)

lemma total_packets_ok: "session_ok (make_tp_session i d (replicate (unat (sz :: u16)) x) p sz c a b cb)"
  by (simp add: session_ok_def make_tp_session_def)

lemma bam_fine:
  assumes "tp_ok w"
  shows "tp_fine (process_broadcast_announce_message src pgn sz packets w)"
proof -
  define w1 where "w1 = (case find_session src None (activeSessions w) of
      None \<Rightarrow> w | Some oldSession \<Rightarrow> close_session oldSession False w)"
  have w1: "tp_ok w1" "\<not> has_session src None (activeSessions w1)"
    using assms erase_found_session [of session_ok "next_sid w" "activeSessions w" src None]
    by (auto simp: w1_def find_session_None_iff table_ok_close close_session_def Let_def table_ok_def
        session_table_erase split: option.split)
  define s where "s = set_state WaitForDataTransferPacket (clock w1)
      (make_tp_session (next_sid w1) DirReceive (replicate (unat sz) 0) pgn sz 0xFF src None None)"
  have s: "sid s = next_sid w1" "session_ok s" "session_source s = src" "session_destination s = None"
    using total_packets_ok by (simp_all add: s_def setter_defs make_tp_session_def session_ok_def)
  have "tp_ok (push_active s (snd (new_sid w1)))" using table_ok_push [of _ w1 s] w1 s by simp
  then have "tp_fine (update_state_machine s (push_active s (snd (new_sid w1))))"
    by (rule update_state_machine_fine) (simp add: push_active_def)
  then show ?thesis
    using assms w1(1)
    by (auto simp: process_broadcast_announce_message_def w1_def [symmetric] Let_def new_sid_def s_def table_ok_def
        intro: session_table_mono)
qed


lemma has_session_erased: "\<not> has_session src dst ss \<Longrightarrow> \<not> has_session src dst (erase_session i ss)"
  by (auto simp: has_session_def erase_session_def list_ex_iff)

lemma rts_fine:
  assumes "tp_ok w"
  shows "tp_fine (process_request_to_send src dst pgn sz packets ctsMax w)"
proof -
  define w1 where "w1 = (case find_session src (Some dst) (activeSessions w) of
      None \<Rightarrow> w
    | Some oldSession \<Rightarrow>
        if parameterGroupNumber oldSession \<noteq> pgn then snd (abort_session oldSession AlreadyInCMSession w)
        else close_session oldSession False w)"
  have w1: "tp_ok w1" "\<not> has_session src (Some dst) (activeSessions w1)"
    using assms erase_found_session [of session_ok "next_sid w" "activeSessions w" src "Some dst"]
    by (auto simp: w1_def find_session_None_iff table_ok_close tp_ok_abort table_ok_def close_session_def Let_def
        abort_session_alt session_table_erase split: option.split)
  define c where "c = (if ctsMax > numberOfPacketsPerCTSMessage (configuration w1)
      then numberOfPacketsPerCTSMessage (configuration w1) else ctsMax)"
  define s0 where "s0 = make_tp_session (next_sid w1) DirReceive (replicate (unat sz) 0) pgn sz c src (Some dst) None"
  define s where "s = set_state SendClearToSend (clock w1) s0"
  have s: "sid s = next_sid w1" "session_ok s" "session_source s = src" "session_destination s = Some dst"
    using total_packets_ok by (simp_all add: s_def s0_def setter_defs make_tp_session_def session_ok_def)
  have "tp_ok (push_active s (snd (new_sid w1)))" using table_ok_push [of _ w1 s] w1 s by simp
  then have "tp_fine (update_state_machine s (push_active s (snd (new_sid w1))))"
    by (rule update_state_machine_fine) (simp add: push_active_def)
  moreover have "tp_ok (snd (abort_session s0 AnyOtherError (snd (new_sid w1))))"
    using w1(1) by (intro tp_ok_abort) (auto simp: new_sid_def table_ok_def intro: session_table_mono)
  ultimately show ?thesis
    using assms
    by (simp add: process_request_to_send_def w1_def [symmetric] c_def [symmetric] s0_def [symmetric] Let_def new_sid_def
        s_def)
qed

lemma cts_ok: "tp_ok w \<Longrightarrow> tp_ok (process_clear_to_send src dst pgn n k w)"
  by (auto simp: process_clear_to_send_def Let_def intro: tp_ok_abort table_ok_found split: option.split)

lemma eoma_ok: "tp_ok w \<Longrightarrow> tp_ok (process_end_of_session_acknowledgement src dst pgn w)"
  by (auto simp: process_end_of_session_acknowledgement_def intro: table_ok_close split: option.split)

lemma process_abort_ok: "tp_ok w \<Longrightarrow> tp_ok (process_abort src dst pgn w)"
  by (auto simp: process_abort_def close_if_pgn_def intro!: table_ok_close split: option.split)

lemma cm_fine:
  assumes "tp_ok w" "bounded_message m"
  shows "tp_fine (process_connection_management_message m w)"
proof (cases "get_data_length m = 8")
  case True
  then have len: "length (msg_data m) = 8" using assms(2) message_bytes by (simp add: bounded_message_def)
  then have "get_uint24_at 5 LittleEndian m \<noteq> None" "get_uint16_at 1 LittleEndian m \<noteq> None"
    using get_bytes_at_ok [of 5 3 m] get_bytes_at_ok [of 1 2 m] by (simp_all add: get_uint24_at_def get_uint16_at_def)
  then obtain p z where "get_uint24_at 5 LittleEndian m = Some p" "get_uint16_at 1 LittleEndian m = Some z" by auto
  then show ?thesis
    using assms(1) len True
    by (simp add: process_connection_management_message_def uint8_at_ok Let_def bam_fine rts_fine cts_ok eoma_ok
        process_abort_ok)
qed (simp add: process_connection_management_message_def assms)

lemma copy_packet_ok:
  assumes "session_ok s" "length (msg_data m) = 8" "7 * unat (lastSequenceNumber s) < unat (get_message_length s)"
  shows "\<exists>d. copy_packet m s = Some (s\<lparr>session_data := d\<rparr>) \<and> length d = length (session_data s)
     \<and> take (7 * unat (lastSequenceNumber s) + min 7 (unat (get_message_length s) - 7 * unat (lastSequenceNumber s))) d
       = take (7 * unat (lastSequenceNumber s)) (session_data s)
         @ take (min 7 (unat (get_message_length s) - 7 * unat (lastSequenceNumber s))) (drop 1 (msg_data m))"
proof -
  let ?i = "7 * unat (lastSequenceNumber s)"
  let ?b = "take (min 7 (unat (get_message_length s) - ?i)) (drop 1 (msg_data m))"
  have b: "length ?b = min 7 (unat (get_message_length s) - ?i)" using assms(2) by simp
  have le: "?i + length ?b \<le> length (session_data s)"
    using b assms(3) message_length_ok [OF assms(1)] assms(1) by (simp add: session_ok_def)
  then obtain d where d: "checked_write ?i ?b (session_data s) = Some d" using checked_write_total by blast
  have "copy_packet m s = Some (s\<lparr>session_data := d\<rparr>)"
    using d by (simp add: copy_packet_def get_last_packet_number_def Let_def)
  then show ?thesis using checked_write_SomeD [OF d] checked_write_take [OF d] unfolding b by blast
qed

lemma accept_fine:
  assumes "tp_ok w" "s \<in> set (activeSessions w)" "length (msg_data m) = 8"
  shows "tp_fine (accept_packet m sn s w)"
proof (cases "7 * unat (lastSequenceNumber s) < unat (get_message_length s)")
  case False
  then show ?thesis using assms(1) tp_ok_abort by (simp add: accept_packet_def get_last_packet_number_def)
next
  case True
  have s: "session_ok s" using assms by (blast intro: table_ok_session)
  obtain d where copy: "copy_packet m s = Some (s\<lparr>session_data := d\<rparr>)" and d: "length d = length (session_data s)"
    using copy_packet_ok [OF s assms(3) True] by blast
  define t where "t = set_last_sequency_number sn (clock w) (s\<lparr>session_data := d\<rparr>)"
  have same: "same_session session_ok t s"
    using d by (simp add: t_def same_session_def setter_defs session_key_def session_ok_def)
  have ok: "tp_ok (put_active t w)" by (rule table_ok_put [OF assms(1,2) same])
  have mem: "t \<in> set (activeSessions (put_active t w))" by (rule active_put [OF assms(2) same])
  obtain r t1 w1 where cts: "send_clear_to_send t (put_active t w) = (r, t1, w1)" by (metis prod_cases3)
  have "tp_ok w1" by (rule send_cts_ok(1) [OF ok mem cts])
  then show ?thesis
    using True copy ok cts
    by (simp add: accept_packet_def get_last_packet_number_def t_def [symmetric] Let_def table_ok_close)
qed

lemma data_transfer_fine:
  assumes "tp_ok w" "bounded_message m"
  shows "tp_fine (process_data_transfer_message m w)"
proof (cases "get_data_length m = 8")
  case True
  then have len: "length (msg_data m) = 8" using assms(2) message_bytes by (simp add: bounded_message_def)
  then show ?thesis
    using assms(1) True
    by (auto simp: process_data_transfer_message_def uint8_at_ok Let_def tp_ok_abort intro: accept_fine
        dest: find_session_SomeD split: option.split)
qed (simp add: process_data_transfer_message_def assms)

lemma process_message_fine: "tp_ok w \<Longrightarrow> bounded_message m \<Longrightarrow> tp_fine (process_message m w)"
  by (simp add: process_message_def cm_fine data_transfer_fine)

lemma transmit_fine:
  assumes "tp_ok w"
  shows "\<exists>b w'. protocol_transmit_message pgn data source dst cb w = Some (b, w') \<and> tp_ok w'"
proof (cases "\<exists>bytes src. data = Some bytes \<and> source = Some src \<and> 8 < length bytes \<and> length bytes \<le> 1785
    \<and> cf_address_valid (cfs w src) \<and> \<not> has_session src dst (activeSessions w)")
  case True
  then obtain bytes src where in1: "data = Some bytes" "source = Some src" "8 < length bytes" "length bytes \<le> 1785"
    "cf_address_valid (cfs w src)" "\<not> has_session src dst (activeSessions w)" by blast
  define s0 where "s0 = make_tp_session (next_sid w) DirTransmit bytes pgn (of_nat (length bytes))
      (numberOfPacketsPerCTSMessage (configuration w)) src dst cb"
  define s where "s = set_state (if session_is_broadcast s0 then SendBroadcastAnnounce else SendRequestToSend) (clock w) s0"
  have "session_ok s"
    using in1(4) by (simp add: s_def s0_def setter_defs make_tp_session_def session_ok_def unat_of_nat)
  moreover have "sid s = next_sid w" "session_source s = src" "session_destination s = dst"
    by (simp_all add: s_def s0_def setter_defs make_tp_session_def)
  ultimately have "tp_ok (push_active s (snd (new_sid w)))" using assms in1(6) by (intro table_ok_push) simp_all
  then have "tp_fine (update_state_machine s (push_active s (snd (new_sid w))))"
    by (rule update_state_machine_fine) (simp add: push_active_def)
  then show ?thesis
    using in1 by (auto simp: protocol_transmit_message_def Let_def new_sid_def s0_def s_def fine_def)
next
  case False
  then have "protocol_transmit_message pgn data source dst cb w = Some (False, w)"
    by (auto simp: protocol_transmit_message_def not_le not_less split: option.split)
  then show ?thesis using assms by blast
qed

lemma update_session_fine: "tp_ok w \<Longrightarrow> s \<in> set (activeSessions w) \<Longrightarrow> tp_fine (update_session s w)"
  by (simp add: update_session_def table_ok_close update_state_machine_fine)

lemma update_sessions_fine: "tp_ok w \<Longrightarrow> tp_fine (update_sessions is w)"
proof (induction "is" arbitrary: w)
  case (Cons i "is")
  have "tp_fine (case find (\<lambda>s. sid s = i) (activeSessions w) of None \<Rightarrow> Some w | Some s \<Rightarrow> update_session s w)"
    using Cons.prems by (auto split: option.split simp: find_Some_iff intro!: update_session_fine)
  then show ?case using Cons.IH by (simp only: update_sessions.simps) (rule fine_bind)
qed simp

lemma update_fine: "tp_ok w \<Longrightarrow> tp_fine (update w)"
  by (simp add: update_def update_sessions_fine)

end
