(* ===== verification/Transport_Transfer.thy ===== *)
theory Transport_Transfer
  imports Transport_Protocol
begin

text \<open>
  What the transport protocol achieves: the packets of a message are reassembled, a broadcast
  arrives, a granted window is sent, sessions time out, and no sequence of events leads to
  undefined behaviour.
\<close>

section \<open>Counting packets\<close>

lemma packet_count_bounds:
  assumes "0 < len" "len \<le> 1785"
  shows "0 < packet_count len" "packet_count len \<le> 255" "len \<le> 7 * packet_count len" "7 * (packet_count len - 1) < len"
  using assms unfolding packet_count_def by linarith+

lemma total_packets:
  assumes "totalMessageSize s = of_nat len" "len \<le> 1785"
  shows "unat (get_total_number_of_packets s) = packet_count len"
proof -
  have l: "unat (get_message_length s) = len"
    using assms by (simp add: get_message_length_def unsigned_ucast_eq unat_of_nat take_bit_nat_eq_self)
  have d: "unat (ucast (get_message_length s div 7) :: u8) = len div 7"
    using assms(2) by (simp add: unat_narrow_u8 unat_div l)
  have p: "get_message_length s mod 7 > 0 \<longleftrightarrow> 0 < len mod 7"
    by (simp add: word_less_nat_alt unat_mod l)
  have sum: "unat ((ucast (get_message_length s div 7) :: u8) + 1) = len div 7 + 1" if "0 < len mod 7"
  proof -
    have "len div 7 + 1 < 256" using that assms(2) by presburger
    then show ?thesis by (simp add: unat_plus_if' d)
  qed
  show ?thesis
    unfolding get_total_number_of_packets_def Let_def p packet_count_def
    using d sum by (cases "0 < len mod 7") (simp_all, presburger+)
qed

lemma remaining_zero:
  assumes "totalMessageSize s = of_nat len" "len \<le> 1785"
  shows "get_number_of_remaining_packets s = 0 \<longleftrightarrow> unat (lastSequenceNumber s) = packet_count len"
  using total_packets [OF assms]
  by (metis get_last_packet_number_def get_number_of_remaining_packets_def eq_iff_diff_eq_0 word_unat_eq_iff)

section \<open>Reassembly\<close>

text \<open>The packets of a message between two control functions.\<close>

definition packet_frame :: "u8 list \<Rightarrow> cf \<Rightarrow> cf option \<Rightarrow> nat \<Rightarrow> tx_frame" where
  "packet_frame data src dst k =
     \<lparr>f_pgn = TransportProtocolDataTransfer, f_data = of_nat (Suc k) # payload data k, f_source = src,
      f_destination = dst, f_priority = PriorityLowest7\<rparr>"

text \<open>The receiver holds the first \<open>k\<close> packets.\<close>

definition received :: "nat \<Rightarrow> u8 list \<Rightarrow> cf \<Rightarrow> cf option \<Rightarrow> u32 \<Rightarrow> tp \<Rightarrow> bool" where
  "received k data src dst pgn w \<longleftrightarrow> tp_ok w \<and> (\<exists>s. find_session src dst (activeSessions w) = Some s
     \<and> tp_state s = WaitForDataTransferPacket \<and> lastSequenceNumber s = of_nat k
     \<and> totalMessageSize s = of_nat (length data) \<and> parameterGroupNumber s = pgn \<and> direction s = DirReceive
     \<and> take (7 * k) (session_data s) = take (7 * k) data)"

lemma packet_step:
  assumes r: "received k data src dst pgn w" and k: "Suc k \<le> packet_count (length data)"
    and len: "length data \<le> 1785" and c: "carried (packet_frame data src dst k) m" and l: "listens (cfs w) src dst"
  shows "\<exists>s t. find_session src dst (activeSessions w) = Some s \<and> same_session session_ok t s
    \<and> t = set_last_sequency_number (of_nat (Suc k)) (clock w) (s\<lparr>session_data := session_data t\<rparr>)
    \<and> take (7 * Suc k) (session_data t) = take (7 * Suc k) data
    \<and> tp_state s = WaitForDataTransferPacket \<and> totalMessageSize s = of_nat (length data)
    \<and> parameterGroupNumber s = pgn \<and> direction s = DirReceive
    \<and> process_message m w = Some
        (if get_number_of_remaining_packets t = 0
         then close_session t True (deliver (completed_message m t (cfs w))
            (if dst = None then put_active t w else snd (send_end_of_session_acknowledgement t (put_active t w))))
         else if get_cts_number_of_packets_remaining t = 0 then snd (snd (send_clear_to_send t (put_active t w)))
         else put_active t w)"
proof -
  obtain s where tp: "tp_ok w" and f: "find_session src dst (activeSessions w) = Some s"
    and st: "tp_state s = WaitForDataTransferPacket" and seq: "lastSequenceNumber s = of_nat k"
    and sz: "totalMessageSize s = of_nat (length data)" and pg: "parameterGroupNumber s = pgn" "direction s = DirReceive"
    and prefix: "take (7 * k) (session_data s) = take (7 * k) data"
    using r by (auto simp: received_def)
  have s: "session_ok s" using tp f by (blast dest: find_session_SomeD intro: table_ok_session)
  have pos: "0 < length data" using k by (cases "length data") (simp_all add: packet_count_def)
  have k7: "7 * k < length data" using k packet_count_bounds [OF pos len] by linarith
  have k255: "Suc k \<le> 255" using k packet_count_bounds [OF pos len] by linarith
  have ln: "unat (lastSequenceNumber s) = k" using seq k255 by (simp add: unat_of_nat)
  have mlen: "unat (get_message_length s) = length data"
    using message_length_ok [OF s] sz len by (simp add: unat_of_nat)
  have bytes: "msg_data m = of_nat (Suc k) # payload data k" using c by (simp add: carried_def packet_frame_def)
  then have m8: "length (msg_data m) = 8" by simp
  obtain d where copy: "copy_packet m s = Some (s\<lparr>session_data := d\<rparr>)" and dl: "length d = length (session_data s)"
    and dt: "take (7 * k + min 7 (length data - 7 * k)) d
       = take (7 * k) (session_data s) @ take (min 7 (length data - 7 * k)) (payload data k)"
    using copy_packet_ok [OF s m8] k7 bytes by (auto simp: ln mlen)
  have "length d = length data" using dl s sz len by (simp add: session_ok_def unat_of_nat)
  then have data: "take (7 * Suc k) d = take (7 * Suc k) data" using prefix_extends [OF prefix _ k7 dt] by blast
  define t where "t = set_last_sequency_number (of_nat (Suc k)) (clock w) (s\<lparr>session_data := d\<rparr>)"
  have td: "session_data t = d" by (simp add: t_def setter_defs)
  have same: "same_session session_ok t s"
    using dl by (simp add: t_def same_session_def setter_defs session_key_def session_ok_def)
  have src: "msg_source m = Some src" "msg_destination m = dst"
    and pdu: "get_parameter_group_number (msg_identifier m) = TransportProtocolDataTransfer"
    using c by (simp_all add: carried_def packet_frame_def)
  note lm = listens_message [OF l src]
  have ne: "(of_nat (Suc k) :: u8) \<noteq> lastSequenceNumber s" "unat (of_nat (Suc k) :: u8) = unat (lastSequenceNumber s) + 1"
    using k255 ln by (simp_all add: word_unat_eq_iff unat_of_nat del: of_nat_Suc)
  have first: "get_uint8_at 0 m = Some (of_nat (Suc k))" by (simp add: get_uint8_at_def checked_nth_def bytes)
  have "process_message m w = accept_packet m (of_nat (Suc k)) s w"
    using lm m8 ne first f st unfolding process_message_def process_data_transfer_message_def pdu
    by (cases dst) (simp_all add: get_data_length_def src Let_def del: of_nat_Suc)
  also have "\<dots> = Some
        (if get_number_of_remaining_packets t = 0
         then close_session t True (deliver (completed_message m t (cfs w))
            (if dst = None then put_active t w else snd (send_end_of_session_acknowledgement t (put_active t w))))
         else if get_cts_number_of_packets_remaining t = 0 then snd (snd (send_clear_to_send t (put_active t w)))
         else put_active t w)"
    using k7 copy lm
    by (simp add: accept_packet_def get_last_packet_number_def ln mlen t_def [symmetric] Let_def split_beta put_active_def
        send_end_of_session_acknowledgement_def del: of_nat_Suc)
  finally show ?thesis using f same data st sz pg td by (intro exI [of _ s] exI [of _ t]) (simp add: t_def)
qed

lemma received_next:
  assumes r: "received k data src dst pgn w" and k: "Suc k < packet_count (length data)"
    and len: "length data \<le> 1785" and c: "carried (packet_frame data src dst k) m" and l: "listens (cfs w) src dst"
  shows "\<exists>w'. process_message m w = Some w' \<and> received (Suc k) data src dst pgn w' \<and> delivered w' = delivered w
    \<and> cfs w' = cfs w"
proof -
  have tp: "tp_ok w" using r by (simp add: received_def)
  obtain s t where f: "find_session src dst (activeSessions w) = Some s" and same: "same_session session_ok t s"
    and t: "t = set_last_sequency_number (of_nat (Suc k)) (clock w) (s\<lparr>session_data := session_data t\<rparr>)"
    and data: "take (7 * Suc k) (session_data t) = take (7 * Suc k) data"
    and s: "tp_state s = WaitForDataTransferPacket" "totalMessageSize s = of_nat (length data)"
      "parameterGroupNumber s = pgn" "direction s = DirReceive"
    and step: "process_message m w = Some
        (if get_number_of_remaining_packets t = 0
         then close_session t True (deliver (completed_message m t (cfs w))
            (if dst = None then put_active t w else snd (send_end_of_session_acknowledgement t (put_active t w))))
         else if get_cts_number_of_packets_remaining t = 0 then snd (snd (send_clear_to_send t (put_active t w)))
         else put_active t w)"
    using packet_step [OF r _ len c l] k by (metis less_imp_le)
  have tf: "tp_state t = tp_state s" "totalMessageSize t = totalMessageSize s" "direction t = direction s"
    "parameterGroupNumber t = parameterGroupNumber s" "lastSequenceNumber t = of_nat (Suc k)"
    by (subst t; simp add: setter_defs)+
  have k256: "Suc k < 256" using k len unfolding packet_count_def by linarith
  have "unat (lastSequenceNumber t) \<noteq> packet_count (length data)"
    using k k256 tf(5) by (simp add: unat_of_nat del: of_nat_Suc)
  then have more: "get_number_of_remaining_packets t \<noteq> 0"
    using remaining_zero [of t "length data"] tf(2) s(2) len by simp
  have put: "tp_ok (put_active t w)" "find_session src dst (activeSessions (put_active t w)) = Some t"
    using table_ok_found [OF tp f same] found_put [OF tp f same] by simp_all
  define g where "g = (if fst (send_frame (cts_frame t) (put_active t w)) then granted (clock (put_active t w)) t else t)"
  have g: "same_session session_ok g t" "tp_state g = tp_state t" "totalMessageSize g = totalMessageSize t" "direction g = direction t"
    "parameterGroupNumber g = parameterGroupNumber t" "lastSequenceNumber g = lastSequenceNumber t"
    "session_data g = session_data t"
    by (simp_all add: g_def granted_def) (simp_all add: setter_defs)
  let ?w1 = "snd (send_frame (cts_frame t) (put_active t w))"
  have cts: "snd (snd (send_clear_to_send t (put_active t w))) = put_active g ?w1"
    by (simp add: send_clear_to_send_alt Let_def g_def)
  have w1: "tp_ok ?w1" "find_session src dst (activeSessions ?w1) = Some t" using put by simp_all
  have "received (Suc k) data src dst pgn (put_active t w)"
    unfolding received_def using put tf s data by auto
  moreover have "received (Suc k) data src dst pgn (put_active g ?w1)"
    unfolding received_def using table_ok_found [OF w1 g(1)] found_put [OF w1 g(1)] tf s data g by auto
  ultimately show ?thesis using step more by (auto simp: cts)
qed

lemma received_last:
  assumes r: "received k data src dst pgn w" and k: "Suc k = packet_count (length data)"
    and len: "length data \<le> 1785" and c: "carried (packet_frame data src dst k) m" and l: "listens (cfs w) src dst"
  shows "\<exists>w'. process_message m w = Some w' \<and> tp_ok w' \<and> \<not> has_session src dst (activeSessions w')
    \<and> delivered w' = delivered w @ [make_message Receive
         (make_identifier Extended pgn PriorityDefault6
            (case dst of None \<Rightarrow> GLOBAL_ADDRESS | Some d \<Rightarrow> address (cfs w d)) (address (cfs w src)))
         data (Some src) dst 0 (timestamp_us m)]"
proof -
  have tp: "tp_ok w" using r by (simp add: received_def)
  obtain s t where f: "find_session src dst (activeSessions w) = Some s" and same: "same_session session_ok t s"
    and t: "t = set_last_sequency_number (of_nat (Suc k)) (clock w) (s\<lparr>session_data := session_data t\<rparr>)"
    and data: "take (7 * Suc k) (session_data t) = take (7 * Suc k) data"
    and s: "tp_state s = WaitForDataTransferPacket" "totalMessageSize s = of_nat (length data)"
      "parameterGroupNumber s = pgn" "direction s = DirReceive"
    and step: "process_message m w = Some
        (if get_number_of_remaining_packets t = 0
         then close_session t True (deliver (completed_message m t (cfs w))
            (if dst = None then put_active t w else snd (send_end_of_session_acknowledgement t (put_active t w))))
         else if get_cts_number_of_packets_remaining t = 0 then snd (snd (send_clear_to_send t (put_active t w)))
         else put_active t w)"
    using packet_step [OF r _ len c l] k by (metis order_refl)
  have tf: "totalMessageSize t = totalMessageSize s" "direction t = direction s" "sid t = sid s"
    "parameterGroupNumber t = parameterGroupNumber s" "lastSequenceNumber t = of_nat (Suc k)"
    "session_source t = session_source s" "session_destination t = session_destination s"
    by (subst t; simp add: setter_defs)+
  have sd: "session_source s = src" "session_destination s = dst" using find_session_SomeD [OF f] by simp_all
  have pos: "0 < length data" using k by (cases "length data") (simp_all add: packet_count_def)
  note pc = packet_count_bounds [OF pos len]
  have "unat (lastSequenceNumber t) = packet_count (length data)"
    using k pc tf(5) by (simp add: unat_of_nat del: of_nat_Suc)
  then have fin: "get_number_of_remaining_packets t = 0"
    using remaining_zero [of t "length data"] tf(1) s(2) len by simp
  have put: "tp_ok (put_active t w)" "find_session src dst (activeSessions (put_active t w)) = Some t"
    using table_ok_found [OF tp f same] found_put [OF tp f same] by simp_all
  have "length (session_data t) = length data"
    using put(1) table_ok_session [OF put(1)] find_session_SomeD [OF put(2)] tf(1) s(2) len
    by (auto simp: session_ok_def unat_of_nat)
  then have all: "session_data t = data" using data pc(3) k by simp
  define u where "u = (if dst = None then put_active t w else snd (send_end_of_session_acknowledgement t (put_active t w)))"
  have u: "tp_ok u" "activeSessions u = activeSessions (put_active t w)" "delivered u = delivered w" "cfs u = cfs w"
    using put by (simp_all add: u_def) (simp_all add: put_active_def send_end_of_session_acknowledgement_def)
  have "\<not> has_session src dst (erase_session (sid t) (activeSessions (put_active t w)))"
    by (rule erase_found_session [OF put(1) [unfolded table_ok_def] put(2)])
  moreover have "completed_message m t (cfs w) = make_message Receive
         (make_identifier Extended pgn PriorityDefault6
            (case dst of None \<Rightarrow> GLOBAL_ADDRESS | Some d \<Rightarrow> address (cfs w d)) (address (cfs w src)))
         data (Some src) dst 0 (timestamp_us m)"
    using s tf sd all by (simp add: completed_message_def session_is_broadcast_def split: option.split)
  moreover have "delivered (close_session t True (deliver m' u)) = delivered w @ [m']" for m'
    using u by (simp add: close_session_def Let_def deliver_def)
  moreover have "tp_ok (close_session t True (deliver m' u))" for m' using u by (simp add: table_ok_close)
  ultimately show ?thesis
    using step fin u by (simp add: u_def [symmetric] close_session_def Let_def)
qed

text \<open>All packets of a message, in order.\<close>

lemma reassembly:
  assumes "received k data src dst pgn w" "k < packet_count (length data)" "length data \<le> 1785"
    "listens (cfs w) src dst"
    "list_all2 carried (map (packet_frame data src dst) [k..<packet_count (length data)]) ms"
  shows "\<exists>w'. run_events process_message ms w = Some w' \<and> tp_ok w' \<and> \<not> has_session src dst (activeSessions w')
    \<and> delivered w' = delivered w @ [make_message Receive
         (make_identifier Extended pgn PriorityDefault6
            (case dst of None \<Rightarrow> GLOBAL_ADDRESS | Some d \<Rightarrow> address (cfs w d)) (address (cfs w src)))
         data (Some src) dst 0 (timestamp_us (last ms))]"
  using assms
proof (induction "packet_count (length data) - Suc k" arbitrary: k w ms)
  case 0
  then have k: "Suc k = packet_count (length data)" by simp
  then have "[k..<packet_count (length data)] = [k]" by (metis upt_rec lessI upt_conv_Nil order_refl)
  then obtain m where m: "ms = [m]" "carried (packet_frame data src dst k) m"
    using "0.prems"(5) by (auto simp: list_all2_Cons1)
  from received_last [OF "0.prems"(1) k "0.prems"(3) m(2) "0.prems"(4)] show ?case by (auto simp: m)
next
  case (Suc n)
  then have k: "Suc k < packet_count (length data)" by simp
  then have "[k..<packet_count (length data)] = k # [Suc k..<packet_count (length data)]" by (simp add: upt_conv_Cons)
  then obtain m ms' where m: "ms = m # ms'" "carried (packet_frame data src dst k) m"
      "list_all2 carried (map (packet_frame data src dst) [Suc k..<packet_count (length data)]) ms'"
    using Suc.prems(5) by (auto simp: list_all2_Cons1)
  then have ne: "ms' \<noteq> []" using k by auto
  from received_next [OF Suc.prems(1) k Suc.prems(3) m(2) Suc.prems(4)] obtain w1
    where w1: "process_message m w = Some w1" "received (Suc k) data src dst pgn w1" "delivered w1 = delivered w"
      "cfs w1 = cfs w" by blast
  have n: "n = packet_count (length data) - Suc (Suc k)" using Suc.hyps(2) by simp
  have l: "listens (cfs w1) src dst" using Suc.prems(4) w1(4) by simp
  from Suc.hyps(1) [OF n w1(2) k Suc.prems(3) l m(3)] w1(1) ne show ?case by (simp add: m(1) w1(3,4) cong: option.case_cong)
qed

section \<open>Announcements\<close>

definition bam_frame :: "u32 \<Rightarrow> u8 list \<Rightarrow> cf \<Rightarrow> tx_frame" where
  "bam_frame pgn data src =
     cm_frame ([BROADCAST_ANNOUNCE_MESSAGE_MULTIPLEXOR] @ le_bytes 2 (of_nat (length data) :: u16)
       @ [of_nat (packet_count (length data)), 0xFF] @ le_bytes 3 pgn) src None"

definition rts_frame :: "u32 \<Rightarrow> u8 list \<Rightarrow> cf \<Rightarrow> cf \<Rightarrow> u8 \<Rightarrow> tx_frame" where
  "rts_frame pgn data src dst limit =
     cm_frame ([REQUEST_TO_SEND_MULTIPLEXOR] @ le_bytes 2 (of_nat (length data) :: u16)
       @ [of_nat (packet_count (length data)), limit] @ le_bytes 3 pgn) src (Some dst)"

lemma length_bytes_le: "length_bytes s = le_bytes 2 (get_message_length s)"
  using byte_of_mask [of 0 "get_message_length s"] byte_of_mask [of 1 "get_message_length s"]
  by (simp add: length_bytes_def le_bytes_short)

lemma cm_bytes:
  assumes "msg_data m = [mux] @ le_bytes 2 (sz :: u16) @ [n, c] @ le_bytes 3 pgn" "unat (pgn :: u32) < 2 ^ 24"
  shows "get_data_length m = 8" "get_uint24_at 5 LittleEndian m = Some pgn" "get_uint8_at 0 m = Some mux"
    "get_uint16_at 1 LittleEndian m = Some sz" "get_uint8_at 3 m = Some n" "get_uint8_at 4 m = Some c"
proof -
  have m: "msg_data m = [mux, byte_of 0 sz, byte_of 1 sz, n, c, byte_of 0 pgn, byte_of 1 pgn, byte_of 2 pgn]"
    using assms(1) by (simp add: le_bytes_short)
  then have l: "length (msg_data m) = 8" by simp
  show "get_data_length m = 8" using l by (simp add: get_data_length_def)
  show "get_uint24_at 5 LittleEndian m = Some pgn" using read_le3 [OF l _ assms(2)] m by (simp add: le_bytes_short)
  show "get_uint16_at 1 LittleEndian m = Some sz" using read_le2 [OF l] m by (simp add: le_bytes_short)
  show "get_uint8_at 0 m = Some mux" "get_uint8_at 3 m = Some n" "get_uint8_at 4 m = Some c"
    by (simp_all add: get_uint8_at_def checked_nth_def m)
qed

lemma announced_count:
  assumes "length data \<le> 1785"
  shows "get_total_number_of_packets (make_tp_session i d bs pgn (of_nat (length data)) c src dst cb)
    = of_nat (packet_count (length data))"
proof -
  let ?s = "make_tp_session i d bs pgn (of_nat (length data)) c src dst cb"
  have "totalMessageSize ?s = of_nat (length data)"
    using assms by (simp add: make_tp_session_def word_unat_eq_iff unat_of_nat)
  then have "unat (get_total_number_of_packets ?s) = packet_count (length data)" using assms by (rule total_packets)
  then show ?thesis using assms by (simp add: word_unat_eq_iff unat_of_nat packet_count_def)
qed


lemma received_pushed:
  assumes "tp_ok w" "\<not> has_session src dst (activeSessions w)" "length data \<le> 1785"
    "s = (make_tp_session (next_sid w) DirReceive (replicate (length data) 0) pgn (of_nat (length data)) c src dst None)
      \<lparr>tp_state := WaitForDataTransferPacket, timestamp_ms := t, clearToSendPacketCount := n,
       lastAcknowledgedPacketNumber := a\<rparr>"
  shows "received 0 data src dst pgn (push_active s (snd (new_sid w)))"
proof -
  have u: "unat (of_nat (length data) :: u16) = length data" using assms(3) by (simp add: unat_of_nat)
  have "session_ok s"
    using total_packets_ok [of "next_sid w" DirReceive "of_nat (length data)" 0 pgn c src dst None] assms(3)
    by (simp add: assms(4) session_ok_def make_tp_session_def u)
  then have "tp_ok (push_active s (snd (new_sid w)))"
    using assms(1,2) by (intro table_ok_push) (simp_all add: assms(4) make_tp_session_def)
  moreover have "find_session src dst (activeSessions w @ [s]) = Some s"
    using assms(2) by (rule find_session_append) (simp add: assms(4) make_tp_session_def session_matches_def)
  ultimately show ?thesis
    using assms(3)
    by (auto simp: received_def push_active_def new_sid_def assms(4) make_tp_session_def word_unat_eq_iff unat_of_nat)
qed


lemma bam_received:
  assumes "tp_ok w" "\<not> sessions_full w" "0 < length data" "length data \<le> 1785" "unat pgn < 2 ^ 24"
    "listens (cfs w) src None" "carried (bam_frame pgn data src) m"
  shows "\<exists>w'. process_message m w = Some w' \<and> received 0 data src None pgn w' \<and> delivered w' = delivered w
    \<and> cfs w' = cfs w"
proof -
  define w1 where "w1 = (case find_session src None (activeSessions w) of
      None \<Rightarrow> w | Some oldSession \<Rightarrow> close_session oldSession False w)"
  have w1: "tp_ok w1" "\<not> has_session src None (activeSessions w1)"
    using assms(1) erase_found_session [of session_ok "next_sid w" "activeSessions w" src None]
    by (auto simp: w1_def find_session_None_iff table_ok_close close_session_def Let_def table_ok_def
        session_table_erase split: option.split)
  have same: "delivered w1 = delivered w" "cfs w1 = cfs w"
    by (simp_all add: w1_def close_session_def Let_def split: option.split)
  have m: "msg_data m = [0x20] @ le_bytes 2 (of_nat (length data) :: u16) @ [of_nat (packet_count (length data)), 0xFF] @ le_bytes 3 pgn"
    and src: "msg_source m = Some src" "msg_destination m = None"
    and pdu: "get_parameter_group_number (msg_identifier m) = TransportProtocolConnectionManagement"
    using assms(7) by (simp_all add: carried_def bam_frame_def cm_frame_def)
  note lm = listens_message [OF assms(6) src]
  define s0 where "s0 = make_tp_session (next_sid w1) DirReceive (replicate (length data) 0) pgn
      (of_nat (length data)) 0xFF src None None"
  define s where "s = set_state WaitForDataTransferPacket (clock w1) s0"
  have u: "unat (of_nat (length data) :: u16) = length data" using assms(4) by (simp add: unat_of_nat)
  have "process_message m w = process_broadcast_announce_message src pgn (of_nat (length data))
      (of_nat (packet_count (length data))) w"
    using lm pdu src unfolding process_message_def process_connection_management_message_def
    by (simp add: cm_bytes [OF m assms(5)] Let_def)
  also have "\<dots> = update_state_machine s (push_active s (snd (new_sid w1)))"
    using assms(2,4) announced_count [OF assms(4)]
    by (simp add: process_broadcast_announce_message_def w1_def [symmetric] Let_def new_sid_def s_def s0_def u)
  also have "\<dots> = Some (push_active s (snd (new_sid w1)))"
    by (simp add: s_def s0_def update_state_machine_def setter_defs make_tp_session_def update_waiting_data_def
        session_is_broadcast_def get_time_since_last_update_def push_active_def new_sid_def)
  finally show ?thesis
    using received_pushed [OF w1 assms(4), where s = s and pgn = pgn and c = "0xFF" and t = "clock w1" and n = 0 and a = 0] w1 assms(4) same
    by (simp add: s_def s0_def setter_defs make_tp_session_def push_active_def new_sid_def)
qed

lemma rts_received:
  assumes "tp_ok w" "\<not> sessions_full w" "0 < length data" "length data \<le> 1785" "unat pgn < 2 ^ 24"
    "listens (cfs w) src (Some dst)" "carried (rts_frame pgn data src dst limit) m"
    "\<not> has_session src (Some dst) (activeSessions w)" "tx_replies w = []"
  shows "\<exists>w'. process_message m w = Some w' \<and> received 0 data src (Some dst) pgn w' \<and> delivered w' = delivered w
    \<and> cfs w' = cfs w"
proof -
  have m: "msg_data m = [0x10] @ le_bytes 2 (of_nat (length data) :: u16) @ [of_nat (packet_count (length data)), limit] @ le_bytes 3 pgn"
    and src: "msg_source m = Some src" "msg_destination m = Some dst"
    and pdu: "get_parameter_group_number (msg_identifier m) = TransportProtocolConnectionManagement"
    using assms(7) by (simp_all add: carried_def rts_frame_def cm_frame_def)
  note lm = listens_message [OF assms(6) src]
  define c where "c = (if limit > numberOfPacketsPerCTSMessage (configuration w)
      then numberOfPacketsPerCTSMessage (configuration w) else limit)"
  define s0 where "s0 = make_tp_session (next_sid w) DirReceive (replicate (length data) 0) pgn
      (of_nat (length data)) c src (Some dst) None"
  define s where "s = set_state SendClearToSend (clock w) s0"
  define t where "t = set_state WaitForDataTransferPacket (clock w) (granted (clock w) s)"
  define w1 where "w1 = snd (send_frame (cts_frame s) (snd (new_sid w)))"
  have u: "unat (of_nat (length data) :: u16) = length data" using assms(4) by (simp add: unat_of_nat)
  have none: "find_session src (Some dst) (activeSessions w) = None" using assms(8) by (simp add: find_session_None_iff)
  have "process_message m w = process_request_to_send src dst pgn (of_nat (length data))
      (of_nat (packet_count (length data))) limit w"
    using lm pdu src unfolding process_message_def process_connection_management_message_def
    by (simp add: cm_bytes [OF m assms(5)] Let_def)
  also have "\<dots> = update_state_machine s (push_active s (snd (new_sid w)))"
    using assms(2,4) announced_count [OF assms(4)] none
    by (simp add: process_request_to_send_def Let_def new_sid_def s_def s0_def u c_def [symmetric])
  also have "\<dots> = Some (put_active t (put_active (granted (clock w) s) (snd (send_frame (cts_frame s) (push_active s (snd (new_sid w)))))))"
    using assms(9)
    by (simp add: s_def [symmetric] update_state_machine_def send_clear_to_send_alt Let_def t_def)
      (simp add: s_def s0_def setter_defs make_tp_session_def send_clear_to_send_alt Let_def send_frame_def push_active_def
        new_sid_def put_active_def t_def granted_def)
  finally have step: "process_message m w = Some (put_active t (put_active (granted (clock w) s)
      (snd (send_frame (cts_frame s) (push_active s (snd (new_sid w)))))))" .
  let ?w0 = "push_active s (snd (new_sid w))"
  let ?w1 = "snd (send_frame (cts_frame s) ?w0)"
  let ?g = "granted (clock w) s"
  have sf: "sid s = next_sid w" "session_source s = src" "session_destination s = Some dst"
      "lastSequenceNumber s = 0" "totalMessageSize s = of_nat (length data)" "parameterGroupNumber s = pgn"
      "direction s = DirReceive"
    using assms(4) by (simp_all add: s_def s0_def setter_defs make_tp_session_def word_unat_eq_iff unat_of_nat)
  have "session_ok s"
    using total_packets_ok [of "next_sid w" DirReceive "of_nat (length data)" 0 pgn c src "Some dst" None]
    by (simp add: s_def s0_def session_ok_def make_tp_session_def u setter_defs)
  then have w0: "tp_ok ?w0" using assms(1,8) sf by (intro table_ok_push) simp_all
  have f0: "find_session src (Some dst) (activeSessions ?w0) = Some s"
    using find_session_append [OF assms(8), of s] sf by (simp add: push_active_def new_sid_def session_matches_def)
  have w1: "tp_ok ?w1" "find_session src (Some dst) (activeSessions ?w1) = Some s" using w0 f0 by simp_all
  have g: "same_session session_ok ?g s" by (simp add: granted_def)
  note w2 = table_ok_found [OF w1 g] found_put [OF w1 g]
  have t: "same_session session_ok t ?g" by (simp add: t_def)
  note w3 = table_ok_found [OF w2 t] found_put [OF w2 t]
  have tf: "tp_state t = WaitForDataTransferPacket" "lastSequenceNumber t = 0"
      "totalMessageSize t = of_nat (length data)" "parameterGroupNumber t = pgn" "direction t = DirReceive"
    using sf by (simp_all add: t_def granted_def setter_defs)
  have "received 0 data src (Some dst) pgn (put_active t (put_active ?g ?w1))"
    unfolding received_def using w3 tf by auto
  then show ?thesis unfolding step by (auto simp: put_active_def push_active_def new_sid_def)
qed

section \<open>A broadcast transmission\<close>

text \<open>The sender has announced the message and sent \<open>k\<close> packets.\<close>

definition sent_packets :: "nat \<Rightarrow> u8 list \<Rightarrow> cf \<Rightarrow> u32 \<Rightarrow> nat option \<Rightarrow> tp \<Rightarrow> bool" where
  "sent_packets k data src pgn cb w \<longleftrightarrow> (\<exists>s. activeSessions w = [s] \<and> tp_state s = SendDataTransferPackets
     \<and> lastSequenceNumber s = of_nat k \<and> session_data s = data \<and> totalMessageSize s = of_nat (length data)
     \<and> session_source s = src \<and> session_destination s = None \<and> direction s = DirTransmit
     \<and> parameterGroupNumber s = pgn \<and> sessionCompleteCallback s = cb \<and> timestamp_ms s = clock w)
   \<and> tx_replies w = [] \<and> cf_address_valid (cfs w src)"

lemma sent_step:
  assumes "sent_packets k data src pgn cb w" "k < packet_count (length data)" "length data \<le> 1785"
    "minimumTimeBetweenTransportProtocolBAMFrames (configuration w) \<le> d"
  shows "\<exists>w'. update (tick d w) = Some w' \<and> tx_log w' = tx_log w @ [packet_frame data src None k]
    \<and> configuration w' = configuration w
    \<and> (if Suc k = packet_count (length data)
       then activeSessions w' = [] \<and> completions w' = completions w @ (case cb of None \<Rightarrow> [] | Some i \<Rightarrow>
           [\<lparr>c_callback = i, c_pgn = pgn, c_length = of_nat (length data), c_source = src, c_destination = None,
             c_success = True\<rparr>])
       else sent_packets (Suc k) data src pgn cb w' \<and> completions w' = completions w)"
proof -
  obtain s where w: "activeSessions w = [s]" "tp_state s = SendDataTransferPackets"
      "lastSequenceNumber s = of_nat k" "session_data s = data" "totalMessageSize s = of_nat (length data)"
      "session_source s = src" "session_destination s = None" "direction s = DirTransmit"
      "parameterGroupNumber s = pgn" "sessionCompleteCallback s = cb" "timestamp_ms s = clock w"
      "tx_replies w = []" "cf_address_valid (cfs w src)"
    using assms(1) by (auto simp: sent_packets_def)
  have ok: "session_ok s" using w assms(3) by (simp add: session_ok_def unat_of_nat)
  have k: "Suc k \<le> 255" using assms(2,3) unfolding packet_count_def by linarith
  let ?t = "set_last_sequency_number (of_nat (Suc k)) (clock w + d) s"
  let ?f = "packet_frame data src None k"
  let ?w1 = "snd (send_frame ?f (tick d w))"
  have unatk: "unat (of_nat k :: u8) = k" using k by (simp add: unat_of_nat)
  have rem: "get_number_of_remaining_packets ?t = 0 \<longleftrightarrow> Suc k = packet_count (length data)"
    using remaining_zero [of ?t "length data"] w(5) assms(3) k
    by (simp add: setter_defs unat_of_nat del: of_nat_Suc)
  have pb: "packet_bytes s = Some (of_nat (Suc k) # payload data k)"
    using packet_bytes_ok [OF ok] w unatk by (simp add: add.commute)
  have "send_packets 1 s (tick d w) = Some (?t, ?w1)"
    using w(12) pb by (simp add: send_frame_def tick_def packet_frame_def w(3,6,7) add.commute)
  then have data: "send_data_transfer_packets s (tick d w) = Some (after_packets ?t (put_active ?t ?w1))"
    using w(7) by (simp add: send_data_transfer_packets_def frames_to_send_def session_is_broadcast_def)
  have "\<not> get_time_since_last_update (clock (tick d w)) s < minimumTimeBetweenTransportProtocolBAMFrames (configuration (tick d w))"
    using assms(4) w(11) by (simp add: get_time_since_last_update_def tick_def not_less)
  then have "update (tick d w) = Some (after_packets ?t (put_active ?t ?w1))"
    using w data by (simp add: update_def update_session_def tick_def session_is_broadcast_def update_state_machine_def)
  moreover have "tx_log ?w1 = tx_log w @ [?f]" "completions ?w1 = completions w" "configuration ?w1 = configuration w"
      "activeSessions ?w1 = [s]" "tx_replies ?w1 = []" "cfs ?w1 = cfs w" "clock ?w1 = clock w + d"
    using w by (simp_all add: send_frame_log tick_def) (simp_all add: send_frame_def)
  ultimately show ?thesis
    using rem w k
    by (auto simp: after_packets_def session_is_broadcast_def setter_defs close_session_def Let_def put_active_def
        put_session_def erase_session_def complete_def sent_packets_def split: option.split)
qed

lemma sent_all:
  assumes "sent_packets k data src pgn cb w" "k < packet_count (length data)" "length data \<le> 1785"
    "length ds = packet_count (length data) - k"
    "\<forall>d \<in> set ds. minimumTimeBetweenTransportProtocolBAMFrames (configuration w) \<le> d"
  shows "\<exists>w'. run_events (\<lambda>d w. update (tick d w)) ds w = Some w' \<and> activeSessions w' = []
    \<and> tx_log w' = tx_log w @ map (packet_frame data src None) [k..<packet_count (length data)]
    \<and> completions w' = completions w @ (case cb of None \<Rightarrow> [] | Some i \<Rightarrow>
           [\<lparr>c_callback = i, c_pgn = pgn, c_length = of_nat (length data), c_source = src, c_destination = None,
             c_success = True\<rparr>])"
  using assms
proof (induction ds arbitrary: k w)
  case (Cons d ds)
  from sent_step [OF Cons.prems(1-3), of d] Cons.prems(5) obtain w1 where
      w1: "update (tick d w) = Some w1" "tx_log w1 = tx_log w @ [packet_frame data src None k]"
        "configuration w1 = configuration w"
      and next_: "if Suc k = packet_count (length data)
       then activeSessions w1 = [] \<and> completions w1 = completions w @ (case cb of None \<Rightarrow> [] | Some i \<Rightarrow>
           [\<lparr>c_callback = i, c_pgn = pgn, c_length = of_nat (length data), c_source = src, c_destination = None,
             c_success = True\<rparr>])
       else sent_packets (Suc k) data src pgn cb w1 \<and> completions w1 = completions w"
    by auto
  have split: "[k..<packet_count (length data)] = k # [Suc k..<packet_count (length data)]"
    using Cons.prems(2) by (simp add: upt_conv_Cons)
  show ?case
  proof (cases "Suc k = packet_count (length data)")
    case True
    then have "length ds = 0" using Cons.prems(4) unfolding list.size by linarith
    then have "ds = []" by simp
    with True w1 next_ show ?thesis by (simp add: split)
  next
    case False
    with Cons.prems(2) have k: "Suc k < packet_count (length data)" by simp
    have len: "length ds = packet_count (length data) - Suc k" using Cons.prems(4) by simp
    have sent: "sent_packets (Suc k) data src pgn cb w1" "completions w1 = completions w" using next_ False by simp_all
    have "\<forall>d \<in> set ds. minimumTimeBetweenTransportProtocolBAMFrames (configuration w1) \<le> d"
      using Cons.prems(5) w1(3) by simp
    from Cons.IH [OF sent(1) k Cons.prems(3) len this] show ?thesis by (simp add: split w1(1,2) sent(2))
  qed
qed simp

lemma announce:
  assumes "activeSessions w = []" "tx_replies w = []" "cf_address_valid (cfs w src)" "8 < length data" "length data \<le> 1785"
  shows "\<exists>w1. protocol_transmit_message pgn (Some data) (Some src) None cb w = Some (True, w1)
    \<and> tx_log w1 = tx_log w @ [bam_frame pgn data src] \<and> configuration w1 = configuration w
    \<and> completions w1 = completions w \<and> sent_packets 0 data src pgn cb w1"
proof -
  define s0 where "s0 = make_tp_session (next_sid w) DirTransmit data pgn (of_nat (length data))
      (numberOfPacketsPerCTSMessage (configuration w)) src None cb"
  define s where "s = set_state SendBroadcastAnnounce (clock w) s0"
  have ml: "get_message_length s = of_nat (length data)"
    using assms(5) by (simp add: s_def s0_def setter_defs make_tp_session_def get_message_length_def
        word_unat_eq_iff unat_of_nat unsigned_ucast_eq unsigned_take_bit_eq take_bit_nat_eq_self)
  have cnt: "get_total_number_of_packets s = of_nat (packet_count (length data))"
    using announced_count [OF assms(5)] 
    by (simp add: s_def s0_def setter_defs make_tp_session_def get_total_number_of_packets_def get_message_length_def)
  let ?w0 = "push_active s (snd (new_sid w))"
  let ?w1 = "snd (send_frame (bam_frame pgn data src) ?w0)"
  have fields: "session_is_broadcast s0" "tp_state s = SendBroadcastAnnounce" "session_source s = src"
      "parameterGroupNumber s = pgn" "session_is_broadcast s"
    by (simp_all add: s_def s0_def setter_defs make_tp_session_def session_is_broadcast_def)
  have bam: "send_broadcast_announce_message s ?w0 = (True, ?w1)"
    using assms(2) fields
    by (simp add: send_broadcast_announce_message_def bam_frame_def length_bytes_le pgn_bytes_le ml cnt
        send_frame_def push_active_def new_sid_def)
  have "protocol_transmit_message pgn (Some data) (Some src) None cb w
      = map_option (\<lambda>w2. (True, w2)) (update_state_machine s ?w0)"
    using assms fields
    by (simp add: protocol_transmit_message_def has_session_def Let_def new_sid_def s0_def s_def)
  also have "\<dots> = Some (True, put_active (set_state SendDataTransferPackets (clock ?w1) s) ?w1)"
    using bam fields by (simp add: update_state_machine_def)
  finally show ?thesis
    using assms
    by (simp add: send_frame_log put_active_def push_active_def new_sid_def s_def s0_def setter_defs make_tp_session_def
        sent_packets_def put_session_def word_unat_eq_iff unat_of_nat)
      (simp add: send_frame_def)
qed

lemma early_update_silent:
  assumes "sent_packets k data src pgn cb w" "d < minimumTimeBetweenTransportProtocolBAMFrames (configuration w)"
  shows "update (tick d w) = Some (tick d w)"
proof -
  obtain s where w: "activeSessions w = [s]" "tp_state s = SendDataTransferPackets" "session_source s = src"
      "session_destination s = None" "timestamp_ms s = clock w" "cf_address_valid (cfs w src)"
    using assms(1) by (auto simp: sent_packets_def)
  then show ?thesis using assms(2)
    by (simp add: update_def update_session_def tick_def session_is_broadcast_def update_state_machine_def
        get_time_since_last_update_def send_data_transfer_packets_def)
qed

lemma sent_prefix:
  assumes "sent_packets k data src pgn cb w" "length data \<le> 1785" "k + length ds < packet_count (length data)"
    "\<forall>d \<in> set ds. minimumTimeBetweenTransportProtocolBAMFrames (configuration w) \<le> d"
  shows "\<exists>w'. run_events (\<lambda>d w. update (tick d w)) ds w = Some w' \<and> sent_packets (k + length ds) data src pgn cb w'
    \<and> configuration w' = configuration w
    \<and> tx_log w' = tx_log w @ map (packet_frame data src None) [k..<k + length ds]"
  using assms
proof (induction ds arbitrary: k w)
  case (Cons d ds)
  have k: "k < packet_count (length data)" "Suc k \<noteq> packet_count (length data)" using Cons.prems(3) by simp_all
  obtain w1 where w1: "update (tick d w) = Some w1" "tx_log w1 = tx_log w @ [packet_frame data src None k]"
      "configuration w1 = configuration w" "sent_packets (Suc k) data src pgn cb w1"
    using sent_step [OF Cons.prems(1) k(1) Cons.prems(2), of d] Cons.prems(4) k(2) by auto
  from Cons.IH [OF w1(4) Cons.prems(2)] Cons.prems(3,4) w1(3) obtain w' where
    "run_events (\<lambda>d w. update (tick d w)) ds w1 = Some w'" "sent_packets (k + length (d # ds)) data src pgn cb w'"
    "configuration w' = configuration w1"
    "tx_log w' = tx_log w1 @ map (packet_frame data src None) [Suc k..<Suc k + length ds]" by auto
  then show ?case using w1 by (simp add: upt_conv_Cons [of k] del: upt_Suc)
qed simp

text \<open>The pace of a broadcast: each update sends one packet, unless it comes too early.\<close>

lemma broadcast_pace:
  assumes "sent_packets 0 data src pgn cb w" "length data \<le> 1785" "j < packet_count (length data)" "j \<le> length ds"
    "\<forall>d \<in> set ds. minimumTimeBetweenTransportProtocolBAMFrames (configuration w) \<le> d"
  shows "\<exists>v. run_events (\<lambda>d w. update (tick d w)) (take j ds) w = Some v
    \<and> tx_log v = tx_log w @ map (packet_frame data src None) [0..<j]
    \<and> (\<forall>d. if d < minimumTimeBetweenTransportProtocolBAMFrames (configuration w) then update (tick d v) = Some (tick d v)
        else \<exists>u. update (tick d v) = Some u \<and> tx_log u = tx_log v @ [packet_frame data src None j])"
proof -
  have len: "length (take j ds) = j" using assms(4) by simp
  then have lt: "0 + length (take j ds) < packet_count (length data)" using assms(3) by simp
  have "\<forall>d \<in> set (take j ds). minimumTimeBetweenTransportProtocolBAMFrames (configuration w) \<le> d"
    using assms(5) by (auto dest: in_set_takeD)
  from sent_prefix [OF assms(1,2) lt this] obtain v where
    v: "run_events (\<lambda>d w. update (tick d w)) (take j ds) w = Some v" "sent_packets j data src pgn cb v"
      "configuration v = configuration w" "tx_log v = tx_log w @ map (packet_frame data src None) [0..<j]"
    unfolding len add_0 by blast
  show ?thesis
    using v early_update_silent [OF v(2)] sent_step [OF v(2) assms(3,2)] by (intro exI [of _ v]) (auto simp: not_less)
qed

text \<open>
  C2: a broadcast message arrives. A manager without sessions that is given between 9 and 1785 bytes,
  when the network accepts its frames, sends the announcement at once and then exactly one packet for each update
  that comes at least the configured delay after the previous packet; an update that comes
  earlier sends nothing and changes nothing but the time. After as many spaced updates as there are packets it has
  reported success and forgotten the session. And any manager that listens to the source and
  has room for a session, whatever else it is doing, when it is given exactly these frames in order, delivers
  one message with exactly these bytes, the parameter group and the source, and forgets its session.
\<close>

theorem broadcast_delivered:
  assumes "activeSessions w = []" "tx_replies w = []" "cf_address_valid (cfs w src)" "8 < length data" "length data \<le> 1785"
    "length ds = packet_count (length data)"
    "\<forall>d \<in> set ds. minimumTimeBetweenTransportProtocolBAMFrames (configuration w) \<le> d"
    "unat pgn < 2 ^ 24"
  shows "\<exists>w1 w' announcement packets. protocol_transmit_message pgn (Some data) (Some src) None cb w = Some (True, w1)
    \<and> tx_log w1 = tx_log w @ [announcement] \<and> length packets = length ds
    \<and> (\<forall>j < length ds. \<exists>v. run_events (\<lambda>d w. update (tick d w)) (take j ds) w1 = Some v
        \<and> tx_log v = tx_log w @ announcement # take j packets
        \<and> (\<forall>d. if d < minimumTimeBetweenTransportProtocolBAMFrames (configuration w) then update (tick d v) = Some (tick d v)
            else \<exists>u. update (tick d v) = Some u \<and> tx_log u = tx_log v @ [packets ! j]))
    \<and> run_events (\<lambda>d w. update (tick d w)) ds w1 = Some w' \<and> activeSessions w' = []
    \<and> tx_log w' = tx_log w @ announcement # packets
    \<and> completions w' = completions w @ (case cb of None \<Rightarrow> [] | Some i \<Rightarrow>
           [\<lparr>c_callback = i, c_pgn = pgn, c_length = of_nat (length data), c_source = src, c_destination = None,
             c_success = True\<rparr>])
    \<and> (\<forall>r ms. tp_ok r \<and> \<not> sessions_full r \<and> listens (cfs r) src None \<and> list_all2 carried (announcement # packets) ms \<longrightarrow>
         (\<exists>r'. run_events process_message ms r = Some r' \<and> \<not> has_session src None (activeSessions r')
            \<and> delivered r' = delivered r @ [make_message Receive
                (make_identifier Extended pgn PriorityDefault6 GLOBAL_ADDRESS (address (cfs r src)))
                data (Some src) None 0 (timestamp_us (last ms))]))"
proof -
  let ?packets = "map (packet_frame data src None) [0..<packet_count (length data)]"
  have pos: "0 < packet_count (length data)" using assms(4) by (simp add: packet_count_def)
  obtain w1 where w1: "protocol_transmit_message pgn (Some data) (Some src) None cb w = Some (True, w1)"
      "tx_log w1 = tx_log w @ [bam_frame pgn data src]" "configuration w1 = configuration w"
      "completions w1 = completions w" "sent_packets 0 data src pgn cb w1"
    using announce [OF assms(1-5)] by blast
  obtain w' where w': "run_events (\<lambda>d w. update (tick d w)) ds w1 = Some w'" "activeSessions w' = []"
      "tx_log w' = tx_log w1 @ ?packets"
      "completions w' = completions w1 @ (case cb of None \<Rightarrow> [] | Some i \<Rightarrow>
           [\<lparr>c_callback = i, c_pgn = pgn, c_length = of_nat (length data), c_source = src, c_destination = None,
             c_success = True\<rparr>])"
    using sent_all [OF w1(5) pos assms(5), of ds] assms(6,7) w1(3) by auto
  have pace: "\<exists>v. run_events (\<lambda>d w. update (tick d w)) (take j ds) w1 = Some v
        \<and> tx_log v = tx_log w @ bam_frame pgn data src # take j ?packets
        \<and> (\<forall>d. if d < minimumTimeBetweenTransportProtocolBAMFrames (configuration w) then update (tick d v) = Some (tick d v)
            else \<exists>u. update (tick d v) = Some u \<and> tx_log u = tx_log v @ [?packets ! j])"
    if "j < length ds" for j
  proof -
    have j: "j < packet_count (length data)" "j \<le> length ds" using that assms(6) by simp_all
    then have t: "take j ?packets = map (packet_frame data src None) [0..<j]"
        "?packets ! j = packet_frame data src None j" by (simp_all add: take_map)
    have "\<forall>d \<in> set ds. minimumTimeBetweenTransportProtocolBAMFrames (configuration w1) \<le> d" using assms(7) w1(3) by simp
    from broadcast_pace [OF w1(5) assms(5) j this] show ?thesis unfolding t w1(2,3) by simp
  qed
  have receive: "\<exists>r'. run_events process_message ms r = Some r' \<and> \<not> has_session src None (activeSessions r')
            \<and> delivered r' = delivered r @ [make_message Receive
                (make_identifier Extended pgn PriorityDefault6 GLOBAL_ADDRESS (address (cfs r src)))
                data (Some src) None 0 (timestamp_us (last ms))]"
    if r: "tp_ok r" "\<not> sessions_full r" and l: "listens (cfs r) src None"
      and c: "list_all2 carried (bam_frame pgn data src # ?packets) ms"
    for r ms
  proof -
    from c obtain m ms' where ms: "ms = m # ms'" "carried (bam_frame pgn data src) m" "list_all2 carried ?packets ms'"
      by (auto simp: list_all2_Cons1)
    have ne: "ms' \<noteq> []" using ms(3) pos by auto
    have pos': "0 < length data" using assms(4) by linarith
    obtain r1 where r1: "process_message m r = Some r1" "received 0 data src None pgn r1" "delivered r1 = delivered r"
        "cfs r1 = cfs r"
      using bam_received [OF r pos' assms(5) assms(8) l ms(2)] by blast
    have "listens (cfs r1) src None" using l r1(4) by simp
    from reassembly [OF r1(2) pos assms(5) this ms(3)] r1 ne show ?thesis by (auto simp: ms(1))
  qed
  have len: "length ?packets = length ds" using assms(6) by simp
  have log: "tx_log w' = tx_log w @ bam_frame pgn data src # ?packets" using w'(3) w1(2) by simp
  have cmp: "completions w' = completions w @ (case cb of None \<Rightarrow> [] | Some i \<Rightarrow>
           [\<lparr>c_callback = i, c_pgn = pgn, c_length = of_nat (length data), c_source = src, c_destination = None,
             c_success = True\<rparr>])" using w'(4) w1(4) by simp
  show ?thesis
    by (rule exI [of _ w1], rule exI [of _ w'], rule exI [of _ "bam_frame pgn data src"], rule exI [of _ ?packets], intro conjI)
       (rule w1(1) w1(2) len w'(1) w'(2) log cmp | use pace receive in blast)+
qed

definition tp_boot :: "cf_store \<Rightarrow> tp" where
  "tp_boot store = \<lparr>cfs = store, clock = 0, configuration = default_configuration, tx_replies = [], tx_log = [],
     delivered = [], completions = [], activeSessions = [], next_sid = 0\<rparr>"

text \<open>Witness of C2: ten bytes in two packets.\<close>

theorem broadcast_delivered_witness:
  "\<exists>w1 w'. protocol_transmit_message 0xFEB3 (Some [1, 2, 3, 4, 5, 6, 7, 8, 9, 10]) (Some 7) None None (tp_boot demo_store)
       = Some (True, w1)
     \<and> run_events (\<lambda>d w. update (tick d w)) [50, 60] w1 = Some w' \<and> activeSessions w' = []"
proof -
  let ?data = "[1, 2, 3, 4, 5, 6, 7, 8, 9, 10] :: u8 list"
  have "activeSessions (tp_boot demo_store) = []" "tx_replies (tp_boot demo_store) = []"
    "cf_address_valid (cfs (tp_boot demo_store) 7)" "8 < length ?data" "length ?data \<le> 1785"
    "length [50 :: u32, 60] = packet_count (length ?data)"
    "\<forall>d \<in> set [50 :: u32, 60]. minimumTimeBetweenTransportProtocolBAMFrames (configuration (tp_boot demo_store)) \<le> d"
    "unat (0xFEB3 :: u32) < 2 ^ 24"
    by (simp_all add: tp_boot_def demo_store_def cf_address_valid_def default_configuration_def packet_count_def)
  from broadcast_delivered [OF this, of None] show ?thesis by blast
qed

section \<open>A destination specific transfer at the receiver\<close>

theorem request_reassembled:
  assumes "tp_ok w" "\<not> sessions_full w" "0 < length data" "length data \<le> 1785" "unat pgn < 2 ^ 24"
    "listens (cfs w) src (Some dst)" "\<not> has_session src (Some dst) (activeSessions w)" "tx_replies w = []"
    "list_all2 carried (rts_frame pgn data src dst limit
        # map (packet_frame data src (Some dst)) [0..<packet_count (length data)]) ms"
  shows "\<exists>w'. run_events process_message ms w = Some w' \<and> \<not> has_session src (Some dst) (activeSessions w')
    \<and> delivered w' = delivered w @ [make_message Receive
         (make_identifier Extended pgn PriorityDefault6 (address (cfs w dst)) (address (cfs w src)))
         data (Some src) (Some dst) 0 (timestamp_us (last ms))]"
proof -
  have pos: "0 < packet_count (length data)" using packet_count_bounds [OF assms(3,4)] by simp
  from assms(9) obtain m ms' where ms: "ms = m # ms'" "carried (rts_frame pgn data src dst limit) m"
    "list_all2 carried (map (packet_frame data src (Some dst)) [0..<packet_count (length data)]) ms'"
    by (auto simp: list_all2_Cons1)
  have ne: "ms' \<noteq> []" using ms(3) pos by auto
  obtain w1 where w1: "process_message m w = Some w1" "received 0 data src (Some dst) pgn w1" "delivered w1 = delivered w"
      "cfs w1 = cfs w"
    using rts_received [OF assms(1-6) ms(2) assms(7,8)] by blast
  have "listens (cfs w1) src (Some dst)" using assms(6) w1(4) by simp
  from reassembly [OF w1(2) pos assms(4) this ms(3)] w1 ne show ?thesis by (auto simp: ms(1))
qed

section \<open>Every run is defined\<close>

datatype tp_event =
    TpMessage CANMessage
  | TpUpdate
  | TpTransmit u32 "u8 list option" "cf option" "cf option" "nat option"
  | TpTime u32
  | TpStore cf_store
  | TpConfigure CANNetworkConfiguration
  | TpNetwork "bool list"

fun tp_step :: "tp_event \<Rightarrow> tp \<Rightarrow> tp option" where
  "tp_step (TpMessage m) w = process_message m w"
| "tp_step TpUpdate w = update w"
| "tp_step (TpTransmit pgn data src dst cb) w = map_option snd (protocol_transmit_message pgn data src dst cb w)"
| "tp_step (TpTime d) w = Some (tick d w)"
| "tp_step (TpStore store) w = Some (w\<lparr>cfs := store\<rparr>)"
| "tp_step (TpConfigure c) w = Some (w\<lparr>configuration := c\<rparr>)"
| "tp_step (TpNetwork rs) w = Some (w\<lparr>tx_replies := rs\<rparr>)"

fun tp_admissible :: "tp_event \<Rightarrow> bool" where
  "tp_admissible (TpMessage m) = bounded_message m"
| "tp_admissible _ = True"

interpretation tp: total_manager tp_step tp_admissible tp_ok
proof
  fix w e assume "tp_ok w" "tp_admissible e"
  then show "\<exists>w'. tp_step e w = Some w' \<and> tp_ok w'"
  proof (cases e)
    case (TpMessage m)
    then show ?thesis using process_message_fine \<open>tp_ok w\<close> \<open>tp_admissible e\<close> by (simp add: fine_def)
  next
    case TpUpdate
    then show ?thesis using update_fine \<open>tp_ok w\<close> by (simp add: fine_def)
  next
    case (TpTransmit p d s dst cb)
    then show ?thesis using transmit_fine [OF \<open>tp_ok w\<close>, of p d s dst cb] by auto
  qed (simp_all add: table_ok_def tick_def)
qed

text \<open>
  C16: no sequence of events (received messages with any content, updates, transmissions, time,
  refused frames, changes of addresses and of the configuration) makes the manager write outside a
  message buffer or read past one: every run is defined, no two sessions have the
  same source and destination, and every session's buffer has its announced length.
\<close>

theorem tp_runs_defined:
  assumes "activeSessions w = []" "\<forall>m. TpMessage m \<in> set es \<longrightarrow> length (msg_data m) < 2 ^ 32"
  shows "\<exists>w'. run_events tp_step es w = Some w'
    \<and> distinct (map (\<lambda>s. (session_source s, session_destination s)) (activeSessions w'))
    \<and> (\<forall>s \<in> set (activeSessions w'). length (session_data s) = unat (totalMessageSize s))"
proof -
  have "list_all tp_admissible es"
    unfolding list_all_iff using assms(2) by (metis bounded_message_def tp_admissible.elims(3))
  moreover have "tp_ok w" using assms(1) by (simp add: table_ok_def session_table_Nil)
  ultimately obtain w' where "run_events tp_step es w = Some w'" "tp_ok w'" using tp.run_total by blast
  moreover have "session_key = (\<lambda>s :: tp_session. (session_source s, session_destination s))"
    by (rule ext) (simp add: session_key_def)
  ultimately show ?thesis by (auto simp: table_ok_def session_table_def session_ok_def)
qed

section \<open>Timeouts\<close>

lemma send_packets_active:
  "send_packets n s w = Some (s', w') \<Longrightarrow> activeSessions w' = activeSessions w \<and> sid s' = sid s
     \<and> clock w' = clock w \<and> cfs w' = cfs w \<and> next_sid w' = next_sid w"
proof (induction n arbitrary: s w)
  case (Suc n)
  obtain buf where buf: "packet_bytes s = Some buf" using Suc.prems by (cases "packet_bytes s") simp_all
  define f where "f = \<lparr>f_pgn = TransportProtocolDataTransfer, f_data = buf,
              f_source = session_source s, f_destination = session_destination s, f_priority = PriorityLowest7\<rparr>"
  have "(if fst (send_frame f w)
        then send_packets n (set_last_sequency_number (lastSequenceNumber s + 1) (clock w) s) (snd (send_frame f w))
        else Some (s, snd (send_frame f w))) = Some (s', w')"
    using Suc.prems buf by (auto simp: f_def split_beta split: if_splits)
  then show ?case using Suc.IH [of "set_last_sequency_number (lastSequenceNumber s + 1) (clock w) s" "snd (send_frame f w)"]
    by (auto simp: setter_defs split: if_splits)
qed simp

lemma cm_senders_net [simp]:
  "clock (snd (send_abort a b p r w)) = clock w" "cfs (snd (send_abort a b p r w)) = cfs w"
  "clock (snd (send_broadcast_announce_message s w)) = clock w"
  "cfs (snd (send_broadcast_announce_message s w)) = cfs w"
  "clock (snd (send_request_to_send s w)) = clock w" "cfs (snd (send_request_to_send s w)) = cfs w"
  by (simp_all add: cm_sender_defs)

lemma others_cm [simp]:
  "other_sessions i (snd (send_abort a b p r w)) = other_sessions i w"
  "other_sessions i (snd (send_broadcast_announce_message s w)) = other_sessions i w"
  "other_sessions i (snd (send_request_to_send s w)) = other_sessions i w"
  by (simp_all add: other_sessions_def)

lemma abort_others [simp]:
  "other_sessions (sid s) (snd (abort_session s r w)) = other_sessions (sid s) w"
  "clock (snd (abort_session s r w)) = clock w" "cfs (snd (abort_session s r w)) = cfs w"
  by (simp_all add: abort_session_alt split: option.split)

lemma touches_state_machine:
  assumes "update_state_machine s w = Some w'"
  shows "touches_only (sid s) w w'"
proof (cases "tp_state s")
  case SendDataTransferPackets
  show ?thesis
  proof (cases "send_data_transfer_packets s w = Some w'")
    case True
    then obtain s1 w1 where "send_packets (unat (frames_to_send s w)) s w = Some (s1, w1)"
        and w': "w' = after_packets s1 (put_active s1 w1)"
      by (auto simp: send_data_transfer_packets_def bind_eq_Some_conv split: prod.splits)
    from send_packets_active [OF this(1)] have "touches_only (sid s) w (put_active s1 w1)" "sid s1 = sid s"
      by (simp_all add: touches_only_def) (simp add: other_sessions_def)
    then show ?thesis
      using touches_close [of s1 "put_active s1 w1" True]
      by (auto simp: w' after_packets_def touches_only_def setter_defs)
  next
    case False
    then show ?thesis
      using assms SendDataTransferPackets
      by (simp add: update_state_machine_def touches_only_def split: if_splits)
  qed
next
  case SendClearToSend
  then show ?thesis
    using assms by (auto simp: update_state_machine_def send_clear_to_send_alt Let_def touches_only_def granted_def setter_defs
        split: if_splits)
qed (use assms in \<open>auto simp: update_state_machine_def update_waiting_cts_def update_waiting_data_def split_beta
       touches_only_def setter_defs split: if_splits\<close>)

lemma touches_update_session: "update_session s w = Some w' \<Longrightarrow> touches_only (sid s) w w'"
  using touches_close [of s w False] touches_state_machine [of s w w']
  by (auto simp: update_session_def split: if_splits)

lemma update_sessions_absent:
  "update_sessions is w = Some w' \<Longrightarrow> \<forall>t \<in> set (activeSessions w). sid t \<noteq> i \<Longrightarrow> \<forall>t \<in> set (activeSessions w'). sid t \<noteq> i"
proof (induction "is" arbitrary: w)
  case (Cons j "is")
  obtain w1 where w1: "(case find (\<lambda>s. sid s = j) (activeSessions w) of None \<Rightarrow> Some w | Some s \<Rightarrow> update_session s w) = Some w1"
      "update_sessions is w1 = Some w'"
    using Cons.prems(1) by (auto simp: bind_eq_Some_conv)
  have "\<forall>t \<in> set (activeSessions w1). sid t \<noteq> i"
  proof (cases "find (\<lambda>s. sid s = j) (activeSessions w)")
    case (Some s)
    then have s: "s \<in> set (activeSessions w)" by (auto simp: find_Some_iff)
    have u: "update_session s w = Some w1" using w1(1) Some by simp
    from touches_update_session [OF u] have "other_sessions (sid s) w1 = other_sessions (sid s) w"
      by (simp add: touches_only_def)
    moreover have ne: "i \<noteq> sid s" using Cons.prems(2) s by auto
    ultimately show ?thesis using sid_other [OF ne, of w1] sid_other [OF ne, of w] Cons.prems(2) by auto
  qed (use w1 Cons.prems in simp)
  then show ?case using Cons.IH [OF w1(2)] by blast
qed simp

definition waits_for_peer :: "tp_session \<Rightarrow> bool" where
  "waits_for_peer s \<longleftrightarrow> tp_state s \<in> {WaitForClearToSend, WaitForDataTransferPacket, WaitForEndOfMessageAcknowledge}"

lemma expired_closes:
  assumes "waits_for_peer s" "1250 < clock w - timestamp_ms s" "update_session s w = Some w'"
  shows "\<forall>t \<in> set (activeSessions w'). sid t \<noteq> sid s"
proof -
  have gone: "\<forall>t \<in> set (activeSessions (close_session s b v)). sid t \<noteq> sid s" for b v
    by (simp add: close_session_def Let_def erase_session_def)
  then have gone2: "\<forall>t \<in> set (activeSessions (snd (abort_session s r v))). sid t \<noteq> sid s" for r v
    by (simp add: abort_session_alt)
  have "750 < clock w - timestamp_ms s" using assms(2) by (simp add: word_less_nat_alt)
  then show ?thesis
    using assms gone gone2
    by (auto simp: waits_for_peer_def update_session_def update_state_machine_def update_waiting_cts_def
        update_waiting_data_def get_time_since_last_update_def split: if_splits)
qed

lemma update_sessions_expire:
  "update_sessions is w = Some w' \<Longrightarrow> tp_ok w \<Longrightarrow> s \<in> set (activeSessions w) \<Longrightarrow> sid s \<in> set is \<Longrightarrow> waits_for_peer s
    \<Longrightarrow> 1250 < clock w - timestamp_ms s \<Longrightarrow> \<forall>t \<in> set (activeSessions w'). sid t \<noteq> sid s"
proof (induction "is" arbitrary: w)
  case (Cons j "is")
  obtain w1 where w1: "(case find (\<lambda>s. sid s = j) (activeSessions w) of None \<Rightarrow> Some w | Some s \<Rightarrow> update_session s w) = Some w1"
      "update_sessions is w1 = Some w'"
    using Cons.prems(1) by (auto simp: bind_eq_Some_conv)
  show ?case
  proof (cases "j = sid s")
    case True
    have "find (\<lambda>t. sid t = j) (activeSessions w) = Some s"
      using Cons.prems(2,3) True unfolding table_ok_def by (auto intro: find_sid)
    then have "update_session s w = Some w1" using w1(1) by simp
    from expired_closes [OF Cons.prems(5,6) this] show ?thesis by (rule update_sessions_absent [OF w1(2)])
  next
    case False
    have "s \<in> set (activeSessions w1) \<and> clock w1 = clock w \<and> tp_ok w1"
    proof (cases "find (\<lambda>s. sid s = j) (activeSessions w)")
      case (Some u)
      then have u: "u \<in> set (activeSessions w)" "sid u = j" by (auto simp: find_Some_iff)
      have step: "update_session u w = Some w1" using w1(1) Some by simp
      have "s \<in> set (other_sessions j w)" using Cons.prems(3) False by (auto simp: other_sessions_def)
      then have "s \<in> set (other_sessions j w1) \<and> clock w1 = clock w"
        using touches_update_session [OF step] u(2) by (simp add: touches_only_def)
      then show ?thesis
        using update_session_fine [OF Cons.prems(2) u(1)] step by (simp add: fine_def other_sessions_def)
    qed (use w1 Cons.prems in simp)
    then show ?thesis using Cons.IH [OF w1(2)] Cons.prems(4-6) False by auto
  qed
qed simp

theorem sessions_time_out:
  assumes "tp_ok w" "s \<in> set (activeSessions w)" "waits_for_peer s" "1250 < clock w - timestamp_ms s"
  shows "\<exists>w'. update w = Some w' \<and> (\<forall>t \<in> set (activeSessions w'). sid t \<noteq> sid s)"
proof -
  obtain w' where "update w = Some w'" using update_fine [OF assms(1)] by (auto simp: fine_def)
  then show ?thesis
    using update_sessions_expire [OF _ assms(1,2) _ assms(3,4)] assms(2) by (auto simp: update_def)
qed

section \<open>The clear-to-send window\<close>

text \<open>A transmitting session that has sent \<open>k\<close> packets and waits for a clear to send.\<close>

definition awaits_grant :: "nat \<Rightarrow> u8 list \<Rightarrow> cf \<Rightarrow> cf \<Rightarrow> u32 \<Rightarrow> tp \<Rightarrow> bool" where
  "awaits_grant k data src dst pgn w \<longleftrightarrow> (\<exists>s. activeSessions w = [s] \<and> tp_state s = WaitForClearToSend
     \<and> lastSequenceNumber s = of_nat k \<and> session_data s = data \<and> totalMessageSize s = of_nat (length data)
     \<and> session_source s = src \<and> session_destination s = Some dst \<and> direction s = DirTransmit
     \<and> parameterGroupNumber s = pgn)
   \<and> tx_replies w = [] \<and> cf_address_valid (cfs w src) \<and> cf_address_valid (cfs w dst)"

theorem grant_sends_window:
  assumes "awaits_grant k data src dst pgn w" "k < packet_count (length data)" "length data \<le> 1785"
    "0 < n" "k + n \<le> 255" "n \<le> unat (networkManagerMaxFramesToSendPerUpdate (configuration w))"
  shows "\<exists>w' s. update (process_clear_to_send dst src pgn (of_nat n) (of_nat (Suc k)) w) = Some w'
    \<and> tx_log w' = tx_log w @ map (packet_frame data src (Some dst)) [k..<k + n]
    \<and> activeSessions w' = [s] \<and> unat (lastSequenceNumber s) = k + n
    \<and> tp_state s = (if k + n = packet_count (length data) then WaitForEndOfMessageAcknowledge else WaitForClearToSend)"
proof -
  obtain s where w: "activeSessions w = [s]" "tp_state s = WaitForClearToSend"
      "lastSequenceNumber s = of_nat k" "session_data s = data" "totalMessageSize s = of_nat (length data)"
      "session_source s = src" "session_destination s = Some dst" "direction s = DirTransmit"
      "parameterGroupNumber s = pgn" "tx_replies w = []" "cf_address_valid (cfs w src)" "cf_address_valid (cfs w dst)"
    using assms(1) by (auto simp: awaits_grant_def)
  have ok: "session_ok s" using w assms(3) by (simp add: session_ok_def unat_of_nat)
  define t where "t = s\<lparr>lastAcknowledgedPacketNumber := of_nat k, clearToSendPacketCount := of_nat n,
      tp_state := SendDataTransferPackets, timestamp_ms := clock w\<rparr>"
  have k: "unat (of_nat k :: u8) = k" "unat (of_nat (Suc k) :: u8) = Suc k" "unat (of_nat n :: u8) = n"
    using assms(4,5) by (simp_all add: unat_of_nat del: of_nat_Suc)
  have total: "unat (get_total_number_of_packets s) = packet_count (length data)" by (rule total_packets [OF w(5) assms(3)])
  have "\<not> (of_nat (Suc k) :: u8) > get_total_number_of_packets s"
    using total k assms(2) by (simp add: word_less_nat_alt del: of_nat_Suc)
  moreover have "(of_nat n :: u8) \<noteq> 0" using k(3) assms(4) by auto
  moreover have "put_active t w = w\<lparr>activeSessions := [t]\<rparr>" using w(1) by (simp add: put_active_def put_session_def t_def)
  ultimately have cts: "process_clear_to_send dst src pgn (of_nat n) (of_nat (Suc k)) w = w\<lparr>activeSessions := [t]\<rparr>"
    using w by (simp add: process_clear_to_send_def find_session_def session_matches_def setter_defs t_def)
  let ?w = "w\<lparr>activeSessions := [t]\<rparr>"
  let ?fs = "map (\<lambda>i. data_frame t (of_nat k + of_nat i)) [0..<n]"
  let ?w1 = "?w\<lparr>tx_log := tx_log w @ ?fs\<rparr>"
  let ?u = "advance n (clock w) t"
  have tok: "session_ok t" using ok by (simp add: t_def session_ok_def)
  note u = advance_fields [of n "clock w" t t]
  have fs: "?fs = map (packet_frame data src (Some dst)) [k..<k + n]"
  proof (rule nth_equalityI)
    fix i assume "i < length ?fs"
    then have "unat (of_nat k + of_nat i :: u8) = k + i" using assms(5) k(1) by (simp add: unat_plus_if' unat_of_nat)
    then show "?fs ! i = map (packet_frame data src (Some dst)) [k..<k + n] ! i"
      using \<open>i < length ?fs\<close> w by (simp add: data_frame_def packet_frame_def t_def algebra_simps)
  qed simp
  have "send_packets n t ?w = Some (?u, ?w1)"
    using send_packets_burst [OF tok, of n ?w] w by (simp add: send_until_accepting t_def)
  moreover have "frames_to_send t ?w = of_nat n"
    using assms(6) w k(3) by (simp add: frames_to_send_def get_cts_number_of_packets_remaining_def get_last_packet_number_def
        t_def session_is_broadcast_def word_less_nat_alt not_less)
  ultimately have send: "send_data_transfer_packets t ?w = Some (after_packets ?u (put_active ?u ?w1))"
    by (simp add: send_data_transfer_packets_def k(3))
  have "sid t = sid s" "tp_state t = SendDataTransferPackets" "session_source t = src" "session_destination t = Some dst"
    using w by (simp_all add: t_def)
  then have upd: "update ?w = Some (after_packets ?u (put_active ?u ?w1))"
    using w send by (simp add: update_def update_session_def session_is_broadcast_def update_state_machine_def)
  have last: "unat (lastSequenceNumber ?u) = k + n"
    using u assms(5) w by (simp add: t_def unat_of_nat flip: of_nat_add)
  have size: "totalMessageSize ?u = of_nat (length data)" using u w by (simp add: t_def)
  have rem: "get_number_of_remaining_packets ?u = 0 \<longleftrightarrow> k + n = packet_count (length data)"
    using remaining_zero [OF size assms(3)] last by simp
  have spent: "get_cts_number_of_packets_remaining ?u = 0"
    using u w by (simp add: get_cts_number_of_packets_remaining_def get_last_packet_number_def t_def)
  have "put_active ?u ?w1 = ?w1\<lparr>activeSessions := [?u]\<rparr>" using u by (simp add: put_active_def put_session_def)
  then show ?thesis
    unfolding cts upd using rem spent last u w fs
    by (auto simp: after_packets_def session_is_broadcast_def t_def put_active_def put_session_def setter_defs)
qed


lemma packets_of_any_size:
  "get_total_number_of_packets (make_tp_session i d bs pgn sz c src dst cb) = of_nat (packet_count (unat sz))"
proof -
  let ?s = "make_tp_session i d bs pgn sz c src dst cb"
  have l: "get_message_length ?s = sz"
    unfolding get_message_length_def make_tp_session_def
    by (rule bit_word_eqI) (auto simp: bit_ucast_iff dest: bit_imp_le_length)
  have d: "(ucast (sz div 7) :: u8) = of_nat (unat sz div 7)"
    by (simp add: word_unat_eq_iff unat_narrow_u8 unat_div unat_of_nat)
  have m: "0 < sz mod 7 \<longleftrightarrow> 0 < unat sz mod 7" by (simp add: word_less_nat_alt unat_mod)
  have "packet_count (unat sz) = unat sz div 7 + (if 0 < unat sz mod 7 then 1 else 0)"
    unfolding packet_count_def by presburger
  then show ?thesis by (simp add: get_total_number_of_packets_def l d m)
qed

theorem request_size_unchecked:
  assumes "tp_ok w" "\<not> sessions_full w" "\<not> has_session src (Some dst) (activeSessions w)"
    "packets = of_nat (packet_count (unat sz))"
  shows "\<exists>w' s. process_request_to_send src dst pgn sz packets limit w = Some w'
    \<and> find_session src (Some dst) (activeSessions w') = Some s \<and> unat (totalMessageSize s) = unat sz"
proof -
  define c where "c = (if limit > numberOfPacketsPerCTSMessage (configuration w)
      then numberOfPacketsPerCTSMessage (configuration w) else limit)"
  define s where "s = set_state SendClearToSend (clock w) (make_tp_session (next_sid w) DirReceive (replicate (unat sz) 0)
      pgn sz c src (Some dst) None)"
  have none: "find_session src (Some dst) (activeSessions w) = None" using assms(3) by (simp add: find_session_None_iff)
  let ?w0 = "push_active s (snd (new_sid w))"
  have sf: "sid s = next_sid w" "session_source s = src" "session_destination s = Some dst" "tp_state s = SendClearToSend"
      "unat (totalMessageSize s) = unat sz"
    by (simp_all add: s_def setter_defs make_tp_session_def)
  have "session_ok s"
    using total_packets_ok [of "next_sid w" DirReceive sz 0 pgn c src "Some dst" None]
    by (simp add: s_def setter_defs session_ok_def make_tp_session_def)
  then have w0: "tp_ok ?w0" using assms(1,3) sf by (intro table_ok_push) simp_all
  have f0: "find_session src (Some dst) (activeSessions ?w0) = Some s"
    using find_session_append [OF assms(3), of s] sf by (simp add: push_active_def new_sid_def session_matches_def)
  have "process_request_to_send src dst pgn sz packets limit w = update_state_machine s ?w0"
    using assms(2) none
    by (simp add: process_request_to_send_def Let_def new_sid_def s_def c_def [symmetric] packets_of_any_size assms(4))
  moreover obtain ok s1 w1 where cts: "send_clear_to_send s ?w0 = (ok, s1, w1)" by (metis prod_cases3)
  moreover have s1: "same_session session_ok s1 s" "totalMessageSize s1 = totalMessageSize s"
    and w1: "w1 = put_active s1 (snd (send_frame (cts_frame s) ?w0))"
    using cts by (auto simp: send_clear_to_send_alt Let_def granted_def setter_defs same_session_def session_key_def session_ok_def)
  have f1: "tp_ok w1" "find_session src (Some dst) (activeSessions w1) = Some s1"
    unfolding w1 using w0 f0 s1(1) by (auto intro: table_ok_found found_put)
  let ?s2 = "set_state WaitForDataTransferPacket (clock w1) s1"
  have "find_session src (Some dst) (activeSessions (put_active ?s2 w1)) = Some ?s2"
    using found_put [OF f1, of ?s2] by simp
  ultimately show ?thesis using f1 s1 sf by (cases ok) (simp_all add: update_state_machine_def setter_defs)
qed

definition demo_session :: tp_session where
  "demo_session = (make_tp_session 0 DirTransmit [1, 2, 3, 4, 5, 6, 7, 8, 9, 10] 0xEF00 10 16 7 (Some 3) None)
     \<lparr>tp_state := WaitForClearToSend\<rparr>"

theorem request_reassembled_witness:
  "\<exists>w'. run_events process_message
       (map as_message (rts_frame 0xEF00 [1, 2, 3, 4, 5, 6, 7, 8, 9, 10] 7 3 16
          # map (packet_frame [1, 2, 3, 4, 5, 6, 7, 8, 9, 10] 7 (Some 3)) [0..<2])) (tp_boot demo_store) = Some w'
     \<and> map msg_data (delivered w') = [[1, 2, 3, 4, 5, 6, 7, 8, 9, 10]]"
proof -
  let ?data = "[1, 2, 3, 4, 5, 6, 7, 8, 9, 10] :: u8 list"
  let ?fs = "rts_frame 0xEF00 ?data 7 3 16 # map (packet_frame ?data 7 (Some 3)) [0..<packet_count (length ?data)]"
  have n: "packet_count (length ?data) = 2" by (simp add: packet_count_def)
  have "list_all2 carried ?fs (map as_message ?fs)"
    unfolding list_all2_conv_all_nth
    by (auto simp: nth_Cons rts_frame_def cm_frame_def packet_frame_def intro!: carried_as_message split: nat.split)
  moreover have "tp_ok (tp_boot demo_store)" "\<not> sessions_full (tp_boot demo_store)" "0 < length ?data" "length ?data \<le> 1785"
    "unat (0xEF00 :: u32) < 2 ^ 24" "listens (cfs (tp_boot demo_store)) 7 (Some 3)"
    "\<not> has_session 7 (Some 3) (activeSessions (tp_boot demo_store))" "tx_replies (tp_boot demo_store) = []"
    by (simp_all add: tp_boot_def table_ok_def session_table_Nil sessions_full_def default_configuration_def listens_def
        demo_store_def cf_address_valid_def has_session_def)
  ultimately have "\<exists>w'. run_events process_message (map as_message ?fs) (tp_boot demo_store) = Some w'
     \<and> delivered w' = delivered (tp_boot demo_store) @ [make_message Receive
         (make_identifier Extended 0xEF00 PriorityDefault6 (address (cfs (tp_boot demo_store) 3)) (address (cfs (tp_boot demo_store) 7)))
         ?data (Some 7) (Some 3) 0 (timestamp_us (last (map as_message ?fs)))]"
    using request_reassembled [of "tp_boot demo_store" ?data "0xEF00" 7 3 16 "map as_message ?fs"] by blast
  then show ?thesis unfolding n by (auto simp: tp_boot_def make_message_def)
qed

text \<open>Witness of C16: an announcement, a transmission and an update.\<close>

theorem tp_runs_defined_witness:
  "\<exists>w'. run_events tp_step
      [TpMessage (as_message (bam_frame 0xFEB3 [1, 2, 3, 4, 5, 6, 7, 8, 9, 10] 7)),
       TpTransmit 0xEF00 (Some [1, 2, 3, 4, 5, 6, 7, 8, 9, 10]) (Some 7) (Some 3) None, TpUpdate] (tp_boot demo_store) = Some w'"
  using tp_runs_defined [of "tp_boot demo_store"
      "[TpMessage (as_message (bam_frame 0xFEB3 [1, 2, 3, 4, 5, 6, 7, 8, 9, 10] 7)),
       TpTransmit 0xEF00 (Some [1, 2, 3, 4, 5, 6, 7, 8, 9, 10]) (Some 7) (Some 3) None, TpUpdate]"]
  by (simp add: tp_boot_def as_message_def make_message_def bam_frame_def cm_frame_def del: run_events.simps)
    blast

definition demo_waiting :: tp where
  "demo_waiting = (tp_boot demo_store)\<lparr>activeSessions := [demo_session], next_sid := 1, clock := 2000\<rparr>"

lemma demo_waiting_facts:
  "tp_ok demo_waiting" "activeSessions demo_waiting = [demo_session]" "clock demo_waiting = 2000"
  "awaits_grant 0 [1, 2, 3, 4, 5, 6, 7, 8, 9, 10] 7 3 0xEF00 demo_waiting"
  "configuration demo_waiting = default_configuration" "\<not> has_session 7 (Some 4) (activeSessions demo_waiting)"
  by (simp_all add: demo_waiting_def demo_session_def tp_boot_def table_ok_def session_table_def session_ok_def awaits_grant_def
      make_tp_session_def demo_store_def cf_address_valid_def has_session_def session_matches_def)

theorem sessions_time_out_witness:
  "\<exists>w'. update demo_waiting = Some w' \<and> (\<forall>t \<in> set (activeSessions w'). sid t \<noteq> sid demo_session)"
  using sessions_time_out [of demo_waiting demo_session] demo_waiting_facts
  by (simp add: waits_for_peer_def demo_session_def make_tp_session_def)

theorem grant_sends_window_witness:
  "\<exists>w' s. update (process_clear_to_send 3 7 0xEF00 2 1 demo_waiting) = Some w'
    \<and> tx_log w' = tx_log demo_waiting @ map (packet_frame [1, 2, 3, 4, 5, 6, 7, 8, 9, 10] 7 (Some 3)) [0, 1]
    \<and> activeSessions w' = [s] \<and> tp_state s = WaitForEndOfMessageAcknowledge"
  using grant_sends_window [OF demo_waiting_facts(4), of 2] demo_waiting_facts(5)
  by (auto simp: packet_count_def default_configuration_def upt_rec)

theorem request_size_unchecked_witness:
  "\<exists>w' s. process_request_to_send 7 4 0xEF00 1793 1 16 demo_waiting = Some w'
    \<and> find_session 7 (Some 4) (activeSessions w') = Some s \<and> unat (totalMessageSize s) = 1793"
  using request_size_unchecked [OF demo_waiting_facts(1) _ demo_waiting_facts(6), of 1 1793 "0xEF00" 16]
    demo_waiting_facts(2,5)
  by (simp add: sessions_full_def default_configuration_def packet_count_def)

end
