(* ===== verification/Extended_Transport.thy ===== *)
theory Extended_Transport
  imports Can_Network "HOL-Library.Monad_Syntax"
begin

text \<open>
  The extended transport protocol manager, \<open>src/isobus/src/can_extended_transport_protocol.cpp\<close>:
  sessions with their counters at machine width, every connection management and data transfer
  handler, the state machine, and the periodic update. \<open>None\<close> is undefined behaviour (a write
  outside the buffer) or an exception. The lemmas show that every operation is defined and keeps
  the session table, so that every run of the manager is defined.
\<close>

section \<open>Sessions\<close>

datatype EtpState =
    EtpNone | EtpSendRequestToSend | EtpWaitForClearToSend | EtpSendClearToSend | EtpWaitForDataPacketOffset
  | EtpSendDataPacketOffset | EtpWaitForDataTransferPacket | EtpSendDataTransferPackets
  | EtpWaitForEndOfMessageAcknowledge

datatype EtpAbortReason =
    EtpReserved | EtpAlreadyInCMSession | EtpSystemResourcesNeeded | EtpTimeout
  | EtpClearToSendReceivedWhileTransferInProgress | EtpMaximumRetransmitRequestLimitReached
  | EtpUnexpectedDataTransferPacketReceived | EtpBadSequenceNumber | EtpDuplicateSequenceNumber
  | UnexpectedDataPacketOffsetReceived | UnexpectedDataPacketOffsetPGN | DataPacketOffsetExceedsClearToSend
  | BadDataPacketOffset | UnexpectedClearToSendPGN | NumberOfClearToSendPacketsExceedsMessage | EtpAnyOtherError

fun etp_reason_number :: "EtpAbortReason \<Rightarrow> u8" where
  "etp_reason_number EtpReserved = 0"
| "etp_reason_number EtpAlreadyInCMSession = 1"
| "etp_reason_number EtpSystemResourcesNeeded = 2"
| "etp_reason_number EtpTimeout = 3"
| "etp_reason_number EtpClearToSendReceivedWhileTransferInProgress = 4"
| "etp_reason_number EtpMaximumRetransmitRequestLimitReached = 5"
| "etp_reason_number EtpUnexpectedDataTransferPacketReceived = 6"
| "etp_reason_number EtpBadSequenceNumber = 7"
| "etp_reason_number EtpDuplicateSequenceNumber = 8"
| "etp_reason_number UnexpectedDataPacketOffsetReceived = 9"
| "etp_reason_number UnexpectedDataPacketOffsetPGN = 10"
| "etp_reason_number DataPacketOffsetExceedsClearToSend = 11"
| "etp_reason_number BadDataPacketOffset = 12"
| "etp_reason_number UnexpectedClearToSendPGN = 14"
| "etp_reason_number NumberOfClearToSendPacketsExceedsMessage = 15"
| "etp_reason_number EtpAnyOtherError = 250"

abbreviation (input) ETP_REQUEST_TO_SEND_MULTIPLEXOR :: u8 where "ETP_REQUEST_TO_SEND_MULTIPLEXOR \<equiv> 0x14"
abbreviation (input) ETP_CLEAR_TO_SEND_MULTIPLEXOR :: u8 where "ETP_CLEAR_TO_SEND_MULTIPLEXOR \<equiv> 0x15"
abbreviation (input) DATA_PACKET_OFFSET_MULTIPLXOR :: u8 where "DATA_PACKET_OFFSET_MULTIPLXOR \<equiv> 0x16"
abbreviation (input) ETP_END_OF_MESSAGE_ACKNOWLEDGE_MULTIPLEXOR :: u8 where "ETP_END_OF_MESSAGE_ACKNOWLEDGE_MULTIPLEXOR \<equiv> 0x17"
abbreviation (input) ETP_CONNECTION_ABORT_MULTIPLEXOR :: u8 where "ETP_CONNECTION_ABORT_MULTIPLEXOR \<equiv> 0xFF"
abbreviation (input) ETP_MAX_PROTOCOL_DATA_LENGTH :: nat where "ETP_MAX_PROTOCOL_DATA_LENGTH \<equiv> 117440505"
abbreviation (input) ETP_T1_TIMEOUT_MS :: u32 where "ETP_T1_TIMEOUT_MS \<equiv> 750"
abbreviation (input) ETP_T2_T3_TIMEOUT_MS :: u32 where "ETP_T2_T3_TIMEOUT_MS \<equiv> 1250"
abbreviation (input) ExtendedTransportProtocolConnectionManagement :: u32 where
  "ExtendedTransportProtocolConnectionManagement \<equiv> 0xC800"
abbreviation (input) ExtendedTransportProtocolDataTransfer :: u32 where
  "ExtendedTransportProtocolDataTransfer \<equiv> 0xC700"

record etp_session = session_base +
  etp_state :: EtpState
  etp_lastAcknowledgedPacketNumber :: u32
  sequenceNumberOffset :: u32
  etp_lastSequenceNumber :: u8
  dataPacketOffsetPacketCount :: u8
  clearToSendPacketCountLimit :: u8

type_synonym etp = "etp_session manager"

definition make_etp_session ::
    "nat \<Rightarrow> Direction \<Rightarrow> u8 list \<Rightarrow> u32 \<Rightarrow> u32 \<Rightarrow> cf \<Rightarrow> cf \<Rightarrow> nat option \<Rightarrow> etp_session" where
  "make_etp_session i dir data pgn sz src dst cb =
     \<lparr>sid = i, direction = dir, parameterGroupNumber = pgn, session_data = data, session_source = src,
      session_destination = Some dst, timestamp_ms = 0, totalMessageSize = sz, sessionCompleteCallback = cb,
      etp_state = EtpNone, etp_lastAcknowledgedPacketNumber = 0, sequenceNumberOffset = 0,
      etp_lastSequenceNumber = 0, dataPacketOffsetPacketCount = 0, clearToSendPacketCountLimit = 0xFF\<rparr>"

definition etp_set_state :: "EtpState \<Rightarrow> u32 \<Rightarrow> etp_session \<Rightarrow> etp_session" where
  "etp_set_state v now s = update_timestamp now (s\<lparr>etp_state := v\<rparr>)"

definition etp_get_last_packet_number :: "etp_session \<Rightarrow> u32" where
  "etp_get_last_packet_number s = ucast (etp_lastSequenceNumber s) + sequenceNumberOffset s"

definition etp_get_total_bytes_transferred :: "etp_session \<Rightarrow> u32" where
  "etp_get_total_bytes_transferred s =
     (let transferred = etp_get_last_packet_number s * 7
      in if transferred > totalMessageSize s then totalMessageSize s else transferred)"

definition get_dpo_number_of_packets_remaining :: "etp_session \<Rightarrow> u8" where
  "get_dpo_number_of_packets_remaining s =
     (let packetsSinceDPO = ucast (etp_get_last_packet_number s - etp_lastAcknowledgedPacketNumber s)
      in dataPacketOffsetPacketCount s - packetsSinceDPO)"

definition set_dpo_number_of_packets :: "u8 \<Rightarrow> u32 \<Rightarrow> etp_session \<Rightarrow> etp_session" where
  "set_dpo_number_of_packets v now s = update_timestamp now (s\<lparr>dataPacketOffsetPacketCount := v\<rparr>)"

definition set_cts_number_of_packet_limit :: "u8 \<Rightarrow> u32 \<Rightarrow> etp_session \<Rightarrow> etp_session" where
  "set_cts_number_of_packet_limit v now s = update_timestamp now (s\<lparr>clearToSendPacketCountLimit := v\<rparr>)"

definition set_sequence_number_offset :: "u32 \<Rightarrow> u32 \<Rightarrow> etp_session \<Rightarrow> etp_session" where
  "set_sequence_number_offset v now s = update_timestamp now (s\<lparr>sequenceNumberOffset := v\<rparr>)"

definition etp_set_last_sequency_number :: "u8 \<Rightarrow> u32 \<Rightarrow> etp_session \<Rightarrow> etp_session" where
  "etp_set_last_sequency_number v now s = update_timestamp now (s\<lparr>etp_lastSequenceNumber := v\<rparr>)"

definition etp_set_acknowledged_packet_number :: "u32 \<Rightarrow> u32 \<Rightarrow> etp_session \<Rightarrow> etp_session" where
  "etp_set_acknowledged_packet_number v now s = update_timestamp now (s\<lparr>etp_lastAcknowledgedPacketNumber := v\<rparr>)"

definition etp_get_total_number_of_packets :: "etp_session \<Rightarrow> u32" where
  "etp_get_total_number_of_packets s =
     (let totalNumberOfPackets = totalMessageSize s div 7
      in if totalMessageSize s mod 7 > 0 then totalNumberOfPackets + 1 else totalNumberOfPackets)"

definition etp_get_number_of_remaining_packets :: "etp_session \<Rightarrow> u32" where
  "etp_get_number_of_remaining_packets s = etp_get_total_number_of_packets s - etp_get_last_packet_number s"

section \<open>Sending\<close>

definition etp_cm_frame :: "u8 list \<Rightarrow> cf \<Rightarrow> cf option \<Rightarrow> tx_frame" where
  "etp_cm_frame bytes sender receiver =
     \<lparr>f_pgn = ExtendedTransportProtocolConnectionManagement, f_data = bytes, f_source = sender,
      f_destination = receiver, f_priority = PriorityLowest7\<rparr>"

definition etp_send_abort :: "cf \<Rightarrow> cf \<Rightarrow> u32 \<Rightarrow> EtpAbortReason \<Rightarrow> etp \<Rightarrow> bool \<times> etp" where
  "etp_send_abort sender receiver pgn reason w =
     send_frame (etp_cm_frame
       ([ETP_CONNECTION_ABORT_MULTIPLEXOR, etp_reason_number reason, 0xFF, 0xFF, 0xFF] @ pgn_bytes pgn)
       sender (Some receiver)) w"

definition etp_abort_session :: "etp_session \<Rightarrow> EtpAbortReason \<Rightarrow> etp \<Rightarrow> bool \<times> etp" where
  "etp_abort_session s reason w =
     (let (myControlFunction, partnerControlFunction) =
        (if direction s = DirTransmit then (Some (session_source s), session_destination s)
         else (session_destination s, Some (session_source s)));
          (retVal, w1) =
            (case (myControlFunction, partnerControlFunction) of
               (Some me, Some partner) \<Rightarrow> etp_send_abort me partner (parameterGroupNumber s) reason w
             | _ \<Rightarrow> (False, w))
      in (retVal, close_session s False w1))"

definition size_bytes :: "u32 \<Rightarrow> u8 list" where
  "size_bytes n = [ucast (n AND 0xFF), ucast (drop_bit 8 n AND 0xFF), ucast (drop_bit 16 n AND 0xFF),
     ucast (drop_bit 24 n AND 0xFF)]"

definition etp_send_request_to_send :: "etp_session \<Rightarrow> etp \<Rightarrow> bool \<times> etp" where
  "etp_send_request_to_send s w =
     send_frame (etp_cm_frame ([ETP_REQUEST_TO_SEND_MULTIPLEXOR] @ size_bytes (totalMessageSize s)
         @ pgn_bytes (parameterGroupNumber s))
       (session_source s) (session_destination s)) w"

definition etp_packet_limit :: "etp_session \<Rightarrow> u8" where
  \<comment> \<open>the number of packets a clear to send asks for\<close>
  "etp_packet_limit s =
     (if ucast (clearToSendPacketCountLimit s) > etp_get_number_of_remaining_packets s
      then ucast (etp_get_number_of_remaining_packets s) else clearToSendPacketCountLimit s)"

definition etp_send_clear_to_send :: "etp_session \<Rightarrow> etp \<Rightarrow> bool \<times> etp_session \<times> etp" where
  "etp_send_clear_to_send s w =
     (let (retVal, w1) =
        send_frame (etp_cm_frame ([ETP_CLEAR_TO_SEND_MULTIPLEXOR, etp_packet_limit s]
            @ pgn_bytes (etp_get_last_packet_number s + 1) @ pgn_bytes (parameterGroupNumber s))
          (the (session_destination s)) (Some (session_source s))) w;
          s1 = (if retVal
                then etp_set_acknowledged_packet_number (etp_get_last_packet_number s) (clock w1) s else s)
      in (retVal, s1, put_active s1 w1))"

definition packets_of_segment :: "etp_session \<Rightarrow> etp \<Rightarrow> u8" where
  \<comment> \<open>the number of packets a data packet offset announces\<close>
  "packets_of_segment s w =
     (let n0 = 0xFF :: u8;
          n1 = (if ucast n0 > etp_get_number_of_remaining_packets s
                then ucast (etp_get_number_of_remaining_packets s) else n0);
          n2 = (if n1 > clearToSendPacketCountLimit s then clearToSendPacketCountLimit s else n1)
      in if n2 > numberOfPacketsPerDPOMessage (configuration w) then numberOfPacketsPerDPOMessage (configuration w)
         else n2)"

definition send_data_packet_offset :: "etp_session \<Rightarrow> etp \<Rightarrow> bool \<times> etp_session \<times> etp" where
  "send_data_packet_offset s w =
     (let packetsThisSegment = packets_of_segment s w;
          (retVal, w1) =
            send_frame (etp_cm_frame ([DATA_PACKET_OFFSET_MULTIPLXOR, packetsThisSegment]
                @ pgn_bytes (etp_get_last_packet_number s) @ pgn_bytes (parameterGroupNumber s))
              (session_source s) (session_destination s)) w;
          s1 = (if retVal
                then
                  let a = set_dpo_number_of_packets packetsThisSegment (clock w1) s;
                      b = set_sequence_number_offset (etp_get_last_packet_number a) (clock w1) a
                  in etp_set_last_sequency_number 0 (clock w1) b
                else s)
      in (retVal, s1, put_active s1 w1))"

definition etp_send_end_of_session_acknowledgement :: "etp_session \<Rightarrow> etp \<Rightarrow> bool \<times> etp" where
  "etp_send_end_of_session_acknowledgement s w =
     send_frame (etp_cm_frame ([ETP_END_OF_MESSAGE_ACKNOWLEDGE_MULTIPLEXOR] @ size_bytes (totalMessageSize s)
         @ pgn_bytes (parameterGroupNumber s))
       (the (session_destination s)) (Some (session_source s))) w"

definition etp_packet_byte :: "etp_session \<Rightarrow> u32 \<Rightarrow> nat \<Rightarrow> u8 option" where
  "etp_packet_byte s base j =
     (let index = base + of_nat j
      in if index < totalMessageSize s then checked_nth (session_data s) (unat index) else Some 0xFF)"

definition etp_packet_bytes :: "etp_session \<Rightarrow> u8 list option" where
  "etp_packet_bytes s =
     (let base = etp_get_last_packet_number s * 7
      in map_option (\<lambda>bs. (etp_lastSequenceNumber s + 1) # bs) (those (map (etp_packet_byte s base) [0..<7])))"

fun etp_send_packets :: "nat \<Rightarrow> etp_session \<Rightarrow> etp \<Rightarrow> (etp_session \<times> etp) option" where
  "etp_send_packets 0 s w = Some (s, w)"
| "etp_send_packets (Suc n) s w =
     do {
       buffer \<leftarrow> etp_packet_bytes s;
       let (ok, w1) = send_frame \<lparr>f_pgn = ExtendedTransportProtocolDataTransfer, f_data = buffer,
              f_source = session_source s, f_destination = session_destination s, f_priority = PriorityLowest7\<rparr> w;
       if ok then etp_send_packets n (etp_set_last_sequency_number (etp_lastSequenceNumber s + 1) (clock w1) s) w1
       else Some (s, w1)
     }"

definition etp_frames_to_send :: "etp_session \<Rightarrow> etp \<Rightarrow> u8" where
  "etp_frames_to_send s w =
     (let framesToSend = get_dpo_number_of_packets_remaining s
      in if framesToSend > networkManagerMaxFramesToSendPerUpdate (configuration w)
         then networkManagerMaxFramesToSendPerUpdate (configuration w) else framesToSend)"

definition etp_after_packets :: "etp_session \<Rightarrow> etp \<Rightarrow> etp" where
  "etp_after_packets s w =
     (if etp_get_number_of_remaining_packets s = 0
      then put_active (etp_set_state EtpWaitForEndOfMessageAcknowledge (clock w) s) w
      else if get_dpo_number_of_packets_remaining s = 0
      then put_active (etp_set_state EtpWaitForClearToSend (clock w) s) w
      else w)"

definition etp_send_data_transfer_packets :: "etp_session \<Rightarrow> etp \<Rightarrow> etp option" where
  "etp_send_data_transfer_packets s w =
     do {
       (s1, w1) \<leftarrow> etp_send_packets (unat (etp_frames_to_send s w)) s w;
       Some (etp_after_packets s1 (put_active s1 w1))
     }"

section \<open>The state machine of a session\<close>

definition abort_when_late :: "u32 \<Rightarrow> etp_session \<Rightarrow> etp \<Rightarrow> etp" where
  \<comment> \<open>the three states that abort on a timeout\<close>
  "abort_when_late limit s w =
     (if get_time_since_last_update (clock w) s > limit then snd (etp_abort_session s EtpTimeout w) else w)"

fun etp_update_in :: "EtpState \<Rightarrow> etp_session \<Rightarrow> etp \<Rightarrow> etp option" where
  "etp_update_in EtpNone s w = Some w"
| "etp_update_in EtpSendRequestToSend s w =
     (let (ok, w1) = etp_send_request_to_send s w
      in Some (if ok then put_active (etp_set_state EtpWaitForClearToSend (clock w1) s) w1 else w1))"
| "etp_update_in EtpWaitForClearToSend s w =
     Some (if get_time_since_last_update (clock w) s > ETP_T2_T3_TIMEOUT_MS
           then (if clearToSendPacketCountLimit s > 0 then snd (etp_abort_session s EtpTimeout w)
                 else close_session s False w)
           else w)"
| "etp_update_in EtpSendClearToSend s w =
     (let (ok, s1, w1) = etp_send_clear_to_send s w
      in Some (if ok then put_active (etp_set_state EtpWaitForDataPacketOffset (clock w1) s1) w1 else w1))"
| "etp_update_in EtpWaitForDataPacketOffset s w = Some (abort_when_late ETP_T2_T3_TIMEOUT_MS s w)"
| "etp_update_in EtpSendDataPacketOffset s w =
     (let (ok, s1, w1) = send_data_packet_offset s w
      in Some (if ok then put_active (etp_set_state EtpSendDataTransferPackets (clock w1) s1) w1 else w1))"
| "etp_update_in EtpSendDataTransferPackets s w = etp_send_data_transfer_packets s w"
| "etp_update_in EtpWaitForDataTransferPacket s w = Some (abort_when_late ETP_T1_TIMEOUT_MS s w)"
| "etp_update_in EtpWaitForEndOfMessageAcknowledge s w = Some (abort_when_late ETP_T2_T3_TIMEOUT_MS s w)"

definition etp_update_state_machine :: "etp_session \<Rightarrow> etp \<Rightarrow> etp option" where
  "etp_update_state_machine s w = etp_update_in (etp_state s) s w"

section \<open>Received messages\<close>

definition etp_process_request_to_send :: "cf \<Rightarrow> cf \<Rightarrow> u32 \<Rightarrow> u32 \<Rightarrow> etp \<Rightarrow> etp option" where
  "etp_process_request_to_send src dst pgn sz w =
     (if sessions_full w then Some (snd (etp_send_abort dst src pgn EtpAlreadyInCMSession w))
      else
        let w1 = (case find_session src (Some dst) (activeSessions w) of
                    None \<Rightarrow> w
                  | Some oldSession \<Rightarrow>
                      if parameterGroupNumber oldSession \<noteq> pgn
                      then snd (etp_abort_session oldSession EtpAlreadyInCMSession w)
                      else close_session oldSession False w);
            (i, w2) = new_sid w1;
            newSession = make_etp_session i DirReceive (replicate (unat sz) 0) pgn sz src dst None;
            s1 = set_cts_number_of_packet_limit (numberOfPacketsPerDPOMessage (configuration w2)) (clock w2) newSession;
            s2 = etp_set_state EtpSendClearToSend (clock w2) s1
        in etp_update_state_machine s2 (push_active s2 w2))"

definition etp_process_clear_to_send :: "cf \<Rightarrow> cf \<Rightarrow> u32 \<Rightarrow> u8 \<Rightarrow> u32 \<Rightarrow> etp \<Rightarrow> etp" where
  "etp_process_clear_to_send src dst pgn packetsToBeSent nextPacketNumber w =
     (case find_session dst (Some src) (activeSessions w) of
        None \<Rightarrow> w
      | Some s \<Rightarrow>
          if parameterGroupNumber s \<noteq> pgn
          then snd (etp_send_abort dst src pgn EtpClearToSendReceivedWhileTransferInProgress
                 (snd (etp_abort_session s EtpClearToSendReceivedWhileTransferInProgress w)))
          else if nextPacketNumber > etp_get_total_number_of_packets s
          then snd (etp_abort_session s NumberOfClearToSendPacketsExceedsMessage w)
          else if etp_state s \<noteq> EtpWaitForClearToSend
          then snd (etp_abort_session s EtpClearToSendReceivedWhileTransferInProgress w)
          else
            let s1 = set_cts_number_of_packet_limit packetsToBeSent (clock w)
                       (etp_set_acknowledged_packet_number (nextPacketNumber - 1) (clock w) s);
                s2 = (if packetsToBeSent \<noteq> 0 then etp_set_state EtpSendDataPacketOffset (clock w) s1 else s1)
            in put_active s2 w)"

definition process_data_packet_offset :: "cf \<Rightarrow> cf \<Rightarrow> u32 \<Rightarrow> u8 \<Rightarrow> u32 \<Rightarrow> etp \<Rightarrow> etp" where
  "process_data_packet_offset src dst pgn numberOfPackets packetOffset w =
     (case find_session src (Some dst) (activeSessions w) of
        None \<Rightarrow> w
      | Some s \<Rightarrow>
          if parameterGroupNumber s \<noteq> pgn
          then snd (etp_send_abort dst src pgn UnexpectedDataPacketOffsetPGN
                 (snd (etp_abort_session s UnexpectedDataPacketOffsetPGN w)))
          else if etp_state s \<noteq> EtpWaitForDataPacketOffset
          then snd (etp_abort_session s UnexpectedDataPacketOffsetReceived w)
          else if numberOfPackets > clearToSendPacketCountLimit s
          then snd (etp_abort_session s DataPacketOffsetExceedsClearToSend w)
          else if packetOffset \<noteq> etp_lastAcknowledgedPacketNumber s
          then snd (etp_abort_session s BadDataPacketOffset w)
          else
            let s1 = etp_set_last_sequency_number 0 (clock w)
                       (set_sequence_number_offset packetOffset (clock w)
                         (set_dpo_number_of_packets numberOfPackets (clock w) s));
                s2 = (if numberOfPackets \<noteq> 0 then etp_set_state EtpWaitForDataTransferPacket (clock w) s1 else s1)
            in put_active s2 w)"

definition etp_process_end_of_session_acknowledgement :: "cf \<Rightarrow> cf \<Rightarrow> u32 \<Rightarrow> u32 \<Rightarrow> etp \<Rightarrow> etp" where
  "etp_process_end_of_session_acknowledgement src dst pgn numberOfBytesTransferred w =
     (case find_session dst (Some src) (activeSessions w) of
        None \<Rightarrow> w
      | Some s \<Rightarrow>
          if etp_state s = EtpWaitForEndOfMessageAcknowledge
          then close_session (s\<lparr>etp_state := EtpNone\<rparr>) (numberOfBytesTransferred = totalMessageSize s) w
          else w)"

definition etp_close_if_pgn :: "cf \<Rightarrow> cf \<Rightarrow> u32 \<Rightarrow> etp \<Rightarrow> etp" where
  "etp_close_if_pgn src dst pgn w =
     (case find_session src (Some dst) (activeSessions w) of
        None \<Rightarrow> w
      | Some s \<Rightarrow> if parameterGroupNumber s = pgn then close_session s False w else w)"

definition etp_process_abort :: "cf \<Rightarrow> cf \<Rightarrow> u32 \<Rightarrow> etp \<Rightarrow> etp" where
  "etp_process_abort src dst pgn w = etp_close_if_pgn dst src pgn (etp_close_if_pgn src dst pgn w)"

definition etp_process_connection_management_message :: "CANMessage \<Rightarrow> etp \<Rightarrow> etp option" where
  "etp_process_connection_management_message m w =
     (if get_data_length m \<noteq> 8 then Some w
      else do {
        pgn \<leftarrow> get_uint24_at 5 LittleEndian m;
        mux \<leftarrow> get_uint8_at 0 m;
        let src = the (msg_source m);
        let dst = the (msg_destination m);
        if mux = ETP_REQUEST_TO_SEND_MULTIPLEXOR then do {
          sz \<leftarrow> get_uint32_at 1 LittleEndian m;
          etp_process_request_to_send src dst pgn sz w
        }
        else if mux = ETP_CLEAR_TO_SEND_MULTIPLEXOR then do {
          packetsToBeSent \<leftarrow> get_uint8_at 1 m;
          nextPacketNumber \<leftarrow> get_uint24_at 2 LittleEndian m;
          Some (etp_process_clear_to_send src dst pgn packetsToBeSent nextPacketNumber w)
        }
        else if mux = DATA_PACKET_OFFSET_MULTIPLXOR then do {
          numberOfPackets \<leftarrow> get_uint8_at 1 m;
          packetOffset \<leftarrow> get_uint24_at 2 LittleEndian m;
          Some (process_data_packet_offset src dst pgn numberOfPackets packetOffset w)
        }
        else if mux = ETP_END_OF_MESSAGE_ACKNOWLEDGE_MULTIPLEXOR then do {
          numberOfBytesTransferred \<leftarrow> get_uint32_at 1 LittleEndian m;
          Some (etp_process_end_of_session_acknowledgement src dst pgn numberOfBytesTransferred w)
        }
        else if mux = ETP_CONNECTION_ABORT_MULTIPLEXOR then do {
          reason \<leftarrow> get_uint8_at 1 m;
          Some (etp_process_abort src dst pgn w)
        }
        else Some w
      })"

definition etp_copy_packet :: "CANMessage \<Rightarrow> etp_session \<Rightarrow> etp_session option" where
  \<comment> \<open>\<open>None\<close> is a write out of bounds\<close>
  "etp_copy_packet m s =
     (let currentDataIndex = 7 * etp_get_last_packet_number s;
          bytes_to_copy = min 7 (unat (totalMessageSize s - currentDataIndex))
      in map_option (\<lambda>d. s\<lparr>session_data := d\<rparr>)
           (checked_write (unat currentDataIndex) (take bytes_to_copy (drop 1 (msg_data m))) (session_data s)))"

definition etp_completed_message :: "CANMessage \<Rightarrow> etp_session \<Rightarrow> cf_store \<Rightarrow> CANMessage" where
  "etp_completed_message m s store =
     make_message Receive
       (make_identifier Extended (parameterGroupNumber s) PriorityDefault6
          (address (store (the (session_destination s)))) (address (store (session_source s))))
       (session_data s) (Some (session_source s)) (session_destination s) 0 (timestamp_us m)"

definition etp_accept_packet :: "CANMessage \<Rightarrow> u8 \<Rightarrow> etp_session \<Rightarrow> etp \<Rightarrow> etp option" where
  "etp_accept_packet m sequenceNumber s w =
     (if 7 * etp_get_last_packet_number s \<ge> totalMessageSize s
      then Some (snd (etp_abort_session s EtpAnyOtherError w))
      else do {
        s1 \<leftarrow> etp_copy_packet m s;
        let s2 = etp_set_last_sequency_number sequenceNumber (clock w) s1;
        let w1 = put_active s2 w;
        if etp_get_number_of_remaining_packets s2 = 0
        then
          (let w2 = snd (etp_send_end_of_session_acknowledgement s2 w1);
               w3 = deliver (etp_completed_message m s2 (cfs w2)) w2
           in Some (close_session s2 True w3))
        else if get_dpo_number_of_packets_remaining s2 = 0
        then (let s3 = etp_set_state EtpSendClearToSend (clock w1) s2
              in etp_update_state_machine s3 (put_active s3 w1))
        else Some w1
      })"

definition etp_process_data_transfer_message :: "CANMessage \<Rightarrow> etp \<Rightarrow> etp option" where
  "etp_process_data_transfer_message m w =
     (if get_data_length m \<noteq> 8 then Some w
      else do {
        sequenceNumber \<leftarrow> get_uint8_at 0 m;
        (case find_session (the (msg_source m)) (msg_destination m) (activeSessions w) of
           None \<Rightarrow> Some w
         | Some s \<Rightarrow>
             if etp_state s \<noteq> EtpWaitForDataTransferPacket
             then Some (snd (etp_abort_session s EtpUnexpectedDataTransferPacketReceived w))
             else if sequenceNumber = etp_lastSequenceNumber s
             then Some (snd (etp_abort_session s EtpDuplicateSequenceNumber w))
             else if unat sequenceNumber = unat (etp_lastSequenceNumber s) + 1
             then etp_accept_packet m sequenceNumber s w
             else Some (snd (etp_abort_session s EtpBadSequenceNumber w)))
      })"

definition etp_process_message :: "CANMessage \<Rightarrow> etp \<Rightarrow> etp option" where
  "etp_process_message m w =
     (if has_valid_source_control_function (cfs w) m \<and> is_destination_our_device (cfs w) m
      then
        (if get_parameter_group_number (msg_identifier m) = ExtendedTransportProtocolConnectionManagement
         then etp_process_connection_management_message m w
         else if get_parameter_group_number (msg_identifier m) = ExtendedTransportProtocolDataTransfer
         then etp_process_data_transfer_message m w
         else Some w)
      else Some w)"

section \<open>Transmission and periodic update\<close>

definition etp_protocol_transmit_message ::
    "u32 \<Rightarrow> u8 list option \<Rightarrow> cf option \<Rightarrow> cf option \<Rightarrow> nat option \<Rightarrow> etp \<Rightarrow> (bool \<times> etp) option" where
  "etp_protocol_transmit_message pgn data source dst cb w =
     (case (data, source, dst) of
        (Some bytes, Some src, Some d) \<Rightarrow>
          if length bytes \<le> 1785 \<or> length bytes > ETP_MAX_PROTOCOL_DATA_LENGTH then Some (False, w)
          else if \<not> cf_address_valid (cfs w src) \<or> \<not> cf_address_valid (cfs w d)
                  \<or> has_session src (Some d) (activeSessions w)
          then Some (False, w)
          else
            let (i, w1) = new_sid w;
                s = make_etp_session i DirTransmit bytes pgn (of_nat (length bytes)) src d cb;
                s1 = etp_set_state EtpSendRequestToSend (clock w1) s
            in map_option (\<lambda>w2. (True, w2)) (etp_update_state_machine s1 (push_active s1 w1))
      | _ \<Rightarrow> Some (False, w))"

definition etp_update_session :: "etp_session \<Rightarrow> etp \<Rightarrow> etp option" where
  "etp_update_session s w =
     (if \<not> cf_address_valid (cfs w (session_source s)) then Some (close_session s False w)
      else if \<not> cf_address_valid (cfs w (the (session_destination s))) then Some (close_session s False w)
      else if etp_state s \<noteq> EtpNone then etp_update_state_machine s w
      else Some w)"

fun etp_update_from :: "nat \<Rightarrow> etp \<Rightarrow> etp option" where
  \<comment> \<open>the loop from the last index down; \<open>at\<close> throws past the end\<close>
  "etp_update_from 0 w = Some w"
| "etp_update_from (Suc i) w =
     do {
       s \<leftarrow> checked_nth (activeSessions w) i;
       w1 \<leftarrow> etp_update_session s w;
       etp_update_from i w1
     }"

definition etp_update :: "etp \<Rightarrow> etp option" where
  "etp_update w = etp_update_from (length (activeSessions w)) w"

section \<open>Every operation keeps the table\<close>

lemmas etp_setter_defs = etp_set_state_def set_dpo_number_of_packets_def set_cts_number_of_packet_limit_def
  set_sequence_number_offset_def etp_set_last_sequency_number_def etp_set_acknowledged_packet_number_def
  update_timestamp_def

definition etp_session_ok :: "etp_session \<Rightarrow> bool" where
  "etp_session_ok s \<longleftrightarrow> length (session_data s) = unat (totalMessageSize s) \<and> session_destination s \<noteq> None"

abbreviation etp_ok :: "etp \<Rightarrow> bool" where
  "etp_ok \<equiv> table_ok etp_session_ok"

abbreviation etp_fine :: "etp option \<Rightarrow> bool" where
  "etp_fine \<equiv> fine etp_session_ok"

lemma etp_same_set [simp]:
  "same_session etp_session_ok (etp_set_state v n s) t = same_session etp_session_ok s t"
  "same_session etp_session_ok (set_dpo_number_of_packets c n s) t = same_session etp_session_ok s t"
  "same_session etp_session_ok (set_cts_number_of_packet_limit c n s) t = same_session etp_session_ok s t"
  "same_session etp_session_ok (set_sequence_number_offset o' n s) t = same_session etp_session_ok s t"
  "same_session etp_session_ok (etp_set_last_sequency_number c n s) t = same_session etp_session_ok s t"
  "same_session etp_session_ok (etp_set_acknowledged_packet_number o' n s) t = same_session etp_session_ok s t"
  by (simp_all add: same_session_def etp_setter_defs session_key_def etp_session_ok_def)

lemma etp_same_set_right [simp]:
  "same_session etp_session_ok t (etp_set_last_sequency_number c n s) = same_session etp_session_ok t s"
  by (simp add: same_session_def etp_setter_defs session_key_def etp_session_ok_def)

lemma etp_abort_alt:
  "snd (etp_abort_session s r w) = close_session s False
     (case session_destination s of None \<Rightarrow> w
      | Some d \<Rightarrow>
          if direction s = DirTransmit then snd (etp_send_abort (session_source s) d (parameterGroupNumber s) r w)
          else snd (etp_send_abort d (session_source s) (parameterGroupNumber s) r w))"
  by (cases "session_destination s"; cases "direction s = DirTransmit") (simp_all add: etp_abort_session_def split_beta)

lemmas etp_sender_defs = etp_send_abort_def etp_send_request_to_send_def etp_send_end_of_session_acknowledgement_def

lemma etp_senders_ok [simp]:
  "etp_ok (snd (etp_send_abort a b p r w)) = etp_ok w" "etp_ok (snd (etp_send_request_to_send s w)) = etp_ok w"
  "etp_ok (snd (etp_send_end_of_session_acknowledgement s w)) = etp_ok w"
  "activeSessions (snd (etp_send_abort a b p r w)) = activeSessions w"
  "next_sid (snd (etp_send_abort a b p r w)) = next_sid w"
  "activeSessions (snd (etp_send_request_to_send s w)) = activeSessions w"
  "clock (snd (etp_send_abort a b p r w)) = clock w" "cfs (snd (etp_send_abort a b p r w)) = cfs w"
  "clock (snd (etp_send_request_to_send s w)) = clock w" "cfs (snd (etp_send_request_to_send s w)) = cfs w"
  "other_sessions i (snd (etp_send_abort a b p r w)) = other_sessions i w"
  "other_sessions i (snd (etp_send_request_to_send s w)) = other_sessions i w"
  by (simp_all add: etp_sender_defs)

lemma etp_ok_abort: "etp_ok w \<Longrightarrow> etp_ok (snd (etp_abort_session s r w))"
  by (auto simp: etp_abort_alt intro!: table_ok_close split: option.split)

lemma etp_abort_others [simp]:
  "other_sessions (sid s) (snd (etp_abort_session s r w)) = other_sessions (sid s) w"
  "clock (snd (etp_abort_session s r w)) = clock w" "cfs (snd (etp_abort_session s r w)) = cfs w"
  by (simp_all add: etp_abort_alt split: option.split)

lemma etp_packet_bytes_defined:
  assumes "etp_session_ok s"
  shows "\<exists>bs. etp_packet_bytes s = Some bs"
proof -
  have "etp_packet_byte s b j = Some (if b + of_nat j < totalMessageSize s then session_data s ! unat (b + of_nat j) else 0xFF)" for b j
    using assms by (simp add: etp_packet_byte_def Let_def checked_nth_def etp_session_ok_def word_less_nat_alt)
  then show ?thesis
    using those_map_Some [of "[0..<7]" "etp_packet_byte s (etp_get_last_packet_number s * 7)"]
    by (auto simp: etp_packet_bytes_def)
qed

lemma etp_send_packets_fine:
  "etp_session_ok s \<Longrightarrow> \<exists>s' w'. etp_send_packets n s w = Some (s', w') \<and> same_session etp_session_ok s' s
     \<and> activeSessions w' = activeSessions w \<and> next_sid w' = next_sid w \<and> clock w' = clock w \<and> cfs w' = cfs w"
proof (induction n arbitrary: s w)
  case (Suc n)
  obtain buf where buf: "etp_packet_bytes s = Some buf" using etp_packet_bytes_defined [OF Suc.prems] by blast
  define f where "f = \<lparr>f_pgn = ExtendedTransportProtocolDataTransfer, f_data = buf,
              f_source = session_source s, f_destination = session_destination s, f_priority = PriorityLowest7\<rparr>"
  let ?s = "etp_set_last_sequency_number (etp_lastSequenceNumber s + 1) (clock w) s"
  have s: "etp_session_ok ?s" using Suc.prems by (simp add: etp_setter_defs etp_session_ok_def)
  have step: "etp_send_packets (Suc n) s w =
      (if fst (send_frame f w) then etp_send_packets n ?s (snd (send_frame f w)) else Some (s, snd (send_frame f w)))"
    using buf by (simp add: f_def split_beta)
  show ?case using Suc.IH [OF s, of "snd (send_frame f w)"] unfolding step by auto
qed simp

lemma etp_after_ok: "etp_ok w \<Longrightarrow> s \<in> set (activeSessions w) \<Longrightarrow> etp_ok (etp_after_packets s w)"
  by (auto simp: etp_after_packets_def intro: table_ok_put)

text \<open>An operation on a current session: defined, the table kept, nothing else touched.\<close>

definition handles :: "etp_session \<Rightarrow> etp \<Rightarrow> etp option \<Rightarrow> bool" where
  "handles s w r \<longleftrightarrow> (\<exists>w'. r = Some w' \<and> etp_ok w' \<and> touches_only (sid s) w w')"

lemma handles_Some [simp]: "handles s w (Some w') \<longleftrightarrow> etp_ok w' \<and> touches_only (sid s) w w'"
  by (simp add: handles_def)

lemma handles_data:
  assumes "etp_ok w" "s \<in> set (activeSessions w)"
  shows "handles s w (etp_send_data_transfer_packets s w)"
proof -
  have s: "etp_session_ok s" using assms by (rule table_ok_session)
  obtain s' w' where send: "etp_send_packets (unat (etp_frames_to_send s w)) s w = Some (s', w')"
    and same: "same_session etp_session_ok s' s"
    and rest: "activeSessions w' = activeSessions w" "next_sid w' = next_sid w" "clock w' = clock w" "cfs w' = cfs w"
    using etp_send_packets_fine [OF s, of "unat (etp_frames_to_send s w)" w] by blast
  have sid: "sid s' = sid s" using same by (simp add: same_session_def)
  have w': "etp_ok w'" "s \<in> set (activeSessions w')" using assms rest by (simp_all add: table_ok_def)
  have put: "etp_ok (put_active s' w')" "s' \<in> set (activeSessions (put_active s' w'))"
    using table_ok_put [OF w' same] active_put [OF w'(2) same] by simp_all
  have "etp_ok (etp_after_packets s' (put_active s' w'))" by (rule etp_after_ok [OF put])
  moreover have "touches_only (sid s) w (etp_after_packets s' (put_active s' w'))"
    using rest sid by (auto simp: touches_only_def etp_after_packets_def etp_setter_defs) (simp_all add: other_sessions_def)
  ultimately show ?thesis using send by (simp add: etp_send_data_transfer_packets_def)
qed

definition etp_cts_frame :: "etp_session \<Rightarrow> tx_frame" where
  "etp_cts_frame s = etp_cm_frame ([ETP_CLEAR_TO_SEND_MULTIPLEXOR, etp_packet_limit s]
     @ pgn_bytes (etp_get_last_packet_number s + 1) @ pgn_bytes (parameterGroupNumber s))
     (the (session_destination s)) (Some (session_source s))"

lemma etp_send_cts_alt:
  "etp_send_clear_to_send s w =
     (let r = send_frame (etp_cts_frame s) w;
          s1 = (if fst r then etp_set_acknowledged_packet_number (etp_get_last_packet_number s) (clock w) s else s)
      in (fst r, s1, put_active s1 (snd r)))"
  by (simp add: etp_send_clear_to_send_def Let_def split_beta etp_cts_frame_def)

definition dpo_frame :: "etp_session \<Rightarrow> u8 \<Rightarrow> tx_frame" where
  "dpo_frame s n = etp_cm_frame ([DATA_PACKET_OFFSET_MULTIPLXOR, n] @ pgn_bytes (etp_get_last_packet_number s)
     @ pgn_bytes (parameterGroupNumber s)) (session_source s) (session_destination s)"

definition offset_announced :: "u8 \<Rightarrow> u32 \<Rightarrow> etp_session \<Rightarrow> etp_session" where
  "offset_announced n now s = s\<lparr>dataPacketOffsetPacketCount := n, sequenceNumberOffset := etp_get_last_packet_number s,
     etp_lastSequenceNumber := 0, timestamp_ms := now\<rparr>"

lemma send_dpo_alt:
  "send_data_packet_offset s w =
     (let n = packets_of_segment s w; r = send_frame (dpo_frame s n) w;
          s1 = (if fst r then offset_announced n (clock w) s else s)
      in (fst r, s1, put_active s1 (snd r)))"
  by (simp add: send_data_packet_offset_def Let_def split_beta dpo_frame_def offset_announced_def etp_setter_defs
      etp_get_last_packet_number_def)

lemma same_offset_announced [simp]: "same_session etp_session_ok (offset_announced n t s) u = same_session etp_session_ok s u"
  by (simp add: offset_announced_def same_session_def session_key_def etp_session_ok_def)

lemma put_after_frame:
  assumes "etp_ok w" "s \<in> set (activeSessions w)" "same_session etp_session_ok t s"
  shows "etp_ok (put_active t (snd (send_frame f w)))" "t \<in> set (activeSessions (put_active t (snd (send_frame f w))))"
    "touches_only (sid s) w (put_active t (snd (send_frame f w)))" "sid t = sid s"
proof -
  have w: "etp_ok (snd (send_frame f w))" "s \<in> set (activeSessions (snd (send_frame f w)))" using assms by simp_all
  show "etp_ok (put_active t (snd (send_frame f w)))" by (rule table_ok_put [OF w assms(3)])
  show "t \<in> set (activeSessions (put_active t (snd (send_frame f w))))" by (rule active_put [OF w(2) assms(3)])
  show "sid t = sid s" using assms(3) by (simp add: same_session_def)
  then show "touches_only (sid s) w (put_active t (snd (send_frame f w)))" by (simp add: touches_only_def)
qed

lemma put_again:
  assumes "etp_ok w1" "t \<in> set (activeSessions w1)" "touches_only (sid s) w w1" "sid t = sid s"
  shows "etp_ok (put_active (etp_set_state v n t) w1)" "touches_only (sid s) w (put_active (etp_set_state v n t) w1)"
proof -
  show "etp_ok (put_active (etp_set_state v n t) w1)" by (rule table_ok_put [OF assms(1,2)]) simp
  have "sid (etp_set_state v n t) = sid s" using assms(4) by (simp add: etp_setter_defs)
  then show "touches_only (sid s) w (put_active (etp_set_state v n t) w1)" using assms(3) by (simp add: touches_only_def)
qed

lemma handles_state_machine:
  assumes "etp_ok w" "s \<in> set (activeSessions w)"
  shows "handles s w (etp_update_state_machine s w)"
proof (cases "etp_state s")
  case EtpSendRequestToSend
  have "etp_ok (put_active (etp_set_state v n s) (snd (etp_send_request_to_send s w)))" for v n
    using assms by (intro table_ok_put [of _ _ s]) simp_all
  then show ?thesis
    using assms EtpSendRequestToSend
    by (simp add: etp_update_state_machine_def split_beta touches_only_def etp_setter_defs)
next
  case EtpSendClearToSend
  define t where "t = (if fst (send_frame (etp_cts_frame s) w)
      then etp_set_acknowledged_packet_number (etp_get_last_packet_number s) (clock w) s else s)"
  have "same_session etp_session_ok t s" by (simp add: t_def)
  note p = put_after_frame(1-3) [OF assms this, where f = "etp_cts_frame s"] put_after_frame(4) [OF assms this]
  show ?thesis
    using EtpSendClearToSend p put_again [OF p]
    by (simp add: etp_update_state_machine_def etp_send_cts_alt Let_def t_def [symmetric])
next
  case EtpSendDataPacketOffset
  define t where "t = (if fst (send_frame (dpo_frame s (packets_of_segment s w)) w)
      then offset_announced (packets_of_segment s w) (clock w) s else s)"
  have "same_session etp_session_ok t s" by (simp add: t_def)
  note p = put_after_frame(1-3) [OF assms this, where f = "dpo_frame s (packets_of_segment s w)"]
    put_after_frame(4) [OF assms this]
  show ?thesis
    using EtpSendDataPacketOffset p put_again [OF p]
    by (simp add: etp_update_state_machine_def send_dpo_alt Let_def t_def [symmetric])
next
  case EtpSendDataTransferPackets
  then show ?thesis using assms handles_data by (simp add: etp_update_state_machine_def)
qed (use assms in \<open>auto simp: etp_update_state_machine_def abort_when_late_def touches_only_def
    intro: etp_ok_abort table_ok_close\<close>)

lemma distinct_filter_length:
  "distinct (map f xs) \<Longrightarrow> length xs \<le> Suc (length (filter (\<lambda>x. f x \<noteq> a) xs))"
proof (induction xs)
  case (Cons x xs)
  show ?case
  proof (cases "f x = a")
    case True
    then have "filter (\<lambda>x. f x \<noteq> a) xs = xs" using Cons.prems by (auto simp: filter_id_conv image_iff)
    then show ?thesis using True by simp
  next
    case False
    then show ?thesis using Cons by simp
  qed
qed simp

lemma touched_length:
  assumes "etp_ok w" "touches_only i w w'"
  shows "length (activeSessions w) \<le> Suc (length (activeSessions w'))"
proof -
  have "distinct (map sid (activeSessions w))" using assms(1) by (simp add: table_ok_def session_table_def)
  then have "length (activeSessions w) \<le> Suc (length (other_sessions i w))"
    unfolding other_sessions_def by (rule distinct_filter_length)
  also have "other_sessions i w = other_sessions i w'" using assms(2) by (simp add: touches_only_def)
  finally show ?thesis unfolding other_sessions_def using length_filter_le [of "\<lambda>s. sid s \<noteq> i" "activeSessions w'"] by linarith
qed

lemma etp_rts_fine:
  assumes "etp_ok w"
  shows "etp_fine (etp_process_request_to_send src dst pgn sz w)"
proof -
  define w1 where "w1 = (case find_session src (Some dst) (activeSessions w) of
      None \<Rightarrow> w
    | Some oldSession \<Rightarrow>
        if parameterGroupNumber oldSession \<noteq> pgn then snd (etp_abort_session oldSession EtpAlreadyInCMSession w)
        else close_session oldSession False w)"
  have w1: "etp_ok w1" "\<not> has_session src (Some dst) (activeSessions w1)"
    using assms erase_found_session [of etp_session_ok "next_sid w" "activeSessions w" src "Some dst"]
    by (auto simp: w1_def find_session_None_iff table_ok_close etp_ok_abort table_ok_def close_session_def Let_def
        etp_abort_alt session_table_erase split: option.split)
  define s where "s = etp_set_state EtpSendClearToSend (clock w1)
      (set_cts_number_of_packet_limit (numberOfPacketsPerDPOMessage (configuration w1)) (clock w1)
        (make_etp_session (next_sid w1) DirReceive (replicate (unat sz) 0) pgn sz src dst None))"
  have "sid s = next_sid w1" "etp_session_ok s" "session_source s = src" "session_destination s = Some dst"
    by (simp_all add: s_def etp_setter_defs make_etp_session_def etp_session_ok_def)
  then have "etp_ok (push_active s (snd (new_sid w1)))" using table_ok_push [of etp_session_ok w1 s] w1 by simp
  then have "handles s (push_active s (snd (new_sid w1))) (etp_update_state_machine s (push_active s (snd (new_sid w1))))"
    by (rule handles_state_machine) (simp add: push_active_def)
  then show ?thesis
    using assms
    by (auto simp: etp_process_request_to_send_def w1_def [symmetric] Let_def new_sid_def s_def handles_def fine_def)
qed

lemma etp_cts_ok: "etp_ok w \<Longrightarrow> etp_ok (etp_process_clear_to_send src dst pgn n k w)"
  by (auto simp: etp_process_clear_to_send_def Let_def intro: etp_ok_abort table_ok_found split: option.split)

lemma etp_dpo_ok: "etp_ok w \<Longrightarrow> etp_ok (process_data_packet_offset src dst pgn n k w)"
  by (auto simp: process_data_packet_offset_def Let_def intro: etp_ok_abort table_ok_found split: option.split)

lemma etp_eoma_ok: "etp_ok w \<Longrightarrow> etp_ok (etp_process_end_of_session_acknowledgement src dst pgn n w)"
  by (auto simp: etp_process_end_of_session_acknowledgement_def intro: table_ok_close split: option.split)

lemma etp_process_abort_ok: "etp_ok w \<Longrightarrow> etp_ok (etp_process_abort src dst pgn w)"
  by (auto simp: etp_process_abort_def etp_close_if_pgn_def intro!: table_ok_close split: option.split)

lemma etp_cm_fine:
  assumes "etp_ok w" "bounded_message m"
  shows "etp_fine (etp_process_connection_management_message m w)"
proof (cases "get_data_length m = 8")
  case True
  then have len: "length (msg_data m) = 8" using assms(2) message_bytes by (simp add: bounded_message_def)
  then have "get_uint24_at 5 LittleEndian m \<noteq> None" "get_uint24_at 2 LittleEndian m \<noteq> None" "get_uint32_at 1 LittleEndian m \<noteq> None"
    using get_bytes_at_ok [of 5 3 m] get_bytes_at_ok [of 2 3 m] get_bytes_at_ok [of 1 4 m]
    by (simp_all add: get_uint24_at_def get_uint32_at_def)
  then obtain p q z where "get_uint24_at 5 LittleEndian m = Some p" "get_uint24_at 2 LittleEndian m = Some q"
      "get_uint32_at 1 LittleEndian m = Some z" by auto
  then show ?thesis
    using assms(1) len True
    by (simp add: etp_process_connection_management_message_def uint8_at_ok Let_def etp_rts_fine etp_cts_ok etp_dpo_ok
        etp_eoma_ok etp_process_abort_ok)
qed (simp add: etp_process_connection_management_message_def assms)

lemma etp_copy_ok:
  assumes "etp_session_ok s" "length (msg_data m) = 8" "7 * etp_get_last_packet_number s < totalMessageSize s"
  shows "\<exists>d. etp_copy_packet m s = Some (s\<lparr>session_data := d\<rparr>) \<and> length d = length (session_data s)
     \<and> take (unat (7 * etp_get_last_packet_number s) + min 7 (unat (totalMessageSize s) - unat (7 * etp_get_last_packet_number s))) d
       = take (unat (7 * etp_get_last_packet_number s)) (session_data s)
         @ take (min 7 (unat (totalMessageSize s) - unat (7 * etp_get_last_packet_number s))) (drop 1 (msg_data m))"
proof -
  let ?i = "unat (7 * etp_get_last_packet_number s)"
  have lt: "?i < unat (totalMessageSize s)" using assms(3) by (simp add: word_less_nat_alt)
  have diff: "unat (totalMessageSize s - 7 * etp_get_last_packet_number s) = unat (totalMessageSize s) - ?i"
    using assms(3) by (simp add: unat_sub [OF order.strict_implies_order])
  let ?b = "take (min 7 (unat (totalMessageSize s) - ?i)) (drop 1 (msg_data m))"
  have b: "length ?b = min 7 (unat (totalMessageSize s) - ?i)" using assms(2) by simp
  have le: "?i + length ?b \<le> length (session_data s)" using b lt assms(1) by (simp add: etp_session_ok_def)
  then obtain d where d: "checked_write ?i ?b (session_data s) = Some d" using checked_write_total by blast
  have "etp_copy_packet m s = Some (s\<lparr>session_data := d\<rparr>)"
    using d unfolding etp_copy_packet_def Let_def diff by simp
  then show ?thesis using checked_write_SomeD [OF d] checked_write_take [OF d] unfolding b by blast
qed

lemma etp_accept_fine:
  assumes "etp_ok w" "s \<in> set (activeSessions w)" "length (msg_data m) = 8"
  shows "etp_fine (etp_accept_packet m sn s w)"
proof (cases "7 * etp_get_last_packet_number s < totalMessageSize s")
  case False
  then show ?thesis using assms(1) etp_ok_abort by (simp add: etp_accept_packet_def not_less)
next
  case True
  have s: "etp_session_ok s" using assms by (blast intro: table_ok_session)
  obtain d where copy: "etp_copy_packet m s = Some (s\<lparr>session_data := d\<rparr>)" and d: "length d = length (session_data s)"
    using etp_copy_ok [OF s assms(3) True] by blast
  define t where "t = etp_set_last_sequency_number sn (clock w) (s\<lparr>session_data := d\<rparr>)"
  have same: "same_session etp_session_ok t s"
    using d by (simp add: t_def same_session_def etp_setter_defs session_key_def etp_session_ok_def)
  have ok: "etp_ok (put_active t w)" by (rule table_ok_put [OF assms(1,2) same])
  have mem: "t \<in> set (activeSessions (put_active t w))" by (rule active_put [OF assms(2) same])
  define u where "u = etp_set_state EtpSendClearToSend (clock w) t"
  have us: "same_session etp_session_ok u t" by (simp add: u_def)
  have "handles u (put_active u (put_active t w)) (etp_update_state_machine u (put_active u (put_active t w)))"
    by (rule handles_state_machine [OF table_ok_put [OF ok mem us] active_put [OF mem us]])
  then show ?thesis
    using True copy ok
    by (auto simp: etp_accept_packet_def t_def [symmetric] u_def [symmetric] Let_def table_ok_close handles_def fine_def)
qed

lemma etp_data_transfer_fine:
  assumes "etp_ok w" "bounded_message m"
  shows "etp_fine (etp_process_data_transfer_message m w)"
proof (cases "get_data_length m = 8")
  case True
  then have len: "length (msg_data m) = 8" using assms(2) message_bytes by (simp add: bounded_message_def)
  then show ?thesis
    using assms(1) True
    by (auto simp: etp_process_data_transfer_message_def uint8_at_ok Let_def etp_ok_abort intro: etp_accept_fine
        dest: find_session_SomeD split: option.split)
qed (simp add: etp_process_data_transfer_message_def assms)

lemma etp_process_message_fine: "etp_ok w \<Longrightarrow> bounded_message m \<Longrightarrow> etp_fine (etp_process_message m w)"
  by (simp add: etp_process_message_def etp_cm_fine etp_data_transfer_fine)

lemma etp_transmit_fine:
  assumes "etp_ok w"
  shows "\<exists>b w'. etp_protocol_transmit_message pgn data source dst cb w = Some (b, w') \<and> etp_ok w'"
proof (cases "\<exists>bytes src d. data = Some bytes \<and> source = Some src \<and> dst = Some d \<and> 1785 < length bytes
    \<and> length bytes \<le> 117440505 \<and> cf_address_valid (cfs w src) \<and> cf_address_valid (cfs w d)
    \<and> \<not> has_session src (Some d) (activeSessions w)")
  case True
  then obtain bytes src d where in1: "data = Some bytes" "source = Some src" "dst = Some d" "1785 < length bytes"
    "length bytes \<le> 117440505" "cf_address_valid (cfs w src)" "cf_address_valid (cfs w d)"
    "\<not> has_session src (Some d) (activeSessions w)" by blast
  define s where "s = etp_set_state EtpSendRequestToSend (clock w)
      (make_etp_session (next_sid w) DirTransmit bytes pgn (of_nat (length bytes)) src d cb)"
  have "etp_session_ok s"
    using in1(5) by (simp add: s_def etp_setter_defs make_etp_session_def etp_session_ok_def unat_of_nat)
  moreover have "sid s = next_sid w" "session_source s = src" "session_destination s = Some d"
    by (simp_all add: s_def etp_setter_defs make_etp_session_def)
  ultimately have "etp_ok (push_active s (snd (new_sid w)))" using assms in1(8) by (intro table_ok_push) simp_all
  then have "handles s (push_active s (snd (new_sid w))) (etp_update_state_machine s (push_active s (snd (new_sid w))))"
    by (rule handles_state_machine) (simp add: push_active_def)
  then show ?thesis
    using in1 by (auto simp: etp_protocol_transmit_message_def Let_def new_sid_def s_def handles_def)
next
  case False
  then have "etp_protocol_transmit_message pgn data source dst cb w = Some (False, w)"
    by (auto simp: etp_protocol_transmit_message_def not_le not_less split: option.split)
  then show ?thesis using assms by blast
qed

lemma handles_session: "etp_ok w \<Longrightarrow> s \<in> set (activeSessions w) \<Longrightarrow> handles s w (etp_update_session s w)"
  by (simp add: etp_update_session_def handles_state_machine table_ok_close touches_close)

lemma etp_update_from_fine:
  "etp_ok w \<Longrightarrow> n \<le> length (activeSessions w) \<Longrightarrow> etp_fine (etp_update_from n w)"
proof (induction n arbitrary: w)
  case (Suc i)
  define s where "s = activeSessions w ! i"
  have nth: "checked_nth (activeSessions w) i = Some s" using Suc.prems(2) by (simp add: checked_nth_def s_def)
  have "s \<in> set (activeSessions w)" using Suc.prems(2) by (simp add: s_def)
  then obtain w1 where w1: "etp_update_session s w = Some w1" "etp_ok w1" "touches_only (sid s) w w1"
    using handles_session [OF Suc.prems(1)] by (auto simp: handles_def)
  have "i \<le> length (activeSessions w1)" using touched_length [OF Suc.prems(1) w1(3)] Suc.prems(2) by linarith
  with Suc.IH [OF w1(2)] show ?case by (simp add: nth w1(1))
qed simp

lemma etp_update_fine: "etp_ok w \<Longrightarrow> etp_fine (etp_update w)"
  by (simp add: etp_update_def etp_update_from_fine)

section \<open>Every run is defined\<close>

datatype etp_event =
    EtpMessage CANMessage
  | EtpUpdate
  | EtpTransmit u32 "u8 list option" "cf option" "cf option" "nat option"
  | EtpTime u32
  | EtpStore cf_store
  | EtpConfigure CANNetworkConfiguration
  | EtpNetwork "bool list"

fun etp_step :: "etp_event \<Rightarrow> etp \<Rightarrow> etp option" where
  "etp_step (EtpMessage m) w = etp_process_message m w"
| "etp_step EtpUpdate w = etp_update w"
| "etp_step (EtpTransmit pgn data src dst cb) w = map_option snd (etp_protocol_transmit_message pgn data src dst cb w)"
| "etp_step (EtpTime d) w = Some (tick d w)"
| "etp_step (EtpStore store) w = Some (w\<lparr>cfs := store\<rparr>)"
| "etp_step (EtpConfigure c) w = Some (w\<lparr>configuration := c\<rparr>)"
| "etp_step (EtpNetwork rs) w = Some (w\<lparr>tx_replies := rs\<rparr>)"

fun etp_admissible :: "etp_event \<Rightarrow> bool" where
  "etp_admissible (EtpMessage m) = bounded_message m"
| "etp_admissible _ = True"

interpretation etp: total_manager etp_step etp_admissible etp_ok
proof
  fix w e assume "etp_ok w" "etp_admissible e"
  then show "\<exists>w'. etp_step e w = Some w' \<and> etp_ok w'"
  proof (cases e)
    case (EtpMessage m)
    then show ?thesis using etp_process_message_fine \<open>etp_ok w\<close> \<open>etp_admissible e\<close> by (simp add: fine_def)
  next
    case EtpUpdate
    then show ?thesis using etp_update_fine \<open>etp_ok w\<close> by (simp add: fine_def)
  next
    case (EtpTransmit p d s dst cb)
    then show ?thesis using etp_transmit_fine [OF \<open>etp_ok w\<close>, of p d s dst cb] by auto
  qed (simp_all add: table_ok_def tick_def)
qed

text \<open>
  C25: no sequence of events (received messages with any content, updates, transmissions, time,
  refused frames, changes of addresses and of the configuration) makes the extended manager write
  outside a message buffer or read past one: every run is defined, no two sessions have the same
  source and destination, and every session's buffer has its announced length.
\<close>

theorem etp_runs_defined:
  assumes "activeSessions w = []" "\<forall>m. EtpMessage m \<in> set es \<longrightarrow> length (msg_data m) < 2 ^ 32"
  shows "\<exists>w'. run_events etp_step es w = Some w'
    \<and> distinct (map (\<lambda>s. (session_source s, session_destination s)) (activeSessions w'))
    \<and> (\<forall>s \<in> set (activeSessions w'). length (session_data s) = unat (totalMessageSize s))"
proof -
  have "list_all etp_admissible es"
    unfolding list_all_iff using assms(2) by (metis bounded_message_def etp_admissible.elims(3))
  moreover have "etp_ok w" using assms(1) by (simp add: table_ok_def session_table_Nil)
  ultimately obtain w' where "run_events etp_step es w = Some w'" "etp_ok w'" using etp.run_total by blast
  moreover have "session_key = (\<lambda>s :: etp_session. (session_source s, session_destination s))"
    by (rule ext) (simp add: session_key_def)
  ultimately show ?thesis by (auto simp: table_ok_def session_table_def etp_session_ok_def)
qed

definition etp_boot :: "cf_store \<Rightarrow> etp" where
  "etp_boot store = \<lparr>cfs = store, clock = 0, configuration = default_configuration, tx_replies = [], tx_log = [],
     delivered = [], completions = [], activeSessions = [], next_sid = 0\<rparr>"

text \<open>Witness of C25: a request, a transmission, updates and time.\<close>

theorem etp_runs_defined_witness:
  "\<exists>w'. run_events etp_step
      [EtpMessage (as_message (etp_cm_frame [0x14, 8, 7, 0, 0, 0, 0xEF, 0] 7 (Some 3))),
       EtpTransmit 0xEF00 (Some (replicate 1800 0)) (Some 3) (Some 7) None, EtpUpdate, EtpTime 2000, EtpUpdate] (etp_boot demo_store) = Some w'"
  using etp_runs_defined [of "etp_boot demo_store"
      "[EtpMessage (as_message (etp_cm_frame [0x14, 8, 7, 0, 0, 0, 0xEF, 0] 7 (Some 3))),
       EtpTransmit 0xEF00 (Some (replicate 1800 0)) (Some 3) (Some 7) None, EtpUpdate, EtpTime 2000, EtpUpdate]"]
  by (simp add: etp_boot_def as_message_def make_message_def etp_cm_frame_def del: run_events.simps)
    blast

end
