(* ===== verification/Extended_Transfer.thy ===== *)
theory Extended_Transfer
  imports Extended_Transport
begin

text \<open>
  Two extended transport managers that talk to each other: the windows of packets between a
  clear to send and the next one, followed round by round from the request to the final
  acknowledgement.
\<close>

section \<open>Sessions in a transfer\<close>

text \<open>The counters of a session, over a session \<open>s\<close> that has everything else.\<close>

definition etp_at :: "etp_session \<Rightarrow> EtpState \<Rightarrow> nat \<Rightarrow> nat \<Rightarrow> nat \<Rightarrow> nat \<Rightarrow> u8 \<Rightarrow> etp_session" where
  "etp_at s st ack off sq cnt lim = s\<lparr>etp_state := st, etp_lastAcknowledgedPacketNumber := of_nat ack,
     sequenceNumberOffset := of_nat off, etp_lastSequenceNumber := of_nat sq,
     dataPacketOffsetPacketCount := of_nat cnt, clearToSendPacketCountLimit := lim\<rparr>"

lemma etp_at_fields [simp]:
  "sid (etp_at s st ack off sq cnt lim) = sid s" "direction (etp_at s st ack off sq cnt lim) = direction s"
  "parameterGroupNumber (etp_at s st ack off sq cnt lim) = parameterGroupNumber s"
  "session_data (etp_at s st ack off sq cnt lim) = session_data s"
  "session_source (etp_at s st ack off sq cnt lim) = session_source s"
  "session_destination (etp_at s st ack off sq cnt lim) = session_destination s"
  "timestamp_ms (etp_at s st ack off sq cnt lim) = timestamp_ms s"
  "totalMessageSize (etp_at s st ack off sq cnt lim) = totalMessageSize s"
  "sessionCompleteCallback (etp_at s st ack off sq cnt lim) = sessionCompleteCallback s"
  "etp_state (etp_at s st ack off sq cnt lim) = st"
  "etp_lastAcknowledgedPacketNumber (etp_at s st ack off sq cnt lim) = of_nat ack"
  "sequenceNumberOffset (etp_at s st ack off sq cnt lim) = of_nat off"
  "etp_lastSequenceNumber (etp_at s st ack off sq cnt lim) = of_nat sq"
  "dataPacketOffsetPacketCount (etp_at s st ack off sq cnt lim) = of_nat cnt"
  "clearToSendPacketCountLimit (etp_at s st ack off sq cnt lim) = lim"
  by (simp_all add: etp_at_def)

lemma stamp_same: "timestamp_ms s = now \<Longrightarrow> s\<lparr>timestamp_ms := now\<rparr> = s"
  by (cases s) simp

lemma etp_at_set [simp]:
  assumes "timestamp_ms s = now"
  shows "etp_set_state v now (etp_at s st ack off sq cnt lim) = etp_at s v ack off sq cnt lim"
    "etp_set_last_sequency_number (of_nat n) now (etp_at s st ack off sq cnt lim) = etp_at s st ack off n cnt lim"
    "etp_set_last_sequency_number 0 now (etp_at s st ack off sq cnt lim) = etp_at s st ack off 0 cnt lim"
    "set_sequence_number_offset (of_nat n) now (etp_at s st ack off sq cnt lim) = etp_at s st ack n sq cnt lim"
    "set_dpo_number_of_packets (of_nat n) now (etp_at s st ack off sq cnt lim) = etp_at s st ack off sq n lim"
    "set_cts_number_of_packet_limit b now (etp_at s st ack off sq cnt lim) = etp_at s st ack off sq cnt b"
    "etp_set_acknowledged_packet_number (of_nat n) now (etp_at s st ack off sq cnt lim) = etp_at s st n off sq cnt lim"
  using assms by (cases s; simp add: etp_at_def etp_setter_defs)+

lemma etp_at_data [simp]: "etp_at s st ack off sq cnt lim\<lparr>session_data := d\<rparr> = etp_at (s\<lparr>session_data := d\<rparr>) st ack off sq cnt lim"
  by (simp add: etp_at_def)

text \<open>What the counters say, as long as the packet number stays below two to the 24.\<close>

lemma ucast_of_nat_u8: "n < 256 \<Longrightarrow> (ucast (of_nat n :: u8) :: u32) = of_nat n"
  by (simp add: word_unat_eq_iff unat_of_nat)

lemma etp_at_last: "sq < 256 \<Longrightarrow> etp_get_last_packet_number (etp_at s st ack off sq cnt lim) = of_nat (off + sq)"
  by (simp add: etp_get_last_packet_number_def ucast_of_nat_u8)

lemma etp_total_packets:
  assumes "totalMessageSize s = of_nat len" "len < 2 ^ 32"
  shows "etp_get_total_number_of_packets s = of_nat (packet_count len)"
proof -
  have len: "unat (totalMessageSize s) = len" using assms by (simp add: unat_of_nat)
  have p: "totalMessageSize s mod 7 > 0 \<longleftrightarrow> 0 < len mod 7" by (simp add: word_less_nat_alt unat_mod len)
  have d: "unat (totalMessageSize s div 7) = len div 7" by (simp add: unat_div len)
  have small: "len div 7 + 1 < 2 ^ 32" using assms(2) by simp
  have sum: "unat (totalMessageSize s div 7 + 1) = len div 7 + 1"
    using small by (simp add: unat_plus_if' d)
  have count: "packet_count len = (if 0 < len mod 7 then len div 7 + 1 else len div 7)"
    unfolding packet_count_def by (cases "0 < len mod 7") (simp_all, presburger+)
  show ?thesis
    unfolding etp_get_total_number_of_packets_def Let_def p word_unat_eq_iff count
    using d sum small by (auto simp: unat_of_nat)
qed

lemma of_nat_diff_u32: "m \<le> n \<Longrightarrow> (of_nat n :: u32) - of_nat m = of_nat (n - m)"
  by (simp add: of_nat_diff)

lemma etp_at_remaining:
  assumes "totalMessageSize s = of_nat len" "len < 2 ^ 32" "sq < 256" "off + sq \<le> packet_count len"
  shows "etp_get_number_of_remaining_packets (etp_at s st ack off sq cnt lim) = of_nat (packet_count len - (off + sq))"
proof -
  have "etp_get_total_number_of_packets (etp_at s st ack off sq cnt lim) = of_nat (packet_count len)"
    by (rule etp_total_packets [OF _ assms(2)]) (simp add: assms(1))
  then show ?thesis
    unfolding etp_get_number_of_remaining_packets_def etp_at_last [OF assms(3)] by (simp only: of_nat_diff_u32 [OF assms(4)])
qed

lemma etp_at_segment:
  assumes "sq \<le> cnt" "cnt < 256"
  shows "get_dpo_number_of_packets_remaining (etp_at s st k k sq cnt lim) = of_nat (cnt - sq)"
proof -
  have "(of_nat (k + sq) :: u32) - of_nat k = of_nat sq" by simp
  then have "ucast ((of_nat (k + sq) :: u32) - of_nat k) = (of_nat sq :: u8)"
    using assms by (simp only:) (simp add: word_unat_eq_iff unat_narrow_u8 unat_of_nat)
  then show ?thesis
    using assms by (simp add: get_dpo_number_of_packets_remaining_def Let_def etp_at_last of_nat_diff del: of_nat_add)
qed

lemma of_nat_zero_u8: "n < 256 \<Longrightarrow> (of_nat n :: u8) = 0 \<longleftrightarrow> n = 0"
  by (simp add: word_unat_eq_iff unat_of_nat)

lemma of_nat_zero_u32: "n < 2 ^ 32 \<Longrightarrow> (of_nat n :: u32) = 0 \<longleftrightarrow> n = 0"
  by (simp add: word_unat_eq_iff unat_of_nat)

lemma narrow_of_nat: "n < 256 \<Longrightarrow> (ucast (of_nat n :: u32) :: u8) = of_nat n"
  by (simp add: word_unat_eq_iff unat_narrow_u8 unat_of_nat)

section \<open>A manager with one session\<close>

definition etp_with :: "etp \<Rightarrow> etp_session \<Rightarrow> tx_frame list \<Rightarrow> etp" where
  "etp_with w s fs = w\<lparr>activeSessions := [s], tx_log := fs\<rparr>"

lemma etp_with_fields [simp]:
  "activeSessions (etp_with w s fs) = [s]" "tx_log (etp_with w s fs) = fs" "cfs (etp_with w s fs) = cfs w"
  "clock (etp_with w s fs) = clock w" "configuration (etp_with w s fs) = configuration w"
  "tx_replies (etp_with w s fs) = tx_replies w" "delivered (etp_with w s fs) = delivered w"
  "next_sid (etp_with w s fs) = next_sid w" "completions (etp_with w s fs) = completions w"
  "etp_with w s fs\<lparr>tx_log := gs\<rparr> = etp_with w s gs"
  by (simp_all add: etp_with_def)

lemma etp_with_put [simp]: "sid t = sid s \<Longrightarrow> put_active t (etp_with w s fs) = etp_with w t fs"
  by (simp add: etp_with_def put_active_def put_session_def)

lemma send_accepting:
  fixes w :: "'s manager"
  assumes "tx_replies w = []"
  shows "send_frame f w = (True, w\<lparr>tx_log := tx_log w @ [f]\<rparr>)"
proof -
  have "w\<lparr>tx_replies := []\<rparr> = w" using assms by (cases w) simp
  then show ?thesis using assms by (simp add: send_frame_def)
qed

lemma etp_with_send [simp]:
  "tx_replies w = [] \<Longrightarrow> send_frame f (etp_with w s fs) = (True, etp_with w s (fs @ [f]))"
  by (simp add: send_accepting)

lemma find_single [simp]:
  "find_session a b [s] = (if session_source s = a \<and> session_destination s = b then Some s else None)"
  by (simp add: find_session_def session_matches_def)

text \<open>A transfer: the session's fixed part and what the manager needs around it.\<close>

definition transfers :: "u8 list \<Rightarrow> u32 \<Rightarrow> cf \<Rightarrow> cf \<Rightarrow> etp \<Rightarrow> etp_session \<Rightarrow> bool" where
  "transfers data pgn src dst w s \<longleftrightarrow> tx_replies w = [] \<and> totalMessageSize s = of_nat (length data)
     \<and> parameterGroupNumber s = pgn \<and> session_source s = src \<and> session_destination s = Some dst
     \<and> timestamp_ms s = clock w \<and> cf_address_valid (cfs w src) \<and> cf_address_valid (cfs w dst)
     \<and> 0 < length data \<and> length data \<le> 117440505 \<and> unat pgn < 2 ^ 24"

lemma packet_count_24: "n \<le> 117440505 \<Longrightarrow> packet_count n < 2 ^ 24"
  by (simp add: packet_count_def)

lemma transfers_count: "transfers data pgn src dst w s \<Longrightarrow> packet_count (length data) < 2 ^ 24"
  using packet_count_24 [of "length data"] by (simp add: transfers_def)

lemma etp_update_single:
  assumes "transfers data pgn src dst w s" "st \<noteq> EtpNone"
  shows "etp_update (etp_with w (etp_at s st ack off sq cnt lim) fs)
    = etp_update_in st (etp_at s st ack off sq cnt lim) (etp_with w (etp_at s st ack off sq cnt lim) fs)"
  using assms
  by (simp add: etp_update_def checked_nth_def etp_update_session_def etp_update_state_machine_def transfers_def
      Option.bind_eq_Some_conv split: bind_split)

lemma etp_update_waiting:
  assumes "transfers data pgn src dst w s"
    "st \<in> {EtpWaitForClearToSend, EtpWaitForDataPacketOffset, EtpWaitForDataTransferPacket, EtpWaitForEndOfMessageAcknowledge}"
  shows "etp_update (etp_with w (etp_at s st ack off sq cnt lim) fs) = Some (etp_with w (etp_at s st ack off sq cnt lim) fs)"
  using etp_update_single [OF assms(1), of st] assms
  by (auto simp: abort_when_late_def get_time_since_last_update_def transfers_def)

section \<open>The sender\<close>

definition etp_packet_frame :: "u8 list \<Rightarrow> cf \<Rightarrow> cf \<Rightarrow> nat \<Rightarrow> nat \<Rightarrow> tx_frame" where
  "etp_packet_frame data src dst k j =
     \<lparr>f_pgn = ExtendedTransportProtocolDataTransfer, f_data = of_nat (Suc j) # payload data (k + j), f_source = src,
      f_destination = Some dst, f_priority = PriorityLowest7\<rparr>"

definition announce_frame :: "u32 \<Rightarrow> cf \<Rightarrow> cf \<Rightarrow> nat \<Rightarrow> nat \<Rightarrow> tx_frame" where
  "announce_frame pgn src dst k c =
     etp_cm_frame ([DATA_PACKET_OFFSET_MULTIPLXOR, of_nat c] @ le_bytes 3 (of_nat k :: u32) @ le_bytes 3 pgn) src (Some dst)"

definition grant_frame :: "u32 \<Rightarrow> cf \<Rightarrow> cf \<Rightarrow> nat \<Rightarrow> nat \<Rightarrow> tx_frame" where
  "grant_frame pgn src dst k n =
     etp_cm_frame ([ETP_CLEAR_TO_SEND_MULTIPLEXOR, of_nat n] @ le_bytes 3 (of_nat (Suc k) :: u32) @ le_bytes 3 pgn) dst (Some src)"

lemma read_le24:
  assumes "length (msg_data m) = 8" "take 3 (drop (unat i) (msg_data m)) = le_bytes 3 v" "unat i \<le> 5" "unat (v :: u32) < 2 ^ 24"
  shows "get_uint24_at i LittleEndian m = Some v"
proof -
  have "get_bytes_at 3 i m = Some (le_bytes 3 v)"
    using get_bytes_at_ok [of i 3 m] assms(1,2,3) by simp
  moreover have "or_bytes LittleEndian (le_bytes 3 v) = take_bit 24 v"
    by (rule bit_word_eqI) (auto simp: bit_or_little bit_byte_of bit_take_bit_iff)
  moreover have "take_bit 24 v = v" using assms(4) by (simp add: take_bit_word_eq_iff)
  ultimately show ?thesis by (simp add: get_uint24_at_def)
qed

lemma offset_bytes:
  assumes "msg_data m = [mux, n] @ le_bytes 3 (v :: u32) @ le_bytes 3 pgn" "unat v < 2 ^ 24" "unat (pgn :: u32) < 2 ^ 24"
  shows "get_data_length m = 8" "get_uint24_at 5 LittleEndian m = Some pgn" "get_uint8_at 0 m = Some mux"
    "get_uint24_at 2 LittleEndian m = Some v" "get_uint8_at 1 m = Some n"
proof -
  have m: "msg_data m = [mux, n, byte_of 0 v, byte_of 1 v, byte_of 2 v, byte_of 0 pgn, byte_of 1 pgn, byte_of 2 pgn]"
    using assms(1) by (simp add: le_bytes_short)
  then have l: "length (msg_data m) = 8" by simp
  show "get_data_length m = 8" using l by (simp add: get_data_length_def)
  show "get_uint24_at 5 LittleEndian m = Some pgn" using read_le24 [OF l _ _ assms(3), of 5] m by (simp add: le_bytes_short)
  show "get_uint24_at 2 LittleEndian m = Some v" using read_le24 [OF l _ _ assms(2), of 2] m by (simp add: le_bytes_short)
  show "get_uint8_at 0 m = Some mux" "get_uint8_at 1 m = Some n"
    by (simp_all add: get_uint8_at_def checked_nth_def m)
qed

text \<open>A message between the two control functions reaches its handler.\<close>

lemma etp_cm_dispatch:
  assumes "carried (etp_cm_frame bs a (Some b)) m" "listens (cfs w) a (Some b)"
  shows "etp_process_message m w = etp_process_connection_management_message m w" "msg_data m = bs"
    "msg_source m = Some a" "msg_destination m = Some b"
proof -
  have m: "msg_source m = Some a" "msg_destination m = Some b" "msg_data m = bs"
    "get_parameter_group_number (msg_identifier m) = ExtendedTransportProtocolConnectionManagement"
    using assms(1) by (simp_all add: carried_def etp_cm_frame_def)
  show "msg_data m = bs" "msg_source m = Some a" "msg_destination m = Some b" by (rule m)+
  have "has_valid_source_control_function (cfs w) m" "is_destination_our_device (cfs w) m"
    using listens_message [OF assms(2) m(1,2)] assms(2) m
    by (simp_all add: listens_def is_destination_our_device_def has_valid_destination_control_function_def)
  then show "etp_process_message m w = etp_process_connection_management_message m w"
    using m(4) by (simp add: etp_process_message_def)
qed

lemma grant_received:
  assumes t: "transfers data pgn src dst a s" and l: "listens (cfs a) dst (Some src)"
    and m: "carried (grant_frame pgn src dst k n) m" and k: "k < packet_count (length data)" and n: "0 < n" "n < 256"
  shows "etp_process_message m (etp_with a (etp_at s EtpWaitForClearToSend ack off sq cnt lim) fs)
    = Some (etp_with a (etp_at s EtpSendDataPacketOffset k off sq cnt (of_nat n)) fs)"
proof -
  let ?w = "etp_with a (etp_at s EtpWaitForClearToSend ack off sq cnt lim) fs"
  have N: "packet_count (length data) < 2 ^ 24" by (rule transfers_count [OF t])
  then have v: "unat (of_nat (Suc k) :: u32) = Suc k" using k by (simp add: unat_of_nat del: of_nat_Suc)
  have l': "listens (cfs ?w) dst (Some src)" using l by simp
  note d = etp_cm_dispatch [OF m [unfolded grant_frame_def] l']
  have v24: "unat (of_nat (Suc k) :: u32) < 2 ^ 24" using v k N by simp
  have p24: "unat pgn < 2 ^ 24" using t by (simp add: transfers_def)
  note b = offset_bytes [OF d(2) v24 p24]
  have total: "etp_get_total_number_of_packets (etp_at s st ack off sq cnt lim) = of_nat (packet_count (length data))" for st
    by (rule etp_total_packets) (use t in \<open>simp_all add: transfers_def\<close>)
  have le: "\<not> of_nat (Suc k) > (of_nat (packet_count (length data)) :: u32)"
    unfolding word_less_nat_alt v using k N by (simp add: unat_of_nat)
  have prev: "of_nat (Suc k) - 1 = (of_nat k :: u32)" by simp
  have nz: "(of_nat n :: u8) \<noteq> 0" using n of_nat_zero_u8 by blast
  have now: "timestamp_ms s = clock a" "parameterGroupNumber s = pgn" "session_source s = src" "session_destination s = Some dst"
    using t by (simp_all add: transfers_def)
  show ?thesis
    unfolding d(1) etp_process_connection_management_message_def b d(3,4) etp_process_clear_to_send_def
    using le nz by (simp add: total now prev del: of_nat_Suc)
qed

lemma unat_smaller: "unat (if x > y then y else x) = min (unat x) (unat (y :: 'a::len word))"
  by (simp add: word_less_nat_alt)

lemma capped_byte:
  "unat (r :: u32) < 2 ^ 32 \<Longrightarrow> unat (if (ucast (0xFF :: u8) :: u32) > r then ucast r else (0xFF :: u8)) = min (unat r) 255"
  by (simp add: word_less_nat_alt unat_narrow_u8)

lemma segment_size:
  assumes "etp_get_number_of_remaining_packets s = of_nat n" "n < 2 ^ 32"
  shows "packets_of_segment s w = of_nat (min (min n (unat (clearToSendPacketCountLimit s)))
    (unat (numberOfPacketsPerDPOMessage (configuration w))))"
proof -
  let ?L = "clearToSendPacketCountLimit s" and ?P = "numberOfPacketsPerDPOMessage (configuration w)"
  have "unat (packets_of_segment s w) = min (min (min n 255) (unat ?L)) (unat ?P)"
    unfolding packets_of_segment_def Let_def unat_smaller assms(1) using capped_byte [of "of_nat n"] assms(2)
    by (simp add: unat_of_nat del: ucast_eq split: if_split_asm split del: if_split)
  also have "\<dots> = min (min n (unat ?L)) (unat ?P)" using unat_u8_bound [of ?L] by linarith
  finally have "unat (packets_of_segment s w) = min (min n (unat ?L)) (unat ?P)" .
  moreover have "min (min n (unat ?L)) (unat ?P) < 256" using unat_u8_bound [of ?P] by linarith
  ultimately show ?thesis by (metis word_unat_eq_iff unat_of_nat_u8)
qed

text \<open>A window is announced: the smaller of what remains, what was granted, and the sender's own limit.\<close>

lemma offset_sent:
  assumes t: "transfers data pgn src dst a s" and sq: "sq < 256" "off + sq = k" and k: "k < packet_count (length data)"
  shows "etp_update (etp_with a (etp_at s EtpSendDataPacketOffset ack off sq cnt lim) fs)
    = Some (etp_with a (etp_at s EtpSendDataTransferPackets ack k 0
          (min (min (packet_count (length data) - k) (unat lim)) (unat (numberOfPacketsPerDPOMessage (configuration a)))) lim)
        (fs @ [announce_frame pgn src dst k
          (min (min (packet_count (length data) - k) (unat lim)) (unat (numberOfPacketsPerDPOMessage (configuration a))))]))"
proof -
  let ?N = "packet_count (length data)" and ?P = "numberOfPacketsPerDPOMessage (configuration a)"
  let ?s = "\<lambda>st. etp_at s st ack off sq cnt lim"
  let ?w = "etp_with a (?s EtpSendDataPacketOffset) fs"
  let ?c = "min (min (?N - k) (unat lim)) (unat ?P)"
  have N: "?N < 2 ^ 24" by (rule transfers_count [OF t])
  have rem: "etp_get_number_of_remaining_packets (?s st) = of_nat (?N - k)" for st
    using etp_at_remaining [of s "length data" sq off st ack cnt lim] t sq k by (simp add: transfers_def del: of_nat_add)
  have seg: "packets_of_segment (?s EtpSendDataPacketOffset) ?w = of_nat ?c"
    using segment_size [OF rem] N by simp
  have last: "etp_get_last_packet_number (?s st) = of_nat k" for st using etp_at_last [OF sq(1)] by (simp only: sq(2))
  have now: "timestamp_ms s = clock a" "parameterGroupNumber s = pgn" "session_source s = src" "session_destination s = Some dst"
    "tx_replies a = []" using t by (simp_all add: transfers_def)
  have set: "offset_announced (of_nat c) (clock a) (?s st) = etp_at s st ack k 0 c lim" for st c
    by (simp add: offset_announced_def last) (use now(1) in \<open>cases s; simp add: etp_at_def\<close>)
  have frame: "dpo_frame (?s EtpSendDataPacketOffset) (of_nat c) = announce_frame pgn src dst k c" for c
    by (simp add: dpo_frame_def announce_frame_def last now pgn_bytes_le)
  have "etp_update ?w = etp_update_in EtpSendDataPacketOffset (?s EtpSendDataPacketOffset) ?w"
    by (rule etp_update_single [OF t]) simp
  then show ?thesis by (simp add: send_dpo_alt Let_def seg frame set now del: of_nat_min)
qed

lemma etp_packet_bytes_at:
  assumes "session_data s = data" "totalMessageSize s = of_nat (length data)" "length data \<le> 117440505"
    "j < 255" "k + j < 2 ^ 24"
  shows "etp_packet_bytes (etp_at s st ack k j cnt lim) = Some (of_nat (Suc j) # payload data (k + j))"
proof -
  let ?s = "etp_at s st ack k j cnt lim"
  have byte: "etp_packet_byte ?s (of_nat (k + j) * 7) i
      = Some (if 7 * (k + j) + i < length data then data ! (7 * (k + j) + i) else 0xFF)" if "i < 7" for i
  proof -
    have idx: "(of_nat (k + j) :: u32) * 7 + of_nat i = of_nat (7 * (k + j) + i)" by (simp add: algebra_simps)
    have "7 * (k + j) + i < 2 ^ 32" using assms(5) that by simp
    then have "unat (of_nat (7 * (k + j) + i) :: u32) = 7 * (k + j) + i"
      by (intro unat_of_nat_u32) simp
    moreover have "unat (of_nat (length data) :: u32) = length data" using assms(3) by (simp add: unat_of_nat)
    ultimately show ?thesis
      unfolding etp_packet_byte_def Let_def idx
      by (simp add: assms(1,2) word_less_nat_alt checked_nth_def del: of_nat_add of_nat_mult)
  qed
  have "etp_get_last_packet_number ?s = of_nat (k + j)" using assms(4) by (simp add: etp_at_last)
  then have "etp_packet_bytes ?s = map_option (\<lambda>bs. (of_nat j + 1) # bs)
      (those (map (etp_packet_byte ?s (of_nat (k + j) * 7)) [0..<7]))"
    by (simp only: etp_packet_bytes_def Let_def etp_at_fields)
  also have "those (map (etp_packet_byte ?s (of_nat (k + j) * 7)) [0..<7]) = Some (payload data (k + j))"
    unfolding payload_def by (rule those_map_Some) (rule byte, simp)
  finally show ?thesis by (simp add: add.commute)
qed

lemma etp_send_packets_at:
  assumes t: "transfers data pgn src dst a s" and d: "session_data s = data"
  shows "j + n \<le> 255 \<Longrightarrow> k + j + n \<le> packet_count (length data)
    \<Longrightarrow> etp_send_packets n (etp_at s st k k j cnt lim) (etp_with a u fs)
      = Some (etp_at s st k k (j + n) cnt lim, etp_with a u (fs @ map (etp_packet_frame data src dst k) [j..<j + n]))"
proof (induction n arbitrary: j fs)
  case (Suc n)
  have "packet_count (length data) < 2 ^ 24" by (rule transfers_count [OF t])
  then have buf: "etp_packet_bytes (etp_at s st k k j cnt lim) = Some (of_nat (Suc j) # payload data (k + j))"
    using t d Suc.prems by (intro etp_packet_bytes_at) (simp_all add: transfers_def)
  have nx: "of_nat j + 1 = (of_nat (Suc j) :: u8)" by simp
  have fs: "etp_packet_frame data src dst k j # map (etp_packet_frame data src dst k) [Suc j..<Suc (j + n)]
      = map (etp_packet_frame data src dst k) [j..<Suc (j + n)]" by (simp add: upt_conv_Cons del: upt_Suc)
  have "etp_send_packets n (etp_at s st k k (Suc j) cnt lim) (etp_with a u (fs @ [etp_packet_frame data src dst k j]))
      = Some (etp_at s st k k (Suc (j + n)) cnt lim, etp_with a u (fs @ map (etp_packet_frame data src dst k) [j..<Suc (j + n)]))"
    using Suc.IH [of "Suc j" "fs @ [etp_packet_frame data src dst k j]"] Suc.prems fs by simp
  then show ?case
    using t by (simp add: buf nx etp_packet_frame_def transfers_def del: of_nat_Suc upt_Suc)
qed simp

lemma packets_sent:
  assumes t: "transfers data pgn src dst a s" and d: "session_data s = data" and j: "j < c" "c < 256"
    and k: "k + c \<le> packet_count (length data)"
    and F: "F = min (c - j) (unat (networkManagerMaxFramesToSendPerUpdate (configuration a)))"
  shows "etp_update (etp_with a (etp_at s EtpSendDataTransferPackets k k j c lim) fs)
    = Some (etp_with a
        (etp_at s (if k + j + F = packet_count (length data) then EtpWaitForEndOfMessageAcknowledge
                   else if j + F = c then EtpWaitForClearToSend else EtpSendDataTransferPackets) k k (j + F) c lim)
        (fs @ map (etp_packet_frame data src dst k) [j..<j + F]))"
proof -
  let ?s = "etp_at s EtpSendDataTransferPackets k k j c lim" and ?N = "packet_count (length data)"
  let ?s' = "etp_at s EtpSendDataTransferPackets k k (j + F) c lim"
  have N: "?N < 2 ^ 24" by (rule transfers_count [OF t])
  have le: "F \<le> c - j" using F by simp
  have seg: "get_dpo_number_of_packets_remaining ?s = of_nat (c - j)" using j by (intro etp_at_segment) simp_all
  have "unat (etp_frames_to_send ?s w) = min (unat (of_nat (c - j) :: u8)) (unat (networkManagerMaxFramesToSendPerUpdate (configuration w)))"
    for w unfolding etp_frames_to_send_def Let_def seg by (rule unat_smaller)
  then have frames: "unat (etp_frames_to_send ?s (etp_with a ?s fs)) = F" using j F unat_of_nat_u8 [of "c - j"] by (simp del: of_nat_diff)
  have send: "etp_send_packets F ?s (etp_with a ?s fs)
      = Some (?s', etp_with a ?s (fs @ map (etp_packet_frame data src dst k) [j..<j + F]))"
    using j k le by (intro etp_send_packets_at [OF t d]) simp_all
  have "k + (j + F) \<le> ?N" "j + F < 256" using j k le by simp_all
  then have "etp_get_number_of_remaining_packets ?s' = of_nat (?N - (k + (j + F)))"
    using t by (intro etp_at_remaining) (simp_all add: transfers_def)
  then have rem: "etp_get_number_of_remaining_packets ?s' = 0 \<longleftrightarrow> k + j + F = ?N"
    using N \<open>k + (j + F) \<le> ?N\<close> of_nat_zero_u32 [of "?N - (k + (j + F))"] by auto
  have "get_dpo_number_of_packets_remaining ?s' = of_nat (c - (j + F))" using j le by (intro etp_at_segment) simp_all
  then have left: "get_dpo_number_of_packets_remaining ?s' = 0 \<longleftrightarrow> j + F = c"
    using j le of_nat_zero_u8 [of "c - (j + F)"] by auto
  have now: "timestamp_ms s = clock a" using t by (simp add: transfers_def)
  have "etp_update (etp_with a ?s fs) = etp_update_in EtpSendDataTransferPackets ?s (etp_with a ?s fs)"
    by (rule etp_update_single [OF t]) simp
  then show ?thesis
    by (simp add: etp_send_data_transfer_packets_def frames send etp_after_packets_def rem left now)
qed

lemma le_bytes_4: "le_bytes 4 v = [byte_of 0 v, byte_of 1 v, byte_of 2 v, byte_of 3 v]"
  by (simp add: le_bytes_def upt_rec numeral_2_eq_2 numeral_3_eq_3)

lemma size_bytes_le: "size_bytes n = le_bytes 4 n"
  using byte_of_mask [of 0 n] byte_of_mask [of 1 n] byte_of_mask [of 2 n] byte_of_mask [of 3 n]
  by (simp add: size_bytes_def le_bytes_4)

text \<open>The frames that carry the size: the request and the final acknowledgement.\<close>

definition etp_request_frame :: "u32 \<Rightarrow> nat \<Rightarrow> cf \<Rightarrow> cf \<Rightarrow> tx_frame" where
  "etp_request_frame pgn n src dst =
     etp_cm_frame ([ETP_REQUEST_TO_SEND_MULTIPLEXOR] @ le_bytes 4 (of_nat n :: u32) @ le_bytes 3 pgn) src (Some dst)"

definition etp_final_frame :: "u32 \<Rightarrow> nat \<Rightarrow> cf \<Rightarrow> cf \<Rightarrow> tx_frame" where
  "etp_final_frame pgn n src dst =
     etp_cm_frame ([ETP_END_OF_MESSAGE_ACKNOWLEDGE_MULTIPLEXOR] @ le_bytes 4 (of_nat n :: u32) @ le_bytes 3 pgn) dst (Some src)"

lemma size_frame_bytes:
  assumes "msg_data m = [mux] @ le_bytes 4 (v :: u32) @ le_bytes 3 pgn" "unat (pgn :: u32) < 2 ^ 24"
  shows "get_data_length m = 8" "get_uint24_at 5 LittleEndian m = Some pgn" "get_uint8_at 0 m = Some mux"
    "get_uint32_at 1 LittleEndian m = Some v"
proof -
  have m: "msg_data m = [mux, byte_of 0 v, byte_of 1 v, byte_of 2 v, byte_of 3 v, byte_of 0 pgn, byte_of 1 pgn, byte_of 2 pgn]"
    using assms(1) by (simp add: le_bytes_short le_bytes_4)
  then have l: "length (msg_data m) = 8" by simp
  show "get_data_length m = 8" using l by (simp add: get_data_length_def)
  show "get_uint24_at 5 LittleEndian m = Some pgn" using read_le24 [OF l _ _ assms(2), of 5] m by (simp add: le_bytes_short)
  have "get_bytes_at 4 1 m = Some (le_bytes 4 v)" using get_bytes_at_ok [of 1 4 m] l m by (simp add: le_bytes_4)
  then show "get_uint32_at 1 LittleEndian m = Some v" by (simp add: get_uint32_at_def or_little_le_bytes)
  show "get_uint8_at 0 m = Some mux" by (simp add: get_uint8_at_def checked_nth_def m)
qed

lemma final_received:
  assumes t: "transfers data pgn src dst a s" and l: "listens (cfs a) dst (Some src)"
    and m: "carried (etp_final_frame pgn (length data) src dst) m"
  shows "etp_process_message m (etp_with a (etp_at s EtpWaitForEndOfMessageAcknowledge ack off sq cnt lim) fs)
    = Some (complete True s (a\<lparr>activeSessions := [], tx_log := fs\<rparr>))"
proof -
  let ?t = "etp_at s EtpWaitForEndOfMessageAcknowledge ack off sq cnt lim"
  have l': "listens (cfs (etp_with a ?t fs)) dst (Some src)" using l by simp
  note d = etp_cm_dispatch [OF m [unfolded etp_final_frame_def] l']
  have p24: "unat pgn < 2 ^ 24" using t by (simp add: transfers_def)
  note b = size_frame_bytes [OF d(2) p24]
  have c: "close_session (?t\<lparr>etp_state := EtpNone\<rparr>) True (etp_with a ?t fs) = complete True s (a\<lparr>activeSessions := [], tx_log := fs\<rparr>)"
    by (simp add: close_session_def complete_def etp_with_def erase_session_def split: option.split)
  show ?thesis
    unfolding d(1) etp_process_connection_management_message_def b d(3,4) etp_process_end_of_session_acknowledgement_def
    using t c by (simp add: transfers_def)
qed

section \<open>The receiver\<close>

lemma limit_size:
  assumes "etp_get_number_of_remaining_packets s = of_nat n" "n < 2 ^ 32"
  shows "etp_packet_limit s = of_nat (min n (unat (clearToSendPacketCountLimit s)))"
proof -
  let ?L = "clearToSendPacketCountLimit s"
  have "unat (etp_packet_limit s) = min n (unat ?L)"
  proof -
    have n: "unat (of_nat n :: u32) = n" using assms(2) by (simp add: unat_of_nat)
    have "n < unat ?L \<Longrightarrow> n < 256" using unat_u8_bound [of ?L] by linarith
    then show ?thesis unfolding etp_packet_limit_def assms(1) word_less_nat_alt n by (simp add: unat_narrow_u8 n)
  qed
  moreover have "min n (unat ?L) < 256" using unat_u8_bound [of ?L] by linarith
  ultimately show ?thesis by (metis word_unat_eq_iff unat_of_nat_u8)
qed

lemma window_granted:
  assumes t: "transfers data pgn src dst b r" and k: "sq < 256" "off + sq = k" "k < packet_count (length data)"
  shows "etp_update_state_machine (etp_at r EtpSendClearToSend ack off sq cnt lim)
      (etp_with b (etp_at r EtpSendClearToSend ack off sq cnt lim) fs)
    = Some (etp_with b (etp_at r EtpWaitForDataPacketOffset k off sq cnt lim)
        (fs @ [grant_frame pgn src dst k (min (packet_count (length data) - k) (unat lim))]))"
proof -
  let ?r = "etp_at r EtpSendClearToSend ack off sq cnt lim" and ?N = "packet_count (length data)"
  have N: "?N < 2 ^ 24" by (rule transfers_count [OF t])
  have "off + sq \<le> ?N" using k by simp
  then have "etp_get_number_of_remaining_packets ?r = of_nat (?N - (off + sq))"
    using t k(1) by (intro etp_at_remaining) (simp_all add: transfers_def)
  then have lim: "etp_packet_limit ?r = of_nat (min (?N - k) (unat lim))" using limit_size [of ?r "?N - k"] N k(2) by simp
  have last: "etp_get_last_packet_number ?r = of_nat k" using etp_at_last [OF k(1)] by (simp only: k(2))
  have now: "timestamp_ms r = clock b" "parameterGroupNumber r = pgn" "session_source r = src" "session_destination r = Some dst"
    "tx_replies b = []" using t by (simp_all add: transfers_def)
  have succ: "of_nat k + 1 = (of_nat (Suc k) :: u32)" by simp
  have frame: "etp_cts_frame ?r = grant_frame pgn src dst k (min (?N - k) (unat lim))"
    unfolding etp_cts_frame_def grant_frame_def last lim succ pgn_bytes_le by (simp add: now)
  show ?thesis
    by (simp add: etp_update_state_machine_def etp_send_cts_alt Let_def frame now last)
qed

definition etp_receiver :: "nat \<Rightarrow> u8 list \<Rightarrow> u32 \<Rightarrow> cf \<Rightarrow> cf \<Rightarrow> u32 \<Rightarrow> etp_session" where
  "etp_receiver i data pgn src dst now =
     make_etp_session i DirReceive (replicate (length data) 0) pgn (of_nat (length data)) src dst None\<lparr>timestamp_ms := now\<rparr>"

lemma request_received:
  assumes idle: "activeSessions b = []" "\<not> sessions_full b" and t: "transfers data pgn src dst b (etp_receiver (next_sid b) data pgn src dst (clock b))"
    and l: "listens (cfs b) src (Some dst)" and m: "carried (etp_request_frame pgn (length data) src dst) m"
  shows "etp_process_message m b
    = Some (etp_with (b\<lparr>next_sid := Suc (next_sid b)\<rparr>)
        (etp_at (etp_receiver (next_sid b) data pgn src dst (clock b)) EtpWaitForDataPacketOffset 0 0 0 0
          (numberOfPacketsPerDPOMessage (configuration b)))
        (tx_log b @ [grant_frame pgn src dst 0
          (min (packet_count (length data)) (unat (numberOfPacketsPerDPOMessage (configuration b))))]))"
proof -
  let ?r = "etp_receiver (next_sid b) data pgn src dst (clock b)" and ?L = "numberOfPacketsPerDPOMessage (configuration b)"
  let ?b = "b\<lparr>next_sid := Suc (next_sid b)\<rparr>"
  note d = etp_cm_dispatch [OF m [unfolded etp_request_frame_def] l]
  have p24: "unat pgn < 2 ^ 24" using t by (simp add: transfers_def)
  note bytes = size_frame_bytes [OF d(2) p24]
  have len: "unat (of_nat (length data) :: u32) = length data" using t by (simp add: transfers_def unat_of_nat)
  have new: "etp_set_state EtpSendClearToSend (clock b) (set_cts_number_of_packet_limit ?L (clock b)
      (make_etp_session (next_sid b) DirReceive (replicate (length data) 0) pgn (of_nat (length data)) src dst None))
    = etp_at ?r EtpSendClearToSend 0 0 0 0 ?L"
    by (simp add: etp_setter_defs make_etp_session_def etp_receiver_def etp_at_def)
  have push: "push_active s ?b = etp_with ?b s (tx_log b)" for s
    using idle(1) by (cases b) (simp add: push_active_def etp_with_def)
  have t': "transfers data pgn src dst ?b ?r" using t by (simp add: transfers_def)
  have pos: "0 < packet_count (length data)" using t by (cases data) (simp_all add: transfers_def packet_count_def)
  show ?thesis
    unfolding d(1) etp_process_connection_management_message_def bytes d(3,4)
    using idle window_granted [OF t' _ _ pos, of 0 0]
    by (simp add: etp_process_request_to_send_def find_session_def new_sid_def len new push)
qed

lemma offset_received:
  assumes t: "transfers data pgn src dst b r" and l: "listens (cfs b) src (Some dst)"
    and m: "carried (announce_frame pgn src dst k c) m" and c: "0 < c" "c \<le> unat lim" and k: "k < packet_count (length data)"
  shows "etp_process_message m (etp_with b (etp_at r EtpWaitForDataPacketOffset k off sq cnt lim) fs)
    = Some (etp_with b (etp_at r EtpWaitForDataTransferPacket k k 0 c lim) fs)"
proof -
  let ?w = "etp_with b (etp_at r EtpWaitForDataPacketOffset k off sq cnt lim) fs"
  have N: "packet_count (length data) < 2 ^ 24" by (rule transfers_count [OF t])
  have l': "listens (cfs ?w) src (Some dst)" using l by simp
  note d = etp_cm_dispatch [OF m [unfolded announce_frame_def] l']
  have v24: "unat (of_nat k :: u32) < 2 ^ 24" using k N by (simp add: unat_of_nat)
  have p24: "unat pgn < 2 ^ 24" using t by (simp add: transfers_def)
  note bytes = offset_bytes [OF d(2) v24 p24]
  have c256: "c < 256" using c(2) unat_u8_bound [of lim] by linarith
  have "\<not> (of_nat c > lim)" using c c256 by (simp add: word_less_nat_alt unat_of_nat)
  moreover have "(of_nat c :: u8) \<noteq> 0" using c(1) of_nat_zero_u8 [OF c256] by simp
  moreover have "timestamp_ms r = clock b" "parameterGroupNumber r = pgn" "session_source r = src" "session_destination r = Some dst"
    using t by (simp_all add: transfers_def)
  ultimately show ?thesis
    unfolding d(1) etp_process_connection_management_message_def bytes d(3,4) process_data_packet_offset_def by simp
qed

lemma etp_accept_at:
  assumes t: "transfers data pgn src dst b r" and r: "sessionCompleteCallback r = None" "length (session_data r) = length data"
    and j: "j < c" "c < 256" "k + c \<le> packet_count (length data)"
    and prefix: "take (7 * (k + j)) (session_data r) = take (7 * (k + j)) data"
    and m: "msg_data m = of_nat (Suc j) # payload data (k + j)"
  shows "\<exists>d stamp. length d = length data \<and> take (7 * Suc (k + j)) d = take (7 * Suc (k + j)) data
    \<and> etp_accept_packet m (of_nat (Suc j)) (etp_at r EtpWaitForDataTransferPacket k k j c lim)
        (etp_with b (etp_at r EtpWaitForDataTransferPacket k k j c lim) fs)
      = Some (if Suc (k + j) = packet_count (length data)
         then deliver (make_message Receive
             (make_identifier Extended pgn PriorityDefault6 (address (cfs b dst)) (address (cfs b src)))
             data (Some src) (Some dst) 0 stamp)
           (b\<lparr>activeSessions := [], tx_log := fs @ [etp_final_frame pgn (length data) src dst]\<rparr>)
         else if Suc j = c
         then etp_with b (etp_at (r\<lparr>session_data := d\<rparr>) EtpWaitForDataPacketOffset (k + c) k c c lim)
           (fs @ [grant_frame pgn src dst (k + c) (min (packet_count (length data) - (k + c)) (unat lim))])
         else etp_with b (etp_at (r\<lparr>session_data := d\<rparr>) EtpWaitForDataTransferPacket k k (Suc j) c lim) fs)"
proof -
  let ?N = "packet_count (length data)"
  let ?s = "etp_at r EtpWaitForDataTransferPacket k k j c lim"
  have N: "?N < 2 ^ 24" by (rule transfers_count [OF t])
  have kj: "k + j < ?N" using j by simp
  then have k7: "7 * (k + j) < length data" unfolding packet_count_def by presburger
  have size: "unat (totalMessageSize r) = length data" using t by (simp add: transfers_def unat_of_nat)
  have j256: "j < 256" using j by simp
  have last: "unat (7 * etp_get_last_packet_number ?s) = 7 * (k + j)"
  proof -
    have "7 * etp_get_last_packet_number ?s = of_nat (7 * (k + j))" unfolding etp_at_last [OF j256] by simp
    moreover have "7 * (k + j) < 4294967296" using kj N by simp
    ultimately show ?thesis by (simp only: unat_of_nat_u32)
  qed
  have lt: "7 * etp_get_last_packet_number ?s < totalMessageSize ?s" using last k7 size by (simp add: word_less_nat_alt)
  have ok: "etp_session_ok ?s" using t r(2) size by (simp add: etp_session_ok_def transfers_def)
  have m8: "length (msg_data m) = 8" using m by simp
  obtain d where copy: "etp_copy_packet m ?s = Some (?s\<lparr>session_data := d\<rparr>)" and ld: "length d = length data"
    and dt: "take (7 * (k + j) + min 7 (length data - 7 * (k + j))) d
       = take (7 * (k + j)) (session_data r) @ take (min 7 (length data - 7 * (k + j))) (payload data (k + j))"
    using etp_copy_ok [OF ok m8 lt] m r(2) by (auto simp: last size)
  have data: "take (7 * Suc (k + j)) d = take (7 * Suc (k + j)) data" by (rule prefix_extends [OF prefix ld k7 dt])
  let ?r = "r\<lparr>session_data := d\<rparr>"
  let ?t = "etp_at ?r EtpWaitForDataTransferPacket k k (Suc j) c lim"
  have now: "timestamp_ms r = clock b" "parameterGroupNumber r = pgn" "session_source r = src" "session_destination r = Some dst"
    "tx_replies b = []" using t by (simp_all add: transfers_def)
  have t': "transfers data pgn src dst b ?r" using t by (simp add: transfers_def)
  have set: "etp_set_last_sequency_number (of_nat (Suc j)) (clock b) (etp_at ?r EtpWaitForDataTransferPacket k k j c lim) = ?t"
    using now(1) by (intro etp_at_set) simp
  have "etp_get_number_of_remaining_packets ?t = of_nat (?N - (k + Suc j))"
    using t' kj j N by (intro etp_at_remaining) (simp_all add: transfers_def)
  then have rem: "etp_get_number_of_remaining_packets ?t = 0 \<longleftrightarrow> Suc (k + j) = ?N"
    using kj N of_nat_zero_u32 [of "?N - (k + Suc j)"] by auto
  have "get_dpo_number_of_packets_remaining ?t = of_nat (c - Suc j)" using j by (intro etp_at_segment) simp_all
  then have left: "get_dpo_number_of_packets_remaining ?t = 0 \<longleftrightarrow> Suc j = c"
    using j of_nat_zero_u8 [of "c - Suc j"] by auto
  have all: "d = data" if "Suc (k + j) = ?N"
  proof -
    have "length data \<le> 7 * ?N" unfolding packet_count_def by linarith
    then show ?thesis using data ld that by simp
  qed
  have close: "close_session ?t True (deliver x (etp_with b u gs)) = deliver x (b\<lparr>activeSessions := [], tx_log := gs\<rparr>)"
    if "sid u = sid r" for x u gs
    using r(1) that by (simp add: close_session_def complete_def etp_with_def erase_session_def deliver_def)
  have final: "etp_send_end_of_session_acknowledgement ?t (etp_with b ?t fs)
      = (True, etp_with b ?t (fs @ [etp_final_frame pgn (length data) src dst]))"
    using t now by (simp add: etp_send_end_of_session_acknowledgement_def etp_final_frame_def transfers_def size_bytes_le pgn_bytes_le)
  have msg: "etp_completed_message m ?t (cfs b) = make_message Receive
             (make_identifier Extended pgn PriorityDefault6 (address (cfs b dst)) (address (cfs b src)))
             data (Some src) (Some dst) 0 (timestamp_us m)" if "Suc (k + j) = ?N"
    using all [OF that] now by (simp add: etp_completed_message_def)
  have grant: "etp_update_state_machine (etp_at ?r EtpSendClearToSend k k c c lim)
      (etp_with b (etp_at ?r EtpSendClearToSend k k c c lim) fs)
    = Some (etp_with b (etp_at ?r EtpWaitForDataPacketOffset (k + c) k c c lim)
        (fs @ [grant_frame pgn src dst (k + c) (min (?N - (k + c)) (unat lim))]))" if "Suc j = c" "Suc (k + j) \<noteq> ?N"
    using that j by (intro window_granted [OF t']) simp_all
  have "etp_accept_packet m (of_nat (Suc j)) ?s (etp_with b ?s fs)
    = Some (if Suc (k + j) = ?N
         then deliver (make_message Receive
             (make_identifier Extended pgn PriorityDefault6 (address (cfs b dst)) (address (cfs b src)))
             data (Some src) (Some dst) 0 (timestamp_us m))
           (b\<lparr>activeSessions := [], tx_log := fs @ [etp_final_frame pgn (length data) src dst]\<rparr>)
         else if Suc j = c
         then etp_with b (etp_at ?r EtpWaitForDataPacketOffset (k + c) k c c lim)
           (fs @ [grant_frame pgn src dst (k + c) (min (?N - (k + c)) (unat lim))])
         else etp_with b ?t fs)"
    using lt copy set now(1) grant
    by (auto simp: etp_accept_packet_def not_le [symmetric] Let_def rem left final msg close simp del: of_nat_Suc)
  then show ?thesis using ld data by blast
qed

lemma etp_packet_dispatch:
  assumes t: "transfers data pgn src dst b r" and l: "listens (cfs b) src (Some dst)"
    and m: "carried (etp_packet_frame data src dst k j) m" and j: "j < 255"
  shows "etp_process_message m (etp_with b (etp_at r EtpWaitForDataTransferPacket k k j c lim) fs)
    = etp_accept_packet m (of_nat (Suc j)) (etp_at r EtpWaitForDataTransferPacket k k j c lim)
        (etp_with b (etp_at r EtpWaitForDataTransferPacket k k j c lim) fs)"
    "msg_data m = of_nat (Suc j) # payload data (k + j)"
proof -
  have f: "msg_source m = Some src" "msg_destination m = Some dst" "msg_data m = of_nat (Suc j) # payload data (k + j)"
    "get_parameter_group_number (msg_identifier m) = ExtendedTransportProtocolDataTransfer"
    using m by (simp_all add: carried_def etp_packet_frame_def)
  show "msg_data m = of_nat (Suc j) # payload data (k + j)" by (rule f)
  have dev: "has_valid_source_control_function (cfs b) m" "is_destination_our_device (cfs b) m"
    using listens_message [OF l f(1,2)] by (simp_all add: listens_def)
  have ne: "(of_nat (Suc j) :: u8) \<noteq> of_nat j" "unat (of_nat (Suc j) :: u8) = unat (of_nat j :: u8) + 1"
    using j by (simp_all add: word_unat_eq_iff unat_of_nat del: of_nat_Suc)
  have "get_data_length m = 8" "get_uint8_at 0 m = Some (of_nat (Suc j))"
    by (simp_all add: get_data_length_def get_uint8_at_def checked_nth_def f del: of_nat_Suc)
  then show "etp_process_message m (etp_with b (etp_at r EtpWaitForDataTransferPacket k k j c lim) fs)
    = etp_accept_packet m (of_nat (Suc j)) (etp_at r EtpWaitForDataTransferPacket k k j c lim)
        (etp_with b (etp_at r EtpWaitForDataTransferPacket k k j c lim) fs)"
    using dev ne t by (simp add: etp_process_message_def f etp_process_data_transfer_message_def transfers_def del: of_nat_Suc)
qed

text \<open>Where the receiver is after some packets of a window, and after the last one.\<close>

definition etp_finished :: "u8 list \<Rightarrow> u32 \<Rightarrow> cf \<Rightarrow> cf \<Rightarrow> etp \<Rightarrow> tx_frame list \<Rightarrow> etp \<Rightarrow> bool" where
  "etp_finished data pgn src dst b fs b' \<longleftrightarrow> (\<exists>stamp. b' = deliver (make_message Receive
             (make_identifier Extended pgn PriorityDefault6 (address (cfs b dst)) (address (cfs b src)))
             data (Some src) (Some dst) 0 stamp)
           (b\<lparr>activeSessions := [], tx_log := fs @ [etp_final_frame pgn (length data) src dst]\<rparr>))"

definition window_state :: "u8 list \<Rightarrow> u32 \<Rightarrow> cf \<Rightarrow> cf \<Rightarrow> etp \<Rightarrow> etp_session \<Rightarrow> tx_frame list \<Rightarrow> nat \<Rightarrow> nat \<Rightarrow> nat \<Rightarrow> u8 \<Rightarrow> etp \<Rightarrow> bool" where
  "window_state data pgn src dst b r fs k j c lim b' \<longleftrightarrow>
     (if k + j = packet_count (length data) then etp_finished data pgn src dst b fs b'
      else \<exists>d. length d = length data \<and> take (7 * (k + j)) d = take (7 * (k + j)) data
        \<and> b' = (if j = c
             then etp_with b (etp_at (r\<lparr>session_data := d\<rparr>) EtpWaitForDataPacketOffset (k + c) k c c lim)
               (fs @ [grant_frame pgn src dst (k + c) (min (packet_count (length data) - (k + c)) (unat lim))])
             else etp_with b (etp_at (r\<lparr>session_data := d\<rparr>) EtpWaitForDataTransferPacket k k j c lim) fs))"

lemma window_start:
  "length (session_data r) = length data \<Longrightarrow> take (7 * (k + j)) (session_data r) = take (7 * (k + j)) data
    \<Longrightarrow> j < c \<Longrightarrow> k + c \<le> packet_count (length data)
    \<Longrightarrow> window_state data pgn src dst b r fs k j c lim (etp_with b (etp_at r EtpWaitForDataTransferPacket k k j c lim) fs)"
  by (auto simp: window_state_def intro!: exI [of _ "session_data r"])

lemma window_step:
  assumes t: "transfers data pgn src dst b r" and l: "listens (cfs b) src (Some dst)" and r: "sessionCompleteCallback r = None"
    and j: "j < c" "c < 256" "k + c \<le> packet_count (length data)"
    and m: "carried (etp_packet_frame data src dst k j) m"
    and w: "window_state data pgn src dst b r fs k j c lim b'"
  shows "\<exists>b''. etp_process_message m b' = Some b'' \<and> window_state data pgn src dst b r fs k (Suc j) c lim b''"
proof -
  obtain d where d: "length d = length data" "take (7 * (k + j)) d = take (7 * (k + j)) data"
    "b' = etp_with b (etp_at (r\<lparr>session_data := d\<rparr>) EtpWaitForDataTransferPacket k k j c lim) fs"
    using w j by (auto simp: window_state_def)
  let ?r = "r\<lparr>session_data := d\<rparr>"
  have t': "transfers data pgn src dst b ?r" using t by (simp add: transfers_def)
  have j255: "j < 255" using j by simp
  note dis = etp_packet_dispatch [OF t' l m j255]
  have r': "sessionCompleteCallback ?r = None" "length (session_data ?r) = length data"
    "take (7 * (k + j)) (session_data ?r) = take (7 * (k + j)) data" using r d by simp_all
  obtain d' stamp where d': "length d' = length data" "take (7 * Suc (k + j)) d' = take (7 * Suc (k + j)) data"
    and acc: "etp_accept_packet m (of_nat (Suc j)) (etp_at ?r EtpWaitForDataTransferPacket k k j c lim) b'
      = Some (if Suc (k + j) = packet_count (length data)
         then deliver (make_message Receive
             (make_identifier Extended pgn PriorityDefault6 (address (cfs b dst)) (address (cfs b src)))
             data (Some src) (Some dst) 0 stamp)
           (b\<lparr>activeSessions := [], tx_log := fs @ [etp_final_frame pgn (length data) src dst]\<rparr>)
         else if Suc j = c
         then etp_with b (etp_at (?r\<lparr>session_data := d'\<rparr>) EtpWaitForDataPacketOffset (k + c) k c c lim)
           (fs @ [grant_frame pgn src dst (k + c) (min (packet_count (length data) - (k + c)) (unat lim))])
         else etp_with b (etp_at (?r\<lparr>session_data := d'\<rparr>) EtpWaitForDataTransferPacket k k (Suc j) c lim) fs)"
    using etp_accept_at [OF t' r'(1,2) j r'(3) dis(2)] unfolding d(3) by blast
  show ?thesis
  proof (cases "Suc (k + j) = packet_count (length data)")
    case True
    then show ?thesis using acc dis(1) unfolding d(3) by (auto simp: window_state_def etp_finished_def)
  next
    case False
    then show ?thesis using acc dis(1) d' unfolding d(3)
      by (auto simp: window_state_def intro!: exI [of _ d'])
  qed
qed

definition etp_feed :: "(tx_frame \<Rightarrow> CANMessage) \<Rightarrow> tx_frame list \<Rightarrow> etp \<Rightarrow> etp option" where
  "etp_feed net fs = run_events etp_process_message (map net fs)"

lemma etp_feed_simps [simp]:
  "etp_feed net [] w = Some w" "etp_feed net (f # fs) w = Option.bind (etp_process_message (net f) w) (etp_feed net fs)"
  by (simp_all add: etp_feed_def)

lemma window_packets:
  assumes t: "transfers data pgn src dst b r" and l: "listens (cfs b) src (Some dst)" and r: "sessionCompleteCallback r = None"
    and c: "c < 256" "k + c \<le> packet_count (length data)"
    and m: "\<And>j. carried (etp_packet_frame data src dst k j) (net (etp_packet_frame data src dst k j))"
  shows "j + n \<le> c \<Longrightarrow> window_state data pgn src dst b r fs k j c lim b'
    \<Longrightarrow> \<exists>b''. etp_feed net (map (etp_packet_frame data src dst k) [j..<j + n]) b' = Some b''
      \<and> window_state data pgn src dst b r fs k (j + n) c lim b''"
proof (induction n arbitrary: j b')
  case (Suc n)
  have "j < c" using Suc.prems by simp
  then obtain b1 where b1: "etp_process_message (net (etp_packet_frame data src dst k j)) b' = Some b1"
    "window_state data pgn src dst b r fs k (Suc j) c lim b1"
    using window_step [OF t l r _ c m Suc.prems(2)] by blast
  have "[j..<j + Suc n] = j # [Suc j..<Suc j + n]" by (simp add: upt_conv_Cons del: upt_Suc)
  then show ?case using Suc.IH [OF _ b1(2)] Suc.prems(1) b1(1) by simp
qed simp

section \<open>Two managers\<close>

text \<open>
  One round: the sender is given what the receiver has sent, and updates; the receiver is given
  what the sender has sent, and updates. \<open>tx_log\<close> holds the frames on their way.
\<close>

fun etp_round :: "(tx_frame \<Rightarrow> CANMessage) \<Rightarrow> etp \<times> etp \<Rightarrow> (etp \<times> etp) option" where
  "etp_round net (a, b) =
     do {
       a1 \<leftarrow> etp_feed net (tx_log b) a;
       a2 \<leftarrow> etp_update a1;
       b1 \<leftarrow> etp_feed net (tx_log a2) (b\<lparr>tx_log := []\<rparr>);
       b2 \<leftarrow> etp_update b1;
       Some (a2\<lparr>tx_log := []\<rparr>, b2)
     }"

fun etp_rounds :: "(tx_frame \<Rightarrow> CANMessage) \<Rightarrow> nat \<Rightarrow> etp \<times> etp \<Rightarrow> (etp \<times> etp) option" where
  "etp_rounds net 0 ab = Some ab"
| "etp_rounds net (Suc n) ab = Option.bind (etp_round net ab) (etp_rounds net n)"

text \<open>
  The joint states between rounds, with the number of rounds that are enough to finish: a
  window has been granted, a window is being sent, the message is acknowledged, all is over.
\<close>

inductive etp_joint ::
    "u8 list \<Rightarrow> u32 \<Rightarrow> cf \<Rightarrow> cf \<Rightarrow> etp \<Rightarrow> etp_session \<Rightarrow> etp \<Rightarrow> etp_session \<Rightarrow> nat \<Rightarrow> etp \<Rightarrow> etp \<Rightarrow> bool"
  for data pgn src dst a s b r where
  granted: "k < packet_count (length data) \<Longrightarrow> sq < 256 \<Longrightarrow> off + sq = k \<Longrightarrow> length d = length data
    \<Longrightarrow> take (7 * k) d = take (7 * k) data
    \<Longrightarrow> etp_joint data pgn src dst a s b r (2 * (packet_count (length data) - k) + 1)
      (etp_with a (etp_at s EtpWaitForClearToSend ack off sq cnt lim) [])
      (etp_with b (etp_at (r\<lparr>session_data := d\<rparr>) EtpWaitForDataPacketOffset k off' sq' cnt' (numberOfPacketsPerDPOMessage (configuration b)))
        [grant_frame pgn src dst k (min (packet_count (length data) - k) (unat (numberOfPacketsPerDPOMessage (configuration b))))])"
| sending: "j < c \<Longrightarrow> c < 256 \<Longrightarrow> k + c \<le> packet_count (length data) \<Longrightarrow> length d = length data
    \<Longrightarrow> take (7 * (k + j)) d = take (7 * (k + j)) data
    \<Longrightarrow> etp_joint data pgn src dst a s b r (2 * (packet_count (length data) - k) - j)
      (etp_with a (etp_at s EtpSendDataTransferPackets k k j c lim) [])
      (etp_with b (etp_at (r\<lparr>session_data := d\<rparr>) EtpWaitForDataTransferPacket k k j c
        (numberOfPacketsPerDPOMessage (configuration b))) [])"
| acknowledged: "etp_finished data pgn src dst b [] b'
    \<Longrightarrow> etp_joint data pgn src dst a s b r 1
      (etp_with a (etp_at s EtpWaitForEndOfMessageAcknowledge ack off sq cnt lim) []) b'"
| finished: "etp_joint data pgn src dst a s b r 0
      (complete True s (a\<lparr>activeSessions := [], tx_log := []\<rparr>))
      (deliver (make_message Receive
             (make_identifier Extended pgn PriorityDefault6 (address (cfs b dst)) (address (cfs b src)))
             data (Some src) (Some dst) 0 stamp) (b\<lparr>activeSessions := [], tx_log := []\<rparr>))"

text \<open>What both managers need, and the network between them.\<close>

definition etp_pair :: "u8 list \<Rightarrow> u32 \<Rightarrow> cf \<Rightarrow> cf \<Rightarrow> etp \<Rightarrow> etp_session \<Rightarrow> etp \<Rightarrow> etp_session \<Rightarrow> (tx_frame \<Rightarrow> CANMessage) \<Rightarrow> bool" where
  "etp_pair data pgn src dst a s b r net \<longleftrightarrow> transfers data pgn src dst a s \<and> session_data s = data
     \<and> transfers data pgn src dst b r \<and> sessionCompleteCallback r = None
     \<and> listens (cfs a) dst (Some src) \<and> listens (cfs b) src (Some dst)
     \<and> 0 < numberOfPacketsPerDPOMessage (configuration a) \<and> 0 < numberOfPacketsPerDPOMessage (configuration b)
     \<and> 0 < networkManagerMaxFramesToSendPerUpdate (configuration a)
     \<and> (\<forall>f. f_pgn f \<in> {ExtendedTransportProtocolConnectionManagement, ExtendedTransportProtocolDataTransfer}
          \<longrightarrow> f_priority f = PriorityLowest7 \<longrightarrow> carried f (net f))"

lemma pair_carried:
  assumes "etp_pair data pgn src dst a s b r net"
  shows "carried (etp_cm_frame bs x y) (net (etp_cm_frame bs x y))"
    "carried (etp_packet_frame data src dst k j) (net (etp_packet_frame data src dst k j))"
  using assms by (simp_all add: etp_pair_def etp_cm_frame_def etp_packet_frame_def)

lemmas protocol_frames = grant_frame_def announce_frame_def etp_request_frame_def etp_final_frame_def

lemma transfers_data: "transfers data pgn src dst b (r\<lparr>session_data := d\<rparr>) = transfers data pgn src dst b r"
  by (simp add: transfers_def)

lemma etp_update_idle: "activeSessions w = [] \<Longrightarrow> etp_update w = Some w"
  by (simp add: etp_update_def)

lemma round_granted:
  assumes p: "etp_pair data pgn src dst a s b r net" and k: "k < packet_count (length data)" "sq < 256" "off + sq = k"
    and d: "length d = length data" "take (7 * k) d = take (7 * k) data"
  shows "\<exists>m A B. m < 2 * (packet_count (length data) - k) + 1 \<and> etp_round net
      (etp_with a (etp_at s EtpWaitForClearToSend ack off sq cnt lim) [],
       etp_with b (etp_at (r\<lparr>session_data := d\<rparr>) EtpWaitForDataPacketOffset k off' sq' cnt' (numberOfPacketsPerDPOMessage (configuration b)))
        [grant_frame pgn src dst k (min (packet_count (length data) - k) (unat (numberOfPacketsPerDPOMessage (configuration b))))])
      = Some (A, B) \<and> etp_joint data pgn src dst a s b r m A B"
proof -
  let ?N = "packet_count (length data)" and ?L = "numberOfPacketsPerDPOMessage (configuration b)"
  let ?P = "numberOfPacketsPerDPOMessage (configuration a)"
  define n where "n = min (?N - k) (unat ?L)"
  define c where "c = min (min (?N - k) n) (unat ?P)"
  have ta: "transfers data pgn src dst a s" and tb: "transfers data pgn src dst b (r\<lparr>session_data := d\<rparr>)"
    and la: "listens (cfs a) dst (Some src)" and lb: "listens (cfs b) src (Some dst)"
    and pos: "0 < unat ?L" "0 < unat ?P"
    using p by (simp_all add: etp_pair_def transfers_data word_less_nat_alt)
  have n: "0 < n" "n < 256" using pos k(1) unat_u8_bound [of ?L] unfolding n_def by linarith+
  have un: "unat (of_nat n :: u8) = n" by (rule unat_of_nat_u8) (rule n)
  have c: "0 < c" "c \<le> unat ?L" "k + c \<le> ?N" "c < 256" using n k(1) pos unfolding c_def n_def by linarith+
  have m1: "carried (grant_frame pgn src dst k n) (net (grant_frame pgn src dst k n))"
    unfolding protocol_frames by (rule pair_carried [OF p])
  have m2: "carried (announce_frame pgn src dst k c) (net (announce_frame pgn src dst k c))"
    unfolding protocol_frames by (rule pair_carried [OF p])
  note upd = offset_sent [OF ta k(2,3,1), of k cnt "of_nat n" "[]", unfolded un, folded c_def]
  have B0: "etp_with b t gs\<lparr>tx_log := []\<rparr> = etp_with b t []" for t gs by simp
  have "etp_round net
      (etp_with a (etp_at s EtpWaitForClearToSend ack off sq cnt lim) [],
       etp_with b (etp_at (r\<lparr>session_data := d\<rparr>) EtpWaitForDataPacketOffset k off' sq' cnt' ?L) [grant_frame pgn src dst k n])
    = Some (etp_with a (etp_at s EtpSendDataTransferPackets k k 0 c (of_nat n)) [],
        etp_with b (etp_at (r\<lparr>session_data := d\<rparr>) EtpWaitForDataTransferPacket k k 0 c ?L) [])"
    using grant_received [OF ta la m1 k(1) n] upd
      offset_received [OF tb lb m2 c(1,2) k(1)] etp_update_waiting [OF tb, of EtpWaitForDataTransferPacket]
    by (simp only: etp_round.simps etp_feed_simps etp_with_fields bind.bind_lunit append_Nil insert_iff simp_thms)
  moreover have "etp_joint data pgn src dst a s b r (2 * (?N - k) - 0)
      (etp_with a (etp_at s EtpSendDataTransferPackets k k 0 c (of_nat n)) [])
      (etp_with b (etp_at (r\<lparr>session_data := d\<rparr>) EtpWaitForDataTransferPacket k k 0 c ?L) [])"
    using c d by (intro etp_joint.sending) simp_all
  moreover have "2 * (?N - k) - 0 < 2 * (?N - k) + 1" by simp
  ultimately show ?thesis unfolding n_def [symmetric] by blast
qed

lemma round_sending:
  assumes p: "etp_pair data pgn src dst a s b r net" and j: "j < c" "c < 256" "k + c \<le> packet_count (length data)"
    and d: "length d = length data" "take (7 * (k + j)) d = take (7 * (k + j)) data"
  shows "\<exists>m A B. m < 2 * (packet_count (length data) - k) - j \<and> etp_round net
      (etp_with a (etp_at s EtpSendDataTransferPackets k k j c lim) [],
       etp_with b (etp_at (r\<lparr>session_data := d\<rparr>) EtpWaitForDataTransferPacket k k j c (numberOfPacketsPerDPOMessage (configuration b))) [])
      = Some (A, B) \<and> etp_joint data pgn src dst a s b r m A B"
proof -
  let ?N = "packet_count (length data)" and ?L = "numberOfPacketsPerDPOMessage (configuration b)"
  let ?A = "etp_with a (etp_at s EtpSendDataTransferPackets k k j c lim) []"
  let ?r = "r\<lparr>session_data := d\<rparr>"
  let ?B = "etp_with b (etp_at ?r EtpWaitForDataTransferPacket k k j c ?L) []"
  define F where "F = min (c - j) (unat (networkManagerMaxFramesToSendPerUpdate (configuration a)))"
  have ta: "transfers data pgn src dst a s" "session_data s = data" and tb: "\<And>d. transfers data pgn src dst b (r\<lparr>session_data := d\<rparr>)"
    and lb: "listens (cfs b) src (Some dst)" and rb: "sessionCompleteCallback ?r = None"
    and pos: "0 < unat (networkManagerMaxFramesToSendPerUpdate (configuration a))"
    using p by (simp_all add: etp_pair_def transfers_data word_less_nat_alt)
  have F: "0 < F" "j + F \<le> c" using pos j unfolding F_def by linarith+
  define st where "st = (if k + j + F = ?N then EtpWaitForEndOfMessageAcknowledge
                   else if j + F = c then EtpWaitForClearToSend else EtpSendDataTransferPackets)"
  let ?A' = "etp_with a (etp_at s st k k (j + F) c lim) []"
  have upd: "etp_update ?A = Some (etp_with a (etp_at s st k k (j + F) c lim) (map (etp_packet_frame data src dst k) [j..<j + F]))"
    using packets_sent [OF ta j F_def, of lim "[]"] unfolding st_def [symmetric] by simp
  have "window_state data pgn src dst b ?r [] k j c ?L ?B" by (rule window_start) (use d j in simp_all)
  then obtain B1 where feed: "etp_feed net (map (etp_packet_frame data src dst k) [j..<j + F]) ?B = Some B1"
    and B1: "window_state data pgn src dst b ?r [] k (j + F) c ?L B1"
    using window_packets [OF tb lb rb j(2,3) pair_carried(2) [OF p] F(2)] by blast
  have round: "etp_round net (?A, ?B) = Some (?A', B1)" if "etp_update B1 = Some B1"
    using upd feed that
    by (simp only: etp_round.simps etp_feed_simps etp_with_fields bind.bind_lunit)
  consider "k + j + F = ?N" | "k + j + F \<noteq> ?N" "j + F = c" | "k + j + F \<noteq> ?N" "j + F \<noteq> c" by blast
  then show ?thesis
  proof cases
    case 1
    then have fin: "etp_finished data pgn src dst b [] B1" using B1 by (simp add: window_state_def add.assoc)
    then have "etp_update B1 = Some B1" by (auto simp: etp_finished_def intro!: etp_update_idle)
    moreover have "etp_joint data pgn src dst a s b r 1 ?A' B1" using etp_joint.acknowledged [OF fin] 1 by (simp add: st_def)
    moreover have "1 < 2 * (?N - k) - j" using j by simp
    ultimately show ?thesis using round by blast
  next
    case 2
    then obtain d' where d': "length d' = length data" "take (7 * (k + c)) d' = take (7 * (k + c)) data"
      "B1 = etp_with b (etp_at (r\<lparr>session_data := d'\<rparr>) EtpWaitForDataPacketOffset (k + c) k c c ?L)
         [grant_frame pgn src dst (k + c) (min (?N - (k + c)) (unat ?L))]"
      using B1 by (auto simp: window_state_def)
    have "etp_update B1 = Some B1" unfolding d'(3) by (rule etp_update_waiting [OF tb]) simp
    moreover have "etp_joint data pgn src dst a s b r (2 * (?N - (k + c)) + 1) ?A' B1"
      unfolding d'(3) st_def using d'(1,2) 2 j by (simp only: if_True if_False simp_thms) (rule etp_joint.granted; simp)
    moreover have "2 * (?N - (k + c)) + 1 < 2 * (?N - k) - j" using j by linarith
    ultimately show ?thesis using round by blast
  next
    case 3
    then have less: "j + F < c" using F(2) by simp
    obtain d' where d': "length d' = length data" "take (7 * (k + (j + F))) d' = take (7 * (k + (j + F))) data"
      "B1 = etp_with b (etp_at (r\<lparr>session_data := d'\<rparr>) EtpWaitForDataTransferPacket k k (j + F) c ?L) []"
      using B1 3 less by (auto simp: window_state_def add.assoc)
    have "etp_update B1 = Some B1" unfolding d'(3) by (rule etp_update_waiting [OF tb]) simp
    moreover have "etp_joint data pgn src dst a s b r (2 * (?N - k) - (j + F)) ?A' B1"
      unfolding d'(3) st_def using 3 etp_joint.sending [OF less j(2,3) d'(1,2)] by simp
    moreover have "2 * (?N - k) - (j + F) < 2 * (?N - k) - j" using j F less by linarith
    ultimately show ?thesis using round by blast
  qed
qed

lemma round_acknowledged:
  assumes p: "etp_pair data pgn src dst a s b r net" and fin: "etp_finished data pgn src dst b [] B"
  shows "\<exists>A' B'. etp_round net (etp_with a (etp_at s EtpWaitForEndOfMessageAcknowledge ack off sq cnt lim) [], B) = Some (A', B')
    \<and> etp_joint data pgn src dst a s b r 0 A' B'"
proof -
  let ?f = "etp_final_frame pgn (length data) src dst"
  let ?A = "complete True s (a\<lparr>activeSessions := [], tx_log := []\<rparr>)"
  obtain stamp where B: "B = deliver (make_message Receive
             (make_identifier Extended pgn PriorityDefault6 (address (cfs b dst)) (address (cfs b src)))
             data (Some src) (Some dst) 0 stamp) (b\<lparr>activeSessions := [], tx_log := [?f]\<rparr>)"
    using fin by (auto simp: etp_finished_def)
  let ?B = "deliver (make_message Receive
             (make_identifier Extended pgn PriorityDefault6 (address (cfs b dst)) (address (cfs b src)))
             data (Some src) (Some dst) 0 stamp) (b\<lparr>activeSessions := [], tx_log := []\<rparr>)"
  have ta: "transfers data pgn src dst a s" and la: "listens (cfs a) dst (Some src)" using p by (simp_all add: etp_pair_def)
  have "carried ?f (net ?f)" unfolding protocol_frames by (rule pair_carried [OF p])
  note got = final_received [OF ta la this, of ack off sq cnt lim "[]"]
  have log: "tx_log B = [?f]" "B\<lparr>tx_log := []\<rparr> = ?B" by (simp_all add: B deliver_def)
  have "tx_log ?A = []" "?A\<lparr>tx_log := []\<rparr> = ?A" "etp_update ?A = Some ?A" "etp_update ?B = Some ?B"
    by (simp_all add: etp_update_idle complete_def split: option.split)
  then have "etp_round net (etp_with a (etp_at s EtpWaitForEndOfMessageAcknowledge ack off sq cnt lim) [], B) = Some (?A, ?B)"
    using got by (simp only: etp_round.simps etp_feed_simps log bind.bind_lunit)
  then show ?thesis using etp_joint.finished by blast
qed

lemma joint_over:
  assumes "etp_joint data pgn src dst a s b r 0 A B"
  shows "A = complete True s (a\<lparr>activeSessions := [], tx_log := []\<rparr>)
    \<and> (\<exists>stamp. B = deliver (make_message Receive
             (make_identifier Extended pgn PriorityDefault6 (address (cfs b dst)) (address (cfs b src)))
             data (Some src) (Some dst) 0 stamp) (b\<lparr>activeSessions := [], tx_log := []\<rparr>))"
  using assms
proof cases
  case (sending j c k d lim)
  then show ?thesis by simp
next
  case (finished stamp)
  then show ?thesis by blast
qed simp_all

lemma round_finished:
  assumes "etp_joint data pgn src dst a s b r 0 A B"
  shows "etp_round net (A, B) = Some (A, B)"
proof -
  have "tx_log A = []" "A\<lparr>tx_log := []\<rparr> = A" "activeSessions A = []" "tx_log B = []" "B\<lparr>tx_log := []\<rparr> = B" "activeSessions B = []"
    using joint_over [OF assms] by (auto simp: complete_def deliver_def split: option.split)
  then show ?thesis by (simp add: etp_update_idle)
qed

lemma etp_joint_round:
  assumes "etp_pair data pgn src dst a s b r net" "etp_joint data pgn src dst a s b r n A B"
  shows "\<exists>m A' B'. m \<le> n - 1 \<and> etp_round net (A, B) = Some (A', B') \<and> etp_joint data pgn src dst a s b r m A' B'"
  using assms(2)
proof cases
  case (granted k sq off d ack cnt lim off' sq' cnt')
  obtain m A' B' where "m < n" "etp_round net (A, B) = Some (A', B')" "etp_joint data pgn src dst a s b r m A' B'"
    using round_granted [OF assms(1) granted(4-8)] unfolding granted(1-3) by blast
  moreover from this(1) have "m \<le> n - 1" by simp
  ultimately show ?thesis by blast
next
  case (sending j c k d lim)
  obtain m A' B' where "m < n" "etp_round net (A, B) = Some (A', B')" "etp_joint data pgn src dst a s b r m A' B'"
    using round_sending [OF assms(1) sending(4-8)] unfolding sending(1-3) by blast
  moreover from this(1) have "m \<le> n - 1" by simp
  ultimately show ?thesis by blast
next
  case (acknowledged ack off sq cnt lim)
  then show ?thesis using round_acknowledged [OF assms(1) acknowledged(3)] by (metis diff_self_eq_0 le_refl)
next
  case (finished stamp)
  then show ?thesis using round_finished [of data pgn src dst a s b r A B] assms(2) by (metis diff_0_eq_0 le_refl)
qed

lemma etp_joint_rounds:
  assumes "etp_pair data pgn src dst a s b r net"
  shows "etp_joint data pgn src dst a s b r m A B \<Longrightarrow> m \<le> n
    \<Longrightarrow> \<exists>A' B'. etp_rounds net n (A, B) = Some (A', B') \<and> etp_joint data pgn src dst a s b r 0 A' B'"
proof (induction n arbitrary: m A B)
  case (Suc n)
  obtain m' A' B' where step: "m' \<le> m - 1" "etp_round net (A, B) = Some (A', B')" "etp_joint data pgn src dst a s b r m' A' B'"
    using etp_joint_round [OF assms Suc.prems(1)] by blast
  then have "m' \<le> n" using Suc.prems(2) by simp
  then show ?case using Suc.IH [OF step(3)] step(2) by simp
qed auto

definition etp_sender :: "nat \<Rightarrow> u8 list \<Rightarrow> u32 \<Rightarrow> cf \<Rightarrow> cf \<Rightarrow> nat option \<Rightarrow> u32 \<Rightarrow> etp_session" where
  "etp_sender i data pgn src dst cb now =
     make_etp_session i DirTransmit data pgn (of_nat (length data)) src dst cb\<lparr>timestamp_ms := now\<rparr>"

lemma transmission_started:
  assumes idle: "activeSessions a = []" "tx_log a = []" "tx_replies a = []"
    and data: "1785 < length data" "length data \<le> 117440505"
    and valid: "cf_address_valid (cfs a src)" "cf_address_valid (cfs a dst)"
  shows "etp_protocol_transmit_message pgn (Some data) (Some src) (Some dst) cb a
    = Some (True, etp_with (a\<lparr>next_sid := Suc (next_sid a)\<rparr>)
        (etp_at (etp_sender (next_sid a) data pgn src dst cb (clock a)) EtpWaitForClearToSend 0 0 0 0 0xFF)
        [etp_request_frame pgn (length data) src dst])"
proof -
  let ?a = "a\<lparr>next_sid := Suc (next_sid a)\<rparr>"
  let ?s = "etp_sender (next_sid a) data pgn src dst cb (clock a)"
  have new: "etp_set_state EtpSendRequestToSend (clock a)
      (make_etp_session (next_sid a) DirTransmit data pgn (of_nat (length data)) src dst cb)
    = etp_at ?s EtpSendRequestToSend 0 0 0 0 0xFF"
    by (simp add: etp_setter_defs make_etp_session_def etp_sender_def etp_at_def)
  have push: "push_active s ?a = etp_with ?a s []" for s
    using idle by (cases a) (simp add: push_active_def etp_with_def)
  have s: "timestamp_ms ?s = clock a" "sid (etp_at ?s st ack off sq cnt lim) = sid ?s"
    "parameterGroupNumber ?s = pgn" "session_source ?s = src" "session_destination ?s = Some dst"
    "totalMessageSize ?s = of_nat (length data)" for st ack off sq cnt lim
    by (simp_all add: etp_sender_def make_etp_session_def)
  have "etp_send_request_to_send (etp_at ?s EtpSendRequestToSend 0 0 0 0 0xFF) (etp_with ?a (etp_at ?s EtpSendRequestToSend 0 0 0 0 0xFF) [])
    = (True, etp_with ?a (etp_at ?s EtpSendRequestToSend 0 0 0 0 0xFF) [etp_request_frame pgn (length data) src dst])"
    using idle by (simp add: etp_send_request_to_send_def s etp_request_frame_def size_bytes_le pgn_bytes_le)
  then have "etp_update_state_machine (etp_at ?s EtpSendRequestToSend 0 0 0 0 0xFF) (etp_with ?a (etp_at ?s EtpSendRequestToSend 0 0 0 0 0xFF) [])
    = Some (etp_with ?a (etp_at ?s EtpWaitForClearToSend 0 0 0 0 0xFF) [etp_request_frame pgn (length data) src dst])"
    by (simp add: etp_update_state_machine_def s(1))
  then show ?thesis
    using data valid idle(1)
    by (simp add: etp_protocol_transmit_message_def has_session_def new_sid_def new push)
qed

text \<open>
  C7: a message of 1786 to 117440505 bytes is transferred: when an idle manager is given the
  message for a peer, and the two managers exchange their frames in rounds (each is given what the
  other has sent, in order and without loss, and updates), then after at most two rounds per packet and two more
  the peer has delivered one message with exactly these bytes, the parameter group, the source and
  the destination, the sender's callback has been told of the success, and both managers have forgotten
  their sessions. This holds for any positive limits of packets per window on both sides and
  of frames per update, and for any way \<open>net\<close> in which the network makes messages of frames that
  keeps their parameter group, bytes and control functions.
\<close>

theorem etp_message_transferred:
  assumes idle: "activeSessions a = []" "activeSessions b = []" "tx_log a = []" "tx_log b = []"
      "tx_replies a = []" "tx_replies b = []" "\<not> sessions_full b"
    and msg: "1785 < length data" "length data \<le> 117440505" "unat pgn < 2 ^ 24"
    and ends: "listens (cfs a) dst (Some src)" "listens (cfs b) src (Some dst)"
    and limits: "0 < numberOfPacketsPerDPOMessage (configuration a)" "0 < numberOfPacketsPerDPOMessage (configuration b)"
      "0 < networkManagerMaxFramesToSendPerUpdate (configuration a)"
    and net: "\<forall>f. f_pgn f \<in> {ExtendedTransportProtocolConnectionManagement, ExtendedTransportProtocolDataTransfer}
          \<longrightarrow> f_priority f = PriorityLowest7 \<longrightarrow> carried f (net f)"
  shows "\<exists>a0 a' b' stamp. etp_protocol_transmit_message pgn (Some data) (Some src) (Some dst) cb a = Some (True, a0)
    \<and> etp_rounds net (2 * packet_count (length data) + 2) (a0, b) = Some (a', b')
    \<and> activeSessions a' = [] \<and> activeSessions b' = []
    \<and> delivered b' = delivered b @ [make_message Receive
         (make_identifier Extended pgn PriorityDefault6 (address (cfs b dst)) (address (cfs b src)))
         data (Some src) (Some dst) 0 stamp]
    \<and> completions a' = completions a @ (case cb of None \<Rightarrow> [] | Some f \<Rightarrow>
        [\<lparr>c_callback = f, c_pgn = pgn, c_length = of_nat (length data), c_source = src, c_destination = Some dst, c_success = True\<rparr>])"
proof -
  let ?a = "a\<lparr>next_sid := Suc (next_sid a)\<rparr>" and ?b = "b\<lparr>next_sid := Suc (next_sid b)\<rparr>"
  let ?s = "etp_sender (next_sid a) data pgn src dst cb (clock a)" and ?r = "etp_receiver (next_sid b) data pgn src dst (clock b)"
  let ?L = "numberOfPacketsPerDPOMessage (configuration b)" and ?N = "packet_count (length data)"
  let ?R = "etp_request_frame pgn (length data) src dst"
  have va: "cf_address_valid (cfs a src)" "cf_address_valid (cfs a dst)"
    and vb: "cf_address_valid (cfs b src)" "cf_address_valid (cfs b dst)" using ends by (simp_all add: listens_def)
  have ta: "transfers data pgn src dst ?a ?s" and sd: "session_data ?s = data"
    using idle msg va by (auto simp: transfers_def etp_sender_def make_etp_session_def)
  have tb: "transfers data pgn src dst ?b ?r" "transfers data pgn src dst b ?r"
    and rb: "sessionCompleteCallback ?r = None" "length (session_data ?r) = length data" "?r\<lparr>session_data := session_data ?r\<rparr> = ?r"
    using idle msg vb by (auto simp: transfers_def etp_receiver_def make_etp_session_def)
  have p: "etp_pair data pgn src dst ?a ?s ?b ?r net" using ta sd tb rb(1) ends limits net by (simp add: etp_pair_def)
  let ?init = "etp_with ?a (etp_at ?s EtpWaitForClearToSend 0 0 0 0 0xFF) [?R]"
  have start: "etp_protocol_transmit_message pgn (Some data) (Some src) (Some dst) cb a = Some (True, ?init)"
    by (rule transmission_started [OF idle(1,3,5) msg(1,2) va])
  have "carried ?R (net ?R)" unfolding protocol_frames by (rule pair_carried [OF p])
  note got = request_received [OF idle(2,7) tb(2) ends(2) this, unfolded idle(4) append_Nil]
  have b: "b\<lparr>tx_log := []\<rparr> = b" using idle(4) by (cases b) simp
  define A B where "A = etp_with ?a (etp_at ?s EtpWaitForClearToSend 0 0 0 0 0xFF) []"
    and "B = etp_with ?b (etp_at ?r EtpWaitForDataPacketOffset 0 0 0 0 ?L) [grant_frame pgn src dst 0 (min ?N (unat ?L))]"
  have "etp_round net (?init, b) = Some (A, B)"
    using got etp_update_waiting [OF ta, of EtpWaitForClearToSend 0 0 0 0 "0xFF" "[?R]"]
      etp_update_waiting [OF tb(1), of EtpWaitForDataPacketOffset 0 0 0 0 ?L]
    by (simp add: A_def B_def idle(4) b)
  moreover have "etp_joint data pgn src dst ?a ?s ?b ?r (2 * (?N - 0) + 1) A B"
    using etp_joint.granted [of 0 data 0 0 "session_data ?r" pgn src dst ?a ?s ?b ?r 0 0 "0xFF" 0 0 0] msg rb
    unfolding A_def B_def rb(3) by (simp add: packet_count_def)
  then obtain A' B' where run: "etp_rounds net (2 * ?N + 1) (A, B) = Some (A', B')"
    and fin: "etp_joint data pgn src dst ?a ?s ?b ?r 0 A' B'"
    using etp_joint_rounds [OF p, of "2 * (?N - 0) + 1" A B "2 * ?N + 1"] by auto
  ultimately have rounds: "etp_rounds net (2 * ?N + 2) (?init, b) = Some (A', B')" by simp
  from joint_over [OF fin] show ?thesis
    using start rounds
    by (auto simp: deliver_def complete_def etp_sender_def make_etp_session_def split: option.split)
qed

text \<open>Witness of C7: 1800 bytes with the default configuration.\<close>

theorem etp_message_transferred_witness:
  "\<exists>a0 a' b' stamp. etp_protocol_transmit_message 0xEF00 (Some (replicate 1800 0x2A)) (Some 7) (Some 3) (Some 1) (etp_boot demo_store) = Some (True, a0)
    \<and> etp_rounds as_message 518 (a0, etp_boot demo_store) = Some (a', b')
    \<and> map msg_data (delivered b') = [replicate 1800 0x2A] \<and> map c_success (completions a') = [True]"
proof -
  let ?w = "etp_boot demo_store" and ?data = "replicate 1800 0x2A :: u8 list"
  have w: "activeSessions ?w = []" "tx_log ?w = []" "tx_replies ?w = []" "\<not> sessions_full ?w" "delivered ?w = []" "completions ?w = []"
    "listens (cfs ?w) 3 (Some 7)" "listens (cfs ?w) 7 (Some 3)" "0 < numberOfPacketsPerDPOMessage (configuration ?w)"
    "0 < networkManagerMaxFramesToSendPerUpdate (configuration ?w)"
    by (simp_all add: etp_boot_def sessions_full_def default_configuration_def listens_def demo_store_def cf_address_valid_def)
  have n: "2 * packet_count (length ?data) + 2 = 518" by (simp add: packet_count_def)
  have l: "1785 < length ?data" "length ?data \<le> 117440505" "unat (0xEF00 :: u32) < 2 ^ 24" by simp_all
  have net: "\<forall>f. f_pgn f \<in> {ExtendedTransportProtocolConnectionManagement, ExtendedTransportProtocolDataTransfer}
          \<longrightarrow> f_priority f = PriorityLowest7 \<longrightarrow> carried f (as_message f)"
    by (auto intro: carried_as_message)
  show ?thesis
    using etp_message_transferred [OF w(1) w(1) w(2) w(2) w(3) w(3) w(4) l w(7,8) w(9) w(9) w(10) net, of "Some 1", unfolded n w(5,6)]
    by (fastforce simp: make_message_def)
qed

end
