(* ===== verification/Fast_Packet.thy ===== *)
theory Fast_Packet
  imports Can_Network "HOL-Library.Monad_Syntax"
begin

text \<open>
  The NMEA 2000 fast packet protocol, \<open>src/isobus/src/nmea2000_fast_packet_protocol.cpp\<close>: sessions with
  their 8 bit counters, registered callbacks, the history of sequence numbers, sending, the periodic
  update and the reassembly of received frames. \<open>None\<close> is a read or write outside of a buffer, an
  exception, or a cast to the wrong class. The data of a session is bytes in a vector or a chunk callback,
  which is the byte it supplies at each position; calls of the registered callbacks are recorded and taken not to call
  back. The lemmas show that every operation keeps the session table and is defined, but for that cast.
\<close>

section \<open>Sessions\<close>

abbreviation (input) FP_MIN_PARAMETER_GROUP_NUMBER :: u32 where "FP_MIN_PARAMETER_GROUP_NUMBER \<equiv> 0x1F000"
abbreviation (input) FP_MAX_PARAMETER_GROUP_NUMBER :: u32 where "FP_MAX_PARAMETER_GROUP_NUMBER \<equiv> 0x1FFFF"
abbreviation (input) FP_TIMEOUT_MS :: u32 where "FP_TIMEOUT_MS \<equiv> 750"
abbreviation (input) FP_MAX_PROTOCOL_MESSAGE_LENGTH :: nat where "FP_MAX_PROTOCOL_MESSAGE_LENGTH \<equiv> 223"
abbreviation (input) FRAME_COUNTER_BIT_MASK :: u8 where "FRAME_COUNTER_BIT_MASK \<equiv> 0x1F"
abbreviation (input) SEQUENCE_NUMBER_BIT_MASK :: u8 where "SEQUENCE_NUMBER_BIT_MASK \<equiv> 0x07"
abbreviation (input) PROTOCOL_BYTES_PER_FRAME :: u8 where "PROTOCOL_BYTES_PER_FRAME \<equiv> 7"

record fp_session = session_base +
  numberOfBytesTransferred :: u8
  fp_sequenceNumber :: u8
  fp_priority :: CANPriority
  fp_vector :: bool \<comment> \<open>the message data is a \<open>CANMessageDataVector\<close>\<close>

text \<open>The data of a message to send: a copy of the bytes given, or a chunk callback that is asked for the bytes when the
  frames are built. A chunk callback is given by the byte it supplies at each position; \<open>get_byte\<close> of a
  \<open>CANMessageDataCallback\<close> then returns these bytes (\<open>callback_refines_provider\<close> of \<open>Can_Message\<close>).\<close>

datatype fp_data = DataVector "u8 list" | DataCallback nat "nat \<Rightarrow> u8"

fun fp_bytes :: "fp_data \<Rightarrow> u8 list" where
  "fp_bytes (DataVector bytes) = bytes"
| "fp_bytes (DataCallback n byte) = map byte [0..<n]"

fun is_vector :: "fp_data \<Rightarrow> bool" where
  "is_vector (DataVector bytes) = True"
| "is_vector (DataCallback n byte) = False"

definition calculate_number_of_frames :: "u8 \<Rightarrow> u8" where
  "calculate_number_of_frames messageLength =
     (let (l, n) = (if messageLength > 6 then (messageLength - 6, 1) else (messageLength, 0));
          n1 = n + l div PROTOCOL_BYTES_PER_FRAME
      in if l mod PROTOCOL_BYTES_PER_FRAME \<noteq> 0 then n1 + 1 else n1)"

definition fp_get_message_length :: "fp_session \<Rightarrow> u8" where
  "fp_get_message_length s = ucast (totalMessageSize s)"

definition fp_is_broadcast :: "fp_session \<Rightarrow> bool" where
  "fp_is_broadcast s \<longleftrightarrow> session_destination s = None"

definition get_total_bytes_transferred :: "fp_session \<Rightarrow> u32" where
  "get_total_bytes_transferred s = ucast (numberOfBytesTransferred s)"

definition get_last_packet_number :: "fp_session \<Rightarrow> u8" where
  "get_last_packet_number s =
     (let numberOfFrames = calculate_number_of_frames (ucast (get_total_bytes_transferred s))
      in if numberOfFrames > 0 then numberOfFrames else 0)"

definition get_total_number_of_packets :: "fp_session \<Rightarrow> u8" where
  "get_total_number_of_packets s = calculate_number_of_frames (fp_get_message_length s)"

definition get_number_of_remaining_packets :: "fp_session \<Rightarrow> u8" where
  "get_number_of_remaining_packets s = get_total_number_of_packets s - get_last_packet_number s"

definition add_number_of_bytes_transferred :: "u8 \<Rightarrow> u32 \<Rightarrow> fp_session \<Rightarrow> fp_session" where
  "add_number_of_bytes_transferred bytes now s =
     update_timestamp now (s\<lparr>numberOfBytesTransferred := numberOfBytesTransferred s + bytes\<rparr>)"

section \<open>The protocol object\<close>

text \<open>A registered callback; its function and parent pointer are its identity.\<close>

record ParameterGroupNumberCallbackData =
  cb_parameterGroupNumber :: u32
  cb_callback :: nat
  cb_internalControlFunction :: "cf option"

record FastPacketHistory =
  isoName :: NAME
  h_parameterGroupNumber :: u32
  h_sequenceNumber :: u8

text \<open>The calls of the registered callbacks are recorded in \<open>fp_calls\<close>.\<close>

record fast_packet =
  fp_manager :: "fp_session manager"
  parameterGroupNumberCallbacks :: "ParameterGroupNumberCallbackData list"
  allowAnyControlFunction :: bool
  sessionHistory :: "FastPacketHistory list"
  fp_calls :: "(nat \<times> CANMessage) list"

abbreviation fp_sessions :: "fast_packet \<Rightarrow> fp_session list" where
  "fp_sessions w \<equiv> activeSessions (fp_manager w)"

definition on_manager :: "(fp_session manager \<Rightarrow> fp_session manager) \<Rightarrow> fast_packet \<Rightarrow> fast_packet" where
  "on_manager f w = w\<lparr>fp_manager := f (fp_manager w)\<rparr>"

definition register_multipacket_message_callback :: "u32 \<Rightarrow> nat \<Rightarrow> cf option \<Rightarrow> fast_packet \<Rightarrow> fast_packet" where
  "register_multipacket_message_callback pgn callback icf w =
     w\<lparr>parameterGroupNumberCallbacks := parameterGroupNumberCallbacks w @
        [\<lparr>cb_parameterGroupNumber = pgn, cb_callback = callback, cb_internalControlFunction = icf\<rparr>]\<rparr>"

definition remove_multipacket_message_callback :: "u32 \<Rightarrow> nat \<Rightarrow> cf option \<Rightarrow> fast_packet \<Rightarrow> fast_packet" where
  "remove_multipacket_message_callback pgn callback icf w =
     w\<lparr>parameterGroupNumberCallbacks := remove1
        \<lparr>cb_parameterGroupNumber = pgn, cb_callback = callback, cb_internalControlFunction = icf\<rparr> (parameterGroupNumberCallbacks w)\<rparr>"

definition allow_any_control_function :: "bool \<Rightarrow> fast_packet \<Rightarrow> fast_packet" where
  "allow_any_control_function b w = w\<lparr>allowAnyControlFunction := b\<rparr>"

definition fp_matches :: "u32 \<Rightarrow> cf \<Rightarrow> cf option \<Rightarrow> fp_session \<Rightarrow> bool" where
  "fp_matches pgn src dst s \<longleftrightarrow> session_matches src dst s \<and> parameterGroupNumber s = pgn"

definition fp_has_session :: "u32 \<Rightarrow> cf \<Rightarrow> cf option \<Rightarrow> fast_packet \<Rightarrow> bool" where
  "fp_has_session pgn src dst w = list_ex (fp_matches pgn src dst) (fp_sessions w)"

definition fp_get_session :: "u32 \<Rightarrow> cf \<Rightarrow> cf option \<Rightarrow> fast_packet \<Rightarrow> fp_session option" where
  "fp_get_session pgn src dst w = find (fp_matches pgn src dst) (fp_sessions w)"

text \<open>The history of sequence numbers, by the NAME of the source and the parameter group.\<close>

definition history_matches :: "NAME \<Rightarrow> u32 \<Rightarrow> FastPacketHistory \<Rightarrow> bool" where
  "history_matches name pgn h \<longleftrightarrow> isoName h = name \<and> h_parameterGroupNumber h = pgn"

fun update_history :: "NAME \<Rightarrow> u32 \<Rightarrow> u8 \<Rightarrow> FastPacketHistory list \<Rightarrow> FastPacketHistory list" where
  "update_history name pgn seq [] = [\<lparr>isoName = name, h_parameterGroupNumber = pgn, h_sequenceNumber = seq\<rparr>]"
| "update_history name pgn seq (h # hs) =
     (if history_matches name pgn h then h\<lparr>h_sequenceNumber := seq\<rparr> # hs else h # update_history name pgn seq hs)"

definition add_session_history :: "fp_session \<Rightarrow> fast_packet \<Rightarrow> fast_packet" where
  "add_session_history s w =
     w\<lparr>sessionHistory := update_history (controlFunctionNAME (cfs (fp_manager w) (session_source s))) (parameterGroupNumber s)
        (fp_sequenceNumber s) (sessionHistory w)\<rparr>"

definition get_new_sequence_number :: "NAME \<Rightarrow> u32 \<Rightarrow> fast_packet \<Rightarrow> u8" where
  "get_new_sequence_number name pgn w =
     (case find (history_matches name pgn) (sessionHistory w) of None \<Rightarrow> 0 | Some h \<Rightarrow> h_sequenceNumber h + 1)"

definition fp_close_session :: "fp_session \<Rightarrow> bool \<Rightarrow> fast_packet \<Rightarrow> fast_packet" where
  "fp_close_session s successful w = add_session_history s (on_manager (close_session s successful) w)"

definition fp_new_session ::
    "Direction \<Rightarrow> fp_data \<Rightarrow> u32 \<Rightarrow> u8 \<Rightarrow> CANPriority \<Rightarrow> cf \<Rightarrow> cf option \<Rightarrow> nat option \<Rightarrow> fast_packet \<Rightarrow> fp_session \<times> fast_packet" where
  "fp_new_session dir data pgn seq priority src dst callback w =
     (let (i, v) = new_sid (fp_manager w)
      in (\<lparr>sid = i, direction = dir, parameterGroupNumber = pgn, session_data = fp_bytes data, session_source = src,
           session_destination = dst, timestamp_ms = clock v, totalMessageSize = of_nat (length (fp_bytes data)),
           sessionCompleteCallback = callback, numberOfBytesTransferred = 0, fp_sequenceNumber = seq, fp_priority = priority,
           fp_vector = is_vector data\<rparr>,
          w\<lparr>fp_manager := v\<rparr>))"

section \<open>Sending\<close>

definition send_multipacket_message ::
    "u32 \<Rightarrow> fp_data option \<Rightarrow> cf option \<Rightarrow> cf option \<Rightarrow> CANPriority \<Rightarrow> nat option \<Rightarrow> fast_packet \<Rightarrow> bool \<times> fast_packet" where
  \<comment> \<open>\<open>None\<close>: neither data nor a chunk callback is given\<close>
  "send_multipacket_message pgn messageData source destination priority callback w =
     (case messageData of
        None \<Rightarrow> (False, w)
      | Some data \<Rightarrow>
          if length (fp_bytes data) \<le> 8 \<or> length (fp_bytes data) > FP_MAX_PROTOCOL_MESSAGE_LENGTH then (False, w)
          else (case source of
                  None \<Rightarrow> (False, w)
                | Some src \<Rightarrow>
                    if \<not> cf_address_valid (cfs (fp_manager w) src) \<or> fp_has_session pgn src destination w then (False, w)
                    else if pgn < FP_MIN_PARAMETER_GROUP_NUMBER \<or> pgn > FP_MAX_PARAMETER_GROUP_NUMBER then (False, w)
                    else if (case destination of None \<Rightarrow> False | Some d \<Rightarrow> \<not> cf_address_valid (cfs (fp_manager w) d))
                    then (False, w)
                    else
                      let seq = get_new_sequence_number (controlFunctionNAME (cfs (fp_manager w) src)) pgn w;
                          (s, w1) = fp_new_session DirTransmit data pgn seq priority src destination callback w
                      in (True, on_manager (push_active s) w1)))"

definition fp_frame_byte :: "fp_session \<Rightarrow> u8 \<Rightarrow> u8 option" where
  \<comment> \<open>\<open>j\<close> bytes after the ones that are transferred; past its end a vector throws, a chunk callback gives 0\<close>
  "fp_frame_byte s j =
     (let index = ucast (get_total_bytes_transferred s) + j :: u8
      in if index < fp_get_message_length s
         then (if unat index < length (session_data s) then Some (session_data s ! unat index)
               else if fp_vector s then None else Some 0)
         else Some 0xFF)"

definition fp_frame :: "fp_session \<Rightarrow> (u8 list \<times> u8) option" where
  \<comment> \<open>the buffer of the next frame and the number of bytes it carries\<close>
  "fp_frame s =
     (let header = get_last_packet_number s OR push_bit 5 (fp_sequenceNumber s);
          first = (0 = get_total_bytes_transferred s);
          bytesThisFrame = (if first then PROTOCOL_BYTES_PER_FRAME - 1 else PROTOCOL_BYTES_PER_FRAME)
      in do {
        bytes \<leftarrow> those (map (fp_frame_byte s) (map of_nat [0..<unat bytesThisFrame]));
        Some (header # (if first then [fp_get_message_length s] else []) @ bytes, bytesThisFrame)
      })"

function fp_send_loop :: "u8 \<Rightarrow> fp_session \<Rightarrow> fast_packet \<Rightarrow> (fp_session \<times> fast_packet) option" where
  "fp_send_loop i s w =
     (if i < get_number_of_remaining_packets s
      then do {
        (buffer, bytesThisFrame) \<leftarrow> fp_frame s;
        let (ok, v) = send_frame \<lparr>f_pgn = parameterGroupNumber s, f_data = buffer, f_source = session_source s,
                         f_destination = session_destination s, f_priority = fp_priority s\<rparr> (fp_manager w);
        let w1 = w\<lparr>fp_manager := v\<rparr>;
        if ok
        then
          let s1 = add_number_of_bytes_transferred bytesThisFrame (clock v) s
          in fp_send_loop (i + 1) s1 (on_manager (put_active s1) w1)
        else Some (s, if get_time_since_last_update (clock v) s > FP_TIMEOUT_MS then fp_close_session s False w1 else w1)
      }
      else Some (s, w))"
  by pat_completeness auto
termination
proof (relation "measure (\<lambda>(i, _). 256 - unat i)")
  fix i :: u8 and s assume "i < get_number_of_remaining_packets s"
  then have "Suc (unat i) \<le> unat (get_number_of_remaining_packets s)" by (simp add: word_less_nat_alt)
  also have "\<dots> < 256" by (rule unsigned_less [where ?'b = 8, simplified])
  finally have "unat i < 255" by linarith
  then have "unat (i + 1) = unat i + 1" by (simp add: unat_plus_simple word_le_nat_alt unat_word_ariths)
  then show "((i + 1, s', w'), (i, s, w)) \<in> measure (\<lambda>(i, _). 256 - unat i)" for s' w' w
    using \<open>unat i < 255\<close> by simp
qed simp

declare fp_send_loop.simps [simp del]

definition fp_update_session :: "fp_session \<Rightarrow> fast_packet \<Rightarrow> fast_packet option" where
  "fp_update_session s w =
     (if direction s = DirReceive
      then Some (if get_time_since_last_update (clock (fp_manager w)) s > FP_TIMEOUT_MS then fp_close_session s False w else w)
      else do {
        (s1, w1) \<leftarrow> fp_send_loop 0 s w;
        Some (if get_number_of_remaining_packets s1 = 0 then fp_close_session s1 True w1 else w1)
      })"

definition fp_update_at :: "nat \<Rightarrow> fast_packet \<Rightarrow> fast_packet option" where
  "fp_update_at i w =
     (if i < length (fp_sessions w)
      then
        let s = fp_sessions w ! i; store = cfs (fp_manager w);
            w1 = (if \<not> cf_address_valid (store (session_source s)) then fp_close_session s False w
                  else if (case session_destination s of None \<Rightarrow> False | Some d \<Rightarrow> \<not> cf_address_valid (store d))
                  then fp_close_session s False w else w)
        in fp_update_session s w1
      else None)"

fun fp_update_from :: "nat \<Rightarrow> fast_packet \<Rightarrow> fast_packet option" where
  "fp_update_from 0 w = Some w"
| "fp_update_from (Suc i) w = Option.bind (fp_update_at i w) (fp_update_from i)"

definition fp_update :: "fast_packet \<Rightarrow> fast_packet option" where
  "fp_update w = fp_update_from (length (fp_sessions w)) w"

section \<open>Receiving\<close>

definition callback_applies :: "CANMessage \<Rightarrow> ParameterGroupNumberCallbackData \<Rightarrow> bool" where
  "callback_applies m cb \<longleftrightarrow> cb_parameterGroupNumber cb = get_parameter_group_number (msg_identifier m)
     \<and> (cb_internalControlFunction cb = None \<or> cb_internalControlFunction cb = msg_destination m)"

definition fp_copy :: "nat \<Rightarrow> nat \<Rightarrow> CANMessage \<Rightarrow> fp_session \<Rightarrow> fp_session option" where
  \<comment> \<open>up to \<open>room\<close> bytes of the message, from \<open>first\<close>, behind the bytes that are there; a copy outside the
     buffers is undefined\<close>
  "fp_copy first room m s =
     (let here = unat (numberOfBytesTransferred s);
          bytes_to_copy = min room (unat (fp_get_message_length s) - here)
      in if here + bytes_to_copy \<le> length (session_data s) \<and> first + bytes_to_copy \<le> length (msg_data m)
         then Some (s\<lparr>session_data := take here (session_data s) @ take bytes_to_copy (drop first (msg_data m))
                        @ drop (here + bytes_to_copy) (session_data s),
                      numberOfBytesTransferred := numberOfBytesTransferred s + of_nat bytes_to_copy\<rparr>)
         else None)"

definition fp_dispatch :: "CANMessage \<Rightarrow> u8 list \<Rightarrow> fast_packet \<Rightarrow> fast_packet" where
  "fp_dispatch m bytes w =
     (let completedMessage = make_message Receive (msg_identifier m) bytes (msg_source m) (msg_destination m) (msg_port m) (CANMessage.timestamp_us m)
      in w\<lparr>fp_calls := fp_calls w @ map (\<lambda>cb. (cb_callback cb, completedMessage))
             (filter (callback_applies m) (parameterGroupNumberCallbacks w))\<rparr>)"

definition fp_continue :: "fp_session \<Rightarrow> CANMessage \<Rightarrow> fast_packet \<Rightarrow> fast_packet option" where
  \<comment> \<open>a frame with a counter other than zero for an active session; the data is cast to a vector, which is
     undefined when it is a chunk callback\<close>
  "fp_continue s m w =
     (if \<not> fp_vector s then None
      else if numberOfBytesTransferred s \<ge> fp_get_message_length s then Some (fp_close_session s False w)
      else do {
        s1 \<leftarrow> fp_copy 1 7 m s;
        let s2 = update_timestamp (clock (fp_manager w)) s1;
        let w1 = on_manager (put_active s2) w;
        Some (if numberOfBytesTransferred s2 \<ge> fp_get_message_length s2
              then fp_close_session s2 True (fp_dispatch m (session_data s2) w1) else w1)
      })"

definition fp_start :: "cf \<Rightarrow> CANMessage \<Rightarrow> fast_packet \<Rightarrow> fast_packet option" where
  \<comment> \<open>the first frame of a message\<close>
  "fp_start src m w = do {
     messageLength \<leftarrow> get_uint8_at 1 m;
     header \<leftarrow> get_uint8_at 0 m;
     if unat messageLength > FP_MAX_PROTOCOL_MESSAGE_LENGTH \<or> messageLength \<le> 8 then Some w
     else do {
       let (s, w1) = fp_new_session DirReceive (DataVector (replicate (unat messageLength) 0)) (get_parameter_group_number (msg_identifier m))
                       (header AND SEQUENCE_NUMBER_BIT_MASK) (get_priority (msg_identifier m)) src (msg_destination m) None w;
       s1 \<leftarrow> fp_copy 2 6 m s;
       Some (on_manager (push_active (update_timestamp (clock (fp_manager w)) s1)) w1)
     }
   }"

definition fp_process_message :: "CANMessage \<Rightarrow> fast_packet \<Rightarrow> fast_packet option" where
  "fp_process_message m w =
     (let store = cfs (fp_manager w); pgn = get_parameter_group_number (msg_identifier m)
      in case msg_source m of
           None \<Rightarrow> Some w
         | Some src \<Rightarrow>
             if get_data_length m \<noteq> 8 \<or> pgn < FP_MIN_PARAMETER_GROUP_NUMBER \<or> pgn > FP_MAX_PARAMETER_GROUP_NUMBER then Some w
             else if parameterGroupNumberCallbacks w = [] then Some w
             else if \<not> is_destination_our_device store m \<and> \<not> allowAnyControlFunction w \<and> \<not> is_broadcast store m then Some w
             else if \<not> list_ex (callback_applies m) (parameterGroupNumberCallbacks w) then Some w
             else do {
               header \<leftarrow> get_uint8_at 0 m;
               let actualFrameCount = header AND FRAME_COUNTER_BIT_MASK;
               case fp_get_session pgn src (msg_destination m) w of
                 Some s \<Rightarrow> if actualFrameCount = 0 then Some (fp_close_session s False w) else fp_continue s m w
               | None \<Rightarrow> if actualFrameCount \<noteq> 0 then Some w else fp_start src m w
             })"

section \<open>Every operation is defined and keeps the session table\<close>

definition fp_key :: "fp_session \<Rightarrow> u32 \<times> cf \<times> cf option" where
  "fp_key s = (parameterGroupNumber s, session_source s, session_destination s)"

definition fp_ok :: "fp_session \<Rightarrow> bool" where
  "fp_ok s \<longleftrightarrow> length (session_data s) = unat (totalMessageSize s) \<and> 8 < length (session_data s) \<and> length (session_data s) < 256
     \<and> (direction s = DirReceive \<longrightarrow> fp_vector s)"

definition fp_table :: "nat \<Rightarrow> fp_session list \<Rightarrow> bool" where
  "fp_table n ss \<longleftrightarrow> distinct (map sid ss) \<and> distinct (map fp_key ss) \<and> (\<forall>s \<in> set ss. sid s < n \<and> fp_ok s)"

definition fp_good :: "fast_packet \<Rightarrow> bool" where
  "fp_good w \<longleftrightarrow> fp_table (next_sid (fp_manager w)) (fp_sessions w)"

lemma fp_tableD: "fp_table n ss \<Longrightarrow> s \<in> set ss \<Longrightarrow> fp_ok s \<and> sid s < n"
  by (simp add: fp_table_def)

lemma fp_table_unique: "fp_table n ss \<Longrightarrow> s \<in> set ss \<Longrightarrow> t \<in> set ss \<Longrightarrow> sid s = sid t \<Longrightarrow> s = t"
  by (auto simp: fp_table_def distinct_map inj_on_def)

lemma fp_table_erase: "fp_table n ss \<Longrightarrow> fp_table n (erase_session i ss)"
  unfolding fp_table_def erase_session_def by (auto simp: distinct_map_filter)

lemma fp_table_put:
  assumes "fp_table n ss" "\<And>t. t \<in> set ss \<Longrightarrow> sid t = sid s \<Longrightarrow> fp_key t = fp_key s" "fp_ok s"
  shows "fp_table n (put_session s ss)"
proof -
  have "map sid (put_session s ss) = map sid ss" "map fp_key (put_session s ss) = map fp_key ss"
    by (intro map_put_session; simp add: assms(2))+
  moreover have "fp_ok u \<and> sid u < n" if "u \<in> set (put_session s ss)" for u
    using that assms(3) fp_tableD [OF assms(1)] by (fastforce simp: put_session_def split: if_splits)
  ultimately show ?thesis using assms(1) by (simp add: fp_table_def)
qed

lemma fp_table_push:
  "fp_table n ss \<Longrightarrow> \<not> list_ex (fp_matches (parameterGroupNumber s) (session_source s) (session_destination s)) ss \<Longrightarrow> sid s = n
    \<Longrightarrow> fp_ok s \<Longrightarrow> fp_table (Suc n) (ss @ [s])"
  by (auto simp: fp_table_def list_ex_iff fp_matches_def session_matches_def fp_key_def less_Suc_eq)

lemma fp_length: "fp_ok s \<Longrightarrow> unat (fp_get_message_length s) = length (session_data s)"
  by (simp add: fp_ok_def fp_get_message_length_def unsigned_ucast_eq take_bit_nat_eq_self)

lemma add_bytes_fields [simp]:
  "sid (add_number_of_bytes_transferred k t s) = sid s" "fp_key (add_number_of_bytes_transferred k t s) = fp_key s"
  "fp_ok (add_number_of_bytes_transferred k t s) = fp_ok s" "session_data (add_number_of_bytes_transferred k t s) = session_data s"
  "fp_sequenceNumber (add_number_of_bytes_transferred k t s) = fp_sequenceNumber s"
  "numberOfBytesTransferred (add_number_of_bytes_transferred k t s) = numberOfBytesTransferred s + k"
  "totalMessageSize (add_number_of_bytes_transferred k t s) = totalMessageSize s"
  "direction (add_number_of_bytes_transferred k t s) = direction s"
  "session_source (add_number_of_bytes_transferred k t s) = session_source s"
  "session_destination (add_number_of_bytes_transferred k t s) = session_destination s"
  "parameterGroupNumber (add_number_of_bytes_transferred k t s) = parameterGroupNumber s"
  "fp_priority (add_number_of_bytes_transferred k t s) = fp_priority s"
  "sessionCompleteCallback (add_number_of_bytes_transferred k t s) = sessionCompleteCallback s"
  by (simp_all add: add_number_of_bytes_transferred_def update_timestamp_def fp_key_def fp_ok_def)

lemma stamped_fields [simp]:
  "sid (update_timestamp t s) = sid s" "fp_key (update_timestamp t s) = fp_key s" "fp_ok (update_timestamp t s) = fp_ok s"
  "session_data (update_timestamp t s) = session_data s"
  for s :: fp_session
  by (simp_all add: update_timestamp_def fp_key_def fp_ok_def)

text \<open>What an operation on one session does to the table: the other sessions stay, the table stays good.\<close>

definition fp_keeps :: "nat \<Rightarrow> fast_packet \<Rightarrow> fast_packet \<Rightarrow> bool" where
  "fp_keeps i w w' \<longleftrightarrow> fp_good w' \<and> other_sessions i (fp_manager w') = other_sessions i (fp_manager w)
     \<and> clock (fp_manager w') = clock (fp_manager w) \<and> cfs (fp_manager w') = cfs (fp_manager w)"

lemma fp_keeps_refl: "fp_good w \<Longrightarrow> fp_keeps i w w"
  by (simp add: fp_keeps_def)

lemma fp_keeps_trans: "fp_keeps i u v \<Longrightarrow> fp_keeps i v w \<Longrightarrow> fp_keeps i u w"
  by (simp add: fp_keeps_def)

lemma fp_close_keeps: "fp_good w \<Longrightarrow> fp_keeps (sid s) w (fp_close_session s b w)"
  by (simp add: fp_keeps_def fp_good_def fp_close_session_def add_session_history_def on_manager_def other_sessions_def close_session_def
      Let_def fp_table_erase) (simp add: erase_session_def)

lemma fp_put_keeps:
  assumes "fp_good w" "\<And>t. t \<in> set (fp_sessions w) \<Longrightarrow> sid t = sid s \<Longrightarrow> fp_key t = fp_key s" "fp_ok s"
  shows "fp_keeps (sid s) w (on_manager (put_active s) w)"
  using fp_table_put [of "next_sid (fp_manager w)" "fp_sessions w" s] assms filter_put_session [of s "fp_sessions w"]
  by (simp add: fp_keeps_def fp_good_def on_manager_def put_active_def other_sessions_def)

lemma fp_frame_keeps: "fp_good w \<Longrightarrow> fp_keeps i w (w\<lparr>fp_manager := snd (send_frame f (fp_manager w))\<rparr>)"
  by (simp add: fp_keeps_def fp_good_def)

lemma fp_frame_defined:
  assumes "fp_ok s"
  obtains buffer k where "fp_frame s = Some (buffer, k)"
proof -
  have "fp_frame_byte s j \<noteq> None" for j
    using fp_length [OF assms] by (auto simp: fp_frame_byte_def Let_def word_less_nat_alt)
  then have some: "those (map (fp_frame_byte s) js) \<noteq> None" for js
    by (induction js) (auto split: option.splits)
  define js :: "u8 list" where "js = map of_nat [0..<unat (if 0 = get_total_bytes_transferred s then PROTOCOL_BYTES_PER_FRAME - 1 else PROTOCOL_BYTES_PER_FRAME)]"
  obtain bytes where "those (map (fp_frame_byte s) js) = Some bytes" using some by blast
  then show ?thesis using that unfolding fp_frame_def Let_def js_def by simp
qed

text \<open>The session that an operation has in hand: if it is still in the table, it is the one there.\<close>

definition in_hand :: "fp_session \<Rightarrow> fast_packet \<Rightarrow> bool" where
  "in_hand s w \<longleftrightarrow> fp_ok s \<and> (\<forall>t \<in> set (fp_sessions w). sid t = sid s \<longrightarrow> fp_key t = fp_key s)"

lemma in_hand_frame: "in_hand s w \<Longrightarrow> in_hand s (w\<lparr>fp_manager := snd (send_frame f (fp_manager w))\<rparr>)"
  by (simp add: in_hand_def)

lemma fp_send_loop_fine:
  "fp_good w \<Longrightarrow> in_hand s w \<Longrightarrow> \<exists>s' w'. fp_send_loop i s w = Some (s', w') \<and> fp_keeps (sid s) w w' \<and> sid s' = sid s"
proof (induction i s w rule: fp_send_loop.induct)
  case (1 i s w)
  show ?case
  proof (cases "i < get_number_of_remaining_packets s")
    case False
    then show ?thesis using fp_keeps_refl [OF 1(2)] by (simp add: fp_send_loop.simps [of i s w])
  next
    case True
    obtain buffer k where f: "fp_frame s = Some (buffer, k)" using fp_frame_defined 1(3) by (metis in_hand_def)
    let ?f = "\<lparr>f_pgn = parameterGroupNumber s, f_data = buffer, f_source = session_source s,
                         f_destination = session_destination s, f_priority = fp_priority s\<rparr>"
    obtain ok v where v: "send_frame ?f (fp_manager w) = (ok, v)" by force
    let ?w1 = "w\<lparr>fp_manager := v\<rparr>"
    have keep1: "fp_keeps (sid s) w ?w1" using fp_frame_keeps [OF 1(2), of "sid s" ?f] v by simp
    have hand1: "in_hand s ?w1" using in_hand_frame [OF 1(3), of ?f] v by simp
    have good1: "fp_good ?w1" using keep1 by (simp add: fp_keeps_def)
    show ?thesis
    proof (cases ok)
      case False
      have "fp_keeps (sid s) w (if get_time_since_last_update (clock v) s > FP_TIMEOUT_MS then fp_close_session s False ?w1 else ?w1)"
        using fp_keeps_trans [OF keep1 fp_close_keeps [OF good1]] keep1 by simp
      then show ?thesis using True f v False by (simp add: fp_send_loop.simps [of i s w] Let_def)
    next
      case ok: True
      let ?s1 = "add_number_of_bytes_transferred k (clock v) s"
      let ?w2 = "on_manager (put_active ?s1) ?w1"
      have s1: "sid ?s1 = sid s" "fp_ok ?s1" "fp_key ?s1 = fp_key s" using hand1 by (simp_all add: in_hand_def)
      have keep2: "fp_keeps (sid ?s1) ?w1 ?w2"
        by (rule fp_put_keeps) (use good1 hand1 in \<open>auto simp: in_hand_def\<close>)
      have hand2: "in_hand ?s1 ?w2" using hand1 by (auto simp: in_hand_def on_manager_def put_active_def put_session_def split: if_splits)
      have good2: "fp_good ?w2" using keep2 by (simp add: fp_keeps_def)
      obtain s' w' where w': "fp_send_loop (i + 1) ?s1 ?w2 = Some (s', w')" "fp_keeps (sid ?s1) ?w2 w'" "sid s' = sid ?s1"
        using 1(1) [OF True f refl v [symmetric] refl refl ok refl good2 hand2] by blast
      have "fp_keeps (sid s) w w'" using fp_keeps_trans [OF keep1 fp_keeps_trans [OF _ _]] keep2 w'(2) s1(1) by simp
      then show ?thesis using True f v ok w' by (simp add: fp_send_loop.simps [of i s w] Let_def)
    qed
  qed
qed

lemma fp_update_session_fine:
  assumes "fp_good w" "in_hand s w"
  shows "\<exists>w'. fp_update_session s w = Some w' \<and> fp_keeps (sid s) w w'"
proof (cases "direction s")
  case DirReceive
  then show ?thesis using fp_close_keeps [OF assms(1), of s False] fp_keeps_refl [OF assms(1)] by (simp add: fp_update_session_def)
next
  case DirTransmit
  obtain s' w' where w': "fp_send_loop 0 s w = Some (s', w')" "fp_keeps (sid s) w w'" "sid s' = sid s"
    using fp_send_loop_fine [OF assms] by blast
  then have "fp_good w'" by (simp add: fp_keeps_def)
  then have "fp_keeps (sid s) w (fp_close_session s' True w')"
    using fp_keeps_trans [OF w'(2)] fp_close_keeps [of w' s' True] w'(3) by simp
  then show ?thesis using w' DirTransmit by (simp add: fp_update_session_def)
qed

lemma in_hand_member: "fp_good w \<Longrightarrow> s \<in> set (fp_sessions w) \<Longrightarrow> in_hand s w"
  by (auto simp: in_hand_def fp_good_def dest: fp_table_unique fp_tableD)

lemma in_hand_closed: "in_hand s w \<Longrightarrow> in_hand s (fp_close_session t b w)"
  by (auto simp: in_hand_def fp_close_session_def add_session_history_def on_manager_def close_session_def Let_def erase_session_def)

lemma fp_update_at_fine:
  assumes "fp_good w" "i < length (fp_sessions w)"
  shows "\<exists>w'. fp_update_at i w = Some w' \<and> fp_keeps (sid (fp_sessions w ! i)) w w'"
proof -
  let ?s = "fp_sessions w ! i"
  have hand: "in_hand ?s w" using in_hand_member [OF assms(1)] assms(2) by simp
  have closed: "\<exists>w'. fp_update_session ?s (fp_close_session ?s False w) = Some w' \<and> fp_keeps (sid ?s) w w'"
  proof -
    have k: "fp_keeps (sid ?s) w (fp_close_session ?s False w)" by (rule fp_close_keeps [OF assms(1)])
    then have "fp_good (fp_close_session ?s False w)" by (simp add: fp_keeps_def)
    from fp_update_session_fine [OF this in_hand_closed [OF hand]] fp_keeps_trans [OF k] show ?thesis by blast
  qed
  show ?thesis using closed fp_update_session_fine [OF assms(1) hand] assms(2)
    unfolding fp_update_at_def Let_def by (auto split: option.split)
qed

lemma others_length:
  assumes "fp_good w" "i < length (fp_sessions w)" "fp_keeps (sid (fp_sessions w ! i)) w w'"
  shows "i \<le> length (fp_sessions w')"
proof -
  have d: "distinct (map sid (fp_sessions w))" using assms(1) by (simp add: fp_good_def fp_table_def)
  let ?n = "length (fp_sessions w)"
  have "{j. j < ?n \<and> sid (fp_sessions w ! j) \<noteq> sid (fp_sessions w ! i)} = {..<?n} - {i}"
    using d assms(2) by (auto simp: distinct_conv_nth)
  then have "length (other_sessions (sid (fp_sessions w ! i)) (fp_manager w)) = ?n - 1"
    using assms(2) by (simp add: other_sessions_def length_filter_conv_card)
  moreover have "length (other_sessions j (fp_manager w')) \<le> length (fp_sessions w')" for j by (simp add: other_sessions_def)
  ultimately show ?thesis using assms(2,3) by (metis Suc_leI Suc_le_mono Suc_pred' fp_keeps_def le_trans less_imp_Suc_add zero_less_Suc le_simps(2))
qed

lemma fp_update_from_fine:
  "fp_good w \<Longrightarrow> n \<le> length (fp_sessions w) \<Longrightarrow> \<exists>w'. fp_update_from n w = Some w' \<and> fp_good w'"
proof (induction n arbitrary: w)
  case (Suc n)
  obtain w1 where w1: "fp_update_at n w = Some w1" "fp_keeps (sid (fp_sessions w ! n)) w w1"
    using fp_update_at_fine [OF Suc.prems(1), of n] Suc.prems(2) by auto
  then have "fp_good w1" "n \<le> length (fp_sessions w1)"
    using others_length [OF Suc.prems(1) _ w1(2)] Suc.prems(2) by (simp_all add: fp_keeps_def)
  then show ?case using Suc.IH w1(1) by simp
qed simp

lemma fp_update_fine: "fp_good w \<Longrightarrow> \<exists>w'. fp_update w = Some w' \<and> fp_good w'"
  by (simp add: fp_update_def fp_update_from_fine)

section \<open>Receiving and sending\<close>

lemma fp_new_session_fields:
  "fp_new_session dir data pgn seq priority src dst callback w = (s, w1) \<Longrightarrow>
     sid s = next_sid (fp_manager w) \<and> direction s = dir \<and> parameterGroupNumber s = pgn \<and> session_data s = fp_bytes data \<and> fp_vector s = is_vector data \<and> session_source s = src
     \<and> session_destination s = dst \<and> totalMessageSize s = of_nat (length (fp_bytes data)) \<and> sessionCompleteCallback s = callback
     \<and> numberOfBytesTransferred s = 0 \<and> fp_sequenceNumber s = seq \<and> fp_priority s = priority
     \<and> w1 = w\<lparr>fp_manager := (fp_manager w)\<lparr>next_sid := Suc (next_sid (fp_manager w))\<rparr>\<rparr>"
  by (auto simp: fp_new_session_def new_sid_def)

lemma fp_push_good:
  assumes "fp_good w" "\<not> fp_has_session (parameterGroupNumber s) (session_source s) (session_destination s) w" "sid s = next_sid (fp_manager w)"
    "fp_ok s"
  shows "fp_good (on_manager (push_active s) (w\<lparr>fp_manager := (fp_manager w)\<lparr>next_sid := Suc (next_sid (fp_manager w))\<rparr>\<rparr>))"
  using assms fp_table_push [of "next_sid (fp_manager w)" "fp_sessions w" s]
  by (simp add: fp_good_def on_manager_def push_active_def fp_has_session_def)

lemma send_multipacket_fine:
  assumes "fp_good w"
  shows "fp_good (snd (send_multipacket_message pgn data source destination priority callback w))"
proof -
  let ?seq = "\<lambda>src. get_new_sequence_number (controlFunctionNAME (cfs (fp_manager w) src)) pgn w"
  have "fp_good (on_manager (push_active s) w1)"
    if new: "fp_new_session DirTransmit d pgn (?seq src) priority src destination callback w = (s, w1)"
      and no: "\<not> fp_has_session pgn src destination w" and len: "8 < length (fp_bytes d)" "length (fp_bytes d) \<le> 223" for d src s w1
  proof -
    note f = fp_new_session_fields [OF new]
    have "fp_ok s" using f len by (simp add: fp_ok_def unat_of_nat)
    then show ?thesis using f no fp_push_good [OF assms, of s] by simp
  qed
  then show ?thesis using assms unfolding send_multipacket_message_def Let_def by (auto split: option.splits prod.splits)
qed

lemma fp_copy_defined:
  assumes "fp_ok s" "numberOfBytesTransferred s < fp_get_message_length s" "length (msg_data m) = 8" "first + room \<le> 8"
  shows "\<exists>s'. fp_copy first room m s = Some s' \<and> fp_ok s' \<and> sid s' = sid s \<and> fp_key s' = fp_key s"
proof -
  have "unat (numberOfBytesTransferred s) < unat (fp_get_message_length s)" using assms(2) by (simp add: word_less_nat_alt)
  then show ?thesis using assms(1,3,4) fp_length [OF assms(1)]
    by (auto simp: fp_copy_def Let_def fp_ok_def fp_key_def)
qed

lemma dispatch_fields [simp]: "fp_manager (fp_dispatch m bytes w) = fp_manager w" "fp_good (fp_dispatch m bytes w) = fp_good w"
  by (simp_all add: fp_dispatch_def Let_def fp_good_def)

lemma fp_continue_fine:
  assumes "fp_good w" "s \<in> set (fp_sessions w)" "length (msg_data m) = 8" "fp_vector s"
  shows "\<exists>w'. fp_continue s m w = Some w' \<and> fp_good w'"
proof (cases "numberOfBytesTransferred s \<ge> fp_get_message_length s")
  case True
  then show ?thesis using fp_close_keeps [OF assms(1)] assms(4) by (simp add: fp_continue_def fp_keeps_def)
next
  case False
  have ok: "fp_ok s" using assms(1,2) by (simp add: fp_good_def fp_tableD)
  obtain s1 where s1: "fp_copy 1 7 m s = Some s1" "fp_ok s1" "sid s1 = sid s" "fp_key s1 = fp_key s"
    using fp_copy_defined [OF ok _ assms(3), of 1 7] False by (auto simp: not_le)
  let ?s2 = "update_timestamp (clock (fp_manager w)) s1"
  have "fp_keeps (sid ?s2) w (on_manager (put_active ?s2) w)"
  proof (rule fp_put_keeps [OF assms(1)])
    show "fp_key t = fp_key ?s2" if "t \<in> set (fp_sessions w)" "sid t = sid ?s2" for t
      using that s1(3,4) fp_table_unique [OF _ that(1) assms(2)] assms(1) by (simp add: fp_good_def)
  qed (simp add: s1(2))
  then have good: "fp_good (on_manager (put_active ?s2) w)" by (simp add: fp_keeps_def)
  then have "fp_good (fp_close_session ?s2 True (fp_dispatch m (session_data ?s2) (on_manager (put_active ?s2) w)))"
    using fp_close_keeps [of "fp_dispatch m (session_data ?s2) (on_manager (put_active ?s2) w)" ?s2 True] by (simp add: fp_keeps_def)
  then show ?thesis using False s1(1) good assms(4) by (simp add: fp_continue_def Let_def)
qed

lemma fp_start_fine:
  assumes "fp_good w" "length (msg_data m) = 8" "\<not> fp_has_session (get_parameter_group_number (msg_identifier m)) src (msg_destination m) w"
  shows "\<exists>w'. fp_start src m w = Some w' \<and> fp_good w'"
proof -
  let ?n = "msg_data m ! 1"
  have n: "get_uint8_at 1 m = Some ?n" "get_uint8_at 0 m = Some (msg_data m ! 0)" using uint8_at_ok [OF assms(2)] by simp_all
  show ?thesis
  proof (cases "unat ?n > FP_MAX_PROTOCOL_MESSAGE_LENGTH \<or> ?n \<le> 8")
    case True
    then show ?thesis using n assms(1) by (simp add: fp_start_def)
  next
    case False
    then have len: "8 < unat ?n" "unat ?n < 256" by (simp_all add: word_le_nat_alt)
    obtain s w1 where new: "fp_new_session DirReceive (DataVector (replicate (unat ?n) 0)) (get_parameter_group_number (msg_identifier m))
        (msg_data m ! 0 AND SEQUENCE_NUMBER_BIT_MASK) (get_priority (msg_identifier m)) src (msg_destination m) None w = (s, w1)" by force
    note f = fp_new_session_fields [OF new]
    have ok: "fp_ok s" using f len by (simp add: fp_ok_def unat_of_nat)
    have "numberOfBytesTransferred s < fp_get_message_length s" using f fp_length [OF ok] len by (simp add: word_less_nat_alt)
    then obtain s1 where s1: "fp_copy 2 6 m s = Some s1" "fp_ok s1" "sid s1 = sid s" "fp_key s1 = fp_key s"
      using fp_copy_defined [OF ok _ assms(2), of 2 6] by auto
    let ?s2 = "update_timestamp (clock (fp_manager w)) s1"
    have key: "fp_key ?s2 = fp_key s" using s1(4) by simp
    then have "fp_good (on_manager (push_active ?s2) w1)"
      using fp_push_good [OF assms(1), of ?s2] assms(3) f s1(2,3) by (simp add: fp_key_def)
    then show ?thesis using n False new s1(1) by (simp add: fp_start_def Let_def)
  qed
qed

text \<open>A frame that continues a session whose data is a chunk callback.\<close>

definition cast_of_callback :: "CANMessage \<Rightarrow> fast_packet \<Rightarrow> bool" where
  "cast_of_callback m w \<longleftrightarrow> msg_data m ! 0 AND FRAME_COUNTER_BIT_MASK \<noteq> 0
     \<and> (\<exists>s \<in> set (fp_sessions w). direction s = DirTransmit \<and> \<not> fp_vector s
     \<and> msg_source m = Some (session_source s) \<and> msg_destination m = session_destination s
     \<and> get_parameter_group_number (msg_identifier m) = parameterGroupNumber s)"

lemma fp_process_fine:
  assumes "fp_good w" "bounded_message m"
  shows "(\<exists>w'. fp_process_message m w = Some w' \<and> fp_good w') \<or> (fp_process_message m w = None \<and> cast_of_callback m w)"
proof (cases "msg_source m = None \<or> get_data_length m \<noteq> 8")
  case True
  then show ?thesis using assms(1) by (auto simp: fp_process_message_def Let_def split: option.split)
next
  case False
  then obtain src where src: "msg_source m = Some src" "get_data_length m = 8" by auto
  then have l8: "length (msg_data m) = 8" using message_bytes assms(2) by (simp add: bounded_message_def)
  have h: "get_uint8_at 0 m = Some (msg_data m ! 0)" using uint8_at_ok [OF l8] by simp
  let ?pgn = "get_parameter_group_number (msg_identifier m)"
  show ?thesis
  proof (cases "fp_get_session ?pgn src (msg_destination m) w")
    case None
    then have "\<not> fp_has_session ?pgn src (msg_destination m) w"
      by (auto simp: fp_get_session_def fp_has_session_def find_None_iff list_ex_iff)
    from fp_start_fine [OF assms(1) l8 this] show ?thesis
      using src h None assms(1) by (auto simp: fp_process_message_def Let_def)
  next
    case (Some s)
    then have s: "s \<in> set (fp_sessions w)" "fp_matches ?pgn src (msg_destination m) s"
      by (auto simp: fp_get_session_def find_Some_iff in_set_conv_nth)
    show ?thesis
    proof (cases "fp_vector s")
      case True
      from fp_continue_fine [OF assms(1) s(1) l8 True] show ?thesis
        using src h Some assms(1) fp_close_keeps [OF assms(1), of s False] by (auto simp: fp_process_message_def Let_def fp_keeps_def)
    next
      case False
      moreover have "fp_ok s" using assms(1) s(1) by (simp add: fp_good_def fp_tableD)
      ultimately have "direction s = DirTransmit" by (cases "direction s") (simp_all add: fp_ok_def)
      then have "msg_data m ! 0 AND FRAME_COUNTER_BIT_MASK \<noteq> 0 \<longrightarrow> cast_of_callback m w"
        using False s src(1) by (auto simp: cast_of_callback_def fp_matches_def session_matches_def)
      then show ?thesis using False src h Some assms(1) fp_close_keeps [OF assms(1), of s False]
        by (auto simp: fp_process_message_def Let_def fp_keeps_def fp_continue_def)
    qed
  qed
qed

end
