(* ===== verification/Fast_Packet_Transfer.thy ===== *)
theory Fast_Packet_Transfer
  imports Fast_Packet
begin

text \<open>
  What the fast packet protocol achieves: when a run is defined, that a message of 9 to 223 bytes arrives, and
  what the receiver does not check.
\<close>

section \<open>Runs\<close>

text \<open>Everything that can happen to the protocol object.\<close>

datatype fp_event =
    FpMessage CANMessage
  | FpSend u32 "fp_data option" "cf option" "cf option" CANPriority "nat option"
  | FpUpdate
  | FpTick u32
  | FpReplies "bool list"
  | FpStore cf_store
  | FpRegister u32 nat "cf option"
  | FpRemove u32 nat "cf option"
  | FpAllow bool

fun fp_step :: "fp_event \<Rightarrow> fast_packet \<Rightarrow> fast_packet option" where
  "fp_step (FpMessage m) w = fp_process_message m w"
| "fp_step (FpSend pgn data src dst prio cb) w = Some (snd (send_multipacket_message pgn data src dst prio cb w))"
| "fp_step FpUpdate w = fp_update w"
| "fp_step (FpTick d) w = Some (on_manager (tick d) w)"
| "fp_step (FpReplies rs) w = Some (on_manager (tx_replies_update (\<lambda>_. rs)) w)"
| "fp_step (FpStore store) w = Some (on_manager (cfs_update (\<lambda>_. store)) w)"
| "fp_step (FpRegister pgn cb icf) w = Some (register_multipacket_message_callback pgn cb icf w)"
| "fp_step (FpRemove pgn cb icf) w = Some (remove_multipacket_message_callback pgn cb icf w)"
| "fp_step (FpAllow b) w = Some (allow_any_control_function b w)"

fun fp_admissible :: "fp_event \<Rightarrow> bool" where
  "fp_admissible (FpMessage m) = bounded_message m"
| "fp_admissible _ = True"

lemma fp_step_fine:
  assumes w: "fp_good w" and e: "fp_admissible e"
  shows "(\<exists>w'. fp_step e w = Some w' \<and> fp_good w') \<or> (fp_step e w = None \<and> (\<exists>m. e = FpMessage m \<and> cast_of_callback m w))"
  by (cases e)
    (use w e fp_process_fine [OF w] in \<open>simp_all add: send_multipacket_fine fp_update_fine\<close>,
      simp_all add: fp_good_def on_manager_def tick_def register_multipacket_message_callback_def
        remove_multipacket_message_callback_def allow_any_control_function_def)

lemma fp_run_fine:
  "fp_good w \<Longrightarrow> list_all fp_admissible es \<Longrightarrow>
    (\<exists>w'. run_events fp_step es w = Some w' \<and> fp_good w')
    \<or> run_events fp_step es w = None
      \<and> (\<exists>es1 m es2 w1. es = es1 @ FpMessage m # es2 \<and> run_events fp_step es1 w = Some w1 \<and> cast_of_callback m w1)"
proof (induction es arbitrary: w)
  case (Cons e es)
  consider w1 where "fp_step e w = Some w1" "fp_good w1" | m where "fp_step e w = None" "e = FpMessage m" "cast_of_callback m w"
    using fp_step_fine [OF Cons.prems(1), of e] Cons.prems(2) by auto
  then show ?case
  proof cases
    case 1
    from Cons.IH [OF 1(2)] Cons.prems(2)
    consider w' where "run_events fp_step es w1 = Some w'" "fp_good w'"
      | es1 m es2 w2 where "run_events fp_step es w1 = None" "es = es1 @ FpMessage m # es2" "run_events fp_step es1 w1 = Some w2" "cast_of_callback m w2" by auto
    then show ?thesis
    proof cases
      case 1
      then show ?thesis using \<open>fp_step e w = Some w1\<close> by simp
    next
      case 2
      then have "e # es = (e # es1) @ FpMessage m # es2" "run_events fp_step (e # es1) w = Some w2"
        using \<open>fp_step e w = Some w1\<close> by simp_all
      moreover have "run_events fp_step (e # es) w = None" using \<open>fp_step e w = Some w1\<close> 2(1) by simp
      ultimately show ?thesis using 2(4) by blast
    qed
  next
    case 2
    then have "e # es = [] @ FpMessage m # es" "run_events fp_step [] w = Some w" "run_events fp_step (e # es) w = None" by simp_all
    with 2(3) show ?thesis by blast
  qed
qed simp

definition fp_initial :: "cf_store \<Rightarrow> CANNetworkConfiguration \<Rightarrow> fast_packet" where
  "fp_initial store conf =
     \<lparr>fp_manager = \<lparr>cfs = store, clock = 0, configuration = conf, tx_replies = [], tx_log = [], delivered = [], completions = [],
        activeSessions = [], next_sid = 0\<rparr>,
      parameterGroupNumberCallbacks = [], allowAnyControlFunction = False, sessionHistory = [], fp_calls = []\<rparr>"

lemma fp_initial_good: "fp_good (fp_initial store conf)"
  by (simp add: fp_initial_def fp_good_def fp_table_def)

text \<open>
  C35: from an empty protocol object on, every sequence of events (received messages with any content,
  transmissions of vectors and of chunk callbacks, updates, time, refused frames, changes of addresses and of the callbacks) runs without
  a read or write outside of a buffer and without an exception, and ends with no two sessions of the same parameter group, source and
  destination and with every session's buffer of its announced length; with one exception. The run can only become undefined at
  a received frame with a nonzero frame counter, of the parameter group, source and destination of a session that is
  transmitting the data of a chunk callback: the code casts that data to a vector and writes into it.
\<close>

theorem fp_runs_defined:
  assumes "list_all fp_admissible es"
  shows "case run_events fp_step es (fp_initial store conf) of
      Some w \<Rightarrow> distinct (map fp_key (fp_sessions w))
        \<and> (\<forall>s \<in> set (fp_sessions w). length (session_data s) = unat (totalMessageSize s) \<and> 8 < length (session_data s))
    | None \<Rightarrow> (\<exists>es1 m es2 w1. es = es1 @ FpMessage m # es2 \<and> run_events fp_step es1 (fp_initial store conf) = Some w1
        \<and> cast_of_callback m w1)"
  using fp_run_fine [OF fp_initial_good assms, of store conf]
  by (auto simp: fp_good_def fp_table_def fp_ok_def split: option.split)

text \<open>The exception does occur: a chunk callback is given for a message, and a frame of the same source and group arrives.\<close>

definition demo_cast_run :: "fp_event list" where
  "demo_cast_run = [FpRegister 0x1F805 1 None, FpSend 0x1F805 (Some (DataCallback 20 of_nat)) (Some 7) None PriorityDefault6 None,
      FpMessage (make_message Receive (make_identifier Extended 0x1F805 PriorityDefault6 0xFF 0x1C) [1, 9, 1, 2, 3, 4, 5, 6] (Some 7) None 0 0)]"

lemma demo_cast: "run_events fp_step demo_cast_run (fp_initial demo_store default_configuration) = None"
  by code_simp

text \<open>Witness of C35: a received first frame, a transmission and an update; and a run that ends in the cast.\<close>

theorem fp_runs_defined_witness:
  "(case run_events fp_step [FpRegister 0x1F805 1 None, FpTick 10,
      FpMessage (make_message Receive (make_identifier Extended 0x1F805 PriorityDefault6 0xFF 0x1C) [0, 9, 1, 2, 3, 4, 5, 6] (Some 7) None 0 0),
      FpSend 0x1F805 (Some (DataVector [1, 2, 3, 4, 5, 6, 7, 8, 9])) (Some 3) None PriorityDefault6 (Some 5), FpUpdate] (fp_initial demo_store default_configuration) of
        Some w \<Rightarrow> distinct (map fp_key (fp_sessions w)) | None \<Rightarrow> True)
    \<and> (\<exists>es1 m es2 w1. demo_cast_run = es1 @ FpMessage m # es2
        \<and> run_events fp_step es1 (fp_initial demo_store default_configuration) = Some w1 \<and> cast_of_callback m w1)"
proof
  show "case run_events fp_step [FpRegister 0x1F805 1 None, FpTick 10,
      FpMessage (make_message Receive (make_identifier Extended 0x1F805 PriorityDefault6 0xFF 0x1C) [0, 9, 1, 2, 3, 4, 5, 6] (Some 7) None 0 0),
      FpSend 0x1F805 (Some (DataVector [1, 2, 3, 4, 5, 6, 7, 8, 9])) (Some 3) None PriorityDefault6 (Some 5), FpUpdate] (fp_initial demo_store default_configuration) of
        Some w \<Rightarrow> distinct (map fp_key (fp_sessions w)) | None \<Rightarrow> True"
    using fp_runs_defined [of "[FpRegister 0x1F805 1 None, FpTick 10,
      FpMessage (make_message Receive (make_identifier Extended 0x1F805 PriorityDefault6 0xFF 0x1C) [0, 9, 1, 2, 3, 4, 5, 6] (Some 7) None 0 0),
      FpSend 0x1F805 (Some (DataVector [1, 2, 3, 4, 5, 6, 7, 8, 9])) (Some 3) None PriorityDefault6 (Some 5), FpUpdate]" demo_store default_configuration]
    by (auto simp: bounded_message_def make_message_def split: option.splits)
  have "list_all fp_admissible demo_cast_run" by (simp add: demo_cast_run_def bounded_message_def make_message_def)
  from fp_runs_defined [OF this, of demo_store default_configuration]
  show "\<exists>es1 m es2 w1. demo_cast_run = es1 @ FpMessage m # es2
        \<and> run_events fp_step es1 (fp_initial demo_store default_configuration) = Some w1 \<and> cast_of_callback m w1"
    by (simp add: demo_cast)
qed

section \<open>Frames\<close>

text \<open>Where the payload of frame \<open>k\<close> begins in the message, and its bytes.\<close>

definition fp_offset :: "nat \<Rightarrow> nat" where
  "fp_offset k = 7 * k - 1"

definition fp_payload :: "u8 list \<Rightarrow> nat \<Rightarrow> u8 list" where
  "fp_payload data k = map (\<lambda>j. if fp_offset k + j < length data then data ! (fp_offset k + j) else 0xFF) [0..<if k = 0 then 6 else 7]"

definition fp_wire :: "u8 \<Rightarrow> u8 list \<Rightarrow> nat \<Rightarrow> u8 list" where
  "fp_wire seq data k = (of_nat k OR push_bit 5 seq) # (if k = 0 then [of_nat (length data)] else []) @ fp_payload data k"

lemma fp_offset_simps [simp]: "fp_offset 0 = 0" "fp_offset (Suc k) = 7 * k + 6"
  by (simp_all add: fp_offset_def)

lemma length_fp_wire [simp]: "length (fp_wire seq data k) = 8"
  by (simp add: fp_wire_def fp_payload_def)

text \<open>The number of frames a message takes.\<close>

definition fp_frames :: "nat \<Rightarrow> nat" where
  "fp_frames len = (if len = 0 then 0 else 1 + len div 7)"

lemma frames_calculated: "unat (calculate_number_of_frames x) = fp_frames (unat x)"
proof -
  have x: "unat x < 256" using unsigned_less [of x, where ?'a = nat] by simp
  have frames: "unat (l div 7 + (if l mod 7 \<noteq> 0 then 1 else 0) + b :: u8) = (unat l + 6) div 7 + unat b" if "unat b \<le> 1" for l b :: u8
  proof -
    have l: "unat l < 256" using unsigned_less [of l, where ?'a = nat] by simp
    have d: "unat (l div 7) = unat l div 7" "unat (l mod 7) = unat l mod 7" by (simp_all add: unat_div_distrib unat_mod_distrib)
    have z: "l mod 7 = 0 \<longleftrightarrow> unat l mod 7 = 0" using d(2) by (metis unat_eq_0)
    have m: "unat (if l mod 7 \<noteq> 0 then 1 else 0 :: u8) = (if unat l mod 7 = 0 then 0 else 1)" by (simp add: z)
    have "(unat l + 6) div 7 = unat l div 7 + (if unat l mod 7 = 0 then 0 else 1)" by presburger
    moreover have "(unat l + 6) div 7 + 1 < 256" using l by presburger
    ultimately show ?thesis using that d(1) m by (simp add: unat_word_ariths)
  qed
  show ?thesis
  proof (cases "x > 6")
    case True
    then have s: "unat (x - 6) = unat x - 6" "unat x > 6" by (simp_all add: unat_sub word_le_nat_alt word_less_nat_alt)
    have "calculate_number_of_frames x = (x - 6) div 7 + (if (x - 6) mod 7 \<noteq> 0 then 1 else 0) + 1"
      using True by (simp add: calculate_number_of_frames_def Let_def)
    then have "unat (calculate_number_of_frames x) = (unat (x - 6) + 6) div 7 + 1" using frames [of 1 "x - 6"] by simp
    then show ?thesis using s by (simp add: fp_frames_def)
  next
    case False
    then have s: "unat x \<le> 6" by (simp add: word_less_nat_alt not_less)
    have "calculate_number_of_frames x = x div 7 + (if x mod 7 \<noteq> 0 then 1 else 0) + 0"
      using False by (simp add: calculate_number_of_frames_def Let_def)
    then have "unat (calculate_number_of_frames x) = (unat x + 6) div 7" using frames [of 0 x] by simp
    also have "\<dots> = fp_frames (unat x)" using s unfolding fp_frames_def by presburger
    finally show ?thesis .
  qed
qed

lemma frames_of_offset: "k \<le> 32 \<Longrightarrow> unat (of_nat (fp_offset k) :: u8) = fp_offset k \<and> fp_frames (fp_offset k) = k"
proof (cases k)
  case (Suc j)
  assume "k \<le> 32"
  then have "7 * j + 6 < 256" using Suc by simp
  moreover have "fp_frames (7 * j + 6) = Suc j" unfolding fp_frames_def by presburger
  ultimately show ?thesis using Suc by (simp add: unat_of_nat del: of_nat_add of_nat_mult)
qed (simp add: fp_frames_def)

lemma wire_counter: "k < 32 \<Longrightarrow> (of_nat k OR push_bit 5 seq) AND 0x1F = (of_nat k :: u8)"
proof -
  assume k: "k < 32"
  have m: "(0x1F :: u8) = mask 5" by (simp add: mask_eq_exp_minus_1)
  have "(of_nat k OR push_bit 5 seq) AND mask 5 = take_bit 5 (of_nat k OR push_bit 5 seq :: u8)" by (simp add: take_bit_eq_mask)
  also have "\<dots> = take_bit 5 (of_nat k)" by (simp add: take_bit_push_bit)
  also have "\<dots> = of_nat k" using k by (simp add: take_bit_word_eq_iff unat_of_nat)
  finally show ?thesis unfolding m .
qed

text \<open>The payloads together are the message and its padding.\<close>

lemma payload_stream:
  "take (fp_offset n) (concat (map (fp_payload data) [0..<n])) = concat (map (fp_payload data) [0..<n])
   \<and> length (concat (map (fp_payload data) [0..<n])) = fp_offset n
   \<and> (\<forall>i < fp_offset n. i < length data \<longrightarrow> concat (map (fp_payload data) [0..<n]) ! i = data ! i)"
proof (induction n)
  case (Suc n)
  let ?c = "concat (map (fp_payload data) [0..<n])"
  have l: "length ?c = fp_offset n" using Suc.IH by blast
  have p: "length (fp_payload data n) = fp_offset (Suc n) - fp_offset n" "fp_offset n \<le> fp_offset (Suc n)"
    by (simp_all add: fp_payload_def fp_offset_def)
  have "(?c @ fp_payload data n) ! i = data ! i" if "i < fp_offset (Suc n)" "i < length data" for i
  proof (cases "i < fp_offset n")
    case True
    then show ?thesis using Suc.IH l that(2) by (simp add: nth_append)
  next
    case False
    then have "i - fp_offset n < length (fp_payload data n)" using that(1) p by simp
    then show ?thesis using False l that(2) by (simp add: nth_append fp_payload_def)
  qed
  then show ?case using l p by simp
qed simp

lemma message_from_payloads:
  assumes "data \<noteq> []"
  shows "take (length data) (concat (map (fp_payload data) [0..<fp_frames (length data)])) = data"
proof -
  let ?n = "fp_frames (length data)"
  have "length data \<le> fp_offset ?n" using assms by (simp add: fp_frames_def)
  then show ?thesis using payload_stream [of ?n data] by (intro nth_equalityI) auto
qed

section \<open>A message on its way\<close>

text \<open>A transmit session of which \<open>k\<close> frames are sent.\<close>

definition sending :: "u8 list \<Rightarrow> u8 \<Rightarrow> nat \<Rightarrow> fp_session \<Rightarrow> bool" where
  "sending data seq k s \<longleftrightarrow> 8 < length data \<and> length data \<le> 223 \<and> direction s = DirTransmit \<and> session_data s = data \<and> totalMessageSize s = of_nat (length data)
     \<and> fp_sequenceNumber s = seq \<and> numberOfBytesTransferred s = of_nat (fp_offset k) \<and> k \<le> fp_frames (length data)"

definition wire_frame :: "fp_session \<Rightarrow> u8 \<Rightarrow> u8 list \<Rightarrow> nat \<Rightarrow> tx_frame" where
  "wire_frame s seq data k = \<lparr>f_pgn = parameterGroupNumber s, f_data = fp_wire seq data k, f_source = session_source s,
     f_destination = session_destination s, f_priority = fp_priority s\<rparr>"

lemma wire_frame_add [simp]: "wire_frame (add_number_of_bytes_transferred k t s) seq data = wire_frame s seq data"
  by (rule HOL.ext) (simp add: wire_frame_def)

lemma frames_bound: "length data \<le> 223 \<Longrightarrow> fp_frames (length data) \<le> 32"
  unfolding fp_frames_def by presburger

lemma sending_len: "sending data seq k s \<Longrightarrow> 8 < length data \<and> length data \<le> 223"
  by (simp add: sending_def)

lemma sending_packets:
  assumes "sending data seq k s"
  shows "unat (get_last_packet_number s) = k" "unat (get_number_of_remaining_packets s) = fp_frames (length data) - k"
    "fp_get_message_length s = of_nat (length data)" "get_last_packet_number s = of_nat k"
proof -
  have len: "8 < length data" "length data \<le> 223" using sending_len [OF assms] by simp_all
  have k: "k \<le> fp_frames (length data)" "numberOfBytesTransferred s = of_nat (fp_offset k)" using assms by (simp_all add: sending_def)
  have k32: "k \<le> 32" using k(1) frames_bound [OF len(2)] by simp
  have "unat (calculate_number_of_frames (ucast (get_total_bytes_transferred s))) = fp_frames (unat (of_nat (fp_offset k) :: u8))"
    by (simp add: frames_calculated get_total_bytes_transferred_def k(2))
  then have c: "unat (calculate_number_of_frames (ucast (get_total_bytes_transferred s))) = k" using frames_of_offset [OF k32] by simp
  then show last: "unat (get_last_packet_number s) = k"
    by (auto simp: get_last_packet_number_def Let_def word_less_nat_alt)
  then show "get_last_packet_number s = of_nat k" using word_of_nat_eq_iff by force
  show m: "fp_get_message_length s = of_nat (length data)" using assms len by (simp add: fp_get_message_length_def sending_def word_unat_eq_iff unsigned_ucast_eq unat_of_nat take_bit_nat_eq_self)
  have "unat (get_total_number_of_packets s) = fp_frames (length data)"
    using len by (simp add: get_total_number_of_packets_def frames_calculated m unat_of_nat)
  then show "unat (get_number_of_remaining_packets s) = fp_frames (length data) - k"
    using last k(1) by (simp add: get_number_of_remaining_packets_def unat_sub word_le_nat_alt)
qed

lemma sending_frame:
  assumes "sending data seq k s" "k < fp_frames (length data)"
  shows "fp_frame s = Some (fp_wire seq data k, if k = 0 then 6 else 7)"
proof -
  have len: "8 < length data" "length data \<le> 223" using sending_len [OF assms(1)] by simp_all
  have k32: "k < 32" using assms(2) frames_bound [OF len(2)] by simp
  have b: "numberOfBytesTransferred s = of_nat (fp_offset k)" "session_data s = data" "fp_sequenceNumber s = seq"
    using assms(1) by (simp_all add: sending_def)
  have bu: "unat (of_nat (fp_offset k) :: u8) = fp_offset k" using frames_of_offset [of k] k32 by simp
  have zero: "0 = get_total_bytes_transferred s \<longleftrightarrow> k = 0"
  proof -
    have "unat (get_total_bytes_transferred s) = fp_offset k"
      using bu by (simp add: get_total_bytes_transferred_def b(1) unsigned_ucast_eq take_bit_nat_eq_self)
    then have "get_total_bytes_transferred s = 0 \<longleftrightarrow> fp_offset k = 0" by (metis unat_eq_0)
    then show ?thesis by (auto simp: fp_offset_def)
  qed
  have off: "fp_offset k \<le> 216" using k32 by (simp add: fp_offset_def)
  have byte: "fp_frame_byte s (of_nat j) = Some (if fp_offset k + j < length data then data ! (fp_offset k + j) else 0xFF)" if "j < 7" for j
  proof -
    have "unat (of_nat (fp_offset k) + of_nat j :: u8) = fp_offset k + j"
      using off that bu by (simp add: unat_word_ariths unat_of_nat)
    moreover have "unat (of_nat (length data) :: u8) = length data" using len by (simp add: unat_of_nat)
    ultimately show ?thesis
      using sending_packets(3) [OF assms(1)] by (simp add: fp_frame_byte_def Let_def get_total_bytes_transferred_def b word_less_nat_alt)
  qed
  have some: "those (map (fp_frame_byte s) (map of_nat [0..<n]))
     = Some (map (\<lambda>j. if fp_offset k + j < length data then data ! (fp_offset k + j) else 0xFF) [0..<n])" if "n \<le> 7" for n
  proof -
    have "map (fp_frame_byte s) (map of_nat [0..<n])
        = map Some (map (\<lambda>j. if fp_offset k + j < length data then data ! (fp_offset k + j) else 0xFF) [0..<n])"
      using that byte by simp
    moreover have "those (map Some xs) = Some xs" for xs :: "u8 list" by (induction xs) simp_all
    ultimately show ?thesis by (simp only:)
  qed
  have six: "unat (PROTOCOL_BYTES_PER_FRAME - 1) = 6" "unat PROTOCOL_BYTES_PER_FRAME = 7" by simp_all
  show ?thesis
  proof (cases "k = 0")
    case True
    then show ?thesis using some [of 6] sending_packets(3,4) [OF assms(1)]
      by (simp add: fp_frame_def zero b(3) six fp_wire_def fp_payload_def Let_def del: upt_rec_numeral upt_Suc map_map)
  next
    case False
    then show ?thesis using some [of 7] sending_packets(3,4) [OF assms(1)]
      by (simp add: fp_frame_def zero b(3) six fp_wire_def fp_payload_def Let_def del: upt_rec_numeral upt_Suc map_map)
  qed
qed

lemma sending_next:
  assumes "sending data seq k s" "k < fp_frames (length data)"
  shows "sending data seq (Suc k) (add_number_of_bytes_transferred (if k = 0 then 6 else 7) t s)"
proof -
  have "(of_nat (fp_offset k) :: u8) + (if k = 0 then 6 else 7) = of_nat (fp_offset (Suc k))"
    by (cases k) (simp_all add: algebra_simps)
  then show ?thesis using assms by (simp add: sending_def)
qed

text \<open>One update sends half of the remaining frames (rounded up).\<close>

lemma send_loop_sends:
  assumes "sending data seq k s" "tx_replies (fp_manager w) = []" "fp_sessions w = [s]" "unat i \<le> fp_frames (length data) - k"
  defines "m \<equiv> (fp_frames (length data) - k - unat i + 1) div 2"
  shows "\<exists>s'. fp_send_loop i s w = Some (s', w\<lparr>fp_manager := (fp_manager w)\<lparr>tx_log := tx_log (fp_manager w) @ map (wire_frame s seq data) [k..<k + m],
       activeSessions := [s']\<rparr>\<rparr>) \<and> sending data seq (k + m) s' \<and> sid s' = sid s \<and> fp_key s' = fp_key s \<and> fp_priority s' = fp_priority s
       \<and> sessionCompleteCallback s' = sessionCompleteCallback s"
  using assms(1-4) unfolding m_def
proof (induction "fp_frames (length data) - k - unat i" arbitrary: i k s w rule: less_induct)
  case less
  let ?N = "fp_frames (length data)"
  have len: "8 < length data" "length data \<le> 223" using sending_len [OF less.prems(1)] by simp_all
  have rem: "unat (get_number_of_remaining_packets s) = ?N - k" using sending_packets(2) [OF less.prems(1)] .
  show ?case
  proof (cases "unat i < ?N - k")
    case False
    then have "\<not> i < get_number_of_remaining_packets s" using rem by (simp add: word_less_nat_alt)
    moreover have "w\<lparr>fp_manager := (fp_manager w)\<lparr>tx_log := tx_log (fp_manager w), activeSessions := [s]\<rparr>\<rparr> = w"
      using less.prems(3) by (cases w; cases "fp_manager w") simp
    ultimately show ?thesis using False less.prems(1) by (simp add: fp_send_loop.simps [of i s w])
  next
    case True
    then have kN: "k < ?N" by simp
    have more: "i < get_number_of_remaining_packets s" using True rem by (simp add: word_less_nat_alt)
    note fr = sending_frame [OF less.prems(1) kN]
    have sent: "send_frame (wire_frame s seq data k) (fp_manager w)
        = (True, (fp_manager w)\<lparr>tx_log := tx_log (fp_manager w) @ [wire_frame s seq data k]\<rparr>)"
      using less.prems(2) by (cases "fp_manager w") (simp add: send_frame_def)
    let ?t = "clock (fp_manager w)"
    let ?s1 = "add_number_of_bytes_transferred (if k = 0 then 6 else 7) ?t s"
    let ?w1 = "w\<lparr>fp_manager := (fp_manager w)\<lparr>tx_log := tx_log (fp_manager w) @ [wire_frame s seq data k], activeSessions := [?s1]\<rparr>\<rparr>"
    have s1: "sending data seq (Suc k) ?s1" by (rule sending_next [OF less.prems(1) kN])
    have step: "fp_send_loop i s w = fp_send_loop (i + 1) ?s1 ?w1"
      using more fr sent less.prems(3)
      by (simp add: fp_send_loop.simps [of i s w] wire_frame_def [symmetric] Let_def on_manager_def put_active_def put_session_def)
    have iu: "unat (i + 1) = Suc (unat i)"
    proof -
      have "unat i < 32" using True frames_bound [OF len(2)] by simp
      then show ?thesis by (simp add: unat_word_ariths)
    qed
    show ?thesis
    proof (cases "Suc (unat i) \<le> ?N - Suc k")
      case le: True
      have dec: "?N - Suc k - unat (i + 1) < ?N - k - unat i" using True iu by simp
      let ?m1 = "(?N - Suc k - unat (i + 1) + 1) div 2"
      obtain s' where s': "fp_send_loop (i + 1) ?s1 ?w1 = Some (s', ?w1\<lparr>fp_manager := (fp_manager ?w1)\<lparr>tx_log := tx_log (fp_manager ?w1)
            @ map (wire_frame ?s1 seq data) [Suc k..<Suc k + ?m1], activeSessions := [s']\<rparr>\<rparr>)"
          "sending data seq (Suc k + ?m1) s'" "sid s' = sid ?s1" "fp_key s' = fp_key ?s1" "fp_priority s' = fp_priority ?s1"
          "sessionCompleteCallback s' = sessionCompleteCallback ?s1"
        using less.hyps [OF dec s1, of ?w1] less.prems(2) le iu by auto
      have m: "(?N - k - unat i + 1) div 2 = Suc ?m1" using True le iu by presburger
      have "map (wire_frame s seq data) [k..<k + Suc ?m1] = wire_frame s seq data k # map (wire_frame s seq data) [Suc k..<Suc k + ?m1]"
        by (simp add: upt_rec [of k])
      then show ?thesis unfolding step m using s' by (simp add: add.commute)
    next
      case last: False
      then have nk: "?N - k = Suc (unat i)" using True by simp
      then have m: "(?N - k - unat i + 1) div 2 = 1" by simp
      have "\<not> i + 1 < get_number_of_remaining_packets ?s1"
        using sending_packets(2) [OF s1] iu last by (simp add: word_less_nat_alt)
      then have "fp_send_loop (i + 1) ?s1 ?w1 = Some (?s1, ?w1)" by (simp add: fp_send_loop.simps [of "i + 1" ?s1 ?w1])
      then show ?thesis unfolding step m using s1 by simp
    qed
  qed
qed

section \<open>Sending a whole message\<close>

definition fp_rounds :: "u32 list \<Rightarrow> fast_packet \<Rightarrow> fast_packet option" where
  \<comment> \<open>periodic updates, the clock advancing before each\<close>
  "fp_rounds ds w = run_events (\<lambda>d v. fp_update (on_manager (tick d) v)) ds w"

definition reported :: "fp_session \<Rightarrow> completion list" where
  "reported s = (case sessionCompleteCallback s of None \<Rightarrow> []
     | Some cb \<Rightarrow> [\<lparr>c_callback = cb, c_pgn = parameterGroupNumber s, c_length = totalMessageSize s, c_source = session_source s,
                    c_destination = session_destination s, c_success = True\<rparr>])"

definition fp_valid :: "cf_store \<Rightarrow> cf \<Rightarrow> cf option \<Rightarrow> bool" where
  "fp_valid store src dst \<longleftrightarrow> cf_address_valid (store src) \<and> (\<forall>d. dst = Some d \<longrightarrow> cf_address_valid (store d))"

lemma update_idle [simp]: "fp_sessions w = [] \<Longrightarrow> fp_update w = Some w"
  by (simp add: fp_update_def)

lemma complete_reported:
  "direction s = DirTransmit \<Longrightarrow> completions (complete True s v) = completions v @ reported s" for s :: fp_session
  by (simp add: complete_def reported_def split: option.split)

lemma update_sends:
  assumes s: "sending data seq k s" "k < fp_frames (length data)" and w: "tx_replies (fp_manager w) = []" "fp_sessions w = [s]"
    and ok: "fp_valid (cfs (fp_manager w)) (session_source s) (session_destination s)"
  defines "m \<equiv> (fp_frames (length data) - k + 1) div 2"
  shows "\<exists>w' s'. fp_update w = Some w' \<and> tx_log (fp_manager w') = tx_log (fp_manager w) @ map (wire_frame s seq data) [k..<k + m]
    \<and> tx_replies (fp_manager w') = [] \<and> cfs (fp_manager w') = cfs (fp_manager w)
    \<and> wire_frame s' = wire_frame s \<and> reported s' = reported s \<and> sending data seq (k + m) s' \<and> fp_key s' = fp_key s
    \<and> (if k + m = fp_frames (length data) then fp_sessions w' = [] \<and> completions (fp_manager w') = completions (fp_manager w) @ reported s
       else fp_sessions w' = [s'] \<and> completions (fp_manager w') = completions (fp_manager w))"
proof -
  let ?N = "fp_frames (length data)"
  have m0: "(?N - k - unat (0 :: u8) + 1) div 2 = m" by (simp add: m_def)
  have u0: "unat (0 :: u8) \<le> ?N - k" by simp
  obtain s' where s': "fp_send_loop 0 s w = Some (s', w\<lparr>fp_manager := (fp_manager w)\<lparr>tx_log := tx_log (fp_manager w) @ map (wire_frame s seq data) [k..<k + m],
       activeSessions := [s']\<rparr>\<rparr>)" "sending data seq (k + m) s'" "sid s' = sid s" "fp_key s' = fp_key s" "fp_priority s' = fp_priority s"
       "sessionCompleteCallback s' = sessionCompleteCallback s"
    using send_loop_sends [OF s(1) w u0] unfolding m0 by blast
  define w1 where "w1 = w\<lparr>fp_manager := (fp_manager w)\<lparr>tx_log := tx_log (fp_manager w) @ map (wire_frame s seq data) [k..<k + m], activeSessions := [s']\<rparr>\<rparr>"
  have w1: "fp_sessions w1 = [s']" "tx_log (fp_manager w1) = tx_log (fp_manager w) @ map (wire_frame s seq data) [k..<k + m]"
      "tx_replies (fp_manager w1) = []" "cfs (fp_manager w1) = cfs (fp_manager w)" "completions (fp_manager w1) = completions (fp_manager w)"
    using w by (simp_all add: w1_def)
  have size: "totalMessageSize s' = totalMessageSize s" "direction s' = DirTransmit" "direction s = DirTransmit"
    using s' s by (simp_all add: sending_def)
  have same: "wire_frame s' = wire_frame s" "reported s' = reported s"
    using s'(4-6) size by (auto simp: wire_frame_def [abs_def] reported_def fp_key_def split: option.split)
  have rem: "get_number_of_remaining_packets s' = 0 \<longleftrightarrow> k + m = ?N"
  proof -
    have "unat (get_number_of_remaining_packets s') = ?N - (k + m)" "k + m \<le> ?N"
      using sending_packets(2) [OF s'(2)] s'(2) by (simp_all add: sending_def)
    then show ?thesis by (metis diff_is_0_eq le_antisym order_refl unat_eq_zero)
  qed
  let ?w2 = "if k + m = ?N then fp_close_session s' True w1 else w1"
  have "fp_update_at 0 w = Some ?w2"
    using ok w(2) s'(1) [folded w1_def] size(3) rem unfolding fp_valid_def
    by (simp add: fp_update_at_def fp_update_session_def Let_def split: option.split)
  then have up: "fp_update w = Some ?w2" using w(2) by (simp add: fp_update_def)
  have closed: "fp_sessions (fp_close_session s' True w1) = []"
      "completions (fp_manager (fp_close_session s' True w1)) = completions (fp_manager w) @ reported s"
      "tx_log (fp_manager (fp_close_session s' True w1)) = tx_log (fp_manager w1)"
      "tx_replies (fp_manager (fp_close_session s' True w1)) = []"
      "cfs (fp_manager (fp_close_session s' True w1)) = cfs (fp_manager w)"
    using size(2) same(2) w1
    by (simp_all add: fp_close_session_def add_session_history_def on_manager_def close_session_def Let_def erase_session_def complete_reported)
  show ?thesis
  proof (cases "k + m = ?N")
    case True
    then have "fp_update w = Some (fp_close_session s' True w1)" using up by simp
    then show ?thesis using closed w1(2) same s'(2,4) True by (intro exI [of _ "fp_close_session s' True w1"] exI [of _ s']) simp
  next
    case False
    then have "fp_update w = Some w1" using up by simp
    then show ?thesis using w1 same s'(2,4) False by (intro exI [of _ w1] exI [of _ s']) simp
  qed
qed

lemma fp_tick_fields [simp]:
  "fp_sessions (on_manager (tick d) w) = fp_sessions w" "tx_replies (fp_manager (on_manager (tick d) w)) = tx_replies (fp_manager w)"
  "tx_log (fp_manager (on_manager (tick d) w)) = tx_log (fp_manager w)" "cfs (fp_manager (on_manager (tick d) w)) = cfs (fp_manager w)"
  "completions (fp_manager (on_manager (tick d) w)) = completions (fp_manager w)"
  by (simp_all add: on_manager_def tick_def)

lemma rounds_idle: "fp_sessions w = [] \<Longrightarrow> \<exists>w'. fp_rounds ds w = Some w' \<and> fp_sessions w' = [] \<and> tx_log (fp_manager w') = tx_log (fp_manager w)
    \<and> completions (fp_manager w') = completions (fp_manager w)"
proof (induction ds arbitrary: w)
  case (Cons d ds)
  then show ?case using Cons.IH [of "on_manager (tick d) w"] by (simp add: fp_rounds_def)
qed (simp add: fp_rounds_def)

lemma rounds_send:
  assumes "fp_frames (length data) - k < 2 ^ length ds"
  shows "sending data seq k s \<Longrightarrow> k < fp_frames (length data) \<Longrightarrow> tx_replies (fp_manager w) = [] \<Longrightarrow> fp_sessions w = [s]
    \<Longrightarrow> fp_valid (cfs (fp_manager w)) (session_source s) (session_destination s)
    \<Longrightarrow> \<exists>w'. fp_rounds ds w = Some w' \<and> fp_sessions w' = [] \<and> completions (fp_manager w') = completions (fp_manager w) @ reported s
      \<and> tx_log (fp_manager w') = tx_log (fp_manager w) @ map (wire_frame s seq data) [k..<fp_frames (length data)]"
  using assms
proof (induction ds arbitrary: k s w)
  case Nil
  then show ?case by simp
next
  case (Cons d ds)
  let ?N = "fp_frames (length data)"
  let ?w = "on_manager (tick d) w"
  let ?m = "(?N - k + 1) div 2"
  have w: "tx_replies (fp_manager ?w) = []" "fp_sessions ?w = [s]" "fp_valid (cfs (fp_manager ?w)) (session_source s) (session_destination s)"
    using Cons.prems(3-5) by simp_all
  obtain w1 s1 where w1: "fp_update ?w = Some w1" "tx_log (fp_manager w1) = tx_log (fp_manager ?w) @ map (wire_frame s seq data) [k..<k + ?m]"
      "tx_replies (fp_manager w1) = []" "cfs (fp_manager w1) = cfs (fp_manager ?w)" "wire_frame s1 = wire_frame s" "reported s1 = reported s"
      "sending data seq (k + ?m) s1" "fp_key s1 = fp_key s"
      "if k + ?m = ?N then fp_sessions w1 = [] \<and> completions (fp_manager w1) = completions (fp_manager ?w) @ reported s
       else fp_sessions w1 = [s1] \<and> completions (fp_manager w1) = completions (fp_manager ?w)"
    using update_sends [OF Cons.prems(1,2) w] by blast
  have le: "k + ?m \<le> ?N" using Cons.prems(2) by linarith
  show ?case
  proof (cases "k + ?m = ?N")
    case True
    then show ?thesis using rounds_idle [of w1 ds] w1 by (auto simp: fp_rounds_def)
  next
    case False
    have half: "?N - (k + ?m) < 2 ^ length ds" using Cons.prems(6) by simp
    have v: "fp_valid (cfs (fp_manager w1)) (session_source s1) (session_destination s1)"
      using Cons.prems(5) w1(4,8) by (simp add: fp_key_def)
    obtain w2 where "fp_rounds ds w1 = Some w2" "fp_sessions w2 = []" "completions (fp_manager w2) = completions (fp_manager w1) @ reported s1"
        "tx_log (fp_manager w2) = tx_log (fp_manager w1) @ map (wire_frame s1 seq data) [k + ?m..<?N]"
      using Cons.IH [OF w1(7) _ w1(3) _ v half] w1(9) False le by auto
    moreover have "[k..<?N] = [k..<k + ?m] @ [k + ?m..<?N]" using le upt_add_eq_append [of k "k + ?m" "?N - (k + ?m)"] by simp
    ultimately show ?thesis using w1 False by (simp add: fp_rounds_def)
  qed
qed

section \<open>Receiving a whole message\<close>

definition fp_of :: "u32 \<Rightarrow> cf \<Rightarrow> cf option \<Rightarrow> CANMessage \<Rightarrow> bool" where
  "fp_of pgn src dst m \<longleftrightarrow> msg_source m = Some src \<and> msg_destination m = dst \<and> get_parameter_group_number (msg_identifier m) = pgn
     \<and> length (msg_data m) = 8"

definition fp_listens :: "fast_packet \<Rightarrow> CANMessage \<Rightarrow> bool" where
  "fp_listens w m \<longleftrightarrow> list_ex (callback_applies m) (parameterGroupNumberCallbacks w)
     \<and> (is_destination_our_device (cfs (fp_manager w)) m \<or> allowAnyControlFunction w \<or> is_broadcast (cfs (fp_manager w)) m)"

definition fp_delivered :: "fast_packet \<Rightarrow> CANMessage \<Rightarrow> u8 list \<Rightarrow> (nat \<times> CANMessage) list" where
  \<comment> \<open>the calls a completed message makes\<close>
  "fp_delivered w m bytes = map (\<lambda>cb. (cb_callback cb, make_message Receive (msg_identifier m) bytes (msg_source m) (msg_destination m)
      (msg_port m) (CANMessage.timestamp_us m))) (filter (callback_applies m) (parameterGroupNumberCallbacks w))"

definition fp_counter :: "CANMessage \<Rightarrow> u8" where
  "fp_counter m = msg_data m ! 0 AND FRAME_COUNTER_BIT_MASK"

lemma listens_same: "fp_of pgn src dst m \<Longrightarrow> fp_of pgn src dst m' \<Longrightarrow> fp_listens w m = fp_listens w m'"
  by (simp add: fp_of_def fp_listens_def callback_applies_def [abs_def] is_destination_our_device_def is_broadcast_def
      has_valid_destination_control_function_def)

lemma fp_process_heard:
  assumes "fp_of pgn src dst m" "fp_listens w m" "FP_MIN_PARAMETER_GROUP_NUMBER \<le> pgn" "pgn \<le> FP_MAX_PARAMETER_GROUP_NUMBER"
  shows "fp_process_message m w = (case fp_get_session pgn src dst w of
      Some s \<Rightarrow> if fp_counter m = 0 then Some (fp_close_session s False w) else fp_continue s m w
    | None \<Rightarrow> if fp_counter m \<noteq> 0 then Some w else fp_start src m w)"
proof -
  have "get_uint8_at 0 m = Some (msg_data m ! 0)" "get_data_length m = 8" using assms(1) uint8_at_ok [of m 0] by (simp_all add: fp_of_def get_data_length_def)
  moreover have "parameterGroupNumberCallbacks w \<noteq> []" using assms(2) by (auto simp: fp_listens_def)
  ultimately show ?thesis using assms by (auto simp: fp_process_message_def Let_def fp_of_def fp_listens_def fp_counter_def not_less split: option.split)
qed

definition receiving :: "nat \<Rightarrow> u8 list \<Rightarrow> fp_session \<Rightarrow> bool" where
  "receiving L got s \<longleftrightarrow> fp_vector s \<and> L < 256 \<and> length (session_data s) = L \<and> totalMessageSize s = of_nat L \<and> length got \<le> L
     \<and> numberOfBytesTransferred s = of_nat (length got) \<and> take (length got) (session_data s) = got"

lemma receiving_copy:
  assumes "receiving L got s" "length got < L" "first + room \<le> length (msg_data m)" "length (msg_data m) = 8"
  shows "\<exists>s'. fp_copy first room m s = Some s' \<and> receiving L (take L (got @ take room (drop first (msg_data m)))) s' \<and> sid s' = sid s \<and> fp_key s' = fp_key s
     \<and> sessionCompleteCallback s' = sessionCompleteCallback s \<and> direction s' = direction s"
proof -
  let ?g = "length got"
  let ?n = "min room (L - ?g)"
  have r: "fp_vector s" "L < 256" "length (session_data s) = L" "totalMessageSize s = of_nat L" "numberOfBytesTransferred s = of_nat ?g" "take ?g (session_data s) = got"
    using assms(1) by (simp_all add: receiving_def)
  have u: "unat (numberOfBytesTransferred s) = ?g" using r assms(2) by (simp add: unat_of_nat)
  have ml: "unat (fp_get_message_length s) = L" using r by (simp add: fp_get_message_length_def unsigned_ucast_eq unat_of_nat take_bit_nat_eq_self)
  let ?s' = "s\<lparr>session_data := take ?g (session_data s) @ take ?n (drop first (msg_data m)) @ drop (?g + ?n) (session_data s),
      numberOfBytesTransferred := numberOfBytesTransferred s + of_nat ?n\<rparr>"
  have "?g + ?n \<le> L" "first + ?n \<le> 8" using assms(2-4) by (auto simp: min_def)
  then have copy: "fp_copy first room m s = Some ?s'" using assms(4) r(3) by (simp add: fp_copy_def Let_def u ml)
  let ?b = "take ?n (drop first (msg_data m))"
  have lb: "length ?b = ?n" using assms(3) by simp
  have got': "take L (got @ take room (drop first (msg_data m))) = got @ ?b" using assms(2) by (simp add: min.commute)
  have "receiving L (got @ ?b) ?s'"
    using r assms(2) lb unfolding receiving_def by (simp add: r(6))
  then show ?thesis using copy got' by (simp add: fp_key_def)
qed

lemma find_append_last: "\<not> list_ex P xs \<Longrightarrow> P x \<Longrightarrow> find P (xs @ [x]) = Some x"
  by (induction xs) simp_all

lemma fp_get_in_hand:
  "\<not> list_ex (fp_matches pgn src dst) ss \<Longrightarrow> fp_matches pgn src dst s \<Longrightarrow> fp_sessions w = ss @ [s] \<Longrightarrow> fp_get_session pgn src dst w = Some s"
  by (simp add: fp_get_session_def find_append_last)

lemma put_last: "\<forall>t \<in> set ss. sid t \<noteq> sid s \<Longrightarrow> sid s' = sid s \<Longrightarrow> put_session s' (ss @ [s]) = ss @ [s']"
  by (simp add: put_session_def map_idI)

lemma erase_last: "\<forall>t \<in> set ss. sid t \<noteq> sid s \<Longrightarrow> erase_session (sid s) (ss @ [s]) = ss"
  by (simp add: erase_session_def)

lemma receiving_stamped [simp]: "receiving L got (update_timestamp t s) = receiving L got s"
  "fp_key (update_timestamp t s) = fp_key s" "sid (update_timestamp t s) = sid s"
  "sessionCompleteCallback (update_timestamp t s) = sessionCompleteCallback s" "direction (update_timestamp t s) = direction s"
  for s :: fp_session
  by (simp_all add: receiving_def update_timestamp_def fp_key_def)

lemma receiving_length: "receiving L got s \<Longrightarrow> unat (fp_get_message_length s) = L \<and> unat (numberOfBytesTransferred s) = length got"
  by (simp add: receiving_def fp_get_message_length_def unsigned_ucast_eq unat_of_nat take_bit_nat_eq_self)

lemma receiving_vector: "receiving L got s \<Longrightarrow> fp_vector s"
  by (simp add: receiving_def)

text \<open>The frames after the first one, whatever their counters and sequence numbers.\<close>

lemma frames_continue:
  assumes "ms \<noteq> []"
  shows "fp_sessions w = ss @ [s] \<Longrightarrow> \<not> list_ex (fp_matches pgn src dst) ss \<Longrightarrow> fp_key s = (pgn, src, dst) \<Longrightarrow> \<forall>t \<in> set ss. sid t \<noteq> sid s
    \<Longrightarrow> receiving L got s \<Longrightarrow> direction s = DirReceive \<Longrightarrow> sessionCompleteCallback s = None
    \<Longrightarrow> \<forall>m \<in> set ms. fp_of pgn src dst m \<and> fp_counter m \<noteq> 0 \<and> fp_listens w m
    \<Longrightarrow> FP_MIN_PARAMETER_GROUP_NUMBER \<le> pgn \<Longrightarrow> pgn \<le> FP_MAX_PARAMETER_GROUP_NUMBER
    \<Longrightarrow> length got + 7 * (length ms - 1) < L \<Longrightarrow> L \<le> length got + 7 * length ms
    \<Longrightarrow> \<exists>w'. run_events fp_process_message ms w = Some w' \<and> fp_sessions w' = ss
      \<and> fp_calls w' = fp_calls w @ fp_delivered w (last ms) (take L (got @ concat (map (\<lambda>m. tl (msg_data m)) ms)))"
  using assms
proof (induction ms arbitrary: w s got rule: list_nonempty_induct)
  case (single m)
  note * = single.prems
  have m: "fp_of pgn src dst m" "fp_counter m \<noteq> 0" "fp_listens w m" "length (msg_data m) = 8" using *(8) by (auto simp: fp_of_def)
  have got: "fp_get_session pgn src dst w = Some s"
    by (rule fp_get_in_hand [OF *(2) _ *(1)]) (use *(3) in \<open>simp add: fp_matches_def session_matches_def fp_key_def\<close>)
  have less: "\<not> fp_get_message_length s \<le> numberOfBytesTransferred s"
    using receiving_length [OF *(5)] *(11) by (simp add: word_le_nat_alt)
  obtain s1 where s1: "fp_copy 1 7 m s = Some s1" "receiving L (take L (got @ take 7 (drop 1 (msg_data m)))) s1" "sid s1 = sid s" "fp_key s1 = fp_key s"
      "sessionCompleteCallback s1 = sessionCompleteCallback s" "direction s1 = direction s"
    using receiving_copy [OF *(5) _ _ m(4), of 1 7] *(11) m(4) by auto
  have tl: "take 7 (drop 1 (msg_data m)) = tl (msg_data m)" using m(4) by (simp add: drop_Suc)
  let ?all = "take L (got @ tl (msg_data m))"
  have full: "length ?all = L" using *(12) m(4) by simp
  let ?s2 = "update_timestamp (clock (fp_manager w)) s1"
  have done': "fp_get_message_length ?s2 \<le> numberOfBytesTransferred ?s2"
    using receiving_length [of L ?all ?s2] s1(2) full unfolding tl by (simp add: word_le_nat_alt)
  have data: "session_data ?s2 = ?all" using s1(2) full unfolding tl receiving_def by auto
  have put: "fp_sessions (on_manager (put_active ?s2) w) = ss @ [?s2]"
    using put_last [OF *(4), of ?s2] s1(3) *(1) by (simp add: on_manager_def put_active_def)
  have erase: "erase_session (sid s) (ss @ [?s2]) = ss" using erase_last [of ss ?s2] *(4) s1(3) by simp
  let ?w1 = "fp_dispatch m ?all (on_manager (put_active ?s2) w)"
  have "fp_continue s m w = Some (fp_close_session ?s2 True ?w1)"
    using less s1(1) done' data by (simp add: fp_continue_def Let_def receiving_vector [OF *(5)] del: stamped_fields)
  moreover have "fp_sessions (fp_close_session ?s2 True ?w1) = ss"
    using put erase s1(3) by (simp add: fp_close_session_def add_session_history_def on_manager_def close_session_def Let_def)
  moreover have "fp_calls (fp_close_session ?s2 True ?w1) = fp_calls w @ fp_delivered w m ?all"
    by (simp add: fp_close_session_def add_session_history_def on_manager_def fp_dispatch_def Let_def fp_delivered_def)
  ultimately show ?case using fp_process_heard [OF m(1,3) *(9,10)] got m(2) by simp
next
  case (cons m ms)
  note * = cons.prems
  have m: "fp_of pgn src dst m" "fp_counter m \<noteq> 0" "fp_listens w m" "length (msg_data m) = 8" using *(8) by (auto simp: fp_of_def)
  have got: "fp_get_session pgn src dst w = Some s"
    by (rule fp_get_in_hand [OF *(2) _ *(1)]) (use *(3) in \<open>simp add: fp_matches_def session_matches_def fp_key_def\<close>)
  have less: "\<not> fp_get_message_length s \<le> numberOfBytesTransferred s"
    using receiving_length [OF *(5)] *(11) by (simp add: word_le_nat_alt)
  obtain s1 where s1: "fp_copy 1 7 m s = Some s1" "receiving L (take L (got @ take 7 (drop 1 (msg_data m)))) s1" "sid s1 = sid s" "fp_key s1 = fp_key s"
      "sessionCompleteCallback s1 = sessionCompleteCallback s" "direction s1 = direction s"
    using receiving_copy [OF *(5) _ _ m(4), of 1 7] *(11) m(4) by auto
  have tl: "take 7 (drop 1 (msg_data m)) = tl (msg_data m)" using m(4) by (simp add: drop_Suc)
  have lms: "0 < length ms" using cons.hyps by simp
  have room: "length got + 7 < L" using *(11) lms by (cases "length ms") simp_all
  have all: "take L (got @ tl (msg_data m)) = got @ tl (msg_data m)" using room m(4) by simp
  let ?s2 = "update_timestamp (clock (fp_manager w)) s1"
  have r2: "receiving L (got @ tl (msg_data m)) ?s2" using s1(2) unfolding tl all by simp
  have more: "\<not> fp_get_message_length ?s2 \<le> numberOfBytesTransferred ?s2"
    using receiving_length [OF r2] room m(4) by (simp add: word_le_nat_alt)
  let ?w1 = "on_manager (put_active ?s2) w"
  have put: "fp_sessions ?w1 = ss @ [?s2]"
    using put_last [OF *(4), of ?s2] s1(3) *(1) by (simp add: on_manager_def put_active_def)
  have step: "fp_process_message m w = Some ?w1"
    using fp_process_heard [OF m(1,3) *(9,10)] got m(2) less s1(1) more by (simp add: fp_continue_def Let_def receiving_vector [OF *(5)] del: stamped_fields)
  have same: "fp_listens ?w1 = fp_listens w" "fp_delivered ?w1 = fp_delivered w" "fp_calls ?w1 = fp_calls w"
    by (simp_all add: fp_listens_def [abs_def] fp_delivered_def [abs_def] on_manager_def)
  have "\<exists>w'. run_events fp_process_message ms ?w1 = Some w' \<and> fp_sessions w' = ss
      \<and> fp_calls w' = fp_calls ?w1 @ fp_delivered ?w1 (last ms) (take L ((got @ tl (msg_data m)) @ concat (map (\<lambda>m. tl (msg_data m)) ms)))"
  proof (rule cons.IH [OF put *(2) _ _ r2])
    show "fp_key ?s2 = (pgn, src, dst)" "\<forall>t \<in> set ss. sid t \<noteq> sid ?s2" "direction ?s2 = DirReceive" "sessionCompleteCallback ?s2 = None"
      using s1 *(3,4,6,7) by simp_all
    show "\<forall>m \<in> set ms. fp_of pgn src dst m \<and> fp_counter m \<noteq> 0 \<and> fp_listens ?w1 m" using *(8) same by simp
    show "length (got @ tl (msg_data m)) + 7 * (length ms - 1) < L" using *(11) m(4) lms by (cases "length ms") simp_all
    show "L \<le> length (got @ tl (msg_data m)) + 7 * length ms" using *(12) m(4) by simp
  qed (use *(9,10) in simp_all)
  then show ?case using step same cons.hyps by simp
qed

lemma reassembled:
  assumes table: "fp_good w" "\<not> fp_has_session pgn src dst w"
    and first: "fp_of pgn src dst m" "fp_counter m = 0" "msg_data m ! 1 = of_nat L" "8 < L" "L \<le> 223"
    and rest: "\<forall>x \<in> set ms. fp_of pgn src dst x \<and> fp_counter x \<noteq> 0" "length ms = L div 7"
    and heard: "fp_listens w m" "FP_MIN_PARAMETER_GROUP_NUMBER \<le> pgn" "pgn \<le> FP_MAX_PARAMETER_GROUP_NUMBER"
  shows "\<exists>w'. run_events fp_process_message (m # ms) w = Some w' \<and> fp_sessions w' = fp_sessions w
    \<and> fp_calls w' = fp_calls w @ fp_delivered w (last ms) (take L (drop 2 (msg_data m) @ concat (map (\<lambda>x. tl (msg_data x)) ms)))"
proof -
  have m8: "length (msg_data m) = 8" "msg_source m = Some src" "msg_destination m = dst" "get_parameter_group_number (msg_identifier m) = pgn"
    using first(1) by (simp_all add: fp_of_def)
  have len: "unat (msg_data m ! 1) = L" using first(3-5) by (simp add: unat_of_nat)
  have none: "fp_get_session pgn src dst w = None" using table(2)
    by (auto simp: fp_get_session_def fp_has_session_def find_None_iff list_ex_iff)
  have u: "get_uint8_at 1 m = Some (msg_data m ! 1)" "get_uint8_at 0 m = Some (msg_data m ! 0)" using uint8_at_ok [OF m8(1)] by simp_all
  obtain s w1 where new: "fp_new_session DirReceive (DataVector (replicate L 0)) pgn (msg_data m ! 0 AND SEQUENCE_NUMBER_BIT_MASK)
      (get_priority (msg_identifier m)) src dst None w = (s, w1)" by force
  note f = fp_new_session_fields [OF new]
  have r0: "receiving L [] s" using f first(5) by (simp add: receiving_def)
  obtain s1 where s1: "fp_copy 2 6 m s = Some s1" "receiving L (take L ([] @ take 6 (drop 2 (msg_data m)))) s1" "sid s1 = sid s" "fp_key s1 = fp_key s"
      "sessionCompleteCallback s1 = sessionCompleteCallback s" "direction s1 = direction s"
    using receiving_copy [OF r0 _ _ m8(1), of 2 6] first(4) m8(1) by auto
  let ?s2 = "update_timestamp (clock (fp_manager w)) s1"
  let ?w2 = "on_manager (push_active ?s2) w1"
  have r2: "receiving L (drop 2 (msg_data m)) ?s2" using s1(2) m8(1) first(4) by simp
  have "\<not> (unat (msg_data m ! 1) > 223 \<or> msg_data m ! 1 \<le> 8)" using len first(4,5) by (simp add: word_le_nat_alt)
  then have step: "fp_process_message m w = Some ?w2"
    using fp_process_heard [OF first(1) heard] none first(2) u len new s1(1) m8 by (simp add: fp_start_def Let_def)
  have same: "fp_listens ?w2 = fp_listens w" "fp_delivered ?w2 = fp_delivered w" "fp_calls ?w2 = fp_calls w" "fp_sessions ?w2 = fp_sessions w @ [?s2]"
    using f by (simp_all add: fp_listens_def [abs_def] fp_delivered_def [abs_def] on_manager_def push_active_def)
  have "\<exists>w'. run_events fp_process_message ms ?w2 = Some w' \<and> fp_sessions w' = fp_sessions w
      \<and> fp_calls w' = fp_calls ?w2 @ fp_delivered ?w2 (last ms) (take L (drop 2 (msg_data m) @ concat (map (\<lambda>x. tl (msg_data x)) ms)))"
  proof (rule frames_continue [OF _ same(4) _ _ _ r2])
    show "ms \<noteq> []" using rest(2) first(4) by auto
    show "\<not> list_ex (fp_matches pgn src dst) (fp_sessions w)" using table(2) by (simp add: fp_has_session_def)
    have "fp_key s = (pgn, src, dst)" using f by (simp add: fp_key_def)
    then show "fp_key ?s2 = (pgn, src, dst)" using s1(4) by simp
    show "\<forall>t \<in> set (fp_sessions w). sid t \<noteq> sid ?s2" using s1(3) f table(1) by (auto simp: fp_good_def fp_table_def)
    show "direction ?s2 = DirReceive" "sessionCompleteCallback ?s2 = None" using s1(5,6) f by simp_all
    show "\<forall>x \<in> set ms. fp_of pgn src dst x \<and> fp_counter x \<noteq> 0 \<and> fp_listens ?w2 x"
      using rest(1) heard(1) listens_same [OF first(1)] unfolding same by blast
    have "0 < L div 7" using first(4) by presburger
    then show "length (drop 2 (msg_data m)) + 7 * (length ms - 1) < L" unfolding rest(2) using m8(1) by (simp add: diff_mult_distrib2)
    show "L \<le> length (drop 2 (msg_data m)) + 7 * length ms" unfolding rest(2) using m8(1) by simp
  qed (use heard in simp_all)
  then show ?thesis using step same by simp
qed


section \<open>From sender to receiver\<close>

text \<open>The frames of a message as the network hands them to the receiver.\<close>

lemma wire_messages:
  assumes ms: "list_all2 carried (map (wire_frame s seq data) [0..<fp_frames (length data)]) ms" and len: "8 < length data" "length data \<le> 223"
    and s: "parameterGroupNumber s = pgn" "session_source s = src" "session_destination s = dst"
  shows "\<exists>m rest. ms = m # rest \<and> fp_of pgn src dst m \<and> fp_counter m = 0 \<and> msg_data m ! 1 = of_nat (length data)
    \<and> (\<forall>x \<in> set rest. fp_of pgn src dst x \<and> fp_counter x \<noteq> 0) \<and> length rest = length data div 7
    \<and> take (length data) (drop 2 (msg_data m) @ concat (map (\<lambda>x. tl (msg_data x)) rest)) = data"
proof -
  let ?N = "fp_frames (length data)"
  have N: "?N = Suc (length data div 7)" using len by (auto simp: fp_frames_def)
  have lm: "length ms = ?N" using ms by (simp add: list_all2_conv_all_nth)
  have nth: "fp_of pgn src dst (ms ! k) \<and> msg_data (ms ! k) = fp_wire seq data k" if "k < ?N" for k
  proof -
    have "carried (wire_frame s seq data k) (ms ! k)" using ms that by (simp add: list_all2_conv_all_nth)
    then show ?thesis using s by (simp add: carried_def wire_frame_def fp_of_def)
  qed
  obtain m rest where m: "ms = m # rest" using lm N by (cases ms) simp_all
  have lr: "length rest = length data div 7" using lm m N by simp
  have r: "fp_of pgn src dst (rest ! k) \<and> msg_data (rest ! k) = fp_wire seq data (Suc k)" if "k < length rest" for k
    using nth [of "Suc k"] that lr N unfolding m by simp
  have first: "fp_of pgn src dst m" "msg_data m = fp_wire seq data 0" using nth [of 0] N unfolding m by simp_all
  have b: "length data div 7 \<le> 31" using len(2) by presburger
  have counters: "fp_counter x \<noteq> 0 \<and> fp_of pgn src dst x" if x: "x \<in> set rest" for x
  proof -
    obtain k where k: "k < length rest" "x = rest ! k" using x by (metis in_set_conv_nth)
    then have "fp_counter x = of_nat (Suc k)" using r [of k] lr b wire_counter [of "Suc k" seq] by (simp add: fp_counter_def fp_wire_def del: of_nat_Suc)
    moreover have "unat (of_nat (Suc k) :: u8) = Suc k" using k lr b by (simp add: unat_of_nat del: of_nat_Suc)
    ultimately show ?thesis using r k by (metis nat.distinct(1) unat_eq_zero)
  qed
  have "concat (map (\<lambda>x. tl (msg_data x)) rest) = concat (map (fp_payload data) [Suc 0..<?N])"
  proof -
    have "map (\<lambda>x. tl (msg_data x)) rest = map (fp_payload data) [Suc 0..<?N]"
      by (rule nth_equalityI) (use r lr N in \<open>simp_all add: fp_wire_def del: upt_Suc\<close>)
    then show ?thesis by simp
  qed
  moreover have "drop 2 (msg_data m) = fp_payload data 0" using first(2) by (simp add: fp_wire_def)
  moreover have "[0..<?N] = 0 # [Suc 0..<?N]" using N by (simp add: upt_rec [of 0])
  ultimately have "drop 2 (msg_data m) @ concat (map (\<lambda>x. tl (msg_data x)) rest) = concat (map (fp_payload data) [0..<?N])" by simp
  then have bytes: "take (length data) (drop 2 (msg_data m) @ concat (map (\<lambda>x. tl (msg_data x)) rest)) = data"
    using message_from_payloads [of data] len by fastforce
  have "fp_counter m = 0" "msg_data m ! 1 = of_nat (length data)"
    using first(2) wire_counter [of 0 seq] by (simp_all add: fp_counter_def fp_wire_def)
  then show ?thesis using m first(1) counters lr bytes by blast
qed

text \<open>
  C31: a message of 9 to 223 bytes arrives: a protocol object without sessions accepts it (as bytes or as a chunk callback that supplies them), sends all its
  frames within six updates (every update sends half of what remains), reports success and forgets the session;
  and any receiver that listens to the parameter group and has no session for it, given exactly these frames
  in order, calls its callbacks once with exactly these bytes and is left with the sessions it had.
\<close>

theorem fast_packet_delivered:
  assumes data: "fp_bytes d = data" and len: "8 < length data" "length data \<le> 223" and pgn: "FP_MIN_PARAMETER_GROUP_NUMBER \<le> pgn" "pgn \<le> FP_MAX_PARAMETER_GROUP_NUMBER"
    and sender: "fp_sessions w = []" "tx_replies (fp_manager w) = []" "fp_valid (cfs (fp_manager w)) src dst"
    and updates: "length ds = 6"
    and receiver: "fp_good v" "\<not> fp_has_session pgn src dst v"
  shows "\<exists>w1 w2 frames. send_multipacket_message pgn (Some d) (Some src) dst prio (Some cb) w = (True, w1)
    \<and> fp_rounds ds w1 = Some w2 \<and> fp_sessions w2 = [] \<and> tx_log (fp_manager w2) = tx_log (fp_manager w) @ frames
    \<and> completions (fp_manager w2) = completions (fp_manager w) @ [\<lparr>c_callback = cb, c_pgn = pgn, c_length = of_nat (length data),
         c_source = src, c_destination = dst, c_success = True\<rparr>]
    \<and> (\<forall>ms. list_all2 carried frames ms \<and> fp_listens v (hd ms) \<longrightarrow>
         (\<exists>v'. run_events fp_process_message ms v = Some v' \<and> fp_sessions v' = fp_sessions v
           \<and> fp_calls v' = fp_calls v @ fp_delivered v (last ms) data))"
proof -
  let ?seq = "get_new_sequence_number (controlFunctionNAME (cfs (fp_manager w) src)) pgn w"
  obtain s w0 where new: "fp_new_session DirTransmit d pgn ?seq prio src dst (Some cb) w = (s, w0)" by force
  note f = fp_new_session_fields [OF new, unfolded data]
  let ?w1 = "on_manager (push_active s) w0"
  have valid: "cf_address_valid (cfs (fp_manager w) src)" "\<forall>d. dst = Some d \<longrightarrow> cf_address_valid (cfs (fp_manager w) d)"
    using sender(3) by (simp_all add: fp_valid_def)
  have send: "send_multipacket_message pgn (Some d) (Some src) dst prio (Some cb) w = (True, ?w1)"
    using data len pgn valid sender(1) new
    by (simp add: send_multipacket_message_def fp_has_session_def Let_def not_less not_le split: option.split)
  have w1: "tx_replies (fp_manager ?w1) = []" "fp_sessions ?w1 = [s]" "cfs (fp_manager ?w1) = cfs (fp_manager w)"
      "tx_log (fp_manager ?w1) = tx_log (fp_manager w)" "completions (fp_manager ?w1) = completions (fp_manager w)"
    using f sender by (simp_all add: on_manager_def push_active_def)
  have s: "sending data ?seq 0 s" using f len by (simp add: sending_def)
  have N: "0 < fp_frames (length data)" "fp_frames (length data) - 0 < 2 ^ length ds"
    using frames_bound [OF len(2)] len updates by (auto simp: fp_frames_def)
  have v1: "fp_valid (cfs (fp_manager ?w1)) (session_source s) (session_destination s)" using sender(3) w1(3) f by simp
  obtain w2 where w2: "fp_rounds ds ?w1 = Some w2" "fp_sessions w2 = []" "completions (fp_manager w2) = completions (fp_manager ?w1) @ reported s"
      "tx_log (fp_manager w2) = tx_log (fp_manager ?w1) @ map (wire_frame s ?seq data) [0..<fp_frames (length data)]"
    using rounds_send [OF N(2) s N(1) w1(1,2) v1] by blast
  let ?frames = "map (wire_frame s ?seq data) [0..<fp_frames (length data)]"
  have rep: "reported s = [\<lparr>c_callback = cb, c_pgn = pgn, c_length = of_nat (length data), c_source = src, c_destination = dst, c_success = True\<rparr>]"
    using f by (simp add: reported_def)
  have "\<exists>v'. run_events fp_process_message ms v = Some v' \<and> fp_sessions v' = fp_sessions v
           \<and> fp_calls v' = fp_calls v @ fp_delivered v (last ms) data" if ms: "list_all2 carried ?frames ms" "fp_listens v (hd ms)" for ms
  proof -
    obtain m rest where m: "ms = m # rest" "fp_of pgn src dst m" "fp_counter m = 0" "msg_data m ! 1 = of_nat (length data)"
        "\<forall>x \<in> set rest. fp_of pgn src dst x \<and> fp_counter x \<noteq> 0" "length rest = length data div 7"
        "take (length data) (drop 2 (msg_data m) @ concat (map (\<lambda>x. tl (msg_data x)) rest)) = data"
      using wire_messages [OF ms(1) len, of pgn src dst] f by auto
    have "rest \<noteq> []" using m(6) len by auto
    moreover have "fp_listens v m" using ms(2) m(1) by simp
    ultimately show ?thesis
      using reassembled [OF receiver m(2-4) len m(5,6) _ pgn] m(1,7) by simp
  qed
  then show ?thesis using send w2 w1 rep by (intro exI [of _ ?w1] exI [of _ w2] exI [of _ ?frames]) simp
qed

text \<open>Concrete runs: a listener of one parameter group.\<close>

definition fp_demo :: fast_packet where
  "fp_demo = register_multipacket_message_callback 0x1F805 1 None (fp_initial demo_store default_configuration)"

lemma fp_demo_good: "fp_good fp_demo" "fp_sessions fp_demo = []" "tx_replies (fp_manager fp_demo) = []"
  using fp_initial_good [of demo_store default_configuration]
  by (simp_all add: fp_demo_def register_multipacket_message_callback_def fp_good_def fp_initial_def)

definition fp_demo_message :: "u8 list \<Rightarrow> CANMessage" where
  "fp_demo_message bytes = make_message Receive (make_identifier Extended 0x1F805 PriorityDefault6 0xFF 0x1C) bytes (Some 7) None 0 0"

lemma fp_demo_of: "length bytes = 8 \<Longrightarrow> fp_of 0x1F805 7 None (fp_demo_message bytes)"
proof -
  assume "length bytes = 8"
  moreover have "get_parameter_group_number (make_identifier Extended 0x1F805 PriorityDefault6 0xFF 0x1C) = 0x1F805" by code_simp
  ultimately show ?thesis by (simp add: fp_of_def fp_demo_message_def make_message_def)
qed

lemma fp_demo_listens:
  assumes "fp_of 0x1F805 7 None m"
  shows "fp_listens fp_demo m"
  using assms by (simp add: fp_listens_def fp_demo_def register_multipacket_message_callback_def fp_initial_def callback_applies_def fp_of_def
      is_broadcast_def has_valid_destination_control_function_def)

theorem frames_reassembled_unordered:
  assumes table: "fp_good w" "\<not> fp_has_session pgn src dst w"
    and first: "fp_of pgn src dst m" "fp_counter m = 0" "msg_data m ! 1 = of_nat L" "8 < L" "L \<le> 223"
    and rest: "\<forall>x \<in> set ms. fp_of pgn src dst x \<and> fp_counter x \<noteq> 0" "length ms = L div 7"
    and heard: "fp_listens w m" "FP_MIN_PARAMETER_GROUP_NUMBER \<le> pgn" "pgn \<le> FP_MAX_PARAMETER_GROUP_NUMBER"
  shows "\<exists>w'. run_events fp_process_message (m # ms) w = Some w' \<and> fp_sessions w' = fp_sessions w
    \<and> fp_calls w' = fp_calls w @ fp_delivered w (last ms) (take L (drop 2 (msg_data m) @ concat (map (\<lambda>x. tl (msg_data x)) ms)))"
  by (rule reassembled [OF assms])

theorem frames_reassembled_unordered_witness:
  "\<exists>w'. run_events fp_process_message [fp_demo_message [0x20, 15, 1, 2, 3, 4, 5, 6], fp_demo_message [0x42, 14, 15, 255, 255, 255, 255, 255],
      fp_demo_message [0x81, 7, 8, 9, 10, 11, 12, 13]] fp_demo = Some w'
    \<and> fp_sessions w' = fp_sessions fp_demo
    \<and> fp_calls w' = fp_calls fp_demo @ fp_delivered fp_demo (last [fp_demo_message [0x42, 14, 15, 255, 255, 255, 255, 255],
      fp_demo_message [0x81, 7, 8, 9, 10, 11, 12, 13]])
      (take 15 (drop 2 (msg_data (fp_demo_message [0x20, 15, 1, 2, 3, 4, 5, 6])) @ concat (map (\<lambda>x. tl (msg_data x))
        [fp_demo_message [0x42, 14, 15, 255, 255, 255, 255, 255], fp_demo_message [0x81, 7, 8, 9, 10, 11, 12, 13]])))"
proof (rule frames_reassembled_unordered [where pgn = "0x1F805" and src = 7 and dst = None])
  have of8: "fp_of 0x1F805 7 None (fp_demo_message bytes)" if "length bytes = 8" for bytes using fp_demo_of that by simp
  show "fp_good fp_demo" "\<not> fp_has_session 0x1F805 7 None fp_demo" using fp_demo_good by (simp_all add: fp_has_session_def)
  show "fp_of 0x1F805 7 None (fp_demo_message [0x20, 15, 1, 2, 3, 4, 5, 6])" by (rule of8) simp
  then show "fp_listens fp_demo (fp_demo_message [0x20, 15, 1, 2, 3, 4, 5, 6])" by (rule fp_demo_listens)
  show "\<forall>x \<in> set [fp_demo_message [0x42, 14, 15, 255, 255, 255, 255, 255], fp_demo_message [0x81, 7, 8, 9, 10, 11, 12, 13]].
      fp_of 0x1F805 7 None x \<and> fp_counter x \<noteq> 0"
    using of8 [of "[0x42, 14, 15, 255, 255, 255, 255, 255]"] of8 [of "[0x81, 7, 8, 9, 10, 11, 12, 13]"]
    by (simp add: fp_counter_def fp_demo_message_def make_message_def)
qed (simp_all add: fp_counter_def fp_demo_message_def make_message_def)

text \<open>Witness of C31: nine bytes in two frames.\<close>

theorem fast_packet_delivered_witness:
  "\<exists>w1 w2 frames. send_multipacket_message 0x1F805 (Some (DataVector [1, 2, 3, 4, 5, 6, 7, 8, 9])) (Some 7) None PriorityDefault6 (Some 5) fp_demo = (True, w1)
    \<and> fp_rounds [10, 10, 10, 10, 10, 10] w1 = Some w2 \<and> fp_sessions w2 = [] \<and> tx_log (fp_manager w2) = tx_log (fp_manager fp_demo) @ frames
    \<and> completions (fp_manager w2) = completions (fp_manager fp_demo) @ [\<lparr>c_callback = 5, c_pgn = 0x1F805, c_length = of_nat (length [1, 2, 3, 4, 5, 6, 7, 8, 9 :: u8]),
         c_source = 7, c_destination = None, c_success = True\<rparr>]
    \<and> (\<forall>ms. list_all2 carried frames ms \<and> fp_listens fp_demo (hd ms) \<longrightarrow>
         (\<exists>v'. run_events fp_process_message ms fp_demo = Some v' \<and> fp_sessions v' = fp_sessions fp_demo
           \<and> fp_calls v' = fp_calls fp_demo @ fp_delivered fp_demo (last ms) [1, 2, 3, 4, 5, 6, 7, 8, 9]))"
proof (rule fast_packet_delivered)
  show "fp_good fp_demo" "\<not> fp_has_session 0x1F805 7 None fp_demo" "fp_sessions fp_demo = []" "tx_replies (fp_manager fp_demo) = []"
    using fp_demo_good by (simp_all add: fp_has_session_def)
  show "fp_valid (cfs (fp_manager fp_demo)) 7 None"
    by (simp add: fp_valid_def fp_demo_def register_multipacket_message_callback_def fp_initial_def demo_store_def cf_address_valid_def)
qed simp_all

end
