(* ===== verification/Address_Claiming.thy ===== *)
theory Address_Claiming
  imports Can_Message "HOL-Library.Monad_Syntax"
begin

text \<open>
  Frames as the network manager builds them (\<open>construct_frame\<close> of \<open>can_network_manager.cpp\<close>) and the
  internal control functions, \<open>src/isobus/src/can_internal_control_function.cpp\<close>: the state machine
  that claims an address, reclaims it on request, defends it and follows a commanded address. The
  state is the record \<open>network\<close>, shared with the network manager. \<open>None\<close> is a failing assertion or
  an exception. The frame constructor is shown to encode the same identifier as the
  class \<open>CANIdentifier\<close>.
\<close>

section \<open>Frames\<close>

abbreviation (input) DEFAULT_IDENTIFIER :: u32 where "DEFAULT_IDENTIFIER \<equiv> 0xFFFFFFFF"
abbreviation (input) BROADCAST_CAN_ADDRESS :: u8 where "BROADCAST_CAN_ADDRESS \<equiv> 0xFF"
abbreviation (input) NULL_CAN_ADDRESS :: u8 where "NULL_CAN_ADDRESS \<equiv> 0xFE"

record CANMessageFrame =
  frame_timestamp_us :: u64
  frame_identifier :: u32
  frame_channel :: u8
  frame_data :: "u8 list"
  isExtendedFrame :: bool

text \<open>The bytes in use of the frame's buffer of eight; \<open>dataLength\<close> is their number.\<close>

definition frame_dataLength :: "CANMessageFrame \<Rightarrow> u8" where
  "frame_dataLength f = of_nat (length (frame_data f))"

text \<open>The fields that the code leaves uninitialised (the time, and all but the identifier of a refused frame) are zero here.\<close>

definition construct_frame :: "u8 \<Rightarrow> u8 \<Rightarrow> u8 \<Rightarrow> u32 \<Rightarrow> u8 \<Rightarrow> u8 list \<Rightarrow> CANMessageFrame" where
  "construct_frame portIndex sourceAddress destAddress pgn priority bytes =
     (let empty = \<lparr>frame_timestamp_us = 0, frame_identifier = DEFAULT_IDENTIFIER, frame_channel = 0, frame_data = [],
                   isExtendedFrame = False\<rparr>
      in if NULL_CAN_ADDRESS \<noteq> destAddress \<and> priority \<le> 7 \<and> length bytes \<le> 8
         then
           let i0 = push_bit 26 (ucast (priority AND 0x07)) OR ucast sourceAddress :: u32;
               specific = (i0 OR push_bit 8 (ucast destAddress)) OR push_bit 8 (pgn AND 0x3FF00);
               i = (if BROADCAST_CAN_ADDRESS = destAddress
                    then (if (pgn AND 0xF000) \<ge> 0xF000 then i0 OR push_bit 8 (pgn AND 0x3FFFF) else specific)
                    else (if (pgn AND 0xF000) < 0xF000 then specific else DEFAULT_IDENTIFIER))
           in if DEFAULT_IDENTIFIER \<noteq> i
              then \<lparr>frame_timestamp_us = 0, frame_identifier = i AND 0x1FFFFFFF, frame_channel = portIndex,
                    frame_data = bytes, isExtendedFrame = True\<rparr>
              else empty
         else empty)"

section \<open>The network manager's view of the bus\<close>

datatype ICFState =
    IcfNone | WaitForClaim | SendRequestForClaim | WaitForRequestContentionPeriod | SendPreferredAddressClaim
  | ContendForPreferredAddress | SendArbitraryAddressClaim | SendReclaimAddressOnRequest | UnableToClaim
  | AddressClaimingComplete

text \<open>What an internal control function has besides the base class, and a partnered one.\<close>

record InternalControlFunction =
  icf_state :: ICFState
  stateChangeTimestamp_ms :: u32
  preferredAddress :: u8
  randomClaimDelay_ms :: u8

record PartneredControlFunction =
  NAMEFilterList :: "NAMEFilter list"
  partner_initialized :: bool

datatype ControlFunctionState = Offline | Online

text \<open>
  The state of the network manager that concerns control functions. Objects are shared by
  pointer: \<open>objects\<close> holds the base class, \<open>internals\<close> and \<open>partners\<close> the derived parts. The
  address table has a row per CAN port with the addresses below the null address. The
  hardware's answers to frames are supplied by the environment.
\<close>

record network =
  objects :: cf_store
  next_object :: cf
  internals :: "cf \<Rightarrow> InternalControlFunction"
  partners :: "cf \<Rightarrow> PartneredControlFunction"
  controlFunctionTable :: "u8 \<Rightarrow> u8 \<Rightarrow> cf option"
  inactiveControlFunctions :: "cf list"
  internalControlFunctions :: "cf list"
  partneredControlFunctions :: "cf list"
  lastAddressClaimRequestTimestamp_ms :: "u8 \<Rightarrow> u32"
  receivedMessageQueue :: "CANMessage list"
  nm_initialized :: bool
  can_port_maximum :: u8
  now_ms :: u32
  hw_replies :: "bool list"
  hw_log :: "CANMessageFrame list"
  state_changes :: "(cf \<times> ControlFunctionState) list"
  address_violations :: "cf list"

definition set_address :: "cf \<Rightarrow> u8 \<Rightarrow> network \<Rightarrow> network" where
  "set_address c a w = w\<lparr>objects := (objects w)(c := (objects w c)\<lparr>address := a\<rparr>)\<rparr>"

definition full_name :: "network \<Rightarrow> cf \<Rightarrow> u64" where
  "full_name w c = rawName (controlFunctionNAME (objects w c))"

text \<open>An access to the table at an index outside of it is undefined behaviour.\<close>

definition in_table :: "u8 \<Rightarrow> u8 \<Rightarrow> network \<Rightarrow> bool" where
  "in_table channel a w \<longleftrightarrow> channel < can_port_maximum w \<and> a < NULL_CAN_ADDRESS"

definition put_table :: "u8 \<Rightarrow> u8 \<Rightarrow> cf option \<Rightarrow> network \<Rightarrow> network" where
  "put_table channel a c w =
     w\<lparr>controlFunctionTable := (controlFunctionTable w)(channel := (controlFunctionTable w channel)(a := c))\<rparr>"

definition get_control_function :: "u8 \<Rightarrow> u8 \<Rightarrow> network \<Rightarrow> cf option" where
  "get_control_function channel a w =
     (if a < NULL_CAN_ADDRESS \<and> channel < can_port_maximum w then controlFunctionTable w channel a else None)"

definition send_can_message_frame_to_hardware :: "CANMessageFrame \<Rightarrow> network \<Rightarrow> bool \<times> network" where
  \<comment> \<open>the hardware layer: it takes the frame or refuses it\<close>
  "send_can_message_frame_to_hardware f w =
     (let ok = (case hw_replies w of [] \<Rightarrow> True | r # _ \<Rightarrow> r);
          w1 = w\<lparr>hw_replies := tl (hw_replies w)\<rparr>
      in (ok, if ok then w1\<lparr>hw_log := hw_log w1 @ [f]\<rparr> else w1))"

definition send_can_message_raw :: "u8 \<Rightarrow> u8 \<Rightarrow> u8 \<Rightarrow> u32 \<Rightarrow> u8 \<Rightarrow> u8 list \<Rightarrow> network \<Rightarrow> bool \<times> network" where
  "send_can_message_raw portIndex sourceAddress destAddress pgn priority bytes w =
     (let f = construct_frame portIndex sourceAddress destAddress pgn priority bytes
      in if DEFAULT_IDENTIFIER \<noteq> frame_identifier f \<and> portIndex < can_port_maximum w
         then send_can_message_frame_to_hardware f w else (False, w))"

definition state_change :: "cf \<Rightarrow> ControlFunctionState \<Rightarrow> network \<Rightarrow> network" where
  "state_change c s w = w\<lparr>state_changes := state_changes w @ [(c, s)]\<rparr>"

section \<open>Internal control functions: claiming an address\<close>

abbreviation (input) PGN_AddressClaim :: u32 where "PGN_AddressClaim \<equiv> 0xEE00"
abbreviation (input) PGN_ParameterGroupNumberRequest :: u32 where "PGN_ParameterGroupNumberRequest \<equiv> 0xEA00"
abbreviation (input) PGN_CommandedAddress :: u32 where "PGN_CommandedAddress \<equiv> 0xFED8"
abbreviation (input) ADDRESS_CONTENTION_TIME_MS :: u32 where "ADDRESS_CONTENTION_TIME_MS \<equiv> 250"
abbreviation (input) ARBITRATION_STARTING_ADDRESS :: u8 where "ARBITRATION_STARTING_ADDRESS \<equiv> 128"

definition time_expired_ms :: "u32 \<Rightarrow> u32 \<Rightarrow> network \<Rightarrow> bool" where
  "time_expired_ms timestamp timeout w \<longleftrightarrow> now_ms w - timestamp \<ge> timeout"

definition get_current_state :: "network \<Rightarrow> cf \<Rightarrow> ICFState" where
  "get_current_state w c = icf_state (internals w c)"

definition set_current_state :: "ICFState \<Rightarrow> cf \<Rightarrow> network \<Rightarrow> network" where
  "set_current_state v c w =
     w\<lparr>internals := (internals w)(c := (internals w c)\<lparr>stateChangeTimestamp_ms := now_ms w, icf_state := v\<rparr>)\<rparr>"

definition set_preferred_address :: "u8 \<Rightarrow> cf \<Rightarrow> network \<Rightarrow> network" where
  "set_preferred_address a c w = w\<lparr>internals := (internals w)(c := (internals w c)\<lparr>preferredAddress := a\<rparr>)\<rparr>"

definition get_end_arbitration_address_for_industry_group :: "u8 \<Rightarrow> u8" where
  "get_end_arbitration_address_for_industry_group industryGroup =
     (if industryGroup = 0 then 247
      else if industryGroup = 1 then 158
      else if industryGroup = 2 then 235
      else if industryGroup = 3 \<or> industryGroup = 4 \<or> industryGroup = 5 then 207
      else ARBITRATION_STARTING_ADDRESS)"

definition send_request_to_claim :: "cf \<Rightarrow> network \<Rightarrow> bool \<times> network" where
  "send_request_to_claim c w =
     send_can_message_raw (canPortIndex (objects w c)) NULL_CAN_ADDRESS BROADCAST_CAN_ADDRESS PGN_ParameterGroupNumberRequest 6
       [ucast PGN_AddressClaim, ucast (drop_bit 8 PGN_AddressClaim), ucast (drop_bit 16 PGN_AddressClaim)] w"

definition send_address_claim :: "u8 \<Rightarrow> cf \<Rightarrow> network \<Rightarrow> (bool \<times> network) option" where
  \<comment> \<open>\<open>None\<close> is the failing assertion that the address is below the broadcast address\<close>
  "send_address_claim addressToClaim c w =
     (if addressToClaim < BROADCAST_CAN_ADDRESS
      then
        let isoNAME = full_name w c;
            (ok, w1) = send_can_message_raw (canPortIndex (objects w c)) addressToClaim BROADCAST_CAN_ADDRESS PGN_AddressClaim 6
              [ucast isoNAME, ucast (drop_bit 8 isoNAME), ucast (drop_bit 16 isoNAME), ucast (drop_bit 24 isoNAME),
               ucast (drop_bit 32 isoNAME), ucast (drop_bit 40 isoNAME), ucast (drop_bit 48 isoNAME), ucast (drop_bit 56 isoNAME)] w
        in Some (ok, if ok then set_address c addressToClaim w1 else w1)
      else None)"

definition send_cannot_claim_source_address :: "cf \<Rightarrow> network \<Rightarrow> (bool \<times> network) option" where
  "send_cannot_claim_source_address c w = send_address_claim 0xFE c w"

fun claim_first_free :: "nat list \<Rightarrow> cf \<Rightarrow> network \<Rightarrow> (bool \<times> network) option" where
  \<comment> \<open>the loop over the arbitrary addresses\<close>
  "claim_first_free [] c w = Some (False, w)"
| "claim_first_free (i # is) c w =
     (if get_control_function (canPortIndex (objects w c)) (of_nat i) w = None
      then do {
        (ok, w1) \<leftarrow> send_address_claim (of_nat i) c w;
        if ok
        then
          let w2 = (if preferredAddress (internals w1 c) = NULL_CAN_ADDRESS then set_preferred_address (of_nat i) c w1 else w1)
          in Some (True, set_current_state AddressClaimingComplete c w2)
        else claim_first_free is c w1
      }
      else claim_first_free is c w)"

definition arbitrate :: "cf \<Rightarrow> network \<Rightarrow> (bool \<times> network) option" where
  \<comment> \<open>the end of the contention period\<close>
  "arbitrate c w =
     (let preferred = preferredAddress (internals w c);
          deviceAtOurPreferredAddress =
            (if NULL_CAN_ADDRESS \<noteq> preferred then get_control_function (canPortIndex (objects w c)) preferred w else None)
      in if deviceAtOurPreferredAddress = None \<and> NULL_CAN_ADDRESS \<noteq> preferred
         then Some (False, set_current_state SendPreferredAddressClaim c w)
         else if (case deviceAtOurPreferredAddress of None \<Rightarrow> False | Some d \<Rightarrow> full_name w d > full_name w c)
         then Some (False, set_current_state ContendForPreferredAddress c w)
         else if get_arbitrary_address_capable (controlFunctionNAME (objects w c))
         then Some (False, set_current_state SendArbitraryAddressClaim c w)
         else do {
           (ok, w1) \<leftarrow> send_cannot_claim_source_address c (set_current_state UnableToClaim c w);
           Some (False, w1)
         })"

definition claim_preferred :: "cf \<Rightarrow> network \<Rightarrow> (bool \<times> network) option" where
  "claim_preferred c w = do {
     (ok, w1) \<leftarrow> send_address_claim (preferredAddress (internals w c)) c w;
     Some (ok, set_current_state (if ok then AddressClaimingComplete else IcfNone) c w1)
   }"

definition claim_arbitrary :: "cf \<Rightarrow> network \<Rightarrow> (bool \<times> network) option" where
  "claim_arbitrary c w = do {
     let endAddress = get_end_arbitration_address_for_industry_group (get_industry_group (controlFunctionNAME (objects w c)));
     (claimed, w1) \<leftarrow> claim_first_free [128..<Suc (unat endAddress)] c w;
     if claimed then Some (True, w1)
     else do {
       (ok, w2) \<leftarrow> send_cannot_claim_source_address c (set_current_state UnableToClaim c w1);
       Some (False, w2)
     }
   }"

definition update_address_claiming :: "cf \<Rightarrow> network \<Rightarrow> (bool \<times> network) option" where
  "update_address_claiming c w =
     (case get_current_state w c of
        IcfNone \<Rightarrow> Some (False, set_current_state WaitForClaim c w)
      | WaitForClaim \<Rightarrow>
          Some (False,
            if time_expired_ms (stateChangeTimestamp_ms (internals w c)) (ucast (randomClaimDelay_ms (internals w c))) w
            then set_current_state SendRequestForClaim c w else w)
      | SendRequestForClaim \<Rightarrow>
          (let (ok, w1) = send_request_to_claim c w
           in Some (False, if ok then set_current_state WaitForRequestContentionPeriod c w1 else w1))
      | WaitForRequestContentionPeriod \<Rightarrow>
          (if time_expired_ms (stateChangeTimestamp_ms (internals w c)) ADDRESS_CONTENTION_TIME_MS w
           then arbitrate c w else Some (False, w))
      | SendPreferredAddressClaim \<Rightarrow> claim_preferred c w
      | SendArbitraryAddressClaim \<Rightarrow> claim_arbitrary c w
      | SendReclaimAddressOnRequest \<Rightarrow> do {
          (ok, w1) \<leftarrow> send_address_claim (address (objects w c)) c w;
          Some (ok, if ok then set_current_state AddressClaimingComplete c w1 else w1)
        }
      | ContendForPreferredAddress \<Rightarrow> claim_preferred c w
      | _ \<Rightarrow> Some (False, w))"

definition process_commanded_address :: "u8 \<Rightarrow> cf \<Rightarrow> network \<Rightarrow> network" where
  "process_commanded_address commandedAddress c w =
     (if get_current_state w c = AddressClaimingComplete \<and> get_arbitrary_address_capable (controlFunctionNAME (objects w c))
      then
        let w1 = set_preferred_address commandedAddress c w
        in (case get_control_function (canPortIndex (objects w c)) commandedAddress w of
              None \<Rightarrow> set_current_state SendPreferredAddressClaim c w1
            | Some d \<Rightarrow>
                if full_name w d < full_name w c then set_current_state SendArbitraryAddressClaim c w1 else w1)
      else w)"

definition icf_process_rx_message_for_address_claiming :: "CANMessage \<Rightarrow> cf \<Rightarrow> network \<Rightarrow> network option" where
  "icf_process_rx_message_for_address_claiming m c w =
     (if msg_port m \<noteq> canPortIndex (objects w c) then Some w
      else if get_parameter_group_number (msg_identifier m) = PGN_ParameterGroupNumberRequest
      then do {
        requestedPGN \<leftarrow> get_uint24_at 0 LittleEndian m;
        Some (if PGN_AddressClaim = requestedPGN
                \<and> (GLOBAL_ADDRESS = get_destination_address (msg_identifier m)
                   \<or> (cf_address_valid (objects w c)
                      \<and> address (objects w c) = get_destination_address (msg_identifier m)))
                \<and> get_current_state w c = AddressClaimingComplete
              then set_current_state SendReclaimAddressOnRequest c w else w)
      }
      else if get_parameter_group_number (msg_identifier m) = PGN_CommandedAddress
      then
        (if msg_destination m = None \<and> get_data_length m = 9
         then do {
           targetNAME \<leftarrow> get_uint64_at 0 LittleEndian m;
           if full_name w c = targetNAME
           then do { a \<leftarrow> get_uint8_at 8 m; Some (process_commanded_address a c w) }
           else Some w
         }
         else Some w)
      else Some w)"

definition process_rx_message_for_address_violation :: "CANMessage \<Rightarrow> cf \<Rightarrow> network \<Rightarrow> bool \<times> network" where
  "process_rx_message_for_address_violation m c w =
     (let sourceAddress = get_source_address (msg_identifier m)
      in if BROADCAST_CAN_ADDRESS \<noteq> sourceAddress \<and> NULL_CAN_ADDRESS \<noteq> sourceAddress
            \<and> address (objects w c) = sourceAddress \<and> msg_port m = canPortIndex (objects w c)
            \<and> get_current_state w c = AddressClaimingComplete
         then (True, set_current_state SendReclaimAddressOnRequest c w)
         else (False, w))"

section \<open>The identifier built by hand\<close>

lemma format_mask: "(0xF000 :: u32) = push_bit 12 (mask 4)"
  by (simp add: mask_eq_exp_minus_1 push_bit_eq_mult)

lemma format_bits: "bit (0xF000 :: u32) n \<longleftrightarrow> 12 \<le> n \<and> n < 16"
  by (simp only: format_mask bit_mask_iff bit_push_bit_iff) auto

lemma manual_format: "(pgn AND 0xF000) < 0xF000 \<longleftrightarrow> encodes_pdu1 pgn"
proof -
  have "pgn AND 0xF000 \<le> 0xF000" by (simp add: word_and_le1)
  then have "(pgn AND 0xF000) < 0xF000 \<longleftrightarrow> pgn AND 0xF000 \<noteq> 0xF000" by (auto simp: order_less_le)
  also have "\<dots> \<longleftrightarrow> encodes_pdu1 pgn"
  proof
    assume "encodes_pdu1 pgn"
    then obtain n where "12 \<le> n" "n < 16" "\<not> bit pgn n" by (auto simp: encodes_pdu1_def)
    then have "bit (pgn AND 0xF000) n \<noteq> bit (0xF000 :: u32) n" unfolding bit_and_iff format_bits by blast
    then show "pgn AND 0xF000 \<noteq> 0xF000" by metis
  next
    assume "pgn AND 0xF000 \<noteq> 0xF000"
    then show "encodes_pdu1 pgn" unfolding encodes_pdu1_def bit_eq_iff bit_and_iff format_bits by blast
  qed
  finally show ?thesis .
qed

lemma manual_priority:
  "priority \<le> 7 \<Longrightarrow> ucast (priority AND 0x07) = priority_number (priority_of_number (ucast (priority :: u8)))"
proof -
  assume p: "priority \<le> 7"
  have "(0x07 :: u8) = mask 3" by (simp add: mask_eq_exp_minus_1)
  then have "priority AND 0x07 = take_bit 3 priority" by (simp only: take_bit_eq_mask)
  then have "priority AND 0x07 = priority" using p by (simp add: take_bit_word_eq_iff word_le_nat_alt)
  moreover have "(ucast priority :: u32) \<le> 7" using p by (simp add: word_le_nat_alt)
  ultimately show ?thesis by (simp add: number_of_priority)
qed

lemma manual_specific:
  "((push_bit 26 (priority_number p) OR ucast s) OR push_bit 8 (ucast d)) OR push_bit 8 (pgn AND 0x3FF00)
    = m_RawIdentifier (make_identifier Extended pgn p d s)" if "encodes_pdu1 pgn"
  using that by (simp add: make_identifier_def Let_def encodes_pdu1_shift ac_simps)

lemma manual_broadcast:
  "(push_bit 26 (priority_number p) OR ucast s) OR push_bit 8 (pgn AND 0x3FFFF)
    = m_RawIdentifier (make_identifier Extended pgn p d s)" if "\<not> encodes_pdu1 pgn"
  using that by (simp add: make_identifier_def Let_def encodes_pdu1_shift ac_simps)

lemma raw_not_default: "m_RawIdentifier (make_identifier Extended pgn p d s) \<noteq> DEFAULT_IDENTIFIER"
  using raw_valid [of pgn p d s] by (auto simp: word_le_nat_alt)

lemma raw_masked: "m_RawIdentifier (make_identifier Extended pgn p d s) AND 0x1FFFFFFF = m_RawIdentifier (make_identifier Extended pgn p d s)"
proof -
  have "(0x1FFFFFFF :: u32) = mask 29" by (simp add: mask_eq_exp_minus_1)
  then show ?thesis using raw_valid [of pgn p d s] by (simp only: take_bit_eq_mask [symmetric] take_bit_word_eq_iff) (simp add: word_le_nat_alt)
qed

lemma construct_frame_alt:
  "construct_frame port src dst pgn priority bytes =
     (if dst \<noteq> NULL_CAN_ADDRESS \<and> priority \<le> 7 \<and> length bytes \<le> 8 \<and> (dst = BROADCAST_CAN_ADDRESS \<or> encodes_pdu1 pgn)
      then \<lparr>frame_timestamp_us = 0,
            frame_identifier = m_RawIdentifier (make_identifier Extended pgn (priority_of_number (ucast priority)) dst src),
            frame_channel = port, frame_data = bytes, isExtendedFrame = True\<rparr>
      else \<lparr>frame_timestamp_us = 0, frame_identifier = DEFAULT_IDENTIFIER, frame_channel = 0, frame_data = [],
            isExtendedFrame = False\<rparr>)"
proof (cases "dst \<noteq> NULL_CAN_ADDRESS \<and> priority \<le> 7 \<and> length bytes \<le> 8")
  case True
  let ?p = "priority_of_number (ucast priority)"
  have p: "ucast (priority AND 0x07) = priority_number ?p" using True manual_priority by blast
  have ge: "0xF000 \<le> pgn AND 0xF000 \<longleftrightarrow> \<not> encodes_pdu1 pgn" using manual_format [of pgn] by (simp add: not_less [symmetric])
  show ?thesis
    unfolding construct_frame_def p manual_format ge
    using True raw_not_default [of pgn ?p dst src] raw_not_default [of pgn ?p "0xFF" src]
      manual_specific [of pgn ?p src dst] manual_specific [of pgn ?p src "0xFF"] manual_broadcast [of pgn ?p src "0xFF"] raw_masked [of pgn ?p dst src]
      raw_masked [of pgn ?p "0xFF" src]
    by (cases "encodes_pdu1 pgn"; cases "dst = 0xFF") (simp_all add: Let_def)
qed (auto simp: construct_frame_def)

theorem frames_carry_identifier:
  "construct_frame port src dst pgn priority bytes =
     (if dst \<noteq> NULL_CAN_ADDRESS \<and> priority \<le> 7 \<and> length bytes \<le> 8 \<and> (dst = BROADCAST_CAN_ADDRESS \<or> encodes_pdu1 pgn)
      then \<lparr>frame_timestamp_us = 0,
            frame_identifier = m_RawIdentifier (make_identifier Extended pgn (priority_of_number (ucast priority)) dst src),
            frame_channel = port, frame_data = bytes, isExtendedFrame = True\<rparr>
      else \<lparr>frame_timestamp_us = 0, frame_identifier = DEFAULT_IDENTIFIER, frame_channel = 0, frame_data = [],
            isExtendedFrame = False\<rparr>)"
  by (rule construct_frame_alt)

end
