(* ===== verification/Network_Manager.thy ===== *)
theory Network_Manager
  imports Address_Claiming
begin

text \<open>
  The part of \<open>src/isobus/src/can_network_manager.cpp\<close> that keeps track of control functions: the
  address table with a row per port, inactive and partnered control functions, what a received
  claim does to them, the processing of the queue, and the periodic update. \<open>None\<close> is an access to the
  table outside of its 254 addresses or ports, or an exception. Partners are matched as
  in \<open>can_partnered_control_function.cpp\<close>.
\<close>

section \<open>The address table\<close>

definition table_addresses :: "u8 list" where
  "table_addresses = map of_nat [0..<254]"

definition table_row :: "u8 \<Rightarrow> network \<Rightarrow> cf list" where
  \<comment> \<open>the control functions of a row, in the order of their addresses\<close>
  "table_row channel w = List.map_filter (controlFunctionTable w channel) table_addresses"

definition set_claimed_flag :: "bool \<Rightarrow> cf \<Rightarrow> network \<Rightarrow> network" where
  "set_claimed_flag b c w =
     w\<lparr>objects := (objects w)(c := (objects w c)\<lparr>claimedAddressSinceLastAddressClaimRequest := b\<rparr>)\<rparr>"

definition new_object :: "ControlFunction \<Rightarrow> network \<Rightarrow> cf \<times> network" where
  "new_object x w = (next_object w, w\<lparr>objects := (objects w)(next_object w := x), next_object := Suc (next_object w)\<rparr>)"

definition create_external_control_function :: "NAME \<Rightarrow> u8 \<Rightarrow> u8 \<Rightarrow> network \<Rightarrow> cf \<times> network" where
  "create_external_control_function desiredName a CANPort w =
     (let (c, w1) = new_object \<lparr>controlFunctionType = CF_External, controlFunctionNAME = desiredName,
            claimedAddressSinceLastAddressClaimRequest = False, address = a, canPortIndex = CANPort\<rparr> w
      in (c, if CANPort < can_port_maximum w \<and> a < NULL_CAN_ADDRESS then put_table CANPort a (Some c) w1 else w1))"

definition create_internal_control_function :: "NAME \<Rightarrow> u8 \<Rightarrow> u8 \<Rightarrow> u8 \<Rightarrow> network \<Rightarrow> (cf \<times> network) option" where
  \<comment> \<open>the random delay is drawn by the caller; \<open>None\<close> is a failing assertion of the constructor\<close>
  "create_internal_control_function desiredName CANPort preferred delay w =
     (if preferred \<noteq> BROADCAST_CAN_ADDRESS \<and> CANPort < can_port_maximum w
         \<and> (preferred = NULL_CAN_ADDRESS \<longrightarrow> get_arbitrary_address_capable desiredName)
      then
        let (c, w1) = new_object \<lparr>controlFunctionType = CF_Internal, controlFunctionNAME = desiredName,
              claimedAddressSinceLastAddressClaimRequest = False, address = NULL_CAN_ADDRESS, canPortIndex = CANPort\<rparr> w
        in Some (c, w1\<lparr>internals := (internals w1)(c := \<lparr>icf_state = IcfNone, stateChangeTimestamp_ms = 0,
                        preferredAddress = preferred, randomClaimDelay_ms = delay\<rparr>),
                      internalControlFunctions := internalControlFunctions w1 @ [c]\<rparr>)
      else None)"

section \<open>Partners\<close>

definition check_matches_name :: "PartneredControlFunction \<Rightarrow> NAME \<Rightarrow> bool" where
  "check_matches_name p n \<longleftrightarrow> NAMEFilterList p \<noteq> [] \<and> list_all (\<lambda>f. check_name_matches_filter f n) (NAMEFilterList p)"

fun remove_first :: "('a \<Rightarrow> bool) \<Rightarrow> 'a list \<Rightarrow> 'a list" where
  "remove_first P [] = []"
| "remove_first P (x # xs) = (if P x then xs else x # remove_first P xs)"

definition partner_match :: "cf \<Rightarrow> network \<Rightarrow> cf \<Rightarrow> bool" where
  "partner_match p w x \<longleftrightarrow> check_matches_name (partners w p) (controlFunctionNAME (objects w x))
     \<and> controlFunctionType (objects w x) = CF_External"

definition update_new_partner :: "cf \<Rightarrow> network \<Rightarrow> network option" where
  "update_new_partner p w =
     (if partner_initialized (partners w p) then Some w
      else
        let port = canPortIndex (objects w p);
            w1 = w\<lparr>inactiveControlFunctions :=
                    remove_first (\<lambda>x. partner_match p w x \<and> port = canPortIndex (objects w x)) (inactiveControlFunctions w)\<rparr>;
            ready = (\<lambda>v. v\<lparr>partners := (partners v)(p := (partners v p)\<lparr>partner_initialized := True\<rparr>)\<rparr>)
        in if port < can_port_maximum w
           then (case find (partner_match p w1) (table_row port w1) of
                   None \<Rightarrow> Some (ready w1)
                 | Some x \<Rightarrow>
                     let w2 = w1\<lparr>objects := (objects w1)(p := (objects w1 p)\<lparr>address := address (objects w1 x),
                                controlFunctionNAME := controlFunctionNAME (objects w1 x)\<rparr>)\<rparr>
                     in if in_table port (address (objects w2 p)) w2
                        then Some (ready (state_change p Online (put_table port (address (objects w2 p)) (Some p) w2)))
                        else None)
           else None)"

fun for_each :: "('a \<Rightarrow> 'w \<Rightarrow> 'w option) \<Rightarrow> 'a list \<Rightarrow> 'w \<Rightarrow> 'w option" where
  "for_each f [] w = Some w"
| "for_each f (x # xs) w = Option.bind (f x w) (for_each f xs)"

definition update_new_partners :: "network \<Rightarrow> network option" where
  "update_new_partners w = for_each update_new_partner (partneredControlFunctions w) w"

definition create_partnered_control_function :: "u8 \<Rightarrow> NAMEFilter list \<Rightarrow> network \<Rightarrow> (cf \<times> network) option" where
  "create_partnered_control_function CANPort filters w =
     (let (c, w1) = new_object \<lparr>controlFunctionType = CF_Partnered, controlFunctionNAME = name_of_raw 0,
            claimedAddressSinceLastAddressClaimRequest = False, address = NULL_CAN_ADDRESS, canPortIndex = CANPort\<rparr> w
      in map_option (Pair c) (update_new_partners
           (w1\<lparr>partners := (partners w1)(c := \<lparr>NAMEFilterList = filters, partner_initialized = False\<rparr>),
              partneredControlFunctions := partneredControlFunctions w1 @ [c]\<rparr>)))"

section \<open>Deactivation\<close>

definition deactivate_at :: "cf \<Rightarrow> u8 \<Rightarrow> network \<Rightarrow> network" where
  "deactivate_at c a w =
     (if controlFunctionTable w (canPortIndex (objects w c)) a = Some c
      then
        let w1 = put_table (canPortIndex (objects w c)) a None w
        in if cf_address_valid (objects w c) \<and> controlFunctionType (objects w c) = CF_Partnered
           then snd (create_external_control_function (controlFunctionNAME (objects w c)) (address (objects w c))
                  (canPortIndex (objects w c)) w1)
           else w1
      else w)"

definition deactivate_control_function :: "cf \<Rightarrow> network \<Rightarrow> network option" where
  "deactivate_control_function c w =
     (if canPortIndex (objects w c) < can_port_maximum w
      then Some (fold (deactivate_at c) table_addresses
             (w\<lparr>inactiveControlFunctions := removeAll c (inactiveControlFunctions w)\<rparr>))
      else None)"

definition deactivate_internal_control_function :: "cf \<Rightarrow> network \<Rightarrow> network option" where
  "deactivate_internal_control_function c w =
     deactivate_control_function c (w\<lparr>internalControlFunctions := removeAll c (internalControlFunctions w)\<rparr>)"

definition deactivate_partnered_control_function :: "cf \<Rightarrow> network \<Rightarrow> network option" where
  "deactivate_partnered_control_function c w =
     deactivate_control_function c (w\<lparr>partneredControlFunctions := removeAll c (partneredControlFunctions w)\<rparr>)"

definition get_control_functions :: "bool \<Rightarrow> network \<Rightarrow> cf list" where
  "get_control_functions includingOffline w =
     concat (map (\<lambda>channel. table_row channel w) (map of_nat [0..<unat (can_port_maximum w)]))
     @ (if includingOffline then inactiveControlFunctions w else [])"

definition send_request_for_address_claim :: "u8 \<Rightarrow> network \<Rightarrow> bool \<times> network" where
  "send_request_for_address_claim canPort w =
     send_can_message_raw canPort NULL_CAN_ADDRESS BROADCAST_CAN_ADDRESS PGN_ParameterGroupNumberRequest 6
       [ucast PGN_AddressClaim, ucast (drop_bit 8 PGN_AddressClaim), ucast (drop_bit 16 PGN_AddressClaim)] w"

section \<open>Received frames: who has claimed which address\<close>

definition find_claimer :: "u64 \<Rightarrow> u8 \<Rightarrow> network \<Rightarrow> cf option" where
  \<comment> \<open>the control function with the claimed NAME, active or inactive\<close>
  "find_claimer claimedNAME channel w =
     (case find (\<lambda>c. full_name w c = claimedNAME) (table_row channel w) of
        Some c \<Rightarrow> Some c
      | None \<Rightarrow> find (\<lambda>c. full_name w c = claimedNAME \<and> canPortIndex (objects w c) = channel) (inactiveControlFunctions w))"

definition find_partner :: "u64 \<Rightarrow> u8 \<Rightarrow> network \<Rightarrow> cf option" where
  "find_partner claimedNAME channel w =
     find (\<lambda>p. canPortIndex (objects w p) = channel \<and> check_matches_name (partners w p) (name_of_raw claimedNAME)
        \<and> 0 = full_name w p) (partneredControlFunctions w)"

definition evict :: "cf option \<Rightarrow> u8 \<Rightarrow> u64 \<Rightarrow> cf \<Rightarrow> network \<Rightarrow> network" where
  \<comment> \<open>what a claim does to an active control function\<close>
  "evict found claimedAddress claimedNAME c w =
     (if found \<noteq> Some c \<and> address (objects w c) = claimedAddress
      then
        let contends = (controlFunctionType (objects w c) = CF_Internal \<and> claimedNAME \<noteq> full_name w c);
            complete = (get_current_state w c = AddressClaimingComplete);
            wonContention = (contends \<and> claimedNAME > full_name w c \<and> complete);
            w1 = (if wonContention then set_current_state SendReclaimAddressOnRequest c w
                  else if contends \<and> complete then set_current_state WaitForRequestContentionPeriod c w
                  else w)
        in if \<not> wonContention then set_address c NULL_ADDRESS w1 else w1
      else w)"

definition evict_inactive :: "cf option \<Rightarrow> u8 \<Rightarrow> u8 \<Rightarrow> cf \<Rightarrow> network \<Rightarrow> network" where
  "evict_inactive found claimedAddress channel c w =
     (if found \<noteq> Some c \<and> address (objects w c) = claimedAddress \<and> canPortIndex (objects w c) = channel
      then set_address c NULL_ADDRESS w else w)"

definition register_claim :: "cf option \<Rightarrow> u8 \<Rightarrow> u64 \<Rightarrow> u8 \<Rightarrow> network \<Rightarrow> network" where
  \<comment> \<open>the claimer gets its address, or is a new device\<close>
  "register_claim found claimedAddress claimedNAME channel w =
     (case found of
        None \<Rightarrow>
          (let (c, w1) = create_external_control_function (name_of_raw claimedNAME) claimedAddress channel w
           in state_change c Online w1)
      | Some c \<Rightarrow>
          if address (objects w c) \<noteq> claimedAddress \<and> claimedAddress < NULL_CAN_ADDRESS
          then
            let w1 = (if cf_address_valid (objects w c)
                      then put_table channel (address (objects w c)) None (put_table channel claimedAddress (Some c) w)
                      else w)
            in state_change c Online (set_address c claimedAddress w1)
          else w)"

definition update_control_functions :: "CANMessageFrame \<Rightarrow> network \<Rightarrow> network option" where
  "update_control_functions f w =
     (if PGN_AddressClaim = get_parameter_group_number (identifier_of_raw (frame_identifier f))
         \<and> frame_dataLength f = 8 \<and> frame_channel f < can_port_maximum w
      then do {
        let claimedAddress = get_source_address (identifier_of_raw (frame_identifier f));
        let claimedNAME = or_bytes LittleEndian (frame_data f);
        let channel = frame_channel f;
        (found, w1) \<leftarrow>
          (case find_claimer claimedNAME channel w of
             Some c \<Rightarrow> Some (Some c, w)
           | None \<Rightarrow>
               (case find_partner claimedNAME channel w of
                  None \<Rightarrow> Some (None, w)
                | Some p \<Rightarrow>
                    let v = w\<lparr>objects := (objects w)(p := (objects w p)\<lparr>controlFunctionNAME := name_of_raw claimedNAME\<rparr>)\<rparr>
                    in if in_table channel claimedAddress v
                       then Some (Some p, put_table channel claimedAddress (Some p) v) else None));
        let w2 = fold (evict found claimedAddress claimedNAME) (table_row channel w1) w1;
        let w3 = fold (evict_inactive found claimedAddress channel) (inactiveControlFunctions w2) w2;
        Some (register_claim found claimedAddress claimedNAME channel w3)
      }
      else Some w)"

definition message_of_frame :: "MessageType \<Rightarrow> CANMessageFrame \<Rightarrow> network \<Rightarrow> CANMessage" where
  "message_of_frame t f w =
     (let identifier = identifier_of_raw (frame_identifier f)
      in make_message t identifier (frame_data f)
           (get_control_function (frame_channel f) (get_source_address identifier) w)
           (get_control_function (frame_channel f) (get_destination_address identifier) w)
           (frame_channel f) (frame_timestamp_us f))"

definition process_receive_can_message_frame :: "CANMessageFrame \<Rightarrow> network \<Rightarrow> network option" where
  "process_receive_can_message_frame f w =
     do {
       w1 \<leftarrow> update_control_functions f w;
       Some (if nm_initialized w1
             then w1\<lparr>receivedMessageQueue := receivedMessageQueue w1 @ [message_of_frame Receive f w1]\<rparr> else w1)
     }"

definition process_transmitted_can_message_frame :: "CANMessageFrame \<Rightarrow> network \<Rightarrow> network" where
  "process_transmitted_can_message_frame f w =
     (let m = message_of_frame Transmit f w
      in if nm_initialized w \<and> get_identifier_type (msg_identifier m) = Extended
            \<and> get_parameter_group_number (msg_identifier m) = PGN_ParameterGroupNumberRequest
            \<and> get_data_length m = 3 \<and> get_data_custom_length 0 24 LittleEndian m = ucast PGN_AddressClaim
         then w\<lparr>receivedMessageQueue := receivedMessageQueue w @ [m]\<rparr> else w)"

section \<open>Queued messages and the periodic update\<close>

definition claim_in_table :: "u8 \<Rightarrow> u8 \<Rightarrow> network \<Rightarrow> network" where
  "claim_in_table channel claimedAddress w =
     (let stolen = (case controlFunctionTable w channel claimedAddress of None \<Rightarrow> False
                    | Some c \<Rightarrow> NULL_ADDRESS = address (objects w c));
          w1 = (case controlFunctionTable w channel claimedAddress of None \<Rightarrow> w
                | Some c \<Rightarrow>
                    if stolen
                    then put_table channel claimedAddress None
                      ((set_address c NULL_CAN_ADDRESS w)\<lparr>inactiveControlFunctions := inactiveControlFunctions w @ [c]\<rparr>)
                    else w)
      in (case controlFunctionTable w1 channel claimedAddress of
            Some c \<Rightarrow> set_claimed_flag True c w1
          | None \<Rightarrow>
              (case find (\<lambda>c. address (objects w1 c) = claimedAddress \<and> canPortIndex (objects w1 c) = channel)
                      (inactiveControlFunctions w1) of
                 None \<Rightarrow> w1
               | Some c \<Rightarrow> state_change c Online (put_table channel claimedAddress (Some c) w1))))"

definition claims_requested :: "u8 \<Rightarrow> network \<Rightarrow> network" where
  "claims_requested channel w =
     (let w1 = w\<lparr>lastAddressClaimRequestTimestamp_ms := (lastAddressClaimRequestTimestamp_ms w)(channel := now_ms w)\<rparr>;
          w2 = (case find (\<lambda>c. channel = canPortIndex (objects w1 c)) (inactiveControlFunctions w1) of
                  None \<Rightarrow> w1 | Some c \<Rightarrow> set_claimed_flag True c w1)
      in fold (set_claimed_flag False) (table_row channel w2) w2)"

definition update_address_table :: "CANMessage \<Rightarrow> network \<Rightarrow> network option" where
  "update_address_table m w =
     (let channel = msg_port m; pgn = get_parameter_group_number (msg_identifier m)
      in if PGN_AddressClaim = pgn \<and> channel < can_port_maximum w
         then
           let claimedAddress = get_source_address (msg_identifier m)
           in if in_table channel claimedAddress w then Some (claim_in_table channel claimedAddress w) else None
         else if PGN_ParameterGroupNumberRequest = pgn \<and> channel < can_port_maximum w
         then do {
           requestedPGN \<leftarrow> get_uint24_at 0 LittleEndian m;
           Some (if PGN_AddressClaim = requestedPGN \<and> GLOBAL_ADDRESS = get_destination_address (msg_identifier m)
                 then claims_requested channel w else w)
         }
         else Some w)"

definition process_can_message_for_address_violations :: "CANMessage \<Rightarrow> network \<Rightarrow> network" where
  "process_can_message_for_address_violations m w =
     fold (\<lambda>c v. let (violated, v1) = process_rx_message_for_address_violation m c v
                  in if violated then v1\<lparr>address_violations := address_violations v1 @ [c]\<rparr> else v1)
       (internalControlFunctions w) w"

definition process_rx_message_for_address_claiming :: "CANMessage \<Rightarrow> network \<Rightarrow> network option" where
  "process_rx_message_for_address_claiming m w =
     for_each (icf_process_rx_message_for_address_claiming m) (internalControlFunctions w) w"

definition process_rx_message :: "CANMessage \<Rightarrow> network \<Rightarrow> network option" where
  \<comment> \<open>one turn of the receive loop; the protocol managers of an unknown port throw\<close>
  "process_rx_message m w =
     do {
       w1 \<leftarrow> update_address_table m w;
       let w2 = process_can_message_for_address_violations m w1;
       w3 \<leftarrow> process_rx_message_for_address_claiming m w2;
       if msg_port m < can_port_maximum w then Some w3 else None
     }"

definition process_rx_messages :: "network \<Rightarrow> network option" where
  "process_rx_messages w =
     for_each process_rx_message (receivedMessageQueue w) (w\<lparr>receivedMessageQueue := []\<rparr>)"

definition table_index_of :: "cf \<Rightarrow> u8 \<Rightarrow> network \<Rightarrow> u8 option" where
  "table_index_of c channel w = find (\<lambda>a. controlFunctionTable w channel a = Some c) table_addresses"

definition move_in_table :: "cf \<Rightarrow> network \<Rightarrow> network option" where
  \<comment> \<open>an internal control function has claimed: its entry is moved, and whoever was there is evicted\<close>
  "move_in_table c w =
     (let channel = canPortIndex (objects w c);
          claimedAddress = address (objects w c);
          w1 = (case table_index_of c channel w of None \<Rightarrow> w | Some a \<Rightarrow> put_table channel a None w)
      in if in_table channel claimedAddress w1
         then
           let w2 = (case controlFunctionTable w1 channel claimedAddress of None \<Rightarrow> w1
                     | Some d \<Rightarrow> set_address d NULL_CAN_ADDRESS w1)
           in Some (put_table channel claimedAddress (Some c) w2)
         else None)"

definition update_internal_cf :: "cf \<Rightarrow> network \<Rightarrow> network option" where
  "update_internal_cf c w =
     do {
       (claimed, w1) \<leftarrow> update_address_claiming c w;
       if claimed then move_in_table c w1 else Some w1
     }"

definition update_internal_cfs :: "network \<Rightarrow> network option" where
  "update_internal_cfs w = for_each update_internal_cf (internalControlFunctions w) w"

definition prune_at :: "u8 \<Rightarrow> u8 \<Rightarrow> network \<Rightarrow> network" where
  "prune_at channel a w =
     (case controlFunctionTable w channel a of
        None \<Rightarrow> w
      | Some c \<Rightarrow>
          if claimedAddressSinceLastAddressClaimRequest (objects w c) then w
          else
            let w1 = (if controlFunctionType (objects w c) \<noteq> CF_Internal
                      then set_address c NULL_CAN_ADDRESS (put_table channel a None
                             (w\<lparr>inactiveControlFunctions := inactiveControlFunctions w @ [c]\<rparr>))
                      else w)
            in state_change c Offline w1)"

abbreviation (input) MAX_ADDRESS_CLAIM_RESOLUTION_TIME :: u32 where "MAX_ADDRESS_CLAIM_RESOLUTION_TIME \<equiv> 755"

definition prune_channel :: "u8 \<Rightarrow> network \<Rightarrow> network" where
  "prune_channel channel w =
     (let t = lastAddressClaimRequestTimestamp_ms w channel
      in if 0 \<noteq> t \<and> time_expired_ms t MAX_ADDRESS_CLAIM_RESOLUTION_TIME w
         then (fold (prune_at channel) table_addresses w)
           \<lparr>lastAddressClaimRequestTimestamp_ms := (lastAddressClaimRequestTimestamp_ms w)(channel := 0)\<rparr>
         else w)"

definition prune_inactive_control_functions :: "network \<Rightarrow> network" where
  "prune_inactive_control_functions w = fold prune_channel (map of_nat [0..<unat (can_port_maximum w)]) w"

definition nm_initialize :: "network \<Rightarrow> network" where
  "nm_initialize w = w\<lparr>receivedMessageQueue := [], nm_initialized := True\<rparr>"

definition nm_update :: "network \<Rightarrow> network option" where
  \<comment> \<open>the part of the periodic update that concerns control functions\<close>
  "nm_update w =
     do {
       w1 \<leftarrow> update_new_partners (if nm_initialized w then w else nm_initialize w);
       w2 \<leftarrow> process_rx_messages w1;
       w3 \<leftarrow> update_internal_cfs w2;
       Some (prune_inactive_control_functions w3)
     }"

end
