(* ===== verification/Address_Table.thy ===== *)
theory Address_Table
  imports Network_Manager
begin

text \<open>
  What a manager with one internal control function knows of the other devices: the abstract table
  (which NAME is at which address) that the concrete table, the objects and their addresses
  implement, and its change by every claim. The interface \<open>follower\<close> states what a component that
  follows a stream of events promises; the manager implements it for batches of claims.
\<close>

section \<open>The frames of address claiming\<close>

definition claim_frame :: "u8 \<Rightarrow> u8 \<Rightarrow> u64 \<Rightarrow> CANMessageFrame" where
  "claim_frame port a n = construct_frame port a BROADCAST_CAN_ADDRESS PGN_AddressClaim 6 (le_bytes 8 n)"

definition request_frame :: "u8 \<Rightarrow> CANMessageFrame" where
  "request_frame port = construct_frame port NULL_CAN_ADDRESS BROADCAST_CAN_ADDRESS PGN_ParameterGroupNumberRequest 6 [0x00, 0xEE, 0x00]"

lemma claim_pgns: "encodes_pdu1 PGN_AddressClaim" "encodes_pdu1 PGN_ParameterGroupNumberRequest"
  by (simp_all add: manual_format [symmetric] word_less_nat_alt)

lemma frame_header:
  fixes d s :: u8
  assumes "encodes_pdu1 pgn"
  defines "i \<equiv> identifier_of_raw (m_RawIdentifier (make_identifier Extended pgn PriorityDefault6 d s))"
  shows "get_parameter_group_number i = pgn AND 0x3FF00" "get_source_address i = s" "get_destination_address i = d"
    "get_identifier_type i = Extended"
proof -
  have i: "i = make_identifier Extended pgn PriorityDefault6 d s" by (simp add: i_def identifier_of_raw_def)
  show t: "get_identifier_type i = Extended" unfolding i by (rule recognised) simp
  show "get_parameter_group_number i = pgn AND 0x3FF00" "get_source_address i = s" "get_destination_address i = d"
    using t raw_format [of pgn PriorityDefault6 d s] raw_pgn [of pgn PriorityDefault6 d s]
      raw_destination [OF assms(1), of PriorityDefault6 d s] raw_source [of pgn PriorityDefault6 d s] assms(1)
    by (simp_all add: get_parameter_group_number_def get_source_address_def get_destination_address_def i)
qed

lemma six: "priority_of_number (ucast (6 :: u8)) = PriorityDefault6" "priority_of_number 6 = PriorityDefault6"
  by (simp_all add: priority_of_number_def)

lemma claim_frame_fields [simp]:
  "frame_channel (claim_frame p a n) = p" "frame_data (claim_frame p a n) = le_bytes 8 n" "frame_dataLength (claim_frame p a n) = 8"
  "frame_identifier (claim_frame p a n) \<noteq> DEFAULT_IDENTIFIER"
  "get_parameter_group_number (identifier_of_raw (frame_identifier (claim_frame p a n))) = PGN_AddressClaim"
  "get_source_address (identifier_of_raw (frame_identifier (claim_frame p a n))) = a"
  "get_destination_address (identifier_of_raw (frame_identifier (claim_frame p a n))) = GLOBAL_ADDRESS"
  "get_identifier_type (identifier_of_raw (frame_identifier (claim_frame p a n))) = Extended"
  using frame_header [OF claim_pgns(1), of "0xFF" a] raw_not_default
  by (simp_all add: claim_frame_def construct_frame_alt six frame_dataLength_def)

lemma request_frame_fields [simp]:
  "frame_channel (request_frame p) = p" "frame_data (request_frame p) = [0x00, 0xEE, 0x00]" "frame_dataLength (request_frame p) = 3"
  "frame_identifier (request_frame p) \<noteq> DEFAULT_IDENTIFIER"
  "get_parameter_group_number (identifier_of_raw (frame_identifier (request_frame p))) = PGN_ParameterGroupNumberRequest"
  "get_source_address (identifier_of_raw (frame_identifier (request_frame p))) = NULL_CAN_ADDRESS"
  "get_destination_address (identifier_of_raw (frame_identifier (request_frame p))) = GLOBAL_ADDRESS"
  "get_identifier_type (identifier_of_raw (frame_identifier (request_frame p))) = Extended"
  using frame_header [OF claim_pgns(2), of "0xFF" "0xFE"] raw_not_default
  by (simp_all add: request_frame_def construct_frame_alt six frame_dataLength_def)

lemma claimed_name [simp]: "or_bytes LittleEndian (le_bytes 8 n) = (n :: u64)"
  by (rule or_little_le_bytes) simp

text \<open>What is sent, when the hardware takes every frame.\<close>

lemma send_accepted [simp]:
  assumes "hw_replies w = []" "frame_identifier f \<noteq> DEFAULT_IDENTIFIER"
  shows "send_can_message_frame_to_hardware f w = (True, w\<lparr>hw_log := hw_log w @ [f]\<rparr>)"
proof -
  have "w\<lparr>hw_replies := []\<rparr> = w" using assms(1) by (cases w) simp
  then show ?thesis using assms(1) by (simp add: send_can_message_frame_to_hardware_def)
qed

lemma name_bytes:
  "le_bytes 8 (n :: u64) = [ucast n, ucast (drop_bit 8 n), ucast (drop_bit 16 n), ucast (drop_bit 24 n), ucast (drop_bit 32 n),
     ucast (drop_bit 40 n), ucast (drop_bit 48 n), ucast (drop_bit 56 n)]"
  by (simp add: le_bytes_def byte_of_def upt_rec)

lemma claim_sent:
  assumes "hw_replies w = []" "a < BROADCAST_CAN_ADDRESS" "canPortIndex (objects w c) < can_port_maximum w"
  shows "send_address_claim a c w
    = Some (True, set_address c a (w\<lparr>hw_log := hw_log w @ [claim_frame (canPortIndex (objects w c)) a (full_name w c)]\<rparr>))"
  using assms claim_frame_fields(4)
  unfolding send_address_claim_def Let_def name_bytes [symmetric] send_can_message_raw_def claim_frame_def [symmetric] by simp

lemma request_sent:
  assumes "hw_replies w = []" "canPortIndex (objects w c) < can_port_maximum w"
  shows "send_request_to_claim c w = (True, w\<lparr>hw_log := hw_log w @ [request_frame (canPortIndex (objects w c))]\<rparr>)"
proof -
  have b: "[ucast PGN_AddressClaim, ucast (drop_bit 8 PGN_AddressClaim), ucast (drop_bit 16 PGN_AddressClaim)] = [0x00, 0xEE, 0x00 :: u8]"
    by (simp add: drop_bit_eq_div)
  show ?thesis
    using assms request_frame_fields(4)
    unfolding send_request_to_claim_def b send_can_message_raw_def request_frame_def [symmetric] Let_def by simp
qed

section \<open>Rows of the table\<close>

lemma table_addresses_set: "set table_addresses = {a. a < NULL_CAN_ADDRESS}"
proof (rule set_eqI, rule iffI)
  fix a assume "a \<in> set table_addresses"
  then obtain i where "i < 254" "a = of_nat i" by (auto simp: table_addresses_def)
  then show "a \<in> {a. a < NULL_CAN_ADDRESS}" by (simp add: word_less_nat_alt unat_of_nat)
next
  fix a :: u8 assume "a \<in> {a. a < NULL_CAN_ADDRESS}"
  then have "unat a < 254" by (simp add: word_less_nat_alt)
  moreover have "a = of_nat (unat a)" by simp
  ultimately show "a \<in> set table_addresses" unfolding table_addresses_def by (metis atLeast0LessThan image_eqI image_set lessThan_iff set_upt)
qed

lemma table_addresses_distinct: "distinct table_addresses"
  unfolding table_addresses_def distinct_map
proof
  show "inj_on (of_nat :: nat \<Rightarrow> u8) (set [0..<254])"
    by (rule inj_onI) (auto simp: word_unat_eq_iff unat_of_nat)
qed simp

lemma map_filter_set: "set (List.map_filter f xs) = {y. \<exists>x \<in> set xs. f x = Some y}"
  by (force simp: List.map_filter_def)

lemma table_row_set: "set (table_row p w) = {d. \<exists>a < NULL_CAN_ADDRESS. controlFunctionTable w p a = Some d}"
  by (force simp: table_row_def map_filter_set table_addresses_set)

lemma distinct_map_filter_inj:
  "distinct xs \<Longrightarrow> (\<And>x y d. x \<in> set xs \<Longrightarrow> y \<in> set xs \<Longrightarrow> f x = Some d \<Longrightarrow> f y = Some d \<Longrightarrow> x = y) \<Longrightarrow> distinct (List.map_filter f xs)"
proof (induction xs)
  case (Cons x xs)
  then show ?case by (cases "f x") (auto simp: map_filter_set map_filter_simps)
qed (simp add: map_filter_simps)

lemma find_unique:
  assumes "d \<in> set xs" "P d" "\<And>e. e \<in> set xs \<Longrightarrow> P e \<Longrightarrow> e = d"
  shows "find P xs = Some d"
proof -
  obtain e where e: "find P xs = Some e" using assms(1,2) by (cases "find P xs") (auto simp: find_None_iff)
  then have "e \<in> set xs" "P e" by (auto simp: find_Some_iff in_set_conv_nth)
  with e assms(3) show ?thesis by blast
qed

lemma find_absent: "(\<And>e. e \<in> set xs \<Longrightarrow> \<not> P e) \<Longrightarrow> find P xs = None"
  by (simp add: find_None_iff)

text \<open>An operation that only acts on one member of the row.\<close>

lemma fold_one:
  assumes "distinct xs" "\<And>e v. e \<in> set xs \<Longrightarrow> e \<noteq> d \<Longrightarrow> I v \<Longrightarrow> f e v = v" "I w" "d \<in> set xs \<Longrightarrow> I (f d w)"
  shows "fold f xs w = (if d \<in> set xs then f d w else w)"
proof -
  have id: "fold f ys v = v" if "set ys \<subseteq> set xs" "d \<notin> set ys" "I v" for ys v
    using that by (induction ys) (auto simp: assms(2))
  show ?thesis
  proof (cases "d \<in> set xs")
    case True
    then obtain as bs where xs: "xs = as @ d # bs" by (meson split_list)
    have out: "d \<notin> set as" "d \<notin> set bs" using assms(1) xs by auto
    have sub: "set as \<subseteq> set xs" "set bs \<subseteq> set xs" using xs by auto
    have "fold f xs w = fold f bs (f d (fold f as w))" by (simp add: xs)
    also have "\<dots> = f d w" using id [OF sub(1) out(1) assms(3)] id [OF sub(2) out(2) assms(4) [OF True]] by simp
    finally show ?thesis using True by simp
  qed (simp add: id assms(3))
qed

section \<open>A node and what it knows\<close>

text \<open>
  A manager with one internal control function \<open>c\<close> of NAME \<open>n\<close> on port \<open>p\<close>, no partners and a
  working bus. Abstractly it has an address of its own or none (\<open>mine\<close>), and for each address
  the NAME of the device it believes to be there (\<open>known\<close>).
\<close>

definition knows :: "u8 \<Rightarrow> cf \<Rightarrow> (u8 \<Rightarrow> u64 option) \<Rightarrow> network \<Rightarrow> bool" where
  "knows p c known w \<longleftrightarrow>
     (\<forall>x m. known x = Some m \<longrightarrow> x < NULL_CAN_ADDRESS \<and> (\<exists>d. controlFunctionTable w p x = Some d \<and> d \<noteq> c \<and> full_name w d = m))
     \<and> (\<forall>x d. x < NULL_CAN_ADDRESS \<longrightarrow> controlFunctionTable w p x = Some d \<longrightarrow> d \<noteq> c \<longrightarrow>
          known x = Some (full_name w d) \<and> controlFunctionType (objects w d) = CF_External \<and> address (objects w d) = x
          \<and> canPortIndex (objects w d) = p \<and> d < next_object w)
     \<and> (\<forall>x y m. known x = Some m \<longrightarrow> known y = Some m \<longrightarrow> x = y)"

definition node :: "u8 \<Rightarrow> cf \<Rightarrow> u64 \<Rightarrow> u8 option \<Rightarrow> (u8 \<Rightarrow> u64 option) \<Rightarrow> network \<Rightarrow> bool" where
  "node p c n mine known w \<longleftrightarrow>
     p < can_port_maximum w \<and> nm_initialized w \<and> partneredControlFunctions w = [] \<and> internalControlFunctions w = [c]
     \<and> inactiveControlFunctions w = [] \<and> hw_replies w = [] \<and> c < next_object w
     \<and> controlFunctionType (objects w c) = CF_Internal \<and> canPortIndex (objects w c) = p \<and> full_name w c = n
     \<and> address (objects w c) = (case mine of None \<Rightarrow> NULL_CAN_ADDRESS | Some x \<Rightarrow> x)
     \<and> (\<forall>x. mine = Some x \<longrightarrow> x < NULL_CAN_ADDRESS)
     \<and> (\<forall>x < NULL_CAN_ADDRESS. controlFunctionTable w p x = Some c \<longleftrightarrow> mine = Some x)
     \<and> (\<forall>q x. q \<noteq> p \<longrightarrow> controlFunctionTable w q x = None)
     \<and> knows p c known w \<and> (\<forall>x. known x \<noteq> Some n)"

text \<open>What a claim of \<open>b\<close> by \<open>m\<close> changes of the abstract table: \<open>m\<close> is at \<open>b\<close> and nowhere else.\<close>

definition claimed_by :: "u8 \<Rightarrow> u64 \<Rightarrow> (u8 \<Rightarrow> u64 option) \<Rightarrow> (u8 \<Rightarrow> u64 option)" where
  "claimed_by b m known x = (if x = b then Some m else if known x = Some m then None else known x)"

text \<open>The parts of the state that only record what happened, and the parts receiving does not touch.\<close>

definition same_rest :: "network \<Rightarrow> network \<Rightarrow> bool" where
  "same_rest w w' \<longleftrightarrow> now_ms w' = now_ms w \<and> hw_log w' = hw_log w
     \<and> lastAddressClaimRequestTimestamp_ms w' = lastAddressClaimRequestTimestamp_ms w \<and> can_port_maximum w' = can_port_maximum w"

lemma same_rest_refl [simp]: "same_rest w w"
  by (simp add: same_rest_def)

lemma same_rest_trans: "same_rest u v \<Longrightarrow> same_rest v w \<Longrightarrow> same_rest u w"
  by (simp add: same_rest_def)

lemma put_table_fields [simp]:
  "objects (put_table q a d w) = objects w" "internals (put_table q a d w) = internals w" "next_object (put_table q a d w) = next_object w"
  "nm_initialized (put_table q a d w) = nm_initialized w" "partneredControlFunctions (put_table q a d w) = partneredControlFunctions w"
  "internalControlFunctions (put_table q a d w) = internalControlFunctions w" "hw_replies (put_table q a d w) = hw_replies w"
  "inactiveControlFunctions (put_table q a d w) = inactiveControlFunctions w" "can_port_maximum (put_table q a d w) = can_port_maximum w"
  "receivedMessageQueue (put_table q a d w) = receivedMessageQueue w" "now_ms (put_table q a d w) = now_ms w"
  "hw_log (put_table q a d w) = hw_log w" "full_name (put_table q a d w) e = full_name w e"
  "lastAddressClaimRequestTimestamp_ms (put_table q a d w) = lastAddressClaimRequestTimestamp_ms w"
  "controlFunctionTable (put_table q a d w) r x = (if r = q \<and> x = a then d else controlFunctionTable w r x)"
  by (simp_all add: put_table_def full_name_def)

lemma set_address_fields [simp]:
  "internals (set_address d a w) = internals w" "next_object (set_address d a w) = next_object w"
  "nm_initialized (set_address d a w) = nm_initialized w" "partneredControlFunctions (set_address d a w) = partneredControlFunctions w"
  "internalControlFunctions (set_address d a w) = internalControlFunctions w" "hw_replies (set_address d a w) = hw_replies w"
  "inactiveControlFunctions (set_address d a w) = inactiveControlFunctions w" "can_port_maximum (set_address d a w) = can_port_maximum w"
  "receivedMessageQueue (set_address d a w) = receivedMessageQueue w" "now_ms (set_address d a w) = now_ms w"
  "hw_log (set_address d a w) = hw_log w" "full_name (set_address d a w) e = full_name w e"
  "lastAddressClaimRequestTimestamp_ms (set_address d a w) = lastAddressClaimRequestTimestamp_ms w"
  "controlFunctionTable (set_address d a w) = controlFunctionTable w"
  "address (objects (set_address d a w) e) = (if e = d then a else address (objects w e))"
  "canPortIndex (objects (set_address d a w) e) = canPortIndex (objects w e)"
  "controlFunctionType (objects (set_address d a w) e) = controlFunctionType (objects w e)"
  by (simp_all add: set_address_def full_name_def)

lemma state_change_fields [simp]:
  "objects (state_change d s w) = objects w" "internals (state_change d s w) = internals w" "next_object (state_change d s w) = next_object w"
  "nm_initialized (state_change d s w) = nm_initialized w" "partneredControlFunctions (state_change d s w) = partneredControlFunctions w"
  "internalControlFunctions (state_change d s w) = internalControlFunctions w" "hw_replies (state_change d s w) = hw_replies w"
  "inactiveControlFunctions (state_change d s w) = inactiveControlFunctions w" "can_port_maximum (state_change d s w) = can_port_maximum w"
  "receivedMessageQueue (state_change d s w) = receivedMessageQueue w" "now_ms (state_change d s w) = now_ms w"
  "hw_log (state_change d s w) = hw_log w" "full_name (state_change d s w) e = full_name w e"
  "lastAddressClaimRequestTimestamp_ms (state_change d s w) = lastAddressClaimRequestTimestamp_ms w"
  "controlFunctionTable (state_change d s w) = controlFunctionTable w"
  by (simp_all add: state_change_def full_name_def)

lemma set_state_fields [simp]:
  "objects (set_current_state s d w) = objects w" "next_object (set_current_state s d w) = next_object w"
  "nm_initialized (set_current_state s d w) = nm_initialized w" "partneredControlFunctions (set_current_state s d w) = partneredControlFunctions w"
  "internalControlFunctions (set_current_state s d w) = internalControlFunctions w" "hw_replies (set_current_state s d w) = hw_replies w"
  "inactiveControlFunctions (set_current_state s d w) = inactiveControlFunctions w" "can_port_maximum (set_current_state s d w) = can_port_maximum w"
  "receivedMessageQueue (set_current_state s d w) = receivedMessageQueue w" "now_ms (set_current_state s d w) = now_ms w"
  "hw_log (set_current_state s d w) = hw_log w" "full_name (set_current_state s d w) e = full_name w e"
  "lastAddressClaimRequestTimestamp_ms (set_current_state s d w) = lastAddressClaimRequestTimestamp_ms w"
  "controlFunctionTable (set_current_state s d w) = controlFunctionTable w"
  by (simp_all add: set_current_state_def full_name_def)

lemma set_flag_fields [simp]:
  "internals (set_claimed_flag b d w) = internals w" "next_object (set_claimed_flag b d w) = next_object w"
  "nm_initialized (set_claimed_flag b d w) = nm_initialized w" "partneredControlFunctions (set_claimed_flag b d w) = partneredControlFunctions w"
  "internalControlFunctions (set_claimed_flag b d w) = internalControlFunctions w" "hw_replies (set_claimed_flag b d w) = hw_replies w"
  "inactiveControlFunctions (set_claimed_flag b d w) = inactiveControlFunctions w" "can_port_maximum (set_claimed_flag b d w) = can_port_maximum w"
  "receivedMessageQueue (set_claimed_flag b d w) = receivedMessageQueue w" "now_ms (set_claimed_flag b d w) = now_ms w"
  "hw_log (set_claimed_flag b d w) = hw_log w" "full_name (set_claimed_flag b d w) e = full_name w e"
  "lastAddressClaimRequestTimestamp_ms (set_claimed_flag b d w) = lastAddressClaimRequestTimestamp_ms w"
  "controlFunctionTable (set_claimed_flag b d w) = controlFunctionTable w"
  "address (objects (set_claimed_flag b d w) e) = address (objects w e)"
  "canPortIndex (objects (set_claimed_flag b d w) e) = canPortIndex (objects w e)"
  "controlFunctionType (objects (set_claimed_flag b d w) e) = controlFunctionType (objects w e)"
  "claimedAddressSinceLastAddressClaimRequest (objects (set_claimed_flag b d w) e)
     = (if e = d then b else claimedAddressSinceLastAddressClaimRequest (objects w e))"
  by (simp_all add: set_claimed_flag_def full_name_def)

lemma node_basics:
  assumes "node p c n mine known w"
  shows "p < can_port_maximum w" "partneredControlFunctions w = []" "internalControlFunctions w = [c]"
    "inactiveControlFunctions w = []" "canPortIndex (objects w c) = p" "full_name w c = n" "nm_initialized w" "hw_replies w = []"
    "controlFunctionType (objects w c) = CF_Internal"
  using assms by (simp_all add: node_def)

lemma node_known:
  "node p c n mine known w \<Longrightarrow> known x = Some m
    \<Longrightarrow> x < NULL_CAN_ADDRESS \<and> (\<exists>d. controlFunctionTable w p x = Some d \<and> d \<noteq> c \<and> full_name w d = m)"
  unfolding node_def knows_def by blast

lemma node_entry:
  "node p c n mine known w \<Longrightarrow> x < NULL_CAN_ADDRESS \<Longrightarrow> controlFunctionTable w p x = Some d \<Longrightarrow> d \<noteq> c
    \<Longrightarrow> known x = Some (full_name w d) \<and> controlFunctionType (objects w d) = CF_External \<and> address (objects w d) = x
          \<and> canPortIndex (objects w d) = p \<and> d < next_object w"
  unfolding node_def knows_def by blast

lemma node_unique: "node p c n mine known w \<Longrightarrow> known x = Some m \<Longrightarrow> known y = Some m \<Longrightarrow> y = x"
  unfolding node_def knows_def by blast

lemma node_own:
  "node p c n mine known w \<Longrightarrow> x < NULL_CAN_ADDRESS \<Longrightarrow> controlFunctionTable w p x = Some c \<Longrightarrow> address (objects w c) = x"
  unfolding node_def by auto

lemma node_name: "node p c n mine known w \<Longrightarrow> known x \<noteq> Some n \<and> full_name w c = n"
  unfolding node_def by blast

lemma node_row:
  assumes "node p c n mine known w"
  shows "distinct (table_row p w)"
    "\<And>d. d \<in> set (table_row p w) \<Longrightarrow> \<exists>x < NULL_CAN_ADDRESS. controlFunctionTable w p x = Some d \<and> address (objects w d) = x
       \<and> (d \<noteq> c \<longrightarrow> known x = Some (full_name w d))"
proof -
  have at: "address (objects w d) = x" if "x < NULL_CAN_ADDRESS" "controlFunctionTable w p x = Some d" for x d
    using node_own [OF assms that(1)] node_entry [OF assms that] that(2) by (cases "d = c") blast+
  show "distinct (table_row p w)"
    unfolding table_row_def using at by (intro distinct_map_filter_inj table_addresses_distinct) (auto simp: table_addresses_set)
  show "\<exists>x < NULL_CAN_ADDRESS. controlFunctionTable w p x = Some d \<and> address (objects w d) = x
       \<and> (d \<noteq> c \<longrightarrow> known x = Some (full_name w d))" if mem: "d \<in> set (table_row p w)" for d
  proof -
    obtain x where x: "x < NULL_CAN_ADDRESS" "controlFunctionTable w p x = Some d" using mem by (auto simp: table_row_set)
    then show ?thesis using at [OF x] node_entry [OF assms x] by blast
  qed
qed

text \<open>Who a claim comes from.\<close>

lemma find_claimer_node:
  assumes "node p c n mine known w" "m \<noteq> n"
  shows "find_claimer m p w = (if \<exists>x. known x = Some m then controlFunctionTable w p (THE x. known x = Some m) else None)"
proof (cases "\<exists>x. known x = Some m")
  case True
  then obtain x where x: "known x = Some m" by blast
  have uniq: "y = x" if "known y = Some m" for y using node_unique [OF assms(1) x that] .
  then have the: "(THE x. known x = Some m) = x" using x by blast
  obtain d where d: "x < NULL_CAN_ADDRESS" "controlFunctionTable w p x = Some d" "d \<noteq> c" "full_name w d = m"
    using node_known [OF assms(1) x] by blast
  have "find (\<lambda>e. full_name w e = m) (table_row p w) = Some d"
  proof (rule find_unique)
    show "d \<in> set (table_row p w)" "full_name w d = m" using d by (auto simp: table_row_set)
    fix e assume e: "e \<in> set (table_row p w)" "full_name w e = m"
    then obtain y where y: "controlFunctionTable w p y = Some e" "e \<noteq> c \<longrightarrow> known y = Some m"
      using node_row(2) [OF assms(1)] by blast
    have "e \<noteq> c" using e(2) assms(2) node_name [OF assms(1)] by metis
    with y uniq d(2) show "e = d" by auto
  qed
  then show ?thesis using True the d(2) by (simp add: find_claimer_def)
next
  case False
  have "find (\<lambda>e. full_name w e = m) (table_row p w) = None"
  proof (rule find_absent)
    fix e assume "e \<in> set (table_row p w)"
    then obtain y where "e \<noteq> c \<longrightarrow> known y = Some (full_name w e)" using node_row(2) [OF assms(1)] by blast
    then show "full_name w e \<noteq> m" using False assms(2) node_name [OF assms(1)] by metis
  qed
  then show ?thesis using False node_basics(4) [OF assms(1)] by (simp add: find_claimer_def)
qed

lemma evict_row:
  assumes "node p c n mine known w"
  shows "fold (evict found b m) (table_row p w) w
    = (case controlFunctionTable w p b of None \<Rightarrow> w | Some d \<Rightarrow> if b < NULL_CAN_ADDRESS then evict found b m d w else w)"
proof (cases "\<exists>d. controlFunctionTable w p b = Some d \<and> b < NULL_CAN_ADDRESS")
  case True
  then obtain d where d: "controlFunctionTable w p b = Some d" "b < NULL_CAN_ADDRESS" by blast
  then have mem: "d \<in> set (table_row p w)" by (auto simp: table_row_set)
  have "fold (evict found b m) (table_row p w) w = (if d \<in> set (table_row p w) then evict found b m d w else w)"
  proof (rule fold_one [where I = "\<lambda>v. \<forall>e \<in> set (table_row p w). e \<noteq> d \<longrightarrow> address (objects v e) \<noteq> b"])
    show "distinct (table_row p w)" by (rule node_row(1) [OF assms])
    show start: "\<forall>e \<in> set (table_row p w). e \<noteq> d \<longrightarrow> address (objects w e) \<noteq> b"
      using node_row(2) [OF assms] d(1) by fastforce
    then show "\<forall>e \<in> set (table_row p w). e \<noteq> d \<longrightarrow> address (objects (evict found b m d w) e) \<noteq> b"
      by (auto simp: evict_def Let_def)
  qed (auto simp: evict_def)
  then show ?thesis using d mem by simp
next
  case False
  have "address (objects w e) \<noteq> b" if "e \<in> set (table_row p w)" for e
    using node_row(2) [OF assms that] False by auto
  then have "fold (evict found b m) xs w = w" if "set xs \<subseteq> set (table_row p w)" for xs
    using that by (induction xs) (auto simp: evict_def)
  then show ?thesis using False by (auto split: option.split)
qed

lemma claimed_by_other: "claimed_by b m known x = Some k \<Longrightarrow> x \<noteq> b \<Longrightarrow> known x = Some k \<and> k \<noteq> m"
  by (auto simp: claimed_by_def split: if_splits)

lemma node_installed:
  assumes node: "node p c n mine known w" and b: "b < NULL_CAN_ADDRESS" "m \<noteq> n"
    and mine': "mine' = (if mine = Some b then None else mine)"
    and g: "g \<noteq> c" "full_name w' g = m" "controlFunctionType (objects w' g) = CF_External" "address (objects w' g) = b"
      "canPortIndex (objects w' g) = p" "g < next_object w'"
    and old: "\<And>y. y < NULL_CAN_ADDRESS \<Longrightarrow> controlFunctionTable w p y = Some g \<Longrightarrow> known y = Some m"
    and table: "\<And>q x. controlFunctionTable w' q x
       = (if q = p \<and> x = b then Some g else if q = p \<and> known x = Some m then None else controlFunctionTable w q x)"
    and others: "\<And>e x. e \<noteq> g \<Longrightarrow> x < NULL_CAN_ADDRESS \<Longrightarrow> x \<noteq> b \<Longrightarrow> controlFunctionTable w p x = Some e \<Longrightarrow> full_name w' e = full_name w e
       \<and> controlFunctionType (objects w' e) = controlFunctionType (objects w e) \<and> address (objects w' e) = address (objects w e)
       \<and> canPortIndex (objects w' e) = canPortIndex (objects w e)"
    and grows: "next_object w \<le> next_object w'"
    and own: "full_name w' c = n" "controlFunctionType (objects w' c) = CF_Internal" "canPortIndex (objects w' c) = p"
      "address (objects w' c) = (case mine' of None \<Rightarrow> NULL_CAN_ADDRESS | Some x \<Rightarrow> x)"
    and rest: "can_port_maximum w' = can_port_maximum w" "nm_initialized w' = nm_initialized w"
      "partneredControlFunctions w' = partneredControlFunctions w" "internalControlFunctions w' = internalControlFunctions w"
      "inactiveControlFunctions w' = inactiveControlFunctions w" "hw_replies w' = hw_replies w"
  shows "node p c n mine' (claimed_by b m known) w'"
proof -
  have knows: "knows p c (claimed_by b m known) w'"
    unfolding knows_def
  proof (intro conjI allI impI)
    fix x k assume k: "claimed_by b m known x = Some k"
    show "x < NULL_CAN_ADDRESS"
      using k b(1) claimed_by_other [OF k] node_known [OF node] by (cases "x = b") blast+
    show "\<exists>d. controlFunctionTable w' p x = Some d \<and> d \<noteq> c \<and> full_name w' d = k"
    proof (cases "x = b")
      case True
      then show ?thesis using k g(1,2) by (simp add: claimed_by_def table)
    next
      case False
      then obtain d where d: "x < NULL_CAN_ADDRESS" "controlFunctionTable w p x = Some d" "d \<noteq> c" "full_name w d = k" "k \<noteq> m" "known x = Some k"
        using claimed_by_other [OF k] node_known [OF node] by blast
      then have "d \<noteq> g" using old by force
      then show ?thesis using d False others by (simp add: table)
    qed
  next
    fix x d assume x: "x < NULL_CAN_ADDRESS" "controlFunctionTable w' p x = Some d" "d \<noteq> c"
    have "claimed_by b m known x = Some (full_name w' d) \<and> controlFunctionType (objects w' d) = CF_External
       \<and> address (objects w' d) = x \<and> canPortIndex (objects w' d) = p \<and> d < next_object w'"
    proof (cases "x = b")
      case True
      then show ?thesis using x g by (simp add: table claimed_by_def)
    next
      case False
      then have t: "controlFunctionTable w p x = Some d" "known x \<noteq> Some m" using x(2) by (simp_all add: table split: if_splits)
      then have "d \<noteq> g" using old x(1) by force
      then show ?thesis using others [OF _ x(1) False t(1)] node_entry [OF node x(1) t(1) x(3)] t(2) False grows
        by (simp add: claimed_by_def)
    qed
    then show "claimed_by b m known x = Some (full_name w' d)" "controlFunctionType (objects w' d) = CF_External"
       "address (objects w' d) = x" "canPortIndex (objects w' d) = p" "d < next_object w'" by blast+
  next
    fix x y k assume "claimed_by b m known x = Some k" "claimed_by b m known y = Some k"
    then show "x = y" using node_unique [OF node, of x k y] by (auto simp: claimed_by_def split: if_splits)
  qed
  have entry: "controlFunctionTable w' p x = Some c \<longleftrightarrow> mine' = Some x" if "x < NULL_CAN_ADDRESS" for x
  proof -
    have own_at: "controlFunctionTable w p x = Some c \<longleftrightarrow> mine = Some x" using node that unfolding node_def by blast
    have "known x \<noteq> Some m" if "mine = Some x"
      using own_at that node_known [OF node, of x m] by auto
    then show ?thesis using own_at g(1) mine' by (auto simp: table)
  qed
  have "mine' = Some x \<Longrightarrow> x < NULL_CAN_ADDRESS" for x using node mine' unfolding node_def by (auto split: if_splits)
  moreover have "controlFunctionTable w' q x = None" if "q \<noteq> p" for q x using node that unfolding node_def by (simp add: table)
  moreover have "claimed_by b m known x \<noteq> Some n" for x using node_name [OF node, of x] b(2) by (auto simp: claimed_by_def)
  moreover have "c < next_object w'" using node grows unfolding node_def by linarith
  ultimately show ?thesis using node_basics [OF node] knows entry own unfolding node_def rest by blast
qed

text \<open>Receiving a claim of an address that is not ours.\<close>

lemma create_external_fields:
  assumes "p < can_port_maximum w" "b < NULL_CAN_ADDRESS"
  shows "create_external_control_function nm b p w = (next_object w, put_table p b (Some (next_object w))
    (w\<lparr>objects := (objects w)(next_object w := \<lparr>controlFunctionType = CF_External, controlFunctionNAME = nm,
         claimedAddressSinceLastAddressClaimRequest = False, address = b, canPortIndex = p\<rparr>), next_object := Suc (next_object w)\<rparr>))"
  using assms by (simp add: create_external_control_function_def new_object_def put_table_def)

lemma update_claim:
  assumes "node p c n mine known w" "m \<noteq> n" "b < NULL_CAN_ADDRESS"
  defines "F \<equiv> find_claimer m p w"
  shows "update_control_functions (claim_frame p b m) w
    = Some (register_claim F b m p (case controlFunctionTable w p b of None \<Rightarrow> w | Some d \<Rightarrow> evict F b m d w))"
proof -
  let ?v = "fold (evict F b m) (table_row p w) w"
  have v: "?v = (case controlFunctionTable w p b of None \<Rightarrow> w | Some d \<Rightarrow> evict F b m d w)"
    unfolding evict_row [OF assms(1)] using assms(3) by (auto split: option.split)
  have "inactiveControlFunctions ?v = []" unfolding v using node_basics(4) [OF assms(1)] by (auto simp: evict_def Let_def split: option.split)
  moreover have "find_partner m p w = None" using node_basics(2) [OF assms(1)] by (simp add: find_partner_def)
  ultimately show ?thesis
    using node_basics(1) [OF assms(1)] unfolding v [symmetric]
    by (cases F) (simp_all add: update_control_functions_def Let_def F_def [symmetric])
qed

definition keeps_internals :: "network \<Rightarrow> network \<Rightarrow> bool" where
  "keeps_internals w w' \<longleftrightarrow> internals w' = internals w \<and> receivedMessageQueue w' = receivedMessageQueue w \<and> same_rest w w'"

text \<open>The same, whatever has been done before to the device that was at the address.\<close>

lemma registered:
  assumes node: "node p c n mine known w" and m: "m \<noteq> n" "b < NULL_CAN_ADDRESS"
    and mine': "mine' = (if mine = Some b then None else mine)"
    and w1: "\<And>e. full_name w1 e = full_name w e \<and> controlFunctionType (objects w1 e) = controlFunctionType (objects w e)
        \<and> canPortIndex (objects w1 e) = canPortIndex (objects w e)"
      "\<And>e x. x < NULL_CAN_ADDRESS \<Longrightarrow> x \<noteq> b \<Longrightarrow> controlFunctionTable w p x = Some e \<Longrightarrow> e \<noteq> c \<Longrightarrow> address (objects w1 e) = address (objects w e)"
      "find_claimer m p w = controlFunctionTable w p b \<Longrightarrow> controlFunctionTable w p b \<noteq> None \<Longrightarrow> w1 = w"
      "address (objects w1 c) = (case mine' of None \<Rightarrow> NULL_CAN_ADDRESS | Some x \<Rightarrow> x)"
      "controlFunctionTable w1 = controlFunctionTable w" "next_object w1 = next_object w"
    and rest: "can_port_maximum w1 = can_port_maximum w" "nm_initialized w1 = nm_initialized w"
      "partneredControlFunctions w1 = partneredControlFunctions w" "internalControlFunctions w1 = internalControlFunctions w"
      "inactiveControlFunctions w1 = inactiveControlFunctions w" "hw_replies w1 = hw_replies w"
  shows "node p c n mine' (claimed_by b m known) (register_claim (find_claimer m p w) b m p w1)
    \<and> keeps_internals w1 (register_claim (find_claimer m p w) b m p w1)"
proof (cases "\<exists>x. known x = Some m")
  case False
  then have F: "find_claimer m p w = None" using find_claimer_node [OF node m(1)] by simp
  let ?g = "next_object w"
  let ?w' = "register_claim None b m p w1"
  have w': "?w' = state_change ?g Online (put_table p b (Some ?g)
    (w1\<lparr>objects := (objects w1)(?g := \<lparr>controlFunctionType = CF_External, controlFunctionNAME = name_of_raw m,
         claimedAddressSinceLastAddressClaimRequest = False, address = b, canPortIndex = p\<rparr>), next_object := Suc ?g\<rparr>))"
    using create_external_fields [of p w1 b "name_of_raw m"] node_basics(1) [OF node] m(2) w1(6) rest(1) by (simp add: register_claim_def)
  have fresh: "e \<noteq> ?g" if "x < NULL_CAN_ADDRESS" "controlFunctionTable w p x = Some e" for x e
    using node_entry [OF node that] node unfolding node_def by (cases "e = c") auto
  have c: "c \<noteq> ?g" "c < ?g" using node by (simp_all add: node_def)
  have node': "node p c n mine' (claimed_by b m known) ?w'"
  proof (rule node_installed [OF node m(2,1) mine', where g = ?g])
    show "?g \<noteq> c" using c by simp
    show "full_name ?w' ?g = m" "controlFunctionType (objects ?w' ?g) = CF_External" "address (objects ?w' ?g) = b"
      "canPortIndex (objects ?w' ?g) = p" "?g < next_object ?w'"
      unfolding w' by (simp_all add: full_name_def name_of_raw_def)
    show "known y = Some m" if "y < NULL_CAN_ADDRESS" "controlFunctionTable w p y = Some ?g" for y using fresh that by blast
    show "controlFunctionTable ?w' q x = (if q = p \<and> x = b then Some ?g else if q = p \<and> known x = Some m then None else controlFunctionTable w q x)" for q x
      using False unfolding w' by (simp add: w1(5))
    show "full_name ?w' e = full_name w e
       \<and> controlFunctionType (objects ?w' e) = controlFunctionType (objects w e) \<and> address (objects ?w' e) = address (objects w e)
       \<and> canPortIndex (objects ?w' e) = canPortIndex (objects w e)"
      if "e \<noteq> ?g" "x < NULL_CAN_ADDRESS" "x \<noteq> b" "controlFunctionTable w p x = Some e" for e x
    proof -
      have "address (objects w1 e) = address (objects w e)"
      proof (cases "e = c")
        case True
        then have "mine = Some x" "address (objects w c) = x" using node that(2,4) node_own [OF node that(2)] unfolding node_def by auto
        then show ?thesis using True w1(4) mine' that(3) by simp
      qed (use w1(2) that in blast)
      then show ?thesis using that(1) w1(1) unfolding w' by (simp add: full_name_def)
    qed
    show "full_name ?w' c = n" "controlFunctionType (objects ?w' c) = CF_Internal" "canPortIndex (objects ?w' c) = p"
      "address (objects ?w' c) = (case mine' of None \<Rightarrow> NULL_CAN_ADDRESS | Some x \<Rightarrow> x)"
      using c w1(1,4) node_basics [OF node] unfolding w' by (simp_all add: full_name_def)
  qed (use rest w1(6) in \<open>simp_all add: w'\<close>)
  have "keeps_internals w1 ?w'" unfolding w' by (simp add: keeps_internals_def same_rest_def)
  with node' show ?thesis unfolding F by blast
next
  case True
  then obtain x where x: "known x = Some m" by blast
  obtain f where f: "x < NULL_CAN_ADDRESS" "controlFunctionTable w p x = Some f" "f \<noteq> c" "full_name w f = m"
    using node_known [OF node x] by blast
  have the: "(THE x. known x = Some m) = x" using node_unique [OF node x] x by blast
  have F: "find_claimer m p w = Some f" using find_claimer_node [OF node m(1)] True the f(2) by simp
  have uniq: "known y = Some m \<longleftrightarrow> y = x" for y using node_unique [OF node x] x by blast
  have ext: "controlFunctionType (objects w f) = CF_External" "address (objects w f) = x" "canPortIndex (objects w f) = p" "f < next_object w"
    using node_entry [OF node f(1,2,3)] by simp_all
  have only: "y = x" if "y < NULL_CAN_ADDRESS" "controlFunctionTable w p y = Some f" for y
    using node_entry [OF node that f(3)] f(4) uniq by simp
  show ?thesis
  proof (cases "x = b")
    case True
    then have "w1 = w" using w1(3) F f(2) by simp
    moreover have "mine' = mine" using mine' node f(2,3) True f(1) unfolding node_def by auto
    moreover have "claimed_by b m known = known" by (rule HOL.ext) (simp add: claimed_by_def, metis uniq True)
    ultimately show ?thesis using node ext True unfolding F
      by (simp add: register_claim_def keeps_internals_def)
  next
    case False
    have addr: "address (objects w1 f) = x" using w1(2) [OF f(1) False f(2,3)] ext by simp
    have valid: "cf_address_valid (objects w1 f)" using addr f(1) by (auto simp: cf_address_valid_def word_less_nat_alt)
    let ?w' = "register_claim (Some f) b m p w1"
    have w': "?w' = state_change f Online (set_address f b (put_table p x None (put_table p b (Some f) w1)))"
      using addr valid m(2) False by (simp add: register_claim_def Let_def)
    have node': "node p c n mine' (claimed_by b m known) ?w'"
    proof (rule node_installed [OF node m(2,1) mine' f(3)])
      show "full_name ?w' f = m" "controlFunctionType (objects ?w' f) = CF_External" "address (objects ?w' f) = b"
        "canPortIndex (objects ?w' f) = p" "f < next_object ?w'"
        using f(4) ext w1(1,6) unfolding w' by simp_all
      show "known y = Some m" if "y < NULL_CAN_ADDRESS" "controlFunctionTable w p y = Some f" for y using only that uniq by blast
      show "controlFunctionTable ?w' q y = (if q = p \<and> y = b then Some f else if q = p \<and> known y = Some m then None else controlFunctionTable w q y)" for q y
        unfolding w' uniq using False by (auto simp: w1(5))
      show "full_name ?w' e = full_name w e
         \<and> controlFunctionType (objects ?w' e) = controlFunctionType (objects w e) \<and> address (objects ?w' e) = address (objects w e)
         \<and> canPortIndex (objects ?w' e) = canPortIndex (objects w e)"
        if "e \<noteq> f" "y < NULL_CAN_ADDRESS" "y \<noteq> b" "controlFunctionTable w p y = Some e" for e y
      proof -
        have "address (objects w1 e) = address (objects w e)"
        proof (cases "e = c")
          case True
          then have "mine = Some y" "address (objects w c) = y" using node that(2,4) node_own [OF node that(2)] unfolding node_def by auto
          then show ?thesis using True w1(4) mine' that(3) by simp
        qed (use w1(2) that in blast)
        then show ?thesis using that(1) w1(1) unfolding w' by simp
      qed
      show "full_name ?w' c = n" "controlFunctionType (objects ?w' c) = CF_Internal" "canPortIndex (objects ?w' c) = p"
        "address (objects ?w' c) = (case mine' of None \<Rightarrow> NULL_CAN_ADDRESS | Some x \<Rightarrow> x)"
        using f(3) w1(1,4) node_basics [OF node] unfolding w' by simp_all
    qed (use rest w1(6) in \<open>simp_all add: w'\<close>)
    have "keeps_internals w1 ?w'" unfolding w' by (simp add: keeps_internals_def same_rest_def)
    with node' show ?thesis unfolding F by blast
  qed
qed

lemma evict_external:
  assumes "node p c n mine known w" "b < NULL_CAN_ADDRESS" "controlFunctionTable w p b = Some d" "d \<noteq> c"
  shows "evict F b m d w = (if F = Some d then w else set_address d NULL_ADDRESS w)"
  using node_entry [OF assms] by (simp add: evict_def Let_def)

definition claim_message :: "u8 \<Rightarrow> u8 \<Rightarrow> u64 \<Rightarrow> CANMessage \<Rightarrow> bool" where
  "claim_message p b m x \<longleftrightarrow> msg_port x = p \<and> msg_identifier x = identifier_of_raw (frame_identifier (claim_frame p b m))"

lemma received_as:
  assumes "update_control_functions f w = Some w'" "nm_initialized w'"
  shows "process_receive_can_message_frame f w = Some (w'\<lparr>receivedMessageQueue := receivedMessageQueue w' @ [message_of_frame Receive f w']\<rparr>)"
  using assms by (simp add: process_receive_can_message_frame_def)

lemma message_of_claim: "claim_message p b m (message_of_frame Receive (claim_frame p b m) w)"
  by (simp add: claim_message_def message_of_frame_def make_message_def Let_def)

lemma node_queue [simp]: "node p c n mine known (w\<lparr>receivedMessageQueue := q\<rparr>) = node p c n mine known w"
  by (simp add: node_def knows_def full_name_def)

lemma node_recorded [simp]:
  "node p c n mine known (w\<lparr>state_changes := s\<rparr>) = node p c n mine known w"
  "node p c n mine known (w\<lparr>address_violations := v\<rparr>) = node p c n mine known w"
  "node p c n mine known (w\<lparr>lastAddressClaimRequestTimestamp_ms := t\<rparr>) = node p c n mine known w"
  "node p c n mine known (w\<lparr>now_ms := now\<rparr>) = node p c n mine known w"
  "node p c n mine known (w\<lparr>hw_log := l\<rparr>) = node p c n mine known w"
  "node p c n mine known (state_change d st w) = node p c n mine known w"
  "node p c n mine known (set_current_state ics e w) = node p c n mine known w"
  by (simp_all add: node_def knows_def full_name_def state_change_def set_current_state_def)

lemma node_flag [simp]: "node p c n mine known (set_claimed_flag b d w) = node p c n mine known w"
  by (simp add: node_def knows_def)

text \<open>A claim of an address that is not ours.\<close>

lemma claim_elsewhere:
  assumes node: "node p c n mine known w" and m: "m \<noteq> n" "b < NULL_CAN_ADDRESS" "mine \<noteq> Some b"
  shows "\<exists>w' x. process_receive_can_message_frame (claim_frame p b m) w = Some w' \<and> node p c n mine (claimed_by b m known) w'
    \<and> internals w' = internals w \<and> same_rest w w' \<and> receivedMessageQueue w' = receivedMessageQueue w @ [x] \<and> claim_message p b m x"
proof -
  let ?F = "find_claimer m p w"
  define w1 where "w1 = (case controlFunctionTable w p b of None \<Rightarrow> w | Some d \<Rightarrow> evict ?F b m d w)"
  have notc: "d \<noteq> c" if "controlFunctionTable w p b = Some d" for d using that m(2,3) node unfolding node_def by auto
  have w1_cases: "w1 = w \<or> (\<exists>d. controlFunctionTable w p b = Some d \<and> d \<noteq> c \<and> ?F \<noteq> Some d \<and> w1 = set_address d NULL_ADDRESS w)"
    using notc evict_external [OF node m(2)] by (auto simp: w1_def split: option.splits)
  have reg: "node p c n mine (claimed_by b m known) (register_claim ?F b m p w1) \<and> keeps_internals w1 (register_claim ?F b m p w1)"
  proof (rule registered [OF node m(1,2)])
    show "mine = (if mine = Some b then None else mine)" using m(3) by simp
    show "full_name w1 e = full_name w e \<and> controlFunctionType (objects w1 e) = controlFunctionType (objects w e)
        \<and> canPortIndex (objects w1 e) = canPortIndex (objects w e)" for e using w1_cases by auto
    show "address (objects w1 e) = address (objects w e)" if "x < NULL_CAN_ADDRESS" "x \<noteq> b" "controlFunctionTable w p x = Some e" "e \<noteq> c" for e x
    proof -
      have "controlFunctionTable w p b \<noteq> Some e"
        using node_entry [OF node that(1,3,4)] node_entry [OF node m(2) _ that(4)] that(2) by metis
      then show ?thesis using w1_cases by auto
    qed
    show "w1 = w" if "?F = controlFunctionTable w p b" "controlFunctionTable w p b \<noteq> None" using w1_cases that by auto
    show "address (objects w1 c) = (case mine of None \<Rightarrow> NULL_CAN_ADDRESS | Some x \<Rightarrow> x)"
      using w1_cases node unfolding node_def by auto
  qed (use w1_cases in auto)
  have upd: "update_control_functions (claim_frame p b m) w = Some (register_claim ?F b m p w1)"
    unfolding w1_def by (rule update_claim [OF node m(1,2)])
  have "nm_initialized (register_claim ?F b m p w1)" using reg node_basics(7) by blast
  note got = received_as [OF upd this]
  have "internals w1 = internals w" "receivedMessageQueue w1 = receivedMessageQueue w" "same_rest w w1"
    using w1_cases by (auto simp: same_rest_def)
  then show ?thesis
    using reg got message_of_claim [of p b m "register_claim ?F b m p w1"]
    by (auto simp: keeps_internals_def intro: same_rest_trans) (simp add: same_rest_def)
qed

lemma find_claimer_not_own:
  assumes "node p c n mine known w" "m \<noteq> n"
  shows "find_claimer m p w \<noteq> Some c"
proof (cases "\<exists>x. known x = Some m")
  case True
  then obtain x where x: "known x = Some m" by blast
  then have "(THE x. known x = Some m) = x" using node_unique [OF assms(1) x] by blast
  then show ?thesis using find_claimer_node [OF assms] node_known [OF assms(1) x] True by auto
qed (simp add: find_claimer_node [OF assms])

text \<open>A claim of our address by a device with a lower NAME.\<close>

lemma claim_lost:
  assumes node: "node p c n (Some b) known w" and m: "m < n" "icf_state (internals w c) = AddressClaimingComplete"
  shows "\<exists>w' x. process_receive_can_message_frame (claim_frame p b m) w = Some w' \<and> node p c n None (claimed_by b m known) w'
    \<and> internals w' = (internals w)(c := (internals w c)\<lparr>stateChangeTimestamp_ms := now_ms w, icf_state := WaitForRequestContentionPeriod\<rparr>)
    \<and> same_rest w w' \<and> receivedMessageQueue w' = receivedMessageQueue w @ [x] \<and> claim_message p b m x"
proof -
  let ?F = "find_claimer m p w"
  have b: "b < NULL_CAN_ADDRESS" "controlFunctionTable w p b = Some c" "address (objects w c) = b" using node unfolding node_def by auto
  have ne: "m \<noteq> n" using m(1) by simp
  have F: "?F \<noteq> Some c"
    by (rule find_claimer_not_own [OF node ne])
  let ?w1 = "set_address c NULL_ADDRESS (set_current_state WaitForRequestContentionPeriod c w)"
  have w1: "evict ?F b m c w = ?w1"
    using node_basics [OF node] b F m ne by (simp add: evict_def Let_def get_current_state_def not_less_iff_gr_or_eq)
  have reg: "node p c n None (claimed_by b m known) (register_claim ?F b m p ?w1) \<and> keeps_internals ?w1 (register_claim ?F b m p ?w1)"
    by (rule registered [OF node ne b(1)]) (use F b(2) in auto)
  have upd: "update_control_functions (claim_frame p b m) w = Some (register_claim ?F b m p ?w1)"
    using update_claim [OF node ne b(1)] b(2) w1 by simp
  have "nm_initialized (register_claim ?F b m p ?w1)" using reg node_basics(7) by blast
  note got = received_as [OF upd this]
  have "same_rest w ?w1" by (simp add: same_rest_def)
  moreover have "internals ?w1 = (internals w)(c := (internals w c)\<lparr>stateChangeTimestamp_ms := now_ms w, icf_state := WaitForRequestContentionPeriod\<rparr>)"
    by (simp add: set_current_state_def)
  ultimately show ?thesis
    using reg got message_of_claim [of p b m "register_claim ?F b m p ?w1"]
    by (auto simp: keeps_internals_def intro: same_rest_trans) (simp add: same_rest_def)
qed

text \<open>The queued message of a claim.\<close>

lemma violation_other:
  "address (objects w c) \<noteq> get_source_address (msg_identifier x) \<Longrightarrow> process_rx_message_for_address_violation x c w = (False, w)"
  by (simp add: process_rx_message_for_address_violation_def Let_def)

lemma claim_message_processed:
  assumes node: "node p c n mine known w" and m: "claim_message p b m x" "b < NULL_CAN_ADDRESS" "mine \<noteq> Some b"
  shows "\<exists>w'. process_rx_message x w = Some w' \<and> node p c n mine known w' \<and> internals w' = internals w \<and> same_rest w w'
    \<and> receivedMessageQueue w' = receivedMessageQueue w"
proof -
  have x: "msg_port x = p" "get_parameter_group_number (msg_identifier x) = PGN_AddressClaim" "get_source_address (msg_identifier x) = b"
    using m(1) by (simp_all add: claim_message_def)
  have tab: "in_table p b w" using node_basics(1) [OF node] m(2) by (simp add: in_table_def)
  have notc: "controlFunctionTable w p b \<noteq> Some c" using m(2,3) node unfolding node_def by auto
  have addr: "address (objects w c) \<noteq> b" using m(2,3) node unfolding node_def by (auto split: option.splits)
  define w1 where "w1 = claim_in_table p b w"
  have w1: "w1 = w \<or> (\<exists>d. d \<noteq> c \<and> w1 = set_claimed_flag True d w)"
  proof (cases "controlFunctionTable w p b")
    case None
    then show ?thesis using node_basics(4) [OF node] by (simp add: w1_def claim_in_table_def)
  next
    case (Some d)
    then have "d \<noteq> c" using notc by blast
    then have "address (objects w d) = b" using node_entry [OF node m(2) Some] by blast
    then show ?thesis using Some \<open>d \<noteq> c\<close> m(2) by (auto simp: w1_def claim_in_table_def)
  qed
  have ints: "internalControlFunctions w1 = [c]" "address (objects w1 c) = address (objects w c)" using w1 node_basics(3) [OF node] by auto
  have "process_rx_message x w = Some w1"
    using x tab ints addr node_basics(1) [OF node]
    by (simp add: process_rx_message_def update_address_table_def w1_def [symmetric] process_can_message_for_address_violations_def
        violation_other process_rx_message_for_address_claiming_def icf_process_rx_message_for_address_claiming_def)
  then show ?thesis using w1 node by (auto simp: same_rest_def)
qed

lemma claim_messages_processed:
  assumes "\<And>x. x \<in> set xs \<Longrightarrow> \<exists>b m. claim_message p b m x \<and> b < NULL_CAN_ADDRESS \<and> mine \<noteq> Some b"
  shows "node p c n mine known w \<Longrightarrow> \<exists>w'. for_each process_rx_message xs w = Some w' \<and> node p c n mine known w'
    \<and> internals w' = internals w \<and> same_rest w w' \<and> receivedMessageQueue w' = receivedMessageQueue w"
  using assms
proof (induction xs arbitrary: w)
  case (Cons x xs)
  obtain b m where bm: "claim_message p b m x" "b < NULL_CAN_ADDRESS" "mine \<noteq> Some b" using Cons.prems(2) [of x] by auto
  obtain w1 where w1: "process_rx_message x w = Some w1" "node p c n mine known w1" "internals w1 = internals w" "same_rest w w1"
      "receivedMessageQueue w1 = receivedMessageQueue w"
    using claim_message_processed [OF Cons.prems(1) bm] by blast
  obtain w2 where "for_each process_rx_message xs w1 = Some w2" "node p c n mine known w2" "internals w2 = internals w1" "same_rest w1 w2"
      "receivedMessageQueue w2 = receivedMessageQueue w1"
    using Cons.IH [OF w1(2)] Cons.prems(2) by auto
  then show ?case using w1 same_rest_trans by (auto intro: same_rest_trans)
qed simp

section \<open>The address table follows the claims\<close>

lemma node_lookup:
  assumes "node p c n mine known w"
  shows "map_option (full_name w) (get_control_function p x w) = (if mine = Some x then Some n else known x)"
proof (cases "x < NULL_CAN_ADDRESS")
  case True
  show ?thesis
  proof (cases "controlFunctionTable w p x")
    case None
    moreover have "mine \<noteq> Some x" using None True assms unfolding node_def by auto
    moreover have "known x = None" using None node_known [OF assms, of x] by (cases "known x") auto
    ultimately show ?thesis using True node_basics(1) [OF assms] by (simp add: get_control_function_def)
  next
    case (Some d)
    show ?thesis
    proof (cases "d = c")
      case True
      then have "mine = Some x" using Some \<open>x < 0xFE\<close> assms unfolding node_def by blast
      then show ?thesis using Some True \<open>x < 0xFE\<close> node_basics(1) [OF assms] node_name [OF assms] by (simp add: get_control_function_def)
    next
      case False
      then have "mine \<noteq> Some x" using Some True assms unfolding node_def by auto
      then show ?thesis using Some True node_entry [OF assms True Some False] node_basics(1) [OF assms] by (simp add: get_control_function_def)
    qed
  qed
next
  case False
  moreover have "known x = None" using False node_known [OF assms, of x] by (cases "known x") auto
  moreover have "mine \<noteq> Some x" using False assms unfolding node_def by auto
  ultimately show ?thesis by (simp add: get_control_function_def)
qed

definition hear :: "u8 \<Rightarrow> (u8 \<times> u64) list \<Rightarrow> network \<Rightarrow> network option" where
  \<comment> \<open>frames of claims arrive, then the queue is processed\<close>
  "hear p claims w = Option.bind (for_each process_receive_can_message_frame (map (\<lambda>(b, m). claim_frame p b m) claims) w) process_rx_messages"

lemma claims_received:
  assumes "\<forall>(b, m) \<in> set claims. m \<noteq> n \<and> b < NULL_CAN_ADDRESS \<and> mine \<noteq> Some b"
  shows "node p c n mine known w \<Longrightarrow> \<exists>w' xs. for_each process_receive_can_message_frame (map (\<lambda>(b, m). claim_frame p b m) claims) w = Some w'
    \<and> node p c n mine (fold (\<lambda>(b, m). claimed_by b m) claims known) w' \<and> internals w' = internals w \<and> same_rest w w'
    \<and> receivedMessageQueue w' = receivedMessageQueue w @ xs \<and> (\<forall>x \<in> set xs. \<exists>b m. claim_message p b m x \<and> b < NULL_CAN_ADDRESS \<and> mine \<noteq> Some b)"
  using assms
proof (induction claims arbitrary: w known)
  case (Cons bm claims)
  obtain b m where [simp]: "bm = (b, m)" by (cases bm)
  have ok: "m \<noteq> n" "b < NULL_CAN_ADDRESS" "mine \<noteq> Some b" using Cons.prems(2) by auto
  obtain w1 x where w1: "process_receive_can_message_frame (claim_frame p b m) w = Some w1" "node p c n mine (claimed_by b m known) w1"
      "internals w1 = internals w" "same_rest w w1" "receivedMessageQueue w1 = receivedMessageQueue w @ [x]" "claim_message p b m x"
    using claim_elsewhere [OF Cons.prems(1) ok] by blast
  have rest: "\<forall>(b, m) \<in> set claims. m \<noteq> n \<and> b < NULL_CAN_ADDRESS \<and> mine \<noteq> Some b" using Cons.prems(2) by simp
  obtain w2 xs where w2: "for_each process_receive_can_message_frame (map (\<lambda>(b, m). claim_frame p b m) claims) w1 = Some w2"
      "node p c n mine (fold (\<lambda>(b, m). claimed_by b m) claims (claimed_by b m known)) w2" "internals w2 = internals w1" "same_rest w1 w2"
      "receivedMessageQueue w2 = receivedMessageQueue w1 @ xs"
      "\<forall>x \<in> set xs. \<exists>b m. claim_message p b m x \<and> b < NULL_CAN_ADDRESS \<and> mine \<noteq> Some b"
    using Cons.IH [OF w1(2) rest] by blast
  show ?case
  proof (intro exI conjI)
    show "for_each process_receive_can_message_frame (map (\<lambda>(b, m). claim_frame p b m) (bm # claims)) w = Some w2" using w1(1) w2(1) by simp
    show "node p c n mine (fold (\<lambda>(b, m). claimed_by b m) (bm # claims) known) w2" using w2(2) by simp
    show "internals w2 = internals w" "same_rest w w2" using w1(3,4) w2(3,4) same_rest_trans by auto
    show "receivedMessageQueue w2 = receivedMessageQueue w @ (x # xs)" using w1(5) w2(5) by simp
    show "\<forall>x \<in> set (x # xs). \<exists>b m. claim_message p b m x \<and> b < NULL_CAN_ADDRESS \<and> mine \<noteq> Some b" using w1(6) ok w2(6) by auto
  qed
qed simp

lemma queue_processed:
  assumes "node p c n mine known w" "\<forall>x \<in> set (receivedMessageQueue w). \<exists>b m. claim_message p b m x \<and> b < NULL_CAN_ADDRESS \<and> mine \<noteq> Some b"
  shows "\<exists>w'. process_rx_messages w = Some w' \<and> node p c n mine known w' \<and> internals w' = internals w \<and> same_rest w w' \<and> receivedMessageQueue w' = []"
proof -
  have "node p c n mine known (w\<lparr>receivedMessageQueue := []\<rparr>)" using assms(1) by simp
  from claim_messages_processed [OF _ this, of "receivedMessageQueue w"] assms(2) show ?thesis
    by (auto simp: process_rx_messages_def same_rest_def)
qed

lemma claims_heard:
  assumes "node p c n mine known w" "receivedMessageQueue w = []" "\<forall>(b, m) \<in> set claims. m \<noteq> n \<and> b < NULL_CAN_ADDRESS \<and> mine \<noteq> Some b"
  shows "\<exists>w'. hear p claims w = Some w' \<and> node p c n mine (fold (\<lambda>(b, m). claimed_by b m) claims known) w' \<and> internals w' = internals w
    \<and> same_rest w w' \<and> receivedMessageQueue w' = []"
proof -
  obtain w1 xs where w1: "for_each process_receive_can_message_frame (map (\<lambda>(b, m). claim_frame p b m) claims) w = Some w1"
      "node p c n mine (fold (\<lambda>(b, m). claimed_by b m) claims known) w1" "internals w1 = internals w" "same_rest w w1"
      "receivedMessageQueue w1 = receivedMessageQueue w @ xs" "\<forall>x \<in> set xs. \<exists>b m. claim_message p b m x \<and> b < NULL_CAN_ADDRESS \<and> mine \<noteq> Some b"
    using claims_received [OF assms(3,1)] by blast
  obtain w2 where w2: "process_rx_messages w1 = Some w2" "node p c n mine (fold (\<lambda>(b, m). claimed_by b m) claims known) w2"
      "internals w2 = internals w1" "same_rest w1 w2" "receivedMessageQueue w2 = []"
    using queue_processed [OF w1(2)] w1(5,6) assms(2) by auto
  then show ?thesis using w1 same_rest_trans by (auto simp: hear_def)
qed

text \<open>
  The contract of a component that follows a stream of events: a step that is defined and does
  to what is known what the specification of the event says. Then so does every run.
\<close>

locale follower =
  fixes step :: "'e \<Rightarrow> 'w \<Rightarrow> 'w option"
    and spec :: "'e \<Rightarrow> 'k \<Rightarrow> 'k"
    and expected :: "'e \<Rightarrow> bool"
    and follows :: "'k \<Rightarrow> 'w \<Rightarrow> bool"
  assumes step_follows: "expected e \<Longrightarrow> follows k w \<Longrightarrow> \<exists>w'. step e w = Some w' \<and> follows (spec e k) w'"
begin

lemma run_follows: "list_all expected es \<Longrightarrow> follows k w \<Longrightarrow> \<exists>w'. for_each step es w = Some w' \<and> follows (fold spec es k) w'"
proof (induction es arbitrary: k w)
  case (Cons e es)
  then obtain w1 where "step e w = Some w1" "follows (spec e k) w1" using step_follows by force
  then show ?case using Cons by auto
qed simp

end

definition claims_of_others :: "u64 \<Rightarrow> u8 option \<Rightarrow> (u8 \<times> u64) list \<Rightarrow> bool" where
  "claims_of_others n mine claims \<longleftrightarrow> (\<forall>(b, m) \<in> set claims. m \<noteq> n \<and> b < NULL_CAN_ADDRESS \<and> mine \<noteq> Some b)"

definition listening :: "u8 \<Rightarrow> cf \<Rightarrow> u64 \<Rightarrow> u8 option \<Rightarrow> (u8 \<Rightarrow> u64 option) \<Rightarrow> network \<Rightarrow> bool" where
  "listening p c n mine known w \<longleftrightarrow> node p c n mine known w \<and> receivedMessageQueue w = []"

interpretation table: follower "hear p" "fold (\<lambda>(b, m). claimed_by b m)" "claims_of_others n mine" "listening p c n mine"
  for p c n mine
  by unfold_locales (use claims_heard in \<open>force simp: listening_def claims_of_others_def\<close>)

section \<open>Taking an address\<close>

lemma node_takes:
  assumes node: "node p c n None known w" and a: "a < NULL_CAN_ADDRESS"
    and w': "w' = put_table p a (Some c) (case controlFunctionTable w p a of None \<Rightarrow> set_address c a w
       | Some d \<Rightarrow> set_address d NULL_CAN_ADDRESS (set_address c a w))"
  shows "node p c n (Some a) (known(a := None)) w'"
proof -
  have notc: "controlFunctionTable w p x \<noteq> Some c" if "x < NULL_CAN_ADDRESS" for x using node that unfolding node_def by auto
  have f: "full_name w' e = full_name w e" "canPortIndex (objects w' e) = canPortIndex (objects w e)"
      "controlFunctionType (objects w' e) = controlFunctionType (objects w e)"
      "address (objects w' e) = (if controlFunctionTable w p a = Some e then NULL_CAN_ADDRESS else if e = c then a else address (objects w e))"
      "controlFunctionTable w' q x = (if q = p \<and> x = a then Some c else controlFunctionTable w q x)" for e q x
    by (auto simp: w' split: option.split)
  have rest: "can_port_maximum w' = can_port_maximum w" "nm_initialized w' = nm_initialized w" "next_object w' = next_object w"
      "partneredControlFunctions w' = partneredControlFunctions w" "internalControlFunctions w' = internalControlFunctions w"
      "inactiveControlFunctions w' = inactiveControlFunctions w" "hw_replies w' = hw_replies w"
    by (auto simp: w' split: option.split)
  have knows: "knows p c (known(a := None)) w'"
    unfolding knows_def
  proof (intro conjI allI impI)
    fix x k assume k: "(known(a := None)) x = Some k"
    then show "x < NULL_CAN_ADDRESS" "\<exists>d. controlFunctionTable w' p x = Some d \<and> d \<noteq> c \<and> full_name w' d = k"
      using node_known [OF node, of x k] by (auto simp: f split: if_splits)
  next
    fix x d assume x: "x < NULL_CAN_ADDRESS" "controlFunctionTable w' p x = Some d" "d \<noteq> c"
    then have xa: "x \<noteq> a" "controlFunctionTable w p x = Some d" by (auto simp: f split: if_splits)
    have e: "known x = Some (full_name w d) \<and> controlFunctionType (objects w d) = CF_External \<and> address (objects w d) = x
          \<and> canPortIndex (objects w d) = p \<and> d < next_object w" by (rule node_entry [OF node x(1) xa(2) x(3)])
    have "controlFunctionTable w p a \<noteq> Some d" using node_entry [OF node a _ x(3)] e xa(1) by auto
    then show "(known(a := None)) x = Some (full_name w' d)" "controlFunctionType (objects w' d) = CF_External"
       "address (objects w' d) = x" "canPortIndex (objects w' d) = p" "d < next_object w'"
      using e xa(1) x(3) by (simp_all add: f rest)
  next
    fix x y k assume "(known(a := None)) x = Some k" "(known(a := None)) y = Some k"
    then show "x = y" using node_unique [OF node, of x k y] by (auto split: if_splits)
  qed
  have "controlFunctionTable w' p x = Some c \<longleftrightarrow> Some a = Some x" if "x < NULL_CAN_ADDRESS" for x using notc [OF that] by (auto simp: f)
  moreover have "controlFunctionTable w' q x = None" if "q \<noteq> p" for q x using node that unfolding node_def by (simp add: f)
  moreover have "(known(a := None)) x \<noteq> Some n" for x using node_name [OF node, of x] by simp
  moreover have "c < next_object w" using node unfolding node_def by blast
  moreover have "address (objects w' c) = a" using notc [OF a] by (simp add: f)
  ultimately show ?thesis using node_basics [OF node] knows a f(1-3) [of c] unfolding node_def rest by simp
qed

lemma not_in_row: "node p c n None known w \<Longrightarrow> table_index_of c p w = None"
  unfolding table_index_of_def by (rule find_absent) (auto simp: node_def table_addresses_set)

lemma table_index_of_simps [simp]:
  "table_index_of c p (set_address d a w) = table_index_of c p w"
  "table_index_of c p (set_current_state s d w) = table_index_of c p w"
  "table_index_of c p (w\<lparr>hw_log := l\<rparr>) = table_index_of c p w"
  "table_index_of c p (set_claimed_flag fl d w) = table_index_of c p w"
  by (simp_all add: table_index_of_def)

lemma moved:
  assumes "node p c n None known w" "a < NULL_CAN_ADDRESS"
  shows "\<exists>w'. move_in_table c (set_address c a w) = Some w' \<and> node p c n (Some a) (known(a := None)) w'
    \<and> internals w' = internals w \<and> same_rest w w' \<and> receivedMessageQueue w' = receivedMessageQueue w"
proof -
  let ?w' = "put_table p a (Some c) (case controlFunctionTable w p a of None \<Rightarrow> set_address c a w
       | Some d \<Rightarrow> set_address d NULL_CAN_ADDRESS (set_address c a w))"
  have "move_in_table c (set_address c a w) = Some ?w'"
    using node_basics(1,5) [OF assms(1)] not_in_row [OF assms(1)] assms(2) by (simp add: move_in_table_def in_table_def Let_def split: option.split)
  moreover have "node p c n (Some a) (known(a := None)) ?w'" by (rule node_takes [OF assms refl])
  moreover have "internals ?w' = internals w \<and> same_rest w ?w' \<and> receivedMessageQueue ?w' = receivedMessageQueue w"
    by (simp add: same_rest_def split: option.split)
  ultimately show ?thesis by blast
qed

end
