(* ===== verification/Address_Contention.thy ===== *)
theory Address_Contention
  imports Address_Table
begin

text \<open>
  Two managers on one bus that claim the same address: the defence of the address by the lower NAME,
  the move of the other one, and what happens when it cannot move.
\<close>

section \<open>Quiet updates\<close>

text \<open>No request for claims is pending on any port.\<close>

definition no_request :: "network \<Rightarrow> bool" where
  "no_request w \<longleftrightarrow> lastAddressClaimRequestTimestamp_ms w = (\<lambda>q. 0)"

lemma no_request_same: "same_rest w w' \<Longrightarrow> no_request w \<Longrightarrow> no_request w'"
  by (simp add: same_rest_def no_request_def)

lemma nothing_pruned: "no_request w \<Longrightarrow> prune_inactive_control_functions w = w"
proof -
  assume "no_request w"
  then have "fold prune_channel xs w = w" for xs by (induction xs) (auto simp: prune_channel_def no_request_def Let_def)
  then show ?thesis by (simp add: prune_inactive_control_functions_def)
qed

lemma node_update:
  assumes "node p c n mine known w" "process_rx_messages w = Some v" "internalControlFunctions v = [c]"
    "update_address_claiming c v = Some (claimed, v')" "(if claimed then move_in_table c v' else Some v') = Some w'" "no_request w'"
  shows "nm_update w = Some w'"
  using assms node_basics(2,7) [OF assms(1)] nothing_pruned [OF assms(6)]
  by (simp add: nm_update_def update_new_partners_def update_internal_cfs_def update_internal_cf_def)

section \<open>A claim of our address by a device with a higher NAME\<close>

lemma full_name_set_name: "full_name (set_address d a w) e = full_name w e" by simp

lemma register_set_own:
  assumes "F \<noteq> Some c" "c < next_object w"
  shows "register_claim F b m p (set_address c a w) = set_address c a (register_claim F b m p w)"
proof (cases F)
  case None
  have n: "next_object w \<noteq> c" using assms(2) by simp
  then show ?thesis
    by (simp add: None register_claim_def create_external_control_function_def new_object_def put_table_def state_change_def set_address_def
        fun_upd_twist)
next
  case (Some f)
  then have "f \<noteq> c" using assms(1) by simp
  then show ?thesis unfolding Some
    by (simp add: register_claim_def Let_def put_table_def state_change_def set_address_def cf_address_valid_def fun_upd_twist)
qed

lemma claim_message_while_claiming:
  assumes node: "node p c n None known v" and x: "claim_message p b m x" "b < NULL_CAN_ADDRESS" "known b \<noteq> None"
    and state: "icf_state (internals v c) \<noteq> AddressClaimingComplete"
  shows "\<exists>d. process_rx_message x (set_address c b v) = Some (set_address c b (set_claimed_flag True d v)) \<and> d \<noteq> c"
proof -
  obtain d where d: "controlFunctionTable v p b = Some d" "d \<noteq> c" using node_known [OF node] x(3) by blast
  have "address (objects v d) = b" using node_entry [OF node x(2) d] by blast
  then have ct: "claim_in_table p b (set_address c b v) = set_address c b (set_claimed_flag True d v)"
    using d x(2) by (auto simp: claim_in_table_def Let_def set_claimed_flag_def set_address_def fun_upd_twist)
  have "process_rx_message x (set_address c b v) = Some (set_address c b (set_claimed_flag True d v))"
    using x(1,2) node_basics(1,3) [OF node] state ct
    by (simp add: process_rx_message_def update_address_table_def in_table_def process_can_message_for_address_violations_def claim_message_def
        process_rx_message_for_address_violation_def Let_def get_current_state_def
        process_rx_message_for_address_claiming_def icf_process_rx_message_for_address_claiming_def)
  then show ?thesis using d(2) by blast
qed

definition claim_won_state :: "cf \<Rightarrow> network \<Rightarrow> (cf \<Rightarrow> InternalControlFunction)" where
  "claim_won_state c w = (internals w)(c := (internals w c)\<lparr>stateChangeTimestamp_ms := now_ms w, icf_state := SendReclaimAddressOnRequest\<rparr>)"

lemma claim_won:
  assumes node: "node p c n (Some b) known w" and m: "n < m" "icf_state (internals w c) = AddressClaimingComplete"
  shows "\<exists>v x. process_receive_can_message_frame (claim_frame p b m) w
        = Some ((set_address c b v)\<lparr>receivedMessageQueue := receivedMessageQueue w @ [x]\<rparr>) \<and> node p c n None (claimed_by b m known) v
    \<and> internals v = claim_won_state c w \<and> same_rest w v \<and> claim_message p b m x"
proof -
  let ?F = "find_claimer m p w"
  have b: "b < NULL_CAN_ADDRESS" "controlFunctionTable w p b = Some c" "address (objects w c) = b" using node unfolding node_def by auto
  have ne: "m \<noteq> n" using m(1) by auto
  have F: "?F \<noteq> Some c" by (rule find_claimer_not_own [OF node ne])
  let ?s = "set_current_state SendReclaimAddressOnRequest c w"
  let ?w1 = "set_address c NULL_CAN_ADDRESS ?s"
  let ?v = "register_claim ?F b m p ?w1"
  have reg: "node p c n None (claimed_by b m known) ?v \<and> keeps_internals ?w1 ?v"
    by (rule registered [OF node ne b(1)]) (use F b(2) in auto)
  have ev: "evict ?F b m c w = ?s"
    using node_basics [OF node] b F m ne by (simp add: evict_def Let_def get_current_state_def)
  have same: "(objects w)(c := objects w c\<lparr>address := b\<rparr>) = objects w" using b(3) by (cases "objects w c") (simp add: fun_upd_idem)
  have restored: "set_address c b ?w1 = ?s" unfolding set_address_def set_current_state_def using same by (cases w) simp
  have cn: "c < next_object ?w1" using node unfolding node_def by simp
  have "update_control_functions (claim_frame p b m) w = Some (register_claim ?F b m p ?s)"
    using update_claim [OF node ne b(1)] b(2) ev by simp
  also have "register_claim ?F b m p ?s = set_address c b ?v"
    using register_set_own [OF F cn, of b m p b] by (simp only: restored)
  finally have upd: "update_control_functions (claim_frame p b m) w = Some (set_address c b ?v)" .
  have ini: "nm_initialized (set_address c b ?v)" using node_basics(7) [OF conjunct1 [OF reg]] by simp
  have q: "receivedMessageQueue ?v = receivedMessageQueue w" "internals ?v = claim_won_state c w" "same_rest w ?v"
    using reg by (auto simp: keeps_internals_def claim_won_state_def set_current_state_def same_rest_def)
  show ?thesis using received_as [OF upd ini] reg q message_of_claim [of p b m "set_address c b ?v"] by auto
qed

lemma now_commutes [simp]:
  "set_address c b v\<lparr>now_ms := t\<rparr> = set_address c b (v\<lparr>now_ms := t\<rparr>)"
  "set_address c b v\<lparr>receivedMessageQueue := q\<rparr> = set_address c b (v\<lparr>receivedMessageQueue := q\<rparr>)"
  "set_address c b v\<lparr>hw_log := l\<rparr> = set_address c b (v\<lparr>hw_log := l\<rparr>)"
  by (simp_all add: set_address_def)

lemma claim_defended:
  assumes node: "node p c n (Some b) known w" and q: "receivedMessageQueue w = []" "no_request w"
    and m: "n < m" "icf_state (internals w c) = AddressClaimingComplete"
  shows "\<exists>v w'. process_receive_can_message_frame (claim_frame p b m) w = Some v \<and> nm_update (v\<lparr>now_ms := t\<rparr>) = Some w'
    \<and> node p c n (Some b) ((claimed_by b m known)(b := None)) w' \<and> hw_log w' = hw_log w @ [claim_frame p b n]
    \<and> icf_state (internals w' c) = AddressClaimingComplete \<and> preferredAddress (internals w' c) = preferredAddress (internals w c)
    \<and> receivedMessageQueue w' = [] \<and> no_request w'"
proof -
  have b: "b < NULL_CAN_ADDRESS" using node unfolding node_def by auto
  obtain v x where v: "process_receive_can_message_frame (claim_frame p b m) w = Some ((set_address c b v)\<lparr>receivedMessageQueue := [x]\<rparr>)"
      "node p c n None (claimed_by b m known) v" "internals v = claim_won_state c w" "same_rest w v" "claim_message p b m x"
    using claim_won [OF node m] q(1) by auto
  let ?u = "(set_address c b v)\<lparr>receivedMessageQueue := [x]\<rparr>\<lparr>now_ms := t\<rparr>"
  let ?v0 = "v\<lparr>now_ms := t\<rparr>\<lparr>receivedMessageQueue := []\<rparr>"
  have n0: "node p c n None (claimed_by b m known) ?v0" using v(2) by simp
  have known: "claimed_by b m known b \<noteq> None" by (simp add: claimed_by_def)
  have st: "icf_state (internals ?v0 c) \<noteq> AddressClaimingComplete" using v(3) by (simp add: claim_won_state_def)
  obtain d where d: "process_rx_message x (set_address c b ?v0) = Some (set_address c b (set_claimed_flag True d ?v0))"
    using claim_message_while_claiming [OF n0 v(5) b known st] by blast
  let ?y = "set_claimed_flag True d ?v0"
  have px: "process_rx_messages ?u = Some (set_address c b ?y)" using d by (simp add: process_rx_messages_def)
  have ny: "node p c n None (claimed_by b m known) ?y" using n0 by simp
  let ?z = "set_current_state AddressClaimingComplete c (?y\<lparr>hw_log := hw_log ?y @ [claim_frame p b n]\<rparr>)"
  have nz: "node p c n None (claimed_by b m known) ?z" using ny by simp
  have ic: "icf_state (internals v c) = SendReclaimAddressOnRequest" using v(3) by (simp add: claim_won_state_def)
  have sent: "send_address_claim b c (set_address c b ?y)
      = Some (True, set_address c b (?y\<lparr>hw_log := hw_log ?y @ [claim_frame p b n]\<rparr>))"
    using claim_sent [of "set_address c b ?y" b c] node_basics [OF ny] b
    by (simp add: word_less_nat_alt) (simp add: set_address_def)
  have up: "update_address_claiming c (set_address c b ?y) = Some (True, set_address c b ?z)"
    using sent ic by (simp add: update_address_claiming_def get_current_state_def) (simp add: set_address_def set_current_state_def)
  obtain w' where w': "move_in_table c (set_address c b ?z) = Some w'" "node p c n (Some b) ((claimed_by b m known)(b := None)) w'"
      "internals w' = internals ?z" "same_rest ?z w'" "receivedMessageQueue w' = receivedMessageQueue ?z"
    using moved [OF nz b] by blast
  have nr: "no_request w'" using v(4) w'(4) q(2) by (simp add: same_rest_def no_request_def)
  have nu: "partneredControlFunctions ?u = []" "nm_initialized ?u" using node_basics(2,7) [OF v(2)] by simp_all
  have "nm_update ?u = Some w'"
    using px up w'(1) nothing_pruned [OF nr] nu node_basics(3) [OF ny]
    by (simp add: nm_update_def update_new_partners_def update_internal_cfs_def update_internal_cf_def del: now_commutes)
  moreover have "hw_log w' = hw_log w @ [claim_frame p b n]" using v(4) w'(4) by (simp add: same_rest_def)
  moreover have "icf_state (internals w' c) = AddressClaimingComplete" "preferredAddress (internals w' c) = preferredAddress (internals w c)"
    using v(3) w'(3) by (simp_all add: set_current_state_def claim_won_state_def)
  ultimately show ?thesis using v(1) w'(2,5) nr by fastforce
qed

section \<open>Two managers on one bus\<close>

text \<open>
  A turn of a manager: the frames the other one has sent arrive, the clock advances, and the
  periodic update runs. In a round both have a turn, and their frames cross on the bus.
\<close>

definition take_turn :: "u32 \<Rightarrow> CANMessageFrame list \<Rightarrow> network \<Rightarrow> (CANMessageFrame list \<times> network) option" where
  "take_turn t frames w = do {
     v \<leftarrow> for_each process_receive_can_message_frame frames w;
     w' \<leftarrow> nm_update (v\<lparr>now_ms := t\<rparr>);
     Some (drop (length (hw_log w)) (hw_log w'), w')
   }"

definition bus_round :: "u32 \<Rightarrow> (CANMessageFrame list \<times> network) \<times> (CANMessageFrame list \<times> network)
    \<Rightarrow> ((CANMessageFrame list \<times> network) \<times> (CANMessageFrame list \<times> network)) option" where
  "bus_round t = (\<lambda>((sentX, X), (sentY, Y)). do {
     X' \<leftarrow> take_turn t sentY X;
     Y' \<leftarrow> take_turn t sentX Y;
     Some (X', Y')
   })"

definition at_rest :: "u8 \<Rightarrow> cf \<Rightarrow> u64 \<Rightarrow> u8 option \<Rightarrow> (u8 \<Rightarrow> u64 option) \<Rightarrow> network \<Rightarrow> bool" where
  "at_rest p c n mine known w \<longleftrightarrow> node p c n mine known w \<and> receivedMessageQueue w = [] \<and> no_request w"

text \<open>The own control function's part of a turn in which only claims of other addresses arrive.\<close>

abbreviation (input) claim_frames :: "u8 \<Rightarrow> (u8 \<times> u64) list \<Rightarrow> CANMessageFrame list" where
  "claim_frames p claims \<equiv> map (\<lambda>(b, m). claim_frame p b m) claims"

lemma turn_with_claims:
  assumes rest: "at_rest p c n mine known w" and ok: "\<forall>(b, m) \<in> set claims. m \<noteq> n \<and> b < NULL_CAN_ADDRESS \<and> mine \<noteq> Some b"
  shows "\<exists>v. at_rest p c n mine (fold (\<lambda>(b, m). claimed_by b m) claims known) v \<and> internals v = internals w \<and> hw_log v = hw_log w
      \<and> now_ms v = t \<and> can_port_maximum v = can_port_maximum w
      \<and> (\<forall>claimed v' w'. update_address_claiming c v = Some (claimed, v') \<longrightarrow> (if claimed then move_in_table c v' else Some v') = Some w'
         \<longrightarrow> no_request w' \<longrightarrow> take_turn t (claim_frames p claims) w = Some (drop (length (hw_log w)) (hw_log w'), w'))"
proof -
  have r: "node p c n mine known w" "receivedMessageQueue w = []" "no_request w" using rest by (simp_all add: at_rest_def)
  obtain u xs where u: "for_each process_receive_can_message_frame (claim_frames p claims) w = Some u"
      "node p c n mine (fold (\<lambda>(b, m). claimed_by b m) claims known) u" "internals u = internals w" "same_rest w u"
      "receivedMessageQueue u = xs" "\<forall>x \<in> set xs. \<exists>b m. claim_message p b m x \<and> b < NULL_CAN_ADDRESS \<and> mine \<noteq> Some b"
    using claims_received [OF ok r(1)] r(2) by auto
  have nu: "node p c n mine (fold (\<lambda>(b, m). claimed_by b m) claims known) (u\<lparr>now_ms := t\<rparr>)" using u(2) by simp
  obtain v where v: "process_rx_messages (u\<lparr>now_ms := t\<rparr>) = Some v" "node p c n mine (fold (\<lambda>(b, m). claimed_by b m) claims known) v"
      "internals v = internals (u\<lparr>now_ms := t\<rparr>)" "same_rest (u\<lparr>now_ms := t\<rparr>) v" "receivedMessageQueue v = []"
    using queue_processed [OF nu] u(5,6) by auto
  show ?thesis
  proof (intro exI conjI allI impI)
    show "at_rest p c n mine (fold (\<lambda>(b, m). claimed_by b m) claims known) v"
      using v(2,4,5) u(4) r(3) by (simp add: at_rest_def no_request_def same_rest_def)
    show "internals v = internals w" "hw_log v = hw_log w" "now_ms v = t" "can_port_maximum v = can_port_maximum w"
      using v(3,4) u(3,4) by (simp_all add: same_rest_def)
    show "take_turn t (claim_frames p claims) w = Some (drop (length (hw_log w)) (hw_log w'), w')"
      if "update_address_claiming c v = Some (claimed, v')" "(if claimed then move_in_table c v' else Some v') = Some w'" "no_request w'"
      for claimed v' w'
      using u(1) node_update [OF nu v(1) node_basics(3) [OF v(2)] that] by (simp add: take_turn_def)
  qed
qed

lemma at_rest_state [simp]: "at_rest p c n mine known (set_current_state s e w) = at_rest p c n mine known w"
  by (simp add: at_rest_def no_request_def)

lemma quiet_turn:
  assumes rest: "at_rest p c n mine known w" and ok: "\<forall>(b, m) \<in> set claims. m \<noteq> n \<and> b < NULL_CAN_ADDRESS \<and> mine \<noteq> Some b"
    and idle: "icf_state (internals w c) = AddressClaimingComplete
      \<or> (icf_state (internals w c) = WaitForRequestContentionPeriod \<and> t - stateChangeTimestamp_ms (internals w c) < ADDRESS_CONTENTION_TIME_MS)"
  shows "\<exists>w'. take_turn t (claim_frames p claims) w = Some ([], w') \<and> at_rest p c n mine (fold (\<lambda>(b, m). claimed_by b m) claims known) w'
    \<and> internals w' = internals w \<and> can_port_maximum w' = can_port_maximum w"
proof -
  obtain v where v: "at_rest p c n mine (fold (\<lambda>(b, m). claimed_by b m) claims known) v" "internals v = internals w" "hw_log v = hw_log w"
      "now_ms v = t" "can_port_maximum v = can_port_maximum w"
      "\<forall>claimed v' w'. update_address_claiming c v = Some (claimed, v') \<longrightarrow> (if claimed then move_in_table c v' else Some v') = Some w'
         \<longrightarrow> no_request w' \<longrightarrow> take_turn t (claim_frames p claims) w = Some (drop (length (hw_log w)) (hw_log w'), w')"
    using turn_with_claims [OF rest ok] by blast
  have "update_address_claiming c v = Some (False, v)"
    using idle v(2,4) by (auto simp: update_address_claiming_def get_current_state_def time_expired_ms_def)
  from v(6) [rule_format, OF this] v show ?thesis by (auto simp: at_rest_def)
qed

lemma turn_lost:
  assumes rest: "at_rest p c n (Some b) known w" and m: "m < n" and st: "icf_state (internals w c) = AddressClaimingComplete"
    and early: "t - now_ms w < ADDRESS_CONTENTION_TIME_MS"
  shows "\<exists>w'. take_turn t [claim_frame p b m] w = Some ([], w') \<and> at_rest p c n None (claimed_by b m known) w'
    \<and> internals w' = (internals w)(c := (internals w c)\<lparr>stateChangeTimestamp_ms := now_ms w, icf_state := WaitForRequestContentionPeriod\<rparr>)"
proof -
  have r: "node p c n (Some b) known w" "receivedMessageQueue w = []" "no_request w" using rest by (simp_all add: at_rest_def)
  have b: "b < NULL_CAN_ADDRESS" using r(1) unfolding node_def by auto
  obtain u x where u: "process_receive_can_message_frame (claim_frame p b m) w = Some u" "node p c n None (claimed_by b m known) u"
      "internals u = (internals w)(c := (internals w c)\<lparr>stateChangeTimestamp_ms := now_ms w, icf_state := WaitForRequestContentionPeriod\<rparr>)"
      "same_rest w u" "receivedMessageQueue u = [x]" "claim_message p b m x"
    using claim_lost [OF r(1) m st] r(2) by auto
  have nu: "node p c n None (claimed_by b m known) (u\<lparr>now_ms := t\<rparr>)" using u(2) by simp
  obtain v where v: "process_rx_messages (u\<lparr>now_ms := t\<rparr>) = Some v" "node p c n None (claimed_by b m known) v"
      "internals v = internals (u\<lparr>now_ms := t\<rparr>)" "same_rest (u\<lparr>now_ms := t\<rparr>) v" "receivedMessageQueue v = []"
    using queue_processed [OF nu] u(5,6) b by auto
  have nr: "no_request v" using v(4) u(4) r(3) by (simp add: no_request_def same_rest_def)
  have "update_address_claiming c v = Some (False, v)"
    using early v(3,4) u(3) by (simp add: update_address_claiming_def get_current_state_def time_expired_ms_def same_rest_def not_le [symmetric])
  then have "nm_update (u\<lparr>now_ms := t\<rparr>) = Some v"
    using node_update [OF nu v(1) node_basics(3) [OF v(2)] _ _ nr, of False v] by simp
  moreover have "hw_log v = hw_log w" using v(4) u(4) by (simp add: same_rest_def)
  ultimately show ?thesis using u(1,3) v nr by (auto simp: take_turn_def at_rest_def)
qed

lemma at_rest_lookup:
  assumes "at_rest p c n None known w"
  shows "get_control_function p x w = None \<longleftrightarrow> known x = None"
    "known x = Some m \<Longrightarrow> \<exists>d. get_control_function p x w = Some d \<and> full_name w d = m"
  using node_lookup [of p c n None known w x] assms by (auto simp: at_rest_def)

lemma node_NAME: "node p c n mine known w \<Longrightarrow> controlFunctionNAME (objects w c) = name_of_raw n"
  using node_name [of p c n mine known w] by (cases "controlFunctionNAME (objects w c)") (simp add: full_name_def name_of_raw_def)

text \<open>After the contention period: the preferred address is taken by a lower NAME.\<close>

lemma turn_arbitrates:
  assumes rest: "at_rest p c n None known w" and st: "icf_state (internals w c) = WaitForRequestContentionPeriod"
    and late: "ADDRESS_CONTENTION_TIME_MS \<le> t - stateChangeTimestamp_ms (internals w c)"
    and pref: "preferredAddress (internals w c) = b" "known b = Some m" "m < n"
    and cap: "get_arbitrary_address_capable (name_of_raw n)"
    and ok: "\<forall>(b, m) \<in> set claims. m \<noteq> n \<and> b < NULL_CAN_ADDRESS" and same: "fold (\<lambda>(b, m). claimed_by b m) claims known = known"
  shows "\<exists>w'. take_turn t (claim_frames p claims) w = Some ([], w') \<and> at_rest p c n None known w'
    \<and> icf_state (internals w' c) = SendArbitraryAddressClaim \<and> preferredAddress (internals w' c) = b"
proof -
  have ok': "\<forall>(b, m) \<in> set claims. m \<noteq> n \<and> b < NULL_CAN_ADDRESS \<and> None \<noteq> Some b" using ok by auto
  obtain v where v: "at_rest p c n None known v" "internals v = internals w" "hw_log v = hw_log w" "now_ms v = t"
      "\<forall>claimed v' w'. update_address_claiming c v = Some (claimed, v') \<longrightarrow> (if claimed then move_in_table c v' else Some v') = Some w'
         \<longrightarrow> no_request w' \<longrightarrow> take_turn t (claim_frames p claims) w = Some (drop (length (hw_log w)) (hw_log w'), w')"
    using turn_with_claims [OF rest ok', of t] unfolding same by blast
  have nd: "node p c n None known v" using v(1) by (simp add: at_rest_def)
  have b: "b < NULL_CAN_ADDRESS" using node_known [OF nd pref(2)] by blast
  obtain d where d: "get_control_function p b v = Some d" "full_name v d = m" using at_rest_lookup(2) [OF v(1) pref(2)] by blast
  note nm = node_NAME [OF nd]
  let ?w' = "set_current_state SendArbitraryAddressClaim c v"
  have pv: "preferredAddress (internals v c) = b" using v(2) pref(1) by simp
  have "b \<noteq> NULL_CAN_ADDRESS" "\<not> full_name v d > full_name v c" using b d(2) pref(3) node_basics(6) [OF nd] by auto
  then have "arbitrate c v = Some (False, ?w')"
    unfolding arbitrate_def Let_def pv node_basics(5) [OF nd] nm using d(1) cap by simp
  then have "update_address_claiming c v = Some (False, ?w')"
    using st late v(2,4) by (simp add: update_address_claiming_def get_current_state_def time_expired_ms_def)
  from v(5) [rule_format, OF this, of ?w'] v(1-4) pref(1) show ?thesis by (simp add: at_rest_def no_request_def) (simp add: set_current_state_def)
qed

lemma first_free_claimed:
  assumes rest: "at_rest p c n None known w" and free: "find (\<lambda>i. known (of_nat i) = None) is = Some i" and le: "\<forall>i \<in> set is. i < 254"
  defines "sent \<equiv> set_address c (of_nat i) (w\<lparr>hw_log := hw_log w @ [claim_frame p (of_nat i) n]\<rparr>)"
  assumes pref: "preferredAddress (internals w c) \<noteq> NULL_CAN_ADDRESS"
  shows "claim_first_free is c w = Some (True, set_current_state AddressClaimingComplete c sent)"
  using free le
proof (induction "is")
  case (Cons j js)
  have nd: "node p c n None known w" using rest by (simp add: at_rest_def)
  show ?case
  proof (cases "known (of_nat j) = None")
    case True
    then have j: "i = j" using Cons.prems(1) by simp
    have "of_nat j < BROADCAST_CAN_ADDRESS" using Cons.prems(2) by (simp add: word_less_nat_alt unat_of_nat)
    then have "send_address_claim (of_nat i) c w = Some (True, sent)"
      using claim_sent [of w "of_nat i" c] node_basics [OF nd] unfolding sent_def j by simp
    moreover have "get_control_function p (of_nat i) w = None" using at_rest_lookup(1) [OF rest] True unfolding j by blast
    moreover have "preferredAddress (internals sent c) \<noteq> NULL_CAN_ADDRESS" using pref by (simp add: sent_def)
    ultimately show ?thesis unfolding j [symmetric] claim_first_free.simps node_basics(5) [OF nd] by (simp del: of_nat_Suc)
  next
    case False
    then have other: "get_control_function p (of_nat j) w \<noteq> None" using at_rest_lookup(1) [OF rest] by simp
    have "claim_first_free js c w = Some (True, set_current_state AddressClaimingComplete c sent)"
      using Cons.IH Cons.prems False by simp
    then show ?thesis using other unfolding claim_first_free.simps node_basics(5) [OF nd] by (simp only: if_False)
  qed
qed simp

definition arbitrary_addresses :: "u64 \<Rightarrow> nat list" where
  "arbitrary_addresses n = [128..<Suc (unat (get_end_arbitration_address_for_industry_group (get_industry_group (name_of_raw n))))]"

lemma arbitrary_range: "i \<in> set (arbitrary_addresses n) \<Longrightarrow> 128 \<le> i \<and> i < 248"
  by (auto simp: arbitrary_addresses_def get_end_arbitration_address_for_industry_group_def split: if_splits)

lemma turn_takes_arbitrary:
  assumes rest: "at_rest p c n None known w" and st: "icf_state (internals w c) = SendArbitraryAddressClaim"
    and pref: "preferredAddress (internals w c) \<noteq> NULL_CAN_ADDRESS"
    and free: "find (\<lambda>i. known (of_nat i) = None) (arbitrary_addresses n) = Some i"
  shows "\<exists>w'. take_turn t [] w = Some ([claim_frame p (of_nat i) n], w') \<and> at_rest p c n (Some (of_nat i)) known w'
    \<and> icf_state (internals w' c) = AddressClaimingComplete"
proof -
  obtain v where v: "at_rest p c n None known v" "internals v = internals w" "hw_log v = hw_log w" "now_ms v = t"
      "\<forall>claimed v' w'. update_address_claiming c v = Some (claimed, v') \<longrightarrow> (if claimed then move_in_table c v' else Some v') = Some w'
         \<longrightarrow> no_request w' \<longrightarrow> take_turn t [] w = Some (drop (length (hw_log w)) (hw_log w'), w')"
    using turn_with_claims [OF rest, of "[]" t] by auto
  have nd: "node p c n None known v" using v(1) by (simp add: at_rest_def)
  note nm = node_NAME [OF nd]
  have mem: "i \<in> set (arbitrary_addresses n)" "known (of_nat i) = None" using free by (auto simp: find_Some_iff)
  have a: "of_nat i < NULL_CAN_ADDRESS" using arbitrary_range [OF mem(1)] by (simp add: word_less_nat_alt unat_of_nat)
  let ?x = "set_current_state AddressClaimingComplete c (v\<lparr>hw_log := hw_log v @ [claim_frame p (of_nat i) n]\<rparr>)"
  have "claim_first_free (arbitrary_addresses n) c v
     = Some (True, set_current_state AddressClaimingComplete c (set_address c (of_nat i) (v\<lparr>hw_log := hw_log v @ [claim_frame p (of_nat i) n]\<rparr>)))"
    by (rule first_free_claimed [OF v(1) free]) (use arbitrary_range [of _ n] pref v(2) in \<open>force+\<close>)
  also have "set_current_state AddressClaimingComplete c (set_address c (of_nat i) (v\<lparr>hw_log := hw_log v @ [claim_frame p (of_nat i) n]\<rparr>))
     = set_address c (of_nat i) ?x" by (simp add: set_current_state_def set_address_def)
  finally have up: "update_address_claiming c v = Some (True, set_address c (of_nat i) ?x)"
    using st v(2) nm by (simp add: update_address_claiming_def get_current_state_def claim_arbitrary_def arbitrary_addresses_def)
  have nx: "node p c n None known ?x" using nd by simp
  obtain w' where w': "move_in_table c (set_address c (of_nat i) ?x) = Some w'" "node p c n (Some (of_nat i)) (known(of_nat i := None)) w'"
      "internals w' = internals ?x" "same_rest ?x w'" "receivedMessageQueue w' = receivedMessageQueue ?x"
    using moved [OF nx a] by blast
  have k: "known(of_nat i := None) = known" using mem(2) by (simp add: fun_upd_idem)
  have nr: "no_request w'" "receivedMessageQueue w' = []" using w'(4,5) v(1) by (simp_all add: at_rest_def no_request_def same_rest_def)
  show ?thesis
    using v(5) [rule_format, OF up, of w'] w' nr v(3) k by (simp add: at_rest_def same_rest_def) (simp add: set_current_state_def)
qed

section \<open>Contention\<close>

lemma own_not_known: "at_rest p c n (Some b) known w \<Longrightarrow> known b = None \<and> b < NULL_CAN_ADDRESS"
  using node_known [of p c n "Some b" known w b] unfolding at_rest_def node_def by (cases "known b") auto

lemma turn_defends:
  assumes rest: "at_rest p c n (Some b) known w" and m: "n < m" "icf_state (internals w c) = AddressClaimingComplete"
  shows "\<exists>w'. take_turn t [claim_frame p b m] w = Some ([claim_frame p b n], w') \<and> at_rest p c n (Some b) ((claimed_by b m known)(b := None)) w'
    \<and> icf_state (internals w' c) = AddressClaimingComplete"
proof -
  obtain v w' where "process_receive_can_message_frame (claim_frame p b m) w = Some v" "nm_update (v\<lparr>now_ms := t\<rparr>) = Some w'"
    "node p c n (Some b) ((claimed_by b m known)(b := None)) w'" "hw_log w' = hw_log w @ [claim_frame p b n]"
    "icf_state (internals w' c) = AddressClaimingComplete" "receivedMessageQueue w' = []" "no_request w'"
    using claim_defended [of p c n b known w m t] assms by (auto simp: at_rest_def)
  then show ?thesis by (simp add: take_turn_def at_rest_def)
qed

text \<open>
  C3: two devices that have claimed the same address end at different ones, when the one with the
  higher NAME, Y, can move. Both managers are at rest: one internal control function, no partner,
  nobody inactive, only this port in use, an empty queue, no pending request, no frame refused. Y is
  arbitrary-address capable, the contended address is its preferred one, and an address of its
  range is free in its table. Then, when their claims have crossed and they exchange their frames and update
  in four rounds, the first less and the second at least 250 ms after the loss, X keeps the address (it repeats its
  claim), Y waits for the contention period and claims the first address from 128 that it does not
  know to be taken, and in the end each has the other one's NAME in its table at the right address,
  with the rest of both tables unchanged. (A device that cannot move sends from the null
  address, which the other manager does not survive.)
\<close>

theorem contention_resolved:
  assumes X: "at_rest p cx nx (Some b) kx X" "icf_state (internals X cx) = AddressClaimingComplete"
    and Y: "at_rest p cy ny (Some b) ky Y" "icf_state (internals Y cy) = AddressClaimingComplete" "preferredAddress (internals Y cy) = b"
    and names: "nx < ny" "get_arbitrary_address_capable (name_of_raw ny)"
    and times: "t1 - now_ms Y < ADDRESS_CONTENTION_TIME_MS" "ADDRESS_CONTENTION_TIME_MS \<le> t2 - now_ms Y"
    and free: "find (\<lambda>i. claimed_by b nx ky (of_nat i) = None) (arbitrary_addresses ny) = Some i"
  shows "\<exists>X' Y'. do {
      s1 \<leftarrow> bus_round t1 (([claim_frame p b nx], X), ([claim_frame p b ny], Y));
      s2 \<leftarrow> bus_round t2 s1;
      s3 \<leftarrow> bus_round t3 s2;
      bus_round t4 s3
    } = Some (([], X'), ([], Y'))
    \<and> at_rest p cx nx (Some b) (claimed_by (of_nat i) ny kx) X' \<and> at_rest p cy ny (Some (of_nat i)) (claimed_by b nx ky) Y'"
proof -
  let ?a = "of_nat i :: u8"
  let ?ky = "claimed_by b nx ky"
  let ?kx = "(claimed_by b ny kx)(b := None)"
  have ne: "nx \<noteq> ny" "ny \<noteq> nx" using names(1) by auto
  have kb: "kx b = None" "b < NULL_CAN_ADDRESS" using own_not_known [OF X(1)] by simp_all
  have at: "?ky b = Some nx" by (simp add: claimed_by_def)
  have again: "claimed_by b nx ?ky = ?ky" by (rule HOL.ext) (simp add: claimed_by_def)
  have mem: "i \<in> set (arbitrary_addresses ny)" "?ky ?a = None" using free by (auto simp: find_Some_iff)
  have a: "?a \<noteq> b" "?a < NULL_CAN_ADDRESS"
    using mem(2) at arbitrary_range [OF mem(1)] by (auto simp: word_less_nat_alt unat_of_nat)
  have kx: "claimed_by ?a ny ?kx = claimed_by ?a ny kx" using kb(1) a(1) by (auto simp: claimed_by_def)
  obtain X1 where X1: "take_turn t1 [claim_frame p b ny] X = Some ([claim_frame p b nx], X1)" "at_rest p cx nx (Some b) ?kx X1"
      "icf_state (internals X1 cx) = AddressClaimingComplete"
    using turn_defends [OF X(1) names(1) X(2), of t1] by blast
  obtain Y1 where Y1: "take_turn t1 [claim_frame p b nx] Y = Some ([], Y1)" "at_rest p cy ny None ?ky Y1"
      "internals Y1 = (internals Y)(cy := (internals Y cy)\<lparr>stateChangeTimestamp_ms := now_ms Y, icf_state := WaitForRequestContentionPeriod\<rparr>)"
    using turn_lost [OF Y(1) names(1) Y(2) times(1)] by blast
  obtain X2 where X2: "take_turn t2 [] X1 = Some ([], X2)" "at_rest p cx nx (Some b) ?kx X2" "internals X2 = internals X1"
    using quiet_turn [OF X1(2), of "[]" t2] X1(3) by auto
  have cl: "\<forall>(x, m) \<in> set [(b, nx)]. m \<noteq> ny \<and> x < NULL_CAN_ADDRESS" using ne kb(2) by simp
  have same: "fold (\<lambda>(b, m). claimed_by b m) [(b, nx)] ?ky = ?ky" using again by simp
  obtain Y2 where Y2: "take_turn t2 [claim_frame p b nx] Y1 = Some ([], Y2)" "at_rest p cy ny None ?ky Y2"
      "icf_state (internals Y2 cy) = SendArbitraryAddressClaim" "preferredAddress (internals Y2 cy) = b"
    using turn_arbitrates [OF Y1(2) _ _ _ at names(1,2) cl same, of t2] Y1(3) times(2) Y(3) by auto
  obtain X3 where X3: "take_turn t3 [] X2 = Some ([], X3)" "at_rest p cx nx (Some b) ?kx X3" "internals X3 = internals X2"
    using quiet_turn [OF X2(2), of "[]" t3] X1(3) X2(3) by auto
  obtain Y3 where Y3: "take_turn t3 [] Y2 = Some ([claim_frame p ?a ny], Y3)" "at_rest p cy ny (Some ?a) ?ky Y3"
      "icf_state (internals Y3 cy) = AddressClaimingComplete"
    using turn_takes_arbitrary [OF Y2(2,3) _ free, of t3] unfolding Y2(4) using kb(2) by auto
  obtain X4 where X4: "take_turn t4 [claim_frame p ?a ny] X3 = Some ([], X4)" "at_rest p cx nx (Some b) (claimed_by ?a ny ?kx) X4"
    using quiet_turn [OF X3(2), of "[(?a, ny)]" t4] X1(3) X2(3) X3(3) ne a by auto
  obtain Y4 where Y4: "take_turn t4 [] Y3 = Some ([], Y4)" "at_rest p cy ny (Some ?a) ?ky Y4"
    using quiet_turn [OF Y3(2), of "[]" t4] Y3(3) by auto
  show ?thesis using X1(1) X2(1) X3(1) X4 Y1(1) Y2(1) Y3(1) Y4 by (simp add: bus_round_def kx)
qed

section \<open>A claim of the null address\<close>

lemma null_claim_received:
  assumes node: "node p c n mine known w"
  shows "\<exists>v x. process_receive_can_message_frame (claim_frame p NULL_CAN_ADDRESS m) w = Some v \<and> receivedMessageQueue v = receivedMessageQueue w @ [x]
    \<and> claim_message p NULL_CAN_ADDRESS m x \<and> can_port_maximum v = can_port_maximum w \<and> partneredControlFunctions v = [] \<and> nm_initialized v"
proof -
  let ?F = "find_claimer m p w"
  let ?v = "register_claim ?F NULL_CAN_ADDRESS m p w"
  have "fold (evict ?F NULL_CAN_ADDRESS m) (table_row p w) w = w"
    unfolding evict_row [OF node] by (simp split: option.split)
  moreover have "find_partner m p w = None" using node_basics(2) [OF node] by (simp add: find_partner_def)
  ultimately have upd: "update_control_functions (claim_frame p NULL_CAN_ADDRESS m) w = Some ?v"
    using node_basics(1,4) [OF node] by (cases ?F) (simp_all add: update_control_functions_def Let_def)
  have v: "receivedMessageQueue ?v = receivedMessageQueue w \<and> can_port_maximum ?v = can_port_maximum w \<and> partneredControlFunctions ?v = []
      \<and> nm_initialized ?v"
    using node_basics(2,7) [OF node]
    by (cases ?F) (simp_all add: register_claim_def Let_def create_external_control_function_def new_object_def)
  from received_as [OF upd] v message_of_claim show ?thesis by simp
qed

lemma null_claim_processed:
  "claim_message p NULL_CAN_ADDRESS m x \<Longrightarrow> p < can_port_maximum w \<Longrightarrow> process_rx_message x w = None"
  by (simp add: process_rx_message_def update_address_table_def in_table_def claim_message_def)

lemma hear_null_claim:
  assumes "node p c n mine known w" "receivedMessageQueue w = []"
  shows "hear p [(NULL_CAN_ADDRESS, m)] w = None"
proof -
  obtain v x where v: "process_receive_can_message_frame (claim_frame p NULL_CAN_ADDRESS m) w = Some v" "receivedMessageQueue v = [x]"
      "claim_message p NULL_CAN_ADDRESS m x" "can_port_maximum v = can_port_maximum w" "partneredControlFunctions v = []" "nm_initialized v"
    using null_claim_received [OF assms(1), of m] unfolding assms(2) append_Nil by blast
  then show ?thesis using null_claim_processed [OF v(3)] node_basics(1) [OF assms(1)]
    by (simp add: hear_def process_rx_messages_def)
qed

text \<open>
  C5: the address table is the history of the claims. Take a manager with one internal control
  function, no partners, nobody inactive and nothing in the tables of its other ports, and any sequence of batches of claims (received, then processed from the
  queue) by devices of other NAMEs, of addresses below the null address and different from the
  manager's own. The run is defined, and for every address the table has a control function exactly if
  some device is there according to the claims (the last claim of an address wins, and a device
  is only at its last address), and with the NAME of that device; the own entry stays. The
  restriction to addresses below the null address is needed: after any such history, a batch
  that is one claim of the null address (what a device sends that cannot claim) indexes past
  the row of the table.
\<close>

theorem address_table_follows_claims:
  assumes "listening p c n mine known w" "list_all (claims_of_others n mine) batches"
  shows "\<exists>w'. for_each (hear p) batches w = Some w'
    \<and> (\<forall>x. map_option (full_name w') (get_control_function p x w')
         = (if mine = Some x then Some n else fold (fold (\<lambda>(b, m). claimed_by b m)) batches known x))
    \<and> (\<forall>m. hear p [(NULL_CAN_ADDRESS, m)] w' = None)"
  using table.run_follows [OF assms(2,1)] node_lookup hear_null_claim unfolding listening_def by blast

lemma turn_null_claim:
  assumes "at_rest p c n mine known w"
  shows "take_turn t [claim_frame p NULL_CAN_ADDRESS m] w = None"
proof -
  have node: "node p c n mine known w" "receivedMessageQueue w = []" using assms by (simp_all add: at_rest_def)
  obtain v x where v: "process_receive_can_message_frame (claim_frame p NULL_CAN_ADDRESS m) w = Some v" "receivedMessageQueue v = [x]"
      "claim_message p NULL_CAN_ADDRESS m x" "can_port_maximum v = can_port_maximum w" "partneredControlFunctions v = []" "nm_initialized v"
    using null_claim_received [OF node(1), of m] unfolding node(2) append_Nil by blast
  have "process_rx_messages (v\<lparr>now_ms := t\<rparr>) = None"
    using v null_claim_processed [OF v(3)] node_basics(1) [OF node(1)] by (simp add: process_rx_messages_def)
  then show ?thesis using v by (simp add: take_turn_def nm_update_def update_new_partners_def)
qed

text \<open>A device that cannot move to another address says that it cannot claim one.\<close>

lemma turn_gives_up:
  assumes rest: "at_rest p c n None known w" and st: "icf_state (internals w c) = WaitForRequestContentionPeriod"
    and late: "ADDRESS_CONTENTION_TIME_MS \<le> t - stateChangeTimestamp_ms (internals w c)"
    and pref: "preferredAddress (internals w c) = b" "known b = Some m" "m < n"
    and cap: "\<not> get_arbitrary_address_capable (name_of_raw n)"
    and ok: "\<forall>(b, m) \<in> set claims. m \<noteq> n \<and> b < NULL_CAN_ADDRESS" and same: "fold (\<lambda>(b, m). claimed_by b m) claims known = known"
  shows "\<exists>w'. take_turn t (claim_frames p claims) w = Some ([claim_frame p NULL_CAN_ADDRESS n], w') \<and> icf_state (internals w' c) = UnableToClaim"
proof -
  have ok': "\<forall>(b, m) \<in> set claims. m \<noteq> n \<and> b < NULL_CAN_ADDRESS \<and> None \<noteq> Some b" using ok by auto
  obtain v where v: "at_rest p c n None known v" "internals v = internals w" "hw_log v = hw_log w" "now_ms v = t"
      "\<forall>claimed v' w'. update_address_claiming c v = Some (claimed, v') \<longrightarrow> (if claimed then move_in_table c v' else Some v') = Some w'
         \<longrightarrow> no_request w' \<longrightarrow> take_turn t (claim_frames p claims) w = Some (drop (length (hw_log w)) (hw_log w'), w')"
    using turn_with_claims [OF rest ok', of t] unfolding same by blast
  have nd: "node p c n None known v" using v(1) by (simp add: at_rest_def)
  have b: "b < NULL_CAN_ADDRESS" using node_known [OF nd pref(2)] by blast
  obtain d where d: "get_control_function p b v = Some d" "full_name v d = m" using at_rest_lookup(2) [OF v(1) pref(2)] by blast
  let ?u = "set_current_state UnableToClaim c v"
  let ?w' = "set_address c NULL_CAN_ADDRESS (?u\<lparr>hw_log := hw_log ?u @ [claim_frame p NULL_CAN_ADDRESS n]\<rparr>)"
  have pv: "preferredAddress (internals v c) = b" using v(2) pref(1) by simp
  have sent: "send_cannot_claim_source_address c ?u = Some (True, ?w')"
    using claim_sent [of ?u "0xFE" c] node_basics [OF nd] by (simp add: send_cannot_claim_source_address_def word_less_nat_alt)
  have "b \<noteq> NULL_CAN_ADDRESS" "\<not> full_name v d > full_name v c" using b d(2) pref(3) node_basics(6) [OF nd] by auto
  then have "arbitrate c v = Some (False, ?w')"
    unfolding arbitrate_def Let_def pv node_basics(5) [OF nd] node_NAME [OF nd] using d(1) cap sent by simp
  then have "update_address_claiming c v = Some (False, ?w')"
    using st late v(2,4) by (simp add: update_address_claiming_def get_current_state_def time_expired_ms_def)
  from v(5) [rule_format, OF this, of ?w'] v(1-3) show ?thesis
    by (simp add: at_rest_def no_request_def) (simp add: set_current_state_def)
qed

theorem contention_ends_out_of_bounds:
  assumes X: "at_rest p cx nx (Some b) kx X" "icf_state (internals X cx) = AddressClaimingComplete"
    and Y: "at_rest p cy ny (Some b) ky Y" "icf_state (internals Y cy) = AddressClaimingComplete" "preferredAddress (internals Y cy) = b"
    and names: "nx < ny" "\<not> get_arbitrary_address_capable (name_of_raw ny)"
    and times: "t1 - now_ms Y < ADDRESS_CONTENTION_TIME_MS" "ADDRESS_CONTENTION_TIME_MS \<le> t2 - now_ms Y"
  shows "\<exists>X2 Y2. do {
      s1 \<leftarrow> bus_round t1 (([claim_frame p b nx], X), ([claim_frame p b ny], Y));
      bus_round t2 s1
    } = Some (([], X2), ([claim_frame p NULL_CAN_ADDRESS ny], Y2))
    \<and> bus_round t3 (([], X2), ([claim_frame p NULL_CAN_ADDRESS ny], Y2)) = None"
proof -
  let ?ky = "claimed_by b nx ky"
  have ne: "nx \<noteq> ny" "ny \<noteq> nx" using names(1) by auto
  have kb: "b < NULL_CAN_ADDRESS" using own_not_known [OF X(1)] by simp
  have at: "?ky b = Some nx" by (simp add: claimed_by_def)
  have again: "claimed_by b nx ?ky = ?ky" by (rule HOL.ext) (simp add: claimed_by_def)
  obtain X1 where X1: "take_turn t1 [claim_frame p b ny] X = Some ([claim_frame p b nx], X1)"
      "at_rest p cx nx (Some b) ((claimed_by b ny kx)(b := None)) X1" "icf_state (internals X1 cx) = AddressClaimingComplete"
    using turn_defends [OF X(1) names(1) X(2), of t1] by blast
  obtain Y1 where Y1: "take_turn t1 [claim_frame p b nx] Y = Some ([], Y1)" "at_rest p cy ny None ?ky Y1"
      "internals Y1 = (internals Y)(cy := (internals Y cy)\<lparr>stateChangeTimestamp_ms := now_ms Y, icf_state := WaitForRequestContentionPeriod\<rparr>)"
    using turn_lost [OF Y(1) names(1) Y(2) times(1)] by blast
  obtain X2 where X2: "take_turn t2 [] X1 = Some ([], X2)" "at_rest p cx nx (Some b) ((claimed_by b ny kx)(b := None)) X2"
    using quiet_turn [OF X1(2), of "[]" t2] X1(3) by auto
  have cl: "\<forall>(x, m) \<in> set [(b, nx)]. m \<noteq> ny \<and> x < NULL_CAN_ADDRESS" using ne kb by simp
  have same: "fold (\<lambda>(b, m). claimed_by b m) [(b, nx)] ?ky = ?ky" using again by simp
  obtain Y2 where Y2: "take_turn t2 [claim_frame p b nx] Y1 = Some ([claim_frame p NULL_CAN_ADDRESS ny], Y2)"
    using turn_gives_up [OF Y1(2) _ _ _ at names(1,2) cl same, of t2] Y1(3) times(2) Y(3) by auto
  show ?thesis using X1(1) X2(1) Y1(1) Y2 turn_null_claim [OF X2(2)] by (simp add: bus_round_def)
qed

section \<open>A concrete bus\<close>

definition demo_network :: "u64 \<Rightarrow> u8 \<Rightarrow> network" where
  "demo_network n a =
     \<lparr>objects = (\<lambda>_. \<lparr>controlFunctionType = CF_Internal, controlFunctionNAME = name_of_raw n,
        claimedAddressSinceLastAddressClaimRequest = False, address = a, canPortIndex = 0\<rparr>),
      next_object = 1,
      internals = (\<lambda>_. \<lparr>icf_state = AddressClaimingComplete, stateChangeTimestamp_ms = 0, preferredAddress = a, randomClaimDelay_ms = 0\<rparr>),
      partners = (\<lambda>_. \<lparr>NAMEFilterList = [], partner_initialized = False\<rparr>),
      controlFunctionTable = (\<lambda>q x. if q = 0 \<and> x = a then Some 0 else None),
      inactiveControlFunctions = [], internalControlFunctions = [0], partneredControlFunctions = [],
      lastAddressClaimRequestTimestamp_ms = (\<lambda>_. 0), receivedMessageQueue = [], nm_initialized = True, can_port_maximum = 4,
      now_ms = 1000, hw_replies = [], hw_log = [], state_changes = [], address_violations = []\<rparr>"

lemma demo_at_rest:
  assumes "a < NULL_CAN_ADDRESS"
  shows "at_rest 0 0 n (Some a) (\<lambda>_. None) (demo_network n a)"
  using assms by (auto simp: at_rest_def node_def knows_def demo_network_def no_request_def full_name_def name_of_raw_def)

lemma demo_fields [simp]:
  "icf_state (internals (demo_network n a) c) = AddressClaimingComplete" "preferredAddress (internals (demo_network n a) c) = a"
  "now_ms (demo_network n a) = 1000"
  by (simp_all add: demo_network_def)

lemma demo_capable: "get_arbitrary_address_capable (name_of_raw 0x8000000000000006)" "\<not> get_arbitrary_address_capable (name_of_raw 6)"
  by code_simp+

lemma demo_free: "find (\<lambda>i. claimed_by 0x90 5 (\<lambda>_. None) (of_nat i) = None) (arbitrary_addresses 0x8000000000000006) = Some 128"
proof -
  have "arbitrary_addresses 0x8000000000000006 = [128..<248]" by code_simp
  then show ?thesis by (simp add: upt_rec [of 128] claimed_by_def)
qed

text \<open>Witness of C3: two managers at address 0x90.\<close>

theorem contention_resolved_witness:
  "\<exists>X' Y'. do {
      s1 \<leftarrow> bus_round 1010 (([claim_frame 0 0x90 5], demo_network 5 0x90), ([claim_frame 0 0x90 0x8000000000000006], demo_network 0x8000000000000006 0x90));
      s2 \<leftarrow> bus_round 1300 s1;
      s3 \<leftarrow> bus_round 1310 s2;
      bus_round 1320 s3
    } = Some (([], X'), ([], Y'))
    \<and> at_rest 0 0 5 (Some 0x90) (claimed_by (of_nat 128) 0x8000000000000006 (\<lambda>_. None)) X'
    \<and> at_rest 0 0 0x8000000000000006 (Some (of_nat 128)) (claimed_by 0x90 5 (\<lambda>_. None)) Y'"
proof (rule contention_resolved)
  show "at_rest 0 0 5 (Some 0x90) (\<lambda>_. None) (demo_network 5 0x90)" by (rule demo_at_rest) simp
  show "at_rest 0 0 0x8000000000000006 (Some 0x90) (\<lambda>_. None) (demo_network 0x8000000000000006 0x90)" by (rule demo_at_rest) simp
  show "get_arbitrary_address_capable (name_of_raw 0x8000000000000006)" by (rule demo_capable)
  show "find (\<lambda>i. claimed_by 0x90 5 (\<lambda>_. None) (of_nat i) = None) (arbitrary_addresses 0x8000000000000006) = Some 128" by (rule demo_free)
qed simp_all

theorem contention_ends_out_of_bounds_witness:
  "\<exists>X2 Y2. do {
      s1 \<leftarrow> bus_round 1010 (([claim_frame 0 0x90 5], demo_network 5 0x90), ([claim_frame 0 0x90 6], demo_network 6 0x90));
      bus_round 1300 s1
    } = Some (([], X2), ([claim_frame 0 NULL_CAN_ADDRESS 6], Y2))
    \<and> bus_round 1310 (([], X2), ([claim_frame 0 NULL_CAN_ADDRESS 6], Y2)) = None"
proof (rule contention_ends_out_of_bounds)
  show "at_rest 0 0 5 (Some 0x90) (\<lambda>_. None) (demo_network 5 0x90)" by (rule demo_at_rest) simp
  show "at_rest 0 0 6 (Some 0x90) (\<lambda>_. None) (demo_network 6 0x90)" by (rule demo_at_rest) simp
  show "\<not> get_arbitrary_address_capable (name_of_raw 6)" by (rule demo_capable)
qed simp_all

text \<open>Witness of C5: two devices, one of which takes the address of the other.\<close>

theorem address_table_follows_claims_witness:
  "\<exists>w'. for_each (hear 0) [[(0x21, 7), (0x22, 8)], [(0x22, 7)]] (demo_network 5 0x90) = Some w'
    \<and> (\<forall>x. map_option (full_name w') (get_control_function 0 x w')
         = (if Some 0x90 = Some x then Some 5
            else fold (fold (\<lambda>(b, m). claimed_by b m)) [[(0x21, 7), (0x22, 8)], [(0x22, 7)]] (\<lambda>_. None) x))
    \<and> (\<forall>m. hear 0 [(NULL_CAN_ADDRESS, m)] w' = None)"
proof (rule address_table_follows_claims)
  show "listening 0 0 5 (Some 0x90) (\<lambda>_. None) (demo_network 5 0x90)"
    using demo_at_rest [of "0x90" 5] by (simp add: at_rest_def listening_def)
qed (simp add: claims_of_others_def)

end
