(* ===== verification/Vt_Commands.thy ===== *)
theory Vt_Commands
  imports Can_Message "HOL-Library.Monad_Syntax"
begin

text \<open>
  The virtual terminal client, \<open>src/isobus/src/isobus_virtual_terminal_client.cpp\<close>, first part: the state of
  the client (the members of the class, and what its environment does: the clock, the answers of
  \<open>send_can_message\<close> and the messages it accepted), the queue of commands and the functions that
  build the commands. \<open>None\<close> is an access outside of a buffer, an exception or a failing assertion.
\<close>

section \<open>Codes\<close>

abbreviation (input) PGN_VirtualTerminalToECU :: u32 where "PGN_VirtualTerminalToECU \<equiv> 0xE600"
abbreviation (input) PGN_ECUtoVirtualTerminal :: u32 where "PGN_ECUtoVirtualTerminal \<equiv> 0xE700"
abbreviation (input) PGN_Acknowledge :: u32 where "PGN_Acknowledge \<equiv> 0xE800"
abbreviation (input) PGN_WorkingSetMaster :: u32 where "PGN_WorkingSetMaster \<equiv> 0xFE0D"

abbreviation (input) SoftKeyActivationMessage :: u8 where "SoftKeyActivationMessage \<equiv> 0x00"
abbreviation (input) ButtonActivationMessage :: u8 where "ButtonActivationMessage \<equiv> 0x01"
abbreviation (input) PointingEventMessage :: u8 where "PointingEventMessage \<equiv> 0x02"
abbreviation (input) VTSelectInputObjectMessage :: u8 where "VTSelectInputObjectMessage \<equiv> 0x03"
abbreviation (input) VTESCMessage :: u8 where "VTESCMessage \<equiv> 0x04"
abbreviation (input) VTChangeNumericValueMessage :: u8 where "VTChangeNumericValueMessage \<equiv> 0x05"
abbreviation (input) VTChangeActiveMaskMessage :: u8 where "VTChangeActiveMaskMessage \<equiv> 0x06"
abbreviation (input) VTChangeSoftKeyMaskMessage :: u8 where "VTChangeSoftKeyMaskMessage \<equiv> 0x07"
abbreviation (input) VTChangeStringValueMessage :: u8 where "VTChangeStringValueMessage \<equiv> 0x08"
abbreviation (input) VTOnUserLayoutHideShowMessage :: u8 where "VTOnUserLayoutHideShowMessage \<equiv> 0x09"
abbreviation (input) VTControlAudioSignalTerminationMessage :: u8 where "VTControlAudioSignalTerminationMessage \<equiv> 0x0A"
abbreviation (input) ObjectPoolTransferMessage :: u8 where "ObjectPoolTransferMessage \<equiv> 0x11"
abbreviation (input) EndOfObjectPoolMessage :: u8 where "EndOfObjectPoolMessage \<equiv> 0x12"
abbreviation (input) PreferredAssignmentCommand :: u8 where "PreferredAssignmentCommand \<equiv> 0x22"
abbreviation (input) AuxiliaryInputTypeTwoMaintenanceMessage :: u8 where "AuxiliaryInputTypeTwoMaintenanceMessage \<equiv> 0x23"
abbreviation (input) AuxiliaryAssignmentTypeTwoCommand :: u8 where "AuxiliaryAssignmentTypeTwoCommand \<equiv> 0x24"
abbreviation (input) AuxiliaryInputStatusTypeTwoEnableCommand :: u8 where "AuxiliaryInputStatusTypeTwoEnableCommand \<equiv> 0x25"
abbreviation (input) AuxiliaryInputTypeTwoStatusMessage :: u8 where "AuxiliaryInputTypeTwoStatusMessage \<equiv> 0x26"
abbreviation (input) SelectActiveWorkingSet :: u8 where "SelectActiveWorkingSet \<equiv> 0x90"
abbreviation (input) ESCCommand :: u8 where "ESCCommand \<equiv> 0x92"
abbreviation (input) HideShowObjectCommand :: u8 where "HideShowObjectCommand \<equiv> 0xA0"
abbreviation (input) EnableDisableObjectCommand :: u8 where "EnableDisableObjectCommand \<equiv> 0xA1"
abbreviation (input) SelectInputObjectCommand :: u8 where "SelectInputObjectCommand \<equiv> 0xA2"
abbreviation (input) ControlAudioSignalCommand :: u8 where "ControlAudioSignalCommand \<equiv> 0xA3"
abbreviation (input) SetAudioVolumeCommand :: u8 where "SetAudioVolumeCommand \<equiv> 0xA4"
abbreviation (input) ChangeChildLocationCommand :: u8 where "ChangeChildLocationCommand \<equiv> 0xA5"
abbreviation (input) ChangeSizeCommand :: u8 where "ChangeSizeCommand \<equiv> 0xA6"
abbreviation (input) ChangeBackgroundColourCommand :: u8 where "ChangeBackgroundColourCommand \<equiv> 0xA7"
abbreviation (input) ChangeNumericValueCommand :: u8 where "ChangeNumericValueCommand \<equiv> 0xA8"
abbreviation (input) ChangeEndPointCommand :: u8 where "ChangeEndPointCommand \<equiv> 0xA9"
abbreviation (input) ChangeFontAttributesCommand :: u8 where "ChangeFontAttributesCommand \<equiv> 0xAA"
abbreviation (input) ChangeLineAttributesCommand :: u8 where "ChangeLineAttributesCommand \<equiv> 0xAB"
abbreviation (input) ChangeFillAttributesCommand :: u8 where "ChangeFillAttributesCommand \<equiv> 0xAC"
abbreviation (input) ChangeActiveMaskCommand :: u8 where "ChangeActiveMaskCommand \<equiv> 0xAD"
abbreviation (input) ChangeSoftKeyMaskCommand :: u8 where "ChangeSoftKeyMaskCommand \<equiv> 0xAE"
abbreviation (input) ChangeAttributeCommand :: u8 where "ChangeAttributeCommand \<equiv> 0xAF"
abbreviation (input) ChangePriorityCommand :: u8 where "ChangePriorityCommand \<equiv> 0xB0"
abbreviation (input) ChangeListItemCommand :: u8 where "ChangeListItemCommand \<equiv> 0xB1"
abbreviation (input) DeleteObjectPoolCommand :: u8 where "DeleteObjectPoolCommand \<equiv> 0xB2"
abbreviation (input) ChangeStringValueCommand :: u8 where "ChangeStringValueCommand \<equiv> 0xB3"
abbreviation (input) ChangeChildPositionCommand :: u8 where "ChangeChildPositionCommand \<equiv> 0xB4"
abbreviation (input) ChangeObjectLabelCommand :: u8 where "ChangeObjectLabelCommand \<equiv> 0xB5"
abbreviation (input) ChangePolygonPointCommand :: u8 where "ChangePolygonPointCommand \<equiv> 0xB6"
abbreviation (input) ChangePolygonScaleCommand :: u8 where "ChangePolygonScaleCommand \<equiv> 0xB7"
abbreviation (input) GraphicsContextCommand :: u8 where "GraphicsContextCommand \<equiv> 0xB8"
abbreviation (input) GetAttributeValueMessage :: u8 where "GetAttributeValueMessage \<equiv> 0xB9"
abbreviation (input) SelectColourMapCommand :: u8 where "SelectColourMapCommand \<equiv> 0xBA"
abbreviation (input) ExecuteExtendedMacroCommand :: u8 where "ExecuteExtendedMacroCommand \<equiv> 0xBC"
abbreviation (input) LockUnlockMaskCommand :: u8 where "LockUnlockMaskCommand \<equiv> 0xBD"
abbreviation (input) ExecuteMacroCommand :: u8 where "ExecuteMacroCommand \<equiv> 0xBE"
abbreviation (input) GetMemoryMessage :: u8 where "GetMemoryMessage \<equiv> 0xC0"
abbreviation (input) GetSupportedWidecharsMessage :: u8 where "GetSupportedWidecharsMessage \<equiv> 0xC1"
abbreviation (input) GetNumberOfSoftKeysMessage :: u8 where "GetNumberOfSoftKeysMessage \<equiv> 0xC2"
abbreviation (input) GetTextFontDataMessage :: u8 where "GetTextFontDataMessage \<equiv> 0xC3"
abbreviation (input) GetWindowMaskDataMessage :: u8 where "GetWindowMaskDataMessage \<equiv> 0xC4"
abbreviation (input) GetSupportedObjectsMessage :: u8 where "GetSupportedObjectsMessage \<equiv> 0xC5"
abbreviation (input) GetHardwareMessage :: u8 where "GetHardwareMessage \<equiv> 0xC7"
abbreviation (input) StoreVersionCommand :: u8 where "StoreVersionCommand \<equiv> 0xD0"
abbreviation (input) LoadVersionCommand :: u8 where "LoadVersionCommand \<equiv> 0xD1"
abbreviation (input) DeleteVersionCommand :: u8 where "DeleteVersionCommand \<equiv> 0xD2"
abbreviation (input) ExtendedStoreVersionCommand :: u8 where "ExtendedStoreVersionCommand \<equiv> 0xD4"
abbreviation (input) ExtendedLoadVersionCommand :: u8 where "ExtendedLoadVersionCommand \<equiv> 0xD5"
abbreviation (input) ExtendedDeleteVersionCommand :: u8 where "ExtendedDeleteVersionCommand \<equiv> 0xD6"
abbreviation (input) GetVersionsMessage :: u8 where "GetVersionsMessage \<equiv> 0xDF"
abbreviation (input) GetVersionsResponse :: u8 where "GetVersionsResponse \<equiv> 0xE0"
abbreviation (input) UnsupportedVTFunctionMessage :: u8 where "UnsupportedVTFunctionMessage \<equiv> 0xFD"
abbreviation (input) VTStatusMessage :: u8 where "VTStatusMessage \<equiv> 0xFE"
abbreviation (input) WorkingSetMaintenanceMessage :: u8 where "WorkingSetMaintenanceMessage \<equiv> 0xFF"

abbreviation (input) NULL_OBJECT_ID :: u16 where "NULL_OBJECT_ID \<equiv> 0xFFFF"
abbreviation (input) VT_STATUS_TIMEOUT_MS :: u32 where "VT_STATUS_TIMEOUT_MS \<equiv> 3000"
abbreviation (input) WORKING_SET_MAINTENANCE_TIMEOUT_MS :: u32 where "WORKING_SET_MAINTENANCE_TIMEOUT_MS \<equiv> 1000"
abbreviation (input) AUXILIARY_MAINTENANCE_TIMEOUT_MS :: u32 where "AUXILIARY_MAINTENANCE_TIMEOUT_MS \<equiv> 100"

section \<open>State\<close>

datatype StateMachineState =
    Disconnected | WaitForPartnerVTStatusMessage | SendWorkingSetMasterMessage | ReadyForObjectPool
  | SendGetMemory | WaitForGetMemoryResponse | SendGetNumberSoftkeys | WaitForGetNumberSoftKeysResponse
  | SendGetTextFontData | WaitForGetTextFontDataResponse | SendGetHardware | WaitForGetHardwareResponse
  | SendGetVersions | WaitForGetVersionsResponse | SendStoreVersion | WaitForStoreVersionResponse
  | SendLoadVersion | WaitForLoadVersionResponse | UploadObjectPool | SendEndOfObjectPool
  | WaitForEndOfObjectPoolResponse | Connected | Failed

datatype CurrentObjectPoolUploadState = Uninitialized | InProgress | UploadSuccess | UploadFailed

text \<open>A pool: its data by pointer or by vector (both here the bytes pointed at) or by the user's
  callback, which fills a chunk or refuses.\<close>

record ObjectPoolDataStruct =
  objectPoolDataPointer :: "u8 list option"
  objectPoolVectorPointer :: "u8 list option"
  scaledObjectPool :: "u8 list"
  dataCallback :: "(u32 \<Rightarrow> u32 \<Rightarrow> u32 \<Rightarrow> u8 list option) option"
  versionLabel :: "u8 list"
  objectPoolSize :: u32
  autoScaleDataMaskOriginalDimension :: u32
  autoScaleSoftKeyDesignatorOriginalHeight :: u32
  useDataCallback :: bool
  uploaded :: bool

record AssignedAuxiliaryFunction =
  functionObjectID :: u16
  inputObjectID :: u16
  functionType :: u8

record AssignedAuxiliaryInputDevice =
  aux_name :: u64
  modelIdentificationCode :: u16
  aux_functions :: "AssignedAuxiliaryFunction list"

record AuxiliaryInputState =
  lastStatusUpdate :: u64
  aux_enabled :: bool
  hasInteraction :: bool
  controlLocked :: bool
  value1 :: u16
  value2 :: u16

text \<open>What the display told of itself.\<close>

record vt_capabilities =
  connectedVTVersion :: u8
  softKeyXAxisPixels :: u8
  softKeyYAxisPixels :: u8
  numberVirtualSoftkeysPerSoftkeyMask :: u8
  numberPhysicalSoftkeys :: u8
  smallFontSizesBitfield :: u8
  largeFontSizesBitfield :: u8
  fontStylesBitfield :: u8
  supportedGraphicsMode :: u8
  xPixels :: u16
  yPixels :: u16
  hardwareFeaturesBitfield :: u8

record vt_status =
  lastVTStatusTimestamp_ms :: u32
  activeWorkingSetDataMaskObjectID :: u16
  activeWorkingSetSoftKeyMaskObjectID :: u16
  activeWorkingSetMasterAddress :: u8
  busyCodesBitfield :: u8
  currentCommandFunctionCode :: u8

text \<open>What leaves the client: a message with its parameter group, its bytes, its destination (\<open>None\<close>:
  everyone) and priority, or an object pool the transport layer fetches in chunks.\<close>

datatype vt_out =
    VtMessage u32 "u8 list" "cf option" CANPriority
  | PoolTransfer u32

record 's vt_client =
  partnerControlFunction :: "cf option"
  myControlFunction :: cf
  txFlags :: "u8 list"
  vt_status :: vt_status
  capabilities :: vt_capabilities
  vt_state :: StateMachineState
  currentObjectPoolState :: CurrentObjectPoolUploadState
  stateMachineTimestamp_ms :: u32
  lastWorkingSetMaintenanceTimestamp_ms :: u32
  lastAuxiliaryMaintenanceTimestamp_ms :: u32
  objectPools :: "ObjectPoolDataStruct list"
  unsupportedFunctions :: "u8 list"
  assignedAuxiliaryInputDevices :: "AssignedAuxiliaryInputDevice list"
  ourModelIdentificationCode :: u16
  ourAuxiliaryInputs :: "(u16 \<times> AuxiliaryInputState) list"
  firstTimeInState :: bool
  vt_initialized :: bool
  sendWorkingSetMaintenance :: bool
  sendAuxiliaryMaintenance :: bool
  shouldTerminate :: bool
  commandQueue :: "u8 list list"
  commandAwaitingResponse :: bool
  lastCommandTimestamp_ms :: u32
  \<comment> \<open>the environment: the clock, the answers of \<open>send_can_message\<close> and what it accepted, the partner's
      address, the number of listeners for auxiliary functions, the application's own state\<close>
  clock_ms :: u32
  can_accepts :: "nat \<Rightarrow> bool"
  can_calls :: nat
  can_sent :: "vt_out list"
  partner_address_valid :: bool
  aux_listeners :: nat
  app_state :: 's

definition time_expired :: "u32 \<Rightarrow> u32 \<Rightarrow> 's vt_client \<Rightarrow> bool" where
  "time_expired stamp timeout c \<longleftrightarrow> clock_ms c - stamp \<ge> timeout"

definition get_is_connected :: "'s vt_client \<Rightarrow> bool" where
  "get_is_connected c \<longleftrightarrow> vt_state c = Connected"

section \<open>Sending\<close>

definition can_send :: "vt_out \<Rightarrow> 's vt_client \<Rightarrow> bool \<times> 's vt_client" where
  "can_send m c =
     (let ok = can_accepts c (can_calls c)
      in (ok, c\<lparr>can_calls := Suc (can_calls c), can_sent := (if ok then can_sent c @ [m] else can_sent c)\<rparr>))"

definition send_message_to_vt :: "u8 list \<Rightarrow> CANPriority \<Rightarrow> 's vt_client \<Rightarrow> bool \<times> 's vt_client" where
  "send_message_to_vt bytes prio c =
     can_send (VtMessage PGN_ECUtoVirtualTerminal bytes (partnerControlFunction c) prio) c"

definition is_function_unsupported :: "u8 \<Rightarrow> 's vt_client \<Rightarrow> bool" where
  "is_function_unsupported functionCode c \<longleftrightarrow> functionCode \<in> set (unsupportedFunctions c)"

definition send_command :: "u8 list \<Rightarrow> 's vt_client \<Rightarrow> bool \<times> 's vt_client" where
  "send_command bytes c =
     (if commandAwaitingResponse c \<and> \<not> time_expired (lastCommandTimestamp_ms c) 1500 c then (False, c)
      else
        let c1 = c\<lparr>commandAwaitingResponse := False\<rparr>
        in if \<not> get_is_connected c1 then (False, c1)
           else
             let (success, c2) = send_message_to_vt bytes Priority5 c1
             in (success,
                 if success then c2\<lparr>commandAwaitingResponse := True, lastCommandTimestamp_ms := clock_ms c2\<rparr>
                 else c2))"

section \<open>The command queue\<close>

fun same_at :: "nat list \<Rightarrow> u8 list \<Rightarrow> u8 list \<Rightarrow> bool option" where
  \<comment> \<open>\<open>first[k] == second[k]\<close> for the listed positions, stopping at the first difference\<close>
  "same_at [] first second = Some True"
| "same_at (k # ks) first second =
     do {a \<leftarrow> checked_nth first k;
         b \<leftarrow> checked_nth second k;
         if a \<noteq> b then Some False else same_at ks first second}"

definition are_commands_similar :: "u8 list \<Rightarrow> u8 list \<Rightarrow> bool option" where
  "are_commands_similar first second =
     (if length first \<noteq> length second then Some False
      else do {
        f \<leftarrow> checked_nth first 0;
        s \<leftarrow> checked_nth second 0;
        if f \<noteq> s then Some False
        else if f \<in> {HideShowObjectCommand, EnableDisableObjectCommand, ChangeSizeCommand,
              ChangeBackgroundColourCommand, ChangeNumericValueCommand, ChangeStringValueCommand,
              ChangeEndPointCommand, ChangeFontAttributesCommand, ChangeLineAttributesCommand,
              ChangeFillAttributesCommand, ChangeActiveMaskCommand, ChangePriorityCommand,
              ChangePolygonScaleCommand}
        then same_at [1, 2] first second
        else if f \<in> {ChangeChildLocationCommand, ChangeChildPositionCommand}
        then same_at [1, 2, 3, 4] first second
        else if f \<in> {ChangeSoftKeyMaskCommand, ChangeAttributeCommand, ChangeListItemCommand,
              LockUnlockMaskCommand, ChangePolygonPointCommand, GraphicsContextCommand,
              GetAttributeValueMessage}
        then same_at [1, 2, 3] first second
        else if f = ExecuteMacroCommand then same_at [1] first second
        else Some True})"

fun replace_from :: "u8 list \<Rightarrow> bool \<Rightarrow> u8 list list \<Rightarrow> (bool \<times> u8 list list) option" where
  "replace_from d alreadyReplaced [] = Some (alreadyReplaced, [])"
| "replace_from d alreadyReplaced (x # xs) =
     do {similar \<leftarrow> are_commands_similar x d;
         (r, ys) \<leftarrow> replace_from d (alreadyReplaced \<or> similar) xs;
         Some (r, if \<not> similar then x # ys else if \<not> alreadyReplaced then d # ys else ys)}"

definition replace_command :: "u8 list \<Rightarrow> 's vt_client \<Rightarrow> (bool \<times> 's vt_client) option" where
  "replace_command d c =
     map_option (\<lambda>(r, q). (r, c\<lparr>commandQueue := q\<rparr>)) (replace_from d False (commandQueue c))"

definition queue_command :: "u8 list \<Rightarrow> bool \<Rightarrow> 's vt_client \<Rightarrow> (bool \<times> 's vt_client) option" where
  "queue_command d replace c =
     do {functionCode \<leftarrow> checked_nth d 0;
         if is_function_unsupported functionCode c then Some (False, c)
         else
           let (sent, c1) = (if get_is_connected c then send_command d c else (False, c))
           in if sent then Some (True, c1)
              else do {
                (replaced, c2) \<leftarrow> (if replace then replace_command d c1 else Some (False, c1));
                Some (True, if replaced then c2 else c2\<lparr>commandQueue := commandQueue c2 @ [d]\<rparr>)}}"

fun drain :: "u8 list list \<Rightarrow> 's vt_client \<Rightarrow> u8 list list \<times> 's vt_client" where
  \<comment> \<open>the loop over the queue: what could be sent is erased\<close>
  "drain [] c = ([], c)"
| "drain (d # ds) c =
     (let (sent, c1) = send_command d c;
          (left, c2) = drain ds c1
      in (if sent then left else d # left, c2))"

definition process_command_queue :: "'s vt_client \<Rightarrow> 's vt_client" where
  "process_command_queue c =
     (if \<not> get_is_connected c then c
      else let (left, c1) = drain (commandQueue c) c in c1\<lparr>commandQueue := left\<rparr>)"

section \<open>Enumerations the commands carry\<close>

datatype HideShowObjectOption = HideObject | ShowObject
datatype EnableDisableObjectOption = DisableObject | EnableObject
datatype SelectInputObjectOptions = ActivateObjectForDataInput | SetFocusToObject
datatype LineDirection = TopLeftToBottomRight | BottomLeftToTopRight
datatype FontSize =
    Size6x8 | Size8x8 | Size8x12 | Size12x16 | Size16x16 | Size16x24 | Size24x32 | Size32x32
  | Size32x48 | Size48x64 | Size64x64 | Size64x96 | Size96x128 | Size128x128 | Size128x192
datatype FillType = NoFill | FillWithLineColour | FillWithSpecifiedColour | FillWithPattern
datatype MaskType = DataMask | AlarmMask
datatype AlarmMaskPriority = HighPriority | MediumPriority | LowPriority
datatype MaskLockState = UnlockMask | LockMask

fun hide_show_code :: "HideShowObjectOption \<Rightarrow> u8" where
  "hide_show_code HideObject = 0"
| "hide_show_code ShowObject = 1"

fun enable_disable_code :: "EnableDisableObjectOption \<Rightarrow> u8" where
  "enable_disable_code DisableObject = 0"
| "enable_disable_code EnableObject = 1"

fun select_input_code :: "SelectInputObjectOptions \<Rightarrow> u8" where
  "select_input_code ActivateObjectForDataInput = 0x00"
| "select_input_code SetFocusToObject = 0xFF"

fun line_direction_code :: "LineDirection \<Rightarrow> u8" where
  "line_direction_code TopLeftToBottomRight = 0"
| "line_direction_code BottomLeftToTopRight = 1"

fun font_size_code :: "FontSize \<Rightarrow> u8" where
  "font_size_code Size6x8 = 0"
| "font_size_code Size8x8 = 1"
| "font_size_code Size8x12 = 2"
| "font_size_code Size12x16 = 3"
| "font_size_code Size16x16 = 4"
| "font_size_code Size16x24 = 5"
| "font_size_code Size24x32 = 6"
| "font_size_code Size32x32 = 7"
| "font_size_code Size32x48 = 8"
| "font_size_code Size48x64 = 9"
| "font_size_code Size64x64 = 10"
| "font_size_code Size64x96 = 11"
| "font_size_code Size96x128 = 12"
| "font_size_code Size128x128 = 13"
| "font_size_code Size128x192 = 14"

fun fill_type_code :: "FillType \<Rightarrow> u8" where
  "fill_type_code NoFill = 0"
| "fill_type_code FillWithLineColour = 1"
| "fill_type_code FillWithSpecifiedColour = 2"
| "fill_type_code FillWithPattern = 3"

fun mask_type_code :: "MaskType \<Rightarrow> u8" where
  "mask_type_code DataMask = 1"
| "mask_type_code AlarmMask = 2"

fun alarm_priority_code :: "AlarmMaskPriority \<Rightarrow> u8" where
  "alarm_priority_code HighPriority = 0"
| "alarm_priority_code MediumPriority = 1"
| "alarm_priority_code LowPriority = 2"

fun lock_code :: "MaskLockState \<Rightarrow> u8" where
  "lock_code UnlockMask = 0"
| "lock_code LockMask = 1"

section \<open>The commands\<close>

text \<open>Signed coordinates are the 16-bit words of their two's complement; a floating-point zoom is the
  32-bit word of its representation, which the code puts in little-endian order on either host.\<close>

definition send_hide_show_object :: "u16 \<Rightarrow> HideShowObjectOption \<Rightarrow> 's vt_client \<Rightarrow> (bool \<times> 's vt_client) option" where
  "send_hide_show_object objectID command c = queue_command
     [HideShowObjectCommand, byte_of 0 objectID, byte_of 1 objectID, hide_show_code command, 0xFF, 0xFF, 0xFF, 0xFF] True c"

definition send_enable_disable_object :: "u16 \<Rightarrow> EnableDisableObjectOption \<Rightarrow> 's vt_client \<Rightarrow> (bool \<times> 's vt_client) option" where
  "send_enable_disable_object objectID command c = queue_command
     [EnableDisableObjectCommand, byte_of 0 objectID, byte_of 1 objectID, enable_disable_code command, 0xFF, 0xFF, 0xFF, 0xFF] True c"

definition send_select_input_object :: "u16 \<Rightarrow> SelectInputObjectOptions \<Rightarrow> 's vt_client \<Rightarrow> (bool \<times> 's vt_client) option" where
  "send_select_input_object objectID opt c = queue_command
     [SelectInputObjectCommand, byte_of 0 objectID, byte_of 1 objectID, select_input_code opt, 0xFF, 0xFF, 0xFF, 0xFF] True c"

definition send_ESC :: "'s vt_client \<Rightarrow> (bool \<times> 's vt_client) option" where
  "send_ESC c = queue_command
     [ESCCommand, 0xFF, 0xFF, 0xFF, 0xFF, 0xFF, 0xFF, 0xFF] True c"

definition send_control_audio_signal :: "u8 \<Rightarrow> u16 \<Rightarrow> u16 \<Rightarrow> u16 \<Rightarrow> 's vt_client \<Rightarrow> (bool \<times> 's vt_client) option" where
  "send_control_audio_signal activations frequency_hz duration_ms offTimeDuration_ms c = queue_command
     [ControlAudioSignalCommand, activations, byte_of 0 frequency_hz, byte_of 1 frequency_hz, byte_of 0 duration_ms, byte_of 1 duration_ms,
      byte_of 0 offTimeDuration_ms, byte_of 1 offTimeDuration_ms] True c"

definition send_set_audio_volume :: "u8 \<Rightarrow> 's vt_client \<Rightarrow> (bool \<times> 's vt_client) option" where
  "send_set_audio_volume volume_percent c =
     (let volume = (if volume_percent > 100 then 100 else volume_percent)
      in queue_command [SetAudioVolumeCommand, volume, 0xFF, 0xFF, 0xFF, 0xFF, 0xFF, 0xFF] True c)"

definition send_change_child_location :: "u16 \<Rightarrow> u16 \<Rightarrow> u8 \<Rightarrow> u8 \<Rightarrow> 's vt_client \<Rightarrow> (bool \<times> 's vt_client) option" where
  "send_change_child_location objectID parentObjectID relativeXPositionChange relativeYPositionChange c = queue_command
     [ChangeChildLocationCommand, byte_of 0 parentObjectID, byte_of 1 parentObjectID, byte_of 0 objectID, byte_of 1 objectID,
      relativeXPositionChange, relativeYPositionChange, 0xFF] True c"

definition send_change_child_position :: "u16 \<Rightarrow> u16 \<Rightarrow> u16 \<Rightarrow> u16 \<Rightarrow> 's vt_client \<Rightarrow> (bool \<times> 's vt_client) option" where
  "send_change_child_position objectID parentObjectID xPosition yPosition c = queue_command
     [ChangeChildPositionCommand, byte_of 0 parentObjectID, byte_of 1 parentObjectID, byte_of 0 objectID, byte_of 1 objectID,
      byte_of 0 xPosition, byte_of 1 xPosition, byte_of 0 yPosition, byte_of 1 yPosition] True c"

definition send_change_size_command :: "u16 \<Rightarrow> u16 \<Rightarrow> u16 \<Rightarrow> 's vt_client \<Rightarrow> (bool \<times> 's vt_client) option" where
  "send_change_size_command objectID newWidth newHeight c = queue_command
     [ChangeSizeCommand, byte_of 0 objectID, byte_of 1 objectID, byte_of 0 newWidth, byte_of 1 newWidth, byte_of 0 newHeight, byte_of 1 newHeight, 0xFF] True c"

definition send_change_background_colour :: "u16 \<Rightarrow> u8 \<Rightarrow> 's vt_client \<Rightarrow> (bool \<times> 's vt_client) option" where
  "send_change_background_colour objectID colour c = queue_command
     [ChangeBackgroundColourCommand, byte_of 0 objectID, byte_of 1 objectID, colour, 0xFF, 0xFF, 0xFF, 0xFF] True c"

definition send_change_numeric_value :: "u16 \<Rightarrow> u32 \<Rightarrow> 's vt_client \<Rightarrow> (bool \<times> 's vt_client) option" where
  "send_change_numeric_value objectID v c = queue_command
     [ChangeNumericValueCommand, byte_of 0 objectID, byte_of 1 objectID, 0xFF,
      byte_of 0 v, byte_of 1 v, byte_of 2 v, byte_of 3 v] True c"

definition pad_to_frame :: "u8 list \<Rightarrow> u8 list" where
  \<comment> \<open>bytes \<open>0xFF\<close> are pushed up to the minimum length\<close>
  "pad_to_frame buffer = buffer @ replicate (8 - length buffer) 0xFF"

definition send_change_string_value_chars :: "u16 \<Rightarrow> u16 \<Rightarrow> u8 list option \<Rightarrow> 's vt_client \<Rightarrow> (bool \<times> 's vt_client) option" where
  \<comment> \<open>the characters are those the pointer leads to; reading past them is undefined behaviour\<close>
  "send_change_string_value_chars objectID stringLength chars c =
     (case chars of
        None \<Rightarrow> Some (False, c)
      | Some cs \<Rightarrow>
          if length cs < unat stringLength then None
          else queue_command
            (pad_to_frame ([ChangeStringValueCommand, byte_of 0 objectID, byte_of 1 objectID,
               byte_of 0 stringLength, byte_of 1 stringLength] @ take (unat stringLength) cs)) True c)"

definition send_change_string_value :: "u16 \<Rightarrow> u8 list \<Rightarrow> 's vt_client \<Rightarrow> (bool \<times> 's vt_client) option" where
  \<comment> \<open>the overload for a string, which asserts its length\<close>
  "send_change_string_value objectID v c =
     (if \<not> length v < 65535 then None
      else send_change_string_value_chars objectID (of_nat (length v)) (Some (v @ [0])) c)"

definition send_change_endpoint :: "u16 \<Rightarrow> u16 \<Rightarrow> u16 \<Rightarrow> LineDirection \<Rightarrow> 's vt_client \<Rightarrow> (bool \<times> 's vt_client) option" where
  "send_change_endpoint objectID width_px height_px direction c = queue_command
     [ChangeEndPointCommand, byte_of 0 objectID, byte_of 1 objectID, byte_of 0 width_px, byte_of 1 width_px,
      byte_of 0 height_px, byte_of 1 height_px, line_direction_code direction] True c"

definition send_change_font_attributes :: "u16 \<Rightarrow> u8 \<Rightarrow> FontSize \<Rightarrow> u8 \<Rightarrow> u8 \<Rightarrow> 's vt_client \<Rightarrow> (bool \<times> 's vt_client) option" where
  "send_change_font_attributes objectID colour sz type styleBitfield c = queue_command
     [ChangeFontAttributesCommand, byte_of 0 objectID, byte_of 1 objectID, colour, font_size_code sz, type,
      styleBitfield, 0xFF] True c"

definition send_change_line_attributes :: "u16 \<Rightarrow> u8 \<Rightarrow> u8 \<Rightarrow> u16 \<Rightarrow> 's vt_client \<Rightarrow> (bool \<times> 's vt_client) option" where
  "send_change_line_attributes objectID colour width lineArtBitmask c = queue_command
     [ChangeLineAttributesCommand, byte_of 0 objectID, byte_of 1 objectID, colour, width,
      byte_of 0 lineArtBitmask, byte_of 1 lineArtBitmask, 0xFF] True c"

definition send_change_fill_attributes :: "u16 \<Rightarrow> FillType \<Rightarrow> u8 \<Rightarrow> u16 \<Rightarrow> 's vt_client \<Rightarrow> (bool \<times> 's vt_client) option" where
  "send_change_fill_attributes objectID fillType colour fillPatternObjectID c = queue_command
     [ChangeFillAttributesCommand, byte_of 0 objectID, byte_of 1 objectID, fill_type_code fillType, colour,
      byte_of 0 fillPatternObjectID, byte_of 1 fillPatternObjectID, 0xFF] True c"

definition send_change_active_mask :: "u16 \<Rightarrow> u16 \<Rightarrow> 's vt_client \<Rightarrow> (bool \<times> 's vt_client) option" where
  "send_change_active_mask workingSetObjectID newActiveMaskObjectID c = queue_command
     [ChangeActiveMaskCommand, byte_of 0 workingSetObjectID, byte_of 1 workingSetObjectID,
      byte_of 0 newActiveMaskObjectID, byte_of 1 newActiveMaskObjectID, 0xFF, 0xFF, 0xFF] True c"

definition send_change_softkey_mask :: "MaskType \<Rightarrow> u16 \<Rightarrow> u16 \<Rightarrow> 's vt_client \<Rightarrow> (bool \<times> 's vt_client) option" where
  "send_change_softkey_mask type dataOrAlarmMaskObjectID newSoftKeyMaskObjectID c = queue_command
     [ChangeSoftKeyMaskCommand, mask_type_code type, byte_of 0 dataOrAlarmMaskObjectID, byte_of 1 dataOrAlarmMaskObjectID,
      byte_of 0 newSoftKeyMaskObjectID, byte_of 1 newSoftKeyMaskObjectID, 0xFF, 0xFF] True c"

definition send_change_attribute :: "u16 \<Rightarrow> u8 \<Rightarrow> u32 \<Rightarrow> 's vt_client \<Rightarrow> (bool \<times> 's vt_client) option" where
  "send_change_attribute objectID attributeID v c = queue_command
     [ChangeAttributeCommand, byte_of 0 objectID, byte_of 1 objectID, attributeID,
      byte_of 0 v, byte_of 1 v, byte_of 2 v, byte_of 3 v] True c"

definition send_change_priority :: "u16 \<Rightarrow> AlarmMaskPriority \<Rightarrow> 's vt_client \<Rightarrow> (bool \<times> 's vt_client) option" where
  "send_change_priority alarmMaskObjectID priority c = queue_command
     [ChangePriorityCommand, byte_of 0 alarmMaskObjectID, byte_of 1 alarmMaskObjectID, alarm_priority_code priority,
      0xFF, 0xFF, 0xFF, 0xFF] True c"

definition send_change_list_item :: "u16 \<Rightarrow> u8 \<Rightarrow> u16 \<Rightarrow> 's vt_client \<Rightarrow> (bool \<times> 's vt_client) option" where
  "send_change_list_item objectID listIndex newObjectID c = queue_command
     [ChangeListItemCommand, byte_of 0 objectID, byte_of 1 objectID, listIndex,
      byte_of 0 newObjectID, byte_of 1 newObjectID, 0xFF, 0xFF] True c"

definition send_lock_unlock_mask :: "MaskLockState \<Rightarrow> u16 \<Rightarrow> u16 \<Rightarrow> 's vt_client \<Rightarrow> (bool \<times> 's vt_client) option" where
  "send_lock_unlock_mask lock objectID timeout_ms c = queue_command
     [LockUnlockMaskCommand, lock_code lock, byte_of 0 objectID, byte_of 1 objectID,
      byte_of 0 timeout_ms, byte_of 1 timeout_ms, 0xFF, 0xFF] False c"

definition send_execute_macro :: "u16 \<Rightarrow> 's vt_client \<Rightarrow> (bool \<times> 's vt_client) option" where
  "send_execute_macro objectID c = queue_command
     [ExecuteMacroCommand, byte_of 0 objectID, byte_of 1 objectID, 0xFF, 0xFF, 0xFF, 0xFF, 0xFF] False c"

definition send_change_object_label :: "u16 \<Rightarrow> u16 \<Rightarrow> u8 \<Rightarrow> u16 \<Rightarrow> 's vt_client \<Rightarrow> (bool \<times> 's vt_client) option" where
  "send_change_object_label objectID labelStringObjectID fontType graphicalDesignatorObjectID c = queue_command
     [ChangeObjectLabelCommand, byte_of 0 objectID, byte_of 1 objectID, byte_of 0 labelStringObjectID, byte_of 1 labelStringObjectID,
      fontType, byte_of 0 graphicalDesignatorObjectID, byte_of 1 graphicalDesignatorObjectID] False c"

definition send_change_polygon_point :: "u16 \<Rightarrow> u8 \<Rightarrow> u16 \<Rightarrow> u16 \<Rightarrow> 's vt_client \<Rightarrow> (bool \<times> 's vt_client) option" where
  "send_change_polygon_point objectID pointIndex newXValue newYValue c = queue_command
     [ChangePolygonPointCommand, byte_of 0 objectID, byte_of 1 objectID, pointIndex,
      byte_of 0 newXValue, byte_of 1 newXValue, byte_of 0 newYValue, byte_of 1 newYValue] True c"

definition send_change_polygon_scale :: "u16 \<Rightarrow> u16 \<Rightarrow> u16 \<Rightarrow> 's vt_client \<Rightarrow> (bool \<times> 's vt_client) option" where
  "send_change_polygon_scale objectID widthAttribute heightAttribute c = queue_command
     [ChangePolygonScaleCommand, byte_of 0 objectID, byte_of 1 objectID,
      byte_of 0 widthAttribute, byte_of 1 widthAttribute, byte_of 0 heightAttribute, byte_of 1 heightAttribute, 0xFF] True c"

definition send_select_colour_map_or_palette :: "u16 \<Rightarrow> 's vt_client \<Rightarrow> (bool \<times> 's vt_client) option" where
  "send_select_colour_map_or_palette objectID c = queue_command
     [SelectColourMapCommand, byte_of 0 objectID, byte_of 1 objectID, 0xFF, 0xFF, 0xFF, 0xFF, 0xFF] True c"

definition send_execute_extended_macro :: "u16 \<Rightarrow> 's vt_client \<Rightarrow> (bool \<times> 's vt_client) option" where
  "send_execute_extended_macro objectID c = queue_command
     [ExecuteExtendedMacroCommand, byte_of 0 objectID, byte_of 1 objectID, 0xFF, 0xFF, 0xFF, 0xFF, 0xFF] False c"

definition send_select_active_working_set :: "u64 \<Rightarrow> 's vt_client \<Rightarrow> (bool \<times> 's vt_client) option" where
  "send_select_active_working_set name c = queue_command
     [SelectActiveWorkingSet, byte_of 0 name, byte_of 1 name, byte_of 2 name, byte_of 3 name,
      byte_of 4 name, byte_of 5 name, byte_of 6 name, byte_of 7 name] True c"

definition send_set_graphics_cursor :: "u16 \<Rightarrow> u16 \<Rightarrow> u16 \<Rightarrow> 's vt_client \<Rightarrow> (bool \<times> 's vt_client) option" where
  "send_set_graphics_cursor objectID xPosition yPosition c = queue_command
     [GraphicsContextCommand, byte_of 0 objectID, byte_of 1 objectID, 0x00, 
      byte_of 0 xPosition, byte_of 1 xPosition, byte_of 0 yPosition, byte_of 1 yPosition] True c"

definition send_move_graphics_cursor :: "u16 \<Rightarrow> u16 \<Rightarrow> u16 \<Rightarrow> 's vt_client \<Rightarrow> (bool \<times> 's vt_client) option" where
  "send_move_graphics_cursor objectID xOffset yOffset c = queue_command
     [GraphicsContextCommand, byte_of 0 objectID, byte_of 1 objectID, 0x01, 
      byte_of 0 xOffset, byte_of 1 xOffset, byte_of 0 yOffset, byte_of 1 yOffset] True c"

definition send_set_foreground_colour :: "u16 \<Rightarrow> u8 \<Rightarrow> 's vt_client \<Rightarrow> (bool \<times> 's vt_client) option" where
  "send_set_foreground_colour objectID colour c = queue_command
     [GraphicsContextCommand, byte_of 0 objectID, byte_of 1 objectID, 0x02, colour, 0xFF, 0xFF, 0xFF] True c"

definition send_set_background_colour :: "u16 \<Rightarrow> u8 \<Rightarrow> 's vt_client \<Rightarrow> (bool \<times> 's vt_client) option" where
  "send_set_background_colour objectID colour c = queue_command
     [GraphicsContextCommand, byte_of 0 objectID, byte_of 1 objectID, 0x03, colour, 0xFF, 0xFF, 0xFF] True c"

definition send_set_line_attributes_object_id :: "u16 \<Rightarrow> u16 \<Rightarrow> 's vt_client \<Rightarrow> (bool \<times> 's vt_client) option" where
  "send_set_line_attributes_object_id objectID lineAttributesObjectID c = queue_command
     [GraphicsContextCommand, byte_of 0 objectID, byte_of 1 objectID, 0x04, 
      byte_of 0 lineAttributesObjectID, byte_of 1 lineAttributesObjectID, 0xFF, 0xFF] True c"

definition send_set_fill_attributes_object_id :: "u16 \<Rightarrow> u16 \<Rightarrow> 's vt_client \<Rightarrow> (bool \<times> 's vt_client) option" where
  "send_set_fill_attributes_object_id objectID fillAttributesObjectID c = queue_command
     [GraphicsContextCommand, byte_of 0 objectID, byte_of 1 objectID, 0x05, 
      byte_of 0 fillAttributesObjectID, byte_of 1 fillAttributesObjectID, 0xFF, 0xFF] True c"

definition send_set_font_attributes_object_id :: "u16 \<Rightarrow> u16 \<Rightarrow> 's vt_client \<Rightarrow> (bool \<times> 's vt_client) option" where
  "send_set_font_attributes_object_id objectID fontAttributesObjectID c = queue_command
     [GraphicsContextCommand, byte_of 0 objectID, byte_of 1 objectID, 0x06, 
      byte_of 0 fontAttributesObjectID, byte_of 1 fontAttributesObjectID, 0xFF, 0xFF] True c"

definition send_erase_rectangle :: "u16 \<Rightarrow> u16 \<Rightarrow> u16 \<Rightarrow> 's vt_client \<Rightarrow> (bool \<times> 's vt_client) option" where
  "send_erase_rectangle objectID width height c = queue_command
     [GraphicsContextCommand, byte_of 0 objectID, byte_of 1 objectID, 0x07, 
      byte_of 0 width, byte_of 1 width, byte_of 0 height, byte_of 1 height] True c"

definition send_draw_point :: "u16 \<Rightarrow> u16 \<Rightarrow> u16 \<Rightarrow> 's vt_client \<Rightarrow> (bool \<times> 's vt_client) option" where
  "send_draw_point objectID xOffset yOffset c = queue_command
     [GraphicsContextCommand, byte_of 0 objectID, byte_of 1 objectID, 0x08, 
      byte_of 0 xOffset, byte_of 1 xOffset, byte_of 0 yOffset, byte_of 1 yOffset] True c"

definition send_draw_line :: "u16 \<Rightarrow> u16 \<Rightarrow> u16 \<Rightarrow> 's vt_client \<Rightarrow> (bool \<times> 's vt_client) option" where
  "send_draw_line objectID xOffset yOffset c = queue_command
     [GraphicsContextCommand, byte_of 0 objectID, byte_of 1 objectID, 0x09, 
      byte_of 0 xOffset, byte_of 1 xOffset, byte_of 0 yOffset, byte_of 1 yOffset] True c"

definition send_draw_rectangle :: "u16 \<Rightarrow> u16 \<Rightarrow> u16 \<Rightarrow> 's vt_client \<Rightarrow> (bool \<times> 's vt_client) option" where
  "send_draw_rectangle objectID width height c = queue_command
     [GraphicsContextCommand, byte_of 0 objectID, byte_of 1 objectID, 0x0A, 
      byte_of 0 width, byte_of 1 width, byte_of 0 height, byte_of 1 height] True c"

definition send_draw_closed_ellipse :: "u16 \<Rightarrow> u16 \<Rightarrow> u16 \<Rightarrow> 's vt_client \<Rightarrow> (bool \<times> 's vt_client) option" where
  "send_draw_closed_ellipse objectID width height c = queue_command
     [GraphicsContextCommand, byte_of 0 objectID, byte_of 1 objectID, 0x0B, 
      byte_of 0 width, byte_of 1 width, byte_of 0 height, byte_of 1 height] True c"

definition polygon_buffer :: "u16 \<Rightarrow> u8 \<Rightarrow> u16 \<Rightarrow> u16 \<Rightarrow> u8 list" where
  \<comment> \<open>the loop over \<open>i = 0, 4, ...\<close> below the number of points, which writes the first point each time\<close>
  "polygon_buffer objectID numberOfPoints x y =
     fold (\<lambda>k b. b[5 + 4 * k := byte_of 0 x, 6 + 4 * k := byte_of 1 x, 7 + 4 * k := byte_of 0 y, 8 + 4 * k := byte_of 1 y])
       [0..<(unat numberOfPoints + 3) div 4]
       ([GraphicsContextCommand, byte_of 0 objectID, byte_of 1 objectID, 0x0C, numberOfPoints]
          @ replicate (4 + 4 * unat numberOfPoints) 0)"

definition send_draw_polygon ::
    "u16 \<Rightarrow> u8 \<Rightarrow> u16 list option \<Rightarrow> u16 list option \<Rightarrow> 's vt_client \<Rightarrow> (bool \<times> 's vt_client) option" where
  "send_draw_polygon objectID numberOfPoints listOfX listOfY c =
     (case (listOfX, listOfY) of
        (Some xs, Some ys) \<Rightarrow>
          if numberOfPoints > 0
          then do {x \<leftarrow> checked_nth xs 0;
                   y \<leftarrow> checked_nth ys 0;
                   queue_command (polygon_buffer objectID numberOfPoints x y) True c}
          else Some (False, c)
      | _ \<Rightarrow> Some (False, c))"

definition send_draw_text :: "u16 \<Rightarrow> bool \<Rightarrow> u8 \<Rightarrow> u8 list option \<Rightarrow> 's vt_client \<Rightarrow> (bool \<times> 's vt_client) option" where
  "send_draw_text objectID transparent textLength chars c =
     (case chars of
        None \<Rightarrow> Some (False, c)
      | Some cs \<Rightarrow>
          if textLength = 0 then Some (False, c)
          else if length cs < unat textLength then None
          else queue_command
            (pad_to_frame ([GraphicsContextCommand, byte_of 0 objectID, byte_of 1 objectID, 0x0D,
               of_bool transparent, textLength] @ take (unat textLength) cs)) True c)"

definition send_pan_viewport :: "u16 \<Rightarrow> u16 \<Rightarrow> u16 \<Rightarrow> 's vt_client \<Rightarrow> (bool \<times> 's vt_client) option" where
  "send_pan_viewport objectID xAttribute yAttribute c = queue_command
     [GraphicsContextCommand, byte_of 0 objectID, byte_of 1 objectID, 0x0E, 
      byte_of 0 xAttribute, byte_of 1 xAttribute, byte_of 0 yAttribute, byte_of 1 yAttribute] True c"

definition send_zoom_viewport :: "u16 \<Rightarrow> u32 \<Rightarrow> 's vt_client \<Rightarrow> (bool \<times> 's vt_client) option" where
  "send_zoom_viewport objectID zoom c = queue_command
     [GraphicsContextCommand, byte_of 0 objectID, byte_of 1 objectID, 0x0F, 
      byte_of 0 zoom, byte_of 1 zoom, byte_of 2 zoom, byte_of 3 zoom] True c"

definition send_pan_and_zoom_viewport :: "u16 \<Rightarrow> u16 \<Rightarrow> u16 \<Rightarrow> u32 \<Rightarrow> 's vt_client \<Rightarrow> (bool \<times> 's vt_client) option" where
  "send_pan_and_zoom_viewport objectID xAttribute yAttribute zoom c = queue_command
     [GraphicsContextCommand, byte_of 0 objectID, byte_of 1 objectID, 0x10, 
      byte_of 0 xAttribute, byte_of 1 xAttribute, byte_of 0 yAttribute, byte_of 1 yAttribute,
      byte_of 0 zoom, byte_of 1 zoom, byte_of 2 zoom, byte_of 3 zoom] True c"

definition send_change_viewport_size :: "u16 \<Rightarrow> u16 \<Rightarrow> u16 \<Rightarrow> 's vt_client \<Rightarrow> (bool \<times> 's vt_client) option" where
  "send_change_viewport_size objectID width height c =
     (if width \<le> 32767 \<and> height \<le> 32767
      then queue_command
        [GraphicsContextCommand, byte_of 0 objectID, byte_of 1 objectID, 0x11,
         byte_of 0 width, byte_of 1 width, byte_of 0 height, byte_of 1 height] True c
      else Some (False, c))"

definition send_draw_vt_object :: "u16 \<Rightarrow> u16 \<Rightarrow> 's vt_client \<Rightarrow> (bool \<times> 's vt_client) option" where
  "send_draw_vt_object graphicsContextObjectID objectID c = queue_command
     [GraphicsContextCommand, byte_of 0 graphicsContextObjectID, byte_of 1 graphicsContextObjectID, 0x12,
      byte_of 0 objectID, byte_of 1 objectID, 0xFF, 0xFF] True c"

definition send_copy_canvas_to_picture_graphic :: "u16 \<Rightarrow> u16 \<Rightarrow> 's vt_client \<Rightarrow> (bool \<times> 's vt_client) option" where
  "send_copy_canvas_to_picture_graphic graphicsContextObjectID objectID c = queue_command
     [GraphicsContextCommand, byte_of 0 graphicsContextObjectID, byte_of 1 graphicsContextObjectID, 0x13,
      byte_of 0 objectID, byte_of 1 objectID, 0xFF, 0xFF] True c"

definition send_copy_viewport_to_picture_graphic :: "u16 \<Rightarrow> u16 \<Rightarrow> 's vt_client \<Rightarrow> (bool \<times> 's vt_client) option" where
  "send_copy_viewport_to_picture_graphic graphicsContextObjectID objectID c = queue_command
     [GraphicsContextCommand, byte_of 0 graphicsContextObjectID, byte_of 1 graphicsContextObjectID, 0x14,
      byte_of 0 objectID, byte_of 1 objectID, 0xFF, 0xFF] True c"

definition send_get_attribute_value :: "u16 \<Rightarrow> u8 \<Rightarrow> 's vt_client \<Rightarrow> (bool \<times> 's vt_client) option" where
  "send_get_attribute_value objectID attributeID c = queue_command
     [GetAttributeValueMessage, byte_of 0 objectID, byte_of 1 objectID, attributeID, 0xFF, 0xFF, 0xFF, 0xFF] True c"

end
