(* ===== verification/Vt_Scaling.thy ===== *)
theory Vt_Scaling
  imports Vt_Commands Floating_Point
begin

text \<open>
  The virtual terminal client, second part: scaling the object pools to the display before the upload. A
  pool is walked object by object; sizes come from the type and counters of an object; coordinates are
  multiplied by a single-precision factor (theory Floating_Point). \<open>None\<close> is an access outside of the pool, a
  conversion whose value does not fit, or a loop that does not end.
\<close>

section \<open>Object types\<close>

abbreviation (input) OT_WorkingSet :: u8 where "OT_WorkingSet \<equiv> 0"
abbreviation (input) OT_DataMask :: u8 where "OT_DataMask \<equiv> 1"
abbreviation (input) OT_AlarmMask :: u8 where "OT_AlarmMask \<equiv> 2"
abbreviation (input) OT_Container :: u8 where "OT_Container \<equiv> 3"
abbreviation (input) OT_SoftKeyMask :: u8 where "OT_SoftKeyMask \<equiv> 4"
abbreviation (input) OT_Key :: u8 where "OT_Key \<equiv> 5"
abbreviation (input) OT_Button :: u8 where "OT_Button \<equiv> 6"
abbreviation (input) OT_InputBoolean :: u8 where "OT_InputBoolean \<equiv> 7"
abbreviation (input) OT_InputString :: u8 where "OT_InputString \<equiv> 8"
abbreviation (input) OT_InputNumber :: u8 where "OT_InputNumber \<equiv> 9"
abbreviation (input) OT_InputList :: u8 where "OT_InputList \<equiv> 10"
abbreviation (input) OT_OutputString :: u8 where "OT_OutputString \<equiv> 11"
abbreviation (input) OT_OutputNumber :: u8 where "OT_OutputNumber \<equiv> 12"
abbreviation (input) OT_OutputLine :: u8 where "OT_OutputLine \<equiv> 13"
abbreviation (input) OT_OutputRectangle :: u8 where "OT_OutputRectangle \<equiv> 14"
abbreviation (input) OT_OutputEllipse :: u8 where "OT_OutputEllipse \<equiv> 15"
abbreviation (input) OT_OutputPolygon :: u8 where "OT_OutputPolygon \<equiv> 16"
abbreviation (input) OT_OutputMeter :: u8 where "OT_OutputMeter \<equiv> 17"
abbreviation (input) OT_OutputLinearBarGraph :: u8 where "OT_OutputLinearBarGraph \<equiv> 18"
abbreviation (input) OT_OutputArchedBarGraph :: u8 where "OT_OutputArchedBarGraph \<equiv> 19"
abbreviation (input) OT_PictureGraphic :: u8 where "OT_PictureGraphic \<equiv> 20"
abbreviation (input) OT_NumberVariable :: u8 where "OT_NumberVariable \<equiv> 21"
abbreviation (input) OT_StringVariable :: u8 where "OT_StringVariable \<equiv> 22"
abbreviation (input) OT_FontAttributes :: u8 where "OT_FontAttributes \<equiv> 23"
abbreviation (input) OT_LineAttributes :: u8 where "OT_LineAttributes \<equiv> 24"
abbreviation (input) OT_FillAttributes :: u8 where "OT_FillAttributes \<equiv> 25"
abbreviation (input) OT_InputAttributes :: u8 where "OT_InputAttributes \<equiv> 26"
abbreviation (input) OT_ObjectPointer :: u8 where "OT_ObjectPointer \<equiv> 27"
abbreviation (input) OT_Macro :: u8 where "OT_Macro \<equiv> 28"
abbreviation (input) OT_AuxiliaryFunctionType1 :: u8 where "OT_AuxiliaryFunctionType1 \<equiv> 29"
abbreviation (input) OT_AuxiliaryInputType1 :: u8 where "OT_AuxiliaryInputType1 \<equiv> 30"
abbreviation (input) OT_AuxiliaryFunctionType2 :: u8 where "OT_AuxiliaryFunctionType2 \<equiv> 31"
abbreviation (input) OT_AuxiliaryInputType2 :: u8 where "OT_AuxiliaryInputType2 \<equiv> 32"
abbreviation (input) OT_AuxiliaryControlDesignatorType2 :: u8 where "OT_AuxiliaryControlDesignatorType2 \<equiv> 33"
abbreviation (input) OT_WindowMask :: u8 where "OT_WindowMask \<equiv> 34"
abbreviation (input) OT_KeyGroup :: u8 where "OT_KeyGroup \<equiv> 35"
abbreviation (input) OT_GraphicsContext :: u8 where "OT_GraphicsContext \<equiv> 36"
abbreviation (input) OT_OutputList :: u8 where "OT_OutputList \<equiv> 37"
abbreviation (input) OT_ExtendedInputAttributes :: u8 where "OT_ExtendedInputAttributes \<equiv> 38"
abbreviation (input) OT_ColourMap :: u8 where "OT_ColourMap \<equiv> 39"
abbreviation (input) OT_ObjectLabelRefrenceList :: u8 where "OT_ObjectLabelRefrenceList \<equiv> 40"
abbreviation (input) OT_ExternalObjectDefinition :: u8 where "OT_ExternalObjectDefinition \<equiv> 41"
abbreviation (input) OT_ExternalReferenceNAME :: u8 where "OT_ExternalReferenceNAME \<equiv> 42"
abbreviation (input) OT_ExternalObjectPointer :: u8 where "OT_ExternalObjectPointer \<equiv> 43"
abbreviation (input) OT_Animation :: u8 where "OT_Animation \<equiv> 44"
abbreviation (input) OT_GraphicData :: u8 where "OT_GraphicData \<equiv> 46"
abbreviation (input) OT_ScaledGraphic :: u8 where "OT_ScaledGraphic \<equiv> 48"

section \<open>Bytes of an object\<close>

text \<open>A buffer is the rest of the pool from an object on; an access past it is undefined behaviour.\<close>

definition rd16 :: "u8 list \<Rightarrow> nat \<Rightarrow> u16 option" where
  "rd16 buf k = do {a \<leftarrow> checked_nth buf k; b \<leftarrow> checked_nth buf (k + 1); Some (ucast a OR push_bit 8 (ucast b))}"

definition wr16 :: "nat \<Rightarrow> u16 \<Rightarrow> u8 list \<Rightarrow> u8 list option" where
  "wr16 k v buf = (if k + 1 < length buf then Some (buf[k := byte_of 0 v, k + 1 := byte_of 1 v]) else None)"

definition rd_count :: "u8 list \<Rightarrow> nat \<Rightarrow> u32 \<Rightarrow> u32 option" where
  \<comment> \<open>\<open>buffer[k]\<close> things of \<open>unit\<close> bytes\<close>
  "rd_count buf k unit = map_option (\<lambda>b. ucast b * unit) (checked_nth buf k)"

definition rd_len16 :: "u8 list \<Rightarrow> nat \<Rightarrow> u32 option" where
  "rd_len16 buf k = map_option ucast (rd16 buf k)"

definition rd_len32 :: "u8 list \<Rightarrow> nat \<Rightarrow> u32 option" where
  "rd_len32 buf k = do {lo \<leftarrow> rd16 buf k; hi \<leftarrow> rd16 buf (k + 2); Some (ucast lo OR push_bit 16 (ucast hi))}"

fun total :: "u32 option list \<Rightarrow> u32 option" where
  "total [] = Some 0"
| "total (x # xs) = do {a \<leftarrow> x; s \<leftarrow> total xs; Some (a + s)}"

section \<open>Sizes\<close>

definition get_is_object_scalable :: "u8 \<Rightarrow> bool" where
  "get_is_object_scalable type \<longleftrightarrow> type \<in> {OT_DataMask, OT_AlarmMask, OT_Container, OT_Key, OT_Button,
     OT_InputBoolean, OT_InputString, OT_InputNumber, OT_InputList, OT_OutputString, OT_OutputNumber,
     OT_OutputList, OT_OutputLine, OT_OutputRectangle, OT_OutputEllipse, OT_OutputPolygon, OT_OutputMeter,
     OT_OutputLinearBarGraph, OT_OutputArchedBarGraph, OT_PictureGraphic, OT_AuxiliaryFunctionType1,
     OT_AuxiliaryInputType1, OT_AuxiliaryFunctionType2, OT_AuxiliaryInputType2, OT_FontAttributes}"

definition get_minimum_object_length :: "u8 \<Rightarrow> u32" where
  "get_minimum_object_length type =
     (if type = OT_WorkingSet then 10
      else if type \<in> {OT_OutputList, OT_ExternalReferenceNAME, OT_ObjectLabelRefrenceList} then 12
      else if type \<in> {OT_AlarmMask, OT_Container, OT_KeyGroup} then 10
      else if type = OT_ExternalObjectPointer then 9
      else if type \<in> {OT_SoftKeyMask, OT_ColourMap} then 6
      else if type \<in> {OT_Key, OT_NumberVariable, OT_InputAttributes} then 7
      else if type \<in> {OT_Button, OT_InputBoolean, OT_OutputRectangle, OT_InputList, OT_ExternalObjectDefinition} then 13
      else if type = OT_InputString then 19
      else if type = OT_InputNumber then 38
      else if type = OT_OutputString then 17
      else if type = OT_OutputNumber then 29
      else if type = OT_OutputLine then 11
      else if type = OT_OutputEllipse then 15
      else if type = OT_OutputPolygon then 14
      else if type = OT_OutputMeter then 21
      else if type = OT_OutputLinearBarGraph then 24
      else if type = OT_OutputArchedBarGraph then 27
      else if type \<in> {OT_PictureGraphic, OT_Animation, OT_WindowMask} then 17
      else if type \<in> {OT_StringVariable, OT_ExtendedInputAttributes, OT_ObjectPointer, OT_Macro} then 5
      else if type \<in> {OT_FontAttributes, OT_LineAttributes, OT_FillAttributes, OT_DataMask} then 8
      else if type = OT_GraphicsContext then 34
      else if type \<in> {OT_AuxiliaryFunctionType1, OT_AuxiliaryFunctionType2, OT_AuxiliaryInputType2} then 6
      else if type = OT_AuxiliaryInputType1 then 7
      else 0)"

definition additional_bytes :: "u8 \<Rightarrow> u8 list \<Rightarrow> u32 option list" where
  \<comment> \<open>the terms \<open>get_number_bytes_in_object\<close> adds to the minimum, by type\<close>
  "additional_bytes type buf =
     (if type = OT_WorkingSet then [rd_count buf 7 6, rd_count buf 8 2, rd_count buf 9 2]
      else if type = OT_DataMask then [rd_count buf 6 6, rd_count buf 7 2]
      else if type \<in> {OT_AlarmMask, OT_Container} then [rd_count buf 8 6, rd_count buf 9 2]
      else if type = OT_SoftKeyMask then [rd_count buf 4 2, rd_count buf 5 2]
      else if type = OT_Key then [rd_count buf 5 6, rd_count buf 6 2]
      else if type = OT_Button then [rd_count buf 11 6, rd_count buf 12 2]
      else if type = OT_InputBoolean then [rd_count buf 12 2]
      else if type = OT_InputString then
        [rd_count buf 16 1, do {n \<leftarrow> checked_nth buf 16; rd_count buf (18 + unat n) 2}]
      else if type = OT_InputNumber then [rd_count buf 37 2]
      else if type = OT_InputList then [rd_count buf 12 2, rd_count buf 10 2]
      else if type = OT_OutputString then
        [rd_len16 buf 14, do {n \<leftarrow> rd16 buf 14; rd_count buf (16 + unat n) 2}]
      else if type = OT_OutputNumber then [rd_count buf 28 2]
      else if type = OT_OutputList then [rd_count buf 11 2, rd_count buf 10 2]
      else if type = OT_OutputLine then [rd_count buf 10 2]
      else if type = OT_OutputRectangle then [rd_count buf 12 2]
      else if type = OT_OutputEllipse then [rd_count buf 14 2]
      else if type = OT_OutputPolygon then [rd_count buf 12 4, rd_count buf 13 2]
      else if type = OT_OutputMeter then [rd_count buf 20 2]
      else if type = OT_OutputLinearBarGraph then [rd_count buf 23 2]
      else if type = OT_OutputArchedBarGraph then [rd_count buf 26 2]
      else if type = OT_PictureGraphic then [rd_count buf 16 2, rd_len32 buf 12]
      else if type = OT_StringVariable then [rd_len16 buf 3]
      else if type \<in> {OT_FontAttributes, OT_LineAttributes, OT_FillAttributes} then [rd_count buf 7 2]
      else if type = OT_InputAttributes then
        [rd_count buf 4 1, do {n \<leftarrow> checked_nth buf 4; rd_count buf (5 + unat n) 2}]
      else if type = OT_ExtendedInputAttributes then [rd_count buf 5 2]
      else if type = OT_Macro then [rd_len16 buf 3]
      else if type = OT_ColourMap then [rd_len16 buf 3]
      else if type = OT_WindowMask then [rd_count buf 14 2, rd_count buf 15 6, rd_count buf 16 2]
      else if type = OT_KeyGroup then [rd_count buf 8 2, rd_count buf 9 2]
      else if type = OT_ObjectLabelRefrenceList then [map_option (\<lambda>n. n * 7) (rd_len16 buf 4)]
      else if type = OT_ExternalObjectDefinition then [rd_count buf 12 2]
      else if type = OT_Animation then [rd_count buf 15 6, rd_count buf 16 2]
      else if type \<in> {OT_AuxiliaryFunctionType1, OT_AuxiliaryFunctionType2} then [rd_count buf 5 6]
      else if type \<in> {OT_AuxiliaryInputType1, OT_AuxiliaryInputType2} then [rd_count buf 6 6]
      else [])"

definition get_number_bytes_in_object :: "u8 list \<Rightarrow> u32 option" where
  "get_number_bytes_in_object buf =
     do {type \<leftarrow> checked_nth buf 2;
         more \<leftarrow> total (additional_bytes type buf);
         Some (get_minimum_object_length type + more)}"

section \<open>Fonts\<close>

definition font_sizes :: "FontSize list" where
  "font_sizes = [Size6x8, Size8x8, Size8x12, Size12x16, Size16x16, Size16x24, Size24x32, Size32x32,
     Size32x48, Size48x64, Size64x64, Size64x96, Size96x128, Size128x128, Size128x192]"

definition font_of_code :: "u8 \<Rightarrow> FontSize option" where
  "font_of_code b = find (\<lambda>s. font_size_code s = b) font_sizes"

definition get_font_size_supported :: "u8 \<Rightarrow> vt_capabilities \<Rightarrow> bool" where
  \<comment> \<open>a byte outside the enumeration falls through the switch\<close>
  "get_font_size_supported v cap =
     (if v < 8 then bit (smallFontSizesBitfield cap) (unat v)
      else if v < 15 then bit (largeFontSizesBitfield cap) (unat v - 8)
      else False)"

datatype FontStyleBits =
    Bold | CrossedOut | Underlined | Italic | Inverted | Flashing | FlashingHidden | ProportionalFontRendering

fun font_style_code :: "FontStyleBits \<Rightarrow> u8" where
  "font_style_code Bold = 0"
| "font_style_code CrossedOut = 1"
| "font_style_code Underlined = 2"
| "font_style_code Italic = 3"
| "font_style_code Inverted = 4"
| "font_style_code Flashing = 5"
| "font_style_code FlashingHidden = 6"
| "font_style_code ProportionalFontRendering = 7"

definition get_font_style_supported :: "FontStyleBits \<Rightarrow> vt_capabilities \<Rightarrow> bool" where
  "get_font_style_supported v cap \<longleftrightarrow> font_style_code v AND fontStylesBitfield cap \<noteq> 0"

partial_function (option) smaller_font :: "vt_capabilities \<Rightarrow> u8 \<Rightarrow> u8 \<Rightarrow> u8 option" where
  \<comment> \<open>the loop on \<open>retVal\<close>, which is set to the size below the original one\<close>
  "smaller_font cap originalFont v =
     (if \<not> get_font_size_supported v cap \<and> v \<noteq> 0
      then smaller_font cap originalFont (originalFont - 1)
      else Some v)"

definition get_font_or_next_smallest_font :: "u8 \<Rightarrow> vt_capabilities \<Rightarrow> u8 option" where
  "get_font_or_next_smallest_font originalFont cap = smaller_font cap originalFont originalFont"

fun font_scaling :: "FontSize \<Rightarrow> (rat \<times> FontSize) list" where
  "font_scaling Size6x8 =
     [(2395/100, Size128x192), (2130/100, Size128x128), (1595/100, Size96x128), (1195/100, Size64x96),
      (1060/100, Size64x64), (795/100, Size48x64), (595/100, Size32x48), (530/100, Size32x32), (395/100,
      Size24x32), (295/100, Size16x24), (260/100, Size16x16), (195/100, Size12x16), (145/100, Size8x12),
      (130/100, Size8x8)]"
| "font_scaling Size8x8 =
     [(2395/100, Size128x192), (1595/100, Size128x128), (1195/100, Size64x96), (795/100, Size64x64),
      (595/100, Size32x48), (395/100, Size32x32), (295/100, Size16x24), (195/100, Size16x16), (145/100,
      Size8x12), (0, Size6x8)]"
| "font_scaling Size8x12 =
     [(1595/100, Size128x192), (1195/100, Size96x128), (795/100, Size64x96), (595/100, Size48x64),
      (395/100, Size32x48), (295/100, Size24x32), (195/100, Size16x24), (145/100, Size12x16), (0, Size6x8)]"
| "font_scaling Size12x16 =
     [(1195/100, Size128x192), (1060/100, Size128x128), (795/100, Size96x128), (595/100, Size64x96),
      (530/100, Size64x64), (395/100, Size48x64), (295/100, Size32x48), (260/100, Size32x32), (195/100,
      Size24x32), (145/100, Size16x24), (130/100, Size16x16), (75/100, Size8x12), (67/100, Size8x8), (0,
      Size6x8)]"
| "font_scaling Size16x16 =
     [(1195/100, Size128x192), (795/100, Size128x128), (595/100, Size64x96), (395/100, Size64x64),
      (295/100, Size32x48), (195/100, Size32x32), (145/100, Size16x24), (75/100, Size8x12), (50/100,
      Size8x8), (0, Size6x8)]"
| "font_scaling Size16x24 =
     [(795/100, Size128x128), (595/100, Size96x128), (395/100, Size64x96), (295/100, Size48x64), (195/100,
      Size32x48), (145/100, Size24x32), (75/100, Size12x16), (50/100, Size8x12), (0, Size6x8)]"
| "font_scaling Size24x32 =
     [(595/100, Size128x192), (530/100, Size128x128), (395/100, Size96x128), (295/100, Size64x96),
      (260/100, Size64x64), (195/100, Size48x64), (145/100, Size32x48), (130/100, Size32x32), (75/100,
      Size16x24), (60/100, Size16x16), (50/100, Size12x16), (37/100, Size8x12), (30/100, Size8x8), (0,
      Size6x8)]"
| "font_scaling Size32x32 =
     [(595/100, Size128x192), (395/100, Size128x128), (295/100, Size64x96), (195/100, Size64x64),
      (145/100, Size32x48), (75/100, Size16x24), (50/100, Size16x16), (37/100, Size8x12), (20/100,
      Size8x8), (0, Size6x8)]"
| "font_scaling Size32x48 =
     [(395/100, Size128x192), (295/100, Size96x128), (195/100, Size64x96), (145/100, Size48x64), (75/100,
      Size24x32), (50/100, Size16x24), (37/100, Size12x16), (20/100, Size8x12), (0, Size6x8)]"
| "font_scaling Size48x64 =
     [(295/100, Size128x192), (260/100, Size128x128), (195/100, Size96x128), (145/100, Size64x96),
      (130/100, Size64x64), (75/100, Size32x48), (60/100, Size32x32), (50/100, Size24x32), (37/100,
      Size16x24), (33/100, Size16x16), (25/100, Size12x16), (18/100, Size8x12), (16/100, Size8x8), (0,
      Size6x8)]"
| "font_scaling Size64x64 =
     [(295/100, Size128x192), (195/100, Size128x128), (145/100, Size64x96), (75/100, Size32x48), (50/100,
      Size32x32), (37/100, Size16x24), (25/100, Size16x16), (18/100, Size8x12), (12/100, Size8x8), (0,
      Size6x8)]"
| "font_scaling Size64x96 =
     [(195/100, Size128x192), (145/100, Size96x128), (75/100, Size48x64), (50/100, Size32x48), (37/100,
      Size24x32), (25/100, Size16x24), (18/100, Size12x16), (12/100, Size8x12), (0, Size6x8)]"
| "font_scaling Size96x128 =
     [(145/100, Size128x192), (130/100, Size128x128), (75/100, Size64x96), (60/100, Size64x64), (50/100,
      Size48x64), (37/100, Size32x48), (33/100, Size32x32), (25/100, Size24x32), (18/100, Size16x24),
      (16/100, Size16x16), (125/1000, Size12x16), (9/100, Size8x12), (8/100, Size8x8), (0, Size6x8)]"
| "font_scaling Size128x128 =
     [(145/100, Size128x192), (75/100, Size64x96), (50/100, Size64x64), (37/100, Size32x48), (25/100,
      Size32x32), (18/100, Size16x24), (125/1000, Size16x16), (9/100, Size8x12), (6/100, Size8x8), (0,
      Size6x8)]"
| "font_scaling Size128x192 =
     [(75/100, Size96x128), (50/100, Size64x96), (37/100, Size48x64), (25/100, Size32x48), (18/100,
      Size24x32), (125/1000, Size16x24), (9/100, Size12x16), (6/100, Size8x12), (0, Size6x8)]"

definition remap_font_to_scale :: "u8 \<Rightarrow> rat \<Rightarrow> u8" where
  "remap_font_to_scale originalFont scaleFactor =
     (if scaleFactor > float_round (105/100) \<or> scaleFactor < float_round (95/100)
      then (case font_of_code originalFont of
              None \<Rightarrow> originalFont
            | Some s \<Rightarrow> (case find (\<lambda>(t, r). scaleFactor \<ge> float_round t) (font_scaling s) of
                           None \<Rightarrow> originalFont
                         | Some (t, r) \<Rightarrow> font_size_code r))
      else originalFont)"

section \<open>Coordinates\<close>

definition to_i16 :: "rat \<Rightarrow> u16 option" where
  \<comment> \<open>a conversion whose truncated value does not fit is undefined behaviour\<close>
  "to_i16 x = (if -32769 < x \<and> x < 32768 then Some (of_int (if x < 0 then \<lceil>x\<rceil> else \<lfloor>x\<rfloor>)) else None)"

definition scaled :: "(rat \<Rightarrow> u16 option) \<Rightarrow> rat \<Rightarrow> u8 list \<Rightarrow> nat \<Rightarrow> u16 option" where
  \<comment> \<open>the two bytes are joined as an \<open>int\<close> that is never negative, multiplied and converted\<close>
  "scaled conv factor buf k = do {v \<leftarrow> rd16 buf k; conv (float_round (of_nat (unat v) * factor))}"

definition scale_at :: "(rat \<Rightarrow> u16 option) \<Rightarrow> rat \<Rightarrow> nat \<Rightarrow> u8 list \<Rightarrow> u8 list option" where
  "scale_at conv factor k buf = do {v \<leftarrow> scaled conv factor buf k; wr16 k v buf}"

definition scale_pair :: "(rat \<Rightarrow> u16 option) \<Rightarrow> rat \<Rightarrow> nat \<Rightarrow> u8 list \<Rightarrow> u8 list option" where
  "scale_pair conv factor k buf =
     do {x \<leftarrow> scaled conv factor buf k;
         y \<leftarrow> scaled conv factor buf (k + 2);
         b \<leftarrow> wr16 k x buf;
         wr16 (k + 2) y b}"

fun scale_points :: "(rat \<Rightarrow> u16 option) \<Rightarrow> rat \<Rightarrow> nat \<Rightarrow> nat \<Rightarrow> nat \<Rightarrow> u8 list \<Rightarrow> u8 list option" where
  \<comment> \<open>the loop over the children or points, from offset \<open>k\<close> in steps of \<open>d\<close> bytes\<close>
  "scale_points conv factor k d 0 buf = Some buf"
| "scale_points conv factor k d (Suc n) buf =
     do {b \<leftarrow> scale_pair conv factor k buf; scale_points conv factor (k + d) d n b}"

definition scale_children :: "(rat \<Rightarrow> u16 option) \<Rightarrow> rat \<Rightarrow> nat \<Rightarrow> nat \<Rightarrow> nat \<Rightarrow> u8 list \<Rightarrow> u8 list option" where
  "scale_children conv factor counter k d buf =
     do {n \<leftarrow> checked_nth buf counter; scale_points conv factor k d (unat n) buf}"

definition process_standard_object_height_and_width :: "rat \<Rightarrow> u8 list \<Rightarrow> u8 list option" where
  "process_standard_object_height_and_width factor buf = scale_pair to_u16 factor 3 buf"

definition resize_object :: "u8 list \<Rightarrow> rat \<Rightarrow> u8 \<Rightarrow> vt_capabilities \<Rightarrow> (bool \<times> u8 list) option" where
  "resize_object buf f type cap =
     (let ok = map_option (\<lambda>b. (True, b))
      in if \<not> get_is_object_scalable type then Some (True, buf)
         else if type = OT_DataMask then ok (scale_children to_i16 f 6 10 6 buf)
         else if type = OT_AlarmMask then ok (scale_children to_i16 f 8 12 6 buf)
         else if type = OT_Container then
           ok (do {b \<leftarrow> process_standard_object_height_and_width f buf; scale_children to_i16 f 8 12 6 b})
         else if type = OT_Button then
           ok (do {b \<leftarrow> process_standard_object_height_and_width f buf; scale_children to_u16 f 11 15 6 b})
         else if type = OT_InputBoolean then
           ok (do {width \<leftarrow> rd16 buf 4; wr16 4 width buf})
         else if type \<in> {OT_InputString, OT_InputNumber, OT_InputList, OT_OutputString, OT_OutputNumber,
                 OT_OutputList, OT_OutputLinearBarGraph}
         then ok (process_standard_object_height_and_width f buf)
         else if type \<in> {OT_OutputLine, OT_OutputRectangle, OT_OutputEllipse}
         then ok (scale_pair to_u16 f 5 buf)
         else if type = OT_OutputPolygon then
           ok (do {b \<leftarrow> process_standard_object_height_and_width f buf; scale_children to_u16 f 12 14 4 b})
         else if type \<in> {OT_OutputMeter, OT_PictureGraphic} then ok (scale_at to_u16 f 3 buf)
         else if type = OT_OutputArchedBarGraph then
           ok (do {b \<leftarrow> process_standard_object_height_and_width f buf; scale_at to_u16 f 12 b})
         else if type = OT_Animation then
           ok (do {b \<leftarrow> process_standard_object_height_and_width f buf; scale_children to_i16 f 15 20 6 b})
         else if type = OT_Key then ok (scale_children to_i16 f 5 9 6 buf)
         else if type = OT_FontAttributes then
           ok (do {v \<leftarrow> checked_nth buf 4;
                   w \<leftarrow> get_font_or_next_smallest_font (remap_font_to_scale v f) cap;
                   Some (buf[4 := w])})
         else if type \<in> {OT_AuxiliaryFunctionType1, OT_AuxiliaryFunctionType2, OT_AuxiliaryInputType2}
         then ok (scale_children to_i16 f 5 8 6 buf)
         else if type = OT_AuxiliaryInputType1 then ok (scale_children to_i16 f 6 9 6 buf)
         else Some (False, buf))"

section \<open>Scaling the pools\<close>

definition scale_factor :: "rat \<Rightarrow> u32 \<Rightarrow> rat option" where
  \<comment> \<open>the quotient of two floats; a division by zero is undefined\<close>
  "scale_factor pixels orig =
     (if orig = 0 then None
      else Some (float_round (float_round pixels / float_round (of_nat (unat orig)))))"

partial_function (option) scale_from ::
    "vt_capabilities \<Rightarrow> ObjectPoolDataStruct \<Rightarrow> nat \<Rightarrow> u8 list \<Rightarrow> (bool \<times> u8 list) option" where
  \<comment> \<open>the walk over the objects from byte \<open>pos\<close>\<close>
  "scale_from cap p pos pool =
     (if pos = length pool then Some (True, pool)
      else do {
        type \<leftarrow> checked_nth (drop pos pool) 2;
        factor \<leftarrow> (if type = OT_Key
                   then scale_factor (of_nat (unat (softKeyXAxisPixels cap))) (autoScaleSoftKeyDesignatorOriginalHeight p)
                   else scale_factor (of_nat (unat (xPixels cap))) (autoScaleDataMaskOriginalDimension p));
        resized \<leftarrow> resize_object (drop pos pool) factor type cap;
        objectSize \<leftarrow> get_number_bytes_in_object (snd resized);
        if fst resized then scale_from cap p (pos + unat objectSize) (take pos pool @ snd resized)
        else Some (False, take pos pool @ snd resized)})"

fun fetch_pool :: "(u32 \<Rightarrow> u32 \<Rightarrow> u32 \<Rightarrow> u8 list option) \<Rightarrow> nat \<Rightarrow> bool \<times> u8 list" where
  \<comment> \<open>the loop that asks the user's callback for one byte at a time; a refused byte stays zero\<close>
  "fetch_pool cb 0 = (True, [])"
| "fetch_pool cb (Suc n) =
     (let (ok, bs) = fetch_pool cb n
      in case cb (of_nat n) (of_nat n) 1 of
           Some (b # _) \<Rightarrow> (ok, bs @ [b])
         | Some [] \<Rightarrow> (ok, bs @ [0])
         | None \<Rightarrow> (False, bs @ [0]))"

definition copy_pool :: "ObjectPoolDataStruct \<Rightarrow> (bool \<times> u8 list) option" where
  \<comment> \<open>the read/write copy; \<open>memcpy\<close> from a buffer shorter than the stated size is undefined\<close>
  "copy_pool p =
     (case objectPoolDataPointer p of
        Some bytes \<Rightarrow>
          if length bytes < unat (objectPoolSize p) then None
          else Some (True, take (unat (objectPoolSize p)) bytes)
      | None \<Rightarrow>
          case objectPoolVectorPointer p of
            Some bytes \<Rightarrow> Some (True, bytes)
          | None \<Rightarrow>
              if useDataCallback p
              then (case dataCallback p of
                      None \<Rightarrow> if objectPoolSize p = 0 then Some (True, []) else None
                    | Some cb \<Rightarrow> Some (fetch_pool cb (unat (objectPoolSize p))))
              else Some (True, scaledObjectPool p))"

definition fetched :: "ObjectPoolDataStruct \<Rightarrow> bool" where
  "fetched p \<longleftrightarrow> objectPoolDataPointer p = None \<and> objectPoolVectorPointer p = None \<and> useDataCallback p"

fun scale_pools ::
    "vt_capabilities \<Rightarrow> bool \<Rightarrow> ObjectPoolDataStruct list \<Rightarrow> (bool \<times> ObjectPoolDataStruct list) option" where
  \<comment> \<open>the loop over the pools with its result so far; a refused byte of a callback ends it\<close>
  "scale_pools cap sofar [] = Some (sofar, [])"
| "scale_pools cap sofar (p # ps) =
     do {(got, bytes) \<leftarrow> copy_pool p;
         if fetched p \<and> \<not> (sofar \<and> got) then Some (False, p\<lparr>scaledObjectPool := bytes\<rparr> # ps)
         else do {
           (ok, bytes') \<leftarrow> (if sofar then scale_from cap p 0 bytes else Some (False, bytes));
           (r, ps') \<leftarrow> scale_pools cap ok ps;
           Some (r, p\<lparr>scaledObjectPool := bytes'\<rparr> # ps')}}"

definition scale_object_pools :: "vt_capabilities \<Rightarrow> ObjectPoolDataStruct list \<Rightarrow> (bool \<times> ObjectPoolDataStruct list) option" where
  "scale_object_pools cap ps = scale_pools cap True ps"

definition get_any_pool_needs_scaling :: "ObjectPoolDataStruct list \<Rightarrow> bool" where
  "get_any_pool_needs_scaling ps \<longleftrightarrow>
     (\<exists>p \<in> set ps. 0 \<noteq> autoScaleDataMaskOriginalDimension p \<and> 0 \<noteq> autoScaleSoftKeyDesignatorOriginalHeight p)"

end
