(* ===== verification/Vt_Client.thy ===== *)
theory Vt_Client
  imports Vt_Scaling
begin

text \<open>
  The virtual terminal client, third part: the connection state machine, the cyclic messages, the
  auxiliary inputs, the upload of the object pools, the messages received and the events they raise.
  The language command interface, the threads and the mutex are not modelled.
\<close>

section \<open>The display's version\<close>

datatype VTVersion = Version2OrOlder | Version3 | Version4 | Version5 | Version6 | ReservedOrUnknown

fun version_rank :: "VTVersion \<Rightarrow> nat" where
  "version_rank Version2OrOlder = 0"
| "version_rank Version3 = 1"
| "version_rank Version4 = 2"
| "version_rank Version5 = 3"
| "version_rank Version6 = 4"
| "version_rank ReservedOrUnknown = 5"

lemma version_rank_inj [simp]: "version_rank v = version_rank w \<longleftrightarrow> v = w"
  by (cases v; cases w) simp_all

text \<open>The versions are compared with \<open>>=\<close>, in the order of the enumeration.\<close>

instantiation VTVersion :: linorder
begin

definition "v \<le> w \<longleftrightarrow> version_rank v \<le> version_rank w"
definition "v < w \<longleftrightarrow> version_rank v < version_rank w"

instance by standard (auto simp: less_eq_VTVersion_def less_VTVersion_def)

end

definition get_connected_vt_version :: "'s vt_client \<Rightarrow> VTVersion" where
  "get_connected_vt_version c =
     (let v = connectedVTVersion (capabilities c)
      in if v = 0x03 then Version3 else if v = 0x04 then Version4 else if v = 0x05 then Version5
         else if v = 0x06 then Version6 else if v = 0xFF then Version2OrOlder else ReservedOrUnknown)"

definition is_vt_version_supported :: "VTVersion \<Rightarrow> 's vt_client \<Rightarrow> bool" where
  "is_vt_version_supported minimumVersion c \<longleftrightarrow>
     get_connected_vt_version c \<noteq> ReservedOrUnknown \<and> get_connected_vt_version c \<ge> minimumVersion"

section \<open>Messages of the connection\<close>

abbreviation (input) request_of :: "u8 \<Rightarrow> u8 list" where
  "request_of f \<equiv> [f, 0xFF, 0xFF, 0xFF, 0xFF, 0xFF, 0xFF, 0xFF]"

definition send_delete_object_pool :: "'s vt_client \<Rightarrow> bool \<times> 's vt_client" where
  "send_delete_object_pool = send_message_to_vt (request_of DeleteObjectPoolCommand) Priority5"

definition send_working_set_maintenance :: "bool \<Rightarrow> 's vt_client \<Rightarrow> bool \<times> 's vt_client" where
  "send_working_set_maintenance initializing = send_message_to_vt
     [WorkingSetMaintenanceMessage, of_bool initializing, 0x06, 0xFF, 0xFF, 0xFF, 0xFF, 0xFF] Priority5"

definition send_get_memory :: "u32 \<Rightarrow> 's vt_client \<Rightarrow> bool \<times> 's vt_client" where
  "send_get_memory requiredMemory = send_message_to_vt
     [GetMemoryMessage, 0xFF, byte_of 0 requiredMemory, byte_of 1 requiredMemory,
      byte_of 2 requiredMemory, byte_of 3 requiredMemory, 0xFF, 0xFF] Priority5"

definition send_get_number_of_softkeys :: "'s vt_client \<Rightarrow> bool \<times> 's vt_client" where
  "send_get_number_of_softkeys = send_message_to_vt (request_of GetNumberOfSoftKeysMessage) Priority5"

definition send_get_text_font_data :: "'s vt_client \<Rightarrow> bool \<times> 's vt_client" where
  "send_get_text_font_data = send_message_to_vt (request_of GetTextFontDataMessage) Priority5"

definition send_get_hardware :: "'s vt_client \<Rightarrow> bool \<times> 's vt_client" where
  "send_get_hardware = send_message_to_vt (request_of GetHardwareMessage) Priority5"

definition send_get_supported_widechars :: "'s vt_client \<Rightarrow> bool \<times> 's vt_client" where
  "send_get_supported_widechars = send_message_to_vt (request_of GetSupportedWidecharsMessage) Priority5"

definition send_get_window_mask_data :: "'s vt_client \<Rightarrow> bool \<times> 's vt_client" where
  "send_get_window_mask_data = send_message_to_vt (request_of GetWindowMaskDataMessage) Priority5"

definition send_get_supported_objects :: "'s vt_client \<Rightarrow> bool \<times> 's vt_client" where
  "send_get_supported_objects = send_message_to_vt (request_of GetSupportedObjectsMessage) Priority5"

definition send_get_versions :: "'s vt_client \<Rightarrow> bool \<times> 's vt_client" where
  "send_get_versions = send_message_to_vt (request_of GetVersionsMessage) Priority5"

text \<open>A version label is an array of seven (extended: 32) bytes.\<close>

definition send_store_version :: "u8 list \<Rightarrow> 's vt_client \<Rightarrow> bool \<times> 's vt_client" where
  "send_store_version label = send_message_to_vt (StoreVersionCommand # label) Priority5"

definition send_load_version :: "u8 list \<Rightarrow> 's vt_client \<Rightarrow> bool \<times> 's vt_client" where
  "send_load_version label = send_message_to_vt (LoadVersionCommand # label) Priority5"

definition send_delete_version :: "u8 list \<Rightarrow> 's vt_client \<Rightarrow> bool \<times> 's vt_client" where
  "send_delete_version label = send_message_to_vt (DeleteVersionCommand # label) Priority5"

definition send_extended_get_versions :: "'s vt_client \<Rightarrow> bool \<times> 's vt_client" where
  "send_extended_get_versions = send_message_to_vt (request_of ExtendedDeleteVersionCommand) Priority5"

definition send_extended_store_version :: "u8 list \<Rightarrow> 's vt_client \<Rightarrow> bool \<times> 's vt_client" where
  "send_extended_store_version label = send_message_to_vt (ExtendedStoreVersionCommand # label) Priority5"

definition send_extended_load_version :: "u8 list \<Rightarrow> 's vt_client \<Rightarrow> bool \<times> 's vt_client" where
  "send_extended_load_version label = send_message_to_vt (ExtendedLoadVersionCommand # label) Priority5"

definition send_extended_delete_version :: "u8 list \<Rightarrow> 's vt_client \<Rightarrow> bool \<times> 's vt_client" where
  "send_extended_delete_version label = send_message_to_vt (ExtendedDeleteVersionCommand # label) Priority5"

definition send_end_of_object_pool :: "'s vt_client \<Rightarrow> bool \<times> 's vt_client" where
  "send_end_of_object_pool = send_message_to_vt (request_of EndOfObjectPoolMessage) Priority5"

definition send_working_set_master :: "'s vt_client \<Rightarrow> bool \<times> 's vt_client" where
  "send_working_set_master = can_send (VtMessage PGN_WorkingSetMaster (request_of 0x01) None Priority5)"

definition send_auxiliary_functions_preferred_assignment :: "'s vt_client \<Rightarrow> bool \<times> 's vt_client" where
  "send_auxiliary_functions_preferred_assignment =
     send_message_to_vt [PreferredAssignmentCommand, 0, 0, 0, 0, 0, 0, 0] Priority5"

definition send_auxiliary_function_assignment_response ::
    "u16 \<Rightarrow> bool \<Rightarrow> bool \<Rightarrow> 's vt_client \<Rightarrow> bool \<times> 's vt_client" where
  "send_auxiliary_function_assignment_response objectID hasError isAlreadyAssigned c =
     (let errorCode = (if hasError then 0x01 else 0) OR
            (if isAlreadyAssigned \<and> \<not> is_vt_version_supported Version6 c then 0x02 else 0)
      in send_message_to_vt [AuxiliaryAssignmentTypeTwoCommand, byte_of 0 objectID, byte_of 1 objectID,
           errorCode, 0xFF, 0xFF, 0xFF, 0xFF] Priority5 c)"

definition send_auxiliary_input_maintenance :: "'s vt_client \<Rightarrow> bool \<times> 's vt_client" where
  "send_auxiliary_input_maintenance c = can_send (VtMessage PGN_ECUtoVirtualTerminal
     [AuxiliaryInputTypeTwoMaintenanceMessage, byte_of 0 (ourModelIdentificationCode c),
      byte_of 1 (ourModelIdentificationCode c), of_bool (vt_state c = Connected),
      0xFF, 0xFF, 0xFF, 0xFF] None Priority3) c"

definition send_auxiliary_input_status_enable_response ::
    "u16 \<Rightarrow> bool \<Rightarrow> bool \<Rightarrow> 's vt_client \<Rightarrow> bool \<times> 's vt_client" where
  "send_auxiliary_input_status_enable_response objectID isEnabled invalidObjectID = send_message_to_vt
     [AuxiliaryInputStatusTypeTwoEnableCommand, byte_of 0 objectID, byte_of 1 objectID,
      of_bool isEnabled, of_bool invalidObjectID, 0xFF, 0xFF, 0xFF] Priority5"

section \<open>Auxiliary inputs\<close>

text \<open>The inputs of this device, a map ordered by object identifier.\<close>

fun aux_put :: "u16 \<Rightarrow> AuxiliaryInputState \<Rightarrow> (u16 \<times> AuxiliaryInputState) list \<Rightarrow> (u16 \<times> AuxiliaryInputState) list" where
  "aux_put k v [] = [(k, v)]"
| "aux_put k v ((k', v') # xs) =
     (if k < k' then (k, v) # (k', v') # xs
      else if k = k' then (k, v) # xs
      else (k', v') # aux_put k v xs)"

definition get_auxiliary_input_learn_mode_enabled :: "'s vt_client \<Rightarrow> bool" where
  "get_auxiliary_input_learn_mode_enabled c \<longleftrightarrow> busyCodesBitfield (vt_status c) AND 0x40 = 0x40"

definition set_auxiliary_input_model_identification_code :: "u16 \<Rightarrow> 's vt_client \<Rightarrow> 's vt_client" where
  "set_auxiliary_input_model_identification_code v c = c\<lparr>ourModelIdentificationCode := v\<rparr>"

definition add_auxiliary_input_object_id :: "u16 \<Rightarrow> 's vt_client \<Rightarrow> 's vt_client" where
  "add_auxiliary_input_object_id k c = c\<lparr>ourAuxiliaryInputs := aux_put k
     \<lparr>lastStatusUpdate = 0, aux_enabled = False, hasInteraction = False, controlLocked = False,
      value1 = 0, value2 = 0\<rparr> (ourAuxiliaryInputs c)\<rparr>"

definition remove_auxiliary_input_object_id :: "u16 \<Rightarrow> 's vt_client \<Rightarrow> 's vt_client" where
  "remove_auxiliary_input_object_id k c =
     c\<lparr>ourAuxiliaryInputs := filter (\<lambda>(k', v). k' \<noteq> k) (ourAuxiliaryInputs c)\<rparr>"

definition operating_state :: "AuxiliaryInputState \<Rightarrow> 's vt_client \<Rightarrow> u8" where
  "operating_state a c =
     (if get_auxiliary_input_learn_mode_enabled c
      then 0x01 OR (if hasInteraction a then 0x02 else 0) else 0) OR
     (if controlLocked a then 0x04 OR (if hasInteraction a then 0x08 else 0) else 0)"

definition update_auxiliary_input_status_of :: "u16 \<Rightarrow> 's vt_client \<Rightarrow> (bool \<times> 's vt_client) option" where
  \<comment> \<open>\<open>at\<close> throws for an unknown identifier; the stored 64-bit time is narrowed for the comparison\<close>
  "update_auxiliary_input_status_of k c =
     do {a \<leftarrow> map_of (ourAuxiliaryInputs c) k;
         let learn = get_auxiliary_input_learn_mode_enabled c in
         let last = ucast (lastStatusUpdate a) in
         if time_expired last 1000 c \<or> (hasInteraction a \<and> \<not> learn \<and> time_expired last 50 c)
         then
           let a' = a\<lparr>lastStatusUpdate := ucast (clock_ms c), hasInteraction := False\<rparr>;
               c' = c\<lparr>ourAuxiliaryInputs := aux_put k a' (ourAuxiliaryInputs c)\<rparr>;
               buffer = [AuxiliaryInputTypeTwoStatusMessage, byte_of 0 k, byte_of 1 k,
                         byte_of 0 (value1 a), byte_of 1 (value1 a), byte_of 0 (value2 a), byte_of 1 (value2 a),
                         operating_state a c]
           in Some (if learn then send_message_to_vt buffer Priority3 c'
                    else can_send (VtMessage PGN_VirtualTerminalToECU buffer None Priority3) c')
         else Some (False, c)}"

fun update_inputs :: "u16 list \<Rightarrow> 's vt_client \<Rightarrow> 's vt_client option" where
  "update_inputs [] c = Some c"
| "update_inputs (k # ks) c = do {r \<leftarrow> update_auxiliary_input_status_of k c; update_inputs ks (snd r)}"

definition update_auxiliary_input_status :: "'s vt_client \<Rightarrow> 's vt_client option" where
  "update_auxiliary_input_status c = update_inputs (map fst (ourAuxiliaryInputs c)) c"

definition update_auxiliary_input :: "u16 \<Rightarrow> u16 \<Rightarrow> u16 \<Rightarrow> bool \<Rightarrow> 's vt_client \<Rightarrow> 's vt_client option" where
  "update_auxiliary_input k v1 v2 locked c =
     (case map_of (ourAuxiliaryInputs c) k of
        None \<Rightarrow> Some c
      | Some a \<Rightarrow>
          if vt_state c = Connected \<and> (v1 \<noteq> value1 a \<or> v2 \<noteq> value2 a)
          then map_option snd (update_auxiliary_input_status_of k
                 (c\<lparr>ourAuxiliaryInputs := aux_put k
                     (a\<lparr>value1 := v1, value2 := v2, controlLocked := locked, hasInteraction := True\<rparr>)
                     (ourAuxiliaryInputs c)\<rparr>))
          else Some c)"

section \<open>The state machine\<close>

definition set_state :: "StateMachineState \<Rightarrow> 's vt_client \<Rightarrow> 's vt_client" where
  "set_state v c =
     (let c1 = c\<lparr>stateMachineTimestamp_ms := clock_ms c,
                 firstTimeInState := (v \<noteq> vt_state c \<or> firstTimeInState c),
                 vt_state := v\<rparr>
      in if v = Disconnected
         then c1\<lparr>vt_status := (vt_status c1)\<lparr>lastVTStatusTimestamp_ms := 0\<rparr>,
                 objectPools := map (\<lambda>p. p\<lparr>uploaded := False\<rparr>) (objectPools c1)\<rparr>
         else c1)"

definition status_expired :: "'s vt_client \<Rightarrow> bool" where
  "status_expired c \<longleftrightarrow> time_expired (lastVTStatusTimestamp_ms (vt_status c)) VT_STATUS_TIMEOUT_MS c"

definition send_then :: "('s vt_client \<Rightarrow> bool \<times> 's vt_client) \<Rightarrow> StateMachineState \<Rightarrow> 's vt_client \<Rightarrow> 's vt_client" where
  \<comment> \<open>\<open>if (send ()) set_state (s)\<close>\<close>
  "send_then snd_op s c = (let (ok, c1) = snd_op c in if ok then set_state s c1 else c1)"

definition fail_on_timeout :: "'s vt_client \<Rightarrow> 's vt_client" where
  \<comment> \<open>the body of the states that wait for a response\<close>
  "fail_on_timeout c =
     (if time_expired (stateMachineTimestamp_ms c) VT_STATUS_TIMEOUT_MS c then set_state Failed c else c)"

definition ready_for_object_pool :: "'s vt_client \<Rightarrow> 's vt_client" where
  "ready_for_object_pool c =
     (let c1 = (if status_expired c then set_state Disconnected c else c)
      in if objectPools c1 \<noteq> []
         then let c2 = snd (send_working_set_maintenance True (set_state SendGetMemory c1))
              in c2\<lparr>lastWorkingSetMaintenanceTimestamp_ms := clock_ms c2,
                    sendWorkingSetMaintenance := True, sendAuxiliaryMaintenance := True\<rparr>
         else c1)"

definition total_pool_size :: "'s vt_client \<Rightarrow> u32" where
  "total_pool_size c = sum_list (map objectPoolSize (objectPools c))"

definition padded_label :: "u8 list \<Rightarrow> u8 list" where
  \<comment> \<open>seven bytes, spaces where the label is shorter\<close>
  "padded_label label = take 7 label @ replicate (7 - length label) 0x20"

definition send_versions :: "'s vt_client \<Rightarrow> 's vt_client" where
  "send_versions c =
     (if time_expired (stateMachineTimestamp_ms c) VT_STATUS_TIMEOUT_MS c then set_state Failed c
      else case objectPools c of
             [] \<Rightarrow> c
           | p # _ \<Rightarrow> if versionLabel p \<noteq> [] then send_then send_get_versions WaitForGetVersionsResponse c else c)"

definition send_label ::
    "(u8 list \<Rightarrow> 's vt_client \<Rightarrow> bool \<times> 's vt_client) \<Rightarrow> StateMachineState \<Rightarrow> 's vt_client \<Rightarrow> 's vt_client option" where
  \<comment> \<open>the states that send the label of the first pool, which has to exist\<close>
  "send_label snd_op s c =
     (if time_expired (stateMachineTimestamp_ms c) VT_STATUS_TIMEOUT_MS c then Some (set_state Failed c)
      else case objectPools c of
             [] \<Rightarrow> None
           | p # _ \<Rightarrow> Some (send_then (snd_op (padded_label (versionLabel p))) s c))"

definition mark_uploaded :: "nat \<Rightarrow> 's vt_client \<Rightarrow> 's vt_client" where
  "mark_uploaded i c = c\<lparr>objectPools := (objectPools c)[i := (objectPools c ! i)\<lparr>uploaded := True\<rparr>]\<rparr>"

fun upload_pools :: "nat \<Rightarrow> nat \<Rightarrow> bool \<Rightarrow> 's vt_client \<Rightarrow> bool \<times> 's vt_client" where
  \<comment> \<open>the loop over the remaining \<open>n\<close> pools from index \<open>i\<close>, with \<open>allPoolsProcessed\<close> so far\<close>
  "upload_pools i 0 done c = (done, c)"
| "upload_pools i (Suc n) done c =
     (let p = objectPools c ! i
      in if (objectPoolDataPointer p \<noteq> None \<or> dataCallback p \<noteq> None) \<and> objectPoolSize p > 0
         then
           let done1 = (done \<and> uploaded p)
           in (case currentObjectPoolState c of
                 Uninitialized \<Rightarrow>
                   if \<not> uploaded p
                   then let (ok, c1) = can_send (PoolTransfer (objectPoolSize p + 1)) c
                        in upload_pools (Suc i) n done1
                             (if ok then c1\<lparr>currentObjectPoolState := InProgress\<rparr> else c1)
                   else upload_pools (Suc i) n done1 c
               | UploadSuccess \<Rightarrow>
                   upload_pools (Suc i) n done1
                     (if \<not> uploaded p then (mark_uploaded i c)\<lparr>currentObjectPoolState := Uninitialized\<rparr> else c)
               | UploadFailed \<Rightarrow>
                   upload_pools (Suc i) n done1 (set_state Disconnected (c\<lparr>currentObjectPoolState := Uninitialized\<rparr>))
               | InProgress \<Rightarrow> (False, c))
         else upload_pools (Suc i) n done (mark_uploaded i c))"

definition upload_object_pool :: "'s vt_client \<Rightarrow> 's vt_client option" where
  "upload_object_pool c =
     do {c1 \<leftarrow> (if firstTimeInState c \<and> get_any_pool_needs_scaling (objectPools c)
                then do {(ok, ps) \<leftarrow> scale_object_pools (capabilities c) (objectPools c);
                         let c' = c\<lparr>objectPools := ps\<rparr> in
                         Some (if \<not> ok then set_state Failed c' else c')}
                else Some c);
         let (allPoolsProcessed, c2) = upload_pools 0 (length (objectPools c1)) True c1 in
         Some (if allPoolsProcessed then set_state SendEndOfObjectPool c2 else c2)}"

definition connected_update :: "'s vt_client \<Rightarrow> 's vt_client option" where
  "connected_update c =
     update_auxiliary_input_status (if status_expired c then set_state Disconnected c else c)"

definition disconnected_update :: "'s vt_client \<Rightarrow> 's vt_client" where
  "disconnected_update c =
     (let c1 = c\<lparr>sendWorkingSetMaintenance := False, sendAuxiliaryMaintenance := False,
                 unsupportedFunctions := []\<rparr>
      in if partner_address_valid c1 then set_state WaitForPartnerVTStatusMessage c1 else c1)"

definition failed_update :: "'s vt_client \<Rightarrow> 's vt_client" where
  "failed_update c =
     (let c1 = c\<lparr>sendWorkingSetMaintenance := False, sendAuxiliaryMaintenance := False\<rparr>
      in if time_expired (stateMachineTimestamp_ms c1) 5000 c1 then set_state Disconnected c1 else c1)"

definition state_update :: "'s vt_client \<Rightarrow> 's vt_client option" where
  \<comment> \<open>the switch over the state\<close>
  "state_update c =
     (case vt_state c of
        Disconnected \<Rightarrow> Some (disconnected_update c)
      | WaitForPartnerVTStatusMessage \<Rightarrow>
          Some (if lastVTStatusTimestamp_ms (vt_status c) \<noteq> 0 then set_state SendWorkingSetMasterMessage c else c)
      | SendWorkingSetMasterMessage \<Rightarrow> Some (send_then send_working_set_master ReadyForObjectPool c)
      | ReadyForObjectPool \<Rightarrow> Some (ready_for_object_pool c)
      | SendGetMemory \<Rightarrow> Some (send_then (send_get_memory (total_pool_size c)) WaitForGetMemoryResponse c)
      | WaitForGetMemoryResponse \<Rightarrow> Some (fail_on_timeout c)
      | SendGetNumberSoftkeys \<Rightarrow> Some (send_then send_get_number_of_softkeys WaitForGetNumberSoftKeysResponse c)
      | WaitForGetNumberSoftKeysResponse \<Rightarrow> Some (fail_on_timeout c)
      | SendGetTextFontData \<Rightarrow> Some (send_then send_get_text_font_data WaitForGetTextFontDataResponse c)
      | WaitForGetTextFontDataResponse \<Rightarrow> Some (fail_on_timeout c)
      | SendGetHardware \<Rightarrow> Some (send_then send_get_hardware WaitForGetHardwareResponse c)
      | WaitForGetHardwareResponse \<Rightarrow> Some (fail_on_timeout c)
      | SendGetVersions \<Rightarrow> Some (send_versions c)
      | WaitForGetVersionsResponse \<Rightarrow> Some (fail_on_timeout c)
      | SendLoadVersion \<Rightarrow> send_label send_load_version WaitForLoadVersionResponse c
      | WaitForLoadVersionResponse \<Rightarrow> Some (fail_on_timeout c)
      | SendStoreVersion \<Rightarrow> send_label send_store_version WaitForStoreVersionResponse c
      | WaitForStoreVersionResponse \<Rightarrow> Some (fail_on_timeout c)
      | UploadObjectPool \<Rightarrow> upload_object_pool c
      | SendEndOfObjectPool \<Rightarrow> Some (send_then send_end_of_object_pool WaitForEndOfObjectPoolResponse c)
      | WaitForEndOfObjectPoolResponse \<Rightarrow> Some (fail_on_timeout c)
      | Connected \<Rightarrow> connected_update c
      | Failed \<Rightarrow> Some (failed_update c))"

section \<open>Cyclic messages\<close>

definition set_flag :: "u32 \<Rightarrow> u32 \<Rightarrow> u8 list \<Rightarrow> u8 list" where
  \<comment> \<open>\<open>ProcessingFlags::set_flag\<close>\<close>
  "set_flag maxFlag flag bits =
     (if flag \<le> maxFlag
      then let i = unat flag div 8 in bits[i := (bits ! i) OR push_bit (unat flag mod 8) 1]
      else bits)"

abbreviation (input) SendWorkingSetMaintenanceFlag :: u32 where "SendWorkingSetMaintenanceFlag \<equiv> 0"
abbreviation (input) SendAuxiliaryMaintenanceFlag :: u32 where "SendAuxiliaryMaintenanceFlag \<equiv> 1"
abbreviation (input) NumberFlags :: u32 where "NumberFlags \<equiv> 2"

definition process_flags :: "u32 \<Rightarrow> 's vt_client \<Rightarrow> 's vt_client" where
  "process_flags flag c =
     (if flag \<le> NumberFlags
      then
        let (transmitSuccessful, c1) =
              (if flag = SendWorkingSetMaintenanceFlag
               then (if objectPools c \<noteq> []
                     then let (ok, c') = send_working_set_maintenance False c
                          in (ok, if ok then c'\<lparr>lastWorkingSetMaintenanceTimestamp_ms := clock_ms c'\<rparr> else c')
                     else (False, c))
               else if flag = SendAuxiliaryMaintenanceFlag
               then let (ok, c') = send_auxiliary_input_maintenance c
                    in (ok, if ok then c'\<lparr>lastAuxiliaryMaintenanceTimestamp_ms := clock_ms c'\<rparr> else c')
               else (False, c))
        in if \<not> transmitSuccessful then c1\<lparr>txFlags := set_flag NumberFlags flag (txFlags c1)\<rparr> else c1
      else c)"

definition process_flag :: "nat \<Rightarrow> nat \<Rightarrow> 's vt_client \<Rightarrow> 's vt_client" where
  "process_flag i j c =
     (if bit (txFlags c ! i) j
      then process_flags (of_nat (8 * i + j)) (c\<lparr>txFlags := (txFlags c)[i := unset_bit j (txFlags c ! i)]\<rparr>)
      else c)"

definition process_all_flags :: "'s vt_client \<Rightarrow> 's vt_client" where
  "process_all_flags c =
     fold (\<lambda>i c. if txFlags c ! i \<noteq> 0 then fold (process_flag i) [0..<8] c else c) [0..<unat NumberFlags div 8 + 1] c"

definition cyclic_messages :: "'s vt_client \<Rightarrow> 's vt_client" where
  \<comment> \<open>the end of \<open>update\<close>, up to the flags\<close>
  "cyclic_messages c =
     (let c1 = (if sendWorkingSetMaintenance c
                   \<and> time_expired (lastWorkingSetMaintenanceTimestamp_ms c) WORKING_SET_MAINTENANCE_TIMEOUT_MS c
                then c\<lparr>txFlags := set_flag NumberFlags SendWorkingSetMaintenanceFlag (txFlags c)\<rparr> else c);
          c2 = (if sendAuxiliaryMaintenance c1 \<and> ourAuxiliaryInputs c1 \<noteq> []
                   \<and> time_expired (lastAuxiliaryMaintenanceTimestamp_ms c1) AUXILIARY_MAINTENANCE_TIMEOUT_MS c1
                then c1\<lparr>txFlags := set_flag NumberFlags SendAuxiliaryMaintenanceFlag (txFlags c1)\<rparr> else c1)
      in process_all_flags c2)"

definition vt_update :: "'s vt_client \<Rightarrow> 's vt_client option" where
  "vt_update c =
     do {c1 \<leftarrow> (if partnerControlFunction c \<noteq> None then state_update c else Some (set_state Disconnected c));
         let c2 = process_command_queue (cyclic_messages c1) in
         Some (if vt_state c2 = vt_state c then c2\<lparr>firstTimeInState := False\<rparr> else c2)}"

section \<open>Events for the application\<close>

datatype vt_event =
    SoftKeyEvent u16 u16 u8 u8
  | ButtonEvent u16 u16 u8 u8
  | PointingEvent u16 u16 u16 u8
  | SelectInputObjectEvent u16 bool bool
  | ESCEvent u16 u8
  | NumericValueEvent u32 u16
  | ActiveMaskEvent u16 u16 u16 bool bool bool bool
  | SoftKeyMaskEvent u16 u16 bool bool bool bool
  | StringValueEvent "u8 list" u16
  | UserLayoutEvent u16 bool
  | AudioTerminationEvent bool
  | AuxFunctionEvent AssignedAuxiliaryFunction u16 u16

text \<open>The listeners run while a message is processed and may call the client: they are a function on its
  state, an argument of the definitions below.\<close>

type_synonym 's listener = "vt_event \<Rightarrow> 's vt_client \<Rightarrow> 's vt_client option"

section \<open>Operator events\<close>

definition respond :: "u8 list \<Rightarrow> 's vt_client \<Rightarrow> 's vt_client" where
  \<comment> \<open>the result of the transmission is not looked at\<close>
  "respond bytes c = snd (send_message_to_vt bytes Priority5 c)"

definition transaction_byte :: "u8 \<Rightarrow> u8" where
  "transaction_byte n = push_bit 4 n OR 0x0F"

definition transaction_number :: "u32 \<Rightarrow> CANMessage \<Rightarrow> 's vt_client \<Rightarrow> u8 option" where
  \<comment> \<open>the high half of a byte, for displays of version 6; \<open>0xF\<close> for the others\<close>
  "transaction_number k m c =
     (if is_vt_version_supported Version6 c then map_option (drop_bit 4) (get_uint8_at k m) else Some 0xF)"

definition rx_key :: "u8 \<Rightarrow> (u16 \<Rightarrow> u16 \<Rightarrow> u8 \<Rightarrow> u8 \<Rightarrow> vt_event) \<Rightarrow> 's listener \<Rightarrow> CANMessage \<Rightarrow> 's vt_client \<Rightarrow> 's vt_client option" where
  \<comment> \<open>a soft key or a button\<close>
  "rx_key f event listen m c =
     do {keyCode \<leftarrow> get_uint8_at 1 m;
         if keyCode \<le> 3
         then do {
           objectID \<leftarrow> get_uint16_at 2 LittleEndian m;
           parentObjectID \<leftarrow> get_uint16_at 4 LittleEndian m;
           keyNumber \<leftarrow> get_uint8_at 6 m;
           transactionNumber \<leftarrow> transaction_number 7 m c;
           c1 \<leftarrow> listen (event objectID parentObjectID keyNumber keyCode) c;
           Some (respond [f, keyCode, byte_of 0 objectID, byte_of 1 objectID, byte_of 0 parentObjectID,
             byte_of 1 parentObjectID, keyNumber,
             if is_vt_version_supported Version6 c1 then transaction_byte transactionNumber else 0xFF] c1)}
         else Some c}"

definition rx_pointing :: "'s listener \<Rightarrow> CANMessage \<Rightarrow> 's vt_client \<Rightarrow> 's vt_client option" where
  "rx_pointing listen m c =
     do {xPosition \<leftarrow> get_uint16_at 1 LittleEndian m;
         yPosition \<leftarrow> get_uint16_at 3 LittleEndian m;
         b5 \<leftarrow> get_uint8_at 5 m;
         mask6 \<leftarrow> get_uint16_at 6 LittleEndian m;
         let v6 = is_vt_version_supported Version6 c in
         let touchState = (if v6 then b5 AND 0x0F else if is_vt_version_supported Version4 c then b5 else 1) in
         let transactionNumber = (if v6 then drop_bit 4 b5 else 0xF) in
         let parentMaskObjectID = (if v6 then mask6 else NULL_OBJECT_ID) in
         do {
           c1 \<leftarrow> (if touchState \<le> 3
                  then listen (PointingEvent xPosition yPosition parentMaskObjectID touchState) c
                  else Some c);
           let v6' = is_vt_version_supported Version6 c1 in
           Some (respond [PointingEventMessage, byte_of 0 xPosition, byte_of 1 xPosition,
             byte_of 0 yPosition, byte_of 1 yPosition,
             if v6' then push_bit 4 transactionNumber OR touchState
             else if is_vt_version_supported Version4 c1 then touchState else 0xFF,
             if v6' then byte_of 0 parentMaskObjectID else 0xFF,
             if v6' then byte_of 1 parentMaskObjectID else 0xFF] c1)}}"

definition rx_select_input :: "'s listener \<Rightarrow> CANMessage \<Rightarrow> 's vt_client \<Rightarrow> 's vt_client option" where
  "rx_select_input listen m c =
     do {objectID \<leftarrow> get_uint16_at 1 LittleEndian m;
         sel \<leftarrow> get_uint8_at 3 m;
         let objectSelected = (sel = 0x01) in
         do {
           objectOpenForInput \<leftarrow> (if is_vt_version_supported Version4 c then get_bool_at 4 0 1 m else Some True);
           transactionNumber \<leftarrow> transaction_number 7 m c;
           c1 \<leftarrow> listen (SelectInputObjectEvent objectID objectSelected objectOpenForInput) c;
           Some (respond [VTSelectInputObjectMessage, byte_of 0 objectID, byte_of 1 objectID,
             of_bool objectSelected,
             if is_vt_version_supported Version4 c1 then of_bool objectOpenForInput else 0xFF,
             0xFF, 0xFF,
             if is_vt_version_supported Version6 c1 then transaction_byte transactionNumber else 0xFF] c1)}}"

definition rx_esc :: "'s listener \<Rightarrow> CANMessage \<Rightarrow> 's vt_client \<Rightarrow> 's vt_client option" where
  "rx_esc listen m c =
     do {objectID \<leftarrow> get_uint16_at 1 LittleEndian m;
         b \<leftarrow> get_uint8_at 3 m;
         let errorCode = b AND 0x1F in
         if errorCode = 5 \<or> errorCode \<le> 1
         then do {
           transactionNumber \<leftarrow> transaction_number 7 m c;
           c1 \<leftarrow> listen (ESCEvent objectID errorCode) c;
           Some (respond [VTESCMessage, byte_of 0 objectID, byte_of 1 objectID, 0xFF, 0xFF, 0xFF, 0xFF,
             transaction_byte transactionNumber] c1)}
         else Some c}"

definition rx_change_numeric_value :: "'s listener \<Rightarrow> CANMessage \<Rightarrow> 's vt_client \<Rightarrow> 's vt_client option" where
  "rx_change_numeric_value listen m c =
     do {objectID \<leftarrow> get_uint16_at 1 LittleEndian m;
         v \<leftarrow> get_uint32_at 4 LittleEndian m;
         transactionNumber \<leftarrow> transaction_number 3 m c;
         c1 \<leftarrow> listen (NumericValueEvent v objectID) c;
         Some (respond [VTChangeNumericValueMessage, byte_of 0 objectID, byte_of 1 objectID,
           if is_vt_version_supported Version6 c1 then transaction_byte transactionNumber else 0xFF,
           byte_of 0 v, byte_of 1 v, byte_of 2 v, byte_of 3 v] c1)}"

definition rx_change_active_mask :: "'s listener \<Rightarrow> CANMessage \<Rightarrow> 's vt_client \<Rightarrow> 's vt_client option" where
  "rx_change_active_mask listen m c =
     do {maskObjectID \<leftarrow> get_uint16_at 1 LittleEndian m;
         missingObjects \<leftarrow> get_bool_at 3 2 1 m;
         maskOrChildHasErrors \<leftarrow> get_bool_at 3 3 1 m;
         anyOtherError \<leftarrow> get_bool_at 3 4 1 m;
         poolDeleted \<leftarrow> get_bool_at 3 5 1 m;
         errorObjectID \<leftarrow> get_uint16_at 4 LittleEndian m;
         parentObjectID \<leftarrow> get_uint16_at 6 LittleEndian m;
         c1 \<leftarrow> listen (ActiveMaskEvent maskObjectID errorObjectID parentObjectID
           missingObjects maskOrChildHasErrors anyOtherError poolDeleted) c;
         Some (respond [VTChangeActiveMaskMessage, byte_of 0 maskObjectID, byte_of 1 maskObjectID,
           0xFF, 0xFF, 0xFF, 0xFF, 0xFF] c1)}"

definition rx_change_soft_key_mask :: "'s listener \<Rightarrow> CANMessage \<Rightarrow> 's vt_client \<Rightarrow> 's vt_client option" where
  "rx_change_soft_key_mask listen m c =
     do {dataOrAlarmMaskID \<leftarrow> get_uint16_at 1 LittleEndian m;
         softKeyMaskID \<leftarrow> get_uint16_at 3 LittleEndian m;
         missingObjects \<leftarrow> get_bool_at 5 2 1 m;
         maskOrChildHasErrors \<leftarrow> get_bool_at 5 3 1 m;
         anyOtherError \<leftarrow> get_bool_at 5 4 1 m;
         poolDeleted \<leftarrow> get_bool_at 5 5 1 m;
         c1 \<leftarrow> listen (SoftKeyMaskEvent dataOrAlarmMaskID softKeyMaskID
           missingObjects maskOrChildHasErrors anyOtherError poolDeleted) c;
         Some (respond [VTChangeSoftKeyMaskMessage, byte_of 0 dataOrAlarmMaskID, byte_of 1 dataOrAlarmMaskID,
           byte_of 0 softKeyMaskID, byte_of 1 softKeyMaskID, 0xFF, 0xFF, 0xFF] c1)}"

definition rx_change_string_value :: "'s listener \<Rightarrow> CANMessage \<Rightarrow> 's vt_client \<Rightarrow> 's vt_client option" where
  \<comment> \<open>the string is built from iterators; past the end of the data that is undefined behaviour\<close>
  "rx_change_string_value listen m c =
     do {objectID \<leftarrow> get_uint16_at 1 LittleEndian m;
         stringLength \<leftarrow> get_uint8_at 3 m;
         if 4 + unat stringLength > length (msg_data m) then None
         else do {
           c1 \<leftarrow> listen (StringValueEvent (take (unat stringLength) (drop 4 (msg_data m))) objectID) c;
           Some (respond [VTChangeStringValueMessage, 0xFF, 0xFF, byte_of 0 objectID, byte_of 1 objectID,
             0xFF, 0xFF, 0xFF] c1)}}"

definition rx_user_layout :: "'s listener \<Rightarrow> CANMessage \<Rightarrow> 's vt_client \<Rightarrow> 's vt_client option" where
  "rx_user_layout listen m c =
     do {objectID \<leftarrow> get_uint16_at 1 LittleEndian m;
         shown \<leftarrow> get_bool_at 3 0 1 m;
         c1 \<leftarrow> listen (UserLayoutEvent objectID (\<not> shown)) c;
         objectID2 \<leftarrow> get_uint16_at 4 LittleEndian m;
         c2 \<leftarrow> (if objectID2 \<noteq> NULL_OBJECT_ID
                then do {shown2 \<leftarrow> get_bool_at 6 0 1 m; listen (UserLayoutEvent objectID2 (\<not> shown2)) c1}
                else Some c1);
         let buffer = take 8 (msg_data m) in
         Some (respond (buffer[7 := if is_vt_version_supported Version6 c2 then buffer ! 7 OR 0x0F else 0xFF]) c2)}"

definition rx_audio_termination :: "'s listener \<Rightarrow> CANMessage \<Rightarrow> 's vt_client \<Rightarrow> 's vt_client option" where
  "rx_audio_termination listen m c =
     do {terminated \<leftarrow> get_bool_at 1 0 1 m;
         c1 \<leftarrow> listen (AudioTerminationEvent terminated) c;
         if is_vt_version_supported Version6 c1
         then do {transactionNumber \<leftarrow> map_option (drop_bit 4) (get_uint8_at 2 m);
                  Some (respond [VTControlAudioSignalTerminationMessage, of_bool terminated,
                    transaction_byte transactionNumber, 0xFF, 0xFF, 0xFF, 0xFF, 0xFF] c1)}
         else Some c1}"

section \<open>Auxiliary functions\<close>

definition unassign :: "u16 \<Rightarrow> u16 \<Rightarrow> AssignedAuxiliaryInputDevice list \<Rightarrow> AssignedAuxiliaryInputDevice list" where
  \<comment> \<open>the command with the default NAME: all functions, or one from every input\<close>
  "unassign inputID functionID devs =
     (if functionID = NULL_OBJECT_ID then map (\<lambda>d. d\<lparr>aux_functions := []\<rparr>) devs
      else if inputID = NULL_OBJECT_ID
      then map (\<lambda>d. d\<lparr>aux_functions := filter (\<lambda>f. functionObjectID f \<noteq> functionID) (aux_functions d)\<rparr>) devs
      else devs)"

fun assign :: "u64 \<Rightarrow> AssignedAuxiliaryFunction \<Rightarrow> AssignedAuxiliaryInputDevice list \<Rightarrow>
    (bool \<times> bool \<times> AssignedAuxiliaryInputDevice list)" where
  \<comment> \<open>\<open>(hasError, isAlreadyAssigned, devices)\<close>, at the first device of that NAME\<close>
  "assign name f [] = (True, False, [])"
| "assign name f (d # ds) =
     (if aux_name d = name
      then if functionType f \<le> 11
           then if f \<in> set (aux_functions d) then (True, True, d # ds)
                else (False, False, d\<lparr>aux_functions := aux_functions d @ [f]\<rparr> # ds)
           else (True, False, d # ds)
      else let (e, a, ds') = assign name f ds in (e, a, d # ds'))"

definition rx_auxiliary_assignment :: "CANMessage \<Rightarrow> 's vt_client \<Rightarrow> 's vt_client option" where
  "rx_auxiliary_assignment m c =
     (if get_data_length m = 14
      then do {
        isoName \<leftarrow> get_uint64_at 1 LittleEndian m;
        b9 \<leftarrow> get_uint8_at 9 m;
        inputID \<leftarrow> get_uint16_at 10 LittleEndian m;
        functionID \<leftarrow> get_uint16_at 12 LittleEndian m;
        let type = b9 AND 0x1F in
        let (hasError, already, devs) =
              (if isoName = 0xFFFFFFFFFFFFFFFF \<and> type = 0x1F
               then (False, False, unassign inputID functionID (assignedAuxiliaryInputDevices c))
               else assign isoName \<lparr>functionObjectID = functionID, inputObjectID = inputID, functionType = type\<rparr>
                      (assignedAuxiliaryInputDevices c)) in
        Some (snd (send_auxiliary_function_assignment_response functionID hasError already
               (c\<lparr>assignedAuxiliaryInputDevices := devs\<rparr>)))}
      else Some c)"

fun notify_inputs :: "'s listener \<Rightarrow> u16 \<Rightarrow> u16 \<Rightarrow> u16 \<Rightarrow> nat \<Rightarrow> nat \<Rightarrow> 's vt_client \<Rightarrow> 's vt_client option" where
  \<comment> \<open>for each device, the first function assigned to the input, if any\<close>
  "notify_inputs listen inputID v1 v2 i 0 c = Some c"
| "notify_inputs listen inputID v1 v2 i (Suc n) c =
     do {c1 \<leftarrow> (if i < length (assignedAuxiliaryInputDevices c)
                then case find (\<lambda>f. inputObjectID f = inputID) (aux_functions (assignedAuxiliaryInputDevices c ! i)) of
                       None \<Rightarrow> Some c
                     | Some f \<Rightarrow> listen (AuxFunctionEvent f v1 v2) c
                else Some c);
         notify_inputs listen inputID v1 v2 (Suc i) n c1}"

definition rx_auxiliary_input_status :: "'s listener \<Rightarrow> CANMessage \<Rightarrow> 's vt_client \<Rightarrow> 's vt_client option" where
  "rx_auxiliary_input_status listen m c =
     do {inputID \<leftarrow> get_uint16_at 1 LittleEndian m;
         v1 \<leftarrow> get_uint16_at 3 LittleEndian m;
         v2 \<leftarrow> get_uint16_at 5 LittleEndian m;
         notify_inputs listen inputID v1 v2 0 (length (assignedAuxiliaryInputDevices c)) c}"

definition rx_auxiliary_input_enable :: "CANMessage \<Rightarrow> 's vt_client \<Rightarrow> 's vt_client option" where
  "rx_auxiliary_input_enable m c =
     do {inputID \<leftarrow> get_uint16_at 1 LittleEndian m;
         shouldEnable \<leftarrow> get_bool_at 3 0 1 m;
         Some (case map_of (ourAuxiliaryInputs c) inputID of
           None \<Rightarrow> snd (send_auxiliary_input_status_enable_response inputID False True c)
         | Some a \<Rightarrow> snd (send_auxiliary_input_status_enable_response inputID shouldEnable False
             (c\<lparr>ourAuxiliaryInputs := aux_put inputID (a\<lparr>aux_enabled := shouldEnable\<rparr>) (ourAuxiliaryInputs c)\<rparr>)))}"

section \<open>Answers of the display\<close>

definition rx_status :: "CANMessage \<Rightarrow> 's vt_client \<Rightarrow> 's vt_client option" where
  "rx_status m c =
     do {master \<leftarrow> get_uint8_at 1 m;
         dataMask \<leftarrow> get_uint16_at 2 LittleEndian m;
         softKeyMask \<leftarrow> get_uint16_at 4 LittleEndian m;
         busy \<leftarrow> get_uint8_at 6 m;
         fn \<leftarrow> get_uint8_at 7 m;
         Some (c\<lparr>vt_status := \<lparr>lastVTStatusTimestamp_ms = clock_ms c,
           activeWorkingSetDataMaskObjectID = dataMask, activeWorkingSetSoftKeyMaskObjectID = softKeyMask,
           activeWorkingSetMasterAddress = master, busyCodesBitfield = busy,
           currentCommandFunctionCode = fn\<rparr>\<rparr>)}"

definition rx_get_memory :: "CANMessage \<Rightarrow> 's vt_client \<Rightarrow> 's vt_client option" where
  "rx_get_memory m c =
     (if vt_state c = WaitForGetMemoryResponse
      then do {v \<leftarrow> get_uint8_at 1 m;
               b \<leftarrow> get_uint8_at 2 m;
               let c1 = c\<lparr>capabilities := (capabilities c)\<lparr>connectedVTVersion := v\<rparr>\<rparr> in
               Some (set_state (if b = 0 then SendGetNumberSoftkeys else Failed) c1)}
      else Some c)"

definition rx_get_number_of_softkeys :: "CANMessage \<Rightarrow> 's vt_client \<Rightarrow> 's vt_client option" where
  "rx_get_number_of_softkeys m c =
     (if vt_state c = WaitForGetNumberSoftKeysResponse
      then do {x \<leftarrow> get_uint8_at 4 m;
               y \<leftarrow> get_uint8_at 5 m;
               nv \<leftarrow> get_uint8_at 6 m;
               np \<leftarrow> get_uint8_at 7 m;
               Some (set_state SendGetTextFontData (c\<lparr>capabilities := (capabilities c)\<lparr>softKeyXAxisPixels := x,
                 softKeyYAxisPixels := y, numberVirtualSoftkeysPerSoftkeyMask := nv,
                 numberPhysicalSoftkeys := np\<rparr>\<rparr>))}
      else Some c)"

definition rx_get_text_font_data :: "CANMessage \<Rightarrow> 's vt_client \<Rightarrow> 's vt_client option" where
  "rx_get_text_font_data m c =
     (if vt_state c = WaitForGetTextFontDataResponse
      then do {small \<leftarrow> get_uint8_at 5 m;
               large \<leftarrow> get_uint8_at 6 m;
               styles \<leftarrow> get_uint8_at 7 m;
               Some (set_state SendGetHardware (c\<lparr>capabilities := (capabilities c)\<lparr>smallFontSizesBitfield := small,
                 largeFontSizesBitfield := large, fontStylesBitfield := styles\<rparr>\<rparr>))}
      else Some c)"

definition rx_get_hardware :: "CANMessage \<Rightarrow> 's vt_client \<Rightarrow> 's vt_client option" where
  "rx_get_hardware m c =
     (if vt_state c = WaitForGetHardwareResponse
      then do {mode \<leftarrow> get_uint8_at 2 m;
               features \<leftarrow> get_uint8_at 3 m;
               x \<leftarrow> get_uint16_at 4 LittleEndian m;
               y \<leftarrow> get_uint16_at 6 LittleEndian m;
               let cap = (if mode \<le> 2 then (capabilities c)\<lparr>supportedGraphicsMode := mode\<rparr> else capabilities c) in
               let c1 = c\<lparr>capabilities := cap\<lparr>hardwareFeaturesBitfield := features, xPixels := x, yPixels := y\<rparr>\<rparr> in
               Some (set_state
                 (case objectPools c1 of
                    p # _ \<Rightarrow> if versionLabel p \<noteq> [] then SendGetVersions else UploadObjectPool
                  | [] \<Rightarrow> UploadObjectPool) c1)}
      else Some c)"

fun check_labels :: "u8 list \<Rightarrow> u8 list list \<Rightarrow> 's vt_client \<Rightarrow> (bool \<times> 's vt_client) option" where
  \<comment> \<open>the loop over the labels the display stores: a match is loaded, the others are deleted; the
      label ends at its first zero byte, and reading past that end is undefined behaviour\<close>
  "check_labels actual [] c = Some (False, c)"
| "check_labels actual (l # ls) c =
     (let decoded = takeWhile (\<lambda>b. b \<noteq> 0) l
      in if padded_label actual = decoded then Some (True, set_state SendLoadVersion c)
         else if length decoded < 6 then None
         else check_labels actual ls (snd (send_delete_version (take 7 (decoded @ [0])) c)))"

definition rx_get_versions :: "CANMessage \<Rightarrow> 's vt_client \<Rightarrow> 's vt_client option" where
  "rx_get_versions m c =
     (if vt_state c = WaitForGetVersionsResponse
      then do {
        numberOfLabels \<leftarrow> get_uint8_at 1 m;
        if numberOfLabels > 0
        then if length (msg_data m) \<ge> 2 + 7 * unat numberOfLabels
             then case objectPools c of
                    [] \<Rightarrow> None
                  | p # _ \<Rightarrow>
                      do {(labelMatched, c1) \<leftarrow> check_labels (versionLabel p)
                            (map (\<lambda>i. take 7 (drop (2 + 7 * i) (msg_data m))) [0..<unat numberOfLabels]) c;
                          Some (if labelMatched then c1 else set_state UploadObjectPool c1)}
             else Some c
        else Some (set_state UploadObjectPool c)}
      else Some c)"

definition send_preferred_assignment :: "'s vt_client \<Rightarrow> 's vt_client" where
  "send_preferred_assignment c =
     (if aux_listeners c > 0 then snd (send_auxiliary_functions_preferred_assignment c) else c)"

definition rx_load_version :: "CANMessage \<Rightarrow> 's vt_client \<Rightarrow> 's vt_client option" where
  "rx_load_version m c =
     (if vt_state c = WaitForLoadVersionResponse
      then do {b \<leftarrow> get_uint8_at 5 m;
               Some (if b = 0 then send_preferred_assignment (set_state Connected c)
                     else set_state UploadObjectPool c)}
      else Some c)"

definition rx_store_version :: "CANMessage \<Rightarrow> 's vt_client \<Rightarrow> 's vt_client option" where
  "rx_store_version m c =
     (if vt_state c = WaitForStoreVersionResponse
      then do {b \<leftarrow> get_uint8_at 5 m; Some (if b = 0 then set_state Connected c else c)}
      else Some c)"

definition rx_end_of_object_pool :: "CANMessage \<Rightarrow> 's vt_client \<Rightarrow> 's vt_client option" where
  "rx_end_of_object_pool m c =
     (if vt_state c = WaitForEndOfObjectPoolResponse
      then do {errorCodes \<leftarrow> get_uint8_at 1 m;
               objectPoolErrorBitmask \<leftarrow> get_uint8_at 6 m;
               if errorCodes = 0 \<and> objectPoolErrorBitmask = 0
               then let c1 = c\<lparr>objectPools := map (\<lambda>p. p\<lparr>scaledObjectPool := []\<rparr>) (objectPools c)\<rparr>
                    in case objectPools c1 of
                         [] \<Rightarrow> None
                       | p # _ \<Rightarrow> Some (send_preferred_assignment
                           (set_state (if versionLabel p \<noteq> [] then SendStoreVersion else Connected) c1))
               else Some (set_state Failed c)}
      else Some c)"

definition command_responses :: "u8 list" where
  "command_responses = [HideShowObjectCommand, EnableDisableObjectCommand, SelectInputObjectCommand,
     ESCCommand, ControlAudioSignalCommand, SetAudioVolumeCommand, ChangeChildLocationCommand,
     ChangeChildPositionCommand, ChangeSizeCommand, ChangeBackgroundColourCommand,
     ChangeNumericValueCommand, ChangeStringValueCommand, ChangeEndPointCommand,
     ChangeFontAttributesCommand, ChangeLineAttributesCommand, ChangeFillAttributesCommand,
     ChangeActiveMaskCommand, ChangeSoftKeyMaskCommand, ChangeAttributeCommand, ChangePriorityCommand,
     ChangeListItemCommand, DeleteObjectPoolCommand, LockUnlockMaskCommand, ExecuteMacroCommand,
     ChangeObjectLabelCommand, ChangePolygonPointCommand, ChangePolygonScaleCommand,
     GraphicsContextCommand, GetAttributeValueMessage, SelectColourMapCommand,
     ExecuteExtendedMacroCommand, SelectActiveWorkingSet]"

definition rx_command_response :: "CANMessage \<Rightarrow> 's vt_client \<Rightarrow> 's vt_client" where
  "rx_command_response m c =
     (if msg_destination m = Some (myControlFunction c) \<and> msg_source m = partnerControlFunction c
      then process_command_queue (c\<lparr>commandAwaitingResponse := False\<rparr>)
      else c)"

definition rx_unsupported_function :: "CANMessage \<Rightarrow> 's vt_client \<Rightarrow> 's vt_client option" where
  "rx_unsupported_function m c =
     do {f \<leftarrow> get_uint8_at 1 m;
         Some (if f \<in> set (unsupportedFunctions c) then c
               else c\<lparr>unsupportedFunctions := unsupportedFunctions c @ [f]\<rparr>)}"

section \<open>Receiving\<close>

definition rx_virtual_terminal :: "'s listener \<Rightarrow> CANMessage \<Rightarrow> 's vt_client \<Rightarrow> 's vt_client option" where
  \<comment> \<open>the switch over the function byte; the responses to a preferred assignment and to a deletion
      of a version are only logged\<close>
  "rx_virtual_terminal listen m c =
     do {f \<leftarrow> get_uint8_at 0 m;
         if f = SoftKeyActivationMessage then rx_key f SoftKeyEvent listen m c
         else if f = ButtonActivationMessage then rx_key f ButtonEvent listen m c
         else if f = PointingEventMessage then rx_pointing listen m c
         else if f = VTSelectInputObjectMessage then rx_select_input listen m c
         else if f = VTESCMessage then rx_esc listen m c
         else if f = VTChangeNumericValueMessage then rx_change_numeric_value listen m c
         else if f = VTChangeActiveMaskMessage then rx_change_active_mask listen m c
         else if f = VTChangeSoftKeyMaskMessage then rx_change_soft_key_mask listen m c
         else if f = VTChangeStringValueMessage then rx_change_string_value listen m c
         else if f = VTOnUserLayoutHideShowMessage then rx_user_layout listen m c
         else if f = VTControlAudioSignalTerminationMessage then rx_audio_termination listen m c
         else if f = PreferredAssignmentCommand then Some c
         else if f = AuxiliaryAssignmentTypeTwoCommand then rx_auxiliary_assignment m c
         else if f = AuxiliaryInputTypeTwoStatusMessage then rx_auxiliary_input_status listen m c
         else if f = AuxiliaryInputStatusTypeTwoEnableCommand then rx_auxiliary_input_enable m c
         else if f = VTStatusMessage then rx_status m c
         else if f = GetMemoryMessage then rx_get_memory m c
         else if f = GetNumberOfSoftKeysMessage then rx_get_number_of_softkeys m c
         else if f = GetTextFontDataMessage then rx_get_text_font_data m c
         else if f = GetHardwareMessage then rx_get_hardware m c
         else if f = GetVersionsResponse then rx_get_versions m c
         else if f = LoadVersionCommand then rx_load_version m c
         else if f = StoreVersionCommand then rx_store_version m c
         else if f = DeleteVersionCommand then Some c
         else if f = EndOfObjectPoolMessage then rx_end_of_object_pool m c
         else if f \<in> set command_responses then Some (rx_command_response m c)
         else if f = UnsupportedVTFunctionMessage then rx_unsupported_function m c
         else Some (respond [UnsupportedVTFunctionMessage, f, 0xFF, 0xFF, 0xFF, 0xFF, 0xFF, 0xFF] c)}"

definition rx_acknowledge :: "CANMessage \<Rightarrow> 's vt_client \<Rightarrow> 's vt_client option" where
  "rx_acknowledge m c =
     do {kind \<leftarrow> get_uint8_at 0 m;
         pgn \<leftarrow> get_uint24_at 5 LittleEndian m;
         Some (if kind = 1 \<and> pgn = PGN_ECUtoVirtualTerminal then set_state Disconnected c else c)}"

definition rx_input_device :: "cf_store \<Rightarrow> CANMessage \<Rightarrow> 's vt_client \<Rightarrow> 's vt_client option" where
  \<comment> \<open>the NAME of the sender is read through its pointer, which has to exist\<close>
  "rx_input_device cfs m c =
     do {f \<leftarrow> get_uint8_at 0 m;
         if f = AuxiliaryInputTypeTwoMaintenanceMessage
         then do {
           model \<leftarrow> get_uint16_at 1 LittleEndian m;
           ready \<leftarrow> get_uint8_at 3 m;
           if ready \<noteq> 0 \<and> \<not> (\<exists>d \<in> set (assignedAuxiliaryInputDevices c). modelIdentificationCode d = model)
           then do {s \<leftarrow> msg_source m;
                    Some (c\<lparr>assignedAuxiliaryInputDevices := assignedAuxiliaryInputDevices c @
                      [\<lparr>aux_name = rawName (controlFunctionNAME (cfs s)), modelIdentificationCode = model,
                        aux_functions = []\<rparr>]\<rparr>)}
           else Some c}
         else Some c}"

definition process_rx_message :: "'s listener \<Rightarrow> cf_store \<Rightarrow> CANMessage \<Rightarrow> 's vt_client \<Rightarrow> 's vt_client option" where
  "process_rx_message listen cfs m c =
     (if 8 \<le> length (msg_data m) \<and> (msg_destination m = None \<or> msg_destination m = Some (myControlFunction c))
      then let pgn = get_parameter_group_number (msg_identifier m)
           in if pgn = PGN_Acknowledge then rx_acknowledge m c
              else if pgn = PGN_VirtualTerminalToECU then rx_virtual_terminal listen m c
              else if pgn = PGN_ECUtoVirtualTerminal then rx_input_device cfs m c
              else Some c
      else Some c)"

section \<open>Object pools\<close>

definition default_pool :: ObjectPoolDataStruct where
  \<comment> \<open>the value-initialised entries a \<open>resize\<close> makes\<close>
  "default_pool = \<lparr>objectPoolDataPointer = None, objectPoolVectorPointer = None, scaledObjectPool = [],
     dataCallback = None, versionLabel = [], objectPoolSize = 0, autoScaleDataMaskOriginalDimension = 0,
     autoScaleSoftKeyDesignatorOriginalHeight = 0, useDataCallback = False, uploaded = False\<rparr>"

definition put_pool :: "u8 \<Rightarrow> ObjectPoolDataStruct \<Rightarrow> 's vt_client \<Rightarrow> 's vt_client" where
  "put_pool poolIndex p c =
     (let ps = objectPools c; i = unat poolIndex
      in c\<lparr>objectPools :=
           (if i < length ps then ps[i := p] else (ps @ replicate (i + 1 - length ps) default_pool)[i := p])\<rparr>)"

definition set_object_pool_pointer :: "u8 \<Rightarrow> u8 list option \<Rightarrow> u32 \<Rightarrow> u8 list \<Rightarrow> 's vt_client \<Rightarrow> 's vt_client" where
  "set_object_pool_pointer poolIndex pool sz version c =
     (if pool \<noteq> None \<and> sz \<noteq> 0
      then put_pool poolIndex
        (default_pool\<lparr>objectPoolDataPointer := pool, objectPoolSize := sz, versionLabel := version\<rparr>) c
      else c)"

definition set_object_pool_vector :: "u8 \<Rightarrow> u8 list option \<Rightarrow> u8 list \<Rightarrow> 's vt_client \<Rightarrow> 's vt_client" where
  "set_object_pool_vector poolIndex pool version c =
     (case pool of
        Some bytes \<Rightarrow>
          if bytes \<noteq> []
          then put_pool poolIndex
            (default_pool\<lparr>objectPoolVectorPointer := Some bytes, objectPoolSize := of_nat (length bytes),
                          versionLabel := version\<rparr>) c
          else c
      | None \<Rightarrow> c)"

definition set_object_pool_scaling :: "u8 \<Rightarrow> u32 \<Rightarrow> u32 \<Rightarrow> 's vt_client \<Rightarrow> 's vt_client option" where
  "set_object_pool_scaling poolIndex dataMask softKey c =
     (let ps = objectPools c; i = unat poolIndex
      in if i < length ps
         then Some (c\<lparr>objectPools := ps[i := (ps ! i)\<lparr>autoScaleDataMaskOriginalDimension := dataMask,
                     autoScaleSoftKeyDesignatorOriginalHeight := softKey\<rparr>]\<rparr>)
         else None)"

definition register_object_pool_data_chunk_callback ::
    "u8 \<Rightarrow> u32 \<Rightarrow> (u32 \<Rightarrow> u32 \<Rightarrow> u32 \<Rightarrow> u8 list option) option \<Rightarrow> u8 list \<Rightarrow> 's vt_client \<Rightarrow> 's vt_client" where
  "register_object_pool_data_chunk_callback poolIndex poolTotalSize cb version c =
     (if cb \<noteq> None \<and> poolTotalSize \<noteq> 0
      then put_pool poolIndex
        (default_pool\<lparr>dataCallback := cb, objectPoolSize := poolTotalSize, useDataCallback := True,
                      versionLabel := version\<rparr>) c
      else c)"

section \<open>Uploading\<close>

definition process_callback :: "u32 \<Rightarrow> cf option \<Rightarrow> bool \<Rightarrow> 's vt_client \<Rightarrow> 's vt_client" where
  \<comment> \<open>the transport layer finished the transfer of a pool\<close>
  "process_callback pgn destination successful c =
     (if pgn = PGN_ECUtoVirtualTerminal \<and> destination \<noteq> None \<and> vt_state c = UploadObjectPool
      then c\<lparr>currentObjectPoolState := (if successful then UploadSuccess else UploadFailed)\<rparr>
      else c)"

definition slice :: "nat \<Rightarrow> nat \<Rightarrow> u8 list \<Rightarrow> u8 list option" where
  \<comment> \<open>what a \<open>memcpy\<close> of \<open>n\<close> bytes reads\<close>
  "slice off n bytes = (if off + n \<le> length bytes then Some (take n (drop off bytes)) else None)"

definition pool_chunk ::
    "(nat \<Rightarrow> nat \<Rightarrow> u8 list option option) \<Rightarrow> nat \<Rightarrow> nat \<Rightarrow> u8 list option option" where
  \<comment> \<open>the first chunk starts with the function byte, which the later offsets account for\<close>
  "pool_chunk rd bytesOffset n =
     (if bytesOffset = 0
      then map_option (map_option (\<lambda>bs. ObjectPoolTransferMessage # bs)) (rd 0 (n - 1))
      else rd (bytesOffset - 1) n)"

definition process_internal_object_pool_upload_callback ::
    "u32 \<Rightarrow> u32 \<Rightarrow> u32 \<Rightarrow> 's vt_client \<Rightarrow> u8 list option option" where
  \<comment> \<open>\<open>Some None\<close>: the code returns false; \<open>None\<close>: it reads outside of a buffer\<close>
  "process_internal_object_pool_upload_callback callbackIndex bytesOffset n c =
     (case find (\<lambda>p. \<not> uploaded p) (objectPools c) of
        None \<Rightarrow> Some None
      | Some p \<Rightarrow>
          if n \<noteq> 0 \<and> bytesOffset + n \<le> objectPoolSize p + 1
          then
            (if autoScaleDataMaskOriginalDimension p \<noteq> 0 \<and> autoScaleSoftKeyDesignatorOriginalHeight p \<noteq> 0
             then pool_chunk (\<lambda>off k. map_option Some (slice off k (scaledObjectPool p))) (unat bytesOffset) (unat n)
             else if useDataCallback p
             then (case dataCallback p of
                     None \<Rightarrow> None
                   | Some cb \<Rightarrow> pool_chunk (\<lambda>off k. Some (cb callbackIndex (of_nat off) (of_nat k)))
                                  (unat bytesOffset) (unat n))
             else (case objectPoolDataPointer p of
                     None \<Rightarrow> None
                   | Some bytes \<Rightarrow> pool_chunk (\<lambda>off k. map_option Some (slice off k bytes)) (unat bytesOffset) (unat n)))
          else Some None)"

section \<open>Start and end\<close>

definition vt_constructed :: "cf option \<Rightarrow> cf \<Rightarrow> (nat \<Rightarrow> bool) \<Rightarrow> 's \<Rightarrow> 's vt_client" where
  "vt_constructed partner mine accepts s =
     \<lparr>partnerControlFunction = partner, myControlFunction = mine,
      txFlags = replicate (unat NumberFlags div 8 + 1) 0,
      vt_status = \<lparr>lastVTStatusTimestamp_ms = 0, activeWorkingSetDataMaskObjectID = NULL_OBJECT_ID,
        activeWorkingSetSoftKeyMaskObjectID = NULL_OBJECT_ID, activeWorkingSetMasterAddress = 0xFE,
        busyCodesBitfield = 0, currentCommandFunctionCode = 0\<rparr>,
      capabilities = \<lparr>connectedVTVersion = 0, softKeyXAxisPixels = 0, softKeyYAxisPixels = 0,
        numberVirtualSoftkeysPerSoftkeyMask = 0, numberPhysicalSoftkeys = 0, smallFontSizesBitfield = 0,
        largeFontSizesBitfield = 0, fontStylesBitfield = 0, supportedGraphicsMode = 2, xPixels = 0,
        yPixels = 0, hardwareFeaturesBitfield = 0\<rparr>,
      vt_state = Disconnected, currentObjectPoolState = Uninitialized, stateMachineTimestamp_ms = 0,
      lastWorkingSetMaintenanceTimestamp_ms = 0, lastAuxiliaryMaintenanceTimestamp_ms = 0,
      objectPools = [], unsupportedFunctions = [], assignedAuxiliaryInputDevices = [],
      ourModelIdentificationCode = 1, ourAuxiliaryInputs = [], firstTimeInState = False,
      vt_initialized = False, sendWorkingSetMaintenance = False, sendAuxiliaryMaintenance = False,
      shouldTerminate = False, commandQueue = [], commandAwaitingResponse = False,
      lastCommandTimestamp_ms = 0, clock_ms = 0, can_accepts = accepts, can_calls = 0, can_sent = [],
      partner_address_valid = False, aux_listeners = 0, app_state = s\<rparr>"

definition vt_initialize :: "'s vt_client \<Rightarrow> 's vt_client" where
  \<comment> \<open>less the registration of the callbacks and the thread\<close>
  "vt_initialize c =
     (let c1 = (if shouldTerminate c then c\<lparr>shouldTerminate := False, vt_initialized := False\<rparr> else c)
      in if \<not> vt_initialized c1 then c1\<lparr>vt_initialized := True\<rparr> else c1)"

definition vt_terminate :: "'s vt_client \<Rightarrow> 's vt_client" where
  "vt_terminate c =
     (if vt_initialized c
      then let c1 = (if partnerControlFunction c \<noteq> None \<and> vt_state c = Connected
                     then snd (send_delete_object_pool c) else c)
           in set_state Disconnected (c1\<lparr>shouldTerminate := True, vt_initialized := False\<rparr>)
      else c)"

definition restart_communication :: "'s vt_client \<Rightarrow> 's vt_client" where
  "restart_communication c = vt_initialize (vt_terminate c)"

end
