(* ===== verification/Vt_Queue.thy ===== *)
theory Vt_Queue
  imports Vt_Client "HOL-Library.AList"
begin

text \<open>
  The command queue of the virtual terminal client. \<open>are_commands_similar\<close> is characterised by a key, the queue
  is an association list from keys to commands, and one pass over it sends at most one command.
\<close>

section \<open>When two commands are similar\<close>

text \<open>The reference: two commands are similar when they have the same length and agree on a prefix whose
  length depends on the function byte.\<close>

definition key_length :: "u8 \<Rightarrow> nat" where
  "key_length f =
     (if f \<in> {HideShowObjectCommand, EnableDisableObjectCommand, ChangeSizeCommand,
            ChangeBackgroundColourCommand, ChangeNumericValueCommand, ChangeStringValueCommand,
            ChangeEndPointCommand, ChangeFontAttributesCommand, ChangeLineAttributesCommand,
            ChangeFillAttributesCommand, ChangeActiveMaskCommand, ChangePriorityCommand,
            ChangePolygonScaleCommand} then 3
      else if f \<in> {ChangeChildLocationCommand, ChangeChildPositionCommand} then 5
      else if f \<in> {ChangeSoftKeyMaskCommand, ChangeAttributeCommand, ChangeListItemCommand,
            LockUnlockMaskCommand, ChangePolygonPointCommand, GraphicsContextCommand,
            GetAttributeValueMessage} then 4
      else if f = ExecuteMacroCommand then 2
      else 1)"

definition command_key :: "u8 list \<Rightarrow> nat \<times> u8 list" where
  "command_key d = (length d, take (key_length (d ! 0)) d)"

lemma key_length_bounds: "1 \<le> key_length f" "key_length f \<le> 5"
  by (simp_all add: key_length_def)

lemma key_head:
  assumes "1 \<le> length a" "1 \<le> length b" "command_key a = command_key b"
  shows "a ! 0 = b ! 0"
proof -
  have h: "hd (take (key_length f) d) = d ! 0" if "1 \<le> length d" for f d
  proof -
    have "0 < key_length f" using key_length_bounds(1) [of f] by linarith
    moreover have "d \<noteq> []" using that by auto
    ultimately show ?thesis by (simp add: hd_take hd_conv_nth)
  qed
  show ?thesis using assms(3) h [OF assms(1), of "a ! 0"] h [OF assms(2), of "b ! 0"]
    by (simp add: command_key_def)
qed

declare same_at.simps [simp del]

lemma same_at_nth:
  "\<forall>k \<in> set ks. k < length a \<and> k < length b \<Longrightarrow> same_at ks a b = Some (\<forall>k \<in> set ks. a ! k = b ! k)"
  by (induction ks) (auto simp: checked_nth_def same_at.simps)

lemma take_eq_nth:
  "n \<le> length a \<Longrightarrow> n \<le> length b \<Longrightarrow> take n a = take n b \<longleftrightarrow> (\<forall>i \<in> {0..<n}. a ! i = b ! i)"
  by (auto simp: list_eq_iff_nth_eq)

lemma similar_of_prefix:
  assumes "length a = length b" "5 \<le> length a" "a ! 0 = b ! 0" "set ks = {1..<n}" "n \<le> 5" "1 \<le> n"
  shows "same_at ks a b = Some (take n a = take n b)"
proof -
  have "{0..<n} = insert 0 {1..<n}" using assms(6) by auto
  then show ?thesis using assms by (subst same_at_nth) (auto simp: take_eq_nth)
qed

lemma choose_prefix:
  assumes "s3 = Some (P 3)" "s5 = Some (P 5)" "s4 = Some (P 4)" "s2 = Some (P 2)" "P 1"
  shows "(if f \<in> A then s3 else if f \<in> B then s5 else if f \<in> C then s4 else if f = e then s2 else Some True)
     = Some (P (if f \<in> A then 3 else if f \<in> B then 5 else if f \<in> C then 4 else if f = e then 2 else (1 :: nat)))"
  using assms by simp

lemma are_commands_similar_key:
  assumes "5 \<le> length a" "5 \<le> length b"
  shows "are_commands_similar a b = Some (command_key a = command_key b)"
proof (cases "length a = length b \<and> a ! 0 = b ! 0")
  case True
  then have t: "length a = length b" "a ! 0 = b ! 0" by auto
  note p = similar_of_prefix [of a b]
  have same: "same_at [1, 2] a b = Some (take 3 a = take 3 b)" "same_at [1, 2, 3, 4] a b = Some (take 5 a = take 5 b)"
    "same_at [1, 2, 3] a b = Some (take 4 a = take 4 b)" "same_at [1] a b = Some (take 2 a = take 2 b)"
    "take 1 a = take 1 b"
    by (rule p; use t assms in auto)+ (use t assms in \<open>simp add: take_eq_nth\<close>)
  have c: "checked_nth a 0 = Some (b ! 0)" "checked_nth b 0 = Some (b ! 0)"
    using t assms by (auto simp: checked_nth_def)
  have "are_commands_similar a b = Some (take (key_length (b ! 0)) a = take (key_length (b ! 0)) b)"
    unfolding are_commands_similar_def c Option.bind_lunit t(1) key_length_def
    by (simp only: simp_thms if_False choose_prefix [where P = "\<lambda>n. take n a = take n b", OF same])
  moreover have "command_key a = command_key b \<longleftrightarrow> take (key_length (b ! 0)) a = take (key_length (b ! 0)) b"
    by (simp add: command_key_def t)
  ultimately show ?thesis by simp
next
  case False
  have "command_key a \<noteq> command_key b"
  proof
    assume k: "command_key a = command_key b"
    then have "length a = length b" by (simp add: command_key_def)
    moreover have "a ! 0 = b ! 0" by (rule key_head [OF _ _ k]) (use assms in linarith)+
    ultimately show False using False by blast
  qed
  moreover have c: "checked_nth a 0 = Some (a ! 0)" "checked_nth b 0 = Some (b ! 0)"
    using assms by (auto simp: checked_nth_def)
  have "are_commands_similar a b = Some False"
    unfolding are_commands_similar_def c Option.bind_lunit using False by presburger
  ultimately show ?thesis by simp
qed

section \<open>Replacing\<close>

definition long :: "u8 list list \<Rightarrow> bool" where
  "long q \<longleftrightarrow> (\<forall>d \<in> set q. 8 \<le> length d)"

lemma long_simps [simp]:
  "long []" "long (d # q) \<longleftrightarrow> 8 \<le> length d \<and> long q" "long (q @ r) \<longleftrightarrow> long q \<and> long r"
  by (auto simp: long_def)

lemma replace_rest:
  "8 \<le> length d \<Longrightarrow> long q \<Longrightarrow>
   replace_from d True q = Some (True, filter (\<lambda>x. command_key x \<noteq> command_key d) q)"
  by (induction q) (auto simp: are_commands_similar_key)

lemma replace_none:
  "8 \<le> length d \<Longrightarrow> long q \<Longrightarrow> command_key d \<notin> command_key ` set q \<Longrightarrow>
   replace_from d r q = Some (r, q)"
  by (induction q) (auto simp: are_commands_similar_key)

text \<open>The queue as an association list from keys to commands.\<close>

definition keyed :: "u8 list list \<Rightarrow> ((nat \<times> u8 list) \<times> u8 list) list" where
  "keyed q = map (\<lambda>d. (command_key d, d)) q"

definition once :: "u8 list \<Rightarrow> u8 list list \<Rightarrow> bool" where
  "once d q \<longleftrightarrow> length (filter (\<lambda>x. command_key x = command_key d) q) \<le> 1"

lemma filter_key_id: "command_key d \<notin> command_key ` set q \<Longrightarrow> filter (\<lambda>x. command_key x \<noteq> command_key d) q = q"
  by (induction q) auto

lemma replace_from_update:
  assumes "8 \<le> length d" "long q" "once d q"
  shows "\<exists>q'. replace_from d False q = Some (command_key d \<in> command_key ` set q, q') \<and> long q'
     \<and> (command_key d \<in> command_key ` set q \<longrightarrow> keyed q' = AList.update (command_key d) d (keyed q))
     \<and> (command_key d \<notin> command_key ` set q \<longrightarrow> q' = q)"
  using assms(2,3)
proof (induction q)
  case Nil
  then show ?case by simp
next
  case (Cons x q)
  have l: "8 \<le> length x" "long q" using Cons.prems by auto
  show ?case
  proof (cases "command_key x = command_key d")
    case True
    with Cons.prems(2) have "filter (\<lambda>y. command_key y = command_key d) q = []" by (simp add: once_def)
    then have n: "command_key d \<notin> command_key ` set q" by (auto simp: filter_empty_conv)
    then have "replace_from d True q = Some (True, q)" using assms(1) l by (simp add: replace_rest filter_key_id)
    then show ?thesis using True assms(1) l by (simp add: are_commands_similar_key keyed_def)
  next
    case False
    have "once d q" using Cons.prems(2) False by (simp add: once_def)
    from Cons.IH [OF l(2) this] obtain q' where
      q': "replace_from d False q = Some (command_key d \<in> command_key ` set q, q')" "long q'"
        "command_key d \<in> command_key ` set q \<Longrightarrow> keyed q' = AList.update (command_key d) d (keyed q)"
        "command_key d \<notin> command_key ` set q \<Longrightarrow> q' = q" by auto
    then show ?thesis using False assms(1) l by (auto simp: are_commands_similar_key keyed_def)
  qed
qed

section \<open>The queue keeps one command of each kind\<close>

definition replaceable :: "u8 list \<Rightarrow> bool" where
  \<comment> \<open>the commands queued with \<open>replace\<close>: all but these four\<close>
  "replaceable d \<longleftrightarrow> d ! 0 \<notin> {LockUnlockMaskCommand, ExecuteMacroCommand, ChangeObjectLabelCommand,
     ExecuteExtendedMacroCommand}"

definition queue_ok :: "u8 list list \<Rightarrow> bool" where
  "queue_ok q \<longleftrightarrow> long q \<and> distinct (map command_key (filter replaceable q))"

lemma key_replaceable:
  "8 \<le> length a \<Longrightarrow> 8 \<le> length b \<Longrightarrow> command_key a = command_key b \<Longrightarrow> replaceable a \<longleftrightarrow> replaceable b"
  using key_head [of a b] by (simp add: replaceable_def)

lemma queue_ok_once:
  assumes "queue_ok q" "8 \<le> length d" "replaceable d"
  shows "once d q"
proof -
  have l: "long q" and dk: "distinct (map command_key (filter replaceable q))" using assms by (auto simp: queue_ok_def)
  have f: "filter (\<lambda>x. command_key x = command_key d) q
      = filter (\<lambda>x. command_key x = command_key d) (filter replaceable q)"
  proof (unfold filter_filter, rule filter_cong [OF refl])
    fix x assume "x \<in> set q"
    then have "8 \<le> length x" using l by (simp add: long_def)
    then show "(command_key x = command_key d) = (replaceable x \<and> command_key x = command_key d)"
      using key_replaceable [of x d] assms(2,3) by blast
  qed
  have "length (filter (\<lambda>x. command_key x = command_key d) r) \<le> 1" if "distinct (map command_key r)" for r
    using that by (induction r) (auto simp: filter_empty_conv image_iff)
  then show ?thesis using dk unfolding once_def f by blast
qed

lemma keyed_values: "map snd (keyed q) = q"
  by (simp add: keyed_def comp_def)

lemma queue_ok_del: "queue_ok (xs @ d # ys) \<Longrightarrow> queue_ok (xs @ ys)"
  by (simp add: queue_ok_def split: if_splits)

section \<open>Sending one command\<close>

definition blocked :: "'s vt_client \<Rightarrow> bool" where
  \<comment> \<open>a command waits for its response and has not timed out\<close>
  "blocked c \<longleftrightarrow> commandAwaitingResponse c \<and> \<not> time_expired (lastCommandTimestamp_ms c) 1500 c"

definition command_message :: "u8 list \<Rightarrow> 's vt_client \<Rightarrow> vt_out" where
  "command_message d c = VtMessage PGN_ECUtoVirtualTerminal d (partnerControlFunction c) Priority5"

definition command_sent :: "u8 list \<Rightarrow> 's vt_client \<Rightarrow> 's vt_client" where
  "command_sent d c = c\<lparr>commandAwaitingResponse := True, lastCommandTimestamp_ms := clock_ms c,
     can_calls := Suc (can_calls c), can_sent := can_sent c @ [command_message d c]\<rparr>"

definition command_refused :: "'s vt_client \<Rightarrow> 's vt_client" where
  "command_refused c = c\<lparr>commandAwaitingResponse := False, can_calls := Suc (can_calls c)\<rparr>"

lemma send_command_blocked: "blocked c \<Longrightarrow> send_command d c = (False, c)"
  by (simp add: send_command_def blocked_def)

lemma send_command_free:
  "\<not> blocked c \<Longrightarrow> vt_state c = Connected \<Longrightarrow>
   send_command d c = (if can_accepts c (can_calls c) then (True, command_sent d c) else (False, command_refused c))"
  by (auto simp: send_command_def blocked_def get_is_connected_def send_message_to_vt_def can_send_def Let_def
      command_sent_def command_refused_def command_message_def)

lemma send_command_offline:
  "\<not> blocked c \<Longrightarrow> vt_state c \<noteq> Connected \<Longrightarrow> send_command d c = (False, c\<lparr>commandAwaitingResponse := False\<rparr>)"
  by (auto simp: send_command_def blocked_def get_is_connected_def)

lemma blocked_command_sent [simp]: "blocked (command_sent d c)"
  by (simp add: blocked_def command_sent_def time_expired_def)

lemma blocked_command_refused [simp]: "\<not> blocked (command_refused c)"
  by (simp add: blocked_def command_refused_def)

lemma command_message_same [simp]:
  "command_message d (command_sent e c) = command_message d c" "command_message d (command_refused c) = command_message d c"
  "command_message d (c\<lparr>commandQueue := q\<rparr>) = command_message d c"
  "command_message d (c\<lparr>commandAwaitingResponse := w\<rparr>) = command_message d c"
  "command_message d (c\<lparr>clock_ms := t\<rparr>) = command_message d c"
  by (simp_all add: command_message_def command_sent_def command_refused_def)

lemma command_sent_simps [simp]:
  "vt_state (command_sent d c) = vt_state c" "can_accepts (command_sent d c) = can_accepts c"
  "commandQueue (command_sent d c) = commandQueue c" "commandAwaitingResponse (command_sent d c)"
  "can_sent (command_sent d c) = can_sent c @ [command_message d c]"
  "partnerControlFunction (command_sent d c) = partnerControlFunction c"
  "myControlFunction (command_sent d c) = myControlFunction c"
  "lastCommandTimestamp_ms (command_sent d c) = clock_ms c" "clock_ms (command_sent d c) = clock_ms c"
  by (simp_all add: command_sent_def)

section \<open>What the queue operations change\<close>

text \<open>The queue operations change the queue, the response flag and time, and what was sent.\<close>

definition only_commands :: "'s vt_client \<Rightarrow> 's vt_client \<Rightarrow> bool" where
  "only_commands c c' \<longleftrightarrow> (\<exists>a l n s q. c' = c\<lparr>commandAwaitingResponse := a, lastCommandTimestamp_ms := l,
     can_calls := n, can_sent := s, commandQueue := q\<rparr>)"

lemma only_commandsI:
  "c' = c\<lparr>commandAwaitingResponse := a, lastCommandTimestamp_ms := l, can_calls := n, can_sent := s,
     commandQueue := q\<rparr> \<Longrightarrow> only_commands c c'"
  unfolding only_commands_def by blast

lemma only_commands_refl [simp, intro]: "only_commands c c"
  by (rule only_commandsI [where a = "commandAwaitingResponse c" and l = "lastCommandTimestamp_ms c"
        and n = "can_calls c" and s = "can_sent c" and q = "commandQueue c"]) simp

lemma only_commands_trans [trans]: "only_commands a b \<Longrightarrow> only_commands b c \<Longrightarrow> only_commands a c"
  unfolding only_commands_def by (elim exE) (simp, blast)

lemma only_commands_queue [simp]: "only_commands c (c\<lparr>commandQueue := q\<rparr>)"
  by (rule only_commandsI [where a = "commandAwaitingResponse c" and l = "lastCommandTimestamp_ms c"
        and n = "can_calls c" and s = "can_sent c" and q = q]) simp

lemma only_commands_await [simp]: "only_commands c (c\<lparr>commandAwaitingResponse := w\<rparr>)"
  by (rule only_commandsI [where a = w and l = "lastCommandTimestamp_ms c"
        and n = "can_calls c" and s = "can_sent c" and q = "commandQueue c"]) simp

lemma only_commands_sent [simp]: "only_commands c (command_sent d c)"
  unfolding command_sent_def
  by (rule only_commandsI [where a = True and l = "clock_ms c" and n = "Suc (can_calls c)"
        and s = "can_sent c @ [command_message d c]" and q = "commandQueue c"]) simp

lemma only_commands_refused [simp]: "only_commands c (command_refused c)"
  unfolding command_refused_def
  by (rule only_commandsI [where a = False and l = "lastCommandTimestamp_ms c" and n = "Suc (can_calls c)"
        and s = "can_sent c" and q = "commandQueue c"]) simp

lemma only_commands_fields:
  assumes "only_commands c c'"
  shows "vt_state c' = vt_state c" "can_accepts c' = can_accepts c" "clock_ms c' = clock_ms c"
    "partnerControlFunction c' = partnerControlFunction c" "myControlFunction c' = myControlFunction c"
    "objectPools c' = objectPools c" "txFlags c' = txFlags c" "ourAuxiliaryInputs c' = ourAuxiliaryInputs c"
    "assignedAuxiliaryInputDevices c' = assignedAuxiliaryInputDevices c" "vt_status c' = vt_status c"
    "capabilities c' = capabilities c" "currentObjectPoolState c' = currentObjectPoolState c"
    "firstTimeInState c' = firstTimeInState c" "unsupportedFunctions c' = unsupportedFunctions c"
    "sendWorkingSetMaintenance c' = sendWorkingSetMaintenance c" "stateMachineTimestamp_ms c' = stateMachineTimestamp_ms c"
    "sendAuxiliaryMaintenance c' = sendAuxiliaryMaintenance c" "vt_initialized c' = vt_initialized c"
    "partner_address_valid c' = partner_address_valid c" "aux_listeners c' = aux_listeners c"
    "lastWorkingSetMaintenanceTimestamp_ms c' = lastWorkingSetMaintenanceTimestamp_ms c"
    "lastAuxiliaryMaintenanceTimestamp_ms c' = lastAuxiliaryMaintenanceTimestamp_ms c"
    "ourModelIdentificationCode c' = ourModelIdentificationCode c" "shouldTerminate c' = shouldTerminate c"
    "app_state c' = app_state c"
  using assms unfolding only_commands_def by auto

lemma send_command_frame: "only_commands c (snd (send_command d c))"
proof (cases "blocked c")
  case False
  then show ?thesis
    by (cases "vt_state c = Connected") (simp_all add: send_command_free send_command_offline)
qed (simp add: send_command_blocked)

lemma send_command_queue: "commandQueue (snd (send_command d c)) = commandQueue c"
proof (cases "blocked c")
  case False
  then show ?thesis
    by (cases "vt_state c = Connected") (simp_all add: send_command_free send_command_offline command_refused_def)
qed (simp add: send_command_blocked)

lemma replace_command_queue:
  "replace_command d c = Some (r, c') \<Longrightarrow> \<exists>q. c' = c\<lparr>commandQueue := q\<rparr>"
  by (auto simp: replace_command_def)

text \<open>Queueing a command: it is sent at once when no other waits, otherwise it replaces or joins.\<close>

definition enqueue :: "u8 list \<Rightarrow> bool \<Rightarrow> 's vt_client \<Rightarrow> (bool \<times> 's vt_client) option" where
  "enqueue d rep c =
     do {(replaced, c') \<leftarrow> (if rep then replace_command d c else Some (False, c));
         Some (True, if replaced then c' else c'\<lparr>commandQueue := commandQueue c' @ [d]\<rparr>)}"

lemma queue_command_eq:
  assumes "d \<noteq> []"
  shows "queue_command d rep c =
     (if is_function_unsupported (d ! 0) c then Some (False, c)
      else if vt_state c \<noteq> Connected then enqueue d rep c
      else if fst (send_command d c) then Some (True, snd (send_command d c))
      else enqueue d rep (snd (send_command d c)))"
proof -
  have "checked_nth d 0 = Some (d ! 0)" using assms by (simp add: checked_nth_def)
  then show ?thesis
    unfolding queue_command_def enqueue_def Let_def get_is_connected_def
    by (simp only: Option.bind_lunit split: prod.split) simp
qed

lemma enqueue_frame: "enqueue d rep c = Some (r, c') \<Longrightarrow> \<exists>q. c' = c\<lparr>commandQueue := q\<rparr>"
  unfolding enqueue_def by (cases rep) (auto simp: bind_eq_Some_conv dest!: replace_command_queue)

lemma queue_command_frame: "queue_command d rep c = Some (r, c') \<Longrightarrow> only_commands c c'"
proof (cases "d = []")
  case False
  assume q: "queue_command d rep c = Some (r, c')"
  have f: "only_commands c c''" if "enqueue d rep b = Some (r, c'')" "only_commands c b" for b c''
    using enqueue_frame [OF that(1)] that(2) by (auto intro: only_commands_trans)
  show ?thesis
    using q f [of c] f [of "snd (send_command d c)"] send_command_frame [of c d]
    unfolding queue_command_eq [OF False] by (auto split: if_splits)
qed (simp add: queue_command_def checked_nth_def)

section \<open>Working off the queue\<close>

lemma drain_Cons:
  "drain (d # q) c =
     (let r = send_command d c; s = drain q (snd r) in (if fst r then fst s else d # fst s, snd s))"
  by (simp add: case_prod_beta Let_def)

declare drain.simps(2) [simp del]

lemma process_command_queue_eq:
  "process_command_queue c =
     (if vt_state c \<noteq> Connected then c
      else (snd (drain (commandQueue c) c))\<lparr>commandQueue := fst (drain (commandQueue c) c)\<rparr>)"
  by (simp add: process_command_queue_def get_is_connected_def case_prod_beta)

lemma drain_blocked: "blocked c \<Longrightarrow> drain q c = (q, c)"
  by (induction q) (simp_all add: drain_Cons send_command_blocked Let_def)

lemma drain_free:
  "\<not> blocked c \<Longrightarrow> vt_state c = Connected \<Longrightarrow>
   drain (d # q) c = (if can_accepts c (can_calls c) then (q, command_sent d c)
                      else (d # fst (drain q (command_refused c)), snd (drain q (command_refused c))))"
  by (simp add: drain_Cons send_command_free drain_blocked Let_def)

text \<open>One pass sends at most one command, the first the network accepts.\<close>

lemma drain_sends_one:
  assumes "\<not> blocked c" "vt_state c = Connected"
  shows "(fst (drain q c) = q \<and> can_sent (snd (drain q c)) = can_sent c \<and> \<not> blocked (snd (drain q c)))
     \<or> (\<exists>xs d ys. q = xs @ d # ys \<and> fst (drain q c) = xs @ ys
          \<and> can_sent (snd (drain q c)) = can_sent c @ [command_message d c]
          \<and> commandAwaitingResponse (snd (drain q c)) \<and> lastCommandTimestamp_ms (snd (drain q c)) = clock_ms c)"
  using assms
proof (induction q arbitrary: c)
  case Nil
  then show ?case by simp
next
  case (Cons d q)
  show ?case
  proof (cases "can_accepts c (can_calls c)")
    case True
    then have "drain (d # q) c = (q, command_sent d c)" using drain_free [OF Cons.prems, of d q] by presburger
    then show ?thesis by (intro disjI2 exI [of _ "[]"] exI [of _ d] exI [of _ q]) simp
  next
    case False
    let ?c = "command_refused c"
    have r: "vt_state ?c = Connected" "can_sent ?c = can_sent c" "clock_ms ?c = clock_ms c"
      using Cons.prems by (simp_all add: command_refused_def)
    have dr: "drain (d # q) c = (d # fst (drain q ?c), snd (drain q ?c))"
      using False drain_free [OF Cons.prems, of d q] by presburger
    from Cons.IH [OF blocked_command_refused r(1)] show ?thesis
    proof (elim disjE exE conjE)
      fix xs e ys
      assume q: "q = xs @ e # ys" and h: "fst (drain q ?c) = xs @ ys"
        "can_sent (snd (drain q ?c)) = can_sent ?c @ [command_message e ?c]"
        "commandAwaitingResponse (snd (drain q ?c))" "lastCommandTimestamp_ms (snd (drain q ?c)) = clock_ms ?c"
      have "fst (drain (d # q) c) = (d # xs) @ ys
          \<and> can_sent (snd (drain (d # q) c)) = can_sent c @ [command_message e c]
          \<and> commandAwaitingResponse (snd (drain (d # q) c)) \<and> lastCommandTimestamp_ms (snd (drain (d # q) c)) = clock_ms c"
        using h by (simp add: dr r)
      moreover have "d # q = (d # xs) @ e # ys" using q by simp
      ultimately show ?thesis by blast
    qed (simp add: dr r)
  qed
qed

lemma drain_frame: "only_commands c (snd (drain q c))"
proof (induction q arbitrary: c)
  case (Cons d q)
  show ?case using only_commands_trans [OF send_command_frame [of c d] Cons.IH] by (simp add: drain_Cons Let_def)
qed simp

lemma process_command_queue_frame: "only_commands c (process_command_queue c)"
  unfolding process_command_queue_eq
  by (simp add: only_commands_trans [OF drain_frame [of c "commandQueue c"] only_commands_queue])

lemma drain_subset: "\<exists>P. fst (drain q c) = nths q P"
proof (induction q arbitrary: c)
  case Nil
  then show ?case by simp
next
  case (Cons d q)
  obtain P where P: "fst (drain q (snd (send_command d c))) = nths q P" using Cons.IH by blast
  show ?case
    by (rule exI [of _ "(if fst (send_command d c) then {} else {0}) \<union> Suc ` P"])
       (simp add: drain_Cons Let_def P nths_Cons image_iff)
qed

section \<open>The queue keeps one command of each kind\<close>

definition command_ok :: "u8 list \<Rightarrow> bool \<Rightarrow> bool" where
  \<comment> \<open>what the functions of the interface queue\<close>
  "command_ok d rep \<longleftrightarrow> 8 \<le> length d \<and> d ! 0 \<in> set command_responses \<and> d ! 0 \<noteq> DeleteObjectPoolCommand \<and> rep = replaceable d"

lemma queue_ok_append:
  assumes "queue_ok q" "8 \<le> length d" "\<not> replaceable d \<or> command_key d \<notin> command_key ` set q"
  shows "queue_ok (q @ [d])"
  using assms by (auto simp: queue_ok_def)

lemma keyed_keys: "map fst (keyed q) = map command_key q"
  by (simp add: keyed_def comp_def)

lemma update_map_filter:
  assumes "long q" "8 \<le> length d" "replaceable d" "\<forall>x \<in> set q'. (command_key x, x) \<in> set (keyed q')"
    "keyed q' = AList.update (command_key d) d (keyed q)" "command_key d \<in> command_key ` set q"
  shows "map command_key (filter replaceable q') = map command_key (filter replaceable q)"
  using assms(1,5,6)
proof (induction q arbitrary: q')
  case Nil
  then show ?case by simp
next
  case (Cons x q)
  show ?case
  proof (cases "command_key x = command_key d")
    case True
    then have "keyed q' = keyed (d # q)" using Cons.prems(2) by (simp add: keyed_def)
    then have "q' = d # q" using keyed_values by metis
    moreover have "replaceable x" using True Cons.prems(1) assms(2,3) key_replaceable [of x d] by simp
    ultimately show ?thesis using True assms(3) by simp
  next
    case False
    then have k: "keyed q' = (command_key x, x) # AList.update (command_key d) d (keyed q)"
      using Cons.prems(2) by (simp add: keyed_def)
    then obtain q'' where q'': "q' = x # q''" "keyed q'' = AList.update (command_key d) d (keyed q)"
      by (cases q') (auto simp: keyed_def)
    have "command_key d \<in> command_key ` set q" using False Cons.prems(3) by auto
    with Cons.IH [OF _ q''(2)] Cons.prems(1) q''(1) show ?thesis by simp
  qed
qed

lemma enqueue_ok:
  assumes "queue_ok (commandQueue c)" "8 \<le> length d" "rep = replaceable d"
  shows "\<exists>q'. enqueue d rep c = Some (True, c\<lparr>commandQueue := q'\<rparr>) \<and> queue_ok q'
     \<and> (rep \<longrightarrow> keyed q' = AList.update (command_key d) d (keyed (commandQueue c)))
     \<and> (\<not> rep \<longrightarrow> q' = commandQueue c @ [d])"
proof (cases rep)
  case False
  then show ?thesis using assms by (auto simp: enqueue_def intro: queue_ok_append)
next
  case True
  let ?q = "commandQueue c"
  have l: "long ?q" and o: "once d ?q" using assms True queue_ok_once [OF assms(1,2)] by (auto simp: queue_ok_def)
  from replace_from_update [OF assms(2) l o] obtain q' where
    q': "replace_from d False ?q = Some (command_key d \<in> command_key ` set ?q, q')" "long q'"
      "command_key d \<in> command_key ` set ?q \<Longrightarrow> keyed q' = AList.update (command_key d) d (keyed ?q)"
      "command_key d \<notin> command_key ` set ?q \<Longrightarrow> q' = ?q" by blast
  show ?thesis
  proof (cases "command_key d \<in> command_key ` set ?q")
    case t: True
    have "map command_key (filter replaceable q') = map command_key (filter replaceable ?q)"
      by (rule update_map_filter [OF l assms(2) _ _ q'(3) [OF t] t]) (use True assms(3) in \<open>auto simp: keyed_def\<close>)
    then have "queue_ok q'" using assms(1) q'(2) by (simp add: queue_ok_def)
    then show ?thesis using t True q'(1) q'(3) [OF t]
      by (intro exI [of _ q']) (simp add: enqueue_def replace_command_def)
  next
    case f: False
    have "queue_ok (?q @ [d])" using assms f by (intro queue_ok_append) auto
    moreover have "AList.update (command_key d) d (keyed ?q) = keyed (?q @ [d])"
    proof -
      have "AList.update k v al = al @ [(k, v)]" if "k \<notin> fst ` set al" for k :: "nat \<times> u8 list" and v :: "u8 list" and al
        using that by (induction al) auto
      from this [of "command_key d" "keyed ?q" d] show ?thesis using f by (simp add: keyed_def image_image)
    qed
    ultimately show ?thesis using f True q'(1) q'(4) [OF f]
      by (intro exI [of _ "?q @ [d]"]) (simp add: enqueue_def replace_command_def)
  qed
qed

lemma queue_command_defined:
  assumes "queue_ok (commandQueue c)" "command_ok d rep"
  shows "\<exists>r c'. queue_command d rep c = Some (r, c') \<and> queue_ok (commandQueue c')"
proof -
  have d: "8 \<le> length d" "rep = replaceable d" "d \<noteq> []" using assms(2) by (auto simp: command_ok_def)
  have q: "queue_ok (commandQueue (snd (send_command d c)))" using assms(1) by (simp add: send_command_queue)
  from enqueue_ok [OF assms(1) d(1,2)] enqueue_ok [OF q d(1,2)] show ?thesis
    unfolding queue_command_eq [OF d(3)] using assms(1) q by auto
qed

lemma queue_ok_nths: "queue_ok q \<Longrightarrow> queue_ok (nths q P)"
proof -
  assume q: "queue_ok q"
  have "\<exists>P'. map command_key (filter replaceable (nths q P)) = nths (map command_key (filter replaceable q)) P'" for q P
  proof (induction q arbitrary: P)
    case (Cons x q)
    obtain P' where P': "map command_key (filter replaceable (nths q {j. Suc j \<in> P}))
        = nths (map command_key (filter replaceable q)) P'" using Cons.IH by blast
    show ?case
    proof (cases "replaceable x")
      case True
      have "nths (map command_key (filter replaceable (x # q))) ({n. n = 0 \<and> 0 \<in> P} \<union> Suc ` P')
          = map command_key (filter replaceable (nths (x # q) P))"
        using True P' by (simp add: nths_Cons image_iff)
      then show ?thesis by metis
    next
      case False
      then show ?thesis using P' by (auto simp: nths_Cons)
    qed
  qed simp
  then have "distinct (map command_key (filter replaceable (nths q P)))"
    using q unfolding queue_ok_def by (metis distinct_nthsI)
  moreover have "long (nths q P)" using q by (auto simp: queue_ok_def long_def dest: in_set_nthsD)
  ultimately show ?thesis by (simp add: queue_ok_def)
qed

lemma process_command_queue_ok:
  "queue_ok (commandQueue c) \<Longrightarrow> queue_ok (commandQueue (process_command_queue c))"
  using drain_subset [of "commandQueue c" c] by (auto simp: process_command_queue_eq queue_ok_nths)

section \<open>The display answers, the queue empties\<close>

lemma process_command_queue_first:
  assumes "\<not> blocked c" "vt_state c = Connected" "can_accepts c (can_calls c)" "commandQueue c = d # q"
  shows "process_command_queue c = (command_sent d c)\<lparr>commandQueue := q\<rparr>"
  using drain_free [OF assms(1,2), of d q] assms by (simp add: process_command_queue_eq)

text \<open>A response of the partner to one of our commands.\<close>

definition response_to_us :: "CANMessage \<Rightarrow> 's vt_client \<Rightarrow> bool" where
  "response_to_us m c \<longleftrightarrow> 8 \<le> length (msg_data m) \<and> msg_data m ! 0 \<in> set command_responses
     \<and> get_parameter_group_number (msg_identifier m) = PGN_VirtualTerminalToECU
     \<and> msg_destination m = Some (myControlFunction c) \<and> msg_source m = partnerControlFunction c"

lemma not_responses:
  "0 \<notin> set command_responses" "1 \<notin> set command_responses" "2 \<notin> set command_responses" "3 \<notin> set command_responses" "4 \<notin> set command_responses" "5 \<notin> set command_responses" "6 \<notin> set command_responses" "7 \<notin> set command_responses" "8 \<notin> set command_responses" "9 \<notin> set command_responses" "0x0A \<notin> set command_responses" "0x22 \<notin> set command_responses" "0x24 \<notin> set command_responses" "0x26 \<notin> set command_responses" "0x25 \<notin> set command_responses" "0xFE \<notin> set command_responses" "0xC0 \<notin> set command_responses" "0xC2 \<notin> set command_responses" "0xC3 \<notin> set command_responses" "0xC7 \<notin> set command_responses" "0xE0 \<notin> set command_responses" "0xD1 \<notin> set command_responses" "0xD0 \<notin> set command_responses" "0xD2 \<notin> set command_responses" "0x12 \<notin> set command_responses" "0xFD \<notin> set command_responses"
  by (simp_all add: command_responses_def)

lemma command_responses_other:
  assumes "f \<in> set command_responses"
  shows "f \<noteq> 0" "f \<noteq> 1" "f \<noteq> 2" "f \<noteq> 3" "f \<noteq> 4" "f \<noteq> 5" "f \<noteq> 6" "f \<noteq> 7" "f \<noteq> 8" "f \<noteq> 9" "f \<noteq> 0x0A" "f \<noteq> 0x22" "f \<noteq> 0x24" "f \<noteq> 0x26" "f \<noteq> 0x25" "f \<noteq> 0xFE" "f \<noteq> 0xC0" "f \<noteq> 0xC2" "f \<noteq> 0xC3" "f \<noteq> 0xC7" "f \<noteq> 0xE0" "f \<noteq> 0xD1" "f \<noteq> 0xD0" "f \<noteq> 0xD2" "f \<noteq> 0x12" "f \<noteq> 0xFD"
  using assms not_responses by blast+

lemma response_received:
  assumes "response_to_us m c"
  shows "process_rx_message listen cfs m c = Some (process_command_queue (c\<lparr>commandAwaitingResponse := False\<rparr>))"
proof -
  let ?f = "msg_data m ! 0"
  have f: "get_uint8_at 0 m = Some ?f" using assms by (auto simp: response_to_us_def get_uint8_at_def checked_nth_def)
  have r: "?f \<in> set command_responses" using assms by (simp add: response_to_us_def)
  have "rx_virtual_terminal listen m c = Some (rx_command_response m c)"
    unfolding rx_virtual_terminal_def f Option.bind_lunit
    by (simp only: command_responses_other [OF r] r if_True if_False)
  then show ?thesis
    using assms by (simp add: process_rx_message_def response_to_us_def rx_command_response_def Let_def)
qed

end
