(* ===== verification/Vt_Runs.thy ===== *)
theory Vt_Runs
  imports Vt_Queue
begin

text \<open>
  Every operation of the virtual terminal client is defined and keeps its invariant, whatever it
  receives. The application behind the events is the locale \<open>vt_application\<close>.
\<close>

section \<open>The invariant of the client\<close>

definition needs_pools :: "StateMachineState \<Rightarrow> bool" where
  \<comment> \<open>the states reached only with an object pool\<close>
  "needs_pools s \<longleftrightarrow> s \<notin> {Disconnected, WaitForPartnerVTStatusMessage, SendWorkingSetMasterMessage,
     ReadyForObjectPool, Failed}"

definition unscaled :: "ObjectPoolDataStruct list \<Rightarrow> bool" where
  \<comment> \<open>no pool asks to be scaled\<close>
  "unscaled ps \<longleftrightarrow> (\<forall>p \<in> set ps. autoScaleDataMaskOriginalDimension p = 0
     \<or> autoScaleSoftKeyDesignatorOriginalHeight p = 0)"

definition vt_ok :: "'s vt_client \<Rightarrow> bool" where
  "vt_ok c \<longleftrightarrow> queue_ok (commandQueue c) \<and> length (txFlags c) = 1 \<and> unscaled (objectPools c)
     \<and> (needs_pools (vt_state c) \<longrightarrow> objectPools c \<noteq> [])"

lemma vt_okI:
  "vt_ok c \<Longrightarrow> commandQueue c' = commandQueue c \<Longrightarrow> length (txFlags c') = length (txFlags c) \<Longrightarrow>
   map autoScaleDataMaskOriginalDimension (objectPools c') = map autoScaleDataMaskOriginalDimension (objectPools c) \<Longrightarrow>
   map autoScaleSoftKeyDesignatorOriginalHeight (objectPools c') = map autoScaleSoftKeyDesignatorOriginalHeight (objectPools c) \<Longrightarrow>
   (needs_pools (vt_state c') \<Longrightarrow> objectPools c \<noteq> []) \<Longrightarrow> vt_ok c'"
proof -
  assume a: "vt_ok c" "commandQueue c' = commandQueue c" "length (txFlags c') = length (txFlags c)"
    and m: "map autoScaleDataMaskOriginalDimension (objectPools c') = map autoScaleDataMaskOriginalDimension (objectPools c)"
      "map autoScaleSoftKeyDesignatorOriginalHeight (objectPools c') = map autoScaleSoftKeyDesignatorOriginalHeight (objectPools c)"
    and n: "needs_pools (vt_state c') \<Longrightarrow> objectPools c \<noteq> []"
  have l: "length (objectPools c') = length (objectPools c)" using m(1) by (metis length_map)
  have u: "unscaled ps \<longleftrightarrow> (\<forall>i < length ps. map autoScaleDataMaskOriginalDimension ps ! i = 0
      \<or> map autoScaleSoftKeyDesignatorOriginalHeight ps ! i = 0)" for ps
    unfolding unscaled_def all_set_conv_all_nth by auto
  have "unscaled (objectPools c')" using a(1) unfolding vt_ok_def u m l by blast
  moreover have "objectPools c' \<noteq> []" if "objectPools c \<noteq> []" using that l by auto
  ultimately show ?thesis using a n by (auto simp: vt_ok_def)
qed

text \<open>A transmission changes the number of calls and what was sent.\<close>

definition sends :: "'s vt_client \<Rightarrow> 's vt_client \<Rightarrow> bool" where
  "sends c c' \<longleftrightarrow> (\<exists>n s. c' = c\<lparr>can_calls := n, can_sent := s\<rparr>)"

lemma sends_refl [simp]: "sends c c"
  unfolding sends_def by (rule exI [of _ "can_calls c"], rule exI [of _ "can_sent c"]) simp

lemma sends_trans: "sends a b \<Longrightarrow> sends b c \<Longrightarrow> sends a c"
  unfolding sends_def by (elim exE) (simp, blast)

lemma sends_can_send [simp]: "sends c (snd (can_send m c))" "sends c (snd (send_message_to_vt b p c))"
  unfolding sends_def can_send_def send_message_to_vt_def Let_def snd_conv by blast+

lemma sends_fields:
  assumes "sends c c'"
  shows "vt_state c' = vt_state c" "commandQueue c' = commandQueue c" "txFlags c' = txFlags c"
    "objectPools c' = objectPools c" "clock_ms c' = clock_ms c" "can_accepts c' = can_accepts c"
    "commandAwaitingResponse c' = commandAwaitingResponse c" "lastCommandTimestamp_ms c' = lastCommandTimestamp_ms c"
    "partnerControlFunction c' = partnerControlFunction c" "myControlFunction c' = myControlFunction c"
    "ourAuxiliaryInputs c' = ourAuxiliaryInputs c" "currentObjectPoolState c' = currentObjectPoolState c"
    "assignedAuxiliaryInputDevices c' = assignedAuxiliaryInputDevices c" "vt_status c' = vt_status c"
    "unsupportedFunctions c' = unsupportedFunctions c" "capabilities c' = capabilities c"
    "stateMachineTimestamp_ms c' = stateMachineTimestamp_ms c" "firstTimeInState c' = firstTimeInState c"
    "aux_listeners c' = aux_listeners c" "app_state c' = app_state c"
  using assms by (auto simp: sends_def)

lemma sends_ok: "sends c c' \<Longrightarrow> vt_ok c' = vt_ok c"
  by (auto simp: sends_def vt_ok_def)

lemma connection_sends [simp]:
  "sends c (snd (send_working_set_maintenance b c))" "sends c (snd (send_get_memory n c))"
  "sends c (snd (send_get_number_of_softkeys c))" "sends c (snd (send_get_text_font_data c))"
  "sends c (snd (send_get_hardware c))" "sends c (snd (send_get_versions c))"
  "sends c (snd (send_store_version l c))" "sends c (snd (send_load_version l c))"
  "sends c (snd (send_delete_version l c))" "sends c (snd (send_end_of_object_pool c))"
  "sends c (snd (send_working_set_master c))" "sends c (snd (send_auxiliary_functions_preferred_assignment c))"
  "sends c (snd (send_auxiliary_function_assignment_response i e a c))"
  "sends c (snd (send_auxiliary_input_maintenance c))"
  "sends c (snd (send_auxiliary_input_status_enable_response i e a c))"
  "sends c (snd (send_delete_object_pool c))" "sends c (respond bs c)"
  by (simp_all add: send_working_set_maintenance_def send_get_memory_def send_get_number_of_softkeys_def
      send_get_text_font_data_def send_get_hardware_def send_get_versions_def send_store_version_def
      send_load_version_def send_delete_version_def send_end_of_object_pool_def send_working_set_master_def
      send_auxiliary_functions_preferred_assignment_def send_auxiliary_function_assignment_response_def
      send_auxiliary_input_maintenance_def send_auxiliary_input_status_enable_response_def
      send_delete_object_pool_def respond_def)

lemma vt_set_state_fields [simp]:
  "vt_state (set_state s c) = s" "commandQueue (set_state s c) = commandQueue c" "txFlags (set_state s c) = txFlags c"
  "clock_ms (set_state s c) = clock_ms c" "can_accepts (set_state s c) = can_accepts c"
  "can_calls (set_state s c) = can_calls c" "can_sent (set_state s c) = can_sent c"
  "commandAwaitingResponse (set_state s c) = commandAwaitingResponse c"
  "lastCommandTimestamp_ms (set_state s c) = lastCommandTimestamp_ms c"
  "partnerControlFunction (set_state s c) = partnerControlFunction c"
  "myControlFunction (set_state s c) = myControlFunction c" "ourAuxiliaryInputs (set_state s c) = ourAuxiliaryInputs c"
  "currentObjectPoolState (set_state s c) = currentObjectPoolState c"
  "stateMachineTimestamp_ms (set_state s c) = clock_ms c" "capabilities (set_state s c) = capabilities c"
  "unsupportedFunctions (set_state s c) = unsupportedFunctions c"
  "aux_listeners (set_state s c) = aux_listeners c" "app_state (set_state s c) = app_state c"
  "partner_address_valid (set_state s c) = partner_address_valid c"
  "sendWorkingSetMaintenance (set_state s c) = sendWorkingSetMaintenance c"
  "sendAuxiliaryMaintenance (set_state s c) = sendAuxiliaryMaintenance c"
  "assignedAuxiliaryInputDevices (set_state s c) = assignedAuxiliaryInputDevices c"
  by (simp_all add: set_state_def Let_def)

lemma set_state_pools [simp]:
  "map autoScaleDataMaskOriginalDimension (objectPools (set_state s c)) = map autoScaleDataMaskOriginalDimension (objectPools c)"
  "map autoScaleSoftKeyDesignatorOriginalHeight (objectPools (set_state s c)) = map autoScaleSoftKeyDesignatorOriginalHeight (objectPools c)"
  "map objectPoolSize (objectPools (set_state s c)) = map objectPoolSize (objectPools c)"
  "objectPools (set_state s c) = [] \<longleftrightarrow> objectPools c = []"
  "s \<noteq> Disconnected \<Longrightarrow> objectPools (set_state s c) = objectPools c"
  "s \<noteq> Disconnected \<Longrightarrow> vt_status (set_state s c) = vt_status c"
  by (simp_all add: set_state_def Let_def comp_def)

lemma set_state_ok: "vt_ok c \<Longrightarrow> (needs_pools s \<Longrightarrow> objectPools c \<noteq> []) \<Longrightarrow> vt_ok (set_state s c)"
  by (rule vt_okI [of c]) simp_all

lemma set_state_ok_plain [simp]:
  "vt_ok c \<Longrightarrow> vt_ok (set_state Disconnected c)" "vt_ok c \<Longrightarrow> vt_ok (set_state Failed c)"
  by (rule set_state_ok, assumption, simp add: needs_pools_def)+

lemma needs_pools_pools: "vt_ok c \<Longrightarrow> needs_pools (vt_state c) \<Longrightarrow> objectPools c \<noteq> []"
  by (simp add: vt_ok_def)

section \<open>The state machine\<close>

lemma send_then_eq: "send_then f s c = (if fst (f c) then set_state s (snd (f c)) else snd (f c))"
  by (simp add: send_then_def case_prod_beta)

lemma send_then_ok:
  assumes "vt_ok c" "sends c (snd (f c))" "needs_pools s \<Longrightarrow> objectPools c \<noteq> []"
  shows "vt_ok (send_then f s c)"
proof -
  have "vt_ok (snd (f c))" using assms(1,2) by (simp add: sends_ok)
  then show ?thesis using assms(3) sends_fields [OF assms(2)] by (auto simp: send_then_eq intro: set_state_ok)
qed

lemma fail_on_timeout_ok: "vt_ok c \<Longrightarrow> vt_ok (fail_on_timeout c)"
  by (simp add: fail_on_timeout_def)

lemma ready_for_object_pool_ok:
  assumes "vt_ok c" shows "vt_ok (ready_for_object_pool c)"
proof -
  define c1 where "c1 = (if status_expired c then set_state Disconnected c else c)"
  have c1: "vt_ok c1" using assms by (simp add: c1_def)
  show ?thesis
  proof (cases "objectPools c1 = []")
    case True
    then show ?thesis using c1 by (simp add: ready_for_object_pool_def c1_def [symmetric])
  next
    case False
    define c2 where "c2 = snd (send_working_set_maintenance True (set_state SendGetMemory c1))"
    have "vt_ok c2" unfolding c2_def
      using set_state_ok [OF c1, of SendGetMemory] False sends_ok [OF connection_sends(1)] by auto
    then have "vt_ok (c2\<lparr>lastWorkingSetMaintenanceTimestamp_ms := clock_ms c2, sendWorkingSetMaintenance := True,
        sendAuxiliaryMaintenance := True\<rparr>)" by (simp add: vt_ok_def)
    then show ?thesis
      using False by (simp add: ready_for_object_pool_def c1_def [symmetric] c2_def [symmetric] Let_def)
  qed
qed

lemma send_versions_ok: "vt_ok c \<Longrightarrow> vt_ok (send_versions c)"
  by (auto simp: send_versions_def split: list.split intro!: send_then_ok)

lemma send_label_defined:
  assumes "vt_ok c" "objectPools c \<noteq> []" "\<And>l. sends c (snd (f l c))"
  shows "\<exists>c'. send_label f s c = Some c' \<and> vt_ok c'"
  using assms by (auto simp: send_label_def split: list.split intro!: send_then_ok)

lemma mark_uploaded_fields [simp]:
  "commandQueue (mark_uploaded i c) = commandQueue c" "txFlags (mark_uploaded i c) = txFlags c"
  "vt_state (mark_uploaded i c) = vt_state c"
  by (simp_all add: mark_uploaded_def)

lemma map_list_update_same: "f x = f (xs ! i) \<Longrightarrow> map f (xs[i := x]) = map f xs"
  by (cases "i < length xs") (simp_all add: map_update list_update_same_conv list_update_beyond)

lemma mark_uploaded_pools [simp]:
  "map autoScaleDataMaskOriginalDimension (objectPools (mark_uploaded i c)) = map autoScaleDataMaskOriginalDimension (objectPools c)"
  "map autoScaleSoftKeyDesignatorOriginalHeight (objectPools (mark_uploaded i c)) = map autoScaleSoftKeyDesignatorOriginalHeight (objectPools c)"
  by (simp_all add: mark_uploaded_def map_list_update_same)

lemma mark_uploaded_ok: "vt_ok c \<Longrightarrow> vt_ok (mark_uploaded i c)"
  by (rule vt_okI [of c]) (simp_all add: needs_pools_pools)

lemma mark_uploaded_empty [simp]: "objectPools (mark_uploaded i c) = [] \<longleftrightarrow> objectPools c = []"
  by (simp add: mark_uploaded_def)

lemma upload_state_ok [simp]: "vt_ok (c\<lparr>currentObjectPoolState := u\<rparr>) = vt_ok c"
  by (simp add: vt_ok_def)

lemma upload_pools_ok: "vt_ok c \<Longrightarrow> vt_ok (snd (upload_pools i n b c)) \<and> (objectPools c \<noteq> [] \<longrightarrow> objectPools (snd (upload_pools i n b c)) \<noteq> [])"
proof (induction n arbitrary: i b c)
  case 0
  then show ?case by simp
next
  case (Suc n)
  have s: "vt_ok (snd (can_send m c))" "objectPools (snd (can_send m c)) = objectPools c" for m
    using Suc.prems sends_ok [OF sends_can_send(1)] sends_fields(4) [OF sends_can_send(1)] by auto
  show ?case
    using Suc.prems s Suc.IH mark_uploaded_ok [OF Suc.prems]
    by (cases "currentObjectPoolState c") (auto simp: Let_def case_prod_beta)
qed

lemma upload_object_pool_defined:
  assumes "vt_ok c" "objectPools c \<noteq> []"
  shows "\<exists>c'. upload_object_pool c = Some c' \<and> vt_ok c'"
proof -
  have "\<not> get_any_pool_needs_scaling (objectPools c)"
    using assms(1) by (auto simp: get_any_pool_needs_scaling_def vt_ok_def unscaled_def)
  then show ?thesis
    using upload_pools_ok [OF assms(1), of 0 "length (objectPools c)" True] assms(2)
    by (auto simp: upload_object_pool_def case_prod_beta intro: set_state_ok)
qed

section \<open>Auxiliary inputs\<close>

lemma map_of_aux_put: "map_of xs k' \<noteq> None \<or> k' = k \<Longrightarrow> map_of (aux_put k v xs) k' \<noteq> None"
  by (induction k v xs rule: aux_put.induct) (auto split: if_splits)

lemma aux_put_ok [simp]: "vt_ok (c\<lparr>ourAuxiliaryInputs := a\<rparr>) = vt_ok c"
  by (simp add: vt_ok_def)

lemma update_status_of_defined:
  assumes "vt_ok c" "map_of (ourAuxiliaryInputs c) k \<noteq> None"
  shows "\<exists>r c'. update_auxiliary_input_status_of k c = Some (r, c') \<and> vt_ok c' \<and> vt_state c' = vt_state c
     \<and> objectPools c' = objectPools c \<and> currentObjectPoolState c' = currentObjectPoolState c
     \<and> (\<forall>j. map_of (ourAuxiliaryInputs c) j \<noteq> None \<longrightarrow> map_of (ourAuxiliaryInputs c') j \<noteq> None)"
proof -
  obtain a where a: "map_of (ourAuxiliaryInputs c) k = Some a" using assms(2) by blast
  define d where "d = c\<lparr>ourAuxiliaryInputs := aux_put k (a\<lparr>lastStatusUpdate := ucast (clock_ms c), hasInteraction := False\<rparr>) (ourAuxiliaryInputs c)\<rparr>"
  have m: "\<forall>j. map_of (ourAuxiliaryInputs c) j \<noteq> None \<longrightarrow> map_of (ourAuxiliaryInputs d) j \<noteq> None"
    by (simp add: d_def map_of_aux_put)
  have d: "vt_ok d" "vt_state d = vt_state c" "objectPools d = objectPools c" "currentObjectPoolState d = currentObjectPoolState c"
    using assms(1) by (simp_all add: d_def)
  have s: "\<exists>r c'. f d = (r, c') \<and> vt_ok c' \<and> vt_state c' = vt_state c
     \<and> objectPools c' = objectPools c \<and> currentObjectPoolState c' = currentObjectPoolState c
     \<and> (\<forall>j. map_of (ourAuxiliaryInputs c) j \<noteq> None \<longrightarrow> map_of (ourAuxiliaryInputs c') j \<noteq> None)"
    if "sends d (snd (f d))" for f :: "'a vt_client \<Rightarrow> bool \<times> 'a vt_client"
    using that d m sends_ok [OF that] sends_fields [OF that] by (cases "f d") simp
  show ?thesis
    unfolding update_auxiliary_input_status_of_def a Option.bind_lunit Let_def d_def [symmetric]
    using s [of "send_message_to_vt b Priority3" for b] s [of "can_send x" for x] assms(1) by auto
qed

lemma update_inputs_defined:
  assumes "vt_ok c" "\<forall>k \<in> set ks. map_of (ourAuxiliaryInputs c) k \<noteq> None"
  shows "\<exists>c'. update_inputs ks c = Some c' \<and> vt_ok c' \<and> vt_state c' = vt_state c
     \<and> objectPools c' = objectPools c \<and> currentObjectPoolState c' = currentObjectPoolState c"
  using assms
proof (induction ks arbitrary: c)
  case (Cons k ks)
  obtain r c1 where c1: "update_auxiliary_input_status_of k c = Some (r, c1)" "vt_ok c1" "vt_state c1 = vt_state c"
      "objectPools c1 = objectPools c" "currentObjectPoolState c1 = currentObjectPoolState c"
      "\<forall>j. map_of (ourAuxiliaryInputs c) j \<noteq> None \<longrightarrow> map_of (ourAuxiliaryInputs c1) j \<noteq> None"
    using update_status_of_defined [OF Cons.prems(1), of k] Cons.prems(2) by auto
  have "\<forall>j \<in> set ks. map_of (ourAuxiliaryInputs c1) j \<noteq> None" using c1(6) Cons.prems(2) by simp
  from Cons.IH [OF c1(2) this] c1 show ?case by simp
qed simp

lemma update_auxiliary_input_status_defined:
  assumes "vt_ok c"
  shows "\<exists>c'. update_auxiliary_input_status c = Some c' \<and> vt_ok c' \<and> vt_state c' = vt_state c
     \<and> objectPools c' = objectPools c \<and> currentObjectPoolState c' = currentObjectPoolState c"
  unfolding update_auxiliary_input_status_def
  by (rule update_inputs_defined [OF assms]) (auto simp: map_of_eq_None_iff)

lemma update_auxiliary_input_defined:
  assumes "vt_ok c" shows "\<exists>c'. update_auxiliary_input k v1 v2 b c = Some c' \<and> vt_ok c'"
proof (cases "map_of (ourAuxiliaryInputs c) k")
  case (Some a)
  define d where "d = c\<lparr>ourAuxiliaryInputs := aux_put k
    (a\<lparr>value1 := v1, value2 := v2, controlLocked := b, hasInteraction := True\<rparr>) (ourAuxiliaryInputs c)\<rparr>"
  have d: "vt_ok d" "map_of (ourAuxiliaryInputs d) k \<noteq> None"
    using assms by (simp_all add: d_def map_of_aux_put)
  from update_status_of_defined [OF this] assms Some show ?thesis
    by (auto simp: update_auxiliary_input_def d_def [symmetric])
qed (use assms in \<open>simp add: update_auxiliary_input_def\<close>)

section \<open>One update\<close>

lemma state_update_defined:
  assumes "vt_ok c" shows "\<exists>c'. state_update c = Some c' \<and> vt_ok c'"
proof -
  have p: "needs_pools (vt_state c) \<Longrightarrow> objectPools c \<noteq> []" using assms by (rule needs_pools_pools)
  have disc: "vt_ok (disconnected_update c)"
  proof -
    have "vt_ok (c\<lparr>sendWorkingSetMaintenance := False, sendAuxiliaryMaintenance := False, unsupportedFunctions := []\<rparr>)"
      using assms by (simp add: vt_ok_def)
    then show ?thesis by (auto simp: disconnected_update_def Let_def needs_pools_def intro!: set_state_ok)
  qed
  have fail: "vt_ok (failed_update c)"
  proof -
    have "vt_ok (c\<lparr>sendWorkingSetMaintenance := False, sendAuxiliaryMaintenance := False\<rparr>)"
      using assms by (simp add: vt_ok_def)
    then show ?thesis by (auto simp: failed_update_def Let_def)
  qed
  have conn: "\<exists>c'. connected_update c = Some c' \<and> vt_ok c'"
    using update_auxiliary_input_status_defined [of "if status_expired c then set_state Disconnected c else c"] assms
    by (auto simp: connected_update_def)
  note ok = send_then_ok [OF assms] fail_on_timeout_ok [OF assms] ready_for_object_pool_ok [OF assms]
    send_versions_ok [OF assms] set_state_ok [OF assms]
  show ?thesis
    by (cases "vt_state c"; insert p assms)
       (auto simp: state_update_def needs_pools_def disc fail conn intro!: ok
          send_label_defined upload_object_pool_defined)
qed

lemma set_flag_length [simp]: "length (set_flag m f bs) = length bs"
  by (simp add: set_flag_def Let_def)

lemma txFlags_ok [simp]: "length f = length (txFlags c) \<Longrightarrow> vt_ok (c\<lparr>txFlags := f\<rparr>) = vt_ok c"
  by (simp add: vt_ok_def)

lemma maintenance_time_ok [simp]:
  "vt_ok (c\<lparr>lastWorkingSetMaintenanceTimestamp_ms := t\<rparr>) = vt_ok c"
  "vt_ok (c\<lparr>lastAuxiliaryMaintenanceTimestamp_ms := t\<rparr>) = vt_ok c"
  by (simp_all add: vt_ok_def)

lemma process_flags_ok: "vt_ok c \<Longrightarrow> vt_ok (process_flags f c) \<and> vt_state (process_flags f c) = vt_state c"
proof -
  assume ok: "vt_ok c"
  have w: "vt_ok (snd (send_working_set_maintenance False c))" "vt_state (snd (send_working_set_maintenance False c)) = vt_state c"
    and a: "vt_ok (snd (send_auxiliary_input_maintenance c))" "vt_state (snd (send_auxiliary_input_maintenance c)) = vt_state c"
    using ok sends_ok [OF connection_sends(1)] sends_ok [OF connection_sends(14)]
      sends_fields(1) [OF connection_sends(1)] sends_fields(1) [OF connection_sends(14)] by auto
  show ?thesis using ok w a by (simp add: process_flags_def Let_def case_prod_beta)
qed

lemma process_flag_ok: "vt_ok c \<Longrightarrow> vt_ok (process_flag i j c) \<and> vt_state (process_flag i j c) = vt_state c"
  using process_flags_ok [of "c\<lparr>txFlags := (txFlags c)[i := unset_bit j (txFlags c ! i)]\<rparr>" "of_nat (8 * i + j)"]
  by (simp add: process_flag_def)

lemma fold_keeps: "(\<And>x c. P c \<Longrightarrow> P (f x c)) \<Longrightarrow> P c \<Longrightarrow> P (fold f xs c)"
  by (induction xs arbitrary: c) simp_all

lemma process_all_flags_ok:
  assumes "vt_ok c"
  shows "vt_ok (process_all_flags c)" "vt_state (process_all_flags c) = vt_state c"
proof -
  define s where "s = vt_state c"
  define P where "P \<equiv> \<lambda>c' :: 'a vt_client. vt_ok c' \<and> vt_state c' = s"
  have "P (process_all_flags c)"
    unfolding process_all_flags_def
  proof (rule fold_keeps [where P = P])
    show "P c" using assms by (simp add: P_def s_def)
    fix i c' assume "P c'"
    then have "P (fold (process_flag i) [0..<8] c')"
      by (intro fold_keeps [where P = P]) (simp_all add: P_def process_flag_ok)
    with \<open>P c'\<close> show "P (if txFlags c' ! i \<noteq> 0 then fold (process_flag i) [0..<8] c' else c')" by simp
  qed
  then show "vt_ok (process_all_flags c)" "vt_state (process_all_flags c) = vt_state c" by (simp_all add: P_def s_def)
qed

lemma cyclic_messages_ok: "vt_ok c \<Longrightarrow> vt_ok (cyclic_messages c) \<and> vt_state (cyclic_messages c) = vt_state c"
  by (auto simp: cyclic_messages_def Let_def process_all_flags_ok)

lemma only_commands_ok:
  "only_commands c c' \<Longrightarrow> vt_ok c \<Longrightarrow> queue_ok (commandQueue c') \<Longrightarrow> vt_ok c'"
  by (simp add: vt_ok_def only_commands_fields)

lemma process_command_queue_vt_ok: "vt_ok c \<Longrightarrow> vt_ok (process_command_queue c)"
  by (rule only_commands_ok [OF process_command_queue_frame], assumption)
     (rule process_command_queue_ok, simp add: vt_ok_def)

lemma vt_update_defined:
  assumes "vt_ok c" shows "\<exists>c'. vt_update c = Some c' \<and> vt_ok c'"
proof -
  obtain c1 where c1: "(if partnerControlFunction c \<noteq> None then state_update c else Some (set_state Disconnected c)) = Some c1"
      "vt_ok c1"
    using state_update_defined [OF assms] assms by (cases "partnerControlFunction c = None") auto
  have "vt_ok (process_command_queue (cyclic_messages c1))"
    using cyclic_messages_ok [OF c1(2)] by (intro process_command_queue_vt_ok) simp
  then have "vt_ok ((process_command_queue (cyclic_messages c1))\<lparr>firstTimeInState := b\<rparr>)" for b by (simp add: vt_ok_def)
  with \<open>vt_ok (process_command_queue (cyclic_messages c1))\<close> show ?thesis
    unfolding vt_update_def c1(1) Option.bind_lunit by (simp add: Let_def)
qed

section \<open>Reading a message\<close>

lemma get_uint8_in: "unat k < length (msg_data m) \<Longrightarrow> get_uint8_at k m = Some (msg_data m ! unat k)"
  by (simp add: get_uint8_at_def checked_nth_def)

lemma get_bytes_in:
  "unat k + n \<le> length (msg_data m) \<Longrightarrow> length (msg_data m) < 2 ^ 32 \<Longrightarrow> \<exists>v. get_bytes_at n k m = Some v"
  by (simp add: get_bytes_at_ok)

lemma getters_in:
  assumes "length (msg_data m) < 2 ^ 32"
  shows "unat k < length (msg_data m) \<Longrightarrow> \<exists>v. get_uint8_at k m = Some v"
    "unat k + 2 \<le> length (msg_data m) \<Longrightarrow> \<exists>v. get_uint16_at k f m = Some v"
    "unat k + 3 \<le> length (msg_data m) \<Longrightarrow> \<exists>v. get_uint24_at k f m = Some v"
    "unat k + 4 \<le> length (msg_data m) \<Longrightarrow> \<exists>v. get_uint32_at k f m = Some v"
    "unat k + 8 \<le> length (msg_data m) \<Longrightarrow> \<exists>v. get_uint64_at k f m = Some v"
    "unat k < length (msg_data m) \<Longrightarrow> \<exists>v. get_bool_at k i n m = Some v"
  using get_bytes_in [OF _ assms]
  by (auto simp: get_uint8_in get_uint16_at_def get_uint24_at_def get_uint32_at_def get_uint64_at_def
      get_bool_at_def Let_def)

section \<open>The application behind the events\<close>

text \<open>What an application may do while it listens: queue commands and change its own state.\<close>

inductive issues :: "'s vt_client \<Rightarrow> 's vt_client \<Rightarrow> bool" where
  issues_nothing: "issues c c"
| issues_command: "issues c c1 \<Longrightarrow> command_ok d rep \<Longrightarrow> queue_command d rep c1 = Some (r, c2) \<Longrightarrow> issues c c2"
| issues_state: "issues c c1 \<Longrightarrow> issues c (c1\<lparr>app_state := a\<rparr>)"

lemma issues_ok: "issues c c' \<Longrightarrow> vt_ok c \<Longrightarrow> vt_ok c' \<and> vt_state c' = vt_state c"
proof (induction rule: issues.induct)
  case (issues_command c c1 d rep r c2)
  have "queue_ok (commandQueue c2)"
    using queue_command_defined [of c1 d rep] issues_command by (auto simp: vt_ok_def)
  then show ?case
    using issues_command queue_command_frame [of d rep c1 r c2] only_commands_ok only_commands_fields(1) by metis
qed (simp_all add: vt_ok_def)

definition proper_message :: "CANMessage \<Rightarrow> bool" where
  \<comment> \<open>a string as long as stated, labels without zero bytes, a known sender\<close>
  "proper_message m \<longleftrightarrow> length (msg_data m) < 2 ^ 32
     \<and> (8 \<le> length (msg_data m) \<and> msg_data m ! 0 = VTChangeStringValueMessage \<longrightarrow>
          4 + unat (msg_data m ! 3) \<le> length (msg_data m))
     \<and> (8 \<le> length (msg_data m) \<and> msg_data m ! 0 = GetVersionsResponse \<longrightarrow> 0 \<notin> set (drop 2 (msg_data m)))
     \<and> msg_source m \<noteq> None"

definition fine :: "'s vt_client option \<Rightarrow> bool" where
  "fine x \<longleftrightarrow> (\<exists>c. x = Some c \<and> vt_ok c)"

lemma vt_fine_Some [simp]: "fine (Some c) = vt_ok c"
  by (simp add: fine_def)

lemma vt_fine_bind: "\<exists>v. x = Some v \<Longrightarrow> (\<And>v. fine (f v)) \<Longrightarrow> fine (x \<bind> f)"
  by auto

lemma fine_then: "fine x \<Longrightarrow> (\<And>c. vt_ok c \<Longrightarrow> fine (f c)) \<Longrightarrow> fine (x \<bind> f)"
  by (auto simp: fine_def)

lemma respond_ok [simp]: "vt_ok (respond b c) = vt_ok c"
  using sends_ok [OF connection_sends(17)] .

lemma fine_if: "(b \<Longrightarrow> fine x) \<Longrightarrow> (\<not> b \<Longrightarrow> fine y) \<Longrightarrow> fine (if b then x else y)"
  by simp

lemma fine_let: "fine (f x) \<Longrightarrow> fine (Let x f)"
  by simp

lemma devices_ok [simp]: "vt_ok (c\<lparr>assignedAuxiliaryInputDevices := d\<rparr>) = vt_ok c"
  by (simp add: vt_ok_def)

lemma capabilities_ok [simp]: "vt_ok (c\<lparr>capabilities := d\<rparr>) = vt_ok c"
  by (simp add: vt_ok_def)

lemma response_sends_ok [simp]:
  "vt_ok (snd (send_auxiliary_function_assignment_response i e a c)) = vt_ok c"
  "vt_ok (snd (send_auxiliary_input_status_enable_response i e a c)) = vt_ok c"
  "vt_ok (snd (send_delete_version l c)) = vt_ok c"
  "vt_ok (snd (send_auxiliary_functions_preferred_assignment c)) = vt_ok c"
  by (rule sends_ok, simp)+

lemma check_labels_fine:
  assumes "\<forall>l \<in> set ls. length l = 7 \<and> 0 \<notin> set l" "vt_ok c" "objectPools c \<noteq> []"
  shows "\<exists>b c'. check_labels a ls c = Some (b, c') \<and> vt_ok c' \<and> objectPools c' \<noteq> []"
  using assms
proof (induction ls arbitrary: c)
  case (Cons l ls)
  have t: "takeWhile (\<lambda>b. b \<noteq> 0) l = l" using Cons.prems(1) by (auto simp: takeWhile_eq_all_conv)
  have "objectPools (snd (send_delete_version x c)) = objectPools c" for x
    using sends_fields(4) [OF connection_sends(9)] .
  with Cons.IH [of "snd (send_delete_version (take 7 (l @ [0])) c)"] Cons.prems set_state_ok [OF Cons.prems(2), of SendLoadVersion]
  show ?case by (auto simp: t Let_def)
qed auto

text \<open>The interface of the application: its listeners only issue commands.\<close>

locale vt_application =
  fixes listen :: "'s listener"
  assumes listens: "vt_ok c \<Longrightarrow> \<exists>c'. listen e c = Some c' \<and> issues c c'"
begin

lemma fine_listen: "vt_ok c \<Longrightarrow> (\<And>c'. vt_ok c' \<Longrightarrow> fine (f c')) \<Longrightarrow> fine (listen e c \<bind> f)"
  using listens [of c e] issues_ok by fastforce

lemma listen_fine: "vt_ok c \<Longrightarrow> fine (listen e c)"
  using listens [of c e] issues_ok by (fastforce simp: fine_def)

lemma transaction_in:
  "8 \<le> length (msg_data m) \<Longrightarrow> k < 8 \<Longrightarrow> \<exists>v. transaction_number k m c = Some v"
  by (simp add: transaction_number_def get_uint8_in word_less_nat_alt)

lemma notify_fine: "vt_ok c \<Longrightarrow> fine (notify_inputs listen i v1 v2 k n c)"
proof (induction n arbitrary: k c)
  case (Suc n)
  have "fine (x \<bind> notify_inputs listen i v1 v2 (Suc k) n)" if "fine x" for x
    using that Suc.IH by (auto simp: fine_def)
  then show ?case using Suc.prems listen_fine by (auto split: option.split)
qed simp

end

section \<open>Every message is processed\<close>

text \<open>The messages that only change the state of the connection.\<close>

lemma answers_fine:
  assumes "vt_ok c" "8 \<le> length (msg_data m)" "length (msg_data m) < 2 ^ 32"
  shows "fine (rx_status m c)" "fine (rx_get_memory m c)" "fine (rx_get_number_of_softkeys m c)"
    "fine (rx_get_text_font_data m c)" "fine (rx_load_version m c)" "fine (rx_store_version m c)"
    "fine (rx_unsupported_function m c)" "fine (rx_acknowledge m c)"
proof -
  note g = getters_in [OF assms(3)] and p = needs_pools_pools [OF assms(1)]
  show "fine (rx_status m c)" unfolding rx_status_def
    by (intro vt_fine_bind g; use assms in \<open>simp add: vt_ok_def\<close>)
  have v: "vt_ok (set_state (if b = 0 then SendGetNumberSoftkeys else Failed) (c\<lparr>capabilities := k\<rparr>))"
    if "needs_pools (vt_state c)" for b :: u8 and k
    using p [OF that] assms(1) by (intro set_state_ok) (simp_all add: vt_ok_def)
  show "fine (rx_get_memory m c)" unfolding rx_get_memory_def
    by (intro fine_if vt_fine_bind g fine_let) (use assms v in \<open>auto simp: needs_pools_def\<close>)
  have w: "vt_ok (set_state s (c\<lparr>capabilities := k\<rparr>))" if "needs_pools (vt_state c)" for s k
    using p [OF that] assms(1) by (intro set_state_ok) (simp_all add: vt_ok_def)
  show "fine (rx_get_number_of_softkeys m c)" "fine (rx_get_text_font_data m c)"
    unfolding rx_get_number_of_softkeys_def rx_get_text_font_data_def
    by (intro fine_if vt_fine_bind g; use assms w in \<open>auto simp: needs_pools_def\<close>)+
  have n: "needs_pools (vt_state c) \<Longrightarrow> vt_ok (set_state s c)" for s
    using p assms(1) by (intro set_state_ok) simp_all
  have a: "vt_ok (send_preferred_assignment d) = vt_ok d" for d :: "'a vt_client"
    by (simp add: send_preferred_assignment_def)
  show "fine (rx_load_version m c)" "fine (rx_store_version m c)"
    unfolding rx_load_version_def rx_store_version_def
    by (intro fine_if vt_fine_bind g; use assms n in \<open>auto simp: needs_pools_def a\<close>)+
  show "fine (rx_unsupported_function m c)" unfolding rx_unsupported_function_def
    by (intro vt_fine_bind g; use assms in \<open>simp add: vt_ok_def\<close>)
  show "fine (rx_acknowledge m c)" unfolding rx_acknowledge_def
    by (intro vt_fine_bind g; use assms in auto)
qed

lemma send_preferred_assignment_ok [simp]: "vt_ok (send_preferred_assignment c) = vt_ok c"
  by (simp add: send_preferred_assignment_def)

lemma pool_answers_fine:
  assumes "vt_ok c" "8 \<le> length (msg_data m)" "length (msg_data m) < 2 ^ 32"
    "msg_data m ! 0 = GetVersionsResponse \<longrightarrow> 0 \<notin> set (drop 2 (msg_data m))"
  shows "fine (rx_get_hardware m c)" "fine (rx_end_of_object_pool m c)"
    "msg_data m ! 0 = GetVersionsResponse \<Longrightarrow> fine (rx_get_versions m c)"
proof -
  note g = getters_in [OF assms(3)] and p = needs_pools_pools [OF assms(1)]
  have w: "vt_ok (set_state s (c\<lparr>capabilities := k\<rparr>))" if "needs_pools (vt_state c)" for s k
    using p [OF that] assms(1) by (intro set_state_ok) (simp_all add: vt_ok_def)
  show "fine (rx_get_hardware m c)" unfolding rx_get_hardware_def
    by (intro fine_if vt_fine_bind g fine_let) (use assms w in \<open>auto simp: needs_pools_def\<close>)
  show "fine (rx_end_of_object_pool m c)"
  proof (cases "vt_state c = WaitForEndOfObjectPoolResponse")
    case True
    then have ne: "objectPools c \<noteq> []" using p by (simp add: needs_pools_def)
    define c1 where "c1 = c\<lparr>objectPools := map (\<lambda>p. p\<lparr>scaledObjectPool := []\<rparr>) (objectPools c)\<rparr>"
    have c1: "vt_ok c1" by (rule vt_okI [OF assms(1)]) (simp_all add: c1_def comp_def ne)
    obtain q qs where q: "objectPools c1 = q # qs" using ne by (cases "objectPools c") (simp_all add: c1_def)
    have s: "vt_ok (set_state s c1)" for s using c1 q by (intro set_state_ok) simp_all
    show ?thesis unfolding rx_end_of_object_pool_def c1_def [symmetric] Let_def q
      by (intro fine_if vt_fine_bind g) (use assms s in auto)
  qed (use assms(1) in \<open>simp add: rx_end_of_object_pool_def\<close>)
  assume f: "msg_data m ! 0 = GetVersionsResponse"
  show "fine (rx_get_versions m c)"
  proof (cases "vt_state c = WaitForGetVersionsResponse")
    case True
    then have ne: "objectPools c \<noteq> []" using p by (simp add: needs_pools_def)
    then obtain q qs where q: "objectPools c = q # qs" by (cases "objectPools c") simp_all
    have u: "vt_ok (set_state UploadObjectPool d)" if "vt_ok d" "objectPools d \<noteq> []" for d :: "'a vt_client"
      using that by (intro set_state_ok) simp_all
    have l: "fine (check_labels (versionLabel q) (map (\<lambda>i. take 7 (drop (2 + 7 * i) (msg_data m))) [0..<unat n]) c
          \<bind> (\<lambda>(labelMatched, c1). Some (if labelMatched then c1 else set_state UploadObjectPool c1)))"
      if n: "2 + 7 * unat n \<le> length (msg_data m)" for n :: u8
    proof -
      have "length (take 7 (drop (2 + 7 * i) (msg_data m))) = 7 \<and> 0 \<notin> set (take 7 (drop (2 + 7 * i) (msg_data m)))"
        if "i < unat n" for i
      proof
        have "7 * i + 7 \<le> 7 * unat n" using that by simp
        then show "length (take 7 (drop (2 + 7 * i) (msg_data m))) = 7" using n by simp
        have "set (take 7 (drop (2 + 7 * i) (msg_data m))) \<subseteq> set (drop 2 (msg_data m))"
          using set_drop_subset_set_drop [of 2 "2 + 7 * i" "msg_data m"] set_take_subset by fastforce
        then show "0 \<notin> set (take 7 (drop (2 + 7 * i) (msg_data m)))" using f assms(4) by blast
      qed
      then have "\<exists>b c'. check_labels (versionLabel q) (map (\<lambda>i. take 7 (drop (2 + 7 * i) (msg_data m))) [0..<unat n]) c
          = Some (b, c') \<and> vt_ok c' \<and> objectPools c' \<noteq> []"
        by (intro check_labels_fine [OF _ assms(1) ne]) auto
      then show ?thesis using u by auto
    qed
    show ?thesis unfolding rx_get_versions_def q list.case
      by (intro fine_if vt_fine_bind [where x = "get_uint8_at 1 m"] g l) (use assms u [OF assms(1) ne] in auto)
  qed (use assms(1) in \<open>simp add: rx_get_versions_def\<close>)
qed

lemma auxiliary_fine:
  assumes "vt_ok c" "8 \<le> length (msg_data m)" "length (msg_data m) < 2 ^ 32"
  shows "fine (rx_auxiliary_input_enable m c)" "fine (rx_auxiliary_assignment m c)"
proof -
  note g = getters_in [OF assms(3)]
  show "fine (rx_auxiliary_input_enable m c)" unfolding rx_auxiliary_input_enable_def
    by (intro vt_fine_bind g) (use assms in \<open>auto split: option.split\<close>)
  have l: "14 \<le> length (msg_data m)" if "get_data_length m = 14"
  proof -
    have "unat (get_data_length m) = length (msg_data m)"
      using assms(3) by (simp add: get_data_length_def unat_of_nat)
    then show ?thesis using that by simp
  qed
  show "fine (rx_auxiliary_assignment m c)" unfolding rx_auxiliary_assignment_def
    by (intro fine_if vt_fine_bind g fine_let) (use assms l in \<open>auto split: prod.split\<close>)
qed

lemma rx_command_response_ok: "vt_ok c \<Longrightarrow> vt_ok (rx_command_response m c)"
proof -
  assume "vt_ok c"
  then have "vt_ok (c\<lparr>commandAwaitingResponse := False\<rparr>)" by (simp add: vt_ok_def)
  then show ?thesis using \<open>vt_ok c\<close> by (simp add: rx_command_response_def process_command_queue_vt_ok)
qed

lemma rx_input_device_fine:
  assumes "vt_ok c" "8 \<le> length (msg_data m)" "length (msg_data m) < 2 ^ 32" "msg_source m \<noteq> None"
  shows "fine (rx_input_device cfs m c)"
proof -
  note g = getters_in [OF assms(3)]
  show ?thesis unfolding rx_input_device_def
    by (intro vt_fine_bind g fine_if) (use assms in auto)
qed

context vt_application
begin

lemma events_fine:
  assumes "vt_ok c" "8 \<le> length (msg_data m)" "length (msg_data m) < 2 ^ 32"
  shows "fine (rx_key f e listen m c)" "fine (rx_pointing listen m c)" "fine (rx_select_input listen m c)"
    "fine (rx_esc listen m c)" "fine (rx_change_numeric_value listen m c)" "fine (rx_change_active_mask listen m c)"
    "fine (rx_change_soft_key_mask listen m c)" "fine (rx_user_layout listen m c)"
    "fine (rx_audio_termination listen m c)" "fine (rx_auxiliary_input_status listen m c)"
proof -
  note g = getters_in [OF assms(3)] and i = fine_if fine_let fine_listen vt_fine_bind
  show "fine (rx_key f e listen m c)" unfolding rx_key_def
    by (intro i g transaction_in) (use assms in auto)
  show "fine (rx_esc listen m c)" unfolding rx_esc_def
    by (intro i g transaction_in) (use assms in auto)
  show "fine (rx_change_numeric_value listen m c)" unfolding rx_change_numeric_value_def
    by (intro i g transaction_in) (use assms in auto)
  show "fine (rx_change_active_mask listen m c)" unfolding rx_change_active_mask_def
    by (intro i g) (use assms in auto)
  show "fine (rx_change_soft_key_mask listen m c)" unfolding rx_change_soft_key_mask_def
    by (intro i g) (use assms in auto)
  show "fine (rx_auxiliary_input_status listen m c)" unfolding rx_auxiliary_input_status_def
    by (intro i g notify_fine) (use assms in auto)
  have p: "fine ((if b then listen x c else Some c) \<bind> h)" if "\<And>c'. vt_ok c' \<Longrightarrow> fine (h c')" for b x h
    by (cases b) (use that fine_listen [OF assms(1) that] assms(1) in simp_all)
  show "fine (rx_pointing listen m c)" unfolding rx_pointing_def
    by (intro fine_if fine_let p vt_fine_bind g) (use assms in auto)
  show "fine (rx_select_input listen m c)" unfolding rx_select_input_def
    by (intro i g transaction_in) (use assms g in auto)
  show "fine (rx_audio_termination listen m c)" unfolding rx_audio_termination_def
    by (intro i g) (use assms g in auto)
  show "fine (rx_user_layout listen m c)" unfolding rx_user_layout_def
    by (intro vt_fine_bind [where x = "get_uint16_at k LittleEndian m" for k]
        vt_fine_bind [where x = "get_bool_at k l n m" for k l n] fine_listen g assms(1))
       (use assms in \<open>auto simp: Let_def intro!: vt_fine_bind g fine_listen\<close>)
qed

lemma rx_change_string_fine:
  assumes "vt_ok c" "8 \<le> length (msg_data m)" "length (msg_data m) < 2 ^ 32"
    "4 + unat (msg_data m ! 3) \<le> length (msg_data m)"
  shows "fine (rx_change_string_value listen m c)"
proof -
  note g = getters_in [OF assms(3)]
  have b: "get_uint8_at 3 m = Some (msg_data m ! 3)" using assms by (simp add: get_uint8_in)
  have l: "\<not> length (msg_data m) < 4 + unat (msg_data m ! 3)" using assms(4) by simp
  show ?thesis unfolding rx_change_string_value_def b Option.bind_lunit if_not_P [OF l]
    by (intro vt_fine_bind g fine_listen assms(1)) (use assms in auto)
qed

lemma rx_virtual_terminal_fine:
  assumes "vt_ok c" "8 \<le> length (msg_data m)" "proper_message m"
  shows "fine (rx_virtual_terminal listen m c)"
proof -
  let ?f = "msg_data m ! 0"
  have l: "length (msg_data m) < 2 ^ 32" and st: "?f = 8 \<Longrightarrow> 4 + unat (msg_data m ! 3) \<le> length (msg_data m)"
    and lb: "?f = 0xE0 \<longrightarrow> 0 \<notin> set (drop 2 (msg_data m))"
    using assms(2,3) by (auto simp: proper_message_def)
  have f: "get_uint8_at 0 m = Some ?f" using assms(2) by (intro get_uint8_in [where k = 0, simplified]) auto
  note a = assms(1,2) l
  show ?thesis unfolding rx_virtual_terminal_def f Option.bind_lunit
    by (intro fine_if events_fine [OF a] answers_fine [OF a] pool_answers_fine [OF a lb] auxiliary_fine [OF a]
        rx_change_string_fine [OF a st])
       (use assms(1) rx_command_response_ok [OF assms(1)] in auto)
qed

lemma process_rx_message_fine:
  assumes "vt_ok c" "proper_message m"
  shows "\<exists>c'. process_rx_message listen cfs m c = Some c' \<and> vt_ok c'"
proof -
  have l: "length (msg_data m) < 2 ^ 32" and s: "msg_source m \<noteq> None" using assms(2) by (auto simp: proper_message_def)
  have "fine (process_rx_message listen cfs m c)"
    unfolding process_rx_message_def Let_def
    by (intro fine_if rx_virtual_terminal_fine answers_fine rx_input_device_fine) (use assms l s in auto)
  then show ?thesis by (simp add: fine_def)
qed

end

end
