(* ===== verification/Vt_Flow.thy ===== *)
theory Vt_Flow
  imports Vt_Runs
begin

text \<open>
  Runs of the virtual terminal client, any sequence of messages, updates and calls, are defined; and while a
  command waits for its response no other is sent.
\<close>

section \<open>Runs\<close>

text \<open>What happens to the client: messages, updates, time, calls of the application and of the
  transport layer.\<close>

datatype vt_input =
    Message CANMessage
  | Update
  | Clock u32
  | Command "u8 list" bool
  | PoolPointer u8 "u8 list option" u32 "u8 list"
  | PoolVector u8 "u8 list option" "u8 list"
  | PoolCallback u8 u32 "(u32 \<Rightarrow> u32 \<Rightarrow> u32 \<Rightarrow> u8 list option) option" "u8 list"
  | TransferDone u32 "cf option" bool
  | PartnerAddress bool
  | AuxAdd u16
  | AuxRemove u16
  | AuxUpdate u16 u16 u16 bool
  | AuxListeners nat
  | Initialize
  | Terminate
  | Restart

fun vt_react :: "'s listener \<Rightarrow> cf_store \<Rightarrow> vt_input \<Rightarrow> 's vt_client \<Rightarrow> 's vt_client option" where
  "vt_react listen cfs (Message m) c = process_rx_message listen cfs m c"
| "vt_react listen cfs Update c = vt_update c"
| "vt_react listen cfs (Clock t) c = Some (c\<lparr>clock_ms := t\<rparr>)"
| "vt_react listen cfs (Command d rep) c = map_option snd (queue_command d rep c)"
| "vt_react listen cfs (PoolPointer i p n v) c = Some (set_object_pool_pointer i p n v c)"
| "vt_react listen cfs (PoolVector i p v) c = Some (set_object_pool_vector i p v c)"
| "vt_react listen cfs (PoolCallback i n f v) c = Some (register_object_pool_data_chunk_callback i n f v c)"
| "vt_react listen cfs (TransferDone pgn d ok) c = Some (process_callback pgn d ok c)"
| "vt_react listen cfs (PartnerAddress b) c = Some (c\<lparr>partner_address_valid := b\<rparr>)"
| "vt_react listen cfs (AuxAdd k) c = Some (add_auxiliary_input_object_id k c)"
| "vt_react listen cfs (AuxRemove k) c = Some (remove_auxiliary_input_object_id k c)"
| "vt_react listen cfs (AuxUpdate k v1 v2 b) c = update_auxiliary_input k v1 v2 b c"
| "vt_react listen cfs (AuxListeners n) c = Some (c\<lparr>aux_listeners := n\<rparr>)"
| "vt_react listen cfs Initialize c = Some (vt_initialize c)"
| "vt_react listen cfs Terminate c = Some (vt_terminate c)"
| "vt_react listen cfs Restart c = Some (restart_communication c)"

fun vt_run :: "'s listener \<Rightarrow> cf_store \<Rightarrow> vt_input list \<Rightarrow> 's vt_client \<Rightarrow> 's vt_client option" where
  "vt_run listen cfs [] c = Some c"
| "vt_run listen cfs (i # ins) c = do {c' \<leftarrow> vt_react listen cfs i c; vt_run listen cfs ins c'}"

lemma vt_run_append: "vt_run listen cfs (ins @ js) c = vt_run listen cfs ins c \<bind> vt_run listen cfs js"
proof (induction ins arbitrary: c)
  case (Cons i ins)
  then show ?case by (cases "vt_react listen cfs i c") simp_all
qed simp

definition proper_input :: "vt_input \<Rightarrow> bool" where
  "proper_input i \<longleftrightarrow> (case i of Message m \<Rightarrow> proper_message m | Command d rep \<Rightarrow> command_ok d rep | _ \<Rightarrow> True)"

lemma unscaled_update: "unscaled ps \<Longrightarrow> autoScaleDataMaskOriginalDimension p = 0 \<Longrightarrow> unscaled (ps[i := p])"
  unfolding unscaled_def by (auto dest!: subsetD [OF set_update_subset_insert])

lemma put_pool_ok:
  assumes "vt_ok c" "autoScaleDataMaskOriginalDimension p = 0"
  shows "vt_ok (put_pool i p c)"
proof -
  have u: "unscaled (objectPools c)" using assms(1) by (simp add: vt_ok_def)
  then have "unscaled (objectPools c @ replicate n default_pool)" for n
    by (auto simp: unscaled_def default_pool_def)
  then show ?thesis using assms unscaled_update [OF u assms(2)] unscaled_update [OF _ assms(2)]
    by (auto simp: put_pool_def Let_def vt_ok_def)
qed

lemma set_pools_ok:
  assumes "vt_ok c"
  shows "vt_ok (set_object_pool_pointer i p n v c)" "vt_ok (set_object_pool_vector i p v c)"
    "vt_ok (register_object_pool_data_chunk_callback i n f v c)"
  using assms
  by (auto simp: set_object_pool_pointer_def set_object_pool_vector_def register_object_pool_data_chunk_callback_def
      default_pool_def intro!: put_pool_ok split: option.split)

lemma vt_initialize_ok: "vt_ok c \<Longrightarrow> vt_ok (vt_initialize c)"
  by (auto simp: vt_initialize_def Let_def vt_ok_def)

lemma vt_terminate_ok: "vt_ok c \<Longrightarrow> vt_ok (vt_terminate c)"
proof -
  assume ok: "vt_ok c"
  have d: "vt_ok (snd (send_delete_object_pool c))" using ok sends_ok [OF connection_sends(16)] by auto
  have "vt_ok (x\<lparr>shouldTerminate := a, vt_initialized := b\<rparr>)" if "vt_ok x" for x :: "'a vt_client" and a b
    using that by (simp add: vt_ok_def)
  then show ?thesis using ok d by (auto simp: vt_terminate_def Let_def)
qed

lemma plain_inputs_ok:
  "vt_ok c \<Longrightarrow> vt_ok (c\<lparr>clock_ms := t\<rparr>)" "vt_ok c \<Longrightarrow> vt_ok (c\<lparr>partner_address_valid := b\<rparr>)"
  "vt_ok c \<Longrightarrow> vt_ok (c\<lparr>aux_listeners := n\<rparr>)" "vt_ok c \<Longrightarrow> vt_ok (process_callback pgn d ok c)"
  "vt_ok c \<Longrightarrow> vt_ok (add_auxiliary_input_object_id k c)" "vt_ok c \<Longrightarrow> vt_ok (remove_auxiliary_input_object_id k c)"
  by (simp_all add: vt_ok_def process_callback_def add_auxiliary_input_object_id_def remove_auxiliary_input_object_id_def)

lemma vt_constructed_ok: "vt_ok (vt_constructed p m a s)"
  by (simp add: vt_ok_def vt_constructed_def queue_ok_def unscaled_def needs_pools_def)

context vt_application
begin

lemma react_defined:
  assumes "vt_ok c" "proper_input i"
  shows "\<exists>c'. vt_react listen cfs i c = Some c' \<and> vt_ok c'"
proof (cases i)
  case (Command d rep)
  then have "command_ok d rep" using assms(2) by (simp add: proper_input_def)
  then obtain r c' where "queue_command d rep c = Some (r, c')" "queue_ok (commandQueue c')"
    using queue_command_defined [of c d rep] assms(1) by (auto simp: vt_ok_def)
  then show ?thesis using Command assms(1) only_commands_ok [OF queue_command_frame] by simp
next
  case (Message m)
  then show ?thesis using assms process_rx_message_fine [of c m cfs] by (simp add: proper_input_def)
qed (use assms(1) in \<open>simp_all add: vt_update_defined plain_inputs_ok set_pools_ok vt_initialize_ok vt_terminate_ok
    restart_communication_def update_auxiliary_input_defined\<close>)

lemma run_defined:
  assumes "vt_ok c" "\<forall>i \<in> set ins. proper_input i"
  shows "\<exists>c'. vt_run listen cfs ins c = Some c' \<and> vt_ok c'"
  using assms
proof (induction ins arbitrary: c)
  case (Cons i ins)
  obtain c1 where "vt_react listen cfs i c = Some c1" "vt_ok c1"
    using react_defined [OF Cons.prems(1), of i cfs] Cons.prems(2) by auto
  with Cons.IH [of c1] Cons.prems(2) show ?case by simp
qed simp

end

section \<open>One command at a time\<close>

text \<open>The commands among what was sent.\<close>

definition is_command :: "vt_out \<Rightarrow> bool" where
  "is_command m \<longleftrightarrow> (case m of VtMessage pgn d dest p \<Rightarrow> pgn = PGN_ECUtoVirtualTerminal
     \<and> d \<noteq> [] \<and> d ! 0 \<in> set command_responses \<and> d ! 0 \<noteq> DeleteObjectPoolCommand | PoolTransfer n \<Rightarrow> False)"

definition commands_sent :: "'s vt_client \<Rightarrow> vt_out list" where
  "commands_sent c = filter is_command (can_sent c)"

text \<open>A command sent at time \<open>t\<close> by \<open>me\<close> is waiting for the partner \<open>pa\<close>, after the commands \<open>l\<close>.\<close>

definition waiting :: "u32 \<Rightarrow> cf \<Rightarrow> cf option \<Rightarrow> vt_out list \<Rightarrow> 's vt_client \<Rightarrow> bool" where
  "waiting t me pa l c \<longleftrightarrow> commandAwaitingResponse c \<and> lastCommandTimestamp_ms c = t \<and> clock_ms c - t < 1500
     \<and> commands_sent c = l \<and> myControlFunction c = me \<and> partnerControlFunction c = pa"

lemma waiting_blocked: "waiting t me pa l c \<Longrightarrow> blocked c"
  by (simp add: waiting_def blocked_def time_expired_def not_le)

lemma waiting_same:
  "waiting t me pa l c \<Longrightarrow> commandAwaitingResponse c' = commandAwaitingResponse c \<Longrightarrow>
   lastCommandTimestamp_ms c' = lastCommandTimestamp_ms c \<Longrightarrow> clock_ms c' = clock_ms c \<Longrightarrow>
   commands_sent c' = commands_sent c \<Longrightarrow> myControlFunction c' = myControlFunction c \<Longrightarrow>
   partnerControlFunction c' = partnerControlFunction c \<Longrightarrow> waiting t me pa l c'"
  by (simp add: waiting_def)

lemma waiting_process_queue [simp]: "waiting t me pa l c \<Longrightarrow> waiting t me pa l (process_command_queue c)"
  by (auto simp: process_command_queue_eq drain_blocked [OF waiting_blocked])

lemma waiting_queue_command:
  assumes "waiting t me pa l c" "queue_command d rep c = Some (r, c')"
  shows "waiting t me pa l c'"
proof -
  have "d \<noteq> []" using assms(2) by (auto simp: queue_command_def checked_nth_def split: if_splits)
  then have "c' = c \<or> (\<exists>q. c' = c\<lparr>commandQueue := q\<rparr>)"
    using assms(2) waiting_blocked [OF assms(1)] enqueue_frame [of d rep c r c']
    by (auto simp: queue_command_eq send_command_blocked split: if_splits)
  then show ?thesis using assms(1) by (auto simp: waiting_def commands_sent_def)
qed

lemma waiting_issues: "issues c c' \<Longrightarrow> waiting t me pa l c \<Longrightarrow> waiting t me pa l c'"
proof (induction rule: issues.induct)
  case (issues_command c c1 d rep r c2)
  then show ?case by (blast intro: waiting_queue_command)
next
  case (issues_state c c1 a)
  then show ?case by (simp add: waiting_def commands_sent_def)
qed simp

lemma waiting_can_send: "waiting t me pa l c \<Longrightarrow> \<not> is_command m \<Longrightarrow> waiting t me pa l (snd (can_send m c))"
  by (simp add: can_send_def Let_def waiting_def commands_sent_def)

lemma waiting_message:
  "waiting t me pa l c \<Longrightarrow> d ! 0 \<notin> set command_responses \<or> d ! 0 = DeleteObjectPoolCommand \<Longrightarrow>
   waiting t me pa l (snd (send_message_to_vt d p c))"
  unfolding send_message_to_vt_def by (rule waiting_can_send) (auto simp: is_command_def)

abbreviation (input) no_command :: "u8 list \<Rightarrow> bool" where
  "no_command d \<equiv> d ! 0 \<notin> set command_responses \<or> d ! 0 = DeleteObjectPoolCommand"

lemma waiting_respond: "waiting t me pa l c \<Longrightarrow> no_command d \<Longrightarrow> waiting t me pa l (respond d c)"
  unfolding respond_def by (rule waiting_message)

lemma waiting_connection:
  assumes "waiting t me pa l c"
  shows "waiting t me pa l (snd (send_working_set_maintenance b c))" "waiting t me pa l (snd (send_get_memory n c))"
    "waiting t me pa l (snd (send_get_number_of_softkeys c))" "waiting t me pa l (snd (send_get_text_font_data c))"
    "waiting t me pa l (snd (send_get_hardware c))" "waiting t me pa l (snd (send_get_versions c))"
    "waiting t me pa l (snd (send_store_version x c))" "waiting t me pa l (snd (send_load_version x c))"
    "waiting t me pa l (snd (send_delete_version x c))" "waiting t me pa l (snd (send_end_of_object_pool c))"
    "waiting t me pa l (snd (send_working_set_master c))"
    "waiting t me pa l (snd (send_auxiliary_functions_preferred_assignment c))"
    "waiting t me pa l (snd (send_auxiliary_function_assignment_response i e a c))"
    "waiting t me pa l (snd (send_auxiliary_input_maintenance c))"
    "waiting t me pa l (snd (send_auxiliary_input_status_enable_response i e a c))"
    "waiting t me pa l (snd (send_delete_object_pool c))"
  unfolding send_working_set_maintenance_def send_get_memory_def send_get_number_of_softkeys_def
    send_get_text_font_data_def send_get_hardware_def send_get_versions_def send_store_version_def
    send_load_version_def send_delete_version_def send_end_of_object_pool_def send_working_set_master_def
    send_auxiliary_functions_preferred_assignment_def send_auxiliary_function_assignment_response_def
    send_auxiliary_input_maintenance_def send_auxiliary_input_status_enable_response_def
    send_delete_object_pool_def Let_def
  by (intro waiting_message [OF assms] waiting_can_send [OF assms]; simp add: not_responses is_command_def command_responses_def)+

lemma waiting_set_state [simp]: "waiting t me pa l (set_state s c) = waiting t me pa l c"
  by (simp add: waiting_def commands_sent_def)

lemma waiting_send_then:
  "waiting t me pa l (snd (f c)) \<Longrightarrow> waiting t me pa l (send_then f s c)"
  by (simp add: send_then_eq)

lemma waiting_fields [simp]:
  "waiting t me pa l (c\<lparr>lastWorkingSetMaintenanceTimestamp_ms := a\<rparr>) = waiting t me pa l c"
  "waiting t me pa l (c\<lparr>lastAuxiliaryMaintenanceTimestamp_ms := a\<rparr>) = waiting t me pa l c"
  "waiting t me pa l (c\<lparr>sendWorkingSetMaintenance := b1\<rparr>) = waiting t me pa l c"
  "waiting t me pa l (c\<lparr>sendAuxiliaryMaintenance := b1\<rparr>) = waiting t me pa l c"
  "waiting t me pa l (c\<lparr>unsupportedFunctions := u\<rparr>) = waiting t me pa l c"
  "waiting t me pa l (c\<lparr>txFlags := fl\<rparr>) = waiting t me pa l c"
  "waiting t me pa l (c\<lparr>objectPools := ps\<rparr>) = waiting t me pa l c"
  "waiting t me pa l (c\<lparr>currentObjectPoolState := us\<rparr>) = waiting t me pa l c"
  "waiting t me pa l (c\<lparr>ourAuxiliaryInputs := ai\<rparr>) = waiting t me pa l c"
  "waiting t me pa l (c\<lparr>assignedAuxiliaryInputDevices := ad\<rparr>) = waiting t me pa l c"
  "waiting t me pa l (c\<lparr>capabilities := k\<rparr>) = waiting t me pa l c"
  "waiting t me pa l (c\<lparr>vt_status := vs\<rparr>) = waiting t me pa l c"
  "waiting t me pa l (c\<lparr>firstTimeInState := b1\<rparr>) = waiting t me pa l c"
  "waiting t me pa l (c\<lparr>partner_address_valid := b1\<rparr>) = waiting t me pa l c"
  "waiting t me pa l (c\<lparr>aux_listeners := n\<rparr>) = waiting t me pa l c"
  "waiting t me pa l (c\<lparr>shouldTerminate := b1\<rparr>) = waiting t me pa l c"
  "waiting t me pa l (c\<lparr>vt_initialized := b1\<rparr>) = waiting t me pa l c"
  by (simp_all add: waiting_def commands_sent_def)

lemma waiting_mark_uploaded [simp]: "waiting t me pa l (mark_uploaded i c) = waiting t me pa l c"
  by (simp add: mark_uploaded_def)

lemma waiting_upload: "waiting t me pa l c \<Longrightarrow> waiting t me pa l (snd (upload_pools i n b c))"
proof (induction n arbitrary: i b c)
  case (Suc n)
  have "waiting t me pa l (snd (can_send (PoolTransfer m) c))" for m
    using Suc.prems by (rule waiting_can_send) (simp add: is_command_def)
  then show ?case using Suc by (cases "currentObjectPoolState c") (auto simp: Let_def case_prod_beta)
qed simp

section \<open>An update sends no further command\<close>

text \<open>Whatever the result is, a command is still waiting.\<close>

definition calm :: "u32 \<Rightarrow> cf \<Rightarrow> cf option \<Rightarrow> vt_out list \<Rightarrow> 's vt_client option \<Rightarrow> bool" where
  "calm t me pa l x \<longleftrightarrow> (\<forall>c. x = Some c \<longrightarrow> waiting t me pa l c)"

lemma calm_Some [simp]: "calm t me pa l (Some c) = waiting t me pa l c"
  by (simp add: calm_def)

lemma calm_None [simp]: "calm t me pa l None"
  by (simp add: calm_def)

lemma calm_bind: "(\<And>v. calm t me pa l (f v)) \<Longrightarrow> calm t me pa l (x \<bind> f)"
  by (cases x) simp_all

lemma calm_then: "calm t me pa l x \<Longrightarrow> (\<And>c. waiting t me pa l c \<Longrightarrow> calm t me pa l (f c)) \<Longrightarrow> calm t me pa l (x \<bind> f)"
  by (cases x) simp_all

lemma calm_if: "(b \<Longrightarrow> calm t me pa l x) \<Longrightarrow> (\<not> b \<Longrightarrow> calm t me pa l y) \<Longrightarrow> calm t me pa l (if b then x else y)"
  by simp

lemma calm_let: "calm t me pa l (f x) \<Longrightarrow> calm t me pa l (Let x f)"
  by simp

lemma waiting_input_status:
  assumes "waiting t me pa l c" "update_auxiliary_input_status_of k c = Some (r, c')"
  shows "waiting t me pa l c'"
proof -
  have w: "waiting t me pa l (c\<lparr>ourAuxiliaryInputs := x\<rparr>)" for x using assms(1) by simp
  have "waiting t me pa l (snd (send_message_to_vt (0x26 # d) p (c\<lparr>ourAuxiliaryInputs := x\<rparr>)))"
    "waiting t me pa l (snd (can_send (VtMessage 0xE600 d None p) (c\<lparr>ourAuxiliaryInputs := x\<rparr>)))" for d p x
    by (rule waiting_message [OF w], simp add: not_responses)
       (rule waiting_can_send [OF w], simp add: is_command_def)
  then show ?thesis
    using assms unfolding update_auxiliary_input_status_of_def
    by (auto simp: bind_eq_Some_conv Let_def split: if_splits) (metis snd_conv)+
qed

lemma calm_update_inputs: "waiting t me pa l c \<Longrightarrow> calm t me pa l (update_inputs ks c)"
proof (induction ks arbitrary: c)
  case (Cons k ks)
  then show ?case
    using waiting_input_status [OF Cons.prems, of k] by (cases "update_auxiliary_input_status_of k c") auto
qed simp

lemma calm_state_update:
  assumes w: "waiting t me pa l c" shows "calm t me pa l (state_update c)"
proof -
  note k = waiting_connection [OF w] waiting_connection(1) [where c = "set_state s c" for s]
  have up: "calm t me pa l (upload_object_pool c)"
    unfolding upload_object_pool_def
  proof (rule calm_then)
    show "calm t me pa l (if firstTimeInState c \<and> get_any_pool_needs_scaling (objectPools c)
        then do {(ok, ps) \<leftarrow> scale_object_pools (capabilities c) (objectPools c);
                 let c' = c\<lparr>objectPools := ps\<rparr> in Some (if \<not> ok then set_state Failed c' else c')}
        else Some c)"
      using w by (intro calm_if calm_bind) (auto simp: Let_def split: prod.split)
    fix c1 assume "waiting t me pa l c1"
    from waiting_upload [OF this, of 0 "length (objectPools c1)" True]
    show "calm t me pa l (let (allPoolsProcessed, c2) = upload_pools 0 (length (objectPools c1)) True c1 in
         Some (if allPoolsProcessed then set_state SendEndOfObjectPool c2 else c2))"
      by (simp add: case_prod_beta)
  qed
  have conn: "calm t me pa l (connected_update c)"
    unfolding connected_update_def update_auxiliary_input_status_def using w by (intro calm_update_inputs) simp
  have ready: "waiting t me pa l (ready_for_object_pool c)"
  proof -
    have "waiting t me pa l (snd (send_working_set_maintenance True (set_state SendGetMemory d)))"
      if "waiting t me pa l d" for d :: "'a vt_client" using that by (intro waiting_connection) simp
    then show ?thesis using w by (simp add: ready_for_object_pool_def Let_def)
  qed
  have lab: "calm t me pa l (send_label send_load_version s c)" "calm t me pa l (send_label send_store_version s c)" for s
    unfolding send_label_def using w k by (auto split: list.split intro!: waiting_send_then)
  show ?thesis
    using w k up conn ready lab
    by (cases "vt_state c")
       (auto simp: state_update_def disconnected_update_def failed_update_def fail_on_timeout_def send_versions_def
          Let_def split: list.split intro!: waiting_send_then)
qed

lemma waiting_process_flags: "waiting t me pa l c \<Longrightarrow> waiting t me pa l (process_flags f c)"
  using waiting_connection [of t me pa l c] by (simp add: process_flags_def Let_def case_prod_beta)

lemma waiting_process_all_flags: "waiting t me pa l c \<Longrightarrow> waiting t me pa l (process_all_flags c)"
  unfolding process_all_flags_def
  by (rule fold_keeps [where P = "waiting t me pa l"])
     (simp_all add: fold_keeps [where P = "waiting t me pa l"] process_flag_def waiting_process_flags)

lemma waiting_cyclic: "waiting t me pa l c \<Longrightarrow> waiting t me pa l (cyclic_messages c)"
  by (simp add: cyclic_messages_def Let_def waiting_process_all_flags)

lemma calm_vt_update: "waiting t me pa l c \<Longrightarrow> calm t me pa l (vt_update c)"
  unfolding vt_update_def
  by (rule calm_then) (simp_all add: calm_state_update waiting_cyclic Let_def)

section \<open>A message that is no response releases nothing\<close>

lemma calm_answers:
  assumes "waiting t me pa l c"
  shows "calm t me pa l (rx_status m c)" "calm t me pa l (rx_get_memory m c)"
    "calm t me pa l (rx_get_number_of_softkeys m c)" "calm t me pa l (rx_get_text_font_data m c)"
    "calm t me pa l (rx_get_hardware m c)" "calm t me pa l (rx_load_version m c)"
    "calm t me pa l (rx_store_version m c)" "calm t me pa l (rx_end_of_object_pool m c)"
    "calm t me pa l (rx_unsupported_function m c)" "calm t me pa l (rx_acknowledge m c)"
    "calm t me pa l (rx_auxiliary_assignment m c)" "calm t me pa l (rx_auxiliary_input_enable m c)"
    "calm t me pa l (rx_input_device cfs m c)"
proof -
  note i = calm_bind calm_if calm_let
  have p: "waiting t me pa l (send_preferred_assignment d)" if "waiting t me pa l d" for d :: "'a vt_client"
    using waiting_connection(12) [OF that] that by (simp add: send_preferred_assignment_def)
  show "calm t me pa l (rx_status m c)" "calm t me pa l (rx_get_memory m c)"
    "calm t me pa l (rx_get_number_of_softkeys m c)" "calm t me pa l (rx_get_text_font_data m c)"
    "calm t me pa l (rx_get_hardware m c)" "calm t me pa l (rx_load_version m c)"
    "calm t me pa l (rx_store_version m c)" "calm t me pa l (rx_acknowledge m c)"
    "calm t me pa l (rx_input_device cfs m c)" "calm t me pa l (rx_unsupported_function m c)"
    unfolding rx_status_def rx_get_memory_def rx_get_number_of_softkeys_def rx_get_text_font_data_def
      rx_get_hardware_def rx_load_version_def rx_store_version_def rx_acknowledge_def
      rx_input_device_def rx_unsupported_function_def
    by (intro i; use assms p in simp)+
  show "calm t me pa l (rx_end_of_object_pool m c)"
    unfolding rx_end_of_object_pool_def by (intro i) (use assms in \<open>auto split: list.split intro!: p\<close>)
  show "calm t me pa l (rx_auxiliary_assignment m c)"
    unfolding rx_auxiliary_assignment_def
    by (intro i) (use assms in \<open>auto split: prod.split intro!: waiting_connection\<close>)
  show "calm t me pa l (rx_auxiliary_input_enable m c)"
    unfolding rx_auxiliary_input_enable_def
    by (intro i) (use assms in \<open>auto split: option.split intro!: waiting_connection\<close>)
qed

lemma waiting_check_labels:
  "waiting t me pa l c \<Longrightarrow> check_labels a ls c = Some (b, c') \<Longrightarrow> waiting t me pa l c'"
proof (induction ls arbitrary: c)
  case (Cons x ls)
  let ?d = "takeWhile (\<lambda>b. b \<noteq> 0) x"
  from Cons.prems(2) consider "c' = set_state SendLoadVersion c"
    | "check_labels a ls (snd (send_delete_version (take 7 (?d @ [0])) c)) = Some (b, c')"
    by (auto simp: Let_def split: if_splits)
  then show ?case
  proof cases
    case 2
    show ?thesis by (rule Cons.IH [OF waiting_connection(9) [OF Cons.prems(1)] 2])
  qed (use Cons.prems(1) in simp)
qed simp

lemma calm_get_versions:
  assumes "waiting t me pa l c" shows "calm t me pa l (rx_get_versions m c)"
proof -
  have "calm t me pa l (check_labels a ls c \<bind> (\<lambda>(labelMatched, c1).
      Some (if labelMatched then c1 else set_state UploadObjectPool c1)))" for a ls
    using waiting_check_labels [OF assms, of a ls] by (cases "check_labels a ls c") auto
  then show ?thesis unfolding rx_get_versions_def
    using assms by (intro calm_if calm_bind [where x = "get_uint8_at 1 m"]) (auto split: list.split)
qed

text \<open>The messages in question: no response of the partner to a command of ours.\<close>

definition no_response :: "cf \<Rightarrow> cf option \<Rightarrow> CANMessage \<Rightarrow> bool" where
  "no_response me pa m \<longleftrightarrow> \<not> (8 \<le> length (msg_data m) \<and> msg_data m ! 0 \<in> set command_responses
     \<and> msg_destination m = Some me \<and> msg_source m = pa)"

context vt_application
begin

lemma calm_listen:
  assumes "vt_ok c" "waiting t me pa l c"
    "\<And>c'. vt_ok c' \<Longrightarrow> waiting t me pa l c' \<Longrightarrow> calm t me pa l (f c')"
  shows "calm t me pa l (listen e c \<bind> f)"
  using listens [OF assms(1), of e] issues_ok [of c] waiting_issues [of c] assms by fastforce

lemma listen_calm: "vt_ok c \<Longrightarrow> waiting t me pa l c \<Longrightarrow> calm t me pa l (listen e c)"
  using listens [of c e] waiting_issues [of c] by fastforce

lemma waiting_event_response:
  "waiting t me pa l c \<Longrightarrow> f \<in> {0, 1, 2, 3, 4, 5, 6, 7, 8, 9, 0x0A, 0xFD} \<Longrightarrow> waiting t me pa l (respond (f # d) c)"
  by (rule waiting_respond) (auto simp: not_responses)

lemma notify_calm: "vt_ok c \<Longrightarrow> waiting t me pa l c \<Longrightarrow> calm t me pa l (notify_inputs listen i v1 v2 k n c)"
proof (induction n arbitrary: k c)
  case (Suc n)
  have "calm t me pa l (x \<bind> notify_inputs listen i v1 v2 (Suc k) n)" if "fine x" "calm t me pa l x" for x
    using that Suc.IH by (auto simp: fine_def)
  then show ?case using Suc.prems listen_fine listen_calm by (auto split: option.split)
qed simp

lemma calm_events:
  assumes ok: "vt_ok c" and w: "waiting t me pa l c" and f: "f = 0 \<or> f = 1"
  shows "calm t me pa l (rx_key f e listen m c)" "calm t me pa l (rx_pointing listen m c)"
    "calm t me pa l (rx_select_input listen m c)" "calm t me pa l (rx_esc listen m c)"
    "calm t me pa l (rx_change_numeric_value listen m c)" "calm t me pa l (rx_change_active_mask listen m c)"
    "calm t me pa l (rx_change_soft_key_mask listen m c)" "calm t me pa l (rx_change_string_value listen m c)"
    "calm t me pa l (rx_audio_termination listen m c)" "calm t me pa l (rx_auxiliary_input_status listen m c)"
proof -
  note i = calm_if calm_let calm_listen [OF ok w] calm_bind
  note r = waiting_event_response
  show "calm t me pa l (rx_key f e listen m c)" unfolding rx_key_def
    by (intro i) (use ok w f in \<open>auto intro!: r\<close>)
  show "calm t me pa l (rx_esc listen m c)" unfolding rx_esc_def
    by (intro i) (use ok w in \<open>auto intro!: r\<close>)
  show "calm t me pa l (rx_change_numeric_value listen m c)" unfolding rx_change_numeric_value_def
    by (intro i) (use ok w in \<open>auto intro!: r\<close>)
  show "calm t me pa l (rx_change_active_mask listen m c)" unfolding rx_change_active_mask_def
    by (intro i) (use ok w in \<open>auto intro!: r\<close>)
  show "calm t me pa l (rx_change_soft_key_mask listen m c)" unfolding rx_change_soft_key_mask_def
    by (intro i) (use ok w in \<open>auto intro!: r\<close>)
  show "calm t me pa l (rx_change_string_value listen m c)" unfolding rx_change_string_value_def
    by (intro i) (use ok w in \<open>auto intro!: r\<close>)
  show "calm t me pa l (rx_select_input listen m c)" unfolding rx_select_input_def
    by (intro i) (use ok w in \<open>auto intro!: r\<close>)
  show "calm t me pa l (rx_audio_termination listen m c)" unfolding rx_audio_termination_def
    by (intro i) (use ok w in \<open>auto intro!: r\<close>)
  show "calm t me pa l (rx_auxiliary_input_status listen m c)" unfolding rx_auxiliary_input_status_def
    by (intro calm_bind notify_calm ok w)
  have p: "calm t me pa l ((if b then listen x c else Some c) \<bind> h)"
    if "\<And>c'. vt_ok c' \<Longrightarrow> waiting t me pa l c' \<Longrightarrow> calm t me pa l (h c')" for b x h
    by (cases b) (use calm_listen [OF ok w that] that [OF ok w] in simp_all)
  show "calm t me pa l (rx_pointing listen m c)" unfolding rx_pointing_def
    by (intro calm_let p calm_bind [where x = "get_uint16_at k LittleEndian m" for k]
        calm_bind [where x = "get_uint8_at k m" for k]) (auto intro!: r)
qed

lemma calm_user_layout:
  assumes ok: "vt_ok c" and w: "waiting t me pa l c" and f: "get_uint8_at 0 m = Some 9" "8 \<le> length (msg_data m)"
  shows "calm t me pa l (rx_user_layout listen m c)"
proof -
  have "msg_data m ! 0 = 9" using f by (auto simp: get_uint8_at_def checked_nth_def split: if_splits)
  then have "\<exists>d. take 8 (msg_data m) = 9 # d" using f(2) by (cases "msg_data m") auto
  then have r: "waiting t me pa l (respond ((take 8 (msg_data m))[7 := x]) d)" if "waiting t me pa l d" for x d
    using that by (auto intro!: waiting_event_response)
  have last: "calm t me pa l ((if b then g \<bind> (\<lambda>s. listen (h s) c1) else Some c1) \<bind> (\<lambda>c2.
      let buffer = take 8 (msg_data m) in
      Some (respond (buffer[7 := if is_vt_version_supported Version6 c2 then buffer ! 7 OR 0x0F else 0xFF]) c2)))"
    if "vt_ok c1" "waiting t me pa l c1" for b g h c1
  proof (rule calm_then)
    show "calm t me pa l (if b then g \<bind> (\<lambda>s. listen (h s) c1) else Some c1)"
      using that by (intro calm_if calm_bind) (simp_all add: listen_calm)
    fix c2 assume "waiting t me pa l c2"
    then show "calm t me pa l (let buffer = take 8 (msg_data m) in
      Some (respond (buffer[7 := if is_vt_version_supported Version6 c2 then buffer ! 7 OR 0x0F else 0xFF]) c2))"
      unfolding Let_def calm_Some by (rule r)
  qed
  show ?thesis unfolding rx_user_layout_def
    by (intro calm_bind [where x = "get_uint16_at k LittleEndian m" for k]
        calm_bind [where x = "get_bool_at 3 0 1 m"] calm_listen [OF ok w] last)
qed

lemma calm_virtual_terminal:
  assumes ok: "vt_ok c" and w: "waiting t me pa l c" and len: "8 \<le> length (msg_data m)"
    and n: "no_response me pa m"
  shows "calm t me pa l (rx_virtual_terminal listen m c)"
proof -
  let ?f = "msg_data m ! 0"
  have f: "get_uint8_at 0 m = Some ?f" using len by (intro get_uint8_in [where k = 0, simplified]) auto
  have m: "myControlFunction c = me" "partnerControlFunction c = pa" using w by (auto simp: waiting_def)
  have r: "waiting t me pa l (rx_command_response m c)" if "?f \<in> set command_responses"
    using n m w len that by (auto simp: no_response_def rx_command_response_def)
  note a = calm_events [OF ok w] calm_answers [OF w] calm_get_versions [OF w] calm_user_layout [OF ok w _ len]
  show ?thesis unfolding rx_virtual_terminal_def f Option.bind_lunit
    by (intro calm_if a) (use w f r waiting_event_response [OF w] in auto)
qed

lemma calm_message:
  assumes "vt_ok c" "waiting t me pa l c" "no_response me pa m"
  shows "calm t me pa l (process_rx_message listen cfs m c)"
  unfolding process_rx_message_def Let_def
  by (intro calm_if calm_virtual_terminal calm_answers) (use assms in auto)

end

section \<open>Flow control\<close>

definition quiet_input :: "u32 \<Rightarrow> cf \<Rightarrow> cf option \<Rightarrow> vt_input \<Rightarrow> bool" where
  \<comment> \<open>no response of the partner, and less than 1500 ms since \<open>t\<close>\<close>
  "quiet_input t me pa i \<longleftrightarrow> (case i of Message m \<Rightarrow> no_response me pa m | Clock s \<Rightarrow> s - t < 1500 | _ \<Rightarrow> True)"

lemma waiting_terminate: "waiting t me pa l c \<Longrightarrow> waiting t me pa l (vt_terminate c)"
  using waiting_connection(16) [of t me pa l c] by (simp add: vt_terminate_def Let_def)

lemma waiting_initialize: "waiting t me pa l c \<Longrightarrow> waiting t me pa l (vt_initialize c)"
  by (simp add: vt_initialize_def Let_def)

lemma waiting_pools:
  assumes "waiting t me pa l c"
  shows "waiting t me pa l (set_object_pool_pointer i p n v c)" "waiting t me pa l (set_object_pool_vector i p v c)"
    "waiting t me pa l (register_object_pool_data_chunk_callback i n f v c)"
  using assms by (auto simp: set_object_pool_pointer_def set_object_pool_vector_def put_pool_def Let_def
      register_object_pool_data_chunk_callback_def split: option.split)

lemma calm_update_input: "waiting t me pa l c \<Longrightarrow> calm t me pa l (update_auxiliary_input k v1 v2 b c)"
  by (auto simp: update_auxiliary_input_def calm_def split: option.splits intro: waiting_input_status [rotated])

context vt_application
begin

lemma react_calm:
  assumes "vt_ok c" "waiting t me pa l c" "quiet_input t me pa i"
  shows "calm t me pa l (vt_react listen cfs i c)"
proof (cases i)
  case (Command d rep)
  then show ?thesis using waiting_queue_command [OF assms(2), of d rep] by (auto simp: calm_def)
next
  case (Message m)
  then show ?thesis using assms calm_message [OF assms(1,2), of m cfs] by (simp add: quiet_input_def)
next
  case (Clock s)
  then show ?thesis using assms(2,3) by (simp add: quiet_input_def waiting_def commands_sent_def)
qed (use assms(2) in \<open>simp_all add: calm_vt_update waiting_pools waiting_initialize waiting_terminate
    restart_communication_def calm_update_input process_callback_def add_auxiliary_input_object_id_def
    remove_auxiliary_input_object_id_def\<close>)

lemma run_calm:
  assumes "vt_ok c" "waiting t me pa l c" "\<forall>i \<in> set ins. proper_input i \<and> quiet_input t me pa i"
  shows "\<exists>c'. vt_run listen cfs ins c = Some c' \<and> vt_ok c' \<and> waiting t me pa l c'"
  using assms
proof (induction ins arbitrary: c)
  case (Cons i ins)
  obtain c1 where c1: "vt_react listen cfs i c = Some c1" "vt_ok c1"
    using react_defined [OF Cons.prems(1), of i cfs] Cons.prems(3) by auto
  moreover have "waiting t me pa l c1" using react_calm [OF Cons.prems(1,2), of i cfs] Cons.prems(3) c1 by simp
  ultimately show ?case using Cons.IH [of c1] Cons.prems(3) by simp
qed simp

end

end
