(* ===== verification/Vt_Connect.thy ===== *)
theory Vt_Connect
  imports Vt_Flow
begin

text \<open>
  How the virtual terminal client connects: step by step from the first status message of a display to the
  uploaded and stored object pool, for a display that answers; and what an interrupted upload leaves behind.
\<close>

section \<open>Connecting\<close>

text \<open>The client on its way to the connection: one pool, a network that accepts everything, a clock that
  stands still at \<open>t\<close>; \<open>snt\<close> is part of what was sent.\<close>

record 's setting =
  set_me :: cf
  set_partner :: cf
  set_time :: u32
  set_pool :: ObjectPoolDataStruct
  set_app :: 's

definition on_way :: "'s setting \<Rightarrow> vt_out set \<Rightarrow> CurrentObjectPoolUploadState \<Rightarrow> bool \<Rightarrow> 's vt_client \<Rightarrow> bool" where
  "on_way e snt up dn c \<longleftrightarrow> snt \<subseteq> set (can_sent c) \<and> currentObjectPoolState c = up
     \<and> (\<exists>sc. objectPools c = [(set_pool e)\<lparr>uploaded := dn, scaledObjectPool := sc\<rparr>]) \<and> clock_ms c = set_time e
     \<and> (\<forall>n. can_accepts c n) \<and> myControlFunction c = set_me e \<and> partnerControlFunction c = Some (set_partner e)
     \<and> partner_address_valid c \<and> ourAuxiliaryInputs c = [] \<and> app_state c = set_app e"

definition fresh :: "'s setting \<Rightarrow> 's vt_client \<Rightarrow> bool" where
  \<comment> \<open>the state was entered and the display heard at this time\<close>
  "fresh e c \<longleftrightarrow> stateMachineTimestamp_ms c = set_time e \<and> lastVTStatusTimestamp_ms (vt_status c) = set_time e"

definition usable :: "'s setting \<Rightarrow> bool" where
  "usable e \<longleftrightarrow> objectPoolDataPointer (set_pool e) \<noteq> None \<and> 0 < objectPoolSize (set_pool e)
     \<and> autoScaleDataMaskOriginalDimension (set_pool e) = 0 \<and> versionLabel (set_pool e) \<noteq> [] \<and> set_time e \<noteq> 0"

lemma on_way_fields [simp]:
  "on_way e s u d (c\<lparr>txFlags := a1\<rparr>) = on_way e s u d c"
  "on_way e s u d (c\<lparr>lastWorkingSetMaintenanceTimestamp_ms := a2\<rparr>) = on_way e s u d c"
  "on_way e s u d (c\<lparr>lastAuxiliaryMaintenanceTimestamp_ms := a2\<rparr>) = on_way e s u d c"
  "on_way e s u d (c\<lparr>sendWorkingSetMaintenance := b1\<rparr>) = on_way e s u d c"
  "on_way e s u d (c\<lparr>sendAuxiliaryMaintenance := b1\<rparr>) = on_way e s u d c"
  "on_way e s u d (c\<lparr>unsupportedFunctions := a3\<rparr>) = on_way e s u d c"
  "on_way e s u d (c\<lparr>capabilities := a4\<rparr>) = on_way e s u d c"
  "on_way e s u d (c\<lparr>vt_status := a5\<rparr>) = on_way e s u d c"
  "on_way e s u d (c\<lparr>firstTimeInState := b1\<rparr>) = on_way e s u d c"
  by (simp_all add: on_way_def)

lemma fresh_fields [simp]:
  "fresh e (c\<lparr>txFlags := a1\<rparr>) = fresh e c" "fresh e (c\<lparr>lastWorkingSetMaintenanceTimestamp_ms := a2\<rparr>) = fresh e c"
  "fresh e (c\<lparr>lastAuxiliaryMaintenanceTimestamp_ms := a2\<rparr>) = fresh e c"
  "fresh e (c\<lparr>sendWorkingSetMaintenance := b1\<rparr>) = fresh e c" "fresh e (c\<lparr>sendAuxiliaryMaintenance := b1\<rparr>) = fresh e c"
  "fresh e (c\<lparr>unsupportedFunctions := a3\<rparr>) = fresh e c" "fresh e (c\<lparr>capabilities := a4\<rparr>) = fresh e c"
  "fresh e (c\<lparr>firstTimeInState := b1\<rparr>) = fresh e c" "fresh e (c\<lparr>currentObjectPoolState := a6\<rparr>) = fresh e c"
  "fresh e (c\<lparr>objectPools := a7\<rparr>) = fresh e c"
  by (simp_all add: fresh_def)

lemma on_way_set_state [simp]: "s \<noteq> Disconnected \<Longrightarrow> on_way e snt u d (set_state s c) = on_way e snt u d c"
  by (simp add: on_way_def set_state_def Let_def)

lemma fresh_set_state:
  "on_way e snt u d c \<Longrightarrow> s \<noteq> Disconnected \<Longrightarrow> lastVTStatusTimestamp_ms (vt_status c) = set_time e \<Longrightarrow> fresh e (set_state s c)"
  by (simp add: on_way_def fresh_def set_state_def Let_def)

lemma on_way_sends:
  assumes "sends c c'" "set (can_sent c) \<subseteq> set (can_sent c')" "on_way e s u d c"
  shows "on_way e s u d c'"
  using assms by (auto simp: on_way_def sends_def)

lemma fresh_sends: "sends c c' \<Longrightarrow> fresh e c' = fresh e c"
  by (auto simp: sends_def fresh_def)

lemma can_send_grows [simp]:
  "set (can_sent c) \<subseteq> set (can_sent (snd (can_send m c)))" "set (can_sent c) \<subseteq> set (can_sent (snd (send_message_to_vt b p c)))"
  by (auto simp: can_send_def send_message_to_vt_def Let_def)

lemma connection_grows [simp]:
  "set (can_sent c) \<subseteq> set (can_sent (snd (send_working_set_maintenance b c)))" "set (can_sent c) \<subseteq> set (can_sent (snd (send_get_memory n c)))"
  "set (can_sent c) \<subseteq> set (can_sent (snd (send_get_number_of_softkeys c)))" "set (can_sent c) \<subseteq> set (can_sent (snd (send_get_text_font_data c)))"
  "set (can_sent c) \<subseteq> set (can_sent (snd (send_get_hardware c)))" "set (can_sent c) \<subseteq> set (can_sent (snd (send_get_versions c)))"
  "set (can_sent c) \<subseteq> set (can_sent (snd (send_store_version l c)))" "set (can_sent c) \<subseteq> set (can_sent (snd (send_end_of_object_pool c)))"
  "set (can_sent c) \<subseteq> set (can_sent (snd (send_working_set_master c)))" "set (can_sent c) \<subseteq> set (can_sent (snd (send_auxiliary_input_maintenance c)))"
  "set (can_sent c) \<subseteq> set (can_sent (snd (send_auxiliary_functions_preferred_assignment c)))"
  unfolding send_working_set_maintenance_def send_get_memory_def send_get_number_of_softkeys_def
    send_get_text_font_data_def send_get_hardware_def send_get_versions_def send_store_version_def
    send_end_of_object_pool_def send_working_set_master_def send_auxiliary_input_maintenance_def
    send_auxiliary_functions_preferred_assignment_def
  by (rule can_send_grows)+

lemma connection_accepted:
  assumes "on_way e s u d c"
  shows "fst (send_working_set_maintenance b c)" "fst (send_get_memory n c)" "fst (send_get_number_of_softkeys c)"
    "fst (send_get_text_font_data c)" "fst (send_get_hardware c)" "fst (send_get_versions c)" "fst (send_store_version l c)"
    "fst (send_end_of_object_pool c)" "fst (send_working_set_master c)"
  using assms by (simp_all add: send_working_set_maintenance_def send_get_memory_def send_get_number_of_softkeys_def
    send_get_text_font_data_def send_get_hardware_def send_get_versions_def send_store_version_def
    send_end_of_object_pool_def send_working_set_master_def can_send_def send_message_to_vt_def Let_def on_way_def)

definition well :: "'s setting \<Rightarrow> vt_out set \<Rightarrow> StateMachineState \<Rightarrow> CurrentObjectPoolUploadState \<Rightarrow> bool \<Rightarrow> 's vt_client \<Rightarrow> bool" where
  "well e snt s u d c \<longleftrightarrow> on_way e snt u d c \<and> fresh e c \<and> vt_state c = s"

lemma well_fields [simp]:
  "well e snt s u d (c\<lparr>txFlags := a1\<rparr>) = well e snt s u d c"
  "well e snt s u d (c\<lparr>lastWorkingSetMaintenanceTimestamp_ms := a2\<rparr>) = well e snt s u d c"
  "well e snt s u d (c\<lparr>lastAuxiliaryMaintenanceTimestamp_ms := a2\<rparr>) = well e snt s u d c"
  "well e snt s u d (c\<lparr>sendWorkingSetMaintenance := b1\<rparr>) = well e snt s u d c"
  "well e snt s u d (c\<lparr>sendAuxiliaryMaintenance := b1\<rparr>) = well e snt s u d c"
  "well e snt s u d (c\<lparr>capabilities := a4\<rparr>) = well e snt s u d c"
  "well e snt s u d (c\<lparr>firstTimeInState := b1\<rparr>) = well e snt s u d c"
  by (simp_all add: well_def)

lemma well_set_state: "well e snt s u d c \<Longrightarrow> s' \<noteq> Disconnected \<Longrightarrow> well e snt s' u d (set_state s' c)"
  using fresh_set_state [of e snt u d c s'] by (simp add: well_def fresh_def)

lemma sends_well:
  "sends c c' \<Longrightarrow> set (can_sent c) \<subseteq> set (can_sent c') \<Longrightarrow> well e snt s u d c \<Longrightarrow> well e snt s u d c'"
  unfolding well_def using on_way_sends [of c c'] fresh_sends [of c c'] sends_fields(1) [of c c'] by auto

lemma send_then_well:
  assumes "well e snt s u d c" "fst (f c)" "sends c (snd (f c))" "set (can_sent c) \<subseteq> set (can_sent (snd (f c)))" "s' \<noteq> Disconnected"
  shows "well e snt s' u d (send_then f s' c)"
  using well_set_state [OF sends_well [OF assms(3,4,1)] assms(5)] assms(2) by (simp add: send_then_eq)

text \<open>The end of an update.\<close>

lemma process_flags_well: "well e snt s u d c \<Longrightarrow> well e snt s u d (process_flags f c)"
  by (auto simp: process_flags_def Let_def case_prod_beta intro: sends_well [OF connection_sends(1) connection_grows(1)]
      sends_well [OF connection_sends(14) connection_grows(10)])

lemma cyclic_keeps:
  assumes "\<And>c f. P c \<Longrightarrow> P (process_flags f c)" "\<And>c a. P c \<Longrightarrow> P (c\<lparr>txFlags := a\<rparr>)" "P c"
  shows "P (cyclic_messages c)"
proof -
  have "P (process_all_flags c)" if "P c" for c
    unfolding process_all_flags_def
    by (rule fold_keeps [where P = P, OF _ that], simp split: if_splits,
        intro impI fold_keeps [where P = P]) (simp_all add: process_flag_def assms(1,2))
  then show ?thesis using assms(2,3) by (simp add: cyclic_messages_def Let_def)
qed

lemma cyclic_well: "well e snt s u d c \<Longrightarrow> well e snt s u d (cyclic_messages c)"
  by (rule cyclic_keeps [where P = "well e snt s u d"]) (simp_all add: process_flags_well)

lemma update_well:
  assumes "on_way e snt0 u0 d0 c0" "state_update c0 = Some c1" "well e snt s u d c1" "s \<noteq> Connected"
  shows "\<exists>c2. vt_react listen cfs Update c0 = Some c2 \<and> well e snt s u d c2"
proof -
  have "process_command_queue (cyclic_messages c1) = cyclic_messages c1"
    using cyclic_well [OF assms(3)] assms(4) by (simp add: process_command_queue_eq well_def)
  then show ?thesis
    using cyclic_well [OF assms(3)] assms(1,2) by (auto simp: vt_update_def Let_def on_way_def)
qed

lemma well_facts:
  assumes "well e snt s u d c"
  shows "vt_state c = s" "currentObjectPoolState c = u" "clock_ms c = set_time e" "stateMachineTimestamp_ms c = set_time e"
    "lastVTStatusTimestamp_ms (vt_status c) = set_time e" "can_accepts c n" "myControlFunction c = set_me e"
    "partnerControlFunction c = Some (set_partner e)" "ourAuxiliaryInputs c = []"
  using assms by (auto simp: well_def on_way_def fresh_def)

lemma well_pool:
  assumes "well e snt s u d c"
  obtains sc where "objectPools c = [(set_pool e)\<lparr>uploaded := d, scaledObjectPool := sc\<rparr>]"
  using assms by (auto simp: well_def on_way_def)

lemma no_timeout: "well e snt s u d c \<Longrightarrow> 0 < k \<Longrightarrow> \<not> time_expired (set_time e) k c"
  using well_facts(3) [of e snt s u d c] by (simp add: time_expired_def)

lemma update_step:
  assumes "well e snt0 s0 u0 d0 c" "state_update c = Some c1" "well e snt s u d c1" "s \<noteq> Connected"
  shows "\<exists>c2. vt_react listen cfs Update c = Some c2 \<and> well e snt s u d c2"
  using update_well [OF _ assms(2-4)] assms(1) by (auto simp: well_def)

lemma send_step:
  assumes "well e snt s u d c" "state_update c = Some (send_then f s' c)" "fst (f c)" "sends c (snd (f c))"
    "set (can_sent c) \<subseteq> set (can_sent (snd (f c)))" "s' \<noteq> Disconnected" "s' \<noteq> Connected"
  shows "\<exists>c2. vt_react listen cfs Update c = Some c2 \<and> well e snt s' u d c2"
proof (rule update_step [OF assms(1,2) _ assms(7)])
  show "well e snt s' u d (send_then f s' c)" by (rule send_then_well) (use assms in auto)
qed

lemma accepted:
  assumes "well e snt s u d c"
  shows "fst (send_working_set_maintenance b c)" "fst (send_get_memory n c)" "fst (send_get_number_of_softkeys c)"
    "fst (send_get_text_font_data c)" "fst (send_get_hardware c)" "fst (send_get_versions c)" "fst (send_store_version l c)"
    "fst (send_end_of_object_pool c)" "fst (send_working_set_master c)"
  using connection_accepted [of e snt u d c] assms by (simp_all add: well_def)

section \<open>The updates\<close>

lemma start_updates:
  assumes "well e snt SendWorkingSetMasterMessage u d c"
  shows "\<exists>c2. vt_react listen cfs Update c = Some c2 \<and> well e snt ReadyForObjectPool u d c2"
  by (rule send_step [OF assms, where f = send_working_set_master])
     (simp_all add: state_update_def well_facts(1) [OF assms] accepted [OF assms])

lemma ready_update:
  assumes "well e snt ReadyForObjectPool u d c"
  shows "\<exists>c2. vt_react listen cfs Update c = Some c2 \<and> well e snt SendGetMemory u d c2"
proof -
  obtain sc where p: "objectPools c = [(set_pool e)\<lparr>uploaded := d, scaledObjectPool := sc\<rparr>]" using well_pool [OF assms] .
  let ?c = "snd (send_working_set_maintenance True (set_state SendGetMemory c))"
  have w: "well e snt SendGetMemory u d ?c"
    using sends_well [OF connection_sends(1) connection_grows(1) well_set_state [OF assms, of SendGetMemory]] by simp
  have "state_update c = Some (?c\<lparr>lastWorkingSetMaintenanceTimestamp_ms := clock_ms ?c, sendWorkingSetMaintenance := True,
      sendAuxiliaryMaintenance := True\<rparr>)"
    using no_timeout [OF assms, of 3000] p
    by (simp add: state_update_def well_facts [OF assms] ready_for_object_pool_def status_expired_def Let_def)
  then show ?thesis by (rule update_step [OF assms]) (simp_all add: w)
qed

lemma request_updates:
  "well e snt SendGetMemory u d c \<Longrightarrow> \<exists>c2. vt_react listen cfs Update c = Some c2 \<and> well e snt WaitForGetMemoryResponse u d c2"
  "well e snt SendGetNumberSoftkeys u d c \<Longrightarrow> \<exists>c2. vt_react listen cfs Update c = Some c2 \<and> well e snt WaitForGetNumberSoftKeysResponse u d c2"
  "well e snt SendGetTextFontData u d c \<Longrightarrow> \<exists>c2. vt_react listen cfs Update c = Some c2 \<and> well e snt WaitForGetTextFontDataResponse u d c2"
  "well e snt SendGetHardware u d c \<Longrightarrow> \<exists>c2. vt_react listen cfs Update c = Some c2 \<and> well e snt WaitForGetHardwareResponse u d c2"
  "well e snt SendEndOfObjectPool u d c \<Longrightarrow> \<exists>c2. vt_react listen cfs Update c = Some c2 \<and> well e snt WaitForEndOfObjectPoolResponse u d c2"
proof -
  show "\<exists>c2. vt_react listen cfs Update c = Some c2 \<and> well e snt WaitForGetMemoryResponse u d c2" if w: "well e snt SendGetMemory u d c"
    by (rule send_step [OF w, where f = "send_get_memory (total_pool_size c)"]) (simp_all add: state_update_def well_facts(1) [OF w] accepted [OF w])
  show "\<exists>c2. vt_react listen cfs Update c = Some c2 \<and> well e snt WaitForGetNumberSoftKeysResponse u d c2" if w: "well e snt SendGetNumberSoftkeys u d c"
    by (rule send_step [OF w, where f = "send_get_number_of_softkeys"]) (simp_all add: state_update_def well_facts(1) [OF w] accepted [OF w])
  show "\<exists>c2. vt_react listen cfs Update c = Some c2 \<and> well e snt WaitForGetTextFontDataResponse u d c2" if w: "well e snt SendGetTextFontData u d c"
    by (rule send_step [OF w, where f = "send_get_text_font_data"]) (simp_all add: state_update_def well_facts(1) [OF w] accepted [OF w])
  show "\<exists>c2. vt_react listen cfs Update c = Some c2 \<and> well e snt WaitForGetHardwareResponse u d c2" if w: "well e snt SendGetHardware u d c"
    by (rule send_step [OF w, where f = "send_get_hardware"]) (simp_all add: state_update_def well_facts(1) [OF w] accepted [OF w])
  show "\<exists>c2. vt_react listen cfs Update c = Some c2 \<and> well e snt WaitForEndOfObjectPoolResponse u d c2" if w: "well e snt SendEndOfObjectPool u d c"
    by (rule send_step [OF w, where f = "send_end_of_object_pool"]) (simp_all add: state_update_def well_facts(1) [OF w] accepted [OF w])
qed

lemma label_updates:
  assumes "usable e"
  shows "well e snt SendGetVersions u d c \<Longrightarrow> \<exists>c2. vt_react listen cfs Update c = Some c2 \<and> well e snt WaitForGetVersionsResponse u d c2"
    "well e snt SendStoreVersion u d c \<Longrightarrow> \<exists>c2. vt_react listen cfs Update c = Some c2 \<and> well e snt WaitForStoreVersionResponse u d c2"
proof -
  assume w: "well e snt SendGetVersions u d c"
  obtain sc where p: "objectPools c = [(set_pool e)\<lparr>uploaded := d, scaledObjectPool := sc\<rparr>]" using well_pool [OF w] .
  show "\<exists>c2. vt_react listen cfs Update c = Some c2 \<and> well e snt WaitForGetVersionsResponse u d c2"
    by (rule send_step [OF w, where f = send_get_versions])
       (use no_timeout [OF w, of 3000] p assms in
         \<open>simp_all add: state_update_def send_versions_def well_facts [OF w] accepted [OF w] usable_def\<close>)
next
  assume w: "well e snt SendStoreVersion u d c"
  obtain sc where p: "objectPools c = [(set_pool e)\<lparr>uploaded := d, scaledObjectPool := sc\<rparr>]" using well_pool [OF w] .
  show "\<exists>c2. vt_react listen cfs Update c = Some c2 \<and> well e snt WaitForStoreVersionResponse u d c2"
    by (rule send_step [OF w, where f = "send_store_version (padded_label (versionLabel (set_pool e)))"])
       (use no_timeout [OF w, of 3000] p in
         \<open>simp_all add: state_update_def send_label_def well_facts [OF w] accepted [OF w]\<close>)
qed

section \<open>The upload\<close>

lemma usable_upload:
  assumes "usable e" "well e snt UploadObjectPool u d c"
  shows "state_update c = Some (let (a, c2) = upload_pools 0 1 True c in if a then set_state SendEndOfObjectPool c2 else c2)"
proof -
  obtain sc where p: "objectPools c = [(set_pool e)\<lparr>uploaded := d, scaledObjectPool := sc\<rparr>]" using well_pool [OF assms(2)] .
  then have "\<not> get_any_pool_needs_scaling (objectPools c)"
    using assms(1) by (simp add: get_any_pool_needs_scaling_def usable_def)
  then show ?thesis using p
    by (simp add: state_update_def well_facts [OF assms(2)] upload_object_pool_def case_prod_beta Let_def
        del: upload_pools.simps)
qed

lemma upload_updates:
  assumes "usable e"
  shows "well e snt UploadObjectPool Uninitialized False c \<Longrightarrow> \<exists>c2. vt_react listen cfs Update c = Some c2
      \<and> well e (insert (PoolTransfer (objectPoolSize (set_pool e) + 1)) snt) UploadObjectPool InProgress False c2"
    "well e snt UploadObjectPool UploadSuccess False c \<Longrightarrow> \<exists>c2. vt_react listen cfs Update c = Some c2
      \<and> well e snt UploadObjectPool Uninitialized True c2"
    "well e snt UploadObjectPool Uninitialized True c \<Longrightarrow> \<exists>c2. vt_react listen cfs Update c = Some c2
      \<and> well e snt SendEndOfObjectPool Uninitialized True c2"
proof -
  note U = upload_pools.simps One_nat_def
  assume w: "well e snt UploadObjectPool Uninitialized False c"
  obtain sc where p: "objectPools c = [(set_pool e)\<lparr>uploaded := False, scaledObjectPool := sc\<rparr>]" using well_pool [OF w] .
  let ?m = "PoolTransfer (objectPoolSize (set_pool e) + 1)"
  have "state_update c = Some ((snd (can_send ?m c))\<lparr>currentObjectPoolState := InProgress\<rparr>)"
    unfolding usable_upload [OF assms w] U using p assms
    by (simp add: well_facts [OF w] usable_def can_send_def Let_def)
  moreover have "well e (insert ?m snt) UploadObjectPool InProgress False ((snd (can_send ?m c))\<lparr>currentObjectPoolState := InProgress\<rparr>)"
    using w by (simp add: well_def on_way_def fresh_def can_send_def Let_def) blast
  ultimately show "\<exists>c2. vt_react listen cfs Update c = Some c2
      \<and> well e (insert ?m snt) UploadObjectPool InProgress False c2"
    by (rule update_step [OF w]) simp
next
  note U = upload_pools.simps One_nat_def
  assume w: "well e snt UploadObjectPool UploadSuccess False c"
  obtain sc where p: "objectPools c = [(set_pool e)\<lparr>uploaded := False, scaledObjectPool := sc\<rparr>]" using well_pool [OF w] .
  have "state_update c = Some ((mark_uploaded 0 c)\<lparr>currentObjectPoolState := Uninitialized\<rparr>)"
    unfolding usable_upload [OF assms w] U using p assms by (simp add: well_facts [OF w] usable_def)
  moreover have "well e snt UploadObjectPool Uninitialized True ((mark_uploaded 0 c)\<lparr>currentObjectPoolState := Uninitialized\<rparr>)"
    using w p by (simp add: well_def on_way_def fresh_def mark_uploaded_def) (rule exI [of _ sc], simp)
  ultimately show "\<exists>c2. vt_react listen cfs Update c = Some c2 \<and> well e snt UploadObjectPool Uninitialized True c2"
    by (rule update_step [OF w]) simp
next
  note U = upload_pools.simps One_nat_def
  assume w: "well e snt UploadObjectPool Uninitialized True c"
  obtain sc where p: "objectPools c = [(set_pool e)\<lparr>uploaded := True, scaledObjectPool := sc\<rparr>]" using well_pool [OF w] .
  have "state_update c = Some (set_state SendEndOfObjectPool c)"
    unfolding usable_upload [OF assms w] U using p assms by (simp add: well_facts [OF w] usable_def)
  then show "\<exists>c2. vt_react listen cfs Update c = Some c2 \<and> well e snt SendEndOfObjectPool Uninitialized True c2"
    by (rule update_step [OF w]) (simp_all add: well_set_state [OF w])
qed

lemma transfer_done:
  "well e snt UploadObjectPool InProgress d c \<Longrightarrow>
   \<exists>c2. vt_react listen cfs (TransferDone PGN_ECUtoVirtualTerminal (Some pa) True) c = Some c2
     \<and> well e snt UploadObjectPool UploadSuccess d c2"
  by (auto simp: process_callback_def well_def on_way_def fresh_def)

section \<open>The answers\<close>

definition tells :: "cf \<Rightarrow> u8 \<Rightarrow> CANMessage \<Rightarrow> bool" where
  \<comment> \<open>a message of the display with that function byte, for everyone or for us\<close>
  "tells me f m \<longleftrightarrow> length (msg_data m) = 8 \<and> msg_data m ! 0 = f
     \<and> get_parameter_group_number (msg_identifier m) = PGN_VirtualTerminalToECU
     \<and> (msg_destination m = None \<or> msg_destination m = Some me)"

lemma tells_bytes:
  assumes "tells me f m" "unat k < 8" shows "get_uint8_at k m = Some (msg_data m ! unat k)"
  using assms by (simp add: tells_def get_uint8_in)

lemma tells_words:
  assumes "tells me f m" "unat k + 2 \<le> 8" shows "\<exists>v. get_uint16_at k fmt m = Some v"
  using assms by (intro getters_in(2)) (simp_all add: tells_def)

lemma tells_dispatch:
  assumes "tells me f m" "myControlFunction c = me"
  shows "vt_react listen cfs (Message m) c = rx_virtual_terminal listen m c" "get_uint8_at 0 m = Some f"
  using assms tells_bytes [OF assms(1), of 0]
  by (auto simp: process_rx_message_def tells_def Let_def)

lemma answer_memory:
  assumes w: "well e snt WaitForGetMemoryResponse u d c" and m: "tells (set_me e) GetMemoryMessage m" "msg_data m ! 2 = 0"
  shows "\<exists>c2. vt_react listen cfs (Message m) c = Some c2 \<and> well e snt SendGetNumberSoftkeys u d c2"
  using tells_dispatch [OF m(1) well_facts(7) [OF w]] tells_bytes [OF m(1), of 1] tells_bytes [OF m(1), of 2] m(2) w
    well_facts(1) [OF w]
  by (simp add: rx_virtual_terminal_def rx_get_memory_def Let_def well_set_state)

lemma answer_softkeys:
  assumes w: "well e snt WaitForGetNumberSoftKeysResponse u d c" and m: "tells (set_me e) GetNumberOfSoftKeysMessage m"
  shows "\<exists>c2. vt_react listen cfs (Message m) c = Some c2 \<and> well e snt SendGetTextFontData u d c2"
  using tells_dispatch [OF m well_facts(7) [OF w]] tells_bytes [OF m, of 4] tells_bytes [OF m, of 5]
    tells_bytes [OF m, of 6] tells_bytes [OF m, of 7] w well_facts(1) [OF w]
  by (simp add: rx_virtual_terminal_def rx_get_number_of_softkeys_def well_set_state)

lemma answer_fonts:
  assumes w: "well e snt WaitForGetTextFontDataResponse u d c" and m: "tells (set_me e) GetTextFontDataMessage m"
  shows "\<exists>c2. vt_react listen cfs (Message m) c = Some c2 \<and> well e snt SendGetHardware u d c2"
  using tells_dispatch [OF m well_facts(7) [OF w]] tells_bytes [OF m, of 5]
    tells_bytes [OF m, of 6] tells_bytes [OF m, of 7] w well_facts(1) [OF w]
  by (simp add: rx_virtual_terminal_def rx_get_text_font_data_def well_set_state)

lemma answer_hardware:
  assumes w: "well e snt WaitForGetHardwareResponse u d c" and m: "tells (set_me e) GetHardwareMessage m" and "usable e"
  shows "\<exists>c2. vt_react listen cfs (Message m) c = Some c2 \<and> well e snt SendGetVersions u d c2"
proof -
  obtain sc where p: "objectPools c = [(set_pool e)\<lparr>uploaded := d, scaledObjectPool := sc\<rparr>]" using well_pool [OF w] .
  obtain x y where "get_uint16_at 4 LittleEndian m = Some x" "get_uint16_at 6 LittleEndian m = Some y"
    using tells_words [OF m, of 4 LittleEndian] tells_words [OF m, of 6 LittleEndian] by auto
  then show ?thesis
    using tells_dispatch [OF m well_facts(7) [OF w]] tells_bytes [OF m, of 2] tells_bytes [OF m, of 3] w
      well_facts(1) [OF w] p assms(3)
    by (simp add: rx_virtual_terminal_def rx_get_hardware_def well_set_state Let_def usable_def)
qed

lemma answer_versions:
  assumes w: "well e snt WaitForGetVersionsResponse u d c" and m: "tells (set_me e) GetVersionsResponse m" "msg_data m ! 1 = 0"
  shows "\<exists>c2. vt_react listen cfs (Message m) c = Some c2 \<and> well e snt UploadObjectPool u d c2"
  using tells_dispatch [OF m(1) well_facts(7) [OF w]] tells_bytes [OF m(1), of 1] w well_facts(1) [OF w] m(2)
  by (simp add: rx_virtual_terminal_def rx_get_versions_def well_set_state)

lemma answer_end:
  assumes w: "well e snt WaitForEndOfObjectPoolResponse u d c" and m: "tells (set_me e) EndOfObjectPoolMessage m"
    "msg_data m ! 1 = 0" "msg_data m ! 6 = 0" and u: "usable e"
  shows "\<exists>c2. vt_react listen cfs (Message m) c = Some c2 \<and> well e snt SendStoreVersion u d c2"
proof -
  obtain sc where p: "objectPools c = [(set_pool e)\<lparr>uploaded := d, scaledObjectPool := sc\<rparr>]" using well_pool [OF w] .
  let ?c = "c\<lparr>objectPools := [(set_pool e)\<lparr>uploaded := d, scaledObjectPool := []\<rparr>]\<rparr>"
  have w': "well e snt SendStoreVersion u d (set_state SendStoreVersion ?c)"
    by (rule well_set_state) (use w in \<open>auto simp: well_def on_way_def fresh_def\<close>)
  have "vt_react listen cfs (Message m) c = Some (send_preferred_assignment (set_state SendStoreVersion ?c))"
    using tells_dispatch [OF m(1) well_facts(7) [OF w]] tells_bytes [OF m(1), of 1] tells_bytes [OF m(1), of 6]
      well_facts(1) [OF w] m(2,3) p u
    by (simp add: rx_virtual_terminal_def rx_end_of_object_pool_def usable_def)
  moreover have "well e snt SendStoreVersion u d (send_preferred_assignment (set_state SendStoreVersion ?c))"
    using w' sends_well [OF connection_sends(12) connection_grows(11) w'] by (simp add: send_preferred_assignment_def)
  ultimately show ?thesis by blast
qed

lemma answer_store:
  assumes w: "well e snt WaitForStoreVersionResponse u d c" and m: "tells (set_me e) StoreVersionCommand m" "msg_data m ! 5 = 0"
  shows "\<exists>c2. vt_react listen cfs (Message m) c = Some c2 \<and> well e snt Connected u d c2"
  using tells_dispatch [OF m(1) well_facts(7) [OF w]] tells_bytes [OF m(1), of 5] w well_facts(1) [OF w] m(2)
  by (simp add: rx_virtual_terminal_def rx_store_version_def well_set_state)

section \<open>The whole handshake\<close>

definition early :: "'s setting \<Rightarrow> CurrentObjectPoolUploadState \<Rightarrow> StateMachineState \<Rightarrow> 's vt_client \<Rightarrow> bool" where
  "early e u s c \<longleftrightarrow> on_way e {} u False c \<and> vt_state c = s"

lemma early_sends: "sends c c' \<Longrightarrow> set (can_sent c) \<subseteq> set (can_sent c') \<Longrightarrow> early e u s c \<Longrightarrow> early e u s c'"
  unfolding early_def using on_way_sends [of c c'] sends_fields(1) [of c c'] by auto

lemma early_fields [simp]:
  "early e u s (c\<lparr>txFlags := a1\<rparr>) = early e u s c" "early e u s (c\<lparr>lastWorkingSetMaintenanceTimestamp_ms := a2\<rparr>) = early e u s c"
  "early e u s (c\<lparr>lastAuxiliaryMaintenanceTimestamp_ms := a2\<rparr>) = early e u s c" "early e u s (c\<lparr>firstTimeInState := b\<rparr>) = early e u s c"
  by (simp_all add: early_def)

lemma early_update:
  assumes "early e u Disconnected c"
  shows "\<exists>c2. vt_react listen cfs Update c = Some c2 \<and> early e u WaitForPartnerVTStatusMessage c2"
proof -
  have k: "early e u WaitForPartnerVTStatusMessage (cyclic_messages c')" if "early e u WaitForPartnerVTStatusMessage c'" for c' :: "'a vt_client"
    by (rule cyclic_keeps [where P = "early e u WaitForPartnerVTStatusMessage", OF _ _ that])
       (auto simp: process_flags_def Let_def case_prod_beta
          intro: early_sends [OF connection_sends(1) connection_grows(1)] early_sends [OF connection_sends(14) connection_grows(10)])
  have "early e u WaitForPartnerVTStatusMessage (disconnected_update c)" "partnerControlFunction c \<noteq> None" "vt_state c = Disconnected"
    using assms by (auto simp: early_def disconnected_update_def on_way_def set_state_def Let_def)
  with k [of "disconnected_update c"] show ?thesis
    by (auto simp: vt_update_def state_update_def process_command_queue_eq early_def Let_def)
qed

lemma heard_status:
  assumes e: "early e u WaitForPartnerVTStatusMessage c" and m: "tells (set_me e) VTStatusMessage m"
  shows "\<exists>c2. vt_react listen cfs (Message m) c = Some c2 \<and> early e u WaitForPartnerVTStatusMessage c2
    \<and> lastVTStatusTimestamp_ms (vt_status c2) = set_time e"
proof -
  obtain x y where "get_uint16_at 2 LittleEndian m = Some x" "get_uint16_at 4 LittleEndian m = Some y"
    using tells_words [OF m, of 2 LittleEndian] tells_words [OF m, of 4 LittleEndian] by auto
  moreover have me: "myControlFunction c = set_me e" "clock_ms c = set_time e" using e by (auto simp: early_def on_way_def)
  ultimately show ?thesis
    using tells_dispatch [OF m me(1)] tells_bytes [OF m, of 1] tells_bytes [OF m, of 6] tells_bytes [OF m, of 7] e
    by (simp add: rx_virtual_terminal_def rx_status_def early_def)
qed

lemma heard_update:
  assumes "early e u WaitForPartnerVTStatusMessage c" "lastVTStatusTimestamp_ms (vt_status c) = set_time e" "usable e"
  shows "\<exists>c2. vt_react listen cfs Update c = Some c2 \<and> well e {} SendWorkingSetMasterMessage u False c2"
proof -
  have o: "on_way e {} u False c" "vt_state c = WaitForPartnerVTStatusMessage" using assms(1) by (auto simp: early_def)
  show ?thesis
    by (rule update_well [OF o(1), of "set_state SendWorkingSetMasterMessage c"])
       (use o assms(2,3) fresh_set_state [OF o(1)] in \<open>simp_all add: state_update_def well_def usable_def\<close>)
qed

lemma run_step: "\<exists>c1. vt_react listen cfs i c = Some c1 \<and> P c1 \<Longrightarrow> (\<And>c1. P c1 \<Longrightarrow> \<exists>c2. vt_run listen cfs ins c1 = Some c2 \<and> Q c2)
  \<Longrightarrow> \<exists>c2. vt_run listen cfs (i # ins) c = Some c2 \<and> Q c2"
  by auto

text \<open>The updates and what the display tells in between, up to the upload and from there on.\<close>

definition greeting :: "CANMessage \<Rightarrow> CANMessage \<Rightarrow> CANMessage \<Rightarrow> CANMessage \<Rightarrow> CANMessage \<Rightarrow> CANMessage \<Rightarrow> vt_input list" where
  "greeting status memory softkeys fonts hardware versions =
     [Update, Message status, Update, Update, Update, Update, Message memory, Update, Message softkeys,
      Update, Message fonts, Update, Message hardware, Update, Message versions]"

definition uploading :: "CANMessage \<Rightarrow> CANMessage \<Rightarrow> cf \<Rightarrow> vt_input list" where
  "uploading endp store pa =
     [Update, TransferDone PGN_ECUtoVirtualTerminal (Some pa) True, Update, Update, Update, Message endp, Update, Message store]"

definition greets :: "cf \<Rightarrow> CANMessage \<Rightarrow> CANMessage \<Rightarrow> CANMessage \<Rightarrow> CANMessage \<Rightarrow> CANMessage \<Rightarrow> CANMessage \<Rightarrow> bool" where
  \<comment> \<open>a display with enough memory and without a stored pool\<close>
  "greets me status memory softkeys fonts hardware versions \<longleftrightarrow> tells me VTStatusMessage status
     \<and> tells me GetMemoryMessage memory \<and> msg_data memory ! 2 = 0 \<and> tells me GetNumberOfSoftKeysMessage softkeys
     \<and> tells me GetTextFontDataMessage fonts \<and> tells me GetHardwareMessage hardware
     \<and> tells me GetVersionsResponse versions \<and> msg_data versions ! 1 = 0"

definition takes_pool :: "cf \<Rightarrow> CANMessage \<Rightarrow> CANMessage \<Rightarrow> bool" where
  "takes_pool me endp store \<longleftrightarrow> tells me EndOfObjectPoolMessage endp \<and> msg_data endp ! 1 = 0 \<and> msg_data endp ! 6 = 0
     \<and> tells me StoreVersionCommand store \<and> msg_data store ! 5 = 0"

lemma greeting_runs:
  assumes "early e u Disconnected c" "usable e" "greets (set_me e) status memory softkeys fonts hardware versions"
  shows "\<exists>c2. vt_run listen cfs (greeting status memory softkeys fonts hardware versions) c = Some c2
     \<and> well e {} UploadObjectPool u False c2"
proof -
  have g: "tells (set_me e) VTStatusMessage status" "tells (set_me e) GetMemoryMessage memory" "msg_data memory ! 2 = 0"
    "tells (set_me e) GetNumberOfSoftKeysMessage softkeys" "tells (set_me e) GetTextFontDataMessage fonts"
    "tells (set_me e) GetHardwareMessage hardware" "tells (set_me e) GetVersionsResponse versions" "msg_data versions ! 1 = 0"
    using assms(3) by (auto simp: greets_def)
  show ?thesis unfolding greeting_def
    apply (rule run_step [OF early_update [OF assms(1)]])
    apply (rule run_step [OF heard_status [OF _ g(1)]], assumption, elim conjE)
    apply (rule run_step [OF heard_update [OF _ _ assms(2)]], assumption, assumption)
    apply (rule run_step [OF start_updates], assumption)
    apply (rule run_step [OF ready_update], assumption)
    apply (rule run_step [OF request_updates(1)], assumption)
    apply (rule run_step [OF answer_memory [OF _ g(2,3)]], assumption)
    apply (rule run_step [OF request_updates(2)], assumption)
    apply (rule run_step [OF answer_softkeys [OF _ g(4)]], assumption)
    apply (rule run_step [OF request_updates(3)], assumption)
    apply (rule run_step [OF answer_fonts [OF _ g(5)]], assumption)
    apply (rule run_step [OF request_updates(4)], assumption)
    apply (rule run_step [OF answer_hardware [OF _ g(6) assms(2)]], assumption)
    apply (rule run_step [OF label_updates(1) [OF assms(2)]], assumption)
    apply (rule run_step [OF answer_versions [OF _ g(7,8)]], assumption)
    apply simp
    done
qed

lemma upload_runs:
  assumes "well e snt UploadObjectPool Uninitialized False c" "usable e" "takes_pool (set_me e) endp store"
  shows "\<exists>c2. vt_run listen cfs (uploading endp store pa) c = Some c2
     \<and> well e (insert (PoolTransfer (objectPoolSize (set_pool e) + 1)) snt) Connected Uninitialized True c2"
proof -
  have g: "tells (set_me e) EndOfObjectPoolMessage endp" "msg_data endp ! 1 = 0" "msg_data endp ! 6 = 0"
    "tells (set_me e) StoreVersionCommand store" "msg_data store ! 5 = 0"
    using assms(3) by (auto simp: takes_pool_def)
  show ?thesis unfolding uploading_def
    apply (rule run_step [OF upload_updates(1) [OF assms(2,1)]])
    apply (rule run_step [OF transfer_done], assumption)
    apply (rule run_step [OF upload_updates(2) [OF assms(2)]], assumption)
    apply (rule run_step [OF upload_updates(3) [OF assms(2)]], assumption)
    apply (rule run_step [OF request_updates(5)], assumption)
    apply (rule run_step [OF answer_end [OF _ g(1-3) assms(2)]], assumption)
    apply (rule run_step [OF label_updates(2) [OF assms(2)]], assumption)
    apply (rule run_step [OF answer_store [OF _ g(4,5)]], assumption)
    apply simp
    done
qed

text \<open>A pool that can be uploaded.\<close>

definition uploadable :: "ObjectPoolDataStruct \<Rightarrow> bool" where
  "uploadable p \<longleftrightarrow> objectPoolDataPointer p \<noteq> None \<and> 0 < objectPoolSize p
     \<and> autoScaleDataMaskOriginalDimension p = 0 \<and> versionLabel p \<noteq> []"

lemma handshake_reaches:
  assumes "vt_state c = Disconnected" "currentObjectPoolState c = Uninitialized" "objectPools c = [p]" "uploadable p" "\<not> uploaded p"
    "\<forall>n. can_accepts c n" "partnerControlFunction c = Some pa" "partner_address_valid c" "ourAuxiliaryInputs c = []" "clock_ms c \<noteq> 0"
    "greets (myControlFunction c) status memory softkeys fonts hardware versions"
    "takes_pool (myControlFunction c) endp store"
  shows "\<exists>c'. vt_run listen cfs (greeting status memory softkeys fonts hardware versions @ uploading endp store pa) c = Some c'
     \<and> get_is_connected c' \<and> PoolTransfer (objectPoolSize p + 1) \<in> set (can_sent c') \<and> app_state c' = app_state c"
proof -
  let ?e = "\<lparr>set_me = myControlFunction c, set_partner = pa, set_time = clock_ms c, set_pool = p, set_app = app_state c\<rparr>"
  have u: "usable ?e" using assms(4,10) by (simp add: usable_def uploadable_def)
  have g: "greets (set_me ?e) status memory softkeys fonts hardware versions" "takes_pool (set_me ?e) endp store"
    using assms(11,12) by simp_all
  have e: "early ?e Uninitialized Disconnected c"
    using assms(1-3,5-9) by (simp add: early_def on_way_def) (rule exI [of _ "scaledObjectPool p"], simp)
  then obtain c1 where c1: "vt_run listen cfs (greeting status memory softkeys fonts hardware versions) c = Some c1"
    "well ?e {} UploadObjectPool Uninitialized False c1"
    using greeting_runs [OF e u g(1)] by blast
  then obtain c2 where "vt_run listen cfs (uploading endp store pa) c1 = Some c2"
    "well ?e {PoolTransfer (objectPoolSize p + 1)} Connected Uninitialized True c2"
    using upload_runs [OF c1(2) u g(2)] by fastforce
  then show ?thesis using c1(1) by (auto simp: vt_run_append get_is_connected_def well_def on_way_def)
qed

section \<open>An interrupted upload\<close>

definition wedged :: "ObjectPoolDataStruct \<Rightarrow> 's vt_client \<Rightarrow> bool" where
  "wedged p c \<longleftrightarrow> vt_state c = UploadObjectPool \<and> currentObjectPoolState c = InProgress \<and> partnerControlFunction c \<noteq> None
     \<and> (\<exists>sc b. objectPools c = [p\<lparr>uploaded := b, scaledObjectPool := sc\<rparr>])"

lemma wedged_sends: "sends c c' \<Longrightarrow> wedged p c' = wedged p c"
  unfolding sends_def by (elim exE) (simp add: wedged_def)

lemma wedged_process_flags: "wedged p c \<Longrightarrow> wedged p (process_flags f c)"
  using wedged_sends [OF connection_sends(1), of p False c] wedged_sends [OF connection_sends(14), of p c]
  by (auto simp: process_flags_def Let_def case_prod_beta) (simp_all add: wedged_def)

lemma wedged_update:
  assumes w: "wedged p c" and p: "uploadable p"
  shows "\<exists>c2. vt_update c = Some c2 \<and> wedged p c2"
proof -
  obtain sc b where o: "objectPools c = [p\<lparr>uploaded := b, scaledObjectPool := sc\<rparr>]" using w by (auto simp: wedged_def)
  then have "state_update c = Some c"
    using w p by (auto simp: state_update_def wedged_def upload_object_pool_def uploadable_def
        get_any_pool_needs_scaling_def Let_def)
  moreover have c: "wedged p (cyclic_messages c)"
    by (rule cyclic_keeps [where P = "wedged p", OF _ _ w]) (simp_all add: wedged_process_flags, simp add: wedged_def)
  moreover have "process_command_queue (cyclic_messages c) = cyclic_messages c"
    using c by (simp add: process_command_queue_eq wedged_def)
  ultimately show ?thesis using w by (auto simp: vt_update_def wedged_def Let_def)
qed

lemma wedged_runs:
  assumes "wedged p c" "uploadable p" "\<forall>i \<in> set ins. i = Update \<or> (\<exists>t. i = Clock t)"
  shows "\<exists>c2. vt_run listen cfs ins c = Some c2 \<and> wedged p c2"
  using assms
proof (induction ins arbitrary: c)
  case (Cons i ins)
  have "\<exists>c1. vt_react listen cfs i c = Some c1 \<and> wedged p c1"
  proof -
    have "wedged p (c\<lparr>clock_ms := t\<rparr>)" for t using Cons.prems(1) by (simp add: wedged_def)
    then show ?thesis using wedged_update [OF Cons.prems(1,2)] Cons.prems(3) by auto
  qed
  then show ?case using Cons.IH Cons.prems(2,3) by (intro run_step [where P = "wedged p"]) auto
qed simp

text \<open>The answer of the transport layer that comes while the client is not uploading is lost, and the next
  upload waits for it.\<close>

lemma upload_stays_wedged:
  assumes "vt_state c = UploadObjectPool" "currentObjectPoolState c = InProgress" "objectPools c = [p]" "uploadable p"
    "vt_initialized c" "\<forall>n. can_accepts c n" "partnerControlFunction c = Some pa" "partner_address_valid c"
    "ourAuxiliaryInputs c = []" "clock_ms c \<noteq> 0"
    "greets (myControlFunction c) status memory softkeys fonts hardware versions"
    "\<forall>i \<in> set ins. i = Update \<or> (\<exists>t. i = Clock t)"
  shows "\<exists>c'. vt_run listen cfs ([Restart, TransferDone PGN_ECUtoVirtualTerminal (Some pa) ok]
        @ greeting status memory softkeys fonts hardware versions @ ins) c = Some c'
     \<and> vt_state c' = UploadObjectPool \<and> currentObjectPoolState c' = InProgress"
proof -
  let ?e = "\<lparr>set_me = myControlFunction c, set_partner = pa, set_time = clock_ms c, set_pool = p, set_app = app_state c\<rparr>"
  have u: "usable ?e" using assms(4,10) by (simp add: usable_def uploadable_def)
  let ?c = "restart_communication c"
  have g: "greets (set_me ?e) status memory softkeys fonts hardware versions" using assms(11) by simp
  have e: "early ?e InProgress Disconnected ?c"
    using assms(1-9) by (simp add: early_def on_way_def restart_communication_def vt_terminate_def vt_initialize_def Let_def
        set_state_def) (rule exI [of _ "scaledObjectPool p"], simp)
  then obtain c1 where c1: "vt_run listen cfs (greeting status memory softkeys fonts hardware versions) ?c = Some c1"
    "well ?e {} UploadObjectPool InProgress False c1"
    using greeting_runs [OF e u g] by blast
  have "wedged p c1" using c1(2) by (auto simp: wedged_def well_def on_way_def)
  then obtain c2 where c2: "vt_run listen cfs ins c1 = Some c2" "wedged p c2"
    using wedged_runs assms(4,12) by blast
  have "process_callback PGN_ECUtoVirtualTerminal (Some pa) ok ?c = ?c"
    using e by (simp add: process_callback_def early_def)
  then show ?thesis using c1(1) c2 by (simp add: vt_run_append wedged_def)
qed

end
