(* ===== verification/Vt_Tracker.thy ===== *)
theory Vt_Tracker
  imports Vt_Client
begin

text \<open>
  The state tracker of a working set and the update helper of the client,
  \<open>isobus_virtual_terminal_client_state_tracker.cpp\<close> and \<open>isobus_virtual_terminal_client_update_helper.cpp\<close>:
  the values a client believes the display to have, the messages that change them, and the setters that
  send a command only for a new value. \<open>None\<close> is an exception thrown by a read past a message or by \<open>at\<close>.
  The registration of the callbacks is in Vt_Dispatch; the null pointers of server and client are \<open>None\<close>.
\<close>

section \<open>State\<close>

record ChangeAttributeCommand_pending =
  pending_value :: u32
  pending_objectId :: u16
  pending_attribute :: u8

record tracker =
  tracked_client :: "cf option"
  tracked_server :: "cf option"
  shownStates :: "u16 \<rightharpoonup> bool"
  numericValueStates :: "u16 \<rightharpoonup> u32"
  activeDataOrAlarmMask :: u16
  dataAndAlarmMaskHistory :: "u16 list"
  maxDataAndAlarmMaskHistorySize :: nat
  activeWorkingSetAddress :: u8
  softKeyMasks :: "u16 \<rightharpoonup> u16"
  attributeStates :: "u16 \<rightharpoonup> (u8 \<rightharpoonup> u32)"
  pendingChangeAttributeCommands :: "cf \<rightharpoonup> ChangeAttributeCommand_pending"
  \<comment> \<open>of the update helper, the class derived from the tracker\<close>
  callbackValidateNumericValue :: "(u16 \<Rightarrow> u32 \<Rightarrow> bool) option"

abbreviation (input) NULL_OBJECT_ID :: u16 where "NULL_OBJECT_ID \<equiv> 0xFFFF"

definition make_tracker :: "cf option \<Rightarrow> tracker" where
  "make_tracker cl =
     \<lparr>tracked_client = cl, tracked_server = None, shownStates = Map.empty, numericValueStates = Map.empty,
      activeDataOrAlarmMask = NULL_OBJECT_ID, dataAndAlarmMaskHistory = [], maxDataAndAlarmMaskHistorySize = 100,
      activeWorkingSetAddress = NULL_ADDRESS, softKeyMasks = Map.empty, attributeStates = Map.empty,
      pendingChangeAttributeCommands = Map.empty, callbackValidateNumericValue = None\<rparr>"

section \<open>What is tracked\<close>

definition track :: "'k \<Rightarrow> 'v \<Rightarrow> ('k \<rightharpoonup> 'v) \<Rightarrow> ('k \<rightharpoonup> 'v)" where
  \<comment> \<open>a key that is tracked already keeps its value\<close>
  "track k v m = (case m k of None \<Rightarrow> m(k \<mapsto> v) | Some _ \<Rightarrow> m)"

definition add_tracked_container_shown :: "u16 \<Rightarrow> bool \<Rightarrow> tracker \<Rightarrow> tracker" where
  "add_tracked_container_shown objectId initialValue t = t\<lparr>shownStates := track objectId initialValue (shownStates t)\<rparr>"

definition remove_tracked_container_shown :: "u16 \<Rightarrow> tracker \<Rightarrow> tracker" where
  "remove_tracked_container_shown objectId t = t\<lparr>shownStates := (shownStates t)(objectId := None)\<rparr>"

definition get_container_shown :: "u16 \<Rightarrow> tracker \<Rightarrow> bool" where
  "get_container_shown objectId t = (case shownStates t objectId of None \<Rightarrow> False | Some b \<Rightarrow> b)"

definition add_tracked_numeric_value :: "u16 \<Rightarrow> u32 \<Rightarrow> tracker \<Rightarrow> tracker" where
  "add_tracked_numeric_value objectId initialValue t =
     t\<lparr>numericValueStates := track objectId initialValue (numericValueStates t)\<rparr>"

definition remove_tracked_numeric_value :: "u16 \<Rightarrow> tracker \<Rightarrow> tracker" where
  "remove_tracked_numeric_value objectId t = t\<lparr>numericValueStates := (numericValueStates t)(objectId := None)\<rparr>"

definition get_numeric_value :: "u16 \<Rightarrow> tracker \<Rightarrow> u32" where
  "get_numeric_value objectId t = (case numericValueStates t objectId of None \<Rightarrow> 0 | Some v \<Rightarrow> v)"

definition set_max_mask_history_size :: "nat \<Rightarrow> tracker \<Rightarrow> tracker" where
  "set_max_mask_history_size n t = t\<lparr>maxDataAndAlarmMaskHistorySize := n\<rparr>"

definition add_tracked_soft_key_mask :: "u16 \<Rightarrow> u16 \<Rightarrow> tracker \<Rightarrow> tracker" where
  "add_tracked_soft_key_mask maskId initialSoftKeyMaskId t =
     t\<lparr>softKeyMasks := track maskId initialSoftKeyMaskId (softKeyMasks t)\<rparr>"

definition remove_tracked_soft_key_mask :: "u16 \<Rightarrow> tracker \<Rightarrow> tracker" where
  "remove_tracked_soft_key_mask maskId t = t\<lparr>softKeyMasks := (softKeyMasks t)(maskId := None)\<rparr>"

definition get_soft_key_mask :: "u16 \<Rightarrow> tracker \<Rightarrow> u16" where
  "get_soft_key_mask maskId t = (case softKeyMasks t maskId of None \<Rightarrow> NULL_OBJECT_ID | Some s \<Rightarrow> s)"

definition get_active_soft_key_mask :: "tracker \<Rightarrow> u16" where
  "get_active_soft_key_mask t =
     (case softKeyMasks t (activeDataOrAlarmMask t) of None \<Rightarrow> NULL_OBJECT_ID | Some s \<Rightarrow> s)"

definition is_working_set_active :: "cf_store \<Rightarrow> tracker \<Rightarrow> bool" where
  "is_working_set_active cfs t =
     (case tracked_client t of None \<Rightarrow> False
      | Some cl \<Rightarrow> cf_address_valid (cfs cl) \<and> address (cfs cl) = activeWorkingSetAddress t)"

definition add_tracked_attribute :: "u16 \<Rightarrow> u8 \<Rightarrow> u32 \<Rightarrow> tracker \<Rightarrow> tracker" where
  \<comment> \<open>the overload for a float passes the word of its representation\<close>
  "add_tracked_attribute objectId attr initialValue t =
     (let attributeMap = (case attributeStates t objectId of None \<Rightarrow> Map.empty | Some m \<Rightarrow> m)
      in t\<lparr>attributeStates := (attributeStates t)(objectId \<mapsto> track attr initialValue attributeMap)\<rparr>)"

definition remove_tracked_attribute :: "u16 \<Rightarrow> u8 \<Rightarrow> tracker \<Rightarrow> tracker" where
  "remove_tracked_attribute objectId attr t =
     (case attributeStates t objectId of None \<Rightarrow> t
      | Some attributeMap \<Rightarrow>
          t\<lparr>attributeStates := (attributeStates t)(objectId \<mapsto> attributeMap(attr := None))\<rparr>)"

definition tracked_attribute :: "u16 \<Rightarrow> u8 \<Rightarrow> tracker \<Rightarrow> u32 option" where
  "tracked_attribute objectId attr t = attributeStates t objectId \<bind> (\<lambda>attributeMap. attributeMap attr)"

definition get_attribute :: "u16 \<Rightarrow> u8 \<Rightarrow> tracker \<Rightarrow> u32" where
  "get_attribute objectId attr t = (case tracked_attribute objectId attr t of None \<Rightarrow> 0 | Some v \<Rightarrow> v)"

section \<open>Following the messages\<close>

definition cache_active_mask :: "u16 \<Rightarrow> tracker \<Rightarrow> tracker" where
  "cache_active_mask maskId t =
     (if activeDataOrAlarmMask t \<noteq> maskId
      then
        let h = (if activeDataOrAlarmMask t \<noteq> NULL_OBJECT_ID
                 then let longer = activeDataOrAlarmMask t # dataAndAlarmMaskHistory t
                      in if maxDataAndAlarmMaskHistorySize t < length longer then butlast longer else longer
                 else dataAndAlarmMaskHistory t)
        in t\<lparr>dataAndAlarmMaskHistory := h, activeDataOrAlarmMask := maskId\<rparr>
      else t)"

definition store_soft_key_mask :: "u16 \<Rightarrow> u16 \<Rightarrow> tracker \<Rightarrow> tracker" where
  "store_soft_key_mask maskId s t =
     (if softKeyMasks t maskId \<noteq> None then t\<lparr>softKeyMasks := (softKeyMasks t)(maskId \<mapsto> s)\<rparr> else t)"

definition store_numeric_value :: "u16 \<Rightarrow> u32 \<Rightarrow> tracker \<Rightarrow> tracker" where
  "store_numeric_value objectId v t =
     (if numericValueStates t objectId \<noteq> None
      then t\<lparr>numericValueStates := (numericValueStates t)(objectId \<mapsto> v)\<rparr> else t)"

definition store_attribute :: "u16 \<Rightarrow> u8 \<Rightarrow> u32 \<Rightarrow> tracker \<Rightarrow> tracker" where
  "store_attribute objectId attr v t =
     (let attributeMap = (case attributeStates t objectId of None \<Rightarrow> Map.empty | Some m \<Rightarrow> m)
      in t\<lparr>attributeStates := (attributeStates t)(objectId \<mapsto> attributeMap(attr \<mapsto> v))\<rparr>)"

definition follow_masks :: "CANMessage \<Rightarrow> tracker \<Rightarrow> tracker option" where
  \<comment> \<open>the body the two status handlers share\<close>
  "follow_masks m t =
     do {maskId \<leftarrow> get_uint16_at 2 LittleEndian m;
         let t1 = cache_active_mask maskId t;
         if softKeyMasks t1 (activeDataOrAlarmMask t1) \<noteq> None
         then do {softKeyMask \<leftarrow> get_uint16_at 4 LittleEndian m;
                  Some (store_soft_key_mask (activeDataOrAlarmMask t1) softKeyMask t1)}
         else Some t1}"

definition process_status_message :: "cf_store \<Rightarrow> CANMessage \<Rightarrow> tracker \<Rightarrow> tracker option" where
  "process_status_message cfs m t =
     (if get_data_length m = 8
      then do {a \<leftarrow> get_uint8_at 1 m;
               let t1 = t\<lparr>activeWorkingSetAddress := a\<rparr>;
               if is_working_set_active cfs t1 then follow_masks m (t1\<lparr>tracked_server := msg_source m\<rparr>) else Some t1}
      else Some t)"

definition server_attribute_response :: "CANMessage \<Rightarrow> tracker \<Rightarrow> tracker option" where
  \<comment> \<open>looked up under the destination, read under the source\<close>
  "server_attribute_response m t =
     do {errorCode \<leftarrow> get_uint8_at 4 m;
         if errorCode = 0
         then do {
           objectId \<leftarrow> get_uint16_at 1 LittleEndian m;
           attr \<leftarrow> get_uint8_at 3 m;
           err \<leftarrow> get_uint8_at 4 m;
           (case msg_destination m of
              None \<Rightarrow> Some t
            | Some dest \<Rightarrow>
                if pendingChangeAttributeCommands t dest \<noteq> None
                then do {
                  pendingCommand \<leftarrow> msg_source m \<bind> pendingChangeAttributeCommands t;
                  t1 \<leftarrow> (if pending_objectId pendingCommand = objectId
                            \<and> pending_attribute pendingCommand = attr \<and> 0 = err
                         then do {v \<leftarrow> get_uint32_at 5 LittleEndian m; Some (store_attribute objectId attr v t)}
                         else Some t);
                  Some (t1\<lparr>pendingChangeAttributeCommands :=
                             (pendingChangeAttributeCommands t1)(dest := None)\<rparr>)}
                else Some t)}
         else Some t}"

definition process_message_from_connected_server :: "cf_store \<Rightarrow> CANMessage \<Rightarrow> tracker \<Rightarrow> tracker option" where
  "process_message_from_connected_server cfs m t =
     do {f \<leftarrow> get_uint8_at 0 m;
         if f = VTStatusMessage
         then do {a \<leftarrow> get_uint8_at 1 m;
                  let t1 = t\<lparr>tracked_server := msg_source m, activeWorkingSetAddress := a\<rparr>;
                  if is_working_set_active cfs t1 then follow_masks m t1 else Some t1}
         else if f = ChangeActiveMaskCommand
         then do {errorCode \<leftarrow> get_uint8_at 3 m;
                  if errorCode = 0
                  then do {maskId \<leftarrow> get_uint16_at 1 LittleEndian m; Some (cache_active_mask maskId t)}
                  else Some t}
         else if f = ChangeSoftKeyMaskCommand
         then do {errorCode \<leftarrow> get_uint8_at 3 m;
                  if errorCode = 0
                  then do {associatedMask \<leftarrow> get_uint16_at 1 LittleEndian m;
                           softKeyMask \<leftarrow> get_uint16_at 4 LittleEndian m;
                           Some (store_soft_key_mask associatedMask softKeyMask t)}
                  else Some t}
         else if f = ChangeNumericValueCommand
         then if get_data_length m = 8
              then do {errorCode \<leftarrow> get_uint8_at 3 m;
                       if errorCode = 0
                       then do {objectId \<leftarrow> get_uint16_at 1 LittleEndian m;
                                v \<leftarrow> get_uint32_at 4 LittleEndian m;
                                Some (store_numeric_value objectId v t)}
                       else Some t}
              else Some t
         else if f = VTChangeNumericValueMessage
         then if get_data_length m = 8
              then do {objectId \<leftarrow> get_uint16_at 1 LittleEndian m;
                       v \<leftarrow> get_uint32_at 4 LittleEndian m;
                       Some (store_numeric_value objectId v t)}
              else Some t
         else if f = ChangeAttributeCommand
         then if get_data_length m = 8 then server_attribute_response m t else Some t
         else Some t}"

definition process_message_to_connected_server :: "CANMessage \<Rightarrow> tracker \<Rightarrow> tracker option" where
  "process_message_to_connected_server m t =
     do {f \<leftarrow> get_uint8_at 0 m;
         if f = ChangeAttributeCommand \<and> get_data_length m = 8
         then do {objectId \<leftarrow> get_uint16_at 1 LittleEndian m;
                  attr \<leftarrow> get_uint8_at 3 m;
                  if tracked_attribute objectId attr t \<noteq> None
                  then do {v \<leftarrow> get_uint32_at 4 LittleEndian m;
                           s \<leftarrow> msg_source m;
                           Some (t\<lparr>pendingChangeAttributeCommands := (pendingChangeAttributeCommands t)(s \<mapsto>
                             \<lparr>pending_value = v, pending_objectId = objectId, pending_attribute = attr\<rparr>)\<rparr>)}
                  else Some t}
         else Some t}"

definition process_rx_or_tx_message :: "cf_store \<Rightarrow> CANMessage \<Rightarrow> tracker \<Rightarrow> tracker option" where
  "process_rx_or_tx_message cfs m t =
     (if \<not> has_valid_source_control_function cfs m \<or> get_data_length m = 0 then Some t
      else do {
        f \<leftarrow> get_uint8_at 0 m;
        t1 \<leftarrow> (if is_broadcast cfs m \<and> is_parameter_group_number PGN_VirtualTerminalToECU m
                  \<and> f = VTStatusMessage
               then process_status_message cfs m t else Some t);
        if is_source cfs (tracked_server t1) m \<and> \<not> is_broadcast cfs m
           \<and> is_parameter_group_number PGN_VirtualTerminalToECU m
        then process_message_from_connected_server cfs m t1
        else if is_destination cfs (tracked_server t1) m \<and> \<not> is_broadcast cfs m
           \<and> is_parameter_group_number PGN_ECUtoVirtualTerminal m
        then process_message_to_connected_server m t1
        else Some t1})"

section \<open>The update helper\<close>

definition set_tracked :: "bool \<Rightarrow> bool \<Rightarrow> ('c \<Rightarrow> (bool \<times> 'c) option) \<Rightarrow> (tracker \<Rightarrow> tracker) \<Rightarrow>
    tracker \<Rightarrow> 'c \<Rightarrow> (bool \<times> tracker \<times> 'c) option" where
  \<comment> \<open>the body of the setters: not without a client, not what is untracked, nothing for an equal value\<close>
  "set_tracked known same send_it store t c =
     (if tracked_client t = None then Some (False, t, c)
      else if \<not> known then Some (False, t, c)
      else if same then Some (True, t, c)
      else do {(success, c1) \<leftarrow> send_it c; Some (success, if success then store t else t, c1)})"

definition set_container_shown :: "u16 \<Rightarrow> bool \<Rightarrow> tracker \<Rightarrow> 's vt_client \<Rightarrow> (bool \<times> tracker \<times> 's vt_client) option" where
  "set_container_shown objectId isShown t =
     set_tracked (shownStates t objectId \<noteq> None) (shownStates t objectId = Some isShown)
       (send_hide_show_object objectId (if isShown then ShowObject else HideObject))
       (\<lambda>t. t\<lparr>shownStates := (shownStates t)(objectId \<mapsto> isShown)\<rparr>) t"

definition set_numeric_value :: "u16 \<Rightarrow> u32 \<Rightarrow> tracker \<Rightarrow> 's vt_client \<Rightarrow> (bool \<times> tracker \<times> 's vt_client) option" where
  "set_numeric_value object_id v t =
     set_tracked (numericValueStates t object_id \<noteq> None) (numericValueStates t object_id = Some v)
       (send_change_numeric_value object_id v)
       (\<lambda>t. t\<lparr>numericValueStates := (numericValueStates t)(object_id \<mapsto> v)\<rparr>) t"

definition increase_numeric_value :: "u16 \<Rightarrow> u32 \<Rightarrow> tracker \<Rightarrow> 's vt_client \<Rightarrow> (bool \<times> tracker \<times> 's vt_client) option" where
  "increase_numeric_value object_id step t = set_numeric_value object_id (get_numeric_value object_id t + step) t"

definition decrease_numeric_value :: "u16 \<Rightarrow> u32 \<Rightarrow> tracker \<Rightarrow> 's vt_client \<Rightarrow> (bool \<times> tracker \<times> 's vt_client) option" where
  "decrease_numeric_value object_id step t = set_numeric_value object_id (get_numeric_value object_id t - step) t"

definition process_numeric_value_change_event :: "u32 \<Rightarrow> u16 \<Rightarrow> tracker \<Rightarrow> 's vt_client \<Rightarrow> 's vt_client option" where
  "process_numeric_value_change_event v objectID t c =
     (case numericValueStates t objectID of
        None \<Rightarrow> Some c
      | Some current \<Rightarrow>
          if current = v then Some c
          else map_option snd (send_change_numeric_value objectID
            (case callbackValidateNumericValue t of
               Some valid \<Rightarrow> if valid objectID v then current else v
             | None \<Rightarrow> v) c))"

definition set_active_data_or_alarm_mask :: "u16 \<Rightarrow> u16 \<Rightarrow> tracker \<Rightarrow> 's vt_client \<Rightarrow> (bool \<times> tracker \<times> 's vt_client) option" where
  "set_active_data_or_alarm_mask workingSetId maskId t =
     set_tracked True (activeDataOrAlarmMask t = maskId) (send_change_active_mask workingSetId maskId)
       (\<lambda>t. t\<lparr>activeDataOrAlarmMask := maskId\<rparr>) t"

definition set_active_soft_key_mask :: "MaskType \<Rightarrow> u16 \<Rightarrow> u16 \<Rightarrow> tracker \<Rightarrow> 's vt_client \<Rightarrow> (bool \<times> tracker \<times> 's vt_client) option" where
  "set_active_soft_key_mask maskType maskId softKeyMaskId t =
     set_tracked (softKeyMasks t maskId \<noteq> None) (softKeyMasks t maskId = Some softKeyMaskId)
       (send_change_softkey_mask maskType maskId softKeyMaskId)
       (\<lambda>t. t\<lparr>softKeyMasks := (softKeyMasks t)(maskId \<mapsto> softKeyMaskId)\<rparr>) t"

definition set_attribute :: "u16 \<Rightarrow> u8 \<Rightarrow> u32 \<Rightarrow> tracker \<Rightarrow> 's vt_client \<Rightarrow> (bool \<times> tracker \<times> 's vt_client) option" where
  "set_attribute objectId attr v t =
     set_tracked (tracked_attribute objectId attr t \<noteq> None) (tracked_attribute objectId attr t = Some v)
       (send_change_attribute objectId attr v) (store_attribute objectId attr v) t"

end
