(* ===== verification/Planter_Display.thy ===== *)
theory Planter_Display
  imports Vt_Flow Vt_Tracker App_Safety
begin

text \<open>
  The planter behind its display: the commands of the application (theory App_Main) turned into calls of the
  virtual terminal client and the update helper, and the listeners the application registers. They satisfy the
  interface \<open>vt_application\<close>, so every run of the client with the planter behind it is defined.
\<close>

section \<open>The planter's display\<close>

text \<open>The application and its update helper are the state behind the client.\<close>

record 'n planter =
  planter_app :: "'n app"
  planter_helper :: tracker

fun font_of_byte :: "u8 \<Rightarrow> FontSize" where
  "font_of_byte b = (if b = FONT_24X32 then Size24x32 else Size12x16)"

definition bytes_of_string :: "string \<Rightarrow> u8 list" where
  "bytes_of_string s = map of_char s"

definition through_helper ::
    "(tracker \<Rightarrow> 'n planter vt_client \<Rightarrow> (bool \<times> tracker \<times> 'n planter vt_client) option) \<Rightarrow>
     'n planter vt_client \<Rightarrow> (bool \<times> 'n planter vt_client) option" where
  "through_helper f c =
     do {(r, h, c1) \<leftarrow> f (planter_helper (app_state c)) c;
         Some (r, c1\<lparr>app_state := (app_state c1)\<lparr>planter_helper := h\<rparr>\<rparr>)}"

fun issue :: "vt_cmd \<Rightarrow> 'n planter vt_client \<Rightarrow> (bool \<times> 'n planter vt_client) option" where
  "issue (ChangeBackgroundColour i col) = send_change_background_colour i col"
| "issue (ChangeAttribute i a v) = Vt_Commands.send_change_attribute i a v"
| "issue (ChangeFontAttributes i col sz ty st) = send_change_font_attributes i col (font_of_byte sz) ty st"
| "issue (ChangeStringValue i s) = send_change_string_value i (bytes_of_string s)"
| "issue (EnableDisableObject i b) = send_enable_disable_object i (if b then EnableObject else DisableObject)"
| "issue (SetNumericValue i v) = through_helper (set_numeric_value i v)"
| "issue (SetActiveMask w m) = through_helper (set_active_data_or_alarm_mask w m)"

fun issue_all :: "vt_cmd list \<Rightarrow> 'n planter vt_client \<Rightarrow> 'n planter vt_client option" where
  "issue_all [] c = Some c"
| "issue_all (x # xs) c = do {(r, c1) \<leftarrow> issue x c; issue_all xs c1}"

text \<open>What the application does runs to its end here and its commands are issued afterwards, in their order:
  the only answer it looks at is that of \<open>send_change_attribute\<close>, which the commands before it do not
  influence.\<close>

definition run_app :: "('n app \<Rightarrow> 'n app) \<Rightarrow> 'n planter vt_client \<Rightarrow> 'n planter vt_client option" where
  "run_app f c =
     (let answer = \<not> is_function_unsupported Vt_Commands.ChangeAttributeCommand c;
          a = f ((planter_app (app_state c))\<lparr>vtReply := (\<lambda>_. answer), vt_log := []\<rparr>)
      in issue_all (vt_log a) (c\<lparr>app_state := (app_state c)\<lparr>planter_app := a\<rparr>\<rparr>))"

fun key_code :: "u8 \<Rightarrow> KeyActivationCode" where
  "key_code b = (if b = 0 then ButtonUnlatchedOrReleased else if b = 1 then ButtonPressedOrLatched
                 else if b = 2 then ButtonStillHeld else ButtonPressAborted)"

fun planter_listen :: "'n nvs_api \<Rightarrow> int \<Rightarrow> 'n planter listener" where
  \<comment> \<open>the listeners that \<open>app_main\<close> and the update helper register\<close>
  "planter_listen api now (SoftKeyEvent objectID _ _ code) = run_app (handle_softkey_event (key_code code) objectID)"
| "planter_listen api now (ButtonEvent objectID _ _ code) = run_app (handle_button_event api now (key_code code) objectID)"
| "planter_listen api now (ActiveMaskEvent maskObjectID _ _ _ _ _ _) = run_app (handle_active_mask_event maskObjectID)"
| "planter_listen api now (NumericValueEvent v objectID) =
     (\<lambda>c. process_numeric_value_change_event v objectID (planter_helper (app_state c)) c)"
| "planter_listen api now _ = Some"

section \<open>Commands the application gives\<close>

fun short_cmd :: "vt_cmd \<Rightarrow> bool" where
  "short_cmd (ChangeStringValue i s) = (length s < 65535)"
| "short_cmd _ = True"

definition short_log :: "'n app \<Rightarrow> bool" where
  "short_log a \<longleftrightarrow> list_all short_cmd (vt_log a)"

lemma short_send [simp]: "short_log (send x a) \<longleftrightarrow> short_log a \<and> short_cmd x"
  by (simp add: short_log_def send_def)

lemma short_updates [simp]:
  "short_log (a\<lparr>fanVac := f\<rparr>) = short_log a" "short_log (a\<lparr>plant := p\<rparr>) = short_log a"
  "short_log (a\<lparr>wasVtConnected := w\<rparr>) = short_log a" "short_log (a\<lparr>nvs := nv\<rparr>) = short_log a"
  "short_log (a\<lparr>bulkFillHeadland := bf\<rparr>) = short_log a" "short_log (a\<lparr>calStatusClearAtUs := t\<rparr>) = short_log a"
  "short_log (a\<lparr>currentScreen := sc\<rparr>) = short_log a" "short_log (a\<lparr>hydraulicActuationInhibited := h\<rparr>) = short_log a"
  "short_log (a\<lparr>foldSeq := fs\<rparr>) = short_log a" "short_log (a\<lparr>outputs := b\<rparr>) = short_log a"
  "short_log (a\<lparr>markerModel := m\<rparr>) = short_log a" "short_log (a\<lparr>calPosition := cp\<rparr>) = short_log a"
  "short_log (a\<lparr>calibrationPoints := pts\<rparr>) = short_log a" "short_log (a\<lparr>lockoutFeedback := l\<rparr>) = short_log a"
  "short_log (a\<lparr>vtReplies := n\<rparr>) = short_log a" "short_log (a\<lparr>actionSelection := s\<rparr>) = short_log a"
  by (simp_all add: short_log_def)

lemma short_style [simp]: "short_log (apply_button_style v st a) = short_log a"
  by (simp add: apply_button_style_def App_Main.send_change_attribute_def Let_def)

lemma short_fold [simp]: "(\<And>x s. short_log (f x s) = short_log s) \<Longrightarrow> short_log (fold f xs a) = short_log a"
  by (induction xs arbitrary: a) simp_all

lemma short_texts [simp]:
  "length (headland_text b) < 65535" "length (detail_text m) < 65535" "length (lockout_reason_text r) < 65535"
  "length (position_state n ps) < 65535"
  "length (case lockout_message r of Some m' \<Rightarrow> m' | None \<Rightarrow> []) < 65535"
  by (auto simp: headland_text_def detail_text_def position_state_def) (cases r; simp)+

lemma short_sync [simp]:
  "short_log (sync_action_buttons g a) = short_log a" "short_log (sync_power_buttons a) = short_log a"
  "short_log (sync_marker_buttons a) = short_log a" "short_log (sync_headland_button a) = short_log a"
  "short_log (apply_action_changes p q a) = short_log a"
  by (simp_all add: sync_action_buttons_def sync_power_buttons_def sync_marker_buttons_def sync_headland_button_def
      apply_action_changes_def Let_def split_beta)

lemma short_screens [simp]:
  "short_log (sync_screen_buttons sc a) = short_log a" "short_log (sync_all_buttons a) = short_log a"
  "short_log (handle_active_mask_event k a) = short_log a" "short_log (reset_action_buttons a) = short_log a"
  "short_log (press_action_visual g i a) = short_log a"
  by (cases sc; simp add: sync_all_buttons_def handle_active_mask_event_def reset_action_buttons_def
      press_action_visual_def Let_def)+

lemma short_lockout [simp]:
  "short_log (send_lockout_text g r a) = short_log a" "short_log (restore_lockout_text g a) = short_log a"
  by (simp_all add: send_lockout_text_def restore_lockout_text_def)

lemma short_blocked [simp]:
  "short_log (show_blocked_press g a) = short_log a" "short_log (update_lockout_feedback a) = short_log a"
  by (simp_all add: show_blocked_press_def update_lockout_feedback_def Let_def split: prod.splits)

lemma short_cancel [simp]: "short_log (snd (app_cancel a)) = short_log a"
  by (simp add: app_cancel_def split: prod.splits)

lemma short_activate:
  assumes "app_activate g i a = (ESP_OK, a')" "1 \<le> i" "i \<le> 6"
  shows "short_log a' = short_log a" "length (fold_sequence_get_instruction (foldSeq a')) < 65535"
proof -
  obtain f b where r: "activate_group g i (foldSeq a) (outputs a) = (ESP_OK, f, b)" "a' = a\<lparr>foldSeq := f, outputs := b\<rparr>"
    using assms(1) by (auto simp: app_activate_def split: prod.splits)
  then show "short_log a' = short_log a" by simp
  have f: "currentStep f = i - 1" "currentState f = (case g of Fold \<Rightarrow> FOLD_ACTIVE | Unfold \<Rightarrow> UNFOLD_ACTIVE)"
    using r(1) assms(2,3) unfolding activate_group_alt by (auto simp: activate_action_def Let_def split: prod.splits if_splits)
  have "list_all (\<lambda>s. length s < 65535) FOLD_INSTRUCTIONS" "list_all (\<lambda>s. length s < 65535) UNFOLD_INSTRUCTIONS"
    "length FOLD_INSTRUCTIONS = 6" "length UNFOLD_INSTRUCTIONS = 6"
    by (simp_all add: FOLD_INSTRUCTIONS_def UNFOLD_INSTRUCTIONS_def)
  moreover have "unat (i - 1) < 6" using u8_pred_less_6 [OF assms(2,3)] by (simp add: word_less_nat_alt)
  ultimately show "length (fold_sequence_get_instruction (foldSeq a')) < 65535"
    using f by (cases g) (simp_all add: r(2) fold_sequence_get_instruction_def list_all_length)
qed

lemma press_action_foldSeq [simp]: "foldSeq (press_action_visual g i a) = foldSeq a"
proof -
  have "foldSeq (sync_action_buttons g b) = foldSeq b" for b :: "'a app"
    by (rule core_eq_fields) simp
  then show ?thesis by (simp add: press_action_visual_def)
qed

lemma short_press_free: "1 \<le> i \<Longrightarrow> i \<le> 6 \<Longrightarrow> short_log a \<Longrightarrow> short_log (press_free_action g i a)"
proof -
  assume i: "1 \<le> i" "i \<le> 6" and a: "short_log a"
  have e: "short_log a'" if "app_activate g i a = (e, a')" for e a'
    using that a by (auto simp: app_activate_def split: prod.splits)
  have c: "short_log a'" if "app_cancel a = (e, a')" for e a'
    using that a short_cancel [of a] by simp
  show "short_log (press_free_action g i a)"
    using i a short_activate(2) [of g i a] c e
    by (auto simp: press_free_action_def stop_action_def start_action_def Let_def split: prod.splits)
qed

lemma short_action_button:
  assumes "short_log a" shows "short_log (handle_action_button g i a)"
proof -
  have "short_log a'" if "app_cancel (reset_action_buttons a) = (e, a')" for e a'
    using that assms short_cancel [of "reset_action_buttons a"] by simp
  moreover have "short_log (press_free_action g i b)" if "\<not> (i < 1 \<or> i > 6)" "short_log b" for b
  proof -
    have "1 \<le> i" "i \<le> 6" using that(1) by (metis linorder_not_less)+
    then show ?thesis using that(2) by (rule short_press_free)
  qed
  ultimately show ?thesis using assms
    by (auto simp: handle_action_button_def split: prod.splits)
qed

lemma short_show_screen [simp]: "short_log (show_screen sc a) = short_log a"
  by (simp add: show_screen_def Let_def)

lemma short_plant [simp]: "short_log (plant_button setter a) = short_log a"
  by (simp add: plant_button_def Let_def split: prod.splits)

lemma short_fan [simp]:
  "short_log (fan_target_button fn a) = short_log a" "short_log (vac_target_button fn a) = short_log a"
  "short_log (request_fan_power r a) = short_log a" "short_log (request_vac_power r a) = short_log a"
  "short_log (handle_marker_auto_button a) = short_log a"
  by (simp_all add: fan_target_button_def vac_target_button_def request_fan_power_def request_vac_power_def
      handle_marker_auto_button_def Let_def)

lemma short_marker_side [simp]: "short_log (handle_marker_side_button l a) = short_log a"
  by (simp add: handle_marker_side_button_def Let_def split: prod.splits)

lemma short_calibration [simp]:
  "short_log (save_calibration_point api now pt oid v a) = short_log a"
  "short_log (toggle_bulk_fill_headland api now a) = short_log a"
  by (simp_all add: set_calibration_status_def save_calibration_point_def toggle_bulk_fill_headland_def Let_def
      split: prod.splits)

lemma short_button: "short_log a \<Longrightarrow> short_log (handle_button_event api now k oid a)"
  by (simp add: handle_button_event_def handle_fold_action_button_def handle_unfold_action_button_def
      short_action_button)

lemma short_softkey: "short_log a \<Longrightarrow> short_log (handle_softkey_event k oid a)"
  by (simp add: handle_softkey_event_def)

lemma short_interlock: "short_log (update_interlock a) = short_log a"
  by (simp add: update_interlock_def Let_def)

lemma short_display [simp]: "short_log (update_display_values now a) = short_log a"
  by (simp add: update_display_values_def update_fold_step_def expire_calibration_status_def Let_def)

section \<open>The planter behind the client\<close>

lemma issues_trans: "issues c1 c2 \<Longrightarrow> issues c c1 \<Longrightarrow> issues c c2"
  by (induction rule: issues.induct) (auto intro: issues.intros)

lemma issues_one: "command_ok d rep \<Longrightarrow> queue_command d rep c = Some (r, c1) \<Longrightarrow> issues c c1"
  by (blast intro: issues.intros)

lemma queue_issues:
  assumes "vt_ok c" "command_ok d rep"
  shows "\<exists>r c1. queue_command d rep c = Some (r, c1) \<and> issues c c1"
proof -
  obtain r c1 where "queue_command d rep c = Some (r, c1)"
    using queue_command_defined [of c d rep] assms by (auto simp: vt_ok_def)
  then show ?thesis using issues_one [OF assms(2)] by blast
qed

lemma set_tracked_issues:
  assumes "\<exists>r c1. send_it c = Some (r, c1) \<and> issues c c1"
  shows "\<exists>r t1 c1. set_tracked known same send_it store t c = Some (r, t1, c1) \<and> issues c c1"
  using assms by (auto simp: set_tracked_def intro: issues.intros)

lemma through_issues:
  assumes "\<exists>r t1 c1. f (planter_helper (app_state c)) c = Some (r, t1, c1) \<and> issues c c1"
  shows "\<exists>r c1. through_helper f c = Some (r, c1) \<and> issues c c1"
  using assms by (fastforce simp: through_helper_def intro: issues.intros)

lemma commands_ok:
  "command_ok [ChangeBackgroundColourCommand, a, b, e1, e2, e3, e4, e5] True"
  "command_ok [ChangeFontAttributesCommand, a, b, e1, e2, e3, e4, e5] True"
  "command_ok [Vt_Commands.ChangeAttributeCommand, a, b, e1, e2, e3, e4, e5] True"
  "command_ok [EnableDisableObjectCommand, a, b, e1, e2, e3, e4, e5] True"
  "command_ok [ChangeNumericValueCommand, a, b, e1, e2, e3, e4, e5] True"
  "command_ok [ChangeActiveMaskCommand, a, b, e1, e2, e3, e4, e5] True"
  "command_ok (pad_to_frame (ChangeStringValueCommand # a # b # xs)) True"
  by (simp_all add: command_ok_def command_responses_def pad_to_frame_def replaceable_def)

lemma string_issues:
  assumes "vt_ok c" "length s < 65535"
  shows "\<exists>r c1. send_change_string_value i s c = Some (r, c1) \<and> issues c c1"
proof -
  have "unat (of_nat (length s) :: u16) = length s" using assms(2) by (simp add: unat_of_nat)
  then show ?thesis using assms queue_issues [OF assms(1) commands_ok(7)]
    by (simp add: send_change_string_value_def send_change_string_value_chars_def)
qed

lemma issue_issues:
  assumes "vt_ok c" "short_cmd x"
  shows "\<exists>r c1. issue x c = Some (r, c1) \<and> issues c c1"
proof (cases x)
  case (ChangeStringValue i s)
  then show ?thesis using string_issues [of c "bytes_of_string s" i] assms by (simp add: bytes_of_string_def)
next
  case (SetNumericValue i v)
  show ?thesis unfolding SetNumericValue issue.simps set_numeric_value_def send_change_numeric_value_def
    by (intro through_issues set_tracked_issues queue_issues assms commands_ok)
next
  case (SetActiveMask w m)
  show ?thesis unfolding SetActiveMask issue.simps set_active_data_or_alarm_mask_def send_change_active_mask_def
    by (intro through_issues set_tracked_issues queue_issues assms commands_ok)
qed (simp_all only: issue.simps send_change_background_colour_def Vt_Commands.send_change_attribute_def
      send_change_font_attributes_def send_enable_disable_object_def queue_issues [OF assms(1)] commands_ok)

lemma issue_all_issues:
  assumes "vt_ok c" "list_all short_cmd xs"
  shows "\<exists>c1. issue_all xs c = Some c1 \<and> issues c c1"
  using assms
proof (induction xs arbitrary: c)
  case (Cons x xs)
  obtain r c1 where c1: "issue x c = Some (r, c1)" "issues c c1" using issue_issues [OF Cons.prems(1), of x] Cons.prems(2) by auto
  then have "vt_ok c1" using issues_ok Cons.prems(1) by blast
  then obtain c2 where "issue_all xs c1 = Some c2" "issues c1 c2" using Cons.IH Cons.prems(2) by auto
  moreover from this(2) c1(2) have "issues c c2" by (rule issues_trans)
  ultimately show ?case by (simp add: c1(1))
qed (simp add: issues_nothing)

lemma run_app_issues:
  assumes "vt_ok c" "\<And>a. short_log a \<Longrightarrow> short_log (f a)"
  shows "\<exists>c1. run_app f c = Some c1 \<and> issues c c1"
proof -
  define a where "a = f ((planter_app (app_state c))\<lparr>vtReply := (\<lambda>_. \<not> is_function_unsupported Vt_Commands.ChangeAttributeCommand c), vt_log := []\<rparr>)"
  define c0 where "c0 = c\<lparr>app_state := (app_state c)\<lparr>planter_app := a\<rparr>\<rparr>"
  have "issues c c0" unfolding c0_def by (rule issues_state [OF issues_nothing])
  moreover have "list_all short_cmd (vt_log a)"
    using assms(2) [of "(planter_app (app_state c))\<lparr>vtReply := x, vt_log := []\<rparr>" for x]
    by (simp add: a_def short_log_def)
  moreover have "run_app f c = issue_all (vt_log a) c0" by (simp add: run_app_def a_def c0_def Let_def)
  moreover have "vt_ok c0" using issues_ok [OF calculation(1)] assms(1) by simp
  ultimately obtain c1 where "run_app f c = Some c1" "issues c0 c1"
    using issue_all_issues [of c0 "vt_log a"] by auto
  with issues_trans [OF this(2) \<open>issues c c0\<close>] show ?thesis by simp
qed

lemma change_event_issues:
  assumes "vt_ok c"
  shows "\<exists>c1. process_numeric_value_change_event v i t c = Some c1 \<and> issues c c1"
proof -
  have "\<exists>c1. map_option snd (send_change_numeric_value i x c) = Some c1 \<and> issues c c1" for x
    unfolding send_change_numeric_value_def using queue_issues [OF assms commands_ok(5)] by fastforce
  then show ?thesis
    by (auto simp: process_numeric_value_change_event_def issues_nothing split: option.split)
qed

lemma planter_listens: "vt_ok c \<Longrightarrow> \<exists>c1. planter_listen api now e c = Some c1 \<and> issues c c1"
  by (cases e) (auto simp: issues_nothing change_event_issues intro!: run_app_issues intro: short_softkey short_button)

interpretation planter_vt: vt_application "planter_listen api now" for api now
  by unfold_locales (rule planter_listens)

lemma queue_command_answer: "queue_command d rep c = Some (r, c1) \<Longrightarrow> r \<longleftrightarrow> \<not> is_function_unsupported (d ! 0) c"
  by (auto simp: queue_command_def checked_nth_def bind_eq_Some_conv split: if_splits prod.splits)

end
