(* ===== verification/Vt_Dispatch.thy ===== *)
theory Vt_Dispatch
  imports Planter_Display Can_Network
begin

text \<open>
  How a received message reaches its listeners: the tables of callbacks of
  \<open>src/isobus/src/can_network_manager.cpp\<close> and of a partner (\<open>can_partnered_control_function.cpp\<close>), what the
  state tracker and the virtual terminal client register there, and the order in which the receive loop walks
  them. A callback is named by a value of type \<open>'f\<close> (function pointer and parent together) and run by the
  argument \<open>call\<close>, on a state \<open>'w\<close>. Calling a null pointer is \<open>None\<close>. The tables do not change while
  a message is dispatched.
\<close>

abbreviation (input) PGN_Request :: u32 where "PGN_Request \<equiv> 0xEA00"

section \<open>The tables of callbacks\<close>

record 'f dispatch_callback =
  callback_function :: "'f option"
  callback_pgn :: u32
  internalControlFunctionFilter :: "cf option"

record 'f callback_tables =
  protocolPGNCallbacks :: "'f dispatch_callback list"
  anyControlFunctionParameterGroupNumberCallbacks :: "'f dispatch_callback list"
  globalParameterGroupNumberCallbacks :: "'f dispatch_callback list"
  dispatch_partners :: "cf list"
  parameterGroupNumberCallbacks :: "cf \<Rightarrow> 'f dispatch_callback list"

definition callback_data :: "u32 \<Rightarrow> 'f option \<Rightarrow> cf option \<Rightarrow> 'f dispatch_callback" where
  "callback_data pgn f icf = \<lparr>callback_function = f, callback_pgn = pgn, internalControlFunctionFilter = icf\<rparr>"

definition add_any_control_function_parameter_group_number_callback ::
    "u32 \<Rightarrow> 'f option \<Rightarrow> 'f callback_tables \<Rightarrow> 'f callback_tables" where
  "add_any_control_function_parameter_group_number_callback pgn f T =
     T\<lparr>anyControlFunctionParameterGroupNumberCallbacks :=
         anyControlFunctionParameterGroupNumberCallbacks T @ [callback_data pgn f None]\<rparr>"

definition remove_any_control_function_parameter_group_number_callback ::
    "u32 \<Rightarrow> 'f option \<Rightarrow> 'f callback_tables \<Rightarrow> 'f callback_tables" where
  "remove_any_control_function_parameter_group_number_callback pgn f T =
     T\<lparr>anyControlFunctionParameterGroupNumberCallbacks :=
         remove1 (callback_data pgn f None) (anyControlFunctionParameterGroupNumberCallbacks T)\<rparr>"

definition add_global_parameter_group_number_callback ::
    "u32 \<Rightarrow> 'f option \<Rightarrow> 'f callback_tables \<Rightarrow> 'f callback_tables" where
  "add_global_parameter_group_number_callback pgn f T =
     T\<lparr>globalParameterGroupNumberCallbacks := globalParameterGroupNumberCallbacks T @ [callback_data pgn f None]\<rparr>"

definition remove_global_parameter_group_number_callback ::
    "u32 \<Rightarrow> 'f option \<Rightarrow> 'f callback_tables \<Rightarrow> 'f callback_tables" where
  "remove_global_parameter_group_number_callback pgn f T =
     T\<lparr>globalParameterGroupNumberCallbacks :=
         remove1 (callback_data pgn f None) (globalParameterGroupNumberCallbacks T)\<rparr>"

definition add_parameter_group_number_callback ::
    "cf \<Rightarrow> u32 \<Rightarrow> 'f option \<Rightarrow> cf option \<Rightarrow> 'f callback_tables \<Rightarrow> 'f callback_tables" where
  "add_parameter_group_number_callback partner pgn f icf T =
     T\<lparr>parameterGroupNumberCallbacks := (parameterGroupNumberCallbacks T)
         (partner := parameterGroupNumberCallbacks T partner @ [callback_data pgn f icf])\<rparr>"

definition remove_parameter_group_number_callback ::
    "cf \<Rightarrow> u32 \<Rightarrow> 'f option \<Rightarrow> cf option \<Rightarrow> 'f callback_tables \<Rightarrow> 'f callback_tables" where
  "remove_parameter_group_number_callback partner pgn f icf T =
     T\<lparr>parameterGroupNumberCallbacks := (parameterGroupNumberCallbacks T)
         (partner := remove1 (callback_data pgn f icf) (parameterGroupNumberCallbacks T partner))\<rparr>"

definition add_protocol_parameter_group_number_callback ::
    "u32 \<Rightarrow> 'f option \<Rightarrow> 'f callback_tables \<Rightarrow> bool \<times> 'f callback_tables" where
  "add_protocol_parameter_group_number_callback pgn f T =
     (if f \<noteq> None \<and> callback_data pgn f None \<notin> set (protocolPGNCallbacks T)
      then (True, T\<lparr>protocolPGNCallbacks := protocolPGNCallbacks T @ [callback_data pgn f None]\<rparr>)
      else (False, T))"

definition remove_protocol_parameter_group_number_callback ::
    "u32 \<Rightarrow> 'f option \<Rightarrow> 'f callback_tables \<Rightarrow> bool \<times> 'f callback_tables" where
  "remove_protocol_parameter_group_number_callback pgn f T =
     (if f \<noteq> None \<and> callback_data pgn f None \<in> set (protocolPGNCallbacks T)
      then (True, T\<lparr>protocolPGNCallbacks := remove1 (callback_data pgn f None) (protocolPGNCallbacks T)\<rparr>)
      else (False, T))"

section \<open>Walking the tables\<close>

definition process_protocol_pgn_callbacks ::
    "('f \<Rightarrow> CANMessage \<Rightarrow> 'w \<Rightarrow> 'w option) \<Rightarrow> 'f callback_tables \<Rightarrow> CANMessage \<Rightarrow> 'w \<Rightarrow> 'w option" where
  "process_protocol_pgn_callbacks call T m =
     run_events (\<lambda>cb w.
       if callback_pgn cb = get_parameter_group_number (msg_identifier m)
       then (case callback_function cb of None \<Rightarrow> None | Some f \<Rightarrow> call f m w) else Some w)
     (protocolPGNCallbacks T)"

definition process_any_control_function_pgn_callbacks ::
    "('f \<Rightarrow> CANMessage \<Rightarrow> 'w \<Rightarrow> 'w option) \<Rightarrow> cf_store \<Rightarrow> 'f callback_tables \<Rightarrow> CANMessage \<Rightarrow> 'w \<Rightarrow> 'w option" where
  "process_any_control_function_pgn_callbacks call devices T m =
     run_events (\<lambda>cb w.
       if callback_pgn cb = get_parameter_group_number (msg_identifier m)
          \<and> (case msg_destination m of None \<Rightarrow> True | Some d \<Rightarrow> controlFunctionType (devices d) = CF_Internal)
       then (case callback_function cb of None \<Rightarrow> None | Some f \<Rightarrow> call f m w) else Some w)
     (anyControlFunctionParameterGroupNumberCallbacks T)"

definition dispatch_parameter_group_number_callback ::
    "('f \<Rightarrow> CANMessage \<Rightarrow> 'w \<Rightarrow> 'w option) \<Rightarrow> cf_store \<Rightarrow> 'f callback_tables \<Rightarrow> cf \<Rightarrow> CANMessage \<Rightarrow> 'w \<Rightarrow> 'w option" where
  "dispatch_parameter_group_number_callback call devices T partner m =
     run_events (\<lambda>cb w.
       if get_parameter_group_number (msg_identifier m) = callback_pgn cb
          \<and> (case internalControlFunctionFilter cb of None \<Rightarrow> True
             | Some i \<Rightarrow> address (devices i) = get_destination_address (msg_identifier m))
       then (case callback_function cb of None \<Rightarrow> Some w | Some f \<Rightarrow> call f m w) else Some w)
     (parameterGroupNumberCallbacks T partner)"

definition process_can_message_for_global_and_partner_callbacks ::
    "('f \<Rightarrow> CANMessage \<Rightarrow> 'w \<Rightarrow> 'w option) \<Rightarrow> cf_store \<Rightarrow> 'f callback_tables \<Rightarrow> CANMessage \<Rightarrow> 'w \<Rightarrow> 'w option" where
  "process_can_message_for_global_and_partner_callbacks call devices T m w =
     (let pgn = get_parameter_group_number (msg_identifier m)
      in if msg_destination m = None
            \<and> (msg_source m \<noteq> None
               \<or> pgn = PGN_Request \<and> NULL_ADDRESS = get_source_address (msg_identifier m))
         then run_events (\<lambda>cb w.
                if pgn = callback_pgn cb
                then (case callback_function cb of None \<Rightarrow> Some w | Some f \<Rightarrow> call f m w) else Some w)
              (globalParameterGroupNumberCallbacks T) w
         else case msg_destination m of
           None \<Rightarrow> Some w
         | Some d \<Rightarrow>
             if controlFunctionType (devices d) = CF_Internal
             then run_events (\<lambda>partner w.
                    if canPortIndex (devices partner) = msg_port m \<and> Some partner = msg_source m
                    then dispatch_parameter_group_number_callback call devices T partner m w else Some w)
                  (dispatch_partners T) w
             else Some w)"

definition dispatch_received ::
    "('f \<Rightarrow> CANMessage \<Rightarrow> 'w \<Rightarrow> 'w option) \<Rightarrow> cf_store \<Rightarrow> 'f callback_tables \<Rightarrow> CANMessage \<Rightarrow> 'w \<Rightarrow> 'w option" where
  \<comment> \<open>the end of a turn of the receive loop, after the network's own bookkeeping and the protocols\<close>
  "dispatch_received call devices T m w =
     do {
       w1 \<leftarrow> process_protocol_pgn_callbacks call T m w;
       w2 \<leftarrow> process_any_control_function_pgn_callbacks call devices T m w1;
       process_can_message_for_global_and_partner_callbacks call devices T m w2
     }"

section \<open>What the tracker and the client register\<close>

datatype planter_callback = TrackerRxOrTx | ClientRx | OtherCallback nat

definition tracker_initialize :: "planter_callback callback_tables \<Rightarrow> planter_callback callback_tables" where
  "tracker_initialize T =
     add_global_parameter_group_number_callback PGN_VirtualTerminalToECU (Some TrackerRxOrTx)
       (add_any_control_function_parameter_group_number_callback PGN_ECUtoVirtualTerminal (Some TrackerRxOrTx)
         (add_any_control_function_parameter_group_number_callback PGN_VirtualTerminalToECU (Some TrackerRxOrTx) T))"

definition tracker_terminate :: "planter_callback callback_tables \<Rightarrow> planter_callback callback_tables" where
  "tracker_terminate T =
     remove_global_parameter_group_number_callback PGN_VirtualTerminalToECU (Some TrackerRxOrTx)
       (remove_any_control_function_parameter_group_number_callback PGN_ECUtoVirtualTerminal (Some TrackerRxOrTx)
         (remove_any_control_function_parameter_group_number_callback PGN_VirtualTerminalToECU (Some TrackerRxOrTx) T))"

definition client_register :: "cf option \<Rightarrow> planter_callback callback_tables \<Rightarrow> planter_callback callback_tables" where
  \<comment> \<open>the callbacks of \<open>VirtualTerminalClient::initialize\<close>\<close>
  "client_register partner T =
     (case partner of
        None \<Rightarrow> T
      | Some p \<Rightarrow>
          add_global_parameter_group_number_callback PGN_ECUtoVirtualTerminal (Some ClientRx)
            (add_global_parameter_group_number_callback PGN_VirtualTerminalToECU (Some ClientRx)
              (add_parameter_group_number_callback p PGN_Acknowledge (Some ClientRx) None
                (add_parameter_group_number_callback p PGN_VirtualTerminalToECU (Some ClientRx) None T))))"

definition client_unregister :: "cf option \<Rightarrow> planter_callback callback_tables \<Rightarrow> planter_callback callback_tables" where
  \<comment> \<open>the callbacks of \<open>VirtualTerminalClient::terminate\<close>\<close>
  "client_unregister partner T =
     (case partner of
        None \<Rightarrow> T
      | Some p \<Rightarrow>
          remove_global_parameter_group_number_callback PGN_ECUtoVirtualTerminal (Some ClientRx)
            (remove_global_parameter_group_number_callback PGN_VirtualTerminalToECU (Some ClientRx)
              (remove_parameter_group_number_callback p PGN_Acknowledge (Some ClientRx) None
                (remove_parameter_group_number_callback p PGN_VirtualTerminalToECU (Some ClientRx) None T))))"

fun planter_call ::
    "(nat \<Rightarrow> CANMessage \<Rightarrow> 'n planter vt_client \<Rightarrow> 'n planter vt_client option) \<Rightarrow> 'n nvs_api \<Rightarrow> int \<Rightarrow> cf_store \<Rightarrow>
     planter_callback \<Rightarrow> CANMessage \<Rightarrow> 'n planter vt_client \<Rightarrow> 'n planter vt_client option" where
  \<comment> \<open>the update helper is the tracker: one object, in \<open>planter_helper\<close>\<close>
  "planter_call others api now devices TrackerRxOrTx m c =
     map_option (\<lambda>h. c\<lparr>app_state := (app_state c)\<lparr>planter_helper := h\<rparr>\<rparr>)
       (process_rx_or_tx_message devices m (planter_helper (app_state c)))"
| "planter_call others api now devices ClientRx m c = process_rx_message (planter_listen api now) devices m c"
| "planter_call others api now devices (OtherCallback n) m c = others n m c"

section \<open>Callbacks of other parameter groups\<close>

definition not_for :: "u32 \<Rightarrow> 'f dispatch_callback list \<Rightarrow> bool" where
  "not_for pgn cbs \<longleftrightarrow> (\<forall>cb \<in> set cbs. callback_pgn cb \<noteq> pgn)"

lemma not_for_simps [simp]:
  "not_for pgn []" "not_for pgn (cb # cbs) \<longleftrightarrow> callback_pgn cb \<noteq> pgn \<and> not_for pgn cbs"
  by (auto simp: not_for_def)

lemma skips_others: "(\<And>cb w. callback_pgn cb \<noteq> pgn \<Longrightarrow> step cb w = Some w) \<Longrightarrow> not_for pgn cbs \<Longrightarrow> run_events step cbs w = Some w"
  by (induction cbs arbitrary: w) simp_all

lemma reaches_none: "s \<notin> set xs \<Longrightarrow> run_events (\<lambda>x w. if P x \<and> Some x = Some s then f x w else Some w) xs w = Some w"
  by (induction xs arbitrary: w) auto

lemma reaches_one:
  "distinct xs \<Longrightarrow> s \<in> set xs \<Longrightarrow> P s \<Longrightarrow> run_events (\<lambda>x w. if P x \<and> Some x = Some s then f x w else Some w) xs w = f s w"
proof (induction xs arbitrary: w)
  case (Cons x xs)
  show ?case
  proof (cases "x = s")
    case True
    with Cons.prems reaches_none [of s xs P f] show ?thesis by (cases "f s w") simp_all
  next
    case False
    with Cons show ?thesis by simp
  qed
qed simp

text \<open>The tables of the planter: tracker and client have registered, in either order, besides callbacks of other
  parameter groups.\<close>

definition planter_tables :: "cf \<Rightarrow> planter_callback callback_tables \<Rightarrow> bool" where
  "planter_tables server T \<longleftrightarrow> (\<exists>T0.
     (T = client_register (Some server) (tracker_initialize T0) \<or> T = tracker_initialize (client_register (Some server) T0))
     \<and> distinct (dispatch_partners T0) \<and> server \<in> set (dispatch_partners T0)
     \<and> not_for PGN_VirtualTerminalToECU (protocolPGNCallbacks T0)
     \<and> not_for PGN_VirtualTerminalToECU (anyControlFunctionParameterGroupNumberCallbacks T0)
     \<and> not_for PGN_VirtualTerminalToECU (parameterGroupNumberCallbacks T0 server))"

lemma planter_tables_shape:
  assumes "planter_tables server T"
  shows "distinct (dispatch_partners T)" "server \<in> set (dispatch_partners T)"
    "not_for PGN_VirtualTerminalToECU (protocolPGNCallbacks T)"
    "\<exists>cbs. anyControlFunctionParameterGroupNumberCallbacks T =
       cbs @ [callback_data PGN_VirtualTerminalToECU (Some TrackerRxOrTx) None, callback_data PGN_ECUtoVirtualTerminal (Some TrackerRxOrTx) None]
       \<and> not_for PGN_VirtualTerminalToECU cbs"
    "\<exists>cbs. parameterGroupNumberCallbacks T server =
       cbs @ [callback_data PGN_VirtualTerminalToECU (Some ClientRx) None, callback_data PGN_Acknowledge (Some ClientRx) None]
       \<and> not_for PGN_VirtualTerminalToECU cbs"
  using assms
  by (auto simp: planter_tables_def client_register_def tracker_initialize_def add_global_parameter_group_number_callback_def
      add_any_control_function_parameter_group_number_callback_def add_parameter_group_number_callback_def)

text \<open>A message of the display to us goes first to the tracker and then to the client.\<close>

lemma display_message_order:
  assumes T: "planter_tables server T"
    and m: "msg_source m = Some server" "msg_destination m = Some cl" "get_parameter_group_number (msg_identifier m) = PGN_VirtualTerminalToECU"
    and cl: "controlFunctionType (devices cl) = CF_Internal" and port: "canPortIndex (devices server) = msg_port m"
  shows "dispatch_received call devices T m w = call TrackerRxOrTx m w \<bind> call ClientRx m"
proof -
  note s = planter_tables_shape [OF T]
  obtain as where as: "anyControlFunctionParameterGroupNumberCallbacks T =
       as @ [callback_data PGN_VirtualTerminalToECU (Some TrackerRxOrTx) None, callback_data PGN_ECUtoVirtualTerminal (Some TrackerRxOrTx) None]"
       "not_for PGN_VirtualTerminalToECU as" using s(4) by blast
  obtain ps where ps: "parameterGroupNumberCallbacks T server =
       ps @ [callback_data PGN_VirtualTerminalToECU (Some ClientRx) None, callback_data PGN_Acknowledge (Some ClientRx) None]"
       "not_for PGN_VirtualTerminalToECU ps" using s(5) by blast
  have 1: "process_protocol_pgn_callbacks call T m w = Some w" for w
    unfolding process_protocol_pgn_callbacks_def by (rule skips_others [OF _ s(3)]) (simp add: m(3))
  have 2: "process_any_control_function_pgn_callbacks call devices T m w = call TrackerRxOrTx m w" for w
    unfolding process_any_control_function_pgn_callbacks_def as(1) run_events_append
    by (subst skips_others [OF _ as(2)], simp add: m(3), cases "call TrackerRxOrTx m w") (simp_all add: m cl callback_data_def)
  have d: "dispatch_parameter_group_number_callback call devices T server m w = call ClientRx m w" for w
    unfolding dispatch_parameter_group_number_callback_def ps(1) run_events_append
    by (subst skips_others [OF _ ps(2)], simp add: m(3), cases "call ClientRx m w") (simp_all add: m callback_data_def)
  have 3: "process_can_message_for_global_and_partner_callbacks call devices T m w = call ClientRx m w" for w
    using reaches_one [OF s(1,2), of "\<lambda>p. canPortIndex (devices p) = msg_port m"
        "\<lambda>p. dispatch_parameter_group_number_callback call devices T p m" w] port
    by (simp add: process_can_message_for_global_and_partner_callbacks_def m cl d del: option.inject)
  show ?thesis unfolding dispatch_received_def by (simp add: 1 2) (simp add: 3 [abs_def])
qed

end
