(* ===== verification/Vt_Promises.thy ===== *)
theory Vt_Promises
  imports Vt_Connect Vt_Dispatch
begin

text \<open>
  What the virtual terminal client promises, on its own and with the planter behind it: the queue of commands
  and the order they leave in, the handshake, the upload of the pools, scaling, the state tracker, a reconnect.
  Each property is followed, at the end, by a concrete run in which its hypotheses hold.
\<close>

section \<open>The queue\<close>

theorem commands_similar_iff_key:
  assumes "8 \<le> length a" "8 \<le> length b"
  shows "are_commands_similar a b = Some (command_key a = command_key b)"
  using assms by (intro are_commands_similar_key) simp_all

theorem commands_similar_iff_key_witness:
  "are_commands_similar [ChangeBackgroundColourCommand, 1, 2, 7, 0xFF, 0xFF, 0xFF, 0xFF]
     [ChangeBackgroundColourCommand, 1, 2, 12, 0xFF, 0xFF, 0xFF, 0xFF] = Some True"
  by (subst commands_similar_iff_key) (simp_all add: command_key_def key_length_def)

text \<open>A command that cannot be sent now updates the map from keys to commands; the map of the queue is a
  function of the contents only.\<close>

text \<open>
  C13: While a command waits for its response, or without a connection, a command given to the client that may be replaced
  is accepted without a message being sent, and the queue, read as a map from keys to commands, is updated at the key
  of the command: an older command of its kind is replaced where it stands, otherwise the new one is appended; the
  queue never holds two commands of one kind.
\<close>

theorem waiting_command_refines_map:
  assumes "queue_ok (commandQueue c)" "command_ok d True" "\<not> is_function_unsupported (d ! 0) c"
    "blocked c \<or> vt_state c \<noteq> Connected"
  shows "\<exists>c'. queue_command d True c = Some (True, c') \<and> can_sent c' = can_sent c
     \<and> queue_ok (commandQueue c') \<and> keyed (commandQueue c') = AList.update (command_key d) d (keyed (commandQueue c))"
proof -
  have d: "8 \<le> length d" "replaceable d" "d \<noteq> []" using assms(2) by (auto simp: command_ok_def)
  have "queue_command d True c = enqueue d True c"
    using assms(3,4) d(3) by (auto simp: queue_command_eq send_command_blocked)
  with enqueue_ok [OF assms(1) d(1), of True] d(2) show ?thesis by auto
qed

lemma answers_drain:
  assumes "vt_state c = Connected" "\<forall>n. can_accepts c n" "commandQueue c = q" "length ms = length q"
    "\<forall>m \<in> set ms. response_to_us m c"
  shows "\<exists>c'. vt_run listen devices (map Message ms) c = Some c' \<and> commandQueue c' = []
     \<and> can_sent c' = can_sent c @ map (\<lambda>d. command_message d c) q"
  using assms
proof (induction q arbitrary: c ms)
  case (Cons d q)
  then obtain m ms' where ms: "ms = m # ms'" by (cases ms) auto
  let ?c = "c\<lparr>commandAwaitingResponse := False\<rparr>"
  let ?c1 = "(command_sent d ?c)\<lparr>commandQueue := q\<rparr>"
  have "process_command_queue ?c = ?c1"
    by (rule process_command_queue_first) (use Cons.prems in \<open>simp_all add: blocked_def\<close>)
  moreover have "process_rx_message listen devices m c = Some (process_command_queue ?c)"
    by (rule response_received) (use Cons.prems ms in simp)
  ultimately have s: "vt_run listen devices (map Message ms) c = vt_run listen devices (map Message ms') ?c1"
    by (simp add: ms)
  have "\<forall>m \<in> set ms'. response_to_us m ?c1" using Cons.prems(5) ms by (simp add: response_to_us_def)
  from Cons.IH [OF _ _ _ _ this] Cons.prems ms obtain c' where
    "vt_run listen devices (map Message ms') ?c1 = Some c'" "commandQueue c' = []"
    "can_sent c' = can_sent ?c1 @ map (\<lambda>d. command_message d ?c1) q" by auto
  then show ?case by (simp add: s)
qed simp

text \<open>
  C12: A connected client whose queued commands are answered one after the other by the display sends all of them, each
  once, in the order in which they were queued, and ends with an empty queue.
\<close>

theorem queue_drains_in_order:
  assumes "vt_state c = Connected" "\<forall>n. can_accepts c n" "length ms = length (commandQueue c)"
    "\<forall>m \<in> set ms. response_to_us m c"
  shows "\<exists>c'. vt_run listen devices (map Message ms) c = Some c' \<and> commandQueue c' = []
     \<and> can_sent c' = can_sent c @ map (\<lambda>d. command_message d c) (commandQueue c)"
  using assms by (intro answers_drain) simp_all

text \<open>A command sent at once leaves an older one of its kind in the queue, which goes out after it.\<close>

text \<open>
  C23: A command given to a connected client that waits for no response goes out at once, even when an older command is
  still queued; the older one, whatever it sets, is sent after the answer, so the display ends with the older value.
\<close>

theorem older_value_sent_last:
  assumes "vt_state c = Connected" "\<not> commandAwaitingResponse c" "\<forall>n. can_accepts c n"
    "commandQueue c = [old]" "new \<noteq> []" "\<not> is_function_unsupported (new ! 0) c" "response_to_us m c"
  shows "\<exists>c'. vt_run listen devices [Command new True, Message m] c = Some c'
     \<and> can_sent c' = can_sent c @ [command_message new c, command_message old c]
     \<and> commandQueue c' = []"
proof -
  have free: "\<not> blocked c" using assms(2) by (simp add: blocked_def)
  have "queue_command new True c = Some (True, command_sent new c)"
    using assms(3,5,6) send_command_free [OF free assms(1), of new] assms(1) by (simp add: queue_command_eq)
  then have r: "vt_react listen devices (Command new True) c = Some (command_sent new c)" by simp
  have "response_to_us m (command_sent new c)" using assms(7) by (simp add: response_to_us_def)
  from answers_drain [of "command_sent new c" "[old]" "[m]" listen devices] this assms r show ?thesis
    by auto
qed

section \<open>Fonts and scaling\<close>

lemma smaller_font_result:
  assumes "smaller_font cap f v = Some w"
  shows "(w = v \<or> w = f - 1) \<and> (get_font_size_supported w cap \<or> w = 0)"
  by (rule smaller_font.raw_induct [where P = "\<lambda>cap f v w. (w = v \<or> w = f - 1)
        \<and> (get_font_size_supported w cap \<or> w = 0)", OF _ assms]) (auto split: if_splits)

text \<open>
  C26: \<open>get_font_or_next_smallest_font\<close> returns the font asked for when the display has it or it is the smallest one
  (6x8, which is returned untested), and otherwise the one below when the display has that or it is the smallest one;
  in every other case, neither of the two supported and the font asked for at least the third smallest, its loop does not end, because it always looks
  one below the font asked for and never further down.
\<close>

theorem font_fallback_returns_iff:
  "get_font_or_next_smallest_font f cap =
     (if get_font_size_supported f cap \<or> f = 0 then Some f
      else if get_font_size_supported (f - 1) cap \<or> f - 1 = 0 then Some (f - 1)
      else None)"
proof (cases "get_font_size_supported f cap \<or> f = 0")
  case True
  then show ?thesis by (subst get_font_or_next_smallest_font_def, subst smaller_font.simps) auto
next
  case False
  then have s: "get_font_or_next_smallest_font f cap = smaller_font cap f (f - 1)"
    by (simp add: get_font_or_next_smallest_font_def smaller_font.simps [of cap f f])
  show ?thesis
  proof (cases "get_font_size_supported (f - 1) cap \<or> f - 1 = 0")
    case True
    then have "smaller_font cap f (f - 1) = Some (f - 1)" by (subst smaller_font.simps) auto
    then show ?thesis using False s True by simp
  next
    case more: False
    then have "smaller_font cap f (f - 1) \<noteq> Some w" for w using smaller_font_result by blast
    then have "smaller_font cap f (f - 1) = None" by auto
    with False more s show ?thesis by presburger
  qed
qed

lemma scale_from_no_progress:
  assumes "scale_from cap p pos pool = Some r" "pos \<noteq> length pool"
    "checked_nth (drop pos pool) 2 = Some ty" "\<not> get_is_object_scalable ty"
    "get_number_bytes_in_object (drop pos pool) = Some 0"
  shows False
proof -
  define Q where "Q pos pool \<longleftrightarrow> pos \<noteq> length pool \<and> checked_nth (drop pos pool) 2 = Some ty \<and>
    get_number_bytes_in_object (drop pos pool) = Some 0" for pos and pool :: "u8 list"
  have "\<not> Q pos pool"
  proof (rule scale_from.raw_induct [where P = "\<lambda>cap p pos pool r. \<not> Q pos pool", OF _ assms(1)], rule notI)
    fix rec cap p pos pool r
    assume IH: "\<And>cap p pos pool y. rec cap p pos pool = Some y \<Longrightarrow> \<not> Q pos pool"
      and Q: "Q pos pool"
      and b: "(if pos = length pool then Some (True, pool)
      else checked_nth (drop pos pool) 2 \<bind> (\<lambda>type.
        (if type = OT_Key
                   then scale_factor (of_nat (unat (softKeyXAxisPixels cap))) (autoScaleSoftKeyDesignatorOriginalHeight p)
                   else scale_factor (of_nat (unat (xPixels cap))) (autoScaleDataMaskOriginalDimension p)) \<bind> (\<lambda>factor.
        resize_object (drop pos pool) factor type cap \<bind> (\<lambda>resized.
        get_number_bytes_in_object (snd resized) \<bind> (\<lambda>objectSize.
        if fst resized then rec cap p (pos + unat objectSize) (take pos pool @ snd resized)
        else Some (False, take pos pool @ snd resized)))))) = Some r"
    have "resize_object (drop pos pool) x ty cap = Some (True, drop pos pool)" for x
      using assms(4) by (simp add: resize_object_def)
    then have "rec cap p pos pool = Some r"
      using b Q by (auto simp: Q_def bind_eq_Some_conv)
    then show False using IH Q by blast
  qed
  then show False using assms(2-) by (simp add: Q_def)
qed

text \<open>
  C27: When scaling meets an object of a type the size table does not know (a scaled graphic, a graphic data object, an
  auxiliary control designator), the object counts zero bytes and is not resized, so the walk over the pool stays at it
  for ever.
\<close>

theorem scaling_stops_at_unknown_object:
  assumes "pos + 2 < length pool" "pool ! (pos + 2) \<in> {OT_AuxiliaryControlDesignatorType2, OT_GraphicData, OT_ScaledGraphic}"
  shows "get_number_bytes_in_object (drop pos pool) = Some 0
    \<and> resize_object (drop pos pool) factor (pool ! (pos + 2)) cap = Some (True, drop pos pool)
    \<and> scale_from cap p pos pool = None"
proof -
  have t: "checked_nth (drop pos pool) 2 = Some (pool ! (pos + 2))" using assms(1) by (simp add: checked_nth_def add.commute)
  have n: "\<not> get_is_object_scalable (pool ! (pos + 2))" using assms(2) by (auto simp: get_is_object_scalable_def)
  have b: "get_number_bytes_in_object (drop pos pool) = Some 0"
    using assms(2) by (auto simp: get_number_bytes_in_object_def t additional_bytes_def get_minimum_object_length_def)
  have "scale_from cap p pos pool \<noteq> Some r" for r
    using scale_from_no_progress [OF _ _ t n b, of cap p r] assms(1) by auto
  then have "scale_from cap p pos pool = None" using not_None_eq by blast
  with b n show ?thesis by (simp add: resize_object_def)
qed

lemma scaled_overflow:
  assumes "rd16 buf k = Some v" "0x8000 \<le> v" "11 / 10 \<le> factor"
  shows "scaled to_i16 factor buf k = None"
proof -
  have v: "32768 \<le> (of_nat (unat v) :: rat)" using assms(2) of_nat_le_iff [of 32768 "unat v", where 'a = rat] by (simp add: word_le_nat_alt del: of_nat_le_iff)
  have "32768 * (11 / 10) \<le> of_nat (unat v) * factor" by (intro mult_mono) (use v assms(3) in auto)
  then have "36044 \<le> of_nat (unat v) * factor" by simp
  then have "36044 * (1 - 1 / 2 ^ 20) \<le> float_round (of_nat (unat v) * factor)"
    by (intro float_round_ge) (auto intro: order_trans [rotated])
  then have "32768 \<le> float_round (of_nat (unat v) * factor)" by (rule order_trans [rotated]) simp
  then show ?thesis by (simp add: scaled_def assms(1) to_i16_def)
qed

text \<open>A data mask with a child left of the origin cannot be enlarged.\<close>

theorem negative_child_overflows:
  assumes "checked_nth buf 6 = Some n" "0 < n" "rd16 buf 10 = Some x" "0x8000 \<le> x" "11 / 10 \<le> factor"
  shows "resize_object buf factor OT_DataMask cap = None"
proof -
  have s: "scaled to_i16 factor buf 10 = None" by (rule scaled_overflow [OF assms(3-5)])
  obtain m where "unat n = Suc m" using assms(2) by (metis not0_implies_Suc unat_eq_zero word_neq_0_conv)
  then show ?thesis
    by (simp add: resize_object_def get_is_object_scalable_def scale_children_def assms(1) scale_pair_def s)
qed

section \<open>Uploading a pool\<close>

fun read_chunks :: "u32 \<Rightarrow> nat list \<Rightarrow> 's vt_client \<Rightarrow> u8 list option" where
  \<comment> \<open>the transport layer asks for chunk after chunk\<close>
  "read_chunks off [] c = Some []"
| "read_chunks off (n # ns) c =
     do {answer \<leftarrow> process_internal_object_pool_upload_callback 0 off (of_nat n) c;
         bs \<leftarrow> answer;
         rest \<leftarrow> read_chunks (off + of_nat n) ns c;
         Some (bs @ rest)}"

definition holds_pool :: "u8 list \<Rightarrow> ObjectPoolDataStruct \<Rightarrow> bool" where
  \<comment> \<open>the source the upload reads, whichever it is, has these bytes\<close>
  "holds_pool bytes p \<longleftrightarrow> length bytes = unat (objectPoolSize p) \<and> unat (objectPoolSize p) < 2 ^ 32 - 1 \<and>
     (if autoScaleDataMaskOriginalDimension p \<noteq> 0 \<and> autoScaleSoftKeyDesignatorOriginalHeight p \<noteq> 0
      then scaledObjectPool p = bytes
      else if useDataCallback p
      then \<exists>cb. dataCallback p = Some cb \<and>
             (\<forall>i off n. unat off + unat n \<le> length bytes \<longrightarrow> cb i off n = Some (take (unat n) (drop (unat off) bytes)))
      else objectPoolDataPointer p = Some bytes)"

lemma chunk_read:
  assumes "find (\<lambda>p. \<not> uploaded p) (objectPools c) = Some p" "holds_pool bytes p" "0 < n" "off + n \<le> length bytes + 1"
  shows "process_internal_object_pool_upload_callback i (of_nat off) (of_nat n) c
     = Some (Some (take n (drop off (ObjectPoolTransferMessage # bytes))))"
proof -
  have len: "length bytes = unat (objectPoolSize p)" "length bytes < 2 ^ 32 - 1" using assms(2) by (auto simp: holds_pool_def)
  have u: "unat (of_nat off :: u32) = off" "unat (of_nat n :: u32) = n" using assms(4) len by (simp_all add: unat_of_nat)
  have s: "unat ((of_nat off :: u32) + of_nat n) = off + n" using u assms(4) len by (subst unat_add_lem [THEN iffD1]) simp_all
  have "unat (objectPoolSize p + 1) = length bytes + 1" using len by (subst unat_add_lem [THEN iffD1]) simp_all
  then have le: "(of_nat off :: u32) + of_nat n \<le> objectPoolSize p + 1" using s assms(4) by (simp add: word_le_nat_alt)
  have nz: "(of_nat n :: u32) \<noteq> 0" using u(2) assms(3) by force
  have sl: "slice k j bytes = Some (take j (drop k bytes))" if "k + j \<le> length bytes" for k j
    using that by (simp add: slice_def)
  have cb: "f i (of_nat k) (of_nat j) = Some (take j (drop k bytes))"
    if "\<forall>i off n. unat off + unat n \<le> length bytes \<longrightarrow> f i off n = Some (take (unat n) (drop (unat off) bytes))"
      "k + j \<le> length bytes" for f :: "u32 \<Rightarrow> u32 \<Rightarrow> u32 \<Rightarrow> u8 list option" and k j
    using that(2) len(2) that(1) [rule_format, of "of_nat k" "of_nat j" i] by (simp add: unat_of_nat)
  have "pool_chunk (\<lambda>k j. map_option Some (slice k j bytes)) off n = Some (Some (take n (drop off (ObjectPoolTransferMessage # bytes))))"
    using assms(3,4) sl by (cases off; cases n) (simp_all add: pool_chunk_def)
  moreover have "pool_chunk (\<lambda>k j. Some (f i (of_nat k) (of_nat j))) off n = Some (Some (take n (drop off (ObjectPoolTransferMessage # bytes))))"
    if "\<forall>i off n. unat off + unat n \<le> length bytes \<longrightarrow> f i off n = Some (take (unat n) (drop (unat off) bytes))"
    for f :: "u32 \<Rightarrow> u32 \<Rightarrow> u32 \<Rightarrow> u8 list option"
    using assms(3,4) cb [OF that, of 0 "n - 1"] cb [OF that, of "off - 1" n] by (cases off; cases n) (simp_all add: pool_chunk_def)
  ultimately show ?thesis
    using assms(2) le nz u
    by (auto simp: process_internal_object_pool_upload_callback_def assms(1) holds_pool_def)
qed

lemma chunks_from:
  assumes "find (\<lambda>p. \<not> uploaded p) (objectPools c) = Some p" "holds_pool bytes p"
    "0 \<notin> set ns" "off + sum_list ns = length bytes + 1"
  shows "read_chunks (of_nat off) ns c = Some (drop off (ObjectPoolTransferMessage # bytes))"
  using assms(3,4)
proof (induction ns arbitrary: off)
  case (Cons n ns)
  let ?b = "ObjectPoolTransferMessage # bytes"
  have "read_chunks (of_nat (off + n)) ns c = Some (drop (off + n) ?b)"
    using Cons.prems by (intro Cons.IH) simp_all
  moreover have "take n (drop off ?b) @ drop (off + n) ?b = drop off ?b"
    by (metis add.commute append_take_drop_id drop_drop)
  ultimately show ?case
    using chunk_read [OF assms(1,2), of n off 0] Cons.prems by simp
qed simp

text \<open>However the transport layer cuts it, what it gets is the function byte and the pool.\<close>

text \<open>
  C19: However the transport layer cuts the upload of a pool into chunks, the chunks the client supplies are, one after the
  other, the object pool transfer byte and the bytes of the pool, from the scaled pool, the data callback or the
  pointer, whichever the pool uses.
\<close>

theorem pool_chunks_assemble:
  assumes "find (\<lambda>p. \<not> uploaded p) (objectPools c) = Some p" "holds_pool bytes p"
    "0 \<notin> set ns" "sum_list ns = length bytes + 1"
  shows "read_chunks 0 ns c = Some (ObjectPoolTransferMessage # bytes)"
  using chunks_from [OF assms(1-3), of 0] assms(4) by simp

section \<open>Connecting\<close>

text \<open>
  C6: A disconnected client with one object pool, next to a display that sends its status, has enough memory, answers the
  requests for softkeys, fonts, hardware and stored versions, and confirms the end of the pool and the storing of the
  version, reaches the connected state with the twenty-three updates and answers listed, having handed the whole pool with its function byte to the
  transport layer, and without changing the application's state.
\<close>

theorem handshake_connects:
  assumes "vt_state c = Disconnected" "currentObjectPoolState c = Uninitialized" "objectPools c = [p]" "uploadable p" "\<not> uploaded p"
    "\<forall>n. can_accepts c n" "partnerControlFunction c = Some pa" "partner_address_valid c" "ourAuxiliaryInputs c = []" "clock_ms c \<noteq> 0"
    "greets (myControlFunction c) status memory softkeys fonts hardware versions"
    "takes_pool (myControlFunction c) endp store"
  shows "\<exists>c'. vt_run listen devices (greeting status memory softkeys fonts hardware versions @ uploading endp store pa) c = Some c'
     \<and> get_is_connected c' \<and> PoolTransfer (objectPoolSize p + 1) \<in> set (can_sent c') \<and> app_state c' = app_state c"
  using assms by (rule handshake_reaches)

text \<open>
  C22: When the communication is restarted while a pool is being uploaded, the answer of the transport layer is lost: after
  the handshake with the display the client waits in the upload for ever, whatever time passes.
\<close>

theorem interrupted_upload_wedges:
  assumes "vt_state c = UploadObjectPool" "currentObjectPoolState c = InProgress" "objectPools c = [p]" "uploadable p"
    "vt_initialized c" "\<forall>n. can_accepts c n" "partnerControlFunction c = Some pa" "partner_address_valid c"
    "ourAuxiliaryInputs c = []" "clock_ms c \<noteq> 0"
    "greets (myControlFunction c) status memory softkeys fonts hardware versions"
    "\<forall>i \<in> set ins. i = Update \<or> (\<exists>t. i = Clock t)"
  shows "\<exists>c'. vt_run listen devices ([Restart, TransferDone PGN_ECUtoVirtualTerminal (Some pa) ok]
        @ greeting status memory softkeys fonts hardware versions @ ins) c = Some c'
     \<and> vt_state c' = UploadObjectPool \<and> currentObjectPoolState c' = InProgress"
  using assms by (rule upload_stays_wedged)

text \<open>A pool given as a vector is not uploaded, and counts as uploaded.\<close>

theorem vector_pool_not_uploaded:
  assumes "vt_state c = UploadObjectPool" "objectPools c = []" "bytes \<noteq> []"
  shows "\<exists>c'. state_update (set_object_pool_vector 0 (Some bytes) label c) = Some c'
     \<and> vt_state c' = SendEndOfObjectPool \<and> can_sent c' = can_sent c"
  using assms
  by (simp add: set_object_pool_vector_def put_pool_def Let_def state_update_def upload_object_pool_def
      get_any_pool_needs_scaling_def default_pool_def mark_uploaded_def)

section \<open>The tracker\<close>

text \<open>The good response to a change of a tracked attribute is looked up under the destination and read under
  the source: \<open>at\<close> throws.\<close>

definition frame_between :: "cf \<Rightarrow> cf \<Rightarrow> u32 \<Rightarrow> CANMessage \<Rightarrow> bool" where
  "frame_between src dest pgn m \<longleftrightarrow> msg_source m = Some src \<and> msg_destination m = Some dest
     \<and> get_parameter_group_number (msg_identifier m) = pgn \<and> length (msg_data m) = 8"

lemma frame_between_dispatch:
  assumes "frame_between src dest pgn m" "cf_address_valid (devices src)" "cf_address_valid (devices dest)"
  shows "has_valid_source_control_function devices m" "\<not> is_broadcast devices m" "get_data_length m = 8"
    "is_source devices (Some s) m \<longleftrightarrow> src = s" "is_destination devices (Some s) m \<longleftrightarrow> dest = s"
    "is_parameter_group_number p m \<longleftrightarrow> pgn = p"
    "unat k < 8 \<Longrightarrow> get_uint8_at k m = Some (msg_data m ! unat k)"
  using assms by (auto simp: frame_between_def has_valid_source_control_function_def is_broadcast_def
      has_valid_destination_control_function_def get_data_length_def is_source_def is_destination_def
      is_parameter_group_number_def get_uint8_in cf_address_valid_def)

lemma frame_words:
  assumes "frame_between src dest pgn m"
  shows "unat k + 2 \<le> 8 \<Longrightarrow> \<exists>v. get_uint16_at k fmt m = Some v" "unat k + 4 \<le> 8 \<Longrightarrow> \<exists>v. get_uint32_at k fmt m = Some v"
  using assms getters_in(2,4) [of m k fmt] by (auto simp: frame_between_def)

text \<open>
  C30: The state tracker that has seen a change of a tracked attribute throws when the display confirms it: the pending change
  is looked for under the destination of the response and then read under its source.
\<close>

theorem attribute_response_throws:
  assumes "tracked_server t = Some server" "cl \<noteq> server" "cf_address_valid (devices cl)" "cf_address_valid (devices server)"
    "pendingChangeAttributeCommands t server = None"
    "frame_between cl server PGN_ECUtoVirtualTerminal cmd" "msg_data cmd ! 0 = Vt_Commands.ChangeAttributeCommand"
    "get_uint16_at 1 LittleEndian cmd = Some obj" "tracked_attribute obj (msg_data cmd ! 3) t \<noteq> None"
    "frame_between server cl PGN_VirtualTerminalToECU resp" "msg_data resp ! 0 = Vt_Commands.ChangeAttributeCommand"
    "msg_data resp ! 4 = 0"
  shows "\<exists>t1. process_rx_or_tx_message devices cmd t = Some t1 \<and> process_rx_or_tx_message devices resp t1 = None"
proof -
  note c = frame_between_dispatch [OF assms(6,3,4)] and r = frame_between_dispatch [OF assms(10,4,3)]
  obtain v where v: "get_uint32_at 4 LittleEndian cmd = Some v" using frame_words(2) [OF assms(6), of 4] by auto
  obtain robj where w: "get_uint16_at 1 LittleEndian resp = Some robj" using frame_words(1) [OF assms(10), of 1] by auto
  let ?t1 = "t\<lparr>pendingChangeAttributeCommands := (pendingChangeAttributeCommands t)(cl \<mapsto>
     \<lparr>pending_value = v, pending_objectId = obj, pending_attribute = msg_data cmd ! 3\<rparr>)\<rparr>"
  have src: "msg_source cmd = Some cl" "msg_source resp = Some server" "msg_destination resp = Some cl"
    using assms(6,10) by (simp_all add: frame_between_def)
  have "process_message_to_connected_server cmd t = Some ?t1"
    using c(7) [of 0] c(7) [of 3] assms(7,9) v src(1)
    by (simp add: process_message_to_connected_server_def assms(8) c(3))
  then have 1: "process_rx_or_tx_message devices cmd t = Some ?t1"
    using c assms(1,2) c(7) [of 0] by (simp add: process_rx_or_tx_message_def)
  have "server_attribute_response resp ?t1 = None"
    using r(7) [of 4] r(7) [of 3] assms(2,5,12) w src by (simp add: server_attribute_response_def)
  then have "process_message_from_connected_server devices resp ?t1 = None"
    using r(7) [of 0] assms(11) by (simp add: process_message_from_connected_server_def r(3))
  then have "process_rx_or_tx_message devices resp ?t1 = None"
    using r assms(1) r(7) [of 0] by (simp add: process_rx_or_tx_message_def)
  with 1 show ?thesis by blast
qed

lemma tracker_stores:
  assumes "tracked_server t = Some server" "cf_address_valid (devices cl)" "cf_address_valid (devices server)"
    "frame_between server cl PGN_VirtualTerminalToECU m" "msg_data m ! 0 = VTChangeNumericValueMessage"
    "get_uint16_at 1 LittleEndian m = Some obj" "get_uint32_at 4 LittleEndian m = Some v"
  shows "process_rx_or_tx_message devices m t = Some (store_numeric_value obj v t)"
proof -
  note r = frame_between_dispatch [OF assms(4,3,2)]
  have "process_message_from_connected_server devices m t = Some (store_numeric_value obj v t)"
    using r(7) [of 0] assms(5-7) by (simp add: process_message_from_connected_server_def r(3))
  then show ?thesis using r assms(1) r(7) [of 0] by (simp add: process_rx_or_tx_message_def)
qed

lemma stored_is_no_news: "process_numeric_value_change_event v obj (store_numeric_value obj v t) c = Some c"
  by (auto simp: store_numeric_value_def process_numeric_value_change_event_def split: option.split)

text \<open>
  C33: A number the operator changes never reaches the update helper's validation. The tracker and the client have registered their
  callbacks, in either order and besides those of other parameter groups; the display's message of a changed number, in one
  frame to our control function, is dispatched by the network manager: the callbacks of any control function run before those of the partner, so
  the tracker stores the number, and the helper, which hears of it from the client, finds nothing new. All that happens is
  the stored number and the response to the display, whatever the validation would say; no command is queued or sent.
\<close>

theorem operator_change_never_validated:
  assumes "planter_tables server T" "controlFunctionType (devices cl) = CF_Internal" "canPortIndex (devices server) = msg_port m"
    "cf_address_valid (devices cl)" "cf_address_valid (devices server)"
    "tracked_server (planter_helper (app_state c)) = Some server" "myControlFunction c = cl"
    "frame_between server cl PGN_VirtualTerminalToECU m" "msg_data m ! 0 = VTChangeNumericValueMessage"
    "get_uint16_at 1 LittleEndian m = Some obj" "get_uint32_at 4 LittleEndian m = Some v"
  shows "\<exists>x. dispatch_received (planter_call others api now devices) devices T m c =
    Some (respond [VTChangeNumericValueMessage, byte_of 0 obj, byte_of 1 obj, x, byte_of 0 v, byte_of 1 v, byte_of 2 v, byte_of 3 v]
      (c\<lparr>app_state := (app_state c)\<lparr>planter_helper := store_numeric_value obj v (planter_helper (app_state c))\<rparr>\<rparr>))"
proof -
  let ?c = "c\<lparr>app_state := (app_state c)\<lparr>planter_helper := store_numeric_value obj v (planter_helper (app_state c))\<rparr>\<rparr>"
  have m: "msg_source m = Some server" "msg_destination m = Some cl" "get_parameter_group_number (msg_identifier m) = PGN_VirtualTerminalToECU"
    "length (msg_data m) = 8" using assms(8) by (simp_all add: frame_between_def)
  have tracker: "planter_call others api now devices TrackerRxOrTx m c = Some ?c"
    using tracker_stores [OF assms(6,4,5,8-11)] by simp
  have f: "get_uint8_at 0 m = Some VTChangeNumericValueMessage" and "\<exists>n. get_uint8_at 3 m = Some n"
    using frame_between_dispatch(7) [OF assms(8,5,4), of 0] frame_between_dispatch(7) [OF assms(8,5,4), of 3] assms(9) by simp_all
  then have "\<exists>n. transaction_number 3 m ?c = Some n" by (auto simp: transaction_number_def)
  then obtain n where n: "transaction_number 3 m ?c = Some n" by blast
  have "planter_listen api now (NumericValueEvent v obj) ?c = Some ?c" by (simp add: stored_is_no_news)
  then have "\<exists>x. rx_change_numeric_value (planter_listen api now) m ?c = Some (respond [VTChangeNumericValueMessage,
      byte_of 0 obj, byte_of 1 obj, x, byte_of 0 v, byte_of 1 v, byte_of 2 v, byte_of 3 v] ?c)"
    using n assms(10,11) by (simp add: rx_change_numeric_value_def) blast
  then have "\<exists>x. planter_call others api now devices ClientRx m ?c = Some (respond [VTChangeNumericValueMessage,
      byte_of 0 obj, byte_of 1 obj, x, byte_of 0 v, byte_of 1 v, byte_of 2 v, byte_of 3 v] ?c)"
    using m f assms(7) by (simp add: process_rx_message_def rx_virtual_terminal_def)
  then show ?thesis
    unfolding display_message_order [OF assms(1) m(1-3) assms(2,3)] tracker by simp
qed

section \<open>The planter's connection\<close>

text \<open>
  C4: From its construction on, the client with the planter behind it never reads past a message, never throws, never
  fails an assertion and keeps its invariant, however updates, the passing of time, the pools the application sets (none of them to be scaled,
  for scaling need not end), the end of transfers, auxiliary inputs, restarts, commands as the interface functions build them, and messages
  follow each other, for all messages of less than 4 GiB from a known control function of which two kinds are excluded: a changed
  string of at least eight bytes whose length byte counts more bytes than the message has (the client reads past its end, at line 2515), and a
  list of stored versions with a zero byte in it.
\<close>

theorem planter_display_defined:
  assumes "\<forall>i \<in> set ins. proper_input i"
  shows "\<exists>c. vt_run (planter_listen api now) devices ins (vt_constructed partner me accepts a) = Some c \<and> vt_ok c"
  by (rule planter_vt.run_defined [OF vt_constructed_ok assms])

text \<open>
  C11: While a command waits for its response and 1.5 s have not passed, no sequence of updates, other messages, calls of
  the planter and operator events sends another command to the display.
\<close>

theorem planter_one_command_at_a_time:
  assumes "vt_ok c" "commandAwaitingResponse c" "clock_ms c - lastCommandTimestamp_ms c < 1500"
    "\<forall>i \<in> set ins. proper_input i \<and> quiet_input (lastCommandTimestamp_ms c) (myControlFunction c) (partnerControlFunction c) i"
  shows "\<exists>c'. vt_run (planter_listen api now) devices ins c = Some c' \<and> commands_sent c' = commands_sent c"
proof -
  have "waiting (lastCommandTimestamp_ms c) (myControlFunction c) (partnerControlFunction c) (commands_sent c) c"
    using assms(2,3) by (simp add: waiting_def)
  from planter_vt.run_calm [OF assms(1) this assms(4), of api now devices] show ?thesis by (auto simp: waiting_def)
qed

text \<open>The display that gets the pool again starts with the pool's numbers, but a number the helper had shown
  before is not sent again.\<close>

theorem reconnect_resends_no_number:
  assumes "vt_state c = Disconnected" "currentObjectPoolState c = Uninitialized" "objectPools c = [p]" "uploadable p" "\<not> uploaded p"
    "\<forall>n. can_accepts c n" "partnerControlFunction c = Some pa" "partner_address_valid c" "ourAuxiliaryInputs c = []" "clock_ms c \<noteq> 0"
    "greets (myControlFunction c) status memory softkeys fonts hardware versions"
    "takes_pool (myControlFunction c) endp store"
    "tracked_client (planter_helper (app_state c)) \<noteq> None" "numericValueStates (planter_helper (app_state c)) obj = Some v"
  shows "\<exists>c'. vt_run (planter_listen api now) devices
        (greeting status memory softkeys fonts hardware versions @ uploading endp store pa) c = Some c'
     \<and> get_is_connected c' \<and> PoolTransfer (objectPoolSize p + 1) \<in> set (can_sent c')
     \<and> issue (SetNumericValue obj v) c' = Some (True, c')"
proof -
  obtain c' where c': "vt_run (planter_listen api now) devices
      (greeting status memory softkeys fonts hardware versions @ uploading endp store pa) c = Some c'"
    "get_is_connected c'" "PoolTransfer (objectPoolSize p + 1) \<in> set (can_sent c')" "app_state c' = app_state c"
    using handshake_reaches [OF assms(1-12)] by blast
  have "set_numeric_value obj v (planter_helper (app_state c')) c' = Some (True, planter_helper (app_state c'), c')"
    using assms(13,14) by (simp add: set_numeric_value_def set_tracked_def c'(4))
  then have "issue (SetNumericValue obj v) c' = Some (True, c')" by (simp add: through_helper_def)
  with c' show ?thesis by blast
qed

section \<open>Concrete runs\<close>

definition demo_frame :: "u32 \<Rightarrow> cf \<Rightarrow> cf \<Rightarrow> u8 list \<Rightarrow> CANMessage" where
  "demo_frame pgn src dest bytes = make_message Receive (make_identifier Extended pgn PriorityDefault6 0x80 0x26)
     bytes (Some src) (Some dest) 0 0"

abbreviation (input) says :: "u8 list \<Rightarrow> CANMessage" where
  "says bytes \<equiv> demo_frame PGN_VirtualTerminalToECU 1 0 bytes"

definition demo_pool :: ObjectPoolDataStruct where
  "demo_pool = default_pool\<lparr>objectPoolDataPointer := Some (replicate 10 0), objectPoolSize := 10, versionLabel := [0x31]\<rparr>"

definition demo_planter :: "(string \<Rightarrow> u8 option) planter" where
  "demo_planter = \<lparr>planter_app = app_boot float_round (fresh_board (\<lambda>_. good_reply)) (\<lambda>_. True) (\<lambda>_. None),
     planter_helper = add_tracked_numeric_value VarNum_FanRPMTarget 3000 (make_tracker (Some 0))\<rparr>"

definition demo_client :: "(string \<Rightarrow> u8 option) planter vt_client" where
  "demo_client = (vt_constructed (Some 1) 0 (\<lambda>_. True) demo_planter)\<lparr>objectPools := [demo_pool],
     partner_address_valid := True, clock_ms := 5, vt_initialized := True\<rparr>"

lemma demo_pgn: "get_parameter_group_number (make_identifier Extended PGN_VirtualTerminalToECU PriorityDefault6 0x80 0x26) = PGN_VirtualTerminalToECU"
  "get_parameter_group_number (make_identifier Extended PGN_ECUtoVirtualTerminal PriorityDefault6 0x80 0x26) = PGN_ECUtoVirtualTerminal"
  by code_simp+

lemma demo_tells: "length bytes = 8 \<Longrightarrow> bytes ! 0 = f \<Longrightarrow> tells 0 f (demo_frame PGN_VirtualTerminalToECU s 0 bytes)"
  by (simp add: tells_def demo_frame_def make_message_def demo_pgn)

lemma demo_data [simp]: "msg_data (demo_frame p s d bytes) = bytes"
  by (simp add: demo_frame_def make_message_def)

lemma demo_between:
  "length bytes = 8 \<Longrightarrow> frame_between s d PGN_VirtualTerminalToECU (demo_frame PGN_VirtualTerminalToECU s d bytes)"
  "length bytes = 8 \<Longrightarrow> frame_between s d PGN_ECUtoVirtualTerminal (demo_frame PGN_ECUtoVirtualTerminal s d bytes)"
  by (simp_all add: frame_between_def demo_frame_def make_message_def demo_pgn)

abbreviation (input) demo_greeting :: "vt_input list" where
  "demo_greeting \<equiv> greeting (says [0xFE, 0x80, 0, 0, 0, 0, 0, 0]) (says [0xC0, 4, 0, 0, 0, 0, 0, 0])
     (says [0xC2, 0, 0, 0, 60, 60, 6, 6]) (says [0xC3, 0, 0, 0, 0, 0xFF, 0x7F, 0])
     (says [0xC7, 0, 2, 0, 200, 0, 200, 0]) (says [0xE0, 0, 0, 0, 0, 0, 0, 0])"

abbreviation (input) demo_uploading :: "vt_input list" where
  "demo_uploading \<equiv> uploading (says [0x12, 0, 0, 0, 0, 0, 0, 0]) (says [0xD0, 0, 0, 0, 0, 0, 0, 0]) 1"

lemma demo_client_simps:
  "vt_state demo_client = Disconnected" "currentObjectPoolState demo_client = Uninitialized" "objectPools demo_client = [demo_pool]"
  "can_accepts demo_client n" "partnerControlFunction demo_client = Some 1" "partner_address_valid demo_client"
  "ourAuxiliaryInputs demo_client = []" "clock_ms demo_client = 5" "myControlFunction demo_client = 0"
  "app_state demo_client = demo_planter" "vt_initialized demo_client" "commandQueue demo_client = []" "txFlags demo_client = [0]"
  by (simp_all add: demo_client_def vt_constructed_def)

lemma demo_uploadable: "uploadable demo_pool" "\<not> uploaded demo_pool" "objectPoolSize demo_pool = 10"
  by (simp_all add: demo_pool_def uploadable_def default_pool_def)

lemma demo_greets:
  "greets (myControlFunction demo_client) (says [0xFE, 0x80, 0, 0, 0, 0, 0, 0]) (says [0xC0, 4, 0, 0, 0, 0, 0, 0])
     (says [0xC2, 0, 0, 0, 60, 60, 6, 6]) (says [0xC3, 0, 0, 0, 0, 0xFF, 0x7F, 0])
     (says [0xC7, 0, 2, 0, 200, 0, 200, 0]) (says [0xE0, 0, 0, 0, 0, 0, 0, 0])"
  by (simp add: greets_def demo_tells demo_client_simps)

lemma demo_takes:
  "takes_pool (myControlFunction demo_client) (says [0x12, 0, 0, 0, 0, 0, 0, 0]) (says [0xD0, 0, 0, 0, 0, 0, 0, 0])"
  by (simp add: takes_pool_def demo_tells demo_client_simps)

text \<open>Witness of C6: the planter with a pool of ten bytes.\<close>

theorem handshake_connects_witness:
  "\<exists>c'. vt_run (planter_listen demo_api 0) demo_store (demo_greeting @ demo_uploading) demo_client = Some c'
     \<and> get_is_connected c' \<and> PoolTransfer 11 \<in> set (can_sent c') \<and> app_state c' = demo_planter"
  using handshake_connects [OF _ _ _ _ _ _ _ _ _ _ demo_greets demo_takes, of demo_pool 1 "planter_listen demo_api 0" demo_store]
  by (simp add: demo_client_simps demo_uploadable)

lemma demo_me: "myControlFunction (demo_client\<lparr>vt_state := UploadObjectPool, currentObjectPoolState := InProgress\<rparr>) = myControlFunction demo_client"
  by simp

text \<open>Witness of C22: a restart during an upload, and a minute.\<close>

theorem interrupted_upload_wedges_witness:
  "\<exists>c'. vt_run (planter_listen demo_api 0) demo_store ([Restart, TransferDone PGN_ECUtoVirtualTerminal (Some 1) True]
        @ demo_greeting @ [Update, Clock 60000, Update])
        (demo_client\<lparr>vt_state := UploadObjectPool, currentObjectPoolState := InProgress\<rparr>) = Some c'
     \<and> vt_state c' = UploadObjectPool \<and> currentObjectPoolState c' = InProgress"
  using interrupted_upload_wedges [of "demo_client\<lparr>vt_state := UploadObjectPool, currentObjectPoolState := InProgress\<rparr>" demo_pool 1,
      OF _ _ _ _ _ _ _ _ _ _ demo_greets [folded demo_me], of "[Update, Clock 60000, Update]" "planter_listen demo_api 0" demo_store True]
  by (simp add: demo_client_simps demo_uploadable)

theorem vector_pool_not_uploaded_witness:
  "\<exists>c'. state_update (set_object_pool_vector 0 (Some [1, 2, 3]) [] (demo_client\<lparr>vt_state := UploadObjectPool, objectPools := []\<rparr>)) = Some c'
     \<and> vt_state c' = SendEndOfObjectPool \<and> can_sent c' = can_sent demo_client"
  using vector_pool_not_uploaded [of "demo_client\<lparr>vt_state := UploadObjectPool, objectPools := []\<rparr>" "[1, 2, 3]" "[]"] by simp

theorem reconnect_resends_no_number_witness:
  "\<exists>c'. vt_run (planter_listen demo_api 0) demo_store (demo_greeting @ demo_uploading) demo_client = Some c'
     \<and> get_is_connected c' \<and> PoolTransfer 11 \<in> set (can_sent c')
     \<and> issue (SetNumericValue VarNum_FanRPMTarget 3000) c' = Some (True, c')"
  using reconnect_resends_no_number [OF _ _ _ _ _ _ _ _ _ _ demo_greets demo_takes, of demo_pool 1 VarNum_FanRPMTarget 3000 demo_api 0 demo_store]
  by (simp add: demo_client_simps demo_uploadable demo_planter_def make_tracker_def add_tracked_numeric_value_def track_def)

text \<open>Witness of C4: a run of five inputs.\<close>

theorem planter_display_defined_witness:
  "\<exists>c. vt_run (planter_listen demo_api 0) demo_store [Update, Command [ChangeBackgroundColourCommand, 1, 2, 3, 0xFF, 0xFF, 0xFF, 0xFF] True,
      AuxAdd 7, Message (says [0xFE, 0x80, 0, 0, 0, 0, 0, 0]), Update] (vt_constructed (Some 1) 0 (\<lambda>_. True) demo_planter) = Some c \<and> vt_ok c"
  by (rule planter_display_defined)
     (simp add: proper_input_def proper_message_def commands_ok demo_frame_def make_message_def)

definition demo_waiting :: "(string \<Rightarrow> u8 option) planter vt_client" where
  "demo_waiting = (vt_constructed (Some 1) 0 (\<lambda>_. True) demo_planter)\<lparr>objectPools := [demo_pool],
     vt_state := Connected, commandAwaitingResponse := True\<rparr>"

lemma demo_waiting_simps:
  "vt_ok demo_waiting" "commandAwaitingResponse demo_waiting" "clock_ms demo_waiting = 0" "lastCommandTimestamp_ms demo_waiting = 0"
  "myControlFunction demo_waiting = 0" "partnerControlFunction demo_waiting = Some 1" "commands_sent demo_waiting = []"
  "vt_state demo_waiting = Connected" "can_accepts demo_waiting n" "can_sent demo_waiting = []" "unsupportedFunctions demo_waiting = []"
  by (simp_all add: demo_waiting_def vt_constructed_def vt_ok_def unscaled_def needs_pools_def commands_sent_def queue_ok_def
      demo_pool_def default_pool_def)

text \<open>Witness of C11: four inputs within a second.\<close>

theorem planter_one_command_at_a_time_witness:
  "\<exists>c'. vt_run (planter_listen demo_api 0) demo_store [Update, Command [ChangeBackgroundColourCommand, 1, 2, 3, 0xFF, 0xFF, 0xFF, 0xFF] True,
      Clock 1000, Message (says [1, 0, 0x86, 0x17, 0, 0, 1, 0]), Update] demo_waiting = Some c'
    \<and> commands_sent c' = []"
  using planter_one_command_at_a_time [of demo_waiting
    "[Update, Command [ChangeBackgroundColourCommand, 1, 2, 3, 0xFF, 0xFF, 0xFF, 0xFF] True,
      Clock 1000, Message (says [1, 0, 0x86, 0x17, 0, 0, 1, 0]), Update]" demo_api 0 demo_store]
  by (simp add: demo_waiting_simps proper_input_def proper_message_def commands_ok demo_frame_def make_message_def quiet_input_def
      no_response_def not_responses del: vt_run.simps)

definition demo_tracker :: tracker where
  "demo_tracker = (add_tracked_attribute 0x1234 5 0 (add_tracked_numeric_value VarNum_FanRPMTarget 3000
     (make_tracker (Some 0))))\<lparr>tracked_server := Some 1\<rparr>"

lemma demo_or: "or_bytes LittleEndian [0x34, 0x12 :: u8] = (0x1234 :: u16)" "or_bytes LittleEndian [0x0A, 0x52 :: u8] = (VarNum_FanRPMTarget :: u16)"
  by code_simp+

lemma demo_or2: "or_bytes LittleEndian [0x10, 0x27, 0, 0 :: u8] = (10000 :: u32)"
  by code_simp

lemma demo_words:
  "get_uint16_at 1 LittleEndian (demo_frame pgn s d [f, 0x34, 0x12, 5, 0, 0, 0, 0]) = Some 0x1234"
  "get_uint16_at 1 LittleEndian (demo_frame pgn s d [f, 0x0A, 0x52, 0xFF, 0x10, 0x27, 0, 0]) = Some VarNum_FanRPMTarget"
  "get_uint32_at 4 LittleEndian (demo_frame pgn s d [f, 0x0A, 0x52, 0xFF, 0x10, 0x27, 0, 0]) = Some 10000"
  by (simp_all add: get_uint16_at_def get_uint32_at_def get_bytes_at_ok demo_or demo_or2)

text \<open>Witness of C30: an attribute of object 0x1234.\<close>

theorem attribute_response_throws_witness:
  "\<exists>t1. process_rx_or_tx_message demo_store (demo_frame PGN_ECUtoVirtualTerminal 0 1 [0xAF, 0x34, 0x12, 5, 0, 0, 0, 0]) demo_tracker = Some t1
     \<and> process_rx_or_tx_message demo_store (says [0xAF, 0x34, 0x12, 5, 0, 0, 0, 0]) t1 = None"
  by (rule attribute_response_throws [where server = 1 and cl = 0 and obj = "0x1234"])
     (simp_all add: demo_between demo_words demo_store_def cf_address_valid_def demo_tracker_def make_tracker_def
        add_tracked_attribute_def add_tracked_numeric_value_def track_def tracked_attribute_def)

lemma demo_server: "tracked_server demo_tracker = Some 1" by (simp add: demo_tracker_def)

lemma demo_frame_port: "msg_port (demo_frame p s d bytes) = 0" by (simp add: demo_frame_def make_message_def)

definition demo_tables :: "planter_callback callback_tables" where
  "demo_tables = client_register (Some 1) (tracker_initialize
     \<lparr>protocolPGNCallbacks = [], anyControlFunctionParameterGroupNumberCallbacks = [], globalParameterGroupNumberCallbacks = [],
      dispatch_partners = [1], parameterGroupNumberCallbacks = (\<lambda>p. [])\<rparr>)"

lemma demo_tables: "planter_tables 1 demo_tables"
  unfolding planter_tables_def demo_tables_def by (rule exI, rule conjI, rule disjI1, rule refl) simp

text \<open>Witness of C33: the fan target, changed to 10000.\<close>

theorem operator_change_never_validated_witness:
  "\<exists>x. dispatch_received (planter_call (\<lambda>_ _. Some) demo_api 0 demo_store) demo_store demo_tables
      (says [5, 0x0A, 0x52, 0xFF, 0x10, 0x27, 0, 0]) (demo_client\<lparr>app_state := demo_planter\<lparr>planter_helper := demo_tracker\<rparr>\<rparr>)
    = Some (respond [5, byte_of 0 VarNum_FanRPMTarget, byte_of 1 VarNum_FanRPMTarget, x,
        byte_of 0 (10000 :: u32), byte_of 1 (10000 :: u32), byte_of 2 (10000 :: u32), byte_of 3 (10000 :: u32)]
        (demo_client\<lparr>app_state := demo_planter\<lparr>planter_helper := store_numeric_value VarNum_FanRPMTarget 10000 demo_tracker\<rparr>\<rparr>))"
  using operator_change_never_validated [OF demo_tables, of demo_store 0 "says [5, 0x0A, 0x52, 0xFF, 0x10, 0x27, 0, 0]"
      "demo_client\<lparr>app_state := demo_planter\<lparr>planter_helper := demo_tracker\<rparr>\<rparr>" VarNum_FanRPMTarget 10000 "\<lambda>_ _. Some" demo_api 0]
  by (simp add: demo_between demo_words demo_client_simps demo_server demo_store_def cf_address_valid_def demo_frame_port)

section \<open>Concrete queues, pools and scalings\<close>

abbreviation (input) red_background :: "u8 list" where
  "red_background \<equiv> [ChangeBackgroundColourCommand, 1, 2, 12, 0xFF, 0xFF, 0xFF, 0xFF]"

abbreviation (input) blue_background :: "u8 list" where
  "blue_background \<equiv> [ChangeBackgroundColourCommand, 1, 2, 9, 0xFF, 0xFF, 0xFF, 0xFF]"

abbreviation (input) fan_value :: "u8 list" where
  "fan_value \<equiv> [ChangeNumericValueCommand, 0x0A, 0x52, 0xFF, 0x10, 0x27, 0, 0]"

lemma demo_response:
  "length bytes = 8 \<Longrightarrow> bytes ! 0 \<in> set command_responses \<Longrightarrow> myControlFunction c = 0 \<Longrightarrow> partnerControlFunction c = Some 1 \<Longrightarrow>
   response_to_us (says bytes) c"
  by (simp add: response_to_us_def demo_frame_def make_message_def demo_pgn)

text \<open>Witness of C13: a second background colour replaces the first and keeps its place.\<close>

theorem waiting_command_refines_map_witness:
  "\<exists>c'. queue_command red_background True (demo_waiting\<lparr>commandQueue := [blue_background, fan_value]\<rparr>) = Some (True, c')
     \<and> can_sent c' = [] \<and> keyed (commandQueue c') = AList.update (command_key red_background) red_background (keyed [blue_background, fan_value])"
  using waiting_command_refines_map [of "demo_waiting\<lparr>commandQueue := [blue_background, fan_value]\<rparr>" red_background]
  by (auto simp: demo_waiting_simps queue_ok_def long_def command_ok_def command_responses_def replaceable_def
      command_key_def key_length_def is_function_unsupported_def blocked_def time_expired_def)

text \<open>Witness of C12: two queued commands, two answers.\<close>

theorem queue_drains_in_order_witness:
  "\<exists>c'. vt_run (planter_listen demo_api 0) demo_store (map Message [says red_background, says fan_value])
        (demo_waiting\<lparr>commandQueue := [red_background, fan_value]\<rparr>) = Some c' \<and> commandQueue c' = []
     \<and> can_sent c' = [VtMessage PGN_ECUtoVirtualTerminal red_background (Some 1) Priority5,
                       VtMessage PGN_ECUtoVirtualTerminal fan_value (Some 1) Priority5]"
  using queue_drains_in_order [of "demo_waiting\<lparr>commandQueue := [red_background, fan_value]\<rparr>" "[says red_background, says fan_value]"
      "planter_listen demo_api 0" demo_store]
  by (simp add: demo_response demo_waiting_simps command_responses_def command_message_def del: vt_run.simps One_nat_def)

text \<open>Witness of C23: a queued background colour is sent after the newer one.\<close>

theorem older_value_sent_last_witness:
  "\<exists>c'. vt_run (planter_listen demo_api 0) demo_store [Command red_background True, Message (says red_background)]
        (demo_waiting\<lparr>commandAwaitingResponse := False, commandQueue := [blue_background]\<rparr>) = Some c'
     \<and> can_sent c' = [VtMessage PGN_ECUtoVirtualTerminal red_background (Some 1) Priority5,
                       VtMessage PGN_ECUtoVirtualTerminal blue_background (Some 1) Priority5]
     \<and> commandQueue c' = []"
  using older_value_sent_last [of "demo_waiting\<lparr>commandAwaitingResponse := False, commandQueue := [blue_background]\<rparr>" blue_background
      red_background "says red_background" "planter_listen demo_api 0" demo_store]
  by (simp add: demo_response demo_waiting_simps command_responses_def command_message_def
      is_function_unsupported_def del: vt_run.simps One_nat_def)

text \<open>Witness of C27: a pool that begins with a scaled graphic.\<close>

theorem scaling_stops_at_unknown_object_witness:
  "get_number_bytes_in_object [1, 0, OT_ScaledGraphic, 0, 0] = Some 0
   \<and> resize_object [1, 0, OT_ScaledGraphic, 0, 0] 2 OT_ScaledGraphic (capabilities demo_client) = Some (True, [1, 0, OT_ScaledGraphic, 0, 0])
   \<and> scale_from (capabilities demo_client) demo_pool 0 [1, 0, OT_ScaledGraphic, 0, 0] = None"
  using scaling_stops_at_unknown_object [of 0 "[1, 0, OT_ScaledGraphic, 0, 0]" 2 "capabilities demo_client" demo_pool] by simp

theorem negative_child_overflows_witness:
  "resize_object [0, 0, OT_DataMask, 0, 0xFF, 0xFF, 1, 0, 7, 0, 0xF0, 0xFF, 0, 0] 2 OT_DataMask (capabilities demo_client) = None"
  by (rule negative_child_overflows [where n = 1 and x = "0xFFF0"]) (simp_all add: checked_nth_def rd16_def)

text \<open>Witness of C19: ten bytes in two chunks.\<close>

theorem pool_chunks_assemble_witness:
  "read_chunks 0 [7, 4] demo_client = Some (ObjectPoolTransferMessage # replicate 10 0)"
  by (rule pool_chunks_assemble [where p = demo_pool])
     (simp_all add: demo_client_def demo_pool_def default_pool_def holds_pool_def)

text \<open>Witness of C26: font 3 when the display has font 1 only.\<close>

theorem font_fallback_returns_iff_witness:
  "get_font_or_next_smallest_font 3 ((capabilities demo_client)\<lparr>smallFontSizesBitfield := 2\<rparr>) = None"
  using font_fallback_returns_iff [of 3 "(capabilities demo_client)\<lparr>smallFontSizesBitfield := 2\<rparr>"]
  by (simp add: get_font_size_supported_def bit_simps)

end
