(* ===== verification/Ddop.thy ===== *)
theory Ddop
  imports Can_Message "HOL-Library.Monad_Syntax"
begin

text \<open>
  The device descriptor object pool of a task controller client, \<open>src/isobus/src/isobus_task_controller_client_objects.cpp\<close>
  and \<open>isobus_device_descriptor_object_pool.cpp\<close>: its objects and their binary form, the operations that build a pool,
  the check of its references, the reader of a binary pool and the ISO XML description. Strings are lists of
  bytes; a \<open>float\<close> is its representation. \<open>None\<close> is a read outside of the buffer, an exception, a failing
  assertion or a cast to the wrong class.
\<close>

section \<open>The objects\<close>

datatype ObjectTypes = TypeDevice | TypeDeviceElement | TypeDeviceProcessData | TypeDeviceProperty
  | TypeDeviceValuePresentation

record Object =
  designator :: "u8 list"
  objectID :: u16

record DeviceObject = Object +
  serialNumber :: "u8 list"
  softwareVersion :: "u8 list"
  structureLabel :: "u8 list"
  localizationLabel :: "u8 list" \<comment> \<open>an array of 7 bytes\<close>
  extendedStructureLabel :: "u8 list"
  device_NAME :: u64
  useExtendedStructureLabel :: bool

record DeviceElementObject = Object +
  referenceList :: "u16 list"
  elementNumber :: u16
  parentObject :: u16
  elementType :: u8

record DeviceProcessDataObject = Object +
  process_ddi :: u16
  process_presentation :: u16
  propertiesBitfield :: u8
  triggerMethodsBitfield :: u8

record DevicePropertyObject = Object +
  property_value :: u32 \<comment> \<open>\<open>int32_t\<close>: its value is \<open>sint\<close>\<close>
  property_ddi :: u16
  property_presentation :: u16

record DeviceValuePresentationObject = Object +
  presentation_offset :: u32 \<comment> \<open>\<open>int32_t\<close>\<close>
  presentation_scale :: u32 \<comment> \<open>the representation of the \<open>float\<close>\<close>
  numberOfDecimals :: u8

datatype ddop_object = Device DeviceObject | DeviceElement DeviceElementObject
  | DeviceProcessData DeviceProcessDataObject | DeviceProperty DevicePropertyObject
  | DeviceValuePresentation DeviceValuePresentationObject

fun get_object_id :: "ddop_object \<Rightarrow> u16" where
  "get_object_id (Device d) = objectID d"
| "get_object_id (DeviceElement d) = objectID d"
| "get_object_id (DeviceProcessData d) = objectID d"
| "get_object_id (DeviceProperty d) = objectID d"
| "get_object_id (DeviceValuePresentation d) = objectID d"

fun get_designator :: "ddop_object \<Rightarrow> u8 list" where
  "get_designator (Device d) = designator d"
| "get_designator (DeviceElement d) = designator d"
| "get_designator (DeviceProcessData d) = designator d"
| "get_designator (DeviceProperty d) = designator d"
| "get_designator (DeviceValuePresentation d) = designator d"

fun get_object_type :: "ddop_object \<Rightarrow> ObjectTypes" where
  "get_object_type (Device d) = TypeDevice"
| "get_object_type (DeviceElement d) = TypeDeviceElement"
| "get_object_type (DeviceProcessData d) = TypeDeviceProcessData"
| "get_object_type (DeviceProperty d) = TypeDeviceProperty"
| "get_object_type (DeviceValuePresentation d) = TypeDeviceValuePresentation"

section \<open>Binary objects\<close>

definition table_DVC :: "u8 list" where "table_DVC = [0x44, 0x56, 0x43]"
definition table_DET :: "u8 list" where "table_DET = [0x44, 0x45, 0x54]"
definition table_DPD :: "u8 list" where "table_DPD = [0x44, 0x50, 0x44]"
definition table_DPT :: "u8 list" where "table_DPT = [0x44, 0x50, 0x54]"
definition table_DVP :: "u8 list" where "table_DVP = [0x44, 0x56, 0x50]"

definition counted :: "u8 list \<Rightarrow> u8 list" where
  \<comment> \<open>the size, cast to a byte, and the bytes\<close>
  "counted s = of_nat (length s) # s"

definition padded :: "u8 list \<Rightarrow> u8 list" where
  \<comment> \<open>seven bytes, blanks after the end of the label\<close>
  "padded s = map (\<lambda>i. if i < length s then s ! i else 0x20) [0..<7]"

definition device_binary :: "DeviceObject \<Rightarrow> u8 list" where
  "device_binary d = table_DVC @ le_bytes 2 (objectID d) @ counted (designator d) @ counted (softwareVersion d)
     @ le_bytes 8 (device_NAME d) @ counted (serialNumber d) @ padded (structureLabel d)
     @ padded (localizationLabel d)
     @ (if useExtendedStructureLabel d then counted (extendedStructureLabel d) else [])"

definition device_element_binary :: "DeviceElementObject \<Rightarrow> u8 list" where
  "device_element_binary d =
     (let tempSize = of_nat (length (referenceList d)) :: u16
      in table_DET @ le_bytes 2 (objectID d) @ [elementType d] @ counted (designator d)
         @ le_bytes 2 (elementNumber d) @ le_bytes 2 (parentObject d) @ le_bytes 2 tempSize
         @ concat (map (le_bytes 2) (take (unat tempSize) (referenceList d))))"

definition process_data_binary :: "DeviceProcessDataObject \<Rightarrow> u8 list" where
  "process_data_binary d = table_DPD @ le_bytes 2 (objectID d) @ le_bytes 2 (process_ddi d)
     @ [propertiesBitfield d, triggerMethodsBitfield d] @ counted (designator d)
     @ le_bytes 2 (process_presentation d)"

definition property_binary :: "DevicePropertyObject \<Rightarrow> u8 list" where
  "property_binary d = table_DPT @ le_bytes 2 (objectID d) @ le_bytes 2 (property_ddi d)
     @ le_bytes 4 (property_value d) @ counted (designator d) @ le_bytes 2 (property_presentation d)"

definition presentation_binary :: "DeviceValuePresentationObject \<Rightarrow> u8 list" where
  "presentation_binary d = table_DVP @ le_bytes 2 (objectID d) @ le_bytes 4 (presentation_offset d)
     @ le_bytes 4 (presentation_scale d) @ [numberOfDecimals d] @ counted (designator d)"

fun get_binary_object :: "ddop_object \<Rightarrow> u8 list" where
  "get_binary_object (Device d) = device_binary d"
| "get_binary_object (DeviceElement d) = device_element_binary d"
| "get_binary_object (DeviceProcessData d) = process_data_binary d"
| "get_binary_object (DeviceProperty d) = property_binary d"
| "get_binary_object (DeviceValuePresentation d) = presentation_binary d"

definition add_reference_to_child_object :: "u16 \<Rightarrow> DeviceElementObject \<Rightarrow> DeviceElementObject" where
  "add_reference_to_child_object childID d = d\<lparr>referenceList := referenceList d @ [childID]\<rparr>"

definition remove_reference_to_child_object :: "u16 \<Rightarrow> DeviceElementObject \<Rightarrow> bool \<times> DeviceElementObject" where
  "remove_reference_to_child_object childID d =
     (if childID \<in> set (referenceList d) then (True, d\<lparr>referenceList := remove1 childID (referenceList d)\<rparr>)
      else (False, d))"

definition get_number_child_objects :: "DeviceElementObject \<Rightarrow> u16" where
  "get_number_child_objects d = of_nat (length (referenceList d))"

definition get_child_object_id :: "nat \<Rightarrow> DeviceElementObject \<Rightarrow> u16" where
  "get_child_object_id index d =
     (if index < unat (get_number_child_objects d) then referenceList d ! index else 0xFFFF)"

definition has_property :: "u8 \<Rightarrow> DeviceProcessDataObject \<Rightarrow> bool" where
  "has_property property d \<longleftrightarrow> propertiesBitfield d AND property \<noteq> 0"

definition has_trigger_method :: "u8 \<Rightarrow> DeviceProcessDataObject \<Rightarrow> bool" where
  "has_trigger_method m d \<longleftrightarrow> triggerMethodsBitfield d AND m \<noteq> 0"

section \<open>The pool\<close>

record ddop =
  objectList :: "ddop_object list"
  taskControllerCompatibilityLevel :: u8

abbreviation MAX_TC_VERSION_SUPPORTED :: u8 where "MAX_TC_VERSION_SUPPORTED \<equiv> 4"

definition ddop_constructed :: "u8 \<Rightarrow> ddop option" where
  \<comment> \<open>\<open>None\<close>: the assertion on the version fails\<close>
  "ddop_constructed version =
     (if version \<le> MAX_TC_VERSION_SUPPORTED
      then Some \<lparr>objectList = [], taskControllerCompatibilityLevel = version\<rparr> else None)"

definition get_object_by_id :: "u16 \<Rightarrow> ddop \<Rightarrow> ddop_object option" where
  "get_object_by_id i p = find (\<lambda>obj. get_object_id obj = i) (objectList p)"

definition get_object_by_index :: "u16 \<Rightarrow> ddop \<Rightarrow> ddop_object option" where
  "get_object_by_index index p =
     (if unat index < length (objectList p) then Some (objectList p ! unat index) else None)"

definition ddop_size :: "ddop \<Rightarrow> u16" where
  "ddop_size p = of_nat (length (objectList p))"

definition check_object_id_unique :: "u16 \<Rightarrow> ddop \<Rightarrow> bool" where
  "check_object_id_unique uniqueID p \<longleftrightarrow> uniqueID \<noteq> 0 \<and> uniqueID \<noteq> 0xFFFF
     \<and> (\<forall>obj \<in> set (objectList p). get_object_id obj \<noteq> uniqueID)"

definition truncated :: "u8 \<Rightarrow> u8 list \<Rightarrow> u8 list" where
  \<comment> \<open>what the functions that add objects do to a designator\<close>
  "truncated level s =
     (if level < MAX_TC_VERSION_SUPPORTED \<and> 32 < length s then take 32 s
      else if level = MAX_TC_VERSION_SUPPORTED \<and> 128 < length s then take 128 s
      else s)"

definition add_object :: "ddop_object \<Rightarrow> ddop \<Rightarrow> ddop" where
  "add_object obj p = p\<lparr>objectList := objectList p @ [obj]\<rparr>"

definition add_device ::
    "u8 list \<Rightarrow> u8 list \<Rightarrow> u8 list \<Rightarrow> u8 list \<Rightarrow> u8 list \<Rightarrow> u8 list \<Rightarrow> u64 \<Rightarrow> ddop \<Rightarrow> bool \<times> ddop" where
  "add_device deviceDesignator deviceSoftwareVersion deviceSerialNumber deviceStructureLabel
       deviceLocalizationLabel deviceExtendedStructureLabel clientIsoNAME p =
     (if \<exists>obj \<in> set (objectList p). get_object_type obj = TypeDevice then (False, p)
      else
        let level = taskControllerCompatibilityLevel p
        in (True, add_object (Device
             \<lparr>designator = truncated level deviceDesignator, objectID = 0,
              serialNumber = truncated level deviceSerialNumber, softwareVersion = deviceSoftwareVersion,
              structureLabel = (if 7 < length deviceStructureLabel then take 7 deviceStructureLabel
                                else deviceStructureLabel),
              localizationLabel = deviceLocalizationLabel,
              extendedStructureLabel = (if 32 < length deviceExtendedStructureLabel
                                        then take 32 deviceExtendedStructureLabel
                                        else deviceExtendedStructureLabel),
              device_NAME = clientIsoNAME, useExtendedStructureLabel = level \<ge> 4\<rparr>) p))"

definition add_device_element :: "u8 list \<Rightarrow> u16 \<Rightarrow> u16 \<Rightarrow> u8 \<Rightarrow> u16 \<Rightarrow> ddop \<Rightarrow> bool \<times> ddop" where
  "add_device_element deviceElementDesignator deviceElementNumber parentObjectID deviceElementType uniqueID p =
     (if check_object_id_unique uniqueID p
      then (True, add_object (DeviceElement
             \<lparr>designator = truncated (taskControllerCompatibilityLevel p) deviceElementDesignator,
              objectID = uniqueID, referenceList = [], elementNumber = deviceElementNumber,
              parentObject = parentObjectID, elementType = deviceElementType\<rparr>) p)
      else (False, p))"

definition add_device_process_data :: "u8 list \<Rightarrow> u16 \<Rightarrow> u16 \<Rightarrow> u8 \<Rightarrow> u8 \<Rightarrow> u16 \<Rightarrow> ddop \<Rightarrow> bool \<times> ddop" where
  "add_device_process_data processDataDesignator processDataDDI presentationID processDataProperties
       processDataTriggerMethods uniqueID p =
     (if check_object_id_unique uniqueID p
      then (True, add_object (DeviceProcessData
             \<lparr>designator = truncated (taskControllerCompatibilityLevel p) processDataDesignator,
              objectID = uniqueID, process_ddi = processDataDDI, process_presentation = presentationID,
              propertiesBitfield = processDataProperties,
              triggerMethodsBitfield = processDataTriggerMethods\<rparr>) p)
      else (False, p))"

definition add_device_property :: "u8 list \<Rightarrow> u32 \<Rightarrow> u16 \<Rightarrow> u16 \<Rightarrow> u16 \<Rightarrow> ddop \<Rightarrow> bool \<times> ddop" where
  "add_device_property propertyDesignator propertyValue propertyDDI valuePresentationObject uniqueID p =
     (if check_object_id_unique uniqueID p
      then (True, add_object (DeviceProperty
             \<lparr>designator = truncated (taskControllerCompatibilityLevel p) propertyDesignator,
              objectID = uniqueID, property_value = propertyValue, property_ddi = propertyDDI,
              property_presentation = valuePresentationObject\<rparr>) p)
      else (False, p))"

definition add_device_value_presentation :: "u8 list \<Rightarrow> u32 \<Rightarrow> u32 \<Rightarrow> u8 \<Rightarrow> u16 \<Rightarrow> ddop \<Rightarrow> bool \<times> ddop" where
  "add_device_value_presentation unitDesignator offsetValue scaleFactor numberDecimals uniqueID p =
     (if check_object_id_unique uniqueID p
      then (True, add_object (DeviceValuePresentation
             \<lparr>designator = truncated (taskControllerCompatibilityLevel p) unitDesignator,
              objectID = uniqueID, presentation_offset = offsetValue, presentation_scale = scaleFactor,
              numberOfDecimals = numberDecimals\<rparr>) p)
      else (False, p))"

definition remove_where :: "(ddop_object \<Rightarrow> bool) \<Rightarrow> ddop \<Rightarrow> bool \<times> ddop" where
  "remove_where P p =
     (\<exists>obj \<in> set (objectList p). P obj, p\<lparr>objectList := filter (\<lambda>obj. \<not> P obj) (objectList p)\<rparr>)"

definition remove_objects_with_type :: "ObjectTypes \<Rightarrow> ddop \<Rightarrow> bool \<times> ddop" where
  "remove_objects_with_type t = remove_where (\<lambda>obj. get_object_type obj = t)"

definition remove_object_with_id :: "u16 \<Rightarrow> ddop \<Rightarrow> bool \<times> ddop" where
  "remove_object_with_id i = remove_where (\<lambda>obj. get_object_id obj = i)"

fun erase_first :: "('a \<Rightarrow> bool) \<Rightarrow> 'a list \<Rightarrow> bool \<times> 'a list" where
  "erase_first P [] = (False, [])"
| "erase_first P (x # xs) =
     (if P x then (True, xs) else let (found, ys) = erase_first P xs in (found, x # ys))"

definition remove_object_by_id :: "u16 \<Rightarrow> ddop \<Rightarrow> bool \<times> ddop" where
  "remove_object_by_id i p =
     (let (found, xs) = erase_first (\<lambda>obj. get_object_id obj = i) (objectList p)
      in (found, p\<lparr>objectList := xs\<rparr>))"

fun modify_first :: "('a \<Rightarrow> bool) \<Rightarrow> ('a \<Rightarrow> 'a) \<Rightarrow> 'a list \<Rightarrow> 'a list" where
  "modify_first P f [] = []"
| "modify_first P f (x # xs) = (if P x then f x # xs else x # modify_first P f xs)"

definition set_task_controller_compatibility_level :: "u8 \<Rightarrow> ddop \<Rightarrow> ddop option" where
  \<comment> \<open>\<open>None\<close>: the assertion fails, or the object with identifier 0 is not a device and is cast to one\<close>
  "set_task_controller_compatibility_level tcVersion p =
     (if tcVersion \<le> MAX_TC_VERSION_SUPPORTED
      then let p1 = p\<lparr>taskControllerCompatibilityLevel := tcVersion\<rparr>
           in case get_object_by_id 0 p1 of
                None \<Rightarrow> Some p1
              | Some (Device d) \<Rightarrow>
                  Some (p1\<lparr>objectList := modify_first (\<lambda>obj. get_object_id obj = 0)
                     (\<lambda>_. Device (d\<lparr>useExtendedStructureLabel := 4 \<le> tcVersion\<rparr>)) (objectList p1)\<rparr>)
              | Some _ \<Rightarrow> None
      else None)"

definition ddop_clear :: "ddop \<Rightarrow> ddop" where
  "ddop_clear p = p\<lparr>objectList := []\<rparr>"

section \<open>References\<close>

fun children_resolve :: "ddop \<Rightarrow> DeviceElementObject \<Rightarrow> nat \<Rightarrow> nat \<Rightarrow> bool" where
  \<comment> \<open>the loop over the children, \<open>n\<close> rounds from \<open>i\<close>\<close>
  "children_resolve p d i 0 = True"
| "children_resolve p d i (Suc n) =
     (case get_object_by_id (get_child_object_id i d) p of
        None \<Rightarrow> False
      | Some child \<Rightarrow>
          if get_object_type child \<noteq> TypeDeviceProcessData \<and> get_object_type child \<noteq> TypeDeviceProperty then False
          else children_resolve p d (Suc i) n)"

definition presentation_resolves :: "ddop \<Rightarrow> u16 \<Rightarrow> bool" where
  "presentation_resolves p i =
     (if i \<noteq> 0xFFFF
      then (case get_object_by_id i p of
              None \<Rightarrow> False
            | Some child \<Rightarrow> get_object_type child = TypeDeviceValuePresentation)
      else True)"

fun object_resolves :: "ddop \<Rightarrow> ddop_object \<Rightarrow> bool" where
  "object_resolves p (DeviceElement d) =
     (let parentOk = (if parentObject d \<noteq> 0xFFFF
                      then (case get_object_by_id (parentObject d) p of
                              Some parent \<Rightarrow> get_object_type parent = TypeDeviceElement \<or> get_object_type parent = TypeDevice
                            | None \<Rightarrow> False)
                      else False)
      in if parentOk then children_resolve p d 0 (unat (get_number_child_objects d)) else False)"
| "object_resolves p (DeviceProcessData d) = presentation_resolves p (process_presentation d)"
| "object_resolves p (DeviceProperty d) = presentation_resolves p (property_presentation d)"
| "object_resolves p obj = True"

definition resolve_parent_ids_to_objects :: "ddop \<Rightarrow> bool" where
  "resolve_parent_ids_to_objects p = list_all (object_resolves p) (objectList p)"

fun collect_binaries :: "ddop_object list \<Rightarrow> u8 list \<Rightarrow> bool \<times> u8 list" where
  "collect_binaries [] acc = (True, acc)"
| "collect_binaries (obj # objs) acc =
     (if get_binary_object obj \<noteq> [] then collect_binaries objs (acc @ get_binary_object obj) else (False, acc))"

definition generate_binary_object_pool :: "ddop \<Rightarrow> bool \<times> u8 list" where
  "generate_binary_object_pool p =
     (if resolve_parent_ids_to_objects p then collect_binaries (objectList p) [] else (False, []))"

section \<open>Reading a binary pool\<close>

definition bytes_at :: "nat \<Rightarrow> nat \<Rightarrow> u8 list \<Rightarrow> u8 list option" where
  \<comment> \<open>\<open>n\<close> reads from \<open>binaryPool[off]\<close> on\<close>
  "bytes_at off n b = those (map (checked_nth b) [off..<off + n])"

definition word_at :: "nat \<Rightarrow> nat \<Rightarrow> u8 list \<Rightarrow> 'a::len word option" where
  \<comment> \<open>the chain of shifted bytes\<close>
  "word_at n off b = map_option (or_bytes LittleEndian) (bytes_at off n b)"

definition length_at :: "nat \<Rightarrow> nat \<Rightarrow> u8 list \<Rightarrow> bool \<times> nat" where
  \<comment> \<open>a length byte that is tested before it is taken; otherwise the length stays 0 and \<open>retVal\<close> is false\<close>
  "length_at at limit b =
     (if at + 1 \<le> length b \<and> unat (b ! at) < limit then (True, unat (b ! at)) else (False, 0))"

text \<open>The result of one round of the loop: \<open>retVal\<close>, the number of bytes the pointer advances, the NAME and the pool.\<close>

type_synonym round = "bool \<times> nat \<times> u64 \<times> ddop"

definition after_add :: "bool \<Rightarrow> nat \<Rightarrow> u64 \<Rightarrow> bool \<times> ddop \<Rightarrow> round" where
  \<comment> \<open>the pointer advances when the object could be added\<close>
  "after_add ok expectedSize name r = (if fst r then (ok, expectedSize, name, snd r) else (False, 0, name, snd r))"

definition deserialize_device :: "u8 list \<Rightarrow> u64 \<Rightarrow> ddop \<Rightarrow> round option" where
  "deserialize_device b name p =
     (let level = taskControllerCompatibilityLevel p;
          (ok1, nd) = length_at 5 128 b;
          (ok2, nv) = length_at (6 + nd) 128 b;
          (ok3, ns) = length_at (15 + nd + nv) 128 b;
          (ok4, ne) = (if 4 \<le> level then length_at (30 + ns + nd + nv) 33 b else (True, 0));
          expectedSize = (if level < 4 then 30 else 31) + ns + nd + nv + ne
      in if expectedSize \<le> length b \<and> ok1 \<and> ok2 \<and> ok3 \<and> ok4
         then do {
           deviceDesignator \<leftarrow> bytes_at 6 nd b;
           deviceSoftwareVersion \<leftarrow> bytes_at (7 + nd) nv b;
           ddopClientNAME \<leftarrow> word_at 8 (7 + nd + nv) b;
           let ok = (\<not> (name \<noteq> 0 \<and> ddopClientNAME \<noteq> name));
               name1 = (if name = 0 then ddopClientNAME else name) in do {
           deviceSerialNumber \<leftarrow> bytes_at (16 + nd + nv) ns b;
           deviceStructureLabel \<leftarrow> bytes_at (16 + ns + nd + nv) 7 b;
           label \<leftarrow> bytes_at (23 + ns + nd + nv) 7 b;
           extended \<leftarrow> bytes_at (31 + ns + nd + nv) ne b;
           Some (after_add ok expectedSize name1
             (add_device deviceDesignator deviceSoftwareVersion deviceSerialNumber deviceStructureLabel label extended
                name1 (snd (remove_objects_with_type TypeDevice p))))}}
         else Some (False, 0, name, p))"

definition add_references :: "u16 \<Rightarrow> u16 list \<Rightarrow> ddop \<Rightarrow> ddop" where
  \<comment> \<open>the children of the element with that identifier, cast from the object that is found\<close>
  "add_references uniqueID children p =
     p\<lparr>objectList := modify_first (\<lambda>obj. get_object_id obj = uniqueID)
        (\<lambda>obj. case obj of DeviceElement d \<Rightarrow> DeviceElement (fold add_reference_to_child_object children d) | _ \<Rightarrow> obj)
        (objectList p)\<rparr>"

definition deserialize_device_element :: "u8 list \<Rightarrow> u64 \<Rightarrow> ddop \<Rightarrow> round option" where
  \<comment> \<open>the byte of the type is read without a test of the size\<close>
  "deserialize_device_element b name p =
     do {(ok1, nd) \<leftarrow> (if 7 \<le> length b then map_option (\<lambda>x. (True, unat x)) (checked_nth b 6) else Some (False, 0));
         (ok2, nc) \<leftarrow> (if 12 + nd \<le> length b then map_option (\<lambda>x. (True, unat x)) (checked_nth b (11 + nd))
                       else Some (False, 0));
         type \<leftarrow> checked_nth b 5;
         let ok3 = (type \<le> 7);
             expectedSize = 13 + 2 * nc + nd in
         if expectedSize \<le> length b \<and> ok1 \<and> ok2 \<and> ok3
         then do {
           parent \<leftarrow> word_at 2 (9 + nd) b;
           uniqueID \<leftarrow> word_at 2 3 b;
           number \<leftarrow> word_at 2 (7 + nd) b;
           deviceElementDesignator \<leftarrow> bytes_at 7 nd b;
           let r = add_device_element deviceElementDesignator number parent type uniqueID
                     (snd (remove_object_with_id uniqueID p)) in
           if fst r
           then do {
             children \<leftarrow> those (map (\<lambda>i. word_at 2 (13 + 2 * i + nd) b) [0..<nc]);
             Some (after_add True expectedSize name (True, add_references uniqueID children (snd r)))}
           else Some (after_add True expectedSize name r)}
         else Some (False, 0, name, p)}"

definition deserialize_process_data :: "u8 list \<Rightarrow> u64 \<Rightarrow> ddop \<Rightarrow> round option" where
  "deserialize_process_data b name p =
     (let (ok, nd) = length_at 9 128 b;
          expectedSize = 12 + nd
      in if expectedSize \<le> length b \<and> ok
         then do {
           ddi \<leftarrow> word_at 2 5 b;
           uniqueID \<leftarrow> word_at 2 3 b;
           presentation \<leftarrow> word_at 2 (10 + nd) b;
           processDataDesignator \<leftarrow> bytes_at 10 nd b;
           properties \<leftarrow> checked_nth b 7;
           triggers \<leftarrow> checked_nth b 8;
           Some (after_add True expectedSize name
             (add_device_process_data processDataDesignator ddi presentation properties triggers uniqueID (snd (remove_object_with_id uniqueID p))))}
         else Some (False, 0, name, p))"

definition deserialize_property :: "u8 list \<Rightarrow> u64 \<Rightarrow> ddop \<Rightarrow> round option" where
  "deserialize_property b name p =
     (let (ok, nd) = length_at 11 128 b;
          expectedSize = 14 + nd
      in if expectedSize \<le> length b \<and> ok
         then do {
           v \<leftarrow> word_at 4 7 b;
           ddi \<leftarrow> word_at 2 5 b;
           uniqueID \<leftarrow> word_at 2 3 b;
           presentation \<leftarrow> word_at 2 (12 + nd) b;
           propertyDesignator \<leftarrow> bytes_at 12 nd b;
           Some (after_add True expectedSize name
             (add_device_property propertyDesignator v ddi presentation uniqueID (snd (remove_object_with_id uniqueID p))))}
         else Some (False, 0, name, p))"

definition deserialize_presentation :: "u8 list \<Rightarrow> u64 \<Rightarrow> ddop \<Rightarrow> round option" where
  "deserialize_presentation b name p =
     (let (ok, nd) = length_at 14 128 b;
          expectedSize = 15 + nd
      in if expectedSize \<le> length b \<and> ok
         then do {
           offset \<leftarrow> word_at 4 5 b;
           scale \<leftarrow> word_at 4 9 b;
           uniqueID \<leftarrow> word_at 2 3 b;
           unitDesignator \<leftarrow> bytes_at 15 nd b;
           decimals \<leftarrow> checked_nth b 13;
           Some (after_add True expectedSize name
             (add_device_value_presentation unitDesignator offset scale decimals uniqueID (snd (remove_object_with_id uniqueID p))))}
         else Some (False, 0, name, p))"

definition deserialize_object :: "u8 list \<Rightarrow> u64 \<Rightarrow> ddop \<Rightarrow> round option" where
  "deserialize_object b name p =
     (if 3 < length b
      then do {
        xmlNameSpace \<leftarrow> bytes_at 0 3 b;
        if xmlNameSpace = table_DVC then deserialize_device b name p
        else if xmlNameSpace = table_DET then deserialize_device_element b name p
        else if xmlNameSpace = table_DPD then deserialize_process_data b name p
        else if xmlNameSpace = table_DPT then deserialize_property b name p
        else if xmlNameSpace = table_DVP then deserialize_presentation b name p
        else Some (False, 0, name, p)}
      else Some (False, 0, name, p))"

text \<open>A round that succeeds advances by at least twelve bytes.\<close>

lemma rounds_advance:
  "deserialize_device b name p = Some (True, n, name', p') \<Longrightarrow> 12 \<le> n \<and> n \<le> length b"
  "deserialize_device_element b name p = Some (True, n, name', p') \<Longrightarrow> 12 \<le> n \<and> n \<le> length b"
  "deserialize_process_data b name p = Some (True, n, name', p') \<Longrightarrow> 12 \<le> n \<and> n \<le> length b"
  "deserialize_property b name p = Some (True, n, name', p') \<Longrightarrow> 12 \<le> n \<and> n \<le> length b"
  "deserialize_presentation b name p = Some (True, n, name', p') \<Longrightarrow> 12 \<le> n \<and> n \<le> length b"
  subgoal by (auto simp: deserialize_device_def Let_def bind_eq_Some_conv after_add_def split: prod.split_asm if_split_asm)
  subgoal by (auto simp: deserialize_device_element_def Let_def bind_eq_Some_conv after_add_def split: prod.split_asm if_split_asm)
  subgoal by (auto simp: deserialize_process_data_def Let_def bind_eq_Some_conv after_add_def split: prod.split_asm if_split_asm)
  subgoal by (auto simp: deserialize_property_def Let_def bind_eq_Some_conv after_add_def split: prod.split_asm if_split_asm)
  subgoal by (auto simp: deserialize_presentation_def Let_def bind_eq_Some_conv after_add_def split: prod.split_asm if_split_asm)
  done

lemma round_advances:
  assumes "deserialize_object b name p = Some (True, n, name', p')"
  shows "12 \<le> n" "n \<le> length b"
  using assms rounds_advance unfolding deserialize_object_def
  by (auto simp: bind_eq_Some_conv split: if_split_asm)

function deserialize_from :: "u8 list \<Rightarrow> u64 \<Rightarrow> ddop \<Rightarrow> (bool \<times> ddop) option" where
  "deserialize_from b name p =
     (if b = [] then Some (True, p)
      else case deserialize_object b name p of
             None \<Rightarrow> None
           | Some (ok, n, name1, p1) \<Rightarrow>
               if ok then deserialize_from (drop n b) name1 p1 else Some (False, p1))"
  by pat_completeness auto
termination
proof (relation "measure (\<lambda>(b, _). length b)", goal_cases)
  case (2 b name p x ok y n z name1 p1)
  then show ?case using round_advances [of b name p n name1 p1] by (cases b) auto
qed simp

declare deserialize_from.simps [simp del]

definition deserialize_binary_object_pool :: "u8 list \<Rightarrow> u64 \<Rightarrow> ddop \<Rightarrow> (bool \<times> ddop) option" where
  "deserialize_binary_object_pool binaryPool clientNAME p =
     (if binaryPool \<noteq> [] then deserialize_from binaryPool clientNAME p else Some (False, p))"

section \<open>Text\<close>

definition digit :: "nat \<Rightarrow> char" where
  "digit d = (if d < 10 then char_of (48 + d) else char_of (55 + d))"

fun digits :: "nat \<Rightarrow> nat \<Rightarrow> string" where
  \<comment> \<open>a number to a base above 1, upper case\<close>
  "digits base n = (if n < base \<or> base < 2 then [digit n] else digits base (n div base) @ [digit (n mod base)])"

declare digits.simps [simp del]

definition decimal :: "nat \<Rightarrow> string" where
  "decimal n = digits 10 n"

definition decimal_int :: "int \<Rightarrow> string" where
  "decimal_int i = (if i < 0 then ''-'' @ decimal (nat (- i)) else decimal (nat i))"

definition hexadecimal :: "nat \<Rightarrow> nat \<Rightarrow> string" where
  \<comment> \<open>\<open>std::uppercase << std::hex << std::setfill('0') << std::setw(w)\<close>\<close>
  "hexadecimal w n = (let s = digits 16 n in replicate (w - length s) (CHR ''0'') @ s)"

definition chars :: "u8 list \<Rightarrow> string" where
  "chars s = map (\<lambda>b. char_of (unat b)) s"

definition half_even :: "nat \<Rightarrow> nat \<Rightarrow> nat" where
  \<comment> \<open>\<open>a / b\<close>, rounded to the nearest number, a tie to the even one\<close>
  "half_even a b = (let q = a div b; r = a mod b in if 2 * r > b \<or> (2 * r = b \<and> odd q) then q + 1 else q)"

definition fixed6 :: "u32 \<Rightarrow> string" where
  \<comment> \<open>\<open>std::fixed << std::setprecision(6)\<close> of a \<open>float\<close>, from its representation\<close>
  "fixed6 w =
     (let sgn = (if bit w 31 then ''-'' else ''''); e = unat (take_bit 8 (drop_bit 23 w)); m = unat (take_bit 23 w)
      in if e = 255 then sgn @ (if m = 0 then ''inf'' else ''nan'')
         else let mant = (if e = 0 then m else m + 2 ^ 23); ex = (if e = 0 then 1 else e);
                  micro = (if 150 \<le> ex then mant * 2 ^ (ex - 150) * 10 ^ 6 else half_even (mant * 10 ^ 6) (2 ^ (150 - ex)));
                  frac = decimal (micro mod 10 ^ 6)
              in sgn @ decimal (micro div 10 ^ 6) @ ''.'' @ replicate (6 - length frac) (CHR ''0'') @ frac)"

definition line_end :: string where "line_end = [char_of (10 :: nat)]"
definition tab :: string where "tab = [char_of (9 :: nat)]"
definition quote :: string where "quote = [char_of (34 :: nat)]"

definition attribute :: "string \<Rightarrow> string \<Rightarrow> string" where
  \<comment> \<open>a blank, the name and the quoted value\<close>
  "attribute name v = '' '' @ name @ ''='' @ quote @ v @ quote"

section \<open>The ISO XML description\<close>

definition xml_device :: "DeviceObject \<Rightarrow> string option" where
  \<comment> \<open>\<open>at\<close> throws when the structure label is shorter than seven bytes\<close>
  "xml_device d =
     do {structure \<leftarrow> those (map (\<lambda>j. checked_nth (structureLabel d) (6 - j)) [0..<7]);
         localization \<leftarrow> those (map (\<lambda>j. checked_nth (localizationLabel d) (6 - j)) [0..<7]);
         Some (''<DVC'' @ attribute ''A'' (''DVC-'' @ decimal 1) @ attribute ''B'' (chars (designator d))
           @ attribute ''C'' (chars (softwareVersion d)) @ attribute ''D'' (hexadecimal 16 (unat (device_NAME d)))
           @ attribute ''E'' (chars (serialNumber d))
           @ attribute ''F'' (concat (map (\<lambda>b. hexadecimal 2 (unat b)) structure))
           @ attribute ''G'' (concat (map (\<lambda>b. hexadecimal 2 (unat b)) localization)) @ ''>'' @ line_end)}"

definition xml_element :: "nat \<Rightarrow> DeviceElementObject \<Rightarrow> string" where
  "xml_element number d =
     tab @ ''<DET'' @ attribute ''A'' (''DET-'' @ decimal number) @ attribute ''B'' (decimal (unat (objectID d)))
       @ attribute ''C'' (decimal (unat (elementType d))) @ attribute ''D'' (chars (designator d))
       @ attribute ''E'' (decimal (unat (elementNumber d))) @ attribute ''F'' (decimal (unat (parentObject d)))
       @ (if get_number_child_objects d > 0
          then ''>'' @ line_end
            @ concat (map (\<lambda>k. tab @ tab @ ''<DOR'' @ attribute ''A'' (decimal (unat (get_child_object_id k d))) @ ''/>'' @ line_end)
                [0..<unat (get_number_child_objects d)])
            @ tab @ ''</DET>'' @ line_end
          else ''/>'' @ line_end)"

fun xml_elements :: "nat \<Rightarrow> ddop_object list \<Rightarrow> string" where
  \<comment> \<open>the elements are numbered from 1 on\<close>
  "xml_elements number [] = ''''"
| "xml_elements number (DeviceElement d # objs) = xml_element number d @ xml_elements (Suc number) objs"
| "xml_elements number (obj # objs) = xml_elements number objs"

definition xml_presentation_id :: "string \<Rightarrow> u16 \<Rightarrow> string" where
  "xml_presentation_id name i = (if i \<noteq> 0xFFFF then attribute name (decimal (unat i)) else '''')"

fun xml_process_data :: "ddop_object \<Rightarrow> string" where
  "xml_process_data (DeviceProcessData d) =
     tab @ ''<DPD'' @ attribute ''A'' (decimal (unat (objectID d))) @ attribute ''B'' (hexadecimal 4 (unat (process_ddi d)))
       @ attribute ''C'' (decimal (unat (propertiesBitfield d))) @ attribute ''D'' (decimal (unat (triggerMethodsBitfield d)))
       @ attribute ''E'' (chars (designator d)) @ xml_presentation_id ''F'' (process_presentation d) @ ''/>'' @ line_end"
| "xml_process_data obj = ''''"

fun xml_property :: "ddop_object \<Rightarrow> string" where
  "xml_property (DeviceProperty d) =
     tab @ ''<DPT'' @ attribute ''A'' (decimal (unat (objectID d))) @ attribute ''B'' (hexadecimal 4 (unat (property_ddi d)))
       @ attribute ''C'' (decimal_int (sint (property_value d))) @ attribute ''D'' (chars (designator d))
       @ xml_presentation_id ''E'' (property_presentation d) @ ''/>'' @ line_end"
| "xml_property obj = ''''"

fun xml_presentation :: "ddop_object \<Rightarrow> string" where
  "xml_presentation (DeviceValuePresentation d) =
     tab @ ''<DVP'' @ attribute ''A'' (decimal (unat (objectID d))) @ attribute ''B'' (decimal_int (sint (presentation_offset d)))
       @ attribute ''C'' (fixed6 (presentation_scale d)) @ attribute ''D'' (decimal (unat (numberOfDecimals d)))
       @ attribute ''E'' (chars (designator d)) @ ''/>'' @ line_end"
| "xml_presentation obj = ''''"

definition xml_header :: string where
  "xml_header = ''<?xml'' @ attribute ''version'' ''1.0'' @ attribute ''encoding'' ''UTF-8'' @ ''?>'' @ line_end
     @ ''<ISO11783_TaskData'' @ attribute ''VersionMajor'' ''3'' @ attribute ''VersionMinor'' ''0''
     @ attribute ''DataTransferOrigin'' ''1'' @ ''>'' @ line_end"

definition xml_footer :: string where
  "xml_footer = ''</DVC>'' @ line_end @ ''</ISO11783_TaskData>'' @ line_end"

fun first_device :: "ddop_object list \<Rightarrow> DeviceObject option" where
  "first_device [] = None"
| "first_device (Device d # objs) = Some d"
| "first_device (obj # objs) = first_device objs"

definition generate_task_data_iso_xml :: "ddop \<Rightarrow> (bool \<times> string) option" where
  \<comment> \<open>the loops run over the objects that \<open>size\<close>, cast to 16 bits, counts\<close>
  "generate_task_data_iso_xml p =
     (if resolve_parent_ids_to_objects p
      then let objs = take (unat (ddop_size p)) (objectList p)
           in case first_device objs of
                None \<Rightarrow> Some (True, '''')
              | Some d \<Rightarrow> map_option (\<lambda>device. (True, xml_header @ device @ xml_elements 1 objs
                  @ concat (map xml_process_data objs) @ concat (map xml_property objs)
                  @ concat (map xml_presentation objs) @ xml_footer)) (xml_device d)
      else Some (False, ''''))"

end
