(* ===== verification/Ddop_Reading.thy ===== *)
theory Ddop_Reading
  imports Ddop
begin

text \<open>
  The reader of the device descriptor object pool: where it reads, what every operation keeps of a pool, what the
  binary form of an object reads back to, and the references of a pool as a relation between its objects.
\<close>

section \<open>Reads inside the pool\<close>

lemma those_nth: "off + n \<le> length b \<Longrightarrow> those (map (checked_nth b) [off..<off + n]) = Some (take n (drop off b))"
proof (induction n arbitrary: off)
  case (Suc n)
  have "[off..<off + Suc n] = off # [Suc off..<Suc off + n]" using upt_conv_Cons [of off "off + Suc n"] by simp
  moreover have "take (Suc n) (drop off b) = b ! off # take n (drop (Suc off) b)"
    using Suc.prems Cons_nth_drop_Suc [of off b] by (metis add_Suc_right less_add_Suc1 order_less_le_trans take_Suc_Cons)
  ultimately show ?case using Suc.IH [of "Suc off"] Suc.prems by (simp add: checked_nth_def)
qed simp

lemma bytes_at_inside: "off + n \<le> length b \<Longrightarrow> bytes_at off n b = Some (take n (drop off b))"
  by (simp add: bytes_at_def those_nth)

lemma bytes_at_none [simp]: "bytes_at off 0 b = Some []"
  by (simp add: bytes_at_def)

lemma word_at_inside: "off + n \<le> length b \<Longrightarrow> word_at n off b = Some (or_bytes LittleEndian (take n (drop off b)))"
  by (simp add: word_at_def bytes_at_inside)

lemma checked_inside: "k < length b \<Longrightarrow> checked_nth b k = Some (b ! k)"
  by (simp add: checked_nth_def)

lemma length_at_cases:
  obtains "length_at k limit b = (True, unat (b ! k))" "k < length b" "unat (b ! k) < limit"
  | "length_at k limit b = (False, 0)"
  by (cases "k < length b \<and> unat (b ! k) < limit") (auto simp: length_at_def)

lemmas inside = bytes_at_inside word_at_inside checked_inside

lemma those_words:
  assumes "\<And>i. i < n \<Longrightarrow> f i + 2 \<le> length b"
  shows "\<exists>ws. those (map (\<lambda>i. word_at 2 (f i) b) [0..<n]) = Some (ws :: u16 list)"
proof -
  have "\<exists>ws. those (map (\<lambda>i. word_at 2 (f i) b) is) = Some (ws :: u16 list)" if "set is \<subseteq> {0..<n}" for "is"
    using that assms by (induction "is") (auto simp: word_at_inside)
  then show ?thesis by simp
qed

lemma some_round: "\<exists>a b c d. x = (a, b, c, d)"
  by (cases x) auto

lemma deserialize_device_defined: "deserialize_device b name p \<noteq> None"
proof -
  obtain ok1 nd where 1: "length_at 5 128 b = (ok1, nd)" by fastforce
  obtain ok2 nv where 2: "length_at (6 + nd) 128 b = (ok2, nv)" by fastforce
  obtain ok3 ns where 3: "length_at (15 + nd + nv) 128 b = (ok3, ns)" by fastforce
  obtain ok4 ne where 4: "(if 4 \<le> taskControllerCompatibilityLevel p then length_at (30 + ns + nd + nv) 33 b else (True, 0)) = (ok4, ne)"
    by fastforce
  have "ne = 0 \<or> 31 + ns + nd + nv + ne \<le> length b"
    if "(if taskControllerCompatibilityLevel p < 4 then 30 else 31) + ns + nd + nv + ne \<le> length b"
    using that 4 by (auto split: if_splits)
  then show ?thesis
    unfolding deserialize_device_def 1 2 3 4 Let_def prod.case
    by (auto simp: inside some_round split: if_split_asm)
qed

lemma deserialize_element_defined:
  "deserialize_device_element b name p = None \<longleftrightarrow> length b < 6"
proof (cases "length b < 6")
  case True
  then show ?thesis by (simp add: deserialize_device_element_def checked_nth_def)
next
  case False
  then have 5: "checked_nth b 5 = Some (b ! 5)" by (simp add: checked_inside)
  obtain ok1 nd where 1: "(if 7 \<le> length b then map_option (\<lambda>x. (True, unat x)) (checked_nth b 6) else Some (False, 0)) = Some (ok1, nd)"
    by (cases "7 \<le> length b") (auto simp: checked_nth_def)
  obtain ok2 nc where 2: "(if 12 + nd \<le> length b then map_option (\<lambda>x. (True, unat x)) (checked_nth b (11 + nd)) else Some (False, 0)) = Some (ok2, nc)"
    by (cases "12 + nd \<le> length b") (auto simp: checked_nth_def)
  have "\<exists>ws. those (map (\<lambda>i. word_at 2 (13 + 2 * i + nd) b) [0..<nc]) = Some (ws :: u16 list)" if "13 + 2 * nc + nd \<le> length b"
    using that by (intro those_words) auto
  then have "deserialize_device_element b name p \<noteq> None"
    by (simp add: deserialize_device_element_def 1 2 5 Let_def) (auto simp: inside some_round after_add_def ex_bool_eq)
  with False show ?thesis by simp
qed

lemma deserialize_others_defined:
  "deserialize_process_data b name p \<noteq> None" "deserialize_property b name p \<noteq> None" "deserialize_presentation b name p \<noteq> None"
  subgoal by (cases rule: length_at_cases [of 9 128 b]) (auto simp: deserialize_process_data_def inside Let_def after_add_def)
  subgoal by (cases rule: length_at_cases [of 11 128 b]) (auto simp: deserialize_property_def inside Let_def after_add_def)
  subgoal by (cases rule: length_at_cases [of 14 128 b]) (auto simp: deserialize_presentation_def inside Let_def after_add_def)
  done

lemma deserialize_object_defined:
  "deserialize_object b name p = None \<longleftrightarrow> 3 < length b \<and> length b < 6 \<and> take 3 b = table_DET"
  using deserialize_device_defined deserialize_others_defined deserialize_element_defined
  by (auto simp: deserialize_object_def bytes_at_inside table_DVC_def table_DET_def table_DPD_def table_DPT_def table_DVP_def)

lemma deserialize_from_defined:
  assumes "\<And>k. k + 4 = length b \<or> k + 5 = length b \<Longrightarrow> take 3 (drop k b) \<noteq> table_DET"
  shows "\<exists>r. deserialize_from b name p = Some r"
  using assms
proof (induction b name p rule: deserialize_from.induct)
  case (1 b name p)
  show ?case
  proof (cases "b = []")
    case False
    have "deserialize_object b name p \<noteq> None"
      using "1.prems" [of 0] by (cases "length b = 4 \<or> length b = 5") (auto simp: deserialize_object_defined)
    then obtain ok n name1 p1 where o: "deserialize_object b name p = Some (ok, n, name1, p1)" by auto
    show ?thesis
    proof (cases ok)
      case True
      have "take 3 (drop k (drop n b)) \<noteq> table_DET" if "k + 4 = length (drop n b) \<or> k + 5 = length (drop n b)" for k
      proof -
        have "(k + n) + 4 = length b \<or> (k + n) + 5 = length b"
          using that round_advances [of b name p n name1 p1] o True by (simp, linarith)
        with "1.prems" [of "k + n"] show ?thesis by (simp add: add.commute)
      qed
      with "1.IH" [OF False o refl refl refl True] o True False show ?thesis
        by (simp add: deserialize_from.simps [of b])
    qed (use o False in \<open>simp add: deserialize_from.simps [of b] ex_bool_eq\<close>)
  qed (simp add: deserialize_from.simps ex_bool_eq)
qed

section \<open>The objects of a pool\<close>

definition limited :: "ddop_object \<Rightarrow> bool" where
  \<comment> \<open>the sizes that the functions that add objects enforce\<close>
  "limited obj \<longleftrightarrow> length (get_designator obj) \<le> 128 \<and>
     (case obj of Device d \<Rightarrow> length (serialNumber d) \<le> 128 \<and> length (structureLabel d) \<le> 7
                            \<and> length (extendedStructureLabel d) \<le> 32 | _ \<Rightarrow> True)"

definition identified :: "ddop_object \<Rightarrow> bool" where
  "identified obj \<longleftrightarrow> (if get_object_type obj = TypeDevice then get_object_id obj = 0
     else get_object_id obj \<noteq> 0 \<and> get_object_id obj \<noteq> 0xFFFF)"

definition ddop_ok :: "ddop \<Rightarrow> bool" where
  "ddop_ok p \<longleftrightarrow> taskControllerCompatibilityLevel p \<le> 4 \<and> distinct (map get_object_id (objectList p))
     \<and> (\<forall>obj \<in> set (objectList p). identified obj \<and> limited obj)"

lemma truncated_limit: "level \<le> 4 \<Longrightarrow> length (truncated level s) \<le> 128"
  by (auto simp: truncated_def)

lemma add_object_ok:
  assumes "ddop_ok p" "check_object_id_unique (get_object_id obj) p" "get_object_type obj \<noteq> TypeDevice" "limited obj"
  shows "ddop_ok (add_object obj p)"
  using assms by (auto simp: ddop_ok_def add_object_def check_object_id_unique_def identified_def)

lemma add_device_ok:
  assumes "ddop_ok p"
  shows "ddop_ok (snd (add_device a b c d e f g p))"
proof (cases "\<exists>obj \<in> set (objectList p). get_object_type obj = TypeDevice")
  case False
  then have "get_object_id obj \<noteq> 0" if "obj \<in> set (objectList p)" for obj
    using that assms by (auto simp: ddop_ok_def identified_def)
  then show ?thesis
    using assms False truncated_limit
    by (auto simp: add_device_def ddop_ok_def add_object_def identified_def limited_def Let_def)
qed (use assms in \<open>simp add: add_device_def\<close>)

lemma adds_ok:
  assumes "ddop_ok p"
  shows "ddop_ok (snd (add_device_element a b c d i p))" "ddop_ok (snd (add_device_process_data a b c d' e i p))"
    "ddop_ok (snd (add_device_property a v b c i p))" "ddop_ok (snd (add_device_value_presentation a v w d i p))"
proof -
  have level: "taskControllerCompatibilityLevel p \<le> 4" using assms by (simp add: ddop_ok_def)
  show "ddop_ok (snd (add_device_element a b c d i p))" "ddop_ok (snd (add_device_process_data a b c d' e i p))"
    "ddop_ok (snd (add_device_property a v b c i p))" "ddop_ok (snd (add_device_value_presentation a v w d i p))"
    using assms truncated_limit [OF level]
    by (auto simp: add_device_element_def add_device_process_data_def add_device_property_def
        add_device_value_presentation_def limited_def intro!: add_object_ok)
qed

lemma filter_ok: "ddop_ok p \<Longrightarrow> ddop_ok (p\<lparr>objectList := filter P (objectList p)\<rparr>)"
  by (auto simp: ddop_ok_def distinct_map intro: inj_on_subset)

lemma remove_ok:
  assumes "ddop_ok p"
  shows "ddop_ok (snd (remove_objects_with_type t p))" "ddop_ok (snd (remove_object_with_id i p))"
  using filter_ok [OF assms] by (simp_all add: remove_objects_with_type_def remove_object_with_id_def remove_where_def)

lemma erase_first_sublist:
  "distinct (map f xs) \<Longrightarrow> distinct (map f (snd (erase_first P xs))) \<and> set (snd (erase_first P xs)) \<subseteq> set xs"
  by (induction xs) (auto simp: case_prod_beta)

lemma remove_by_id_ok: "ddop_ok p \<Longrightarrow> ddop_ok (snd (remove_object_by_id i p))"
  using erase_first_sublist [of get_object_id "objectList p" "\<lambda>obj. get_object_id obj = i"]
  by (auto simp: ddop_ok_def remove_object_by_id_def case_prod_beta)

lemma modify_first_same:
  assumes "\<And>x. P x \<Longrightarrow> x \<in> set xs \<Longrightarrow> g (f x) = g x"
  shows "map g (modify_first P f xs) = map g xs"
  using assms by (induction xs) auto

lemma set_modify_first: "y \<in> set (modify_first P f xs) \<Longrightarrow> y \<in> set xs \<or> (\<exists>x \<in> set xs. P x \<and> y = f x)"
  by (induction xs) (auto split: if_splits)

lemma modify_ok:
  assumes "ddop_ok p" "\<And>x. P x \<Longrightarrow> x \<in> set (objectList p) \<Longrightarrow> get_object_id (f x) = get_object_id x
     \<and> get_object_type (f x) = get_object_type x \<and> (limited x \<longrightarrow> limited (f x))"
  shows "ddop_ok (p\<lparr>objectList := modify_first P f (objectList p)\<rparr>)"
proof -
  have "map get_object_id (modify_first P f (objectList p)) = map get_object_id (objectList p)"
    by (rule modify_first_same) (use assms(2) in blast)
  moreover have "identified y \<and> limited y" if "y \<in> set (modify_first P f (objectList p))" for y
    using set_modify_first [OF that] assms by (auto simp: ddop_ok_def identified_def)
  ultimately show ?thesis using assms(1) by (simp add: ddop_ok_def)
qed

lemma fold_children [simp]:
  "objectID (fold add_reference_to_child_object cs d) = objectID d"
  "designator (fold add_reference_to_child_object cs d) = designator d"
  "elementNumber (fold add_reference_to_child_object cs d) = elementNumber d"
  "parentObject (fold add_reference_to_child_object cs d) = parentObject d"
  "elementType (fold add_reference_to_child_object cs d) = elementType d"
  "referenceList (fold add_reference_to_child_object cs d) = referenceList d @ cs"
  by (induction cs arbitrary: d) (simp_all add: add_reference_to_child_object_def)

lemma add_references_ok: "ddop_ok p \<Longrightarrow> ddop_ok (add_references i cs p)"
  unfolding add_references_def by (rule modify_ok) (auto simp: limited_def split: ddop_object.splits)

lemma set_level_ok:
  assumes "ddop_ok p" "v \<le> 4"
  shows "\<exists>q. set_task_controller_compatibility_level v p = Some q \<and> ddop_ok q"
proof (cases "get_object_by_id 0 p")
  case None
  then show ?thesis using assms by (simp add: set_task_controller_compatibility_level_def Let_def get_object_by_id_def ddop_ok_def)
next
  case (Some obj)
  then have obj: "obj \<in> set (objectList p)" "get_object_id obj = 0"
    by (auto simp: get_object_by_id_def find_Some_iff)
  with assms(1) have "get_object_type obj = TypeDevice" by (auto simp: ddop_ok_def identified_def split: if_split_asm)
  then obtain d where d: "obj = Device d" by (cases obj) auto
  have same: "x = obj" if "x \<in> set (objectList p)" "get_object_id x = 0" for x
    using that obj assms(1) by (metis ddop_ok_def distinct_map inj_onD)
  have lim: "limited obj" using assms(1) obj(1) by (auto simp: ddop_ok_def)
  have "ddop_ok (p\<lparr>objectList := modify_first (\<lambda>obj. get_object_id obj = 0)
      (\<lambda>_. Device (d\<lparr>useExtendedStructureLabel := 4 \<le> v\<rparr>)) (objectList p)\<rparr>)"
  proof (rule modify_ok [OF assms(1)], goal_cases)
    case (1 x)
    then have "x = obj" using same by blast
    then show ?case using obj(2) lim by (simp add: d limited_def)
  qed
  then show ?thesis
    using Some assms(2) by (simp add: set_task_controller_compatibility_level_def Let_def get_object_by_id_def d ddop_ok_def)
qed

lemma after_add_ok: "ddop_ok (snd r) \<Longrightarrow> ddop_ok (snd (snd (snd (after_add ok n name r))))"
  by (simp add: after_add_def)

lemma round_ok:
  assumes "deserialize_object b name p = Some r" "ddop_ok p"
  shows "ddop_ok (snd (snd (snd r)))"
proof -
  note ok = after_add_ok add_device_ok adds_ok remove_ok add_references_ok assms(2)
  have "deserialize_device b name p = Some r \<Longrightarrow> ?thesis"
    by (auto simp: deserialize_device_def bind_eq_Some_conv Let_def split: prod.split_asm if_split_asm intro!: ok)
  moreover have "deserialize_device_element b name p = Some r \<Longrightarrow> ?thesis"
    by (auto simp: deserialize_device_element_def bind_eq_Some_conv Let_def split: prod.split_asm if_split_asm intro!: ok)
  moreover have "deserialize_process_data b name p = Some r \<Longrightarrow> ?thesis"
    by (auto simp: deserialize_process_data_def bind_eq_Some_conv Let_def split: prod.split_asm if_split_asm intro!: ok)
  moreover have "deserialize_property b name p = Some r \<Longrightarrow> ?thesis"
    by (auto simp: deserialize_property_def bind_eq_Some_conv Let_def split: prod.split_asm if_split_asm intro!: ok)
  moreover have "deserialize_presentation b name p = Some r \<Longrightarrow> ?thesis"
    by (auto simp: deserialize_presentation_def bind_eq_Some_conv Let_def split: prod.split_asm if_split_asm intro!: ok)
  ultimately show ?thesis
    using assms by (auto simp: deserialize_object_def bind_eq_Some_conv split: if_split_asm)
qed

lemma deserialize_from_ok:
  assumes "deserialize_from b name p = Some r" "ddop_ok p"
  shows "ddop_ok (snd r)"
  using assms
proof (induction b name p rule: deserialize_from.induct)
  case (1 b name p)
  show ?case
  proof (cases "b = []")
    case False
    obtain ok n name1 p1 where o: "deserialize_object b name p = Some (ok, n, name1, p1)"
      using "1.prems"(1) False by (auto simp: deserialize_from.simps [of b] split: option.splits)
    have p1: "ddop_ok p1" using round_ok [OF o "1.prems"(2)] by simp
    show ?thesis
      using "1.IH" [OF False o refl refl refl] "1.prems" o False p1
      by (cases ok) (auto simp: deserialize_from.simps [of b])
  qed (use 1 in \<open>auto simp: deserialize_from.simps\<close>)
qed

section \<open>Reading what was written\<close>

text \<open>An object whose sizes fit the bytes that carry them (the reader takes the lengths of names below 128, but for the
  name of an element), with an extended label exactly when the version has one.\<close>

fun fits :: "u8 \<Rightarrow> ddop_object \<Rightarrow> bool" where
  "fits level (Device d) \<longleftrightarrow> length (designator d) < 128 \<and> length (softwareVersion d) < 128
     \<and> length (serialNumber d) < 128 \<and> length (structureLabel d) \<le> 7
     \<and> length (localizationLabel d) = 7 \<and> length (extendedStructureLabel d) \<le> 32
     \<and> (useExtendedStructureLabel d \<longleftrightarrow> 4 \<le> level)"
| "fits level (DeviceElement d) \<longleftrightarrow> length (designator d) < 256 \<and> length (referenceList d) < 256 \<and> elementType d \<le> 7"
| "fits level obj \<longleftrightarrow> length (get_designator obj) < 128"

fun as_read :: "u8 \<Rightarrow> ddop_object \<Rightarrow> ddop_object" where
  \<comment> \<open>designators are cut as for a new object, the structure label is filled with blanks, and an unused extended
    label is not written\<close>
  "as_read level (Device d) = Device (d\<lparr>designator := truncated level (designator d), serialNumber := truncated level (serialNumber d),
     structureLabel := padded (structureLabel d),
     extendedStructureLabel := (if useExtendedStructureLabel d then extendedStructureLabel d else [])\<rparr>)"
| "as_read level (DeviceElement d) = DeviceElement (d\<lparr>designator := truncated level (designator d)\<rparr>)"
| "as_read level (DeviceProcessData d) = DeviceProcessData (d\<lparr>designator := truncated level (designator d)\<rparr>)"
| "as_read level (DeviceProperty d) = DeviceProperty (d\<lparr>designator := truncated level (designator d)\<rparr>)"
| "as_read level (DeviceValuePresentation d) = DeviceValuePresentation (d\<lparr>designator := truncated level (designator d)\<rparr>)"

lemma as_read_same [simp]: "get_object_id (as_read level obj) = get_object_id obj" "get_object_type (as_read level obj) = get_object_type obj"
  by (cases obj; simp)+

lemma length_padded [simp]: "length (padded s) = 7"
  by (simp add: padded_def)

lemma padded_full: "length s = 7 \<Longrightarrow> padded s = s"
  by (intro nth_equalityI) (simp_all add: padded_def)

lemma length_counted [simp]: "length (counted s) = Suc (length s)"
  by (simp add: counted_def)

text \<open>Reading the parts of a list of bytes.\<close>

lemma nth_part: "k = length xs \<Longrightarrow> (xs @ y # ys) ! k = y"
  by simp

lemma bytes_at_part: "off = length xs \<Longrightarrow> n = length ys \<Longrightarrow> bytes_at off n (xs @ ys @ zs) = Some ys"
  by (simp add: bytes_at_inside)

lemma word_at_part:
  "off = length xs \<Longrightarrow> 8 * n \<ge> LENGTH('a) \<Longrightarrow> word_at n off (xs @ le_bytes n w @ zs) = Some (w :: 'a::len word)"
  by (simp add: word_at_def bytes_at_part or_little_le_bytes)

lemma length_at_part:
  assumes "k = length xs" "length s < limit" "length s < 256"
  shows "length_at k limit (xs @ counted s @ zs) = (True, length s)"
  using assms by (simp add: length_at_def counted_def unat_of_nat_u8)

lemma checked_part: "k = length xs \<Longrightarrow> checked_nth (xs @ y # ys) k = Some y"
  by (simp add: checked_nth_def)

lemma check_unique_removed:
  assumes "i \<noteq> 0" "i \<noteq> 0xFFFF"
  shows "check_object_id_unique i (snd (remove_object_with_id i p))"
  using assms by (simp add: check_object_id_unique_def remove_object_with_id_def remove_where_def)

lemma nothing_removed:
  "(\<forall>obj \<in> set (objectList p). get_object_id obj \<noteq> i) \<Longrightarrow> snd (remove_object_with_id i p) = p"
  "(\<forall>obj \<in> set (objectList p). get_object_type obj \<noteq> t) \<Longrightarrow> snd (remove_objects_with_type t p) = p"
  by (simp_all add: remove_object_with_id_def remove_objects_with_type_def remove_where_def)

lemma namespace:
  "bytes_at 0 3 (table_DVC @ zs) = Some table_DVC" "bytes_at 0 3 (table_DET @ zs) = Some table_DET"
  "bytes_at 0 3 (table_DPD @ zs) = Some table_DPD" "bytes_at 0 3 (table_DPT @ zs) = Some table_DPT"
  "bytes_at 0 3 (table_DVP @ zs) = Some table_DVP"
  by (simp_all add: bytes_at_inside table_DVC_def table_DET_def table_DPD_def table_DPT_def table_DVP_def)

lemma table_lengths [simp]:
  "length table_DVC = 3" "length table_DET = 3" "length table_DPD = 3" "length table_DPT = 3" "length table_DVP = 3"
  by (simp_all add: table_DVC_def table_DET_def table_DPD_def table_DPT_def table_DVP_def)

lemma tables_differ:
  "table_DET \<noteq> table_DVC" "table_DPD \<noteq> table_DVC" "table_DPT \<noteq> table_DVC" "table_DVP \<noteq> table_DVC"
  "table_DPD \<noteq> table_DET" "table_DPT \<noteq> table_DET" "table_DVP \<noteq> table_DET"
  "table_DPT \<noteq> table_DPD" "table_DVP \<noteq> table_DPD" "table_DVP \<noteq> table_DPT"
  by (simp_all add: table_DVC_def table_DET_def table_DPD_def table_DPT_def table_DVP_def)

lemma same_records:
  "\<lparr>designator = x, objectID = objectID d1, process_ddi = process_ddi d1,
     process_presentation = process_presentation d1, propertiesBitfield = propertiesBitfield d1,
     triggerMethodsBitfield = triggerMethodsBitfield d1\<rparr> = d1\<lparr>designator := x\<rparr>"
  "\<lparr>designator = x, objectID = objectID d2, property_value = property_value d2, property_ddi = property_ddi d2,
     property_presentation = property_presentation d2\<rparr> = d2\<lparr>designator := x\<rparr>"
  "\<lparr>designator = x, objectID = objectID d3, presentation_offset = presentation_offset d3,
     presentation_scale = presentation_scale d3, numberOfDecimals = numberOfDecimals d3\<rparr> = d3\<lparr>designator := x\<rparr>"
  by simp_all

lemma process_data_read:
  assumes "fits (taskControllerCompatibilityLevel p) (DeviceProcessData d)" "objectID d \<noteq> 0" "objectID d \<noteq> 0xFFFF"
    "\<forall>obj \<in> set (objectList p). get_object_id obj \<noteq> objectID d"
  shows "deserialize_process_data (process_data_binary d @ rest) name p
     = Some (True, length (process_data_binary d), name, add_object (as_read (taskControllerCompatibilityLevel p) (DeviceProcessData d)) p)"
proof -
  let ?b = "process_data_binary d @ rest"
  have l: "length (designator d) < 128" using assms(1) by simp
  have len: "length (process_data_binary d) = 12 + length (designator d)" by (simp add: process_data_binary_def)
  have "length_at 9 128 ?b = (True, length (designator d))"
    using length_at_part [of 9 "table_DPD @ le_bytes 2 (objectID d) @ le_bytes 2 (process_ddi d) @ [propertiesBitfield d, triggerMethodsBitfield d]"
        "designator d" 128] l by (simp add: process_data_binary_def)
  moreover have "word_at 2 3 ?b = Some (objectID d)"
    using word_at_part [of 3 table_DPD 2 "objectID d"] by (simp add: process_data_binary_def)
  moreover have "word_at 2 5 ?b = Some (process_ddi d)"
    using word_at_part [of 5 "table_DPD @ le_bytes 2 (objectID d)" 2 "process_ddi d"] by (simp add: process_data_binary_def)
  moreover have "word_at 2 (10 + length (designator d)) ?b = Some (process_presentation d)"
    using word_at_part [of "10 + length (designator d)" "table_DPD @ le_bytes 2 (objectID d) @ le_bytes 2 (process_ddi d) @
        [propertiesBitfield d, triggerMethodsBitfield d] @ counted (designator d)" 2 "process_presentation d"]
    by (simp add: process_data_binary_def)
  moreover have "bytes_at 10 (length (designator d)) ?b = Some (designator d)"
    using bytes_at_part [of 10 "table_DPD @ le_bytes 2 (objectID d) @ le_bytes 2 (process_ddi d) @
        [propertiesBitfield d, triggerMethodsBitfield d, of_nat (length (designator d))]" "length (designator d)" "designator d"]
    by (simp add: process_data_binary_def counted_def)
  moreover have "checked_nth ?b 7 = Some (propertiesBitfield d)" "checked_nth ?b 8 = Some (triggerMethodsBitfield d)"
    using checked_part [of 7 "table_DPD @ le_bytes 2 (objectID d) @ le_bytes 2 (process_ddi d)" "propertiesBitfield d"]
      checked_part [of 8 "table_DPD @ le_bytes 2 (objectID d) @ le_bytes 2 (process_ddi d) @ [propertiesBitfield d]" "triggerMethodsBitfield d"]
    by (simp_all add: process_data_binary_def)
  moreover have "check_object_id_unique (objectID d) p" using assms(2-4) by (simp add: check_object_id_unique_def)
  ultimately show ?thesis
    using assms(4) by (simp add: deserialize_process_data_def Let_def len nothing_removed add_device_process_data_def after_add_def same_records)
qed


lemma property_read:
  assumes "fits (taskControllerCompatibilityLevel p) (DeviceProperty d)" "objectID d \<noteq> 0" "objectID d \<noteq> 0xFFFF"
    "\<forall>obj \<in> set (objectList p). get_object_id obj \<noteq> objectID d"
  shows "deserialize_property (property_binary d @ rest) name p
     = Some (True, length (property_binary d), name, add_object (as_read (taskControllerCompatibilityLevel p) (DeviceProperty d)) p)"
proof -
  let ?b = "property_binary d @ rest"
  have l: "length (designator d) < 128" using assms(1) by simp
  have len: "length (property_binary d) = 14 + length (designator d)" by (simp add: property_binary_def)
  let ?h = "table_DPT @ le_bytes 2 (objectID d) @ le_bytes 2 (property_ddi d)"
  have "length_at 11 128 ?b = (True, length (designator d))"
    using length_at_part [of 11 "?h @ le_bytes 4 (property_value d)" "designator d" 128] l by (simp add: property_binary_def)
  moreover have "word_at 2 3 ?b = Some (objectID d)" "word_at 2 5 ?b = Some (property_ddi d)" "word_at 4 7 ?b = Some (property_value d)"
    using word_at_part [of 3 table_DPT 2 "objectID d"] word_at_part [of 5 "table_DPT @ le_bytes 2 (objectID d)" 2 "property_ddi d"]
      word_at_part [of 7 ?h 4 "property_value d"] by (simp_all add: property_binary_def)
  moreover have "word_at 2 (12 + length (designator d)) ?b = Some (property_presentation d)"
    using word_at_part [of "12 + length (designator d)" "?h @ le_bytes 4 (property_value d) @ counted (designator d)" 2 "property_presentation d"]
    by (simp add: property_binary_def)
  moreover have "bytes_at 12 (length (designator d)) ?b = Some (designator d)"
    using bytes_at_part [of 12 "?h @ le_bytes 4 (property_value d) @ [of_nat (length (designator d))]" "length (designator d)" "designator d"]
    by (simp add: property_binary_def counted_def)
  moreover have "check_object_id_unique (objectID d) p" using assms(2-4) by (simp add: check_object_id_unique_def)
  ultimately show ?thesis
    using assms(4) by (simp add: deserialize_property_def Let_def len nothing_removed add_device_property_def after_add_def same_records)
qed

lemma presentation_read:
  assumes "fits (taskControllerCompatibilityLevel p) (DeviceValuePresentation d)" "objectID d \<noteq> 0" "objectID d \<noteq> 0xFFFF"
    "\<forall>obj \<in> set (objectList p). get_object_id obj \<noteq> objectID d"
  shows "deserialize_presentation (presentation_binary d @ rest) name p
     = Some (True, length (presentation_binary d), name, add_object (as_read (taskControllerCompatibilityLevel p) (DeviceValuePresentation d)) p)"
proof -
  let ?b = "presentation_binary d @ rest"
  have l: "length (designator d) < 128" using assms(1) by simp
  have len: "length (presentation_binary d) = 15 + length (designator d)" by (simp add: presentation_binary_def)
  let ?h = "table_DVP @ le_bytes 2 (objectID d) @ le_bytes 4 (presentation_offset d)"
  have "length_at 14 128 ?b = (True, length (designator d))"
    using length_at_part [of 14 "?h @ le_bytes 4 (presentation_scale d) @ [numberOfDecimals d]" "designator d" 128] l
    by (simp add: presentation_binary_def)
  moreover have "word_at 2 3 ?b = Some (objectID d)" "word_at 4 5 ?b = Some (presentation_offset d)"
    "word_at 4 9 ?b = Some (presentation_scale d)"
    using word_at_part [of 3 table_DVP 2 "objectID d"] word_at_part [of 5 "table_DVP @ le_bytes 2 (objectID d)" 4 "presentation_offset d"]
      word_at_part [of 9 ?h 4 "presentation_scale d"] by (simp_all add: presentation_binary_def)
  moreover have "bytes_at 15 (length (designator d)) ?b = Some (designator d)"
    using bytes_at_part [of 15 "?h @ le_bytes 4 (presentation_scale d) @ [numberOfDecimals d, of_nat (length (designator d))]"
        "length (designator d)" "designator d"]
    by (simp add: presentation_binary_def counted_def)
  moreover have "checked_nth ?b 13 = Some (numberOfDecimals d)"
    using checked_part [of 13 "?h @ le_bytes 4 (presentation_scale d)" "numberOfDecimals d"] by (simp add: presentation_binary_def)
  moreover have "check_object_id_unique (objectID d) p" using assms(2-4) by (simp add: check_object_id_unique_def)
  ultimately show ?thesis
    using assms(4) by (simp add: deserialize_presentation_def Let_def len nothing_removed add_device_value_presentation_def
        after_add_def same_records)
qed

text \<open>The children of an element.\<close>

lemma children_read:
  assumes "off = length xs"
  shows "those (map (\<lambda>i. word_at 2 (off + 2 * i) (xs @ concat (map (le_bytes 2) ws) @ zs)) [0..<length ws]) = Some (ws :: u16 list)"
  using assms
proof (induction ws arbitrary: xs off)
  case (Cons w ws)
  have 1: "map (\<lambda>i. word_at 2 (off + 2 * i) (xs @ concat (map (le_bytes 2) (w # ws)) @ zs)) [0..<length (w # ws)]
    = word_at 2 off (xs @ le_bytes 2 w @ concat (map (le_bytes 2) ws) @ zs) #
      map (\<lambda>i. word_at 2 ((off + 2) + 2 * i) ((xs @ le_bytes 2 w) @ concat (map (le_bytes 2) ws) @ zs)) [0..<length ws]"
    by (simp add: upt_conv_Cons map_Suc_upt [symmetric] o_def del: upt_Suc)
  have 2: "word_at 2 off (xs @ le_bytes 2 w @ concat (map (le_bytes 2) ws) @ zs) = Some w"
    using Cons.prems by (intro word_at_part) simp_all
  have 3: "those (map (\<lambda>i. word_at 2 ((off + 2) + 2 * i) ((xs @ le_bytes 2 w) @ concat (map (le_bytes 2) ws) @ zs)) [0..<length ws]) = Some ws"
    using Cons.prems by (intro Cons.IH) simp
  show ?case unfolding 1 using 2 3 by simp
qed simp

lemma modify_last:
  assumes "\<forall>x \<in> set xs. \<not> P x" "P y"
  shows "modify_first P f (xs @ [y]) = xs @ [f y]"
  using assms by (induction xs) auto

lemma device_element_read:
  assumes "fits (taskControllerCompatibilityLevel p) (DeviceElement d)" "objectID d \<noteq> 0" "objectID d \<noteq> 0xFFFF"
    "\<forall>obj \<in> set (objectList p). get_object_id obj \<noteq> objectID d"
  shows "deserialize_device_element (device_element_binary d @ rest) name p
     = Some (True, length (device_element_binary d), name, add_object (as_read (taskControllerCompatibilityLevel p) (DeviceElement d)) p)"
proof -
  let ?b = "device_element_binary d @ rest"
  let ?n = "length (designator d)" and ?c = "length (referenceList d)"
  have l: "?n < 256" "?c < 256" "elementType d \<le> 7"
    using assms(1) by simp_all
  have u: "unat (of_nat ?c :: u16) = ?c" using l(2) by (simp add: unat_of_nat_u16)
  have c: "le_bytes 2 (of_nat ?c :: u16) = [of_nat ?c, 0]"
    using l(2) by (simp add: le_bytes_def byte_of_def upt_rec word_unat_eq_iff unat_narrow_u8 unat_of_nat_u16 unat_of_nat_u8 unat_drop_bit_eq drop_bit_eq_div unat_div)
  let ?h = "table_DET @ le_bytes 2 (objectID d)"
  let ?g = "?h @ [elementType d] @ counted (designator d)"
  have bin: "device_element_binary d = ?g @ le_bytes 2 (elementNumber d) @ le_bytes 2 (parentObject d) @ [of_nat ?c, 0]
      @ concat (map (le_bytes 2) (referenceList d))"
    by (simp add: device_element_binary_def Let_def u c)
  have len: "length (device_element_binary d) = 13 + 2 * ?c + ?n"
    by (simp add: bin length_concat o_def sum_list_triv)
  have "checked_nth ?b 6 = Some (of_nat ?n)" "checked_nth ?b 5 = Some (elementType d)"
    using checked_part [of 6 "?h @ [elementType d]" "of_nat ?n"] checked_part [of 5 ?h "elementType d"] by (simp_all add: bin counted_def)
  moreover have "checked_nth ?b (11 + ?n) = Some (of_nat ?c)"
    using checked_part [of "11 + ?n" "?g @ le_bytes 2 (elementNumber d) @ le_bytes 2 (parentObject d)" "of_nat ?c"] by (simp add: bin)
  moreover have "word_at 2 3 ?b = Some (objectID d)" "word_at 2 (7 + ?n) ?b = Some (elementNumber d)" "word_at 2 (9 + ?n) ?b = Some (parentObject d)"
    using word_at_part [of 3 table_DET 2 "objectID d"] word_at_part [of "7 + ?n" ?g 2 "elementNumber d"]
      word_at_part [of "9 + ?n" "?g @ le_bytes 2 (elementNumber d)" 2 "parentObject d"] by (simp_all add: bin)
  moreover have "bytes_at 7 ?n ?b = Some (designator d)"
    using bytes_at_part [of 7 "?h @ [elementType d, of_nat ?n]" ?n "designator d"] by (simp add: bin counted_def)
  moreover have "those (map (\<lambda>i. word_at 2 (13 + 2 * i + ?n) ?b) [0..<?c]) = Some (referenceList d)"
    using children_read [of "13 + ?n" "?g @ le_bytes 2 (elementNumber d) @ le_bytes 2 (parentObject d) @ [of_nat ?c, 0]" "referenceList d" rest]
    by (simp add: bin ac_simps)
  moreover have "unat (of_nat ?n :: u8) = ?n" "unat (of_nat ?c :: u8) = ?c" using l(1,2) by (simp_all add: unat_of_nat_u8)
  moreover have "check_object_id_unique (objectID d) p" using assms(2-4) by (simp add: check_object_id_unique_def)
  moreover have "fold add_reference_to_child_object cs (d\<lparr>designator := x, referenceList := []\<rparr>) = d\<lparr>designator := x, referenceList := cs\<rparr>" for cs x
    using fold_children [of cs "d\<lparr>designator := x, referenceList := []\<rparr>"] by simp
  ultimately show ?thesis
    using assms(4) l(3)
    by (simp add: deserialize_device_element_def Let_def len nothing_removed add_device_element_def after_add_def
        add_references_def add_object_def modify_last)
qed

lemma device_read:
  assumes "fits (taskControllerCompatibilityLevel p) (Device d)" "objectID d = 0" "name = 0 \<or> name = device_NAME d"
    "\<forall>obj \<in> set (objectList p). get_object_type obj \<noteq> TypeDevice"
  shows "deserialize_device (device_binary d @ rest) name p
     = Some (True, length (device_binary d), device_NAME d, add_object (as_read (taskControllerCompatibilityLevel p) (Device d)) p)"
proof -
  let ?b = "device_binary d @ rest"
  let ?level = "taskControllerCompatibilityLevel p"
  let ?nd = "length (designator d)" and ?nv = "length (softwareVersion d)" and ?ns = "length (serialNumber d)"
  let ?e = "if useExtendedStructureLabel d then extendedStructureLabel d else []"
  have l: "?nd < 128" "?nv < 128" "?ns < 128" "length (structureLabel d) \<le> 7" "length (localizationLabel d) = 7"
    "length (extendedStructureLabel d) < 33" "useExtendedStructureLabel d = (4 \<le> ?level)"
    using assms(1) by auto
  have pad: "padded (localizationLabel d) = localizationLabel d" by (rule padded_full) (rule l(5))
  let ?g1 = "table_DVC @ le_bytes 2 (objectID d)"
  let ?g2 = "?g1 @ counted (designator d)"
  let ?g3 = "?g2 @ counted (softwareVersion d)"
  let ?g4 = "?g3 @ le_bytes 8 (device_NAME d)"
  let ?g5 = "?g4 @ counted (serialNumber d)"
  let ?g6 = "?g5 @ padded (structureLabel d)"
  let ?g7 = "?g6 @ localizationLabel d"
  have bin: "device_binary d = ?g7 @ (if useExtendedStructureLabel d then counted (extendedStructureLabel d) else [])"
    by (simp add: device_binary_def pad)
  have len: "length (device_binary d) = (if ?level < 4 then 30 else 31) + ?ns + ?nd + ?nv + length ?e"
    using l(7) by (simp add: bin l(5) not_less)
  have n: "length_at 5 128 ?b = (True, ?nd)" "length_at (6 + ?nd) 128 ?b = (True, ?nv)" "length_at (15 + ?nd + ?nv) 128 ?b = (True, ?ns)"
    using length_at_part [of 5 ?g1 "designator d" 128] length_at_part [of "6 + ?nd" ?g2 "softwareVersion d" 128]
      length_at_part [of "15 + ?nd + ?nv" ?g4 "serialNumber d" 128] l by (simp_all add: bin)
  have if4: "(if 4 \<le> ?level then length_at (30 + ?ns + ?nd + ?nv) 33 ?b else (True, 0)) = (True, length ?e)"
    using length_at_part [of "30 + ?ns + ?nd + ?nv" ?g7 "extendedStructureLabel d" 33] l by (simp add: bin)
  have parts: "bytes_at 6 ?nd ?b = Some (designator d)" "bytes_at (7 + ?nd) ?nv ?b = Some (softwareVersion d)"
    "bytes_at (16 + ?nd + ?nv) ?ns ?b = Some (serialNumber d)"
    using bytes_at_part [of 6 "?g1 @ [of_nat ?nd]" ?nd "designator d"] bytes_at_part [of "7 + ?nd" "?g2 @ [of_nat ?nv]" ?nv "softwareVersion d"]
      bytes_at_part [of "16 + ?nd + ?nv" "?g4 @ [of_nat ?ns]" ?ns "serialNumber d"] by (simp_all add: bin counted_def)
  have nm: "word_at 8 (7 + ?nd + ?nv) ?b = Some (device_NAME d)"
    using word_at_part [of "7 + ?nd + ?nv" ?g3 8 "device_NAME d"] by (simp add: bin)
  have lab1: "bytes_at (16 + ?ns + ?nd + ?nv) 7 ?b = Some (padded (structureLabel d))"
    using bytes_at_part [OF _ length_padded [symmetric], of "16 + ?ns + ?nd + ?nv" ?g5] by (simp add: bin)
  have lab2: "bytes_at (23 + ?ns + ?nd + ?nv) 7 ?b = Some (localizationLabel d)"
    using bytes_at_part [OF _ l(5) [symmetric], of "23 + ?ns + ?nd + ?nv" ?g6] by (simp add: bin)
  have ext: "bytes_at (31 + ?ns + ?nd + ?nv) (length ?e) ?b = Some ?e"
    using bytes_at_part [of "31 + ?ns + ?nd + ?nv" "?g7 @ [of_nat (length (extendedStructureLabel d))]" "length (extendedStructureLabel d)"
        "extendedStructureLabel d"] l(5) by (simp add: bin counted_def)
  have e: "as_read (taskControllerCompatibilityLevel p) (Device d) = Device \<lparr>designator = truncated ?level (designator d), objectID = 0,
      serialNumber = truncated ?level (serialNumber d),
      softwareVersion = softwareVersion d, structureLabel = padded (structureLabel d), localizationLabel = localizationLabel d,
      extendedStructureLabel = ?e, device_NAME = device_NAME d, useExtendedStructureLabel = 4 \<le> ?level\<rparr>"
    using assms(2) l(7) by (cases d) simp
  have added: "add_device (designator d) (softwareVersion d) (serialNumber d) (padded (structureLabel d)) (localizationLabel d) ?e
      (device_NAME d) p = (True, add_object (as_read (taskControllerCompatibilityLevel p) (Device d)) p)"
    unfolding e using assms(4) l(6) by (auto simp: add_device_def Let_def)
  have name: "(if name = 0 then device_NAME d else name) = device_NAME d" "\<not> (name \<noteq> 0 \<and> device_NAME d \<noteq> name)"
    using assms(3) by auto
  have cond: "(if ?level < 4 then 30 else 31) + ?ns + ?nd + ?nv + length ?e \<le> length ?b" using len by simp
  show ?thesis
    unfolding deserialize_device_def Let_def n if4 prod.case
    by (simp only: cond parts nm lab1 lab2 ext simp_thms if_True Option.bind.simps name nothing_removed(2) [OF assms(4)] added
        after_add_def fst_conv snd_conv len)
qed

lemma object_read:
  assumes "fits (taskControllerCompatibilityLevel p) obj" "identified obj"
    "\<forall>x \<in> set (objectList p). get_object_id x \<noteq> get_object_id obj \<and> identified x"
    "\<forall>d. obj = Device d \<longrightarrow> name = 0 \<or> name = device_NAME d"
  shows "\<exists>name'. deserialize_object (get_binary_object obj @ rest) name p
     = Some (True, length (get_binary_object obj), name', add_object (as_read (taskControllerCompatibilityLevel p) obj) p)
     \<and> (get_object_type obj \<noteq> TypeDevice \<longrightarrow> name' = name)"
proof -
  have start: "3 < length (get_binary_object obj @ rest)"
    by (cases obj) (simp_all add: device_binary_def device_element_binary_def process_data_binary_def property_binary_def
        presentation_binary_def Let_def)
  show ?thesis
  proof (cases obj)
    case (Device d)
    have "\<forall>x \<in> set (objectList p). get_object_type x \<noteq> TypeDevice"
      using assms(2,3) Device by (auto simp: identified_def split: if_split_asm)
    then have "deserialize_device (device_binary d @ rest) name p
      = Some (True, length (device_binary d), device_NAME d, add_object (as_read (taskControllerCompatibilityLevel p) (Device d)) p)"
      using assms Device by (intro device_read) (auto simp: identified_def)
    moreover have "bytes_at 0 3 (device_binary d @ rest) = Some table_DVC" by (simp add: device_binary_def namespace)
    ultimately show ?thesis using start Device by (simp add: deserialize_object_def)
  next
    case (DeviceElement d)
    have "bytes_at 0 3 (device_element_binary d @ rest) = Some table_DET" by (simp add: device_element_binary_def Let_def namespace)
    then show ?thesis using start DeviceElement assms device_element_read [of p d]
      by (simp add: deserialize_object_def tables_differ identified_def)
  next
    case (DeviceProcessData d)
    have "bytes_at 0 3 (process_data_binary d @ rest) = Some table_DPD" by (simp add: process_data_binary_def namespace)
    then show ?thesis using start DeviceProcessData assms process_data_read [of p d]
      by (simp add: deserialize_object_def tables_differ identified_def)
  next
    case (DeviceProperty d)
    have "bytes_at 0 3 (property_binary d @ rest) = Some table_DPT" by (simp add: property_binary_def namespace)
    then show ?thesis using start DeviceProperty assms property_read [of p d]
      by (simp add: deserialize_object_def tables_differ identified_def)
  next
    case (DeviceValuePresentation d)
    have "bytes_at 0 3 (presentation_binary d @ rest) = Some table_DVP" by (simp add: presentation_binary_def namespace)
    then show ?thesis using start DeviceValuePresentation assms presentation_read [of p d]
      by (simp add: deserialize_object_def tables_differ identified_def)
  qed
qed

lemma as_read_keeps: "identified (as_read level obj) = identified obj"
  by (simp add: identified_def)

lemma objects_read:
  assumes "\<forall>obj \<in> set objs. fits (taskControllerCompatibilityLevel p) obj \<and> identified obj"
    "distinct (map get_object_id (objectList p @ objs))" "\<forall>x \<in> set (objectList p). identified x"
    "\<forall>d. Device d \<in> set objs \<longrightarrow> name = 0 \<or> name = device_NAME d"
  shows "deserialize_from (concat (map get_binary_object objs)) name p
     = Some (True, p\<lparr>objectList := objectList p @ map (as_read (taskControllerCompatibilityLevel p)) objs\<rparr>)"
  using assms
proof (induction objs arbitrary: name p)
  case Nil
  then show ?case by (simp add: deserialize_from.simps)
next
  case (Cons obj objs)
  let ?b = "get_binary_object obj" and ?rest = "concat (map get_binary_object objs)"
  have fresh: "\<forall>x \<in> set (objectList p). get_object_id x \<noteq> get_object_id obj"
  proof
    fix x assume "x \<in> set (objectList p)"
    then have "get_object_id x \<in> get_object_id ` set (objectList p)" by simp
    with Cons.prems(2) show "get_object_id x \<noteq> get_object_id obj" by auto
  qed
  obtain name' where r: "deserialize_object (?b @ ?rest) name p = Some (True, length ?b, name', add_object (as_read (taskControllerCompatibilityLevel p) obj) p)"
    "get_object_type obj \<noteq> TypeDevice \<longrightarrow> name' = name"
    using object_read [of p obj name ?rest] Cons.prems fresh by auto
  have ne: "?b \<noteq> []" using round_advances(1) [OF r(1)] by auto
  have "\<not> (\<exists>d. Device d \<in> set objs)" if "get_object_type obj = TypeDevice"
  proof
    assume "\<exists>d. Device d \<in> set objs"
    then obtain d where d: "Device d \<in> set objs" by blast
    then have "identified (Device d)" "identified obj" using Cons.prems(1) by auto
    then have "get_object_id (Device d) = get_object_id obj" using that by (simp add: identified_def)
    then show False using d Cons.prems(2) by (metis (no_types) distinct.simps(2) distinct_append image_eqI list.simps(9) list.set_map map_append)
  qed
  then have n: "\<forall>d. Device d \<in> set objs \<longrightarrow> name' = 0 \<or> name' = device_NAME d"
    using Cons.prems(4) r(2) by auto
  have "deserialize_from ?rest name' (add_object (as_read (taskControllerCompatibilityLevel p) obj) p)
     = Some (True, (add_object (as_read (taskControllerCompatibilityLevel p) obj) p)\<lparr>objectList := objectList (add_object (as_read (taskControllerCompatibilityLevel p) obj) p) @ map (as_read (taskControllerCompatibilityLevel (add_object (as_read (taskControllerCompatibilityLevel p) obj) p))) objs\<rparr>)"
    using Cons.prems n by (intro Cons.IH) (auto simp: add_object_def as_read_keeps)
  then show ?case using r(1) ne by (simp add: deserialize_from.simps [of "?b @ ?rest"] add_object_def)
qed

lemma collect_all: "(\<And>obj. obj \<in> set objs \<Longrightarrow> get_binary_object obj \<noteq> []) \<Longrightarrow>
  collect_binaries objs acc = (True, acc @ concat (map get_binary_object objs))"
  by (induction objs arbitrary: acc) auto

lemma binary_not_empty [simp]: "get_binary_object obj \<noteq> []"
  by (cases obj) (simp_all add: device_binary_def device_element_binary_def process_data_binary_def property_binary_def
      presentation_binary_def Let_def table_DVC_def table_DET_def table_DPD_def table_DPT_def table_DVP_def)

lemma generated: "resolve_parent_ids_to_objects p \<Longrightarrow>
  generate_binary_object_pool p = (True, concat (map get_binary_object (objectList p)))"
  by (simp add: generate_binary_object_pool_def collect_all)

section \<open>References\<close>

definition references_ok :: "ddop \<Rightarrow> ddop_object \<Rightarrow> bool" where
  \<comment> \<open>what the standard asks of the references of an object\<close>
  "references_ok p obj \<longleftrightarrow>
     (let has = \<lambda>i ts. \<exists>x \<in> set (objectList p). get_object_id x = i \<and> get_object_type x \<in> ts;
          shown = \<lambda>i. i = 0xFFFF \<or> has i {TypeDeviceValuePresentation}
      in case obj of
           DeviceElement d \<Rightarrow> parentObject d \<noteq> 0xFFFF \<and> has (parentObject d) {TypeDeviceElement, TypeDevice}
             \<and> (\<forall>c \<in> set (referenceList d). has c {TypeDeviceProcessData, TypeDeviceProperty})
         | DeviceProcessData d \<Rightarrow> shown (process_presentation d)
         | DeviceProperty d \<Rightarrow> shown (property_presentation d)
         | _ \<Rightarrow> True)"

lemma found_type:
  assumes "distinct (map get_object_id (objectList p))"
  shows "(case get_object_by_id i p of None \<Rightarrow> False | Some x \<Rightarrow> get_object_type x \<in> ts)
    \<longleftrightarrow> (\<exists>x \<in> set (objectList p). get_object_id x = i \<and> get_object_type x \<in> ts)"
proof -
  have "(case find (\<lambda>obj. get_object_id obj = i) xs of None \<Rightarrow> False | Some x \<Rightarrow> get_object_type x \<in> ts)
      \<longleftrightarrow> (\<exists>x \<in> set xs. get_object_id x = i \<and> get_object_type x \<in> ts)" if "distinct (map get_object_id xs)" for xs
    using that by (induction xs) (auto simp: image_iff)
  with assms show ?thesis by (simp add: get_object_by_id_def)
qed

lemma children_resolve_all:
  "children_resolve p d i n \<longleftrightarrow> (\<forall>k < n. case get_object_by_id (get_child_object_id (i + k) d) p of
      None \<Rightarrow> False | Some x \<Rightarrow> get_object_type x \<in> {TypeDeviceProcessData, TypeDeviceProperty})"
proof (induction n arbitrary: i)
  case (Suc n)
  show ?case by (auto simp: Suc.IH All_less_Suc2 split: option.splits)
qed simp

lemma presentation_found:
  assumes "distinct (map get_object_id (objectList p))"
  shows "presentation_resolves p i \<longleftrightarrow> i = 0xFFFF \<or>
    (\<exists>x \<in> set (objectList p). get_object_id x = i \<and> get_object_type x = TypeDeviceValuePresentation)"
  using found_type [OF assms, where i = i and ts = "{TypeDeviceValuePresentation}"]
  by (cases "get_object_by_id i p") (auto simp: presentation_resolves_def)

lemma object_resolves_references:
  assumes "distinct (map get_object_id (objectList p))" "\<forall>d. obj = DeviceElement d \<longrightarrow> length (referenceList d) < 65536"
  shows "object_resolves p obj = references_ok p obj"
proof (cases obj)
  case (DeviceElement d)
  have n: "unat (get_number_child_objects d) = length (referenceList d)"
    using assms(2) DeviceElement by (simp add: get_number_child_objects_def unat_of_nat_u16)
  have "children_resolve p d 0 (length (referenceList d)) \<longleftrightarrow>
     (\<forall>c \<in> set (referenceList d). \<exists>x \<in> set (objectList p). get_object_id x = c \<and> get_object_type x \<in> {TypeDeviceProcessData, TypeDeviceProperty})"
    unfolding children_resolve_all found_type [OF assms(1)] by (simp add: get_child_object_id_def n all_set_conv_all_nth)
  moreover have "(case get_object_by_id (parentObject d) p of Some parent \<Rightarrow> get_object_type parent = TypeDeviceElement \<or> get_object_type parent = TypeDevice
      | None \<Rightarrow> False) \<longleftrightarrow> (\<exists>x \<in> set (objectList p). get_object_id x = parentObject d \<and> get_object_type x \<in> {TypeDeviceElement, TypeDevice})"
    using found_type [OF assms(1), where i = "parentObject d" and ts = "{TypeDeviceElement, TypeDevice}"]
    by (cases "get_object_by_id (parentObject d) p") auto
  ultimately show ?thesis unfolding DeviceElement object_resolves.simps Let_def n references_ok_def ddop_object.case by simp
qed (simp_all add: references_ok_def presentation_found [OF assms(1)])

end
