(* ===== verification/Ddop_Geometry.thy ===== *)
theory Ddop_Geometry
  imports Ddop_Reading
begin

text \<open>
  The geometry of an implement, \<open>src/isobus/src/isobus_device_descriptor_object_pool_helpers.cpp\<close>: booms, sub booms,
  sections and the rates of their bins, collected from a pool.
\<close>

section \<open>The geometry of an implement\<close>

record ObjectPoolValue =
  pool_value :: u32
  isValuePresent :: bool
  isSettable :: bool

record RateMetadata = ObjectPoolValue +
  dataDictionaryIdentifier :: u16
  rate_objectID :: u16

record ProductControlInformation =
  rateSetpoint :: RateMetadata
  rateActual :: RateMetadata
  rateDefault :: RateMetadata
  rateMinimum :: RateMetadata
  rateMaximum :: RateMetadata
  bin_elementNumber :: u16

record Section =
  section_xOffset :: ObjectPoolValue
  section_yOffset :: ObjectPoolValue
  section_zOffset :: ObjectPoolValue
  section_width :: ObjectPoolValue
  section_rates :: "ProductControlInformation list"
  section_elementNumber :: u16

record SubBoom =
  sub_sections :: "Section list"
  sub_rates :: "ProductControlInformation list"
  sub_xOffset :: ObjectPoolValue
  sub_yOffset :: ObjectPoolValue
  sub_zOffset :: ObjectPoolValue
  sub_width :: ObjectPoolValue
  sub_elementNumber :: u16

record Boom =
  boom_sections :: "Section list"
  subBooms :: "SubBoom list"
  boom_rates :: "ProductControlInformation list"
  boom_xOffset :: ObjectPoolValue
  boom_yOffset :: ObjectPoolValue
  boom_zOffset :: ObjectPoolValue
  boom_elementNumber :: u16

definition no_value :: ObjectPoolValue where
  "no_value = \<lparr>pool_value = 0, isValuePresent = False, isSettable = False\<rparr>"

definition no_rate :: RateMetadata where
  "no_rate = \<lparr>pool_value = 0, isValuePresent = False, isSettable = False,
     dataDictionaryIdentifier = 0xFFFF, rate_objectID = 0xFFFF\<rparr>"

definition no_product :: ProductControlInformation where
  "no_product = \<lparr>rateSetpoint = no_rate, rateActual = no_rate, rateDefault = no_rate, rateMinimum = no_rate,
     rateMaximum = no_rate, bin_elementNumber = 0xFFFF\<rparr>"

definition no_section :: Section where
  "no_section = \<lparr>section_xOffset = no_value, section_yOffset = no_value, section_zOffset = no_value,
     section_width = no_value, section_rates = [], section_elementNumber = 0xFFFF\<rparr>"

definition no_sub_boom :: SubBoom where
  "no_sub_boom = \<lparr>sub_sections = [], sub_rates = [], sub_xOffset = no_value, sub_yOffset = no_value,
     sub_zOffset = no_value, sub_width = no_value, sub_elementNumber = 0xFFFF\<rparr>"

definition no_boom :: Boom where
  "no_boom = \<lparr>boom_sections = [], subBooms = [], boom_rates = [], boom_xOffset = no_value,
     boom_yOffset = no_value, boom_zOffset = no_value, boom_elementNumber = 0xFFFF\<rparr>"

definition product_is_valid :: "ProductControlInformation \<Rightarrow> bool" where
  "product_is_valid r \<longleftrightarrow> dataDictionaryIdentifier (rateActual r) \<noteq> 0xFFFF \<or> dataDictionaryIdentifier (rateDefault r) \<noteq> 0xFFFF
     \<or> dataDictionaryIdentifier (rateMaximum r) \<noteq> 0xFFFF \<or> dataDictionaryIdentifier (rateMinimum r) \<noteq> 0xFFFF
     \<or> dataDictionaryIdentifier (rateSetpoint r) \<noteq> 0xFFFF"

abbreviation DDI_OffsetX :: u16 where "DDI_OffsetX \<equiv> 0x0086"
abbreviation DDI_OffsetY :: u16 where "DDI_OffsetY \<equiv> 0x0087"
abbreviation DDI_OffsetZ :: u16 where "DDI_OffsetZ \<equiv> 0x0088"
abbreviation DDI_ActualWorkingWidth :: u16 where "DDI_ActualWorkingWidth \<equiv> 0x0043"
abbreviation TYPE_Function :: u8 where "TYPE_Function \<equiv> 2"
abbreviation TYPE_Bin :: u8 where "TYPE_Bin \<equiv> 3"
abbreviation TYPE_Section :: u8 where "TYPE_Section \<equiv> 4"

definition maximum_rates :: "u16 list" where
  "maximum_rates =
     [0x01B7, 0x01C3, 0x01B3, 0x01BB, 0x01BF, 0x000F, 0x0032, 0x000A, 0x001E, 0x002D,
      0x0005, 0x0023, 0x0019, 0x0028, 0x0014, 0x0189]"

definition minimum_rates :: "u16 list" where
  "minimum_rates =
     [0x01B6, 0x01C2, 0x01B2, 0x01BA, 0x01BE, 0x000E, 0x0031, 0x0009, 0x001D, 0x002C,
      0x0004, 0x0022, 0x0018, 0x0027, 0x0013, 0x0188]"

definition default_rates :: "u16 list" where
  "default_rates =
     [0x0187, 0x000D, 0x0030, 0x0008, 0x001C, 0x002B, 0x0003, 0x0021, 0x0017, 0x0026,
      0x0012]"

definition setpoint_rates :: "u16 list" where
  "setpoint_rates =
     [0x01B4, 0x01C0, 0x01B0, 0x01B8, 0x01BC, 0x000B, 0x002E, 0x0006, 0x001A, 0x0029,
      0x0001, 0x001F, 0x0015, 0x0024, 0x0010, 0x0185]"

definition actual_rates :: "u16 list" where
  "actual_rates =
     [0x01B5, 0x01C1, 0x01B1, 0x01B9, 0x01BD, 0x000C, 0x002F, 0x0007, 0x001B, 0x002A,
      0x0002, 0x0020, 0x0016, 0x0025, 0x0011, 0x0186]"

definition settable :: "DeviceProcessDataObject \<Rightarrow> bool" where
  "settable d \<longleftrightarrow> 0x02 AND propertiesBitfield d \<noteq> 0"

definition set_value_from_property :: "DevicePropertyObject \<Rightarrow> u16 \<Rightarrow> ObjectPoolValue \<Rightarrow> ObjectPoolValue" where
  "set_value_from_property d ddi v =
     (if property_ddi d = ddi then v\<lparr>pool_value := property_value d, isValuePresent := True\<rparr> else v)"

definition set_editable_from_process_data :: "DeviceProcessDataObject \<Rightarrow> u16 \<Rightarrow> ObjectPoolValue \<Rightarrow> ObjectPoolValue" where
  "set_editable_from_process_data d ddi v = (if process_ddi d = ddi then v\<lparr>isSettable := settable d\<rparr> else v)"

fun set_rate :: "u16 list \<Rightarrow> ddop_object \<Rightarrow> u16 \<Rightarrow> RateMetadata \<Rightarrow> RateMetadata" where
  \<comment> \<open>the body the five functions share, for the identifiers in their switch\<close>
  "set_rate ddis (DeviceProcessData d) ddi r =
     (if ddi \<in> set ddis \<and> ddi = process_ddi d
      then r\<lparr>isSettable := settable d, rate_objectID := objectID d, dataDictionaryIdentifier := process_ddi d\<rparr> else r)"
| "set_rate ddis (DeviceProperty d) ddi r =
     (if ddi \<in> set ddis \<and> ddi = property_ddi d
      then r\<lparr>rate_objectID := objectID d, isValuePresent := True, pool_value := property_value d,
             dataDictionaryIdentifier := property_ddi d\<rparr> else r)"
| "set_rate ddis obj ddi r = r"

definition set_product_control_information_max_rate ::
    "ddop_object \<Rightarrow> u16 \<Rightarrow> ProductControlInformation \<Rightarrow> ProductControlInformation" where
  "set_product_control_information_max_rate obj ddi r = r\<lparr>rateMaximum := set_rate maximum_rates obj ddi (rateMaximum r)\<rparr>"

definition set_product_control_information_min_rate ::
    "ddop_object \<Rightarrow> u16 \<Rightarrow> ProductControlInformation \<Rightarrow> ProductControlInformation" where
  "set_product_control_information_min_rate obj ddi r = r\<lparr>rateMinimum := set_rate minimum_rates obj ddi (rateMinimum r)\<rparr>"

definition set_product_control_information_default_rate ::
    "ddop_object \<Rightarrow> u16 \<Rightarrow> ProductControlInformation \<Rightarrow> ProductControlInformation" where
  "set_product_control_information_default_rate obj ddi r = r\<lparr>rateDefault := set_rate default_rates obj ddi (rateDefault r)\<rparr>"

definition set_product_control_information_setpoint_rate ::
    "ddop_object \<Rightarrow> u16 \<Rightarrow> ProductControlInformation \<Rightarrow> ProductControlInformation" where
  "set_product_control_information_setpoint_rate obj ddi r = r\<lparr>rateSetpoint := set_rate setpoint_rates obj ddi (rateSetpoint r)\<rparr>"

definition set_product_control_information_actual_rate ::
    "ddop_object \<Rightarrow> u16 \<Rightarrow> ProductControlInformation \<Rightarrow> ProductControlInformation" where
  "set_product_control_information_actual_rate obj ddi r = r\<lparr>rateActual := set_rate actual_rates obj ddi (rateActual r)\<rparr>"

definition pool_objects :: "ddop \<Rightarrow> ddop_object list" where
  \<comment> \<open>the objects the loops up to \<open>size\<close> visit\<close>
  "pool_objects p = take (unat (ddop_size p)) (objectList p)"

fun elements_under :: "u16 \<Rightarrow> ddop_object list \<Rightarrow> DeviceElementObject list" where
  \<comment> \<open>the elements with that parent\<close>
  "elements_under i [] = []"
| "elements_under i (DeviceElement d # objs) = (if parentObject d = i then d # elements_under i objs else elements_under i objs)"
| "elements_under i (obj # objs) = elements_under i objs"

definition child_objects :: "ddop \<Rightarrow> DeviceElementObject \<Rightarrow> ddop_object list" where
  \<comment> \<open>the children that are found, in order\<close>
  "child_objects p d = List.map_filter (\<lambda>i. get_object_by_id (get_child_object_id i d) p) [0..<unat (get_number_child_objects d)]"

definition set_rates :: "ddop_object \<Rightarrow> u16 \<Rightarrow> ProductControlInformation \<Rightarrow> ProductControlInformation" where
  "set_rates obj ddi r =
     set_product_control_information_actual_rate obj ddi (set_product_control_information_setpoint_rate obj ddi
       (set_product_control_information_default_rate obj ddi (set_product_control_information_min_rate obj ddi
         (set_product_control_information_max_rate obj ddi r))))"

fun bin_child :: "ddop_object \<Rightarrow> ProductControlInformation \<Rightarrow> ProductControlInformation" where
  "bin_child (DeviceProcessData d) r = set_rates (DeviceProcessData d) (process_ddi d) r"
| "bin_child (DeviceProperty d) r = set_rates (DeviceProperty d) (property_ddi d) r"
| "bin_child obj r = r"

definition parse_bin :: "ddop \<Rightarrow> DeviceElementObject \<Rightarrow> ProductControlInformation" where
  "parse_bin p d =
     (if elementType d = TYPE_Bin
      then fold bin_child (child_objects p d) (no_product\<lparr>bin_elementNumber := elementNumber d\<rparr>)
      else no_product)"

definition valid_bin :: "ddop \<Rightarrow> DeviceElementObject \<Rightarrow> ProductControlInformation list" where
  \<comment> \<open>what is pushed for a bin\<close>
  "valid_bin p d = (let binInfo = parse_bin p d in if product_is_valid binInfo then [binInfo] else [])"

fun section_child :: "ddop \<Rightarrow> ddop_object \<Rightarrow> Section \<Rightarrow> Section" where
  "section_child p (DeviceProperty d) s =
     s\<lparr>section_xOffset := set_value_from_property d DDI_OffsetX (section_xOffset s),
       section_yOffset := set_value_from_property d DDI_OffsetY (section_yOffset s),
       section_zOffset := set_value_from_property d DDI_OffsetZ (section_zOffset s),
       section_width := set_value_from_property d DDI_ActualWorkingWidth (section_width s)\<rparr>"
| "section_child p (DeviceProcessData d) s =
     s\<lparr>section_xOffset := set_editable_from_process_data d DDI_OffsetX (section_xOffset s),
       section_yOffset := set_editable_from_process_data d DDI_OffsetY (section_yOffset s),
       section_zOffset := set_editable_from_process_data d DDI_OffsetZ (section_zOffset s),
       section_width := set_editable_from_process_data d DDI_ActualWorkingWidth (section_width s)\<rparr>"
| "section_child p (DeviceElement d) s =
     (if elementType d = TYPE_Bin then s\<lparr>section_rates := section_rates s @ valid_bin p d\<rparr> else s)"
| "section_child p obj s = s"

definition parse_section :: "ddop \<Rightarrow> DeviceElementObject \<Rightarrow> Section" where
  "parse_section p d = (fold (section_child p) (child_objects p d) no_section)\<lparr>section_elementNumber := elementNumber d\<rparr>"

definition sections_under :: "ddop \<Rightarrow> DeviceElementObject \<Rightarrow> Section list" where
  "sections_under p d = map (parse_section p)
     (filter (\<lambda>e. elementType e = TYPE_Section) (elements_under (objectID d) (pool_objects p)))"

fun sub_boom_child :: "ddop \<Rightarrow> ddop_object \<Rightarrow> SubBoom \<Rightarrow> SubBoom" where
  "sub_boom_child p (DeviceProperty d) s =
     s\<lparr>sub_xOffset := set_value_from_property d DDI_OffsetX (sub_xOffset s),
       sub_yOffset := set_value_from_property d DDI_OffsetY (sub_yOffset s),
       sub_zOffset := set_value_from_property d DDI_OffsetZ (sub_zOffset s),
       sub_width := set_value_from_property d DDI_ActualWorkingWidth (sub_width s)\<rparr>"
| "sub_boom_child p (DeviceProcessData d) s =
     s\<lparr>sub_xOffset := set_editable_from_process_data d DDI_OffsetX (sub_xOffset s),
       sub_yOffset := set_editable_from_process_data d DDI_OffsetY (sub_yOffset s),
       sub_zOffset := set_editable_from_process_data d DDI_OffsetZ (sub_zOffset s),
       sub_width := set_editable_from_process_data d DDI_ActualWorkingWidth (sub_width s)\<rparr>"
| "sub_boom_child p (DeviceElement d) s =
     (if elementType d = TYPE_Bin then s\<lparr>sub_rates := sub_rates s @ valid_bin p d\<rparr> else s)"
| "sub_boom_child p obj s = s"

definition parse_sub_boom :: "ddop \<Rightarrow> DeviceElementObject \<Rightarrow> SubBoom" where
  "parse_sub_boom p d = fold (sub_boom_child p) (child_objects p d)
     (no_sub_boom\<lparr>sub_elementNumber := elementNumber d, sub_sections := sections_under p d\<rparr>)"

fun boom_child :: "ddop \<Rightarrow> ddop_object \<Rightarrow> Boom \<Rightarrow> Boom" where
  "boom_child p (DeviceProperty d) s =
     s\<lparr>boom_xOffset := set_value_from_property d DDI_OffsetX (boom_xOffset s),
       boom_yOffset := set_value_from_property d DDI_OffsetY (boom_yOffset s),
       boom_zOffset := set_value_from_property d DDI_OffsetZ (boom_zOffset s)\<rparr>"
| "boom_child p (DeviceProcessData d) s =
     s\<lparr>boom_xOffset := set_editable_from_process_data d DDI_OffsetX (boom_xOffset s),
       boom_yOffset := set_editable_from_process_data d DDI_OffsetY (boom_yOffset s),
       boom_zOffset := set_editable_from_process_data d DDI_OffsetZ (boom_zOffset s)\<rparr>"
| "boom_child p (DeviceElement d) s =
     (if elementType d = TYPE_Bin then s\<lparr>boom_rates := boom_rates s @ valid_bin p d\<rparr> else s)"
| "boom_child p obj s = s"

definition function_member :: "ddop \<Rightarrow> DeviceElementObject \<Rightarrow> Boom \<Rightarrow> Boom" where
  \<comment> \<open>an element under a function: a sub boom or a bin\<close>
  "function_member p e b =
     (if elementType e = TYPE_Function then b\<lparr>subBooms := subBooms b @ [parse_sub_boom p e]\<rparr>
      else if elementType e = TYPE_Bin then b\<lparr>boom_rates := boom_rates b @ valid_bin p e\<rparr>
      else b)"

definition parse_element :: "ddop \<Rightarrow> DeviceElementObject \<Rightarrow> Boom list \<Rightarrow> Boom list" where
  "parse_element p d booms =
     (let b0 = no_boom\<lparr>boom_elementNumber := elementNumber d\<rparr>;
          b1 = (if elementType d = TYPE_Function
                then fold (function_member p) (elements_under (objectID d) (pool_objects p)) b0 else b0);
          b2 = (if subBooms b1 = []
                then fold (boom_child p) (child_objects p d) (b1\<lparr>boom_sections := boom_sections b1 @ sections_under p d\<rparr>)
                else b1)
      in booms @ [b2])"

definition get_implement_geometry :: "ddop \<Rightarrow> Boom list" where
  "get_implement_geometry p =
     (case first_device (pool_objects p) of
        None \<Rightarrow> []
      | Some device \<Rightarrow>
          (case elements_under (objectID device) (pool_objects p) of
             [] \<Rightarrow> []
           | root # _ \<Rightarrow>
               let functions = filter (\<lambda>e. elementType e = TYPE_Function) (elements_under (objectID root) (pool_objects p))
               in if functions \<noteq> [] then fold (parse_element p) functions []
                  else
                    let booms = parse_element p root [];
                        bins = filter (\<lambda>e. elementType e = TYPE_Bin) (elements_under (objectID root) (pool_objects p));
                        rates = concat (map (valid_bin p) bins)
                    in case booms of [] \<Rightarrow> [] | b # bs \<Rightarrow> b\<lparr>boom_rates := boom_rates b @ rates\<rparr> # bs))"

text \<open>In a pool whose references resolve, the children of an element are process data and properties, so the
  bins that the code looks for among them are never there.\<close>

lemma child_objects_member: "x \<in> set (child_objects p d) \<Longrightarrow>
  \<exists>i < unat (get_number_child_objects d). get_object_by_id (get_child_object_id i d) p = Some x"
  by (auto simp: child_objects_def List.map_filter_def)

lemma resolved_children:
  assumes "resolve_parent_ids_to_objects p" "DeviceElement d \<in> set (objectList p)" "x \<in> set (child_objects p d)"
  shows "get_object_type x \<in> {TypeDeviceProcessData, TypeDeviceProperty}"
proof -
  have "object_resolves p (DeviceElement d)"
    using assms(1,2) unfolding resolve_parent_ids_to_objects_def list_all_iff by blast
  then have "children_resolve p d 0 (unat (get_number_child_objects d))"
    by (simp only: object_resolves.simps Let_def split: if_split_asm)
  moreover obtain i where "i < unat (get_number_child_objects d)" "get_object_by_id (get_child_object_id i d) p = Some x"
    using child_objects_member [OF assms(3)] by blast
  ultimately show ?thesis unfolding children_resolve_all by force
qed

lemma section_fold_rates:
  assumes "\<forall>x \<in> set xs. get_object_type x \<in> {TypeDeviceProcessData, TypeDeviceProperty}"
  shows "section_rates (fold (section_child p) xs s) = section_rates s"
    "sub_rates (fold (sub_boom_child p) xs b) = sub_rates b"
  using assms
proof (induction xs arbitrary: s b)
  case (Cons x xs)
  { case 1 then show ?case using Cons.IH(1) by (cases x) simp_all }
  { case 2 then show ?case using Cons.IH(2) by (cases x) simp_all }
qed simp_all

lemma sections_without_rates:
  assumes "resolve_parent_ids_to_objects p" "DeviceElement d \<in> set (objectList p)"
  shows "section_rates (parse_section p d) = []" "sub_rates (parse_sub_boom p d) = []"
  using section_fold_rates [of "child_objects p d"] resolved_children [OF assms]
  by (auto simp: parse_section_def parse_sub_boom_def no_section_def no_sub_boom_def)

end
