(* ===== verification/Ddop_Promises.thy ===== *)
theory Ddop_Promises
  imports Ddop_Geometry
begin

text \<open>
  What the device descriptor object pool promises: consistency of every pool that can be built, the round trip
  through the binary form, the meaning of a successful generation, and where reading, writing and the
  collection of the geometry fail. A concrete pool shows each property at work.
\<close>

section \<open>What the pool guarantees\<close>

text \<open>The pools that can be built with the operations of the class.\<close>

inductive ddop_built :: "ddop \<Rightarrow> bool" where
  constructed: "ddop_constructed v = Some p \<Longrightarrow> ddop_built p"
| device: "ddop_built p \<Longrightarrow> ddop_built (snd (add_device a b c d e f n p))"
| device_element: "ddop_built p \<Longrightarrow> ddop_built (snd (add_device_element a n j t i p))"
| process_data: "ddop_built p \<Longrightarrow> ddop_built (snd (add_device_process_data a b j c d i p))"
| property: "ddop_built p \<Longrightarrow> ddop_built (snd (add_device_property a v b j i p))"
| presentation: "ddop_built p \<Longrightarrow> ddop_built (snd (add_device_value_presentation a v w c i p))"
| removed_type: "ddop_built p \<Longrightarrow> ddop_built (snd (remove_objects_with_type t p))"
| removed_id: "ddop_built p \<Longrightarrow> ddop_built (snd (remove_object_with_id i p))"
| removed_first: "ddop_built p \<Longrightarrow> ddop_built (snd (remove_object_by_id i p))"
| read: "ddop_built p \<Longrightarrow> deserialize_binary_object_pool b n p = Some (ok, q) \<Longrightarrow> ddop_built q"
| level: "ddop_built p \<Longrightarrow> set_task_controller_compatibility_level v p = Some q \<Longrightarrow> ddop_built q"
| cleared: "ddop_built p \<Longrightarrow> ddop_built (ddop_clear p)"
| referenced: "ddop_built p \<Longrightarrow> ddop_built (add_references i cs p)"

lemma level_limit: "set_task_controller_compatibility_level v p = Some q \<Longrightarrow> v \<le> 4"
  by (simp add: set_task_controller_compatibility_level_def split: if_split_asm)

lemma built_ok: "ddop_built p \<Longrightarrow> ddop_ok p"
proof (induction rule: ddop_built.induct)
  case (constructed v p)
  then show ?case by (auto simp: ddop_constructed_def ddop_ok_def split: if_split_asm)
next
  case (read p b n ok q)
  then show ?case using deserialize_from_ok [of b n p "(ok, q)"]
    by (auto simp: deserialize_binary_object_pool_def split: if_split_asm)
next
  case (level p v q)
  then show ?case using set_level_ok [of p v] level_limit by auto
next
  case (cleared p)
  then show ?case by (simp add: ddop_clear_def ddop_ok_def)
qed (simp_all add: add_device_ok adds_ok remove_ok remove_by_id_ok add_references_ok)

text \<open>
  C14: In every pool that can be built with the operations of the class (reading a binary pool included) the identifiers are
  distinct, only the device has identifier 0, none is 0xFFFF, no designator exceeds 128 bytes, and setting a supported
  version never casts an object that is not a device.
\<close>

theorem built_pools_consistent:
  assumes "ddop_built p"
  shows "distinct (map get_object_id (objectList p))
     \<and> (\<forall>obj \<in> set (objectList p). (get_object_type obj = TypeDevice \<longleftrightarrow> get_object_id obj = 0)
          \<and> get_object_id obj \<noteq> 0xFFFF \<and> length (get_designator obj) \<le> 128)
     \<and> (v \<le> 4 \<longrightarrow> (\<exists>q. set_task_controller_compatibility_level v p = Some q))"
proof -
  have ok: "ddop_ok p" by (rule built_ok [OF assms])
  have "distinct (map get_object_id (objectList p))" using ok by (simp add: ddop_ok_def)
  moreover have "(get_object_type obj = TypeDevice \<longleftrightarrow> get_object_id obj = 0) \<and> get_object_id obj \<noteq> 0xFFFF
      \<and> length (get_designator obj) \<le> 128" if "obj \<in> set (objectList p)" for obj
  proof -
    have "identified obj" "limited obj" using ok that by (auto simp: ddop_ok_def)
    then show ?thesis by (auto simp: identified_def limited_def split: if_split_asm)
  qed
  moreover have "v \<le> 4 \<longrightarrow> (\<exists>q. set_task_controller_compatibility_level v p = Some q)" using set_level_ok [OF ok] by blast
  ultimately show ?thesis by blast
qed

text \<open>
  C18: Whatever bytes it is given, reading a binary pool leaves the buffer only when the bytes left are four or five and begin
  with the name of a device element, whose type is read without a test of the size.
\<close>

theorem reads_outside_only_short_elements:
  assumes "deserialize_binary_object_pool b name p = None"
  shows "\<exists>k. (k + 4 = length b \<or> k + 5 = length b) \<and> take 3 (drop k b) = table_DET"
proof (rule ccontr)
  assume "\<not> ?thesis"
  then have "\<exists>r. deserialize_from b name p = Some r" by (intro deserialize_from_defined) blast
  with assms show False by (simp add: deserialize_binary_object_pool_def split: if_split_asm)
qed

text \<open>
  C8: A pool whose generation succeeds is read back from its binary form, at the same version, with its objects in the same
  order and every field the same, with these exceptions: the structure label comes back filled with blanks to
  seven bytes, the extended label is empty where it is not written, and below version 4 a designator or serial number that was
  built longer, at version 4, comes back cut to 32 bytes. The seventh byte of the localization label comes back as it was given, although
  the warning when the device is added says that 0xFF will be enforced. The conditions: designators, software version and serial number
  below 128 bytes (the reader refuses a length byte from 128 on, but for the name of an element), element types of the enumeration,
  fewer than 256 children, the extended label in use exactly at version 4, a pool that is not empty, and a NAME that is the device's or 0.
\<close>

theorem pool_read_back:
  assumes "ddop_built p" "objectList p \<noteq> []" "\<forall>obj \<in> set (objectList p). fits (taskControllerCompatibilityLevel p) obj"
    "fst (generate_binary_object_pool p)" "\<forall>d. Device d \<in> set (objectList p) \<longrightarrow> name = 0 \<or> name = device_NAME d"
  shows "deserialize_binary_object_pool (snd (generate_binary_object_pool p)) name (ddop_clear p)
     = Some (True, p\<lparr>objectList := map (as_read (taskControllerCompatibilityLevel p)) (objectList p)\<rparr>)"
proof -
  have ok: "ddop_ok p" by (rule built_ok [OF assms(1)])
  have r: "resolve_parent_ids_to_objects p" using assms(4) by (simp add: generate_binary_object_pool_def split: if_split_asm)
  have "deserialize_from (concat (map get_binary_object (objectList p))) name (ddop_clear p)
      = Some (True, (ddop_clear p)\<lparr>objectList := objectList (ddop_clear p) @ map (as_read (taskControllerCompatibilityLevel (ddop_clear p))) (objectList p)\<rparr>)"
    using ok assms(3,5) by (intro objects_read) (auto simp: ddop_ok_def ddop_clear_def)
  then show ?thesis
    using assms(2) by (cases "objectList p") (simp_all add: generated [OF r] deserialize_binary_object_pool_def ddop_clear_def)
qed

text \<open>
  C10: The binary form is generated exactly when every reference of the pool is good: the parent of an element is an element or
  the device, its children are process data or properties, and a presentation, where there is one, is a value
  presentation.
\<close>

theorem generated_iff_references_ok:
  assumes "ddop_built p" "\<forall>d. DeviceElement d \<in> set (objectList p) \<longrightarrow> length (referenceList d) < 65536"
  shows "fst (generate_binary_object_pool p) \<longleftrightarrow> (\<forall>obj \<in> set (objectList p). references_ok p obj)"
proof -
  have "distinct (map get_object_id (objectList p))" using built_ok [OF assms(1)] by (simp add: ddop_ok_def)
  then have "object_resolves p obj = references_ok p obj" if "obj \<in> set (objectList p)" for obj
    using that assms(2) by (intro object_resolves_references) auto
  then have "resolve_parent_ids_to_objects p \<longleftrightarrow> (\<forall>obj \<in> set (objectList p). references_ok p obj)"
    by (simp add: resolve_parent_ids_to_objects_def list_all_iff)
  then show ?thesis by (simp add: generate_binary_object_pool_def collect_all)
qed

text \<open>A designator of 128 bytes is accepted and written, and makes the pool unreadable.\<close>

theorem longest_designator_not_read:
  assumes "taskControllerCompatibilityLevel p = 4" "length s = 128" "check_object_id_unique i p"
  shows "\<exists>obj q. add_device_process_data s ddi presentation properties triggers i p = (True, q)
     \<and> objectList q = objectList p @ [obj] \<and> get_designator obj = s
     \<and> deserialize_object (get_binary_object obj @ rest) name p' = Some (False, 0, name, p')"
proof -
  let ?d = "\<lparr>designator = s, objectID = i, process_ddi = ddi, process_presentation = presentation,
      propertiesBitfield = properties, triggerMethodsBitfield = triggers\<rparr>"
  let ?b = "process_data_binary ?d @ rest"
  have t: "truncated 4 s = s" using assms(2) by (simp add: truncated_def)
  have "?b ! 9 = 128"
    using nth_part [of 9 "table_DPD @ le_bytes 2 i @ le_bytes 2 ddi @ [properties, triggers]" "of_nat (length s)"] assms(2)
    by (simp add: process_data_binary_def counted_def)
  then have "length_at 9 128 ?b = (False, 0)" by (simp add: length_at_def)
  moreover have "bytes_at 0 3 ?b = Some table_DPD" by (simp add: process_data_binary_def namespace)
  moreover have "3 < length ?b" by (simp add: process_data_binary_def)
  ultimately have "deserialize_object ?b name p' = Some (False, 0, name, p')"
    by (simp add: deserialize_object_def tables_differ deserialize_process_data_def)
  then show ?thesis
    using assms(1,3) by (auto simp: add_device_process_data_def add_object_def t)
qed

lemma those_None: "those (map f js) = None \<longleftrightarrow> (\<exists>j \<in> set js. f j = None)"
  by (induction js) (auto split: option.split)

text \<open>
  C32: The ISO XML description of a pool whose references resolve is not produced, but ends in an exception, exactly when the
  structure label has fewer than seven bytes, which the binary form fills with blanks.
\<close>

theorem xml_throws_iff_short_label:
  assumes "resolve_parent_ids_to_objects p" "length (objectList p) < 65536" "Device d \<in> set (objectList p)"
    "ddop_built p" "length (localizationLabel d) = 7"
  shows "generate_task_data_iso_xml p = None \<longleftrightarrow> length (structureLabel d) < 7"
proof -
  have f: "first_device objs = Some d"
    if "Device d \<in> set objs" "\<forall>d'. Device d' \<in> set objs \<longrightarrow> d' = d" for objs
    using that
  proof (induction objs)
    case (Cons obj objs)
    then have "first_device objs = Some d" if "obj \<noteq> Device d" using that by (metis list.set_intros(2) set_ConsD)
    moreover have "obj = Device d" if "get_object_type obj = TypeDevice" using that Cons.prems(2) by (cases obj) simp_all
    ultimately show ?case by (cases obj) auto
  qed simp
  have ok: "inj_on get_object_id (set (objectList p))" "\<forall>x \<in> set (objectList p). identified x"
    using built_ok [OF assms(4)] by (simp_all add: ddop_ok_def distinct_map)
  have "d' = d" if "Device d' \<in> set (objectList p)" for d'
  proof -
    have "identified (Device d')" "identified (Device d)" using ok(2) that assms(3) by auto
    then have "get_object_id (Device d') = get_object_id (Device d)" by (simp add: identified_def)
    then show ?thesis using inj_onD [OF ok(1) _ that assms(3)] by blast
  qed
  then have "first_device (objectList p) = Some d" using assms(3) by (intro f) blast+
  moreover have "take (unat (ddop_size p)) (objectList p) = objectList p"
    using assms(2) by (simp add: ddop_size_def unat_of_nat_u16)
  ultimately have "first_device (take (unat (ddop_size p)) (objectList p)) = Some d" by simp
  moreover have "those (map (\<lambda>j. checked_nth xs (6 - j)) [0..<7]) = None \<longleftrightarrow> length xs < 7" for xs :: "u8 list"
  proof -
    have "those (map (\<lambda>j. checked_nth xs (6 - j)) [0..<7]) = None \<longleftrightarrow> (\<exists>j \<in> {0..<7}. length xs \<le> 6 - j)"
      unfolding those_None by (simp add: checked_nth_def not_less)
    also have "\<dots> \<longleftrightarrow> length xs < 7"
    proof
      assume "\<exists>j \<in> {0..<7}. length xs \<le> 6 - j"
      then obtain j where "length xs \<le> 6 - j" ..
      then show "length xs < 7" by linarith
    next
      assume "length xs < 7"
      then have "length xs \<le> 6 - 0" by simp
      then show "\<exists>j \<in> {0..<7}. length xs \<le> 6 - j" by (rule bexI) simp
    qed
    finally show ?thesis .
  qed
  ultimately show ?thesis
    using assms(1,5) by (auto simp: generate_task_data_iso_xml_def Let_def xml_device_def bind_eq_None_conv)
qed

text \<open>Bins of sections and sub booms are looked for among the referenced children, where the pool allows none.\<close>

text \<open>
  C36: In a pool that can be generated, the rates of a section and of a sub boom are always empty: its bins are looked for
  among the referenced children, where the pool allows process data and properties only.
\<close>

theorem section_bins_never_found:
  assumes "fst (generate_binary_object_pool p)" "DeviceElement d \<in> set (objectList p)"
  shows "section_rates (parse_section p d) = [] \<and> sub_rates (parse_sub_boom p d) = []"
  using sections_without_rates [OF _ assms(2)] assms(1) by (simp add: generate_binary_object_pool_def split: if_split_asm)

section \<open>A concrete pool\<close>

definition demo_label :: "u8 list" where "demo_label = [0x65, 0x6E, 0x50, 0, 0x55, 0x55, 0xFF]"

definition demo_dvc :: DeviceObject where
  "demo_dvc = \<lparr>designator = [0x50], objectID = 0, serialNumber = [0x37], softwareVersion = [0x31],
     structureLabel = [0x41], localizationLabel = demo_label, extendedStructureLabel = [], device_NAME = 77,
     useExtendedStructureLabel = True\<rparr>"

definition demo_det :: DeviceElementObject where
  "demo_det = \<lparr>designator = [0x52], objectID = 1, referenceList = [2], elementNumber = 9, parentObject = 0, elementType = 4\<rparr>"

definition demo_dpd :: DeviceProcessDataObject where
  "demo_dpd = \<lparr>designator = [], objectID = 2, process_ddi = 0x43, process_presentation = 0xFFFF,
     propertiesBitfield = 2, triggerMethodsBitfield = 8\<rparr>"

definition demo_ddop :: ddop where
  "demo_ddop = \<lparr>objectList = [Device demo_dvc, DeviceElement demo_det, DeviceProcessData demo_dpd], taskControllerCompatibilityLevel = 4\<rparr>"

lemmas demo_defs = demo_dvc_def demo_det_def demo_dpd_def demo_ddop_def demo_label_def

lemma demo_built: "ddop_built demo_ddop"
proof -
  let ?p0 = "\<lparr>objectList = [], taskControllerCompatibilityLevel = 4\<rparr>"
  let ?p1 = "snd (add_device [0x50] [0x31] [0x37] [0x41] demo_label [] 77 ?p0)"
  let ?p2 = "add_references 1 [2] (snd (add_device_element [0x52] 9 0 4 1 ?p1))"
  let ?p3 = "snd (add_device_process_data [] 0x43 0xFFFF 2 8 2 ?p2)"
  have "ddop_constructed 4 = Some ?p0" by (simp add: ddop_constructed_def)
  then have "ddop_built ?p3"
    by (intro ddop_built.process_data ddop_built.referenced ddop_built.device_element ddop_built.device) (rule ddop_built.constructed)
  moreover have "?p3 = demo_ddop"
    by (simp add: demo_defs add_device_def add_object_def truncated_def add_device_element_def check_object_id_unique_def
        add_references_def add_reference_to_child_object_def add_device_process_data_def Let_def)
  ultimately show ?thesis by simp
qed

lemma demo_resolves: "resolve_parent_ids_to_objects demo_ddop"
  by (simp add: resolve_parent_ids_to_objects_def demo_defs get_object_by_id_def presentation_resolves_def
      get_number_child_objects_def get_child_object_id_def Let_def)

lemma demo_generated: "fst (generate_binary_object_pool demo_ddop)"
  by (simp add: generated [OF demo_resolves])

text \<open>Witness of C14: a device, a section and a width.\<close>

theorem built_pools_consistent_witness:
  "distinct (map get_object_id (objectList demo_ddop)) \<and> (\<exists>q. set_task_controller_compatibility_level 3 demo_ddop = Some q)"
  using built_pools_consistent [OF demo_built, of 3] by simp

text \<open>Witness of C18: the four bytes DET 0.\<close>

theorem reads_outside_only_short_elements_witness:
  "\<exists>k. (k + 4 = length [0x44, 0x45, 0x54, 0 :: u8] \<or> k + 5 = length [0x44, 0x45, 0x54, 0 :: u8])
     \<and> take 3 (drop k [0x44, 0x45, 0x54, 0]) = table_DET"
proof -
  have "deserialize_object [0x44, 0x45, 0x54, 0] 0 demo_ddop = None"
    by (simp add: deserialize_object_defined table_DET_def)
  then have "deserialize_binary_object_pool [0x44, 0x45, 0x54, 0] 0 demo_ddop = None"
    by (simp add: deserialize_binary_object_pool_def deserialize_from.simps)
  from reads_outside_only_short_elements [OF this] show ?thesis .
qed

text \<open>Witness of C8: the concrete pool.\<close>

theorem pool_read_back_witness:
  "deserialize_binary_object_pool (snd (generate_binary_object_pool demo_ddop)) 0 (ddop_clear demo_ddop)
     = Some (True, demo_ddop\<lparr>objectList := map (as_read (taskControllerCompatibilityLevel demo_ddop)) (objectList demo_ddop)\<rparr>)"
  by (rule pool_read_back [OF demo_built _ _ demo_generated]) (simp_all add: demo_defs)

text \<open>Witness of C10: the concrete pool.\<close>

theorem generated_iff_references_ok_witness:
  "references_ok demo_ddop (DeviceElement demo_det) \<and> references_ok demo_ddop (DeviceProcessData demo_dpd)"
proof -
  have "fst (generate_binary_object_pool demo_ddop) \<longleftrightarrow> (\<forall>obj \<in> set (objectList demo_ddop). references_ok demo_ddop obj)"
    by (rule generated_iff_references_ok [OF demo_built]) (simp add: demo_defs)
  with demo_generated show ?thesis by (simp add: demo_ddop_def)
qed

theorem longest_designator_not_read_witness:
  "\<exists>obj q. add_device_process_data (replicate 128 0x41) 0x43 0xFFFF 2 8 3 demo_ddop = (True, q)
     \<and> objectList q = objectList demo_ddop @ [obj] \<and> get_designator obj = replicate 128 0x41
     \<and> deserialize_object (get_binary_object obj @ []) 0 demo_ddop = Some (False, 0, 0, demo_ddop)"
  by (rule longest_designator_not_read) (simp_all add: demo_defs check_object_id_unique_def)

text \<open>Witness of C32: a label of one letter.\<close>

theorem xml_throws_iff_short_label_witness:
  "generate_task_data_iso_xml demo_ddop = None"
  using xml_throws_iff_short_label [of demo_ddop demo_dvc, OF demo_resolves _ _ demo_built]
  by (simp add: demo_defs)

text \<open>Witness of C36: the section of the concrete pool.\<close>

theorem section_bins_never_found_witness:
  "section_rates (parse_section demo_ddop demo_det) = [] \<and> sub_rates (parse_sub_boom demo_ddop demo_det) = []"
  by (rule section_bins_never_found [OF demo_generated]) (simp add: demo_ddop_def)

end
