(* ===== verification/Pgn_Requests.thy ===== *)
theory Pgn_Requests
  imports Can_Message "HOL-Library.Monad_Syntax"
begin

text \<open>
  Requests for parameter groups, \<open>src/isobus/src/can_parameter_group_number_request_protocol.cpp\<close>, and the record
  of the network the services of the stack see: a clock, the answers of \<open>send_can_message\<close>, the messages it took.
  The callbacks of the application are parameters. \<open>None\<close> is a null pointer or a read past the end of a message.
\<close>

section \<open>The network a service sees\<close>

text \<open>The clock, the answers \<open>send_can_message\<close> gives (one for each call), the messages it accepted.\<close>

record sent_message =
  sent_pgn :: u32
  sent_data :: "u8 list"
  sent_source :: "cf option"
  sent_destination :: "cf option"
  sent_priority :: CANPriority

record bus =
  clock_ms :: u32
  bus_accepts :: "nat \<Rightarrow> bool"
  bus_calls :: nat
  bus_sent :: "sent_message list"

definition bus_send :: "sent_message \<Rightarrow> 'b bus_scheme \<Rightarrow> bool \<times> 'b bus_scheme" where
  "bus_send m w =
     (if bus_accepts w (bus_calls w) then (True, w\<lparr>bus_calls := Suc (bus_calls w), bus_sent := bus_sent w @ [m]\<rparr>)
      else (False, w\<lparr>bus_calls := Suc (bus_calls w)\<rparr>))"

definition expired :: "u32 \<Rightarrow> u32 \<Rightarrow> 'b bus_scheme \<Rightarrow> bool" where
  \<comment> \<open>\<open>SystemTiming::time_expired_ms\<close>\<close>
  "expired timestamp timeout w \<longleftrightarrow> timeout \<le> clock_ms w - timestamp"

lemma bus_send_fields [simp]:
  "clock_ms (snd (bus_send m w)) = clock_ms w" "bus_accepts (snd (bus_send m w)) = bus_accepts w"
  "bus.more (snd (bus_send m w)) = bus.more w" "bus_calls (snd (bus_send m w)) = Suc (bus_calls w)"
  "fst (bus_send m w) = bus_accepts w (bus_calls w)"
  "bus_sent (snd (bus_send m w)) = bus_sent w @ (if bus_accepts w (bus_calls w) then [m] else [])"
  by (simp_all add: bus_send_def)

section \<open>Requests for parameter groups\<close>

abbreviation PGN_Any :: u32 where "PGN_Any \<equiv> 0"
abbreviation PGN_RequestForRepetitionRate :: u32 where "PGN_RequestForRepetitionRate \<equiv> 0xCC00"
abbreviation PGN_Acknowledge :: u32 where "PGN_Acknowledge \<equiv> 0xE800"
abbreviation PGN_ParameterGroupNumberRequest :: u32 where "PGN_ParameterGroupNumberRequest \<equiv> 0xEA00"

datatype AcknowledgementType = Positive | Negative | AccessDenied | CannotRespond

fun ack_code :: "AcknowledgementType \<Rightarrow> u8" where
  "ack_code Positive = 0" | "ack_code Negative = 1" | "ack_code AccessDenied = 2" | "ack_code CannotRespond = 3"

record PGNCallbackInfo =
  callbackFunction :: nat
  callback_pgn :: u32
  callback_parent :: nat

text \<open>The application behind the callbacks: the function with that number and parent, called with the group, the
  source and the two variables it may change, returns whether it handled the request.\<close>

type_synonym pgn_callback = "nat \<Rightarrow> nat \<Rightarrow> u32 \<Rightarrow> cf option \<Rightarrow> bool \<times> AcknowledgementType \<Rightarrow> bool \<times> (bool \<times> AcknowledgementType)"
type_synonym rate_callback = "nat \<Rightarrow> nat \<Rightarrow> u32 \<Rightarrow> cf option \<Rightarrow> cf option \<Rightarrow> u16 \<Rightarrow> bool"

record pgn_requests = bus +
  pgn_myControlFunction :: cf
  pgnRequestCallbacks :: "PGNCallbackInfo list"
  repetitionRateCallbacks :: "PGNCallbackInfo list"
  rate_calls :: "(PGNCallbackInfo \<times> u32 \<times> u16) list" \<comment> \<open>the callbacks for a repetition rate that ran\<close>

definition pgn_request_message :: "u32 \<Rightarrow> cf option \<Rightarrow> cf option \<Rightarrow> sent_message" where
  "pgn_request_message pgn source destination =
     \<lparr>sent_pgn = PGN_ParameterGroupNumberRequest, sent_data = le_bytes 3 pgn, sent_source = source,
      sent_destination = destination, sent_priority = PriorityDefault6\<rparr>"

definition request_parameter_group_number :: "u32 \<Rightarrow> cf option \<Rightarrow> cf option \<Rightarrow> 'b bus_scheme \<Rightarrow> bool \<times> 'b bus_scheme" where
  "request_parameter_group_number pgn source destination = bus_send (pgn_request_message pgn source destination)"

definition request_repetition_rate :: "u32 \<Rightarrow> u16 \<Rightarrow> cf option \<Rightarrow> cf option \<Rightarrow> 'b bus_scheme \<Rightarrow> bool \<times> 'b bus_scheme" where
  "request_repetition_rate pgn rate source destination =
     bus_send \<lparr>sent_pgn = PGN_RequestForRepetitionRate, sent_data = le_bytes 3 pgn @ le_bytes 2 rate @ [0xFF, 0xFF, 0xFF],
               sent_source = source, sent_destination = destination, sent_priority = PriorityDefault6\<rparr>"

definition register_in :: "PGNCallbackInfo \<Rightarrow> PGNCallbackInfo list \<Rightarrow> bool \<times> PGNCallbackInfo list" where
  "register_in info infos = (if info \<notin> set infos then (True, infos @ [info]) else (False, infos))"

definition remove_from :: "PGNCallbackInfo \<Rightarrow> PGNCallbackInfo list \<Rightarrow> bool \<times> PGNCallbackInfo list" where
  "remove_from info infos = (if info \<in> set infos then (True, remove1 info infos) else (False, infos))"

definition register_pgn_request_callback :: "PGNCallbackInfo option \<Rightarrow> 'b pgn_requests_scheme \<Rightarrow> bool \<times> 'b pgn_requests_scheme" where
  \<comment> \<open>\<open>None\<close>: the callback is null\<close>
  "register_pgn_request_callback info r =
     (case info of None \<Rightarrow> (False, r)
      | Some i \<Rightarrow> let (ok, xs) = register_in i (pgnRequestCallbacks r) in (ok, r\<lparr>pgnRequestCallbacks := xs\<rparr>))"

definition register_request_for_repetition_rate_callback ::
    "PGNCallbackInfo option \<Rightarrow> 'b pgn_requests_scheme \<Rightarrow> bool \<times> 'b pgn_requests_scheme" where
  "register_request_for_repetition_rate_callback info r =
     (case info of None \<Rightarrow> (False, r)
      | Some i \<Rightarrow> let (ok, xs) = register_in i (repetitionRateCallbacks r) in (ok, r\<lparr>repetitionRateCallbacks := xs\<rparr>))"

definition remove_pgn_request_callback :: "PGNCallbackInfo \<Rightarrow> 'b pgn_requests_scheme \<Rightarrow> bool \<times> 'b pgn_requests_scheme" where
  "remove_pgn_request_callback info r =
     (let (ok, xs) = remove_from info (pgnRequestCallbacks r) in (ok, r\<lparr>pgnRequestCallbacks := xs\<rparr>))"

definition remove_request_for_repetition_rate_callback ::
    "PGNCallbackInfo \<Rightarrow> 'b pgn_requests_scheme \<Rightarrow> bool \<times> 'b pgn_requests_scheme" where
  "remove_request_for_repetition_rate_callback info r =
     (let (ok, xs) = remove_from info (repetitionRateCallbacks r) in (ok, r\<lparr>repetitionRateCallbacks := xs\<rparr>))"

definition send_acknowledgement ::
    "cf_store \<Rightarrow> AcknowledgementType \<Rightarrow> u32 \<Rightarrow> cf option \<Rightarrow> 'b pgn_requests_scheme \<Rightarrow> bool \<times> 'b pgn_requests_scheme" where
  "send_acknowledgement cfs type pgn destination r =
     (case destination of
        None \<Rightarrow> (False, r)
      | Some d \<Rightarrow> bus_send \<lparr>sent_pgn = PGN_Acknowledge,
          sent_data = [ack_code type, 0xFF, 0xFF, 0xFF, address (cfs d)] @ le_bytes 3 pgn,
          sent_source = Some (pgn_myControlFunction r), sent_destination = None, sent_priority = PriorityDefault6\<rparr> r)"

definition callback_matches :: "u32 \<Rightarrow> PGNCallbackInfo \<Rightarrow> bool" where
  "callback_matches pgn info \<longleftrightarrow> callback_pgn info = pgn \<or> PGN_Any = callback_pgn info"

fun run_rate_callbacks :: "rate_callback \<Rightarrow> u32 \<Rightarrow> cf option \<Rightarrow> cf option \<Rightarrow> u16 \<Rightarrow> PGNCallbackInfo list \<Rightarrow>
    'b pgn_requests_scheme \<Rightarrow> 'b pgn_requests_scheme" where
  "run_rate_callbacks f pgn source destination rate [] r = r"
| "run_rate_callbacks f pgn source destination rate (info # infos) r =
     (if callback_matches pgn info
      then let r1 = r\<lparr>rate_calls := rate_calls r @ [(info, pgn, rate)]\<rparr>
           in if f (callbackFunction info) (callback_parent info) pgn source destination rate then r1
              else run_rate_callbacks f pgn source destination rate infos r1
      else run_rate_callbacks f pgn source destination rate infos r)"

fun run_pgn_callbacks :: "pgn_callback \<Rightarrow> u32 \<Rightarrow> cf option \<Rightarrow> bool \<times> AcknowledgementType \<Rightarrow> PGNCallbackInfo list \<Rightarrow>
    bool \<times> (bool \<times> AcknowledgementType)" where
  \<comment> \<open>\<open>anyCallbackProcessed\<close>, and the two variables, which keep what a callback that declined wrote\<close>
  "run_pgn_callbacks f pgn source vars [] = (False, vars)"
| "run_pgn_callbacks f pgn source vars (info # infos) =
     (if callback_matches pgn info
      then let (handled, vars1) = f (callbackFunction info) (callback_parent info) pgn source vars
           in if handled then (True, vars1) else run_pgn_callbacks f pgn source vars1 infos
      else run_pgn_callbacks f pgn source vars infos)"

definition process_pgn_request :: "cf_store \<Rightarrow> pgn_callback \<Rightarrow> CANMessage \<Rightarrow> 'b pgn_requests_scheme \<Rightarrow>
    'b pgn_requests_scheme option" where
  "process_pgn_request cfs f m r =
     (if 3 \<le> get_data_length m
      then do {
        requestedPGN \<leftarrow> get_uint24_at 0 LittleEndian m;
        let (anyCallbackProcessed, shouldAck, ackType) =
              run_pgn_callbacks f requestedPGN (msg_source m) (False, Negative) (pgnRequestCallbacks r);
            r1 = (if anyCallbackProcessed \<and> shouldAck \<and> msg_destination m \<noteq> None
                  then snd (send_acknowledgement cfs ackType requestedPGN (msg_source m) r) else r) in
        Some (if \<not> anyCallbackProcessed \<and> msg_destination m \<noteq> None
              then snd (send_acknowledgement cfs Negative requestedPGN (msg_source m) r1) else r1)}
      else Some r)"

definition process_rate_request :: "rate_callback \<Rightarrow> CANMessage \<Rightarrow> 'b pgn_requests_scheme \<Rightarrow>
    'b pgn_requests_scheme option" where
  "process_rate_request g m r =
     (if get_data_length m = 8 \<and> msg_destination m \<noteq> None
      then do {
        requestedPGN \<leftarrow> get_uint24_at 0 LittleEndian m;
        requestedRate \<leftarrow> get_uint16_at 3 LittleEndian m;
        Some (run_rate_callbacks g requestedPGN (msg_source m) (msg_destination m) requestedRate (repetitionRateCallbacks r) r)}
      else Some r)"

definition process_request_message :: "cf_store \<Rightarrow> pgn_callback \<Rightarrow> rate_callback \<Rightarrow> CANMessage \<Rightarrow> 'b pgn_requests_scheme \<Rightarrow>
    'b pgn_requests_scheme option" where
  "process_request_message cfs f g m r =
     (if (msg_destination m = None \<and> get_destination_address (msg_identifier m) = GLOBAL_ADDRESS)
         \<or> msg_destination m = Some (pgn_myControlFunction r)
      then
        let pgn = get_parameter_group_number (msg_identifier m)
        in if pgn = PGN_RequestForRepetitionRate then process_rate_request g m r
           else if pgn = PGN_ParameterGroupNumberRequest then process_pgn_request cfs f m r
           else Some r
      else Some r)"

section \<open>What a request brings\<close>

lemma uint24_there: "3 \<le> length (msg_data m) \<Longrightarrow> length (msg_data m) < 2 ^ 32 \<Longrightarrow> \<exists>v. get_uint24_at 0 LittleEndian m = Some v"
  by (simp add: get_uint24_at_def get_bytes_at_ok)

definition acknowledgement :: "cf_store \<Rightarrow> AcknowledgementType \<Rightarrow> u32 \<Rightarrow> cf \<Rightarrow> cf \<Rightarrow> sent_message" where
  "acknowledgement cfs type pgn requester me =
     \<lparr>sent_pgn = PGN_Acknowledge, sent_data = [ack_code type, 0xFF, 0xFF, 0xFF, address (cfs requester)] @ le_bytes 3 pgn,
      sent_source = Some me, sent_destination = None, sent_priority = PriorityDefault6\<rparr>"

lemma matching_only: "run_pgn_callbacks f pgn source vars infos = run_pgn_callbacks f pgn source vars (filter (callback_matches pgn) infos)"
  by (induction infos arbitrary: vars) (auto split: prod.split)

theorem request_answered_once:
  assumes "get_parameter_group_number (msg_identifier m) = PGN_ParameterGroupNumberRequest"
    "length (msg_data m) = 3 \<or> length (msg_data m) = 8" "msg_source m = Some requester"
    "msg_destination m = Some (pgn_myControlFunction r)" "bus_accepts r (bus_calls r)"
    "get_uint24_at 0 LittleEndian m = Some pgn"
    "run_pgn_callbacks f pgn (Some requester) (False, Negative) (pgnRequestCallbacks r) = (handled, shouldAck, type)"
  shows "\<exists>r'. process_request_message cfs f g m r = Some r'
     \<and> bus_sent r' = bus_sent r @ (if handled then (if shouldAck then [acknowledgement cfs type pgn requester (pgn_myControlFunction r)] else [])
                                   else [acknowledgement cfs Negative pgn requester (pgn_myControlFunction r)])
     \<and> pgnRequestCallbacks r' = pgnRequestCallbacks r"
proof -
  have "3 \<le> get_data_length m" using assms(2) by (auto simp: get_data_length_def word_le_nat_alt)
  then have "process_request_message cfs f g m r =
      Some (if handled then (if shouldAck then snd (send_acknowledgement cfs type pgn (Some requester) r) else r)
            else snd (send_acknowledgement cfs Negative pgn (Some requester) r))"
    using assms by (simp add: process_request_message_def process_pgn_request_def Let_def)
  then show ?thesis
    using assms(5) by (auto simp: send_acknowledgement_def acknowledgement_def bus_send_def)
qed

theorem broadcast_request_not_answered:
  assumes "msg_destination m = None" "process_request_message cfs f g m r = Some r'"
  shows "bus_sent r' = bus_sent r"
  using assms by (auto simp: process_request_message_def process_pgn_request_def process_rate_request_def bind_eq_Some_conv
      Let_def split: if_split_asm prod.split_asm)

theorem declined_answer_leaks:
  assumes "get_parameter_group_number (msg_identifier m) = PGN_ParameterGroupNumberRequest"
    "length (msg_data m) = 3 \<or> length (msg_data m) = 8" "msg_source m = Some requester"
    "msg_destination m = Some (pgn_myControlFunction r)" "bus_accepts r (bus_calls r)"
    "get_uint24_at 0 LittleEndian m = Some pgn" "pgnRequestCallbacks r = [a, b]" "callback_matches pgn a" "callback_matches pgn b"
    "f (callbackFunction a) (callback_parent a) pgn (Some requester) (False, Negative) = (False, True, type)"
    "\<forall>vars. f (callbackFunction b) (callback_parent b) pgn (Some requester) vars = (True, vars)"
  shows "\<exists>r'. process_request_message cfs f g m r = Some r'
     \<and> bus_sent r' = bus_sent r @ [acknowledgement cfs type pgn requester (pgn_myControlFunction r)]"
proof -
  have "run_pgn_callbacks f pgn (Some requester) (False, Negative) (pgnRequestCallbacks r) = (True, True, type)"
    using assms(7-11) by simp
  from request_answered_once [OF assms(1-6) this, of cfs g] show ?thesis by auto
qed

section \<open>A concrete request\<close>

text \<open>A request for group 0xFEE6 to control function 1, whose first callback declines after it asked for a positive
  acknowledgement and whose second one takes the request.\<close>

definition demo_request :: CANMessage where
  "demo_request = \<lparr>messageType = Receive, msg_identifier = \<lparr>m_RawIdentifier = 0x98EA1C26\<rparr>, msg_data = [0xE6, 0xFE, 0],
     msg_source = Some 2, msg_destination = Some 1, msg_port = 0, timestamp_us = 0\<rparr>"

definition demo_requests :: pgn_requests where
  "demo_requests = \<lparr>clock_ms = 0, bus_accepts = (\<lambda>_. True), bus_calls = 0, bus_sent = [], pgn_myControlFunction = 1,
     pgnRequestCallbacks = [\<lparr>callbackFunction = 0, callback_pgn = 0xFEE6, callback_parent = 0\<rparr>, \<lparr>callbackFunction = 1, callback_pgn = 0, callback_parent = 0\<rparr>],
     repetitionRateCallbacks = [], rate_calls = []\<rparr>"

definition demo_callbacks :: pgn_callback where
  "demo_callbacks fn parent pgn source vars = (if fn = 0 then (False, True, Positive) else (True, vars))"

lemmas demo_request_defs = demo_request_def demo_requests_def demo_callbacks_def callback_matches_def

lemma demo_request_group: "get_parameter_group_number (msg_identifier demo_request) = PGN_ParameterGroupNumberRequest"
  by (simp add: demo_request_def get_parameter_group_number_def get_identifier_type_def)

lemma demo_request_value: "get_uint24_at 0 LittleEndian demo_request = Some 0xFEE6"
  by (simp add: demo_request_def get_uint24_at_def get_bytes_at_ok)

theorem request_answered_once_witness:
  "\<forall>cfs g. \<exists>r'. process_request_message cfs demo_callbacks g demo_request demo_requests = Some r'
     \<and> bus_sent r' = [acknowledgement cfs Positive 0xFEE6 2 1]"
  using request_answered_once [OF demo_request_group _ _ _ _ demo_request_value, of 2 demo_requests demo_callbacks True True Positive]
  by (auto simp: demo_request_defs)

theorem declined_answer_leaks_witness:
  "\<forall>cfs g. \<exists>r'. process_request_message cfs demo_callbacks g demo_request demo_requests = Some r'
     \<and> bus_sent r' = bus_sent demo_requests @ [acknowledgement cfs Positive 0xFEE6 2 (pgn_myControlFunction demo_requests)]"
  by (intro allI declined_answer_leaks [OF demo_request_group _ _ _ _ demo_request_value]) (auto simp: demo_request_defs)

end
