(* ===== verification/Heartbeats.thy ===== *)
theory Heartbeats
  imports Pgn_Requests
begin

text \<open>
  The heartbeat interface, \<open>src/isobus/src/isobus_heartbeat.cpp\<close>: the tracked heartbeats, the periodic update,
  received heartbeats and requests. The calls of the two event dispatchers are a log.
\<close>

section \<open>The interface\<close>

abbreviation PGN_Heartbeat :: u32 where "PGN_Heartbeat \<equiv> 0xF0E4"
abbreviation SEQUENCE_INITIAL :: u8 where "SEQUENCE_INITIAL \<equiv> 251"
abbreviation SEQUENCE_TIMEOUT_MS :: u32 where "SEQUENCE_TIMEOUT_MS \<equiv> 300"
abbreviation SEQUENCE_REPETITION_RATE_MS :: u16 where "SEQUENCE_REPETITION_RATE_MS \<equiv> 100"

record Heartbeat =
  hb_controlFunction :: "cf option"
  hb_timestamp_ms :: u32
  repetitionRate_ms :: u32
  sequenceCounter :: u8

datatype heartbeat_event = HeartbeatTimedOut "cf option" | InvalidSequenceCounter "cf option" | NewTrackedHeartbeat "cf option"

record heartbeat_interface = bus +
  heartbeat_enabled :: bool
  trackedHeartbeats :: "Heartbeat list"
  heartbeat_events :: "heartbeat_event list" \<comment> \<open>what the two dispatchers called\<close>

definition set_enabled :: "bool \<Rightarrow> heartbeat_interface \<Rightarrow> heartbeat_interface" where
  "set_enabled enable h = h\<lparr>heartbeat_enabled := enable\<rparr>"

definition request_heartbeat :: "cf option \<Rightarrow> cf option \<Rightarrow> heartbeat_interface \<Rightarrow> bool \<times> heartbeat_interface" where
  "request_heartbeat source destination h =
     (if source \<noteq> None \<and> destination \<noteq> None \<and> heartbeat_enabled h
      then request_repetition_rate PGN_Heartbeat SEQUENCE_REPETITION_RATE_MS source destination h else (False, h))"

definition new_heartbeat :: "cf option \<Rightarrow> heartbeat_interface \<Rightarrow> Heartbeat" where
  "new_heartbeat c h = \<lparr>hb_controlFunction = c, hb_timestamp_ms = clock_ms h, repetitionRate_ms = 100,
     sequenceCounter = SEQUENCE_INITIAL\<rparr>"

definition send_heartbeat :: "Heartbeat \<Rightarrow> heartbeat_interface \<Rightarrow> bool \<times> Heartbeat \<times> heartbeat_interface" where
  "send_heartbeat b h =
     (let (ok, h1) = bus_send \<lparr>sent_pgn = PGN_Heartbeat, sent_data = [sequenceCounter b], sent_source = hb_controlFunction b,
                               sent_destination = None, sent_priority = Priority3\<rparr> h
      in (ok, if ok then b\<lparr>hb_timestamp_ms := clock_ms h1\<rparr> else b, h1))"

definition next_counter :: "u8 \<Rightarrow> u8" where
  "next_counter c = (if c + 1 > 250 then 0 else c + 1)"

definition update_heartbeat :: "cf_store \<Rightarrow> Heartbeat \<Rightarrow> heartbeat_interface \<Rightarrow> bool \<times> Heartbeat \<times> heartbeat_interface" where
  \<comment> \<open>the predicate of \<open>remove_if\<close>: whether the heartbeat goes, and what it did to it\<close>
  "update_heartbeat cfs b h =
     (case hb_controlFunction b of
        None \<Rightarrow> (True, b, h)
      | Some c \<Rightarrow>
          if controlFunctionType (cfs c) = CF_Internal
          then (if expired (hb_timestamp_ms b) (repetitionRate_ms b) h
                then let (ok, b1, h1) = send_heartbeat b h
                     in (False, if ok then b1\<lparr>sequenceCounter := next_counter (sequenceCounter b1)\<rparr> else b1, h1)
                else (False, b, h))
          else if expired (hb_timestamp_ms b) SEQUENCE_TIMEOUT_MS h
               then (True, b, h\<lparr>heartbeat_events := heartbeat_events h @ [HeartbeatTimedOut (Some c)]\<rparr>)
               else (False, b, h))"

fun update_heartbeats :: "cf_store \<Rightarrow> Heartbeat list \<Rightarrow> heartbeat_interface \<Rightarrow> Heartbeat list \<times> heartbeat_interface" where
  "update_heartbeats cfs [] h = ([], h)"
| "update_heartbeats cfs (b # bs) h =
     (let (gone, b1, h1) = update_heartbeat cfs b h;
          (rest, h2) = update_heartbeats cfs bs h1
      in (if gone then rest else b1 # rest, h2))"

definition heartbeat_update :: "cf_store \<Rightarrow> heartbeat_interface \<Rightarrow> heartbeat_interface" where
  "heartbeat_update cfs h =
     (if heartbeat_enabled h
      then let (bs, h1) = update_heartbeats cfs (trackedHeartbeats h) h in h1\<lparr>trackedHeartbeats := bs\<rparr>
      else h)"

fun stamp_first :: "cf option \<Rightarrow> u32 \<Rightarrow> Heartbeat list \<Rightarrow> Heartbeat list" where
  \<comment> \<open>the time stamp of the first heartbeat of that control function\<close>
  "stamp_first c t [] = []"
| "stamp_first c t (b # bs) =
     (if c = hb_controlFunction b then b\<lparr>hb_timestamp_ms := t\<rparr> # bs else b # stamp_first c t bs)"

definition set_back_counter :: "u8 \<Rightarrow> Heartbeat list \<Rightarrow> Heartbeat list" where
  \<comment> \<open>\<open>trackedHeartbeats.back().sequenceCounter = c\<close>\<close>
  "set_back_counter c bs = (if bs = [] then [] else butlast bs @ [(last bs)\<lparr>sequenceCounter := c\<rparr>])"

definition process_heartbeat :: "CANMessage \<Rightarrow> heartbeat_interface \<Rightarrow> heartbeat_interface option" where
  "process_heartbeat m h =
     (if heartbeat_enabled h \<and> get_parameter_group_number (msg_identifier m) = PGN_Heartbeat
         \<and> msg_source m \<noteq> None \<and> 1 \<le> get_data_length m
      then do {
        c \<leftarrow> get_uint8_at 0 m;
        Some (case find (\<lambda>b. msg_source m = hb_controlFunction b) (trackedHeartbeats h) of
          Some b \<Rightarrow>
            let wrong = (c = sequenceCounter b \<or> unat c \<noteq> (unat (sequenceCounter b) + 1) mod 250)
            in h\<lparr>heartbeat_events := heartbeat_events h @ (if wrong then [InvalidSequenceCounter (msg_source m)] else []),
                 trackedHeartbeats := set_back_counter c (stamp_first (msg_source m) (clock_ms h) (trackedHeartbeats h))\<rparr>
        | None \<Rightarrow>
            h\<lparr>trackedHeartbeats := trackedHeartbeats h @ [(new_heartbeat (msg_source m) h)\<lparr>hb_timestamp_ms := clock_ms h, sequenceCounter := c\<rparr>],
              heartbeat_events := heartbeat_events h @ [NewTrackedHeartbeat (msg_source m)]\<rparr>)}
      else Some h)"

definition process_request_for_heartbeat :: "u32 \<Rightarrow> cf option \<Rightarrow> heartbeat_interface \<Rightarrow> bool \<times> heartbeat_interface" where
  "process_request_for_heartbeat pgn target h =
     (if heartbeat_enabled h \<and> pgn = PGN_Heartbeat
      then (True, if find (\<lambda>b. target = hb_controlFunction b) (trackedHeartbeats h) = None
                  then h\<lparr>trackedHeartbeats := trackedHeartbeats h @ [(new_heartbeat target h)\<lparr>hb_timestamp_ms := 0\<rparr>]\<rparr>
                  else h)
      else (False, h))"

section \<open>Sender and receiver\<close>

text \<open>The frame with a counter.\<close>

definition heartbeat_frame :: "cf \<Rightarrow> u8 \<Rightarrow> CANMessage \<Rightarrow> bool" where
  "heartbeat_frame s c m \<longleftrightarrow> get_parameter_group_number (msg_identifier m) = PGN_Heartbeat \<and> msg_source m = Some s \<and> msg_data m = [c]"

lemma heartbeat_received:
  assumes "heartbeat_frame s c m" "heartbeat_enabled h"
  shows "process_heartbeat m h = Some
     (case find (\<lambda>b. Some s = hb_controlFunction b) (trackedHeartbeats h) of
        Some b \<Rightarrow>
          h\<lparr>heartbeat_events := heartbeat_events h @
              (if c = sequenceCounter b \<or> unat c \<noteq> (unat (sequenceCounter b) + 1) mod 250 then [InvalidSequenceCounter (Some s)] else []),
            trackedHeartbeats := set_back_counter c (stamp_first (Some s) (clock_ms h) (trackedHeartbeats h))\<rparr>
      | None \<Rightarrow>
          h\<lparr>trackedHeartbeats := trackedHeartbeats h @ [(new_heartbeat (Some s) h)\<lparr>hb_timestamp_ms := clock_ms h, sequenceCounter := c\<rparr>],
            heartbeat_events := heartbeat_events h @ [NewTrackedHeartbeat (Some s)]\<rparr>)"
  using assms by (simp add: process_heartbeat_def heartbeat_frame_def get_data_length_def get_uint8_at_def checked_nth_def Let_def
      split: option.split)

text \<open>The counters a sender puts on the bus follow \<open>next_counter\<close>; the receiver expects the successor modulo 250.\<close>

lemma next_counter_value: "unat (next_counter c) = (if 250 \<le> unat c then 0 else unat c + 1)"
proof (cases "unat c + 1 < 256")
  case True
  then have "unat (c + 1) = unat c + 1" by (simp add: unat_word_ariths)
  then show ?thesis by (simp add: next_counter_def word_less_nat_alt)
next
  case False
  then have "unat c = 255" using unat_u8_bound [of c] by linarith
  then have "c = 255" by (simp add: word_unat_eq_iff)
  then show ?thesis by (simp add: next_counter_def)
qed

lemma receiver_expects:
  assumes "c \<le> 251"
  shows "(next_counter c = c \<or> unat (next_counter c) \<noteq> (unat c + 1) mod 250) \<longleftrightarrow> c \<in> {249, 250, 251}"
proof -
  have c: "unat c \<le> 251" using assms by (simp add: word_le_nat_alt)
  have m: "c \<in> {249, 250, 251} \<longleftrightarrow> unat c \<in> {249, 250, 251}" by (simp add: word_unat_eq_iff)
  have w: "next_counter c = c \<longleftrightarrow> unat (next_counter c) = unat c" by (simp add: word_unat_eq_iff)
  show ?thesis unfolding m w next_counter_value
  proof (cases "250 \<le> unat c")
    case True
    then have "unat c = 250 \<or> unat c = 251" using c by auto
    then show "((if 250 \<le> unat c then 0 else unat c + 1) = unat c \<or> (if 250 \<le> unat c then 0 else unat c + 1) \<noteq> (unat c + 1) mod 250)
        = (unat c \<in> {249, 250, 251})" by auto
  next
    case False
    then show "((if 250 \<le> unat c then 0 else unat c + 1) = unat c \<or> (if 250 \<le> unat c then 0 else unat c + 1) \<noteq> (unat c + 1) mod 250)
        = (unat c \<in> {249, 250, 251})" by (cases "unat c = 249") auto
  qed
qed

text \<open>Heartbeats that arrive one after the other, each at its time.\<close>

fun receive_beats :: "(u32 \<times> CANMessage) list \<Rightarrow> heartbeat_interface \<Rightarrow> heartbeat_interface option" where
  "receive_beats [] h = Some h"
| "receive_beats ((t, m) # beats) h = Option.bind (process_heartbeat m (h\<lparr>clock_ms := t\<rparr>)) (receive_beats beats)"

text \<open>The sender \<open>s\<close> is the last one tracked, and the last counter it sent was \<open>c\<close>.\<close>

definition last_tracked :: "cf \<Rightarrow> u8 \<Rightarrow> heartbeat_interface \<Rightarrow> bool" where
  "last_tracked s c h \<longleftrightarrow> heartbeat_enabled h \<and> (\<exists>bs b. trackedHeartbeats h = bs @ [b] \<and> (\<forall>x \<in> set bs. hb_controlFunction x \<noteq> Some s)
     \<and> hb_controlFunction b = Some s \<and> sequenceCounter b = c)"

lemma stamp_last: "\<forall>x \<in> set bs. hb_controlFunction x \<noteq> c \<Longrightarrow> hb_controlFunction b = c \<Longrightarrow>
    stamp_first c t (bs @ [b]) = bs @ [b\<lparr>hb_timestamp_ms := t\<rparr>]"
  by (induction bs) auto

lemma find_last: "\<forall>x \<in> set bs. hb_controlFunction x \<noteq> c \<Longrightarrow> hb_controlFunction b = c \<Longrightarrow>
    find (\<lambda>x. c = hb_controlFunction x) (bs @ [b]) = Some b"
  by (induction bs) auto

lemma first_beat:
  assumes "heartbeat_frame s c m" "heartbeat_enabled h" "\<forall>b \<in> set (trackedHeartbeats h). hb_controlFunction b \<noteq> Some s"
  shows "\<exists>h'. process_heartbeat m h = Some h' \<and> last_tracked s c h' \<and> heartbeat_events h' = heartbeat_events h @ [NewTrackedHeartbeat (Some s)]"
proof -
  have "find (\<lambda>b. Some s = hb_controlFunction b) (trackedHeartbeats h) = None" using assms(3) by (auto simp: find_None_iff)
  then show ?thesis using heartbeat_received [OF assms(1,2)] assms(2,3)
    by (auto simp: last_tracked_def new_heartbeat_def)
qed

lemma next_beat:
  assumes "heartbeat_frame s (next_counter c) m" "last_tracked s c h" "c \<le> 251"
  shows "\<exists>h'. process_heartbeat m h = Some h' \<and> last_tracked s (next_counter c) h'
    \<and> heartbeat_events h' = heartbeat_events h @ (if c \<in> {249, 250, 251} then [InvalidSequenceCounter (Some s)] else [])"
proof -
  obtain bs b where h: "heartbeat_enabled h" "trackedHeartbeats h = bs @ [b]" "\<forall>x \<in> set bs. hb_controlFunction x \<noteq> Some s"
      "hb_controlFunction b = Some s" "sequenceCounter b = c" using assms(2) by (auto simp: last_tracked_def)
  have "process_heartbeat m h = Some (h\<lparr>heartbeat_events := heartbeat_events h @ (if c \<in> {249, 250, 251} then [InvalidSequenceCounter (Some s)] else []),
      trackedHeartbeats := bs @ [b\<lparr>hb_timestamp_ms := clock_ms h, sequenceCounter := next_counter c\<rparr>]\<rparr>)"
    unfolding heartbeat_received [OF assms(1) h(1)] h(2) find_last [OF h(3,4)] option.case stamp_last [OF h(3,4)] h(5)
      receiver_expects [OF assms(3)] by (simp add: set_back_counter_def)
  then show ?thesis using h(1,3,4) by (auto simp: last_tracked_def)
qed

lemma next_counter_small: "c \<le> 251 \<Longrightarrow> next_counter c \<le> 251"
  using next_counter_value [of c] by (auto simp: word_le_nat_alt split: if_splits)

lemma later_beats:
  assumes "last_tracked s c h" "c \<le> 251" "list_all2 (\<lambda>k (t, m). heartbeat_frame s ((next_counter ^^ k) c) m) [1..<Suc n] beats"
  shows "\<exists>h'. receive_beats beats h = Some h' \<and> heartbeat_events h' = heartbeat_events h @
    concat (map (\<lambda>k. if (next_counter ^^ k) c \<in> {249, 250, 251} then [InvalidSequenceCounter (Some s)] else []) [0..<n])"
  using assms
proof (induction n arbitrary: c h beats)
  case (Suc n)
  have "[1..<Suc (Suc n)] = 1 # map Suc [1..<Suc n]" by (simp add: upt_conv_Cons map_Suc_upt del: upt_Suc)
  then obtain t m rest where b: "beats = (t, m) # rest" "heartbeat_frame s (next_counter c) m"
      "list_all2 (\<lambda>k (t, m). heartbeat_frame s ((next_counter ^^ k) (next_counter c)) m) [1..<Suc n] rest"
    using Suc.prems(3) by (auto simp: list_all2_Cons1 list.rel_map funpow_swap1 simp del: upt_Suc)
  have "last_tracked s c (h\<lparr>clock_ms := t\<rparr>)" using Suc.prems(1) by (simp add: last_tracked_def)
  from next_beat [OF b(2) this Suc.prems(2)] obtain h1 where h1: "process_heartbeat m (h\<lparr>clock_ms := t\<rparr>) = Some h1"
      "last_tracked s (next_counter c) h1"
      "heartbeat_events h1 = heartbeat_events h @ (if c \<in> {249, 250, 251} then [InvalidSequenceCounter (Some s)] else [])" by auto
  have "[0..<Suc n] = 0 # map Suc [0..<n]" by (simp add: upt_conv_Cons map_Suc_upt del: upt_Suc)
  then show ?case using Suc.IH [OF h1(2) next_counter_small [OF Suc.prems(2)] b(3)] h1(1,3)
    by (auto simp: b(1) funpow_swap1 comp_def simp del: upt_Suc)
qed simp

text \<open>
  C28: An interface that is enabled and does not track a sender yet, whatever other senders it tracks, takes the
  first heartbeats of that sender, any number of them at any times and with nothing in between, whose counters go on as this interface's own
  do when it sends (251 once, then 0 to 250 again and again). It reports the new sender, and then an invalid
  sequence counter after exactly those counters that are 249, 250 or 251, for it expects the successor modulo 250: a correct sender
  raises two alarms in every round.
\<close>

theorem heartbeat_false_alarm:
  assumes "heartbeat_enabled h" "\<forall>b \<in> set (trackedHeartbeats h). hb_controlFunction b \<noteq> Some s" "c \<le> 251"
    "list_all2 (\<lambda>k (t, m). heartbeat_frame s ((next_counter ^^ k) c) m) [0..<Suc n] beats"
  shows "\<exists>h'. receive_beats beats h = Some h'
     \<and> heartbeat_events h' = heartbeat_events h @ NewTrackedHeartbeat (Some s) #
         concat (map (\<lambda>k. if (next_counter ^^ k) c \<in> {249, 250, 251} then [InvalidSequenceCounter (Some s)] else []) [0..<n])"
proof -
  have "[0..<Suc n] = 0 # [1..<Suc n]" by (simp add: upt_conv_Cons del: upt_Suc)
  then obtain t m rest where b: "beats = (t, m) # rest" "heartbeat_frame s c m"
      "list_all2 (\<lambda>k (t, m). heartbeat_frame s ((next_counter ^^ k) c) m) [1..<Suc n] rest"
    using assms(4) by (auto simp: list_all2_Cons1 simp del: upt_Suc)
  obtain h1 where h1: "process_heartbeat m (h\<lparr>clock_ms := t\<rparr>) = Some h1" "last_tracked s c h1"
      "heartbeat_events h1 = heartbeat_events h @ [NewTrackedHeartbeat (Some s)]"
    using first_beat [OF b(2), of "h\<lparr>clock_ms := t\<rparr>"] assms(1,2) by auto
  then show ?thesis using later_beats [OF h1(2) assms(3) b(3)] by (auto simp: b(1))
qed

theorem counter_stored_in_last:
  assumes "heartbeat_frame s c m" "heartbeat_enabled h" "trackedHeartbeats h = [a, b]" "hb_controlFunction a = Some s"
    "hb_controlFunction b \<noteq> Some s"
  shows "\<exists>h'. process_heartbeat m h = Some h'
     \<and> trackedHeartbeats h' = [a\<lparr>hb_timestamp_ms := clock_ms h\<rparr>, b\<lparr>sequenceCounter := c\<rparr>]"
  using heartbeat_received [OF assms(1,2)] assms(3-5) by (simp add: set_back_counter_def)

lemma external_heartbeats:
  assumes "\<forall>b \<in> set bs. \<exists>c. hb_controlFunction b = Some c \<and> controlFunctionType (cfs c) \<noteq> CF_Internal"
  shows "update_heartbeats cfs bs h = (filter (\<lambda>b. \<not> expired (hb_timestamp_ms b) 300 h) bs,
    h\<lparr>heartbeat_events := heartbeat_events h @ map (\<lambda>b. HeartbeatTimedOut (hb_controlFunction b)) (filter (\<lambda>b. expired (hb_timestamp_ms b) 300 h) bs)\<rparr>)"
  using assms
proof (induction bs arbitrary: h)
  case (Cons b bs)
  then obtain c where c: "hb_controlFunction b = Some c" "controlFunctionType (cfs c) \<noteq> CF_Internal" by auto
  have ih: "update_heartbeats cfs bs h' = (filter (\<lambda>b. \<not> expired (hb_timestamp_ms b) 300 h') bs,
    h'\<lparr>heartbeat_events := heartbeat_events h' @ map (\<lambda>b. HeartbeatTimedOut (hb_controlFunction b)) (filter (\<lambda>b. expired (hb_timestamp_ms b) 300 h') bs)\<rparr>)" for h'
    using Cons by simp
  show ?case by (simp add: update_heartbeat_def c ih expired_def)
qed simp

theorem silent_heartbeats_reported:
  assumes "heartbeat_enabled h" "\<forall>b \<in> set (trackedHeartbeats h). \<exists>c. hb_controlFunction b = Some c \<and> controlFunctionType (cfs c) \<noteq> CF_Internal"
  shows "trackedHeartbeats (heartbeat_update cfs h) = filter (\<lambda>b. clock_ms h - hb_timestamp_ms b < 300) (trackedHeartbeats h)
     \<and> heartbeat_events (heartbeat_update cfs h) = heartbeat_events h
         @ map (\<lambda>b. HeartbeatTimedOut (hb_controlFunction b)) (filter (\<lambda>b. 300 \<le> clock_ms h - hb_timestamp_ms b) (trackedHeartbeats h))"
  using assms external_heartbeats [OF assms(2)] by (simp add: heartbeat_update_def expired_def not_le)

section \<open>A concrete sender\<close>

definition demo_heartbeats :: heartbeat_interface where
  "demo_heartbeats = \<lparr>clock_ms = 1000, bus_accepts = (\<lambda>_. True), bus_calls = 0, bus_sent = [], heartbeat_enabled = True,
     trackedHeartbeats = [], heartbeat_events = []\<rparr>"

definition demo_beat :: "u8 \<Rightarrow> CANMessage" where
  "demo_beat c = \<lparr>messageType = Receive, msg_identifier = \<lparr>m_RawIdentifier = 0x8CF0E426\<rparr>, msg_data = [c],
     msg_source = Some 2, msg_destination = None, msg_port = 0, timestamp_us = 0\<rparr>"

lemma demo_beat_frame: "heartbeat_frame 2 c (demo_beat c)"
  by (simp add: heartbeat_frame_def demo_beat_def get_parameter_group_number_def get_identifier_type_def)

text \<open>Witness of C28: the first three heartbeats after start up.\<close>

theorem heartbeat_false_alarm_witness:
  "\<exists>h'. receive_beats [(1000, demo_beat 251), (1100, demo_beat 0), (1200, demo_beat 1)] demo_heartbeats = Some h'
     \<and> heartbeat_events h' = [NewTrackedHeartbeat (Some 2), InvalidSequenceCounter (Some 2)]"
proof -
  have c: "next_counter 251 = 0" "next_counter 0 = 1" by (simp_all add: next_counter_def)
  have p: "(next_counter ^^ 2) x = next_counter (next_counter x)" for x by (simp add: numeral_2_eq_2)
  have u: "[0..<Suc 2] = [0, 1, 2]" "[0..<2] = [0, 1]" by (simp_all add: upt_rec)
  have "\<exists>h'. receive_beats [(1000, demo_beat 251), (1100, demo_beat 0), (1200, demo_beat 1)] demo_heartbeats = Some h'
     \<and> heartbeat_events h' = heartbeat_events demo_heartbeats @ NewTrackedHeartbeat (Some 2) #
         concat (map (\<lambda>k. if (next_counter ^^ k) 251 \<in> {249, 250, 251} then [InvalidSequenceCounter (Some 2)] else []) [0..<2])"
  proof (rule heartbeat_false_alarm)
    show "list_all2 (\<lambda>k (t, m). heartbeat_frame 2 ((next_counter ^^ k) 251) m) [0..<Suc 2]
        [(1000, demo_beat 251), (1100, demo_beat 0), (1200, demo_beat 1)]"
      unfolding u by (simp add: demo_beat_frame p c)
  qed (simp_all add: demo_heartbeats_def)
  then show ?thesis unfolding u by (simp add: c demo_heartbeats_def)
qed

end
