(* ===== verification/Shortcut_Button.thy ===== *)
theory Shortcut_Button
  imports Pgn_Requests
begin

text \<open>
  The shortcut button interface, \<open>src/isobus/src/isobus_shortcut_button_interface.cpp\<close>: the known servers, the state
  of the bus they give, the periodic update and received switch states. The calls of the event dispatcher are a log.
\<close>

section \<open>The interface\<close>

abbreviation PGN_AllImplementsStop :: u32 where "PGN_AllImplementsStop \<equiv> 0xFD02"
abbreviation TRANSMISSION_RATE_MS :: u32 where "TRANSMISSION_RATE_MS \<equiv> 1000"
abbreviation TRANSMISSION_TIMEOUT_MS :: u32 where "TRANSMISSION_TIMEOUT_MS \<equiv> 3000"

datatype StopState = StopImplementOperations | PermitAllImplementsToOperationOn | StopStateError | StopStateNotAvailable

fun stop_code :: "StopState \<Rightarrow> u8" where
  "stop_code StopImplementOperations = 0" | "stop_code PermitAllImplementsToOperationOn = 1"
| "stop_code StopStateError = 2" | "stop_code StopStateNotAvailable = 3"

definition stop_of_code :: "u8 \<Rightarrow> StopState" where
  \<comment> \<open>the cast of the two low bits\<close>
  "stop_of_code b = (let c = b AND 0x03 in if c = 0 then StopImplementOperations
     else if c = 1 then PermitAllImplementsToOperationOn else if c = 2 then StopStateError else StopStateNotAvailable)"

record ISBServerData =
  ISONAME :: NAME
  isb_commandedState :: StopState
  messageReceivedTimestamp_ms :: u32
  isb_transitionNumber :: u8

record shortcut_button = bus +
  isobusShortcutButtonList :: "ISBServerData list"
  isb_sourceControlFunction :: cf
  isb_port :: u8
  isb_events :: "StopState list" \<comment> \<open>what the dispatcher called\<close>
  isb_sendFlag :: bool
  switchStateTimestamp_ms :: u32
  transitionNumber :: u8
  commandedState :: StopState
  actAsISBServer :: bool
  isb_initialized :: bool

definition isb_constructed :: "cf \<Rightarrow> u8 \<Rightarrow> bool \<Rightarrow> (nat \<Rightarrow> bool) \<Rightarrow> shortcut_button" where
  "isb_constructed source port serverEnabled accepts =
     \<lparr>clock_ms = 0, bus_accepts = accepts, bus_calls = 0, bus_sent = [], isobusShortcutButtonList = [],
      isb_sourceControlFunction = source, isb_port = port, isb_events = [], isb_sendFlag = False,
      switchStateTimestamp_ms = 0, transitionNumber = 0, commandedState = StopStateNotAvailable,
      actAsISBServer = serverEnabled, isb_initialized = False\<rparr>"

definition isb_initialize :: "shortcut_button \<Rightarrow> shortcut_button" where
  "isb_initialize s = s\<lparr>isb_initialized := True\<rparr>"

definition set_stop_all_implement_operations_state :: "StopState \<Rightarrow> shortcut_button \<Rightarrow> shortcut_button" where
  "set_stop_all_implement_operations_state newState s =
     (if actAsISBServer s \<and> newState \<noteq> commandedState s
      then s\<lparr>commandedState := newState, isb_sendFlag := True\<rparr> else s)"

definition get_stop_state :: "shortcut_button \<Rightarrow> StopState" where
  "get_stop_state s =
     (if commandedState s = StopImplementOperations then commandedState s
      else case find (\<lambda>isb. isb_commandedState isb = StopImplementOperations) (isobusShortcutButtonList s) of
             Some isb \<Rightarrow> isb_commandedState isb
           | None \<Rightarrow> PermitAllImplementsToOperationOn)"

definition send_switch_state :: "shortcut_button \<Rightarrow> bool \<times> shortcut_button" where
  "send_switch_state s =
     bus_send \<lparr>sent_pgn = PGN_AllImplementsStop,
       sent_data = [0xFF, 0xFF, 0xFF, 0xFF, 0xFF, 0xFF, transitionNumber s, 0xFC OR stop_code (commandedState s)],
       sent_source = Some (isb_sourceControlFunction s), sent_destination = None, sent_priority = Priority3\<rparr> s"

definition isb_process_flags :: "shortcut_button \<Rightarrow> shortcut_button" where
  \<comment> \<open>\<open>process_all_flags\<close>: the flag is cleared, the message sent, and the flag set again when that fails\<close>
  "isb_process_flags s =
     (if isb_sendFlag s
      then let (ok, s1) = send_switch_state (s\<lparr>isb_sendFlag := False\<rparr>)
           in if ok then s1\<lparr>transitionNumber := transitionNumber s1 + 1\<rparr> else s1\<lparr>isb_sendFlag := True\<rparr>
      else s)"

definition isb_update :: "shortcut_button \<Rightarrow> shortcut_button" where
  \<comment> \<open>nothing sets the time stamp that is tested here\<close>
  "isb_update s =
     isb_process_flags
       (if expired (switchStateTimestamp_ms s) TRANSMISSION_RATE_MS s
        then s\<lparr>isobusShortcutButtonList := filter (\<lambda>isb. \<not> expired (messageReceivedTimestamp_ms isb) TRANSMISSION_TIMEOUT_MS s)
                 (isobusShortcutButtonList s),
               isb_sendFlag := True\<rparr>
        else s)"

definition missed_transition :: "u8 \<Rightarrow> u8 \<Rightarrow> bool" where
  "missed_transition old new \<longleftrightarrow> (old = 255 \<and> new \<noteq> 0) \<or> (old < 255 \<and> unat new > unat old + 1)"

definition isb_heard :: "u8 \<Rightarrow> u8 \<Rightarrow> u32 \<Rightarrow> ISBServerData \<Rightarrow> ISBServerData" where
  "isb_heard newTransitionCount status now isb =
     isb\<lparr>isb_commandedState := (if missed_transition (isb_transitionNumber isb) newTransitionCount then StopImplementOperations
                                else stop_of_code status),
         messageReceivedTimestamp_ms := now, isb_transitionNumber := newTransitionCount\<rparr>"

fun heard_first :: "NAME \<Rightarrow> (ISBServerData \<Rightarrow> ISBServerData) \<Rightarrow> ISBServerData list \<Rightarrow> ISBServerData list" where
  "heard_first n f [] = []"
| "heard_first n f (isb # isbs) = (if ISONAME isb = n then f isb # isbs else isb # heard_first n f isbs)"

definition process_switch_state :: "cf_store \<Rightarrow> CANMessage \<Rightarrow> shortcut_button \<Rightarrow> shortcut_button option" where
  \<comment> \<open>a new server starts with transition number 0 (its state is not initialised, and not read before it is set);
    \<open>None\<close>: the source is null\<close>
  "process_switch_state cfs m s =
     (if msg_port m = isb_port s \<and> get_parameter_group_number (msg_identifier m) = PGN_AllImplementsStop
         \<and> get_data_length m = 8
      then do {
        source \<leftarrow> msg_source m;
        newTransitionCount \<leftarrow> get_uint8_at 6 m;
        status \<leftarrow> get_uint8_at 7 m;
        let name = controlFunctionNAME (cfs source);
            previousState = get_stop_state s;
            isbs = (if find (\<lambda>isb. ISONAME isb = name) (isobusShortcutButtonList s) = None
                    then isobusShortcutButtonList s @
                      [\<lparr>ISONAME = name, isb_commandedState = StopStateNotAvailable, messageReceivedTimestamp_ms = 0, isb_transitionNumber = 0\<rparr>]
                    else isobusShortcutButtonList s);
            s1 = s\<lparr>isobusShortcutButtonList := heard_first name (isb_heard newTransitionCount status (clock_ms s)) isbs\<rparr>;
            newState = get_stop_state s1 in
        Some (if previousState \<noteq> newState then s1\<lparr>isb_events := isb_events s1 @ [newState]\<rparr> else s1)}
      else Some s)"

section \<open>Stopping\<close>

theorem stopped_iff:
  "get_stop_state s = StopImplementOperations \<longleftrightarrow> commandedState s = StopImplementOperations
     \<or> (\<exists>isb \<in> set (isobusShortcutButtonList s). isb_commandedState isb = StopImplementOperations)"
  by (auto simp: get_stop_state_def find_None_iff find_Some_iff split: option.split)

lemma stop_state_cases: "get_stop_state s = StopImplementOperations \<or> get_stop_state s = PermitAllImplementsToOperationOn"
  by (auto simp: get_stop_state_def find_Some_iff split: option.split)

definition switch_frame :: "cf \<Rightarrow> u8 \<Rightarrow> u8 \<Rightarrow> shortcut_button \<Rightarrow> CANMessage \<Rightarrow> bool" where
  "switch_frame source count status s m \<longleftrightarrow> msg_port m = isb_port s
     \<and> get_parameter_group_number (msg_identifier m) = PGN_AllImplementsStop \<and> msg_source m = Some source
     \<and> length (msg_data m) = 8 \<and> msg_data m ! 6 = count \<and> msg_data m ! 7 = status"

lemma find_append_new:
  "find P xs = None \<Longrightarrow> P y \<Longrightarrow> heard_first n f (xs @ [y]) = xs @ [f y]"
  if "\<And>x. P x \<longleftrightarrow> ISONAME x = n"
  using that by (induction xs) (auto split: if_split_asm)

lemma switch_frame_received:
  assumes "switch_frame source count status s m" "n = controlFunctionNAME (cfs source)"
  shows "\<exists>s'. process_switch_state cfs m s = Some s'
     \<and> isobusShortcutButtonList s' = heard_first n (isb_heard count status (clock_ms s))
          (if find (\<lambda>isb. ISONAME isb = n) (isobusShortcutButtonList s) = None
           then isobusShortcutButtonList s @ [\<lparr>ISONAME = n, isb_commandedState = StopStateNotAvailable, messageReceivedTimestamp_ms = 0, isb_transitionNumber = 0\<rparr>]
           else isobusShortcutButtonList s)
     \<and> commandedState s' = commandedState s
     \<and> isb_events s' = isb_events s @ (if get_stop_state s \<noteq> get_stop_state s' then [get_stop_state s'] else [])"
proof -
  have "get_uint8_at 6 m = Some count" "get_uint8_at 7 m = Some status" "get_data_length m = 8"
    using assms by (simp_all add: switch_frame_def get_uint8_at_def checked_nth_def get_data_length_def)
  then show ?thesis using assms
    by (auto simp: process_switch_state_def switch_frame_def Let_def get_stop_state_def)
qed

text \<open>
  C29: The first message of a server that is not known stops all implement operations whenever its transition number is
  above 1, even if the state it carries permits them: the number is compared with 0.
\<close>

theorem unknown_button_stops:
  assumes "switch_frame source count status s m" "1 < count"
    "\<forall>isb \<in> set (isobusShortcutButtonList s). ISONAME isb \<noteq> controlFunctionNAME (cfs source)"
  shows "\<exists>s'. process_switch_state cfs m s = Some s' \<and> get_stop_state s' = StopImplementOperations"
proof -
  let ?n = "controlFunctionNAME (cfs source)"
  have f: "find (\<lambda>isb. ISONAME isb = ?n) (isobusShortcutButtonList s) = None" using assms(3) by (simp add: find_None_iff)
  have "missed_transition 0 count" using assms(2) by (simp add: missed_transition_def word_less_nat_alt)
  then have st: "isb_commandedState (isb_heard count status t isb) = StopImplementOperations" if "isb_transitionNumber isb = 0" for t isb
    using that by (simp add: isb_heard_def)
  obtain s' where s': "process_switch_state cfs m s = Some s'"
    "isobusShortcutButtonList s' = isobusShortcutButtonList s @ [isb_heard count status (clock_ms s)
       \<lparr>ISONAME = ?n, isb_commandedState = StopStateNotAvailable, messageReceivedTimestamp_ms = 0, isb_transitionNumber = 0\<rparr>]"
    using switch_frame_received [OF assms(1) refl, of cfs] find_append_new [OF refl f] f by auto
  then have "get_stop_state s' = StopImplementOperations" unfolding stopped_iff using st by auto
  with s'(1) show ?thesis by blast
qed

theorem stop_forgotten_silently:
  assumes "commandedState s \<noteq> StopImplementOperations" "1000 \<le> clock_ms s" "switchStateTimestamp_ms s = 0"
    "\<forall>isb \<in> set (isobusShortcutButtonList s). 3000 \<le> clock_ms s - messageReceivedTimestamp_ms isb"
  shows "get_stop_state (isb_update s) = PermitAllImplementsToOperationOn \<and> isb_events (isb_update s) = isb_events s"
proof -
  have "filter (\<lambda>isb. \<not> expired (messageReceivedTimestamp_ms isb) TRANSMISSION_TIMEOUT_MS s) (isobusShortcutButtonList s) = []"
    using assms(4) by (simp add: filter_empty_conv expired_def)
  then show ?thesis
    using assms(1-3) by (simp add: isb_update_def expired_def isb_process_flags_def send_switch_state_def bus_send_def get_stop_state_def)
qed

text \<open>Once a second has passed since the start, every update sends, also of an interface that is no server.\<close>

lemma switch_update_sends:
  assumes "1000 \<le> t" "switchStateTimestamp_ms s = 0" "\<forall>n. bus_accepts s n"
  shows "length (bus_sent (isb_update (s\<lparr>clock_ms := t\<rparr>))) = Suc (length (bus_sent s))
     \<and> transitionNumber (isb_update (s\<lparr>clock_ms := t\<rparr>)) = transitionNumber s + 1
     \<and> commandedState (isb_update (s\<lparr>clock_ms := t\<rparr>)) = commandedState s
     \<and> switchStateTimestamp_ms (isb_update (s\<lparr>clock_ms := t\<rparr>)) = 0 \<and> bus_accepts (isb_update (s\<lparr>clock_ms := t\<rparr>)) = bus_accepts s"
  using assms by (simp add: isb_update_def expired_def isb_process_flags_def send_switch_state_def bus_send_def)

text \<open>
  C34: From one second after the start on, every update sends a switch state message and counts a transition, at whatever
  times the updates happen, whether or not the interface is a server and without a change of the state.
\<close>

theorem every_update_sends:
  assumes "\<forall>t \<in> set ts. 1000 \<le> t" "switchStateTimestamp_ms s = 0" "\<forall>n. bus_accepts s n"
  shows "length (bus_sent (fold (\<lambda>t s. isb_update (s\<lparr>clock_ms := t\<rparr>)) ts s)) = length (bus_sent s) + length ts
     \<and> transitionNumber (fold (\<lambda>t s. isb_update (s\<lparr>clock_ms := t\<rparr>)) ts s) = transitionNumber s + of_nat (length ts)
     \<and> commandedState (fold (\<lambda>t s. isb_update (s\<lparr>clock_ms := t\<rparr>)) ts s) = commandedState s"
  using assms
proof (induction ts arbitrary: s)
  case (Cons t ts)
  note u = switch_update_sends [of t s]
  have "length (bus_sent (fold (\<lambda>t s. isb_update (s\<lparr>clock_ms := t\<rparr>)) ts (isb_update (s\<lparr>clock_ms := t\<rparr>)))) = length (bus_sent (isb_update (s\<lparr>clock_ms := t\<rparr>))) + length ts
     \<and> transitionNumber (fold (\<lambda>t s. isb_update (s\<lparr>clock_ms := t\<rparr>)) ts (isb_update (s\<lparr>clock_ms := t\<rparr>))) = transitionNumber (isb_update (s\<lparr>clock_ms := t\<rparr>)) + of_nat (length ts)
     \<and> commandedState (fold (\<lambda>t s. isb_update (s\<lparr>clock_ms := t\<rparr>)) ts (isb_update (s\<lparr>clock_ms := t\<rparr>))) = commandedState (isb_update (s\<lparr>clock_ms := t\<rparr>))"
    using u Cons.prems by (intro Cons.IH) simp_all
  with u Cons.prems show ?case by simp
qed simp

section \<open>A concrete button\<close>

definition demo_interface :: shortcut_button where
  "demo_interface = (isb_constructed 1 0 False (\<lambda>_. True))\<lparr>clock_ms := 5000\<rparr>"

definition demo_switch :: CANMessage where
  "demo_switch = \<lparr>messageType = Receive, msg_identifier = \<lparr>m_RawIdentifier = 0x8CFD0226\<rparr>,
     msg_data = [0xFF, 0xFF, 0xFF, 0xFF, 0xFF, 0xFF, 7, 0xFD],
     msg_source = Some 2, msg_destination = None, msg_port = 0, timestamp_us = 0\<rparr>"

lemma demo_switch_frame: "switch_frame 2 7 0xFD demo_interface demo_switch"
  by (simp add: switch_frame_def demo_switch_def demo_interface_def isb_constructed_def get_parameter_group_number_def get_identifier_type_def)

text \<open>Witness of C29: transition number 7 with the state permitted.\<close>

theorem unknown_button_stops_witness:
  "\<forall>cfs. \<exists>s'. process_switch_state cfs demo_switch demo_interface = Some s' \<and> get_stop_state s' = StopImplementOperations"
  by (intro allI unknown_button_stops [OF demo_switch_frame]) (simp_all add: demo_interface_def isb_constructed_def)

text \<open>Witness of C34: three updates within three milliseconds of an interface that is no server.\<close>

theorem every_update_sends_witness:
  "length (bus_sent (fold (\<lambda>t s. isb_update (s\<lparr>clock_ms := t\<rparr>)) [5000, 5001, 5002] demo_interface)) = 3"
  using every_update_sends [of "[5000, 5001, 5002]" demo_interface] by (simp add: demo_interface_def isb_constructed_def)

end
