(* ===== verification/Language_Command.thy ===== *)
theory Language_Command
  imports Pgn_Requests
begin

text \<open>
  The language command interface, \<open>src/isobus/src/isobus_language_command_interface.cpp\<close>: the settings of
  language, formats and units, the command that carries them, and requests for it. The plain setters and getters of
  single settings are updates of the record. \<open>None\<close> is a null pointer or a read past the end of a message.
\<close>

section \<open>The settings\<close>

abbreviation PGN_LanguageCommand :: u32 where "PGN_LanguageCommand \<equiv> 0xFE0F"

datatype DecimalSymbols = Comma | Point | DecimalReserved | DecimalNoAction

datatype TimeFormats = TwentyFourHour | TwelveHourAmPm | TimeReserved | TimeNoAction

text \<open>The units of distance, area, temperature, pressure and force are five enumerations with the same
  enumerators, and so are those of volume, mass and the generic system. A \<open>DateFormats\<close> is any byte: the
  byte of a message is cast to it as it is.\<close>

datatype imperial_us_units = Metric | ImperialUS | UnitsReserved | UnitsNoAction

datatype regional_units = RegionalMetric | Imperial | US | RegionalNoAction

fun decimal_symbol_code :: "DecimalSymbols \<Rightarrow> u8" where
  "decimal_symbol_code Comma = 0" | "decimal_symbol_code Point = 1"
| "decimal_symbol_code DecimalReserved = 2" | "decimal_symbol_code DecimalNoAction = 3"

fun time_format_code :: "TimeFormats \<Rightarrow> u8" where
  "time_format_code TwentyFourHour = 0" | "time_format_code TwelveHourAmPm = 1"
| "time_format_code TimeReserved = 2" | "time_format_code TimeNoAction = 3"

fun units_code :: "imperial_us_units \<Rightarrow> u8" where
  "units_code Metric = 0" | "units_code ImperialUS = 1" | "units_code UnitsReserved = 2" | "units_code UnitsNoAction = 3"

fun regional_code :: "regional_units \<Rightarrow> u8" where
  "regional_code RegionalMetric = 0" | "regional_code Imperial = 1" | "regional_code US = 2" | "regional_code RegionalNoAction = 3"

definition two_bits :: "nat \<Rightarrow> u8 \<Rightarrow> u8" where
  "two_bits n b = drop_bit n b AND 0x03"

definition decimal_symbol_of :: "u8 \<Rightarrow> DecimalSymbols" where
  "decimal_symbol_of c = (if c = 0 then Comma else if c = 1 then Point else if c = 2 then DecimalReserved else DecimalNoAction)"

definition time_format_of :: "u8 \<Rightarrow> TimeFormats" where
  "time_format_of c = (if c = 0 then TwentyFourHour else if c = 1 then TwelveHourAmPm else if c = 2 then TimeReserved else TimeNoAction)"

definition units_of :: "u8 \<Rightarrow> imperial_us_units" where
  "units_of c = (if c = 0 then Metric else if c = 1 then ImperialUS else if c = 2 then UnitsReserved else UnitsNoAction)"

definition regional_of :: "u8 \<Rightarrow> regional_units" where
  "regional_of c = (if c = 0 then RegionalMetric else if c = 1 then Imperial else if c = 2 then US else RegionalNoAction)"

record language_settings =
  countryCode :: "u8 list"
  languageCode :: "u8 list"
  decimalSymbol :: DecimalSymbols
  timeFormat :: TimeFormats
  dateFormat :: u8
  distanceUnitSystem :: imperial_us_units
  areaUnitSystem :: imperial_us_units
  volumeUnitSystem :: regional_units
  massUnitSystem :: regional_units
  temperatureUnitSystem :: imperial_us_units
  pressureUnitSystem :: imperial_us_units
  forceUnitSystem :: imperial_us_units
  genericUnitSystem :: regional_units

record language_interface = bus +
  lc_myControlFunction :: "cf option"
  lc_myPartner :: "cf option"
  lc_settings :: language_settings
  languageCommandTimestamp_ms :: u32
  lc_initialized :: bool
  respondToRequests :: bool
  lc_registered :: "u32 list" \<comment> \<open>the groups whose requests it registered for\<close>

definition language_constructed :: "cf option \<Rightarrow> cf option \<Rightarrow> bool \<Rightarrow> u32 \<Rightarrow> (nat \<Rightarrow> bool) \<Rightarrow> language_interface" where
  \<comment> \<open>both constructors: the one with a partner does not respond to requests\<close>
  "language_constructed source partner respond now accepts =
     \<lparr>clock_ms = now, bus_accepts = accepts, bus_calls = 0, bus_sent = [], lc_myControlFunction = source, lc_myPartner = partner,
      lc_settings = \<lparr>countryCode = [], languageCode = [], decimalSymbol = Point, timeFormat = TwelveHourAmPm, dateFormat = 3,
        distanceUnitSystem = Metric, areaUnitSystem = Metric, volumeUnitSystem = RegionalMetric, massUnitSystem = RegionalMetric,
        temperatureUnitSystem = Metric, pressureUnitSystem = Metric, forceUnitSystem = Metric, genericUnitSystem = RegionalMetric\<rparr>,
      languageCommandTimestamp_ms = 0, lc_initialized = False, respondToRequests = respond \<and> partner = None, lc_registered = []\<rparr>"

definition language_initialize :: "bool \<Rightarrow> language_interface \<Rightarrow> language_interface" where
  \<comment> \<open>\<open>noProtocol\<close>: the control function has no request protocol\<close>
  "language_initialize noProtocol l =
     (if \<not> lc_initialized l \<and> lc_myControlFunction l \<noteq> None
      then l\<lparr>lc_registered := lc_registered l @ (if respondToRequests l \<and> \<not> noProtocol then [PGN_LanguageCommand] else []),
             lc_initialized := True\<rparr>
      else l)"

definition language_set_partner :: "cf option \<Rightarrow> language_interface \<Rightarrow> language_interface" where
  "language_set_partner partner l = l\<lparr>lc_myPartner := partner\<rparr>"

definition send_request_language_command :: "language_interface \<Rightarrow> bool \<times> language_interface" where
  "send_request_language_command l =
     (if lc_initialized l
      then request_parameter_group_number PGN_LanguageCommand (lc_myControlFunction l) (lc_myPartner l) l else (False, l))"

fun pad_to_two :: "u8 list \<Rightarrow> u8 list" where
  \<comment> \<open>the loop that adds blanks\<close>
  "pad_to_two [] = [0x20, 0x20]"
| "pad_to_two [a] = [a, 0x20]"
| "pad_to_two (a # b # xs) = a # b # xs"

definition set_country_code :: "u8 list \<Rightarrow> language_interface \<Rightarrow> language_interface" where
  "set_country_code country l = l\<lparr>lc_settings := (lc_settings l)\<lparr>countryCode := pad_to_two country\<rparr>\<rparr>"

definition set_language_code :: "u8 list \<Rightarrow> language_interface \<Rightarrow> language_interface" where
  "set_language_code language l = l\<lparr>lc_settings := (lc_settings l)\<lparr>languageCode := pad_to_two language\<rparr>\<rparr>"

definition packed :: "u8 \<Rightarrow> u8 \<Rightarrow> u8 \<Rightarrow> u8 \<Rightarrow> u8" where
  "packed a b c d = (((a OR push_bit 2 b) OR push_bit 4 c) OR push_bit 6 d)"

definition format_bytes :: "language_settings \<Rightarrow> u8 list" where
  "format_bytes s =
     [push_bit 4 (time_format_code (timeFormat s)) OR push_bit 6 (decimal_symbol_code (decimalSymbol s)),
      dateFormat s,
      packed (regional_code (massUnitSystem s)) (regional_code (volumeUnitSystem s)) (units_code (areaUnitSystem s))
        (units_code (distanceUnitSystem s)),
      packed (regional_code (genericUnitSystem s)) (units_code (forceUnitSystem s)) (units_code (pressureUnitSystem s))
        (units_code (temperatureUnitSystem s))]"

definition send_language_command :: "language_interface \<Rightarrow> bool \<times> language_interface" where
  "send_language_command l =
     (let s = lc_settings l in
      if length (languageCode s) < 2 \<or> length (countryCode s) < 2 then (False, l)
      else bus_send \<lparr>sent_pgn = PGN_LanguageCommand,
             sent_data = take 2 (languageCode s) @ format_bytes s @ take 2 (countryCode s),
             sent_source = lc_myControlFunction l, sent_destination = None, sent_priority = PriorityDefault6\<rparr> l)"

definition get_localization_raw_data :: "language_interface \<Rightarrow> u8 list" where
  "get_localization_raw_data l =
     (let s = lc_settings l in
      (if 2 \<le> length (languageCode s) then take 2 (languageCode s) else [0x20, 0x20]) @ format_bytes s @ [0xFF])"

definition settings_of :: "u8 list \<Rightarrow> language_settings option" where
  \<comment> \<open>the assignments of \<open>process_rx_message\<close>; \<open>at\<close> throws past the end\<close>
  "settings_of data = do {
     d0 \<leftarrow> checked_nth data 0;
     d1 \<leftarrow> checked_nth data 1;
     d2 \<leftarrow> checked_nth data 2;
     d3 \<leftarrow> checked_nth data 3;
     d4 \<leftarrow> checked_nth data 4;
     d5 \<leftarrow> checked_nth data 5;
     d6 \<leftarrow> checked_nth data 6;
     d7 \<leftarrow> checked_nth data 7;
     Some \<lparr>countryCode = (if d6 \<noteq> 0xFF \<or> d7 \<noteq> 0xFF then [d6, d7] else []),
           languageCode = [d0, d1],
           decimalSymbol = decimal_symbol_of (two_bits 6 d2), timeFormat = time_format_of (two_bits 4 d2), dateFormat = d3,
           distanceUnitSystem = units_of (two_bits 6 d4), areaUnitSystem = units_of (two_bits 4 d4),
           volumeUnitSystem = regional_of (two_bits 2 d4), massUnitSystem = regional_of (two_bits 0 d4),
           temperatureUnitSystem = units_of (two_bits 6 d5), pressureUnitSystem = units_of (two_bits 4 d5),
           forceUnitSystem = units_of (two_bits 2 d5), genericUnitSystem = regional_of (two_bits 0 d5)\<rparr>}"

definition process_language_command :: "cf_store \<Rightarrow> CANMessage \<Rightarrow> language_interface \<Rightarrow> language_interface option" where
  "process_language_command cfs m l =
     (if 8 \<le> get_data_length m \<and> get_parameter_group_number (msg_identifier m) = PGN_LanguageCommand
      then do {
        mine \<leftarrow> (case lc_myPartner l of
           None \<Rightarrow> Some True
         | Some p \<Rightarrow> map_option (\<lambda>source. controlFunctionNAME (cfs source) = controlFunctionNAME (cfs p)) (msg_source m));
        if mine then do {
          s \<leftarrow> settings_of (msg_data m);
          Some (l\<lparr>languageCommandTimestamp_ms := clock_ms l, lc_settings := s\<rparr>)}
        else Some l}
      else Some l)"

definition on_language_request :: "u32 \<Rightarrow> bool \<times> AcknowledgementType \<Rightarrow> language_interface \<Rightarrow>
    bool \<times> (bool \<times> AcknowledgementType) \<times> language_interface" where
  "on_language_request pgn vars l =
     (if pgn = PGN_LanguageCommand then (True, (False, Positive), snd (send_language_command l)) else (False, vars, l))"

section \<open>Sender and receiver\<close>

lemma two_bits_packed:
  assumes "a \<in> {0, 1, 2, 3}" "b \<in> {0, 1, 2, 3}" "c \<in> {0, 1, 2, 3}" "d \<in> {0, 1, 2, 3}"
  shows "two_bits 0 (packed a b c d) = a \<and> two_bits 2 (packed a b c d) = b \<and> two_bits 4 (packed a b c d) = c
     \<and> two_bits 6 (packed a b c d) = d"
  using assms by (elim insertE emptyE; simp add: two_bits_def packed_def)

lemma format_packed: "push_bit 4 a OR push_bit 6 b = packed 0 0 a b"
  by (simp add: packed_def)

lemma codes_small [simp]:
  "decimal_symbol_code x \<in> {0, 1, 2, 3}" "time_format_code y \<in> {0, 1, 2, 3}"
  "units_code u \<in> {0, 1, 2, 3}" "regional_code v \<in> {0, 1, 2, 3}"
proof -
  show "decimal_symbol_code x \<in> {0, 1, 2, 3}" by (cases x) simp_all
  show "time_format_code y \<in> {0, 1, 2, 3}" by (cases y) simp_all
  show "units_code u \<in> {0, 1, 2, 3}" by (cases u) simp_all
  show "regional_code v \<in> {0, 1, 2, 3}" by (cases v) simp_all
qed

lemma codes_back [simp]:
  "decimal_symbol_of (decimal_symbol_code x) = x" "time_format_of (time_format_code y) = y"
  "units_of (units_code u) = u" "regional_of (regional_code v) = v"
proof -
  show "decimal_symbol_of (decimal_symbol_code x) = x" by (cases x) (simp_all add: decimal_symbol_of_def)
  show "time_format_of (time_format_code y) = y" by (cases y) (simp_all add: time_format_of_def)
  show "units_of (units_code u) = u" by (cases u) (simp_all add: units_of_def)
  show "regional_of (regional_code v) = v" by (cases v) (simp_all add: regional_of_def)
qed

text \<open>What comes back of the settings: the codes cut to two characters, and no country for two bytes 0xFF.\<close>

definition as_received :: "language_settings \<Rightarrow> language_settings" where
  "as_received s = s\<lparr>languageCode := take 2 (languageCode s),
     countryCode := (if take 2 (countryCode s) = [0xFF, 0xFF] then [] else take 2 (countryCode s))\<rparr>"

lemma settings_read_back:
  assumes "2 \<le> length (languageCode s)" "2 \<le> length (countryCode s)"
  shows "settings_of (take 2 (languageCode s) @ format_bytes s @ take 2 (countryCode s)) = Some (as_received s)"
proof -
  obtain a b ls where l: "languageCode s = a # b # ls" using assms(1) by (metis Suc_le_length_iff numeral_2_eq_2)
  obtain c d cs where c: "countryCode s = c # d # cs" using assms(2) by (metis Suc_le_length_iff numeral_2_eq_2)
  note p = two_bits_packed [OF codes_small(4,4,3,3)] two_bits_packed [OF codes_small(4,3,3,3)]
    two_bits_packed [of 0 0, OF _ _ codes_small(2,1)]
  show ?thesis
    using l c by (cases s) (simp add: settings_of_def format_bytes_def checked_nth_def format_packed p as_received_def)
qed

text \<open>
  C24: A language command that was sent is received with every setting the sender has: its language, its formats and its
  units. Of the two codes the first two characters arrive, and no country at all for two bytes 0xFF.
\<close>

theorem language_command_received:
  assumes "send_language_command l = (True, l')" "msg_data m = sent_data (last (bus_sent l'))"
    "get_parameter_group_number (msg_identifier m) = sent_pgn (last (bus_sent l'))" "msg_source m = lc_myControlFunction l"
    "lc_myPartner r = None \<or> lc_myPartner r = lc_myControlFunction l"
  shows "process_language_command cfs m r
     = Some (r\<lparr>languageCommandTimestamp_ms := clock_ms r, lc_settings := as_received (lc_settings l)\<rparr>)"
proof -
  let ?s = "lc_settings l"
  have n: "2 \<le> length (languageCode ?s)" "2 \<le> length (countryCode ?s)"
    using assms(1) by (auto simp: send_language_command_def Let_def split: if_split_asm)
  then have "bus_sent l' = bus_sent l @ [\<lparr>sent_pgn = PGN_LanguageCommand,
             sent_data = take 2 (languageCode ?s) @ format_bytes ?s @ take 2 (countryCode ?s),
             sent_source = lc_myControlFunction l, sent_destination = None, sent_priority = PriorityDefault6\<rparr>]"
    using assms(1) by (auto simp: send_language_command_def Let_def bus_send_def split: if_split_asm)
  then have m: "msg_data m = take 2 (languageCode ?s) @ format_bytes ?s @ take 2 (countryCode ?s)"
    "get_parameter_group_number (msg_identifier m) = PGN_LanguageCommand"
    using assms(2,3) by simp_all
  then have "get_data_length m = 8" using n by (simp add: get_data_length_def format_bytes_def)
  then show ?thesis
    using m assms(4,5) settings_read_back [OF n] by (auto simp: process_language_command_def split: option.split)
qed

text \<open>The raw data is what the command carries, but for the last byte.\<close>

lemma raw_data_of_command:
  assumes "send_language_command l = (True, l')"
  shows "get_localization_raw_data l = take 6 (sent_data (last (bus_sent l'))) @ [0xFF]"
proof -
  have n: "2 \<le> length (languageCode (lc_settings l))" "2 \<le> length (countryCode (lc_settings l))"
    using assms by (auto simp: send_language_command_def Let_def split: if_split_asm)
  then obtain a b ls where "languageCode (lc_settings l) = a # b # ls" by (metis Suc_le_length_iff numeral_2_eq_2)
  then show ?thesis using assms n
    by (auto simp: send_language_command_def Let_def bus_send_def get_localization_raw_data_def format_bytes_def numeral_eq_Suc split: if_split_asm)
qed

text \<open>A request is taken even when no command can be sent, and then gets no answer at all.\<close>

lemma unset_language_not_answered:
  assumes "languageCode (lc_settings l) = [] \<or> countryCode (lc_settings l) = []"
  shows "on_language_request PGN_LanguageCommand vars l = (True, (False, Positive), l)"
  using assms by (auto simp: on_language_request_def send_language_command_def)

section \<open>A concrete sender\<close>

definition demo_language :: language_interface where
  "demo_language = set_language_code [0x65, 0x6E] (set_country_code [0x4E, 0x4C]
     (language_initialize False (language_constructed (Some 1) None True 0 (\<lambda>_. True))))"

definition demo_language_message :: CANMessage where
  "demo_language_message = \<lparr>messageType = Receive, msg_identifier = \<lparr>m_RawIdentifier = 0x98FE0F26\<rparr>,
     msg_data = sent_data (last (bus_sent (snd (send_language_command demo_language)))),
     msg_source = Some 1, msg_destination = None, msg_port = 0, timestamp_us = 0\<rparr>"

lemma demo_language_sent: "send_language_command demo_language = (True, snd (send_language_command demo_language))"
  by (simp add: demo_language_def set_language_code_def set_country_code_def language_initialize_def language_constructed_def
      send_language_command_def bus_send_def Let_def)

text \<open>Witness of C24: English and the Netherlands, with a partner.\<close>

theorem language_command_received_witness:
  "\<forall>cfs. process_language_command cfs demo_language_message (language_constructed (Some 2) (Some 1) False 9 (\<lambda>_. True))
     = Some ((language_constructed (Some 2) (Some 1) False 9 (\<lambda>_. True))
         \<lparr>languageCommandTimestamp_ms := 9, lc_settings := as_received (lc_settings demo_language)\<rparr>)"
proof
  fix cfs
  have g: "get_parameter_group_number (msg_identifier demo_language_message)
      = sent_pgn (last (bus_sent (snd (send_language_command demo_language))))"
    by (simp add: demo_language_message_def demo_language_def set_language_code_def set_country_code_def language_initialize_def
        language_constructed_def send_language_command_def bus_send_def Let_def get_parameter_group_number_def get_identifier_type_def)
  have s: "lc_myControlFunction demo_language = Some 1"
    by (simp add: demo_language_def set_language_code_def set_country_code_def language_initialize_def language_constructed_def)
  show "process_language_command cfs demo_language_message (language_constructed (Some 2) (Some 1) False 9 (\<lambda>_. True))
     = Some ((language_constructed (Some 2) (Some 1) False 9 (\<lambda>_. True))
         \<lparr>languageCommandTimestamp_ms := 9, lc_settings := as_received (lc_settings demo_language)\<rparr>)"
    using language_command_received [OF demo_language_sent _ g, of "language_constructed (Some 2) (Some 1) False 9 (\<lambda>_. True)" cfs]
    by (simp add: demo_language_message_def s) (simp add: language_constructed_def)
qed

end
