(* ===== verification/Spec2Isabelle.thy ===== *)
theory Spec2Isabelle
  imports App_Safety Transport_Transfer Extended_Transfer Fast_Packet_Transfer Address_Contention Vt_Promises Ddop_Promises
    Heartbeats Shortcut_Button Language_Command
begin

text \<open>
  Verification library for ISO1200pt: the planter controller \<open>src/examples/1200PT\<close> and the core
  of the CAN and ISOBUS stack it is built on (\<open>src/isobus\<close>).

  \<^bold>\<open>The program.\<close> The application reads a virtual terminal (softkeys and buttons), two sensors and a
  clock, and drives two output boards (MCP23017 port expanders on an I2C bus) with the solenoids
  of the fold sequence and of the plant functions, a fan and a vacuum fan. The stack below it
  turns CAN frames into messages, claims addresses, and carries long messages in sessions of the
  transport protocols.

  \<^bold>\<open>Theories of the application.\<close>
  \<^item> \<open>Output_Board\<close>: \<open>mcp23017_output.cpp\<close> and \<open>mcp23017_output_safety.h\<close>: register writes, the
    lock, the record of write failures. The ESP-IDF answers are supplied by the environment; every
    write is logged with its outcome, so that the lemmas speak of the latches the boards hold.
  \<^item> \<open>Fold_Sequence\<close>: \<open>fold_sequence.cpp\<close>: the step tables, activation, stepping, bring-up.
  \<^item> \<open>Plant_Control\<close>: \<open>plant_control.cpp\<close>: the modes and their solenoid tables.
  \<^item> \<open>Fan_Vac\<close>: \<open>fan_vac_control.cpp\<close>: the PID controllers with rounding to single precision, the
    fault state machine, targets and duties.
  \<^item> \<open>Ui_State\<close>, \<open>Calibration\<close>: the header-only models of buttons, markers, lockout and settings.
  \<^item> \<open>App_Main\<close>: \<open>main.cpp\<close>: event handlers and the main loop on one record.
  \<^item> \<open>App_Safety\<close>: what every reachable state of the application satisfies.

  \<^bold>\<open>Theories of the stack.\<close>
  \<^item> \<open>Can_Identifier\<close>, \<open>Can_Name\<close>, \<open>Can_Message\<close>: identifiers, NAMEs and filters, messages and
    their accessors, message data, frames.
  \<^item> \<open>Can_Network\<close>: the network configuration and the session base class of the transport
    protocols, with the interfaces \<open>frame_service\<close> (what a burst of frames relies on) and
    \<open>total_manager\<close> (an event-driven manager whose runs are defined and keep its invariant).
  \<^item> \<open>Transport_Protocol\<close>, \<open>Transport_Transfer\<close>: \<open>can_transport_protocol.cpp\<close> and what it achieves.
  \<^item> \<open>Extended_Transport\<close>, \<open>Extended_Transfer\<close>: \<open>can_extended_transport_protocol.cpp\<close>, and two
    managers that transfer a message between them.
  \<^item> \<open>Fast_Packet\<close>, \<open>Fast_Packet_Transfer\<close>: \<open>nmea2000_fast_packet_protocol.cpp\<close> and what it achieves.
  \<^item> \<open>Address_Claiming\<close>: \<open>can_internal_control_function.cpp\<close> and the frame constructor: the state
    machine that claims, reclaims and defends an address.
  \<^item> \<open>Network_Manager\<close>: \<open>can_network_manager.cpp\<close> as far as it concerns control functions: the address
    table, received claims, partners, the queue, the periodic update.
  \<^item> \<open>Address_Table\<close>, \<open>Address_Contention\<close>: the abstract table that the concrete one implements (with
    the interface \<open>follower\<close>), and two managers that contend for an address.

  \<^bold>\<open>Theories of the virtual terminal client.\<close>
  \<^item> \<open>Floating_Point\<close>: IEEE single-precision rounding on rationals, for the scaling of pools.
  \<^item> \<open>Vt_Commands\<close>, \<open>Vt_Scaling\<close>, \<open>Vt_Client\<close>: \<open>isobus_virtual_terminal_client.cpp\<close>: the state of the
    client, the commands and their queue; the scaling of object pools; the connection state
    machine, the received messages and their events, the upload of pools.
  \<^item> \<open>Vt_Queue\<close>: the queue as an association list, and one pass over it.
  \<^item> \<open>Vt_Runs\<close>, \<open>Vt_Flow\<close>: every operation is defined and keeps the invariant \<open>vt_ok\<close>, and so is every
    run of them, for any application that satisfies the interface \<open>vt_application\<close>.
  \<^item> \<open>Vt_Connect\<close>: the handshake with a display, step by step.
  \<^item> \<open>Vt_Tracker\<close>: \<open>isobus_virtual_terminal_client_state_tracker.cpp\<close> and
    \<open>isobus_virtual_terminal_client_update_helper.cpp\<close>.
  \<^item> \<open>Planter_Display\<close>: the planter behind the client: its commands as calls of the client, its
    listeners as an instance of \<open>vt_application\<close>.
  \<^item> \<open>Vt_Dispatch\<close>: the tables of callbacks of \<open>can_network_manager.cpp\<close> and
    \<open>can_partnered_control_function.cpp\<close>, the order in which a received message reaches them, and what the
    tracker and the client register.
  \<^item> \<open>Vt_Promises\<close>: what follows from all this, with concrete runs.

  \<^bold>\<open>Theories of the device descriptor object pool.\<close>
  \<^item> \<open>Ddop\<close>: \<open>isobus_task_controller_client_objects.cpp\<close> and
    \<open>isobus_device_descriptor_object_pool.cpp\<close>: the objects, the operations that build a pool, its binary
    form, the reader and the ISO XML description.
  \<^item> \<open>Ddop_Reading\<close>: what every operation keeps of a pool (\<open>ddop_ok\<close>), where the reader reads, what
    the binary form of each object reads back to, the references as a relation (\<open>references_ok\<close>).
  \<^item> \<open>Ddop_Geometry\<close>: \<open>isobus_device_descriptor_object_pool_helpers.cpp\<close>: booms, sections and rates.
  \<^item> \<open>Ddop_Promises\<close>: the guarantees of the pools that can be built (\<open>ddop_built\<close>), with a concrete one.

  \<^bold>\<open>Theories of the services of the stack.\<close>
  \<^item> \<open>Pgn_Requests\<close>: \<open>can_parameter_group_number_request_protocol.cpp\<close>, and the record \<open>bus\<close> of the
    network that the services below extend.
  \<^item> \<open>Heartbeats\<close>, \<open>Shortcut_Button\<close>, \<open>Language_Command\<close>: \<open>isobus_heartbeat.cpp\<close>,
    \<open>isobus_shortcut_button_interface.cpp\<close>, \<open>isobus_language_command_interface.cpp\<close>, each with what its
    sender and its receiver make of each other.

  \<^bold>\<open>Conventions.\<close> A class or struct is a record, an enumeration a datatype, a machine integer a word
  of its width. An operation takes and returns the state. Objects that are shared by pointer
  (control functions, sessions) live in a store under their identity. The result \<open>None\<close> is
  undefined behaviour, an exception (a read past the end of a message, a write outside a
  buffer or a table) or a loop that does not end; the theorems that an operation or a run is \<open>Some\<close> are the proofs that this
  cannot happen, and the theorems that it is \<open>None\<close> exhibit where it does. Time is a counter of
  32 bits that wraps, as in the code. Loops of the code are recursion over the list or the
  counter they run over, so that every definition terminates (the two loops that may not end, in the
  scaling of pools, are partial functions into an option); no fuel is used except for the
  numbers of rounds in statements about two managers, which are given with the statement.

  \<^bold>\<open>Parameters.\<close> Rounding to single precision is an argument of the
  fan operations (\<open>float_round\<close> is the IEEE instance); the I2C and CAN hardware
  are answers supplied by the environment (accepted or refused), the callbacks of the application
  are recorded and taken not to call back into the manager.

  \<^bold>\<open>Not modelled.\<close> Logging, mutexes and threads (operations are atomic here), the set-up code that
  only calls drivers, generated object pool identifiers and binary pools, the language command
  interface inside the virtual terminal client, the virtual terminal server, the task controller
  client and server, hardware drivers, and the parts listed in the manifest as not modelled.
\<close>

end
